(* ===== verification/OS_Prelude.thy ===== *)
theory OS_Prelude
  imports Main "HOL-Library.AList"
begin

text \<open>
  Shared vocabulary of the development: Go pointers, maps and slices, errors returned by the
  Kubernetes API, and the generic lemmas the component theories use.

  \<^item> A Go pointer to a value (\<open>*string\<close>) is an \<open>option\<close>: \<open>None\<close> is \<open>nil\<close>.
  \<^item> A Go map is an association list with distinct keys (\<open>gomap\<close>), so that \<open>len\<close> and
    iteration compute; reading a missing key yields the zero value, as in Go.  Where the code
    tells a \<open>nil\<close> map from an empty one the model wraps it in \<open>option\<close>.
  \<^item> An error value is an \<open>api_error\<close>; the only thing the code asks of an API error is
    \<open>k8s_errors.IsNotFound\<close>, so that is the distinction the type makes.
\<close>

named_theorems gomap_simps \<open>reading, writing and deleting keys of Go maps\<close>
named_theorems img_simps \<open>unfolding of the image comparison functions\<close>
named_theorems stage_simps \<open>one step of a gated sequence of stages\<close>

type_synonym 'a ptr = "'a option"
type_synonym ('k, 'v) gomap = "('k \<times> 'v) list"

subsection \<open>Errors of API calls\<close>

datatype api_error = NotFound string | OtherError string

fun IsNotFound :: "api_error \<Rightarrow> bool" where
  "IsNotFound (NotFound _) = True"
| "IsNotFound (OtherError _) = False"

fun err_msg :: "api_error \<Rightarrow> string" where
  "err_msg (NotFound m) = m"
| "err_msg (OtherError m) = m"

text \<open>\<open>fmt.Errorf\<close> with \<open>%w\<close>: the wrapped error keeps its kind.\<close>

fun wrap_err :: "string \<Rightarrow> api_error \<Rightarrow> api_error" where
  "wrap_err p (NotFound m) = NotFound (p @ m)"
| "wrap_err p (OtherError m) = OtherError (p @ m)"

text \<open>An entry of a \<open>field.ErrorList\<close>: the path of the field and the detail.\<close>

record field_error =
  fe_Field :: string
  fe_Detail :: string

subsection \<open>Numbers as text\<close>

text \<open>\<open>strconv.Itoa\<close> on the indices that occur, which are not negative.\<close>

fun Itoa :: "nat \<Rightarrow> string" where
  "Itoa n = (if n < 10 then [char_of (48 + n)] else Itoa (n div 10) @ [char_of (48 + n mod 10)])"

declare Itoa.simps [simp del]

subsection \<open>Go maps\<close>

definition gomap_wf :: "('k, 'v) gomap \<Rightarrow> bool" where
  "gomap_wf m \<longleftrightarrow> distinct (map fst m)"

text \<open>\<open>m[k]\<close> in a context that takes the zero value of a missing key.\<close>

definition gomap_get :: "'v \<Rightarrow> ('k, 'v) gomap \<Rightarrow> 'k \<Rightarrow> 'v" where
  "gomap_get zero m k = (case map_of m k of None \<Rightarrow> zero | Some v \<Rightarrow> v)"

abbreviation gomap_put :: "'k \<Rightarrow> 'v \<Rightarrow> ('k, 'v) gomap \<Rightarrow> ('k, 'v) gomap" where
  "gomap_put \<equiv> AList.update"

abbreviation gomap_del :: "'k \<Rightarrow> ('k, 'v) gomap \<Rightarrow> ('k, 'v) gomap" where
  "gomap_del \<equiv> AList.delete"

lemma map_of_put [gomap_simps]: "map_of (gomap_put k v m) = (map_of m)(k \<mapsto> v)"
  by (rule update_conv')

lemma map_of_del [gomap_simps]: "map_of (gomap_del k m) = (map_of m)(k := None)"
  by (rule AList.delete_conv')

lemma gomap_get_put [gomap_simps]:
  "gomap_get z (gomap_put k v m) k' = (if k = k' then v else gomap_get z m k')"
  by (simp add: gomap_get_def map_of_put)

lemma gomap_wf_Nil [simp]: "gomap_wf []"
  by (simp add: gomap_wf_def)

lemma gomap_wf_put [simp, intro]: "gomap_wf m \<Longrightarrow> gomap_wf (gomap_put k v m)"
  by (simp add: gomap_wf_def distinct_update)

lemma gomap_wf_del [simp, intro]: "gomap_wf m \<Longrightarrow> gomap_wf (gomap_del k m)"
  by (simp add: gomap_wf_def distinct_delete)

text \<open>\<open>for k, v := range src { dst[k] = v }\<close>.\<close>

definition gomap_copy_into :: "('k, 'v) gomap \<Rightarrow> ('k, 'v) gomap \<Rightarrow> ('k, 'v) gomap" where
  "gomap_copy_into src dst = fold (\<lambda>(k, v) m. gomap_put k v m) src dst"

lemma map_of_fold_put:
  "map_of (fold (\<lambda>(k, v) m. gomap_put k v m) src dst) = map_of dst ++ map_of (rev src)"
  by (induction src arbitrary: dst) (auto simp: gomap_simps)

lemma map_of_rev_distinct: "distinct (map fst xs) \<Longrightarrow> map_of (rev xs) = map_of xs"
proof -
  assume d: "distinct (map fst xs)"
  then have "distinct (map fst (rev xs))" by (simp add: rev_map [symmetric])
  then show ?thesis using d by (metis map_of_inject_set set_rev)
qed

lemma map_of_copy_into [gomap_simps]:
  "gomap_wf src \<Longrightarrow> map_of (gomap_copy_into src dst) = map_of dst ++ map_of src"
  by (simp add: gomap_copy_into_def map_of_fold_put gomap_wf_def map_of_rev_distinct)

lemma gomap_wf_copy_into [simp, intro]: "gomap_wf dst \<Longrightarrow> gomap_wf (gomap_copy_into src dst)"
  unfolding gomap_copy_into_def
  by (induction src arbitrary: dst) auto

subsection \<open>Equality of string pointers\<close>

text \<open>The Go helper \<open>a == nil && b == nil || a != nil && b != nil && *a == *b\<close> occurs twice in the
  program; both are equality of options.\<close>

lemma ptr_eq_cases:
  "(if a = None \<and> b = None then True
    else if a = None \<or> b = None then False
    else the a = the b) \<longleftrightarrow> a = b"
  by (cases a; cases b) auto

subsection \<open>Lists\<close>

lemma list_all_filter_iff: "filter (\<lambda>x. \<not> P x) xs = [] \<longleftrightarrow> list_all P xs"
  by (induction xs) auto

lemma fold_invariant_list:
  assumes "I s" and "\<And>x s. x \<in> set xs \<Longrightarrow> I s \<Longrightarrow> I (f x s)"
  shows "I (fold f xs s)"
  using assms by (induction xs arbitrary: s) auto

end
