(* ===== verification/Conditions.thy ===== *)
theory Conditions
  imports OS_Prelude
begin

text \<open>
  Status conditions.  The type \<open>condition.Conditions\<close> and its methods come from the library
  lib-common, which is not part of the repository, so the library is a parameter of every
  definition that uses it: a record \<open>condlib\<close> of its functions.  \<open>condlib_laws\<close> collects what the
  code relies on of its documentation (what \<open>Get\<close> returns after \<open>Set\<close>, \<open>Remove\<close> and \<open>Init\<close>, what
  \<open>IsTrue\<close>, \<open>IsFalse\<close> and \<open>IsUnknown\<close> mean).  \<open>list_condlib\<close> is one concrete library with these
  laws, used to exhibit the theorems at concrete inputs.

  The last-transition times of conditions are not modelled, and with them the call
  \<open>condition.RestoreLastTransitionTimes\<close>, which touches nothing else.
\<close>

datatype cond_status = CTrue | CFalse | CUnknown
datatype cond_severity = SeverityError | SeverityWarning | SeverityInfo | SeverityNone
datatype cond_reason =
  InitReason | RequestedReason | ErrorReason | ReadyReason | JobReasonBackoffLimitExceeded
  | OtherReason string

record condition =
  c_type :: string
  c_status :: cond_status
  c_severity :: cond_severity
  c_reason :: cond_reason
  c_message :: string

type_synonym conditions = "condition list"

definition ReadyCondition :: string where "ReadyCondition = ''Ready''"
definition ReadyMessage :: string where "ReadyMessage = ''Setup complete''"
definition ReadyInitMessage :: string where "ReadyInitMessage = ''Setup started''"

record condlib =
  lc_TrueCondition :: "string \<Rightarrow> string \<Rightarrow> condition"
  lc_FalseCondition :: "string \<Rightarrow> cond_reason \<Rightarrow> cond_severity \<Rightarrow> string \<Rightarrow> condition"
  lc_UnknownCondition :: "string \<Rightarrow> cond_reason \<Rightarrow> string \<Rightarrow> condition"
  lc_Set :: "conditions \<Rightarrow> condition \<Rightarrow> conditions"
  lc_Get :: "conditions \<Rightarrow> string \<Rightarrow> condition option"
  lc_Remove :: "conditions \<Rightarrow> string \<Rightarrow> conditions"
  lc_Init :: "conditions \<Rightarrow> conditions \<Rightarrow> conditions"
  lc_IsTrue :: "conditions \<Rightarrow> string \<Rightarrow> bool"
  lc_IsFalse :: "conditions \<Rightarrow> string \<Rightarrow> bool"
  lc_IsUnknown :: "conditions \<Rightarrow> string \<Rightarrow> bool"
  lc_MarkTrue :: "conditions \<Rightarrow> string \<Rightarrow> string \<Rightarrow> conditions"
  lc_MarkFalse :: "conditions \<Rightarrow> string \<Rightarrow> cond_reason \<Rightarrow> cond_severity \<Rightarrow> string \<Rightarrow> conditions"
  lc_MarkUnknown :: "conditions \<Rightarrow> string \<Rightarrow> cond_reason \<Rightarrow> string \<Rightarrow> conditions"
  lc_Mirror :: "conditions \<Rightarrow> string \<Rightarrow> condition"
  lc_AllSubConditionIsTrue :: "conditions \<Rightarrow> bool"

text \<open>The documented behaviour the code relies on.\<close>

definition condlib_constructors :: "condlib \<Rightarrow> bool" where
  "condlib_constructors L \<longleftrightarrow>
     (\<forall>t m. lc_TrueCondition L t m =
        \<lparr>c_type = t, c_status = CTrue, c_severity = SeverityNone, c_reason = ReadyReason, c_message = m\<rparr>) \<and>
     (\<forall>t r s m. lc_FalseCondition L t r s m =
        \<lparr>c_type = t, c_status = CFalse, c_severity = s, c_reason = r, c_message = m\<rparr>) \<and>
     (\<forall>t r m. lc_UnknownCondition L t r m =
        \<lparr>c_type = t, c_status = CUnknown, c_severity = SeverityNone, c_reason = r, c_message = m\<rparr>) \<and>
     (\<forall>cs t m. lc_MarkTrue L cs t m = lc_Set L cs (lc_TrueCondition L t m)) \<and>
     (\<forall>cs t r s m. lc_MarkFalse L cs t r s m = lc_Set L cs (lc_FalseCondition L t r s m)) \<and>
     (\<forall>cs t r m. lc_MarkUnknown L cs t r m = lc_Set L cs (lc_UnknownCondition L t r m))"

definition condlib_store :: "condlib \<Rightarrow> bool" where
  "condlib_store L \<longleftrightarrow>
     (\<forall>t. lc_Get L [] t = None) \<and>
     (\<forall>cs c t. lc_Get L (lc_Set L cs c) t = (if t = c_type c then Some c else lc_Get L cs t)) \<and>
     (\<forall>cs t' t. lc_Get L (lc_Remove L cs t') t = (if t = t' then None else lc_Get L cs t)) \<and>
     (\<forall>cs cl c. distinct (map c_type cl) \<longrightarrow> c \<in> set cl \<longrightarrow>
        lc_Get L (lc_Init L cs cl) (c_type c) = Some c) \<and>
     (\<forall>cs t. c_type (lc_Mirror L cs t) = t)"

definition condlib_queries :: "condlib \<Rightarrow> bool" where
  "condlib_queries L \<longleftrightarrow>
     (\<forall>cs t. lc_IsTrue L cs t \<longleftrightarrow> map_option c_status (lc_Get L cs t) = Some CTrue) \<and>
     (\<forall>cs t. lc_IsFalse L cs t \<longleftrightarrow> map_option c_status (lc_Get L cs t) = Some CFalse) \<and>
     (\<forall>cs t. lc_IsUnknown L cs t \<longleftrightarrow>
        lc_Get L cs t = None \<or> map_option c_status (lc_Get L cs t) = Some CUnknown)"

definition condlib_laws :: "condlib \<Rightarrow> bool" where
  "condlib_laws L \<longleftrightarrow> condlib_constructors L \<and> condlib_store L \<and> condlib_queries L"

lemma condlib_True:
  assumes "condlib_laws L"
  shows "lc_TrueCondition L t m =
     \<lparr>c_type = t, c_status = CTrue, c_severity = SeverityNone, c_reason = ReadyReason, c_message = m\<rparr>"
    and "lc_FalseCondition L t r s m =
     \<lparr>c_type = t, c_status = CFalse, c_severity = s, c_reason = r, c_message = m\<rparr>"
    and "lc_UnknownCondition L t r m =
     \<lparr>c_type = t, c_status = CUnknown, c_severity = SeverityNone, c_reason = r, c_message = m\<rparr>"
  using assms by (simp_all add: condlib_laws_def condlib_constructors_def)

lemma condlib_Mark:
  assumes "condlib_laws L"
  shows "lc_MarkTrue L cs t m = lc_Set L cs (lc_TrueCondition L t m)"
    and "lc_MarkFalse L cs t r s m = lc_Set L cs (lc_FalseCondition L t r s m)"
    and "lc_MarkUnknown L cs t r m = lc_Set L cs (lc_UnknownCondition L t r m)"
  using assms by (simp_all add: condlib_laws_def condlib_constructors_def)

lemma condlib_Get:
  assumes "condlib_laws L"
  shows "lc_Get L (lc_Set L cs c) t = (if t = c_type c then Some c else lc_Get L cs t)"
    and "lc_Get L (lc_Remove L cs t') t = (if t = t' then None else lc_Get L cs t)"
    and "c_type (lc_Mirror L cs t) = t"
    and "lc_Get L [] t = None"
  using assms by (simp_all add: condlib_laws_def condlib_store_def)

declare condlib_True [simp] condlib_Mark [simp] condlib_Get [simp]

lemma condlib_Init:
  assumes "condlib_laws L" and "distinct (map c_type cl)" and "c \<in> set cl"
  shows "lc_Get L (lc_Init L cs cl) (c_type c) = Some c"
  using assms unfolding condlib_laws_def condlib_store_def by blast

lemma condlib_IsTrue:
  "condlib_laws L \<Longrightarrow> lc_IsTrue L cs t \<longleftrightarrow> map_option c_status (lc_Get L cs t) = Some CTrue"
  unfolding condlib_laws_def condlib_queries_def by blast

lemma condlib_IsFalse:
  "condlib_laws L \<Longrightarrow> lc_IsFalse L cs t \<longleftrightarrow> map_option c_status (lc_Get L cs t) = Some CFalse"
  unfolding condlib_laws_def condlib_queries_def by blast

lemma condlib_IsUnknown:
  "condlib_laws L \<Longrightarrow> lc_IsUnknown L cs t \<longleftrightarrow>
     lc_Get L cs t = None \<or> map_option c_status (lc_Get L cs t) = Some CUnknown"
  unfolding condlib_laws_def condlib_queries_def by blast

lemmas condlib_queriesD = condlib_IsTrue condlib_IsFalse condlib_IsUnknown

lemma IsTrue_Set [simp]:
  "condlib_laws L \<Longrightarrow> lc_IsTrue L (lc_Set L cs c) t =
     (if t = c_type c then c_status c = CTrue else lc_IsTrue L cs t)"
  by (simp add: condlib_IsTrue)

subsection \<open>A concrete library with these laws\<close>

fun lst_Get :: "conditions \<Rightarrow> string \<Rightarrow> condition option" where
  "lst_Get [] t = None"
| "lst_Get (c # cs) t = (if c_type c = t then Some c else lst_Get cs t)"

fun lst_Set :: "conditions \<Rightarrow> condition \<Rightarrow> conditions" where
  "lst_Set [] c = [c]"
| "lst_Set (d # cs) c = (if c_type d = c_type c then c # cs else d # lst_Set cs c)"

definition lst_Remove :: "conditions \<Rightarrow> string \<Rightarrow> conditions" where
  "lst_Remove cs t = filter (\<lambda>c. c_type c \<noteq> t) cs"

definition lst_True :: "string \<Rightarrow> string \<Rightarrow> condition" where
  "lst_True t m = \<lparr>c_type = t, c_status = CTrue, c_severity = SeverityNone, c_reason = ReadyReason, c_message = m\<rparr>"
definition lst_False :: "string \<Rightarrow> cond_reason \<Rightarrow> cond_severity \<Rightarrow> string \<Rightarrow> condition" where
  "lst_False t r s m = \<lparr>c_type = t, c_status = CFalse, c_severity = s, c_reason = r, c_message = m\<rparr>"
definition lst_Unknown :: "string \<Rightarrow> cond_reason \<Rightarrow> string \<Rightarrow> condition" where
  "lst_Unknown t r m = \<lparr>c_type = t, c_status = CUnknown, c_severity = SeverityNone, c_reason = r, c_message = m\<rparr>"

definition lst_Mirror :: "conditions \<Rightarrow> string \<Rightarrow> condition" where
  "lst_Mirror cs t =
     (case filter (\<lambda>c. c_type c \<noteq> t \<and> c_status c \<noteq> CTrue) cs of
        [] \<Rightarrow> lst_Unknown t InitReason ReadyInitMessage
      | c # _ \<Rightarrow> c\<lparr>c_type := t\<rparr>)"

definition list_condlib :: condlib where
  "list_condlib = \<lparr>
     lc_TrueCondition = lst_True, lc_FalseCondition = lst_False, lc_UnknownCondition = lst_Unknown,
     lc_Set = lst_Set, lc_Get = lst_Get, lc_Remove = lst_Remove,
     lc_Init = (\<lambda>cs cl. fold (\<lambda>c cs. lst_Set cs c) cl [lst_Unknown ReadyCondition InitReason ReadyInitMessage]),
     lc_IsTrue = (\<lambda>cs t. map_option c_status (lst_Get cs t) = Some CTrue),
     lc_IsFalse = (\<lambda>cs t. map_option c_status (lst_Get cs t) = Some CFalse),
     lc_IsUnknown = (\<lambda>cs t. lst_Get cs t = None \<or> map_option c_status (lst_Get cs t) = Some CUnknown),
     lc_MarkTrue = (\<lambda>cs t m. lst_Set cs (lst_True t m)),
     lc_MarkFalse = (\<lambda>cs t r s m. lst_Set cs (lst_False t r s m)),
     lc_MarkUnknown = (\<lambda>cs t r m. lst_Set cs (lst_Unknown t r m)),
     lc_Mirror = lst_Mirror,
     lc_AllSubConditionIsTrue = (\<lambda>cs. list_all (\<lambda>c. c_type c = ReadyCondition \<or> c_status c = CTrue) cs)\<rparr>"

lemma lst_Get_Set: "lst_Get (lst_Set cs c) t = (if t = c_type c then Some c else lst_Get cs t)"
  by (induction cs c rule: lst_Set.induct) auto

lemma lst_Get_Remove: "lst_Get (lst_Remove cs t') t = (if t = t' then None else lst_Get cs t)"
  by (induction cs) (auto simp: lst_Remove_def)

lemma lst_Get_fold_other:
  "t \<notin> c_type ` set cl \<Longrightarrow> lst_Get (fold (\<lambda>c cs. lst_Set cs c) cl cs) t = lst_Get cs t"
  by (induction cl arbitrary: cs) (auto simp: lst_Get_Set)

lemma lst_Get_fold_mem:
  "distinct (map c_type cl) \<Longrightarrow> c \<in> set cl \<Longrightarrow>
   lst_Get (fold (\<lambda>c cs. lst_Set cs c) cl cs) (c_type c) = Some c"
  by (induction cl arbitrary: cs) (auto simp: lst_Get_fold_other lst_Get_Set)

lemma lst_Mirror_type: "c_type (lst_Mirror cs t) = t"
  by (simp add: lst_Mirror_def lst_Unknown_def split: list.splits)

lemma list_condlib_laws [simp]: "condlib_laws list_condlib"
  unfolding condlib_laws_def condlib_constructors_def condlib_store_def condlib_queries_def
  by (simp add: list_condlib_def lst_Get_Set lst_Get_Remove lst_Get_fold_mem lst_Mirror_type
      lst_True_def lst_False_def lst_Unknown_def)

end
