(* ===== verification/Images.thy ===== *)
theory Images
  imports OS_Prelude
begin

text \<open>
  Container images of an OpenStack release: the structs of
  \<open>api/core/v1beta1/openstackversion_types.go\<close> and the functions of
  \<open>internal/openstack/version.go\<close> that compute them.

  The struct \<open>ContainerTemplate\<close> has 94 fields of type \<open>*string\<close>, which the code reads and writes
  both by selector and by reflection over the field names.  The model has one constructor of
  \<open>image_field\<close> per field, in the order of the struct, and a template is a function from fields to
  string pointers; \<open>field_name\<close> is the reflected name.

  \<open>GetContainerImages\<close> takes the per-backend maps of the spec by reference and then stores the key
  \<open>default\<close> into them.  The model returns the spec's images as the call leaves them, so that the
  write through the alias is visible.
\<close>

subsection \<open>Data\<close>

text \<open>The struct \<open>ContainerTemplate\<close>, field by field.\<close>

datatype (plugins only: size) image_field =
    AgentImage | AnsibleeeImage | AodhAPIImage
  | AodhEvaluatorImage | AodhListenerImage | AodhNotifierImage
  | ApacheImage | BarbicanAPIImage | BarbicanKeystoneListenerImage
  | BarbicanWorkerImage | CeilometerCentralImage | CeilometerComputeImage
  | CeilometerIpmiImage | CeilometerNotificationImage | CeilometerSgcoreImage
  | CeilometerMysqldExporterImage | CinderAPIImage | CinderBackupImage
  | CinderSchedulerImage | CloudKittyAPIImage | CloudKittyProcImage
  | DesignateAPIImage | DesignateBackendbind9Image | DesignateCentralImage
  | DesignateMdnsImage | DesignateProducerImage | DesignateUnboundImage
  | DesignateWorkerImage | EdpmFrrImage | EdpmIscsidImage
  | EdpmLogrotateCrondImage | EdpmMultipathdImage | EdpmNeutronDhcpAgentImage
  | EdpmNeutronMetadataAgentImage | EdpmNeutronOvnAgentImage | EdpmNeutronSriovAgentImage
  | EdpmOvnBgpAgentImage | EdpmNodeExporterImage | EdpmKeplerImage
  | EdpmPodmanExporterImage | EdpmOpenstackNetworkExporterImage | OpenstackNetworkExporterImage
  | GlanceAPIImage | HeatAPIImage | HeatCfnapiImage
  | HeatEngineImage | HorizonImage | InfraDnsmasqImage
  | InfraMemcachedImage | InfraRedisImage | IronicAPIImage
  | IronicConductorImage | IronicInspectorImage | IronicNeutronAgentImage
  | IronicPxeImage | IronicPythonAgentImage | KeystoneAPIImage
  | KsmImage | ManilaAPIImage | ManilaSchedulerImage
  | MariadbImage | NetUtilsImage | NeutronAPIImage
  | NovaAPIImage | NovaComputeImage | NovaConductorImage
  | NovaNovncImage | NovaSchedulerImage | OctaviaAPIImage
  | OctaviaHealthmanagerImage | OctaviaHousekeepingImage | OctaviaWorkerImage
  | OctaviaRsyslogImage | OpenstackClientImage | OsContainerImage
  | OvnControllerImage | OvnControllerOvsImage | OvnNbDbclusterImage
  | OvnNorthdImage | OvnSbDbclusterImage | PlacementAPIImage
  | RabbitmqImage | SwiftAccountImage | SwiftContainerImage
  | SwiftObjectImage | SwiftProxyImage | TelemetryNodeExporterImage
  | TestTempestImage | TestTobikoImage | TestHorizontestImage
  | TestAnsibletestImage | WatcherAPIImage | WatcherApplierImage
  | WatcherDecisionEngineImage

definition image_fields :: "image_field list" where
  "image_fields = [
     AgentImage, AnsibleeeImage, AodhAPIImage,
     AodhEvaluatorImage, AodhListenerImage, AodhNotifierImage,
     ApacheImage, BarbicanAPIImage, BarbicanKeystoneListenerImage,
     BarbicanWorkerImage, CeilometerCentralImage, CeilometerComputeImage,
     CeilometerIpmiImage, CeilometerNotificationImage, CeilometerSgcoreImage,
     CeilometerMysqldExporterImage, CinderAPIImage, CinderBackupImage,
     CinderSchedulerImage, CloudKittyAPIImage, CloudKittyProcImage,
     DesignateAPIImage, DesignateBackendbind9Image, DesignateCentralImage,
     DesignateMdnsImage, DesignateProducerImage, DesignateUnboundImage,
     DesignateWorkerImage, EdpmFrrImage, EdpmIscsidImage,
     EdpmLogrotateCrondImage, EdpmMultipathdImage, EdpmNeutronDhcpAgentImage,
     EdpmNeutronMetadataAgentImage, EdpmNeutronOvnAgentImage, EdpmNeutronSriovAgentImage,
     EdpmOvnBgpAgentImage, EdpmNodeExporterImage, EdpmKeplerImage,
     EdpmPodmanExporterImage, EdpmOpenstackNetworkExporterImage, OpenstackNetworkExporterImage,
     GlanceAPIImage, HeatAPIImage, HeatCfnapiImage,
     HeatEngineImage, HorizonImage, InfraDnsmasqImage,
     InfraMemcachedImage, InfraRedisImage, IronicAPIImage,
     IronicConductorImage, IronicInspectorImage, IronicNeutronAgentImage,
     IronicPxeImage, IronicPythonAgentImage, KeystoneAPIImage,
     KsmImage, ManilaAPIImage, ManilaSchedulerImage,
     MariadbImage, NetUtilsImage, NeutronAPIImage,
     NovaAPIImage, NovaComputeImage, NovaConductorImage,
     NovaNovncImage, NovaSchedulerImage, OctaviaAPIImage,
     OctaviaHealthmanagerImage, OctaviaHousekeepingImage, OctaviaWorkerImage,
     OctaviaRsyslogImage, OpenstackClientImage, OsContainerImage,
     OvnControllerImage, OvnControllerOvsImage, OvnNbDbclusterImage,
     OvnNorthdImage, OvnSbDbclusterImage, PlacementAPIImage,
     RabbitmqImage, SwiftAccountImage, SwiftContainerImage,
     SwiftObjectImage, SwiftProxyImage, TelemetryNodeExporterImage,
     TestTempestImage, TestTobikoImage, TestHorizontestImage,
     TestAnsibletestImage, WatcherAPIImage, WatcherApplierImage,
     WatcherDecisionEngineImage]"

primrec field_name :: "image_field \<Rightarrow> string" where
  "field_name AgentImage = ''AgentImage''"
| "field_name AnsibleeeImage = ''AnsibleeeImage''"
| "field_name AodhAPIImage = ''AodhAPIImage''"
| "field_name AodhEvaluatorImage = ''AodhEvaluatorImage''"
| "field_name AodhListenerImage = ''AodhListenerImage''"
| "field_name AodhNotifierImage = ''AodhNotifierImage''"
| "field_name ApacheImage = ''ApacheImage''"
| "field_name BarbicanAPIImage = ''BarbicanAPIImage''"
| "field_name BarbicanKeystoneListenerImage = ''BarbicanKeystoneListenerImage''"
| "field_name BarbicanWorkerImage = ''BarbicanWorkerImage''"
| "field_name CeilometerCentralImage = ''CeilometerCentralImage''"
| "field_name CeilometerComputeImage = ''CeilometerComputeImage''"
| "field_name CeilometerIpmiImage = ''CeilometerIpmiImage''"
| "field_name CeilometerNotificationImage = ''CeilometerNotificationImage''"
| "field_name CeilometerSgcoreImage = ''CeilometerSgcoreImage''"
| "field_name CeilometerMysqldExporterImage = ''CeilometerMysqldExporterImage''"
| "field_name CinderAPIImage = ''CinderAPIImage''"
| "field_name CinderBackupImage = ''CinderBackupImage''"
| "field_name CinderSchedulerImage = ''CinderSchedulerImage''"
| "field_name CloudKittyAPIImage = ''CloudKittyAPIImage''"
| "field_name CloudKittyProcImage = ''CloudKittyProcImage''"
| "field_name DesignateAPIImage = ''DesignateAPIImage''"
| "field_name DesignateBackendbind9Image = ''DesignateBackendbind9Image''"
| "field_name DesignateCentralImage = ''DesignateCentralImage''"
| "field_name DesignateMdnsImage = ''DesignateMdnsImage''"
| "field_name DesignateProducerImage = ''DesignateProducerImage''"
| "field_name DesignateUnboundImage = ''DesignateUnboundImage''"
| "field_name DesignateWorkerImage = ''DesignateWorkerImage''"
| "field_name EdpmFrrImage = ''EdpmFrrImage''"
| "field_name EdpmIscsidImage = ''EdpmIscsidImage''"
| "field_name EdpmLogrotateCrondImage = ''EdpmLogrotateCrondImage''"
| "field_name EdpmMultipathdImage = ''EdpmMultipathdImage''"
| "field_name EdpmNeutronDhcpAgentImage = ''EdpmNeutronDhcpAgentImage''"
| "field_name EdpmNeutronMetadataAgentImage = ''EdpmNeutronMetadataAgentImage''"
| "field_name EdpmNeutronOvnAgentImage = ''EdpmNeutronOvnAgentImage''"
| "field_name EdpmNeutronSriovAgentImage = ''EdpmNeutronSriovAgentImage''"
| "field_name EdpmOvnBgpAgentImage = ''EdpmOvnBgpAgentImage''"
| "field_name EdpmNodeExporterImage = ''EdpmNodeExporterImage''"
| "field_name EdpmKeplerImage = ''EdpmKeplerImage''"
| "field_name EdpmPodmanExporterImage = ''EdpmPodmanExporterImage''"
| "field_name EdpmOpenstackNetworkExporterImage = ''EdpmOpenstackNetworkExporterImage''"
| "field_name OpenstackNetworkExporterImage = ''OpenstackNetworkExporterImage''"
| "field_name GlanceAPIImage = ''GlanceAPIImage''"
| "field_name HeatAPIImage = ''HeatAPIImage''"
| "field_name HeatCfnapiImage = ''HeatCfnapiImage''"
| "field_name HeatEngineImage = ''HeatEngineImage''"
| "field_name HorizonImage = ''HorizonImage''"
| "field_name InfraDnsmasqImage = ''InfraDnsmasqImage''"
| "field_name InfraMemcachedImage = ''InfraMemcachedImage''"
| "field_name InfraRedisImage = ''InfraRedisImage''"
| "field_name IronicAPIImage = ''IronicAPIImage''"
| "field_name IronicConductorImage = ''IronicConductorImage''"
| "field_name IronicInspectorImage = ''IronicInspectorImage''"
| "field_name IronicNeutronAgentImage = ''IronicNeutronAgentImage''"
| "field_name IronicPxeImage = ''IronicPxeImage''"
| "field_name IronicPythonAgentImage = ''IronicPythonAgentImage''"
| "field_name KeystoneAPIImage = ''KeystoneAPIImage''"
| "field_name KsmImage = ''KsmImage''"
| "field_name ManilaAPIImage = ''ManilaAPIImage''"
| "field_name ManilaSchedulerImage = ''ManilaSchedulerImage''"
| "field_name MariadbImage = ''MariadbImage''"
| "field_name NetUtilsImage = ''NetUtilsImage''"
| "field_name NeutronAPIImage = ''NeutronAPIImage''"
| "field_name NovaAPIImage = ''NovaAPIImage''"
| "field_name NovaComputeImage = ''NovaComputeImage''"
| "field_name NovaConductorImage = ''NovaConductorImage''"
| "field_name NovaNovncImage = ''NovaNovncImage''"
| "field_name NovaSchedulerImage = ''NovaSchedulerImage''"
| "field_name OctaviaAPIImage = ''OctaviaAPIImage''"
| "field_name OctaviaHealthmanagerImage = ''OctaviaHealthmanagerImage''"
| "field_name OctaviaHousekeepingImage = ''OctaviaHousekeepingImage''"
| "field_name OctaviaWorkerImage = ''OctaviaWorkerImage''"
| "field_name OctaviaRsyslogImage = ''OctaviaRsyslogImage''"
| "field_name OpenstackClientImage = ''OpenstackClientImage''"
| "field_name OsContainerImage = ''OsContainerImage''"
| "field_name OvnControllerImage = ''OvnControllerImage''"
| "field_name OvnControllerOvsImage = ''OvnControllerOvsImage''"
| "field_name OvnNbDbclusterImage = ''OvnNbDbclusterImage''"
| "field_name OvnNorthdImage = ''OvnNorthdImage''"
| "field_name OvnSbDbclusterImage = ''OvnSbDbclusterImage''"
| "field_name PlacementAPIImage = ''PlacementAPIImage''"
| "field_name RabbitmqImage = ''RabbitmqImage''"
| "field_name SwiftAccountImage = ''SwiftAccountImage''"
| "field_name SwiftContainerImage = ''SwiftContainerImage''"
| "field_name SwiftObjectImage = ''SwiftObjectImage''"
| "field_name SwiftProxyImage = ''SwiftProxyImage''"
| "field_name TelemetryNodeExporterImage = ''TelemetryNodeExporterImage''"
| "field_name TestTempestImage = ''TestTempestImage''"
| "field_name TestTobikoImage = ''TestTobikoImage''"
| "field_name TestHorizontestImage = ''TestHorizontestImage''"
| "field_name TestAnsibletestImage = ''TestAnsibletestImage''"
| "field_name WatcherAPIImage = ''WatcherAPIImage''"
| "field_name WatcherApplierImage = ''WatcherApplierImage''"
| "field_name WatcherDecisionEngineImage = ''WatcherDecisionEngineImage''"
text \<open>No field is missing from \<open>image_fields\<close>, and names tell fields apart.\<close>

lemma image_fields_all: "f \<in> set image_fields"
  by (cases f) (simp_all add: image_fields_def)

lemma set_image_fields [simp]: "set image_fields = UNIV"
  using image_fields_all by auto

primrec field_index :: "image_field \<Rightarrow> nat" where
  "field_index AgentImage = 0"
| "field_index AnsibleeeImage = 1"
| "field_index AodhAPIImage = 2"
| "field_index AodhEvaluatorImage = 3"
| "field_index AodhListenerImage = 4"
| "field_index AodhNotifierImage = 5"
| "field_index ApacheImage = 6"
| "field_index BarbicanAPIImage = 7"
| "field_index BarbicanKeystoneListenerImage = 8"
| "field_index BarbicanWorkerImage = 9"
| "field_index CeilometerCentralImage = 10"
| "field_index CeilometerComputeImage = 11"
| "field_index CeilometerIpmiImage = 12"
| "field_index CeilometerNotificationImage = 13"
| "field_index CeilometerSgcoreImage = 14"
| "field_index CeilometerMysqldExporterImage = 15"
| "field_index CinderAPIImage = 16"
| "field_index CinderBackupImage = 17"
| "field_index CinderSchedulerImage = 18"
| "field_index CloudKittyAPIImage = 19"
| "field_index CloudKittyProcImage = 20"
| "field_index DesignateAPIImage = 21"
| "field_index DesignateBackendbind9Image = 22"
| "field_index DesignateCentralImage = 23"
| "field_index DesignateMdnsImage = 24"
| "field_index DesignateProducerImage = 25"
| "field_index DesignateUnboundImage = 26"
| "field_index DesignateWorkerImage = 27"
| "field_index EdpmFrrImage = 28"
| "field_index EdpmIscsidImage = 29"
| "field_index EdpmLogrotateCrondImage = 30"
| "field_index EdpmMultipathdImage = 31"
| "field_index EdpmNeutronDhcpAgentImage = 32"
| "field_index EdpmNeutronMetadataAgentImage = 33"
| "field_index EdpmNeutronOvnAgentImage = 34"
| "field_index EdpmNeutronSriovAgentImage = 35"
| "field_index EdpmOvnBgpAgentImage = 36"
| "field_index EdpmNodeExporterImage = 37"
| "field_index EdpmKeplerImage = 38"
| "field_index EdpmPodmanExporterImage = 39"
| "field_index EdpmOpenstackNetworkExporterImage = 40"
| "field_index OpenstackNetworkExporterImage = 41"
| "field_index GlanceAPIImage = 42"
| "field_index HeatAPIImage = 43"
| "field_index HeatCfnapiImage = 44"
| "field_index HeatEngineImage = 45"
| "field_index HorizonImage = 46"
| "field_index InfraDnsmasqImage = 47"
| "field_index InfraMemcachedImage = 48"
| "field_index InfraRedisImage = 49"
| "field_index IronicAPIImage = 50"
| "field_index IronicConductorImage = 51"
| "field_index IronicInspectorImage = 52"
| "field_index IronicNeutronAgentImage = 53"
| "field_index IronicPxeImage = 54"
| "field_index IronicPythonAgentImage = 55"
| "field_index KeystoneAPIImage = 56"
| "field_index KsmImage = 57"
| "field_index ManilaAPIImage = 58"
| "field_index ManilaSchedulerImage = 59"
| "field_index MariadbImage = 60"
| "field_index NetUtilsImage = 61"
| "field_index NeutronAPIImage = 62"
| "field_index NovaAPIImage = 63"
| "field_index NovaComputeImage = 64"
| "field_index NovaConductorImage = 65"
| "field_index NovaNovncImage = 66"
| "field_index NovaSchedulerImage = 67"
| "field_index OctaviaAPIImage = 68"
| "field_index OctaviaHealthmanagerImage = 69"
| "field_index OctaviaHousekeepingImage = 70"
| "field_index OctaviaWorkerImage = 71"
| "field_index OctaviaRsyslogImage = 72"
| "field_index OpenstackClientImage = 73"
| "field_index OsContainerImage = 74"
| "field_index OvnControllerImage = 75"
| "field_index OvnControllerOvsImage = 76"
| "field_index OvnNbDbclusterImage = 77"
| "field_index OvnNorthdImage = 78"
| "field_index OvnSbDbclusterImage = 79"
| "field_index PlacementAPIImage = 80"
| "field_index RabbitmqImage = 81"
| "field_index SwiftAccountImage = 82"
| "field_index SwiftContainerImage = 83"
| "field_index SwiftObjectImage = 84"
| "field_index SwiftProxyImage = 85"
| "field_index TelemetryNodeExporterImage = 86"
| "field_index TestTempestImage = 87"
| "field_index TestTobikoImage = 88"
| "field_index TestHorizontestImage = 89"
| "field_index TestAnsibletestImage = 90"
| "field_index WatcherAPIImage = 91"
| "field_index WatcherApplierImage = 92"
| "field_index WatcherDecisionEngineImage = 93"

lemma nth_field_index: "image_fields ! field_index f = f"
  by (cases f) (simp_all add: image_fields_def)

lemma field_index_inject: "field_index f = field_index g \<longleftrightarrow> f = g"
  by (metis nth_field_index)

instantiation image_field :: equal
begin

definition equal_image_field :: "image_field \<Rightarrow> image_field \<Rightarrow> bool" where
  "equal_image_field f g \<longleftrightarrow> field_index f = field_index g"

instance
  by standard (simp add: equal_image_field_def field_index_inject)

end

type_synonym container_template = "image_field \<Rightarrow> string ptr"

record custom_images =
  cc_template :: container_template
  cc_CinderVolumeImages :: "(string, string ptr) gomap option"
  cc_ManilaShareImages :: "(string, string ptr) gomap option"

record container_defaults =
  cd_template :: container_template
  cd_CinderVolumeImage :: "string ptr"
  cd_ManilaShareImage :: "string ptr"

record container_images =
  ci_template :: container_template
  ci_OctaviaApacheImage :: "string ptr"
  ci_CeilometerProxyImage :: "string ptr"
  ci_CinderVolumeImages :: "(string, string ptr) gomap"
  ci_ManilaShareImages :: "(string, string ptr) gomap"

definition empty_template :: container_template where
  "empty_template = (\<lambda>_. None)"

definition empty_defaults :: container_defaults where
  "empty_defaults = \<lparr>cd_template = empty_template, cd_CinderVolumeImage = None, cd_ManilaShareImage = None\<rparr>"

definition empty_images :: container_images where
  "empty_images = \<lparr>ci_template = empty_template, ci_OctaviaApacheImage = None,
     ci_CeilometerProxyImage = None, ci_CinderVolumeImages = [], ci_ManilaShareImages = []\<rparr>"

record service_defaults =
  sd_GlanceWsgi :: "string ptr"
  sd_RabbitmqVersion :: "string ptr"
  sd_GlanceLocationAPI :: "string ptr"
  sd_ManilaSharev1 :: "string ptr"

definition empty_service_defaults :: service_defaults where
  "empty_service_defaults = \<lparr>sd_GlanceWsgi = None, sd_RabbitmqVersion = None,
     sd_GlanceLocationAPI = None, sd_ManilaSharev1 = None\<rparr>"

definition InitializeOpenStackVersionServiceDefaults :: service_defaults where
  "InitializeOpenStackVersionServiceDefaults = \<lparr>
     sd_GlanceWsgi = Some ''true'', sd_RabbitmqVersion = Some ''4.2'',
     sd_GlanceLocationAPI = Some ''false'', sd_ManilaSharev1 = Some ''true''\<rparr>"

subsection \<open>Image defaults from the environment\<close>

text \<open>ASCII helpers of the standard library: the regular expression \<open>[A-Za-z0-9]+\<close>,
  \<open>strings.ToUpper\<close>, \<open>strings.ToLower\<close> and \<open>strings.ReplaceAll\<close>.\<close>

definition is_upper :: "char \<Rightarrow> bool" where
  "is_upper c \<longleftrightarrow> 65 \<le> (of_char c :: nat) \<and> (of_char c :: nat) \<le> 90"
definition is_lower :: "char \<Rightarrow> bool" where
  "is_lower c \<longleftrightarrow> 97 \<le> (of_char c :: nat) \<and> (of_char c :: nat) \<le> 122"
definition is_digit :: "char \<Rightarrow> bool" where
  "is_digit c \<longleftrightarrow> 48 \<le> (of_char c :: nat) \<and> (of_char c :: nat) \<le> 57"
definition is_alnum :: "char \<Rightarrow> bool" where
  "is_alnum c \<longleftrightarrow> is_upper c \<or> is_lower c \<or> is_digit c"

definition to_upper :: "char \<Rightarrow> char" where
  "to_upper c = (if is_lower c then char_of ((of_char c :: nat) - 32) else c)"
definition to_lower :: "char \<Rightarrow> char" where
  "to_lower c = (if is_upper c then char_of ((of_char c :: nat) + 32) else c)"

function alnum_runs :: "string \<Rightarrow> string list" where
  "alnum_runs [] = []"
| "alnum_runs (c # cs) =
     (if is_alnum c then (c # takeWhile is_alnum cs) # alnum_runs (dropWhile is_alnum cs)
      else alnum_runs cs)"
  by pat_completeness auto
termination
  by (relation "measure length") (auto simp: le_imp_less_Suc length_dropWhile_le)

function replace_all :: "string \<Rightarrow> string \<Rightarrow> string \<Rightarrow> string" where
  "replace_all old new [] = []"
| "replace_all old new (c # cs) =
     (if old \<noteq> [] \<and> take (length old) (c # cs) = old
      then new @ replace_all old new (drop (length old) (c # cs))
      else c # replace_all old new cs)"
  by pat_completeness auto
termination
  by (relation "measure (\<lambda>(_, _, s). length s)") (auto simp: less_Suc_eq_le neq_Nil_conv)

text \<open>The name of the struct field an environment variable sets; \<open>None\<close> where the indexing of
  \<open>matches\<close> panics.\<close>

definition env_field_name :: "string \<Rightarrow> string option" where
  "env_field_name key =
     (case alnum_runs key of
        [] \<Rightarrow> None
      | m0 # rest \<Rightarrow>
          if m0 = ''RELATED''
          then (case rest of
                  [] \<Rightarrow> None
                | m1 # ms \<Rightarrow>
                    if m1 = ''IMAGE''
                    then Some (replace_all ''Cloudkitty'' ''CloudKitty'' (replace_all ''Api'' ''API''
                           (concat (map (\<lambda>m. map to_upper (take 1 m) @ map to_lower (drop 1 m))
                              (take (length ms - 2) ms)))))
                    else Some [])
          else Some [])"

definition FieldByName :: "string \<Rightarrow> image_field option" where
  "FieldByName n = find (\<lambda>f. field_name f = n) image_fields"

text \<open>One iteration of the loop over the environment.  \<open>reflect.Value.Set\<close> panics when the name is
  that of the embedded struct itself.\<close>

definition set_default_field :: "string \<times> string ptr \<Rightarrow> container_defaults \<Rightarrow> container_defaults option" where
  "set_default_field kv d =
     (case env_field_name (fst kv) of
        None \<Rightarrow> None
      | Some n \<Rightarrow>
          (case FieldByName n of
             Some f \<Rightarrow> Some (d\<lparr>cd_template := (cd_template d)(f := snd kv)\<rparr>)
           | None \<Rightarrow>
               if n = ''CinderVolumeImage'' then Some (d\<lparr>cd_CinderVolumeImage := snd kv\<rparr>)
               else if n = ''ManilaShareImage'' then Some (d\<lparr>cd_ManilaShareImage := snd kv\<rparr>)
               else if n = ''ContainerTemplate'' then None
               else Some d))"

fun set_default_fields :: "(string \<times> string ptr) list \<Rightarrow> container_defaults \<Rightarrow> container_defaults option" where
  "set_default_fields [] d = Some d"
| "set_default_fields (kv # kvs) d = Option.bind (set_default_field kv d) (set_default_fields kvs)"

definition put_env ::
    "(string \<Rightarrow> string ptr) \<Rightarrow> string \<Rightarrow> image_field \<Rightarrow> container_defaults \<Rightarrow> container_defaults" where
  "put_env env k f d =
     (if env k \<noteq> None then d\<lparr>cd_template := (cd_template d)(f := env k)\<rparr> else d)"

definition InitializeOpenStackVersionImageDefaults ::
    "(string, string ptr) gomap \<Rightarrow> container_defaults option" where
  "InitializeOpenStackVersionImageDefaults envImages =
     (case set_default_fields envImages empty_defaults of
        None \<Rightarrow> None
      | Some d \<Rightarrow>
          let env = gomap_get None envImages;
              d1 = (if env ''RELATED_IMAGE_CINDER_VOLUME_IMAGE_URL_DEFAULT'' \<noteq> None
                    then d\<lparr>cd_CinderVolumeImage := env ''RELATED_IMAGE_CINDER_VOLUME_IMAGE_URL_DEFAULT''\<rparr> else d);
              d2 = (if env ''RELATED_IMAGE_MANILA_SHARE_IMAGE_URL_DEFAULT'' \<noteq> None
                    then d1\<lparr>cd_ManilaShareImage := env ''RELATED_IMAGE_MANILA_SHARE_IMAGE_URL_DEFAULT''\<rparr> else d1)
          in Some (put_env env ''TEST_HORIZONTEST_IMAGE_URL_DEFAULT'' TestHorizontestImage
                  (put_env env ''TEST_ANSIBLETEST_IMAGE_URL_DEFAULT'' TestAnsibletestImage
                  (put_env env ''TEST_TOBIKO_IMAGE_URL_DEFAULT'' TestTobikoImage
                  (put_env env ''RELATED_IMAGE_NEUTRON_API_IMAGE_URL_DEFAULT'' InfraDnsmasqImage d2)))))"

subsection \<open>Images of a version\<close>

definition getImg :: "string ptr \<Rightarrow> string ptr \<Rightarrow> string ptr" where
  "getImg val1 val2 = (if val1 \<noteq> None then val1 else val2)"

definition getOpenstackNetworkExporterImg :: "custom_images \<Rightarrow> container_defaults \<Rightarrow> string ptr" where
  "getOpenstackNetworkExporterImg customImages defaults =
     (if cc_template customImages OpenstackNetworkExporterImage \<noteq> None
      then cc_template customImages OpenstackNetworkExporterImage
      else if cc_template customImages EdpmOpenstackNetworkExporterImage \<noteq> None
      then cc_template customImages EdpmOpenstackNetworkExporterImage
      else cd_template defaults OpenstackNetworkExporterImage)"

text \<open>The struct literal of \<open>GetContainerImages\<close> sets every field of the template with \<open>getImg\<close>,
  except the deprecated \<open>EdpmOpenstackNetworkExporterImage\<close>, which it leaves \<open>nil\<close>, and
  \<open>OpenstackNetworkExporterImage\<close>.\<close>

definition images_template :: "container_defaults \<Rightarrow> custom_images \<Rightarrow> container_template" where
  "images_template defaults custom f =
     (if f = EdpmOpenstackNetworkExporterImage then None
      else if f = OpenstackNetworkExporterImage then getOpenstackNetworkExporterImg custom defaults
      else getImg (cc_template custom f) (cd_template defaults f))"

definition GetContainerImages ::
    "container_defaults \<Rightarrow> custom_images \<Rightarrow> container_images \<times> custom_images" where
  "GetContainerImages defaults custom =
     (let vols = (case cc_CinderVolumeImages custom of None \<Rightarrow> [] | Some m \<Rightarrow> m);
          shares = (case cc_ManilaShareImages custom of None \<Rightarrow> [] | Some m \<Rightarrow> m);
          vols' = gomap_put ''default'' (cd_CinderVolumeImage defaults) vols;
          shares' = gomap_put ''default'' (cd_ManilaShareImage defaults) shares;
          apache = getImg (cc_template custom ApacheImage) (cd_template defaults ApacheImage)
      in (\<lparr>ci_template = images_template defaults custom,
           ci_OctaviaApacheImage = apache, ci_CeilometerProxyImage = apache,
           ci_CinderVolumeImages = vols', ci_ManilaShareImages = shares'\<rparr>,
          custom\<lparr>cc_CinderVolumeImages := map_option (\<lambda>_. vols') (cc_CinderVolumeImages custom),
                 cc_ManilaShareImages := map_option (\<lambda>_. shares') (cc_ManilaShareImages custom)\<rparr>))"

subsection \<open>Comparing images\<close>

definition isContainerTemplateEmpty :: "container_template \<Rightarrow> bool" where
  "isContainerTemplateEmpty ct \<longleftrightarrow> \<not> list_ex (\<lambda>f. ct f \<noteq> None) image_fields"

definition stringPtrEqual :: "string ptr \<Rightarrow> string ptr \<Rightarrow> bool" where
  "stringPtrEqual a b =
     (if a = None \<and> b = None then True else if a = None \<or> b = None then False else the a = the b)"

fun template_fields_equal :: "image_field list \<Rightarrow> container_template \<Rightarrow> container_template \<Rightarrow> bool" where
  "template_fields_equal [] a b = True"
| "template_fields_equal (f # fs) a b =
     (if a f = None \<and> b f = None then template_fields_equal fs a b
      else if a f = None \<or> b f = None then False
      else if the (a f) \<noteq> the (b f) then False
      else template_fields_equal fs a b)"

definition containerTemplateEqual :: "container_template \<Rightarrow> container_template \<Rightarrow> bool" where
  "containerTemplateEqual a b = template_fields_equal image_fields a b"

definition stringMapEqual :: "(string, string ptr) gomap \<Rightarrow> (string, string ptr) gomap \<Rightarrow> bool" where
  "stringMapEqual a b \<longleftrightarrow>
     length a = length b \<and>
     list_all (\<lambda>(key, valueA). case map_of b key of
                 None \<Rightarrow> False | Some valueB \<Rightarrow> stringPtrEqual valueA valueB) a"

text \<open>A \<open>nil\<close> map has length 0 and no keys.\<close>

abbreviation unnil :: "('k, 'v) gomap option \<Rightarrow> ('k, 'v) gomap" where
  "unnil m \<equiv> (case m of None \<Rightarrow> [] | Some kvs \<Rightarrow> kvs)"

definition customContainerImagesAllModified :: "custom_images \<Rightarrow> custom_images \<Rightarrow> bool" where
  "customContainerImagesAllModified a b =
     (if \<not> containerTemplateEqual (cc_template a) (cc_template b) then True
      else if \<not> stringMapEqual (unnil (cc_CinderVolumeImages a)) (unnil (cc_CinderVolumeImages b)) then True
      else if \<not> stringMapEqual (unnil (cc_ManilaShareImages a)) (unnil (cc_ManilaShareImages b)) then True
      else False)"

definition hasAnyCustomImage :: "custom_images \<Rightarrow> bool" where
  "hasAnyCustomImage images =
     (if list_ex (\<lambda>(_, img). img \<noteq> None) (unnil (cc_CinderVolumeImages images)) then True
      else if list_ex (\<lambda>(_, img). img \<noteq> None) (unnil (cc_ManilaShareImages images)) then True
      else list_ex (\<lambda>f. cc_template images f \<noteq> None) image_fields)"

end
