(* ===== verification/Resources.thy ===== *)
theory Resources
  imports Conditions Images
begin

text \<open>
  The custom resources the core controllers read and write: \<open>OpenStackControlPlane\<close>
  (\<open>api/core/v1beta1/openstackcontrolplane_types.go\<close>) and \<open>OpenStackVersion\<close>
  (\<open>api/core/v1beta1/openstackversion_types.go\<close>).

  The sections of the control plane spec embed the specs of the service operators, which are not
  part of the repository.  Of them the model keeps what the modelled code reads: the flag
  \<open>Enabled\<close> of each section, as a function of the service.  Deletion is the truth value of
  \<open>!DeletionTimestamp.IsZero()\<close>.
\<close>

datatype os_service =
    Barbican | Cinder | Designate | DNS | Galera | Glance | Heat | Horizon | Ironic | Keystone
  | Manila | Memcached | Redis | Neutron | Nova | Octavia | Ovn | Placement | Rabbitmq | Swift
  | Telemetry | Watcher

subsection \<open>OpenStackVersion\<close>

record version_spec =
  vs_TargetVersion :: string
  vs_CustomContainerImages :: custom_images

record version_status =
  st_Conditions :: "conditions option"
  st_DeployedVersion :: "string ptr"
  st_AvailableVersion :: "string ptr"
  st_ContainerImages :: container_images
  st_ContainerImageVersionDefaults :: "(string, container_defaults) gomap"
  st_AvailableServiceDefaults :: "(string, service_defaults) gomap"
  st_ServiceDefaults :: service_defaults
  st_TrackedCustomImages :: "(string, custom_images) gomap"
  st_ObservedGeneration :: int

record os_version =
  v_Name :: string
  v_Namespace :: string
  v_Generation :: int
  v_Annotations :: "(string, string) gomap"
  v_Deleting :: bool
  v_Finalizers :: "string list"
  v_Spec :: version_spec
  v_Status :: version_status

abbreviation v_images :: "os_version \<Rightarrow> container_images" where
  "v_images v \<equiv> st_ContainerImages (v_Status v)"

subsection \<open>OpenStackControlPlane\<close>

record cp_spec =
  sp_Enabled :: "os_service \<Rightarrow> bool"
  sp_PodLevelTLS :: bool
  sp_TopologyRef :: "string ptr"
  sp_NotificationsBusInstance :: "string ptr"
  sp_NotificationsBusCluster :: "string ptr"

record cp_status =
  cs_Conditions :: "conditions option"
  cs_DeployedVersion :: "string ptr"
  cs_DeployedOVNVersion :: "string ptr"
  cs_ContainerImages :: container_images
  cs_ObservedGeneration :: int

record control_plane =
  cp_Name :: string
  cp_Namespace :: string
  cp_UID :: string
  cp_Generation :: int
  cp_Annotations :: "(string, string) gomap"
  cp_Deleting :: bool
  cp_Finalizers :: "string list"
  cp_Spec :: cp_spec
  cp_Status :: cp_status

abbreviation cp_Enabled :: "control_plane \<Rightarrow> os_service \<Rightarrow> bool" where
  "cp_Enabled cp \<equiv> sp_Enabled (cp_Spec cp)"

abbreviation cp_images :: "control_plane \<Rightarrow> container_images" where
  "cp_images cp \<equiv> cs_ContainerImages (cp_Status cp)"

definition cp_conds :: "control_plane \<Rightarrow> conditions" where
  "cp_conds cp = (case cs_Conditions (cp_Status cp) of None \<Rightarrow> [] | Some cs \<Rightarrow> cs)"

definition cp_IsReady :: "condlib \<Rightarrow> control_plane \<Rightarrow> bool" where
  "cp_IsReady L cp = lc_IsTrue L (cp_conds cp) ReadyCondition"

definition OpenStackControlPlaneOVNReadyCondition :: string where
  "OpenStackControlPlaneOVNReadyCondition = ''OpenStackControlPlaneOVNReady''"
definition OpenStackControlPlaneRabbitMQReadyCondition :: string where
  "OpenStackControlPlaneRabbitMQReadyCondition = ''OpenStackControlPlaneRabbitMQReady''"
definition OpenStackControlPlaneMariaDBReadyCondition :: string where
  "OpenStackControlPlaneMariaDBReadyCondition = ''OpenStackControlPlaneMariaDBReady''"
definition OpenStackControlPlaneMemcachedReadyCondition :: string where
  "OpenStackControlPlaneMemcachedReadyCondition = ''OpenStackControlPlaneMemcachedReady''"
definition OpenStackControlPlaneKeystoneAPIReadyCondition :: string where
  "OpenStackControlPlaneKeystoneAPIReadyCondition = ''OpenStackControlPlaneKeystoneAPIReady''"

end
