(* ===== verification/Image_Laws.thy ===== *)
theory Image_Laws
  imports Images
begin

text \<open>
  Laws of the image functions of \<open>Images\<close>: the names of environment variables and of fields
  correspond, the comparison functions decide equality, the defaults read from the environment and
  the write of \<open>GetContainerImages\<close> through the maps of the spec.
\<close>

subsection \<open>Names of fields and environment variables\<close>

lemma distinct_image_fields: "distinct image_fields"
proof -
  have "map field_index image_fields = [0..<94]"
    by (simp add: image_fields_def upt_rec)
  then have "distinct (map field_index image_fields)" by (simp only: distinct_upt)
  then show ?thesis by (simp add: distinct_map)
qed

definition underscore_join :: "string list \<Rightarrow> string" where
  "underscore_join ws = concat (map (\<lambda>w. w @ ''_'') (butlast ws)) @ (if ws = [] then [] else last ws)"

lemma underscore_join_Cons:
  "underscore_join (w # ws) = (if ws = [] then w else w @ ''_'' @ underscore_join ws)"
  by (simp add: underscore_join_def)

lemma not_alnum_underscore: "\<not> is_alnum CHR ''_''"
  by code_simp

lemma alnum_runs_word:
  assumes "w \<noteq> []" and "list_all is_alnum w" and "rest = [] \<or> \<not> is_alnum (hd rest)"
  shows "alnum_runs (w @ rest) = w # alnum_runs rest"
proof -
  from assms(1) obtain c cs where w: "w = c # cs" by (cases w) auto
  have "takeWhile is_alnum (cs @ rest) = cs" "dropWhile is_alnum (cs @ rest) = rest"
    using assms(2,3) w by (auto simp: list_all_iff takeWhile_append dropWhile_append takeWhile_eq_all_conv
        intro: takeWhile_eq_Nil_iff [THEN iffD2] dropWhile_eq_self_iff [THEN iffD2])
  then show ?thesis using assms(2) w by simp
qed

lemma alnum_runs_join:
  "list_all (\<lambda>w. w \<noteq> [] \<and> list_all is_alnum w) ws \<Longrightarrow> alnum_runs (underscore_join ws) = ws"
proof (induction ws)
  case Nil
  then show ?case by (simp add: underscore_join_def)
next
  case (Cons w ws)
  show ?case
  proof (cases "ws = []")
    case True
    then show ?thesis using Cons.prems alnum_runs_word [of w "[]"] by (simp add: underscore_join_Cons)
  next
    case False
    have "alnum_runs (w @ ''_'' @ underscore_join ws) = w # alnum_runs (''_'' @ underscore_join ws)"
      using Cons.prems by (intro alnum_runs_word) (auto simp: not_alnum_underscore)
    also have "alnum_runs (''_'' @ underscore_join ws) = ws"
      using Cons by (simp add: not_alnum_underscore)
    finally show ?thesis using False by (simp add: underscore_join_Cons)
  qed
qed

definition capitalise :: "string \<Rightarrow> string" where
  "capitalise m = map to_upper (take 1 m) @ map to_lower (drop 1 m)"

text \<open>C7: the field name computed from a variable \<open>RELATED_IMAGE_<words>_URL_DEFAULT\<close> is the
  concatenation of its words, each with a capital first letter and small remaining ones, up to the
  two spellings the code corrects.\<close>

lemma env_field_name_join:
  assumes "list_all (\<lambda>w. w \<noteq> [] \<and> list_all is_alnum w) ws"
  shows "env_field_name (underscore_join ([''RELATED'', ''IMAGE''] @ ws @ [''URL'', ''DEFAULT''])) =
     Some (replace_all ''Cloudkitty'' ''CloudKitty'' (replace_all ''Api'' ''API'' (concat (map capitalise ws))))"
proof -
  have "list_all (\<lambda>w. w \<noteq> [] \<and> list_all is_alnum w) [''RELATED'', ''IMAGE'', ''URL'', ''DEFAULT'']"
    by code_simp
  then have "alnum_runs (underscore_join ([''RELATED'', ''IMAGE''] @ ws @ [''URL'', ''DEFAULT''])) =
      [''RELATED'', ''IMAGE''] @ ws @ [''URL'', ''DEFAULT'']"
    using assms by (intro alnum_runs_join) simp
  then show ?thesis by (simp add: env_field_name_def capitalise_def [abs_def])
qed

lemma env_field_name_join_witness:
  "env_field_name ''RELATED_IMAGE_CLOUDKITTY_API_IMAGE_URL_DEFAULT'' = Some (field_name CloudKittyAPIImage)"
proof -
  have ok: "list_all (\<lambda>w. w \<noteq> [] \<and> list_all is_alnum w) [''CLOUDKITTY'', ''API'', ''IMAGE'']"
    by code_simp
  have key: "underscore_join ([''RELATED'', ''IMAGE''] @ [''CLOUDKITTY'', ''API'', ''IMAGE''] @ [''URL'', ''DEFAULT'']) =
      ''RELATED_IMAGE_CLOUDKITTY_API_IMAGE_URL_DEFAULT''"
    by (simp add: underscore_join_def)
  have name: "replace_all ''Cloudkitty'' ''CloudKitty'' (replace_all ''Api'' ''API''
      (concat (map capitalise [''CLOUDKITTY'', ''API'', ''IMAGE'']))) = ''CloudKittyAPIImage''"
    by code_simp
  show ?thesis using env_field_name_join [OF ok] unfolding key name by simp
qed

subsection \<open>Comparisons are equalities\<close>

locale ptr_comparison =
  fixes eq :: "string ptr \<Rightarrow> string ptr \<Rightarrow> bool"
  assumes eq_iff: "eq a b \<longleftrightarrow> a = b"
begin

lemma fields_eq_iff: "list_all (\<lambda>f. eq (a f) (b f)) fs \<longleftrightarrow> (\<forall>f\<in>set fs. a f = b f)"
  by (simp add: eq_iff list_all_iff)

lemma map_values_eq_iff:
  "list_all (\<lambda>(k, v). case map_of b k of None \<Rightarrow> False | Some w \<Rightarrow> eq v w) a \<longleftrightarrow>
   (\<forall>(k, v)\<in>set a. map_of b k = Some v)"
  by (auto simp: eq_iff list_all_iff split: option.splits)

end

interpretation string_ptr: ptr_comparison stringPtrEqual
  by unfold_locales (simp add: stringPtrEqual_def ptr_eq_cases)

lemma template_fields_equal_iff: "template_fields_equal fs a b \<longleftrightarrow> (\<forall>f\<in>set fs. a f = b f)"
  by (induction fs a b rule: template_fields_equal.induct) auto

lemma containerTemplateEqual_iff: "containerTemplateEqual a b \<longleftrightarrow> a = b"
  by (auto simp: containerTemplateEqual_def template_fields_equal_iff)

text \<open>Equal sizes and inclusion of the bindings of one map in the other make the maps equal.\<close>

lemma maps_equal_by_size:
  assumes "gomap_wf a" and "gomap_wf b" and "length a = length b"
    and "\<forall>(k, v)\<in>set a. map_of b k = Some v"
  shows "map_of a = map_of b"
proof -
  have sub: "set a \<subseteq> set b" using assms(4) by (auto dest: map_of_SomeD)
  have "card (set a) = length a" "card (set b) = length b"
    using assms(1,2) by (auto simp: gomap_wf_def distinct_map intro: distinct_card)
  then have "set a = set b" using sub assms(3) by (simp add: card_subset_eq)
  then show ?thesis using assms(1,2) by (simp add: gomap_wf_def map_of_inject_set)
qed

lemma map_of_eq_imp_length:
  assumes "gomap_wf a" and "gomap_wf b" and "map_of a = map_of b"
  shows "length a = length b"
proof -
  have "set a = set b" using assms by (simp add: gomap_wf_def map_of_inject_set)
  moreover have "card (set a) = length a" "card (set b) = length b"
    using assms(1,2) by (auto simp: gomap_wf_def distinct_map intro: distinct_card)
  ultimately show ?thesis by simp
qed

lemma stringMapEqual_iff:
  assumes "gomap_wf a" and "gomap_wf b"
  shows "stringMapEqual a b \<longleftrightarrow> map_of a = map_of b"
proof
  assume "stringMapEqual a b"
  then show "map_of a = map_of b"
    using assms by (auto simp: stringMapEqual_def string_ptr.map_values_eq_iff intro: maps_equal_by_size)
next
  assume eq: "map_of a = map_of b"
  have "\<forall>(k, v)\<in>set a. map_of a k = Some v"
    using assms(1) by (auto simp: gomap_wf_def)
  then have "\<forall>(k, v)\<in>set a. map_of b k = Some v" using eq by simp
  moreover have "length a = length b" using assms eq by (rule map_of_eq_imp_length)
  ultimately show "stringMapEqual a b"
    by (simp add: stringMapEqual_def string_ptr.map_values_eq_iff)
qed

lemma customContainerImagesAllModified_iff:
  assumes "gomap_wf (unnil (cc_CinderVolumeImages a))" "gomap_wf (unnil (cc_CinderVolumeImages b))"
    and "gomap_wf (unnil (cc_ManilaShareImages a))" "gomap_wf (unnil (cc_ManilaShareImages b))"
  shows "customContainerImagesAllModified a b \<longleftrightarrow>
     cc_template a \<noteq> cc_template b \<or>
     map_of (unnil (cc_CinderVolumeImages a)) \<noteq> map_of (unnil (cc_CinderVolumeImages b)) \<or>
     map_of (unnil (cc_ManilaShareImages a)) \<noteq> map_of (unnil (cc_ManilaShareImages b))"
  using assms by (simp add: customContainerImagesAllModified_def containerTemplateEqual_iff stringMapEqual_iff)

lemma hasAnyCustomImage_iff:
  "hasAnyCustomImage c \<longleftrightarrow>
     \<not> isContainerTemplateEmpty (cc_template c) \<or>
     (\<exists>(k, img)\<in>set (unnil (cc_CinderVolumeImages c)). img \<noteq> None) \<or>
     (\<exists>(k, img)\<in>set (unnil (cc_ManilaShareImages c)). img \<noteq> None)"
  by (cases "cc_CinderVolumeImages c"; cases "cc_ManilaShareImages c")
    (auto simp: hasAnyCustomImage_def isContainerTemplateEmpty_def list_ex_iff)

subsection \<open>Defaults from the environment\<close>

lemma find_field: "FieldByName (field_name f) = Some g \<Longrightarrow> field_name g = field_name f"
  by (auto simp: FieldByName_def find_Some_iff)

definition env_target :: "string \<Rightarrow> image_field option" where
  "env_target k = Option.bind (env_field_name k) FieldByName"

lemma set_default_field_template:
  assumes "set_default_field (k, v) d = Some d'"
  shows "cd_template d' = (case env_target k of None \<Rightarrow> cd_template d | Some f \<Rightarrow> (cd_template d)(f := v))"
  using assms by (auto simp: set_default_field_def env_target_def split: option.splits if_splits)

lemma set_default_fields_other:
  assumes "set_default_fields env d = Some d'" and "\<forall>k\<in>fst ` set env. env_target k \<noteq> Some f"
  shows "cd_template d' f = cd_template d f"
  using assms
proof (induction env d rule: set_default_fields.induct)
  case (2 kv kvs d)
  then obtain d1 where d1: "set_default_field (fst kv, snd kv) d = Some d1"
    by (auto simp: bind_eq_Some_conv)
  then have "cd_template d1 f = cd_template d f"
    using set_default_field_template [OF d1] "2.prems"(2) by (auto split: option.splits)
  with 2 d1 show ?case by simp
qed simp

lemma set_default_fields_target:
  assumes "set_default_fields env d = Some d'" and "gomap_wf env" and "(k, v) \<in> set env"
    and "env_target k = Some f" and "\<forall>k'\<in>fst ` set env. env_target k' = Some f \<longrightarrow> k' = k"
  shows "cd_template d' f = v"
  using assms
proof (induction env d rule: set_default_fields.induct)
  case (2 kv kvs d)
  obtain d1 where d1: "set_default_field (fst kv, snd kv) d = Some d1" and d': "set_default_fields kvs d1 = Some d'"
    using "2.prems"(1) by (auto simp: bind_eq_Some_conv)
  show ?case
  proof (cases "fst kv = k")
    case True
    have nk: "k \<notin> fst ` set kvs" using "2.prems"(2) True by (auto simp: gomap_wf_def)
    then have "\<forall>k'\<in>fst ` set kvs. env_target k' \<noteq> Some f" using "2.prems"(5) by fastforce
    then have "cd_template d' f = cd_template d1 f" by (rule set_default_fields_other [OF d'])
    moreover have "snd kv = v" using "2.prems"(3) True nk by (cases kv) (auto simp: image_iff)
    ultimately show ?thesis using set_default_field_template [OF d1] True "2.prems"(4) by simp
  next
    case False
    then show ?thesis using "2.IH" [of d1] d1 d' "2.prems" by (auto simp: gomap_wf_def)
  qed
qed simp

abbreviation special_fields :: "image_field set" where
  "special_fields \<equiv> {InfraDnsmasqImage, TestTobikoImage, TestAnsibletestImage, TestHorizontestImage}"

lemma put_env_template:
  "cd_template (put_env env k f d) g = (if g = f \<and> env k \<noteq> None then env k else cd_template d g)"
  by (auto simp: put_env_def)

lemma Initialize_template:
  assumes "InitializeOpenStackVersionImageDefaults env = Some d" and "f \<notin> special_fields"
  obtains d0 where "set_default_fields env empty_defaults = Some d0" and "cd_template d f = cd_template d0 f"
  using assms by (auto simp: InitializeOpenStackVersionImageDefaults_def Let_def put_env_template split: option.splits)

text \<open>An environment variable that is the only one naming a field of the image template sets
  exactly that field of the defaults to its value, and a field no variable names stays nil.\<close>

lemma image_defaults_from_environment:
  assumes "InitializeOpenStackVersionImageDefaults env = Some d" and "gomap_wf env"
    and "f \<notin> special_fields"
  shows "(\<forall>k v. (k, v) \<in> set env \<longrightarrow> env_target k = Some f \<longrightarrow>
           (\<forall>k'\<in>fst ` set env. env_target k' = Some f \<longrightarrow> k' = k) \<longrightarrow> cd_template d f = v) \<and>
         ((\<forall>k\<in>fst ` set env. env_target k \<noteq> Some f) \<longrightarrow> cd_template d f = None)"
proof -
  obtain d0 where d0: "set_default_fields env empty_defaults = Some d0"
    and eq: "cd_template d f = cd_template d0 f"
    using Initialize_template [OF assms(1,3)] .
  have "cd_template empty_defaults f = None" by (simp add: empty_defaults_def empty_template_def)
  then have "cd_template d f = None" if "\<forall>k\<in>fst ` set env. env_target k \<noteq> Some f"
    using set_default_fields_other [OF d0 that] eq by simp
  moreover have "cd_template d f = v"
    if "(k, v) \<in> set env" "env_target k = Some f" "\<forall>k'\<in>fst ` set env. env_target k' = Some f \<longrightarrow> k' = k" for k v
    unfolding eq by (rule set_default_fields_target [OF d0 assms(2) that])
  ultimately show ?thesis by blast
qed

text \<open>One variable of the operator's environment.\<close>

abbreviation keystone_variable :: string where
  "keystone_variable \<equiv> ''RELATED_IMAGE_KEYSTONE_API_IMAGE_URL_DEFAULT''"

lemma keystone_field_name: "env_field_name keystone_variable = Some ''KeystoneAPIImage''"
  by code_simp

lemma keystone_field: "FieldByName ''KeystoneAPIImage'' = Some KeystoneAPIImage"
  unfolding FieldByName_def image_fields_def by simp

theorem image_defaults_from_environment_witness:
  "\<exists>d. InitializeOpenStackVersionImageDefaults [(keystone_variable, Some ''keystone:1'')] = Some d \<and>
     cd_template d KeystoneAPIImage = Some ''keystone:1''"
proof -
  have t: "env_target keystone_variable = Some KeystoneAPIImage"
    unfolding env_target_def keystone_field_name by (simp add: keystone_field)
  have "set_default_fields [(keystone_variable, Some ''keystone:1'')] empty_defaults \<noteq> None"
    unfolding set_default_fields.simps set_default_field_def fst_conv keystone_field_name
    by (simp add: keystone_field)
  then obtain d where d: "InitializeOpenStackVersionImageDefaults [(keystone_variable, Some ''keystone:1'')] = Some d"
    unfolding InitializeOpenStackVersionImageDefaults_def by (auto simp: Let_def)
  have "cd_template d KeystoneAPIImage = Some ''keystone:1''"
    using image_defaults_from_environment [OF d, of KeystoneAPIImage] t by (auto simp: gomap_wf_def)
  with d show ?thesis by blast
qed

subsection \<open>Images of a version\<close>

lemma images_template_maps:
  "images_template d (c\<lparr>cc_CinderVolumeImages := v, cc_ManilaShareImages := s\<rparr>) = images_template d c"
  by (simp add: fun_eq_iff images_template_def getOpenstackNetworkExporterImg_def)

lemma put_put_same: "gomap_put k v (gomap_put k w m) = gomap_put k v m"
  by (induction m) auto

text \<open>The write of the default backend image through the maps of the spec does not leak into a
  later version: computing the images of a second version from the spec the first computation left
  behind gives what the untouched spec gives.\<close>

lemma GetContainerImages_no_leak:
  "fst (GetContainerImages d2 (snd (GetContainerImages d1 c))) = fst (GetContainerImages d2 c)"
  by (cases "cc_CinderVolumeImages c"; cases "cc_ManilaShareImages c")
    (simp_all add: GetContainerImages_def Let_def images_template_maps put_put_same)

lemma GetContainerImages_template:
  "ci_template (fst (GetContainerImages d c)) = images_template d c"
  by (simp add: GetContainerImages_def Let_def)

lemma GetContainerImages_apache:
  "ci_OctaviaApacheImage (fst (GetContainerImages d c)) = ci_template (fst (GetContainerImages d c)) ApacheImage"
  "ci_CeilometerProxyImage (fst (GetContainerImages d c)) = ci_template (fst (GetContainerImages d c)) ApacheImage"
  by (simp_all add: GetContainerImages_def Let_def images_template_def)

lemma GetContainerImages_default_backends:
  "map_of (ci_CinderVolumeImages (fst (GetContainerImages d c))) ''default'' = Some (cd_CinderVolumeImage d)"
  "map_of (ci_ManilaShareImages (fst (GetContainerImages d c))) ''default'' = Some (cd_ManilaShareImage d)"
  by (simp_all add: GetContainerImages_def Let_def gomap_simps)

text \<open>What the call leaves in the spec differs from the spec it was given exactly where a backend
  map exists whose \<open>default\<close> entry is not the default image.\<close>

lemma GetContainerImages_modifies_spec:
  assumes "cc_CinderVolumeImages c = Some m" and "gomap_wf m"
    and "map_of m ''default'' \<noteq> Some (cd_CinderVolumeImage d)"
    and "gomap_wf (unnil (cc_ManilaShareImages c))"
  shows "customContainerImagesAllModified c (snd (GetContainerImages d c))"
proof -
  have "map_of m \<noteq> map_of (gomap_put ''default'' (cd_CinderVolumeImage d) m)"
    using assms(3) by (metis fun_upd_same map_of_put)
  then show ?thesis
    using assms by (subst customContainerImagesAllModified_iff)
      (auto simp: GetContainerImages_def Let_def split: option.splits)
qed

end
