(* ===== verification/Image_Match.thy ===== *)
theory Image_Match
  imports Resources Image_Laws
begin

text \<open>
  Comparison of the images a control plane has deployed with the images of its version: the
  functions \<open>*ImageMatch\<close> of \<open>internal/openstack\<close>, one per service, and
  \<open>ControlplaneContainerImageMatch\<close> of \<open>internal/openstack/version.go\<close>, which the version controller
  calls before it declares a minor update of the control plane complete.

  The locale \<open>image_match\<close> is the contract every one of these functions promises to that caller.
\<close>

definition stringPointersEqual :: "string ptr \<Rightarrow> string ptr \<Rightarrow> bool" where
  "stringPointersEqual a b =
     (if a = None \<and> b = None then True else if a = None \<or> b = None then False else the a = the b)"

definition BarbicanImageMatch :: "control_plane \<Rightarrow> os_version \<Rightarrow> bool" where
  "BarbicanImageMatch cp v =
     (if cp_Enabled cp Barbican
      then (if \<not> stringPointersEqual (ci_template (cp_images cp) BarbicanAPIImage) (ci_template (v_images v) BarbicanAPIImage)
          \<or> \<not> stringPointersEqual (ci_template (cp_images cp) BarbicanWorkerImage) (ci_template (v_images v) BarbicanWorkerImage)
          \<or> \<not> stringPointersEqual (ci_template (cp_images cp) BarbicanKeystoneListenerImage) (ci_template (v_images v) BarbicanKeystoneListenerImage)
            then False else True)
      else True)"

definition CinderImageMatch :: "control_plane \<Rightarrow> os_version \<Rightarrow> bool" where
  "CinderImageMatch cp v =
     (if cp_Enabled cp Cinder
      then (if \<not> stringPointersEqual (ci_template (cp_images cp) CinderAPIImage) (ci_template (v_images v) CinderAPIImage)
          \<or> \<not> stringPointersEqual (ci_template (cp_images cp) CinderSchedulerImage) (ci_template (v_images v) CinderSchedulerImage)
          \<or> \<not> stringPointersEqual (ci_template (cp_images cp) CinderBackupImage) (ci_template (v_images v) CinderBackupImage)
            then False else list_all (\<lambda>(name, img). stringPointersEqual (gomap_get None (ci_CinderVolumeImages (cp_images cp)) name) img)
            (ci_CinderVolumeImages (v_images v)))
      else True)"

definition DesignateImageMatch :: "control_plane \<Rightarrow> os_version \<Rightarrow> bool" where
  "DesignateImageMatch cp v =
     (if cp_Enabled cp Designate
      then (if \<not> stringPointersEqual (ci_template (cp_images cp) DesignateAPIImage) (ci_template (v_images v) DesignateAPIImage)
          \<or> \<not> stringPointersEqual (ci_template (cp_images cp) DesignateCentralImage) (ci_template (v_images v) DesignateCentralImage)
          \<or> \<not> stringPointersEqual (ci_template (cp_images cp) DesignateMdnsImage) (ci_template (v_images v) DesignateMdnsImage)
          \<or> \<not> stringPointersEqual (ci_template (cp_images cp) DesignateProducerImage) (ci_template (v_images v) DesignateProducerImage)
          \<or> \<not> stringPointersEqual (ci_template (cp_images cp) DesignateWorkerImage) (ci_template (v_images v) DesignateWorkerImage)
          \<or> \<not> stringPointersEqual (ci_template (cp_images cp) DesignateBackendbind9Image) (ci_template (v_images v) DesignateBackendbind9Image)
          \<or> \<not> stringPointersEqual (ci_template (cp_images cp) DesignateUnboundImage) (ci_template (v_images v) DesignateUnboundImage)
            then False else True)
      else True)"

definition DnsmasqImageMatch :: "control_plane \<Rightarrow> os_version \<Rightarrow> bool" where
  "DnsmasqImageMatch cp v =
     (if cp_Enabled cp DNS
      then (if \<not> stringPointersEqual (ci_template (cp_images cp) InfraDnsmasqImage) (ci_template (v_images v) InfraDnsmasqImage)
            then False else True)
      else True)"

definition GaleraImageMatch :: "control_plane \<Rightarrow> os_version \<Rightarrow> bool" where
  "GaleraImageMatch cp v =
     (if cp_Enabled cp Galera
      then (if \<not> stringPointersEqual (ci_template (cp_images cp) MariadbImage) (ci_template (v_images v) MariadbImage)
            then False else True)
      else True)"

definition GlanceImageMatch :: "control_plane \<Rightarrow> os_version \<Rightarrow> bool" where
  "GlanceImageMatch cp v =
     (if cp_Enabled cp Glance
      then (if \<not> stringPointersEqual (ci_template (cp_images cp) GlanceAPIImage) (ci_template (v_images v) GlanceAPIImage)
            then False else True)
      else True)"

definition HeatImageMatch :: "control_plane \<Rightarrow> os_version \<Rightarrow> bool" where
  "HeatImageMatch cp v =
     (if cp_Enabled cp Heat
      then (if \<not> stringPointersEqual (ci_template (cp_images cp) HeatAPIImage) (ci_template (v_images v) HeatAPIImage)
          \<or> \<not> stringPointersEqual (ci_template (cp_images cp) HeatCfnapiImage) (ci_template (v_images v) HeatCfnapiImage)
          \<or> \<not> stringPointersEqual (ci_template (cp_images cp) HeatEngineImage) (ci_template (v_images v) HeatEngineImage)
            then False else True)
      else True)"

definition HorizonImageMatch :: "control_plane \<Rightarrow> os_version \<Rightarrow> bool" where
  "HorizonImageMatch cp v =
     (if cp_Enabled cp Horizon
      then (if \<not> stringPointersEqual (ci_template (cp_images cp) HorizonImage) (ci_template (v_images v) HorizonImage)
            then False else True)
      else True)"

definition IronicImageMatch :: "control_plane \<Rightarrow> os_version \<Rightarrow> bool" where
  "IronicImageMatch cp v =
     (if cp_Enabled cp Ironic
      then (if \<not> stringPointersEqual (ci_template (cp_images cp) IronicAPIImage) (ci_template (v_images v) IronicAPIImage)
          \<or> \<not> stringPointersEqual (ci_template (cp_images cp) IronicConductorImage) (ci_template (v_images v) IronicConductorImage)
          \<or> \<not> stringPointersEqual (ci_template (cp_images cp) IronicInspectorImage) (ci_template (v_images v) IronicInspectorImage)
          \<or> \<not> stringPointersEqual (ci_template (cp_images cp) IronicNeutronAgentImage) (ci_template (v_images v) IronicNeutronAgentImage)
          \<or> \<not> stringPointersEqual (ci_template (cp_images cp) IronicPxeImage) (ci_template (v_images v) IronicPxeImage)
          \<or> \<not> stringPointersEqual (ci_template (cp_images cp) IronicPythonAgentImage) (ci_template (v_images v) IronicPythonAgentImage)
            then False else True)
      else True)"

definition KeystoneImageMatch :: "control_plane \<Rightarrow> os_version \<Rightarrow> bool" where
  "KeystoneImageMatch cp v =
     (if cp_Enabled cp Keystone
      then (if \<not> stringPointersEqual (ci_template (cp_images cp) KeystoneAPIImage) (ci_template (v_images v) KeystoneAPIImage)
            then False else True)
      else True)"

definition ManilaImageMatch :: "control_plane \<Rightarrow> os_version \<Rightarrow> bool" where
  "ManilaImageMatch cp v =
     (if cp_Enabled cp Manila
      then (if \<not> stringPointersEqual (ci_template (cp_images cp) ManilaAPIImage) (ci_template (v_images v) ManilaAPIImage)
          \<or> \<not> stringPointersEqual (ci_template (cp_images cp) ManilaSchedulerImage) (ci_template (v_images v) ManilaSchedulerImage)
            then False else list_all (\<lambda>(name, img). stringPointersEqual (gomap_get None (ci_ManilaShareImages (cp_images cp)) name) img)
            (ci_ManilaShareImages (v_images v)))
      else True)"

definition MemcachedImageMatch :: "control_plane \<Rightarrow> os_version \<Rightarrow> bool" where
  "MemcachedImageMatch cp v =
     (if cp_Enabled cp Memcached
      then (if \<not> stringPointersEqual (ci_template (cp_images cp) InfraMemcachedImage) (ci_template (v_images v) InfraMemcachedImage)
            then False else True)
      else True)"

definition RedisImageMatch :: "control_plane \<Rightarrow> os_version \<Rightarrow> bool" where
  "RedisImageMatch cp v =
     (if cp_Enabled cp Redis
      then (if \<not> stringPointersEqual (ci_template (cp_images cp) InfraRedisImage) (ci_template (v_images v) InfraRedisImage)
            then False else True)
      else True)"

definition NeutronImageMatch :: "control_plane \<Rightarrow> os_version \<Rightarrow> bool" where
  "NeutronImageMatch cp v =
     (if cp_Enabled cp Neutron
      then (if \<not> stringPointersEqual (ci_template (cp_images cp) NeutronAPIImage) (ci_template (v_images v) NeutronAPIImage)
            then False else True)
      else True)"

definition NovaImageMatch :: "control_plane \<Rightarrow> os_version \<Rightarrow> bool" where
  "NovaImageMatch cp v =
     (if cp_Enabled cp Nova
      then (if \<not> stringPointersEqual (ci_template (cp_images cp) NovaAPIImage) (ci_template (v_images v) NovaAPIImage)
          \<or> \<not> stringPointersEqual (ci_template (cp_images cp) NovaComputeImage) (ci_template (v_images v) NovaComputeImage)
          \<or> \<not> stringPointersEqual (ci_template (cp_images cp) NovaConductorImage) (ci_template (v_images v) NovaConductorImage)
          \<or> \<not> stringPointersEqual (ci_template (cp_images cp) NovaNovncImage) (ci_template (v_images v) NovaNovncImage)
          \<or> \<not> stringPointersEqual (ci_template (cp_images cp) NovaSchedulerImage) (ci_template (v_images v) NovaSchedulerImage)
            then False else True)
      else True)"

definition OctaviaImageMatch :: "control_plane \<Rightarrow> os_version \<Rightarrow> bool" where
  "OctaviaImageMatch cp v =
     (if cp_Enabled cp Octavia
      then (if \<not> stringPointersEqual (ci_template (cp_images cp) OctaviaAPIImage) (ci_template (v_images v) OctaviaAPIImage)
          \<or> \<not> stringPointersEqual (ci_template (cp_images cp) OctaviaWorkerImage) (ci_template (v_images v) OctaviaWorkerImage)
          \<or> \<not> stringPointersEqual (ci_template (cp_images cp) OctaviaHealthmanagerImage) (ci_template (v_images v) OctaviaHealthmanagerImage)
          \<or> \<not> stringPointersEqual (ci_template (cp_images cp) OctaviaHousekeepingImage) (ci_template (v_images v) OctaviaHousekeepingImage)
          \<or> \<not> stringPointersEqual (ci_template (cp_images cp) OctaviaRsyslogImage) (ci_template (v_images v) OctaviaRsyslogImage)
          \<or> \<not> stringPointersEqual (ci_OctaviaApacheImage (cp_images cp)) (ci_template (v_images v) ApacheImage)
            then False else True)
      else True)"

definition ClientImageMatch :: "control_plane \<Rightarrow> os_version \<Rightarrow> bool" where
  "ClientImageMatch cp v =
     (if \<not> stringPointersEqual (ci_template (cp_images cp) OpenstackClientImage) (ci_template (v_images v) OpenstackClientImage) then False else True)"

definition OVNControllerImageMatch :: "control_plane \<Rightarrow> os_version \<Rightarrow> bool" where
  "OVNControllerImageMatch cp v =
     (if cp_Enabled cp Ovn
      then (if \<not> stringPointersEqual (ci_template (cp_images cp) OvnControllerImage) (ci_template (v_images v) OvnControllerImage)
          \<or> \<not> stringPointersEqual (ci_template (cp_images cp) OvnControllerOvsImage) (ci_template (v_images v) OvnControllerOvsImage)
            then False else True)
      else True)"

definition OVNNorthImageMatch :: "control_plane \<Rightarrow> os_version \<Rightarrow> bool" where
  "OVNNorthImageMatch cp v =
     (if cp_Enabled cp Ovn
      then (if \<not> stringPointersEqual (ci_template (cp_images cp) OvnNorthdImage) (ci_template (v_images v) OvnNorthdImage)
            then False else True)
      else True)"

definition OVNDbClusterImageMatch :: "control_plane \<Rightarrow> os_version \<Rightarrow> bool" where
  "OVNDbClusterImageMatch cp v =
     (if cp_Enabled cp Ovn
      then (if \<not> stringPointersEqual (ci_template (cp_images cp) OvnNbDbclusterImage) (ci_template (v_images v) OvnNbDbclusterImage)
          \<or> \<not> stringPointersEqual (ci_template (cp_images cp) OvnSbDbclusterImage) (ci_template (v_images v) OvnSbDbclusterImage)
            then False else True)
      else True)"

definition PlacementImageMatch :: "control_plane \<Rightarrow> os_version \<Rightarrow> bool" where
  "PlacementImageMatch cp v =
     (if cp_Enabled cp Placement
      then (if \<not> stringPointersEqual (ci_template (cp_images cp) PlacementAPIImage) (ci_template (v_images v) PlacementAPIImage)
            then False else True)
      else True)"

definition RabbitmqImageMatch :: "control_plane \<Rightarrow> os_version \<Rightarrow> bool" where
  "RabbitmqImageMatch cp v =
     (if cp_Enabled cp Rabbitmq
      then (if \<not> stringPointersEqual (ci_template (cp_images cp) RabbitmqImage) (ci_template (v_images v) RabbitmqImage)
            then False else True)
      else True)"

definition SwiftImageMatch :: "control_plane \<Rightarrow> os_version \<Rightarrow> bool" where
  "SwiftImageMatch cp v =
     (if cp_Enabled cp Swift
      then (if \<not> stringPointersEqual (ci_template (cp_images cp) SwiftAccountImage) (ci_template (v_images v) SwiftAccountImage)
          \<or> \<not> stringPointersEqual (ci_template (cp_images cp) SwiftContainerImage) (ci_template (v_images v) SwiftContainerImage)
          \<or> \<not> stringPointersEqual (ci_template (cp_images cp) SwiftObjectImage) (ci_template (v_images v) SwiftObjectImage)
          \<or> \<not> stringPointersEqual (ci_template (cp_images cp) SwiftProxyImage) (ci_template (v_images v) SwiftProxyImage)
            then False else True)
      else True)"

definition TelemetryImageMatch :: "control_plane \<Rightarrow> os_version \<Rightarrow> bool" where
  "TelemetryImageMatch cp v =
     (if cp_Enabled cp Telemetry
      then (if \<not> stringPointersEqual (ci_template (cp_images cp) CeilometerCentralImage) (ci_template (v_images v) CeilometerCentralImage)
          \<or> \<not> stringPointersEqual (ci_template (cp_images cp) CeilometerComputeImage) (ci_template (v_images v) CeilometerComputeImage)
          \<or> \<not> stringPointersEqual (ci_template (cp_images cp) CeilometerIpmiImage) (ci_template (v_images v) CeilometerIpmiImage)
          \<or> \<not> stringPointersEqual (ci_template (cp_images cp) CeilometerNotificationImage) (ci_template (v_images v) CeilometerNotificationImage)
          \<or> \<not> stringPointersEqual (ci_template (cp_images cp) CeilometerSgcoreImage) (ci_template (v_images v) CeilometerSgcoreImage)
          \<or> \<not> stringPointersEqual (ci_CeilometerProxyImage (cp_images cp)) (ci_CeilometerProxyImage (v_images v))
          \<or> \<not> stringPointersEqual (ci_template (cp_images cp) CeilometerMysqldExporterImage) (ci_template (v_images v) CeilometerMysqldExporterImage)
          \<or> \<not> stringPointersEqual (ci_template (cp_images cp) AodhAPIImage) (ci_template (v_images v) AodhAPIImage)
          \<or> \<not> stringPointersEqual (ci_template (cp_images cp) AodhEvaluatorImage) (ci_template (v_images v) AodhEvaluatorImage)
          \<or> \<not> stringPointersEqual (ci_template (cp_images cp) AodhNotifierImage) (ci_template (v_images v) AodhNotifierImage)
          \<or> \<not> stringPointersEqual (ci_template (cp_images cp) AodhListenerImage) (ci_template (v_images v) AodhListenerImage)
          \<or> \<not> stringPointersEqual (ci_template (cp_images cp) CloudKittyAPIImage) (ci_template (v_images v) CloudKittyAPIImage)
          \<or> \<not> stringPointersEqual (ci_template (cp_images cp) CloudKittyProcImage) (ci_template (v_images v) CloudKittyProcImage)
            then False else True)
      else True)"

definition WatcherImageMatch :: "control_plane \<Rightarrow> os_version \<Rightarrow> bool" where
  "WatcherImageMatch cp v =
     (if cp_Enabled cp Watcher
      then (if \<not> stringPointersEqual (ci_template (cp_images cp) WatcherAPIImage) (ci_template (v_images v) WatcherAPIImage)
          \<or> \<not> stringPointersEqual (ci_template (cp_images cp) WatcherApplierImage) (ci_template (v_images v) WatcherApplierImage)
          \<or> \<not> stringPointersEqual (ci_template (cp_images cp) WatcherDecisionEngineImage) (ci_template (v_images v) WatcherDecisionEngineImage)
            then False else True)
      else True)"

text \<open>The checks in the order \<open>ControlplaneContainerImageMatch\<close> makes them, with the name it reports.\<close>

definition image_checks :: "(string \<times> (control_plane \<Rightarrow> os_version \<Rightarrow> bool)) list" where
  "image_checks = [
     (''Barbican'', BarbicanImageMatch),
     (''Cinder'', CinderImageMatch),
     (''Designate'', DesignateImageMatch),
     (''Dnsmasq'', DnsmasqImageMatch),
     (''Galera'', GaleraImageMatch),
     (''Glance'', GlanceImageMatch),
     (''Heat'', HeatImageMatch),
     (''Horizon'', HorizonImageMatch),
     (''Ironic'', IronicImageMatch),
     (''Keystone'', KeystoneImageMatch),
     (''Manila'', ManilaImageMatch),
     (''Memcached'', MemcachedImageMatch),
     (''Redis'', RedisImageMatch),
     (''Neutron'', NeutronImageMatch),
     (''Nova'', NovaImageMatch),
     (''Octavia'', OctaviaImageMatch),
     (''OpenstackClient'', ClientImageMatch),
     (''OVNController'', OVNControllerImageMatch),
     (''OVNNorth'', OVNNorthImageMatch),
     (''OVNDbCluster'', OVNDbClusterImageMatch),
     (''Placement'', PlacementImageMatch),
     (''Rabbitmq'', RabbitmqImageMatch),
     (''Swift'', SwiftImageMatch),
     (''Telemetry'', TelemetryImageMatch),
     (''Watcher'', WatcherImageMatch)]"

definition ControlplaneContainerImageMatch :: "control_plane \<Rightarrow> os_version \<Rightarrow> bool \<times> string list" where
  "ControlplaneContainerImageMatch cp v =
     (let failedMatches = map fst (filter (\<lambda>(_, matches). \<not> matches cp v) image_checks)
      in if failedMatches = [] then (True, []) else (False, failedMatches))"

interpretation string_pointers: ptr_comparison stringPointersEqual
  by unfold_locales (simp add: stringPointersEqual_def ptr_eq_cases)

subsection \<open>The contract of an image check\<close>

text \<open>Images as \<open>GetContainerImages\<close> produces them.\<close>

definition consistent_images :: "container_images \<Rightarrow> bool" where
  "consistent_images i \<longleftrightarrow>
     ci_OctaviaApacheImage i = ci_template i ApacheImage \<and>
     gomap_wf (ci_CinderVolumeImages i) \<and> gomap_wf (ci_ManilaShareImages i)"

lemma consistent_GetContainerImages:
  assumes "gomap_wf (unnil (cc_CinderVolumeImages c))" and "gomap_wf (unnil (cc_ManilaShareImages c))"
  shows "consistent_images (fst (GetContainerImages d c))"
  using assms unfolding consistent_images_def
  by (simp add: GetContainerImages_apache) (simp add: GetContainerImages_def Let_def)

locale image_match =
  fixes matches :: "control_plane \<Rightarrow> os_version \<Rightarrow> bool"
    and enabled :: "control_plane \<Rightarrow> bool"
    and agree :: "container_images \<Rightarrow> container_images \<Rightarrow> bool"
  assumes matches_iff: "matches cp v \<longleftrightarrow> (enabled cp \<longrightarrow> agree (cp_images cp) (v_images v))"
    and agree_self: "consistent_images i \<Longrightarrow> agree i i"
begin

lemma disabled_matches: "\<not> enabled cp \<Longrightarrow> matches cp v"
  by (simp add: matches_iff)

lemma synced_matches:
  "cp_images cp = v_images v \<Longrightarrow> consistent_images (v_images v) \<Longrightarrow> matches cp v"
  by (simp add: matches_iff agree_self)

lemma mismatch_detected:
  "enabled cp \<Longrightarrow> \<not> agree (cp_images cp) (v_images v) \<Longrightarrow> \<not> matches cp v"
  by (simp add: matches_iff)

end

definition same_fields :: "image_field list \<Rightarrow> container_images \<Rightarrow> container_images \<Rightarrow> bool" where
  "same_fields fs i j \<longleftrightarrow> (\<forall>f\<in>set fs. ci_template i f = ci_template j f)"

definition same_backends :: "(string, string ptr) gomap \<Rightarrow> (string, string ptr) gomap \<Rightarrow> bool" where
  "same_backends m n \<longleftrightarrow> list_all (\<lambda>(name, img). gomap_get None m name = img) n"

lemma backends_loop:
  "list_all (\<lambda>(name, img). stringPointersEqual (gomap_get None m name) img) n = same_backends m n"
  by (simp add: same_backends_def string_pointers.eq_iff)

lemma same_backends_self: "gomap_wf m \<Longrightarrow> same_backends m m"
  by (auto simp: same_backends_def list_all_iff gomap_get_def gomap_wf_def)

interpretation barbican: image_match BarbicanImageMatch
    "\<lambda>cp. cp_Enabled cp Barbican"
    "\<lambda>i j. same_fields [BarbicanAPIImage, BarbicanWorkerImage, BarbicanKeystoneListenerImage] i j"
  by unfold_locales
    (auto simp: BarbicanImageMatch_def string_pointers.eq_iff same_fields_def consistent_images_def
       backends_loop same_backends_self)

interpretation cinder: image_match CinderImageMatch
    "\<lambda>cp. cp_Enabled cp Cinder"
    "\<lambda>i j. same_fields [CinderAPIImage, CinderSchedulerImage, CinderBackupImage] i j \<and> same_backends (ci_CinderVolumeImages i) (ci_CinderVolumeImages j)"
  by unfold_locales
    (auto simp: CinderImageMatch_def string_pointers.eq_iff same_fields_def consistent_images_def
       backends_loop same_backends_self)

interpretation designate: image_match DesignateImageMatch
    "\<lambda>cp. cp_Enabled cp Designate"
    "\<lambda>i j. same_fields [DesignateAPIImage, DesignateCentralImage, DesignateMdnsImage, DesignateProducerImage, DesignateWorkerImage, DesignateBackendbind9Image, DesignateUnboundImage] i j"
  by unfold_locales
    (auto simp: DesignateImageMatch_def string_pointers.eq_iff same_fields_def consistent_images_def
       backends_loop same_backends_self)

interpretation dnsmasq: image_match DnsmasqImageMatch
    "\<lambda>cp. cp_Enabled cp DNS"
    "\<lambda>i j. same_fields [InfraDnsmasqImage] i j"
  by unfold_locales
    (auto simp: DnsmasqImageMatch_def string_pointers.eq_iff same_fields_def consistent_images_def
       backends_loop same_backends_self)

interpretation galera: image_match GaleraImageMatch
    "\<lambda>cp. cp_Enabled cp Galera"
    "\<lambda>i j. same_fields [MariadbImage] i j"
  by unfold_locales
    (auto simp: GaleraImageMatch_def string_pointers.eq_iff same_fields_def consistent_images_def
       backends_loop same_backends_self)

interpretation glance: image_match GlanceImageMatch
    "\<lambda>cp. cp_Enabled cp Glance"
    "\<lambda>i j. same_fields [GlanceAPIImage] i j"
  by unfold_locales
    (auto simp: GlanceImageMatch_def string_pointers.eq_iff same_fields_def consistent_images_def
       backends_loop same_backends_self)

interpretation heat: image_match HeatImageMatch
    "\<lambda>cp. cp_Enabled cp Heat"
    "\<lambda>i j. same_fields [HeatAPIImage, HeatCfnapiImage, HeatEngineImage] i j"
  by unfold_locales
    (auto simp: HeatImageMatch_def string_pointers.eq_iff same_fields_def consistent_images_def
       backends_loop same_backends_self)

interpretation horizon: image_match HorizonImageMatch
    "\<lambda>cp. cp_Enabled cp Horizon"
    "\<lambda>i j. same_fields [HorizonImage] i j"
  by unfold_locales
    (auto simp: HorizonImageMatch_def string_pointers.eq_iff same_fields_def consistent_images_def
       backends_loop same_backends_self)

interpretation ironic: image_match IronicImageMatch
    "\<lambda>cp. cp_Enabled cp Ironic"
    "\<lambda>i j. same_fields [IronicAPIImage, IronicConductorImage, IronicInspectorImage, IronicNeutronAgentImage, IronicPxeImage, IronicPythonAgentImage] i j"
  by unfold_locales
    (auto simp: IronicImageMatch_def string_pointers.eq_iff same_fields_def consistent_images_def
       backends_loop same_backends_self)

interpretation keystone: image_match KeystoneImageMatch
    "\<lambda>cp. cp_Enabled cp Keystone"
    "\<lambda>i j. same_fields [KeystoneAPIImage] i j"
  by unfold_locales
    (auto simp: KeystoneImageMatch_def string_pointers.eq_iff same_fields_def consistent_images_def
       backends_loop same_backends_self)

interpretation manila: image_match ManilaImageMatch
    "\<lambda>cp. cp_Enabled cp Manila"
    "\<lambda>i j. same_fields [ManilaAPIImage, ManilaSchedulerImage] i j \<and> same_backends (ci_ManilaShareImages i) (ci_ManilaShareImages j)"
  by unfold_locales
    (auto simp: ManilaImageMatch_def string_pointers.eq_iff same_fields_def consistent_images_def
       backends_loop same_backends_self)

interpretation memcached: image_match MemcachedImageMatch
    "\<lambda>cp. cp_Enabled cp Memcached"
    "\<lambda>i j. same_fields [InfraMemcachedImage] i j"
  by unfold_locales
    (auto simp: MemcachedImageMatch_def string_pointers.eq_iff same_fields_def consistent_images_def
       backends_loop same_backends_self)

interpretation redis: image_match RedisImageMatch
    "\<lambda>cp. cp_Enabled cp Redis"
    "\<lambda>i j. same_fields [InfraRedisImage] i j"
  by unfold_locales
    (auto simp: RedisImageMatch_def string_pointers.eq_iff same_fields_def consistent_images_def
       backends_loop same_backends_self)

interpretation neutron: image_match NeutronImageMatch
    "\<lambda>cp. cp_Enabled cp Neutron"
    "\<lambda>i j. same_fields [NeutronAPIImage] i j"
  by unfold_locales
    (auto simp: NeutronImageMatch_def string_pointers.eq_iff same_fields_def consistent_images_def
       backends_loop same_backends_self)

interpretation nova: image_match NovaImageMatch
    "\<lambda>cp. cp_Enabled cp Nova"
    "\<lambda>i j. same_fields [NovaAPIImage, NovaComputeImage, NovaConductorImage, NovaNovncImage, NovaSchedulerImage] i j"
  by unfold_locales
    (auto simp: NovaImageMatch_def string_pointers.eq_iff same_fields_def consistent_images_def
       backends_loop same_backends_self)

interpretation octavia: image_match OctaviaImageMatch
    "\<lambda>cp. cp_Enabled cp Octavia"
    "\<lambda>i j. same_fields [OctaviaAPIImage, OctaviaWorkerImage, OctaviaHealthmanagerImage, OctaviaHousekeepingImage, OctaviaRsyslogImage] i j \<and> ci_OctaviaApacheImage i = ci_template j ApacheImage"
  by unfold_locales
    (auto simp: OctaviaImageMatch_def string_pointers.eq_iff same_fields_def consistent_images_def
       backends_loop same_backends_self)

interpretation client: image_match ClientImageMatch
    "\<lambda>cp. True"
    "\<lambda>i j. same_fields [OpenstackClientImage] i j"
  by unfold_locales
    (auto simp: ClientImageMatch_def string_pointers.eq_iff same_fields_def consistent_images_def
       backends_loop same_backends_self)

interpretation ovncontroller: image_match OVNControllerImageMatch
    "\<lambda>cp. cp_Enabled cp Ovn"
    "\<lambda>i j. same_fields [OvnControllerImage, OvnControllerOvsImage] i j"
  by unfold_locales
    (auto simp: OVNControllerImageMatch_def string_pointers.eq_iff same_fields_def consistent_images_def
       backends_loop same_backends_self)

interpretation ovnnorth: image_match OVNNorthImageMatch
    "\<lambda>cp. cp_Enabled cp Ovn"
    "\<lambda>i j. same_fields [OvnNorthdImage] i j"
  by unfold_locales
    (auto simp: OVNNorthImageMatch_def string_pointers.eq_iff same_fields_def consistent_images_def
       backends_loop same_backends_self)

interpretation ovndbcluster: image_match OVNDbClusterImageMatch
    "\<lambda>cp. cp_Enabled cp Ovn"
    "\<lambda>i j. same_fields [OvnNbDbclusterImage, OvnSbDbclusterImage] i j"
  by unfold_locales
    (auto simp: OVNDbClusterImageMatch_def string_pointers.eq_iff same_fields_def consistent_images_def
       backends_loop same_backends_self)

interpretation placement: image_match PlacementImageMatch
    "\<lambda>cp. cp_Enabled cp Placement"
    "\<lambda>i j. same_fields [PlacementAPIImage] i j"
  by unfold_locales
    (auto simp: PlacementImageMatch_def string_pointers.eq_iff same_fields_def consistent_images_def
       backends_loop same_backends_self)

interpretation rabbitmq: image_match RabbitmqImageMatch
    "\<lambda>cp. cp_Enabled cp Rabbitmq"
    "\<lambda>i j. same_fields [RabbitmqImage] i j"
  by unfold_locales
    (auto simp: RabbitmqImageMatch_def string_pointers.eq_iff same_fields_def consistent_images_def
       backends_loop same_backends_self)

interpretation swift: image_match SwiftImageMatch
    "\<lambda>cp. cp_Enabled cp Swift"
    "\<lambda>i j. same_fields [SwiftAccountImage, SwiftContainerImage, SwiftObjectImage, SwiftProxyImage] i j"
  by unfold_locales
    (auto simp: SwiftImageMatch_def string_pointers.eq_iff same_fields_def consistent_images_def
       backends_loop same_backends_self)

interpretation telemetry: image_match TelemetryImageMatch
    "\<lambda>cp. cp_Enabled cp Telemetry"
    "\<lambda>i j. same_fields [CeilometerCentralImage, CeilometerComputeImage, CeilometerIpmiImage, CeilometerNotificationImage, CeilometerSgcoreImage, CeilometerMysqldExporterImage, AodhAPIImage, AodhEvaluatorImage, AodhNotifierImage, AodhListenerImage, CloudKittyAPIImage, CloudKittyProcImage] i j \<and> ci_CeilometerProxyImage i = ci_CeilometerProxyImage j"
  by unfold_locales
    (auto simp: TelemetryImageMatch_def string_pointers.eq_iff same_fields_def consistent_images_def
       backends_loop same_backends_self)

interpretation watcher: image_match WatcherImageMatch
    "\<lambda>cp. cp_Enabled cp Watcher"
    "\<lambda>i j. same_fields [WatcherAPIImage, WatcherApplierImage, WatcherDecisionEngineImage] i j"
  by unfold_locales
    (auto simp: WatcherImageMatch_def string_pointers.eq_iff same_fields_def consistent_images_def
       backends_loop same_backends_self)

subsection \<open>The check of the whole control plane\<close>

lemmas services_synced =
  barbican.synced_matches cinder.synced_matches designate.synced_matches dnsmasq.synced_matches
  galera.synced_matches glance.synced_matches heat.synced_matches horizon.synced_matches
  ironic.synced_matches keystone.synced_matches manila.synced_matches memcached.synced_matches
  redis.synced_matches neutron.synced_matches nova.synced_matches octavia.synced_matches
  client.synced_matches ovncontroller.synced_matches ovnnorth.synced_matches ovndbcluster.synced_matches
  placement.synced_matches rabbitmq.synced_matches swift.synced_matches telemetry.synced_matches
  watcher.synced_matches

lemmas services_iff =
  barbican.matches_iff cinder.matches_iff designate.matches_iff dnsmasq.matches_iff
  galera.matches_iff glance.matches_iff heat.matches_iff horizon.matches_iff
  ironic.matches_iff keystone.matches_iff manila.matches_iff memcached.matches_iff
  redis.matches_iff neutron.matches_iff nova.matches_iff octavia.matches_iff
  client.matches_iff ovncontroller.matches_iff ovnnorth.matches_iff ovndbcluster.matches_iff
  placement.matches_iff rabbitmq.matches_iff swift.matches_iff telemetry.matches_iff
  watcher.matches_iff

lemma image_checks_synced:
  assumes "cp_images cp = v_images v" and "consistent_images (v_images v)"
  shows "list_all (\<lambda>(_, matches). matches cp v) image_checks"
  unfolding image_checks_def by (simp add: services_synced [OF assms])

text \<open>The image check of the control plane fails exactly when the check of some service fails, and
  it reports the names of the failing services in the order of the checks.\<close>

theorem ControlplaneContainerImageMatch_reports:
  "(fst (ControlplaneContainerImageMatch cp v) \<longleftrightarrow> list_all (\<lambda>(_, matches). matches cp v) image_checks) \<and>
   snd (ControlplaneContainerImageMatch cp v) = map fst (filter (\<lambda>(_, matches). \<not> matches cp v) image_checks)"
  by (auto simp: ControlplaneContainerImageMatch_def Let_def list_all_iff filter_empty_conv)

text \<open>Once every image in the status of the control plane is the image of the version, the check
  passes whatever services are enabled.\<close>

theorem synced_control_plane_matches:
  assumes "gomap_wf (unnil (cc_CinderVolumeImages c))" and "gomap_wf (unnil (cc_ManilaShareImages c))"
    and "v_images v = fst (GetContainerImages d c)" and "cp_images cp = v_images v"
  shows "ControlplaneContainerImageMatch cp v = (True, [])"
proof -
  have "consistent_images (v_images v)"
    using assms(1,2) by (simp add: assms(3) consistent_GetContainerImages)
  then have "list_all (\<lambda>(_, matches). matches cp v) image_checks"
    by (rule image_checks_synced [OF assms(4)])
  then show ?thesis
    by (auto simp: ControlplaneContainerImageMatch_def Let_def list_all_iff filter_empty_conv)
qed

text \<open>A check reads nothing of the version but its images.\<close>

lemma image_checks_cong:
  assumes "v_images v = v_images w"
  shows "list_all (\<lambda>(_, matches). matches cp v = matches cp w) image_checks"
  unfolding image_checks_def
  by (simp add: BarbicanImageMatch_def CinderImageMatch_def DesignateImageMatch_def DnsmasqImageMatch_def GaleraImageMatch_def GlanceImageMatch_def HeatImageMatch_def HorizonImageMatch_def IronicImageMatch_def KeystoneImageMatch_def ManilaImageMatch_def MemcachedImageMatch_def RedisImageMatch_def NeutronImageMatch_def NovaImageMatch_def OctaviaImageMatch_def ClientImageMatch_def OVNControllerImageMatch_def OVNNorthImageMatch_def OVNDbClusterImageMatch_def PlacementImageMatch_def RabbitmqImageMatch_def SwiftImageMatch_def TelemetryImageMatch_def WatcherImageMatch_def assms)

lemma ControlplaneContainerImageMatch_cong:
  assumes "v_images v = v_images w"
  shows "ControlplaneContainerImageMatch cp v = ControlplaneContainerImageMatch cp w"
proof -
  have "filter (\<lambda>(_, matches). \<not> matches cp v) image_checks = filter (\<lambda>(_, matches). \<not> matches cp w) image_checks"
    using image_checks_cong [OF assms, of cp] by (intro filter_cong) (auto simp: list_all_iff)
  then show ?thesis by (simp add: ControlplaneContainerImageMatch_def)
qed

subsection \<open>What a passed check guarantees\<close>

subsection \<open>What the check means\<close>

text \<open>The other side of the check: the images the function of a service copies from the version into the status of the control plane,
  once the objects of the service are ready.\<close>

definition set_fields :: "image_field list \<Rightarrow> container_images \<Rightarrow> container_images \<Rightarrow> container_images" where
  "set_fields fs img cur = cur\<lparr>ci_template := (\<lambda>f. if f \<in> set fs then ci_template img f else ci_template cur f)\<rparr>"

definition status_images_Barbican :: "container_images \<Rightarrow> container_images \<Rightarrow> container_images" where
  "status_images_Barbican img cur = set_fields [BarbicanAPIImage, BarbicanWorkerImage, BarbicanKeystoneListenerImage] img cur"

definition status_images_Cinder :: "container_images \<Rightarrow> container_images \<Rightarrow> container_images" where
  "status_images_Cinder img cur = (set_fields [CinderAPIImage, CinderSchedulerImage, CinderBackupImage] img cur)\<lparr>ci_CinderVolumeImages := ci_CinderVolumeImages img\<rparr>"

definition status_images_Designate :: "container_images \<Rightarrow> container_images \<Rightarrow> container_images" where
  "status_images_Designate img cur = set_fields [DesignateAPIImage, DesignateCentralImage, DesignateMdnsImage, DesignateProducerImage, DesignateWorkerImage, DesignateBackendbind9Image, DesignateUnboundImage, NetUtilsImage] img cur"

definition status_images_DNSMasq :: "container_images \<Rightarrow> container_images \<Rightarrow> container_images" where
  "status_images_DNSMasq img cur = set_fields [InfraDnsmasqImage] img cur"

definition status_images_Galera :: "container_images \<Rightarrow> container_images \<Rightarrow> container_images" where
  "status_images_Galera img cur = set_fields [MariadbImage] img cur"

definition status_images_Glance :: "container_images \<Rightarrow> container_images \<Rightarrow> container_images" where
  "status_images_Glance img cur = set_fields [GlanceAPIImage] img cur"

definition status_images_Heat :: "container_images \<Rightarrow> container_images \<Rightarrow> container_images" where
  "status_images_Heat img cur = set_fields [HeatAPIImage, HeatCfnapiImage, HeatEngineImage] img cur"

definition status_images_Horizon :: "container_images \<Rightarrow> container_images \<Rightarrow> container_images" where
  "status_images_Horizon img cur = set_fields [HorizonImage] img cur"

definition status_images_Ironic :: "container_images \<Rightarrow> container_images \<Rightarrow> container_images" where
  "status_images_Ironic img cur = set_fields [IronicAPIImage, IronicConductorImage, IronicInspectorImage, IronicNeutronAgentImage, IronicPxeImage, IronicPythonAgentImage] img cur"

definition status_images_Keystone :: "container_images \<Rightarrow> container_images \<Rightarrow> container_images" where
  "status_images_Keystone img cur = set_fields [KeystoneAPIImage] img cur"

definition status_images_Manila :: "container_images \<Rightarrow> container_images \<Rightarrow> container_images" where
  "status_images_Manila img cur = (set_fields [ManilaAPIImage, ManilaSchedulerImage] img cur)\<lparr>ci_ManilaShareImages := ci_ManilaShareImages img\<rparr>"

definition status_images_Memcached :: "container_images \<Rightarrow> container_images \<Rightarrow> container_images" where
  "status_images_Memcached img cur = set_fields [InfraMemcachedImage] img cur"

definition status_images_Redis :: "container_images \<Rightarrow> container_images \<Rightarrow> container_images" where
  "status_images_Redis img cur = set_fields [InfraRedisImage] img cur"

definition status_images_Neutron :: "container_images \<Rightarrow> container_images \<Rightarrow> container_images" where
  "status_images_Neutron img cur = set_fields [NeutronAPIImage] img cur"

definition status_images_Nova :: "container_images \<Rightarrow> container_images \<Rightarrow> container_images" where
  "status_images_Nova img cur = set_fields [NovaAPIImage, NovaComputeImage, NovaConductorImage, NovaNovncImage, NovaSchedulerImage] img cur"

definition status_images_Octavia :: "container_images \<Rightarrow> container_images \<Rightarrow> container_images" where
  "status_images_Octavia img cur = (set_fields [OctaviaAPIImage, OctaviaWorkerImage, OctaviaHealthmanagerImage, OctaviaHousekeepingImage, OctaviaRsyslogImage] img cur)\<lparr>ci_OctaviaApacheImage := ci_template img ApacheImage\<rparr>"

definition status_images_Placement :: "container_images \<Rightarrow> container_images \<Rightarrow> container_images" where
  "status_images_Placement img cur = set_fields [PlacementAPIImage] img cur"

definition status_images_RabbitMQ :: "container_images \<Rightarrow> container_images \<Rightarrow> container_images" where
  "status_images_RabbitMQ img cur = set_fields [RabbitmqImage] img cur"

definition status_images_Swift :: "container_images \<Rightarrow> container_images \<Rightarrow> container_images" where
  "status_images_Swift img cur = set_fields [SwiftAccountImage, SwiftContainerImage, SwiftObjectImage, SwiftProxyImage] img cur"

definition status_images_Telemetry :: "container_images \<Rightarrow> container_images \<Rightarrow> container_images" where
  "status_images_Telemetry img cur = (set_fields [CeilometerCentralImage, CeilometerComputeImage, CeilometerIpmiImage, CeilometerNotificationImage, CeilometerSgcoreImage, CeilometerMysqldExporterImage, KsmImage, AodhAPIImage, AodhEvaluatorImage, AodhNotifierImage, AodhListenerImage, CloudKittyAPIImage, CloudKittyProcImage] img cur)\<lparr>ci_CeilometerProxyImage := ci_CeilometerProxyImage img\<rparr>"

definition status_images_Watcher :: "container_images \<Rightarrow> container_images \<Rightarrow> container_images" where
  "status_images_Watcher img cur = set_fields [WatcherAPIImage, WatcherApplierImage, WatcherDecisionEngineImage] img cur"

definition status_images_Client :: "container_images \<Rightarrow> container_images \<Rightarrow> container_images" where
  "status_images_Client img cur = set_fields [OpenstackClientImage] img cur"

definition status_images_OVNDBCluster :: "container_images \<Rightarrow> container_images \<Rightarrow> container_images" where
  "status_images_OVNDBCluster img cur = set_fields [OvnNbDbclusterImage, OvnSbDbclusterImage, OpenstackNetworkExporterImage] img cur"

definition status_images_OVNNorthd :: "container_images \<Rightarrow> container_images \<Rightarrow> container_images" where
  "status_images_OVNNorthd img cur = set_fields [OvnNorthdImage, OpenstackNetworkExporterImage] img cur"

definition status_images_OVNController :: "container_images \<Rightarrow> container_images \<Rightarrow> container_images" where
  "status_images_OVNController img cur = set_fields [OvnControllerImage, OvnControllerOvsImage, OpenstackNetworkExporterImage] img cur"

definition status_images :: "os_service \<Rightarrow> container_images \<Rightarrow> container_images \<Rightarrow> container_images" where
  "status_images s img cur =
     (case s of
        Barbican \<Rightarrow> status_images_Barbican img cur | Cinder \<Rightarrow> status_images_Cinder img cur | Designate
        \<Rightarrow> status_images_Designate img cur | DNS \<Rightarrow> status_images_DNSMasq img cur | Galera \<Rightarrow>
        status_images_Galera img cur | Glance \<Rightarrow> status_images_Glance img cur | Heat \<Rightarrow> status_images_Heat img cur |
        Horizon \<Rightarrow> status_images_Horizon img cur | Ironic \<Rightarrow> status_images_Ironic img cur | Keystone \<Rightarrow>
        status_images_Keystone img cur | Manila \<Rightarrow> status_images_Manila img cur | Memcached \<Rightarrow>
        status_images_Memcached img cur | Redis \<Rightarrow> status_images_Redis img cur | Neutron \<Rightarrow> status_images_Neutron
        img cur | Nova \<Rightarrow> status_images_Nova img cur | Octavia \<Rightarrow> status_images_Octavia img cur | Placement
        \<Rightarrow> status_images_Placement img cur | Rabbitmq \<Rightarrow> status_images_RabbitMQ img cur | Swift \<Rightarrow>
        status_images_Swift img cur | Telemetry \<Rightarrow> status_images_Telemetry img cur | Watcher \<Rightarrow>
        status_images_Watcher img cur
      | Ovn \<Rightarrow> status_images_OVNController img (status_images_OVNNorthd img (status_images_OVNDBCluster img cur)))"

text \<open>Three images that are copied and that no check compares.\<close>

definition unchecked_images :: "image_field set" where
  "unchecked_images = {NetUtilsImage, OpenstackNetworkExporterImage, KsmImage}"

text \<open>Two states of the images that differ at most in those.  The maps of the backends are read as Go reads them.\<close>

definition same_deployed :: "container_images \<Rightarrow> container_images \<Rightarrow> bool" where
  "same_deployed i j \<longleftrightarrow>
     (\<forall>f. f \<notin> unchecked_images \<longrightarrow> ci_template i f = ci_template j f)
     \<and> ci_OctaviaApacheImage i = ci_OctaviaApacheImage j \<and> ci_CeilometerProxyImage i = ci_CeilometerProxyImage j
     \<and> (\<forall>name\<in>fst ` set (ci_CinderVolumeImages j). gomap_get None (ci_CinderVolumeImages i) name = gomap_get None (ci_CinderVolumeImages j) name)
     \<and> (\<forall>name\<in>fst ` set (ci_ManilaShareImages j). gomap_get None (ci_ManilaShareImages i) name = gomap_get None (ci_ManilaShareImages j) name)"

definition status_current :: "control_plane \<Rightarrow> os_version \<Rightarrow> os_service \<Rightarrow> bool" where
  "status_current cp v s \<longleftrightarrow> (cp_Enabled cp s \<longrightarrow> same_deployed (cp_images cp) (status_images s (v_images v) (cp_images cp)))"

lemma check_iff: "fst (ControlplaneContainerImageMatch cp v) \<longleftrightarrow> list_all (\<lambda>(_, matches). matches cp v) image_checks"
  by (auto simp: ControlplaneContainerImageMatch_def Let_def filter_empty_conv list_all_iff)

lemmas status_images_defs =
  status_images_Barbican_def status_images_Cinder_def status_images_Designate_def status_images_DNSMasq_def status_images_Galera_def
  status_images_Glance_def status_images_Heat_def status_images_Horizon_def status_images_Ironic_def status_images_Keystone_def
  status_images_Manila_def status_images_Memcached_def status_images_Redis_def status_images_Neutron_def status_images_Nova_def
  status_images_Octavia_def status_images_Placement_def status_images_RabbitMQ_def status_images_Swift_def
  status_images_Telemetry_def status_images_Watcher_def status_images_Client_def status_images_OVNDBCluster_def
  status_images_OVNNorthd_def status_images_OVNController_def

lemma backends_iff:
  "gomap_wf n \<Longrightarrow> same_backends m n \<longleftrightarrow> (\<forall>name\<in>fst ` set n. gomap_get None m name = gomap_get None n name)"
  by (auto simp: same_backends_def list_all_iff gomap_get_def gomap_wf_def split: option.splits)

lemma same_deployed_self [simp]: "same_deployed i i"
  by (simp add: same_deployed_def)

lemma set_fields_sel [simp]:
  "ci_template (set_fields fs img cur) f = (if f \<in> set fs then ci_template img f else ci_template cur f)"
  "ci_OctaviaApacheImage (set_fields fs img cur) = ci_OctaviaApacheImage cur"
  "ci_CeilometerProxyImage (set_fields fs img cur) = ci_CeilometerProxyImage cur"
  "ci_CinderVolumeImages (set_fields fs img cur) = ci_CinderVolumeImages cur"
  "ci_ManilaShareImages (set_fields fs img cur) = ci_ManilaShareImages cur"
  by (simp_all add: set_fields_def)

lemma set_fields_append: "set_fields fs img (set_fields gs img cur) = set_fields (fs @ gs) img cur"
  by (cases cur) (auto simp: set_fields_def fun_eq_iff)

text \<open>The fields that are compared.\<close>

definition compared :: "image_field list \<Rightarrow> image_field list" where
  "compared fs = filter (\<lambda>f. f \<notin> unchecked_images) fs"

lemma same_deployed_set:
  "same_deployed i (set_fields fs img i) \<longleftrightarrow> same_fields (compared fs) i img"
  "same_deployed i ((set_fields fs img i)\<lparr>ci_OctaviaApacheImage := a\<rparr>) \<longleftrightarrow> same_fields (compared fs) i img \<and> ci_OctaviaApacheImage i = a"
  "same_deployed i ((set_fields fs img i)\<lparr>ci_CeilometerProxyImage := a\<rparr>) \<longleftrightarrow> same_fields (compared fs) i img \<and> ci_CeilometerProxyImage i = a"
  "gomap_wf m \<Longrightarrow> same_deployed i ((set_fields fs img i)\<lparr>ci_CinderVolumeImages := m\<rparr>)
     \<longleftrightarrow> same_fields (compared fs) i img \<and> same_backends (ci_CinderVolumeImages i) m"
  "gomap_wf m \<Longrightarrow> same_deployed i ((set_fields fs img i)\<lparr>ci_ManilaShareImages := m\<rparr>)
     \<longleftrightarrow> same_fields (compared fs) i img \<and> same_backends (ci_ManilaShareImages i) m"
  by (auto simp: same_deployed_def same_fields_def compared_def backends_iff)

lemma all_services:
  "(\<forall>s. P s) \<longleftrightarrow> P Rabbitmq \<and> P Ovn \<and> P Neutron \<and> P Galera \<and> P Memcached \<and> P Keystone \<and> P Placement \<and> P Glance \<and> P Cinder \<and> P Nova
     \<and> P Ironic \<and> P Manila \<and> P Horizon \<and> P DNS \<and> P Telemetry \<and> P Heat \<and> P Swift \<and> P Octavia \<and> P Designate \<and> P Barbican \<and> P Redis
     \<and> P Watcher"
  (is "?l \<longleftrightarrow> ?r")
proof
  assume ?r
  then have "P s" for s by (cases s) simp_all
  then show ?l by blast
qed simp

lemma service_check:
  assumes "gomap_wf (ci_CinderVolumeImages (v_images v))" and "gomap_wf (ci_ManilaShareImages (v_images v))"
  shows "BarbicanImageMatch cp v \<longleftrightarrow> status_current cp v Barbican" and "CinderImageMatch cp v \<longleftrightarrow> status_current cp v Cinder"
    and "DesignateImageMatch cp v \<longleftrightarrow> status_current cp v Designate" and "DnsmasqImageMatch cp v \<longleftrightarrow> status_current cp v DNS"
    and "GaleraImageMatch cp v \<longleftrightarrow> status_current cp v Galera" and "GlanceImageMatch cp v \<longleftrightarrow> status_current cp v Glance"
    and "HeatImageMatch cp v \<longleftrightarrow> status_current cp v Heat" and "HorizonImageMatch cp v \<longleftrightarrow> status_current cp v Horizon"
    and "IronicImageMatch cp v \<longleftrightarrow> status_current cp v Ironic" and "KeystoneImageMatch cp v \<longleftrightarrow> status_current cp v Keystone"
    and "ManilaImageMatch cp v \<longleftrightarrow> status_current cp v Manila" and "MemcachedImageMatch cp v \<longleftrightarrow> status_current cp v Memcached"
    and "RedisImageMatch cp v \<longleftrightarrow> status_current cp v Redis" and "NeutronImageMatch cp v \<longleftrightarrow> status_current cp v Neutron"
    and "NovaImageMatch cp v \<longleftrightarrow> status_current cp v Nova" and "OctaviaImageMatch cp v \<longleftrightarrow> status_current cp v Octavia"
    and "PlacementImageMatch cp v \<longleftrightarrow> status_current cp v Placement" and "RabbitmqImageMatch cp v \<longleftrightarrow> status_current cp v Rabbitmq"
    and "SwiftImageMatch cp v \<longleftrightarrow> status_current cp v Swift" and "TelemetryImageMatch cp v \<longleftrightarrow> status_current cp v Telemetry"
    and "WatcherImageMatch cp v \<longleftrightarrow> status_current cp v Watcher"
    and "OVNControllerImageMatch cp v \<and> OVNNorthImageMatch cp v \<and> OVNDbClusterImageMatch cp v \<longleftrightarrow> status_current cp v Ovn"
    and "ClientImageMatch cp v \<longleftrightarrow> same_deployed (cp_images cp) (status_images_Client (v_images v) (cp_images cp))"
  unfolding status_current_def
  by (auto simp: services_iff status_images_def status_images_defs same_deployed_set assms set_fields_append compared_def
      unchecked_images_def same_fields_def)

text \<open>C4: what the image check means.  It passes exactly when the function of no enabled service, and not that of the client, would copy another
  image of the version into the status of the control plane than what is there: every field, the maps of the Cinder and Manila backends, and
  the two images that have a field of their own.  Three copied images are outside the check: the network utilities of Designate, the exporter
  of OVN and kube-state-metrics of Telemetry.\<close>

theorem passed_check_means_images_deployed:
  assumes "gomap_wf (ci_CinderVolumeImages (v_images v))" and "gomap_wf (ci_ManilaShareImages (v_images v))"
  shows "fst (ControlplaneContainerImageMatch cp v)
    \<longleftrightarrow> same_deployed (cp_images cp) (status_images_Client (v_images v) (cp_images cp)) \<and> (\<forall>s. status_current cp v s)"
  unfolding check_iff image_checks_def all_services by (auto simp: service_check [OF assms, symmetric])

text \<open>The three images are not noticed: another value of one of them in the status does not change the result of the check.\<close>

definition with_image :: "image_field \<Rightarrow> string ptr \<Rightarrow> control_plane \<Rightarrow> control_plane" where
  "with_image f x cp =
     cp\<lparr>cp_Status := (cp_Status cp)\<lparr>cs_ContainerImages := (cp_images cp)\<lparr>ci_template := (ci_template (cp_images cp))(f := x)\<rparr>\<rparr>\<rparr>"

lemma with_image_sel [simp]:
  "cp_Enabled (with_image f x cp) = cp_Enabled cp"
  "ci_OctaviaApacheImage (cp_images (with_image f x cp)) = ci_OctaviaApacheImage (cp_images cp)"
  "ci_CeilometerProxyImage (cp_images (with_image f x cp)) = ci_CeilometerProxyImage (cp_images cp)"
  "ci_CinderVolumeImages (cp_images (with_image f x cp)) = ci_CinderVolumeImages (cp_images cp)"
  "ci_ManilaShareImages (cp_images (with_image f x cp)) = ci_ManilaShareImages (cp_images cp)"
  by (simp_all add: with_image_def)

lemma same_fields_with_image [simp]:
  "f \<notin> set fs \<Longrightarrow> same_fields fs (cp_images (with_image f x cp)) j \<longleftrightarrow> same_fields fs (cp_images cp) j"
  by (auto simp: same_fields_def with_image_def)

lemma unchecked_image_not_noticed:
  assumes "f \<in> unchecked_images"
  shows "fst (ControlplaneContainerImageMatch (with_image f x cp) v) = fst (ControlplaneContainerImageMatch cp v)"
proof -
  have "f = NetUtilsImage \<or> f = OpenstackNetworkExporterImage \<or> f = KsmImage" using assms by (simp add: unchecked_images_def)
  then have "list_all (\<lambda>(_, matches). matches (with_image f x cp) v = matches cp v) image_checks"
    unfolding image_checks_def by (elim disjE) (simp_all add: services_iff)
  then show ?thesis unfolding check_iff by (auto simp: list_all_iff)
qed

end
