(* ===== verification/Dataplane_Types.thy ===== *)
theory Dataplane_Types
  imports Resources
begin

text \<open>
  The custom resources of the data plane (\<open>api/dataplane/v1beta1\<close>): node sets, deployments and
  services.  Fields the modelled code neither reads nor writes are left out.
\<close>

subsection \<open>Data sources and services\<close>

record env_source =
  es_Name :: string
  es_Optional :: "bool ptr"

record data_source =
  ds_Prefix :: string
  ds_ConfigMapRef :: "env_source ptr"
  ds_SecretRef :: "env_source ptr"

record service_cert =
  sc_Contents :: "string list"
  sc_Networks :: "string list"
  sc_Issuer :: string
  sc_KeyUsages :: "string list"
  sc_EDPMRoleServiceName :: string

record dp_service =
  svc_Name :: string
  svc_Namespace :: string
  svc_DataSources :: "data_source list"
  svc_TLSCerts :: "(string, service_cert) gomap option"
  svc_CACerts :: string
  svc_RunnerImage :: string
  svc_CertsFrom :: string
  svc_AddCertMounts :: bool
  svc_DeployOnAllNodeSets :: bool
  svc_ContainerImageFields :: "string list"
  svc_EDPMServiceType :: string
  svc_Playbook :: string
  svc_PlaybookContents :: string
  svc_Role :: string

subsection \<open>Volumes of a job\<close>

text \<open>Volumes as the code builds them: a secret or a config map with the keys it mounts, or a projection
  of several secrets.  \<open>vol_mounts\<close> is \<open>storage.VolMounts\<close> of lib-common.\<close>

datatype volume_source =
    SecretVolume string "int option" "(string \<times> string) list"
  | ConfigMapVolume string "(string \<times> string) list"
  | ProjectedVolume "string list"

record volume =
  vol_Name :: string
  vol_Source :: volume_source

record volume_mount =
  vm_Name :: string
  vm_MountPath :: string
  vm_SubPath :: string

record vol_mounts =
  vms_Propagation :: "string list"
  vms_Volumes :: "volume list"
  vms_Mounts :: "volume_mount list"

record dns_config =
  dns_Nameservers :: "string list"
  dns_Searches :: "string list"

record aee_spec =
  aee_ExtraMounts :: "vol_mounts list"
  aee_Env :: "(string \<times> string) list"
  aee_ExtraVars :: "(string, string) gomap option"
  aee_DNSConfig :: "dns_config option"
  aee_NetworkAttachments :: "string list"
  aee_RunnerImage :: string
  aee_AnsibleTags :: string
  aee_AnsibleLimit :: string
  aee_AnsibleSkipTags :: string
  aee_ServiceAccountName :: string
  aee_EnvConfigMapName :: string

subsection \<open>Node sets\<close>

record execution_summary =
  sum_TotalHosts :: "int option"
  sum_FailedHosts :: "int option"
  sum_UnreachableHosts :: "int option"
  sum_FailurePercent :: "int option"
  sum_FailedHostList :: "string list option"
  sum_UnreachableHostList :: "string list option"

text \<open>\<open>ipset_network\<close> is \<open>IPSetNetwork\<close> of infra-operator.  Of the template of a bare metal set the fields
  the code reads are kept, the others are the one value \<open>bt_Other\<close>.  Values of Ansible variables are
  uninterpreted text (\<open>json.RawMessage\<close>).\<close>

record ipset_network =
  in_Name :: string
  in_FixedIP :: "string ptr"

record dp_node =
  nd_HostName :: string
  nd_Networks :: "ipset_network list"
  nd_BmhLabelSelector :: "(string, string) gomap"
  nd_UserData :: "string ptr"
  nd_NetworkData :: "string ptr"
  nd_CtlplaneInterface :: string
  nd_ManagementNetwork :: string
  nd_AnsibleUser :: string
  nd_AnsibleHost :: string
  nd_AnsiblePort :: int
  nd_AnsibleVars :: "(string, string) gomap"
  nd_AnsibleVarsFrom :: "data_source list"

record bm_template =
  bt_DomainName :: string
  bt_CloudUserName :: string
  bt_DeploymentSSHSecret :: string
  bt_OSContainerImageURL :: string
  bt_AgentImageURL :: string
  bt_ApacheImageURL :: string
  bt_Other :: string

record dp_nodeset =
  ns_Name :: string
  ns_Namespace :: string
  ns_Generation :: int
  ns_Labels :: "(string, string) gomap"
  ns_BaremetalSetTemplate :: "bm_template ptr"
  ns_Nodes :: "(string, dp_node) gomap"
  ns_Services :: "string list"
  ns_PreProvisioned :: bool
  ns_TLSEnabled :: bool
  ns_SSHPrivateKeySecret :: string
  ns_TemplateNetworks :: "ipset_network list"
  ns_TemplateManagementNetwork :: string
  ns_TemplateUser :: string
  ns_TemplatePort :: int
  ns_TemplateVars :: "(string, string) gomap"
  ns_TemplateVarsFrom :: "data_source list"
  ns_Tags :: "string list option"
  ns_Conditions :: conditions
  ns_DeploymentStatuses :: "(string, conditions) gomap"
  ns_DeploymentExecutionSummaries :: "(string, (string, execution_summary) gomap) gomap"
  ns_ConfigMapHashes :: "(string, string) gomap"
  ns_SecretHashes :: "(string, string) gomap"
  ns_InventorySecretName :: string
  ns_ObservedGeneration :: int
  ns_DeployedVersion :: string
  ns_ContainerImages :: "(string, string) gomap"
  ns_ConfigHash :: string
  ns_DeployedConfigHash :: string
  ns_BmhRefHash :: string
  ns_DeployedBmhHash :: string
  ns_SecretMaxSize :: int
  ns_NetworkAttachments :: "string list"
  ns_ExtraMounts :: "vol_mounts list"
  ns_Env :: "(string \<times> string) list"
  ns_AllHostnames :: "(string, (string, string) gomap) gomap"
  ns_AllIPs :: "(string, (string, string) gomap) gomap"
  ns_DNSClusterAddresses :: "string list option"
  ns_CtlplaneSearchDomain :: string

definition ns_IsReady :: "condlib \<Rightarrow> dp_nodeset \<Rightarrow> bool" where
  "ns_IsReady L ns = lc_IsTrue L (ns_Conditions ns) ReadyCondition"

subsection \<open>Deployments\<close>

record dp_deployment =
  dep_Name :: string
  dep_Namespace :: string
  dep_Generation :: int
  dep_Deleting :: bool
  dep_NodeSets :: "string list"
  dep_ServicesOverride :: "string list"
  dep_RequeueTime :: int
  dep_BackoffLimit :: "int option"
  dep_PreserveJobs :: bool
  dep_AnsibleTags :: string
  dep_AnsibleLimit :: string
  dep_AnsibleSkipTags :: string
  dep_AnsibleExtraVars :: "(string, string) gomap option"
  dep_AnsibleJobNodeSelector :: "(string, string) gomap"
  dep_AnsibleEEEnvConfigMapName :: string
  dep_NodeSetConditions :: "(string, conditions) gomap"
  dep_AnsibleEEHashes :: "(string, string) gomap"
  dep_ExecutionSummaries :: "(string, execution_summary) gomap"
  dep_ConfigMapHashes :: "(string, string) gomap"
  dep_SecretHashes :: "(string, string) gomap"
  dep_NodeSetHashes :: "(string, string) gomap"
  dep_BmhRefHashes :: "(string, string) gomap"
  dep_ContainerImages :: "(string, string) gomap"
  dep_Conditions :: "conditions option"
  dep_ObservedGeneration :: int
  dep_DeployedVersion :: string
  dep_Deployed :: bool

end
