(* ===== verification/Version_Dataplane.thy ===== *)
theory Version_Dataplane
  imports Dataplane_Types
begin

text \<open>
  The questions the version controller asks of the data plane: \<open>internal/openstack/dataplane.go\<close>.
  The Kubernetes client is a parameter: what a list of deployments and the lookup of a service
  return.
\<close>

definition DataplaneNodesetsDeployedVersionIsSet :: "dp_nodeset list \<Rightarrow> bool" where
  "DataplaneNodesetsDeployedVersionIsSet nodesets = list_all (\<lambda>ns. ns_DeployedVersion ns \<noteq> []) nodesets"

text \<open>The dereference of \<open>version.Status.ContainerImages.OvnControllerImage\<close> panics on \<open>nil\<close>: the
  outer \<open>None\<close>.\<close>

fun DataplaneNodesetsOVNControllerImagesMatch :: "os_version \<Rightarrow> dp_nodeset list \<Rightarrow> bool option" where
  "DataplaneNodesetsOVNControllerImagesMatch v [] = Some True"
| "DataplaneNodesetsOVNControllerImagesMatch v (ns # nss) =
     (if ns_Generation ns \<noteq> ns_ObservedGeneration ns then Some False
      else if ns_Nodes ns \<noteq> [] \<and> gomap_get [] (ns_ContainerImages ns) ''OvnControllerImage'' \<noteq> []
      then (case ci_template (v_images v) OvnControllerImage of
              None \<Rightarrow> None
            | Some img \<Rightarrow>
                if gomap_get [] (ns_ContainerImages ns) ''OvnControllerImage'' \<noteq> img then Some False
                else DataplaneNodesetsOVNControllerImagesMatch v nss)
      else DataplaneNodesetsOVNControllerImagesMatch v nss)"

fun DataplaneNodesetsDeployed :: "condlib \<Rightarrow> os_version \<Rightarrow> dp_nodeset list \<Rightarrow> bool" where
  "DataplaneNodesetsDeployed L v [] = True"
| "DataplaneNodesetsDeployed L v (ns # nss) =
     (if ns_Generation ns \<noteq> ns_ObservedGeneration ns then False
      else if ns_Nodes ns = [] then DataplaneNodesetsDeployed L v nss
      else if \<not> ns_IsReady L ns then False
      else if ns_DeployedVersion ns \<noteq> vs_TargetVersion (v_Spec v) then False
      else DataplaneNodesetsDeployed L v nss)"

subsection \<open>Is a deployment of a service type running?\<close>

type_synonym get_service = "string \<Rightarrow> api_error + dp_service"
type_synonym service_cache = "(string, dp_service) gomap"

text \<open>The loops of \<open>IsDataplaneDeploymentRunningForServiceType\<close>, innermost first.  Each returns the
  cache and either an early result (\<open>Some\<close>) or \<open>None\<close> to go on.\<close>

fun scan_services ::
    "get_service \<Rightarrow> string \<Rightarrow> string list \<Rightarrow> service_cache \<Rightarrow> (api_error + bool) option \<times> service_cache" where
  "scan_services get ty [] cache = (None, cache)"
| "scan_services get ty (s # ss) cache =
     (case map_of cache s of
        Some svc \<Rightarrow>
          if svc_EDPMServiceType svc = ty then (Some (Inr True), cache)
          else scan_services get ty ss cache
      | None \<Rightarrow>
          (case get s of
             Inl e \<Rightarrow> if IsNotFound e then scan_services get ty ss cache else (Some (Inl e), cache)
           | Inr svc \<Rightarrow>
               let cache' = gomap_put s svc cache
               in if svc_EDPMServiceType svc = ty then (Some (Inr True), cache')
                  else scan_services get ty ss cache'))"

definition nodeset_map :: "dp_nodeset list \<Rightarrow> (string, dp_nodeset) gomap" where
  "nodeset_map nodesets = fold (\<lambda>ns m. gomap_put (ns_Name ns) ns m) nodesets []"

definition deployment_services :: "dp_deployment \<Rightarrow> dp_nodeset \<Rightarrow> string list" where
  "deployment_services dep ns =
     (if dep_ServicesOverride dep \<noteq> [] then dep_ServicesOverride dep else ns_Services ns)"

fun scan_nodesets ::
    "get_service \<Rightarrow> string \<Rightarrow> (string, dp_nodeset) gomap \<Rightarrow> dp_deployment \<Rightarrow> string list \<Rightarrow> service_cache
     \<Rightarrow> (api_error + bool) option \<times> service_cache" where
  "scan_nodesets get ty nsm dep [] cache = (None, cache)"
| "scan_nodesets get ty nsm dep (n # ns) cache =
     (case map_of nsm n of
        None \<Rightarrow> scan_nodesets get ty nsm dep ns cache
      | Some nodeset \<Rightarrow>
          if ns_Nodes nodeset = [] then scan_nodesets get ty nsm dep ns cache
          else (case scan_services get ty (deployment_services dep nodeset) cache of
                  (Some r, cache') \<Rightarrow> (Some r, cache')
                | (None, cache') \<Rightarrow> scan_nodesets get ty nsm dep ns cache'))"

fun scan_deployments ::
    "get_service \<Rightarrow> string \<Rightarrow> (string, dp_nodeset) gomap \<Rightarrow> dp_deployment list \<Rightarrow> service_cache
     \<Rightarrow> api_error + bool" where
  "scan_deployments get ty nsm [] cache = Inr False"
| "scan_deployments get ty nsm (dep # deps) cache =
     (if dep_Deployed dep then scan_deployments get ty nsm deps cache
      else (case scan_nodesets get ty nsm dep (dep_NodeSets dep) cache of
              (Some r, _) \<Rightarrow> r
            | (None, cache') \<Rightarrow> scan_deployments get ty nsm deps cache'))"

definition IsDataplaneDeploymentRunningForServiceType ::
    "(api_error + dp_deployment list) \<Rightarrow> get_service \<Rightarrow> dp_nodeset list \<Rightarrow> string \<Rightarrow> api_error + bool" where
  "IsDataplaneDeploymentRunningForServiceType deployments get nodesets ty =
     (case deployments of
        Inl e \<Rightarrow> Inl e
      | Inr deps \<Rightarrow> scan_deployments get ty (nodeset_map nodesets) deps [])"

subsection \<open>Laws\<close>

text \<open>The abstract question: some unfinished deployment runs, for one of its node sets that has nodes,
  a service that exists and has the type.\<close>

definition runs_type :: "get_service \<Rightarrow> string \<Rightarrow> dp_nodeset list \<Rightarrow> dp_deployment \<Rightarrow> bool" where
  "runs_type get ty nodesets dep \<longleftrightarrow>
     \<not> dep_Deployed dep \<and>
     (\<exists>n\<in>set (dep_NodeSets dep). \<exists>ns. map_of (nodeset_map nodesets) n = Some ns \<and> ns_Nodes ns \<noteq> [] \<and>
        (\<exists>s\<in>set (deployment_services dep ns). \<exists>svc. get s = Inr svc \<and> svc_EDPMServiceType svc = ty))"

definition cache_ok :: "get_service \<Rightarrow> service_cache \<Rightarrow> bool" where
  "cache_ok get cache \<longleftrightarrow> (\<forall>s svc. map_of cache s = Some svc \<longrightarrow> get s = Inr svc)"

definition no_hard_error :: "get_service \<Rightarrow> bool" where
  "no_hard_error get \<longleftrightarrow> (\<forall>s e. get s = Inl e \<longrightarrow> IsNotFound e)"

lemma cache_ok_Nil [simp]: "cache_ok get []"
  by (simp add: cache_ok_def)

lemma cache_ok_put: "cache_ok get cache \<Longrightarrow> get s = Inr svc \<Longrightarrow> cache_ok get (gomap_put s svc cache)"
  by (simp add: cache_ok_def gomap_simps)

lemma scan_services_spec:
  assumes "cache_ok get cache" and "no_hard_error get"
  shows "fst (scan_services get ty ss cache) =
           (if \<exists>s\<in>set ss. \<exists>svc. get s = Inr svc \<and> svc_EDPMServiceType svc = ty
            then Some (Inr True) else None) \<and>
         cache_ok get (snd (scan_services get ty ss cache))"
  using assms(1)
proof (induction ss arbitrary: cache)
  case (Cons s ss)
  show ?case
  proof (cases "map_of cache s")
    case (Some svc)
    then have "get s = Inr svc" using Cons.prems by (simp add: cache_ok_def)
    with Some Cons show ?thesis by simp
  next
    case None
    with Cons assms(2) show ?thesis
      by (cases "get s") (simp_all add: Let_def cache_ok_put no_hard_error_def)
  qed
qed simp

lemma scan_nodesets_spec:
  assumes "cache_ok get cache" and "no_hard_error get"
  shows "fst (scan_nodesets get ty nsm dep names cache) =
           (if \<exists>n\<in>set names. \<exists>ns. map_of nsm n = Some ns \<and> ns_Nodes ns \<noteq> [] \<and>
                 (\<exists>s\<in>set (deployment_services dep ns). \<exists>svc. get s = Inr svc \<and> svc_EDPMServiceType svc = ty)
            then Some (Inr True) else None) \<and>
         cache_ok get (snd (scan_nodesets get ty nsm dep names cache))"
  using assms(1)
proof (induction names arbitrary: cache)
  case (Cons n names)
  show ?case
  proof (cases "\<exists>ns. map_of nsm n = Some ns \<and> ns_Nodes ns \<noteq> []")
    case True
    then obtain ns where ns: "map_of nsm n = Some ns" "ns_Nodes ns \<noteq> []" by blast
    obtain r c where rc: "scan_services get ty (deployment_services dep ns) cache = (r, c)"
      by (cases "scan_services get ty (deployment_services dep ns) cache")
    with scan_services_spec [OF Cons.prems assms(2), of ty "deployment_services dep ns"]
    have "r = (if \<exists>s\<in>set (deployment_services dep ns). \<exists>svc. get s = Inr svc \<and> svc_EDPMServiceType svc = ty
               then Some (Inr True) else None)" and "cache_ok get c"
      by simp_all
    with Cons.IH [of c] ns rc show ?thesis by simp
  next
    case False
    with Cons show ?thesis by (auto split: option.splits)
  qed
qed simp

lemma scan_deployments_spec:
  assumes "cache_ok get cache" and "no_hard_error get"
  shows "scan_deployments get ty (nodeset_map nodesets) deps cache =
           Inr (\<exists>dep\<in>set deps. runs_type get ty nodesets dep)"
  using assms(1)
proof (induction deps arbitrary: cache)
  case (Cons dep deps)
  obtain r c where rc: "scan_nodesets get ty (nodeset_map nodesets) dep (dep_NodeSets dep) cache = (r, c)"
    by (cases "scan_nodesets get ty (nodeset_map nodesets) dep (dep_NodeSets dep) cache")
  with scan_nodesets_spec [OF Cons.prems assms(2), of ty "nodeset_map nodesets" dep "dep_NodeSets dep"]
  have "\<not> dep_Deployed dep \<Longrightarrow> r = (if runs_type get ty nodesets dep then Some (Inr True) else None)"
    and "cache_ok get c"
    by (simp_all add: runs_type_def)
  moreover have "dep_Deployed dep \<Longrightarrow> \<not> runs_type get ty nodesets dep" by (simp add: runs_type_def)
  ultimately show ?case using Cons.IH Cons.prems rc by (cases "dep_Deployed dep") simp_all
qed simp

text \<open>C6: when no lookup of a service fails other than with "not found", the search for a running
  deployment answers exactly whether some unfinished deployment runs a service of the given type on a
  node set that has nodes; the cache of services never changes the answer.\<close>

theorem IsDataplaneDeploymentRunning_spec:
  assumes "no_hard_error get"
  shows "IsDataplaneDeploymentRunningForServiceType (Inr deps) get nodesets ty =
           Inr (\<exists>dep\<in>set deps. runs_type get ty nodesets dep)"
  by (simp add: IsDataplaneDeploymentRunningForServiceType_def scan_deployments_spec assms)

theorem IsDataplaneDeploymentRunning_spec_witness:
  "IsDataplaneDeploymentRunningForServiceType (Inr []) (\<lambda>_. Inl (NotFound ''gone'')) [] ''ovn'' = Inr False"
  using IsDataplaneDeploymentRunning_spec [of "\<lambda>_. Inl (NotFound ''gone'')" "[]" "[]" "''ovn''"]
  by (simp add: no_hard_error_def)

lemma DataplaneNodesetsDeployed_iff:
  "DataplaneNodesetsDeployed L v nss \<longleftrightarrow>
     (\<forall>ns\<in>set nss. ns_Generation ns = ns_ObservedGeneration ns \<and>
        (ns_Nodes ns \<noteq> [] \<longrightarrow> ns_IsReady L ns \<and> ns_DeployedVersion ns = vs_TargetVersion (v_Spec v)))"
  by (induction L v nss rule: DataplaneNodesetsDeployed.induct) auto

lemma OVNControllerImagesMatch_iff:
  assumes "ci_template (v_images v) OvnControllerImage = Some img"
  shows "DataplaneNodesetsOVNControllerImagesMatch v nss =
     Some (\<forall>ns\<in>set nss. ns_Generation ns = ns_ObservedGeneration ns \<and>
        (ns_Nodes ns \<noteq> [] \<longrightarrow> gomap_get [] (ns_ContainerImages ns) ''OvnControllerImage'' \<in> {[], img}))"
  using assms by (induction v nss rule: DataplaneNodesetsOVNControllerImagesMatch.induct) auto

end
