(* ===== verification/Version_Controller.thy ===== *)
theory Version_Controller
  imports Image_Match Version_Dataplane
begin

text \<open>
  The controller of \<open>OpenStackVersion\<close>: \<open>internal/controller/core/openstackversion_controller.go\<close>.
  One call of \<open>Reconcile\<close> reads the version, the control plane and the data plane, and drives a
  minor update through its stages: OVN on the control plane, OVN on the data plane, RabbitMQ,
  MariaDB, Memcached, Keystone, the rest of the control plane, the data plane.  Each stage either
  records that it is still running and ends the reconciliation, or marks its condition true and
  lets the next stage run.

  What the Kubernetes client returns and the environment of the operator are the record
  \<open>version_env\<close>.  \<open>RPanic\<close> is a panic of the Go code, which the deferred function re-raises without
  writing the object.
\<close>

subsection \<open>Condition types and messages\<close>

definition OpenStackVersionInitialized :: string where
  "OpenStackVersionInitialized = ''Initialized''"
definition OpenStackVersionMinorUpdateOVNDataplane :: string where
  "OpenStackVersionMinorUpdateOVNDataplane = ''MinorUpdateOVNDataplane''"
definition OpenStackVersionMinorUpdateOVNControlplane :: string where
  "OpenStackVersionMinorUpdateOVNControlplane = ''MinorUpdateOVNControlplane''"
definition OpenStackVersionMinorUpdateRabbitMQ :: string where
  "OpenStackVersionMinorUpdateRabbitMQ = ''MinorUpdateRabbitMQ''"
definition OpenStackVersionMinorUpdateMariaDB :: string where
  "OpenStackVersionMinorUpdateMariaDB = ''MinorUpdateMariaDB''"
definition OpenStackVersionMinorUpdateMemcached :: string where
  "OpenStackVersionMinorUpdateMemcached = ''MinorUpdateMemcached''"
definition OpenStackVersionMinorUpdateKeystone :: string where
  "OpenStackVersionMinorUpdateKeystone = ''MinorUpdateKeystone''"
definition OpenStackVersionMinorUpdateControlplane :: string where
  "OpenStackVersionMinorUpdateControlplane = ''MinorUpdateControlplane''"
definition OpenStackVersionMinorUpdateDataplane :: string where
  "OpenStackVersionMinorUpdateDataplane = ''MinorUpdateDataplane''"
definition OpenStackVersionMinorUpdateAvailable :: string where
  "OpenStackVersionMinorUpdateAvailable = ''MinorUpdateAvailable''"

lemmas version_condition_types =
  OpenStackVersionInitialized_def OpenStackVersionMinorUpdateOVNDataplane_def
  OpenStackVersionMinorUpdateOVNControlplane_def OpenStackVersionMinorUpdateRabbitMQ_def
  OpenStackVersionMinorUpdateMariaDB_def OpenStackVersionMinorUpdateMemcached_def
  OpenStackVersionMinorUpdateKeystone_def OpenStackVersionMinorUpdateControlplane_def
  OpenStackVersionMinorUpdateDataplane_def OpenStackVersionMinorUpdateAvailable_def ReadyCondition_def

text \<open>The stages of a minor update, in the order \<open>Reconcile\<close> runs them.\<close>

definition update_stages :: "string list" where
  "update_stages = [
     OpenStackVersionMinorUpdateOVNControlplane, OpenStackVersionMinorUpdateOVNDataplane,
     OpenStackVersionMinorUpdateRabbitMQ, OpenStackVersionMinorUpdateMariaDB,
     OpenStackVersionMinorUpdateMemcached, OpenStackVersionMinorUpdateKeystone,
     OpenStackVersionMinorUpdateControlplane, OpenStackVersionMinorUpdateDataplane]"

definition skip_annotation :: string where
  "skip_annotation = ''core.openstack.org/skip-custom-images-validation''"

subsection \<open>State\<close>

record version_env =
  ve_availableVersion :: string
  ve_containerImages :: "(string, string ptr) gomap"
  ve_newHelper :: "api_error option"
  ve_finalizer :: string
  ve_controlPlane :: "api_error + control_plane"
  ve_nodesets :: "api_error + dp_nodeset list"
  ve_deployments :: "api_error + dp_deployment list"
  ve_getService :: get_service
  ve_patch :: "api_error option"

datatype 'a step = Next 'a | Return "api_error option" 'a | Panic

fun step_bind :: "'a step \<Rightarrow> ('a \<Rightarrow> 'a step) \<Rightarrow> 'a step" where
  "step_bind (Next a) k = k a"
| "step_bind (Return e a) k = Return e a"
| "step_bind Panic k = Panic"

fun run_stages :: "('a \<Rightarrow> 'a step) list \<Rightarrow> 'a \<Rightarrow> 'a step" where
  "run_stages [] a = Next a"
| "run_stages (f # fs) a = step_bind (f a) (run_stages fs)"

definition v_conds :: "os_version \<Rightarrow> conditions" where
  "v_conds v = (case st_Conditions (v_Status v) of None \<Rightarrow> [] | Some cs \<Rightarrow> cs)"

definition upd_status :: "(version_status \<Rightarrow> version_status) \<Rightarrow> os_version \<Rightarrow> os_version" where
  "upd_status f v = v\<lparr>v_Status := f (v_Status v)\<rparr>"

definition upd_conds :: "(conditions \<Rightarrow> conditions) \<Rightarrow> os_version \<Rightarrow> os_version" where
  "upd_conds f v = upd_status (\<lambda>st. st\<lparr>st_Conditions := Some (f (v_conds v))\<rparr>) v"

abbreviation v_target :: "os_version \<Rightarrow> string" where
  "v_target v \<equiv> vs_TargetVersion (v_Spec v)"

abbreviation v_deployed :: "os_version \<Rightarrow> string ptr" where
  "v_deployed v \<equiv> st_DeployedVersion (v_Status v)"

subsection \<open>Stages of a minor update\<close>

definition set_running :: "condlib \<Rightarrow> string \<Rightarrow> os_version \<Rightarrow> os_version" where
  "set_running L t = upd_conds (\<lambda>cs. lc_Set L cs (lc_FalseCondition L t RequestedReason SeverityInfo ''in progress''))"

definition mark_completed :: "condlib \<Rightarrow> string \<Rightarrow> os_version \<Rightarrow> os_version" where
  "mark_completed L t = upd_conds (\<lambda>cs. lc_MarkTrue L cs t ''completed'')"

text \<open>The shape of the stages for RabbitMQ, MariaDB, Memcached and Keystone: the images in the status
  of the control plane are those of the version, and the service is ready.\<close>

definition service_stage ::
    "condlib \<Rightarrow> string \<Rightarrow> (control_plane \<Rightarrow> os_version \<Rightarrow> bool) \<Rightarrow> string \<Rightarrow> control_plane \<Rightarrow> os_version \<Rightarrow> os_version step" where
  "service_stage L t matches ready cp v =
     (if \<not> matches cp v \<or> \<not> lc_IsTrue L (cp_conds cp) ready then Return None (set_running L t v)
      else Next (mark_completed L t v))"

definition ovn_controlplane_stage :: "condlib \<Rightarrow> control_plane \<Rightarrow> os_version \<Rightarrow> os_version step" where
  "ovn_controlplane_stage L cp v =
     (if cp_Enabled cp Ovn \<and>
         (\<not> OVNControllerImageMatch cp v \<or> \<not> lc_IsTrue L (cp_conds cp) OpenStackControlPlaneOVNReadyCondition)
      then Return None (set_running L OpenStackVersionMinorUpdateOVNControlplane v)
      else Next (mark_completed L OpenStackVersionMinorUpdateOVNControlplane v))"

text \<open>Whether the OVN controller image is the same in the deployed and in the target version.\<close>

definition ovn_image_unchanged :: "os_version \<Rightarrow> bool" where
  "ovn_image_unchanged v =
     (case v_deployed v of
        None \<Rightarrow> False
      | Some dv \<Rightarrow>
          (case map_of (st_ContainerImageVersionDefaults (v_Status v)) dv of
             None \<Rightarrow> False
           | Some dd \<Rightarrow>
               cd_template dd OvnControllerImage \<noteq> None \<and>
               ci_template (v_images v) OvnControllerImage \<noteq> None \<and>
               the (cd_template dd OvnControllerImage) = the (ci_template (v_images v) OvnControllerImage)))"

definition ovn_dataplane_stage ::
    "condlib \<Rightarrow> version_env \<Rightarrow> conditions \<Rightarrow> control_plane \<Rightarrow> dp_nodeset list \<Rightarrow> os_version \<Rightarrow> os_version step" where
  "ovn_dataplane_stage L env saved cp nodesets v =
     (let t = OpenStackVersionMinorUpdateOVNDataplane;
          completed = Next (mark_completed L t v)
      in if \<not> cp_Enabled cp Ovn then completed
         else (case DataplaneNodesetsOVNControllerImagesMatch v nodesets of
                 None \<Rightarrow> Panic
               | Some False \<Rightarrow> Return None (set_running L t v)
               | Some True \<Rightarrow>
                   if \<not> ovn_image_unchanged v then completed
                   else (case IsDataplaneDeploymentRunningForServiceType (ve_deployments env)
                                (ve_getService env) nodesets ''ovn'' of
                           Inl e \<Rightarrow> Return (Some e) v
                         | Inr True \<Rightarrow> Return None (set_running L t v)
                         | Inr False \<Rightarrow>
                             (if (case lc_Get L saved t of None \<Rightarrow> True | Some c \<Rightarrow> c_reason c \<noteq> RequestedReason)
                              then Return None (upd_conds (\<lambda>cs. lc_Set L cs
                                     (lc_FalseCondition L t InitReason SeverityInfo ''in progress'')) v)
                              else completed))))"

definition join_comma :: "string list \<Rightarrow> string" where
  "join_comma xs = concat (map (\<lambda>x. x @ '', '') (butlast xs)) @ (if xs = [] then [] else last xs)"

definition controlplane_stage :: "condlib \<Rightarrow> control_plane \<Rightarrow> os_version \<Rightarrow> os_version step" where
  "controlplane_stage L cp v =
     (let t = OpenStackVersionMinorUpdateControlplane in
      if \<not> cp_IsReady L cp then Return None (set_running L t v)
      else (case ControlplaneContainerImageMatch cp v of
              (False, bad) \<Rightarrow>
                Return None (upd_conds (\<lambda>cs. lc_Set L cs (lc_FalseCondition L t ErrorReason SeverityWarning
                  (''error occured Controlplane images do not match the target version for the following services: ''
                   @ join_comma bad))) v)
            | (True, _) \<Rightarrow> Next (mark_completed L t v)))"

definition dataplane_stage :: "condlib \<Rightarrow> dp_nodeset list \<Rightarrow> os_version \<Rightarrow> os_version step" where
  "dataplane_stage L nodesets v =
     (if \<not> DataplaneNodesetsDeployed L v nodesets
      then Return None (set_running L OpenStackVersionMinorUpdateDataplane v)
      else Next (mark_completed L OpenStackVersionMinorUpdateDataplane v))"

definition minor_update ::
    "condlib \<Rightarrow> version_env \<Rightarrow> conditions \<Rightarrow> control_plane \<Rightarrow> dp_nodeset list \<Rightarrow> os_version \<Rightarrow> os_version step" where
  "minor_update L env saved cp nodesets = run_stages [
     ovn_controlplane_stage L cp,
     ovn_dataplane_stage L env saved cp nodesets,
     service_stage L OpenStackVersionMinorUpdateRabbitMQ RabbitmqImageMatch OpenStackControlPlaneRabbitMQReadyCondition cp,
     service_stage L OpenStackVersionMinorUpdateMariaDB GaleraImageMatch OpenStackControlPlaneMariaDBReadyCondition cp,
     service_stage L OpenStackVersionMinorUpdateMemcached MemcachedImageMatch OpenStackControlPlaneMemcachedReadyCondition cp,
     service_stage L OpenStackVersionMinorUpdateKeystone KeystoneImageMatch OpenStackControlPlaneKeystoneAPIReadyCondition cp,
     controlplane_stage L cp,
     dataplane_stage L nodesets]"

subsection \<open>Reconcile\<close>

definition updating :: "os_version \<Rightarrow> bool" where
  "updating v = (case v_deployed v of None \<Rightarrow> False | Some dv \<Rightarrow> v_target v \<noteq> dv)"

definition initial_conditions :: "condlib \<Rightarrow> os_version \<Rightarrow> conditions" where
  "initial_conditions L v =
     lc_UnknownCondition L OpenStackVersionInitialized InitReason ''not started'' #
     (if updating v then map (\<lambda>t. lc_UnknownCondition L t InitReason ''not started'') update_stages else [])"

text \<open>The images and service defaults of the target version; \<open>Return\<close> when the target version is
  not among the known ones.\<close>

definition initialize_version :: "condlib \<Rightarrow> version_env \<Rightarrow> os_version \<Rightarrow> os_version step" where
  "initialize_version L env v =
     (case InitializeOpenStackVersionImageDefaults (ve_containerImages env) of
        None \<Rightarrow> Panic
      | Some defaults \<Rightarrow>
          let v1 = upd_status (\<lambda>st. st\<lparr>
                     st_AvailableVersion := Some (ve_availableVersion env),
                     st_ContainerImageVersionDefaults :=
                       gomap_put (ve_availableVersion env) defaults (st_ContainerImageVersionDefaults st)\<rparr>)
                   (upd_conds (\<lambda>cs. lc_Set L cs (lc_FalseCondition L OpenStackVersionInitialized
                      RequestedReason SeverityInfo ''in progress'')) v)
          in (case map_of (st_ContainerImageVersionDefaults (v_Status v1)) (v_target v1) of
                None \<Rightarrow> Return None v1
              | Some val \<Rightarrow>
                  let (images, custom) = GetContainerImages val (vs_CustomContainerImages (v_Spec v1));
                      svcDefaults = gomap_put (ve_availableVersion env) InitializeOpenStackVersionServiceDefaults
                                      (st_AvailableServiceDefaults (v_Status v1));
                      v2 = upd_status (\<lambda>st. st\<lparr>
                             st_ContainerImages := images,
                             st_TrackedCustomImages := gomap_put (v_target v1) custom (st_TrackedCustomImages st),
                             st_AvailableServiceDefaults := svcDefaults,
                             st_ServiceDefaults := (case map_of svcDefaults (v_target v1) of
                                None \<Rightarrow> empty_service_defaults | Some sd \<Rightarrow> sd)\<rparr>)
                           (v1\<lparr>v_Spec := (v_Spec v1)\<lparr>vs_CustomContainerImages := custom\<rparr>\<rparr>)
                  in Next (upd_conds (\<lambda>cs. lc_MarkTrue L cs OpenStackVersionInitialized ''completed'') v2)))"

definition finish_reconcile :: "condlib \<Rightarrow> control_plane \<Rightarrow> os_version \<Rightarrow> os_version step" where
  "finish_reconcile L cp v =
     (let v1 = (if cp_IsReady L cp
                then upd_status (\<lambda>st. st\<lparr>st_DeployedVersion := Some (v_target v)\<rparr>)
                       (v\<lparr>v_Annotations := gomap_del skip_annotation (v_Annotations v)\<rparr>)
                else v)
      in Return None
           (if v_deployed v1 \<noteq> None \<and> st_AvailableVersion (v_Status v1) \<noteq> v_deployed v1
            then upd_conds (\<lambda>cs. lc_Set L cs (lc_TrueCondition L OpenStackVersionMinorUpdateAvailable ''update available'')) v1
            else upd_conds (\<lambda>cs. lc_Remove L cs OpenStackVersionMinorUpdateAvailable) v1))"

definition update_version :: "condlib \<Rightarrow> version_env \<Rightarrow> conditions \<Rightarrow> os_version \<Rightarrow> os_version step" where
  "update_version L env saved v =
     (case ve_controlPlane env of
        Inl e \<Rightarrow> Return (if IsNotFound e then None else Some e) v
      | Inr cp \<Rightarrow>
          (case ve_nodesets env of
             Inl e \<Rightarrow> Return (Some e) v
           | Inr nodesets \<Rightarrow>
               if cs_DeployedVersion (cp_Status cp) = None \<and> \<not> DataplaneNodesetsDeployedVersionIsSet nodesets
               then Return None v
               else step_bind (if updating v then minor_update L env saved cp nodesets v else Next v)
                      (finish_reconcile L cp)))"

definition AddFinalizer :: "string \<Rightarrow> string list \<Rightarrow> string list" where
  "AddFinalizer f fs = (if f \<in> set fs then fs else fs @ [f])"

definition reconcile_body :: "condlib \<Rightarrow> version_env \<Rightarrow> os_version \<Rightarrow> os_version step" where
  "reconcile_body L env v =
     (let isNew = (st_Conditions (v_Status v) = None);
          saved = v_conds v;
          v1 = upd_status (\<lambda>st. st\<lparr>st_ObservedGeneration := v_Generation v\<rparr>)
                 (upd_conds (\<lambda>cs. lc_Init L cs (initial_conditions L v)) v)
      in if \<not> v_Deleting v \<and> isNew
         then Return None (v1\<lparr>v_Finalizers := AddFinalizer (ve_finalizer env) (v_Finalizers v1)\<rparr>)
         else step_bind (initialize_version L env v1) (update_version L env saved))"

text \<open>The deferred function: recompute the Ready condition and write the object.\<close>

definition set_ready :: "condlib \<Rightarrow> os_version \<Rightarrow> os_version" where
  "set_ready L = upd_conds (\<lambda>cs.
     if lc_AllSubConditionIsTrue L cs then lc_MarkTrue L cs ReadyCondition ReadyMessage
     else (let cs1 = lc_MarkUnknown L cs ReadyCondition InitReason ReadyInitMessage
           in lc_Set L cs1 (lc_Mirror L cs1 ReadyCondition)))"

datatype reconcile_out = RPanic | ROut "api_error option" "os_version option"

definition Reconcile :: "condlib \<Rightarrow> version_env \<Rightarrow> (api_error + os_version) \<Rightarrow> reconcile_out" where
  "Reconcile L env instance =
     (case instance of
        Inl e \<Rightarrow> ROut (if IsNotFound e then None else Some e) None
      | Inr v \<Rightarrow>
          (case ve_newHelper env of
             Some e \<Rightarrow> ROut (Some e) None
           | None \<Rightarrow>
               let done = (\<lambda>err v'. case ve_patch env of
                              Some e \<Rightarrow> ROut (Some e) None
                            | None \<Rightarrow> ROut err (Some (set_ready L v')))
               in (case reconcile_body L env v of
                     Panic \<Rightarrow> RPanic
                   | Return err v' \<Rightarrow> done err v'
                   | Next v' \<Rightarrow> done None v')))"

subsection \<open>Stages in sequence\<close>

lemma run_stages_append: "run_stages (fs @ gs) a = step_bind (run_stages fs a) (run_stages gs)"
proof (induction fs arbitrary: a)
  case (Cons f fs)
  then show ?case by (cases "f a") simp_all
qed simp

end
