(* ===== verification/Version_Laws.thy ===== *)
theory Version_Laws
  imports Version_Controller
begin

text \<open>
  Laws of the version controller.  The locale \<open>update_stage\<close> is the contract of one stage of a minor
  update: a stage lets the update go on only with its own condition true, ends the reconciliation
  without making it true, and touches nothing but that condition.  The stages of
  \<open>Version_Controller\<close> interpret it; the order of a minor update follows from the contract alone.
\<close>

subsection \<open>Frame of a change of conditions\<close>

lemma v_conds_upd_conds [simp]: "v_conds (upd_conds f v) = f (v_conds v)"
  by (simp add: upd_conds_def upd_status_def v_conds_def)

lemma upd_conds_frame [simp]:
  "v_Spec (upd_conds f v) = v_Spec v"
  "st_DeployedVersion (v_Status (upd_conds f v)) = st_DeployedVersion (v_Status v)"
  "v_images (upd_conds f v) = v_images v"
  "st_ContainerImageVersionDefaults (v_Status (upd_conds f v)) = st_ContainerImageVersionDefaults (v_Status v)"
  "st_AvailableVersion (v_Status (upd_conds f v)) = st_AvailableVersion (v_Status v)"
  "v_Annotations (upd_conds f v) = v_Annotations v"
  by (simp_all add: upd_conds_def upd_status_def)

lemma upd_conds_upd_conds: "upd_conds f (upd_conds g v) = upd_conds (f \<circ> g) v"
  by (simp add: upd_conds_def upd_status_def v_conds_def)

definition only_conds :: "os_version \<Rightarrow> os_version \<Rightarrow> bool" where
  "only_conds v v' \<longleftrightarrow> (\<exists>cs. v' = upd_conds (\<lambda>_. cs) v) \<or> v' = v"

lemma only_conds_refl [simp]: "only_conds v v"
  by (simp add: only_conds_def)

lemma only_conds_upd [simp]: "only_conds v (upd_conds f v)"
proof -
  have "upd_conds f v = upd_conds (\<lambda>_. f (v_conds v)) v" by (simp add: upd_conds_def)
  then show ?thesis unfolding only_conds_def by blast
qed

lemma only_conds_trans: "only_conds u v \<Longrightarrow> only_conds v w \<Longrightarrow> only_conds u w"
  by (auto simp: only_conds_def upd_conds_upd_conds comp_def)

lemma only_condsD:
  assumes "only_conds v v'"
  shows "v_Spec v' = v_Spec v" "v_deployed v' = v_deployed v" "v_images v' = v_images v"
    "st_ContainerImageVersionDefaults (v_Status v') = st_ContainerImageVersionDefaults (v_Status v)"
    "st_AvailableVersion (v_Status v') = st_AvailableVersion (v_Status v)"
  using assms by (auto simp: only_conds_def)

definition frame :: "condlib \<Rightarrow> string set \<Rightarrow> os_version \<Rightarrow> os_version \<Rightarrow> bool" where
  "frame L T v v' \<longleftrightarrow> only_conds v v' \<and> (\<forall>t. t \<notin> T \<longrightarrow> lc_Get L (v_conds v') t = lc_Get L (v_conds v) t)"

lemma frame_refl [simp]: "frame L T v v"
  by (simp add: frame_def)

lemma frameD:
  assumes "frame L T v v'"
  shows "v_Spec v' = v_Spec v" "v_deployed v' = v_deployed v" "v_images v' = v_images v"
  using assms by (simp_all add: frame_def only_condsD)

lemma frame_trans: "frame L S u v \<Longrightarrow> frame L T v w \<Longrightarrow> S \<union> T \<subseteq> U \<Longrightarrow> frame L U u w"
  unfolding frame_def by (metis UnCI only_conds_trans subsetD)

lemma frame_Set: "condlib_laws L \<Longrightarrow> frame L {c_type c} v (upd_conds (\<lambda>cs. lc_Set L cs c) v)"
  by (simp add: frame_def)

subsection \<open>The contract of a stage\<close>

definition stage_ok :: "condlib \<Rightarrow> string \<times> (os_version \<Rightarrow> os_version step) \<Rightarrow> bool" where
  "stage_ok L s \<longleftrightarrow> (\<forall>v v' e.
     (snd s v = Next v' \<longrightarrow> frame L {fst s} v v' \<and> lc_IsTrue L (v_conds v') (fst s)) \<and>
     (snd s v = Return e v' \<longrightarrow> frame L {fst s} v v' \<and>
        (lc_IsTrue L (v_conds v') (fst s) \<longrightarrow> lc_IsTrue L (v_conds v) (fst s))))"

locale update_stage =
  fixes t :: string
    and run :: "condlib \<Rightarrow> os_version \<Rightarrow> os_version step"
  assumes next_marks: "condlib_laws L \<Longrightarrow> run L v = Next v' \<Longrightarrow> v' = mark_completed L t v"
    and return_frame: "condlib_laws L \<Longrightarrow> run L v = Return e v' \<Longrightarrow> frame L {t} v v'"
    and return_not_true: "condlib_laws L \<Longrightarrow> run L v = Return e v' \<Longrightarrow>
          lc_IsTrue L (v_conds v') t \<Longrightarrow> lc_IsTrue L (v_conds v) t"
begin

lemma next_frame:
  assumes "condlib_laws L" and "run L v = Next v'"
  shows "frame L {t} v v'"
  using next_marks [OF assms] assms(1) by (simp add: mark_completed_def frame_def)

lemma next_true:
  assumes "condlib_laws L" and "run L v = Next v'"
  shows "lc_IsTrue L (v_conds v') t"
  using next_marks [OF assms] assms(1) by (simp add: mark_completed_def)

lemma ok: "condlib_laws L \<Longrightarrow> stage_ok L (t, run L)"
  by (auto simp: stage_ok_def next_frame next_true return_frame dest: return_not_true)

end

interpretation service: update_stage t "\<lambda>L. service_stage L t matches ready cp"
  for t matches ready cp
  by unfold_locales (auto simp: service_stage_def set_running_def frame_def split: if_splits)

interpretation ovn_controlplane: update_stage OpenStackVersionMinorUpdateOVNControlplane
    "\<lambda>L. ovn_controlplane_stage L cp"
  for cp
  by unfold_locales (auto simp: ovn_controlplane_stage_def set_running_def frame_def split: if_splits)

interpretation ovn_dataplane: update_stage OpenStackVersionMinorUpdateOVNDataplane
    "\<lambda>L. ovn_dataplane_stage L env saved cp nodesets"
  for env saved cp nodesets
  by unfold_locales
    (auto simp: ovn_dataplane_stage_def set_running_def frame_def Let_def
      split: if_splits option.splits bool.splits sum.splits)

interpretation controlplane: update_stage OpenStackVersionMinorUpdateControlplane
    "\<lambda>L. controlplane_stage L cp"
  for cp
  by unfold_locales
    (auto simp: controlplane_stage_def set_running_def frame_def Let_def
      split: if_splits prod.splits bool.splits)

interpretation dataplane: update_stage OpenStackVersionMinorUpdateDataplane
    "\<lambda>L. dataplane_stage L nodesets"
  for nodesets
  by unfold_locales (auto simp: dataplane_stage_def set_running_def frame_def split: if_splits)

subsection \<open>A sequence of stages\<close>

text \<open>How a sequence ends: completed, or stopped at one stage with the earlier ones true and the later
  ones untouched.\<close>

definition stopped_at ::
    "condlib \<Rightarrow> string list \<Rightarrow> nat \<Rightarrow> os_version \<Rightarrow> os_version \<Rightarrow> bool" where
  "stopped_at L ts k v v' \<longleftrightarrow>
     k < length ts \<and> frame L (set (take (Suc k) ts)) v v' \<and>
     (\<forall>t\<in>set (take k ts). lc_IsTrue L (v_conds v') t) \<and>
     (lc_IsTrue L (v_conds v') (ts ! k) \<longrightarrow> lc_IsTrue L (v_conds v) (ts ! k))"

lemma frame_IsTrue:
  "condlib_laws L \<Longrightarrow> frame L T v v' \<Longrightarrow> t \<notin> T \<Longrightarrow> lc_IsTrue L (v_conds v') t = lc_IsTrue L (v_conds v) t"
  by (simp add: frame_def condlib_IsTrue)

lemma stopped_at_Cons:
  assumes "condlib_laws L" and "frame L {t} v u" and "lc_IsTrue L (v_conds u) t" and "t \<notin> set ts"
    and "stopped_at L ts k u v'"
  shows "stopped_at L (t # ts) (Suc k) v v'"
proof -
  have k: "k < length ts" and f: "frame L (set (take (Suc k) ts)) u v'"
    and tr: "\<forall>t\<in>set (take k ts). lc_IsTrue L (v_conds v') t"
    and nt: "lc_IsTrue L (v_conds v') (ts ! k) \<longrightarrow> lc_IsTrue L (v_conds u) (ts ! k)"
    using assms(5) by (simp_all add: stopped_at_def)
  have "t \<notin> set (take (Suc k) ts)" using assms(4) by (meson in_set_takeD)
  then have t: "lc_IsTrue L (v_conds v') t" using frame_IsTrue [OF assms(1) f] assms(3) by simp
  have "ts ! k \<noteq> t" using assms(4) k nth_mem by metis
  then have "lc_IsTrue L (v_conds u) (ts ! k) = lc_IsTrue L (v_conds v) (ts ! k)"
    by (intro frame_IsTrue [OF assms(1,2)]) simp
  moreover have "frame L (set (take (Suc (Suc k)) (t # ts))) v v'"
    by (rule frame_trans [OF assms(2) f]) auto
  ultimately show ?thesis using k t tr nt by (simp add: stopped_at_def)
qed

lemma run_stages_end:
  assumes "condlib_laws L" and "list_all (stage_ok L) ss" and "distinct (map fst ss)"
  shows "(run_stages (map snd ss) v = Next v' \<longrightarrow>
            frame L (set (map fst ss)) v v' \<and> (\<forall>t\<in>set (map fst ss). lc_IsTrue L (v_conds v') t)) \<and>
         (run_stages (map snd ss) v = Return e v' \<longrightarrow> (\<exists>k. stopped_at L (map fst ss) k v v'))"
  using assms(2,3)
proof (induction ss arbitrary: v)
  case Nil
  then show ?case by simp
next
  case (Cons s ss)
  let ?ts = "map fst ss"
  have s: "stage_ok L s" and fresh: "fst s \<notin> set ?ts" and d: "distinct ?ts"
    using Cons.prems by auto
  show ?case
  proof (cases "snd s v")
    case (Next u)
    with s have u: "frame L {fst s} v u" "lc_IsTrue L (v_conds u) (fst s)" by (auto simp: stage_ok_def)
    have IH: "(run_stages (map snd ss) u = Next v' \<longrightarrow>
            frame L (set ?ts) u v' \<and> (\<forall>t\<in>set ?ts. lc_IsTrue L (v_conds v') t)) \<and>
         (run_stages (map snd ss) u = Return e v' \<longrightarrow> (\<exists>k. stopped_at L ?ts k u v'))"
      using Cons.IH [of u] Cons.prems d by simp
    have keep: "lc_IsTrue L (v_conds v') (fst s)" if "frame L T u v'" "T \<subseteq> set ?ts" for T
      using frame_IsTrue [OF assms(1) that(1), of "fst s"] that(2) fresh u(2) by auto
    have "\<exists>k. stopped_at L (map fst (s # ss)) k v v'" if "stopped_at L ?ts k u v'" for k
      using stopped_at_Cons [OF assms(1) u fresh that] by auto
    with IH keep [of "set ?ts"] frame_trans [OF u(1), of "set ?ts" v'] Next show ?thesis by auto
  next
    case (Return e' u)
    with s have "frame L {fst s} v u" "lc_IsTrue L (v_conds u) (fst s) \<longrightarrow> lc_IsTrue L (v_conds v) (fst s)"
      by (auto simp: stage_ok_def)
    then have "stopped_at L (map fst (s # ss)) 0 v u" by (simp add: stopped_at_def)
    with Return show ?thesis by auto
  next
    case Panic
    then show ?thesis by simp
  qed
qed

definition named_stages ::
    "condlib \<Rightarrow> version_env \<Rightarrow> conditions \<Rightarrow> control_plane \<Rightarrow> dp_nodeset list \<Rightarrow> (string \<times> (os_version \<Rightarrow> os_version step)) list" where
  "named_stages L env saved cp nodesets = [
     (OpenStackVersionMinorUpdateOVNControlplane, ovn_controlplane_stage L cp),
     (OpenStackVersionMinorUpdateOVNDataplane, ovn_dataplane_stage L env saved cp nodesets),
     (OpenStackVersionMinorUpdateRabbitMQ, service_stage L OpenStackVersionMinorUpdateRabbitMQ RabbitmqImageMatch OpenStackControlPlaneRabbitMQReadyCondition cp),
     (OpenStackVersionMinorUpdateMariaDB, service_stage L OpenStackVersionMinorUpdateMariaDB GaleraImageMatch OpenStackControlPlaneMariaDBReadyCondition cp),
     (OpenStackVersionMinorUpdateMemcached, service_stage L OpenStackVersionMinorUpdateMemcached MemcachedImageMatch OpenStackControlPlaneMemcachedReadyCondition cp),
     (OpenStackVersionMinorUpdateKeystone, service_stage L OpenStackVersionMinorUpdateKeystone KeystoneImageMatch OpenStackControlPlaneKeystoneAPIReadyCondition cp),
     (OpenStackVersionMinorUpdateControlplane, controlplane_stage L cp),
     (OpenStackVersionMinorUpdateDataplane, dataplane_stage L nodesets)]"

lemma minor_update_named: "minor_update L env saved cp nodesets = run_stages (map snd (named_stages L env saved cp nodesets))"
  by (simp add: minor_update_def named_stages_def)

lemma named_stages_names: "map fst (named_stages L env saved cp nodesets) = update_stages"
  by (simp add: named_stages_def update_stages_def)

lemma named_stages_ok: "condlib_laws L \<Longrightarrow> list_all (stage_ok L) (named_stages L env saved cp nodesets)"
  by (simp add: named_stages_def service.ok ovn_controlplane.ok ovn_dataplane.ok controlplane.ok dataplane.ok)

lemma distinct_update_stages: "distinct update_stages"
  by (simp add: update_stages_def version_condition_types)

lemma other_types_not_stages:
  "OpenStackVersionInitialized \<notin> set update_stages" "OpenStackVersionMinorUpdateAvailable \<notin> set update_stages"
  "ReadyCondition \<notin> set update_stages"
  by (simp_all add: update_stages_def version_condition_types)

lemma minor_update_end:
  assumes "condlib_laws L"
  shows "minor_update L env saved cp nodesets v = Next v' \<Longrightarrow>
           frame L (set update_stages) v v' \<and> (\<forall>t\<in>set update_stages. lc_IsTrue L (v_conds v') t)"
    and "minor_update L env saved cp nodesets v = Return e v' \<Longrightarrow> \<exists>k. stopped_at L update_stages k v v'"
  using run_stages_end [OF assms named_stages_ok [OF assms], of env saved cp nodesets v v' e]
  by (simp_all add: minor_update_named named_stages_names distinct_update_stages)

end
