(* ===== verification/Version_Reconcile.thy ===== *)
theory Version_Reconcile
  imports Version_Laws
begin

text \<open>
  What one call of \<open>Reconcile\<close> of the version controller guarantees: the stages of a minor update
  complete in order, the deployed version changes during an update only after every stage, it does
  change once the control plane and the data plane are at the target, and two behaviours of the OVN
  data plane stage when the OVN image is the same in both versions.
\<close>

subsection \<open>Before the update\<close>

lemma upd_status_frame [simp]:
  "v_Spec (upd_status f v) = v_Spec v" "v_Status (upd_status f v) = f (v_Status v)"
  "v_Annotations (upd_status f v) = v_Annotations v"
  by (simp_all add: upd_status_def)

lemma v_conds_upd_status [simp]:
  "(\<And>st. st_Conditions (f st) = st_Conditions st) \<Longrightarrow> v_conds (upd_status f v) = v_conds v"
  by (simp add: v_conds_def)

lemma v_conds_spec_annotations [simp]:
  "v_conds (v\<lparr>v_Spec := s\<rparr>) = v_conds v" "v_conds (v\<lparr>v_Annotations := a\<rparr>) = v_conds v"
  "v_conds (v\<lparr>v_Finalizers := fs\<rparr>) = v_conds v"
  by (simp_all add: v_conds_def)

lemma initialize_version_keeps:
  assumes "condlib_laws L" and "initialize_version L env v = Next v' \<or> initialize_version L env v = Return e v'"
  shows "v_target v' = v_target v \<and> v_deployed v' = v_deployed v \<and>
    (\<forall>t. t \<noteq> OpenStackVersionInitialized \<longrightarrow> lc_Get L (v_conds v') t = lc_Get L (v_conds v) t)"
  using assms
  by (auto simp: initialize_version_def Let_def split: option.splits prod.splits)

lemma initial_stages:
  assumes "condlib_laws L" and "updating v" and "t \<in> set update_stages"
  shows "lc_Get L (lc_Init L cs (initial_conditions L v)) t =
     Some (lc_UnknownCondition L t InitReason ''not started'')"
proof -
  let ?cl = "initial_conditions L v"
  have "map c_type ?cl = OpenStackVersionInitialized # update_stages"
    using assms(1,2) by (simp add: initial_conditions_def comp_def)
  then have "distinct (map c_type ?cl)" using distinct_update_stages other_types_not_stages(1) by simp
  moreover have "lc_UnknownCondition L t InitReason ''not started'' \<in> set ?cl"
    using assms(2,3) by (simp add: initial_conditions_def)
  ultimately show ?thesis using condlib_Init [OF assms(1)] assms(1) by fastforce
qed

subsection \<open>The stages in order\<close>

definition stages_in_order :: "condlib \<Rightarrow> conditions \<Rightarrow> bool" where
  "stages_in_order L cs \<longleftrightarrow> (\<forall>i j. i < j \<longrightarrow> j < length update_stages \<longrightarrow>
     lc_IsTrue L cs (update_stages ! j) \<longrightarrow> lc_IsTrue L cs (update_stages ! i))"

lemma stages_in_order_cong:
  assumes "condlib_laws L" and "\<And>t. t \<in> set update_stages \<Longrightarrow> lc_Get L cs t = lc_Get L cs' t"
  shows "stages_in_order L cs = stages_in_order L cs'"
  by (simp add: stages_in_order_def condlib_IsTrue [OF assms(1)] assms(2) cong: conj_cong imp_cong)

lemma no_stage_true_in_order: "\<forall>t\<in>set update_stages. \<not> lc_IsTrue L cs t \<Longrightarrow> stages_in_order L cs"
  by (simp add: stages_in_order_def)

lemma stopped_in_order:
  assumes "condlib_laws L" and "stopped_at L update_stages k v v'"
    and "\<forall>t\<in>set update_stages. \<not> lc_IsTrue L (v_conds v) t"
  shows "stages_in_order L (v_conds v')"
  unfolding stages_in_order_def
proof (intro allI impI)
  fix i j
  assume ij: "i < j" "j < length update_stages" and tr: "lc_IsTrue L (v_conds v') (update_stages ! j)"
  have k: "k < length update_stages" and fr: "frame L (set (take (Suc k) update_stages)) v v'"
    and before: "\<forall>t\<in>set (take k update_stages). lc_IsTrue L (v_conds v') t"
    and at: "\<not> lc_IsTrue L (v_conds v') (update_stages ! k)"
    using assms(2,3) nth_mem by (auto simp: stopped_at_def)
  have "update_stages ! j \<in> set (take (Suc k) update_stages)"
    using frame_IsTrue [OF assms(1) fr] tr assms(3) ij(2) nth_mem by blast
  then obtain m where "m < Suc k" "update_stages ! m = update_stages ! j"
    by (auto simp: in_set_conv_nth)
  then have "j < Suc k" using ij(2) k distinct_update_stages nth_eq_iff_index_eq by fastforce
  with at tr have "j \<noteq> k" by auto
  with \<open>j < Suc k\<close> ij(1) have "i < k" by simp
  then have "update_stages ! i \<in> set (take k update_stages)" using k by (auto simp: in_set_conv_nth)
  then show "lc_IsTrue L (v_conds v') (update_stages ! i)" using before by blast
qed

subsection \<open>The body of Reconcile\<close>

lemma finish_reconcile_keeps:
  assumes "condlib_laws L" and "finish_reconcile L cp v = Return e v'" and "t \<in> set update_stages"
  shows "lc_Get L (v_conds v') t = lc_Get L (v_conds v) t"
  using assms other_types_not_stages(2)
  by (auto simp: finish_reconcile_def Let_def split: if_splits)

lemma finish_reconcile_deployed:
  "\<exists>v'. finish_reconcile L cp v = Return None v' \<and> v_target v' = v_target v \<and> v_images v' = v_images v \<and>
     v_deployed v' = (if cp_IsReady L cp then Some (v_target v) else v_deployed v)"
  by (simp add: finish_reconcile_def Let_def)

text \<open>How the part of \<open>Reconcile\<close> after the initialisation ends while an update is in progress.\<close>

lemma update_version_ends:
  assumes "condlib_laws L" and "updating v" and "update_version L env saved v = Return e v'"
  shows "v' = v \<or> (\<exists>k. stopped_at L update_stages k v v') \<or>
    (\<exists>cp nodesets u. ve_controlPlane env = Inr cp \<and> ve_nodesets env = Inr nodesets \<and>
       minor_update L env saved cp nodesets v = Next u \<and> finish_reconcile L cp u = Return e v')"
proof (cases "ve_controlPlane env")
  case (Inr cp)
  show ?thesis
  proof (cases "ve_nodesets env")
    case (Inr nodesets)
    note env = \<open>ve_controlPlane env = Inr cp\<close> Inr
    show ?thesis
    proof (cases "minor_update L env saved cp nodesets v")
      case (Next u)
      then show ?thesis using env assms(2,3) by (auto simp: update_version_def split: if_splits)
    next
      case (Return e' u)
      then have "\<exists>k. stopped_at L update_stages k v u" by (rule minor_update_end(2) [OF assms(1)])
      then show ?thesis using env assms(2,3) Return by (auto simp: update_version_def split: if_splits)
    next
      case Panic
      then show ?thesis using env assms(2,3) by (auto simp: update_version_def split: if_splits)
    qed
  qed (use assms(3) Inr in \<open>simp add: update_version_def\<close>)
qed (use assms(3) in \<open>simp add: update_version_def\<close>)

lemma update_version_in_order:
  assumes "condlib_laws L" and "updating v" and "update_version L env saved v = Return e v'"
    and "\<forall>t\<in>set update_stages. \<not> lc_IsTrue L (v_conds v) t"
  shows "stages_in_order L (v_conds v')"
proof -
  consider "v' = v" | k where "stopped_at L update_stages k v v'"
    | cp nodesets u where "minor_update L env saved cp nodesets v = Next u" "finish_reconcile L cp u = Return e v'"
    using update_version_ends [OF assms(1-3)] by blast
  then show ?thesis
  proof cases
    case 1 with assms(4) show ?thesis by (simp add: no_stage_true_in_order)
  next
    case 2 with assms(1,4) show ?thesis by (simp add: stopped_in_order)
  next
    case 3
    have "stages_in_order L (v_conds u)"
      using minor_update_end(1) [OF assms(1) 3(1)] by (simp add: stages_in_order_def)
    then show ?thesis
      using stages_in_order_cong [OF assms(1)] finish_reconcile_keeps [OF assms(1) 3(2)] by blast
  qed
qed

definition start_reconcile :: "condlib \<Rightarrow> os_version \<Rightarrow> os_version" where
  "start_reconcile L v = upd_status (\<lambda>st. st\<lparr>st_ObservedGeneration := v_Generation v\<rparr>)
     (upd_conds (\<lambda>cs. lc_Init L cs (initial_conditions L v)) v)"

lemma start_reconcile_simps [simp]:
  "v_target (start_reconcile L v) = v_target v" "v_deployed (start_reconcile L v) = v_deployed v"
  "v_conds (start_reconcile L v) = lc_Init L (v_conds v) (initial_conditions L v)"
  "v_Spec (start_reconcile L v) = v_Spec v"
  "st_ContainerImageVersionDefaults (v_Status (start_reconcile L v)) = st_ContainerImageVersionDefaults (v_Status v)"
  by (simp_all add: start_reconcile_def)

lemma update_version_not_Next: "update_version L env saved v \<noteq> Next v'"
proof -
  have "step_bind s (finish_reconcile L cp) \<noteq> Next v'" for s cp
    by (cases s) (simp_all add: finish_reconcile_def Let_def)
  then show ?thesis by (simp add: update_version_def split: sum.splits)
qed

lemma reconcile_body_ends:
  assumes "condlib_laws L" and "reconcile_body L env v = Next v' \<or> reconcile_body L env v = Return e v'"
  shows "(\<forall>t\<in>set update_stages. lc_Get L (v_conds v') t = lc_Get L (v_conds (start_reconcile L v)) t) \<and>
           v_deployed v' = v_deployed v \<or>
    (\<exists>u. initialize_version L env (start_reconcile L v) = Next u \<and>
         update_version L env (v_conds v) u = Return e v')"
proof -
  let ?s = "start_reconcile L v"
  have body: "reconcile_body L env v =
      (if \<not> v_Deleting v \<and> st_Conditions (v_Status v) = None
       then Return None (?s\<lparr>v_Finalizers := AddFinalizer (ve_finalizer env) (v_Finalizers ?s)\<rparr>)
       else step_bind (initialize_version L env ?s) (update_version L env (v_conds v)))"
    by (simp add: reconcile_body_def start_reconcile_def Let_def)
  show ?thesis
  proof (cases "\<not> v_Deleting v \<and> st_Conditions (v_Status v) = None")
    case True
    with assms(2) body show ?thesis by auto
  next
    case False
    then have b: "reconcile_body L env v = step_bind (initialize_version L env ?s) (update_version L env (v_conds v))"
      using body by (simp only: if_False)
    show ?thesis
    proof (cases "initialize_version L env ?s")
      case (Return e' u)
      then have "u = v'" using assms(2) b by auto
      with initialize_version_keeps [OF assms(1), of env ?s v' e'] Return other_types_not_stages(1)
      show ?thesis by (metis start_reconcile_simps(2))
    qed (use assms(2) b update_version_not_Next in auto)
  qed
qed

lemma set_ready_keeps:
  assumes "condlib_laws L"
  shows "t \<in> set update_stages \<Longrightarrow> lc_Get L (v_conds (set_ready L v)) t = lc_Get L (v_conds v) t"
    and "v_deployed (set_ready L v) = v_deployed v" and "v_target (set_ready L v) = v_target v"
    and "v_images (set_ready L v) = v_images v"
  using assms other_types_not_stages(3) by (auto simp: set_ready_def Let_def)

lemma Reconcile_writes:
  assumes "Reconcile L env (Inr v) = ROut err (Some v')"
  shows "\<exists>w e. (reconcile_body L env v = Next w \<or> reconcile_body L env v = Return e w) \<and> v' = set_ready L w"
  using assms by (auto simp: Reconcile_def Let_def split: option.splits step.splits)

lemma updating_cong: "v_target u = v_target v \<Longrightarrow> v_deployed u = v_deployed v \<Longrightarrow> updating u = updating v"
  by (simp add: updating_def split: option.splits)

subsection \<open>Order and safety of a minor update\<close>

lemma start_no_stage_true:
  assumes "condlib_laws L" and "updating v" and "t \<in> set update_stages"
  shows "\<not> lc_IsTrue L (v_conds (start_reconcile L v)) t"
  using assms by (simp add: condlib_IsTrue initial_stages)

lemma initialized_no_stage_true:
  assumes "condlib_laws L" and "updating v"
    and "initialize_version L env (start_reconcile L v) = Next u"
  shows "updating u \<and> v_target u = v_target v \<and> v_deployed u = v_deployed v \<and>
    (\<forall>t\<in>set update_stages. \<not> lc_IsTrue L (v_conds u) t)"
proof -
  have k: "v_target u = v_target v" "v_deployed u = v_deployed v"
    "\<And>t. t \<noteq> OpenStackVersionInitialized \<Longrightarrow> lc_Get L (v_conds u) t = lc_Get L (v_conds (start_reconcile L v)) t"
    using initialize_version_keeps [OF assms(1), of env "start_reconcile L v" u] assms(3) by auto
  have "\<not> lc_IsTrue L (v_conds u) t" if "t \<in> set update_stages" for t
  proof -
    have "t \<noteq> OpenStackVersionInitialized" using that other_types_not_stages(1) by metis
    then show ?thesis
      using start_no_stage_true [OF assms(1,2) that] k(3) by (simp add: condlib_IsTrue [OF assms(1)])
  qed
  with k updating_cong [OF k(1,2)] assms(2) show ?thesis by blast
qed

text \<open>C1: in every object a reconciliation writes while a minor update is in progress, the stages are
  completed in the order OVN control plane, OVN data plane, RabbitMQ, MariaDB, Memcached, Keystone,
  control plane, data plane: when the condition of a stage is true, so is that of each earlier
  stage.\<close>

theorem minor_update_in_order:
  assumes "condlib_laws L" and "updating v" and "Reconcile L env (Inr v) = ROut err (Some v')"
    and "i < j" and "j < length update_stages"
    and "lc_IsTrue L (v_conds v') (update_stages ! j)"
  shows "lc_IsTrue L (v_conds v') (update_stages ! i)"
proof -
  obtain w e where w: "reconcile_body L env v = Next w \<or> reconcile_body L env v = Return e w"
    and v': "v' = set_ready L w"
    using Reconcile_writes [OF assms(3)] by blast
  have "stages_in_order L (v_conds w)"
    using reconcile_body_ends [OF assms(1) w]
  proof (elim disjE conjE exE)
    assume "\<forall>t\<in>set update_stages. lc_Get L (v_conds w) t = lc_Get L (v_conds (start_reconcile L v)) t"
    then show ?thesis
      using start_no_stage_true [OF assms(1,2)]
      by (intro no_stage_true_in_order) (simp add: condlib_IsTrue [OF assms(1)])
  next
    fix u assume u: "initialize_version L env (start_reconcile L v) = Next u"
      and r: "update_version L env (v_conds v) u = Return e w"
    from initialized_no_stage_true [OF assms(1,2) u] show ?thesis
      by (intro update_version_in_order [OF assms(1) _ r]) auto
  qed
  then have "stages_in_order L (v_conds v')"
    using stages_in_order_cong [OF assms(1), of "v_conds v'" "v_conds w"] set_ready_keeps(1) [OF assms(1)] v' by simp
  with assms(4-6) show ?thesis by (simp add: stages_in_order_def)
qed

lemma step_bind_Next_iff: "step_bind s k = Next a \<longleftrightarrow> (\<exists>b. s = Next b \<and> k b = Next a)"
  by (cases s) auto

lemma minor_update_checks:
  assumes "condlib_laws L" and "minor_update L env saved cp nodesets v = Next u"
  shows "cp_IsReady L cp \<and> fst (ControlplaneContainerImageMatch cp u) \<and> DataplaneNodesetsDeployed L u nodesets"
proof -
  let ?last = "[controlplane_stage L cp, dataplane_stage L nodesets]"
  have "minor_update L env saved cp nodesets = run_stages (take 6 (map snd (named_stages L env saved cp nodesets)) @ ?last)"
    by (simp add: minor_update_named named_stages_def)
  then obtain w where w: "run_stages ?last w = Next u"
    using assms(2) by (auto simp: run_stages_append step_bind_Next_iff)
  then obtain x where x: "controlplane_stage L cp w = Next x" "dataplane_stage L nodesets x = Next u"
    by (auto simp: step_bind_Next_iff)
  have wx: "v_images w = v_images x" "v_images x = v_images u" "v_Spec x = v_Spec u"
    using frameD [OF controlplane.next_frame [OF assms(1) x(1)]] frameD [OF dataplane.next_frame [OF assms(1) x(2)]]
    by simp_all
  have "cp_IsReady L cp" "fst (ControlplaneContainerImageMatch cp w)"
    using x(1) by (auto simp: controlplane_stage_def Let_def split: if_splits prod.splits bool.splits)
  moreover have "DataplaneNodesetsDeployed L x nodesets"
    using x(2) by (simp add: dataplane_stage_def split: if_splits)
  ultimately show ?thesis
    using ControlplaneContainerImageMatch_cong [of w u cp] wx by (simp add: DataplaneNodesetsDeployed_iff)
qed

lemma not_updated_keeps_deployed:
  assumes "condlib_laws L" and "stopped_at L ts k v v'"
  shows "v_deployed v' = v_deployed v"
  using assms by (simp add: stopped_at_def frame_def only_condsD)

text \<open>C2: while a minor update is in progress, a reconciliation changes the deployed version only to
  the target version, and only when the control plane is ready, the image check of every service of
  the control plane passes, every node set with nodes is ready at the target version, and all eight
  stages are recorded as completed.\<close>

theorem deployed_version_only_after_update:
  assumes "condlib_laws L" and "updating v" and "Reconcile L env (Inr v) = ROut err (Some v')"
    and "v_deployed v' \<noteq> v_deployed v"
  shows "\<exists>cp nodesets. ve_controlPlane env = Inr cp \<and> ve_nodesets env = Inr nodesets \<and>
    v_deployed v' = Some (v_target v) \<and> cp_IsReady L cp \<and>
    fst (ControlplaneContainerImageMatch cp v') \<and> DataplaneNodesetsDeployed L v' nodesets \<and>
    (\<forall>t\<in>set update_stages. lc_IsTrue L (v_conds v') t)"
proof -
  obtain w e where w: "reconcile_body L env v = Next w \<or> reconcile_body L env v = Return e w"
    and v': "v' = set_ready L w"
    using Reconcile_writes [OF assms(3)] by blast
  note keep = set_ready_keeps [OF assms(1)]
  have "v_deployed w \<noteq> v_deployed v" using assms(4) v' keep(2) by simp
  then obtain u where u: "initialize_version L env (start_reconcile L v) = Next u"
    and r: "update_version L env (v_conds v) u = Return e w"
    using reconcile_body_ends [OF assms(1) w] by blast
  note i = initialized_no_stage_true [OF assms(1,2) u]
  obtain cp nodesets x where c: "ve_controlPlane env = Inr cp" "ve_nodesets env = Inr nodesets"
    and m: "minor_update L env (v_conds v) cp nodesets u = Next x" and f: "finish_reconcile L cp x = Return e w"
    using update_version_ends [OF assms(1) _ r] i \<open>v_deployed w \<noteq> v_deployed v\<close>
      not_updated_keeps_deployed [OF assms(1)] by metis
  have x: "frame L (set update_stages) u x" "\<forall>t\<in>set update_stages. lc_IsTrue L (v_conds x) t"
    using minor_update_end(1) [OF assms(1) m] by simp_all
  have checks: "cp_IsReady L cp" "fst (ControlplaneContainerImageMatch cp x)" "DataplaneNodesetsDeployed L x nodesets"
    using minor_update_checks [OF assms(1) m] by simp_all
  have fin: "v_target w = v_target x" "v_images w = v_images x" "v_deployed w = Some (v_target x)"
    using finish_reconcile_deployed [of L cp x] f checks(1) by auto
  have "v_Spec x = v_Spec u" using x(1) by (simp add: frame_def only_condsD)
  then have "v_target x = v_target v" using i by simp
  moreover have "\<forall>t\<in>set update_stages. lc_IsTrue L (v_conds v') t"
    using x(2) finish_reconcile_keeps [OF assms(1) f] keep(1) v' by (simp add: condlib_IsTrue [OF assms(1)])
  moreover have "fst (ControlplaneContainerImageMatch cp v')"
    using ControlplaneContainerImageMatch_cong [of v' x cp] keep(4) v' fin(2) checks(2) by simp
  moreover have "DataplaneNodesetsDeployed L v' nodesets"
    using checks(3) keep(3) v' fin(1) by (simp add: DataplaneNodesetsDeployed_iff)
  ultimately show ?thesis using c checks(1) fin(3) keep(2) v' by auto
qed

subsection \<open>An update completes\<close>

text \<open>The defaults \<open>Reconcile\<close> uses for the target version.\<close>

definition target_defaults :: "version_env \<Rightarrow> os_version \<Rightarrow> container_defaults option" where
  "target_defaults env v =
     (case InitializeOpenStackVersionImageDefaults (ve_containerImages env) of
        None \<Rightarrow> None
      | Some d \<Rightarrow> map_of (gomap_put (ve_availableVersion env) d (st_ContainerImageVersionDefaults (v_Status v)))
                   (v_target v))"

definition target_images :: "container_defaults \<Rightarrow> os_version \<Rightarrow> container_images" where
  "target_images d v = fst (GetContainerImages d (vs_CustomContainerImages (v_Spec v)))"

lemma initialize_version_succeeds:
  assumes "target_defaults env v = Some d"
  shows "\<exists>u. initialize_version L env v = Next u \<and> v_target u = v_target v \<and> v_deployed u = v_deployed v \<and>
     v_images u = target_images d v"
  using assms
  by (auto simp: initialize_version_def target_defaults_def target_images_def Let_def
      split: option.splits prod.splits)

text \<open>The OVN image of the target version is the one the deployed version has by default, if the defaults of that version are known.\<close>

definition same_ovn_image :: "version_env \<Rightarrow> container_defaults \<Rightarrow> os_version \<Rightarrow> bool" where
  "same_ovn_image env d v \<longleftrightarrow>
     (\<exists>defaults dv old i. InitializeOpenStackVersionImageDefaults (ve_containerImages env) = Some defaults \<and> v_deployed v = Some dv
        \<and> map_of (gomap_put (ve_availableVersion env) defaults (st_ContainerImageVersionDefaults (v_Status v))) dv = Some old
        \<and> cd_template old OvnControllerImage = Some i \<and> ci_template (target_images d v) OvnControllerImage = Some i)"

lemma initialize_version_ovn:
  assumes "initialize_version L env v = Next u" and "target_defaults env v = Some d"
  shows "ovn_image_unchanged u \<longleftrightarrow> same_ovn_image env d v"
  using assms
  by (auto simp: initialize_version_def target_defaults_def target_images_def Let_def ovn_image_unchanged_def same_ovn_image_def
      split: option.splits prod.splits)

text \<open>The control plane is at the images \<open>img\<close> and ready.\<close>

definition control_plane_at :: "condlib \<Rightarrow> control_plane \<Rightarrow> container_images \<Rightarrow> bool" where
  "control_plane_at L cp img \<longleftrightarrow> cp_images cp = img \<and> cp_IsReady L cp \<and>
     (cp_Enabled cp Ovn \<longrightarrow> lc_IsTrue L (cp_conds cp) OpenStackControlPlaneOVNReadyCondition) \<and>
     lc_IsTrue L (cp_conds cp) OpenStackControlPlaneRabbitMQReadyCondition \<and>
     lc_IsTrue L (cp_conds cp) OpenStackControlPlaneMariaDBReadyCondition \<and>
     lc_IsTrue L (cp_conds cp) OpenStackControlPlaneMemcachedReadyCondition \<and>
     lc_IsTrue L (cp_conds cp) OpenStackControlPlaneKeystoneAPIReadyCondition"

text \<open>The OVN part of the data plane is done: its images are the target's, no OVN deployment is
  running, and the previous reconciliation was waiting for one.\<close>

definition ovn_observed :: "condlib \<Rightarrow> version_env \<Rightarrow> conditions \<Rightarrow> dp_nodeset list \<Rightarrow> bool" where
  "ovn_observed L env saved nodesets \<longleftrightarrow>
     IsDataplaneDeploymentRunningForServiceType (ve_deployments env) (ve_getService env) nodesets ''ovn'' = Inr False \<and>
     map_option c_reason (lc_Get L saved OpenStackVersionMinorUpdateOVNDataplane) = Some RequestedReason"

definition ovn_images_at :: "container_images \<Rightarrow> dp_nodeset list \<Rightarrow> bool" where
  "ovn_images_at img nodesets \<longleftrightarrow> ci_template img OvnControllerImage \<noteq> None \<and>
     (\<forall>ns\<in>set nodesets. ns_Nodes ns \<noteq> [] \<longrightarrow>
        gomap_get [] (ns_ContainerImages ns) ''OvnControllerImage'' \<in> {[], the (ci_template img OvnControllerImage)})"

lemma ovn_dataplane_stage_passes:
  assumes "ovn_images_at (v_images v) nodesets" and "DataplaneNodesetsDeployed L v nodesets"
    and "ovn_image_unchanged v \<Longrightarrow> ovn_observed L env saved nodesets"
  shows "ovn_dataplane_stage L env saved cp nodesets v =
    Next (mark_completed L OpenStackVersionMinorUpdateOVNDataplane v)"
proof -
  obtain img where img: "ci_template (v_images v) OvnControllerImage = Some img"
    using assms(1) by (auto simp: ovn_images_at_def)
  have "DataplaneNodesetsOVNControllerImagesMatch v nodesets = Some True"
    using OVNControllerImagesMatch_iff [OF img, of nodesets] assms(1,2) img
    by (simp add: ovn_images_at_def DataplaneNodesetsDeployed_iff)
  then show ?thesis
    using assms(3) by (cases "ovn_image_unchanged v") (auto simp: ovn_dataplane_stage_def ovn_observed_def Let_def)
qed

lemma ovn_image_unchanged_upd [simp]: "ovn_image_unchanged (upd_conds f w) = ovn_image_unchanged w"
  by (auto simp: ovn_image_unchanged_def upd_conds_def upd_status_def split: option.splits)

lemma ovn_dataplane_stage_waits:
  assumes "cp_Enabled cp Ovn" and "ovn_image_unchanged v" and "\<not> ovn_observed L env saved nodesets"
    and "ovn_dataplane_stage L env saved cp nodesets v = Next w"
  shows False
  using assms by (auto simp: ovn_dataplane_stage_def ovn_observed_def Let_def split: option.splits bool.splits sum.splits if_splits)

lemma ovn_dataplane_stage_disabled:
  "\<not> cp_Enabled cp Ovn \<Longrightarrow> ovn_dataplane_stage L env saved cp nodesets v =
    Next (mark_completed L OpenStackVersionMinorUpdateOVNDataplane v)"
  by (simp add: ovn_dataplane_stage_def Let_def)

lemma minor_update_completes:
  assumes "consistent_images (v_images v)" and "control_plane_at L cp (v_images v)"
    and "DataplaneNodesetsDeployed L v nodesets"
    and "cp_Enabled cp Ovn \<longrightarrow> ovn_images_at (v_images v) nodesets \<and> (ovn_image_unchanged v \<longrightarrow> ovn_observed L env saved nodesets)"
  shows "minor_update L env saved cp nodesets v = Next (fold (mark_completed L) update_stages v)"
proof -
  have frame: "v_images (mark_completed L t w) = v_images w" "v_Spec (mark_completed L t w) = v_Spec w"
    "ovn_image_unchanged (mark_completed L t w) = ovn_image_unchanged w" for t w
    by (simp_all add: mark_completed_def)
  have deployed: "DataplaneNodesetsDeployed L w nodesets" if "v_Spec w = v_Spec v" for w
    using assms(3) that by (simp add: DataplaneNodesetsDeployed_iff)
  have ovn: "ovn_dataplane_stage L env saved cp nodesets w =
      Next (mark_completed L OpenStackVersionMinorUpdateOVNDataplane w)"
    if "v_images w = v_images v" "v_Spec w = v_Spec v" "ovn_image_unchanged w = ovn_image_unchanged v" for w
    using ovn_dataplane_stage_passes [of w nodesets L env saved cp] deployed [OF that(2)] assms(4) that
      ovn_dataplane_stage_disabled by metis
  have checks: "matches cp w" if "v_images w = v_images v" "(n, matches) \<in> set image_checks" for w n matches
    using image_checks_synced [of cp w] assms(1,2) that by (auto simp: control_plane_at_def list_all_iff)
  have all: "ControlplaneContainerImageMatch cp w = (True, [])" if "v_images w = v_images v" for w
    using checks [OF that] by (auto simp: ControlplaneContainerImageMatch_def Let_def filter_empty_conv)
  show ?thesis
    using assms(1,2)
    by (simp add: minor_update_def update_stages_def ovn_controlplane_stage_def service_stage_def
        controlplane_stage_def dataplane_stage_def services_synced control_plane_at_def frame ovn all deployed Let_def)
qed

lemma minor_update_waits:
  assumes "condlib_laws L" and "cp_Enabled cp Ovn" and "ovn_image_unchanged v" and "\<not> ovn_observed L env saved nodesets"
  shows "minor_update L env saved cp nodesets v \<noteq> Next w"
proof
  assume "minor_update L env saved cp nodesets v = Next w"
  then obtain a b where a: "ovn_controlplane_stage L cp v = Next a" "ovn_dataplane_stage L env saved cp nodesets a = Next b"
    by (auto simp: minor_update_def step_bind_Next_iff)
  then have "ovn_image_unchanged a"
    using assms(3) by (auto simp: ovn_controlplane_stage_def mark_completed_def Let_def split: if_splits)
  then show False using ovn_dataplane_stage_waits [OF assms(2) _ assms(4) a(2)] by blast
qed

text \<open>The hypotheses of the next two lemmas: a version on its way to another target, and a cluster that has arrived there.\<close>

definition at_target :: "condlib \<Rightarrow> version_env \<Rightarrow> os_version \<Rightarrow> control_plane \<Rightarrow> dp_nodeset list \<Rightarrow> container_defaults \<Rightarrow> bool" where
  "at_target L env v cp nodesets d \<longleftrightarrow>
     updating v \<and> st_Conditions (v_Status v) \<noteq> None \<and> ve_controlPlane env = Inr cp \<and> ve_nodesets env = Inr nodesets
     \<and> cs_DeployedVersion (cp_Status cp) \<noteq> None \<and> target_defaults env v = Some d \<and> consistent_images (target_images d v)
     \<and> control_plane_at L cp (target_images d v) \<and> DataplaneNodesetsDeployed L v nodesets
     \<and> (cp_Enabled cp Ovn \<longrightarrow> ovn_images_at (target_images d v) nodesets)"

lemma started_target:
  assumes "target_defaults env v = Some d"
  obtains u where "initialize_version L env (start_reconcile L v) = Next u" and "v_target u = v_target v"
    and "v_deployed u = v_deployed v" and "v_images u = target_images d v" and "ovn_image_unchanged u \<longleftrightarrow> same_ovn_image env d v"
proof -
  have s: "target_defaults env (start_reconcile L v) = Some d"
    using assms by (simp add: target_defaults_def split: option.splits)
  then obtain u where u: "initialize_version L env (start_reconcile L v) = Next u" "v_target u = v_target v"
    "v_deployed u = v_deployed v" "v_images u = target_images d v"
    using initialize_version_succeeds [of env "start_reconcile L v" d L] by (auto simp: target_images_def)
  have "ovn_image_unchanged u \<longleftrightarrow> same_ovn_image env d v"
    using initialize_version_ovn [OF u(1) s] by (simp add: same_ovn_image_def target_images_def)
  then show ?thesis using that u by blast
qed

lemma body_at_target:
  assumes "condlib_laws L" and a: "at_target L env v cp nodesets d"
    and "cp_Enabled cp Ovn \<and> same_ovn_image env d v \<longrightarrow> ovn_observed L env (v_conds v) nodesets"
  shows "\<exists>w. reconcile_body L env v = Return None w \<and> v_deployed w = Some (v_target v) \<and>
    (\<forall>t\<in>set update_stages. lc_IsTrue L (v_conds w) t)"
proof -
  obtain u where u: "initialize_version L env (start_reconcile L v) = Next u" "v_target u = v_target v"
    "v_deployed u = v_deployed v" "v_images u = target_images d v" "ovn_image_unchanged u \<longleftrightarrow> same_ovn_image env d v"
    using started_target a unfolding at_target_def by blast
  let ?w = "fold (mark_completed L) update_stages u"
  have m: "minor_update L env (v_conds v) cp nodesets u = Next ?w"
    using a assms(3) u by (intro minor_update_completes) (auto simp: at_target_def DataplaneNodesetsDeployed_iff)
  have w: "v_Spec ?w = v_Spec u" "\<forall>t\<in>set update_stages. lc_IsTrue L (v_conds ?w) t"
    using minor_update_end(1) [OF assms(1) m] frameD(1) by auto
  obtain x where x: "finish_reconcile L cp ?w = Return None x" "v_deployed x = Some (v_target v)"
    using finish_reconcile_deployed [of L cp ?w] a w u(2) by (auto simp: at_target_def control_plane_at_def)
  have "\<forall>t\<in>set update_stages. lc_IsTrue L (v_conds x) t"
    using w(2) finish_reconcile_keeps [OF assms(1) x(1)] by (simp add: condlib_IsTrue [OF assms(1)])
  moreover have "updating u" using updating_cong [OF u(2,3)] a by (simp add: at_target_def)
  then have "update_version L env (v_conds v) u = Return None x"
    using a m x(1) by (auto simp: at_target_def update_version_def)
  then have "reconcile_body L env v = Return None x"
    using u(1) a by (auto simp: at_target_def reconcile_body_def start_reconcile_def [symmetric] Let_def)
  ultimately show ?thesis using x(2) by blast
qed

lemma body_waits_for_ovn:
  assumes "condlib_laws L" and a: "at_target L env v cp nodesets d"
    and "cp_Enabled cp Ovn" and "same_ovn_image env d v" and "\<not> ovn_observed L env (v_conds v) nodesets"
    and w: "reconcile_body L env v = Next w \<or> reconcile_body L env v = Return e w"
  shows "v_deployed w = v_deployed v"
proof (rule ccontr)
  assume n: "v_deployed w \<noteq> v_deployed v"
  have upd: "updating v" using a by (simp add: at_target_def)
  obtain u where u: "initialize_version L env (start_reconcile L v) = Next u" and r: "update_version L env (v_conds v) u = Return e w"
    using reconcile_body_ends [OF assms(1) w] n by blast
  have td: "target_defaults env v = Some d" using a by (simp add: at_target_def)
  have same: "ovn_image_unchanged u" using started_target [OF td, of L] u assms(4) by (metis step.inject(1))
  note i = initialized_no_stage_true [OF assms(1) upd u]
  obtain x where "minor_update L env (v_conds v) cp nodesets u = Next x"
    using update_version_ends [OF assms(1) _ r] i n not_updated_keeps_deployed [OF assms(1)] a unfolding at_target_def
    by (metis sum.inject(2))
  then show False using minor_update_waits [OF assms(1,3) same assms(5)] by blast
qed

text \<open>C3: when a minor update completes.  In a reconciliation that finds the control plane ready at the images of the target version and
  every node set ready at that version, the deployed version becomes the target version, with all stages recorded as completed and no
  error, exactly when OVN is disabled, or the OVN image of the target differs from the default of the deployed version, or no OVN
  deployment is running after the previous reconciliation has waited for one.  In particular an update that leaves the OVN image as it is
  never completes unless a reconciliation catches an OVN deployment while it runs and the next one comes after its end.\<close>

theorem minor_update_completes_reconcile:
  assumes "condlib_laws L" and "at_target L env v cp nodesets d" and "ve_newHelper env = None" and "ve_patch env = None"
  shows "(\<exists>v'. Reconcile L env (Inr v) = ROut None (Some v') \<and> v_deployed v' = Some (v_target v) \<and>
      (\<forall>t\<in>set update_stages. lc_IsTrue L (v_conds v') t))
    \<longleftrightarrow> (cp_Enabled cp Ovn \<and> same_ovn_image env d v \<longrightarrow> ovn_observed L env (v_conds v) nodesets)"
    (is "?completes \<longleftrightarrow> ?condition")
proof
  assume ?condition
  then obtain w where "reconcile_body L env v = Return None w" "v_deployed w = Some (v_target v)"
      "\<forall>t\<in>set update_stages. lc_IsTrue L (v_conds w) t"
    using body_at_target [OF assms(1,2)] by blast
  then show ?completes
    using assms(3,4) set_ready_keeps [OF assms(1)] by (simp add: Reconcile_def Let_def condlib_IsTrue [OF assms(1)])
next
  assume ?completes
  then obtain v' where v': "Reconcile L env (Inr v) = ROut None (Some v')" "v_deployed v' = Some (v_target v)" by blast
  obtain w e where w: "reconcile_body L env v = Next w \<or> reconcile_body L env v = Return e w" "v' = set_ready L w"
    using Reconcile_writes [OF v'(1)] by blast
  have "v_deployed w = Some (v_target v)" using v'(2) w(2) set_ready_keeps(2) [OF assms(1)] by simp
  moreover have "v_deployed v \<noteq> Some (v_target v)" using assms(2) by (auto simp: at_target_def updating_def split: option.splits)
  ultimately show ?condition using body_waits_for_ovn [OF assms(1,2) _ _ _ w(1)] by auto
qed

subsection \<open>The OVN data plane stage when the image does not change\<close>

text \<open>The completion of the OVN data plane stage is not kept.  When the OVN image is the same in
  both versions and a previous reconciliation recorded the stage as completed, the next one, with no
  OVN deployment running, sets the stage back to "not yet started" and ends there, although nothing of
  the deployment has changed.\<close>

theorem ovn_dataplane_stage_forgets_completion:
  assumes "condlib_laws L" and "cp_Enabled cp Ovn"
    and "DataplaneNodesetsOVNControllerImagesMatch v nodesets = Some True" and "ovn_image_unchanged v"
    and "IsDataplaneDeploymentRunningForServiceType (ve_deployments env) (ve_getService env) nodesets ''ovn'' = Inr False"
    and "lc_Get L saved OpenStackVersionMinorUpdateOVNDataplane =
      Some (lc_TrueCondition L OpenStackVersionMinorUpdateOVNDataplane ''completed'')"
  shows "\<exists>v'. ovn_dataplane_stage L env saved cp nodesets v = Return None v' \<and>
    map_option (\<lambda>c. (c_status c, c_reason c)) (lc_Get L (v_conds v') OpenStackVersionMinorUpdateOVNDataplane)
      = Some (CFalse, InitReason)"
  using assms by (simp add: ovn_dataplane_stage_def Let_def)

subsection \<open>A concrete update\<close>

text \<open>An update from version 1 to version 2 with OVN enabled, whose OVN stage was waited for.\<close>

definition sample_defaults :: container_defaults where
  "sample_defaults = empty_defaults\<lparr>cd_template := (\<lambda>f. if f = OvnControllerImage then Some ''ovn:2'' else None)\<rparr>"

definition sample_version :: os_version where
  "sample_version = \<lparr>v_Name = ''cp'', v_Namespace = ''openstack'', v_Generation = 3, v_Annotations = [],
     v_Deleting = False, v_Finalizers = [],
     v_Spec = \<lparr>vs_TargetVersion = ''2'', vs_CustomContainerImages =
       \<lparr>cc_template = empty_template, cc_CinderVolumeImages = None, cc_ManilaShareImages = None\<rparr>\<rparr>,
     v_Status = \<lparr>st_Conditions = Some [lst_False OpenStackVersionMinorUpdateOVNDataplane RequestedReason SeverityInfo ''in progress''],
       st_DeployedVersion = Some ''1'', st_AvailableVersion = Some ''2'', st_ContainerImages = empty_images,
       st_ContainerImageVersionDefaults = [(''2'', sample_defaults)], st_AvailableServiceDefaults = [],
       st_ServiceDefaults = empty_service_defaults, st_TrackedCustomImages = [], st_ObservedGeneration = 2\<rparr>\<rparr>"

definition sample_cp :: control_plane where
  "sample_cp = \<lparr>cp_Name = ''cp'', cp_Namespace = ''openstack'', cp_UID = ''u'', cp_Generation = 1,
     cp_Annotations = [], cp_Deleting = False, cp_Finalizers = [],
     cp_Spec = \<lparr>sp_Enabled = (\<lambda>s. s = Ovn), sp_PodLevelTLS = False, sp_TopologyRef = None,
       sp_NotificationsBusInstance = None, sp_NotificationsBusCluster = None\<rparr>,
     cp_Status = \<lparr>cs_Conditions = Some (map (\<lambda>t. lst_True t ReadyMessage) [ReadyCondition,
         OpenStackControlPlaneOVNReadyCondition, OpenStackControlPlaneRabbitMQReadyCondition,
         OpenStackControlPlaneMariaDBReadyCondition, OpenStackControlPlaneMemcachedReadyCondition,
         OpenStackControlPlaneKeystoneAPIReadyCondition]),
       cs_DeployedVersion = Some ''1'', cs_DeployedOVNVersion = Some ''2'',
       cs_ContainerImages = target_images sample_defaults sample_version, cs_ObservedGeneration = 1\<rparr>\<rparr>"

definition sample_env :: version_env where
  "sample_env = \<lparr>ve_availableVersion = ''3'', ve_containerImages = [], ve_newHelper = None, ve_finalizer = ''f'',
     ve_controlPlane = Inr sample_cp, ve_nodesets = Inr [], ve_deployments = Inr [],
     ve_getService = (\<lambda>_. Inl (NotFound ''no such service'')), ve_patch = None\<rparr>"

lemma sample_consistent: "consistent_images (target_images sample_defaults sample_version)"
  unfolding target_images_def by (rule consistent_GetContainerImages) (simp_all add: sample_version_def)

lemma sample_ovn_image: "ci_template (target_images sample_defaults sample_version) OvnControllerImage = Some ''ovn:2''"
  by (simp add: target_images_def GetContainerImages_template images_template_def getImg_def sample_version_def
      sample_defaults_def empty_template_def)

lemma sample_control_plane: "control_plane_at list_condlib sample_cp (target_images sample_defaults sample_version)"
  by (simp add: control_plane_at_def sample_cp_def cp_conds_def cp_IsReady_def list_condlib_def lst_True_def
      ReadyCondition_def OpenStackControlPlaneOVNReadyCondition_def OpenStackControlPlaneRabbitMQReadyCondition_def
      OpenStackControlPlaneMariaDBReadyCondition_def OpenStackControlPlaneMemcachedReadyCondition_def
      OpenStackControlPlaneKeystoneAPIReadyCondition_def)

lemma sample_facts:
  "updating sample_version" "st_Conditions (v_Status sample_version) \<noteq> None"
  "ve_newHelper sample_env = None" "ve_patch sample_env = None"
  "ve_controlPlane sample_env = Inr sample_cp" "ve_nodesets sample_env = Inr []"
  "cs_DeployedVersion (cp_Status sample_cp) \<noteq> None"
  "target_defaults sample_env sample_version = Some sample_defaults"
  "v_deployed sample_version = Some ''1''" "v_target sample_version = ''2''"
  "v_conds sample_version = [lst_False OpenStackVersionMinorUpdateOVNDataplane RequestedReason SeverityInfo ''in progress'']"
  by (simp_all add: updating_def sample_version_def sample_env_def sample_cp_def target_defaults_def
      InitializeOpenStackVersionImageDefaults_def v_conds_def Let_def)

lemma sample_ovn: "ovn_observed list_condlib sample_env (v_conds sample_version) []"
  by (simp add: ovn_observed_def sample_env_def list_condlib_def sample_facts lst_False_def IsDataplaneDeploymentRunningForServiceType_def)

lemma sample_at_target: "at_target list_condlib sample_env sample_version sample_cp [] sample_defaults"
  using sample_facts sample_consistent sample_control_plane
  by (simp add: at_target_def ovn_images_at_def sample_ovn_image DataplaneNodesetsDeployed_iff)

theorem minor_update_completes_reconcile_witness:
  "\<exists>v'. Reconcile list_condlib sample_env (Inr sample_version) = ROut None (Some v') \<and> v_deployed v' = Some ''2'' \<and>
    (\<forall>t\<in>set update_stages. lc_IsTrue list_condlib (v_conds v') t)"
  using minor_update_completes_reconcile [OF list_condlib_laws sample_at_target sample_facts(3,4)] sample_ovn
  by (simp add: sample_facts)

lemma sample_run:
  "\<exists>v'. Reconcile list_condlib sample_env (Inr sample_version) = ROut None (Some v') \<and> v_deployed v' = Some ''2'' \<and>
    lc_IsTrue list_condlib (v_conds v') (update_stages ! 7)"
proof -
  obtain w where "reconcile_body list_condlib sample_env sample_version = Return None w" "v_deployed w = Some ''2''"
      "\<forall>t\<in>set update_stages. lc_IsTrue list_condlib (v_conds w) t"
    using body_at_target [OF list_condlib_laws sample_at_target] sample_ovn by (auto simp: sample_facts)
  moreover have "update_stages ! 7 \<in> set update_stages" by (simp add: update_stages_def)
  ultimately show ?thesis
    using set_ready_keeps [OF list_condlib_laws] sample_facts(3,4)
    by (simp add: Reconcile_def Let_def condlib_IsTrue [OF list_condlib_laws])
qed

theorem minor_update_in_order_witness:
  "\<exists>v'. Reconcile list_condlib sample_env (Inr sample_version) = ROut None (Some v') \<and>
    lc_IsTrue list_condlib (v_conds v') (update_stages ! 2)"
proof -
  obtain v' where v': "Reconcile list_condlib sample_env (Inr sample_version) = ROut None (Some v')"
    "lc_IsTrue list_condlib (v_conds v') (update_stages ! 7)"
    using sample_run by blast
  have "lc_IsTrue list_condlib (v_conds v') (update_stages ! 2)"
    by (rule minor_update_in_order [OF list_condlib_laws sample_facts(1) v'(1) _ _ v'(2)])
      (simp_all add: update_stages_def)
  then show ?thesis using v'(1) by blast
qed

theorem deployed_version_only_after_update_witness:
  "\<exists>v'. Reconcile list_condlib sample_env (Inr sample_version) = ROut None (Some v') \<and>
    fst (ControlplaneContainerImageMatch sample_cp v') \<and> v_deployed v' = Some ''2''"
proof -
  obtain v' where v': "Reconcile list_condlib sample_env (Inr sample_version) = ROut None (Some v')"
    "v_deployed v' = Some ''2''"
    using sample_run by blast
  then have "v_deployed v' \<noteq> v_deployed sample_version" by (simp add: sample_facts)
  from deployed_version_only_after_update [OF list_condlib_laws sample_facts(1) v'(1) this]
  show ?thesis using v' by (auto simp: sample_facts)
qed

text \<open>The image check on the concrete control plane, with the images of the target in the version.\<close>

definition synced_version :: os_version where
  "synced_version = sample_version\<lparr>v_Status := (v_Status sample_version)\<lparr>
     st_ContainerImages := target_images sample_defaults sample_version\<rparr>\<rparr>"

lemma sample_cp_images: "cp_images sample_cp = v_images synced_version"
  by (simp add: sample_cp_def synced_version_def)

lemma sample_custom_maps:
  "gomap_wf (unnil (cc_CinderVolumeImages (vs_CustomContainerImages (v_Spec sample_version))))"
  "gomap_wf (unnil (cc_ManilaShareImages (vs_CustomContainerImages (v_Spec sample_version))))"
  by (simp_all add: sample_version_def)

theorem synced_control_plane_matches_witness:
  "ControlplaneContainerImageMatch sample_cp synced_version = (True, [])"
  using synced_control_plane_matches [OF sample_custom_maps, of synced_version sample_defaults sample_cp]
    sample_cp_images by (simp add: synced_version_def target_images_def)

theorem passed_check_means_images_deployed_witness:
  "fst (ControlplaneContainerImageMatch sample_cp synced_version) \<and> status_current sample_cp synced_version Ovn"
proof -
  have c: "consistent_images (v_images synced_version)" using sample_consistent by (simp add: synced_version_def)
  have "list_all (\<lambda>(_, matches). matches sample_cp synced_version) image_checks"
    using image_checks_synced [OF sample_cp_images] c by simp
  then have m: "fst (ControlplaneContainerImageMatch sample_cp synced_version)" by (simp add: check_iff)
  have "gomap_wf (ci_CinderVolumeImages (v_images synced_version))" "gomap_wf (ci_ManilaShareImages (v_images synced_version))"
    using c by (simp_all add: consistent_images_def)
  from passed_check_means_images_deployed [OF this, of sample_cp] m show ?thesis by blast
qed

text \<open>A version whose OVN image is the same before and after the update.\<close>

definition unchanged_version :: os_version where
  "unchanged_version = sample_version\<lparr>v_Status := (v_Status sample_version)\<lparr>
     st_ContainerImageVersionDefaults := [(''1'', sample_defaults), (''2'', sample_defaults)],
     st_ContainerImages := target_images sample_defaults sample_version\<rparr>\<rparr>"

theorem ovn_dataplane_stage_forgets_completion_witness:
  "\<exists>v'. ovn_dataplane_stage list_condlib sample_env
        [lst_True OpenStackVersionMinorUpdateOVNDataplane ''completed''] sample_cp [] unchanged_version = Return None v' \<and>
    map_option (\<lambda>c. (c_status c, c_reason c)) (lc_Get list_condlib (v_conds v') OpenStackVersionMinorUpdateOVNDataplane)
      = Some (CFalse, InitReason)"
proof (rule ovn_dataplane_stage_forgets_completion [OF list_condlib_laws])
  show "ovn_image_unchanged unchanged_version"
    by (simp add: ovn_image_unchanged_def unchanged_version_def sample_ovn_image sample_facts)
      (simp add: sample_defaults_def)
qed (simp_all add: sample_cp_def sample_env_def IsDataplaneDeploymentRunningForServiceType_def list_condlib_def lst_True_def)

end
