(* ===== verification/Version_Webhook.thy ===== *)
theory Version_Webhook
  imports Version_Reconcile
begin

text \<open>
  Admission of \<open>OpenStackVersion\<close> objects (\<open>api/core/v1beta1/openstackversion_webhook.go\<close>), the
  release version the operator offers (\<open>getOpenStackReleaseVersion\<close> of
  \<open>openstackversion_types.go\<close>) and \<open>ReconcileVersion\<close> of \<open>internal/openstack/version.go\<close>, which the
  control plane controller calls.  The package variable \<open>openstackVersionDefaults.AvailableVersion\<close> is
  an argument, and so is what the client returns.
\<close>

subsection \<open>The release version\<close>

text \<open>The regular expression \<open>\.[[:digit:]]{10,}\.p\<close>: a match at the front of a string, and
  \<open>FindString\<close>, the leftmost match or the empty string.  A run of digits can only be followed by the
  dot of the expression when all of it is taken, so the greedy match is the only one.\<close>

definition epoch_at :: "string \<Rightarrow> string option" where
  "epoch_at s =
     (case s of
        [] \<Rightarrow> None
      | c # cs \<Rightarrow>
          let ds = takeWhile is_digit cs
          in if c = CHR ''.'' \<and> 10 \<le> length ds \<and> take 2 (dropWhile is_digit cs) = ''.p''
             then Some (CHR ''.'' # ds @ ''.p'') else None)"

fun find_epoch :: "string \<Rightarrow> string" where
  "find_epoch [] = []"
| "find_epoch (c # cs) = (case epoch_at (c # cs) of Some m \<Rightarrow> m | None \<Rightarrow> find_epoch cs)"

definition getOpenStackReleaseVersion :: "string \<Rightarrow> string \<Rightarrow> string \<Rightarrow> string" where
  "getOpenStackReleaseVersion openstackReleaseVersion releaseVersionScheme operatorConditionName =
     (if releaseVersionScheme = ''csvEpochAppend''
      then (let operatorConditionEpoch = find_epoch operatorConditionName
            in if operatorConditionEpoch = [] then openstackReleaseVersion
               else openstackReleaseVersion @ operatorConditionEpoch)
      else openstackReleaseVersion)"

subsection \<open>Admission\<close>

text \<open>The errors of the webhook: \<open>NewForbidden\<close> with the field and the detail of its
  \<open>field.Error\<close>, and \<open>NewInternalError\<close>.\<close>

datatype admission_error = Forbidden string string | InternalError string

definition version_Default :: "string \<Rightarrow> os_version \<Rightarrow> os_version" where
  "version_Default availableVersion r =
     (if v_target r = [] then r\<lparr>v_Spec := (v_Spec r)\<lparr>vs_TargetVersion := availableVersion\<rparr>\<rparr> else r)"

definition version_ValidateCreate ::
    "string \<Rightarrow> (api_error + os_version list) \<Rightarrow> os_version \<Rightarrow> admission_error option" where
  "version_ValidateCreate availableVersion versionList r =
     (if v_target r \<noteq> availableVersion
      then Some (Forbidden ''TargetVersion'' (''Invalid value: '' @ v_target r @ '' must equal available version.''))
      else (case versionList of
              Inl err \<Rightarrow> Some (Forbidden [] (err_msg err))
            | Inr items \<Rightarrow>
                if 1 \<le> length items
                then Some (Forbidden [] ''Only one OpenStackVersion instance is supported at this time.'')
                else None))"

text \<open>The old object is \<open>None\<close> when it is not an \<open>OpenStackVersion\<close>.\<close>

definition version_ValidateUpdate :: "string \<Rightarrow> os_version option \<Rightarrow> os_version \<Rightarrow> admission_error option" where
  "version_ValidateUpdate availableVersion old r =
     (if v_target r \<noteq> availableVersion \<and> map_of (st_ContainerImageVersionDefaults (v_Status r)) (v_target r) = None
      then Some (Forbidden ''TargetVersion'' (''Invalid value: '' @ v_target r @
                   '' must be in the list of current or previous available versions.''))
      else (case old of
              None \<Rightarrow> Some (InternalError ''failed to convert old object to OpenStackVersion'')
            | Some oldVersion \<Rightarrow>
                if v_target oldVersion \<noteq> v_target r \<and> v_deployed oldVersion \<noteq> None
                then (let skipValidation = (map_of (v_Annotations r) skip_annotation \<noteq> None)
                      in if \<not> skipValidation \<and> hasAnyCustomImage (vs_CustomContainerImages (v_Spec r))
                         then (case map_of (st_TrackedCustomImages (v_Status r)) (v_target oldVersion) of
                                 None \<Rightarrow> None
                               | Some trackedImages \<Rightarrow>
                                   if \<not> customContainerImagesAllModified (vs_CustomContainerImages (v_Spec r)) trackedImages
                                   then Some (Forbidden ''spec.customContainerImages''
                                     (''CustomContainerImages must be updated when changing targetVersion. The current CustomContainerImages are identical to those used in the previous version (''
                                      @ v_target oldVersion @ ''), which prevents proper version tracking and validation.''))
                                   else None)
                         else None)
                else None))"

definition version_ValidateDelete :: "os_version \<Rightarrow> admission_error option" where
  "version_ValidateDelete r = None"

subsection \<open>The version of a control plane\<close>

text \<open>\<open>get\<close> is the lookup of the version object, \<open>createOrPatch\<close> the call of
  \<open>controllerutil.CreateOrPatch\<close> with the object to write.\<close>

definition ReconcileVersion ::
    "os_version \<Rightarrow> (api_error + os_version) \<Rightarrow> (os_version \<Rightarrow> api_error + os_version) \<Rightarrow> control_plane
     \<Rightarrow> api_error + os_version" where
  "ReconcileVersion newVersion get createOrPatch instance =
     (let fresh = newVersion\<lparr>v_Name := cp_Name instance, v_Namespace := cp_Namespace instance\<rparr>;
          go = (\<lambda>version. if cp_Deleting instance then Inr version else createOrPatch version)
      in case get of
           Inl err \<Rightarrow>
             if \<not> IsNotFound err
             then Inl (OtherError (''failed to get OpenStackVersion '' @ cp_Name instance @ '': '' @ err_msg err))
             else go fresh
         | Inr version \<Rightarrow> go version)"

subsection \<open>Laws\<close>

text \<open>What the expression matches.\<close>

definition is_epoch :: "string \<Rightarrow> bool" where
  "is_epoch m \<longleftrightarrow> (\<exists>ds. m = CHR ''.'' # ds @ ''.p'' \<and> 10 \<le> length ds \<and> list_all is_digit ds)"

lemma not_digit_dot: "\<not> is_digit CHR ''.''"
  by (simp add: is_digit_def)

lemma epoch_at_sound:
  assumes "epoch_at s = Some m"
  shows "is_epoch m \<and> (\<exists>rest. s = m @ rest)"
proof -
  obtain cs where s: "s = CHR ''.'' # cs" and m: "m = CHR ''.'' # takeWhile is_digit cs @ ''.p''"
    and len: "10 \<le> length (takeWhile is_digit cs)" and p: "take 2 (dropWhile is_digit cs) = ''.p''"
    using assms by (auto simp: epoch_at_def Let_def split: list.splits if_splits)
  have "cs = takeWhile is_digit cs @ ''.p'' @ drop 2 (dropWhile is_digit cs)"
    by (metis append_take_drop_id p takeWhile_dropWhile_id)
  then have "s = m @ drop 2 (dropWhile is_digit cs)" using s m by simp
  moreover have "is_epoch m"
    using m len by (auto simp: is_epoch_def list_all_iff dest: set_takeWhileD)
  ultimately show ?thesis by blast
qed

lemma epoch_at_complete:
  assumes "is_epoch m"
  shows "epoch_at (m @ rest) = Some m"
proof -
  obtain ds where m: "m = CHR ''.'' # ds @ ''.p''" and d: "10 \<le> length ds" "list_all is_digit ds"
    using assms by (auto simp: is_epoch_def)
  then have "takeWhile is_digit (ds @ ''.p'' @ rest) = ds" "dropWhile is_digit (ds @ ''.p'' @ rest) = ''.p'' @ rest"
    using not_digit_dot by (auto simp: list_all_iff takeWhile_append dropWhile_append)
  with m d show ?thesis by (simp add: epoch_at_def numeral_2_eq_2)
qed

lemma find_epoch_sound: "find_epoch s \<noteq> [] \<Longrightarrow> is_epoch (find_epoch s) \<and> (\<exists>a b. s = a @ find_epoch s @ b)"
proof (induction s)
  case (Cons c s)
  show ?case
  proof (cases "epoch_at (c # s)")
    case None
    then have f: "find_epoch (c # s) = find_epoch s" by simp
    with Cons obtain a b where "is_epoch (find_epoch s)" "s = a @ find_epoch s @ b" by auto
    with f have "is_epoch (find_epoch (c # s)) \<and> c # s = (c # a) @ find_epoch (c # s) @ b" by simp
    then show ?thesis by blast
  next
    case (Some m)
    then have "find_epoch (c # s) = m" by simp
    with epoch_at_sound [OF Some] show ?thesis by (metis append_Nil)
  qed
qed simp

lemma epoch_at_not_Nil: "epoch_at s \<noteq> Some []"
  by (auto simp: epoch_at_def Let_def split: list.splits)

lemma find_epoch_complete: "is_epoch m \<Longrightarrow> find_epoch (a @ m @ b) \<noteq> []"
proof (induction a)
  case Nil
  then have "m \<noteq> []" by (auto simp: is_epoch_def)
  then obtain c cs where "m = c # cs" by (cases m) auto
  then show ?case using epoch_at_complete [OF Nil, of b] by simp
next
  case (Cons c a)
  then show ?case using epoch_at_not_Nil by (auto split: option.splits)
qed

text \<open>Under the scheme \<open>csvEpochAppend\<close> the release version is the configured one followed by an
  epoch taken from the name of the operator condition whenever the name contains one, and is the
  configured one unchanged when it contains none.\<close>

theorem release_version_epoch:
  "(\<exists>m a b. is_epoch m \<and> name = a @ m @ b \<and>
      getOpenStackReleaseVersion release ''csvEpochAppend'' name = release @ m) \<or>
   (\<nexists>m a b. is_epoch m \<and> name = a @ m @ b) \<and>
      getOpenStackReleaseVersion release ''csvEpochAppend'' name = release"
proof (cases "find_epoch name = []")
  case True
  then have "\<nexists>m a b. is_epoch m \<and> name = a @ m @ b" using find_epoch_complete by metis
  with True show ?thesis by (simp add: getOpenStackReleaseVersion_def Let_def)
next
  case False
  then show ?thesis using find_epoch_sound [OF False] by (auto simp: getOpenStackReleaseVersion_def Let_def)
qed

text \<open>A version object is admitted on creation exactly when its target is the version the operator
  offers and no version object exists in the namespace.\<close>

theorem ValidateCreate_accepts_iff:
  "version_ValidateCreate available versions v = None \<longleftrightarrow> v_target v = available \<and> versions = Inr []"
  by (auto simp: version_ValidateCreate_def Suc_le_eq split: sum.splits)

lemma ValidateUpdate_target_known:
  assumes "version_ValidateUpdate (ve_availableVersion env) old v = None"
    and "InitializeOpenStackVersionImageDefaults (ve_containerImages env) = Some d"
  shows "target_defaults env v \<noteq> None"
  using assms by (auto simp: version_ValidateUpdate_def target_defaults_def gomap_simps split: if_splits)

text \<open>C5: the webhook and the controller agree on the versions they know.  An update admitted by the
  webhook of an operator is one whose target version the controller of the same operator can
  initialise: the reconciliation does not end with "Target version not found in defaults".\<close>

theorem admitted_target_initializes:
  assumes "version_ValidateUpdate (ve_availableVersion env) old v = None"
    and "InitializeOpenStackVersionImageDefaults (ve_containerImages env) = Some d"
  shows "\<exists>u. initialize_version L env v = Next u"
proof -
  obtain val where "target_defaults env v = Some val" using ValidateUpdate_target_known [OF assms] by blast
  then show ?thesis using initialize_version_succeeds by blast
qed

theorem admitted_target_initializes_witness:
  "\<exists>u. initialize_version list_condlib sample_env sample_version = Next u"
proof (rule admitted_target_initializes)
  show "version_ValidateUpdate (ve_availableVersion sample_env) (Some sample_version) sample_version = None"
    by (simp add: version_ValidateUpdate_def sample_env_def sample_version_def)
  show "InitializeOpenStackVersionImageDefaults (ve_containerImages sample_env) = Some empty_defaults"
    by (simp add: sample_env_def InitializeOpenStackVersionImageDefaults_def Let_def put_env_def gomap_get_def)
qed

text \<open>Two sets of custom images that assign the same image to every field and backend.\<close>

definition same_custom_images :: "custom_images \<Rightarrow> custom_images \<Rightarrow> bool" where
  "same_custom_images a b \<longleftrightarrow> cc_template a = cc_template b \<and>
     map_of (unnil (cc_CinderVolumeImages a)) = map_of (unnil (cc_CinderVolumeImages b)) \<and>
     map_of (unnil (cc_ManilaShareImages a)) = map_of (unnil (cc_ManilaShareImages b))"

definition custom_images_wf :: "custom_images \<Rightarrow> bool" where
  "custom_images_wf c \<longleftrightarrow> gomap_wf (unnil (cc_CinderVolumeImages c)) \<and> gomap_wf (unnil (cc_ManilaShareImages c))"

lemma AllModified_iff:
  "custom_images_wf a \<Longrightarrow> custom_images_wf b \<Longrightarrow>
   customContainerImagesAllModified a b \<longleftrightarrow> \<not> same_custom_images a b"
  by (auto simp: custom_images_wf_def same_custom_images_def customContainerImagesAllModified_iff)

text \<open>A change of the target version during the life of a deployment, to a known version and with
  custom images tracked for the old target, is admitted exactly when the annotation skips the check,
  no custom image is set, or some custom image differs from the tracked ones.\<close>

theorem ValidateUpdate_image_check_iff:
  assumes "map_of (st_ContainerImageVersionDefaults (v_Status v)) (v_target v) \<noteq> None"
    and "v_target old \<noteq> v_target v" and "v_deployed old \<noteq> None"
    and "map_of (st_TrackedCustomImages (v_Status v)) (v_target old) = Some tracked"
    and "custom_images_wf tracked" and "custom_images_wf (vs_CustomContainerImages (v_Spec v))"
  shows "version_ValidateUpdate available (Some old) v = None \<longleftrightarrow>
    map_of (v_Annotations v) skip_annotation \<noteq> None \<or>
    \<not> hasAnyCustomImage (vs_CustomContainerImages (v_Spec v)) \<or>
    \<not> same_custom_images (vs_CustomContainerImages (v_Spec v)) tracked"
  using assms AllModified_iff [OF assms(6,5)]
  by (auto simp: version_ValidateUpdate_def Let_def)

definition next_version :: os_version where
  "next_version = sample_version\<lparr>v_Spec := (v_Spec sample_version)\<lparr>vs_TargetVersion := ''1''\<rparr>,
     v_Status := (v_Status sample_version)\<lparr>
       st_ContainerImageVersionDefaults := [(''1'', empty_defaults)],
       st_TrackedCustomImages := [(''2'', vs_CustomContainerImages (v_Spec sample_version))]\<rparr>\<rparr>"

theorem ValidateUpdate_image_check_iff_witness:
  "version_ValidateUpdate ''3'' (Some sample_version) next_version = None"
proof -
  have "version_ValidateUpdate ''3'' (Some sample_version) next_version = None \<longleftrightarrow>
    map_of (v_Annotations next_version) skip_annotation \<noteq> None \<or>
    \<not> hasAnyCustomImage (vs_CustomContainerImages (v_Spec next_version)) \<or>
    \<not> same_custom_images (vs_CustomContainerImages (v_Spec next_version)) (vs_CustomContainerImages (v_Spec sample_version))"
    by (rule ValidateUpdate_image_check_iff)
      (simp_all add: next_version_def sample_version_def custom_images_wf_def)
  moreover have "\<not> hasAnyCustomImage (vs_CustomContainerImages (v_Spec next_version))"
    by (simp add: hasAnyCustomImage_iff next_version_def sample_version_def isContainerTemplateEmpty_def
        empty_template_def list_ex_iff)
  ultimately show ?thesis by simp
qed

text \<open>The check can miss an unchanged spec.  The controller tracks the images after
  \<open>GetContainerImages\<close> has written the default backend through the maps of the spec, so that a spec
  that names Cinder backends but no default one always differs from the images tracked for it, and
  the same custom images are admitted with a new target version.\<close>

theorem ValidateUpdate_misses_unchanged_backends:
  assumes "map_of (st_ContainerImageVersionDefaults (v_Status v)) (v_target v) \<noteq> None"
    and "custom_images_wf (vs_CustomContainerImages (v_Spec v))"
    and "cc_CinderVolumeImages (vs_CustomContainerImages (v_Spec v)) = Some vols" and "map_of vols ''default'' = None"
    and "map_of (st_TrackedCustomImages (v_Status v)) (v_target old) =
      Some (snd (GetContainerImages d (vs_CustomContainerImages (v_Spec v))))"
  shows "version_ValidateUpdate available (Some old) v = None"
proof -
  let ?c = "vs_CustomContainerImages (v_Spec v)" and ?t = "snd (GetContainerImages d (vs_CustomContainerImages (v_Spec v)))"
  have vols: "cc_CinderVolumeImages ?t = Some (gomap_put ''default'' (cd_CinderVolumeImage d) vols)"
    using assms(3) by (simp add: GetContainerImages_def Let_def)
  have "map_of vols \<noteq> map_of (gomap_put ''default'' (cd_CinderVolumeImage d) vols)"
  proof
    assume "map_of vols = map_of (gomap_put ''default'' (cd_CinderVolumeImage d) vols)"
    then have "map_of vols ''default'' = map_of (gomap_put ''default'' (cd_CinderVolumeImage d) vols) ''default''" by simp
    with assms(4) show False by (simp add: gomap_simps)
  qed
  moreover have "custom_images_wf ?t"
    using assms(2) by (auto simp: custom_images_wf_def GetContainerImages_def Let_def split: option.splits)
  ultimately have "customContainerImagesAllModified ?c ?t"
    using AllModified_iff [OF assms(2)] vols assms(3) by (auto simp: same_custom_images_def)
  with assms(1,5) show ?thesis by (auto simp: version_ValidateUpdate_def Let_def)
qed

definition backends_version :: os_version where
  "backends_version = sample_version\<lparr>
     v_Spec := \<lparr>vs_TargetVersion = ''2'', vs_CustomContainerImages =
       \<lparr>cc_template = empty_template, cc_CinderVolumeImages = Some [(''ceph'', Some ''cinder:custom'')], cc_ManilaShareImages = None\<rparr>\<rparr>\<rparr>"

definition retargeted_version :: os_version where
  "retargeted_version = backends_version\<lparr>
     v_Status := (v_Status sample_version)\<lparr>st_TrackedCustomImages :=
       [(''1'', snd (GetContainerImages empty_defaults (vs_CustomContainerImages (v_Spec backends_version))))]\<rparr>\<rparr>"

theorem ValidateUpdate_misses_unchanged_backends_witness:
  "version_ValidateUpdate ''3'' (Some (backends_version\<lparr>v_Spec := (v_Spec backends_version)\<lparr>vs_TargetVersion := ''1''\<rparr>\<rparr>))
     retargeted_version = None"
  by (rule ValidateUpdate_misses_unchanged_backends [where vols = "[(''ceph'', Some ''cinder:custom'')]" and d = empty_defaults])
    (simp_all add: retargeted_version_def backends_version_def sample_version_def custom_images_wf_def gomap_wf_def)

end
