(* ===== verification/Dataplane_Services.thy ===== *)
theory Dataplane_Services
  imports Version_Dataplane "HOL-Library.Sublist"
begin

text \<open>
  The services of a data plane deployment: \<open>internal/dataplane/service.go\<close>.  \<open>GetService\<close> is the lookup
  of a service object in the namespace of the reconciled object, a parameter of type \<open>get_service\<close>.
  \<open>EnsureServices\<close> creates the services that ship with the operator from YAML files; the file system,
  the YAML decoder, the validator and the Kubernetes client are the record \<open>ensure_env\<close>.
  \<open>DedupeServices\<close> decides which services run on which node set.
\<close>

subsection \<open>Services that ship with the operator\<close>

record service_yaml =
  sy_Kind :: string
  sy_Metadata :: string
  sy_Spec :: string

record ensure_env =
  ee_LookupEnv :: "string option"
  ee_Setenv :: "api_error option"
  ee_ReadDir :: "string \<Rightarrow> api_error + string list"
  ee_ReadFile :: "string \<Rightarrow> string"
  ee_Unmarshal :: "string \<Rightarrow> api_error + service_yaml"
  ee_DecodeMeta :: "string \<Rightarrow> api_error + string"
  ee_ValidName :: "string \<Rightarrow> api_error option"
  ee_DecodeSpec :: "string \<Rightarrow> api_error + dp_service"
  ee_CreateOrPatch :: "dp_service \<Rightarrow> api_error option"

definition has_suffix :: "string \<Rightarrow> string \<Rightarrow> bool" where
  "has_suffix s suf \<longleftrightarrow> suffix suf s"

text \<open>What one file asks for: nothing, an error, or a service to create or patch.\<close>

definition service_of_file ::
    "ensure_env \<Rightarrow> string \<Rightarrow> string \<Rightarrow> string \<Rightarrow> (api_error + dp_service) option" where
  "service_of_file env namespace servicesPath fname =
     (if \<not> has_suffix fname ''.yaml'' then None
      else (case ee_Unmarshal env (ee_ReadFile env (servicesPath @ ''/'' @ fname)) of
              Inl e \<Rightarrow> Some (Inl e)
            | Inr obj \<Rightarrow>
                if sy_Kind obj \<noteq> ''OpenStackDataPlaneService'' then None
                else (case ee_DecodeMeta env (sy_Metadata obj) of
                        Inl e \<Rightarrow> Some (Inl e)
                      | Inr name \<Rightarrow>
                          (case ee_ValidName env name of
                             Some e \<Rightarrow> Some (Inl e)
                           | None \<Rightarrow>
                               (case ee_DecodeSpec env (sy_Spec obj) of
                                  Inl e \<Rightarrow> Some (Inl e)
                                | Inr spec \<Rightarrow> Some (Inr (spec\<lparr>svc_Name := name, svc_Namespace := namespace\<rparr>)))))))"

text \<open>The loop over the files: the services written, in order, and the error that ended it.\<close>

fun ensure_files ::
    "ensure_env \<Rightarrow> string \<Rightarrow> string \<Rightarrow> string list \<Rightarrow> dp_service list \<times> api_error option" where
  "ensure_files env namespace servicesPath [] = ([], None)"
| "ensure_files env namespace servicesPath (fname # files) =
     (case service_of_file env namespace servicesPath fname of
        None \<Rightarrow> ensure_files env namespace servicesPath files
      | Some (Inl e) \<Rightarrow> ([], Some e)
      | Some (Inr svc) \<Rightarrow>
          (case ee_CreateOrPatch env svc of
             Some e \<Rightarrow> ([], Some (OtherError (''error ensuring service: '' @ err_msg e)))
           | None \<Rightarrow>
               (case ensure_files env namespace servicesPath files of
                  (written, err) \<Rightarrow> (svc # written, err))))"

definition EnsureServices :: "ensure_env \<Rightarrow> string \<Rightarrow> dp_service list \<times> api_error option" where
  "EnsureServices env namespace =
     (let read = (\<lambda>servicesPath. case ee_ReadDir env servicesPath of
                    Inl e \<Rightarrow> ([], Some e)
                  | Inr files \<Rightarrow> ensure_files env namespace servicesPath files)
      in case ee_LookupEnv env of
           Some servicesPath \<Rightarrow> read servicesPath
         | None \<Rightarrow>
             (case ee_Setenv env of
                Some e \<Rightarrow> ([], Some (OtherError (''failed to set OPERATOR_SERVICES environment variable: '' @ err_msg e)))
              | None \<Rightarrow> read ''config/services''))"

subsection \<open>Removing duplicates\<close>

definition service_type :: "dp_service \<Rightarrow> string" where
  "service_type service = (if svc_EDPMServiceType service = [] then svc_Name service else svc_EDPMServiceType service)"

text \<open>The loop of \<open>dedupe\<close>.  Its last three arguments are \<open>dedupedServices\<close>,
  \<open>nodeSetServiceTypes\<close> and \<open>updatedglobalServices\<close>; \<open>globalServices\<close> does not change in the loop.\<close>

fun dedupe_loop ::
    "get_service \<Rightarrow> string list \<Rightarrow> string list \<Rightarrow> string list \<Rightarrow> string list \<Rightarrow> string list
     \<Rightarrow> api_error + string list \<times> string list" where
  "dedupe_loop get globals [] deduped types updated = Inr (deduped, updated)"
| "dedupe_loop get globals (svc # svcs) deduped types updated =
     (case get svc of
        Inl err \<Rightarrow>
          if IsNotFound err \<and> svc \<notin> set deduped
          then dedupe_loop get globals svcs (deduped @ [svc]) types updated
          else Inl err
      | Inr service \<Rightarrow>
          if service_type service \<notin> set types \<and> svc \<notin> set deduped
          then if svc_DeployOnAllNodeSets service
               then if svc \<notin> set globals
                    then dedupe_loop get globals svcs (deduped @ [svc]) (types @ [service_type service]) (globals @ [svc])
                    else dedupe_loop get globals svcs deduped types updated
               else dedupe_loop get globals svcs (deduped @ [svc]) (types @ [service_type service]) updated
          else dedupe_loop get globals svcs deduped types updated)"

definition dedupe :: "get_service \<Rightarrow> string list \<Rightarrow> string list \<Rightarrow> api_error + string list \<times> string list" where
  "dedupe get services globals = dedupe_loop get globals services [] [] globals"

fun dedupe_nodesets ::
    "get_service \<Rightarrow> string list \<Rightarrow> dp_nodeset list \<Rightarrow> string list \<Rightarrow> (string, string list) gomap
     \<Rightarrow> api_error + (string, string list) gomap" where
  "dedupe_nodesets get override [] globals m = Inr m"
| "dedupe_nodesets get override (ns # nss) globals m =
     (case dedupe get (if override \<noteq> [] then override else ns_Services ns) globals of
        Inl err \<Rightarrow> Inl err
      | Inr (services, globals') \<Rightarrow> dedupe_nodesets get override nss globals' (gomap_put (ns_Name ns) services m))"

definition DedupeServices ::
    "get_service \<Rightarrow> dp_nodeset list \<Rightarrow> string list \<Rightarrow> api_error + (string, string list) gomap" where
  "DedupeServices get nodesets serviceOverride = dedupe_nodesets get serviceOverride nodesets [] []"

subsection \<open>Laws of EnsureServices\<close>

lemma ensure_files_written:
  assumes "ensure_files env namespace servicesPath files = (written, err)"
  shows "\<forall>svc\<in>set written. ee_ValidName env (svc_Name svc) = None \<and> svc_Namespace svc = namespace \<and>
    ee_CreateOrPatch env svc = None"
  using assms
proof (induction env namespace servicesPath files arbitrary: written err rule: ensure_files.induct)
  case (2 env namespace servicesPath fname files)
  show ?case
  proof (cases "service_of_file env namespace servicesPath fname")
    case None
    then show ?thesis using 2 by simp
  next
    case (Some r)
    show ?thesis
    proof (cases r)
      case (Inl e)
      then show ?thesis using "2.prems" Some by simp
    next
      case (Inr svc)
      then have svc: "ee_ValidName env (svc_Name svc) = None" "svc_Namespace svc = namespace"
        using Some by (auto simp: service_of_file_def split: if_splits sum.splits option.splits)
      show ?thesis
      proof (cases "ee_CreateOrPatch env svc")
        case None
        obtain w e where w: "ensure_files env namespace servicesPath files = (w, e)" by fastforce
        then show ?thesis using "2.IH"(2) [OF Some Inr None w] "2.prems" Some Inr None svc w by auto
      next
        case (Some e)
        then show ?thesis using "2.prems" \<open>service_of_file _ _ _ _ = Some r\<close> Inr by simp
      qed
    qed
  qed
qed simp

lemma ensure_files_complete:
  assumes "ensure_files env namespace servicesPath files = (written, None)"
  shows "map Inr written = map the (filter (\<lambda>r. r \<noteq> None) (map (service_of_file env namespace servicesPath) files))"
  using assms
proof (induction files arbitrary: written)
  case (Cons fname files)
  then show ?case
    by (cases "service_of_file env namespace servicesPath fname")
      (auto split: sum.splits option.splits prod.splits)
qed simp

text \<open>Every service object that \<open>EnsureServices\<close> writes has a valid name and the namespace of the
  node set, and when it returns no error it has written the service of every YAML file of that kind,
  in the order of the directory.\<close>

theorem EnsureServices_writes:
  assumes "EnsureServices env namespace = (written, err)"
  shows "(\<forall>svc\<in>set written. ee_ValidName env (svc_Name svc) = None \<and> svc_Namespace svc = namespace) \<and>
    (err = None \<longrightarrow> (\<exists>servicesPath files. ee_ReadDir env servicesPath = Inr files \<and>
       map Inr written = map the (filter (\<lambda>r. r \<noteq> None) (map (service_of_file env namespace servicesPath) files))))"
proof -
  consider e where "written = []" "err = Some e"
    | servicesPath files where "ee_ReadDir env servicesPath = Inr files"
        "ensure_files env namespace servicesPath files = (written, err)"
    using assms by (auto simp: EnsureServices_def Let_def split: option.splits sum.splits)
  then show ?thesis
  proof cases
    case 1 then show ?thesis by simp
  next
    case 2
    then show ?thesis using ensure_files_written [OF 2(2)] ensure_files_complete by blast
  qed
qed

subsection \<open>Laws of dedupe\<close>

text \<open>What a list of services that the loop has built satisfies: no service twice, and no two services
  that exist with the same type.\<close>

definition types_of :: "get_service \<Rightarrow> string list \<Rightarrow> string list" where
  "types_of get names = concat (map (\<lambda>n. case get n of Inl _ \<Rightarrow> [] | Inr s \<Rightarrow> [service_type s]) names)"

lemma types_of_append [simp]: "types_of get (xs @ ys) = types_of get xs @ types_of get ys"
  by (simp add: types_of_def)

lemma types_of_single [simp]: "types_of get [n] = (case get n of Inl _ \<Rightarrow> [] | Inr s \<Rightarrow> [service_type s])"
  by (simp add: types_of_def)

text \<open>One induction over the loop gives all of its invariants.\<close>

lemma dedupe_loop_inv:
  assumes "dedupe_loop get globals svcs deduped types updated = Inr (result, updated')"
    and "distinct deduped" and "distinct types" and "types = types_of get deduped"
  shows "distinct result \<and> distinct (types_of get result) \<and>
    (\<exists>new. result = deduped @ new \<and> subseq new svcs) \<and>
    (\<forall>svc s. svc \<in> set svcs \<longrightarrow> get svc = Inr s \<longrightarrow>
       service_type s \<in> set (types_of get result) \<or> svc_DeployOnAllNodeSets s \<and> svc \<in> set globals) \<and>
    (\<forall>svc e. svc \<in> set svcs \<longrightarrow> get svc = Inl e \<longrightarrow> svc \<in> set result)"
  using assms
proof (induction get globals svcs deduped types updated rule: dedupe_loop.induct)
  case (1 get globals deduped types updated)
  then show ?case by simp
next
  case (2 get globals svc svcs deduped types updated)
  have step: ?case
    if rec: "distinct result \<and> distinct (types_of get result) \<and>
        (\<exists>new. result = (deduped @ add) @ new \<and> subseq new svcs) \<and>
        (\<forall>svc s. svc \<in> set svcs \<longrightarrow> get svc = Inr s \<longrightarrow>
           service_type s \<in> set (types_of get result) \<or> svc_DeployOnAllNodeSets s \<and> svc \<in> set globals) \<and>
        (\<forall>svc e. svc \<in> set svcs \<longrightarrow> get svc = Inl e \<longrightarrow> svc \<in> set result)"
      and add: "add = [] \<or> add = [svc]"
      and head: "\<And>s. get svc = Inr s \<Longrightarrow> service_type s \<in> set (types_of get (deduped @ add)) \<or>
           svc_DeployOnAllNodeSets s \<and> svc \<in> set globals"
      and err: "\<And>e. get svc = Inl e \<Longrightarrow> svc \<in> set (deduped @ add)"
    for add
  proof -
    obtain new where new: "result = (deduped @ add) @ new" "subseq new svcs" using rec by blast
    then have "result = deduped @ (add @ new) \<and> subseq (add @ new) (svc # svcs)" using add by auto
    moreover have "set (types_of get (deduped @ add)) \<subseteq> set (types_of get result)"
      "set (deduped @ add) \<subseteq> set result"
      using new(1) by auto
    ultimately show ?thesis using rec head err by (auto simp: subset_iff)
  qed
  show ?case
  proof (cases "get svc")
    case (Inl e)
    then have "IsNotFound e" "svc \<notin> set deduped" using "2.prems"(1) by (auto split: if_splits)
    then show ?thesis using 2 Inl by (intro step [of "[svc]"]) auto
  next
    case (Inr s)
    have mem: "service_type s \<in> set types" if "svc \<in> set deduped"
      using that "2.prems"(4) Inr by (force simp: types_of_def)
    consider (skip) "service_type s \<in> set types"
      | (seen) "service_type s \<notin> set types" "svc_DeployOnAllNodeSets s" "svc \<in> set globals"
      | (add) "service_type s \<notin> set types" "\<not> (svc_DeployOnAllNodeSets s \<and> svc \<in> set globals)"
      by blast
    then show ?thesis
    proof cases
      case skip
      then show ?thesis using 2 Inr by (intro step [of "[]"]) auto
    next
      case seen
      then have "svc \<notin> set deduped" using mem by blast
      then show ?thesis using 2 Inr seen by (intro step [of "[]"]) auto
    next
      case add
      then have "svc \<notin> set deduped" using mem by blast
      then show ?thesis using 2 Inr add by (intro step [of "[svc]"]) (auto split: if_splits)
    qed
  qed
qed

definition configured_services :: "string list \<Rightarrow> dp_nodeset \<Rightarrow> string list" where
  "configured_services override ns = (if override \<noteq> [] then override else ns_Services ns)"

text \<open>What the services chosen for a node set satisfy.\<close>

definition dedupe_ok :: "get_service \<Rightarrow> string list \<Rightarrow> string list \<Rightarrow> bool" where
  "dedupe_ok get configured services \<longleftrightarrow>
     distinct services \<and> distinct (types_of get services) \<and> subseq services configured \<and>
     (\<forall>svc s. svc \<in> set configured \<longrightarrow> get svc = Inr s \<longrightarrow>
        service_type s \<in> set (types_of get services) \<or> svc_DeployOnAllNodeSets s) \<and>
     (\<forall>svc e. svc \<in> set configured \<longrightarrow> get svc = Inl e \<longrightarrow> svc \<in> set services)"

lemma dedupe_is_ok:
  assumes "dedupe get configured globals = Inr (services, globals')"
  shows "dedupe_ok get configured services"
  using dedupe_loop_inv [OF assms [unfolded dedupe_def]] by (auto simp: types_of_def dedupe_ok_def)

lemma dedupe_nodesets_other:
  "dedupe_nodesets get override nss globals m = Inr m' \<Longrightarrow> n \<notin> ns_Name ` set nss \<Longrightarrow> map_of m' n = map_of m n"
  by (induction nss arbitrary: globals m) (auto simp: gomap_simps split: sum.splits)

lemma dedupe_nodesets_head:
  assumes "dedupe_nodesets get override (ns # nss) globals m = Inr m'" and "ns_Name ns \<notin> ns_Name ` set nss"
  obtains services globals' where "dedupe get (configured_services override ns) globals = Inr (services, globals')"
    and "map_of m' (ns_Name ns) = Some services"
    and "dedupe_nodesets get override nss globals' (gomap_put (ns_Name ns) services m) = Inr m'"
proof -
  obtain services globals' where d: "dedupe get (configured_services override ns) globals = Inr (services, globals')"
    and r: "dedupe_nodesets get override nss globals' (gomap_put (ns_Name ns) services m) = Inr m'"
    using assms(1) by (auto simp: configured_services_def split: sum.splits if_splits)
  have "map_of m' (ns_Name ns) = Some services"
    using dedupe_nodesets_other [OF r assms(2)] by (simp add: gomap_simps)
  from d this r show ?thesis by (rule that)
qed

lemma dedupe_nodesets_ok:
  assumes "dedupe_nodesets get override nss globals m = Inr m'" and "distinct (map ns_Name nss)" and "ns \<in> set nss"
  shows "\<exists>services. map_of m' (ns_Name ns) = Some services \<and> dedupe_ok get (configured_services override ns) services"
  using assms
proof (induction nss arbitrary: globals m)
  case (Cons n nss)
  have "ns_Name n \<notin> ns_Name ` set nss" using Cons.prems(2) by simp
  then obtain services globals' where d: "dedupe get (configured_services override n) globals = Inr (services, globals')"
    and "map_of m' (ns_Name n) = Some services"
    and "dedupe_nodesets get override nss globals' (gomap_put (ns_Name n) services m) = Inr m'"
    by (rule dedupe_nodesets_head [OF Cons.prems(1)])
  with Cons dedupe_is_ok [OF d] show ?case by auto
qed simp

text \<open>C12: on every node set of a deployment the chosen services keep the configured order, contain no
  service twice and no two services of the same type; every configured service that exists is there,
  or another one of its type is, unless it is a service that is deployed for all node sets at once;
  and a configured service that does not exist is kept, so that its deployment reports the error.\<close>

theorem DedupeServices_per_nodeset:
  assumes "DedupeServices get nodesets override = Inr m" and "distinct (map ns_Name nodesets)" and "ns \<in> set nodesets"
  shows "\<exists>services. map_of m (ns_Name ns) = Some services \<and> dedupe_ok get (configured_services override ns) services"
  using assms unfolding DedupeServices_def by (rule dedupe_nodesets_ok)

subsection \<open>Services for all node sets\<close>

definition is_global :: "get_service \<Rightarrow> string \<Rightarrow> bool" where
  "is_global get n = (case get n of Inl _ \<Rightarrow> False | Inr s \<Rightarrow> svc_DeployOnAllNodeSets s)"

definition one_global :: "get_service \<Rightarrow> string list \<Rightarrow> bool" where
  "one_global get names \<longleftrightarrow> (\<forall>a\<in>set names. \<forall>b\<in>set names. is_global get a \<longrightarrow> is_global get b \<longrightarrow> a = b)"

lemma dedupe_loop_globals:
  assumes "dedupe_loop get globals svcs deduped types updated = Inr (result, updated')"
    and "\<forall>g\<in>set deduped. is_global get g \<longrightarrow> g \<notin> set globals \<and> g \<in> set updated"
    and "set globals \<subseteq> set updated" and "one_global get (deduped @ svcs)"
  shows "(\<forall>g\<in>set result. is_global get g \<longrightarrow> g \<notin> set globals \<and> g \<in> set updated') \<and> set globals \<subseteq> set updated'"
  using assms
proof (induction get globals svcs deduped types updated rule: dedupe_loop.induct)
  case (2 get globals svc svcs deduped types updated)
  have one: "one_global get ((deduped @ [svc]) @ svcs)" "one_global get (deduped @ svcs)"
    using "2.prems"(4) by (auto simp: one_global_def)
  show ?case
  proof (cases "get svc")
    case (Inl e)
    then have "\<not> is_global get svc" by (simp add: is_global_def)
    then show ?thesis using 2 Inl one by (auto split: if_splits)
  next
    case (Inr s)
    then have g: "is_global get svc = svc_DeployOnAllNodeSets s" by (simp add: is_global_def)
    show ?thesis
    proof (cases "service_type s \<notin> set types \<and> svc \<notin> set deduped")
      case True
      consider "\<not> svc_DeployOnAllNodeSets s" | "svc_DeployOnAllNodeSets s" "svc \<in> set globals"
        | "svc_DeployOnAllNodeSets s" "svc \<notin> set globals" by blast
      then show ?thesis
      proof cases
        case 1
        then show ?thesis using "2.IH"(4) [OF Inr True 1] "2.prems" Inr True one(1) g by simp
      next
        case 2
        then show ?thesis using "2.IH"(3) [OF Inr True 2(1)] "2.prems" Inr True one(2) by simp
      next
        case 3
        have "\<not> is_global get h" if "h \<in> set deduped" for h
          using "2.prems"(4) that g 3(1) True by (auto simp: one_global_def)
        then show ?thesis using "2.IH"(2) [OF Inr True 3] "2.prems"(1) Inr True 3 one(1) by (simp add: subset_insertI)
      qed
    next
      case False
      then show ?thesis using "2.IH"(5) [OF Inr False] "2.prems" Inr one(2) by auto
    qed
  qed
qed simp

lemma dedupe_globals:
  assumes "dedupe get configured globals = Inr (services, globals')" and "one_global get configured"
  shows "(\<forall>g\<in>set services. is_global get g \<longrightarrow> g \<notin> set globals \<and> g \<in> set globals') \<and> set globals \<subseteq> set globals'"
  using dedupe_loop_globals [OF assms(1) [unfolded dedupe_def]] assms(2) by simp

abbreviation chosen :: "(string, string list) gomap \<Rightarrow> dp_nodeset \<Rightarrow> string set" where
  "chosen m ns \<equiv> set (gomap_get [] m (ns_Name ns))"

lemma dedupe_nodesets_once:
  assumes "dedupe_nodesets get override nss globals m = Inr m'" and "distinct (map ns_Name nss)"
    and "\<forall>ns\<in>set nss. one_global get (configured_services override ns)"
  shows "(\<forall>ns\<in>set nss. \<forall>g\<in>chosen m' ns. is_global get g \<longrightarrow> g \<notin> set globals) \<and>
    (\<forall>ns\<in>set nss. \<forall>ns'\<in>set nss. \<forall>g. is_global get g \<longrightarrow> g \<in> chosen m' ns \<longrightarrow> g \<in> chosen m' ns' \<longrightarrow>
       ns_Name ns = ns_Name ns')"
  using assms
proof (induction nss arbitrary: globals m)
  case (Cons n nss)
  have "ns_Name n \<notin> ns_Name ` set nss" using Cons.prems(2) by simp
  then obtain services globals' where d: "dedupe get (configured_services override n) globals = Inr (services, globals')"
    and n: "map_of m' (ns_Name n) = Some services"
    and r: "dedupe_nodesets get override nss globals' (gomap_put (ns_Name n) services m) = Inr m'"
    by (rule dedupe_nodesets_head [OF Cons.prems(1)])
  have g: "\<forall>g\<in>set services. is_global get g \<longrightarrow> g \<notin> set globals \<and> g \<in> set globals'" "set globals \<subseteq> set globals'"
    using dedupe_globals [OF d] Cons.prems(3) by simp_all
  have c: "chosen m' n = set services" using n by (simp add: gomap_get_def)
  have rest: "\<forall>ns\<in>set nss. \<forall>g\<in>chosen m' ns. is_global get g \<longrightarrow> g \<notin> set globals'"
    "\<forall>ns\<in>set nss. \<forall>ns'\<in>set nss. \<forall>g. is_global get g \<longrightarrow> g \<in> chosen m' ns \<longrightarrow> g \<in> chosen m' ns' \<longrightarrow>
       ns_Name ns = ns_Name ns'"
    using Cons.IH [OF r] Cons.prems(2,3) by auto
  have "\<forall>ns\<in>set (n # nss). \<forall>g\<in>chosen m' ns. is_global get g \<longrightarrow> g \<notin> set globals"
    using rest(1) g c by (auto simp: subset_iff)
  moreover have "ns_Name ns = ns_Name ns'"
    if "ns \<in> set (n # nss)" "ns' \<in> set (n # nss)" "is_global get g" "g \<in> chosen m' ns" "g \<in> chosen m' ns'" for ns ns' g
    using that rest g(1) c by (metis set_ConsD)
  ultimately show ?case by blast
qed simp

text \<open>When no node set configures more than one service that is deployed for all node sets at once,
  such a service is chosen on at most one node set of the deployment.\<close>

theorem DedupeServices_global_once:
  assumes "DedupeServices get nodesets override = Inr m" and "distinct (map ns_Name nodesets)"
    and "\<forall>ns\<in>set nodesets. one_global get (configured_services override ns)"
    and "ns \<in> set nodesets" and "ns' \<in> set nodesets" and "is_global get g"
    and "g \<in> chosen m ns" and "g \<in> chosen m ns'"
  shows "ns_Name ns = ns_Name ns'"
  using dedupe_nodesets_once [OF assms(1) [unfolded DedupeServices_def] assms(2,3)] assms(4-8) by blast

subsection \<open>Concrete node sets\<close>

definition sample_service :: "string \<Rightarrow> bool \<Rightarrow> dp_service" where
  "sample_service n all = \<lparr>svc_Name = n, svc_Namespace = ''openstack'', svc_DataSources = [], svc_TLSCerts = None,
     svc_CACerts = [], svc_RunnerImage = [], svc_CertsFrom = [], svc_AddCertMounts = False,
     svc_DeployOnAllNodeSets = all, svc_ContainerImageFields = [], svc_EDPMServiceType = n,
     svc_Playbook = n, svc_PlaybookContents = [], svc_Role = []\<rparr>"

definition sample_get :: get_service where
  "sample_get n = (if n = ''a'' \<or> n = ''b'' then Inr (sample_service n True)
     else if n = ''c'' then Inr (sample_service n False) else Inl (NotFound n))"

definition sample_node :: "string \<Rightarrow> dp_node" where
  "sample_node h = \<lparr>nd_HostName = h, nd_Networks = [], nd_BmhLabelSelector = [], nd_UserData = None, nd_NetworkData = None,
     nd_CtlplaneInterface = [], nd_ManagementNetwork = [], nd_AnsibleUser = [], nd_AnsibleHost = [], nd_AnsiblePort = 0,
     nd_AnsibleVars = [], nd_AnsibleVarsFrom = []\<rparr>"

lemma sample_node_sel [simp]:
  "nd_HostName (sample_node h) = h" "nd_AnsibleHost (sample_node h) = []" "nd_Networks (sample_node h) = []"
  "nd_AnsibleVarsFrom (sample_node h) = []"
  by (simp_all add: sample_node_def)

definition sample_nodeset :: "string \<Rightarrow> string list \<Rightarrow> dp_nodeset" where
  "sample_nodeset n svcs = \<lparr>ns_Name = n, ns_Namespace = ''openstack'', ns_Generation = 1, ns_Labels = [],
     ns_BaremetalSetTemplate = None, ns_Nodes = [],
     ns_Services = svcs, ns_PreProvisioned = True, ns_TLSEnabled = False, ns_SSHPrivateKeySecret = ''ssh'',
     ns_TemplateNetworks = [], ns_TemplateManagementNetwork = [], ns_TemplateUser = [], ns_TemplatePort = 0,
     ns_TemplateVars = [], ns_TemplateVarsFrom = [], ns_Tags = None, ns_Conditions = [], ns_DeploymentStatuses = [],
     ns_DeploymentExecutionSummaries = [], ns_ConfigMapHashes = [], ns_SecretHashes = [], ns_InventorySecretName = [],
     ns_ObservedGeneration = 1, ns_DeployedVersion = [],
     ns_ContainerImages = [], ns_ConfigHash = [], ns_DeployedConfigHash = [], ns_BmhRefHash = [],
     ns_DeployedBmhHash = [], ns_SecretMaxSize = 1000, ns_NetworkAttachments = [], ns_ExtraMounts = [], ns_Env = [],
     ns_AllHostnames = [], ns_AllIPs = [], ns_DNSClusterAddresses = None, ns_CtlplaneSearchDomain = []\<rparr>"

text \<open>A service that is deployed for all node sets at once can still be run twice.  With two such
  services on one node set, \<open>dedupe\<close> remembers only the last one, because it appends to
  \<open>globalServices\<close> and not to \<open>updatedglobalServices\<close>; the first one is chosen again on the next
  node set.\<close>

theorem DedupeServices_forgets_global:
  "DedupeServices sample_get [sample_nodeset ''one'' [''a'', ''b''], sample_nodeset ''two'' [''a'', ''b'']] [] =
     Inr [(''one'', [''a'', ''b'']), (''two'', [''a''])]"
  by (simp add: DedupeServices_def dedupe_def sample_get_def sample_nodeset_def sample_service_def service_type_def)

lemma sample_dedupe:
  "DedupeServices sample_get [sample_nodeset ''one'' [''c'', ''a'', ''c''], sample_nodeset ''two'' [''a'', ''x'']] [] =
     Inr [(''one'', [''c'', ''a'']), (''two'', [''x''])]"
  by (simp add: DedupeServices_def dedupe_def sample_get_def sample_nodeset_def sample_service_def service_type_def)

theorem DedupeServices_per_nodeset_witness:
  "dedupe_ok sample_get [''c'', ''a'', ''c''] [''c'', ''a'']"
  using DedupeServices_per_nodeset [OF sample_dedupe, of "sample_nodeset ''one'' [''c'', ''a'', ''c'']"]
  by (simp add: sample_nodeset_def configured_services_def)

theorem DedupeServices_global_once_witness:
  "''a'' \<notin> chosen [(''one'', [''c'', ''a'']), (''two'', [''x''])] (sample_nodeset ''two'' [''a'', ''x''])"
proof
  assume "''a'' \<in> chosen [(''one'', [''c'', ''a'']), (''two'', [''x''])] (sample_nodeset ''two'' [''a'', ''x''])"
  then have "ns_Name (sample_nodeset ''one'' [''c'', ''a'', ''c'']) = ns_Name (sample_nodeset ''two'' [''a'', ''x''])"
    by (intro DedupeServices_global_once [OF sample_dedupe])
      (auto simp: sample_nodeset_def configured_services_def one_global_def is_global_def sample_get_def
        sample_service_def gomap_get_def)
  then show False by (simp add: sample_nodeset_def)
qed

definition sample_ensure_env :: ensure_env where
  "sample_ensure_env = \<lparr>ee_LookupEnv = None, ee_Setenv = None, ee_ReadDir = (\<lambda>_. Inr [''README'', ''a.yaml'']),
     ee_ReadFile = (\<lambda>p. p),
     ee_Unmarshal = (\<lambda>_. Inr \<lparr>sy_Kind = ''OpenStackDataPlaneService'', sy_Metadata = ''a'', sy_Spec = []\<rparr>),
     ee_DecodeMeta = Inr, ee_ValidName = (\<lambda>_. None), ee_DecodeSpec = (\<lambda>_. Inr (sample_service [] False)),
     ee_CreateOrPatch = (\<lambda>_. None)\<rparr>"

theorem EnsureServices_writes_witness:
  "list_all (\<lambda>svc. svc_Namespace svc = ''openstack'') (fst (EnsureServices sample_ensure_env ''openstack''))"
proof -
  obtain written err where "EnsureServices sample_ensure_env ''openstack'' = (written, err)" by fastforce
  from EnsureServices_writes [OF this] this show ?thesis by (simp add: list_all_iff)
qed

end
