(* ===== verification/Dataplane_Sources.thy ===== *)
theory Dataplane_Sources
  imports Dataplane_Services
begin

text \<open>
  Configuration of data plane services and its hashes: \<open>internal/dataplane/util/datasource.go\<close>,
  \<open>internal/dataplane/hashes.go\<close> and \<open>internal/dataplane/util/version.go\<close>.  The Kubernetes client and
  the hash functions of lib-common are the record \<open>dp_client\<close>.  A hash function returns the empty
  string beside an error, as Go functions do.
\<close>

subsection \<open>Objects and client\<close>

record config_map =
  cm_Name :: string
  cm_Data :: "(string, string) gomap"
  cm_BinaryData :: "(string, string) gomap"

record secret =
  sec_Name :: string
  sec_Namespace :: string
  sec_Labels :: "(string, string) gomap"
  sec_Data :: "(string, string) gomap"

record dp_client =
  dc_getService :: get_service
  dc_getConfigMap :: "string \<Rightarrow> string \<Rightarrow> api_error + config_map"
  dc_getSecret :: "string \<Rightarrow> string \<Rightarrow> api_error + secret"
  dc_listSecrets :: "string \<Rightarrow> (string, string) gomap \<Rightarrow> api_error + secret list"
  dc_hashConfigMap :: "config_map \<Rightarrow> string \<times> api_error option"
  dc_hashSecret :: "secret \<Rightarrow> string \<times> api_error option"

definition NodeSetLabel :: string where "NodeSetLabel = ''osdpns''"
definition ServiceLabel :: string where "ServiceLabel = ''osdp-service''"
definition ServiceKeyLabel :: string where "ServiceKeyLabel = ''osdp-service-cert-key''"
definition HostnameLabel :: string where "HostnameLabel = ''hostname''"

subsection \<open>Data sources\<close>

definition is_optional :: "env_source \<Rightarrow> bool" where
  "is_optional s \<longleftrightarrow> es_Optional s \<noteq> None \<and> the (es_Optional s)"

definition GetDataSourceCmSecret ::
    "dp_client \<Rightarrow> string \<Rightarrow> data_source \<Rightarrow> api_error + config_map option \<times> secret option" where
  "GetDataSourceCmSecret c namespace dataSource =
     (case ds_ConfigMapRef dataSource of
        Some cm \<Rightarrow>
          (case dc_getConfigMap c namespace (es_Name cm) of
             Inl err \<Rightarrow> if IsNotFound err \<and> is_optional cm then Inr (None, None) else Inl err
           | Inr configMap \<Rightarrow> Inr (Some configMap, None))
      | None \<Rightarrow>
          (case ds_SecretRef dataSource of
             Some s \<Rightarrow>
               (case dc_getSecret c namespace (es_Name s) of
                  Inl err \<Rightarrow> if IsNotFound err \<and> is_optional s then Inr (None, None) else Inl err
                | Inr secret \<Rightarrow> Inr (None, Some secret))
           | None \<Rightarrow> Inr (None, None)))"

subsection \<open>Hashes\<close>

text \<open>The maps \<open>configMapHashes\<close> and \<open>secretHashes\<close>, which the functions update in place; they keep
  what was written before an error.\<close>

type_synonym hashes = "(string, string) gomap \<times> (string, string) gomap"

text \<open>\<open>configMapHashes[cm.Name] = ...\<close> and \<open>secretHashes[sec.Name] = ...\<close> for the objects that are
  there.\<close>

definition store_hashes :: "dp_client \<Rightarrow> config_map option \<times> secret option \<Rightarrow> hashes \<Rightarrow> hashes" where
  "store_hashes c objs h =
     ((case fst objs of None \<Rightarrow> fst h | Some m \<Rightarrow> gomap_put (cm_Name m) (fst (dc_hashConfigMap c m)) (fst h)),
      (case snd objs of None \<Rightarrow> snd h | Some s \<Rightarrow> gomap_put (sec_Name s) (fst (dc_hashSecret c s)) (snd h)))"

text \<open>The loop over the data sources of a service: a failing hash is logged and stored empty.\<close>

fun hash_data_sources ::
    "dp_client \<Rightarrow> string \<Rightarrow> data_source list \<Rightarrow> hashes \<Rightarrow> hashes \<times> api_error option" where
  "hash_data_sources c namespace [] h = (h, None)"
| "hash_data_sources c namespace (d # ds) h =
     (case GetDataSourceCmSecret c namespace d of
        Inl err \<Rightarrow> (h, Some err)
      | Inr objs \<Rightarrow> hash_data_sources c namespace ds (store_hashes c objs h))"

fun hash_cert_secrets :: "dp_client \<Rightarrow> secret list \<Rightarrow> hashes \<Rightarrow> hashes \<times> api_error option" where
  "hash_cert_secrets c [] h = (h, None)"
| "hash_cert_secrets c (s # ss) (cms, secs) =
     (case dc_hashSecret c s of
        (hash, err) \<Rightarrow>
          let h = (cms, gomap_put (sec_Name s) hash secs)
          in if err \<noteq> None then (h, err) else hash_cert_secrets c ss h)"

definition cert_selector :: "string \<Rightarrow> string \<Rightarrow> string \<Rightarrow> (string, string) gomap" where
  "cert_selector nodeSet service certKey =
     [(NodeSetLabel, nodeSet), (ServiceLabel, service), (ServiceKeyLabel, certKey)]"

text \<open>The two loops over certificate keys and node sets, as one list of selectors.\<close>

fun hash_selectors ::
    "dp_client \<Rightarrow> (string, string) gomap list \<Rightarrow> hashes \<Rightarrow> hashes \<times> api_error option" where
  "hash_selectors c [] h = (h, None)"
| "hash_selectors c (l # ls) h =
     (case dc_listSecrets c [] l of
        Inl err \<Rightarrow> (h, Some err)
      | Inr secrets \<Rightarrow>
          (case hash_cert_secrets c secrets h of
             (h', Some err) \<Rightarrow> (h', Some err)
           | (h', None) \<Rightarrow> hash_selectors c ls h'))"

definition GetDeploymentHashesForService ::
    "dp_client \<Rightarrow> string \<Rightarrow> string \<Rightarrow> dp_nodeset list \<Rightarrow> hashes \<Rightarrow> hashes \<times> api_error option" where
  "GetDeploymentHashesForService c namespace serviceName nodeSets h =
     (case dc_getService c serviceName of
        Inl err \<Rightarrow> (h, Some err)
      | Inr service \<Rightarrow>
          (case hash_data_sources c namespace (svc_DataSources service) h of
             (h', Some err) \<Rightarrow> (h', Some err)
           | (h', None) \<Rightarrow>
               (case svc_TLSCerts service of
                  None \<Rightarrow> (h', None)
                | Some certs \<Rightarrow>
                    hash_selectors c
                      (concat (map (\<lambda>(certKey, _). map (\<lambda>ns. cert_selector (ns_Name ns) serviceName certKey) nodeSets) certs))
                      h')))"

text \<open>\<open>ProcessAnsibleVarsFrom\<close> stops at the first hash that fails.\<close>

fun ProcessAnsibleVarsFrom ::
    "dp_client \<Rightarrow> string \<Rightarrow> data_source list \<Rightarrow> hashes \<Rightarrow> hashes \<times> api_error option" where
  "ProcessAnsibleVarsFrom c namespace [] h = (h, None)"
| "ProcessAnsibleVarsFrom c namespace (d # ds) h =
     (case GetDataSourceCmSecret c namespace d of
        Inl err \<Rightarrow> (h, Some err)
      | Inr (cm, sec) \<Rightarrow>
          (case Option.bind cm (\<lambda>m. snd (dc_hashConfigMap c m)) of
             Some err \<Rightarrow> (h, Some err)
           | None \<Rightarrow>
               let h1 = store_hashes c (cm, None) h
               in (case Option.bind sec (\<lambda>s. snd (dc_hashSecret c s)) of
                     Some err \<Rightarrow> (h1, Some err)
                   | None \<Rightarrow> ProcessAnsibleVarsFrom c namespace ds (store_hashes c (None, sec) h1))))"

fun cert_hashes :: "dp_client \<Rightarrow> secret list \<Rightarrow> (string, string) gomap \<Rightarrow> api_error + (string, string) gomap" where
  "cert_hashes c [] m = Inr m"
| "cert_hashes c (s # ss) m =
     (if map_of (sec_Labels s) ServiceLabel = None then cert_hashes c ss m
      else (case dc_hashSecret c s of
              (_, Some err) \<Rightarrow> Inl err
            | (hash, None) \<Rightarrow> cert_hashes c ss (gomap_put (sec_Name s) hash m)))"

definition GetCertSecretHashes :: "dp_client \<Rightarrow> string \<Rightarrow> string \<Rightarrow> api_error + (string, string) gomap" where
  "GetCertSecretHashes c namespace nodeSetName =
     (case dc_listSecrets c namespace [(NodeSetLabel, nodeSetName)] of
        Inl err \<Rightarrow> Inl err
      | Inr secrets \<Rightarrow> cert_hashes c secrets [])"

subsection \<open>The version of a namespace\<close>

definition GetVersion :: "(api_error + os_version list) \<Rightarrow> api_error + os_version option" where
  "GetVersion versions =
     (case versions of
        Inl err \<Rightarrow> Inl err
      | Inr items \<Rightarrow>
          if 1 < length items
          then Inl (OtherError ''found multiple OpenStackVersions when at most 1 should exist'')
          else if length items = 1 then Inr (Some (items ! 0))
          else Inr None)"

text \<open>The fields \<open>dataplaneutil.GetContainerImages\<close> copies.\<close>

definition dataplane_image_fields :: "image_field list" where
  "dataplane_image_fields = [
     AnsibleeeImage, CeilometerComputeImage, CeilometerIpmiImage, EdpmFrrImage, EdpmIscsidImage,
     EdpmLogrotateCrondImage, EdpmMultipathdImage, EdpmNeutronDhcpAgentImage, EdpmNeutronMetadataAgentImage,
     EdpmNeutronOvnAgentImage, EdpmNeutronSriovAgentImage, EdpmNodeExporterImage, EdpmKeplerImage,
     EdpmPodmanExporterImage, OpenstackNetworkExporterImage, EdpmOvnBgpAgentImage, NovaComputeImage,
     OvnControllerImage, OsContainerImage, AgentImage, ApacheImage, SwiftAccountImage, SwiftContainerImage,
     SwiftObjectImage, SwiftProxyImage]"

text \<open>\<open>defaults\<close> is the package variable \<open>dataplanev1.ContainerImages\<close>.\<close>

definition dp_GetContainerImages :: "container_images \<Rightarrow> os_version option \<Rightarrow> container_images" where
  "dp_GetContainerImages defaults version =
     (let from = (case version of Some v \<Rightarrow> v_images v | None \<Rightarrow> defaults)
      in empty_images\<lparr>ci_template := (\<lambda>f. if f \<in> set dataplane_image_fields then ci_template from f else None)\<rparr>)"

subsection \<open>Laws\<close>

text \<open>The objects a data source contributes.\<close>

definition objs_of :: "dp_client \<Rightarrow> string \<Rightarrow> data_source \<Rightarrow> config_map option \<times> secret option" where
  "objs_of c namespace d = (case GetDataSourceCmSecret c namespace d of Inl _ \<Rightarrow> (None, None) | Inr objs \<Rightarrow> objs)"

text \<open>\<open>recorded\<close>: the objects are in the maps under their hashes.\<close>

definition recorded :: "dp_client \<Rightarrow> config_map option \<times> secret option \<Rightarrow> hashes \<Rightarrow> bool" where
  "recorded c objs h \<longleftrightarrow>
     (\<forall>m. fst objs = Some m \<longrightarrow> map_of (fst h) (cm_Name m) = Some (fst (dc_hashConfigMap c m))) \<and>
     (\<forall>s. snd objs = Some s \<longrightarrow> map_of (snd h) (sec_Name s) = Some (fst (dc_hashSecret c s)))"

text \<open>Names identify objects: the client returns an object under the name asked for.\<close>

definition client_names :: "dp_client \<Rightarrow> bool" where
  "client_names c \<longleftrightarrow>
     (\<forall>ns n m. dc_getConfigMap c ns n = Inr m \<longrightarrow> cm_Name m = n) \<and>
     (\<forall>ns n s. dc_getSecret c ns n = Inr s \<longrightarrow> sec_Name s = n)"

definition agree :: "config_map option \<times> secret option \<Rightarrow> config_map option \<times> secret option \<Rightarrow> bool" where
  "agree a b \<longleftrightarrow>
     (\<forall>m m'. fst a = Some m \<longrightarrow> fst b = Some m' \<longrightarrow> cm_Name m = cm_Name m' \<longrightarrow> m = m') \<and>
     (\<forall>s s'. snd a = Some s \<longrightarrow> snd b = Some s' \<longrightarrow> sec_Name s = sec_Name s' \<longrightarrow> s = s')"

lemma objs_agree: "client_names c \<Longrightarrow> agree (objs_of c ns d) (objs_of c ns e)"
  by (auto simp: agree_def objs_of_def GetDataSourceCmSecret_def client_names_def
      split: sum.splits option.splits if_splits)

lemma recorded_store: "recorded c objs (store_hashes c objs h)"
  by (auto simp: recorded_def store_hashes_def gomap_simps)

lemma recorded_store_other: "agree a b \<Longrightarrow> recorded c a h \<Longrightarrow> recorded c a (store_hashes c b h)"
  by (auto simp: recorded_def store_hashes_def agree_def gomap_simps split: option.splits)

text \<open>A fold of \<open>store_hashes\<close> over objects that agree records them all and keeps what was recorded.\<close>

lemma recorded_fold_keeps:
  "\<forall>b\<in>set bs. agree a b \<Longrightarrow> recorded c a h \<Longrightarrow> recorded c a (fold (store_hashes c) bs h)"
  by (induction bs arbitrary: h) (simp_all add: recorded_store_other)

lemma recorded_fold:
  "\<forall>a\<in>set bs. \<forall>b\<in>set bs. agree a b \<Longrightarrow> a \<in> set bs \<Longrightarrow> recorded c a (fold (store_hashes c) bs h)"
proof (induction bs arbitrary: h)
  case (Cons b bs)
  show ?case
  proof (cases "a \<in> set bs")
    case True
    then show ?thesis using Cons.IH [of "store_hashes c b h"] Cons.prems(1) by simp
  next
    case False
    then have "a = b" using Cons.prems(2) by simp
    then show ?thesis
      using recorded_fold_keeps [of bs b c "store_hashes c b h"] Cons.prems(1) by (simp add: recorded_store)
  qed
qed simp

lemma hash_data_sources_fold:
  "hash_data_sources c ns ds h = (h', None) \<Longrightarrow> h' = fold (store_hashes c) (map (objs_of c ns) ds) h"
  by (induction c ns ds h rule: hash_data_sources.induct) (auto simp: objs_of_def split: sum.splits)

lemma store_both: "store_hashes c (None, sec) (store_hashes c (cm, None) h) = store_hashes c (cm, sec) h"
  by (simp add: store_hashes_def split: option.splits)

lemma ProcessAnsibleVarsFrom_fold:
  "ProcessAnsibleVarsFrom c ns ds h = (h', None) \<Longrightarrow>
   h' = fold (store_hashes c) (map (objs_of c ns) ds) h \<and>
   (\<forall>d\<in>set ds. \<exists>objs. GetDataSourceCmSecret c ns d = Inr objs)"
  by (induction c ns ds h rule: ProcessAnsibleVarsFrom.induct)
    (auto simp: objs_of_def Let_def store_both split: sum.splits prod.splits option.splits)

text \<open>When \<open>ProcessAnsibleVarsFrom\<close> succeeds, every ConfigMap and Secret that the variables of a
  node set refer to is recorded under its hash, also when several sources name the same object.\<close>

theorem ProcessAnsibleVarsFrom_records:
  assumes "client_names c" and "ProcessAnsibleVarsFrom c ns ds h = (h', None)" and "d \<in> set ds"
  shows "recorded c (objs_of c ns d) h'"
  using ProcessAnsibleVarsFrom_fold [OF assms(2)] recorded_fold [of "map (objs_of c ns) ds"] objs_agree [OF assms(1)] assms(3)
  by auto

lemma hash_data_sources_records:
  assumes "client_names c" and "hash_data_sources c ns ds h = (h', None)" and "d \<in> set ds"
  shows "recorded c (objs_of c ns d) h'"
  using hash_data_sources_fold [OF assms(2)] recorded_fold [of "map (objs_of c ns) ds"] objs_agree [OF assms(1)] assms(3)
  by auto

text \<open>An optional source that does not exist contributes nothing and is no error, a required one that
  does not exist is an error, and any other failure of the lookup is an error for both.\<close>

lemma GetDataSourceCmSecret_errors:
  assumes "ds_ConfigMapRef d = Some r" and "dc_getConfigMap c ns (es_Name r) = Inl e"
  shows "GetDataSourceCmSecret c ns d =
    (if IsNotFound e \<and> es_Optional r = Some True then Inr (None, None) else Inl e)"
  using assms by (cases "es_Optional r") (auto simp: GetDataSourceCmSecret_def is_optional_def)

lemma GetVersion_at_most_one: "GetVersion (Inr vs) = Inr v \<longleftrightarrow> (vs = [] \<and> v = None \<or> (\<exists>x. vs = [x] \<and> v = Some x))"
  by (cases vs; cases "tl vs") (auto simp: GetVersion_def)

definition sample_client :: dp_client where
  "sample_client = \<lparr>dc_getService = sample_get,
     dc_getConfigMap = (\<lambda>_ n. if n = ''gone'' then Inl (NotFound n) else Inr \<lparr>cm_Name = n, cm_Data = [], cm_BinaryData = []\<rparr>),
     dc_getSecret = (\<lambda>ns n. Inr \<lparr>sec_Name = n, sec_Namespace = ns, sec_Labels = [], sec_Data = []\<rparr>),
     dc_listSecrets = (\<lambda>_ _. Inr []),
     dc_hashConfigMap = (\<lambda>m. (cm_Name m, None)), dc_hashSecret = (\<lambda>s. (sec_Name s, None))\<rparr>"

lemma sample_client_names: "client_names sample_client"
  by (simp add: client_names_def sample_client_def)

definition cm_source :: "string \<Rightarrow> bool option \<Rightarrow> data_source" where
  "cm_source n opt = \<lparr>ds_Prefix = [], ds_ConfigMapRef = Some \<lparr>es_Name = n, es_Optional = opt\<rparr>, ds_SecretRef = None\<rparr>"

theorem ProcessAnsibleVarsFrom_records_witness:
  "recorded sample_client (objs_of sample_client ''openstack'' (cm_source ''vars'' None)) ([(''vars'', ''vars'')], [])"
  by (rule ProcessAnsibleVarsFrom_records [OF sample_client_names,
        where ds = "[cm_source ''gone'' (Some True), cm_source ''vars'' None]" and h = "([], [])"])
    (simp_all add: GetDataSourceCmSecret_def sample_client_def cm_source_def is_optional_def store_hashes_def)

end
