(* ===== verification/Dataplane_Certs.thy ===== *)
theory Dataplane_Certs
  imports Dataplane_Sources "HOL-Library.List_Lexorder" "HOL-Library.Char_ord"
begin

text \<open>
  TLS certificates of data plane nodes: \<open>internal/dataplane/cert.go\<close>.  Certificates of all nodes are
  packed into as few secrets as their maximal size allows.  cert-manager, the hash functions and the
  Kubernetes client are parameters; writes and deletions are returned as lists, in order.  Strings are
  sorted as Go sorts them, byte by byte.  Where Go iterates over a map in an unspecified order the model
  takes the order of the association list.
\<close>

subsection \<open>Packing certificates into secrets\<close>

type_synonym certs_data = "(string, string) gomap"

definition entry :: "certs_data \<Rightarrow> string \<Rightarrow> string \<times> string" where
  "entry certsData k = (k, gomap_get [] certsData k)"

definition entry_size :: "string \<times> string \<Rightarrow> int" where
  "entry_size kv = int (length (snd kv)) + int (length (fst kv))"

text \<open>The loop over the sorted keys, three at a time.  \<open>None\<close> is a panic: the index \<open>k+2\<close> out of range,
  or the write through the \<open>nil\<close> pointer \<open>cur\<close>.  A single key left over is not visited.\<close>

fun pack_secrets :: "int \<Rightarrow> certs_data \<Rightarrow> string list \<Rightarrow> certs_data list \<Rightarrow> int \<Rightarrow> certs_data list option" where
  "pack_secrets secretMaxSize certsData (a # b # c # keys) ci totalSize =
     (let sz = entry_size (entry certsData a) + entry_size (entry certsData b) + entry_size (entry certsData c);
          (ci', totalSize') = (if secretMaxSize < totalSize + sz then (ci @ [[]], 0) else (ci, totalSize))
      in if ci' = [] then None
         else pack_secrets secretMaxSize certsData keys
                (butlast ci' @ [fold (\<lambda>k m. gomap_put k (gomap_get [] certsData k) m) [a, b, c] (last ci')])
                (totalSize' + sz))"
| "pack_secrets secretMaxSize certsData [a, b] ci totalSize = None"
| "pack_secrets secretMaxSize certsData [a] ci totalSize = Some ci"
| "pack_secrets secretMaxSize certsData [] ci totalSize = Some ci"

definition createSecretsDataStructure :: "int \<Rightarrow> certs_data \<Rightarrow> certs_data list option" where
  "createSecretsDataStructure secretMaxSize certsData =
     pack_secrets secretMaxSize certsData (sort (map fst certsData)) [] secretMaxSize"

subsection \<open>Names of the secrets\<close>

definition DNS1123SubdomainMaxLength :: nat where "DNS1123SubdomainMaxLength = 253"
definition DNS1123LabelMaxLength :: nat where "DNS1123LabelMaxLength = 63"

text \<open>\<open>sha224hex\<close> is \<open>hex.EncodeToString\<close> of \<open>sha256.Sum224\<close>.\<close>

definition GetServiceCertsSecretName :: "(string \<Rightarrow> string) \<Rightarrow> dp_nodeset \<Rightarrow> string \<Rightarrow> string \<Rightarrow> nat \<Rightarrow> string" where
  "GetServiceCertsSecretName sha224hex instance serviceName certKey index =
     (let name = ns_Name instance @ ''-'' @ serviceName @ ''-'' @ certKey @ ''-certs-'' @ Itoa index
      in if DNS1123SubdomainMaxLength < length name then ''cert-'' @ sha224hex name else name)"

subsection \<open>Stale certificates\<close>

text \<open>A labelled object, a certificate or a secret: name and labels.\<close>

record labelled =
  lo_Name :: string
  lo_Labels :: "(string, string) gomap"

text \<open>\<open>del\<close> is the result of the deletion after \<open>client.IgnoreNotFound\<close>.  Returned are the objects
  whose deletion was asked for, and the error.\<close>

fun delete_stale ::
    "string \<Rightarrow> (string \<Rightarrow> api_error option) \<Rightarrow> string list \<Rightarrow> labelled list \<Rightarrow> string list \<times> api_error option" where
  "delete_stale what del hostnames [] = ([], None)"
| "delete_stale what del hostnames (o1 # os) =
     (case map_of (lo_Labels o1) HostnameLabel of
        None \<Rightarrow> delete_stale what del hostnames os
      | Some hostname \<Rightarrow>
          if hostname \<in> set hostnames then delete_stale what del hostnames os
          else (case del (lo_Name o1) of
                  Some err \<Rightarrow>
                    if IsNotFound err
                    then (case delete_stale what del hostnames os of (ns, e) \<Rightarrow> (lo_Name o1 # ns, e))
                    else ([lo_Name o1], Some (OtherError (''failed to delete stale '' @ what @ '' '' @ lo_Name o1 @ '': '' @ err_msg err)))
                | None \<Rightarrow> (case delete_stale what del hostnames os of (ns, e) \<Rightarrow> (lo_Name o1 # ns, e))))"

record cleanup_env =
  ce_listCerts :: "(string, string) gomap \<Rightarrow> api_error + labelled list"
  ce_listSecrets :: "(string, string) gomap \<Rightarrow> api_error + labelled list"
  ce_deleteCert :: "string \<Rightarrow> api_error option"
  ce_deleteSecret :: "string \<Rightarrow> api_error option"

definition cleanupStaleCertificates ::
    "cleanup_env \<Rightarrow> string \<Rightarrow> string list \<Rightarrow> string \<Rightarrow> string \<Rightarrow> (string list \<times> string list) \<times> api_error option" where
  "cleanupStaleCertificates env nodeSetName hostnames serviceName certKey =
     (let labelSelector = cert_selector nodeSetName serviceName certKey in
      case ce_listCerts env labelSelector of
        Inl err \<Rightarrow> (([], []), Some (OtherError (''failed to list certificates for cleanup: '' @ err_msg err)))
      | Inr certs \<Rightarrow>
          (case delete_stale ''certificate'' (ce_deleteCert env) hostnames certs of
             (dc, Some err) \<Rightarrow> ((dc, []), Some err)
           | (dc, None) \<Rightarrow>
               (case ce_listSecrets env labelSelector of
                  Inl err \<Rightarrow> ((dc, []), Some (OtherError (''failed to list certificate secrets for cleanup: '' @ err_msg err)))
                | Inr secrets \<Rightarrow>
                    (case delete_stale ''certificate secret'' (ce_deleteSecret env) hostnames secrets of
                       (ds, e) \<Rightarrow> ((dc, ds), e)))))"

subsection \<open>Certificates of a node\<close>

datatype ctrl_result = Done | RequeueAfter int

record issuer =
  is_Name :: string
  is_Annotations :: "(string, string) gomap"

record cert_request =
  cr_CommonName :: string
  cr_IssuerName :: string
  cr_CertName :: string
  cr_Duration :: int
  cr_RenewBefore :: "int option"
  cr_Hostnames :: "string list"
  cr_Ips :: "string list"
  cr_Labels :: "(string, string) gomap"
  cr_Usages :: "string list"
  cr_Organizations :: "string list"

text \<open>The constants of lib-common's certmanager module, \<open>time.ParseDuration\<close> and the calls of
  cert-manager.\<close>

record certmanager =
  cmg_CertDefaultDuration :: string
  cmg_CertDurationAnnotation :: string
  cmg_CertRenewBeforeAnnotation :: string
  cmg_RootCAIssuerInternalLabel :: string
  cmg_ParseDuration :: "string \<Rightarrow> api_error + int"
  cmg_GetIssuerByLabels :: "string \<Rightarrow> (string, string) gomap \<Rightarrow> api_error + issuer"
  cmg_EnsureCert :: "cert_request \<Rightarrow> api_error + ctrl_result \<times> secret"
  cmg_CreateOrPatchSecret :: "secret \<Rightarrow> api_error + bool"

text \<open>\<open>Inr (Inl r)\<close> is a result other than \<open>ctrl.Result{}\<close>, \<open>Inr (Inr s)\<close> the secret of the
  certificate.\<close>

definition GetTLSNodeCert ::
    "certmanager \<Rightarrow> string \<Rightarrow> issuer \<Rightarrow> (string, string) gomap \<Rightarrow> string \<Rightarrow> string list \<Rightarrow> string list \<Rightarrow> string list
     \<Rightarrow> api_error + (ctrl_result + secret)" where
  "GetTLSNodeCert cmg certName issuer labels commonName hostnames ips usages =
     (let durationString = (case map_of (is_Annotations issuer) (cmg_CertDurationAnnotation cmg) of
                              None \<Rightarrow> cmg_CertDefaultDuration cmg
                            | Some d \<Rightarrow> if d \<noteq> [] then d else cmg_CertDefaultDuration cmg)
      in case cmg_ParseDuration cmg durationString of
           Inl err \<Rightarrow> Inl (OtherError (''error parsing duration annotation '' @ cmg_CertDurationAnnotation cmg @ '' - '' @ err_msg err))
         | Inr duration \<Rightarrow>
             (let request = (\<lambda>renewBefore. \<lparr>cr_CommonName = commonName, cr_IssuerName = is_Name issuer, cr_CertName = certName,
                    cr_Duration = duration, cr_RenewBefore = renewBefore, cr_Hostnames = hostnames, cr_Ips = ips,
                    cr_Labels = labels, cr_Usages = usages, cr_Organizations = [is_Name issuer]\<rparr>);
                  ensure = (\<lambda>renewBefore. case cmg_EnsureCert cmg (request renewBefore) of
                               Inl err \<Rightarrow> Inl err
                             | Inr (result, certSecret) \<Rightarrow> Inr (if result \<noteq> Done then Inl result else Inr certSecret))
              in case map_of (is_Annotations issuer) (cmg_CertRenewBeforeAnnotation cmg) of
                   None \<Rightarrow> ensure None
                 | Some r \<Rightarrow>
                     if r = [] then ensure None
                     else (case cmg_ParseDuration cmg r of
                             Inl err \<Rightarrow> Inl (OtherError (''error parsing renewBefore annotation '' @ cmg_CertRenewBeforeAnnotation cmg @ '' - '' @ err_msg err))
                           | Inr rb \<Rightarrow> ensure (Some rb))))"

subsection \<open>EnsureTLSCerts\<close>

definition DNSNamesStr :: string where "DNSNamesStr = ''dnsnames''"
definition IPValuesStr :: string where "IPValuesStr = ''ips''"
definition CtlPlaneNetwork :: string where "CtlPlaneNetwork = ''ctlplane''"

text \<open>The host names or addresses of a certificate: those of all networks, or of the networks the
  service lists.\<close>

definition cert_names :: "service_cert \<Rightarrow> string \<Rightarrow> (string, string) gomap \<Rightarrow> string list" where
  "cert_names cert what m =
     (if what \<in> set (sc_Contents cert)
      then if sc_Networks cert = [] then map snd m
           else map (\<lambda>network. gomap_get [] m (map to_lower network)) (sc_Networks cert)
      else [])"

text \<open>One node: its three entries of \<open>certsData\<close>, or the result or error that ends the function.\<close>

definition node_cert ::
    "certmanager \<Rightarrow> dp_nodeset \<Rightarrow> dp_service \<Rightarrow> string \<Rightarrow> service_cert \<Rightarrow> string \<times> dp_node
     \<Rightarrow> api_error + (ctrl_result + (string \<times> string) list)" where
  "node_cert cmg instance service certKey cert node =
     (let hostName = nd_HostName (snd node);
          labels = [(HostnameLabel, hostName), (ServiceLabel, svc_Name service), (ServiceKeyLabel, certKey),
                    (NodeSetLabel, ns_Name instance)];
          certName = svc_Name service @ ''-'' @ certKey @ ''-'' @ hostName;
          dnsNames = gomap_get [] (ns_AllHostnames instance) hostName;
          ipsMap = gomap_get [] (ns_AllIPs instance) hostName;
          issuerLabelSelector = [(if sc_Issuer cert = [] then cmg_RootCAIssuerInternalLabel cmg else sc_Issuer cert, [])]
      in case cmg_GetIssuerByLabels cmg (ns_Namespace instance) issuerLabelSelector of
           Inl err \<Rightarrow> Inl err
         | Inr issuer \<Rightarrow>
             (case map_of dnsNames CtlPlaneNetwork of
                None \<Rightarrow> Inl (OtherError (''control plane network not found for node '' @ fst node @
                          '' , tls-e requires a control plane network to be present''))
              | Some baseName \<Rightarrow>
                  (case GetTLSNodeCert cmg certName issuer labels (takeWhile (\<lambda>c. c \<noteq> CHR ''.'') baseName)
                          (cert_names cert DNSNamesStr dnsNames) (cert_names cert IPValuesStr ipsMap) (sc_KeyUsages cert) of
                     Inl err \<Rightarrow> Inl err
                   | Inr (Inl result) \<Rightarrow> Inr (Inl result)
                   | Inr (Inr certSecret) \<Rightarrow>
                       Inr (Inr [(baseName @ ''-tls.key'', gomap_get [] (sec_Data certSecret) ''tls.key''),
                                 (baseName @ ''-tls.crt'', gomap_get [] (sec_Data certSecret) ''tls.crt''),
                                 (baseName @ ''-ca.crt'', gomap_get [] (sec_Data certSecret) ''ca.crt'')]))))"

fun node_certs ::
    "certmanager \<Rightarrow> dp_nodeset \<Rightarrow> dp_service \<Rightarrow> string \<Rightarrow> service_cert \<Rightarrow> (string \<times> dp_node) list \<Rightarrow> certs_data
     \<Rightarrow> api_error + (ctrl_result + certs_data)" where
  "node_certs cmg instance service certKey cert [] certsData = Inr (Inr certsData)"
| "node_certs cmg instance service certKey cert (node # nodes) certsData =
     (case node_cert cmg instance service certKey cert node of
        Inl err \<Rightarrow> Inl err
      | Inr (Inl result) \<Rightarrow> Inr (Inl result)
      | Inr (Inr kvs) \<Rightarrow> node_certs cmg instance service certKey cert nodes (gomap_copy_into kvs certsData))"

text \<open>The secrets \<open>EnsureTLSCerts\<close> asks for, in order.\<close>

definition cert_secret ::
    "(string \<Rightarrow> string) \<Rightarrow> dp_nodeset \<Rightarrow> string \<Rightarrow> string \<Rightarrow> certs_data list \<Rightarrow> nat \<Rightarrow> secret" where
  "cert_secret sha224hex instance serviceName certKey ci i =
     \<lparr>sec_Name = GetServiceCertsSecretName sha224hex instance serviceName certKey i,
      sec_Namespace = ns_Namespace instance,
      sec_Labels = [(''numberOfSecrets'', Itoa (length ci)), (''secretNumber'', Itoa i)],
      sec_Data = ci ! i\<rparr>"

text \<open>Each write that changed something ends the function with a requeue; \<open>True\<close> stands for a result
  other than \<open>OperationResultNone\<close>.  Returned are the secrets written and the outcome.\<close>

fun write_secrets :: "certmanager \<Rightarrow> string \<Rightarrow> secret list \<Rightarrow> secret list \<times> (api_error + ctrl_result)" where
  "write_secrets cmg serviceName [] = ([], Inr Done)"
| "write_secrets cmg serviceName (s # ss) =
     (case cmg_CreateOrPatchSecret cmg s of
        Inl err \<Rightarrow> ([], Inl (OtherError (''error creating certs secret for '' @ serviceName @ '' - '' @ err_msg err)))
      | Inr True \<Rightarrow> ([s], Inr (RequeueAfter 5))
      | Inr False \<Rightarrow> (case write_secrets cmg serviceName ss of (w, r) \<Rightarrow> (s # w, r)))"

text \<open>\<open>None\<close> is a panic of \<open>createSecretsDataStructure\<close>; an unknown certificate key yields the zero
  value of the certificate.\<close>

definition empty_cert :: service_cert where
  "empty_cert = \<lparr>sc_Contents = [], sc_Networks = [], sc_Issuer = [], sc_KeyUsages = [], sc_EDPMRoleServiceName = []\<rparr>"

definition EnsureTLSCerts ::
    "certmanager \<Rightarrow> cleanup_env \<Rightarrow> (string \<Rightarrow> string) \<Rightarrow> dp_nodeset \<Rightarrow> dp_service \<Rightarrow> string
     \<Rightarrow> (secret list \<times> (api_error + ctrl_result)) option" where
  "EnsureTLSCerts cmg cleanup sha224hex instance service certKey =
     (let cert = gomap_get empty_cert (unnil (svc_TLSCerts service)) certKey;
          issue = (case node_certs cmg instance service certKey cert (ns_Nodes instance) [] of
                     Inl err \<Rightarrow> Some ([], Inl err)
                   | Inr (Inl result) \<Rightarrow> Some ([], Inr result)
                   | Inr (Inr certsData) \<Rightarrow>
                       (case createSecretsDataStructure (ns_SecretMaxSize instance) certsData of
                          None \<Rightarrow> None
                        | Some ci \<Rightarrow>
                            Some (write_secrets cmg (svc_Name service)
                              (map (cert_secret sha224hex instance (svc_Name service) certKey ci) [0..<length ci]))))
      in if ns_ConfigHash instance \<noteq> ns_DeployedConfigHash instance
         then (case snd (cleanupStaleCertificates cleanup (ns_Name instance) (map fst (ns_AllHostnames instance))
                           (svc_Name service) certKey) of
                 Some err \<Rightarrow> Some ([], Inl err)
               | None \<Rightarrow> issue)
         else issue)"

end
