(* ===== verification/Ansible_Jobs.thy ===== *)
theory Ansible_Jobs
  imports Dataplane_Certs
begin

text \<open>
  The Kubernetes jobs that run Ansible for a service on a node set:
  \<open>internal/dataplane/util/ansible_execution.go\<close> and \<open>internal/dataplane/util/ansibleee.go\<close>.
  Library code is the record \<open>job_env\<close>: the hash, the network attachments, JSON and YAML, the
  propagation of volumes of lib-common's storage module and the client calls.  \<open>DoJob\<close> stands for
  \<open>job.NewJob\<close> followed by \<open>DoJob\<close>, \<open>HasChanged\<close> and \<open>GetHash\<close>: it returns an error, or the new
  hash if the job has changed.  Priorities of map iteration do not matter: every key is written once.
\<close>

subsection \<open>Jobs\<close>

record ee_job =
  ej_PlaybookContents :: string
  ej_Playbook :: string
  ej_Role :: string
  ej_Image :: string
  ej_Name :: string
  ej_Namespace :: string
  ej_EnvConfigMapName :: string
  ej_CmdLine :: string
  ej_ServiceAccountName :: string
  ej_Args :: "string list"
  ej_NetworkAttachments :: "string list"
  ej_PreserveJobs :: bool
  ej_BackoffLimit :: "int option"
  ej_ExtraMounts :: "vol_mounts list"
  ej_DNSConfig :: "dns_config option"
  ej_ExtraVars :: "(string, string) gomap option"
  ej_Labels :: "(string, string) gomap"
  ej_Annotations :: "(string, string) gomap"
  ej_Env :: "(string \<times> string) list"
  ej_NodeSelector :: "(string, string) gomap"

definition new_ee_job :: ee_job where
  "new_ee_job = \<lparr>ej_PlaybookContents = [], ej_Playbook = [], ej_Role = [], ej_Image = [], ej_Name = [], ej_Namespace = [],
     ej_EnvConfigMapName = [], ej_CmdLine = [], ej_ServiceAccountName = [], ej_Args = [], ej_NetworkAttachments = [],
     ej_PreserveJobs = False, ej_BackoffLimit = None, ej_ExtraMounts = [], ej_DNSConfig = None, ej_ExtraVars = None,
     ej_Labels = [], ej_Annotations = [], ej_Env = [], ej_NodeSelector = []\<rparr>"

text \<open>The job that is submitted: the fields of \<open>batchv1.Job\<close> the code sets.\<close>

record job_def =
  jd_Name :: string
  jd_Namespace :: string
  jd_Annotations :: "(string, string) gomap"
  jd_Labels :: "(string, string) gomap"
  jd_BackoffLimit :: "int option"
  jd_Image :: string
  jd_Args :: "string list"
  jd_Env :: "(string \<times> string) list"
  jd_EnvFrom :: string
  jd_NodeSelector :: "(string, string) gomap"
  jd_DNSConfig :: "dns_config option"
  jd_DNSPolicy :: string
  jd_ServiceAccountName :: string
  jd_VolumeMounts :: "volume_mount list"
  jd_Volumes :: "volume list"

text \<open>The job as the cluster reports it.\<close>

record job_condition =
  jc_Type :: string
  jc_Reason :: string
  jc_Message :: string

record ansible_job =
  aj_Name :: string
  aj_Namespace :: string
  aj_BackoffLimit :: "int option"
  aj_Succeeded :: int
  aj_Failed :: int
  aj_Active :: int
  aj_Conditions :: "job_condition list"

record pod =
  pod_Name :: string
  pod_Created :: int
  pod_Messages :: "(string \<times> string option \<times> string option) list"

record job_env =
  je_sha256hex :: "string \<Rightarrow> string"
  je_listJobs :: "string \<Rightarrow> (string, string) gomap \<Rightarrow> api_error + ansible_job list"
  je_GetNAD :: "string \<Rightarrow> string \<Rightarrow> api_error + string option"
  je_EnsureNetworksAnnotation :: "string list \<Rightarrow> api_error + (string, string) gomap"
  je_MarshalStrings :: "string list \<Rightarrow> string"
  je_yamlUnmarshal :: "string \<Rightarrow> api_error + string"
  je_yamlMarshal :: "(string, string) gomap \<Rightarrow> api_error + string"
  je_Propagate :: "vol_mounts \<Rightarrow> vol_mounts list"
  je_ToCoreVolume :: "volume \<Rightarrow> api_error + volume"
  je_DoJob :: "job_def \<Rightarrow> bool \<Rightarrow> string \<Rightarrow> api_error + string option"
  je_listPods :: "string \<Rightarrow> string \<Rightarrow> api_error + pod list"
  je_parseSummary :: "string \<Rightarrow> api_error + execution_summary"
  je_defaultImage :: string

subsection \<open>Name and labels\<close>

definition trim_right :: "char set \<Rightarrow> string \<Rightarrow> string" where
  "trim_right cutset s = rev (dropWhile (\<lambda>c. c \<in> cutset) (rev s))"

definition GetAnsibleExecutionNameAndLabels ::
    "(string \<Rightarrow> string) \<Rightarrow> dp_service \<Rightarrow> string \<Rightarrow> string \<Rightarrow> string \<times> (string, string) gomap" where
  "GetAnsibleExecutionNameAndLabels sha256hex service deploymentName nodeSetName =
     (let base = svc_Name service @ ''-'' @ deploymentName;
          executionName = (if \<not> svc_DeployOnAllNodeSets service then base @ ''-'' @ nodeSetName else base);
          executionName' = (if DNS1123LabelMaxLength < length executionName
                            then trim_right {CHR ''-'', CHR ''.''} (take (DNS1123LabelMaxLength - 9) executionName)
                                 @ ''-'' @ take 8 (sha256hex executionName)
                            else executionName)
      in (executionName', [(''openstackdataplaneservice'', svc_Name service),
                           (''openstackdataplanedeployment'', deploymentName),
                           (''openstackdataplanenodeset'', nodeSetName)]))"

definition GetAnsibleExecution :: "job_env \<Rightarrow> string \<Rightarrow> (string, string) gomap \<Rightarrow> api_error + ansible_job" where
  "GetAnsibleExecution env namespace labelSelector =
     (case je_listJobs env namespace labelSelector of
        Inl err \<Rightarrow> Inl err
      | Inr items \<Rightarrow>
          (if items = [] then Inl (NotFound ''OpenStackAnsibleEE with label'')
           else if length items = 1 then Inr (items ! 0)
           else Inl (OtherError ''multiple OpenStackAnsibleEE's found with label'')))"

subsection \<open>Execution summaries\<close>

text \<open>A container of a pod is its name with the messages of its terminated and its last terminated
  state; \<open>None\<close> where the state is \<open>nil\<close>.\<close>

fun ParseAnsibleExecutionSummaryFromPod ::
    "(string \<Rightarrow> api_error + execution_summary) \<Rightarrow> string \<Rightarrow> (string \<times> string option \<times> string option) list
     \<Rightarrow> api_error + execution_summary option" where
  "ParseAnsibleExecutionSummaryFromPod parse podName [] = Inr None"
| "ParseAnsibleExecutionSummaryFromPod parse podName ((cname, state, lastState) # cs) =
     (case (if state = None then lastState else state) of
        None \<Rightarrow> ParseAnsibleExecutionSummaryFromPod parse podName cs
      | Some message \<Rightarrow>
          if message = [] then ParseAnsibleExecutionSummaryFromPod parse podName cs
          else (case parse message of
                  Inl err \<Rightarrow> Inl (OtherError (''failed to parse ansible execution summary for pod '' @ podName @
                               '' container '' @ cname @ '': '' @ err_msg err))
                | Inr summary \<Rightarrow>
                    if sum_TotalHosts summary = None \<or> the (sum_TotalHosts summary) = 0
                    then ParseAnsibleExecutionSummaryFromPod parse podName cs
                    else Inr (Some summary)))"

fun first_summary :: "job_env \<Rightarrow> pod list \<Rightarrow> api_error + execution_summary option" where
  "first_summary env [] = Inr None"
| "first_summary env (p # ps) =
     (case ParseAnsibleExecutionSummaryFromPod (je_parseSummary env) (pod_Name p) (pod_Messages p) of
        Inl err \<Rightarrow> Inl err
      | Inr (Some s) \<Rightarrow> Inr (Some s)
      | Inr None \<Rightarrow> first_summary env ps)"

definition GetAnsibleExecutionSummary :: "job_env \<Rightarrow> ansible_job \<Rightarrow> api_error + execution_summary option" where
  "GetAnsibleExecutionSummary env job =
     (case je_listPods env (aj_Namespace job) (aj_Name job) of
        Inl err \<Rightarrow> Inl err
      | Inr pods \<Rightarrow> first_summary env (sort_key (\<lambda>p. - pod_Created p) pods))"

subsection \<open>The specification of a job\<close>

definition is_space :: "char \<Rightarrow> bool" where
  "is_space c \<longleftrightarrow> c \<in> {CHR '' '', CHR 0x09, CHR 0x0A, CHR 0x0B, CHR 0x0C, CHR 0x0D}"

definition TrimSpace :: "string \<Rightarrow> string" where
  "TrimSpace s = rev (dropWhile is_space (rev (dropWhile is_space s)))"

definition FormatAEECmdLineArguments :: "aee_spec \<Rightarrow> ee_job \<Rightarrow> ee_job" where
  "FormatAEECmdLineArguments aeeSpec a =
     (let opt = (\<lambda>flag val. if val \<noteq> [] then flag @ '' '' @ val @ '' '' else []);
          cmdLineArguments = opt ''--tags'' (aee_AnsibleTags aeeSpec) @ opt ''--limit'' (aee_AnsibleLimit aeeSpec)
                             @ opt ''--skip-tags'' (aee_AnsibleSkipTags aeeSpec)
      in if cmdLineArguments \<noteq> [] then a\<lparr>ej_CmdLine := TrimSpace cmdLineArguments\<rparr> else a)"

definition quoted :: "string \<Rightarrow> string" where
  "quoted s = [CHR 0x22] @ s @ [CHR 0x22]"

text \<open>The variables every execution gets.\<close>

definition execution_vars ::
    "job_env \<Rightarrow> dp_service \<Rightarrow> dp_deployment \<Rightarrow> string \<Rightarrow> (string, string) gomap \<Rightarrow> (string, string) gomap" where
  "execution_vars env service deployment nodeSetName vars =
     (let vars1 = gomap_put ''edpm_override_hosts''
                    (quoted (if svc_DeployOnAllNodeSets service then ''all'' else nodeSetName)) vars;
          vars2 = gomap_put ''edpm_service_type''
                    (quoted (if svc_EDPMServiceType service \<noteq> [] then svc_EDPMServiceType service else svc_Name service)) vars1
      in if dep_ServicesOverride deployment \<noteq> []
         then gomap_put ''edpm_services_override'' (je_MarshalStrings env (dep_ServicesOverride deployment)) vars2
         else vars2)"

text \<open>The job and the specification share the map of extra variables when it is not empty, so that the
  variables of the execution are written into the map of the specification too.\<close>

definition FormatAEEExtraVars ::
    "job_env \<Rightarrow> dp_service \<Rightarrow> dp_deployment \<Rightarrow> string \<Rightarrow> aee_spec \<Rightarrow> ee_job \<Rightarrow> ee_job \<times> aee_spec" where
  "FormatAEEExtraVars env service deployment nodeSetName aeeSpec a =
     (if unnil (aee_ExtraVars aeeSpec) \<noteq> []
      then (let vars = execution_vars env service deployment nodeSetName (unnil (aee_ExtraVars aeeSpec))
            in (a\<lparr>ej_ExtraVars := Some vars\<rparr>, aeeSpec\<lparr>aee_ExtraVars := Some vars\<rparr>))
      else (a\<lparr>ej_ExtraVars := Some (execution_vars env service deployment nodeSetName (unnil (ej_ExtraVars a)))\<rparr>, aeeSpec))"

definition DetermineAeeImage :: "job_env \<Rightarrow> aee_spec \<Rightarrow> ee_job \<Rightarrow> ee_job" where
  "DetermineAeeImage env aeeSpec a =
     a\<lparr>ej_Image := (if aee_RunnerImage aeeSpec \<noteq> [] then aee_RunnerImage aeeSpec else je_defaultImage env)\<rparr>"

definition BuildAeeJobSpec ::
    "job_env \<Rightarrow> dp_service \<Rightarrow> dp_deployment \<Rightarrow> string \<Rightarrow> aee_spec \<Rightarrow> ee_job \<Rightarrow> ee_job \<times> aee_spec" where
  "BuildAeeJobSpec env service deployment nodeSetName aeeSpec a =
     (let a1 = a\<lparr>
            ej_DNSConfig := (if aee_DNSConfig aeeSpec \<noteq> None then aee_DNSConfig aeeSpec else ej_DNSConfig a),
            ej_ServiceAccountName := (if aee_ServiceAccountName aeeSpec \<noteq> [] then aee_ServiceAccountName aeeSpec else ej_ServiceAccountName a),
            ej_PlaybookContents := (if svc_PlaybookContents service \<noteq> [] then svc_PlaybookContents service else ej_PlaybookContents a),
            ej_Playbook := (if svc_Playbook service \<noteq> [] then svc_Playbook service else ej_Playbook a),
            ej_Role := (if svc_Role service \<noteq> [] then svc_Role service else ej_Role a),
            ej_BackoffLimit := dep_BackoffLimit deployment,
            ej_PreserveJobs := dep_PreserveJobs deployment\<rparr>;
          a2 = FormatAEECmdLineArguments aeeSpec a1;
          (a3, aeeSpec') = FormatAEEExtraVars env service deployment nodeSetName aeeSpec a2
      in (DetermineAeeImage env aeeSpec' a3, aeeSpec'))"

subsection \<open>Mounts of keys and inventories\<close>

definition CreateVolume :: "string \<Rightarrow> string \<Rightarrow> string \<Rightarrow> string \<Rightarrow> int option \<Rightarrow> vol_mounts \<Rightarrow> vol_mounts" where
  "CreateVolume volumeName volumeMountPath secretName keyToPathKey defaultMode m =
     m\<lparr>vms_Volumes := vms_Volumes m @ [\<lparr>vol_Name = volumeName,
        vol_Source = SecretVolume secretName defaultMode [(keyToPathKey, volumeMountPath)]\<rparr>]\<rparr>"

definition CreateVolumeMount :: "string \<Rightarrow> string \<Rightarrow> string \<Rightarrow> vol_mounts \<Rightarrow> vol_mounts" where
  "CreateVolumeMount volumeMountName volumeMountPath volumeMountSubPath m =
     m\<lparr>vms_Mounts := vms_Mounts m @ [\<lparr>vm_Name = volumeMountName, vm_MountPath = volumeMountPath, vm_SubPath = volumeMountSubPath\<rparr>]\<rparr>"

definition mount_ssh_key :: "(string, string) gomap \<Rightarrow> string \<Rightarrow> vol_mounts \<Rightarrow> vol_mounts" where
  "mount_ssh_key sshKeySecrets n m =
     (let sshKeyName = ''ssh-key-'' @ n; sub = ''ssh_key_'' @ n
      in CreateVolumeMount sshKeyName (''/runner/env/ssh_key/'' @ sub) sub
           (CreateVolume sshKeyName sub (gomap_get [] sshKeySecrets n) ''ssh-privatekey'' (Some 384) m))"

definition SetAeeSSHMounts :: "string \<Rightarrow> dp_service \<Rightarrow> (string, string) gomap \<Rightarrow> vol_mounts \<Rightarrow> vol_mounts" where
  "SetAeeSSHMounts nodeSetName service sshKeySecrets m =
     fold (\<lambda>n m. if \<not> svc_DeployOnAllNodeSets service \<and> n \<noteq> nodeSetName then m else mount_ssh_key sshKeySecrets n m)
       (sort (map fst sshKeySecrets)) m"

definition mount_inventory :: "dp_service \<Rightarrow> string \<Rightarrow> (string, string) gomap \<Rightarrow> nat \<times> string \<Rightarrow> vol_mounts \<Rightarrow> vol_mounts" where
  "mount_inventory service nodeSetName inventorySecrets ik m =
     (case ik of (inventoryIndex, nodeName) \<Rightarrow>
        (let put = (\<lambda>inventoryName inventoryMountPath.
               CreateVolumeMount inventoryName inventoryMountPath inventoryName
                 (CreateVolume inventoryName inventoryName (gomap_get [] inventorySecrets nodeName) ''inventory'' None m))
         in if svc_DeployOnAllNodeSets service
            then put (''inventory-'' @ Itoa inventoryIndex) (''/runner/inventory/inventory-'' @ Itoa inventoryIndex)
            else if nodeName \<noteq> nodeSetName then m
            else put ''inventory'' ''/runner/inventory/hosts''))"

definition SetAeeInvMounts :: "string \<Rightarrow> dp_service \<Rightarrow> (string, string) gomap \<Rightarrow> vol_mounts \<Rightarrow> vol_mounts" where
  "SetAeeInvMounts nodeSetName service inventorySecrets m =
     fold (mount_inventory service nodeSetName inventorySecrets) (enumerate 0 (sort (map fst inventorySecrets))) m"

subsection \<open>The Kubernetes job\<close>

definition labelsForOpenStackAnsibleEE :: "(string, string) gomap \<Rightarrow> (string, string) gomap" where
  "labelsForOpenStackAnsibleEE labels = gomap_copy_into labels [(''app'', ''openstackansibleee'')]"

text \<open>The arguments of ansible-runner; \<open>None\<close> when there is nothing to run.\<close>

definition runner_args :: "ee_job \<Rightarrow> string list option" where
  "runner_args a =
     (if ej_Args a = []
      then (if ej_Playbook a \<noteq> [] then Some [''ansible-runner'', ''run'', ''/runner'', ''-p'', ej_Playbook a]
            else if ej_PlaybookContents a \<noteq> [] then Some [''ansible-runner'', ''run'', ''/runner'', ''-p'', ''playbook.yaml'']
            else if ej_Role a \<noteq> [] then Some [''ansible-runner'', ''run'', ''/runner'', ''-r'', ej_Role a]
            else None)
      else Some (ej_Args a))"

definition with_ident :: "string \<Rightarrow> string list \<Rightarrow> string list" where
  "with_ident name args = (if ''-i'' \<notin> set args \<and> ''--ident'' \<notin> set args then args @ [''-i'', name] else args)"

definition setRunnerEnvVar :: "string \<Rightarrow> string \<Rightarrow> job_def \<Rightarrow> job_def" where
  "setRunnerEnvVar varName varValue job =
     job\<lparr>jd_Env := jd_Env job @ [(varName, [CHR 0x0A] @ varValue @ [CHR 0x0A, CHR 0x0A])]\<rparr>"

fun core_volumes :: "job_env \<Rightarrow> volume list \<Rightarrow> api_error + volume list" where
  "core_volumes env [] = Inr []"
| "core_volumes env (v # vs) =
     (case je_ToCoreVolume env v of
        Inl err \<Rightarrow> Inl err
      | Inr c \<Rightarrow> (case core_volumes env vs of Inl err \<Rightarrow> Inl err | Inr cs \<Rightarrow> Inr (c # cs)))"

definition addMounts :: "job_env \<Rightarrow> ee_job \<Rightarrow> job_def \<Rightarrow> api_error + job_def" where
  "addMounts env a job =
     (let prop = concat (map (je_Propagate env) (ej_ExtraMounts a))
      in case core_volumes env (concat (map vms_Volumes prop)) of
           Inl err \<Rightarrow> Inl err
         | Inr vs \<Rightarrow> Inr (job\<lparr>jd_VolumeMounts := concat (map vms_Mounts prop), jd_Volumes := vs\<rparr>))"

definition addEnvFrom :: "ee_job \<Rightarrow> job_def \<Rightarrow> job_def" where
  "addEnvFrom a job = job\<lparr>jd_EnvFrom := ej_EnvConfigMapName a\<rparr>"

fun decode_vars :: "job_env \<Rightarrow> (string, string) gomap \<Rightarrow> api_error + (string, string) gomap" where
  "decode_vars env [] = Inr []"
| "decode_vars env ((k, raw) # kvs) =
     (case je_yamlUnmarshal env raw of
        Inl err \<Rightarrow> Inl err
      | Inr v \<Rightarrow> (case decode_vars env kvs of Inl err \<Rightarrow> Inl err | Inr m \<Rightarrow> Inr ((k, v) # m)))"

definition JobForOpenStackAnsibleEE :: "job_env \<Rightarrow> ee_job \<Rightarrow> api_error + job_def" where
  "JobForOpenStackAnsibleEE env a =
     (case runner_args a of
        None \<Rightarrow> Inl (OtherError ''no playbook, playbookContents or role specified'')
      | Some args \<Rightarrow>
          (let job = \<lparr>jd_Name = ej_Name a, jd_Namespace = ej_Namespace a, jd_Annotations = ej_Annotations a,
                 jd_Labels = labelsForOpenStackAnsibleEE (ej_Labels a), jd_BackoffLimit = ej_BackoffLimit a,
                 jd_Image = ej_Image a, jd_Args = with_ident (ej_Name a) args, jd_Env = ej_Env a, jd_EnvFrom = [],
                 jd_NodeSelector = ej_NodeSelector a, jd_DNSConfig = ej_DNSConfig a,
                 jd_DNSPolicy = (if ej_DNSConfig a \<noteq> None then ''None'' else []),
                 jd_ServiceAccountName = ej_ServiceAccountName a, jd_VolumeMounts = [], jd_Volumes = []\<rparr>;
               job1 = (if ej_Role a \<noteq> [] then setRunnerEnvVar ''RUNNER_ROLE'' (ej_Role a) job else job);
               job2 = (if ej_PlaybookContents a \<noteq> [] then setRunnerEnvVar ''RUNNER_PLAYBOOK'' (ej_PlaybookContents a) job1
                       else if ej_Playbook a \<noteq> [] then setRunnerEnvVar ''RUNNER_PLAYBOOK'' (ej_Playbook a) job1
                       else job1);
               job3 = (if ej_CmdLine a \<noteq> [] then setRunnerEnvVar ''RUNNER_CMDLINE'' (ej_CmdLine a) job2 else job2)
           in case addMounts env a job3 of
                Inl err \<Rightarrow> Inl err
              | Inr job4 \<Rightarrow>
                  (let job5 = addEnvFrom a job4 in
                   if unnil (ej_ExtraVars a) \<noteq> []
                   then (case decode_vars env (unnil (ej_ExtraVars a)) of
                           Inl err \<Rightarrow> Inl err
                         | Inr extraVarsMap \<Rightarrow>
                             (case je_yamlMarshal env extraVarsMap of
                                Inl err \<Rightarrow> Inl err
                              | Inr yamlBytes \<Rightarrow> Inr (setRunnerEnvVar ''RUNNER_EXTRA_VARS'' yamlBytes job5)))
                   else Inr job5)))"

subsection \<open>AnsibleExecution\<close>

fun network_attachments :: "job_env \<Rightarrow> string \<Rightarrow> string list \<Rightarrow> api_error + string list" where
  "network_attachments env namespace [] = Inr []"
| "network_attachments env namespace (n # ns) =
     (case je_GetNAD env n namespace of
        Inl err \<Rightarrow> Inl err
      | Inr nad \<Rightarrow>
          (case network_attachments env namespace ns of
             Inl err \<Rightarrow> Inl err
           | Inr nads \<Rightarrow> Inr (case nad of None \<Rightarrow> nads | Some x \<Rightarrow> x # nads)))"

text \<open>Returned are the job handed to \<open>DoJob\<close>, if any, the specification and the deployment as the call
  leaves them (the map of extra variables belongs to both), and the error.\<close>

type_synonym execution_result = "job_def option \<times> aee_spec \<times> dp_deployment \<times> api_error option"

definition execution_job ::
    "job_env \<Rightarrow> dp_service \<Rightarrow> (string, string) gomap \<Rightarrow> (string, string) gomap \<Rightarrow> string \<Rightarrow> dp_deployment
     \<Rightarrow> string \<times> (string, string) gomap \<Rightarrow> (string, string) gomap \<Rightarrow> aee_spec \<Rightarrow> ee_job \<times> aee_spec" where
  "execution_job env service sshKeySecrets inventorySecrets nodeSetName deployment eid annotations aeeSpec =
     (let a0 = new_ee_job\<lparr>ej_Name := fst eid, ej_Namespace := dep_Namespace deployment, ej_Labels := snd eid,
            ej_EnvConfigMapName := (if aee_EnvConfigMapName aeeSpec = [] then ''openstack-aee-default-env''
                                    else aee_EnvConfigMapName aeeSpec),
            ej_NetworkAttachments := aee_NetworkAttachments aeeSpec, ej_Annotations := annotations\<rparr>;
          (a1, aeeSpec') = BuildAeeJobSpec env service deployment nodeSetName aeeSpec a0;
          mounts = SetAeeInvMounts nodeSetName service inventorySecrets
                     (SetAeeSSHMounts nodeSetName service sshKeySecrets
                       \<lparr>vms_Propagation = [], vms_Volumes = [], vms_Mounts = []\<rparr>)
      in (a1\<lparr>ej_ExtraMounts := aee_ExtraMounts aeeSpec' @ [mounts], ej_Env := aee_Env aeeSpec',
             ej_NodeSelector := dep_AnsibleJobNodeSelector deployment\<rparr>, aeeSpec'))"

definition submit_job :: "job_env \<Rightarrow> ee_job \<Rightarrow> aee_spec \<Rightarrow> dp_deployment \<Rightarrow> execution_result" where
  "submit_job env a aeeSpec deployment =
     (case JobForOpenStackAnsibleEE env a of
        Inl err \<Rightarrow> (None, aeeSpec, deployment, Some err)
      | Inr jobDef \<Rightarrow>
          (case je_DoJob env jobDef (ej_PreserveJobs a) (gomap_get [] (dep_AnsibleEEHashes deployment) (ej_Name a)) of
             Inl err \<Rightarrow> (Some jobDef, aeeSpec, deployment, Some err)
           | Inr None \<Rightarrow> (Some jobDef, aeeSpec, deployment, None)
           | Inr (Some hash) \<Rightarrow>
               (Some jobDef, aeeSpec,
                deployment\<lparr>dep_AnsibleEEHashes := gomap_put (ej_Name a) hash (dep_AnsibleEEHashes deployment)\<rparr>, None)))"

definition create_execution ::
    "job_env \<Rightarrow> dp_service \<Rightarrow> (string, string) gomap \<Rightarrow> (string, string) gomap \<Rightarrow> string \<Rightarrow> aee_spec \<Rightarrow> dp_deployment
     \<Rightarrow> string \<times> (string, string) gomap \<Rightarrow> execution_result" where
  "create_execution env service sshKeySecrets inventorySecrets nodeSetName aeeSpec deployment eid =
     (case network_attachments env (dep_Namespace deployment) (aee_NetworkAttachments aeeSpec) of
        Inl err \<Rightarrow> (None, aeeSpec, deployment, Some err)
      | Inr nadList \<Rightarrow>
          (case je_EnsureNetworksAnnotation env nadList of
             Inl err \<Rightarrow> (None, aeeSpec, deployment,
               Some (OtherError (''failed to create NetworkAttachment annotation. Error: '' @ err_msg err)))
           | Inr annotations \<Rightarrow>
               (case execution_job env service sshKeySecrets inventorySecrets nodeSetName deployment eid annotations aeeSpec of
                  (a, aeeSpec') \<Rightarrow>
                    submit_job env a aeeSpec'
                      (if unnil (aee_ExtraVars aeeSpec) \<noteq> []
                       then deployment\<lparr>dep_AnsibleExtraVars := aee_ExtraVars aeeSpec'\<rparr> else deployment))))"

definition AnsibleExecution ::
    "job_env \<Rightarrow> dp_service \<Rightarrow> (string, string) gomap \<Rightarrow> (string, string) gomap \<Rightarrow> string \<Rightarrow> aee_spec \<Rightarrow> dp_deployment
     \<Rightarrow> execution_result" where
  "AnsibleExecution env service sshKeySecrets inventorySecrets nodeSetName aeeSpec deployment =
     (let eid = GetAnsibleExecutionNameAndLabels (je_sha256hex env) service (dep_Name deployment) nodeSetName;
          create = create_execution env service sshKeySecrets inventorySecrets nodeSetName aeeSpec deployment eid
      in case GetAnsibleExecution env (dep_Namespace deployment) (snd eid) of
           Inl err \<Rightarrow> if \<not> IsNotFound err then (None, aeeSpec, deployment, Some err) else create
         | Inr job \<Rightarrow> if 0 < aj_Succeeded job then (None, aeeSpec, deployment, None) else create)"

end
