(* ===== verification/Dataplane_Deploy.thy ===== *)
theory Dataplane_Deploy
  imports Ansible_Jobs Version_Controller
begin

text \<open>
  Deployment of the services of one node set: \<open>internal/dataplane/deployment.go\<close>.  The type
  \<open>Deployer\<close> is split into \<open>deploy_env\<close>, what the code only reads, and \<open>deployer\<close>, what it
  changes.  \<open>d.Status\<close> is the status of \<open>d.Deployment\<close>, so both are the one field \<open>d_Deployment\<close>.
  \<open>d_Jobs\<close> collects the jobs handed to the cluster, with the service each is for; the code has no
  such field.

  \<^item> \<open>de_before\<close> and \<open>de_after\<close> are the jobs as the cluster reports them to the two lookups a service
    makes, before and after its own job is submitted.
  \<^item> A slice of conditions is copied out of the map of the status and changed in the copy.  Go slices
    share their array, so that a copy that is not stored back may still change what the map holds.
    What the map holds then is up to the library: \<open>de_shared old new\<close>.
  \<^item> \<open>de_toCamel\<close> is \<open>strcase.ToCamel\<close>, \<open>de_sha224hex\<close> the hexadecimal digest \<open>sha256.Sum224\<close>.
\<close>

subsection \<open>State\<close>

record deploy_env =
  de_client :: dp_client
  de_before :: job_env
  de_after :: job_env
  de_shared :: "conditions \<Rightarrow> conditions \<Rightarrow> conditions"
  de_toCamel :: "string \<Rightarrow> string"
  de_sha224hex :: "string \<Rightarrow> string"
  de_defaultImages :: container_images
  de_Version :: "os_version option"
  de_NodeSet :: dp_nodeset
  de_InventorySecrets :: "(string, string) gomap"
  de_SSHKeySecrets :: "(string, string) gomap"

record deployer =
  d_AeeSpec :: aee_spec
  d_Deployment :: dp_deployment
  d_Jobs :: "(string \<times> job_def) list"

definition ns_conds :: "deploy_env \<Rightarrow> deployer \<Rightarrow> conditions" where
  "ns_conds env d = gomap_get [] (dep_NodeSetConditions (d_Deployment d)) (ns_Name (de_NodeSet env))"

definition store_conds :: "deploy_env \<Rightarrow> conditions \<Rightarrow> deployer \<Rightarrow> deployer" where
  "store_conds env cs d = d\<lparr>d_Deployment := (d_Deployment d)\<lparr>dep_NodeSetConditions :=
     gomap_put (ns_Name (de_NodeSet env)) cs (dep_NodeSetConditions (d_Deployment d))\<rparr>\<rparr>"

subsection \<open>Paths and numbers\<close>

definition ConfigPaths :: string where "ConfigPaths = ''/var/lib/openstack/configs''"
definition CertPaths :: string where "CertPaths = ''/var/lib/openstack/certs''"
definition CACertPaths :: string where "CACertPaths = ''/var/lib/openstack/cacerts''"

fun split_slash :: "string \<Rightarrow> string \<Rightarrow> string list" where
  "split_slash cur [] = [rev cur]"
| "split_slash cur (c # s) = (if c = CHR ''/'' then rev cur # split_slash [] s else split_slash (c # cur) s)"

text \<open>\<open>path.Join\<close> for a rooted first element: the elements joined by slashes and cleaned, so that empty
  elements and \<open>.\<close> vanish and \<open>..\<close> takes the element before it along.\<close>

definition clean_rooted :: "string list \<Rightarrow> string list" where
  "clean_rooted parts = rev (fold (\<lambda>p acc. if p = [] \<or> p = ''.'' then acc
                                       else if p = ''..'' then tl acc else p # acc) parts [])"

definition path_Join :: "string list \<Rightarrow> string" where
  "path_Join elems =
     (let parts = clean_rooted (concat (map (split_slash []) elems))
      in if parts = [] then ''/'' else concat (map (\<lambda>p. ''/'' @ p) parts))"

text \<open>The number \<open>strconv.Atoi\<close> returns beside the error the code ignores: 0 for what is no number, the
  nearest 64 bit number for what is out of range.\<close>

definition digits_value :: "string \<Rightarrow> int" where
  "digits_value s = foldl (\<lambda>n c. 10 * n + (of_char c - 48)) 0 s"

definition Atoi :: "string \<Rightarrow> int" where
  "Atoi s =
     (let ds = (if s \<noteq> [] \<and> (hd s = CHR ''-'' \<or> hd s = CHR ''+'') then tl s else s)
      in if ds = [] \<or> \<not> list_all is_digit ds then 0
         else if s \<noteq> [] \<and> hd s = CHR ''-'' then max (- (2 ^ 63)) (- digits_value ds)
         else min (2 ^ 63 - 1) (digits_value ds))"

subsection \<open>Mounts of a service\<close>

definition short_name :: "deploy_env \<Rightarrow> string \<Rightarrow> string \<Rightarrow> string" where
  "short_name env pre volumeName =
     (if DNS1123LabelMaxLength < length volumeName then pre @ de_sha224hex env volumeName else volumeName)"

definition add_mounts :: "vol_mounts \<Rightarrow> deployer \<Rightarrow> deployer" where
  "add_mounts m d = d\<lparr>d_AeeSpec := (d_AeeSpec d)\<lparr>aee_ExtraMounts := aee_ExtraMounts (d_AeeSpec d) @ [m]\<rparr>\<rparr>"

text \<open>One volume and one mount per key of a ConfigMap or Secret.\<close>

definition key_mounts :: "deploy_env \<Rightarrow> string \<Rightarrow> string \<Rightarrow> (string \<Rightarrow> volume_source) \<Rightarrow> string \<Rightarrow> string list \<Rightarrow> vol_mounts" where
  "key_mounts env pre name source baseMountPath keys =
     (let volumeName = (\<lambda>idx. short_name env pre (name @ ''-'' @ Itoa idx)) in
      \<lparr>vms_Propagation = [],
       vms_Volumes = map (\<lambda>(idx, key). \<lparr>vol_Name = volumeName idx, vol_Source = source key\<rparr>) (enumerate 0 keys),
       vms_Mounts = map (\<lambda>(idx, key). \<lparr>vm_Name = volumeName idx, vm_MountPath = path_Join [baseMountPath, key],
                                         vm_SubPath = key\<rparr>) (enumerate 0 keys)\<rparr>)"

definition config_map_mounts :: "deploy_env \<Rightarrow> string \<Rightarrow> config_map \<Rightarrow> vol_mounts" where
  "config_map_mounts env baseMountPath cm =
     key_mounts env ''cm'' (cm_Name cm) (\<lambda>key. ConfigMapVolume (cm_Name cm) [(key, key)]) baseMountPath
       (sort (map fst (cm_Data cm) @ map fst (cm_BinaryData cm)))"

definition secret_mounts :: "deploy_env \<Rightarrow> string \<Rightarrow> secret \<Rightarrow> vol_mounts" where
  "secret_mounts env baseMountPath sec =
     key_mounts env ''sec'' (sec_Name sec) (\<lambda>key. SecretVolume (sec_Name sec) None [(key, key)]) baseMountPath
       (sort (map fst (sec_Data sec)))"

fun get_sources ::
    "dp_client \<Rightarrow> string \<Rightarrow> data_source list \<Rightarrow> api_error + config_map list \<times> secret list" where
  "get_sources c namespace [] = Inr ([], [])"
| "get_sources c namespace (dataSource # ds) =
     (case GetDataSourceCmSecret c namespace dataSource of
        Inl err \<Rightarrow> Inl err
      | Inr (cm, sec) \<Rightarrow>
          (case get_sources c namespace ds of
             Inl err \<Rightarrow> Inl err
           | Inr (cms, secs) \<Rightarrow>
               Inr (case cm of None \<Rightarrow> cms | Some x \<Rightarrow> x # cms, case sec of None \<Rightarrow> secs | Some x \<Rightarrow> x # secs)))"

definition addServiceExtraMounts :: "deploy_env \<Rightarrow> dp_service \<Rightarrow> deployer \<Rightarrow> api_error + deployer" where
  "addServiceExtraMounts env service d =
     (let baseMountPath = path_Join [ConfigPaths, svc_EDPMServiceType service] in
      case get_sources (de_client env) (svc_Namespace service) (svc_DataSources service) of
        Inl err \<Rightarrow> Inl err
      | Inr (configMaps, secrets) \<Rightarrow>
          Inr (fold add_mounts (map (config_map_mounts env baseMountPath) configMaps
                                @ map (secret_mounts env baseMountPath) secrets) d))"

definition addCACertMount :: "deploy_env \<Rightarrow> dp_service \<Rightarrow> deployer \<Rightarrow> api_error + deployer" where
  "addCACertMount env service d =
     (case dc_getSecret (de_client env) (svc_Namespace service) (svc_CACerts service) of
        Inl err \<Rightarrow> Inl err
      | Inr cacertSecret \<Rightarrow>
          (let volumeName = short_name env ''cacert'' (svc_Name service @ ''-'' @ svc_CACerts service) in
           Inr (add_mounts \<lparr>vms_Propagation = [],
                  vms_Volumes = [\<lparr>vol_Name = volumeName, vol_Source = SecretVolume (svc_CACerts service) None []\<rparr>],
                  vms_Mounts = [\<lparr>vm_Name = volumeName, vm_MountPath = path_Join [CACertPaths, svc_EDPMServiceType service],
                                 vm_SubPath = []\<rparr>]\<rparr> d)))"

text \<open>The secrets of a certificate, numbered from 0.\<close>

fun projected_secrets :: "deploy_env \<Rightarrow> dp_service \<Rightarrow> string \<Rightarrow> nat list \<Rightarrow> api_error + string list" where
  "projected_secrets env service certKey [] = Inr []"
| "projected_secrets env service certKey (i # is) =
     (let secretName = GetServiceCertsSecretName (de_sha224hex env) (de_NodeSet env) (svc_Name service) certKey i in
      case dc_getSecret (de_client env) (svc_Namespace service) secretName of
        Inl err \<Rightarrow> Inl err
      | Inr certSecret \<Rightarrow>
          (case projected_secrets env service certKey is of
             Inl err \<Rightarrow> Inl err
           | Inr names \<Rightarrow> Inr (secretName # names)))"

definition cert_key_mounts :: "deploy_env \<Rightarrow> dp_service \<Rightarrow> string \<Rightarrow> api_error + vol_mounts" where
  "cert_key_mounts env service certKey =
     (let secretName = GetServiceCertsSecretName (de_sha224hex env) (de_NodeSet env) (svc_Name service) certKey 0 in
      case dc_getSecret (de_client env) (svc_Namespace service) secretName of
        Inl err \<Rightarrow> Inl err
      | Inr certSecret \<Rightarrow>
          (let numberOfSecrets = Atoi (gomap_get [] (sec_Labels certSecret) ''numberOfSecrets'') in
           case projected_secrets env service certKey [0..<nat numberOfSecrets] of
             Inl err \<Rightarrow> Inl err
           | Inr names \<Rightarrow>
               (let volumeName = short_name env ''cert'' secretName;
                    roleService = sc_EDPMRoleServiceName (gomap_get empty_cert (unnil (svc_TLSCerts service)) certKey);
                    certMountDir = (if roleService = [] then svc_EDPMServiceType service else roleService)
                in Inr \<lparr>vms_Propagation = [],
                        vms_Volumes = [\<lparr>vol_Name = volumeName, vol_Source = ProjectedVolume names\<rparr>],
                        vms_Mounts = [\<lparr>vm_Name = volumeName, vm_MountPath = path_Join [CertPaths, certMountDir, certKey],
                                       vm_SubPath = []\<rparr>]\<rparr>)))"

fun add_cert_keys :: "deploy_env \<Rightarrow> dp_service \<Rightarrow> string list \<Rightarrow> deployer \<Rightarrow> api_error + deployer" where
  "add_cert_keys env service [] d = Inr d"
| "add_cert_keys env service (certKey # keys) d =
     (case cert_key_mounts env service certKey of
        Inl err \<Rightarrow> Inl err
      | Inr volMounts \<Rightarrow> add_cert_keys env service keys (add_mounts volMounts d))"

text \<open>The service whose certificates are mounted for a service: itself, the one it takes certificates
  from, or the one of its type; \<open>None\<close> when another service of the list brings them.\<close>

definition cert_service :: "deploy_env \<Rightarrow> string list \<Rightarrow> dp_service \<Rightarrow> api_error + dp_service option" where
  "cert_service env services service =
     (let by_type = (\<lambda>s. if svc_EDPMServiceType s \<noteq> svc_Name s \<and> svc_TLSCerts s = None
                         then (if svc_EDPMServiceType s \<in> set services then Inr None
                               else (case dc_getService (de_client env) (svc_EDPMServiceType s) of
                                       Inl err \<Rightarrow> Inl err | Inr s' \<Rightarrow> Inr (Some s')))
                         else Inr (Some s))
      in if svc_CertsFrom service \<noteq> [] \<and> svc_TLSCerts service = None \<and> svc_CACerts service = []
         then (if svc_CertsFrom service \<in> set services then Inr None
               else (case dc_getService (de_client env) (svc_CertsFrom service) of
                       Inl err \<Rightarrow> Inl err | Inr s \<Rightarrow> by_type s))
         else by_type service)"

definition mount_certs_of :: "deploy_env \<Rightarrow> dp_service \<Rightarrow> deployer \<Rightarrow> api_error + deployer" where
  "mount_certs_of env service d =
     (case (if svc_TLSCerts service \<noteq> None \<and> ns_TLSEnabled (de_NodeSet env)
            then add_cert_keys env service (sort (map fst (the (svc_TLSCerts service)))) d else Inr d) of
        Inl err \<Rightarrow> Inl err
      | Inr d' \<Rightarrow> if svc_CACerts service \<noteq> [] then addCACertMount env service d' else Inr d')"

fun add_certs_of :: "deploy_env \<Rightarrow> string list \<Rightarrow> string list \<Rightarrow> deployer \<Rightarrow> api_error + deployer" where
  "add_certs_of env services [] d = Inr d"
| "add_certs_of env services (svc # svcs) d =
     (case dc_getService (de_client env) svc of
        Inl err \<Rightarrow> Inl err
      | Inr service \<Rightarrow>
          (case cert_service env services service of
             Inl err \<Rightarrow> Inl err
           | Inr None \<Rightarrow> add_certs_of env services svcs d
           | Inr (Some s) \<Rightarrow>
               (case mount_certs_of env s d of
                  Inl err \<Rightarrow> Inl err
                | Inr d' \<Rightarrow> add_certs_of env services svcs d')))"

definition addCertMounts :: "deploy_env \<Rightarrow> string list \<Rightarrow> deployer \<Rightarrow> api_error + deployer" where
  "addCertMounts env services d = add_certs_of env services services d"

subsection \<open>One service\<close>

definition readyCondition :: "deploy_env \<Rightarrow> string \<Rightarrow> string" where
  "readyCondition env service = ''Service'' @ de_toCamel env service @ ''DeploymentReady''"

definition readyMessage :: "string \<Rightarrow> string" where
  "readyMessage deployName = ''Deployment ready for '' @ deployName @ '' service''"

definition readyWaitingMessage :: "string \<Rightarrow> string" where
  "readyWaitingMessage deployName = ''Deployment not yet ready for '' @ deployName @ '' service''"

definition readyErrorMessage :: "string \<Rightarrow> string \<Rightarrow> string" where
  "readyErrorMessage deployName err = ''Deployment error occurred in '' @ deployName @ '' service error '' @ err"

definition DeployService :: "deploy_env \<Rightarrow> dp_service \<Rightarrow> deployer \<Rightarrow> deployer \<times> api_error option" where
  "DeployService env foundService d =
     (case AnsibleExecution (de_before env) foundService (de_SSHKeySecrets env) (de_InventorySecrets env)
             (ns_Name (de_NodeSet env)) (d_AeeSpec d) (d_Deployment d) of
        (job, aeeSpec, deployment, err) \<Rightarrow>
          (d\<lparr>d_AeeSpec := aeeSpec, d_Deployment := deployment,
             d_Jobs := d_Jobs d @ (case job of None \<Rightarrow> [] | Some j \<Rightarrow> [(svc_Name foundService, j)])\<rparr>, err))"

definition storeExecutionSummary :: "deploy_env \<Rightarrow> ansible_job \<Rightarrow> deployer \<Rightarrow> deployer" where
  "storeExecutionSummary env ansibleJob d =
     (case GetAnsibleExecutionSummary (de_after env) ansibleJob of
        Inr (Some summary) \<Rightarrow>
          d\<lparr>d_Deployment := (d_Deployment d)\<lparr>dep_ExecutionSummaries :=
             gomap_put (aj_Name ansibleJob) summary (dep_ExecutionSummaries (d_Deployment d))\<rparr>\<rparr>
      | _ \<Rightarrow> d)"

definition job_reason :: "string \<Rightarrow> cond_reason" where
  "job_reason r = (if r = ''BackoffLimitExceeded'' then JobReasonBackoffLimitExceeded else OtherReason r)"

text \<open>The last condition of type \<open>Failed\<close>; the zero value when there is none.\<close>

definition failed_condition :: "ansible_job \<Rightarrow> job_condition" where
  "failed_condition job =
     fold (\<lambda>c acc. if jc_Type c = ''Failed'' then c else acc) (aj_Conditions job)
       \<lparr>jc_Type = [], jc_Reason = [], jc_Message = []\<rparr>"

definition failure_message :: "ansible_job \<Rightarrow> string" where
  "failure_message job =
     (if job_reason (jc_Reason (failed_condition job)) = JobReasonBackoffLimitExceeded
      then ''backoff limit reached for execution.name '' @ aj_Name job @ '' execution.namespace '' @ aj_Namespace job
           @ '' execution.condition.message: '' @ jc_Message (failed_condition job)
      else ''execution.name '' @ aj_Name job @ '' execution.namespace '' @ aj_Namespace job
           @ '' failed pods: '' @ Itoa (nat (aj_Failed job)))"

text \<open>The second half of \<open>ConditionalDeploy\<close>: \<open>cs\<close> are the conditions of the node set in the local
  slice.  A job that has not succeeded is compared with its backoff limit, which is dereferenced; on a
  lookup error other than "not found" the job itself is \<open>nil\<close> and dereferenced.\<close>

definition job_outcome ::
    "condlib \<Rightarrow> deploy_env \<Rightarrow> string \<Rightarrow> string \<Rightarrow> ansible_job \<Rightarrow> conditions \<Rightarrow> deployer \<Rightarrow> (conditions \<times> deployer \<times> api_error option) option" where
  "job_outcome L env t deployName job cs d =
     (if 0 < aj_Succeeded job
      then Some (lc_Set L cs (lc_TrueCondition L t (readyMessage deployName)), storeExecutionSummary env job d, None)
      else case aj_BackoffLimit job of
             None \<Rightarrow> None
           | Some limit \<Rightarrow>
               if limit < aj_Failed job
               then Some (lc_Set L cs (lc_FalseCondition L t (job_reason (jc_Reason (failed_condition job))) SeverityError
                            (readyErrorMessage deployName (failure_message job))),
                          storeExecutionSummary env job d, Some (OtherError (failure_message job)))
               else Some (lc_Set L cs (lc_FalseCondition L t RequestedReason SeverityInfo (readyWaitingMessage deployName)),
                          d, None))"

definition check_job ::
    "condlib \<Rightarrow> deploy_env \<Rightarrow> string \<Rightarrow> string \<Rightarrow> dp_service \<Rightarrow> conditions \<Rightarrow> deployer \<Rightarrow> (deployer \<times> api_error option) option" where
  "check_job L env t deployName foundService cs d =
     (if lc_IsFalse L cs t
      then (case GetAnsibleExecution (de_after env) (dep_Namespace (d_Deployment d))
                   (snd (GetAnsibleExecutionNameAndLabels (je_sha256hex (de_after env)) foundService
                           (dep_Name (d_Deployment d)) (ns_Name (de_NodeSet env)))) of
              Inl err \<Rightarrow> if IsNotFound err then Some (store_conds env (de_shared env (ns_conds env d) cs) d, None) else None
            | Inr job \<Rightarrow>
                (case job_outcome L env t deployName job cs d of
                   None \<Rightarrow> None
                 | Some (cs', d', err) \<Rightarrow> Some (store_conds env cs' d', err)))
      else Some (store_conds env cs d, None))"

definition ConditionalDeploy ::
    "condlib \<Rightarrow> deploy_env \<Rightarrow> string \<Rightarrow> string \<Rightarrow> dp_service \<Rightarrow> deployer \<Rightarrow> (deployer \<times> api_error option) option" where
  "ConditionalDeploy L env t deployName foundService d =
     (let nsConditions = ns_conds env d in
      if lc_IsUnknown L nsConditions t
      then (case DeployService env foundService d of
              (d', Some err) \<Rightarrow> Some (d', Some err)
            | (d', None) \<Rightarrow>
                check_job L env t deployName foundService
                  (lc_Set L nsConditions (lc_FalseCondition L t RequestedReason SeverityInfo (readyWaitingMessage deployName))) d')
      else check_job L env t deployName foundService nsConditions d)"

text \<open>\<open>reflect.Indirect(v.FieldByName(n)).String()\<close> on the images of a version.\<close>

definition image_string :: "container_images \<Rightarrow> string \<Rightarrow> string" where
  "image_string ci n =
     (let indirect = (\<lambda>p. case p of None \<Rightarrow> ''<invalid Value>'' | Some s \<Rightarrow> s) in
      case FieldByName n of
        Some f \<Rightarrow> indirect (ci_template ci f)
      | None \<Rightarrow>
          if n = ''OctaviaApacheImage'' then indirect (ci_OctaviaApacheImage ci)
          else if n = ''CeilometerProxyImage'' then indirect (ci_CeilometerProxyImage ci)
          else if n = ''CinderVolumeImages'' \<or> n = ''ManilaShareImages'' then ''<map[string]*string Value>''
          else if n = ''ContainerTemplate'' then ''<v1beta1.ContainerTemplate Value>''
          else ''<invalid Value>'')"

definition record_images :: "deploy_env \<Rightarrow> dp_service \<Rightarrow> deployer \<Rightarrow> deployer" where
  "record_images env foundService d =
     (case de_Version env of
        None \<Rightarrow> d
      | Some v \<Rightarrow>
          d\<lparr>d_Deployment := (d_Deployment d)\<lparr>dep_ContainerImages :=
             fold (\<lambda>cif m. gomap_put cif (image_string (st_ContainerImages (v_Status v)) cif) m)
               (svc_ContainerImageFields foundService) (dep_ContainerImages (d_Deployment d))\<rparr>\<rparr>)"

definition set_runner_image :: "deploy_env \<Rightarrow> dp_service \<Rightarrow> deployer \<Rightarrow> deployer" where
  "set_runner_image env foundService d =
     (let set_image = (\<lambda>i d. d\<lparr>d_AeeSpec := (d_AeeSpec d)\<lparr>aee_RunnerImage := i\<rparr>\<rparr>);
          d1 = (case ci_template (dp_GetContainerImages (de_defaultImages env) (de_Version env)) AnsibleeeImage of
                  None \<Rightarrow> d | Some i \<Rightarrow> set_image i d)
      in if svc_RunnerImage foundService \<noteq> [] then set_image (svc_RunnerImage foundService) d1 else d1)"

definition service_mounts :: "deploy_env \<Rightarrow> string list \<Rightarrow> vol_mounts list \<Rightarrow> dp_service \<Rightarrow> deployer \<Rightarrow> api_error + deployer" where
  "service_mounts env services aeeSpecMounts foundService d =
     (case addServiceExtraMounts env foundService (d\<lparr>d_AeeSpec := (d_AeeSpec d)\<lparr>aee_ExtraMounts := aeeSpecMounts\<rparr>\<rparr>) of
        Inl err \<Rightarrow> Inl err
      | Inr d1 \<Rightarrow>
          if svc_AddCertMounts foundService then addCertMounts env services d1
          else if svc_CACerts foundService \<noteq> [] then addCACertMount env foundService d1
          else Inr d1)"

definition service_error :: "condlib \<Rightarrow> deploy_env \<Rightarrow> string \<Rightarrow> api_error \<Rightarrow> deployer \<Rightarrow> deployer step" where
  "service_error L env service err d =
     Return (Some err) (store_conds env (lc_Set L (ns_conds env d)
       (lc_FalseCondition L (readyCondition env service) ErrorReason SeverityError (readyErrorMessage service (err_msg err)))) d)"

definition deploy_service :: "condlib \<Rightarrow> deploy_env \<Rightarrow> string list \<Rightarrow> vol_mounts list \<Rightarrow> string \<Rightarrow> deployer \<Rightarrow> deployer step" where
  "deploy_service L env services aeeSpecMounts service d =
     (case dc_getService (de_client env) service of
        Inl err \<Rightarrow> service_error L env service err d
      | Inr foundService \<Rightarrow>
          (case service_mounts env services aeeSpecMounts foundService (set_runner_image env foundService d) of
             Inl err \<Rightarrow> service_error L env service err d
           | Inr d1 \<Rightarrow>
               (case ConditionalDeploy L env (readyCondition env service) service foundService d1 of
                  None \<Rightarrow> Panic
                | Some (d2, err) \<Rightarrow>
                    if err \<noteq> None \<or> \<not> lc_IsTrue L (ns_conds env d2) (readyCondition env service)
                    then Return err d2
                    else Next (record_images env foundService d2))))"

text \<open>The services in order; the specification is not used again once a service has failed.  \<open>Next\<close> is the result \<open>nil, nil\<close>: the node set is deployed.\<close>

definition Deploy :: "condlib \<Rightarrow> deploy_env \<Rightarrow> string list \<Rightarrow> deployer \<Rightarrow> deployer step" where
  "Deploy L env services d =
     run_stages (map (deploy_service L env services (aee_ExtraMounts (d_AeeSpec d))) services) d"

end
