(* ===== verification/Deployment_Controller.thy ===== *)
theory Deployment_Controller
  imports Dataplane_Deploy
begin

text \<open>
  The controller of OpenStackDataPlaneDeployment:
  \<open>internal/controller/dataplane/openstackdataplanedeployment_controller.go\<close>, with the methods it uses of
  \<open>api/dataplane/v1beta1\<close>.

  \<open>depctl_env\<close> is what a reconciliation reads.  \<open>pe_deploy\<close> gives for each node set the environment of
  \<open>Deployer\<close>; the controller fills in its node set, version and secrets.  \<open>pe_message\<close> is the text of a
  message constant of lib-common with its argument.  The status maps that \<open>InitHashesAndImages\<close> allocates
  are never \<open>nil\<close> here, so that function is the identity and left out.  \<open>pe_shared old new\<close> is what the
  map of node set conditions holds after a slice read from it as \<open>old\<close> was changed to \<open>new\<close> and not stored.
\<close>

definition DeploymentReadyCondition :: string where "DeploymentReadyCondition = ''DeploymentReady''"
definition InputReadyCondition :: string where "InputReadyCondition = ''InputReady''"
definition SetupReadyCondition :: string where "SetupReadyCondition = ''SetupReady''"
definition NodeSetDeploymentReadyCondition :: string where
  "NodeSetDeploymentReadyCondition = ''NodeSetDeploymentReady''"

lemmas deployment_condition_types =
  DeploymentReadyCondition_def InputReadyCondition_def SetupReadyCondition_def
  NodeSetDeploymentReadyCondition_def ReadyCondition_def

subsection \<open>State\<close>

record depctl_env =
  pe_validName :: "api_error option"
  pe_get :: "api_error + dp_deployment"
  pe_getNodeSet :: "string \<Rightarrow> api_error + dp_nodeset"
  pe_controlPlanes :: "api_error + control_plane list"
  pe_versions :: "api_error + os_version list"
  pe_client :: dp_client
  pe_deploy :: "string \<Rightarrow> deploy_env"
  pe_certmanager :: certmanager
  pe_cleanup :: cleanup_env
  pe_shared :: "conditions \<Rightarrow> conditions \<Rightarrow> conditions"
  pe_sha224hex :: "string \<Rightarrow> string"
  pe_message :: "string \<Rightarrow> string \<Rightarrow> string"
  pe_patch :: "api_error option"

text \<open>The deployment and the local variables of the loops of \<open>Reconcile\<close>.  \<open>dr_Jobs\<close> collects the jobs
  that were submitted, with node set and service.\<close>

record dep_run =
  dr_Dep :: dp_deployment
  dr_Result :: ctrl_result
  dr_shouldRequeue :: bool
  dr_haveError :: bool
  dr_errMsg :: string
  dr_backoff :: bool
  dr_Jobs :: "(string \<times> string \<times> job_def) list"

definition new_run :: "dp_deployment \<Rightarrow> dep_run" where
  "new_run dep = \<lparr>dr_Dep = dep, dr_Result = Done, dr_shouldRequeue = False, dr_haveError = False, dr_errMsg = [],
     dr_backoff = False, dr_Jobs = []\<rparr>"

definition dep_conds :: "dp_deployment \<Rightarrow> conditions" where
  "dep_conds dep = (case dep_Conditions dep of None \<Rightarrow> [] | Some cs \<Rightarrow> cs)"

definition upd_dep_conds :: "(conditions \<Rightarrow> conditions) \<Rightarrow> dp_deployment \<Rightarrow> dp_deployment" where
  "upd_dep_conds f dep = dep\<lparr>dep_Conditions := Some (f (dep_conds dep))\<rparr>"

abbreviation upd_run :: "(dp_deployment \<Rightarrow> dp_deployment) \<Rightarrow> dep_run \<Rightarrow> dep_run" where
  "upd_run f r \<equiv> r\<lparr>dr_Dep := f (dr_Dep r)\<rparr>"

text \<open>A change of the conditions of a node set in a slice that is not stored back into the map.\<close>

definition upd_shared :: "depctl_env \<Rightarrow> string \<Rightarrow> (conditions \<Rightarrow> conditions) \<Rightarrow> dp_deployment \<Rightarrow> dp_deployment" where
  "upd_shared env n f dep =
     (let cs = gomap_get [] (dep_NodeSetConditions dep) n
      in if n \<in> fst ` set (dep_NodeSetConditions dep)
         then dep\<lparr>dep_NodeSetConditions := gomap_put n (pe_shared env cs (f cs)) (dep_NodeSetConditions dep)\<rparr>
         else dep)"

subsection \<open>Methods of the resources\<close>

definition dep_InitConditions :: "condlib \<Rightarrow> depctl_env \<Rightarrow> dp_deployment \<Rightarrow> dp_deployment" where
  "dep_InitConditions L env dep =
     dep\<lparr>dep_Conditions := Some (lc_Init L []
           [lc_UnknownCondition L DeploymentReadyCondition InitReason (pe_message env ''DeploymentReadyInitMessage'' []),
            lc_UnknownCondition L InputReadyCondition InitReason (pe_message env ''InputReadyInitMessage'' [])]),
         dep_NodeSetConditions :=
           fold (\<lambda>n. gomap_put n (lc_Set L [] (lc_UnknownCondition L NodeSetDeploymentReadyCondition InitReason
                    (pe_message env ''DeploymentReadyInitMessage'' [])))) (dep_NodeSets dep) [],
         dep_Deployed := False\<rparr>"

definition GetAnsibleEESpec :: "dp_nodeset \<Rightarrow> aee_spec" where
  "GetAnsibleEESpec ns =
     \<lparr>aee_ExtraMounts = ns_ExtraMounts ns, aee_Env = ns_Env ns, aee_ExtraVars = None, aee_DNSConfig = None,
      aee_NetworkAttachments = ns_NetworkAttachments ns, aee_RunnerImage = [], aee_AnsibleTags = [], aee_AnsibleLimit = [],
      aee_AnsibleSkipTags = [], aee_ServiceAccountName = ns_Name ns, aee_EnvConfigMapName = []\<rparr>"

definition bool_string :: "bool \<Rightarrow> string" where
  "bool_string b = (if b then ''true'' else ''false'')"

definition TLSMatch :: "dp_nodeset \<Rightarrow> control_plane \<Rightarrow> api_error option" where
  "TLSMatch ns cp =
     (if sp_PodLevelTLS (cp_Spec cp) \<noteq> ns_TLSEnabled ns
      then Some (OtherError (''spec.tlsEnabled: Forbidden: TLS settings on Data Plane node set and Control Plane '' @ cp_Name cp
             @ '' do not match, Node set: '' @ bool_string (ns_TLSEnabled ns)
             @ '' Control Plane PodLevel: '' @ bool_string (sp_PodLevelTLS (cp_Spec cp))))
      else None)"

definition ValidateTLS :: "(api_error + control_plane list) \<Rightarrow> dp_nodeset \<Rightarrow> api_error option" where
  "ValidateTLS controlPlanes ns =
     (case controlPlanes of
        Inl err \<Rightarrow> Some err
      | Inr items \<Rightarrow> if length items = 1 then TLSMatch ns (items ! 0) else None)"

subsection \<open>Node sets of the deployment\<close>

fun list_nodesets :: "condlib \<Rightarrow> depctl_env \<Rightarrow> string list \<Rightarrow> dp_deployment \<Rightarrow> dp_nodeset list \<times> dp_deployment \<times> api_error option" where
  "list_nodesets L env [] dep = ([], dep, None)"
| "list_nodesets L env (n # ns) dep =
     (case pe_getNodeSet env n of
        Inl err \<Rightarrow> ([], dep, Some err)
      | Inr nodeSet \<Rightarrow>
          (case ValidateTLS (pe_controlPlanes env) nodeSet of
             Some err \<Rightarrow> ([], upd_dep_conds (\<lambda>cs. lc_MarkFalse L cs SetupReadyCondition ErrorReason SeverityError
                               (''DataPlaneNodeSet error occurred '' @ err_msg err)) dep, Some err)
           | None \<Rightarrow> (case list_nodesets L env ns dep of (items, dep', e) \<Rightarrow> (nodeSet # items, dep', e))))"

definition listNodeSets :: "condlib \<Rightarrow> depctl_env \<Rightarrow> dp_deployment \<Rightarrow> dp_nodeset list \<times> dp_deployment \<times> api_error option" where
  "listNodeSets L env dep = list_nodesets L env (dep_NodeSets dep) dep"

subsection \<open>Inputs: readiness of the node sets and their certificates\<close>

definition mark_input_error :: "condlib \<Rightarrow> depctl_env \<Rightarrow> string \<Rightarrow> string \<Rightarrow> dp_deployment \<Rightarrow> dp_deployment" where
  "mark_input_error L env nodeSetName msg dep =
     upd_shared env nodeSetName (\<lambda>cs. lc_MarkFalse L cs NodeSetDeploymentReadyCondition ErrorReason SeverityError msg)
       (upd_dep_conds (\<lambda>cs. lc_MarkFalse L cs InputReadyCondition ErrorReason SeverityError msg) dep)"

definition ctl_GetService :: "condlib \<Rightarrow> depctl_env \<Rightarrow> string \<Rightarrow> string \<Rightarrow> dp_deployment \<Rightarrow> api_error \<times> dp_deployment + dp_service" where
  "ctl_GetService L env nodeSetName serviceName dep =
     (case dc_getService (pe_client env) serviceName of
        Inl err \<Rightarrow> Inl (err, mark_input_error L env nodeSetName (''Service error occurred '' @ err_msg err) dep)
      | Inr service \<Rightarrow> Inr service)"

definition cert_step :: "condlib \<Rightarrow> depctl_env \<Rightarrow> dp_nodeset \<Rightarrow> dp_service \<Rightarrow> string \<Rightarrow> dep_run \<Rightarrow> dep_run step" where
  "cert_step L env nodeSet service certKey r =
     (case EnsureTLSCerts (pe_certmanager env) (pe_cleanup env) (pe_sha224hex env) nodeSet service certKey of
        None \<Rightarrow> Panic
      | Some (_, Inl err) \<Rightarrow>
          Return (Some err) (upd_run (mark_input_error L env (ns_Name nodeSet) (pe_message env ''TLSInputErrorMessage'' (err_msg err))) r)
      | Some (_, Inr result) \<Rightarrow> if result \<noteq> Done then Return None (r\<lparr>dr_Result := result\<rparr>) else Next r)"

definition service_certs :: "condlib \<Rightarrow> depctl_env \<Rightarrow> dp_nodeset \<Rightarrow> string \<Rightarrow> dep_run \<Rightarrow> dep_run step" where
  "service_certs L env nodeSet serviceName r =
     (case ctl_GetService L env (ns_Name nodeSet) serviceName (dr_Dep r) of
        Inl (err, dep) \<Rightarrow> Return (Some err) (r\<lparr>dr_Dep := dep\<rparr>)
      | Inr service \<Rightarrow>
          (case (if serviceName \<noteq> svc_EDPMServiceType service \<and> svc_TLSCerts service = None
                 then ctl_GetService L env (ns_Name nodeSet) (svc_EDPMServiceType service) (dr_Dep r)
                 else Inr service) of
             Inl (err, dep) \<Rightarrow> Return (Some err) (r\<lparr>dr_Dep := dep\<rparr>)
           | Inr service' \<Rightarrow>
               (case svc_TLSCerts service' of
                  None \<Rightarrow> Next r
                | Some certs \<Rightarrow> run_stages (map (cert_step L env nodeSet service') (map fst certs)) r)))"

definition nodeset_inputs :: "condlib \<Rightarrow> depctl_env \<Rightarrow> dp_nodeset \<Rightarrow> dep_run \<Rightarrow> dep_run step" where
  "nodeset_inputs L env nodeSet r =
     (if \<not> lc_IsTrue L (ns_Conditions nodeSet) SetupReadyCondition
      then Return None (r\<lparr>dr_Result := RequeueAfter (dep_RequeueTime (dr_Dep r))\<rparr>)
      else if ns_TLSEnabled nodeSet
      then (let services = (if dep_ServicesOverride (dr_Dep r) \<noteq> [] then dep_ServicesOverride (dr_Dep r) else ns_Services nodeSet)
            in run_stages (map (service_certs L env nodeSet) services) r)
      else Next r)"

subsection \<open>Deployment of the node sets\<close>

definition inventory_secrets :: "dp_nodeset list \<Rightarrow> (string, string) gomap" where
  "inventory_secrets nodeSets = fold (\<lambda>ns. gomap_put (ns_Name ns) (''dataplanenodeset-'' @ ns_Name ns)) nodeSets []"

definition ssh_secrets :: "dp_nodeset list \<Rightarrow> (string, string) gomap" where
  "ssh_secrets nodeSets = fold (\<lambda>ns. gomap_put (ns_Name ns) (ns_SSHPrivateKeySecret ns)) nodeSets []"

definition nodeset_env :: "depctl_env \<Rightarrow> os_version option \<Rightarrow> dp_nodeset list \<Rightarrow> dp_nodeset \<Rightarrow> deploy_env" where
  "nodeset_env env version nodeSets nodeSet =
     (pe_deploy env (ns_Name nodeSet))\<lparr>de_client := pe_client env, de_shared := pe_shared env, de_sha224hex := pe_sha224hex env,
        de_Version := version, de_NodeSet := nodeSet, de_InventorySecrets := inventory_secrets nodeSets,
        de_SSHKeySecrets := ssh_secrets nodeSets\<rparr>"

definition nodeset_spec :: "dp_deployment \<Rightarrow> dp_nodeset \<Rightarrow> aee_spec" where
  "nodeset_spec dep nodeSet =
     (GetAnsibleEESpec nodeSet)\<lparr>aee_AnsibleTags := dep_AnsibleTags dep, aee_AnsibleSkipTags := dep_AnsibleSkipTags dep,
        aee_AnsibleLimit := dep_AnsibleLimit dep, aee_ExtraVars := dep_AnsibleExtraVars dep,
        aee_EnvConfigMapName := dep_AnsibleEEEnvConfigMapName dep,
        aee_DNSConfig := (case ns_DNSClusterAddresses nodeSet of
                            None \<Rightarrow> None
                          | Some addresses \<Rightarrow>
                              if ns_CtlplaneSearchDomain nodeSet \<noteq> []
                              then Some \<lparr>dns_Nameservers = addresses, dns_Searches = [ns_CtlplaneSearchDomain nodeSet]\<rparr>
                              else None)\<rparr>"

text \<open>After \<open>Deploy\<close> has returned: \<open>done\<close> says that its result is \<open>nil\<close>.\<close>

definition add_error :: "string \<Rightarrow> string \<Rightarrow> string" where
  "add_error old msg = (if old = [] then msg else old @ '' & '' @ msg)"

definition nodeset_result :: "condlib \<Rightarrow> depctl_env \<Rightarrow> dp_nodeset \<Rightarrow> bool \<Rightarrow> api_error option \<Rightarrow> dep_run \<Rightarrow> dep_run" where
  "nodeset_result L env nodeSet done err r =
     (let n = ns_Name nodeSet;
          cs = gomap_get [] (dep_NodeSetConditions (dr_Dep r)) n;
          cs1 = lc_Set L cs (lc_Mirror L cs NodeSetDeploymentReadyCondition);
          cs2 = (if done then lc_MarkTrue L cs1 NodeSetDeploymentReadyCondition ''Deployment completed'' else cs1);
          r1 = (case err of
                  None \<Rightarrow> r
                | Some e \<Rightarrow>
                    r\<lparr>dr_haveError := True,
                      dr_errMsg := add_error (dr_errMsg r) (''nodeSet: '' @ n @ '' error: '' @ err_msg e),
                      dr_backoff := (map_option c_reason (lc_Get L cs1 NodeSetDeploymentReadyCondition) = Some JobReasonBackoffLimitExceeded)\<rparr>);
          r2 = upd_run (upd_shared env n (\<lambda>_. cs2)) r1
      in if done
         then upd_run (\<lambda>dep. dep\<lparr>dep_NodeSetHashes := gomap_put n (ns_ConfigHash nodeSet) (dep_NodeSetHashes dep),
                                 dep_BmhRefHashes := gomap_put n (ns_BmhRefHash nodeSet) (dep_BmhRefHashes dep)\<rparr>) r2
         else r2\<lparr>dr_shouldRequeue := True\<rparr>)"

definition deploy_nodeset ::
    "condlib \<Rightarrow> depctl_env \<Rightarrow> os_version option \<Rightarrow> (string, string list) gomap \<Rightarrow> dp_nodeset list \<Rightarrow> dp_nodeset \<Rightarrow> dep_run \<Rightarrow> dep_run step" where
  "deploy_nodeset L env version nodesetServiceMap nodeSets nodeSet r =
     (let dep = upd_dep_conds (\<lambda>cs. lc_MarkFalse L cs DeploymentReadyCondition RequestedReason SeverityInfo ''Deployment in progress'')
                  ((dr_Dep r)\<lparr>dep_Deployed := False\<rparr>);
          denv = nodeset_env env version nodeSets nodeSet;
          after = (\<lambda>d. r\<lparr>dr_Dep := d_Deployment d, dr_Jobs := dr_Jobs r @ map (\<lambda>(s, j). (ns_Name nodeSet, s, j)) (d_Jobs d)\<rparr>)
      in case Deploy L denv (gomap_get [] nodesetServiceMap (ns_Name nodeSet))
                \<lparr>d_AeeSpec = nodeset_spec dep nodeSet, d_Deployment = dep, d_Jobs = []\<rparr> of
           Next d \<Rightarrow> Next (nodeset_result L env nodeSet True None (after d))
         | Return err d \<Rightarrow> Next (nodeset_result L env nodeSet False err (after d))
         | Panic \<Rightarrow> Panic)"

subsection \<open>Hashes\<close>

fun vars_from_hashes :: "dp_client \<Rightarrow> string \<Rightarrow> data_source list list \<Rightarrow> hashes \<Rightarrow> hashes \<times> api_error option" where
  "vars_from_hashes c namespace [] h = (h, None)"
| "vars_from_hashes c namespace (ds # dss) h =
     (case ProcessAnsibleVarsFrom c namespace ds h of
        (h', Some err) \<Rightarrow> (h', Some err)
      | (h', None) \<Rightarrow> vars_from_hashes c namespace dss h')"

definition setNodeSetAnsibleVarsFromHashes :: "dp_client \<Rightarrow> dp_nodeset \<Rightarrow> hashes \<Rightarrow> hashes \<times> api_error option" where
  "setNodeSetAnsibleVarsFromHashes c nodeSet =
     vars_from_hashes c (ns_Namespace nodeSet) (ns_TemplateVarsFrom nodeSet # map (\<lambda>(_, node). nd_AnsibleVarsFrom node) (ns_Nodes nodeSet))"

fun service_hashes :: "dp_client \<Rightarrow> string \<Rightarrow> dp_nodeset list \<Rightarrow> string list \<Rightarrow> hashes \<Rightarrow> hashes \<times> api_error option" where
  "service_hashes c namespace nodeSets [] h = (h, None)"
| "service_hashes c namespace nodeSets (s # ss) h =
     (case GetDeploymentHashesForService c namespace s nodeSets h of
        (h', Some err) \<Rightarrow> (h', Some err)
      | (h', None) \<Rightarrow> service_hashes c namespace nodeSets ss h')"

fun nodeset_hashes :: "dp_client \<Rightarrow> dp_nodeset list \<Rightarrow> (string, string) gomap \<Rightarrow> hashes \<Rightarrow> (string, string) gomap \<times> hashes \<times> api_error option" where
  "nodeset_hashes c [] nh h = (nh, h, None)"
| "nodeset_hashes c (ns # nss) nh h =
     (let nh' = gomap_put (ns_Name ns) (ns_ConfigHash ns) nh in
      case setNodeSetAnsibleVarsFromHashes c ns h of
        (h', Some err) \<Rightarrow> (nh', h', Some err)
      | (h', None) \<Rightarrow> nodeset_hashes c nss nh' h')"

text \<open>The union of the services of the node sets is a map; its order is not fixed, here that of first
  occurrence from the end.\<close>

definition setHashes :: "dp_client \<Rightarrow> dp_nodeset list \<Rightarrow> dp_deployment \<Rightarrow> dp_deployment \<times> api_error option" where
  "setHashes c nodeSets dep =
     (let services = (if dep_ServicesOverride dep \<noteq> [] then dep_ServicesOverride dep
                      else remdups (concat (map ns_Services nodeSets)));
          put = (\<lambda>h dep. dep\<lparr>dep_ConfigMapHashes := fst h, dep_SecretHashes := snd h\<rparr>)
      in case service_hashes c (dep_Namespace dep) nodeSets services (dep_ConfigMapHashes dep, dep_SecretHashes dep) of
           (h, Some err) \<Rightarrow> (put h dep, Some err)
         | (h, None) \<Rightarrow>
             (case nodeset_hashes c nodeSets (dep_NodeSetHashes dep) h of
                (nh, h', err) \<Rightarrow> ((put h' dep)\<lparr>dep_NodeSetHashes := nh\<rparr>, err)))"

subsection \<open>Reconcile\<close>

definition finish_deployment :: "condlib \<Rightarrow> depctl_env \<Rightarrow> os_version option \<Rightarrow> dp_nodeset list \<Rightarrow> dep_run \<Rightarrow> dep_run step" where
  "finish_deployment L env version nodeSets r =
     (if dr_haveError r
      then (let r' = upd_run (upd_dep_conds (\<lambda>cs. lc_MarkFalse L cs DeploymentReadyCondition
                        (if dr_backoff r then JobReasonBackoffLimitExceeded else ErrorReason)
                        (if dr_backoff r then SeverityError else SeverityWarning)
                        (pe_message env ''DeploymentReadyErrorMessage'' (dr_errMsg r)))) r
            in Return (if dr_backoff r then None else Some (OtherError (dr_errMsg r))) r')
      else if dr_shouldRequeue r then Return None r
      else Return None (upd_run (\<lambda>dep.
             let dep1 = upd_dep_conds (\<lambda>cs. lc_MarkTrue L cs DeploymentReadyCondition ''Deployment completed'') dep;
                 dep2 = dep1\<lparr>dep_Deployed := True,
                             dep_DeployedVersion := (case version of None \<Rightarrow> dep_DeployedVersion dep1
                                                                 | Some v \<Rightarrow> vs_TargetVersion (v_Spec v))\<rparr>
             in fst (setHashes (pe_client env) nodeSets dep2)) r))"

definition deploy_nodesets :: "condlib \<Rightarrow> depctl_env \<Rightarrow> dp_nodeset list \<Rightarrow> dep_run \<Rightarrow> dep_run step" where
  "deploy_nodesets L env nodeSets r =
     (let r1 = upd_run (upd_dep_conds (\<lambda>cs. lc_MarkTrue L cs InputReadyCondition ''Input data complete'')) r in
      case DedupeServices (dc_getService (pe_client env)) nodeSets (dep_ServicesOverride (dr_Dep r1)) of
        Inl err \<Rightarrow> Return (Some err) (upd_run (upd_dep_conds (\<lambda>cs. lc_MarkFalse L cs DeploymentReadyCondition ErrorReason
                     SeverityError (''Service error occurred '' @ err_msg err))) r1)
      | Inr nodesetServiceMap \<Rightarrow>
          (case GetVersion (pe_versions env) of
             Inl err \<Rightarrow> Return (Some err) r1
           | Inr version \<Rightarrow>
               step_bind (run_stages (map (deploy_nodeset L env version nodesetServiceMap nodeSets) nodeSets) r1)
                 (finish_deployment L env version nodeSets)))"

definition dep_body :: "condlib \<Rightarrow> depctl_env \<Rightarrow> dp_deployment \<Rightarrow> dep_run step" where
  "dep_body L env dep0 =
     (case listNodeSets L env dep0 of
        (nodeSets, dep, Some err) \<Rightarrow>
          if IsNotFound err then Return None ((new_run dep)\<lparr>dr_Result := RequeueAfter (dep_RequeueTime dep)\<rparr>)
          else Return (Some err) (new_run dep)
      | (nodeSets, dep, None) \<Rightarrow>
          step_bind (run_stages (map (nodeset_inputs L env) nodeSets) (new_run dep)) (deploy_nodesets L env nodeSets))"

definition dep_set_ready :: "condlib \<Rightarrow> dp_deployment \<Rightarrow> dp_deployment" where
  "dep_set_ready L dep =
     (if lc_AllSubConditionIsTrue L (dep_conds dep) then upd_dep_conds (\<lambda>cs. lc_MarkTrue L cs ReadyCondition ReadyMessage) dep
      else if lc_IsUnknown L (dep_conds dep) ReadyCondition
      then upd_dep_conds (\<lambda>cs. lc_Set L cs (lc_Mirror L cs ReadyCondition)) dep
      else dep)"

definition failed_for_good :: "condlib \<Rightarrow> dp_deployment \<Rightarrow> bool" where
  "failed_for_good L dep \<longleftrightarrow>
     dep_Conditions dep \<noteq> None \<and>
     (case lc_Get L (dep_conds dep) DeploymentReadyCondition of
        None \<Rightarrow> False
      | Some c \<Rightarrow> c_severity c = SeverityError \<and> c_reason c = JobReasonBackoffLimitExceeded)"

text \<open>The object and jobs of a reconciliation that reached its deferred function, the result and the error;
  \<open>None\<close> is a panic.  An error of the final patch replaces the error.\<close>

type_synonym dep_exit = "(dp_deployment \<times> (string \<times> string \<times> job_def) list) option \<times> ctrl_result \<times> api_error option"

definition dep_Reconcile :: "condlib \<Rightarrow> depctl_env \<Rightarrow> dep_exit option" where
  "dep_Reconcile L env =
     (case pe_validName env of
        Some err \<Rightarrow> Some (None, Done, Some err)
      | None \<Rightarrow>
          (case pe_get env of
             Inl err \<Rightarrow> Some (None, Done, if IsNotFound err then None else Some err)
           | Inr dep \<Rightarrow>
               if dep_Deployed dep \<or> failed_for_good L dep then Some (None, Done, None)
               else (let finish = (\<lambda>e r. Some (Some (dep_set_ready L (dr_Dep r), dr_Jobs r), dr_Result r,
                                              case pe_patch env of None \<Rightarrow> e | Some err \<Rightarrow> Some err))
                     in case dep_body L env ((dep_InitConditions L env dep)\<lparr>dep_ObservedGeneration := dep_Generation dep\<rparr>) of
                          Panic \<Rightarrow> None
                        | Next r \<Rightarrow> finish None r
                        | Return e r \<Rightarrow> finish e r)))"

end
