(* ===== verification/Cert_Laws.thy ===== *)
theory Cert_Laws
  imports Dataplane_Certs
begin

text \<open>
  Laws of \<open>Dataplane_Certs\<close>: the packing of certificates into secrets loses nothing and respects the
  maximal size, it never panics on the data \<open>EnsureTLSCerts\<close> builds, a finished \<open>EnsureTLSCerts\<close> has
  written every certificate, and the clean-up deletes only certificates of hosts that are gone.
\<close>

subsection \<open>Packing\<close>

definition secret_size :: "certs_data \<Rightarrow> int" where
  "secret_size m = sum_list (map entry_size m)"

text \<open>A secret is within the limit, or holds the certificate of a single node.\<close>

definition packed :: "int \<Rightarrow> certs_data list \<Rightarrow> bool" where
  "packed secretMaxSize ci \<longleftrightarrow> (\<forall>m\<in>set ci. m \<noteq> [] \<and> (secret_size m \<le> secretMaxSize \<or> length m = 3))"

lemma put_fresh: "k \<notin> fst ` set m \<Longrightarrow> gomap_put k v m = m @ [(k, v)]"
  by (induction m) auto

lemma fold_put_fresh:
  assumes "distinct ks" and "set ks \<inter> fst ` set m = {}"
  shows "fold (\<lambda>k m. gomap_put k (gomap_get [] d k) m) ks m = m @ map (entry d) ks"
  using assms by (induction ks arbitrary: m) (auto simp: put_fresh entry_def)

lemma entry_size_nonneg: "0 \<le> entry_size (entry d a)"
  by (simp add: entry_size_def entry_def)

lemma entry_size_pos: "a \<noteq> [] \<Longrightarrow> 0 < entry_size (entry d a)"
  by (cases a) (simp_all add: entry_size_def entry_def)

lemma triple_size_pos:
  assumes "distinct [a, b, c :: string]"
  shows "0 < entry_size (entry d a) + entry_size (entry d b) + entry_size (entry d c)"
proof -
  have "a \<noteq> [] \<or> b \<noteq> []" using assms by auto
  then have "0 < entry_size (entry d a) \<or> 0 < entry_size (entry d b)" using entry_size_pos by blast
  then show ?thesis
    using entry_size_nonneg [of d a] entry_size_nonneg [of d b] entry_size_nonneg [of d c] by linarith
qed

text \<open>The state of the loop: \<open>totalSize\<close> is the size of the open secret, or leaves no room at the
  start.\<close>

definition pack_ok :: "int \<Rightarrow> certs_data list \<Rightarrow> int \<Rightarrow> bool" where
  "pack_ok secretMaxSize ci totalSize \<longleftrightarrow>
     packed secretMaxSize ci \<and> totalSize = (if ci = [] then secretMaxSize else secret_size (last ci))"

lemma pack_step:
  assumes "pack_ok mx ci tot" and "distinct (map fst (concat ci) @ [a, b, c])"
    and sz: "sz = entry_size (entry d a) + entry_size (entry d b) + entry_size (entry d c)"
    and new: "(ci', tot') = (if mx < tot + sz then (ci @ [[]], 0) else (ci, tot))"
  shows "ci' \<noteq> [] \<and>
    pack_ok mx (butlast ci' @ [fold (\<lambda>k m. gomap_put k (gomap_get [] d k) m) [a, b, c] (last ci')]) (tot' + sz) \<and>
    concat (butlast ci' @ [fold (\<lambda>k m. gomap_put k (gomap_get [] d k) m) [a, b, c] (last ci')]) =
      concat ci @ map (entry d) [a, b, c]"
proof (cases "mx < tot + sz")
  case True
  then have "ci' = ci @ [[]]" "tot' = 0" using new by simp_all
  moreover have "fold (\<lambda>k m. gomap_put k (gomap_get [] d k) m) [a, b, c] [] = map (entry d) [a, b, c]"
    using assms(2) by (subst fold_put_fresh) auto
  ultimately show ?thesis
    using assms(1) sz by (auto simp: pack_ok_def packed_def secret_size_def)
next
  case False
  have "0 < sz" using triple_size_pos [of a b c d] assms(2) sz by simp
  then have ci: "ci \<noteq> []" using False assms(1) by (auto simp: pack_ok_def)
  have c: "ci' = ci" "tot' = tot" using False new by simp_all
  have split: "concat ci = concat (butlast ci) @ last ci"
    by (metis ci append_butlast_last_id concat.simps concat_append append_Nil2)
  have "set [a, b, c] \<inter> fst ` set (last ci) = {}" using assms(2) ci by (auto simp: split)
  then have f: "fold (\<lambda>k m. gomap_put k (gomap_get [] d k) m) [a, b, c] (last ci) = last ci @ map (entry d) [a, b, c]"
    using assms(2) by (intro fold_put_fresh) auto
  have "secret_size (last ci @ map (entry d) [a, b, c]) = tot + sz"
    using assms(1) ci sz by (simp add: pack_ok_def secret_size_def)
  moreover have "packed mx (butlast ci)"
    using assms(1) by (auto simp: pack_ok_def packed_def dest: in_set_butlastD)
  ultimately show ?thesis
    using False ci c f split by (auto simp: pack_ok_def packed_def)
qed

lemma pack_secrets_ok:
  assumes "pack_ok mx ci tot" and "distinct (map fst (concat ci) @ keys)" and "3 dvd length keys"
  shows "\<exists>ci'. pack_secrets mx d keys ci tot = Some ci' \<and> concat ci' = concat ci @ map (entry d) keys \<and> packed mx ci'"
  using assms
proof (induction mx d keys ci tot rule: pack_secrets.induct)
  case (1 mx d a b c keys ci tot)
  define sz where "sz = entry_size (entry d a) + entry_size (entry d b) + entry_size (entry d c)"
  obtain ci' tot' where new: "(ci', tot') = (if mx < tot + sz then (ci @ [[]], 0) else (ci, tot))"
    by (metis surj_pair)
  let ?ci = "butlast ci' @ [fold (\<lambda>k m. gomap_put k (gomap_get [] d k) m) [a, b, c] (last ci')]"
  have dist: "distinct (map fst (concat ci) @ [a, b, c])" using "1.prems"(2) by auto
  have step: "ci' \<noteq> []" "pack_ok mx ?ci (tot' + sz)" "concat ?ci = concat ci @ map (entry d) [a, b, c]"
    using pack_step [OF "1.prems"(1) dist sz_def new] by blast+
  have "distinct (map fst (concat ?ci) @ keys)"
    unfolding step(3) using "1.prems"(2) by (auto simp: entry_def)
  moreover have "3 dvd length keys" using "1.prems"(3) by simp presburger
  ultimately obtain ci'' where "pack_secrets mx d keys ?ci (tot' + sz) = Some ci''"
      "concat ci'' = concat ?ci @ map (entry d) keys" "packed mx ci''"
    using "1.IH" [OF sz_def new refl step(1)] step(2) by auto
  moreover have "pack_secrets mx d (a # b # c # keys) ci tot = pack_secrets mx d keys ?ci (tot' + sz)"
    unfolding pack_secrets.simps Let_def sz_def [symmetric] new [symmetric] using step(1) by simp
  ultimately show ?case using step(3) by auto
next
  case (2 mx d a b ci tot)
  then have "3 dvd (2 :: nat)" by (simp add: numeral_2_eq_2)
  then show ?case by simp
qed (auto simp: pack_ok_def)

subsection \<open>The data of all nodes\<close>

definition cert_keys :: "string \<Rightarrow> string list" where
  "cert_keys b = [b @ ''-tls.key'', b @ ''-tls.crt'', b @ ''-ca.crt'']"

definition node_keys :: "certs_data \<Rightarrow> bool" where
  "node_keys d \<longleftrightarrow> gomap_wf d \<and> (\<exists>bs. distinct bs \<and> fst ` set d = set (concat (map cert_keys bs)))"

lemma cert_keys_disjoint: "b \<noteq> b' \<Longrightarrow> set (cert_keys b) \<inter> set (cert_keys b') = {}"
proof -
  have *: "u @ s \<noteq> w @ t" if "drop (length s - 7) s \<noteq> drop (length t - 7) t" "7 \<le> length s" "7 \<le> length t"
    for u w s t :: string
  proof
    assume e: "u @ s = w @ t"
    have "drop (length (u @ s) - 7) (u @ s) = drop (length s - 7) s" using that(2) by simp
    moreover have "drop (length (w @ t) - 7) (w @ t) = drop (length t - 7) t" using that(3) by simp
    ultimately show False using e that(1) by metis
  qed
  assume "b \<noteq> b'"
  then show ?thesis by (auto simp: cert_keys_def intro!: * dest: *)
qed

subsection \<open>The three entries of a node\<close>

text \<open>The keys of a node in the order of the packing, and the entries of a list of nodes.\<close>

definition node_triple :: "string \<Rightarrow> string list" where
  "node_triple b = [b @ ''-ca.crt'', b @ ''-tls.crt'', b @ ''-tls.key'']"

definition node_entries :: "certs_data \<Rightarrow> string list \<Rightarrow> certs_data" where
  "node_entries d bs = map (entry d) (concat (map node_triple bs))"

lemma set_node_triple: "set (node_triple b) = set (cert_keys b)"
  by (auto simp: node_triple_def cert_keys_def)

lemma distinct_triples: "distinct bs \<Longrightarrow> distinct (concat (map node_triple bs))"
proof (induction bs)
  case (Cons b bs)
  have "set (node_triple b) \<inter> set (node_triple b') = {}" if "b' \<in> set bs" for b'
    using that Cons.prems cert_keys_disjoint unfolding set_node_triple by (metis distinct.simps(2))
  then show ?case using Cons by (auto simp: node_triple_def)
qed simp

text \<open>The packing of nodes one by one: every secret holds the entries of a list of nodes.\<close>

lemma pack_groups:
  assumes "pack_secrets mx d (concat (map node_triple bs)) (map (node_entries d) gs) tot = Some ci'"
    and "distinct (concat gs @ bs)"
  shows "\<exists>gs'. ci' = map (node_entries d) gs' \<and> concat gs' = concat gs @ bs"
  using assms
proof (induction bs arbitrary: gs tot)
  case (Cons b bs)
  define sz where "sz = entry_size (entry d (b @ ''-ca.crt'')) + entry_size (entry d (b @ ''-tls.crt'')) + entry_size (entry d (b @ ''-tls.key''))"
  define gs1 where "gs1 = (if mx < tot + sz then gs @ [[]] else gs)"
  define tot1 where "tot1 = (if mx < tot + sz then 0 else tot)"
  let ?f = "fold (\<lambda>k m. gomap_put k (gomap_get [] d k) m) (node_triple b)"
  have new: "(map (node_entries d) gs1, tot1) = (if mx < tot + sz then (map (node_entries d) gs @ [[]], 0) else (map (node_entries d) gs, tot))"
    by (simp add: gs1_def tot1_def node_entries_def)
  have step: "pack_secrets mx d (concat (map node_triple (b # bs))) (map (node_entries d) gs) tot =
     (if gs1 = [] then None
      else pack_secrets mx d (concat (map node_triple bs)) (butlast (map (node_entries d) gs1) @ [?f (last (map (node_entries d) gs1))]) (tot1 + sz))"
    unfolding list.map concat.simps node_triple_def append.simps pack_secrets.simps Let_def sz_def [symmetric] new [symmetric] prod.case by simp
  then have ne: "gs1 \<noteq> []" using Cons.prems(1) by (auto split: if_splits)
  have same: "concat gs1 = concat gs" by (simp add: gs1_def)
  have split: "concat gs1 = concat (butlast gs1) @ last gs1"
    by (metis ne append_butlast_last_id concat.simps concat_append append_Nil2)
  have "distinct ((concat (butlast gs1) @ last gs1) @ b # bs)" using Cons.prems(2) unfolding split [symmetric] same .
  then have "distinct (concat (map node_triple (last gs1 @ [b])))" by (intro distinct_triples) auto
  then have "?f (node_entries d (last gs1)) = node_entries d (last gs1) @ map (entry d) (node_triple b)"
    by (intro fold_put_fresh) (auto simp: node_entries_def entry_def)
  then have "butlast (map (node_entries d) gs1) @ [?f (last (map (node_entries d) gs1))] = map (node_entries d) (butlast gs1 @ [last gs1 @ [b]])"
    using ne by (simp add: map_butlast last_map node_entries_def)
  then have rec: "pack_secrets mx d (concat (map node_triple bs)) (map (node_entries d) (butlast gs1 @ [last gs1 @ [b]])) (tot1 + sz) = Some ci'"
    using Cons.prems(1) step ne by simp
  have e: "concat (butlast gs1 @ [last gs1 @ [b]]) @ bs = concat gs @ b # bs" using split same by simp
  show ?case using Cons.IH [OF rec] Cons.prems(2) unfolding e by blast
qed auto

text \<open>Keys of different nodes do not mix when no name of a node, with a dash, begins the name of another.\<close>

definition no_dash_prefix :: "string list \<Rightarrow> bool" where
  "no_dash_prefix bs \<longleftrightarrow> (\<forall>b\<in>set bs. \<forall>b'\<in>set bs. take (length b + 1) b' \<noteq> b @ ''-'')"

lemma less_extend: "x < y \<Longrightarrow> take (length x) y \<noteq> x \<Longrightarrow> x @ u < y @ (w :: string)"
proof (induction x arbitrary: y)
  case (Cons a x)
  then obtain b y' where "y = b # y'" by (cases y) auto
  then show ?case using Cons by auto
qed simp

lemma triples_apart:
  assumes "no_dash_prefix bs" and "b \<in> set bs" and "b' \<in> set bs" and "b @ ''-'' < b' @ ''-''" and "k \<in> set (node_triple b)" and "k' \<in> set (node_triple b')"
  shows "k < k'"
proof -
  have "take (length (b @ ''-'')) (b' @ ''-'') \<noteq> b @ ''-''"
  proof
    assume t: "take (length (b @ ''-'')) (b' @ ''-'') = b @ ''-''"
    then have "length b \<le> length b'" by (metis add_le_cancel_right length_append length_take min.cobounded2 min.commute nle_le)
    moreover have "length b \<noteq> length b'" using t assms(4) by auto
    ultimately have "take (length b + 1) b' = b @ ''-''" using t by simp
    then show False using assms(1-3) by (auto simp: no_dash_prefix_def)
  qed
  from less_extend [OF assms(4) this] have "(b @ ''-'') @ u < (b' @ ''-'') @ w" for u w .
  then show ?thesis using assms(5,6) by (auto simp: node_triple_def)
qed

lemma triple_sorted: "sorted (node_triple b)"
proof -
  have e: "b @ u < b @ w \<longleftrightarrow> u < (w :: string)" for u w by (induction b) auto
  then show ?thesis by (simp add: node_triple_def less_imp_le)
qed

lemma sort_keys:
  assumes "no_dash_prefix bs" and "distinct bs" and "distinct ks" and "set ks = set (concat (map cert_keys bs))"
  shows "sort ks = concat (map node_triple (sort_key (\<lambda>b. b @ ''-'') bs))"
proof (rule sorted_distinct_set_unique)
  let ?bs = "sort_key (\<lambda>b. b @ ''-'') bs"
  have s: "sorted (map (\<lambda>b. b @ ''-'') ?bs)" by simp
  have "sorted (concat (map node_triple cs))" if "sorted (map (\<lambda>b. b @ ''-'') cs)" "distinct cs" "set cs \<subseteq> set bs" for cs
    using that
  proof (induction cs)
    case (Cons c cs)
    have "k \<le> k'" if k: "k \<in> set (node_triple c)" "k' \<in> set (concat (map node_triple cs))" for k k'
    proof -
      obtain c' where c': "c' \<in> set cs" "k' \<in> set (node_triple c')" using k(2) by auto
      then have "c @ ''-'' \<le> c' @ ''-''" "c \<noteq> c'" using Cons.prems by auto
      then have "c @ ''-'' < c' @ ''-''" by (metis append_same_eq order_le_imp_less_or_eq)
      then have "k < k'" using triples_apart [OF assms(1), of c c'] k(1) c' Cons.prems(3) by auto
      then show ?thesis by simp
    qed
    then show ?case using Cons triple_sorted by (auto simp: sorted_append)
  qed simp
  then show "sorted (concat (map node_triple ?bs))" using s assms(2) by simp
  show "distinct (concat (map node_triple ?bs))" using assms(2) by (intro distinct_triples) simp
  show "set (sort ks) = set (concat (map node_triple ?bs))" using assms(4) by (simp add: set_node_triple)
qed (use assms(3) in simp_all)

text \<open>C9: the packing keeps what belongs to a node together.  When the data has the CA, the certificate and the key of each of some nodes, and
  no name of a node followed by a dash begins the name of another, the secrets hold the nodes in groups, every node in exactly one secret with
  its three entries, and a secret is within the maximal size unless it holds a single node.\<close>

theorem createSecretsDataStructure_complete:
  assumes "gomap_wf certsData" and "distinct bs" and "fst ` set certsData = set (concat (map cert_keys bs))" and "no_dash_prefix bs"
  shows "\<exists>groups. createSecretsDataStructure secretMaxSize certsData = Some (map (node_entries certsData) groups)
    \<and> distinct (concat groups) \<and> set (concat groups) = set bs
    \<and> (\<forall>g\<in>set groups. length g = 1 \<or> g \<noteq> [] \<and> secret_size (node_entries certsData g) \<le> secretMaxSize)"
proof -
  let ?bs = "sort_key (\<lambda>b. b @ ''-'') bs"
  have keys: "sort (map fst certsData) = concat (map node_triple ?bs)"
    using sort_keys [OF assms(4,2), of "map fst certsData"] assms(1,3) by (simp add: gomap_wf_def)
  have l: "length (concat (map node_triple cs)) = 3 * length cs" for cs by (induction cs) (auto simp: node_triple_def)
  obtain ci where ci: "pack_secrets secretMaxSize certsData (concat (map node_triple ?bs)) [] secretMaxSize = Some ci" "packed secretMaxSize ci"
    using pack_secrets_ok [of secretMaxSize "[]" secretMaxSize "concat (map node_triple ?bs)" certsData] distinct_triples [of ?bs] assms(2)
    by (auto simp: pack_ok_def packed_def l)
  obtain gs where gs: "ci = map (node_entries certsData) gs" "concat gs = ?bs"
    using pack_groups [of secretMaxSize certsData ?bs "[]" secretMaxSize ci] ci(1) assms(2) by auto
  have "length g = 1 \<or> g \<noteq> [] \<and> secret_size (node_entries certsData g) \<le> secretMaxSize" if "g \<in> set gs" for g
    using ci(2) that gs(1) by (auto simp: packed_def node_entries_def l)
  moreover have "distinct (concat gs)" "set (concat gs) = set bs" using gs(2) assms(2) by simp_all
  moreover have "createSecretsDataStructure secretMaxSize certsData = Some (map (node_entries certsData) gs)"
    using ci(1) gs(1) by (simp only: createSecretsDataStructure_def keys)
  ultimately show ?thesis by blast
qed

text \<open>Otherwise the entries of a node can be torn apart: the keys are sorted and taken three at a time, and those of \<open>h-d\<close> come between those of
  \<open>h\<close>.\<close>

lemma nodes_torn_apart:
  "createSecretsDataStructure 25
     (map (\<lambda>k. (k, [])) (concat (map cert_keys [''h'', ''h-d''])))
   = Some [[(''h-ca.crt'', []), (''h-d-ca.crt'', []), (''h-d-tls.crt'', [])], [(''h-d-tls.key'', []), (''h-tls.crt'', []), (''h-tls.key'', [])]]"
  by code_simp

lemma distinct_cert_keys: "distinct (cert_keys b)"
  by (simp add: cert_keys_def)

lemma node_keys_length: "node_keys d \<Longrightarrow> 3 dvd length d"
proof -
  assume "node_keys d"
  then obtain bs where d: "gomap_wf d" "distinct bs" "fst ` set d = set (concat (map cert_keys bs))"
    by (auto simp: node_keys_def)
  have "distinct (concat (map cert_keys bs))"
    using d(2)
  proof (induction bs)
    case (Cons b bs)
    have "set (cert_keys b) \<inter> set (cert_keys b') = {}" if "b' \<in> set bs" for b'
      using that Cons.prems cert_keys_disjoint by (metis distinct.simps(2))
    then show ?case using Cons by (auto simp: distinct_cert_keys)
  qed simp
  then have "card (fst ` set d) = length (concat (map cert_keys bs))" using d(3) distinct_card by metis
  moreover have "card (fst ` set d) = length d"
    using d(1) by (simp add: gomap_wf_def distinct_card flip: set_map)
  moreover have "length (concat (map cert_keys bs)) = 3 * length bs"
    by (induction bs) (auto simp: cert_keys_def)
  ultimately show ?thesis by simp
qed

lemma node_keys_step:
  assumes "node_keys d" and "map fst kvs = cert_keys b"
  shows "node_keys (gomap_copy_into kvs d)"
proof -
  obtain bs where d: "gomap_wf d" "distinct bs" "fst ` set d = set (concat (map cert_keys bs))"
    using assms(1) by (auto simp: node_keys_def)
  have wf: "gomap_wf kvs" using assms(2) distinct_cert_keys by (simp add: gomap_wf_def)
  have "fst ` set (gomap_copy_into kvs d) = fst ` set d \<union> set (cert_keys b)"
    using map_of_copy_into [OF wf, of d] assms(2)
    by (metis dom_map_add dom_map_of_conv_image_fst image_set sup_commute)
  then have "fst ` set (gomap_copy_into kvs d) = set (concat (map cert_keys (if b \<in> set bs then bs else b # bs)))"
    using d(3) by auto
  then show ?thesis using d(1,2) unfolding node_keys_def by (metis distinct.simps(2) gomap_wf_copy_into)
qed

lemma node_cert_keys:
  "node_cert cmg ns svc key cert node = Inr (Inr kvs) \<Longrightarrow> \<exists>b. map fst kvs = cert_keys b"
  by (auto simp: node_cert_def Let_def cert_keys_def split: sum.splits option.splits)

lemma node_certs_keys:
  "node_certs cmg ns svc key cert nodes d = Inr (Inr d') \<Longrightarrow> node_keys d \<Longrightarrow> node_keys d'"
proof (induction cmg ns svc key cert nodes d rule: node_certs.induct)
  case (2 cmg ns svc key cert node nodes d)
  then obtain kvs where kvs: "node_cert cmg ns svc key cert node = Inr (Inr kvs)"
    by (auto split: sum.splits)
  then obtain b where "map fst kvs = cert_keys b" using node_cert_keys by blast
  then have "node_keys (gomap_copy_into kvs d)" using 2 node_keys_step by blast
  then show ?case using 2 kvs by auto
qed simp

lemma node_keys_Nil: "node_keys []"
  unfolding node_keys_def by (intro conjI exI [of _ "[]"]) simp_all

lemma node_certs_pack:
  assumes "node_certs cmg ns svc key cert nodes [] = Inr (Inr d)"
  shows "\<exists>ci. createSecretsDataStructure mx d = Some ci \<and>
    concat ci = map (entry d) (sort (map fst d)) \<and> packed mx ci"
proof -
  have k: "node_keys d" using node_certs_keys [OF assms node_keys_Nil] .
  then have "gomap_wf d" "3 dvd length d" using node_keys_length by (auto simp: node_keys_def)
  then show ?thesis
    using pack_secrets_ok [of mx "[]" mx "sort (map fst d)" d]
    by (simp add: createSecretsDataStructure_def pack_ok_def packed_def gomap_wf_def)
qed

subsection \<open>EnsureTLSCerts\<close>

text \<open>\<open>EnsureTLSCerts\<close> never panics: the data it collects always has three entries per node, so that
  the loop of \<open>createSecretsDataStructure\<close> neither runs over the end of the keys nor writes through
  its \<open>nil\<close> pointer.\<close>

theorem EnsureTLSCerts_no_panic:
  "EnsureTLSCerts cmg cleanup sha224hex ns svc certKey \<noteq> None"
  using node_certs_pack [of cmg ns svc certKey "gomap_get empty_cert (unnil (svc_TLSCerts svc)) certKey" "ns_Nodes ns" _ "ns_SecretMaxSize ns"]
  by (auto simp: EnsureTLSCerts_def Let_def split: sum.splits option.splits)

lemma write_secrets_done: "write_secrets cmg n ss = (w, Inr Done) \<Longrightarrow> w = ss"
  by (induction cmg n ss arbitrary: w rule: write_secrets.induct)
    (auto split: sum.splits bool.splits prod.splits)

lemma GetTLSNodeCert_not_done: "GetTLSNodeCert cmg n i l c hs ips us \<noteq> Inr (Inl Done)"
  by (simp add: GetTLSNodeCert_def Let_def split: sum.splits option.splits prod.splits)

lemma node_cert_not_done: "node_cert cmg ns svc key cert node \<noteq> Inr (Inl Done)"
  unfolding node_cert_def Let_def
  by (auto simp only: GetTLSNodeCert_not_done sum.simps split: sum.splits option.splits)

lemma node_certs_not_done: "node_certs cmg ns svc key cert nodes d \<noteq> Inr (Inl Done)"
  by (induction cmg ns svc key cert nodes d rule: node_certs.induct)
    (use node_cert_not_done in \<open>auto split: sum.splits\<close>)

lemma EnsureTLSCerts_done_secrets:
  assumes "EnsureTLSCerts cmg cleanup sha224hex ns svc certKey = Some (w, Inr Done)"
  obtains d ci where
    "node_certs cmg ns svc certKey (gomap_get empty_cert (unnil (svc_TLSCerts svc)) certKey) (ns_Nodes ns) [] = Inr (Inr d)"
    and "createSecretsDataStructure (ns_SecretMaxSize ns) d = Some ci"
    and "w = map (cert_secret sha224hex ns (svc_Name svc) certKey ci) [0..<length ci]"
  using assms node_certs_not_done write_secrets_done that
  by (auto simp: EnsureTLSCerts_def Let_def split: sum.splits option.splits if_splits)

lemma cert_secret_facts:
  assumes "w = map (cert_secret sha224hex ns n certKey ci) [0..<length ci]"
  shows "map sec_Data w = ci"
    and "map sec_Name w = map (GetServiceCertsSecretName sha224hex ns n certKey) [0..<length w]"
    and "list_all (\<lambda>s. map_of (sec_Labels s) ''numberOfSecrets'' = Some (Itoa (length w))) w"
    and "i < length w \<Longrightarrow> map_of (sec_Labels (w ! i)) ''secretNumber'' = Some (Itoa i)"
  using assms by (simp_all add: cert_secret_def comp_def list_all_iff map_nth)

text \<open>What is expected of a node: its name on the control plane network is \<open>base\<close>, and \<open>sec\<close> is the secret of the certificate that the
  issuer of the service has issued for it.\<close>

definition node_base :: "dp_nodeset \<Rightarrow> string \<times> dp_node \<Rightarrow> string option" where
  "node_base ns node = map_of (gomap_get [] (ns_AllHostnames ns) (nd_HostName (snd node))) CtlPlaneNetwork"

definition certified :: "certmanager \<Rightarrow> dp_nodeset \<Rightarrow> dp_service \<Rightarrow> string \<Rightarrow> service_cert \<Rightarrow> string \<times> dp_node \<Rightarrow> string \<Rightarrow> secret \<Rightarrow> bool" where
  "certified cmg ns svc certKey cert node base sec \<longleftrightarrow>
     node_base ns node = Some base
     \<and> (\<exists>issuer req. cmg_GetIssuerByLabels cmg (ns_Namespace ns)
            [(if sc_Issuer cert = [] then cmg_RootCAIssuerInternalLabel cmg else sc_Issuer cert, [])] = Inr issuer
          \<and> cmg_EnsureCert cmg req = Inr (Done, sec) \<and> cr_IssuerName req = is_Name issuer
          \<and> cr_CertName req = svc_Name svc @ ''-'' @ certKey @ ''-'' @ nd_HostName (snd node)
          \<and> cr_CommonName req = takeWhile (\<lambda>c. c \<noteq> CHR ''.'') base)"

text \<open>The key, the certificate and the CA under the name of the node.\<close>

definition cert_entries :: "string \<Rightarrow> secret \<Rightarrow> (string \<times> string) list" where
  "cert_entries base sec = map (\<lambda>part. (base @ ''-'' @ part, gomap_get [] (sec_Data sec) part)) [''tls.key'', ''tls.crt'', ''ca.crt'']"

lemma cert_entries_keys: "map fst (cert_entries base sec) = cert_keys base"
  by (simp add: cert_entries_def cert_keys_def)

lemma GetTLSNodeCert_issued:
  assumes "GetTLSNodeCert cmg n issuer l c hs ips us = Inr (Inr sec)"
  shows "\<exists>req. cmg_EnsureCert cmg req = Inr (Done, sec) \<and> cr_IssuerName req = is_Name issuer \<and> cr_CertName req = n \<and> cr_CommonName req = c"
  using assms by (fastforce simp: GetTLSNodeCert_def Let_def split: sum.splits option.splits prod.splits if_splits)

lemma node_cert_certified:
  assumes "node_cert cmg ns svc key cert node = Inr (Inr kvs)"
  obtains base sec where "certified cmg ns svc key cert node base sec" and "kvs = cert_entries base sec"
  using assms
  by (auto simp: node_cert_def Let_def certified_def node_base_def cert_entries_def dest!: GetTLSNodeCert_issued
      split: sum.splits option.splits)

lemma node_certs_frame:
  assumes "node_certs cmg ns svc key cert nodes d = Inr (Inr d')"
    and "\<And>node base. node \<in> set nodes \<Longrightarrow> node_base ns node = Some base \<Longrightarrow> k \<notin> set (cert_keys base)"
  shows "map_of d' k = map_of d k"
  using assms
proof (induction cmg ns svc key cert nodes d rule: node_certs.induct)
  case (2 cmg ns svc key cert node nodes d)
  then obtain kvs where kvs: "node_cert cmg ns svc key cert node = Inr (Inr kvs)" by (auto split: sum.splits)
  obtain base sec where b: "certified cmg ns svc key cert node base sec" "kvs = cert_entries base sec" using node_cert_certified [OF kvs] .
  have "k \<notin> set (map fst kvs)" using "2.prems"(2) [of node base] b by (simp add: certified_def cert_entries_keys)
  moreover have "gomap_wf kvs" using b(2) by (simp add: gomap_wf_def cert_entries_keys distinct_cert_keys)
  ultimately have "map_of (gomap_copy_into kvs d) k = map_of d k"
    using map_of_eq_None_iff [of kvs k] by (simp add: map_of_copy_into map_add_def)
  then show ?case using 2 kvs by auto
qed simp

lemma node_certs_entries:
  assumes "node_certs cmg ns svc key cert nodes d = Inr (Inr d')" and "distinct (map (node_base ns) nodes)" and "node \<in> set nodes"
  shows "\<exists>base sec. certified cmg ns svc key cert node base sec \<and> (\<forall>kv\<in>set (cert_entries base sec). map_of d' (fst kv) = Some (snd kv))"
  using assms
proof (induction cmg ns svc key cert nodes d rule: node_certs.induct)
  case (2 cmg ns svc key cert n nodes d)
  then obtain kvs where kvs: "node_cert cmg ns svc key cert n = Inr (Inr kvs)"
    and rest: "node_certs cmg ns svc key cert nodes (gomap_copy_into kvs d) = Inr (Inr d')" by (auto split: sum.splits)
  obtain base sec where b: "certified cmg ns svc key cert n base sec" "kvs = cert_entries base sec" using node_cert_certified [OF kvs] .
  show ?case
  proof (cases "node = n")
    case True
    have wf: "gomap_wf kvs" using b(2) by (simp add: gomap_wf_def cert_entries_keys distinct_cert_keys)
    have "map_of d' (fst kv) = Some (snd kv)" if kv: "kv \<in> set kvs" for kv
    proof -
      have m: "map_of kvs (fst kv) = Some (snd kv)" using wf kv by (intro map_of_is_SomeI) (auto simp: gomap_wf_def)
      have "fst kv \<in> set (cert_keys base)" using kv b(2) by (metis cert_entries_keys image_eqI image_set)
      moreover have "base' \<noteq> base" if "m \<in> set nodes" "node_base ns m = Some base'" for m base'
        using that "2.prems"(2) b(1) unfolding certified_def by (metis distinct.simps(2) image_eqI image_set list.simps(9))
      ultimately have "map_of d' (fst kv) = map_of (gomap_copy_into kvs d) (fst kv)"
        using cert_keys_disjoint by (intro node_certs_frame [OF rest]) blast
      also have "\<dots> = Some (snd kv)"
        using wf m by (simp add: map_of_copy_into map_add_def)
      finally show ?thesis .
    qed
    then show ?thesis using True b by blast
  next
    case False
    then show ?thesis using "2.IH" [OF kvs] rest "2.prems" by auto
  qed
qed simp

text \<open>C8: when \<open>EnsureTLSCerts\<close> finishes without a requeue, the secrets it has seen in place are numbered from 0, in name and label, each
  labelled with their number.  If the names of the nodes on the control plane network differ, they hold for every node the private key, the
  certificate and the CA of a certificate that the issuer of the service has issued for it, under the keys of this node; and they hold no other
  key, and none twice.\<close>

theorem EnsureTLSCerts_done:
  assumes "EnsureTLSCerts cmg cleanup sha224hex ns svc certKey = Some (w, Inr Done)" and "distinct (map (node_base ns) (ns_Nodes ns))"
  shows "(\<forall>node\<in>set (ns_Nodes ns). \<exists>base sec.
      certified cmg ns svc certKey (gomap_get empty_cert (unnil (svc_TLSCerts svc)) certKey) node base sec
      \<and> set (cert_entries base sec) \<subseteq> set (concat (map sec_Data w)))
    \<and> (\<forall>k\<in>fst ` set (concat (map sec_Data w)). \<exists>node\<in>set (ns_Nodes ns). \<exists>base. node_base ns node = Some base \<and> k \<in> set (cert_keys base))
    \<and> distinct (map fst (concat (map sec_Data w)))
    \<and> (\<forall>i<length w. sec_Name (w ! i) = GetServiceCertsSecretName sha224hex ns (svc_Name svc) certKey i
        \<and> map_of (sec_Labels (w ! i)) ''secretNumber'' = Some (Itoa i)
        \<and> map_of (sec_Labels (w ! i)) ''numberOfSecrets'' = Some (Itoa (length w)))"
proof (intro conjI)
  let ?cert = "gomap_get empty_cert (unnil (svc_TLSCerts svc)) certKey"
  obtain d ci where d: "node_certs cmg ns svc certKey ?cert (ns_Nodes ns) [] = Inr (Inr d)"
    and ci: "createSecretsDataStructure (ns_SecretMaxSize ns) d = Some ci"
    and w: "w = map (cert_secret sha224hex ns (svc_Name svc) certKey ci) [0..<length ci]"
    using EnsureTLSCerts_done_secrets [OF assms(1)] .
  note F = cert_secret_facts [OF w]
  have all: "concat (map sec_Data w) = map (entry d) (sort (map fst d))"
    using node_certs_pack [OF d, of "ns_SecretMaxSize ns"] ci F(1) by auto
  have wf: "gomap_wf d" using node_certs_keys [OF d node_keys_Nil] by (simp add: node_keys_def)
  show "\<forall>node\<in>set (ns_Nodes ns). \<exists>base sec. certified cmg ns svc certKey ?cert node base sec
      \<and> set (cert_entries base sec) \<subseteq> set (concat (map sec_Data w))"
  proof
    fix node assume "node \<in> set (ns_Nodes ns)"
    from node_certs_entries [OF d assms(2) this] obtain base sec where b: "certified cmg ns svc certKey ?cert node base sec"
      "\<forall>kv\<in>set (cert_entries base sec). map_of d (fst kv) = Some (snd kv)" by blast
    have "kv \<in> set (concat (map sec_Data w))" if "kv \<in> set (cert_entries base sec)" for kv
    proof -
      have m: "map_of d (fst kv) = Some (snd kv)" using b(2) that by blast
      then have "entry d (fst kv) = kv" "fst kv \<in> fst ` set d" by (auto simp: entry_def gomap_get_def dest: map_of_SomeD)
      then show ?thesis unfolding all by (metis image_eqI image_set set_sort)
    qed
    then show "\<exists>base sec. certified cmg ns svc certKey ?cert node base sec \<and> set (cert_entries base sec) \<subseteq> set (concat (map sec_Data w))"
      using b(1) by blast
  qed
  have keys: "map fst (concat (map sec_Data w)) = sort (map fst d)" unfolding all by (simp add: comp_def entry_def)
  show "\<forall>k\<in>fst ` set (concat (map sec_Data w)). \<exists>node\<in>set (ns_Nodes ns). \<exists>base. node_base ns node = Some base \<and> k \<in> set (cert_keys base)"
  proof (rule ccontr)
    assume "\<not> ?thesis"
    then obtain k where k: "k \<in> fst ` set (concat (map sec_Data w))"
      "\<And>node base. node \<in> set (ns_Nodes ns) \<Longrightarrow> node_base ns node = Some base \<Longrightarrow> k \<notin> set (cert_keys base)" by blast
    have "k \<in> fst ` set d" using k(1) keys by (metis image_set set_sort)
    moreover have "map_of d k = map_of [] k" using k(2) by (rule node_certs_frame [OF d])
    ultimately show False by (simp add: map_of_eq_None_iff)
  qed
  show "distinct (map fst (concat (map sec_Data w)))" unfolding keys using wf by (simp add: gomap_wf_def)
  show "\<forall>i<length w. sec_Name (w ! i) = GetServiceCertsSecretName sha224hex ns (svc_Name svc) certKey i
      \<and> map_of (sec_Labels (w ! i)) ''secretNumber'' = Some (Itoa i)
      \<and> map_of (sec_Labels (w ! i)) ''numberOfSecrets'' = Some (Itoa (length w))"
    using F(3,4) by (auto simp: w cert_secret_def)
qed

subsection \<open>Clean-up\<close>

definition stale :: "string list \<Rightarrow> labelled \<Rightarrow> bool" where
  "stale hostnames x = (case map_of (lo_Labels x) HostnameLabel of None \<Rightarrow> False | Some h \<Rightarrow> h \<notin> set hostnames)"

lemma delete_stale_prefix:
  "\<exists>rest. map lo_Name (filter (stale hostnames) objs) = fst (delete_stale what del hostnames objs) @ rest \<and>
     (snd (delete_stale what del hostnames objs) = None \<longrightarrow> rest = [])"
proof (induction objs)
  case (Cons x objs)
  obtain ns e where r: "delete_stale what del hostnames objs = (ns, e)" by fastforce
  show ?case
  proof (cases "stale hostnames x")
    case False
    then show ?thesis using Cons by (auto simp: stale_def split: option.splits)
  next
    case True
    then obtain h where h: "map_of (lo_Labels x) HostnameLabel = Some h" "h \<notin> set hostnames"
      by (auto simp: stale_def split: option.splits)
    show ?thesis
    proof (cases "del (lo_Name x)")
      case None
      then show ?thesis using Cons True h r by simp
    next
      case (Some err)
      then show ?thesis using Cons True h r by (cases "IsNotFound err") simp_all
    qed
  qed
qed simp

text \<open>The clean-up asks for the deletion of certificates and secrets of the service only when their
  host is no longer a host of the node set, in the order of the lists, and of all of them unless it
  reports an error.\<close>

theorem cleanupStaleCertificates_deletes:
  assumes "ce_listCerts env (cert_selector n s k) = Inr certs" and "ce_listSecrets env (cert_selector n s k) = Inr secrets"
    and "cleanupStaleCertificates env n hostnames s k = ((dc, ds), err)"
  shows "(\<exists>r. map lo_Name (filter (stale hostnames) certs) = dc @ r \<and> (err = None \<longrightarrow> r = [])) \<and>
    (\<exists>r. map lo_Name (filter (stale hostnames) secrets) = ds @ r \<and> (err = None \<longrightarrow> r = []))"
  using assms delete_stale_prefix [of hostnames certs "''certificate''" "ce_deleteCert env"]
    delete_stale_prefix [of hostnames secrets "''certificate secret''" "ce_deleteSecret env"]
  by (auto simp: cleanupStaleCertificates_def Let_def split: prod.splits option.splits)

subsection \<open>Concrete certificates\<close>

definition two_nodes :: certs_data where
  "two_nodes = map (\<lambda>k. (k, ''x'')) (concat (map cert_keys [''b'', ''a'']))"

theorem createSecretsDataStructure_complete_witness:
  "\<exists>groups. createSecretsDataStructure 30 two_nodes = Some (map (node_entries two_nodes) groups) \<and> set (concat groups) = {''a'', ''b''}"
proof -
  have "gomap_wf two_nodes" "fst ` set two_nodes = set (concat (map cert_keys [''b'', ''a'']))" "no_dash_prefix [''b'', ''a'']"
    by (auto simp: two_nodes_def gomap_wf_def cert_keys_def no_dash_prefix_def)
  from createSecretsDataStructure_complete [OF this(1) _ this(2,3), of 30] show ?thesis by auto
qed

definition sample_certmanager :: certmanager where
  "sample_certmanager = \<lparr>cmg_CertDefaultDuration = ''43800h'', cmg_CertDurationAnnotation = ''duration'',
     cmg_CertRenewBeforeAnnotation = ''renew'', cmg_RootCAIssuerInternalLabel = ''internal'',
     cmg_ParseDuration = (\<lambda>_. Inr 1), cmg_GetIssuerByLabels = (\<lambda>_ _. Inr \<lparr>is_Name = ''ca'', is_Annotations = []\<rparr>),
     cmg_EnsureCert = (\<lambda>r. Inr (Done, \<lparr>sec_Name = cr_CertName r, sec_Namespace = [], sec_Labels = [], sec_Data = []\<rparr>)),
     cmg_CreateOrPatchSecret = (\<lambda>_. Inr False)\<rparr>"

definition sample_cleanup :: cleanup_env where
  "sample_cleanup = \<lparr>ce_listCerts = (\<lambda>_. Inr [\<lparr>lo_Name = ''old'', lo_Labels = [(HostnameLabel, ''gone'')]\<rparr>]),
     ce_listSecrets = (\<lambda>_. Inr []), ce_deleteCert = (\<lambda>_. None), ce_deleteSecret = (\<lambda>_. None)\<rparr>"

definition tls_service :: dp_service where
  "tls_service = (sample_service ''nova'' False)\<lparr>svc_TLSCerts :=
     Some [(''default'', empty_cert\<lparr>sc_Contents := [''dnsnames''], sc_Networks := [''CtlPlane'']\<rparr>)]\<rparr>"

definition tls_nodeset :: dp_nodeset where
  "tls_nodeset = (sample_nodeset ''edpm'' [''nova''])\<lparr>
     ns_TLSEnabled := True,
     ns_Nodes := [(''n0'', sample_node ''h0'')],
     ns_AllHostnames := [(''h0'', [(''ctlplane'', ''h0.x'')])]\<rparr>"

definition tls_secret :: secret where
  "tls_secret = \<lparr>sec_Name = ''edpm-nova-default-certs-0'', sec_Namespace = ''openstack'',
     sec_Labels = [(''numberOfSecrets'', ''1''), (''secretNumber'', ''0'')],
     sec_Data = [(''h0.x-ca.crt'', []), (''h0.x-tls.crt'', []), (''h0.x-tls.key'', [])]\<rparr>"

lemma tls_secret_ensured:
  "EnsureTLSCerts sample_certmanager sample_cleanup id tls_nodeset tls_service ''default'' = Some ([tls_secret], Inr Done)"
proof -
  let ?d = "[(''h0.x-tls.key'', []), (''h0.x-tls.crt'', []), (''h0.x-ca.crt'', [])]"
  have n: "node_certs sample_certmanager tls_nodeset tls_service ''default'' (gomap_get empty_cert (unnil (svc_TLSCerts tls_service)) ''default'')
      (ns_Nodes tls_nodeset) [] = Inr (Inr ?d)"
    by (simp add: node_cert_def GetTLSNodeCert_def sample_certmanager_def tls_nodeset_def tls_service_def sample_nodeset_def
        sample_service_def gomap_get_def gomap_copy_into_def CtlPlaneNetwork_def Let_def)
  have k: "createSecretsDataStructure 1000 ?d = Some [sec_Data tls_secret]"
    by (simp add: createSecretsDataStructure_def tls_secret_def entry_def entry_size_def gomap_get_def)
  have c: "cert_secret id tls_nodeset (svc_Name tls_service) ''default'' [sec_Data tls_secret] 0 = tls_secret"
    by (simp add: cert_secret_def tls_secret_def GetServiceCertsSecretName_def DNS1123SubdomainMaxLength_def Itoa.simps char_of_def bit_iff_odd
        tls_nodeset_def sample_nodeset_def tls_service_def sample_service_def)
  have "ns_SecretMaxSize tls_nodeset = 1000" "ns_ConfigHash tls_nodeset = ns_DeployedConfigHash tls_nodeset"
    "cmg_CreateOrPatchSecret sample_certmanager = (\<lambda>_. Inr False)"
    by (simp_all add: tls_nodeset_def sample_nodeset_def sample_certmanager_def)
  then show ?thesis using n k c by (simp add: EnsureTLSCerts_def Let_def)
qed

theorem EnsureTLSCerts_done_witness:
  "map_of (sec_Labels tls_secret) ''secretNumber'' = Some (Itoa 0) \<and> distinct (map fst (sec_Data tls_secret))"
proof -
  have "distinct (map (node_base tls_nodeset) (ns_Nodes tls_nodeset))" by (simp add: tls_nodeset_def)
  from EnsureTLSCerts_done [OF tls_secret_ensured this] show ?thesis by simp
qed

theorem cleanupStaleCertificates_deletes_witness:
  "map lo_Name (filter (stale [''here'']) [\<lparr>lo_Name = ''old'', lo_Labels = [(HostnameLabel, ''gone'')]\<rparr>]) = [''old'']"
  using cleanupStaleCertificates_deletes [of sample_cleanup "''edpm''" "''nova''" "''default''"
      "[\<lparr>lo_Name = ''old'', lo_Labels = [(HostnameLabel, ''gone'')]\<rparr>]" "[]" "[''here'']" "[''old'']" "[]" None]
  by (simp add: cleanupStaleCertificates_def sample_cleanup_def)

end
