(* ===== verification/Job_Laws.thy ===== *)
theory Job_Laws
  imports Ansible_Jobs
begin

text \<open>
  Laws of the Ansible jobs: the name of a job is a valid label, a submitted job carries the labels by
  which it is looked up, a finished job is not run again, and an execution mounts the keys and
  inventories of its own node set only, unless its service is deployed for all node sets.
\<close>

subsection \<open>Names and labels\<close>

lemma length_trim_right: "length (trim_right C s) \<le> length s"
  by (simp add: trim_right_def) (metis length_dropWhile_le length_rev)

text \<open>C11: the name of an execution is never longer than a DNS label, whatever the names of service,
  deployment and node set.\<close>

theorem execution_name_is_label:
  "length (fst (GetAnsibleExecutionNameAndLabels sha256hex service deploymentName nodeSetName)) \<le> DNS1123LabelMaxLength"
proof -
  have "length (trim_right C (take 54 s)) \<le> 54" for C s
    using length_trim_right [of C "take 54 s"] by simp
  then have "length (trim_right C (take 54 s) @ ''-'' @ take 8 t) \<le> 63" for C s t
    using add_mono [of "length (trim_right C (take 54 s))" 54 "length (take 8 t)" 8] by simp
  then show ?thesis
    by (simp add: GetAnsibleExecutionNameAndLabels_def Let_def DNS1123LabelMaxLength_def del: length_append append.simps)
qed

lemma labels_found:
  assumes "gomap_wf labels" and "map_of labels k = Some v"
  shows "map_of (labelsForOpenStackAnsibleEE labels) k = Some v"
  using assms by (simp add: labelsForOpenStackAnsibleEE_def gomap_simps)

lemma JobForOpenStackAnsibleEE_keeps:
  assumes "JobForOpenStackAnsibleEE env a = Inr job"
  shows "jd_Name job = ej_Name a \<and> jd_Namespace job = ej_Namespace a \<and>
    jd_Labels job = labelsForOpenStackAnsibleEE (ej_Labels a)"
  using assms
  by (auto simp: JobForOpenStackAnsibleEE_def Let_def setRunnerEnvVar_def addMounts_def addEnvFrom_def
      split: option.splits sum.splits if_splits)

lemma FormatAEECmdLineArguments_keeps [simp]:
  "ej_Name (FormatAEECmdLineArguments aeeSpec a) = ej_Name a"
  "ej_Namespace (FormatAEECmdLineArguments aeeSpec a) = ej_Namespace a"
  "ej_Labels (FormatAEECmdLineArguments aeeSpec a) = ej_Labels a"
  by (simp_all add: FormatAEECmdLineArguments_def Let_def)

lemma FormatAEEExtraVars_keeps [simp]:
  "ej_Name (fst (FormatAEEExtraVars env service dep n aeeSpec a)) = ej_Name a"
  "ej_Namespace (fst (FormatAEEExtraVars env service dep n aeeSpec a)) = ej_Namespace a"
  "ej_Labels (fst (FormatAEEExtraVars env service dep n aeeSpec a)) = ej_Labels a"
  by (simp_all add: FormatAEEExtraVars_def Let_def)

lemma BuildAeeJobSpec_keeps:
  "ej_Name (fst (BuildAeeJobSpec env service dep n aeeSpec a)) = ej_Name a \<and>
   ej_Namespace (fst (BuildAeeJobSpec env service dep n aeeSpec a)) = ej_Namespace a \<and>
   ej_Labels (fst (BuildAeeJobSpec env service dep n aeeSpec a)) = ej_Labels a"
  by (simp add: BuildAeeJobSpec_def DetermineAeeImage_def Let_def case_prod_beta)

lemma execution_job_keeps:
  assumes "execution_job env service ssh invs n dep eid annotations aeeSpec = (a, aeeSpec')"
  shows "ej_Name a = fst eid \<and> ej_Namespace a = dep_Namespace dep \<and> ej_Labels a = snd eid"
  using assms BuildAeeJobSpec_keeps by (auto simp: execution_job_def Let_def case_prod_beta new_ee_job_def)

lemma submit_job_spec: "submit_job env a aeeSpec dep = (j, aeeSpec', r) \<Longrightarrow> aeeSpec' = aeeSpec"
  by (auto simp: submit_job_def split: sum.splits option.splits)

lemma create_execution_job:
  assumes "create_execution env service ssh invs n aeeSpec dep eid = (Some job, aeeSpec', dep', err)"
  obtains a annotations where "execution_job env service ssh invs n dep eid annotations aeeSpec = (a, aeeSpec')"
    and "submit_job env a aeeSpec' (if unnil (aee_ExtraVars aeeSpec) \<noteq> []
       then dep\<lparr>dep_AnsibleExtraVars := aee_ExtraVars aeeSpec'\<rparr> else dep) = (Some job, aeeSpec', dep', err)"
proof -
  obtain annotations a s where "execution_job env service ssh invs n dep eid annotations aeeSpec = (a, s)"
      "submit_job env a s (if unnil (aee_ExtraVars aeeSpec) \<noteq> []
         then dep\<lparr>dep_AnsibleExtraVars := aee_ExtraVars s\<rparr> else dep) = (Some job, aeeSpec', dep', err)"
    using assms unfolding create_execution_def by (auto simp del: split_paired_Ex split: sum.splits prod.splits)
  then show ?thesis using that submit_job_spec by metis
qed

text \<open>A job that \<open>AnsibleExecution\<close> submits has the name and carries every label by which
  \<open>GetAnsibleExecution\<close> later looks for it.\<close>

theorem submitted_job_is_found:
  assumes "AnsibleExecution env service ssh invs n aeeSpec dep = (Some job, aeeSpec', dep', err)"
    and "GetAnsibleExecutionNameAndLabels (je_sha256hex env) service (dep_Name dep) n = (name, selector)"
    and "map_of selector k = Some v"
  shows "jd_Name job = name \<and> jd_Namespace job = dep_Namespace dep \<and> map_of (jd_Labels job) k = Some v"
proof -
  have wf: "gomap_wf selector"
    using assms(2) by (auto simp: GetAnsibleExecutionNameAndLabels_def Let_def gomap_wf_def)
  have "create_execution env service ssh invs n aeeSpec dep (name, selector) = (Some job, aeeSpec', dep', err)"
    using assms(1,2) by (auto simp: AnsibleExecution_def Let_def split: sum.splits if_splits)
  then obtain a annotations d where a: "execution_job env service ssh invs n dep (name, selector) annotations aeeSpec = (a, aeeSpec')"
    and "submit_job env a aeeSpec' d = (Some job, aeeSpec', dep', err)"
    by (rule create_execution_job)
  then have "JobForOpenStackAnsibleEE env a = Inr job"
    by (auto simp: submit_job_def split: sum.splits option.splits)
  then show ?thesis
    using JobForOpenStackAnsibleEE_keeps [of env a job] execution_job_keeps [OF a] labels_found [OF wf assms(3)] by simp
qed

text \<open>The jobs in the cluster, each with its status.  The API server lists those of a namespace that have all the labels that are asked for.\<close>

definition has_labels :: "(string, string) gomap \<Rightarrow> (string, string) gomap \<Rightarrow> bool" where
  "has_labels selector labels = list_all (\<lambda>(k, v). map_of labels k = Some v) selector"

definition lists_jobs :: "job_env \<Rightarrow> (job_def \<times> ansible_job) list \<Rightarrow> bool" where
  "lists_jobs env jobs \<longleftrightarrow>
     (\<forall>ns selector. je_listJobs env ns selector
        = Inr (map snd (filter (\<lambda>(jd, _). jd_Namespace jd = ns \<and> has_labels selector (jd_Labels jd)) jobs)))"

text \<open>A job that some execution of a service, a deployment and a node set in a namespace has submitted.\<close>

definition submitted_for :: "job_def \<Rightarrow> string \<times> string \<times> string \<times> string \<Rightarrow> bool" where
  "submitted_for jd key \<longleftrightarrow>
     (\<exists>env service ssh invs n aee dep aee' dep' err.
        AnsibleExecution env service ssh invs n aee dep = (Some jd, aee', dep', err)
        \<and> key = (dep_Namespace dep, svc_Name service, dep_Name dep, n))"

definition execution_selector :: "string \<Rightarrow> string \<Rightarrow> string \<Rightarrow> (string, string) gomap" where
  "execution_selector s d n =
     [(''openstackdataplaneservice'', s), (''openstackdataplanedeployment'', d), (''openstackdataplanenodeset'', n)]"

lemma execution_selector_of:
  "snd (GetAnsibleExecutionNameAndLabels sha service d n) = execution_selector (svc_Name service) d n"
  by (simp add: GetAnsibleExecutionNameAndLabels_def execution_selector_def Let_def)

lemma submitted_matches_iff:
  assumes "submitted_for jd (ns, s, d, n)"
  shows "jd_Namespace jd = ns' \<and> has_labels (execution_selector s' d' n') (jd_Labels jd) \<longleftrightarrow> (ns, s, d, n) = (ns', s', d', n')"
proof -
  obtain env service ssh invs aee dep aee' dep' err
    where e: "AnsibleExecution env service ssh invs n aee dep = (Some jd, aee', dep', err)"
      and k: "dep_Namespace dep = ns" "svc_Name service = s" "dep_Name dep = d"
    using assms by (auto simp: submitted_for_def)
  obtain name sel where i: "GetAnsibleExecutionNameAndLabels (je_sha256hex env) service (dep_Name dep) n = (name, sel)" by fastforce
  then have sel: "sel = execution_selector s d n" using execution_selector_of [of "je_sha256hex env" service "dep_Name dep" n] k by simp
  note F = submitted_job_is_found [OF e i]
  have "map_of (jd_Labels jd) ''openstackdataplaneservice'' = Some s" "map_of (jd_Labels jd) ''openstackdataplanedeployment'' = Some d"
    "map_of (jd_Labels jd) ''openstackdataplanenodeset'' = Some n"
    using F by (simp_all add: sel execution_selector_def)
  moreover have "jd_Namespace jd = ns" using F [of "''openstackdataplaneservice''" s] k by (simp add: sel execution_selector_def)
  ultimately show ?thesis by (auto simp: has_labels_def execution_selector_def)
qed

lemma filter_single:
  assumes "i < length xs" and "\<And>j. j < length xs \<Longrightarrow> P (xs ! j) \<longleftrightarrow> j = i"
  shows "filter P xs = [xs ! i]"
proof -
  have "filter P (take i xs) = []" using assms by (auto simp: filter_empty_conv in_set_conv_nth)
  moreover have "filter P (drop (Suc i) xs) = []" using assms by (fastforce simp: filter_empty_conv in_set_conv_nth)
  ultimately have "filter P (take i xs @ xs ! i # drop (Suc i) xs) = [xs ! i]" using assms by simp
  then show ?thesis using id_take_nth_drop [OF assms(1)] by simp
qed

text \<open>C10: a finished execution is not repeated.  Take any jobs in the cluster that executions have submitted, at most one for a service, a
  deployment and a node set of a namespace.  An execution for one of them, whatever else its arguments are, finds exactly its job among all; and
  when this job has succeeded, nothing is submitted, nothing changes and no error is returned.\<close>

theorem finished_job_not_repeated:
  assumes "list_all2 (\<lambda>(jd, _) key. submitted_for jd key) jobs keys" and "distinct keys" and "lists_jobs env jobs"
    and "i < length jobs" and "keys ! i = (dep_Namespace dep, svc_Name service, dep_Name dep, n)"
  shows "GetAnsibleExecution env (dep_Namespace dep) (snd (GetAnsibleExecutionNameAndLabels sha service (dep_Name dep) n)) = Inr (snd (jobs ! i))
    \<and> (0 < aj_Succeeded (snd (jobs ! i)) \<longrightarrow> AnsibleExecution env service ssh invs n aeeSpec dep = (None, aeeSpec, dep, None))"
proof -
  let ?sel = "execution_selector (svc_Name service) (dep_Name dep) n"
  have l: "length keys = length jobs" using assms(1) by (simp add: list_all2_lengthD)
  have "filter (\<lambda>(jd, _). jd_Namespace jd = dep_Namespace dep \<and> has_labels ?sel (jd_Labels jd)) jobs = [jobs ! i]"
  proof (rule filter_single [OF assms(4)])
    fix j assume j: "j < length jobs"
    obtain ns s d m where k: "keys ! j = (ns, s, d, m)" by (metis surj_pair)
    have "submitted_for (fst (jobs ! j)) (ns, s, d, m)"
      using list_all2_nthD [OF assms(1) j] k by (simp add: case_prod_beta)
    from submitted_matches_iff [OF this, of "dep_Namespace dep" "svc_Name service" "dep_Name dep" n]
    have "(case jobs ! j of (jd, _) \<Rightarrow> jd_Namespace jd = dep_Namespace dep \<and> has_labels ?sel (jd_Labels jd)) \<longleftrightarrow> keys ! j = keys ! i"
      by (simp add: case_prod_beta k assms(5))
    then show "(case jobs ! j of (jd, _) \<Rightarrow> jd_Namespace jd = dep_Namespace dep \<and> has_labels ?sel (jd_Labels jd)) \<longleftrightarrow> j = i"
      using assms(2,4) j l by (simp add: nth_eq_iff_index_eq)
  qed
  then have "GetAnsibleExecution env (dep_Namespace dep) ?sel = Inr (snd (jobs ! i))"
    using assms(3) by (simp add: GetAnsibleExecution_def lists_jobs_def)
  then show ?thesis by (simp add: execution_selector_of AnsibleExecution_def Let_def)
qed

subsection \<open>Mounts\<close>

lemma filter_eq_distinct: "distinct xs \<Longrightarrow> filter (\<lambda>x. x = a) xs = (if a \<in> set xs then [a] else [])"
  by (induction xs) auto

definition ssh_volume :: "(string, string) gomap \<Rightarrow> string \<Rightarrow> volume" where
  "ssh_volume secrets n = \<lparr>vol_Name = ''ssh-key-'' @ n,
     vol_Source = SecretVolume (gomap_get [] secrets n) (Some 384) [(''ssh-privatekey'', ''ssh_key_'' @ n)]\<rparr>"

lemma SetAeeSSHMounts_volumes:
  "vms_Volumes (SetAeeSSHMounts n service secrets m) =
     vms_Volumes m @ map (ssh_volume secrets)
       (filter (\<lambda>k. svc_DeployOnAllNodeSets service \<or> k = n) (sort (map fst secrets)))"
proof -
  have "vms_Volumes (fold (\<lambda>k m. if \<not> svc_DeployOnAllNodeSets service \<and> k \<noteq> n then m else mount_ssh_key secrets k m) ks m) =
     vms_Volumes m @ map (ssh_volume secrets) (filter (\<lambda>k. svc_DeployOnAllNodeSets service \<or> k = n) ks)" for ks
    by (induction ks arbitrary: m)
      (auto simp: mount_ssh_key_def CreateVolumeMount_def CreateVolume_def ssh_volume_def Let_def)
  then show ?thesis by (simp add: SetAeeSSHMounts_def)
qed

definition inv_volume :: "(string, string) gomap \<Rightarrow> string \<Rightarrow> string \<Rightarrow> volume" where
  "inv_volume secrets name n = \<lparr>vol_Name = name, vol_Source = SecretVolume (gomap_get [] secrets n) None [(''inventory'', name)]\<rparr>"

lemma SetAeeInvMounts_volumes_local:
  assumes "\<not> svc_DeployOnAllNodeSets service"
  shows "vms_Volumes (SetAeeInvMounts n service secrets m) =
     vms_Volumes m @ map (inv_volume secrets ''inventory'') (filter (\<lambda>k. k = n) (sort (map fst secrets)))"
proof -
  have "vms_Volumes (fold (mount_inventory service n secrets) (enumerate i ks) m) =
     vms_Volumes m @ map (inv_volume secrets ''inventory'') (filter (\<lambda>k. k = n) ks)" for i ks
    using assms
    by (induction ks arbitrary: i m)
      (auto simp: mount_inventory_def CreateVolumeMount_def CreateVolume_def inv_volume_def Let_def)
  then show ?thesis by (simp add: SetAeeInvMounts_def)
qed

text \<open>An execution for one node set mounts exactly the SSH key and the inventory of that node set;
  the keys and inventories of the other node sets of the deployment stay out of its pod.\<close>

theorem own_nodeset_mounts:
  assumes "\<not> svc_DeployOnAllNodeSets service" and "gomap_wf ssh" and "gomap_wf invs"
    and "n \<in> fst ` set ssh" and "n \<in> fst ` set invs"
  shows "vms_Volumes (SetAeeInvMounts n service invs (SetAeeSSHMounts n service ssh
       \<lparr>vms_Propagation = [], vms_Volumes = [], vms_Mounts = []\<rparr>)) = [ssh_volume ssh n, inv_volume invs ''inventory'' n]"
  using assms
  by (simp add: SetAeeInvMounts_volumes_local SetAeeSSHMounts_volumes filter_eq_distinct gomap_wf_def)

subsection \<open>Extra variables\<close>

lemma BuildAeeJobSpec_vars:
  assumes "BuildAeeJobSpec env service deployment n aeeSpec a = (a', aeeSpec')" and "unnil (aee_ExtraVars aeeSpec) \<noteq> []"
  shows "aee_ExtraVars aeeSpec' = Some (execution_vars env service deployment n (unnil (aee_ExtraVars aeeSpec)))"
  using assms by (auto simp: BuildAeeJobSpec_def FormatAEEExtraVars_def Let_def case_prod_beta)

lemma execution_vars_hosts:
  "map_of (execution_vars env service deployment n vars) ''edpm_override_hosts'' =
     Some (quoted (if svc_DeployOnAllNodeSets service then ''all'' else n))"
  by (simp add: execution_vars_def Let_def gomap_simps)

text \<open>An execution changes the spec of the deployment.  When the deployment sets extra variables, the
  variables of the execution, among them the hosts it is limited to, are written into the map of the
  spec, which the controller then stores with the object.\<close>

theorem execution_writes_spec:
  assumes "AnsibleExecution env service ssh invs n aeeSpec dep = (Some job, aeeSpec', dep', err)"
    and "unnil (aee_ExtraVars aeeSpec) \<noteq> []"
  shows "map_of (unnil (dep_AnsibleExtraVars dep')) ''edpm_override_hosts'' =
    Some (quoted (if svc_DeployOnAllNodeSets service then ''all'' else n))"
proof -
  let ?eid = "GetAnsibleExecutionNameAndLabels (je_sha256hex env) service (dep_Name dep) n"
  have "create_execution env service ssh invs n aeeSpec dep ?eid = (Some job, aeeSpec', dep', err)"
    using assms(1) by (auto simp: AnsibleExecution_def Let_def split: sum.splits if_splits)
  then obtain a annotations where a: "execution_job env service ssh invs n dep ?eid annotations aeeSpec = (a, aeeSpec')"
    and s: "submit_job env a aeeSpec' (if unnil (aee_ExtraVars aeeSpec) \<noteq> []
       then dep\<lparr>dep_AnsibleExtraVars := aee_ExtraVars aeeSpec'\<rparr> else dep) = (Some job, aeeSpec', dep', err)"
    by (rule create_execution_job)
  obtain b b' where "BuildAeeJobSpec env service dep n aeeSpec b = (b', aeeSpec')"
    using a by (auto simp: execution_job_def Let_def split: prod.splits)
  moreover have "dep_AnsibleExtraVars dep' = aee_ExtraVars aeeSpec'"
    using s assms(2) by (auto simp: submit_job_def split: sum.splits option.splits)
  ultimately show ?thesis using BuildAeeJobSpec_vars [OF _ assms(2)] execution_vars_hosts by simp
qed

subsection \<open>A concrete execution\<close>

definition sample_job_env :: job_env where
  "sample_job_env = \<lparr>je_sha256hex = (\<lambda>s. s), je_listJobs = (\<lambda>_ _. Inr []), je_GetNAD = (\<lambda>_ _. Inr None),
     je_EnsureNetworksAnnotation = (\<lambda>_. Inr []), je_MarshalStrings = concat, je_yamlUnmarshal = Inr,
     je_yamlMarshal = (\<lambda>m. Inr (concat (map snd m))), je_Propagate = (\<lambda>m. [m]), je_ToCoreVolume = Inr,
     je_DoJob = (\<lambda>_ _ _. Inr (Some ''hash'')), je_listPods = (\<lambda>_ _. Inr []), je_parseSummary = (\<lambda>_. Inl (OtherError [])),
     je_defaultImage = ''aee:latest''\<rparr>"

definition finished_job :: ansible_job where
  "finished_job = \<lparr>aj_Name = ''nova-dep-edpm'', aj_Namespace = ''openstack'', aj_BackoffLimit = Some 6, aj_Succeeded = 1,
     aj_Failed = 0, aj_Active = 0, aj_Conditions = []\<rparr>"

definition sample_deployment :: dp_deployment where
  "sample_deployment = \<lparr>dep_Name = ''dep'', dep_Namespace = ''openstack'', dep_Generation = 1, dep_Deleting = False, dep_NodeSets = [''edpm''],
     dep_ServicesOverride = [], dep_RequeueTime = 15, dep_BackoffLimit = Some 6, dep_PreserveJobs = True,
     dep_AnsibleTags = [], dep_AnsibleLimit = [], dep_AnsibleSkipTags = [], dep_AnsibleExtraVars = Some [(''x'', ''1'')],
     dep_AnsibleJobNodeSelector = [], dep_AnsibleEEEnvConfigMapName = [], dep_NodeSetConditions = [],
     dep_AnsibleEEHashes = [], dep_ExecutionSummaries = [], dep_ConfigMapHashes = [], dep_SecretHashes = [],
     dep_NodeSetHashes = [], dep_BmhRefHashes = [], dep_ContainerImages = [], dep_Conditions = None,
     dep_ObservedGeneration = 0, dep_DeployedVersion = [], dep_Deployed = False\<rparr>"

definition sample_aee :: aee_spec where
  "sample_aee = \<lparr>aee_ExtraMounts = [], aee_Env = [], aee_ExtraVars = Some [(''x'', ''1'')], aee_DNSConfig = None,
     aee_NetworkAttachments = [], aee_RunnerImage = [], aee_AnsibleTags = [], aee_AnsibleLimit = [],
     aee_AnsibleSkipTags = [], aee_ServiceAccountName = ''edpm'', aee_EnvConfigMapName = []\<rparr>"

abbreviation sample_execution :: execution_result where
  "sample_execution \<equiv> AnsibleExecution sample_job_env (sample_service ''nova'' False) [(''edpm'', ''key'')] [(''edpm'', ''inv'')]
     ''edpm'' sample_aee sample_deployment"

lemma sample_id:
  "GetAnsibleExecutionNameAndLabels (je_sha256hex sample_job_env) (sample_service ''nova'' False) (dep_Name sample_deployment) ''edpm'' =
     (''nova-dep-edpm'', [(''openstackdataplaneservice'', ''nova''), (''openstackdataplanedeployment'', ''dep''), (''openstackdataplanenodeset'', ''edpm'')])"
  by (simp add: GetAnsibleExecutionNameAndLabels_def sample_service_def sample_deployment_def DNS1123LabelMaxLength_def)

lemma core_volumes_sample: "core_volumes sample_job_env vs = Inr vs"
  by (induction vs) (simp_all add: sample_job_env_def)

lemma decode_vars_sample: "decode_vars sample_job_env vs = Inr vs"
  by (induction vs) (auto simp: sample_job_env_def)

lemma sample_job_runs: "ej_Playbook a \<noteq> [] \<Longrightarrow> \<exists>job. JobForOpenStackAnsibleEE sample_job_env a = Inr job"
  by (simp add: JobForOpenStackAnsibleEE_def runner_args_def addMounts_def core_volumes_sample decode_vars_sample Let_def)
    (simp add: sample_job_env_def)

lemma sample_submitted: "\<exists>job aee' dep'. sample_execution = (Some job, aee', dep', None)"
proof -
  obtain a aee' where a: "execution_job sample_job_env (sample_service ''nova'' False) [(''edpm'', ''key'')] [(''edpm'', ''inv'')]
      ''edpm'' sample_deployment (''nova-dep-edpm'', [(''openstackdataplaneservice'', ''nova''),
         (''openstackdataplanedeployment'', ''dep''), (''openstackdataplanenodeset'', ''edpm'')]) [] sample_aee = (a, aee')"
    by fastforce
  then have "ej_Playbook a = ''nova''"
    by (auto simp: execution_job_def BuildAeeJobSpec_def FormatAEEExtraVars_def FormatAEECmdLineArguments_def
        DetermineAeeImage_def sample_service_def sample_aee_def new_ee_job_def Let_def)
  then obtain job where "JobForOpenStackAnsibleEE sample_job_env a = Inr job" using sample_job_runs by force
  then show ?thesis
    using a unfolding AnsibleExecution_def Let_def sample_id
    by (simp add: create_execution_def GetAnsibleExecution_def submit_job_def sample_job_env_def sample_aee_def)
qed

theorem submitted_job_is_found_witness:
  "\<exists>job aee' dep'. sample_execution = (Some job, aee', dep', None) \<and> jd_Name job = ''nova-dep-edpm'' \<and>
     map_of (jd_Labels job) ''openstackdataplaneservice'' = Some ''nova''"
proof -
  obtain job aee' dep' where r: "sample_execution = (Some job, aee', dep', None)" using sample_submitted by blast
  from submitted_job_is_found [OF r sample_id, of "''openstackdataplaneservice''" "''nova''"] r show ?thesis by simp
qed

theorem execution_writes_spec_witness:
  "\<exists>job aee' dep'. sample_execution = (Some job, aee', dep', None) \<and>
     map_of (unnil (dep_AnsibleExtraVars dep')) ''edpm_override_hosts'' = Some (quoted ''edpm'')"
proof -
  obtain job aee' dep' where r: "sample_execution = (Some job, aee', dep', None)" using sample_submitted by blast
  from execution_writes_spec [OF r] r show ?thesis by (simp add: sample_aee_def sample_service_def)
qed

theorem finished_job_not_repeated_witness:
  "\<exists>job::job_def. AnsibleExecution (sample_job_env\<lparr>je_listJobs := (\<lambda>ns selector. Inr (map snd (filter
       (\<lambda>(jd, _). jd_Namespace jd = ns \<and> has_labels selector (jd_Labels jd)) [(job, finished_job)])))\<rparr>)
     (sample_service ''nova'' False) [] [] ''edpm'' sample_aee sample_deployment = (None, sample_aee, sample_deployment, None)"
proof -
  obtain job aee' dep' where r: "sample_execution = (Some job, aee', dep', None)" using sample_submitted by blast
  let ?key = "(dep_Namespace sample_deployment, svc_Name (sample_service ''nova'' False), dep_Name sample_deployment, ''edpm'')"
  let ?env = "sample_job_env\<lparr>je_listJobs := (\<lambda>ns selector. Inr (map snd (filter
       (\<lambda>(jd, _). jd_Namespace jd = ns \<and> has_labels selector (jd_Labels jd)) [(job, finished_job)])))\<rparr>"
  have "submitted_for job ?key" unfolding submitted_for_def using r by blast
  then have "list_all2 (\<lambda>(jd, _) key. submitted_for jd key) [(job, finished_job)] [?key]" by simp
  moreover have "lists_jobs ?env [(job, finished_job)]" unfolding lists_jobs_def by simp
  ultimately have "AnsibleExecution ?env (sample_service ''nova'' False) [] [] ''edpm'' sample_aee sample_deployment = (None, sample_aee, sample_deployment, None)"
    using finished_job_not_repeated [of "[(job, finished_job)]" "[?key]" ?env 0 sample_deployment "sample_service ''nova'' False" "''edpm''"]
    by (simp add: finished_job_def)
  then show ?thesis by (rule exI [where x = job])
qed

theorem own_nodeset_mounts_witness:
  "map vol_Name (vms_Volumes (SetAeeInvMounts ''b'' (sample_service ''nova'' False) [(''a'', ''ia''), (''b'', ''ib'')]
     (SetAeeSSHMounts ''b'' (sample_service ''nova'' False) [(''b'', ''kb''), (''a'', ''ka'')]
       \<lparr>vms_Propagation = [], vms_Volumes = [], vms_Mounts = []\<rparr>))) = [''ssh-key-b'', ''inventory'']"
  by (subst own_nodeset_mounts) (simp_all add: sample_service_def gomap_wf_def ssh_volume_def inv_volume_def)

end
