(* ===== verification/Deploy_Laws.thy ===== *)
theory Deploy_Laws
  imports Dataplane_Deploy Cert_Laws Job_Laws
begin

text \<open>
  What the deployment of the services of a node set guarantees: the order of the jobs, what a ready
  condition means, the mounts of a service and of certificates, and the situations in which the code
  panics.
\<close>

subsection \<open>Hypotheses on the environment\<close>

text \<open>The client returns the service it was asked for.\<close>

definition service_names :: "deploy_env \<Rightarrow> bool" where
  "service_names env \<longleftrightarrow> (\<forall>n s. dc_getService (de_client env) n = Inr s \<longrightarrow> svc_Name s = n)"

text \<open>A slice that shares its array with a changed copy shows each condition either as it was or as it
  is in the copy.\<close>

definition shared_conditions :: "condlib \<Rightarrow> deploy_env \<Rightarrow> bool" where
  "shared_conditions L env \<longleftrightarrow>
     (\<forall>old new t. lc_Get L (de_shared env old new) t \<in> {lc_Get L old t, lc_Get L new t})"

text \<open>The job of a service, as the second lookup of \<open>ConditionalDeploy\<close> finds it.\<close>

definition found_job :: "deploy_env \<Rightarrow> deployer \<Rightarrow> dp_service \<Rightarrow> api_error + ansible_job" where
  "found_job env d s = GetAnsibleExecution (de_after env) (dep_Namespace (d_Deployment d))
     (snd (GetAnsibleExecutionNameAndLabels (je_sha256hex (de_after env)) s (dep_Name (d_Deployment d)) (ns_Name (de_NodeSet env))))"

definition succeeded :: "deploy_env \<Rightarrow> deployer \<Rightarrow> string \<Rightarrow> bool" where
  "succeeded env d service \<longleftrightarrow>
     (\<exists>s job. dc_getService (de_client env) service = Inr s \<and> found_job env d s = Inr job \<and> 0 < aj_Succeeded job)"

subsection \<open>What the parts change\<close>

text \<open>What a deployment of services keeps of the deployment.\<close>

definition dep_key :: "deployer \<Rightarrow> string \<times> string \<times> bool" where
  "dep_key d = (dep_Name (d_Deployment d), dep_Namespace (d_Deployment d), dep_Deployed (d_Deployment d))"

lemma found_job_cong: "dep_key d = dep_key d' \<Longrightarrow> found_job env d s = found_job env d' s"
  by (simp add: found_job_def dep_key_def)

lemma succeeded_cong: "dep_key d = dep_key d' \<Longrightarrow> succeeded env d s = succeeded env d' s"
  by (simp add: succeeded_def found_job_cong [of d d'])

lemma submit_job_frame:
  assumes "submit_job je a aee dep = (j, aee', dep', e)"
  shows "dep_NodeSetConditions dep' = dep_NodeSetConditions dep \<and> dep_Name dep' = dep_Name dep \<and> dep_Namespace dep' = dep_Namespace dep
    \<and> dep_Deployed dep' = dep_Deployed dep"
  using assms by (auto simp: submit_job_def split: sum.splits option.splits)

lemma AnsibleExecution_frame:
  assumes "AnsibleExecution je s ssh invs n aee dep = (j, aee', dep', e)"
  shows "dep_NodeSetConditions dep' = dep_NodeSetConditions dep \<and> dep_Name dep' = dep_Name dep \<and> dep_Namespace dep' = dep_Namespace dep
    \<and> dep_Deployed dep' = dep_Deployed dep"
  using assms unfolding AnsibleExecution_def create_execution_def Let_def
  by (auto split: sum.splits if_splits prod.splits dest: submit_job_frame)

lemma DeployService_frame:
  assumes "DeployService env s d = (d', e)"
  shows "ns_conds env d' = ns_conds env d" and "dep_key d' = dep_key d"
    and "\<exists>js. d_Jobs d' = d_Jobs d @ js \<and> fst ` set js \<subseteq> {svc_Name s}"
  using assms by (auto simp: DeployService_def ns_conds_def dep_key_def split: prod.splits option.splits dest!: AnsibleExecution_frame)

lemma ns_conds_store [simp]: "ns_conds env (store_conds env cs d) = cs"
  by (simp add: ns_conds_def store_conds_def gomap_simps)

lemma store_conds_frame [simp]:
  "dep_key (store_conds env cs d) = dep_key d" "d_Jobs (store_conds env cs d) = d_Jobs d"
  by (simp_all add: store_conds_def dep_key_def)

lemma storeExecutionSummary_frame [simp]:
  "ns_conds env (storeExecutionSummary env job d) = ns_conds env d"
  "dep_key (storeExecutionSummary env job d) = dep_key d" "d_Jobs (storeExecutionSummary env job d) = d_Jobs d"
  by (simp_all add: storeExecutionSummary_def ns_conds_def dep_key_def split: sum.splits option.splits)

lemma record_images_frame [simp]:
  "ns_conds env (record_images env s d) = ns_conds env d"
  "dep_key (record_images env s d) = dep_key d" "d_Jobs (record_images env s d) = d_Jobs d"
  by (simp_all add: record_images_def ns_conds_def dep_key_def split: option.splits)

text \<open>The conditions of the other node sets.\<close>

definition other_conds :: "deploy_env \<Rightarrow> deployer \<Rightarrow> string \<Rightarrow> conditions option" where
  "other_conds env d n = (if n = ns_Name (de_NodeSet env) then None else map_of (dep_NodeSetConditions (d_Deployment d)) n)"

lemma other_conds_frame [simp]:
  "other_conds env (store_conds env cs d) = other_conds env d"
  "other_conds env (storeExecutionSummary env job d) = other_conds env d"
  "other_conds env (record_images env s d) = other_conds env d"
  by (auto simp: other_conds_def store_conds_def storeExecutionSummary_def record_images_def gomap_simps
      split: sum.splits option.splits)

lemma check_job_other: "check_job L env t n s cs d = Some (d', e) \<Longrightarrow> other_conds env d' = other_conds env d"
  by (auto simp: check_job_def job_outcome_def split: if_splits sum.splits option.splits)

lemma ConditionalDeploy_other:
  assumes "ConditionalDeploy L env t n s d = Some (d', e)"
  shows "other_conds env d' = other_conds env d"
proof -
  obtain d1 e1 where D: "DeployService env s d = (d1, e1)" by fastforce
  then have "other_conds env d1 = other_conds env d"
    by (auto simp: DeployService_def other_conds_def split: prod.splits option.splits dest!: AnsibleExecution_frame)
  then show ?thesis using assms D
    by (auto simp: ConditionalDeploy_def Let_def split: if_splits option.splits dest: check_job_other)
qed

subsection \<open>One service\<close>

lemma check_job_effect:
  assumes L: "condlib_laws L" "shared_conditions L env"
    and c: "check_job L env t n s cs d = Some (d', e)"
  shows "dep_key d' = dep_key d" and "d_Jobs d' = d_Jobs d"
    and "\<And>t'. t' \<noteq> t \<Longrightarrow> lc_Get L cs t' = lc_Get L (ns_conds env d) t' \<Longrightarrow> lc_Get L (ns_conds env d') t' = lc_Get L (ns_conds env d) t'"
    and "lc_IsTrue L (ns_conds env d') t
       \<Longrightarrow> lc_IsTrue L cs t \<or> lc_IsTrue L (ns_conds env d) t \<or> (\<exists>job. found_job env d s = Inr job \<and> 0 < aj_Succeeded job)"
    and "lc_IsTrue L cs t \<Longrightarrow> lc_IsTrue L (ns_conds env d') t"
proof -
  have sh: "lc_Get L (de_shared env old new) t \<in> {lc_Get L old t, lc_Get L new t}" for old new t
    using L(2) by (simp add: shared_conditions_def)
  show "dep_key d' = dep_key d" "d_Jobs d' = d_Jobs d"
    using c by (auto simp: check_job_def job_outcome_def split: if_splits sum.splits option.splits)
  show "t' \<noteq> t \<Longrightarrow> lc_Get L cs t' = lc_Get L (ns_conds env d) t' \<Longrightarrow> lc_Get L (ns_conds env d') t' = lc_Get L (ns_conds env d) t'" for t'
    using c L(1) sh [of "ns_conds env d" cs t'] by (auto simp: check_job_def job_outcome_def split: if_splits sum.splits option.splits)
  show "lc_IsTrue L (ns_conds env d') t
       \<Longrightarrow> lc_IsTrue L cs t \<or> lc_IsTrue L (ns_conds env d) t \<or> (\<exists>job. found_job env d s = Inr job \<and> 0 < aj_Succeeded job)"
    using c L(1) sh [of "ns_conds env d" cs t]
    by (auto simp: check_job_def job_outcome_def found_job_def condlib_queriesD split: if_splits sum.splits option.splits)
  show "lc_IsTrue L cs t \<Longrightarrow> lc_IsTrue L (ns_conds env d') t"
    using c L(1) by (auto simp: check_job_def condlib_queriesD split: if_splits)
qed

text \<open>The effect of \<open>ConditionalDeploy\<close>: other conditions stay, a condition becomes true only through
  a job that has succeeded, and only the job of this service is submitted.\<close>

lemma ConditionalDeploy_effect:
  assumes L: "condlib_laws L" "shared_conditions L env"
    and c: "ConditionalDeploy L env t n s d = Some (d', e)"
  shows "dep_key d' = dep_key d"
    and "\<exists>js. d_Jobs d' = d_Jobs d @ js \<and> fst ` set js \<subseteq> {svc_Name s}"
    and "\<And>t'. t' \<noteq> t \<Longrightarrow> lc_Get L (ns_conds env d') t' = lc_Get L (ns_conds env d) t'"
    and "lc_IsTrue L (ns_conds env d') t \<Longrightarrow>
       lc_IsTrue L (ns_conds env d) t \<or> (\<exists>job. found_job env d s = Inr job \<and> 0 < aj_Succeeded job)"
    and "lc_IsTrue L (ns_conds env d) t \<Longrightarrow> lc_IsTrue L (ns_conds env d') t \<and> d_Jobs d' = d_Jobs d"
proof -
  obtain d1 e1 where D: "DeployService env s d = (d1, e1)" by fastforce
  note F = DeployService_frame [OF D]
  let ?cs = "lc_Set L (ns_conds env d) (lc_FalseCondition L t RequestedReason SeverityInfo (readyWaitingMessage n))"
  consider (err) "lc_IsUnknown L (ns_conds env d) t" "d' = d1" "e1 \<noteq> None"
    | (new) "lc_IsUnknown L (ns_conds env d) t" "e1 = None" "check_job L env t n s ?cs d1 = Some (d', e)"
    | (old) "\<not> lc_IsUnknown L (ns_conds env d) t" "check_job L env t n s (ns_conds env d) d = Some (d', e)"
    using c D by (auto simp: ConditionalDeploy_def Let_def split: if_splits option.splits)
  then have all: "dep_key d' = dep_key d \<and> (\<exists>js. d_Jobs d' = d_Jobs d @ js \<and> fst ` set js \<subseteq> {svc_Name s})
     \<and> (\<forall>t'. t' \<noteq> t \<longrightarrow> lc_Get L (ns_conds env d') t' = lc_Get L (ns_conds env d) t')
     \<and> (lc_IsTrue L (ns_conds env d') t \<longrightarrow>
          lc_IsTrue L (ns_conds env d) t \<or> (\<exists>job. found_job env d s = Inr job \<and> 0 < aj_Succeeded job))
     \<and> (lc_IsTrue L (ns_conds env d) t \<longrightarrow> lc_IsTrue L (ns_conds env d') t \<and> d_Jobs d' = d_Jobs d)"
  proof cases
    case err
    then show ?thesis using F L(1) by (auto simp: condlib_queriesD)
  next
    case new
    note E = check_job_effect [OF L new(3)]
    have "\<not> lc_IsTrue L (ns_conds env d) t" using new(1) L(1) by (auto simp: condlib_queriesD)
    moreover have "found_job env d1 s = found_job env d s" using F(2) by (rule found_job_cong)
    ultimately show ?thesis using E F L(1) by (auto simp: condlib_queriesD)
  next
    case old
    then show ?thesis using check_job_effect [OF L old(2)] by auto
  qed
  show "dep_key d' = dep_key d" "\<exists>js. d_Jobs d' = d_Jobs d @ js \<and> fst ` set js \<subseteq> {svc_Name s}"
    "t' \<noteq> t \<Longrightarrow> lc_Get L (ns_conds env d') t' = lc_Get L (ns_conds env d) t'" for t'
    using all by blast+
  show "lc_IsTrue L (ns_conds env d') t \<Longrightarrow>
       lc_IsTrue L (ns_conds env d) t \<or> (\<exists>job. found_job env d s = Inr job \<and> 0 < aj_Succeeded job)"
    "lc_IsTrue L (ns_conds env d) t \<Longrightarrow> lc_IsTrue L (ns_conds env d') t \<and> d_Jobs d' = d_Jobs d"
    using all by blast+
qed

subsection \<open>Mounts of a service\<close>

text \<open>The mounts of a service as a function of the service: what the code adds to the mounts of the node
  set.\<close>

definition source_mounts :: "deploy_env \<Rightarrow> dp_service \<Rightarrow> api_error + vol_mounts list" where
  "source_mounts env service =
     (let base = path_Join [ConfigPaths, svc_EDPMServiceType service] in
      map_sum (\<lambda>e. e) (\<lambda>(cms, secs). map (config_map_mounts env base) cms @ map (secret_mounts env base) secs)
        (get_sources (de_client env) (svc_Namespace service) (svc_DataSources service)))"

definition ca_mount :: "deploy_env \<Rightarrow> dp_service \<Rightarrow> api_error + vol_mounts" where
  "ca_mount env service =
     (let volumeName = short_name env ''cacert'' (svc_Name service @ ''-'' @ svc_CACerts service) in
      map_sum (\<lambda>e. e) (\<lambda>_. \<lparr>vms_Propagation = [],
                  vms_Volumes = [\<lparr>vol_Name = volumeName, vol_Source = SecretVolume (svc_CACerts service) None []\<rparr>],
                  vms_Mounts = [\<lparr>vm_Name = volumeName, vm_MountPath = path_Join [CACertPaths, svc_EDPMServiceType service],
                                 vm_SubPath = []\<rparr>]\<rparr>)
        (dc_getSecret (de_client env) (svc_Namespace service) (svc_CACerts service)))"

definition with_mounts :: "vol_mounts list \<Rightarrow> deployer \<Rightarrow> deployer" where
  "with_mounts ms d = d\<lparr>d_AeeSpec := (d_AeeSpec d)\<lparr>aee_ExtraMounts := aee_ExtraMounts (d_AeeSpec d) @ ms\<rparr>\<rparr>"

lemma with_mounts_simps [simp]:
  "with_mounts [] d = d" "add_mounts m d = with_mounts [m] d"
  "with_mounts ms (with_mounts ks d) = with_mounts (ks @ ms) d"
  "ns_conds env (with_mounts ms d) = ns_conds env d" "dep_key (with_mounts ms d) = dep_key d"
  "d_Jobs (with_mounts ms d) = d_Jobs d"
  by (simp_all add: with_mounts_def add_mounts_def ns_conds_def dep_key_def)

lemma fold_add_mounts: "fold add_mounts ms d = with_mounts ms d"
  by (induction ms arbitrary: d) simp_all

lemma addServiceExtraMounts_pure:
  "addServiceExtraMounts env s d = map_sum (\<lambda>e. e) (\<lambda>ms. with_mounts ms d) (source_mounts env s)"
  by (simp add: addServiceExtraMounts_def source_mounts_def fold_add_mounts Let_def split: sum.splits prod.splits)

lemma addCACertMount_pure:
  "addCACertMount env s d = map_sum (\<lambda>e. e) (\<lambda>m. with_mounts [m] d) (ca_mount env s)"
  by (simp add: addCACertMount_def ca_mount_def Let_def split: sum.splits)

text \<open>Loops that add mounts and stop at the first error.\<close>

fun collect :: "('a \<Rightarrow> 'e + 'b list) \<Rightarrow> 'a list \<Rightarrow> 'e + 'b list" where
  "collect f [] = Inr []"
| "collect f (x # xs) = (case f x of Inl e \<Rightarrow> Inl e | Inr ys \<Rightarrow>
     (case collect f xs of Inl e \<Rightarrow> Inl e | Inr zs \<Rightarrow> Inr (ys @ zs)))"

lemma add_cert_keys_pure:
  "add_cert_keys env s keys d =
     map_sum (\<lambda>e. e) (\<lambda>ms. with_mounts ms d) (collect (\<lambda>k. map_sum (\<lambda>e. e) (\<lambda>m. [m]) (cert_key_mounts env s k)) keys)"
  by (induction keys arbitrary: d) (simp_all split: sum.splits)

definition certs_of :: "deploy_env \<Rightarrow> dp_service \<Rightarrow> api_error + vol_mounts list" where
  "certs_of env s =
     (case (if svc_TLSCerts s \<noteq> None \<and> ns_TLSEnabled (de_NodeSet env)
            then collect (\<lambda>k. map_sum (\<lambda>e. e) (\<lambda>m. [m]) (cert_key_mounts env s k)) (sort (map fst (the (svc_TLSCerts s))))
            else Inr []) of
        Inl err \<Rightarrow> Inl err
      | Inr ms \<Rightarrow> if svc_CACerts s \<noteq> [] then map_sum (\<lambda>e. e) (\<lambda>m. ms @ [m]) (ca_mount env s) else Inr ms)"

definition certs_for :: "deploy_env \<Rightarrow> string list \<Rightarrow> string \<Rightarrow> api_error + vol_mounts list" where
  "certs_for env services svc =
     (case dc_getService (de_client env) svc of
        Inl err \<Rightarrow> Inl err
      | Inr service \<Rightarrow>
          (case cert_service env services service of
             Inl err \<Rightarrow> Inl err | Inr None \<Rightarrow> Inr [] | Inr (Some s) \<Rightarrow> certs_of env s))"

lemma mount_certs_of_pure:
  "mount_certs_of env s d = map_sum (\<lambda>e. e) (\<lambda>ms. with_mounts ms d) (certs_of env s)"
  by (simp add: mount_certs_of_def certs_of_def add_cert_keys_pure addCACertMount_pure sum.map_comp o_def split: sum.splits)

lemma addCertMounts_pure:
  "addCertMounts env services d = map_sum (\<lambda>e. e) (\<lambda>ms. with_mounts ms d) (collect (certs_for env services) services)"
proof -
  have "add_certs_of env services svcs d =
      map_sum (\<lambda>e. e) (\<lambda>ms. with_mounts ms d) (collect (certs_for env services) svcs)" for svcs
    by (induction svcs arbitrary: d) (simp_all add: certs_for_def mount_certs_of_pure split: sum.splits option.splits)
  then show ?thesis by (simp add: addCertMounts_def)
qed

definition own_mounts :: "deploy_env \<Rightarrow> string list \<Rightarrow> dp_service \<Rightarrow> api_error + vol_mounts list" where
  "own_mounts env services s =
     (case source_mounts env s of
        Inl err \<Rightarrow> Inl err
      | Inr ms \<Rightarrow>
          if svc_AddCertMounts s then map_sum (\<lambda>e. e) (\<lambda>cs. ms @ cs) (collect (certs_for env services) services)
          else if svc_CACerts s \<noteq> [] then map_sum (\<lambda>e. e) (\<lambda>m. ms @ [m]) (ca_mount env s)
          else Inr ms)"

lemma service_mounts_pure:
  "service_mounts env services base s d =
     map_sum (\<lambda>e. e) (\<lambda>ms. d\<lparr>d_AeeSpec := (d_AeeSpec d)\<lparr>aee_ExtraMounts := base @ ms\<rparr>\<rparr>) (own_mounts env services s)"
  by (cases "source_mounts env s")
    (auto simp: service_mounts_def own_mounts_def addServiceExtraMounts_pure addCertMounts_pure addCACertMount_pure
      with_mounts_def sum.map_comp o_def)

text \<open>The mounts of one service do not leak into the job of the next.  Whatever mounts the
  specification has when a service is reached, it leaves with the mounts of the node set followed by
  those of this service, which depend on the service and the list of services only.\<close>

theorem service_mounts_reset:
  "service_mounts env services base s d =
     map_sum (\<lambda>e. e) (\<lambda>ms. d\<lparr>d_AeeSpec := (d_AeeSpec d)\<lparr>aee_ExtraMounts := base @ ms\<rparr>\<rparr>) (own_mounts env services s)"
  by (rule service_mounts_pure)

subsection \<open>All services\<close>

fun step_value :: "'a step \<Rightarrow> 'a option" where
  "step_value (Next a) = Some a"
| "step_value (Return e a) = Some a"
| "step_value Panic = None"

lemma mounts_frame:
  assumes "service_mounts env services base s (set_runner_image env s d) = Inr d1"
  shows "d_Deployment d1 = d_Deployment d" and "d_Jobs d1 = d_Jobs d"
    and "ns_conds env d1 = ns_conds env d" and "dep_key d1 = dep_key d" and "other_conds env d1 = other_conds env d"
proof -
  show dep: "d_Deployment d1 = d_Deployment d" and "d_Jobs d1 = d_Jobs d"
    using assms by (cases "own_mounts env services s"; auto simp: service_mounts_pure set_runner_image_def Let_def
        split: option.splits)+
  then show "ns_conds env d1 = ns_conds env d" "dep_key d1 = dep_key d" "other_conds env d1 = other_conds env d"
    by (simp_all add: ns_conds_def dep_key_def other_conds_def fun_eq_iff)
qed

lemma deploy_service_other:
  assumes "step_value (deploy_service L env services base service d) = Some d'"
  shows "other_conds env d' = other_conds env d"
proof (cases "\<exists>err. deploy_service L env services base service d = service_error L env service err d")
  case True
  then show ?thesis using assms by (auto simp: service_error_def)
next
  case False
  then obtain s d1 d2 e where "service_mounts env services base s (set_runner_image env s d) = Inr d1"
    "ConditionalDeploy L env (readyCondition env service) service s d1 = Some (d2, e)"
    "d' = d2 \<or> d' = record_images env s d2"
    using assms by (auto simp: deploy_service_def split: sum.splits option.splits if_splits)
  then show ?thesis using mounts_frame(5) ConditionalDeploy_other by fastforce
qed

lemma run_stages_invariant:
  assumes "\<And>f a a'. f \<in> set fs \<Longrightarrow> P a \<Longrightarrow> step_value (f a) = Some a' \<Longrightarrow> P a'"
    and "step_value (run_stages fs a) = Some a'" and "P a"
  shows "P a'"
  using assms
proof (induction fs arbitrary: a)
  case (Cons f fs)
  show ?case
  proof (cases "f a")
    case (Next b)
    then have "P b" using Cons.prems(1) [of f a b] Cons.prems(3) by simp
    then show ?thesis using Cons.IH [of b] Cons.prems(1,2) Next by (metis list.set_intros(2) list.simps(9) run_stages.simps(2) step_bind.simps(1))
  next
    case (Return e b)
    then show ?thesis using Cons.prems(1) [of f a b] Cons.prems(2,3) by simp
  qed (use Cons.prems(2) in simp)
qed simp

lemma deploy_service_effect:
  assumes L: "condlib_laws L" "shared_conditions L env" "service_names env"
    and c: "step_value (deploy_service L env services base service d) = Some d'"
  shows "dep_key d' = dep_key d"
    and "\<exists>js. d_Jobs d' = d_Jobs d @ js \<and> fst ` set js \<subseteq> {service}"
    and "\<And>t. t \<noteq> readyCondition env service \<Longrightarrow> lc_Get L (ns_conds env d') t = lc_Get L (ns_conds env d) t"
proof -
  have "dep_key d' = dep_key d \<and> (\<exists>js. d_Jobs d' = d_Jobs d @ js \<and> fst ` set js \<subseteq> {service}) \<and>
    (\<forall>t. t \<noteq> readyCondition env service \<longrightarrow> lc_Get L (ns_conds env d') t = lc_Get L (ns_conds env d) t)"
  proof (cases "dc_getService (de_client env) service")
    case (Inl err)
    then show ?thesis using c L(1) by (auto simp: deploy_service_def service_error_def)
  next
    case (Inr s)
    then have n: "svc_Name s = service" using L(3) by (simp add: service_names_def)
    show ?thesis
    proof (cases "service_mounts env services base s (set_runner_image env s d)")
      case (Inl err)
      then show ?thesis using c L(1) Inr by (auto simp: deploy_service_def service_error_def)
    next
      case d1: (Inr d1)
      obtain d2 e where C: "ConditionalDeploy L env (readyCondition env service) service s d1 = Some (d2, e)"
        using c Inr d1 by (auto simp: deploy_service_def split: option.splits)
      have d': "d' = d2 \<or> d' = record_images env s d2"
        using c Inr d1 C by (auto simp: deploy_service_def split: if_splits)
      show ?thesis
        using ConditionalDeploy_effect(1,2,3) [OF L(1,2) C] mounts_frame(2,3,4) [OF d1] d' n by auto
    qed
  qed
  then show "dep_key d' = dep_key d" "\<exists>js. d_Jobs d' = d_Jobs d @ js \<and> fst ` set js \<subseteq> {service}"
    "t \<noteq> readyCondition env service \<Longrightarrow> lc_Get L (ns_conds env d') t = lc_Get L (ns_conds env d) t" for t
    by blast+
qed

lemma deploy_service_Next:
  assumes L: "condlib_laws L" "shared_conditions L env"
    and c: "deploy_service L env services base service d = Next d'"
  shows "lc_IsTrue L (ns_conds env d') (readyCondition env service)"
    and "lc_IsTrue L (ns_conds env d) (readyCondition env service) \<or> succeeded env d service"
    and "lc_IsTrue L (ns_conds env d) (readyCondition env service) \<Longrightarrow> d_Jobs d' = d_Jobs d"
proof -
  obtain s d1 d2 where s: "dc_getService (de_client env) service = Inr s"
    and d1: "service_mounts env services base s (set_runner_image env s d) = Inr d1"
    and C: "ConditionalDeploy L env (readyCondition env service) service s d1 = Some (d2, None)"
    and T: "lc_IsTrue L (ns_conds env d2) (readyCondition env service)" and d': "d' = record_images env s d2"
    using c by (auto simp: deploy_service_def service_error_def split: sum.splits option.splits if_splits)
  note E = ConditionalDeploy_effect(4,5) [OF L C] and F = mounts_frame(3,4,2) [OF d1]
  show "lc_IsTrue L (ns_conds env d') (readyCondition env service)" using T d' by simp
  show "lc_IsTrue L (ns_conds env d) (readyCondition env service) \<or> succeeded env d service"
    using E(1) [OF T] F found_job_cong [OF F(2), of env s] s by (auto simp: succeeded_def)
  show "lc_IsTrue L (ns_conds env d) (readyCondition env service) \<Longrightarrow> d_Jobs d' = d_Jobs d"
    using E(2) F d' by auto
qed

lemma IsTrue_cong:
  "condlib_laws L \<Longrightarrow> lc_Get L cs t = lc_Get L cs' t \<Longrightarrow> lc_IsTrue L cs t = lc_IsTrue L cs' t"
  by (simp add: condlib_IsTrue)

text \<open>The part of the list that was reached, its conditions and its jobs.\<close>

lemma run_services_prefix:
  assumes L: "condlib_laws L" "shared_conditions L env" "service_names env"
    and "distinct (map (readyCondition env) ss)"
    and "step_value (run_stages (map (deploy_service L env services base) ss) d) = Some d'"
  shows "\<exists>k js. k \<le> length ss \<and> (\<forall>i < k. lc_IsTrue L (ns_conds env d') (readyCondition env (ss ! i)))
     \<and> d_Jobs d' = d_Jobs d @ js \<and> fst ` set js \<subseteq> set (take (Suc k) ss)
     \<and> (\<forall>t. t \<notin> readyCondition env ` set ss \<longrightarrow> lc_Get L (ns_conds env d') t = lc_Get L (ns_conds env d) t)"
  using assms(4,5)
proof (induction ss arbitrary: d)
  case Nil
  then show ?case by auto
next
  case (Cons s ss)
  show ?case
  proof (cases "deploy_service L env services base s d")
    case (Next d1)
    note E = deploy_service_effect [OF L, of services base s d d1] and N = deploy_service_Next [OF L(1,2) Next]
    from E(2) Next obtain js1 where js1: "d_Jobs d1 = d_Jobs d @ js1" "fst ` set js1 \<subseteq> {s}" by auto
    have "step_value (run_stages (map (deploy_service L env services base) ss) d1) = Some d'"
      using Cons.prems(2) Next by simp
    then obtain k js where IH: "k \<le> length ss" "\<forall>i<k. lc_IsTrue L (ns_conds env d') (readyCondition env (ss ! i))"
      "d_Jobs d' = d_Jobs d1 @ js" "fst ` set js \<subseteq> set (take (Suc k) ss)"
      "\<forall>t. t \<notin> readyCondition env ` set ss \<longrightarrow> lc_Get L (ns_conds env d') t = lc_Get L (ns_conds env d1) t"
      using Cons.IH [of d1] Cons.prems(1) by auto
    have head: "lc_IsTrue L (ns_conds env d') (readyCondition env s)"
      using N(1) IH(5) Cons.prems(1) IsTrue_cong [OF L(1)] by (metis distinct.simps(2) list.simps(9) set_map)
    have "\<forall>i < Suc k. lc_IsTrue L (ns_conds env d') (readyCondition env ((s # ss) ! i))"
      using head IH(2) by (auto simp: less_Suc_eq_0_disj)
    moreover have "fst ` set (js1 @ js) \<subseteq> set (take (Suc (Suc k)) (s # ss))"
      using js1(2) IH(4) by auto
    moreover have "\<forall>t. t \<notin> readyCondition env ` set (s # ss) \<longrightarrow> lc_Get L (ns_conds env d') t = lc_Get L (ns_conds env d) t"
      using IH(5) E(3) Next by simp
    ultimately show ?thesis using IH(1,3) js1(1)
      by (intro exI [of _ "Suc k"] exI [of _ "js1 @ js"]) simp
  next
    case (Return e d1)
    then have "d1 = d'" using Cons.prems(2) by simp
    then show ?thesis using deploy_service_effect [OF L, of services base s d d'] Return
      by (intro exI [of _ 0]) auto
  next
    case Panic
    then show ?thesis using Cons.prems(2) by simp
  qed
qed

text \<open>C15: the services of a node set are deployed in order.  If the ready conditions of the services are
  distinct and a job has been submitted for a service, then every service before it in the list has a
  true ready condition when \<open>Deploy\<close> returns, whatever it returns.\<close>

theorem Deploy_in_order:
  assumes "condlib_laws L" and "shared_conditions L env" and "service_names env"
    and "distinct (map (readyCondition env) services)"
    and "step_value (Deploy L env services d) = Some d'" and "d_Jobs d = []"
    and "i < j" and "j < length services" and "services ! j \<in> fst ` set (d_Jobs d')"
  shows "lc_IsTrue L (ns_conds env d') (readyCondition env (services ! i))"
proof -
  obtain k js where k: "k \<le> length services" "\<forall>i < k. lc_IsTrue L (ns_conds env d') (readyCondition env (services ! i))"
    "d_Jobs d' = js" "fst ` set js \<subseteq> set (take (Suc k) services)"
    using run_services_prefix [OF assms(1-4) assms(5) [unfolded Deploy_def]] assms(6) by auto
  have dist: "distinct services" using assms(4) by (simp add: distinct_map)
  have "services ! j \<in> set (take (Suc k) services)" using k(3,4) assms(9) by auto
  then obtain m where m: "m < length services" "m \<le> k" "services ! m = services ! j"
    by (auto simp: in_set_conv_nth)
  then have "m = j" using dist assms(8) by (simp add: nth_eq_iff_index_eq)
  then show ?thesis using k(2) m(2) assms(7) by simp
qed

text \<open>When all services are done.\<close>

lemma run_services_Next:
  assumes L: "condlib_laws L" "shared_conditions L env" "service_names env"
    and "run_stages (map (deploy_service L env services base) ss) d = Next d'"
  shows "dep_key d' = dep_key d \<and> (\<forall>s \<in> set ss. lc_IsTrue L (ns_conds env d') (readyCondition env s))
     \<and> (\<forall>t. lc_IsTrue L (ns_conds env d) t \<longrightarrow> lc_IsTrue L (ns_conds env d') t)
     \<and> (distinct (map (readyCondition env) ss) \<longrightarrow>
          (\<forall>s \<in> set ss. lc_IsTrue L (ns_conds env d) (readyCondition env s) \<or> succeeded env d s))"
  using assms(4)
proof (induction ss arbitrary: d)
  case Nil
  then show ?case by simp
next
  case (Cons s ss)
  then obtain d1 where N: "deploy_service L env services base s d = Next d1"
    and R: "run_stages (map (deploy_service L env services base) ss) d1 = Next d'"
    by (cases "deploy_service L env services base s d") simp_all
  note E = deploy_service_effect [OF L, of services base s d d1] and T = deploy_service_Next [OF L(1,2) N]
  note IH = Cons.IH [OF R]
  have E3: "lc_IsTrue L (ns_conds env d1) t = lc_IsTrue L (ns_conds env d) t" if "t \<noteq> readyCondition env s" for t
    using E(3) [OF _ that] N by (intro IsTrue_cong [OF L(1)]) simp
  have keep: "lc_IsTrue L (ns_conds env d1) t" if "lc_IsTrue L (ns_conds env d) t" for t
    using that T(1) E3 [of t] by (cases "t = readyCondition env s") auto
  have "lc_IsTrue L (ns_conds env d) (readyCondition env s') \<or> succeeded env d s'"
    if "distinct (map (readyCondition env) (s # ss))" and "s' \<in> set (s # ss)" for s'
  proof (cases "s' = s")
    case True
    then show ?thesis using T(2) by simp
  next
    case False
    then have m: "s' \<in> set ss" using that(2) by simp
    then have "readyCondition env s' \<noteq> readyCondition env s" using that(1) by (metis distinct.simps(2) image_eqI list.simps(9) set_map)
    then show ?thesis using IH that(1) m E(1) E3 [of "readyCondition env s'"] N succeeded_cong [of d1 d env s'] by auto
  qed
  then show ?case using IH E(1) N T(1) keep by auto
qed

lemma Deploy_done_jobs:
  assumes "condlib_laws L" and "shared_conditions L env" and "service_names env"
    and "Deploy L env services d = Next d'" and "s \<in> set services"
  shows "lc_IsTrue L (ns_conds env d') (readyCondition env s) \<and>
     (distinct (map (readyCondition env) services) \<and> \<not> lc_IsTrue L (ns_conds env d) (readyCondition env s)
      \<longrightarrow> (\<exists>svc job. dc_getService (de_client env) s = Inr svc \<and> 0 < aj_Succeeded job
            \<and> je_listJobs (de_after env) (dep_Namespace (d_Deployment d))
                 [(''openstackdataplaneservice'', s), (''openstackdataplanedeployment'', dep_Name (d_Deployment d)),
                  (''openstackdataplanenodeset'', ns_Name (de_NodeSet env))] = Inr [job]))"
proof -
  have one: "\<exists>job. je_listJobs je n ls = Inr [job] \<and> 0 < aj_Succeeded job"
    if "GetAnsibleExecution je n ls = Inr job" "0 < aj_Succeeded job" for je n ls job
    using that by (auto simp: GetAnsibleExecution_def length_Suc_conv split: sum.splits if_splits)
  note R = run_services_Next [OF assms(1-3) assms(4) [unfolded Deploy_def]]
  have "succeeded env d s" if "distinct (map (readyCondition env) services)" "\<not> lc_IsTrue L (ns_conds env d) (readyCondition env s)"
    using R that assms(5) by blast
  then show ?thesis using R assms(3,5) one unfolding succeeded_def found_job_def
    by (fastforce simp: GetAnsibleExecutionNameAndLabels_def Let_def service_names_def)
qed

text \<open>C16: a node set counts as deployed only when its services are.  When \<open>Deploy\<close> finishes, the ready
  condition of every service is true; if the ready conditions are distinct and none was true before,
  then for every service the cluster reports exactly one job with the labels of this service, deployment
  and node set, and that job has succeeded.\<close>

theorem Deploy_done:
  assumes "condlib_laws L" and "shared_conditions L env" and "service_names env"
    and "Deploy L env services d = Next d'" and "s \<in> set services"
  shows "lc_IsTrue L (ns_conds env d') (readyCondition env s) \<and>
     (distinct (map (readyCondition env) services) \<and> \<not> lc_IsTrue L (ns_conds env d) (readyCondition env s)
      \<longrightarrow> (\<exists>svc job. dc_getService (de_client env) s = Inr svc \<and> 0 < aj_Succeeded job
            \<and> je_listJobs (de_after env) (dep_Namespace (d_Deployment d))
                 [(''openstackdataplaneservice'', s), (''openstackdataplanedeployment'', dep_Name (d_Deployment d)),
                  (''openstackdataplanenodeset'', ns_Name (de_NodeSet env))] = Inr [job]))"
  by (rule Deploy_done_jobs [OF assms])

text \<open>Services whose names differ only in what \<open>strcase.ToCamel\<close> drops share their ready condition, and
  the second one is never run: with such a pair \<open>Deploy\<close> can finish without any job for the second.\<close>

theorem Deploy_skips_camel_collision:
  assumes "condlib_laws L" and "shared_conditions L env" and "service_names env"
    and "de_toCamel env a = de_toCamel env b" and "a \<noteq> b" and "d_Jobs d = []"
    and "Deploy L env [a, b] d = Next d'"
  shows "b \<notin> fst ` set (d_Jobs d')"
proof -
  let ?f = "deploy_service L env [a, b] (aee_ExtraMounts (d_AeeSpec d))"
  obtain d1 where N: "?f a d = Next d1" and N2: "?f b d1 = Next d'"
    using assms(7) by (cases "?f a d"; cases "?f b (case ?f a d of Next x \<Rightarrow> x | _ \<Rightarrow> d)") (auto simp: Deploy_def)
  have eq: "readyCondition env b = readyCondition env a" using assms(4) by (simp add: readyCondition_def)
  have "d_Jobs d' = d_Jobs d1"
    using deploy_service_Next(1) [OF assms(1,2) N] deploy_service_Next(3) [OF assms(1,2) N2] eq by simp
  moreover have "fst ` set (d_Jobs d1) \<subseteq> {a}"
    using deploy_service_effect(2) [OF assms(1-3), of "[a, b]" "aee_ExtraMounts (d_AeeSpec d)" a d d1] N assms(6) by auto
  ultimately show ?thesis using assms(5) by auto
qed

text \<open>What \<open>Deploy\<close> keeps, whether it finishes or not.\<close>

lemma Deploy_frame:
  assumes L: "condlib_laws L" "shared_conditions L env" "service_names env"
    and "step_value (Deploy L env services d) = Some d'"
  shows "dep_key d' = dep_key d" and "other_conds env d' = other_conds env d"
proof -
  let ?P = "\<lambda>x. dep_key x = dep_key d \<and> other_conds env x = other_conds env d"
  have "?P d'"
    by (rule run_stages_invariant [OF _ assms(4) [unfolded Deploy_def]])
      (use deploy_service_effect(1) [OF L] deploy_service_other in fastforce)+
  then show "dep_key d' = dep_key d" "other_conds env d' = other_conds env d" by blast+
qed

subsection \<open>Panics\<close>

text \<open>\<open>ConditionalDeploy\<close> dereferences a \<open>nil\<close> pointer exactly when the service is not yet ready, its
  execution (if it was still to be started) did not fail, and the lookup of the job fails with an error
  other than "not found", or finds a job that has not succeeded and has no backoff limit.\<close>

theorem ConditionalDeploy_panics_iff:
  assumes "condlib_laws L"
  shows "ConditionalDeploy L env t n s d = None \<longleftrightarrow>
     \<not> lc_IsTrue L (ns_conds env d) t
     \<and> (lc_IsUnknown L (ns_conds env d) t \<longrightarrow> snd (DeployService env s d) = None)
     \<and> (case found_job env d s of
          Inl err \<Rightarrow> \<not> IsNotFound err
        | Inr job \<Rightarrow> \<not> 0 < aj_Succeeded job \<and> aj_BackoffLimit job = None)"
proof -
  have panic: "check_job L env t n s cs d = None \<longleftrightarrow> lc_IsFalse L cs t \<and>
     (case found_job env d s of Inl err \<Rightarrow> \<not> IsNotFound err
        | Inr job \<Rightarrow> \<not> 0 < aj_Succeeded job \<and> aj_BackoffLimit job = None)" for cs d
    by (auto simp: check_job_def found_job_def job_outcome_def split: sum.splits option.splits)
  obtain d1 e1 where D: "DeployService env s d = (d1, e1)" by fastforce
  have cong: "found_job env d1 s = found_job env d s" using DeployService_frame(2) [OF D] by (rule found_job_cong)
  have st: "lc_IsFalse L cs t \<longleftrightarrow> \<not> lc_IsTrue L cs t \<and> \<not> lc_IsUnknown L cs t" for cs
    using assms by (cases "lc_Get L cs t") (auto simp: condlib_queriesD intro: cond_status.exhaust)
  show ?thesis
    using assms D by (cases "lc_IsUnknown L (ns_conds env d) t"; cases e1)
      (auto simp: ConditionalDeploy_def panic cong st, auto simp: condlib_queriesD)
qed

subsection \<open>Certificates\<close>

lemma Itoa_digits: "list_all is_digit (Itoa n) \<and> Itoa n \<noteq> []"
proof (induction n rule: Itoa.induct)
  case (1 n)
  have d: "is_digit (char_of (48 + k))" if "k < 10" for k :: nat
    using that by (simp add: is_digit_def)
  show ?case
  proof (cases "n < 10")
    case True
    then show ?thesis using d by (simp add: Itoa.simps [of n])
  next
    case False
    then show ?thesis using 1 d [of "n mod 10"] by (simp add: Itoa.simps [of n])
  qed
qed

lemma digits_value_append: "digits_value (s @ [c]) = 10 * digits_value s + (of_char c - 48)"
  by (simp add: digits_value_def)

lemma digits_value_Itoa: "digits_value (Itoa n) = int n"
proof (induction n rule: Itoa.induct)
  case (1 n)
  have v: "(of_char (char_of (48 + k) :: char) :: int) = 48 + int k" if "k < 10" for k :: nat
  proof -
    have "(of_char (char_of (48 + k) :: char) :: int) = int (of_char (char_of (48 + k) :: char))"
      by (simp add: of_char_def)
    then show ?thesis using that by simp
  qed
  show ?case
  proof (cases "n < 10")
    case True
    then show ?thesis using v [of n] by (simp add: Itoa.simps [of n] digits_value_def)
  next
    case False
    then have "digits_value (Itoa n) = 10 * int (n div 10) + int (n mod 10)"
      using 1 v [of "n mod 10"] by (simp add: Itoa.simps [of n] digits_value_append)
    then show ?thesis by presburger
  qed
qed

lemma Atoi_Itoa: "n < 2 ^ 63 \<Longrightarrow> Atoi (Itoa n) = int n"
proof -
  assume n: "n < 2 ^ 63"
  have "\<not> is_digit CHR ''-''" "\<not> is_digit CHR ''+''" by (simp_all add: is_digit_def)
  then have "hd (Itoa n) \<noteq> CHR ''-''" "hd (Itoa n) \<noteq> CHR ''+''"
    using Itoa_digits [of n] by (metis list.pred_inject(2) list.collapse)+
  moreover have "int n \<le> 2 ^ 63 - 1" using n by (simp add: zle_diff1_eq flip: of_nat_less_iff)
  ultimately show ?thesis using Itoa_digits [of n] by (simp add: Atoi_def digits_value_Itoa Let_def min_def)
qed

lemma projected_secrets_all:
  assumes "\<And>i. i \<in> set is \<Longrightarrow> dc_getSecret (de_client env) (svc_Namespace service)
     (GetServiceCertsSecretName (de_sha224hex env) (de_NodeSet env) (svc_Name service) certKey i) = Inr (f i)"
  shows "projected_secrets env service certKey is =
     Inr (map (GetServiceCertsSecretName (de_sha224hex env) (de_NodeSet env) (svc_Name service) certKey) is)"
  using assms by (induction "is") (auto simp: Let_def)

text \<open>C17: what \<open>EnsureTLSCerts\<close> writes is what a deployment mounts.  When \<open>EnsureTLSCerts\<close> has finished for a
  certificate of a service with at least one secret, and the client returns the secrets it wrote, then the
  volume mounted for this certificate is the projection of exactly these secrets, in order.\<close>

theorem cert_mounts_complete:
  assumes "EnsureTLSCerts cmg cleanup (de_sha224hex env) (de_NodeSet env) service certKey = Some (w, Inr Done)"
    and "w \<noteq> []" and "length w < 2 ^ 63"
    and "\<forall>s \<in> set w. dc_getSecret (de_client env) (svc_Namespace service) (sec_Name s) = Inr s"
  shows "\<exists>m v. cert_key_mounts env service certKey = Inr m \<and>
     vms_Volumes m = [v] \<and> vol_Source v = ProjectedVolume (map sec_Name w)"
proof -
  let ?name = "GetServiceCertsSecretName (de_sha224hex env) (de_NodeSet env) (svc_Name service) certKey"
  obtain ci where w: "w = map (cert_secret (de_sha224hex env) (de_NodeSet env) (svc_Name service) certKey ci) [0..<length ci]"
    using EnsureTLSCerts_done_secrets [OF assms(1)] .
  note F = cert_secret_facts [OF w]
  have name: "sec_Name (w ! i) = ?name i" if "i < length w" for i
    using arg_cong [OF F(2), of "\<lambda>xs. xs ! i"] that by simp
  have get: "dc_getSecret (de_client env) (svc_Namespace service) (?name i) = Inr (w ! i)" if "i < length w" for i
    using assms(4) name [OF that] that by (metis nth_mem)
  have "gomap_get [] (sec_Labels (w ! 0)) ''numberOfSecrets'' = Itoa (length w)"
    using F(3) assms(2) by (simp add: gomap_get_def list_all_length)
  then have "nat (Atoi (gomap_get [] (sec_Labels (w ! 0)) ''numberOfSecrets'')) = length w"
    using Atoi_Itoa [OF assms(3)] by simp
  moreover have "projected_secrets env service certKey [0..<length w] = Inr (map sec_Name w)"
    using projected_secrets_all [of "[0..<length w]" env service certKey "\<lambda>i. w ! i"] get F(2) by simp
  ultimately show ?thesis using get [of 0] assms(2) by (simp add: cert_key_mounts_def Let_def)
qed

subsection \<open>A concrete deployment\<close>

text \<open>Two services; the job of the first finishes at once, that of the second keeps running unless
  \<open>done\<close>.  The names \<open>a_b\<close> and \<open>a-b\<close> have the same camel case form.\<close>

definition sample_camel :: "string \<Rightarrow> string" where
  "sample_camel n = filter (\<lambda>c. c \<noteq> CHR ''-'' \<and> c \<noteq> CHR ''_'') n"

definition running_job :: ansible_job where
  "running_job = finished_job\<lparr>aj_Succeeded := 0, aj_Active := 1\<rparr>"

definition ready_nodeset :: dp_nodeset where
  "ready_nodeset = (sample_nodeset ''edpm'' [''bootstrap'', ''nova''])\<lparr>ns_Conditions := [lst_True ''SetupReady'' ''NodeSet Ready'']\<rparr>"

definition sample_deploy_env :: "bool \<Rightarrow> deploy_env" where
  "sample_deploy_env done = \<lparr>
     de_client = sample_client\<lparr>dc_getService := (\<lambda>n. if n = [] then Inl (NotFound n) else Inr (sample_service n False))\<rparr>,
     de_before = sample_job_env,
     de_after = sample_job_env\<lparr>je_listJobs := (\<lambda>_ ls. Inr [if done \<or> map_of ls ''openstackdataplaneservice'' = Some ''bootstrap''
                                                             then finished_job else running_job])\<rparr>,
     de_shared = (\<lambda>old new. old), de_toCamel = sample_camel, de_sha224hex = (\<lambda>s. s),
     de_defaultImages = \<lparr>ci_template = empty_template, ci_OctaviaApacheImage = None, ci_CeilometerProxyImage = None,
                         ci_CinderVolumeImages = [], ci_ManilaShareImages = []\<rparr>,
     de_Version = None, de_NodeSet = ready_nodeset,
     de_InventorySecrets = [(''edpm'', ''dataplanenodeset-edpm'')], de_SSHKeySecrets = [(''edpm'', ''ssh'')]\<rparr>"

definition sample_deployer :: deployer where
  "sample_deployer = \<lparr>d_AeeSpec = sample_aee, d_Deployment = sample_deployment, d_Jobs = []\<rparr>"

lemma sample_deploy_hyps:
  "shared_conditions L (sample_deploy_env b)" "service_names (sample_deploy_env b)" "d_Jobs sample_deployer = []"
  by (auto simp: shared_conditions_def service_names_def sample_deploy_env_def sample_service_def sample_deployer_def split: if_splits)

lemma sample_job_env_sel:
  "je_listJobs sample_job_env = (\<lambda>_ _. Inr [])" "je_EnsureNetworksAnnotation sample_job_env = (\<lambda>_. Inr [])"
  "je_DoJob sample_job_env = (\<lambda>_ _ _. Inr (Some ''hash''))" "je_listPods sample_job_env = (\<lambda>_ _. Inr [])"
  by (simp_all add: sample_job_env_def)

lemma job_spec_frame:
  "ej_Playbook (FormatAEECmdLineArguments aee a) = ej_Playbook a"
  "ej_Playbook (fst (FormatAEEExtraVars je s dep m aee a)) = ej_Playbook a"
  "aee_NetworkAttachments (snd (FormatAEEExtraVars je s dep m aee a)) = aee_NetworkAttachments aee"
  "ej_Playbook (DetermineAeeImage je aee a) = ej_Playbook a"
  by (simp_all add: FormatAEECmdLineArguments_def FormatAEEExtraVars_def DetermineAeeImage_def Let_def)

lemma execution_job_frame:
  assumes "svc_Playbook s \<noteq> []"
  shows "ej_Playbook (fst (execution_job je s ssh invs m dep eid ann aee)) = svc_Playbook s"
    and "aee_NetworkAttachments (snd (execution_job je s ssh invs m dep eid ann aee)) = aee_NetworkAttachments aee"
  using assms by (simp_all add: execution_job_def BuildAeeJobSpec_def Let_def case_prod_beta job_spec_frame)

lemma sample_execution_runs:
  assumes "n \<noteq> []" and "aee_NetworkAttachments aee = []"
  shows "\<exists>job aee' dep'. AnsibleExecution sample_job_env (sample_service n False) ssh invs m aee dep = (Some job, aee', dep', None)
     \<and> aee_NetworkAttachments aee' = []"
proof -
  define eid where "eid = GetAnsibleExecutionNameAndLabels (je_sha256hex sample_job_env) (sample_service n False) (dep_Name dep) m"
  obtain a aee' where a: "execution_job sample_job_env (sample_service n False) ssh invs m dep eid [] aee = (a, aee')" by fastforce
  have p: "ej_Playbook a = n" "aee_NetworkAttachments aee' = []"
    using execution_job_frame [of "sample_service n False" sample_job_env ssh invs m dep eid "[]" aee] a assms
    by (simp_all add: sample_service_def)
  then obtain job where "JobForOpenStackAnsibleEE sample_job_env a = Inr job" using sample_job_runs assms(1) by metis
  then show ?thesis
    using a p assms(2) unfolding AnsibleExecution_def Let_def eid_def [symmetric]
    by (simp add: create_execution_def GetAnsibleExecution_def submit_job_def sample_job_env_sel)
qed

lemma sample_deploy_env_sel:
  "n \<noteq> [] \<Longrightarrow> dc_getService (de_client (sample_deploy_env b)) n = Inr (sample_service n False)"
  "de_before (sample_deploy_env b) = sample_job_env" "de_Version (sample_deploy_env b) = None"
  "de_SSHKeySecrets (sample_deploy_env b) = [(''edpm'', ''ssh'')]"
  "de_InventorySecrets (sample_deploy_env b) = [(''edpm'', ''dataplanenodeset-edpm'')]"
  "ns_Name (de_NodeSet (sample_deploy_env b)) = ''edpm''"
  by (simp_all add: sample_deploy_env_def ready_nodeset_def sample_nodeset_def)

lemma sample_found_job:
  "found_job (sample_deploy_env b) d (sample_service n False) = Inr (if b \<or> n = ''bootstrap'' then finished_job else running_job)"
  by (simp add: found_job_def GetAnsibleExecution_def GetAnsibleExecutionNameAndLabels_def Let_def sample_deploy_env_def sample_service_def)

lemma list_condlib_sel:
  "lc_Get list_condlib = lst_Get" "lc_Set list_condlib = lst_Set"
  by (simp_all add: list_condlib_def)

text \<open>A service of the sample that has not been started is run; its condition becomes true when its job
  has finished.\<close>

lemma sample_deploy_service:
  assumes "n \<noteq> []" and "aee_NetworkAttachments (d_AeeSpec d) = []"
    and "lst_Get (ns_conds (sample_deploy_env b) d) (readyCondition (sample_deploy_env b) n) = None"
  shows "\<exists>d'. deploy_service list_condlib (sample_deploy_env b) services base n d =
       (if b \<or> n = ''bootstrap'' then Next d' else Return None d')
     \<and> n \<in> fst ` set (d_Jobs d') \<and> aee_NetworkAttachments (d_AeeSpec d') = []"
proof -
  let ?env = "sample_deploy_env b" and ?s = "sample_service n False"
  define aee where "aee = (d_AeeSpec d)\<lparr>aee_ExtraMounts := base\<rparr>"
  have na: "aee_NetworkAttachments aee = []" using assms(2) by (simp add: aee_def)
  obtain job aee' dep' where X: "AnsibleExecution sample_job_env ?s [(''edpm'', ''ssh'')] [(''edpm'', ''dataplanenodeset-edpm'')] ''edpm'' aee (d_Deployment d)
      = (Some job, aee', dep', None)" "aee_NetworkAttachments aee' = []"
    using sample_execution_runs [OF assms(1) na] by blast
  have mounts: "service_mounts ?env services base ?s (set_runner_image ?env ?s d) = Inr (d\<lparr>d_AeeSpec := aee\<rparr>)"
    by (simp add: service_mounts_pure own_mounts_def source_mounts_def sample_service_def set_runner_image_def sample_deploy_env_def
        dp_GetContainerImages_def empty_template_def aee_def Let_def)
  note F = AnsibleExecution_frame [OF X(1)]
  define d1 where "d1 = d\<lparr>d_AeeSpec := aee', d_Deployment := dep', d_Jobs := d_Jobs d @ [(n, job)]\<rparr>"
  have D: "DeployService ?env ?s (d\<lparr>d_AeeSpec := aee\<rparr>) = (d1, None)"
    using X by (simp add: DeployService_def sample_deploy_env_sel d1_def) (simp add: sample_service_def)
  have U: "lc_IsUnknown list_condlib (ns_conds ?env (d\<lparr>d_AeeSpec := aee\<rparr>)) (readyCondition ?env n)"
    using assms(3) by (simp add: condlib_queriesD list_condlib_sel ns_conds_def)
  have j: "d_Jobs (store_conds ?env cs d1) = d_Jobs d @ [(n, job)]" "aee_NetworkAttachments (d_AeeSpec (store_conds ?env cs d1)) = []"
    "d_Jobs (store_conds ?env cs (storeExecutionSummary ?env fj d1)) = d_Jobs d @ [(n, job)]"
    "aee_NetworkAttachments (d_AeeSpec (store_conds ?env cs (storeExecutionSummary ?env fj d1))) = []" for cs fj
    using X(2) by (simp_all add: d1_def) (simp_all add: store_conds_def storeExecutionSummary_def split: sum.splits option.splits)
  have C: "check_job list_condlib ?env t n ?s cs d1 =
     Some (if b \<or> n = ''bootstrap''
           then store_conds ?env (lc_Set list_condlib cs (lc_TrueCondition list_condlib t (readyMessage n))) (storeExecutionSummary ?env finished_job d1)
           else store_conds ?env (lc_Set list_condlib cs (lc_FalseCondition list_condlib t RequestedReason SeverityInfo (readyWaitingMessage n))) d1, None)"
    if "lc_IsFalse list_condlib cs t" for cs t
    using that sample_found_job [of b d1 n, unfolded found_job_def]
    by (simp add: check_job_def job_outcome_def finished_job_def running_job_def)
  define fin where "fin \<longleftrightarrow> b \<or> n = ''bootstrap''"
  show ?thesis
    using assms(1) mounts U D j C unfolding fin_def [symmetric]
    by (cases fin) (simp_all add: deploy_service_def ConditionalDeploy_def sample_deploy_env_sel record_images_def condlib_IsFalse)
qed

text \<open>The sample with two services whose conditions differ.\<close>

lemma sample_deploy:
  assumes "n \<noteq> []" and "readyCondition (sample_deploy_env b) n \<noteq> readyCondition (sample_deploy_env b) ''bootstrap''"
    and "aee_NetworkAttachments (d_AeeSpec d) = []"
    and "\<And>s. lst_Get (ns_conds (sample_deploy_env b) d) (readyCondition (sample_deploy_env b) s) = None"
  shows "\<exists>d'. Deploy list_condlib (sample_deploy_env b) [''bootstrap'', n] d =
       (if b \<or> n = ''bootstrap'' then Next d' else Return None d') \<and> n \<in> fst ` set (d_Jobs d')"
proof -
  let ?f = "deploy_service list_condlib (sample_deploy_env b) [''bootstrap'', n] (aee_ExtraMounts (d_AeeSpec d))"
  obtain d1 where d1: "?f ''bootstrap'' d = Next d1" "aee_NetworkAttachments (d_AeeSpec d1) = []"
    using sample_deploy_service [OF _ assms(3,4), of "''bootstrap''"] by auto
  have "lst_Get (ns_conds (sample_deploy_env b) d1) (readyCondition (sample_deploy_env b) n) = None"
    using deploy_service_effect(3) [OF list_condlib_laws sample_deploy_hyps(1,2) _ assms(2)] d1(1) assms(4)
    by (metis list_condlib_sel(1) step_value.simps(1))
  then obtain d2 where "?f n d1 = (if b \<or> n = ''bootstrap'' then Next d2 else Return None d2)" "n \<in> fst ` set (d_Jobs d2)"
    using sample_deploy_service [OF assms(1) d1(2)] by blast
  then show ?thesis using d1(1) by (intro exI [of _ d2]) (simp add: Deploy_def)
qed

lemma sample_deployer_fresh:
  "aee_NetworkAttachments (d_AeeSpec sample_deployer) = []"
  "lst_Get (ns_conds (sample_deploy_env b) sample_deployer) (readyCondition (sample_deploy_env b) s) = None"
  by (simp_all add: ns_conds_def sample_deployer_def sample_deployment_def sample_aee_def gomap_get_def)

lemma sample_conditions:
  "readyCondition (sample_deploy_env b) ''nova'' \<noteq> readyCondition (sample_deploy_env b) ''bootstrap''"
  by (simp add: readyCondition_def sample_deploy_env_def sample_camel_def)

theorem Deploy_in_order_witness:
  "\<exists>d'. Deploy list_condlib (sample_deploy_env False) [''bootstrap'', ''nova''] sample_deployer = Return None d' \<and>
     lc_IsTrue list_condlib (ns_conds (sample_deploy_env False) d') (readyCondition (sample_deploy_env False) ''bootstrap'')"
proof -
  obtain d' where d': "Deploy list_condlib (sample_deploy_env False) [''bootstrap'', ''nova''] sample_deployer = Return None d'"
    "''nova'' \<in> fst ` set (d_Jobs d')"
    using sample_deploy [OF _ sample_conditions [of False] sample_deployer_fresh] by auto
  have "lc_IsTrue list_condlib (ns_conds (sample_deploy_env False) d') (readyCondition (sample_deploy_env False) ([''bootstrap'', ''nova''] ! 0))"
    by (rule Deploy_in_order [OF list_condlib_laws sample_deploy_hyps(1,2), where j = 1 and d = sample_deployer])
      (use d' sample_conditions [of False] in \<open>auto simp: sample_deployer_def\<close>)
  then show ?thesis using d' by simp
qed

theorem Deploy_done_witness:
  "\<exists>d'. Deploy list_condlib (sample_deploy_env True) [''bootstrap'', ''nova''] sample_deployer = Next d' \<and>
     lc_IsTrue list_condlib (ns_conds (sample_deploy_env True) d') (readyCondition (sample_deploy_env True) ''nova'')"
proof -
  obtain d' where d': "Deploy list_condlib (sample_deploy_env True) [''bootstrap'', ''nova''] sample_deployer = Next d'"
    using sample_deploy [OF _ sample_conditions [of True] sample_deployer_fresh] by auto
  then show ?thesis using Deploy_done [OF list_condlib_laws sample_deploy_hyps(1,2) d', of "''nova''"] by simp
qed

text \<open>Names that differ in a separator only.\<close>

lemma sample_collision:
  "\<exists>d'. Deploy list_condlib (sample_deploy_env True) [''a-b'', ''a_b''] sample_deployer = Next d'"
proof -
  let ?env = "sample_deploy_env True"
  let ?f = "deploy_service list_condlib ?env [''a-b'', ''a_b''] (aee_ExtraMounts (d_AeeSpec sample_deployer))"
  have none: "ns_conds ?env sample_deployer = []"
    by (simp add: ns_conds_def sample_deployer_def sample_deployment_def gomap_get_def)
  obtain d1 where d1: "?f ''a-b'' sample_deployer = Next d1"
    using sample_deploy_service [of "''a-b''" sample_deployer True] none by (auto simp: sample_deployer_def sample_aee_def)
  have T: "lc_IsTrue list_condlib (ns_conds ?env d1) (readyCondition ?env ''a_b'')"
    using deploy_service_Next(1) [OF list_condlib_laws sample_deploy_hyps(1) d1]
    by (simp add: readyCondition_def sample_deploy_env_def sample_camel_def)
  obtain d2 where m: "service_mounts ?env [''a-b'', ''a_b''] (aee_ExtraMounts (d_AeeSpec sample_deployer)) (sample_service ''a_b'' False)
      (set_runner_image ?env (sample_service ''a_b'' False) d1) = Inr d2"
    by (simp add: service_mounts_pure own_mounts_def source_mounts_def sample_service_def Let_def)
  have T2: "lc_IsTrue list_condlib (ns_conds ?env d2) (readyCondition ?env ''a_b'')" using T mounts_frame(3) [OF m] by simp
  then have "\<not> lc_IsUnknown list_condlib (ns_conds ?env d2) (readyCondition ?env ''a_b'')"
    "\<not> lc_IsFalse list_condlib (ns_conds ?env d2) (readyCondition ?env ''a_b'')"
    by (auto simp: condlib_queriesD)
  then have "\<exists>d3. ?f ''a_b'' d1 = Next d3"
    using m T2 by (simp add: deploy_service_def sample_deploy_env_sel ConditionalDeploy_def check_job_def)
  then show ?thesis using d1 by (auto simp: Deploy_def)
qed

theorem Deploy_skips_camel_collision_witness:
  "\<exists>d'. Deploy list_condlib (sample_deploy_env True) [''a-b'', ''a_b''] sample_deployer = Next d' \<and> ''a_b'' \<notin> fst ` set (d_Jobs d')"
proof -
  obtain d' where d': "Deploy list_condlib (sample_deploy_env True) [''a-b'', ''a_b''] sample_deployer = Next d'"
    using sample_collision by blast
  moreover have "de_toCamel (sample_deploy_env True) ''a-b'' = de_toCamel (sample_deploy_env True) ''a_b''"
    by (simp add: sample_deploy_env_def sample_camel_def)
  ultimately show ?thesis
    using Deploy_skips_camel_collision [OF list_condlib_laws sample_deploy_hyps(1,2) _ _ sample_deploy_hyps(3) d'] by simp
qed

text \<open>The lookup of the job fails after the job was submitted.\<close>

definition failing_env :: deploy_env where
  "failing_env = (sample_deploy_env True)\<lparr>de_after := sample_job_env\<lparr>je_listJobs := (\<lambda>_ _. Inl (OtherError ''timeout''))\<rparr>\<rparr>"

theorem ConditionalDeploy_panics_iff_witness:
  "ConditionalDeploy list_condlib failing_env ''t'' ''nova'' (sample_service ''nova'' False) sample_deployer = None"
proof -
  have na: "aee_NetworkAttachments sample_aee = []" by (simp add: sample_aee_def)
  obtain job aee' dep' where X: "AnsibleExecution sample_job_env (sample_service ''nova'' False) [(''edpm'', ''ssh'')] [(''edpm'', ''dataplanenodeset-edpm'')] ''edpm''
      sample_aee sample_deployment = (Some job, aee', dep', None)"
    using sample_execution_runs [OF _ na, of "''nova''"] by blast
  have "snd (DeployService failing_env (sample_service ''nova'' False) sample_deployer) = None"
    using X by (simp add: DeployService_def failing_env_def sample_deploy_env_sel sample_deployer_def)
  moreover have "ns_conds failing_env sample_deployer = []"
    by (simp add: ns_conds_def sample_deployer_def sample_deployment_def gomap_get_def)
  moreover have "found_job failing_env sample_deployer (sample_service ''nova'' False) = Inl (OtherError ''timeout'')"
    by (simp add: found_job_def GetAnsibleExecution_def failing_env_def)
  ultimately show ?thesis
    using ConditionalDeploy_panics_iff [OF list_condlib_laws] by (simp add: condlib_queriesD list_condlib_sel)
qed

text \<open>The secret of the sample certificate is mounted.\<close>

definition tls_env :: deploy_env where
  "tls_env = (sample_deploy_env True)\<lparr>de_sha224hex := id, de_NodeSet := tls_nodeset,
     de_client := sample_client\<lparr>dc_getSecret := (\<lambda>_ n. if n = sec_Name tls_secret then Inr tls_secret else Inl (NotFound n))\<rparr>\<rparr>"

theorem cert_mounts_complete_witness:
  "\<exists>m v. cert_key_mounts tls_env tls_service ''default'' = Inr m \<and> vms_Volumes m = [v] \<and>
     vol_Source v = ProjectedVolume [''edpm-nova-default-certs-0'']"
proof -
  have "EnsureTLSCerts sample_certmanager sample_cleanup (de_sha224hex tls_env) (de_NodeSet tls_env) tls_service ''default''
      = Some ([tls_secret], Inr Done)"
    using tls_secret_ensured by (simp add: tls_env_def)
  from cert_mounts_complete [OF this] show ?thesis by (simp add: tls_env_def) (simp add: tls_secret_def)
qed

end
