(* ===== verification/Deployment_Laws.thy ===== *)
theory Deployment_Laws
  imports Deployment_Controller Deploy_Laws
begin

text \<open>
  What the status of a deployment means: a deployment that is recorded as deployed has run all services
  on all its node sets, and what the controller does when node sets fail.
\<close>

subsection \<open>Hypotheses on the environment\<close>

definition depctl_hyps :: "condlib \<Rightarrow> depctl_env \<Rightarrow> bool" where
  "depctl_hyps L env \<longleftrightarrow> condlib_laws L
     \<and> (\<forall>old new t. lc_Get L (pe_shared env old new) t \<in> {lc_Get L old t, lc_Get L new t})
     \<and> (\<forall>n s. dc_getService (pe_client env) n = Inr s \<longrightarrow> svc_Name s = n)
     \<and> (\<forall>n ns. pe_getNodeSet env n = Inr ns \<longrightarrow> ns_Name ns = n)"

lemma nodeset_env_hyps:
  assumes "depctl_hyps L env"
  shows "shared_conditions L (nodeset_env env v nss ns)" and "service_names (nodeset_env env v nss ns)"
  using assms by (simp_all add: depctl_hyps_def shared_conditions_def service_names_def nodeset_env_def)

subsection \<open>Parts of a reconciliation\<close>

lemma upd_dep_conds_simps [simp]:
  "dep_Deployed (upd_dep_conds f dep) = dep_Deployed dep" "dep_NodeSetConditions (upd_dep_conds f dep) = dep_NodeSetConditions dep"
  "dep_Name (upd_dep_conds f dep) = dep_Name dep" "dep_Namespace (upd_dep_conds f dep) = dep_Namespace dep"
  "dep_ServicesOverride (upd_dep_conds f dep) = dep_ServicesOverride dep" "dep_NodeSets (upd_dep_conds f dep) = dep_NodeSets dep"
  by (simp_all add: upd_dep_conds_def)

lemma upd_shared_simps [simp]:
  "dep_Deployed (upd_shared env n f dep) = dep_Deployed dep" "dep_Name (upd_shared env n f dep) = dep_Name dep"
  "dep_Namespace (upd_shared env n f dep) = dep_Namespace dep"
  by (simp_all add: upd_shared_def Let_def)

lemma upd_shared_other: "m \<noteq> n \<Longrightarrow> map_of (dep_NodeSetConditions (upd_shared env n f dep)) m = map_of (dep_NodeSetConditions dep) m"
  by (simp add: upd_shared_def Let_def gomap_simps)

lemma mark_input_error_deployed [simp]: "dep_Deployed (mark_input_error L env n msg dep) = dep_Deployed dep"
  by (simp add: mark_input_error_def)

lemma dep_set_ready_deployed [simp]: "dep_Deployed (dep_set_ready L dep) = dep_Deployed dep"
  by (simp add: dep_set_ready_def)

lemma list_nodesets_ok:
  "list_nodesets L env ns dep = (items, dep', None) \<Longrightarrow> dep' = dep \<and> list_all2 (\<lambda>n x. pe_getNodeSet env n = Inr x) ns items"
  by (induction ns arbitrary: items) (auto split: sum.splits option.splits prod.splits)

lemma list_nodesets_deployed: "list_nodesets L env ns dep = (items, dep', e) \<Longrightarrow> dep_Deployed dep' = dep_Deployed dep"
  by (induction ns arbitrary: items) (auto split: sum.splits option.splits prod.splits)

lemma run_stages_same:
  assumes "\<And>f a a'. f \<in> set fs \<Longrightarrow> f a = Next a' \<Longrightarrow> a' = a" and "run_stages fs a = Next a'"
  shows "a' = a"
  using assms
proof (induction fs arbitrary: a)
  case (Cons f fs)
  then obtain b where b: "f a = Next b" "run_stages fs b = Next a'" by (cases "f a") auto
  then have "b = a" using Cons.prems(1) [of f a b] by simp
  moreover have "a' = b" using Cons.IH [OF _ b(2)] Cons.prems(1) by (meson list.set_intros(2))
  ultimately show ?case by simp
qed simp

lemma cert_step_deployed:
  "step_value (cert_step L env ns s k r) = Some r' \<Longrightarrow> dep_Deployed (dr_Dep r') = dep_Deployed (dr_Dep r)"
  "cert_step L env ns s k r = Next r' \<Longrightarrow> r' = r"
  by (auto simp: cert_step_def split: option.splits sum.splits if_splits)

lemma ctl_GetService_deployed:
  "ctl_GetService L env n s dep = Inl (e, dep') \<Longrightarrow> dep_Deployed dep' = dep_Deployed dep"
  by (auto simp: ctl_GetService_def split: sum.splits)

lemma service_certs_cases:
  obtains (err) e dep' where "service_certs L env ns s r = Return (Some e) (r\<lparr>dr_Dep := dep'\<rparr>)"
      "dep_Deployed dep' = dep_Deployed (dr_Dep r)"
    | (none) "service_certs L env ns s r = Next r"
    | (loop) s' ks where "service_certs L env ns s r = run_stages (map (cert_step L env ns s') ks) r"
proof (cases "ctl_GetService L env (ns_Name ns) s (dr_Dep r)")
  case (Inl x)
  then show ?thesis using err ctl_GetService_deployed by (cases x) (force simp: service_certs_def)
next
  case (Inr s1)
  define second where "second = (if s \<noteq> svc_EDPMServiceType s1 \<and> svc_TLSCerts s1 = None
    then ctl_GetService L env (ns_Name ns) (svc_EDPMServiceType s1) (dr_Dep r) else Inr s1)"
  have d: "dep_Deployed (snd x) = dep_Deployed (dr_Dep r)" if "second = Inl x" for x
    using that ctl_GetService_deployed [of L env "ns_Name ns" _ "dr_Dep r" "fst x" "snd x"] by (auto simp: second_def split: if_splits)
  have "service_certs L env ns s r = (case second of Inl (e, dep) \<Rightarrow> Return (Some e) (r\<lparr>dr_Dep := dep\<rparr>)
     | Inr s' \<Rightarrow> (case svc_TLSCerts s' of None \<Rightarrow> Next r | Some certs \<Rightarrow> run_stages (map (cert_step L env ns s') (map fst certs)) r))"
    using Inr by (simp add: service_certs_def second_def)
  then show ?thesis using err none loop d by (cases second) (auto simp del: map_map split: option.splits)
qed

lemma service_certs_deployed:
  assumes "step_value (service_certs L env ns s r) = Some r'"
  shows "dep_Deployed (dr_Dep r') = dep_Deployed (dr_Dep r)"
proof (cases rule: service_certs_cases [of L env ns s r])
  case (loop s' ks)
  then have run: "step_value (run_stages (map (cert_step L env ns s') ks) r) = Some r'" using assms by simp
  show ?thesis by (rule run_stages_invariant [OF _ run]) (auto simp: cert_step_deployed(1))
qed (use assms in auto)

lemma service_certs_same:
  assumes "service_certs L env ns s r = Next r'"
  shows "r' = r"
proof (cases rule: service_certs_cases [of L env ns s r])
  case (loop s' ks)
  then have run: "run_stages (map (cert_step L env ns s') ks) r = Next r'" using assms by simp
  show ?thesis by (rule run_stages_same [OF _ run]) (auto dest: cert_step_deployed(2))
qed (use assms in auto)

lemma nodeset_inputs_deployed:
  assumes "step_value (nodeset_inputs L env ns r) = Some r'"
  shows "dep_Deployed (dr_Dep r') = dep_Deployed (dr_Dep r)"
proof -
  have "dep_Deployed (dr_Dep r') = dep_Deployed (dr_Dep r)"
    if "step_value (run_stages (map (service_certs L env ns) ss) r) = Some r'" for ss
    by (rule run_stages_invariant [OF _ that]) (auto simp: service_certs_deployed)
  then show ?thesis using assms by (auto simp: nodeset_inputs_def Let_def split: if_splits)
qed

lemma nodeset_inputs_Next:
  assumes "nodeset_inputs L env ns r = Next r'"
  shows "r' = r" and "lc_IsTrue L (ns_Conditions ns) SetupReadyCondition"
proof -
  have "r' = r" if "run_stages (map (service_certs L env ns) ss) r = Next r'" for ss
    by (rule run_stages_same [OF _ that]) (auto dest: service_certs_same)
  then show "r' = r" "lc_IsTrue L (ns_Conditions ns) SetupReadyCondition"
    using assms by (auto simp: nodeset_inputs_def Let_def split: if_splits)
qed

subsection \<open>Deployment of the node sets\<close>

lemma nodeset_result_frame:
  "dep_Deployed (dr_Dep (nodeset_result L env ns b e r)) = dep_Deployed (dr_Dep r)"
  "dep_Name (dr_Dep (nodeset_result L env ns b e r)) = dep_Name (dr_Dep r)"
  "dep_Namespace (dr_Dep (nodeset_result L env ns b e r)) = dep_Namespace (dr_Dep r)"
  "m \<noteq> ns_Name ns \<Longrightarrow> map_of (dep_NodeSetConditions (dr_Dep (nodeset_result L env ns b e r))) m = map_of (dep_NodeSetConditions (dr_Dep r)) m"
  "dr_shouldRequeue (nodeset_result L env ns b e r) \<longleftrightarrow> dr_shouldRequeue r \<or> \<not> b"
  by (simp_all add: nodeset_result_def Let_def upd_shared_other split: option.splits)

text \<open>One node set: what is kept, and that a node set which does not ask for a requeue has run
  \<open>Deploy\<close> to its end.\<close>

lemma deploy_nodeset_effect:
  assumes H: "depctl_hyps L env" and c: "deploy_nodeset L env v m nss ns r = Next r'"
  defines "n \<equiv> ns_Name ns"
  shows "\<not> dep_Deployed (dr_Dep r')" and "dep_Name (dr_Dep r') = dep_Name (dr_Dep r)" and "dep_Namespace (dr_Dep r') = dep_Namespace (dr_Dep r)"
    and "\<And>k. k \<noteq> n \<Longrightarrow> map_of (dep_NodeSetConditions (dr_Dep r')) k = map_of (dep_NodeSetConditions (dr_Dep r)) k"
    and "dr_shouldRequeue r \<Longrightarrow> dr_shouldRequeue r'"
    and "\<not> dr_shouldRequeue r' \<Longrightarrow> \<exists>aee dep d'. Deploy L (nodeset_env env v nss ns) (gomap_get [] m n)
           \<lparr>d_AeeSpec = aee, d_Deployment = dep, d_Jobs = []\<rparr> = Next d' \<and> dep_Name dep = dep_Name (dr_Dep r)
           \<and> dep_Namespace dep = dep_Namespace (dr_Dep r) \<and> dep_NodeSetConditions dep = dep_NodeSetConditions (dr_Dep r)"
proof -
  define dep where "dep = upd_dep_conds (\<lambda>cs. lc_MarkFalse L cs DeploymentReadyCondition RequestedReason SeverityInfo ''Deployment in progress'')
                  ((dr_Dep r)\<lparr>dep_Deployed := False\<rparr>)"
  define d where "d = \<lparr>d_AeeSpec = nodeset_spec dep ns, d_Deployment = dep, d_Jobs = []\<rparr>"
  define D where "D = Deploy L (nodeset_env env v nss ns) (gomap_get [] m n) d"
  let ?after = "\<lambda>d. r\<lparr>dr_Dep := d_Deployment d, dr_Jobs := dr_Jobs r @ map (\<lambda>(s, j). (n, s, j)) (d_Jobs d)\<rparr>"
  obtain d' b e where d0: "step_value D = Some d'" "b \<longleftrightarrow> D = Next d'" "r' = nodeset_result L env ns b e (?after d')"
  proof (cases D)
    case (Next x)
    then show ?thesis using c that [of x True None] by (simp add: deploy_nodeset_def Let_def dep_def d_def n_def D_def)
  next
    case (Return e x)
    then show ?thesis using c that [of x False e] by (simp add: deploy_nodeset_def Let_def dep_def d_def n_def D_def)
  next
    case Panic
    then show ?thesis using c by (simp add: deploy_nodeset_def Let_def dep_def d_def n_def D_def)
  qed
  define rr where "rr = ?after d'"
  have d': "step_value D = Some d'" "b \<longleftrightarrow> D = Next d'" "r' = nodeset_result L env ns b e rr"
    "dr_Dep rr = d_Deployment d'" "dr_shouldRequeue rr = dr_shouldRequeue r"
    using d0 by (simp_all add: rr_def)
  have L: "condlib_laws L" using H by (simp add: depctl_hyps_def)
  note F = Deploy_frame [OF L nodeset_env_hyps [OF H] d'(1) [unfolded D_def]]
  have nm: "ns_Name (de_NodeSet (nodeset_env env v nss ns)) = n" by (simp add: nodeset_env_def n_def)
  have dd: "\<not> dep_Deployed dep" "dep_Name dep = dep_Name (dr_Dep r)" "dep_Namespace dep = dep_Namespace (dr_Dep r)"
    "dep_NodeSetConditions dep = dep_NodeSetConditions (dr_Dep r)" by (simp_all add: dep_def)
  show "\<not> dep_Deployed (dr_Dep r')" "dep_Name (dr_Dep r') = dep_Name (dr_Dep r)" "dep_Namespace (dr_Dep r') = dep_Namespace (dr_Dep r)"
    using F(1) dd d'(3,4) by (simp_all add: nodeset_result_frame dep_key_def d_def)
  show "map_of (dep_NodeSetConditions (dr_Dep r')) k = map_of (dep_NodeSetConditions (dr_Dep r)) k" if "k \<noteq> n" for k
    using fun_cong [OF F(2), of k] that dd(4) d'(3,4) nm by (simp add: nodeset_result_frame other_conds_def d_def n_def)
  show "dr_shouldRequeue r \<Longrightarrow> dr_shouldRequeue r'" using d'(3,5) by (simp add: nodeset_result_frame)
  show "\<exists>aee dep d'. Deploy L (nodeset_env env v nss ns) (gomap_get [] m n)
           \<lparr>d_AeeSpec = aee, d_Deployment = dep, d_Jobs = []\<rparr> = Next d' \<and> dep_Name dep = dep_Name (dr_Dep r)
           \<and> dep_Namespace dep = dep_Namespace (dr_Dep r) \<and> dep_NodeSetConditions dep = dep_NodeSetConditions (dr_Dep r)"
    if "\<not> dr_shouldRequeue r'"
    using that d'(2,3) dd D_def d_def by (auto simp: nodeset_result_frame)
qed

lemma deploy_nodeset_no_Return: "deploy_nodeset L env v m nss ns r \<noteq> Return e r'"
  by (simp add: deploy_nodeset_def Let_def split: step.splits)

lemma run_stages_no_Return:
  "(\<And>f a e b. f \<in> set fs \<Longrightarrow> f a \<noteq> Return e b) \<Longrightarrow> run_stages fs a \<noteq> Return e b"
proof (induction fs arbitrary: a)
  case (Cons f fs)
  then show ?case by (cases "f a") auto
qed simp

text \<open>\<open>Deploy\<close> has run to its end for a node set, from the conditions the node set has in \<open>dep0\<close>.\<close>

definition completed ::
    "condlib \<Rightarrow> depctl_env \<Rightarrow> os_version option \<Rightarrow> dp_nodeset list \<Rightarrow> (string, string list) gomap \<Rightarrow> dp_deployment \<Rightarrow> dp_nodeset \<Rightarrow> bool" where
  "completed L env v nss m dep0 ns \<longleftrightarrow>
     (\<exists>aee dep d'. Deploy L (nodeset_env env v nss ns) (gomap_get [] m (ns_Name ns))
           \<lparr>d_AeeSpec = aee, d_Deployment = dep, d_Jobs = []\<rparr> = Next d' \<and> dep_Name dep = dep_Name dep0
           \<and> dep_Namespace dep = dep_Namespace dep0
           \<and> map_of (dep_NodeSetConditions dep) (ns_Name ns) = map_of (dep_NodeSetConditions dep0) (ns_Name ns))"

lemma deploy_all_nodesets:
  assumes H: "depctl_hyps L env" and "run_stages (map (deploy_nodeset L env v m nss) xs) r = Next r'"
    and "\<not> dep_Deployed (dr_Dep r)"
  shows "\<not> dep_Deployed (dr_Dep r') \<and> (dr_shouldRequeue r \<longrightarrow> dr_shouldRequeue r') \<and>
    (distinct (map ns_Name xs) \<and> \<not> dr_shouldRequeue r' \<longrightarrow> (\<forall>ns \<in> set xs. completed L env v nss m (dr_Dep r) ns))"
  using assms(2,3)
proof (induction xs arbitrary: r)
  case Nil
  then show ?case by simp
next
  case (Cons x xs)
  then obtain r1 where r1: "deploy_nodeset L env v m nss x r = Next r1"
    and R: "run_stages (map (deploy_nodeset L env v m nss) xs) r1 = Next r'"
    by (cases "deploy_nodeset L env v m nss x r") simp_all
  note E = deploy_nodeset_effect [OF H r1]
  note IH = Cons.IH [OF R E(1)]
  have "completed L env v nss m (dr_Dep r) ns"
    if d: "distinct (map ns_Name (x # xs))" "\<not> dr_shouldRequeue r'" and m: "ns \<in> set (x # xs)" for ns
  proof (cases "ns = x")
    case True
    have "\<not> dr_shouldRequeue r1" using IH d(2) by blast
    then show ?thesis using E(6) True unfolding completed_def by metis
  next
    case False
    then have n: "ns \<in> set xs" "ns_Name ns \<noteq> ns_Name x" using m d(1) by (auto simp: image_iff)
    then have "completed L env v nss m (dr_Dep r1) ns" using IH d by simp
    then show ?thesis using E(2,3) E(4) [OF n(2)] by (simp add: completed_def)
  qed
  then show ?case using IH E(5) by blast
qed

text \<open>The conditions of a node set right after \<open>InitConditions\<close>.\<close>

lemma map_of_fold_put_const:
  "map_of (fold (\<lambda>n. gomap_put n c) ns m) k = (if k \<in> set ns then Some c else map_of m k)"
  by (induction ns arbitrary: m) (auto simp: gomap_simps)

lemma dep_InitConditions_nodesets:
  assumes "k \<in> set (dep_NodeSets dep)"
  shows "map_of (dep_NodeSetConditions (dep_InitConditions L env dep)) k =
    Some (lc_Set L [] (lc_UnknownCondition L NodeSetDeploymentReadyCondition InitReason (pe_message env ''DeploymentReadyInitMessage'' [])))"
  using assms by (simp add: dep_InitConditions_def map_of_fold_put_const)

lemma fresh_service_condition:
  assumes "condlib_laws L"
  shows "\<not> lc_IsTrue L (lc_Set L [] (lc_UnknownCondition L NodeSetDeploymentReadyCondition InitReason msg)) t"
  using assms by (simp add: condlib_IsTrue)

lemma inputs_ready:
  "run_stages (map (nodeset_inputs L env) nss) r = Next r' \<Longrightarrow> \<forall>ns \<in> set nss. lc_IsTrue L (ns_Conditions ns) SetupReadyCondition"
proof (induction nss arbitrary: r)
  case (Cons ns nss)
  then show ?case by (cases "nodeset_inputs L env ns r") (auto dest: nodeset_inputs_Next)
qed simp

text \<open>A reconciliation that records the deployment as deployed.\<close>

lemma finish_deployment_deployed:
  assumes "finish_deployment L env v nss r = Return e r'" and "dep_Deployed (dr_Dep r')" and "\<not> dep_Deployed (dr_Dep r)"
  shows "\<not> dr_haveError r \<and> \<not> dr_shouldRequeue r"
  using assms by (auto simp: finish_deployment_def Let_def split: if_splits)

lemma dep_body_deployed:
  assumes H: "depctl_hyps L env" and "step_value (dep_body L env dep) = Some r'" and "dep_Deployed (dr_Dep r')" and "\<not> dep_Deployed dep"
  obtains nss m v r2 where "list_all2 (\<lambda>n x. pe_getNodeSet env n = Inr x) (dep_NodeSets dep) nss"
    and "\<forall>ns \<in> set nss. lc_IsTrue L (ns_Conditions ns) SetupReadyCondition"
    and "DedupeServices (dc_getService (pe_client env)) nss (dep_ServicesOverride dep) = Inr m"
    and "run_stages (map (deploy_nodeset L env v m nss) nss)
      (upd_run (upd_dep_conds (\<lambda>cs. lc_MarkTrue L cs InputReadyCondition ''Input data complete'')) (new_run dep)) = Next r2"
    and "\<not> dr_haveError r2" and "\<not> dr_shouldRequeue r2" and "\<exists>e. finish_deployment L env v nss r2 = Return e r'"
proof -
  obtain nss dep1 e where l: "listNodeSets L env dep = (nss, dep1, e)" by (metis prod_cases3)
  have d1: "\<not> dep_Deployed dep1" using l list_nodesets_deployed assms(4) by (force simp: listNodeSets_def)
  have e: "e = None"
    using assms(2,3) l d1 by (cases e) (auto simp: dep_body_def new_run_def split: if_splits)
  then have dep1: "dep1 = dep" and nss: "list_all2 (\<lambda>n x. pe_getNodeSet env n = Inr x) (dep_NodeSets dep) nss"
    using l list_nodesets_ok by (force simp: listNodeSets_def)+
  let ?inputs = "run_stages (map (nodeset_inputs L env) nss) (new_run dep)"
  have keep: "\<not> dep_Deployed (dr_Dep x)" if "step_value ?inputs = Some x" for x
    by (rule run_stages_invariant [OF _ that]) (use assms(4) in \<open>auto simp: nodeset_inputs_deployed new_run_def\<close>)
  have body: "step_value (step_bind ?inputs (deploy_nodesets L env nss)) = Some r'"
    using assms(2) l e dep1 by (simp add: dep_body_def)
  have N: "?inputs = Next (new_run dep)"
  proof (cases ?inputs)
    case (Next x)
    have "x = new_run dep" by (rule run_stages_same [OF _ Next]) (auto dest: nodeset_inputs_Next)
    then show ?thesis using Next by simp
  qed (use body keep assms(3) in auto)
  let ?r1 = "upd_run (upd_dep_conds (\<lambda>cs. lc_MarkTrue L cs InputReadyCondition ''Input data complete'')) (new_run dep)"
  have r1: "\<not> dep_Deployed (dr_Dep ?r1)" "dep_ServicesOverride (dr_Dep ?r1) = dep_ServicesOverride dep"
    using assms(4) by (simp_all add: new_run_def)
  have out: "step_value (deploy_nodesets L env nss (new_run dep)) = Some r'" using body N by simp
  obtain m v where m: "DedupeServices (dc_getService (pe_client env)) nss (dep_ServicesOverride dep) = Inr m"
    and v: "GetVersion (pe_versions env) = Inr v"
    using out r1 assms(3) by (auto simp: deploy_nodesets_def Let_def split: sum.splits)
  let ?run = "run_stages (map (deploy_nodeset L env v m nss) nss) ?r1"
  have fin: "step_value (step_bind ?run (finish_deployment L env v nss)) = Some r'"
    using out m v r1 by (simp add: deploy_nodesets_def Let_def)
  have "?run \<noteq> Return e x" for e x
    by (rule run_stages_no_Return) (auto simp: deploy_nodeset_no_Return)
  then obtain r2 where r2: "?run = Next r2" using fin by (cases ?run) auto
  have "\<not> dep_Deployed (dr_Dep r2)" using deploy_all_nodesets [OF H r2 r1(1)] by simp
  moreover obtain e' where fd: "finish_deployment L env v nss r2 = Return e' r'"
    using fin r2 by (cases "finish_deployment L env v nss r2") (auto simp: finish_deployment_def Let_def split: if_splits)
  ultimately have "\<not> dr_haveError r2 \<and> \<not> dr_shouldRequeue r2" using finish_deployment_deployed assms(3) by blast
  then show thesis using that [OF nss _ m r2] inputs_ready [OF N] fd by blast
qed

lemma dep_Reconcile_writes:
  assumes "pe_get env = Inr dep" and "dep_Reconcile L env = Some (Some (dep', jobs), res, err)"
  obtains r where "step_value (dep_body L env ((dep_InitConditions L env dep)\<lparr>dep_ObservedGeneration := dep_Generation dep\<rparr>)) = Some r"
    and "dep' = dep_set_ready L (dr_Dep r)" and "jobs = dr_Jobs r" and "res = dr_Result r"
  using assms that
  by (cases "dep_body L env ((dep_InitConditions L env dep)\<lparr>dep_ObservedGeneration := dep_Generation dep\<rparr>)")
    (auto simp: dep_Reconcile_def Let_def split: option.splits if_splits)

text \<open>C13: a deployment that a reconciliation records as deployed has been run.  All its node sets exist
  and, on each of them, for every service chosen for it (when the chosen services have distinct condition
  names) the cluster reports exactly one job with the labels of this service, deployment and node set,
  and this job has succeeded.\<close>

theorem Deployed_means_succeeded:
  assumes "depctl_hyps L env" and "pe_get env = Inr dep" and "distinct (dep_NodeSets dep)"
    and "dep_Reconcile L env = Some (Some (dep', jobs), res, err)" and "dep_Deployed dep'"
  shows "\<exists>nss m. list_all2 (\<lambda>n x. pe_getNodeSet env n = Inr x) (dep_NodeSets dep) nss \<and>
    DedupeServices (dc_getService (pe_client env)) nss (dep_ServicesOverride dep) = Inr m \<and>
    (\<forall>n \<in> set (dep_NodeSets dep). distinct (map (de_toCamel (pe_deploy env n)) (gomap_get [] m n)) \<longrightarrow>
       (\<forall>s \<in> set (gomap_get [] m n). \<exists>job. 0 < aj_Succeeded job \<and>
          je_listJobs (de_after (pe_deploy env n)) (dep_Namespace dep)
            [(''openstackdataplaneservice'', s), (''openstackdataplanedeployment'', dep_Name dep),
             (''openstackdataplanenodeset'', n)] = Inr [job]))"
proof -
  let ?dep = "(dep_InitConditions L env dep)\<lparr>dep_ObservedGeneration := dep_Generation dep\<rparr>"
  let ?r1 = "upd_run (upd_dep_conds (\<lambda>cs. lc_MarkTrue L cs InputReadyCondition ''Input data complete'')) (new_run ?dep)"
  have i: "dep_NodeSets ?dep = dep_NodeSets dep" "dep_ServicesOverride ?dep = dep_ServicesOverride dep" "\<not> dep_Deployed ?dep"
    "dep_Name ?dep = dep_Name dep" "dep_Namespace ?dep = dep_Namespace dep"
    by (simp_all add: dep_InitConditions_def)
  have L: "condlib_laws L" using assms(1) by (simp add: depctl_hyps_def)
  obtain r where r: "step_value (dep_body L env ?dep) = Some r" "dep_Deployed (dr_Dep r)"
    using dep_Reconcile_writes [OF assms(2,4)] assms(5) by (metis dep_set_ready_deployed)
  obtain nss m v r2 where nss: "list_all2 (\<lambda>n x. pe_getNodeSet env n = Inr x) (dep_NodeSets dep) nss"
    and m: "DedupeServices (dc_getService (pe_client env)) nss (dep_ServicesOverride dep) = Inr m"
    and run: "run_stages (map (deploy_nodeset L env v m nss) nss) ?r1 = Next r2" "\<not> dr_shouldRequeue r2"
    using dep_body_deployed [OF assms(1) r i(3)] unfolding i .
  have names: "map ns_Name nss = dep_NodeSets dep"
    using nss assms(1) by (auto simp: depctl_hyps_def list_all2_conv_all_nth intro!: nth_equalityI)
  have comp: "completed L env v nss m (dr_Dep ?r1) ns" if "ns \<in> set nss" for ns
    using deploy_all_nodesets [OF assms(1) run(1)] run(2) i(3) names assms(3) that by (simp add: new_run_def)
  have "\<exists>job. 0 < aj_Succeeded job \<and> je_listJobs (de_after (pe_deploy env n)) (dep_Namespace dep)
      [(''openstackdataplaneservice'', s), (''openstackdataplanedeployment'', dep_Name dep), (''openstackdataplanenodeset'', n)] = Inr [job]"
    if n: "n \<in> set (dep_NodeSets dep)" "distinct (map (de_toCamel (pe_deploy env n)) (gomap_get [] m n))" "s \<in> set (gomap_get [] m n)" for n s
  proof -
    obtain ns where ns: "ns \<in> set nss" "ns_Name ns = n" using n(1) names by (metis imageE set_map)
    let ?env = "nodeset_env env v nss ns"
    obtain aee d d' where D: "Deploy L ?env (gomap_get [] m n) \<lparr>d_AeeSpec = aee, d_Deployment = d, d_Jobs = []\<rparr> = Next d'"
      "dep_Name d = dep_Name dep" "dep_Namespace d = dep_Namespace dep"
      "map_of (dep_NodeSetConditions d) n = map_of (dep_NodeSetConditions ?dep) n"
      using comp [OF ns(1)] ns(2) i by (auto simp: completed_def new_run_def)
    have e: "de_toCamel ?env = de_toCamel (pe_deploy env n)" "de_after ?env = de_after (pe_deploy env n)" "ns_Name (de_NodeSet ?env) = n"
      using ns(2) by (simp_all add: nodeset_env_def)
    have dist: "distinct (map (readyCondition ?env) (gomap_get [] m n))"
      using n(2) by (simp add: distinct_map inj_on_def readyCondition_def e)
    have "\<not> lc_IsTrue L (ns_conds ?env \<lparr>d_AeeSpec = aee, d_Deployment = d, d_Jobs = []\<rparr>) (readyCondition ?env s)"
      using D(4) dep_InitConditions_nodesets [OF n(1)] fresh_service_condition [OF L]
      by (simp add: ns_conds_def e gomap_get_def)
    then show ?thesis
      using Deploy_done_jobs [OF L nodeset_env_hyps [OF assms(1)] D(1) n(3)] dist D(2,3) e by auto
  qed
  then show ?thesis using nss m by blast
qed

text \<open>A failure for good can be forgotten.  Whether the backoff limit was reached is taken from the last
  node set that failed: after a node set that reached the limit, a node set that fails for another reason
  makes the deployment fail with a retried error.\<close>

theorem later_failure_hides_backoff:
  assumes "dr_backoff r" and "condlib_laws L"
    and "c_reason (lc_Mirror L (gomap_get [] (dep_NodeSetConditions (dr_Dep r)) (ns_Name ns)) NodeSetDeploymentReadyCondition)
      \<noteq> JobReasonBackoffLimitExceeded"
  shows "\<exists>r'. finish_deployment L env v nss (nodeset_result L env ns False (Some e) r) = Return (Some (OtherError (dr_errMsg r'))) r'
     \<and> map_option c_reason (lc_Get L (dep_conds (dr_Dep r')) DeploymentReadyCondition) = Some ErrorReason"
  using assms by (simp add: finish_deployment_def nodeset_result_def Let_def upd_dep_conds_def dep_conds_def)

subsection \<open>The life of a deployment\<close>

text \<open>A deployment is created without a status, reconciled, and its spec may be edited, which leaves its
  status alone.\<close>

inductive dep_reachable :: "condlib \<Rightarrow> dp_deployment \<Rightarrow> bool" for L where
  created: "dep_Conditions dep = None \<Longrightarrow> \<not> dep_Deployed dep \<Longrightarrow> dep_reachable L dep"
| reconciled: "dep_reachable L dep \<Longrightarrow> depctl_hyps L env \<Longrightarrow> pe_get env = Inr dep \<Longrightarrow>
    dep_Reconcile L env = Some (Some (dep', jobs), res, err) \<Longrightarrow> dep_reachable L dep'"
| edited: "dep_reachable L dep \<Longrightarrow> dep_Conditions dep' = dep_Conditions dep \<Longrightarrow> dep_Deployed dep' = dep_Deployed dep \<Longrightarrow>
    dep_reachable L dep'"

lemma setHashes_frame:
  "dep_Conditions (fst (setHashes c nss dep)) = dep_Conditions dep" "dep_Deployed (fst (setHashes c nss dep)) = dep_Deployed dep"
  by (simp_all add: setHashes_def Let_def split: prod.splits option.splits)

lemma dep_set_ready_other:
  "condlib_laws L \<Longrightarrow> t \<noteq> ReadyCondition \<Longrightarrow> lc_Get L (dep_conds (dep_set_ready L dep)) t = lc_Get L (dep_conds dep) t"
  by (simp add: dep_set_ready_def upd_dep_conds_def dep_conds_def)

lemma finish_deployment_ready:
  assumes "condlib_laws L" and "finish_deployment L env v nss r = Return e r'" and "\<not> dr_haveError r" and "\<not> dr_shouldRequeue r"
  shows "map_option c_status (lc_Get L (dep_conds (dr_Dep r')) DeploymentReadyCondition) = Some CTrue"
    and "map_option c_severity (lc_Get L (dep_conds (dr_Dep r')) DeploymentReadyCondition) = Some SeverityNone"
proof -
  have "dep_conds (dr_Dep r') = lc_MarkTrue L (dep_conds (dr_Dep r)) DeploymentReadyCondition ''Deployment completed''"
    using assms by (auto simp: finish_deployment_def Let_def dep_conds_def setHashes_frame upd_dep_conds_def split: if_splits)
  then show "map_option c_status (lc_Get L (dep_conds (dr_Dep r')) DeploymentReadyCondition) = Some CTrue"
    "map_option c_severity (lc_Get L (dep_conds (dr_Dep r')) DeploymentReadyCondition) = Some SeverityNone"
    using assms(1) by simp_all
qed

text \<open>C14: in every state of the life of a deployment its status is consistent: a deployment recorded as
  deployed has a true \<open>DeploymentReady\<close> condition and has not failed for good.\<close>

theorem deployment_status_consistent:
  assumes "dep_reachable L dep" and "condlib_laws L" and "dep_Deployed dep"
  shows "lc_IsTrue L (dep_conds dep) DeploymentReadyCondition \<and> \<not> failed_for_good L dep"
  using assms
proof (induction rule: dep_reachable.induct)
  case (created dep)
  then show ?case by simp
next
  case (reconciled dep env dep' jobs res err)
  let ?dep = "(dep_InitConditions L env dep)\<lparr>dep_ObservedGeneration := dep_Generation dep\<rparr>"
  have i: "\<not> dep_Deployed ?dep" by (simp add: dep_InitConditions_def)
  obtain r where r: "step_value (dep_body L env ?dep) = Some r" "dep' = dep_set_ready L (dr_Dep r)"
    using dep_Reconcile_writes [OF reconciled.hyps(3,4)] by metis
  then have "dep_Deployed (dr_Dep r)" using reconciled.prems by simp
  from dep_body_deployed [OF reconciled.hyps(2) r(1) this i] obtain e v nss r2 where
    "finish_deployment L env v nss r2 = Return e r" "\<not> dr_haveError r2" "\<not> dr_shouldRequeue r2" by metis
  note F = finish_deployment_ready [OF reconciled.prems(1) this]
  have t: "DeploymentReadyCondition \<noteq> ReadyCondition" by (simp add: deployment_condition_types)
  show ?case using F reconciled.prems(1) r(2)
    by (auto simp: condlib_IsTrue failed_for_good_def dep_set_ready_other [OF _ t] split: option.splits)
next
  case (edited dep dep')
  then show ?case by (simp add: dep_conds_def failed_for_good_def)
qed

subsection \<open>A concrete deployment\<close>

definition sample_depctl :: depctl_env where
  "sample_depctl = \<lparr>pe_validName = None, pe_get = Inr sample_deployment,
     pe_getNodeSet = (\<lambda>n. if n = ''edpm'' then Inr ready_nodeset else Inl (NotFound n)),
     pe_controlPlanes = Inr [], pe_versions = Inr [], pe_client = de_client (sample_deploy_env True),
     pe_deploy = (\<lambda>_. sample_deploy_env True), pe_certmanager = sample_certmanager, pe_cleanup = sample_cleanup,
     pe_shared = de_shared (sample_deploy_env True), pe_sha224hex = de_sha224hex (sample_deploy_env True),
     pe_message = (\<lambda>n a. n @ a), pe_patch = None\<rparr>"

lemma sample_depctl_hyps: "depctl_hyps list_condlib sample_depctl"
  by (auto simp: depctl_hyps_def sample_depctl_def sample_deploy_env_def sample_service_def ready_nodeset_def sample_nodeset_def split: if_splits)

lemma sample_nodeset_env: "nodeset_env sample_depctl None [ready_nodeset] ready_nodeset = sample_deploy_env True"
  by (simp add: nodeset_env_def sample_depctl_def sample_deploy_env_def inventory_secrets_def ssh_secrets_def ready_nodeset_def sample_nodeset_def)

lemma sample_dedupe_services:
  "DedupeServices (dc_getService (pe_client sample_depctl)) [ready_nodeset] [] = Inr [(''edpm'', [''bootstrap'', ''nova''])]"
  by (simp add: DedupeServices_def dedupe_def sample_depctl_def sample_deploy_env_sel service_type_def
      ready_nodeset_def sample_nodeset_def sample_service_def)

lemma sample_reconcile:
  "\<exists>dep' jobs. dep_Reconcile list_condlib sample_depctl = Some (Some (dep', jobs), Done, None) \<and> dep_Deployed dep'"
proof -
  let ?L = list_condlib and ?env = sample_depctl
  define dep where "dep = (dep_InitConditions ?L ?env sample_deployment)\<lparr>dep_ObservedGeneration := dep_Generation sample_deployment\<rparr>"
  have sel: "dep_NodeSets dep = [''edpm'']" "dep_ServicesOverride dep = []"
    "map_of (dep_NodeSetConditions dep) ''edpm'' = Some [lst_Unknown NodeSetDeploymentReadyCondition InitReason ''DeploymentReadyInitMessage'']"
    by (simp_all add: dep_def dep_InitConditions_def sample_deployment_def sample_depctl_def list_condlib_sel list_condlib_def)
  have l: "listNodeSets ?L ?env dep = ([ready_nodeset], dep, None)"
    by (simp add: listNodeSets_def sel sample_depctl_def ValidateTLS_def)
  have i: "nodeset_inputs ?L ?env ready_nodeset r = Next r" for r
    by (simp add: nodeset_inputs_def condlib_IsTrue list_condlib_sel ready_nodeset_def sample_nodeset_def SetupReadyCondition_def lst_True_def)
  define r1 where "r1 = upd_run (upd_dep_conds (\<lambda>cs. lc_MarkTrue ?L cs InputReadyCondition ''Input data complete'')) (new_run dep)"
  define dep2 where "dep2 = upd_dep_conds (\<lambda>cs. lc_MarkFalse ?L cs DeploymentReadyCondition RequestedReason SeverityInfo ''Deployment in progress'')
      ((dr_Dep r1)\<lparr>dep_Deployed := False\<rparr>)"
  define d where "d = \<lparr>d_AeeSpec = nodeset_spec dep2 ready_nodeset, d_Deployment = dep2, d_Jobs = []\<rparr>"
  have fresh: "aee_NetworkAttachments (d_AeeSpec d) = []"
    "lst_Get (ns_conds (sample_deploy_env True) d) (readyCondition (sample_deploy_env True) s) = None" for s
    by (simp_all add: d_def dep2_def r1_def new_run_def nodeset_spec_def GetAnsibleEESpec_def ready_nodeset_def sample_nodeset_def)
      (simp_all add: ns_conds_def sample_deploy_env_sel gomap_get_def sel(3) lst_Unknown_def NodeSetDeploymentReadyCondition_def readyCondition_def)
  obtain d' where d': "Deploy ?L (sample_deploy_env True) [''bootstrap'', ''nova''] d = Next d'"
    using sample_deploy [OF _ sample_conditions fresh] by auto
  have nm: "ns_Name ready_nodeset = ''edpm''" by (simp add: ready_nodeset_def sample_nodeset_def)
  obtain r2 where r2: "deploy_nodeset ?L ?env None [(''edpm'', [''bootstrap'', ''nova''])] [ready_nodeset] ready_nodeset r1 = Next r2"
    "\<not> dr_haveError r2" "\<not> dr_shouldRequeue r2" and res: "dr_Result r2 = Done"
    using d' unfolding deploy_nodeset_def sample_nodeset_env dep2_def [symmetric] d_def [symmetric] nm gomap_get_def
    by (simp add: Let_def dep2_def [symmetric] d_def [symmetric] nodeset_result_def)
      (simp add: r1_def new_run_def)
  have v: "GetVersion (pe_versions ?env) = Inr None" by (simp add: sample_depctl_def GetVersion_def)
  have g: "pe_validName ?env = None" "pe_get ?env = Inr sample_deployment" "pe_patch ?env = None" "\<not> dep_Deployed sample_deployment"
    "\<not> failed_for_good ?L sample_deployment"
    by (simp_all add: sample_depctl_def sample_deployment_def failed_for_good_def)
  have "dep_body ?L ?env dep = Return None (upd_run (\<lambda>d. fst (setHashes (pe_client ?env) [ready_nodeset]
      ((upd_dep_conds (\<lambda>cs. lc_MarkTrue ?L cs DeploymentReadyCondition ''Deployment completed'') d)\<lparr>dep_Deployed := True\<rparr>))) r2)"
    using l i r2 sample_dedupe_services sel(2)
    by (simp add: dep_body_def deploy_nodesets_def r1_def new_run_def finish_deployment_def Let_def v upd_dep_conds_def)
  moreover have "dr_Result r2 = Done" using res by blast
  ultimately show ?thesis
    by (simp add: dep_Reconcile_def g dep_def [symmetric] setHashes_frame)
qed

theorem Deployed_means_succeeded_witness:
  "\<exists>dep' jobs nss m. dep_Reconcile list_condlib sample_depctl = Some (Some (dep', jobs), Done, None) \<and> dep_Deployed dep' \<and>
     DedupeServices (dc_getService (pe_client sample_depctl)) nss [] = Inr m \<and> length nss = 1"
proof -
  obtain dep' jobs where r: "dep_Reconcile list_condlib sample_depctl = Some (Some (dep', jobs), Done, None)" "dep_Deployed dep'"
    using sample_reconcile by blast
  have g: "pe_get sample_depctl = Inr sample_deployment" "distinct (dep_NodeSets sample_deployment)"
    by (simp_all add: sample_depctl_def sample_deployment_def)
  have "dep_NodeSets sample_deployment = [''edpm'']" "dep_ServicesOverride sample_deployment = []" by (simp_all add: sample_deployment_def)
  with Deployed_means_succeeded [OF sample_depctl_hyps g r] r show ?thesis by (metis list_all2_lengthD length_Cons list.size(3) One_nat_def)
qed

theorem deployment_status_consistent_witness:
  "\<exists>dep'. dep_reachable list_condlib dep' \<and> dep_Deployed dep' \<and> lc_IsTrue list_condlib (dep_conds dep') DeploymentReadyCondition"
proof -
  obtain dep' jobs where r: "dep_Reconcile list_condlib sample_depctl = Some (Some (dep', jobs), Done, None)" "dep_Deployed dep'"
    using sample_reconcile by blast
  have "dep_reachable list_condlib sample_deployment" by (rule created) (simp_all add: sample_deployment_def)
  then have "dep_reachable list_condlib dep'"
    by (rule reconciled [OF _ sample_depctl_hyps _ r(1)]) (simp add: sample_depctl_def)
  then show ?thesis using deployment_status_consistent [OF _ list_condlib_laws] r(2) by blast
qed

theorem later_failure_hides_backoff_witness:
  "\<exists>r'. finish_deployment list_condlib sample_depctl None []
     (nodeset_result list_condlib sample_depctl ready_nodeset False (Some (OtherError ''x'')) ((new_run sample_deployment)\<lparr>dr_backoff := True\<rparr>))
     = Return (Some (OtherError (dr_errMsg r'))) r'"
proof -
  have "lc_Mirror list_condlib = lst_Mirror" by (simp add: list_condlib_def)
  then have "c_reason (lc_Mirror list_condlib (gomap_get [] (dep_NodeSetConditions (dr_Dep ((new_run sample_deployment)\<lparr>dr_backoff := True\<rparr>)))
      (ns_Name ready_nodeset)) NodeSetDeploymentReadyCondition) \<noteq> JobReasonBackoffLimitExceeded"
    by (simp add: new_run_def sample_deployment_def gomap_get_def lst_Mirror_def lst_Unknown_def)
  from later_failure_hides_backoff [OF _ list_condlib_laws this, of sample_depctl None "[]" "OtherError ''x''"] show ?thesis by auto
qed

end
