(* ===== verification/Net_Names.thy ===== *)
theory Net_Names
  imports Dataplane_Types "HOL-Library.List_Lexorder" "HOL-Library.Char_ord"
begin

text \<open>
  Host names and addresses: \<open>NodeHostNameIsFQDN\<close> of \<open>api/dataplane/v1beta1\<close>, and the functions of the Go
  standard library that the data plane uses on names and addresses: \<open>strings.Split\<close>, \<open>strings.ToLower\<close>,
  \<open>net.ParseIP\<close> (whether it returns \<open>nil\<close>) and \<open>net.ParseCIDR\<close> (the length of the prefix).
\<close>

subsection \<open>Splitting\<close>

text \<open>\<open>strings.Split\<close> at a single character; the result is never empty.\<close>

fun split_at :: "char \<Rightarrow> string \<Rightarrow> string list" where
  "split_at d [] = [[]]"
| "split_at d (c # s) =
     (if c = d then [] # split_at d s
      else (case split_at d s of [] \<Rightarrow> [[c]] | w # ws \<Rightarrow> (c # w) # ws))"

lemma split_at_not_Nil [simp]: "split_at d s \<noteq> []"
  by (induction s) (auto split: list.splits)

lemma split_at_no_sep: "d \<notin> set s \<Longrightarrow> split_at d s = [s]"
  by (induction s) auto

lemma split_at_sep: "split_at d (s @ d # t) = split_at d s @ split_at d t"
  by (induction s) (auto split: list.splits)

text \<open>Joining the parts gives the string back.\<close>

fun join_with :: "char \<Rightarrow> string list \<Rightarrow> string" where
  "join_with d [] = []"
| "join_with d [w] = w"
| "join_with d (w # ws) = w @ d # join_with d ws"

lemma join_with_Cons: "ws \<noteq> [] \<Longrightarrow> join_with d (w # ws) = w @ d # join_with d ws"
  by (cases ws) simp_all

lemma join_split [simp]: "join_with d (split_at d s) = s"
proof (induction s)
  case (Cons c s)
  obtain w ws where w: "split_at d s = w # ws" by (cases "split_at d s") auto
  then have "join_with d ((c # w) # ws) = c # join_with d (w # ws)" by (cases ws) simp_all
  then show ?case using Cons w by (auto simp: join_with_Cons)
qed simp

lemma split_at_parts: "w \<in> set (split_at d s) \<Longrightarrow> d \<notin> set w"
  by (induction s arbitrary: w) (auto split: list.splits if_splits)

abbreviation dots :: "string \<Rightarrow> string list" where
  "dots \<equiv> split_at (CHR ''.'')"

abbreviation ToLower :: "string \<Rightarrow> string" where
  "ToLower \<equiv> map to_lower"

definition is_letter :: "char \<Rightarrow> bool" where
  "is_letter c \<longleftrightarrow> is_upper c \<or> is_lower c"

definition name_char :: "char \<Rightarrow> bool" where
  "name_char c \<longleftrightarrow> is_alnum c \<or> c = CHR ''-''"

text \<open>The regular expression \<open>^([a-zA-Z0-9-]+\.)*[a-zA-Z0-9-]+\.[a-zA-Z]{2,}$\<close>: at least two labels, all
  made of name characters, the last of two letters or more.\<close>

definition NodeHostNameIsFQDN :: "string \<Rightarrow> bool" where
  "NodeHostNameIsFQDN hostname \<longleftrightarrow>
     (let labels = dots hostname
      in 2 \<le> length labels \<and> list_all (\<lambda>l. l \<noteq> [] \<and> list_all name_char l) labels
         \<and> 2 \<le> length (last labels) \<and> list_all is_letter (last labels))"

subsection \<open>Addresses\<close>

fun decimal_value :: "nat \<Rightarrow> string \<Rightarrow> nat" where
  "decimal_value acc [] = acc"
| "decimal_value acc (c # s) = decimal_value (10 * acc + (of_char c - 48)) s"

text \<open>A field of an IPv4 address: one to three digits, no leading zero, at most 255.\<close>

definition ipv4_field :: "string \<Rightarrow> bool" where
  "ipv4_field f \<longleftrightarrow> f \<noteq> [] \<and> list_all is_digit f \<and> length f \<le> 3 \<and> (length f > 1 \<longrightarrow> hd f \<noteq> CHR ''0'')
     \<and> decimal_value 0 f \<le> 255"

definition is_ipv4 :: "string \<Rightarrow> bool" where
  "is_ipv4 s \<longleftrightarrow> length (dots s) = 4 \<and> list_all ipv4_field (dots s)"

definition is_hex :: "char \<Rightarrow> bool" where
  "is_hex c \<longleftrightarrow> is_digit c \<or> 97 \<le> (of_char c :: nat) \<and> (of_char c :: nat) \<le> 102
     \<or> 65 \<le> (of_char c :: nat) \<and> (of_char c :: nat) \<le> 70"

text \<open>The loop of \<open>netip.parseIPv6\<close> over the fields; \<open>i\<close> counts the 16-bit groups read so far and
  \<open>ellipsis\<close> says that \<open>::\<close> has been seen.  A trailing IPv4 address takes two groups.\<close>

function ipv6_groups :: "nat \<Rightarrow> bool \<Rightarrow> string \<Rightarrow> bool" where
  "ipv6_groups i ellipsis s =
     (if 8 \<le> i then s = [] \<and> \<not> ellipsis
      else (let group = takeWhile is_hex s; rest = dropWhile is_hex s
            in if group = [] \<or> 4 < length group then False
               else (case rest of
                       [] \<Rightarrow> (if i + 1 < 8 then ellipsis else \<not> ellipsis)
                     | c # s1 \<Rightarrow>
                         if c = CHR ''.''
                         then (ellipsis \<or> i = 6) \<and> i + 2 \<le> 8 \<and> is_ipv4 s \<and> (if i + 2 < 8 then ellipsis else \<not> ellipsis)
                         else if c \<noteq> CHR '':'' \<or> s1 = [] then False
                         else if hd s1 = CHR '':''
                         then \<not> ellipsis \<and> (if tl s1 = [] then i + 1 < 8 else ipv6_groups (i + 1) True (tl s1))
                         else ipv6_groups (i + 1) ellipsis s1)))"
  by pat_completeness auto
termination
  by (relation "measure (\<lambda>(i, _, _). 8 - i)") auto

definition is_ipv6 :: "string \<Rightarrow> bool" where
  "is_ipv6 s \<longleftrightarrow>
     CHR ''%'' \<notin> set s \<and>
     (if take 2 s = ''::'' then drop 2 s = [] \<or> ipv6_groups 0 True (drop 2 s) else ipv6_groups 0 False s)"

text \<open>\<open>net.ParseIP\<close> decides by the first dot, colon or percent sign.\<close>

definition ParseIP :: "string \<Rightarrow> bool" where
  "ParseIP s =
     (case filter (\<lambda>c. c = CHR ''.'' \<or> c = CHR '':'' \<or> c = CHR ''%'') s of
        [] \<Rightarrow> False
      | c # _ \<Rightarrow> if c = CHR ''.'' then is_ipv4 s else if c = CHR '':'' then is_ipv6 s else False)"

text \<open>The length of the prefix, if the text is a valid CIDR.\<close>

definition ParseCIDR :: "string \<Rightarrow> nat option" where
  "ParseCIDR s =
     (let addr = takeWhile (\<lambda>c. c \<noteq> CHR ''/'') s; mask = drop (length addr + 1) s; n = decimal_value 0 mask
      in if CHR ''/'' \<notin> set s \<or> \<not> ParseIP addr then None
         else if mask = [] \<or> \<not> list_all is_digit mask \<or> n > (if is_ipv4 addr then 32 else 128) then None
         else Some n)"

subsection \<open>Laws\<close>

text \<open>A fully qualified name has a host part and a domain: \<open>strings.SplitN(hostName, ".", 2)[1]\<close> does not
  panic on it.\<close>

lemma FQDN_has_domain:
  assumes "NodeHostNameIsFQDN h"
  obtains s d where "h = s @ CHR ''.'' # d" and "s = hd (dots h)" and "s \<noteq> []" and "d \<noteq> []"
proof -
  obtain s x ys where l: "dots h = s # x # ys"
    using assms by (cases "dots h"; cases "tl (dots h)") (auto simp: NodeHostNameIsFQDN_def Let_def)
  have "h = join_with (CHR ''.'') (s # x # ys)" using join_split [of "CHR ''.''" h] by (simp add: l)
  then have h: "h = s @ CHR ''.'' # join_with (CHR ''.'') (x # ys)" by simp
  have "x \<noteq> []" "s \<noteq> []" using assms by (auto simp: NodeHostNameIsFQDN_def Let_def l)
  then have "join_with (CHR ''.'') (x # ys) \<noteq> []" by (cases ys) auto
  then show thesis using that h l \<open>s \<noteq> []\<close> by auto
qed

lemma FQDN_append:
  assumes "n \<noteq> []" and "list_all name_char n" and "NodeHostNameIsFQDN d"
  shows "NodeHostNameIsFQDN (n @ CHR ''.'' # d)"
proof -
  have "CHR ''.'' \<notin> set n" using assms(2) by (auto simp: list_all_iff name_char_def is_alnum_def is_upper_def is_lower_def is_digit_def)
  then have "dots (n @ CHR ''.'' # d) = n # dots d" by (simp add: split_at_sep split_at_no_sep)
  then show ?thesis using assms by (simp add: NodeHostNameIsFQDN_def Let_def)
qed

text \<open>An IP address is never taken for a fully qualified name, so no node can be both.\<close>

lemma is_ipv4_not_FQDN: "is_ipv4 s \<Longrightarrow> \<not> NodeHostNameIsFQDN s"
proof
  assume a: "is_ipv4 s" "NodeHostNameIsFQDN s"
  define l where "l = last (dots s)"
  have "l \<in> set (dots s)" by (simp add: l_def)
  then have "ipv4_field l" using a(1) by (auto simp: is_ipv4_def list_all_iff)
  moreover have "list_all is_letter l" "2 \<le> length l" using a(2) by (simp_all add: NodeHostNameIsFQDN_def Let_def l_def)
  ultimately show False
    by (cases l) (auto simp: ipv4_field_def is_letter_def is_digit_def is_upper_def is_lower_def)
qed

lemma ParseIP_samples:
  "ParseIP ''192.168.122.100''" "ParseIP ''fd00::1''" "ParseIP ''::''" "ParseIP ''::ffff:10.0.0.1''" "ParseIP ''1:2:3:4:5:6:7:8''"
  "\<not> ParseIP ''192.168.122.300''" "\<not> ParseIP ''10.0.0.01''" "\<not> ParseIP ''compute-0''" "\<not> ParseIP ''1:2:3:4:5:6:7:8:9''"
  "\<not> ParseIP ''fe80::1%eth0''" "\<not> ParseIP ''1::2::3''" "\<not> ParseIP ''::1:2:3:4:5:6:7:8''" "\<not> ParseIP ''1:2:3:4:5:6:7:8::''"
  "ParseCIDR ''192.168.122.0/24'' = Some 24" "ParseCIDR ''192.168.122.0/33'' = None" "ParseCIDR ''fd00::/64'' = Some 64"
  by code_simp+

end
