(* ===== verification/NodeSet_IPAM.thy ===== *)
theory NodeSet_IPAM
  imports Net_Names Deploy_Laws
begin

text \<open>
  Addresses and DNS records of a node set: \<open>internal/dataplane/ipam.go\<close>.  \<open>ipam_env\<close> is what the
  Kubernetes client returns; \<open>ia_patchIPSet host networks\<close> is the IPSet after \<open>CreateOrPatch\<close> has written
  its networks, with the status the address manager has given it so far.

  A slice of Go is a reference to its array.  A node that has no networks of its own takes the slice of the
  template, so the fixed address \<open>reserveIPs\<close> writes into it is written into the template, and is seen by
  the nodes visited later; the model writes it back into the node set the same way.
\<close>

subsection \<open>State\<close>

definition NodeSetIPReservationReadyCondition :: string where
  "NodeSetIPReservationReadyCondition = ''NodeSetIPReservationReady''"
definition NodeSetDNSDataReadyCondition :: string where
  "NodeSetDNSDataReadyCondition = ''NodeSetDNSDataReady''"

record reservation =
  rs_Network :: string
  rs_ServiceNetwork :: string
  rs_Address :: string
  rs_Cidr :: string
  rs_Vlan :: "int ptr"
  rs_MTU :: int
  rs_Gateway :: "string ptr"
  rs_Routes :: "string list"
  rs_DNSDomain :: string

record ipset =
  ips_Networks :: "ipset_network list"
  ips_Conditions :: conditions
  ips_Reservation :: "reservation list"

record dnsmasq =
  dm_Ready :: bool
  dm_ClusterAddresses :: "string list option"
  dm_Addresses :: "string list"
  dm_LabelSelectorValue :: string

record dns_host =
  dh_IP :: string
  dh_Hostnames :: "string list"

record ipam_env =
  ia_listDNSMasq :: "api_error + dnsmasq list"
  ia_listNetConfig :: "api_error + (string \<times> string) list list"
  ia_listIPSets :: "api_error + string list"
  ia_deleteIPSet :: "string \<Rightarrow> api_error option"
  ia_patchIPSet :: "string \<Rightarrow> ipset_network list \<Rightarrow> api_error + ipset"
  ia_patchDNSData :: "dns_host list \<Rightarrow> string \<Rightarrow> api_error option"
  ia_getDNSDataReady :: "api_error + bool"

record dns_details =
  dd_IsReady :: bool
  dd_ServerAddresses :: "string list"
  dd_ClusterAddresses :: "string list option"
  dd_CtlplaneSearchDomain :: string
  dd_Hostnames :: "(string, (string, string) gomap) gomap"
  dd_AllIPs :: "(string, (string, string) gomap) gomap"
  dd_LabelSelectorValue :: string

definition no_details :: dns_details where
  "no_details = \<lparr>dd_IsReady = False, dd_ServerAddresses = [], dd_ClusterAddresses = None, dd_CtlplaneSearchDomain = [],
     dd_Hostnames = [], dd_AllIPs = [], dd_LabelSelectorValue = []\<rparr>"

abbreviation ns_mark :: "(conditions \<Rightarrow> conditions) \<Rightarrow> dp_nodeset \<Rightarrow> dp_nodeset" where
  "ns_mark f ns \<equiv> ns\<lparr>ns_Conditions := f (ns_Conditions ns)\<rparr>"

subsection \<open>DNS\<close>

definition checkDNSService :: "ipam_env \<Rightarrow> dns_details \<Rightarrow> dns_details \<times> api_error option" where
  "checkDNSService env details =
     (case ia_listDNSMasq env of
        Inl err \<Rightarrow> (details, Some err)
      | Inr items \<Rightarrow>
          if 1 < length items
          then (details, Some (OtherError ''NodeSet DNSData error occurred. Multiple DNSMasq resources exist''))
          else if items = [] then (details, None)
          else if \<not> dm_Ready (items ! 0) then (details, None)
          else (details\<lparr>dd_ClusterAddresses := dm_ClusterAddresses (items ! 0), dd_ServerAddresses := dm_Addresses (items ! 0),
                        dd_LabelSelectorValue := dm_LabelSelectorValue (items ! 0)\<rparr>, None))"

definition BuildNetServiceNetMap :: "(string \<times> string) list \<Rightarrow> (string, string) gomap" where
  "BuildNetServiceNetMap networks =
     fold (\<lambda>(name, serviceNetwork). gomap_put (ToLower name) (if serviceNetwork = [] then ToLower name else serviceNetwork))
       networks []"

text \<open>The body of the loop over the reservations of a host.\<close>

definition dns_reservation :: "string \<Rightarrow> reservation \<Rightarrow> dns_details \<times> dns_host list \<Rightarrow> dns_details \<times> dns_host list" where
  "dns_reservation hostName res s =
     (case s of (d, records) \<Rightarrow>
        let netLower = ToLower (rs_Network res);
            fqdnName = hd (dots hostName) @ CHR ''.'' # rs_DNSDomain res;
            isCtl = NodeHostNameIsFQDN hostName \<and> netLower = CtlPlaneNetwork;
            names = (if fqdnName \<noteq> hostName then [fqdnName] else []) @ (if isCtl then [hostName] else []);
            put = (\<lambda>v m. gomap_put hostName (gomap_put netLower v (gomap_get [] m hostName)) m);
            hs1 = (if fqdnName \<noteq> hostName then put fqdnName (dd_Hostnames d) else dd_Hostnames d);
            hs2 = (if isCtl then put hostName hs1 else hs1)
        in (d\<lparr>dd_Hostnames := hs2, dd_AllIPs := put (rs_Address res) (dd_AllIPs d),
              dd_CtlplaneSearchDomain :=
                (if dd_CtlplaneSearchDomain d = [] \<and> netLower = CtlPlaneNetwork then rs_DNSDomain res else dd_CtlplaneSearchDomain d)\<rparr>,
            records @ [\<lparr>dh_IP = rs_Address res, dh_Hostnames = names\<rparr>]))"

definition dns_node ::
    "dp_nodeset \<Rightarrow> (string, ipset) gomap \<Rightarrow> string \<Rightarrow> dns_details \<times> dns_host list \<Rightarrow> dns_details \<times> dns_host list" where
  "dns_node ns allIPSets nodeName s =
     (case map_of (ns_Nodes ns) nodeName of
        None \<Rightarrow> s
      | Some node \<Rightarrow>
          let hostName = nd_HostName node;
              s1 = ((fst s)\<lparr>dd_Hostnames := gomap_put hostName [] (dd_Hostnames (fst s)),
                            dd_AllIPs := gomap_put hostName [] (dd_AllIPs (fst s))\<rparr>, snd s);
              nets = (if nd_Networks node = [] then ns_TemplateNetworks ns else nd_Networks node)
          in if nets = [] then s1
             else (case map_of allIPSets hostName of
                     None \<Rightarrow> s1
                   | Some ipSet \<Rightarrow> fold (dns_reservation hostName) (ips_Reservation ipSet) s1))"

definition dns_records :: "dp_nodeset \<Rightarrow> (string, ipset) gomap \<Rightarrow> dns_details \<Rightarrow> dns_details \<times> dns_host list" where
  "dns_records ns allIPSets details =
     fold (dns_node ns allIPSets) (sort (map fst (ns_Nodes ns))) (details\<lparr>dd_Hostnames := [], dd_AllIPs := []\<rparr>, [])"

definition createOrPatchDNSData ::
    "ipam_env \<Rightarrow> dp_nodeset \<Rightarrow> (string, ipset) gomap \<Rightarrow> dns_details \<Rightarrow> dns_details \<times> api_error option" where
  "createOrPatchDNSData env ns allIPSets details =
     (case dns_records ns allIPSets details of
        (d, records) \<Rightarrow> (d, ia_patchDNSData env records (dd_LabelSelectorValue d)))"

text \<open>\<open>EnsureDNSData\<close> returns the details and the error, and the node set with its condition.\<close>

definition EnsureDNSData ::
    "condlib \<Rightarrow> ipam_env \<Rightarrow> (string, ipset) gomap \<Rightarrow> dp_nodeset \<Rightarrow> dp_nodeset \<times> dns_details \<times> api_error option" where
  "EnsureDNSData L env allIPSets ns =
     (let failed = (\<lambda>msg. ns_mark (\<lambda>cs. lc_MarkFalse L cs NodeSetDNSDataReadyCondition ErrorReason SeverityError msg) ns);
          waiting = ns_mark (\<lambda>cs. lc_MarkFalse L cs NodeSetDNSDataReadyCondition RequestedReason SeverityInfo
                       ''NodeSetDNSDataReady not yet ready'') ns
      in case checkDNSService env no_details of
           (d, Some err) \<Rightarrow> (failed (err_msg err), d, Some err)
         | (d, None) \<Rightarrow>
             if dd_ClusterAddresses d = None then (waiting, d, None)
             else (case createOrPatchDNSData env ns allIPSets d of
                     (d1, Some err) \<Rightarrow> (failed (''NodeSetDNSDataReady error occurred '' @ err_msg err), d1, Some err)
                   | (d1, None) \<Rightarrow>
                       (case ia_getDNSDataReady env of
                          Inl err \<Rightarrow> (failed (''NodeSetDNSDataReady error occurred '' @ err_msg err), d1, Some err)
                        | Inr ready \<Rightarrow>
                            if \<not> ready then (waiting, d1, None)
                            else (ns_mark (\<lambda>cs. lc_MarkTrue L cs NodeSetDNSDataReadyCondition ''NodeSetDNSDataReady ready'') ns,
                                  d1\<lparr>dd_IsReady := True\<rparr>, None))))"

subsection \<open>Reservations\<close>

text \<open>Deletions, in order, up to the first that fails.\<close>

fun delete_stale :: "ipam_env \<Rightarrow> string list \<Rightarrow> string list \<Rightarrow> string list \<times> api_error option" where
  "delete_stale env hosts [] = ([], None)"
| "delete_stale env hosts (s # ss) =
     (if s \<in> set hosts then delete_stale env hosts ss
      else (case ia_deleteIPSet env s of
              Some err \<Rightarrow> ([], Some err)
            | None \<Rightarrow> (case delete_stale env hosts ss of (ds, e) \<Rightarrow> (s # ds, e))))"

definition cleanupStaleReservations :: "ipam_env \<Rightarrow> dp_nodeset \<Rightarrow> string list \<times> api_error option" where
  "cleanupStaleReservations env ns =
     (case ia_listIPSets env of
        Inl err \<Rightarrow> ([], Some err)
      | Inr items \<Rightarrow> delete_stale env (map (\<lambda>(_, node). nd_HostName node) (ns_Nodes ns)) items)"

definition is_ctlplane :: "(string, string) gomap \<Rightarrow> ipset_network \<Rightarrow> bool" where
  "is_ctlplane netServiceNetMap n \<longleftrightarrow>
     ToLower (in_Name n) = CtlPlaneNetwork \<or> gomap_get [] netServiceNetMap (ToLower (in_Name n)) = CtlPlaneNetwork"

text \<open>The inner loop of \<open>reserveIPs\<close>: the first control plane network gets the address of the host.\<close>

fun reserve_networks :: "(string, string) gomap \<Rightarrow> bool \<Rightarrow> string \<Rightarrow> ipset_network list \<Rightarrow> bool \<times> ipset_network list" where
  "reserve_networks m preProvisioned host [] = (False, [])"
| "reserve_networks m preProvisioned host (n # ns) =
     (if is_ctlplane m n
      then (True, (if preProvisioned \<and> host \<noteq> [] \<and> (in_FixedIP n = None \<or> in_FixedIP n = Some []) \<and> ParseIP host
                   then n\<lparr>in_FixedIP := Some host\<rparr> else n) # ns)
      else (case reserve_networks m preProvisioned host ns of (found, ns') \<Rightarrow> (found, n # ns')))"

text \<open>The node set with what was written into its networks, the IPSets, and the networks written per host.\<close>

record ipam_run =
  ir_NodeSet :: dp_nodeset
  ir_Sets :: "(string, ipset) gomap"
  ir_Written :: "(string \<times> ipset_network list) list"

definition reserve_node :: "ipam_env \<Rightarrow> (string, string) gomap \<Rightarrow> string \<times> dp_node \<Rightarrow> ipam_run \<Rightarrow> ipam_run step" where
  "reserve_node env m named r =
     (case named of (nodeName, node) \<Rightarrow>
        let ns = ir_NodeSet r;
            inherited = (nd_Networks node = []);
            nets = (if inherited then ns_TemplateNetworks ns else nd_Networks node)
        in if nets = [] then Return (Some (OtherError (''No Networks defined for node '' @ nodeName @ '' or template''))) r
           else (case reserve_networks m (ns_PreProvisioned ns) (nd_AnsibleHost node) nets of
                   (False, _) \<Rightarrow> Return (Some (OtherError (''ctlplane network should be defined for node '' @ nodeName))) r
                 | (True, nets') \<Rightarrow>
                     let ns' = (if inherited then ns\<lparr>ns_TemplateNetworks := nets'\<rparr>
                                else ns\<lparr>ns_Nodes := gomap_put nodeName (node\<lparr>nd_Networks := nets'\<rparr>) (ns_Nodes ns)\<rparr>);
                         r' = r\<lparr>ir_NodeSet := ns', ir_Written := ir_Written r @ [(nd_HostName node, nets')]\<rparr>
                     in (case ia_patchIPSet env (nd_HostName node) nets' of
                           Inl err \<Rightarrow> Return (Some err) r'
                         | Inr ipSet \<Rightarrow> Next (r'\<lparr>ir_Sets := gomap_put (nd_HostName node) ipSet (ir_Sets r')\<rparr>))))"

definition reserve_nodes :: "ipam_env \<Rightarrow> (string, string) gomap \<Rightarrow> dp_nodeset \<Rightarrow> ipam_run step" where
  "reserve_nodes env m ns =
     run_stages (map (reserve_node env m) (ns_Nodes ns)) \<lparr>ir_NodeSet = ns, ir_Sets = [], ir_Written = []\<rparr>"

text \<open>The maps are returned also beside an error, where the first is empty; \<open>None\<close> is the map that is not built.\<close>

definition reserveIPs :: "ipam_env \<Rightarrow> dp_nodeset \<Rightarrow> dp_nodeset \<times> (string, string) gomap option \<times> (api_error + (string, ipset) gomap)" where
  "reserveIPs env ns =
     (case ia_listNetConfig env of
        Inl err \<Rightarrow> (ns, None, Inl err)
      | Inr items \<Rightarrow>
          if items = [] then (ns, None, Inl (OtherError ''no NetConfig CR exists yet''))
          else (let m = BuildNetServiceNetMap (items ! 0)
                in case reserve_nodes env m ns of
                     Next r \<Rightarrow> (ir_NodeSet r, Some m, Inr (ir_Sets r))
                   | Return e r \<Rightarrow> (ir_NodeSet r, Some m, case e of None \<Rightarrow> Inr (ir_Sets r) | Some err \<Rightarrow> Inl err)
                   | Panic \<Rightarrow> (ns, Some m, Inr [])))"

text \<open>The IPSets and the map of networks if they are ready, or \<open>Inl\<close> the error, if there is one.\<close>

definition EnsureIPSets ::
    "condlib \<Rightarrow> ipam_env \<Rightarrow> dp_nodeset \<Rightarrow> dp_nodeset \<times> (api_error option + (string, ipset) gomap \<times> (string, string) gomap)" where
  "EnsureIPSets L env ns =
     (let failed = (\<lambda>err. ns_mark (\<lambda>cs. lc_MarkFalse L cs NodeSetIPReservationReadyCondition ErrorReason SeverityError
                             (''NodeSetIPReservationReady error occurred '' @ err_msg err)))
      in case cleanupStaleReservations env ns of
           (_, Some err) \<Rightarrow> (failed err ns, Inl (Some err))
         | (_, None) \<Rightarrow>
             (case reserveIPs env ns of
                (ns', _, Inl err) \<Rightarrow> (failed err ns', Inl (Some err))
              | (ns', m, Inr allIPSets) \<Rightarrow>
                  if list_ex (\<lambda>(_, s). lc_IsFalse L (ips_Conditions s) ReadyCondition) allIPSets
                  then (ns_mark (\<lambda>cs. lc_MarkFalse L cs NodeSetIPReservationReadyCondition RequestedReason SeverityInfo
                          ''NodeSetIPReservationReady not yet ready'') ns', Inl None)
                  else (ns_mark (\<lambda>cs. lc_MarkTrue L cs NodeSetIPReservationReadyCondition ''NodeSetIPReservationReady ready'') ns',
                        Inr (allIPSets, case m of None \<Rightarrow> [] | Some x \<Rightarrow> x))))"

subsection \<open>Laws: reservations\<close>

lemma reserve_networks_split:
  assumes "\<forall>n \<in> set pre. \<not> is_ctlplane m n" and "is_ctlplane m c"
  shows "reserve_networks m b host (pre @ c # post) =
    (True, pre @ (if b \<and> host \<noteq> [] \<and> (in_FixedIP c = None \<or> in_FixedIP c = Some []) \<and> ParseIP host
                  then c\<lparr>in_FixedIP := Some host\<rparr> else c) # post)"
  using assms by (induction pre) simp_all

lemma ParseIP_not_Nil: "ParseIP h \<Longrightarrow> h \<noteq> []"
  by (auto simp: ParseIP_def)

text \<open>What a step that goes on has written.\<close>

lemma reserve_node_Next:
  assumes "reserve_node env m (nodeName, node) r = Next r'"
  obtains nets' s where
    "reserve_networks m (ns_PreProvisioned (ir_NodeSet r)) (nd_AnsibleHost node)
       (if nd_Networks node = [] then ns_TemplateNetworks (ir_NodeSet r) else nd_Networks node) = (True, nets')"
    "ir_Written r' = ir_Written r @ [(nd_HostName node, nets')]"
    "ia_patchIPSet env (nd_HostName node) nets' = Inr s" "ir_Sets r' = gomap_put (nd_HostName node) s (ir_Sets r)"
    "ns_PreProvisioned (ir_NodeSet r') = ns_PreProvisioned (ir_NodeSet r)"
    "ns_TemplateNetworks (ir_NodeSet r') = (if nd_Networks node = [] then nets' else ns_TemplateNetworks (ir_NodeSet r))"
  using assms by (auto simp: reserve_node_def Let_def split: if_splits prod.splits bool.splits sum.splits)

lemma run_stages_Cons_Next:
  assumes "run_stages (f # fs) a = Next c"
  obtains b where "f a = Next b" and "run_stages fs b = Next c"
  using assms by (cases "f a") auto

text \<open>A pre-provisioned node set whose nodes all take the networks of the template reserves, for every node,
  the address of the node that happens to be visited first.  The comment in \<open>reserveIPs\<close> says that the fixed
  address of the control plane network is taken from the \<open>ansibleHost\<close> of the node; but the slice that is
  written is the one of the template, so the second node finds an address there and keeps it.\<close>

theorem inherited_fixed_ip_shared:
  assumes run: "reserve_nodes env m ns = Next r" and pp: "ns_PreProvisioned ns"
    and inherit: "\<forall>e \<in> set (ns_Nodes ns). nd_Networks (snd e) = []"
    and nodes: "ns_Nodes ns = (n1, first_node) # rest" and ip: "ParseIP (nd_AnsibleHost first_node)"
    and nets: "ns_TemplateNetworks ns = pre @ c # post" "\<forall>n \<in> set pre. \<not> is_ctlplane m n" "is_ctlplane m c"
      "in_FixedIP c = None \<or> in_FixedIP c = Some []"
  shows "ir_Written r = map (\<lambda>(_, node). (nd_HostName node, pre @ c\<lparr>in_FixedIP := Some (nd_AnsibleHost first_node)\<rparr> # post)) (ns_Nodes ns)"
proof -
  define fixed where "fixed = c\<lparr>in_FixedIP := Some (nd_AnsibleHost first_node)\<rparr>"
  have fx: "is_ctlplane m fixed" "in_FixedIP fixed = Some (nd_AnsibleHost first_node)" "nd_AnsibleHost first_node \<noteq> []"
    using nets(3) ip ParseIP_not_Nil by (auto simp: fixed_def is_ctlplane_def)
  have later: "ir_Written r' = ir_Written r0 @ map (\<lambda>(_, node). (nd_HostName node, pre @ fixed # post)) xs"
    if "run_stages (map (reserve_node env m) xs) r0 = Next r'" "\<forall>e \<in> set xs. nd_Networks (snd e) = []"
      "ns_TemplateNetworks (ir_NodeSet r0) = pre @ fixed # post" for xs r0 r'
    using that
  proof (induction xs arbitrary: r0)
    case (Cons e xs)
    obtain n node where e: "e = (n, node)" by (cases e)
    obtain r1 where r1: "reserve_node env m (n, node) r0 = Next r1" "run_stages (map (reserve_node env m) xs) r1 = Next r'"
      using Cons.prems(1) e by (metis list.simps(9) run_stages_Cons_Next)
    then show ?case
    proof (cases rule: reserve_node_Next [OF r1(1)])
      case (1 nets' s)
      have "nets' = pre @ fixed # post"
        using 1(1) Cons.prems(2,3) e fx(2,3) reserve_networks_split [OF nets(2) fx(1)] by simp
      then show ?thesis using 1(2,6) Cons.IH [OF r1(2)] Cons.prems(2,3) e by simp
    qed
  qed simp
  define r0 where "r0 = \<lparr>ir_NodeSet = ns, ir_Sets = [], ir_Written = []\<rparr>"
  obtain r1 where r1: "reserve_node env m (n1, first_node) r0 = Next r1" "run_stages (map (reserve_node env m) rest) r1 = Next r"
    using run nodes unfolding reserve_nodes_def r0_def by (metis list.simps(9) run_stages_Cons_Next)
  then show ?thesis
  proof (cases rule: reserve_node_Next [OF r1(1)])
    case (1 nets' s)
    have "nets' = pre @ fixed # post"
      using 1(1) reserve_networks_split [OF nets(2,3)] nets(1,4) pp ip inherit nodes fx(3) by (auto simp: r0_def fixed_def)
    then show ?thesis using 1(2,6) later [OF r1(2)] inherit nodes by (simp add: r0_def fixed_def)
  qed
qed

text \<open>A pre-provisioned node that has networks of its own gets the reservation its \<open>ansibleHost\<close> asks
  for: the IPSet that is written for it has this address on the first control plane network, unless the
  network already had a fixed address, and is otherwise what the node specifies.\<close>

theorem own_fixed_ip:
  assumes run: "reserve_nodes env m ns = Next r" and pp: "ns_PreProvisioned ns" and mem: "(n, node) \<in> set (ns_Nodes ns)"
    and ip: "ParseIP (nd_AnsibleHost node)"
    and nets: "nd_Networks node = pre @ c # post" "\<forall>x \<in> set pre. \<not> is_ctlplane m x" "is_ctlplane m c"
      "in_FixedIP c = None \<or> in_FixedIP c = Some []"
  shows "(nd_HostName node, pre @ c\<lparr>in_FixedIP := Some (nd_AnsibleHost node)\<rparr> # post) \<in> set (ir_Written r)"
proof -
  have gen: "set (ir_Written r0) \<subseteq> set (ir_Written r') \<and>
      ((n, node) \<in> set xs \<longrightarrow> (nd_HostName node, pre @ c\<lparr>in_FixedIP := Some (nd_AnsibleHost node)\<rparr> # post) \<in> set (ir_Written r'))"
    if "run_stages (map (reserve_node env m) xs) r0 = Next r'" "ns_PreProvisioned (ir_NodeSet r0)" for xs r0 r'
    using that
  proof (induction xs arbitrary: r0)
    case (Cons e xs)
    obtain n' node' where e: "e = (n', node')" by (cases e)
    obtain r1 where r1: "reserve_node env m (n', node') r0 = Next r1" "run_stages (map (reserve_node env m) xs) r1 = Next r'"
      using Cons.prems(1) e by (metis list.simps(9) run_stages_Cons_Next)
    then show ?case
    proof (cases rule: reserve_node_Next [OF r1(1)])
      case (1 nets' s)
      have "nets' = pre @ c\<lparr>in_FixedIP := Some (nd_AnsibleHost node)\<rparr> # post" if "(n', node') = (n, node)"
        using 1(1) that Cons.prems(2) nets reserve_networks_split [OF nets(2,3)] ip ParseIP_not_Nil by auto
      then show ?thesis using 1(2,5) Cons.IH [OF r1(2)] Cons.prems(2) e by auto
    qed
  qed simp
  show ?thesis using gen [OF run [unfolded reserve_nodes_def]] pp mem by simp
qed

text \<open>Every node has its IPSet when the reservations are made.\<close>

lemma reserve_nodes_sets:
  "run_stages (map (reserve_node env m) xs) r = Next r' \<Longrightarrow>
   set (map fst (ir_Sets r')) = set (map fst (ir_Sets r)) \<union> (\<lambda>e. nd_HostName (snd e)) ` set xs"
proof (induction xs arbitrary: r)
  case (Cons e xs)
  obtain n node where e: "e = (n, node)" by (cases e)
  obtain r1 where r1: "reserve_node env m (n, node) r = Next r1" "run_stages (map (reserve_node env m) xs) r1 = Next r'"
    using Cons.prems e by (metis list.simps(9) run_stages_Cons_Next)
  then show ?case
  proof (cases rule: reserve_node_Next [OF r1(1)])
    case (1 nets' s)
    have "fst ` set (ir_Sets r1) = insert (nd_HostName node) (fst ` set (ir_Sets r))"
      using dom_map_of_conv_image_fst [of "ir_Sets r1"] dom_map_of_conv_image_fst [of "ir_Sets r"] 1(4)
      by (simp add: gomap_simps)
    then show ?thesis using Cons.IH [OF r1(2)] e by auto
  qed
qed simp

lemma reserve_node_Return: "reserve_node env m e r \<noteq> Return None r'"
  by (cases e) (auto simp: reserve_node_def Let_def split: prod.splits bool.splits sum.splits)

lemma run_stages_Return_None:
  "(\<And>f a b. f \<in> set fs \<Longrightarrow> f a \<noteq> Return None b) \<Longrightarrow> run_stages fs a \<noteq> Return None b"
proof (induction fs arbitrary: a)
  case (Cons f fs)
  then show ?case by (cases "f a") auto
qed simp

lemma reserve_node_no_Panic: "reserve_node env m e r \<noteq> Panic"
  by (cases e) (auto simp: reserve_node_def Let_def split: prod.splits bool.splits sum.splits)

lemma run_stages_no_Panic: "(\<And>f a. f \<in> set fs \<Longrightarrow> f a \<noteq> Panic) \<Longrightarrow> run_stages fs a \<noteq> Panic"
proof (induction fs arbitrary: a)
  case (Cons f fs)
  then show ?case by (cases "f a") auto
qed simp

lemma reserveIPs_ok:
  assumes "reserveIPs env ns = (ns', m, Inr sets)"
  obtains nm r where "m = Some nm" "reserve_nodes env nm ns = Next r" "sets = ir_Sets r" "ns' = ir_NodeSet r"
proof -
  obtain items where i: "ia_listNetConfig env = Inr items" "items \<noteq> []"
    using assms by (auto simp: reserveIPs_def split: sum.splits if_splits)
  define nm where "nm = BuildNetServiceNetMap (items ! 0)"
  have "reserve_nodes env nm ns \<noteq> Return None r" for r
    unfolding reserve_nodes_def by (rule run_stages_Return_None) (auto simp: reserve_node_Return)
  moreover have "reserve_nodes env nm ns \<noteq> Panic"
    unfolding reserve_nodes_def by (rule run_stages_no_Panic) (auto simp: reserve_node_no_Panic)
  moreover have e: "reserveIPs env ns = (case reserve_nodes env nm ns of Next r \<Rightarrow> (ir_NodeSet r, Some nm, Inr (ir_Sets r))
      | Return e r \<Rightarrow> (ir_NodeSet r, Some nm, case e of None \<Rightarrow> Inr (ir_Sets r) | Some err \<Rightarrow> Inl err)
      | Panic \<Rightarrow> (ns, Some nm, Inr []))"
    using i by (simp add: reserveIPs_def Let_def flip: nm_def)
  ultimately have "\<exists>r. reserve_nodes env nm ns = Next r"
    using assms by (cases "reserve_nodes env nm ns") (auto split: option.splits)
  then obtain r where "reserve_nodes env nm ns = Next r" ..
  then show thesis using that [of nm r] assms e by simp
qed

lemma EnsureIPSets_ready:
  assumes "EnsureIPSets L env ns = (ns', Inr (sets, m))"
  obtains r where "reserve_nodes env m ns = Next r" "sets = ir_Sets r"
    "\<forall>(h, s) \<in> set sets. \<not> lc_IsFalse L (ips_Conditions s) ReadyCondition" "ns_Nodes ns' = ns_Nodes (ir_NodeSet r)"
proof -
  obtain ds where c: "cleanupStaleReservations env ns = (ds, None)"
    using assms by (cases "cleanupStaleReservations env ns"; cases "snd (cleanupStaleReservations env ns)")
      (simp_all add: EnsureIPSets_def)
  obtain ns1 mm x where r: "reserveIPs env ns = (ns1, mm, x)" by (cases "reserveIPs env ns")
  have x: "x = Inr sets" and m: "m = (case mm of None \<Rightarrow> [] | Some x \<Rightarrow> x)"
    and f: "\<not> list_ex (\<lambda>(_, s). lc_IsFalse L (ips_Conditions s) ReadyCondition) sets"
    using assms by (cases x; simp add: EnsureIPSets_def c r split: if_splits)+
  have "ns' = ns_mark (\<lambda>cs. lc_MarkTrue L cs NodeSetIPReservationReadyCondition ''NodeSetIPReservationReady ready'') ns1"
    using assms x f by (simp add: EnsureIPSets_def c r)
  then have n: "ns_Nodes ns' = ns_Nodes ns1" by simp
  obtain nm r where "mm = Some nm" "reserve_nodes env nm ns = Next r" "sets = ir_Sets r" "ns1 = ir_NodeSet r"
    using reserveIPs_ok [OF r [unfolded x]] .
  then show thesis using that [of r] m f n by (simp add: list_ex_iff case_prod_beta)
qed

lemma EnsureIPSets_hosts:
  assumes "EnsureIPSets L env ns = (ns', Inr (sets, m))" and "(n, node) \<in> set (ns_Nodes ns)"
  obtains s where "map_of sets (nd_HostName node) = Some s" "\<not> lc_IsFalse L (ips_Conditions s) ReadyCondition"
proof -
  obtain r where r: "reserve_nodes env m ns = Next r" "sets = ir_Sets r"
    and ready: "\<forall>(h, s) \<in> set sets. \<not> lc_IsFalse L (ips_Conditions s) ReadyCondition"
    using EnsureIPSets_ready [OF assms(1)] by metis
  have "nd_HostName node \<in> fst ` set sets"
    using reserve_nodes_sets [OF r(1) [unfolded reserve_nodes_def]] r(2) assms(2) by force
  then obtain s where "map_of sets (nd_HostName node) = Some s" by (metis domIff dom_map_of_conv_image_fst not_None_eq)
  then show thesis using that ready map_of_SomeD by fastforce
qed

text \<open>Only the IPSets of hosts that are not in the node set are deleted, and all of them unless a deletion fails.\<close>

lemma delete_stale_only: "delete_stale env hosts ss = (ds, e) \<Longrightarrow> set ds \<subseteq> set ss - set hosts"
  by (induction ss arbitrary: ds) (auto split: if_splits option.splits prod.splits)

lemma delete_stale_all: "delete_stale env hosts ss = (ds, None) \<Longrightarrow> ds = filter (\<lambda>s. s \<notin> set hosts) ss"
  by (induction ss arbitrary: ds) (auto split: if_splits option.splits prod.splits)

subsection \<open>Laws: DNS records\<close>

lemma dns_reservation_sel:
  "snd (dns_reservation h res s) = snd s @ [\<lparr>dh_IP = rs_Address res, dh_Hostnames =
     (if hd (dots h) @ CHR ''.'' # rs_DNSDomain res \<noteq> h then [hd (dots h) @ CHR ''.'' # rs_DNSDomain res] else [])
     @ (if NodeHostNameIsFQDN h \<and> ToLower (rs_Network res) = CtlPlaneNetwork then [h] else [])\<rparr>]"
  "dd_AllIPs (fst (dns_reservation h res s)) =
     gomap_put h (gomap_put (ToLower (rs_Network res)) (rs_Address res) (gomap_get [] (dd_AllIPs (fst s)) h)) (dd_AllIPs (fst s))"
  by (simp_all add: dns_reservation_def Let_def split: prod.splits)

definition record_of :: "string \<Rightarrow> reservation \<Rightarrow> dns_host" where
  "record_of h res = \<lparr>dh_IP = rs_Address res, dh_Hostnames =
     (if hd (dots h) @ CHR ''.'' # rs_DNSDomain res \<noteq> h then [hd (dots h) @ CHR ''.'' # rs_DNSDomain res] else [])
     @ (if NodeHostNameIsFQDN h \<and> ToLower (rs_Network res) = CtlPlaneNetwork then [h] else [])\<rparr>"

lemma fold_reservation_records: "snd (fold (dns_reservation h) rs s) = snd s @ map (record_of h) rs"
  by (induction rs arbitrary: s) (simp_all add: dns_reservation_sel(1) record_of_def)

definition ip_of :: "dns_details \<times> dns_host list \<Rightarrow> string \<Rightarrow> string \<Rightarrow> string option" where
  "ip_of s h k = map_of (gomap_get [] (dd_AllIPs (fst s)) h) k"

lemma ip_of_reservation:
  "ip_of (dns_reservation h res s) h' k =
     (if h' = h \<and> k = ToLower (rs_Network res) then Some (rs_Address res) else ip_of s h' k)"
  by (auto simp: ip_of_def dns_reservation_sel(2) gomap_simps)

lemma ip_of_fold_other:
  "h' \<noteq> h \<or> k \<notin> (\<lambda>r. ToLower (rs_Network r)) ` set rs \<Longrightarrow> ip_of (fold (dns_reservation h) rs s) h' k = ip_of s h' k"
  by (induction rs arbitrary: s) (auto simp: ip_of_reservation)

lemma ip_of_fold:
  "distinct (map (\<lambda>r. ToLower (rs_Network r)) rs) \<Longrightarrow> res \<in> set rs \<Longrightarrow>
   ip_of (fold (dns_reservation h) rs s) h (ToLower (rs_Network res)) = Some (rs_Address res)"
proof (induction rs arbitrary: s)
  case (Cons a rs)
  show ?case
  proof (cases "res \<in> set rs")
    case False
    then have "res = a" "ToLower (rs_Network res) \<notin> (\<lambda>r. ToLower (rs_Network r)) ` set rs" using Cons.prems by auto
    then show ?thesis by (simp add: ip_of_fold_other ip_of_reservation)
  qed (use Cons in simp)
qed simp

text \<open>A node with an IPSet, and one of its reservations.\<close>

definition reserved :: "dp_nodeset \<Rightarrow> (string, ipset) gomap \<Rightarrow> string \<Rightarrow> dp_node \<Rightarrow> reservation list \<Rightarrow> bool" where
  "reserved ns sets n node rs \<longleftrightarrow> map_of (ns_Nodes ns) n = Some node
     \<and> (nd_Networks node \<noteq> [] \<or> ns_TemplateNetworks ns \<noteq> [])
     \<and> map_option ips_Reservation (map_of sets (nd_HostName node)) = Some rs"

lemma dns_node_reserved:
  assumes "reserved ns sets n node rs"
  obtains s1 where "dns_node ns sets n s = fold (dns_reservation (nd_HostName node)) rs s1" "snd s1 = snd s"
  using assms by (force simp: reserved_def dns_node_def Let_def split: option.splits)

lemma dns_node_records: "\<exists>rs. snd (dns_node ns sets n s) = snd s @ rs"
  by (auto simp: dns_node_def Let_def fold_reservation_records split: option.splits)

lemma dns_node_other:
  assumes "\<And>node. map_of (ns_Nodes ns) n = Some node \<Longrightarrow> nd_HostName node \<noteq> h"
  shows "ip_of (dns_node ns sets n s) h k = ip_of s h k"
proof (cases "map_of (ns_Nodes ns) n")
  case (Some node)
  then have ne: "nd_HostName node \<noteq> h" using assms by simp
  define s1 where "s1 = ((fst s)\<lparr>dd_Hostnames := gomap_put (nd_HostName node) [] (dd_Hostnames (fst s)),
                            dd_AllIPs := gomap_put (nd_HostName node) [] (dd_AllIPs (fst s))\<rparr>, snd s)"
  have "ip_of s1 h k = ip_of s h k" using ne by (simp add: ip_of_def s1_def gomap_simps)
  moreover have "dns_node ns sets n s = s1 \<or> (\<exists>rs. dns_node ns sets n s = fold (dns_reservation (nd_HostName node)) rs s1)"
    using Some by (auto simp: dns_node_def Let_def s1_def split: option.splits)
  ultimately show ?thesis using ne by (auto simp: ip_of_fold_other)
qed (simp add: dns_node_def)

lemma fold_nodes_records: "\<exists>rs. snd (fold (dns_node ns sets) names s) = snd s @ rs"
proof (induction names arbitrary: s)
  case (Cons n names)
  then show ?case using dns_node_records [of ns sets n s] by (metis append_assoc fold_simps(2))
qed simp

lemma fold_nodes_other:
  assumes "\<And>n node. n \<in> set names \<Longrightarrow> map_of (ns_Nodes ns) n = Some node \<Longrightarrow> nd_HostName node \<noteq> h"
  shows "ip_of (fold (dns_node ns sets) names s) h k = ip_of s h k"
  using assms
proof (induction names arbitrary: s)
  case (Cons n names)
  have "ip_of (fold (dns_node ns sets) names (dns_node ns sets n s)) h k = ip_of (dns_node ns sets n s) h k"
    using Cons by (meson list.set_intros(2))
  then show ?case using dns_node_other [of ns n h] Cons.prems [of n] by simp
qed simp

text \<open>Every address reserved for a node is published.  For node sets whose nodes have different host
  names, \<open>createOrPatchDNSData\<close> writes a DNS record with the address of every reservation, under the name of
  the host in the domain of the network, and records the address by host and network in the status.\<close>

theorem dns_records_complete:
  assumes R: "reserved ns sets n node rs" and res: "res \<in> set rs"
    and hosts: "inj_on (\<lambda>x. nd_HostName (the (map_of (ns_Nodes ns) x))) (fst ` set (ns_Nodes ns))"
    and wf: "gomap_wf (ns_Nodes ns)" and nets: "distinct (map (\<lambda>r. ToLower (rs_Network r)) rs)"
  shows "record_of (nd_HostName node) res \<in> set (snd (dns_records ns sets d))"
    and "map_of (gomap_get [] (dd_AllIPs (fst (dns_records ns sets d))) (nd_HostName node)) (ToLower (rs_Network res)) = Some (rs_Address res)"
proof -
  have n: "map_of (ns_Nodes ns) n = Some node" using R by (simp add: reserved_def)
  then have nin: "n \<in> set (sort (map fst (ns_Nodes ns)))" by (force dest: map_of_SomeD)
  then obtain before after where l: "sort (map fst (ns_Nodes ns)) = before @ n # after" by (meson split_list)
  have "distinct (sort (map fst (ns_Nodes ns)))" using wf by (simp add: gomap_wf_def)
  then have after: "n \<notin> set after" using l by simp
  have other: "nd_HostName x \<noteq> nd_HostName node" if "m \<in> set after" "map_of (ns_Nodes ns) m = Some x" for m x
  proof -
    have "m \<in> set (sort (map fst (ns_Nodes ns)))" "m \<noteq> n" using that(1) after l by auto
    then show ?thesis using inj_onD [OF hosts, of m n] that(2) n nin by auto
  qed
  define s0 where "s0 = fold (dns_node ns sets) before (d\<lparr>dd_Hostnames := [], dd_AllIPs := []\<rparr>, [])"
  obtain s1 where s1: "dns_node ns sets n s0 = fold (dns_reservation (nd_HostName node)) rs s1"
    using dns_node_reserved [OF R] by metis
  have D: "dns_records ns sets d = fold (dns_node ns sets) after (dns_node ns sets n s0)"
    by (simp add: dns_records_def l s0_def)
  have "record_of (nd_HostName node) res \<in> set (snd (dns_node ns sets n s0))"
    using res by (simp add: s1 fold_reservation_records)
  then show "record_of (nd_HostName node) res \<in> set (snd (dns_records ns sets d))"
    using fold_nodes_records [of ns sets after "dns_node ns sets n s0"] D by auto
  have "ip_of (dns_records ns sets d) (nd_HostName node) (ToLower (rs_Network res)) = Some (rs_Address res)"
    unfolding D using other ip_of_fold [OF nets res] by (simp add: fold_nodes_other s1)
  then show "map_of (gomap_get [] (dd_AllIPs (fst (dns_records ns sets d))) (nd_HostName node)) (ToLower (rs_Network res)) = Some (rs_Address res)"
    by (simp add: ip_of_def)
qed

text \<open>The DNS records do not depend on the order in which Go iterates over the nodes or the IPSets, so the
  object written is the same in every reconciliation and does not trigger another one.\<close>

theorem dns_records_order:
  assumes "gomap_wf (ns_Nodes ns)" and "distinct (map fst nodes)" and "set nodes = set (ns_Nodes ns)"
    and "map_of sets' = map_of sets"
  shows "dns_records (ns\<lparr>ns_Nodes := nodes\<rparr>) sets' d = dns_records ns sets d"
proof -
  have m: "map_of nodes = map_of (ns_Nodes ns)"
    using assms map_of_inject_set [of nodes "ns_Nodes ns"] by (simp add: gomap_wf_def)
  then have "dns_node (ns\<lparr>ns_Nodes := nodes\<rparr>) sets' = dns_node ns sets"
    by (intro ext) (simp add: dns_node_def m assms(4) Let_def split: option.split)
  moreover have "sort (map fst nodes) = sort (map fst (ns_Nodes ns))"
    using assms(1-3) by (metis gomap_wf_def list.set_map sorted_list_of_set_sort_remdups distinct_remdups_id)
  ultimately show ?thesis by (simp add: dns_records_def)
qed

subsection \<open>Examples\<close>

definition ctl_net :: "string ptr \<Rightarrow> ipset_network" where
  "ctl_net ip = \<lparr>in_Name = ''CtlPlane'', in_FixedIP = ip\<rparr>"

lemma ctl_net_sel [simp]: "in_FixedIP (ctl_net ip) = ip" "(ctl_net ip)\<lparr>in_FixedIP := ip'\<rparr> = ctl_net ip'"
  by (simp_all add: ctl_net_def)

definition pre_node :: "string \<Rightarrow> string \<Rightarrow> dp_node" where
  "pre_node h ip = (sample_node h)\<lparr>nd_AnsibleHost := ip\<rparr>"

lemma pre_node_sel [simp]:
  "nd_HostName (pre_node h ip) = h" "nd_AnsibleHost (pre_node h ip) = ip" "nd_Networks (pre_node h ip) = []"
  by (simp_all add: pre_node_def)

definition ctl_reservation :: reservation where
  "ctl_reservation = \<lparr>rs_Network = ''CtlPlane'', rs_ServiceNetwork = ''ctlplane'', rs_Address = ''192.168.122.10'',
     rs_Cidr = ''192.168.122.0/24'', rs_Vlan = None, rs_MTU = 1500, rs_Gateway = Some ''192.168.122.1'', rs_Routes = [],
     rs_DNSDomain = ''ctlplane.example.com''\<rparr>"

definition sample_ipam :: ipam_env where
  "sample_ipam = \<lparr>ia_listDNSMasq = Inr [], ia_listNetConfig = Inr [[(''CtlPlane'', [])]], ia_listIPSets = Inr [],
     ia_deleteIPSet = (\<lambda>_. None),
     ia_patchIPSet = (\<lambda>_ nets. Inr \<lparr>ips_Networks = nets, ips_Conditions = [], ips_Reservation = [ctl_reservation]\<rparr>),
     ia_patchDNSData = (\<lambda>_ _. None), ia_getDNSDataReady = Inr True\<rparr>"

definition template_nodeset :: dp_nodeset where
  "template_nodeset = (sample_nodeset ''edpm'' [])\<lparr>ns_TemplateNetworks := [ctl_net None],
     ns_Nodes := [(''n0'', pre_node ''h0'' ''192.168.122.100''), (''n1'', pre_node ''h1'' ''192.168.122.101'')]\<rparr>"

lemma template_nodeset_sel [simp]:
  "ns_PreProvisioned template_nodeset" "ns_TemplateNetworks template_nodeset = [ctl_net None]"
  "ns_Nodes template_nodeset = [(''n0'', pre_node ''h0'' ''192.168.122.100''), (''n1'', pre_node ''h1'' ''192.168.122.101'')]"
  by (simp_all add: template_nodeset_def sample_nodeset_def)

lemma ctl_net_is_ctlplane [simp]: "is_ctlplane m (ctl_net ip)"
  by (simp add: is_ctlplane_def ctl_net_def CtlPlaneNetwork_def) code_simp

lemma sample_ips [simp]: "ParseIP ''192.168.122.100''" "ParseIP ''192.168.122.101''"
  by code_simp+

lemma sample_reserve: "\<exists>r. reserve_nodes sample_ipam [] template_nodeset = Next r"
  by (simp add: reserve_nodes_def reserve_node_def sample_ipam_def Let_def)

theorem inherited_fixed_ip_shared_witness:
  "\<exists>r. reserve_nodes sample_ipam [] template_nodeset = Next r \<and>
     ir_Written r = [(''h0'', [ctl_net (Some ''192.168.122.100'')]), (''h1'', [ctl_net (Some ''192.168.122.100'')])]"
proof -
  obtain r where r: "reserve_nodes sample_ipam [] template_nodeset = Next r" using sample_reserve ..
  have "ir_Written r = [(''h0'', [ctl_net (Some ''192.168.122.100'')]), (''h1'', [ctl_net (Some ''192.168.122.100'')])]"
    using inherited_fixed_ip_shared [OF r, of "''n0''" _ _ "[]" "ctl_net None" "[]"] by simp
  then show ?thesis using r by blast
qed

definition own_nodeset :: dp_nodeset where
  "own_nodeset = (sample_nodeset ''edpm'' [])\<lparr>
     ns_Nodes := [(''n0'', (pre_node ''h0'' ''192.168.122.100'')\<lparr>nd_Networks := [ctl_net None]\<rparr>),
                  (''n1'', (pre_node ''h1'' ''192.168.122.101'')\<lparr>nd_Networks := [ctl_net None]\<rparr>)]\<rparr>"

theorem own_fixed_ip_witness:
  "\<exists>r. reserve_nodes sample_ipam [] own_nodeset = Next r \<and> (''h1'', [ctl_net (Some ''192.168.122.101'')]) \<in> set (ir_Written r)"
proof -
  have "\<exists>r. reserve_nodes sample_ipam [] own_nodeset = Next r"
    by (simp add: reserve_nodes_def reserve_node_def sample_ipam_def own_nodeset_def sample_nodeset_def Let_def)
  then obtain r where r: "reserve_nodes sample_ipam [] own_nodeset = Next r" ..
  have "(''h1'', [ctl_net (Some ''192.168.122.101'')]) \<in> set (ir_Written r)"
    using own_fixed_ip [OF r, of "''n1''" "(pre_node ''h1'' ''192.168.122.101'')\<lparr>nd_Networks := [ctl_net None]\<rparr>" "[]" "ctl_net None" "[]"]
    by (simp add: own_nodeset_def sample_nodeset_def)
  then show ?thesis using r by blast
qed

theorem dns_records_complete_witness:
  "record_of ''h0'' ctl_reservation \<in> set (snd (dns_records template_nodeset
     [(''h0'', \<lparr>ips_Networks = [], ips_Conditions = [], ips_Reservation = [ctl_reservation]\<rparr>)] no_details))"
  by (rule dns_records_complete(1) [of _ _ "''n0''" "pre_node ''h0'' ''192.168.122.100''" "[ctl_reservation]", simplified])
    (simp_all add: reserved_def gomap_wf_def)

theorem dns_records_order_witness:
  "dns_records (template_nodeset\<lparr>ns_Nodes := rev (ns_Nodes template_nodeset)\<rparr>) [] no_details = dns_records template_nodeset [] no_details"
  by (rule dns_records_order) (auto simp: gomap_wf_def)

text \<open>\<open>EnsureIPSets\<close> waits only for IPSets whose Ready condition is false.  An IPSet that has just been
  created has no conditions yet and no reservation, and counts as ready: with it the reconciliation goes on
  and marks the reservation of addresses as ready, though no address has been reserved.\<close>

theorem EnsureIPSets_ready_iff:
  assumes L: "condlib_laws L" and c: "cleanupStaleReservations env ns = (ds, None)" and r: "reserveIPs env ns = (ns1, Some m, Inr sets)"
  shows "snd (EnsureIPSets L env ns) = Inr (sets, m) \<longleftrightarrow>
      (\<forall>e \<in> set sets. map_option c_status (lc_Get L (ips_Conditions (snd e)) ReadyCondition) \<noteq> Some CFalse)"
    and "lc_IsTrue L (ns_Conditions (fst (EnsureIPSets L env ns))) NodeSetIPReservationReadyCondition \<longleftrightarrow>
      snd (EnsureIPSets L env ns) = Inr (sets, m)"
  using L c r by (simp_all add: EnsureIPSets_def Let_def list_ex_iff condlib_IsFalse case_prod_beta)

definition fresh_ipam :: ipam_env where
  "fresh_ipam = sample_ipam\<lparr>ia_patchIPSet := (\<lambda>_ nets. Inr \<lparr>ips_Networks = nets, ips_Conditions = [], ips_Reservation = []\<rparr>)\<rparr>"

theorem EnsureIPSets_ready_iff_witness:
  "lc_IsTrue list_condlib (ns_Conditions (fst (EnsureIPSets list_condlib fresh_ipam template_nodeset))) NodeSetIPReservationReadyCondition
   \<and> (\<exists>sets m. snd (EnsureIPSets list_condlib fresh_ipam template_nodeset) = Inr (sets, m)
        \<and> sets \<noteq> [] \<and> (\<forall>(h, s) \<in> set sets. ips_Reservation s = []))"
proof -
  have c: "cleanupStaleReservations fresh_ipam template_nodeset = ([], None)"
    by (simp add: cleanupStaleReservations_def fresh_ipam_def sample_ipam_def)
  have "\<exists>ns1 m sets. reserveIPs fresh_ipam template_nodeset = (ns1, Some m, Inr sets) \<and> sets \<noteq> []
      \<and> (\<forall>(h, s) \<in> set sets. ips_Reservation s = [] \<and> ips_Conditions s = [])"
    by (simp add: reserveIPs_def reserve_nodes_def reserve_node_def fresh_ipam_def sample_ipam_def Let_def)
  then obtain ns1 m sets where r: "reserveIPs fresh_ipam template_nodeset = (ns1, Some m, Inr sets)" "sets \<noteq> []"
    "\<forall>(h, s) \<in> set sets. ips_Reservation s = [] \<and> ips_Conditions s = []" by blast
  have "snd (EnsureIPSets list_condlib fresh_ipam template_nodeset) = Inr (sets, m)"
    using EnsureIPSets_ready_iff(1) [OF list_condlib_laws c r(1)] r(3) by (auto simp: case_prod_beta)
  then show ?thesis using EnsureIPSets_ready_iff(2) [OF list_condlib_laws c r(1)] r(2,3) by auto
qed

end
