(* ===== verification/Image_Registry.thy ===== *)
theory Image_Registry
  imports Dataplane_Types "HOL-Library.List_Lexorder" "HOL-Library.Char_ord" "HOL-Library.Sublist"
begin

text \<open>
  Mirror registries and image signatures of a cluster: \<open>internal/dataplane/util/image_registry.go\<close>.
  \<open>registry_env\<close> is what the Kubernetes client returns.  An image mirror set is the list of its sources with
  their mirrors.  The ignition file of a MachineConfig is decoded by \<open>re_unmarshal\<close> into the sources of its
  files.  A field of an unstructured object is missing, of another type (with the error the accessor
  returns), or found.  White space is that of ASCII.
\<close>

subsection \<open>State\<close>

datatype 'a nested = Missing | BadType string | Found 'a

record image_policy =
  ip_Name :: string
  ip_policyType :: "string nested"
  ip_keyData :: "string nested"
  ip_scopes :: "string list nested"
  ip_matchPolicy :: "string nested"
  ip_signedPrefix :: "string nested"

type_synonym mirror_set = "string \<times> string list"

record registry_env =
  re_idms :: "api_error + mirror_set list list"
  re_icsp :: "api_error + mirror_set list list"
  re_machineConfig :: "api_error + string"
  re_unmarshal :: "string \<Rightarrow> api_error + string list"
  re_crdVersions :: "api_error + (string \<times> bool) list"
  re_policies :: "string \<Rightarrow> api_error + image_policy list"
  re_imageConfig :: "api_error + string"
  re_caConfigMap :: "string \<Rightarrow> api_error + (string, string) gomap"

record registry_mapping =
  rm_Mirror :: string
  rm_Source :: string
  rm_SignedPrefix :: string

record sigstore_policy =
  sg_RegistryMappings :: "registry_mapping list"
  sg_CosignKeyData :: string

subsection \<open>Strings\<close>

definition str_contains :: "string \<Rightarrow> string \<Rightarrow> bool" where
  "str_contains sub s = list_ex (prefix sub) (suffixes s)"

definition is_space :: "char \<Rightarrow> bool" where
  "is_space c \<longleftrightarrow> c = CHR '' '' \<or> 9 \<le> (of_char c :: nat) \<and> (of_char c :: nat) \<le> 13"

definition TrimSpace :: "string \<Rightarrow> string" where
  "TrimSpace s = rev (dropWhile is_space (rev (dropWhile is_space s)))"

definition TrimSuffix :: "string \<Rightarrow> string \<Rightarrow> string" where
  "TrimSuffix s suf = (if suffix suf s then take (length s - length suf) s else s)"

definition IsNoMatchError :: "api_error \<Rightarrow> bool" where
  "IsNoMatchError err \<longleftrightarrow> str_contains ''no matches for kind'' (err_msg err) \<or> str_contains ''no kind is registered'' (err_msg err)"

definition normalizeImageScope :: "string \<Rightarrow> string" where
  "normalizeImageScope scope = TrimSuffix (TrimSpace scope) ''/''"

subsection \<open>Mirrors\<close>

definition HasMirrorRegistries :: "registry_env \<Rightarrow> api_error + bool" where
  "HasMirrorRegistries env =
     (let icsp = (case re_icsp env of
                    Inl err \<Rightarrow> if IsNoMatchError err then Inr False else Inl err
                  | Inr items \<Rightarrow> Inr (items \<noteq> []))
      in case re_idms env of
           Inl err \<Rightarrow> if IsNoMatchError err then icsp else Inl err
         | Inr items \<Rightarrow> if items \<noteq> [] then Inr True else icsp)"

definition sortedSetKeys :: "string list \<Rightarrow> string list" where
  "sortedSetKeys ks = sort (remdups ks)"

text \<open>The two loops over the sources and their mirrors: the normalised mirrors and their sources.\<close>

definition mirror_scopes :: "mirror_set list \<Rightarrow> string list" where
  "mirror_scopes sets = filter (\<lambda>m. m \<noteq> []) (concat (map (\<lambda>(_, mirrors). map normalizeImageScope mirrors) sets))"

definition mirror_sources :: "mirror_set list \<Rightarrow> (string, string) gomap" where
  "mirror_sources sets =
     fold (\<lambda>(s, m). gomap_put m s)
       (filter (\<lambda>(s, m). m \<noteq> [] \<and> s \<noteq> [])
          (concat (map (\<lambda>(source, mirrors). map (\<lambda>m. (normalizeImageScope source, normalizeImageScope m)) mirrors) sets))) []"

definition GetMirrorRegistryScopes :: "registry_env \<Rightarrow> api_error + string list \<times> (string, string) gomap" where
  "GetMirrorRegistryScopes env =
     (let icsp = (case re_icsp env of
                    Inl err \<Rightarrow> if IsNoMatchError err then Inr ([], []) else Inl err
                  | Inr items \<Rightarrow> Inr (sortedSetKeys (mirror_scopes (concat items)), mirror_sources (concat items)))
      in case re_idms env of
           Inl err \<Rightarrow> if IsNoMatchError err then icsp else Inl err
         | Inr items \<Rightarrow>
             if mirror_scopes (concat items) \<noteq> []
             then Inr (sortedSetKeys (mirror_scopes (concat items)), mirror_sources (concat items)) else icsp)"

subsection \<open>The registry configuration of the machines\<close>

definition b64Prefix :: string where "b64Prefix = ''data:text/plain;charset=utf-8;base64,''"

text \<open>\<open>None\<close> is the panic of \<open>Files[0]\<close> on an ignition file without files.\<close>

definition removePrefixFromB64String :: "string list \<Rightarrow> (api_error + string) option" where
  "removePrefixFromB64String files =
     (case files of
        [] \<Rightarrow> None
      | source # _ \<Rightarrow> Some (if prefix b64Prefix source then Inr (drop (length b64Prefix) source)
                            else Inl (OtherError ''no b64prefix found in MachineConfig'')))"

text \<open>\<open>base64.StdEncoding.DecodeString\<close>: line breaks are skipped, four characters give three bytes, padding
  ends the text, and spare bits of the last character are ignored.  The position in the error text is left out.\<close>

definition b64_value :: "char \<Rightarrow> nat option" where
  "b64_value c =
     (let n = (of_char c :: nat)
      in if 65 \<le> n \<and> n \<le> 90 then Some (n - 65) else if 97 \<le> n \<and> n \<le> 122 then Some (n - 71)
         else if 48 \<le> n \<and> n \<le> 57 then Some (n + 4) else if c = CHR ''+'' then Some 62 else if c = CHR ''/'' then Some 63 else None)"

fun b64_groups :: "string \<Rightarrow> string option" where
  "b64_groups [] = Some []"
| "b64_groups (a # b # c # d # s) =
     (case (b64_value a, b64_value b) of
        (Some x, Some y) \<Rightarrow>
          let first = char_of (4 * x + y div 16) in
          (case b64_value c of
             Some z \<Rightarrow>
               let second = char_of ((y mod 16) * 16 + z div 4) in
               (case b64_value d of
                  Some w \<Rightarrow> map_option (\<lambda>t. first # second # char_of ((z mod 4) * 64 + w) # t) (b64_groups s)
                | None \<Rightarrow> if d = CHR ''='' \<and> s = [] then Some [first, second] else None)
           | None \<Rightarrow> if c = CHR ''='' \<and> d = CHR ''='' \<and> s = [] then Some [first] else None)
      | _ \<Rightarrow> None)"
| "b64_groups _ = None"

definition base64_decode :: "string \<Rightarrow> api_error + string" where
  "base64_decode s =
     (case b64_groups (filter (\<lambda>c. (of_char c :: nat) \<noteq> 10 \<and> (of_char c :: nat) \<noteq> 13) s) of
        None \<Rightarrow> Inl (OtherError ''illegal base64 data'')
      | Some t \<Rightarrow> Inr t)"

definition formatRegistriesConfString :: "registry_env \<Rightarrow> string \<Rightarrow> (api_error + string) option" where
  "formatRegistriesConfString env raw =
     (case re_unmarshal env raw of
        Inl err \<Rightarrow> Some (Inl err)
      | Inr files \<Rightarrow>
          (case removePrefixFromB64String files of
             None \<Rightarrow> None
           | Some (Inl err) \<Rightarrow> Some (Inl err)
           | Some (Inr b64) \<Rightarrow> Some (base64_decode b64)))"

definition GetMCRegistryConf :: "registry_env \<Rightarrow> (api_error + string) option" where
  "GetMCRegistryConf env =
     (case re_machineConfig env of Inl err \<Rightarrow> Some (Inl err) | Inr raw \<Rightarrow> formatRegistriesConfString env raw)"

subsection \<open>Signature policies\<close>

definition clusterImagePolicyScopeMatchesMirror :: "string \<Rightarrow> string \<Rightarrow> bool" where
  "clusterImagePolicyScopeMatchesMirror policyScope0 mirrorScope0 =
     (let policyScope = normalizeImageScope policyScope0; mirrorScope = normalizeImageScope mirrorScope0
      in if policyScope = [] \<or> mirrorScope = [] then False
         else if prefix ''*.'' policyScope
         then (let host = takeWhile (\<lambda>c. c \<noteq> CHR '':'') (takeWhile (\<lambda>c. c \<noteq> CHR ''/'') mirrorScope)
               in suffix (tl policyScope) host)
         else mirrorScope = policyScope \<or> prefix (policyScope @ ''/'') mirrorScope)"

definition getServedClusterImagePolicyVersion :: "registry_env \<Rightarrow> api_error + string" where
  "getServedClusterImagePolicyVersion env =
     (case re_crdVersions env of
        Inl err \<Rightarrow> if IsNotFound err \<or> IsNoMatchError err then Inr [] else Inl err
      | Inr versions \<Rightarrow>
          (case filter (\<lambda>v. (v, True) \<in> set versions) [''v1'', ''v1alpha1''] of
             [] \<Rightarrow> Inr []
           | v # _ \<Rightarrow> Inr v))"

definition listClusterImagePolicies :: "registry_env \<Rightarrow> string \<Rightarrow> api_error + image_policy list option" where
  "listClusterImagePolicies env version =
     (case re_policies env version of
        Inl err \<Rightarrow> if IsNoMatchError err then Inr None else Inl err
      | Inr items \<Rightarrow> Inr (Some items))"

definition collectMatchedMirrorScopes :: "string list \<Rightarrow> string list \<Rightarrow> string list" where
  "collectMatchedMirrorScopes policyScopes mirrorScopes =
     sortedSetKeys (concat (map (\<lambda>scope.
        let policyScope = normalizeImageScope scope
        in if policyScope = [] then [] else filter (clusterImagePolicyScopeMatchesMirror policyScope) mirrorScopes) policyScopes))"

record policy_match =
  pm_name :: string
  pm_keyData :: string
  pm_signedPrefix :: string

definition parse_error :: "image_policy \<Rightarrow> string \<Rightarrow> string \<Rightarrow> api_error" where
  "parse_error p what e = OtherError (''failed to parse ClusterImagePolicy '' @ ip_Name p @ '' '' @ what @ '': '' @ e)"

text \<open>What a policy contributes: \<open>None\<close> if it is passed over.\<close>

definition policy_entry :: "image_policy \<Rightarrow> api_error + (policy_match \<times> string list) option" where
  "policy_entry p =
     (if ip_Name p = ''openshift'' then Inr None
      else (case ip_policyType p of
              BadType e \<Rightarrow> Inl (parse_error p ''policyType'' e)
            | Missing \<Rightarrow> Inr None
            | Found policyType \<Rightarrow>
                if policyType \<noteq> ''PublicKey'' then Inr None
                else (case ip_keyData p of
                        BadType e \<Rightarrow> Inl (parse_error p ''keyData'' e)
                      | Missing \<Rightarrow> Inr None
                      | Found keyData \<Rightarrow>
                          if keyData = [] then Inr None
                          else (case ip_scopes p of
                                  BadType e \<Rightarrow> Inl (parse_error p ''scopes'' e)
                                | Missing \<Rightarrow> Inr None
                                | Found scopes \<Rightarrow>
                                    if scopes = [] then Inr None
                                    else (let entry = (\<lambda>pre. Inr (Some (\<lparr>pm_name = ip_Name p, pm_keyData = keyData, pm_signedPrefix = pre\<rparr>, scopes)))
                                          in case ip_matchPolicy p of
                                               BadType e \<Rightarrow> Inl (parse_error p ''matchPolicy'' e)
                                             | Missing \<Rightarrow> entry []
                                             | Found matchPolicy \<Rightarrow>
                                                 if matchPolicy = ''RemapIdentity''
                                                 then (case ip_signedPrefix p of
                                                         BadType e \<Rightarrow> Inl (parse_error p ''signedPrefix'' e)
                                                       | Missing \<Rightarrow> entry []
                                                       | Found pre \<Rightarrow> entry pre)
                                                 else entry [])))))"

fun add_matches :: "policy_match \<Rightarrow> string list \<Rightarrow> (string, policy_match) gomap \<Rightarrow> api_error + (string, policy_match) gomap" where
  "add_matches pm [] m = Inr m"
| "add_matches pm (mirror # mirrors) m =
     (case map_of m mirror of
        Some existing \<Rightarrow> Inl (OtherError (''mirror scope '' @ mirror @ '' matched multiple ClusterImagePolicies: '' @ pm_name existing
             @ '', '' @ pm_name pm))
      | None \<Rightarrow> add_matches pm mirrors (gomap_put mirror pm m))"

fun match_policies :: "string list \<Rightarrow> image_policy list \<Rightarrow> (string, policy_match) gomap \<Rightarrow> api_error + (string, policy_match) gomap" where
  "match_policies mirrors [] m = Inr m"
| "match_policies mirrors (p # ps) m =
     (case policy_entry p of
        Inl err \<Rightarrow> Inl err
      | Inr None \<Rightarrow> match_policies mirrors ps m
      | Inr (Some (pm, scopes)) \<Rightarrow>
          (case add_matches pm (collectMatchedMirrorScopes scopes mirrors) m of
             Inl err \<Rightarrow> Inl err
           | Inr m' \<Rightarrow> match_policies mirrors ps m'))"

fun registry_mappings ::
    "policy_match \<Rightarrow> (string, policy_match) gomap \<Rightarrow> (string, string) gomap \<Rightarrow> string list \<Rightarrow> api_error + registry_mapping list" where
  "registry_mappings first m sources [] = Inr []"
| "registry_mappings first m sources (mirror # mirrors) =
     (case map_of m mirror of
        None \<Rightarrow> registry_mappings first m sources mirrors
      | Some mm \<Rightarrow>
          if pm_keyData first \<noteq> pm_keyData mm
          then Inl (OtherError (''matched ClusterImagePolicies use different cosign key data and cannot be combined: ''
                 @ pm_name first @ '', '' @ pm_name mm))
          else map_sum (\<lambda>e. e)
                 ((#) \<lparr>rm_Mirror = mirror, rm_Source = gomap_get [] sources mirror, rm_SignedPrefix = pm_signedPrefix mm\<rparr>)
                 (registry_mappings first m sources mirrors))"

definition sigstore_of :: "(string, policy_match) gomap \<Rightarrow> (string, string) gomap \<Rightarrow> api_error + sigstore_policy option" where
  "sigstore_of m sources =
     (case sort (map fst m) of
        [] \<Rightarrow> Inr None
      | mirror # mirrors \<Rightarrow>
          (case map_of m mirror of
             None \<Rightarrow> Inr None
           | Some first \<Rightarrow>
               map_sum (\<lambda>e. e) (\<lambda>rms. Some \<lparr>sg_RegistryMappings = rms, sg_CosignKeyData = pm_keyData first\<rparr>)
                 (registry_mappings first m sources (mirror # mirrors))))"

definition GetSigstoreImagePolicy ::
    "registry_env \<Rightarrow> string list \<Rightarrow> (string, string) gomap \<Rightarrow> api_error + sigstore_policy option" where
  "GetSigstoreImagePolicy env mirrorScopes sourceByMirror =
     (if mirrorScopes = [] then Inr None
      else (case getServedClusterImagePolicyVersion env of
              Inl err \<Rightarrow> Inl err
            | Inr version \<Rightarrow>
                if version = [] then Inr None
                else (case listClusterImagePolicies env version of
                        Inl err \<Rightarrow> Inl err
                      | Inr None \<Rightarrow> Inr None
                      | Inr (Some policies) \<Rightarrow>
                          (let scopes = filter (\<lambda>s. normalizeImageScope s \<noteq> []) mirrorScopes;
                               sources = fold (\<lambda>s. gomap_put (normalizeImageScope s) (gomap_get [] sourceByMirror s)) scopes []
                           in case match_policies (sort (map normalizeImageScope scopes)) policies [] of
                                Inl err \<Rightarrow> Inl err
                              | Inr m \<Rightarrow> sigstore_of m sources))))"

definition GetMirrorRegistryCACerts :: "registry_env \<Rightarrow> api_error + (string, string) gomap" where
  "GetMirrorRegistryCACerts env =
     (case re_imageConfig env of
        Inl err \<Rightarrow> if IsNoMatchError err then Inr []
                   else Inl (OtherError (''failed to get image.config.openshift.io/cluster: '' @ err_msg err))
      | Inr name \<Rightarrow>
          if name = [] then Inr []
          else (case re_caConfigMap env name of
                  Inl err \<Rightarrow> if IsNotFound err then Inr []
                             else Inl (OtherError (''failed to get ConfigMap '' @ name @ '' in openshift-config: '' @ err_msg err))
                | Inr cm \<Rightarrow> Inr cm))"

subsection \<open>Laws\<close>

lemma sortedSetKeys_simps [simp]: "set (sortedSetKeys ks) = set ks" "sorted (sortedSetKeys ks)" "distinct (sortedSetKeys ks)"
  by (simp_all add: sortedSetKeys_def)

text \<open>The policies that match a mirror, as what they contribute.\<close>

definition policy_covers :: "image_policy \<Rightarrow> string \<Rightarrow> policy_match option" where
  "policy_covers p mirror =
     (case policy_entry p of
        Inr (Some (pm, scopes)) \<Rightarrow>
          if list_ex (\<lambda>sc. normalizeImageScope sc \<noteq> [] \<and> clusterImagePolicyScopeMatchesMirror (normalizeImageScope sc) mirror) scopes
          then Some pm else None
      | _ \<Rightarrow> None)"

definition covering :: "image_policy list \<Rightarrow> string \<Rightarrow> policy_match list" where
  "covering ps mirror = List.map_filter (\<lambda>p. policy_covers p mirror) ps"

lemma covering_simps [simp]:
  "covering [] mirror = []"
  "covering (p # ps) mirror = (case policy_covers p mirror of None \<Rightarrow> covering ps mirror | Some pm \<Rightarrow> pm # covering ps mirror)"
  by (simp_all add: covering_def List.map_filter_simps split: option.splits)

lemma collectMatched_mem:
  "mirror \<in> set (collectMatchedMirrorScopes scopes ms) \<longleftrightarrow> mirror \<in> set ms \<and>
     list_ex (\<lambda>sc. normalizeImageScope sc \<noteq> [] \<and> clusterImagePolicyScopeMatchesMirror (normalizeImageScope sc) mirror) scopes"
  by (auto simp: collectMatchedMirrorScopes_def Let_def list_ex_iff)

abbreviation as_list :: "'a option \<Rightarrow> 'a list" where
  "as_list x \<equiv> (case x of None \<Rightarrow> [] | Some y \<Rightarrow> [y])"

lemma add_matches_all:
  "add_matches pm ms m = Inr m' \<Longrightarrow> distinct ms \<Longrightarrow>
   (\<forall>k. map_of m' k = (if k \<in> set ms then Some pm else map_of m k)) \<and> (\<forall>k. k \<in> set ms \<longrightarrow> map_of m k = None)
   \<and> (gomap_wf m \<longrightarrow> gomap_wf m')"
proof (induction ms arbitrary: m)
  case (Cons k ks)
  have k: "map_of m k = None" "add_matches pm ks (gomap_put k pm m) = Inr m'" "k \<notin> set ks" "distinct ks"
    using Cons.prems by (simp_all split: option.splits)
  note IH = Cons.IH [OF k(2,4)]
  have "map_of m x = None" if "x \<in> set ks" for x
  proof -
    have "map_of (gomap_put k pm m) x = None" using IH that by blast
    moreover have "x \<noteq> k" using that k(3) by blast
    ultimately show ?thesis by (simp add: map_of_put)
  qed
  then show ?case using IH k(1) by (simp add: map_of_put)
qed simp

lemma add_matches_ok:
  assumes "add_matches pm ms m = Inr m'" and "distinct ms"
  shows "map_of m' = (\<lambda>k. if k \<in> set ms then Some pm else map_of m k)" and "\<forall>k \<in> set ms. map_of m k = None"
    and "gomap_wf m \<Longrightarrow> gomap_wf m'"
  using add_matches_all [OF assms] by (simp_all add: fun_eq_iff)

text \<open>The loop over the policies keeps, for every mirror, the one policy that covers it.\<close>

lemma match_policies_ok:
  assumes "match_policies ms ps m = Inr m'"
  shows "(\<forall>k \<in> set ms. as_list (map_of m' k) = as_list (map_of m k) @ covering ps k) \<and>
    (\<forall>k. k \<notin> set ms \<longrightarrow> map_of m' k = map_of m k) \<and> (gomap_wf m \<longrightarrow> gomap_wf m')"
  using assms
proof (induction ms ps m rule: match_policies.induct)
  case (2 ms p ps m)
  then consider (skip) "policy_entry p = Inr None" | (match) pm scopes m1 where "policy_entry p = Inr (Some (pm, scopes))"
    "add_matches pm (collectMatchedMirrorScopes scopes ms) m = Inr m1"
    by (auto split: sum.splits option.splits)
  then show ?case
  proof cases
    case skip
    then show ?thesis using 2 by (simp add: policy_covers_def)
  next
    case match
    have d: "distinct (collectMatchedMirrorScopes scopes ms)" by (simp add: collectMatchedMirrorScopes_def)
    note A = add_matches_ok [OF match(2) d]
    have IH: "(\<forall>k \<in> set ms. as_list (map_of m' k) = as_list (map_of m1 k) @ covering ps k) \<and>
        (\<forall>k. k \<notin> set ms \<longrightarrow> map_of m' k = map_of m1 k) \<and> (gomap_wf m1 \<longrightarrow> gomap_wf m')"
      using 2 match by simp
    have "as_list (map_of m1 k) = as_list (map_of m k) @ as_list (policy_covers p k)" if "k \<in> set ms" for k
      using that A(1,2) match(1) by (simp add: policy_covers_def collectMatched_mem)
    moreover have "map_of m1 k = map_of m k" if "k \<notin> set ms" for k
      using that A(1) by (simp add: collectMatched_mem)
    ultimately show ?thesis using IH A(3) by (auto split: option.splits)
  qed
qed simp

lemma registry_mappings_ok:
  assumes "registry_mappings first m sources ks = Inr rms" and "\<forall>k \<in> set ks. map_of m k \<noteq> None"
  shows "map rm_Mirror rms = ks \<and> (\<forall>rm \<in> set rms. \<exists>pm. map_of m (rm_Mirror rm) = Some pm \<and> pm_keyData pm = pm_keyData first
    \<and> rm_SignedPrefix rm = pm_signedPrefix pm \<and> rm_Source rm = gomap_get [] sources (rm_Mirror rm))"
  using assms
proof (induction ks arbitrary: rms)
  case (Cons k ks)
  then obtain mm where mm: "map_of m k = Some mm" "pm_keyData mm = pm_keyData first" by (auto split: if_splits)
  then obtain rest where "registry_mappings first m sources ks = Inr rest"
    "rms = \<lparr>rm_Mirror = k, rm_Source = gomap_get [] sources k, rm_SignedPrefix = pm_signedPrefix mm\<rparr> # rest"
    using Cons.prems(1) by (cases "registry_mappings first m sources ks") auto
  then show ?case using Cons.IH Cons.prems(2) mm by auto
qed simp

lemma sigstore_of_ok:
  assumes "sigstore_of m sources = Inr (Some info)"
  shows "map rm_Mirror (sg_RegistryMappings info) = sort (map fst m) \<and>
    (\<forall>rm \<in> set (sg_RegistryMappings info). \<exists>pm. map_of m (rm_Mirror rm) = Some pm \<and> pm_keyData pm = sg_CosignKeyData info
       \<and> rm_SignedPrefix rm = pm_signedPrefix pm)"
proof -
  obtain k ks pm where k: "sort (map fst m) = k # ks" "map_of m k = Some pm"
    using assms by (auto simp: sigstore_of_def split: list.splits option.splits)
  then obtain rms where r: "registry_mappings pm m sources (k # ks) = Inr rms"
    "info = \<lparr>sg_RegistryMappings = rms, sg_CosignKeyData = pm_keyData pm\<rparr>"
    using assms by (cases "registry_mappings pm m sources (k # ks)") (auto simp: sigstore_of_def simp del: registry_mappings.simps)
  have "set (k # ks) = fst ` set m" using k(1) by (metis list.set_map set_sort)
  then have "\<forall>x \<in> set (k # ks). map_of m x \<noteq> None" by (metis domIff dom_map_of_conv_image_fst)
  then show ?thesis using registry_mappings_ok [OF r(1)] r(2) k(1) by fastforce
qed

text \<open>The mirrors in use, normalised.\<close>

definition used_mirrors :: "string list \<Rightarrow> string set" where
  "used_mirrors scopes = normalizeImageScope ` {s \<in> set scopes. normalizeImageScope s \<noteq> []}"

text \<open>The signature settings of a node set are unambiguous and complete.  When
  \<open>GetSigstoreImagePolicy\<close> returns settings, exactly the mirrors in use that some policy matches are mapped,
  in sorted order and once each; every one of them is matched by a single policy, whose prefix it carries; and
  all these policies have the one key that is returned.\<close>

theorem GetSigstoreImagePolicy_spec:
  assumes "GetSigstoreImagePolicy env scopes sources = Inr (Some info)"
  shows "\<exists>version policies. getServedClusterImagePolicyVersion env = Inr version \<and> re_policies env version = Inr policies
    \<and> sorted (map rm_Mirror (sg_RegistryMappings info)) \<and> distinct (map rm_Mirror (sg_RegistryMappings info))
    \<and> set (map rm_Mirror (sg_RegistryMappings info)) = {k \<in> used_mirrors scopes. covering policies k \<noteq> []}
    \<and> (\<forall>rm \<in> set (sg_RegistryMappings info). \<exists>pm. covering policies (rm_Mirror rm) = [pm]
           \<and> pm_keyData pm = sg_CosignKeyData info \<and> pm_signedPrefix pm = rm_SignedPrefix rm)"
proof -
  define ms where "ms = sort (map normalizeImageScope (filter (\<lambda>s. normalizeImageScope s \<noteq> []) scopes))"
  obtain version policies m src where v: "getServedClusterImagePolicyVersion env = Inr version" "re_policies env version = Inr policies"
    and m: "match_policies ms policies [] = Inr m" "sigstore_of m src = Inr (Some info)"
    using assms by (auto simp: GetSigstoreImagePolicy_def listClusterImagePolicies_def ms_def Let_def split: if_splits sum.splits option.splits)
  note M = match_policies_ok [OF m(1)] and S = sigstore_of_ok [OF m(2)]
  have ms: "set ms = used_mirrors scopes" by (auto simp: ms_def used_mirrors_def)
  have keys: "k \<in> fst ` set m \<longleftrightarrow> k \<in> set ms \<and> covering policies k \<noteq> []" for k
    using M by (cases "k \<in> set ms") (auto simp: dom_map_of_conv_image_fst [symmetric] domIff split: option.splits)
  have mirrors: "set (map rm_Mirror (sg_RegistryMappings info)) = fst ` set m" using S by (metis list.set_map set_sort)
  show ?thesis
  proof (intro exI conjI, rule v(1), rule v(2))
    show "sorted (map rm_Mirror (sg_RegistryMappings info))" "distinct (map rm_Mirror (sg_RegistryMappings info))"
      using S M by (simp_all add: gomap_wf_def)
    show "set (map rm_Mirror (sg_RegistryMappings info)) = {k \<in> used_mirrors scopes. covering policies k \<noteq> []}"
      unfolding mirrors using keys ms by auto
    show "\<forall>rm \<in> set (sg_RegistryMappings info). \<exists>pm. covering policies (rm_Mirror rm) = [pm]
           \<and> pm_keyData pm = sg_CosignKeyData info \<and> pm_signedPrefix pm = rm_SignedPrefix rm"
    proof
      fix rm assume rm: "rm \<in> set (sg_RegistryMappings info)"
      then obtain pm where pm: "map_of m (rm_Mirror rm) = Some pm" "pm_keyData pm = sg_CosignKeyData info"
        "rm_SignedPrefix rm = pm_signedPrefix pm" using S by blast
      have "rm_Mirror rm \<in> set ms" using keys mirrors rm by force
      then show "\<exists>pm. covering policies (rm_Mirror rm) = [pm] \<and> pm_keyData pm = sg_CosignKeyData info
          \<and> pm_signedPrefix pm = rm_SignedPrefix rm" using M pm by force
    qed
  qed
qed

text \<open>Reading the registry configuration of the machines panics exactly when the MachineConfig is found and
  its ignition file has no files: \<open>removePrefixFromB64String\<close> takes the first one without looking whether
  there is one.\<close>

theorem GetMCRegistryConf_panics_iff:
  "GetMCRegistryConf env = None \<longleftrightarrow> (\<exists>raw. re_machineConfig env = Inr raw \<and> re_unmarshal env raw = Inr [])"
  by (auto simp: GetMCRegistryConf_def formatRegistriesConfString_def removePrefixFromB64String_def split: sum.splits list.splits option.splits)

text \<open>Two policies for one mirror are never resolved silently.\<close>

lemma match_policies_unambiguous:
  assumes "k \<in> set ms" and "1 < length (covering ps k)"
  shows "\<exists>err. match_policies ms ps [] = Inl err"
proof (cases "match_policies ms ps []")
  case (Inr m')
  then have "as_list (map_of m' k) = covering ps k" using match_policies_ok [OF Inr] assms(1) by simp
  then have "length (covering ps k) \<le> 1" by (cases "map_of m' k") (auto dest: sym)
  then show ?thesis using assms(2) by simp
qed blast

subsection \<open>Examples\<close>

definition sample_policy :: "string \<Rightarrow> string \<Rightarrow> image_policy" where
  "sample_policy n sc = \<lparr>ip_Name = n, ip_policyType = Found ''PublicKey'', ip_keyData = Found ''key'', ip_scopes = Found [sc],
     ip_matchPolicy = Found ''RemapIdentity'', ip_signedPrefix = Found ''registry.redhat.io''\<rparr>"

definition sample_registry :: registry_env where
  "sample_registry = \<lparr>re_idms = Inr [[(''registry.redhat.io'', [''mirror.lab/rh/''])]], re_icsp = Inl (OtherError ''no matches for kind''),
     re_machineConfig = Inr ''raw'', re_unmarshal = (\<lambda>_. Inr [b64Prefix @ ''dW5xdWFsaWZpZWQ='']),
     re_crdVersions = Inr [(''v1'', True)], re_policies = (\<lambda>_. Inr [sample_policy ''lab'' ''*.lab'', sample_policy ''rh'' ''mirror.lab/rh'']),
     re_imageConfig = Inr [], re_caConfigMap = (\<lambda>_. Inr [])\<rparr>"

text \<open>The wildcard \<open>*.lab\<close> matches the host \<open>mirror.lab\<close>; both policies would claim the mirror, so the settings
  are those of a cluster with the first policy alone.\<close>

lemma sample_registry_values:
  "GetMirrorRegistryScopes sample_registry = Inr ([''mirror.lab/rh''], [(''mirror.lab/rh'', ''registry.redhat.io'')])"
  "GetMCRegistryConf sample_registry = Some (Inr ''unqualified'')"
  by code_simp+

abbreviation one_policy :: registry_env where
  "one_policy \<equiv> sample_registry\<lparr>re_policies := (\<lambda>_. Inr [sample_policy ''lab'' ''*.lab''])\<rparr>"

lemma one_policy_settings:
  "GetSigstoreImagePolicy one_policy [''mirror.lab/rh''] [] =
     Inr (Some \<lparr>sg_RegistryMappings = [\<lparr>rm_Mirror = ''mirror.lab/rh'', rm_Source = [], rm_SignedPrefix = ''registry.redhat.io''\<rparr>],
       sg_CosignKeyData = ''key''\<rparr>)"
  by code_simp

theorem GetSigstoreImagePolicy_spec_witness:
  "\<exists>version policies. re_policies one_policy version = Inr policies \<and>
     {k \<in> used_mirrors [''mirror.lab/rh'']. covering policies k \<noteq> []} = {''mirror.lab/rh''}"
  using GetSigstoreImagePolicy_spec [OF one_policy_settings] by auto

end
