(* ===== verification/Go_Json.thy ===== *)
theory Go_Json
  imports Net_Names
begin

text \<open>
  What the sources use of Go's package \<open>encoding/json\<close>: \<open>NewDecoder(r).Decode(&v)\<close> with \<open>UseNumber\<close> into a
  variable of type \<open>any\<close>.  The decoder reads the next value of the text and stops there: what follows a value
  is not looked at, except for the one character that ends a number or a literal.  \<open>None\<close> is an error.

  Strings are UTF-8, and a number is its text, as \<open>UseNumber\<close> has it.  The limit on the depth of nested
  values (10000) is left out.
\<close>

datatype json =
    JNull | JBool bool | JNumber string | JString string | JArray "json list" | JObject "(string, json) gomap"

definition json_space :: "char \<Rightarrow> bool" where
  "json_space c \<longleftrightarrow> c \<in> {CHR '' '', CHR 0x09, CHR 0x0A, CHR 0x0D}"

abbreviation skip_space :: "string \<Rightarrow> string" where
  "skip_space \<equiv> dropWhile json_space"

subsection \<open>Numbers\<close>

text \<open>The digits at the start of a text, and the rest.\<close>

abbreviation digits :: "string \<Rightarrow> string" where "digits \<equiv> takeWhile is_digit"
abbreviation after_digits :: "string \<Rightarrow> string" where "after_digits \<equiv> dropWhile is_digit"

definition json_integer :: "string \<Rightarrow> (string \<times> string) option" where
  "json_integer s =
     (case s of
        [] \<Rightarrow> None
      | c # r \<Rightarrow> if c = CHR ''0'' then Some ([c], r) else if is_digit c then Some (digits s, after_digits s) else None)"

definition json_fraction :: "string \<Rightarrow> (string \<times> string) option" where
  "json_fraction s =
     (case s of
        [] \<Rightarrow> Some ([], [])
      | c # r \<Rightarrow> if c \<noteq> CHR ''.'' then Some ([], s) else if digits r = [] then None else Some (c # digits r, after_digits r))"

definition json_exponent :: "string \<Rightarrow> (string \<times> string) option" where
  "json_exponent s =
     (case s of
        [] \<Rightarrow> Some ([], [])
      | c # r \<Rightarrow>
          if c \<notin> {CHR ''e'', CHR ''E''} then Some ([], s)
          else (let sign = (case r of [] \<Rightarrow> [] | x # _ \<Rightarrow> if x \<in> {CHR ''+'', CHR ''-''} then [x] else []);
                    ds = drop (length sign) r
                in if digits ds = [] then None else Some (c # sign @ digits ds, after_digits ds)))"

definition json_number :: "string \<Rightarrow> (string \<times> string) option" where
  "json_number s =
     (let sign = (case s of [] \<Rightarrow> [] | x # _ \<Rightarrow> if x = CHR ''-'' then [x] else [])
      in case json_integer (drop (length sign) s) of
           None \<Rightarrow> None
         | Some (i, r1) \<Rightarrow>
             (case json_fraction r1 of
                None \<Rightarrow> None
              | Some (f, r2) \<Rightarrow>
                  (case json_exponent r2 of
                     None \<Rightarrow> None
                   | Some (e, r3) \<Rightarrow> Some (sign @ i @ f @ e, r3))))"

subsection \<open>Strings\<close>

definition hex_value :: "char \<Rightarrow> nat option" where
  "hex_value c =
     (let n = of_char c :: nat
      in if 48 \<le> n \<and> n \<le> 57 then Some (n - 48)
         else if 97 \<le> n \<and> n \<le> 102 then Some (n - 87)
         else if 65 \<le> n \<and> n \<le> 70 then Some (n - 55) else None)"

definition hex4 :: "string \<Rightarrow> (nat \<times> string) option" where
  "hex4 s =
     (case s of
        a # b # c # d # r \<Rightarrow>
          (case (hex_value a, hex_value b, hex_value c, hex_value d) of
             (Some w, Some x, Some y, Some z) \<Rightarrow> Some (((w * 16 + x) * 16 + y) * 16 + z, r)
           | _ \<Rightarrow> None)
      | _ \<Rightarrow> None)"

definition utf8 :: "nat \<Rightarrow> string" where
  "utf8 n =
     (if n < 128 then [char_of n]
      else if n < 2048 then [char_of (192 + n div 64), char_of (128 + n mod 64)]
      else if n < 65536 then [char_of (224 + n div 4096), char_of (128 + n div 64 mod 64), char_of (128 + n mod 64)]
      else [char_of (240 + n div 262144), char_of (128 + n div 4096 mod 64), char_of (128 + n div 64 mod 64), char_of (128 + n mod 64)])"

text \<open>A surrogate is replaced by U+FFFD unless the other half of its pair follows.\<close>

definition low_surrogate :: "string \<Rightarrow> (nat \<times> string) option" where
  "low_surrogate s =
     (if take 2 s \<noteq> [CHR 0x5C, CHR ''u''] then None
      else (case hex4 (drop 2 s) of
              None \<Rightarrow> None
            | Some (n, r) \<Rightarrow> if 56320 \<le> n \<and> n < 57344 then Some (n, r) else None))"

definition unicode_escape :: "string \<Rightarrow> (string \<times> string) option" where
  "unicode_escape s =
     (case hex4 s of
        None \<Rightarrow> None
      | Some (n, r) \<Rightarrow>
          if n < 55296 \<or> 57344 \<le> n then Some (utf8 n, r)
          else if n < 56320
          then (case low_surrogate r of
                  None \<Rightarrow> Some (utf8 65533, r)
                | Some (m, r') \<Rightarrow> Some (utf8 (65536 + (n - 55296) * 1024 + (m - 56320)), r'))
          else Some (utf8 65533, r))"

definition simple_escape :: "char \<Rightarrow> char option" where
  "simple_escape c =
     map_of [(CHR 0x22, CHR 0x22), (CHR 0x5C, CHR 0x5C), (CHR ''/'', CHR ''/''), (CHR ''b'', CHR 0x08), (CHR ''f'', CHR 0x0C),
             (CHR ''n'', CHR 0x0A), (CHR ''r'', CHR 0x0D), (CHR ''t'', CHR 0x09)] c"

text \<open>The rest of a string after its opening quote; \<open>fuel\<close> bounds the characters read.\<close>

fun json_string :: "nat \<Rightarrow> string \<Rightarrow> (string \<times> string) option" where
  "json_string 0 s = None"
| "json_string (Suc fuel) [] = None"
| "json_string (Suc fuel) (c # r) =
     (if c = CHR 0x22 then Some ([], r)
      else if (of_char c :: nat) < 32 then None
      else (case (if c \<noteq> CHR 0x5C then Some ([c], r)
                  else (case r of
                          [] \<Rightarrow> None
                        | e # r' \<Rightarrow>
                            if e = CHR ''u'' then unicode_escape r' else map_option (\<lambda>x. ([x], r')) (simple_escape e))) of
              None \<Rightarrow> None
            | Some (t, r1) \<Rightarrow> map_option (\<lambda>(u, r2). (t @ u, r2)) (json_string fuel r1)))"

subsection \<open>Values\<close>

definition json_literal :: "string \<Rightarrow> (json \<times> string) option" where
  "json_literal s =
     (if take 4 s = ''true'' then Some (JBool True, drop 4 s)
      else if take 5 s = ''false'' then Some (JBool False, drop 5 s)
      else if take 4 s = ''null'' then Some (JNull, drop 4 s)
      else map_option (\<lambda>(n, r). (JNumber n, r)) (json_number s))"

text \<open>A key, up to the colon after it.\<close>

definition json_key :: "string \<Rightarrow> (string \<times> string) option" where
  "json_key s =
     (case skip_space s of
        [] \<Rightarrow> None
      | q # r \<Rightarrow>
          if q \<noteq> CHR 0x22 then None
          else (case json_string (length r) r of
                  None \<Rightarrow> None
                | Some (k, r1) \<Rightarrow>
                    (case skip_space r1 of [] \<Rightarrow> None | c # r2 \<Rightarrow> if c = CHR '':'' then Some (k, r2) else None)))"

fun json_value :: "nat \<Rightarrow> string \<Rightarrow> (json \<times> string) option"
  and json_elements :: "nat \<Rightarrow> string \<Rightarrow> (json list \<times> string) option"
  and json_members :: "nat \<Rightarrow> string \<Rightarrow> (string, json) gomap \<Rightarrow> ((string, json) gomap \<times> string) option" where
  "json_value 0 s = None"
| "json_value (Suc n) s =
     (case skip_space s of
        [] \<Rightarrow> None
      | c # r \<Rightarrow>
          if c = CHR 0x22 then map_option (\<lambda>(t, r'). (JString t, r')) (json_string (length r) r)
          else if c = CHR ''['' then
            (case skip_space r of
               [] \<Rightarrow> None
             | d # r' \<Rightarrow> if d = CHR '']'' then Some (JArray [], r') else map_option (\<lambda>(vs, r''). (JArray vs, r'')) (json_elements n r))
          else if c = CHR ''{'' then
            (case skip_space r of
               [] \<Rightarrow> None
             | d # r' \<Rightarrow> if d = CHR ''}'' then Some (JObject [], r') else map_option (\<lambda>(m, r''). (JObject m, r'')) (json_members n r []))
          else json_literal (c # r))"
| "json_elements 0 s = None"
| "json_elements (Suc n) s =
     (case json_value n s of
        None \<Rightarrow> None
      | Some (v, r) \<Rightarrow>
          (case skip_space r of
             [] \<Rightarrow> None
           | c # r' \<Rightarrow>
               if c = CHR '']'' then Some ([v], r')
               else if c = CHR '','' then map_option (\<lambda>(vs, r''). (v # vs, r'')) (json_elements n r')
               else None))"
| "json_members 0 s m = None"
| "json_members (Suc n) s m =
     (case json_key s of
        None \<Rightarrow> None
      | Some (k, r0) \<Rightarrow>
          (case json_value n r0 of
             None \<Rightarrow> None
           | Some (v, r) \<Rightarrow>
               (case skip_space r of
                  [] \<Rightarrow> None
                | c # r' \<Rightarrow>
                    if c = CHR ''}'' then Some (gomap_put k v m, r')
                    else if c = CHR '','' then json_members n r' (gomap_put k v m)
                    else None)))"

definition json_decode :: "string \<Rightarrow> json option" where
  "json_decode s = map_option fst (json_value (Suc (2 * length s)) s)"

subsection \<open>Enough fuel\<close>

text \<open>Every parser leaves a shorter text, so the length of the text is enough fuel.\<close>

lemma skip_space_length: "length (skip_space s) \<le> length s"
  by (rule length_dropWhile_le)

lemma json_integer_length: "json_integer s = Some (i, r) \<Longrightarrow> length r < length s"
  by (auto simp: json_integer_def split: list.splits if_splits intro!: le_imp_less_Suc length_dropWhile_le)

lemma json_fraction_length: "json_fraction s = Some (f, r) \<Longrightarrow> length r \<le> length s"
  by (auto simp: json_fraction_def split: list.splits if_splits intro: le_SucI length_dropWhile_le)

lemma json_exponent_length: "json_exponent s = Some (e, r) \<Longrightarrow> length r \<le> length s"
  by (auto simp: json_exponent_def Let_def split: list.splits if_splits intro: le_SucI length_dropWhile_le)

lemma json_number_length:
  assumes "json_number s = Some (n, r)"
  shows "length r < length s"
proof -
  obtain k i r1 f r2 e where p: "json_integer (drop k s) = Some (i, r1)" "json_fraction r1 = Some (f, r2)" "json_exponent r2 = Some (e, r)"
    using assms by (auto simp: json_number_def Let_def split: option.splits)
  show ?thesis using json_integer_length [OF p(1)] json_fraction_length [OF p(2)] json_exponent_length [OF p(3)] by simp
qed

lemma json_literal_length:
  assumes "json_literal s = Some (v, r)"
  shows "length r < length s"
proof -
  have "length (drop 4 s) < length s" if "take 4 s = ''true'' \<or> take 4 s = ''null''" using that by (cases s) auto
  moreover have "length (drop 5 s) < length s" if "take 5 s = ''false''" using that by (cases s) auto
  ultimately show ?thesis using assms json_number_length by (auto simp: json_literal_def split: if_splits)
qed

lemma hex4_length: "hex4 s = Some (n, r) \<Longrightarrow> length r < length s"
  by (auto simp: hex4_def split: list.splits option.splits)

lemma unicode_escape_length:
  assumes "unicode_escape s = Some (t, r)"
  shows "length r < length s"
proof -
  have "length r' < length x" if "low_surrogate x = Some (m, r')" for x m r'
    using that hex4_length [of "drop 2 x"] by (auto simp: low_surrogate_def split: if_splits option.splits)
  then show ?thesis
    using assms hex4_length by (fastforce simp: unicode_escape_def split: option.splits if_splits)
qed

lemma json_string_length: "json_string n s = Some (t, r) \<Longrightarrow> length r < length s"
proof (induction n arbitrary: s t r)
  case (Suc n)
  then obtain c r0 where s: "s = c # r0" by (cases s) auto
  show ?case
  proof (cases "c = CHR 0x22")
    case False
    then obtain x r1 u where u: "json_string n r1 = Some (u, r)" and x: "r1 = r0 \<or> (\<exists>e r'. r0 = e # r' \<and> (unicode_escape r' = Some (x, r1) \<or> r1 = r'))"
      using Suc.prems s by (auto split: if_splits option.splits list.splits)
    have "length r1 \<le> length r0" using x unicode_escape_length by fastforce
    then show ?thesis using Suc.IH [OF u] s by simp
  qed (use Suc.prems s in simp)
qed simp

lemma json_key_length:
  assumes "json_key s = Some (k, r)"
  shows "length r < length s"
proof -
  obtain q r0 r1 c where k: "skip_space s = q # r0" "json_string (length r0) r0 = Some (k, r1)" "skip_space r1 = c # r"
    using assms by (auto simp: json_key_def split: list.splits if_splits option.splits)
  show ?thesis
    using json_string_length [OF k(2)] skip_space_length [of s] skip_space_length [of r1] k(1,3) by simp
qed

lemma json_lengths:
  "json_value n s = Some (v, r) \<Longrightarrow> length r < length s"
  "json_elements n s = Some (vs, r) \<Longrightarrow> length r < length s"
  "json_members n s m = Some (m', r) \<Longrightarrow> length r < length s"
proof (induction n arbitrary: s v r vs m m')
  case (Suc n)
  { case 1
    then obtain c r0 where s: "skip_space s = c # r0" by (cases "skip_space s") auto
    have "length r < length (c # r0)"
      using 1 s json_string_length json_literal_length Suc.IH(2,3) skip_space_length [of r0]
      by (fastforce split: if_splits list.splits)
    then show ?case using skip_space_length [of s] s by simp
  next
    case 2
    then obtain v' r0 c r1 where e: "json_value n s = Some (v', r0)" "skip_space r0 = c # r1" "r = r1 \<or> (\<exists>vs'. json_elements n r1 = Some (vs', r))"
      by (auto split: option.splits list.splits if_splits)
    then show ?case using Suc.IH(1) [OF e(1)] Suc.IH(2) [of r1] skip_space_length [of r0] by fastforce
  next
    case 3
    then obtain k r2 v' r0 c r1 where e: "json_key s = Some (k, r2)" "json_value n r2 = Some (v', r0)" "skip_space r0 = c # r1"
      "r = r1 \<or> json_members n r1 (gomap_put k v' m) = Some (m', r)"
      by (auto split: option.splits list.splits if_splits)
    then show ?case
      using json_key_length [OF e(1)] Suc.IH(1) [OF e(2)] Suc.IH(3) [of r1 "gomap_put k v' m"] skip_space_length [of r0] by fastforce }
qed simp_all

lemma json_fuel:
  "2 * length s < n \<Longrightarrow> json_value (Suc n) s = json_value n s"
  "Suc (2 * length s) < n \<Longrightarrow> json_elements (Suc n) s = json_elements n s"
  "Suc (2 * length s) < n \<Longrightarrow> json_members (Suc n) s m = json_members n s m"
proof (induction n arbitrary: s m)
  case (Suc n)
  { case 1
    show ?case
    proof (cases "skip_space s")
      case (Cons c r)
      then have "Suc (2 * length r) < n" using skip_space_length [of s] 1 by simp
      then have "json_elements (Suc n) r = json_elements n r" "json_members (Suc n) r [] = json_members n r []" using Suc.IH(2,3) by blast+
      then show ?thesis by (simp only: json_value.simps(2) Cons list.case)
    qed (simp only: json_value.simps(2) list.case)
  next
    case 2
    have v: "json_value (Suc n) s = json_value n s" using Suc.IH(1) [of s] 2 by simp
    show ?case
    proof (cases "json_value n s")
      case (Some x)
      obtain u r where x: "x = (u, r)" by fastforce
      show ?thesis
      proof (cases "skip_space r")
        case (Cons c r')
        have "json_elements (Suc n) r' = json_elements n r'"
          using json_lengths(1) [OF Some [unfolded x]] skip_space_length [of r] Cons 2 by (intro Suc.IH(2)) simp
        then show ?thesis by (simp only: json_elements.simps(2) v Some x option.case prod.case Cons list.case)
      qed (simp only: json_elements.simps(2) v Some x option.case prod.case list.case)
    qed (simp only: json_elements.simps(2) v option.case)
  next
    case 3
    show ?case
    proof (cases "json_key s")
      case (Some x)
      obtain k r0 where x: "x = (k, r0)" by fastforce
      note key = Some [unfolded x] and l0 = json_key_length [OF Some [unfolded x]]
      have v: "json_value (Suc n) r0 = json_value n r0" using l0 3 by (intro Suc.IH(1)) simp
      show ?thesis
      proof (cases "json_value n r0")
        case (Some y)
        obtain u r where y: "y = (u, r)" by fastforce
        show ?thesis
        proof (cases "skip_space r")
          case (Cons c r')
          have "json_members (Suc n) r' m' = json_members n r' m'" for m'
            using l0 json_lengths(1) [OF Some [unfolded y]] skip_space_length [of r] Cons 3 by (intro Suc.IH(3)) simp
          then show ?thesis by (simp only: json_members.simps(2) key v Some y option.case prod.case Cons list.case)
        qed (simp only: json_members.simps(2) key v Some y option.case prod.case list.case)
      qed (simp only: json_members.simps(2) key v option.case prod.case)
    qed (simp only: json_members.simps(2) option.case) }
qed simp_all

text \<open>The recursion of the JSON decoder ends.  The model bounds the depth of the recursion by twice the length of the
  text; with any larger bound the decoder of the values of ConfigMaps gives the same result, so the bound cuts nothing off.\<close>

theorem json_decode_fuel: "2 * length s < n \<Longrightarrow> map_option fst (json_value n s) = json_decode s"
proof (induction n)
  case (Suc n)
  show ?case
  proof (cases "2 * length s < n")
    case True
    then show ?thesis using Suc.IH json_fuel(1) [OF True] by simp
  next
    case False
    then have "n = 2 * length s" using Suc.prems by simp
    then show ?thesis by (simp add: json_decode_def)
  qed
qed simp

theorem json_decode_fuel_witness: "map_option fst (json_value 100 ''[1, true]'') = json_decode ''[1, true]''"
  by (rule json_decode_fuel) simp

subsection \<open>What follows a number is not looked at\<close>

text \<open>A text that starts with digits and a dot and more digits, followed by a character that does not continue
  the number, decodes to these digits; and a text with a leading zero to zero.\<close>

lemma json_decode_digit:
  assumes "is_digit c"
  shows "json_decode (c # r) = map_option (\<lambda>x. JNumber (fst x)) (json_number (c # r))"
proof -
  have "\<not> json_space c" "c \<notin> {CHR 0x22, CHR ''['', CHR ''{'', CHR ''t'', CHR ''f'', CHR ''n''}"
    using assms by (auto simp: is_digit_def json_space_def)
  then show ?thesis
    by (auto simp: json_decode_def json_literal_def option.map_comp comp_def case_prod_beta)
qed

lemma digits_append: "list_all is_digit ds \<Longrightarrow> (s = [] \<or> \<not> is_digit (hd s)) \<Longrightarrow> digits (ds @ s) = ds \<and> after_digits (ds @ s) = s"
  by (induction ds) (cases s; auto)+

lemma json_decode_dotted:
  assumes "list_all is_digit (c # ds)" "c \<noteq> CHR ''0''" "list_all is_digit fs" "fs \<noteq> []"
    and "s = [] \<or> \<not> is_digit (hd s) \<and> hd s \<notin> {CHR ''e'', CHR ''E''}"
  shows "json_decode (c # ds @ CHR ''.'' # fs @ s) = Some (JNumber (c # ds @ CHR ''.'' # fs))"
proof -
  have dot: "\<not> is_digit CHR ''.''" by (simp add: is_digit_def)
  have minus: "c \<noteq> CHR ''-''" using assms(1) by (auto simp: is_digit_def)
  have i: "json_integer (c # ds @ CHR ''.'' # fs @ s) = Some (c # ds, CHR ''.'' # fs @ s)"
    using assms(1,2) digits_append [of ds "CHR ''.'' # fs @ s"] dot by (simp add: json_integer_def)
  have f: "json_fraction (CHR ''.'' # fs @ s) = Some (CHR ''.'' # fs, s)"
  proof -
    have "digits (fs @ s) = fs" "after_digits (fs @ s) = s" using digits_append [OF assms(3), of s] assms(5) by blast+
    then show ?thesis using assms(4) by (simp add: json_fraction_def)
  qed
  have e: "json_exponent s = Some ([], s)" using assms(5) by (cases s) (auto simp: json_exponent_def)
  show ?thesis using assms(1) i f e minus by (simp add: json_decode_digit json_number_def)
qed

lemma json_decode_leading_zero:
  assumes "is_digit d"
  shows "json_decode (CHR ''0'' # d # s) = Some (JNumber ''0'')"
proof -
  have "d \<notin> {CHR ''.'', CHR ''e'', CHR ''E''}" using assms by (auto simp: is_digit_def)
  moreover have "is_digit CHR ''0''" by (simp add: is_digit_def)
  ultimately show ?thesis
    by (simp add: json_decode_digit json_number_def json_integer_def json_fraction_def json_exponent_def)
qed

end
