(* ===== verification/NodeSet_Inventory.thy ===== *)
theory NodeSet_Inventory
  imports NodeSet_IPAM Image_Registry Go_Json
begin

text \<open>
  The Ansible inventory of a node set (\<open>internal/dataplane/inventory.go\<close>) and the bare metal set that
  provisions its nodes (\<open>internal/dataplane/baremetal.go\<close>).

  Variables are maps from names to \<open>var_value\<close>, one constructor per type the code stores.  \<open>inv_env\<close> has the
  clients and what is not part of the repository: the decoder of YAML, the inventory of lib-common as the text
  \<open>iv_marshal\<close> makes of a group and its hosts, and the writing of the secret.  The hosts are the calls of
  \<open>AddHost\<close>, in order.
\<close>

subsection \<open>State\<close>

datatype var_value =
    VStr string | VInt int | VBool bool | VStrs "string list" | VStrPtr "string ptr" | VIntPtr "int ptr"
  | VMap "(string, string) gomap" | VMappings "registry_mapping list" | VJson json | VData string

type_synonym vars = "(string, var_value) gomap"

record inv_env =
  iv_client :: dp_client
  iv_registry :: registry_env
  iv_yaml :: "string \<Rightarrow> api_error + var_value"
  iv_marshal :: "string \<Rightarrow> vars \<Rightarrow> (string \<times> vars) list \<Rightarrow> api_error + string"
  iv_ensureSecret :: "string \<Rightarrow> (string, string) gomap \<Rightarrow> string \<Rightarrow> api_error option"

subsection \<open>Variables from ConfigMaps and Secrets\<close>

definition processData :: "(string, string) gomap \<Rightarrow> string \<Rightarrow> vars \<Rightarrow> vars" where
  "processData data pre result =
     fold (\<lambda>(k, v). gomap_put (pre @ k) (case json_decode v of None \<Rightarrow> VStr v | Some value \<Rightarrow> VJson value)) data result"

fun getAnsibleVarsFrom :: "inv_env \<Rightarrow> string \<Rightarrow> data_source list \<Rightarrow> vars \<Rightarrow> api_error + vars" where
  "getAnsibleVarsFrom env namespace [] result = Inr result"
| "getAnsibleVarsFrom env namespace (d # ds) result =
     (case GetDataSourceCmSecret (iv_client env) namespace d of
        Inl err \<Rightarrow> Inl err
      | Inr (configMap, secret) \<Rightarrow>
          let r1 = (case configMap of None \<Rightarrow> result | Some cm \<Rightarrow> processData (cm_Data cm) (ds_Prefix d) result);
              r2 = (case secret of None \<Rightarrow> r1 | Some s \<Rightarrow> processData (sec_Data s) (ds_Prefix d) r1)
          in getAnsibleVarsFrom env namespace ds r2)"

fun unmarshalAnsibleVars :: "inv_env \<Rightarrow> (string, string) gomap \<Rightarrow> vars \<Rightarrow> api_error + vars" where
  "unmarshalAnsibleVars env [] parsedVars = Inr parsedVars"
| "unmarshalAnsibleVars env ((key, val) # vs) parsedVars =
     (case iv_yaml env val of
        Inl err \<Rightarrow> Inl err
      | Inr v \<Rightarrow> unmarshalAnsibleVars env vs (gomap_put key v parsedVars))"

definition buildNetworkVars :: "ipset_network list \<Rightarrow> (string, string) gomap \<Rightarrow> string list \<times> (string, string) gomap" where
  "buildNetworkVars networks netServiceNetMap =
     (let serviceNet = (\<lambda>n. gomap_get [] netServiceNetMap (ToLower n));
          nets = filter (\<lambda>n. serviceNet n \<noteq> CtlPlaneNetwork) (map in_Name networks)
      in (nets, fold (\<lambda>n. gomap_put n (serviceNet n)) nets []))"

definition network_vars :: "ipset_network list \<Rightarrow> (string, string) gomap \<Rightarrow> vars \<Rightarrow> vars" where
  "network_vars networks netServiceNetMap vs =
     (if networks = [] then vs
      else (case buildNetworkVars networks netServiceNetMap of
              (nets, serviceNetMap) \<Rightarrow>
                gomap_put ''network_servicenet_map'' (VMap serviceNetMap)
                  (gomap_put ''networks_lower'' (VMap serviceNetMap) (gomap_put ''nodeset_networks'' (VStrs nets) vs))))"

subsection \<open>Group and host variables\<close>

text \<open>The variable whose absence is tested, the variable that is set, and the image.\<close>

definition image_vars :: "(string \<times> string \<times> image_field) list" where
  "image_vars = [
     (''edpm_frr_image'', ''edpm_frr_image'', EdpmFrrImage),
     (''edpm_logrotate_crond_image'', ''edpm_logrotate_crond_image'', EdpmLogrotateCrondImage),
     (''edpm_neutron_dhcp_image'', ''edpm_neutron_dhcp_image'', EdpmNeutronDhcpAgentImage),
     (''edpm_neutron_metadata_agent_image'', ''edpm_neutron_metadata_agent_image'', EdpmNeutronMetadataAgentImage),
     (''edpm_neutron_ovn_agent_image'', ''edpm_neutron_ovn_agent_image'', EdpmNeutronOvnAgentImage),
     (''edpm_neutron_sriov_agent_image'', ''edpm_neutron_sriov_image'', EdpmNeutronSriovAgentImage),
     (''edpm_nova_compute_image'', ''edpm_nova_compute_image'', NovaComputeImage),
     (''edpm_ovn_controller_agent_image'', ''edpm_ovn_controller_agent_image'', OvnControllerImage),
     (''edpm_ovn_bgp_agent_image'', ''edpm_ovn_bgp_agent_image'', EdpmOvnBgpAgentImage),
     (''edpm_swift_account_image'', ''edpm_swift_account_image'', SwiftAccountImage),
     (''edpm_swift_container_image'', ''edpm_swift_container_image'', SwiftContainerImage),
     (''edpm_swift_object_image'', ''edpm_swift_object_image'', SwiftObjectImage),
     (''edpm_swift_proxy_image'', ''edpm_swift_proxy_image'', SwiftProxyImage),
     (''edpm_telemetry_ceilometer_compute_image'', ''edpm_telemetry_ceilometer_compute_image'', CeilometerComputeImage),
     (''edpm_telemetry_ceilometer_ipmi_image'', ''edpm_telemetry_ceilometer_ipmi_image'', CeilometerIpmiImage),
     (''edpm_telemetry_node_exporter_image'', ''edpm_telemetry_node_exporter_image'', EdpmNodeExporterImage),
     (''edpm_telemetry_kepler_image'', ''edpm_telemetry_kepler_image'', EdpmKeplerImage),
     (''edpm_telemetry_podman_exporter_image'', ''edpm_telemetry_podman_exporter_image'', EdpmPodmanExporterImage),
     (''edpm_telemetry_openstack_network_exporter_image'', ''edpm_telemetry_openstack_network_exporter_image'',
        OpenstackNetworkExporterImage)]"

text \<open>Only the last image is not set when it is \<open>nil\<close>.\<close>

definition set_image_var :: "(string, string) gomap \<Rightarrow> container_images \<Rightarrow> string \<times> string \<times> image_field \<Rightarrow> vars \<Rightarrow> vars" where
  "set_image_var ansibleVars images iv vs =
     (case iv of (tested, var, f) \<Rightarrow>
        if map_of ansibleVars tested \<noteq> None \<or> (f = OpenstackNetworkExporterImage \<and> ci_template images f = None) then vs
        else gomap_put var (VStrPtr (ci_template images f)) vs)"

definition connection_vars :: "string \<Rightarrow> int \<Rightarrow> string \<Rightarrow> vars \<Rightarrow> vars" where
  "connection_vars user port managementNetwork vs =
     (let v1 = (if user \<noteq> [] then gomap_put ''ansible_user'' (VStr user) vs else vs);
          v2 = (if 0 < port then gomap_put ''ansible_port'' (VStr (Itoa (nat port))) v1 else v1)
      in if managementNetwork \<noteq> [] then gomap_put ''management_network'' (VStr managementNetwork) v2 else v2)"

definition resolveGroupAnsibleVars ::
    "inv_env \<Rightarrow> dp_nodeset \<Rightarrow> container_images \<Rightarrow> (string, string) gomap \<Rightarrow> vars \<Rightarrow> api_error + vars" where
  "resolveGroupAnsibleVars env ns images netServiceNetMap vs =
     (let v1 = connection_vars (ns_TemplateUser ns) (ns_TemplatePort ns) (ns_TemplateManagementNetwork ns) vs;
          v2 = fold (set_image_var (ns_TemplateVars ns) images) image_vars v1
      in case unmarshalAnsibleVars env (ns_TemplateVars ns) v2 of
           Inl err \<Rightarrow> Inl err
         | Inr v3 \<Rightarrow> Inr (network_vars (ns_TemplateNetworks ns) netServiceNetMap v3))"

definition resolveHostAnsibleVars :: "inv_env \<Rightarrow> dp_node \<Rightarrow> (string, string) gomap \<Rightarrow> vars \<Rightarrow> api_error + vars" where
  "resolveHostAnsibleVars env node netServiceNetMap vs =
     (case unmarshalAnsibleVars env (nd_AnsibleVars node)
             (connection_vars (nd_AnsibleUser node) (nd_AnsiblePort node) (nd_ManagementNetwork node) vs) of
        Inl err \<Rightarrow> Inl err
      | Inr v \<Rightarrow> Inr (network_vars (nd_Networks node) netServiceNetMap v))"

text \<open>The loop over the reservations, with the search domains collected so far.\<close>

definition ipam_vars :: "string list \<Rightarrow> string \<Rightarrow> reservation \<Rightarrow> vars \<times> string list \<Rightarrow> vars \<times> string list" where
  "ipam_vars dnsAddresses hostName res s =
     (case s of (vs, domains) \<Rightarrow>
        let net = rs_ServiceNetwork res;
            isCtl = (net = CtlPlaneNetwork);
            domain = tl (dropWhile (\<lambda>c. c \<noteq> CHR ''.'') hostName);
            v1 = gomap_put (net @ ''_ip'') (VStr (rs_Address res)) vs;
            v2 = (case ParseCIDR (rs_Cidr res) of None \<Rightarrow> v1 | Some n \<Rightarrow> gomap_put (net @ ''_cidr'') (VInt (int n)) v1);
            v3 = (if rs_Vlan res \<noteq> None then gomap_put (net @ ''_vlan_id'') (VIntPtr (rs_Vlan res)) v2 else v2);
            v4 = gomap_put (net @ ''_host_routes'') (VStrs (rs_Routes res))
                   (gomap_put (net @ ''_gateway_ip'') (VStrPtr (rs_Gateway res)) (gomap_put (net @ ''_mtu'') (VInt (rs_MTU res)) v3));
            v5 = (if isCtl then gomap_put (net @ ''_dns_nameservers'') (VStrs dnsAddresses) v4 else v4);
            v6 = (if isCtl then gomap_put ''canonical_hostname''
                                  (VStr (if NodeHostNameIsFQDN hostName then hostName else hostName @ CHR ''.'' # rs_DNSDomain res)) v5
                  else v5);
            extra = (if isCtl \<and> NodeHostNameIsFQDN hostName \<and> domain \<noteq> rs_DNSDomain res then [domain] else [])
        in (v6, domains @ extra @ [rs_DNSDomain res]))"

definition populateInventoryFromIPAM :: "ipset \<Rightarrow> string list \<Rightarrow> string \<Rightarrow> vars \<Rightarrow> vars" where
  "populateInventoryFromIPAM ipSet dnsAddresses hostName vs =
     (case fold (ipam_vars dnsAddresses hostName) (ips_Reservation ipSet) (vs, []) of
        (vs', domains) \<Rightarrow> gomap_put ''dns_search_domains'' (VStrs domains) vs')"

definition host_vars ::
    "inv_env \<Rightarrow> string \<Rightarrow> (string, ipset) gomap \<Rightarrow> string list \<Rightarrow> (string, string) gomap \<Rightarrow> dp_node \<Rightarrow> api_error + string \<times> vars" where
  "host_vars env namespace allIPSets dnsAddresses netServiceNetMap node =
     (case getAnsibleVarsFrom env namespace (nd_AnsibleVarsFrom node) [] of
        Inl err \<Rightarrow> Inl err
      | Inr vs \<Rightarrow>
          let host = (if nd_AnsibleHost node \<noteq> [] then nd_AnsibleHost node else nd_HostName node)
          in case resolveHostAnsibleVars env node netServiceNetMap (gomap_put ''ansible_host'' (VStr host) vs) of
               Inl err \<Rightarrow> Inl err
             | Inr vs' \<Rightarrow>
                 (case map_of allIPSets (nd_HostName node) of
                    None \<Rightarrow> Inl (OtherError (''no IPSet found for host: '' @ nd_HostName node))
                  | Some ipSet \<Rightarrow> Inr (hd (dots (nd_HostName node)), populateInventoryFromIPAM ipSet dnsAddresses (nd_HostName node) vs')))"

fun all_hosts :: "(dp_node \<Rightarrow> api_error + string \<times> vars) \<Rightarrow> dp_node list \<Rightarrow> api_error + (string \<times> vars) list" where
  "all_hosts f [] = Inr []"
| "all_hosts f (n # ns) =
     (case f n of
        Inl err \<Rightarrow> Inl err
      | Inr h \<Rightarrow> (case all_hosts f ns of Inl err \<Rightarrow> Inl err | Inr hs \<Rightarrow> Inr (h # hs)))"

subsection \<open>The inventory\<close>

text \<open>The variables for mirror registries; \<open>None\<close> is a panic.\<close>

definition registry_vars :: "inv_env \<Rightarrow> vars \<Rightarrow> (api_error + vars) option" where
  "registry_vars env vs =
     (case HasMirrorRegistries (iv_registry env) of
        Inl err \<Rightarrow> Some (Inl err)
      | Inr False \<Rightarrow> Some (Inr vs)
      | Inr True \<Rightarrow>
          (let signatures = (\<lambda>v1.
                 case GetMirrorRegistryScopes (iv_registry env) of
                   Inl err \<Rightarrow> Inl (OtherError (''failed to get mirror registries for sigstore verification: '' @ err_msg err))
                 | Inr (mirrorScopes, sourceByMirror) \<Rightarrow>
                     (case GetSigstoreImagePolicy (iv_registry env) mirrorScopes sourceByMirror of
                        Inl err \<Rightarrow> Inl (OtherError (''failed to get ClusterImagePolicy for sigstore verification: '' @ err_msg err))
                      | Inr None \<Rightarrow> Inr v1
                      | Inr (Some p) \<Rightarrow>
                          Inr (gomap_put ''edpm_container_signature_cosign_key_data'' (VStr (sg_CosignKeyData p))
                            (gomap_put ''edpm_container_signature_registry_mappings'' (VMappings (sg_RegistryMappings p))
                              (gomap_put ''edpm_container_signature_verification'' (VBool True) v1)))))
           in case GetMCRegistryConf (iv_registry env) of
                None \<Rightarrow> None
              | Some (Inl err) \<Rightarrow>
                  Some (if IsNoMatchError err then signatures vs
                        else Inl (OtherError (''failed to get MachineConfig registry configuration: '' @ err_msg err)))
              | Some (Inr conf) \<Rightarrow>
                  Some (signatures (gomap_put ''edpm_podman_disconnected_ocp'' (VBool True)
                          (gomap_put ''edpm_podman_registries_conf'' (VStr conf) vs)))))"

definition service_types :: "inv_env \<Rightarrow> string list \<Rightarrow> string list" where
  "service_types env services =
     map (\<lambda>n. case dc_getService (iv_client env) n of Inl _ \<Rightarrow> n | Inr service \<Rightarrow> svc_EDPMServiceType service) services"

definition nodeset_vars :: "inv_env \<Rightarrow> dp_nodeset \<Rightarrow> vars \<Rightarrow> vars" where
  "nodeset_vars env ns vs =
     (let v1 = gomap_put ''edpm_tls_certs_enabled'' (VBool (ns_TLSEnabled ns)) vs;
          v2 = (case ns_Tags ns of None \<Rightarrow> v1 | Some tags \<Rightarrow> gomap_put ''nodeset_tags'' (VStrs tags) v1);
          v3 = gomap_put ''edpm_services'' (VStrs (ns_Services ns)) v2;
          v4 = gomap_put ''edpm_service_types'' (VStrs (service_types env (ns_Services ns))) v3
      in gomap_put ''ansible_ssh_private_key_file'' (VStr (''/runner/env/ssh_key/ssh_key_'' @ ns_Name ns)) v4)"

definition group_vars ::
    "inv_env \<Rightarrow> dp_nodeset \<Rightarrow> container_images \<Rightarrow> (string, string) gomap \<Rightarrow> (api_error + vars) option" where
  "group_vars env ns images netServiceNetMap =
     (case getAnsibleVarsFrom env (ns_Namespace ns) (ns_TemplateVarsFrom ns) [] of
        Inl err \<Rightarrow> Some (Inl err)
      | Inr vs \<Rightarrow>
          (case resolveGroupAnsibleVars env ns images netServiceNetMap vs of
             Inl err \<Rightarrow> Some (Inl err)
           | Inr v1 \<Rightarrow>
               (case registry_vars env (gomap_put ''edpm_nodeset_name'' (VStr (ns_Name ns)) v1) of
                  None \<Rightarrow> None
                | Some (Inl err) \<Rightarrow> Some (Inl err)
                | Some (Inr v2) \<Rightarrow> Some (Inr (nodeset_vars env ns v2)))))"

definition inventory_labels :: "dp_nodeset \<Rightarrow> (string, string) gomap" where
  "inventory_labels ns =
     fold (\<lambda>(k, v). gomap_put k v) (ns_Labels ns)
       [(''openstack.org/operator-name'', ''dataplane''), (''openstackdataplanenodeset'', ns_Name ns), (''inventory'', ''true'')]"

definition GenerateNodeSetInventory ::
    "inv_env \<Rightarrow> (string, ipset) gomap \<Rightarrow> string list \<Rightarrow> container_images \<Rightarrow> (string, string) gomap \<Rightarrow> dp_nodeset
     \<Rightarrow> (dp_nodeset \<times> api_error option) option" where
  "GenerateNodeSetInventory env allIPSets dnsAddresses images netServiceNetMap ns =
     (case group_vars env ns images netServiceNetMap of
        None \<Rightarrow> None
      | Some (Inl err) \<Rightarrow> Some (ns, Some err)
      | Some (Inr gv) \<Rightarrow>
          (case all_hosts (host_vars env (ns_Namespace ns) allIPSets dnsAddresses netServiceNetMap) (map snd (ns_Nodes ns)) of
             Inl err \<Rightarrow> Some (ns, Some err)
           | Inr hosts \<Rightarrow>
               (case iv_marshal env (ns_Name ns) gv hosts of
                  Inl err \<Rightarrow> Some (ns, Some err)
                | Inr invData \<Rightarrow>
                    let secretName = ''dataplanenodeset-'' @ ns_Name ns
                    in (case iv_ensureSecret env secretName (inventory_labels ns) invData of
                          Some err \<Rightarrow> Some (ns, Some err)
                        | None \<Rightarrow> Some (ns\<lparr>ns_InventorySecretName := secretName\<rparr>, None)))))"

subsection \<open>The bare metal set\<close>

definition NodeSetBareMetalProvisionReadyCondition :: string where
  "NodeSetBareMetalProvisionReadyCondition = ''NodeSetBaremetalProvisionReady''"

record instance_spec =
  bi_BmhLabelSelector :: "(string, string) gomap"
  bi_UserData :: "string ptr"
  bi_NetworkData :: "string ptr"
  bi_CtlplaneInterface :: string
  bi_CtlPlaneIP :: string
  bi_CtlplaneGateway :: string
  bi_CtlplaneVlan :: "int ptr"

record bm_spec =
  bs_Template :: "bm_template ptr"
  bs_Hosts :: "(string, instance_spec) gomap"
  bs_BootstrapDNS :: "string list"
  bs_DNSSearchDomains :: "string list"

text \<open>\<open>bm_before\<close> is the set as it is read, without its hosts; \<open>bm_patch\<close> writes it and says whether it is
  ready, with the hash of the hosts in its status.\<close>

record bm_env =
  bm_before :: bm_spec
  bm_patch :: "bm_spec \<Rightarrow> api_error + bool"
  bm_statusHash :: "api_error + string"

definition apply_reservation :: "string list \<Rightarrow> reservation \<Rightarrow> instance_spec \<times> bm_spec \<Rightarrow> api_error + instance_spec \<times> bm_spec" where
  "apply_reservation dnsAddresses res s =
     (if ToLower (rs_Network res) \<noteq> CtlPlaneNetwork then Inr s
      else (case ParseCIDR (rs_Cidr res) of
              None \<Rightarrow> Inl (OtherError (''invalid CIDR address: '' @ rs_Cidr res))
            | Some n \<Rightarrow>
                (case rs_Gateway res of
                   None \<Rightarrow> Inl (OtherError (CtlPlaneNetwork @ '' gateway is missing''))
                 | Some gw \<Rightarrow>
                     Inr ((fst s)\<lparr>bi_CtlPlaneIP := rs_Address res @ ''/'' @ Itoa n, bi_CtlplaneGateway := gw, bi_CtlplaneVlan := rs_Vlan res\<rparr>,
                          (snd s)\<lparr>bs_BootstrapDNS := dnsAddresses, bs_DNSSearchDomains := [rs_DNSDomain res]\<rparr>))))"

fun apply_reservations :: "string list \<Rightarrow> reservation list \<Rightarrow> instance_spec \<times> bm_spec \<Rightarrow> api_error + instance_spec \<times> bm_spec" where
  "apply_reservations dns [] s = Inr s"
| "apply_reservations dns (r # rs) s =
     (case apply_reservation dns r s of Inl err \<Rightarrow> Inl err | Inr s' \<Rightarrow> apply_reservations dns rs s')"

fun bm_hosts :: "(string, ipset) gomap \<Rightarrow> string list \<Rightarrow> dp_node list \<Rightarrow> bm_spec \<Rightarrow> api_error + bm_spec" where
  "bm_hosts ipSets dns [] b = Inr b"
| "bm_hosts ipSets dns (node # nodes) b =
     (case map_of ipSets (nd_HostName node) of
        None \<Rightarrow> Inl (OtherError (''no IPSet found for host: '' @ nd_HostName node))
      | Some ipSet \<Rightarrow>
          (case apply_reservations dns (ips_Reservation ipSet)
                  (\<lparr>bi_BmhLabelSelector = nd_BmhLabelSelector node, bi_UserData = nd_UserData node, bi_NetworkData = nd_NetworkData node,
                    bi_CtlplaneInterface = nd_CtlplaneInterface node, bi_CtlPlaneIP = [], bi_CtlplaneGateway = [], bi_CtlplaneVlan = None\<rparr>, b) of
             Inl err \<Rightarrow> Inl err
           | Inr (spec, b') \<Rightarrow> bm_hosts ipSets dns nodes (b'\<lparr>bs_Hosts := gomap_put (nd_HostName node) spec (bs_Hosts b')\<rparr>)))"

definition default_image :: "string \<Rightarrow> string ptr \<Rightarrow> string" where
  "default_image url img = (if url = [] then (case img of None \<Rightarrow> url | Some i \<Rightarrow> i) else url)"

definition bm_images :: "container_images \<Rightarrow> bm_template \<Rightarrow> bm_template" where
  "bm_images images t =
     t\<lparr>bt_OSContainerImageURL := default_image (bt_OSContainerImageURL t) (ci_template images OsContainerImage),
       bt_AgentImageURL := default_image (bt_AgentImageURL t) (ci_template images AgentImage),
       bt_ApacheImageURL := default_image (bt_ApacheImageURL t) (ci_template images ApacheImage)\<rparr>"

text \<open>The function \<open>CreateOrPatch\<close> applies to the set.\<close>

definition bm_mutate :: "(string, ipset) gomap \<Rightarrow> string list \<Rightarrow> container_images \<Rightarrow> dp_nodeset \<Rightarrow> bm_spec \<Rightarrow> api_error + bm_spec" where
  "bm_mutate ipSets dns images ns b =
     bm_hosts ipSets dns (map snd (ns_Nodes ns))
       (b\<lparr>bs_Hosts := [],
          bs_Template := (case ns_BaremetalSetTemplate ns of None \<Rightarrow> bs_Template b | Some t \<Rightarrow> Some (bm_images images t))\<rparr>)"

definition DeployBaremetalSet ::
    "condlib \<Rightarrow> bm_env \<Rightarrow> (string, ipset) gomap \<Rightarrow> string list \<Rightarrow> container_images \<Rightarrow> dp_nodeset
     \<Rightarrow> dp_nodeset \<times> (api_error + string option)" where
  "DeployBaremetalSet L env ipSets dns images ns =
     (let mark = (\<lambda>f. ns_mark f ns);
          failed = (\<lambda>err. (mark (\<lambda>cs. lc_MarkFalse L cs NodeSetBareMetalProvisionReadyCondition ErrorReason SeverityError
                             (''NodeSetBaremetalProvisionReady error occurred '' @ err_msg err)), Inl err))
      in case bm_mutate ipSets dns images ns (bm_before env) of
           Inl err \<Rightarrow> failed err
         | Inr b \<Rightarrow>
             (case bm_patch env b of
                Inl err \<Rightarrow> failed err
              | Inr ready \<Rightarrow>
                  if \<not> ready
                  then (mark (\<lambda>cs. lc_MarkFalse L cs NodeSetBareMetalProvisionReadyCondition RequestedReason SeverityInfo
                          ''NodeSetBaremetalProvisionReady not yet ready''), Inr None)
                  else (case bm_statusHash env of
                          Inl err \<Rightarrow> (ns, Inl err)
                        | Inr hash \<Rightarrow>
                            (mark (\<lambda>cs. lc_MarkTrue L cs NodeSetBareMetalProvisionReadyCondition ''NodeSetBaremetalProvisionReady ready''),
                             Inr (Some hash)))))"

end
