(* ===== verification/NodeSet_Inventory_Laws.thy ===== *)
theory NodeSet_Inventory_Laws
  imports NodeSet_Inventory
begin

text \<open>
  Precedence of the variables in the inventory, and what the inventory and the bare metal set take from the
  reserved addresses.
\<close>

subsection \<open>Precedence of variables\<close>

definition network_var_names :: "string list" where
  "network_var_names = [''network_servicenet_map'', ''networks_lower'', ''nodeset_networks'']"

lemma network_vars_other: "k \<notin> set network_var_names \<Longrightarrow> map_of (network_vars nets m vs) k = map_of vs k"
  by (simp add: network_vars_def network_var_names_def gomap_simps split: prod.splits)

lemma unmarshal_other:
  "unmarshalAnsibleVars env avs vs = Inr vs' \<Longrightarrow> k \<notin> fst ` set avs \<Longrightarrow> map_of vs' k = map_of vs k"
  by (induction env avs vs rule: unmarshalAnsibleVars.induct) (auto simp: gomap_simps split: sum.splits)

lemma unmarshal_wins:
  "unmarshalAnsibleVars env avs vs = Inr vs' \<Longrightarrow> distinct (map fst avs) \<Longrightarrow> (k, val) \<in> set avs \<Longrightarrow>
   \<exists>v. iv_yaml env val = Inr v \<and> map_of vs' k = Some v"
proof (induction avs arbitrary: vs)
  case (Cons a avs)
  obtain k' val' where a: "a = (k', val')" by (cases a)
  then obtain v where v: "iv_yaml env val' = Inr v" "unmarshalAnsibleVars env avs (gomap_put k' v vs) = Inr vs'"
    using Cons.prems(1) by (auto split: sum.splits)
  show ?case
  proof (cases "(k, val) \<in> set avs")
    case True
    then show ?thesis using Cons.IH [OF v(2)] Cons.prems(2) by simp
  next
    case False
    then have "k = k'" "val = val'" "k' \<notin> fst ` set avs" using Cons.prems(2,3) a by auto
    then show ?thesis using v unmarshal_other [OF v(2)] by (simp add: gomap_simps)
  qed
qed simp

lemma unmarshal_fails: "isl (unmarshalAnsibleVars env avs vs) \<longleftrightarrow> (\<exists>e \<in> set avs. isl (iv_yaml env (snd e)))"
proof (induction avs arbitrary: vs)
  case (Cons a avs)
  then show ?case by (cases a) (simp split: sum.split)
qed simp

lemma set_image_var_other: "k \<noteq> fst (snd iv) \<Longrightarrow> map_of (set_image_var avs images iv vs) k = map_of vs k"
  by (cases iv) (simp add: set_image_var_def gomap_simps)

lemma fold_image_other:
  "k \<notin> (\<lambda>iv. fst (snd iv)) ` set ivs \<Longrightarrow> map_of (fold (set_image_var avs images) ivs vs) k = map_of vs k"
  by (induction ivs arbitrary: vs) (auto simp: set_image_var_other)

lemma fold_image_set:
  assumes "distinct (map (\<lambda>iv. fst (snd iv)) ivs)" and "(tested, var, f) \<in> set ivs" and "map_of avs tested = None"
    and "ci_template images f \<noteq> None"
  shows "map_of (fold (set_image_var avs images) ivs vs) var = Some (VStrPtr (ci_template images f))"
  using assms(1,2)
proof (induction ivs arbitrary: vs)
  case (Cons iv ivs)
  show ?case
  proof (cases "(tested, var, f) \<in> set ivs")
    case False
    then have iv: "iv = (tested, var, f)" using Cons.prems(2) by simp
    then have "var \<notin> (\<lambda>iv. fst (snd iv)) ` set ivs" using Cons.prems(1) by simp
    moreover have "map_of (set_image_var avs images iv vs) var = Some (VStrPtr (ci_template images f))"
      using iv assms(3,4) by (auto simp: set_image_var_def gomap_simps)
    ultimately show ?thesis by (simp add: fold_image_other)
  qed (use Cons in simp)
qed simp

lemma image_vars_distinct: "distinct (map (\<lambda>iv. fst (snd iv)) image_vars)"
  by (simp add: image_vars_def)

lemma image_vars_not_networks: "(tested, var, f) \<in> set image_vars \<Longrightarrow> var \<notin> set network_var_names"
  by (auto simp: image_vars_def network_var_names_def)

text \<open>An image that the user sets through \<open>ansibleVarsFrom\<close> is lost.  The comment in
  \<open>resolveGroupAnsibleVars\<close> says that the images are set if they are not provided in the spec, but only
  \<open>ansibleVars\<close> are looked at: whatever the ConfigMaps and Secrets of the node template say (\<open>vs\<close>), the variable
  has the image of the version afterwards.\<close>

theorem vars_from_image_overridden:
  assumes "resolveGroupAnsibleVars env ns images m vs = Inr vs'" and "(tested, var, f) \<in> set image_vars"
    and "tested \<notin> fst ` set (ns_TemplateVars ns)" and "var \<notin> fst ` set (ns_TemplateVars ns)" and "ci_template images f \<noteq> None"
  shows "map_of vs' var = Some (VStrPtr (ci_template images f))"
proof -
  define v1 where "v1 = connection_vars (ns_TemplateUser ns) (ns_TemplatePort ns) (ns_TemplateManagementNetwork ns) vs"
  define v2 where "v2 = fold (set_image_var (ns_TemplateVars ns) images) image_vars v1"
  obtain v3 where v3: "unmarshalAnsibleVars env (ns_TemplateVars ns) v2 = Inr v3"
    "vs' = network_vars (ns_TemplateNetworks ns) m v3"
    using assms(1) by (auto simp: resolveGroupAnsibleVars_def Let_def v1_def v2_def split: sum.splits)
  have "map_of (ns_TemplateVars ns) tested = None" using assms(3) by (simp add: map_of_eq_None_iff)
  then have "map_of v2 var = Some (VStrPtr (ci_template images f))"
    unfolding v2_def by (rule fold_image_set [OF image_vars_distinct assms(2) _ assms(5)])
  then show ?thesis
    using v3 assms(4) by (simp add: network_vars_other [OF image_vars_not_networks [OF assms(2)]] unmarshal_other)
qed

text \<open>Variables set in \<open>ansibleVars\<close> have precedence, as the documentation of the field promises: their
  value is the one in the group, over the sources, the connection settings and the images.  Only the names of
  the network variables are reserved.\<close>

theorem ansible_vars_take_precedence:
  assumes "resolveGroupAnsibleVars env ns images m vs = Inr vs'" and "gomap_wf (ns_TemplateVars ns)"
    and "map_of (ns_TemplateVars ns) k = Some val" and "k \<notin> set network_var_names"
  shows "\<exists>v. iv_yaml env val = Inr v \<and> map_of vs' k = Some v"
proof -
  obtain v2 v3 where "unmarshalAnsibleVars env (ns_TemplateVars ns) v2 = Inr v3" "vs' = network_vars (ns_TemplateNetworks ns) m v3"
    using assms(1) by (auto simp: resolveGroupAnsibleVars_def Let_def split: sum.splits)
  then show ?thesis
    using unmarshal_wins [of env "ns_TemplateVars ns" v2 v3 k val] map_of_SomeD [OF assms(3)] assms(2,4)
    by (simp add: network_vars_other gomap_wf_def)
qed

subsection \<open>Nodes keep their names while addresses are reserved\<close>

lemma update_same_names:
  assumes "distinct (map fst xs)" and "map_of xs n = Some old" and "h new = h old"
  shows "map (\<lambda>(k, v). (k, h v)) (gomap_put n new xs) = map (\<lambda>(k, v). (k, h v)) xs"
  using assms by (induction xs) auto

abbreviation host_names :: "dp_nodeset \<Rightarrow> (string \<times> string) list" where
  "host_names ns \<equiv> map (\<lambda>(k, v). (k, nd_HostName v)) (ns_Nodes ns)"

lemma host_names_lookup:
  assumes "host_names ns = host_names ns'"
  shows "map_option nd_HostName (map_of (ns_Nodes ns) n) = map_option nd_HostName (map_of (ns_Nodes ns') n)"
proof -
  have "map_of (host_names x) n = map_option nd_HostName (map_of (ns_Nodes x) n)" for x by (simp add: map_of_map)
  from this [of ns] this [of ns'] show ?thesis using assms by simp
qed

lemma host_names_snd: "map nd_HostName (map snd (ns_Nodes ns)) = map snd (host_names ns)"
  by (simp add: case_prod_beta)

lemma host_names_fst: "host_names ns = host_names ns' \<Longrightarrow> map fst (ns_Nodes ns) = map fst (ns_Nodes ns')"
proof -
  assume h: "host_names ns = host_names ns'"
  have "map fst (ns_Nodes x) = map fst (host_names x)" for x by (simp add: case_prod_beta)
  then show ?thesis using h by metis
qed

lemma reserve_node_names:
  assumes "reserve_node env m (n, node) r = Next r'" and "distinct (map fst (ns_Nodes (ir_NodeSet r)))"
    and "map_option nd_HostName (map_of (ns_Nodes (ir_NodeSet r)) n) = Some (nd_HostName node)"
  shows "host_names (ir_NodeSet r') = host_names (ir_NodeSet r)"
proof -
  have "\<exists>nets'. ns_Nodes (ir_NodeSet r') = ns_Nodes (ir_NodeSet r)
      \<or> ns_Nodes (ir_NodeSet r') = gomap_put n (node\<lparr>nd_Networks := nets'\<rparr>) (ns_Nodes (ir_NodeSet r))"
    using assms(1) by (auto simp: reserve_node_def Let_def split: if_splits prod.splits bool.splits sum.splits)
  then obtain nets' where "ns_Nodes (ir_NodeSet r') = ns_Nodes (ir_NodeSet r)
      \<or> ns_Nodes (ir_NodeSet r') = gomap_put n (node\<lparr>nd_Networks := nets'\<rparr>) (ns_Nodes (ir_NodeSet r))" by blast
  moreover obtain old where "map_of (ns_Nodes (ir_NodeSet r)) n = Some old" "nd_HostName old = nd_HostName node"
    using assms(3) by auto
  ultimately show ?thesis using update_same_names [OF assms(2), of n old nd_HostName "node\<lparr>nd_Networks := nets'\<rparr>"] by auto
qed

lemma reserve_nodes_names:
  assumes "run_stages (map (reserve_node env m) xs) r = Next r'" and "distinct (map fst (ns_Nodes (ir_NodeSet r)))"
    and "\<forall>(n, node) \<in> set xs. map_option nd_HostName (map_of (ns_Nodes (ir_NodeSet r)) n) = Some (nd_HostName node)"
  shows "host_names (ir_NodeSet r') = host_names (ir_NodeSet r)"
  using assms
proof (induction xs arbitrary: r)
  case (Cons e xs)
  obtain n node where e: "e = (n, node)" by (cases e)
  obtain r1 where r1: "reserve_node env m (n, node) r = Next r1" "run_stages (map (reserve_node env m) xs) r1 = Next r'"
    using Cons.prems(1) e by (metis list.simps(9) run_stages_Cons_Next)
  have h: "host_names (ir_NodeSet r1) = host_names (ir_NodeSet r)"
    using reserve_node_names [OF r1(1) Cons.prems(2)] Cons.prems(3) e by simp
  have "host_names (ir_NodeSet r') = host_names (ir_NodeSet r1)"
    using Cons.IH [OF r1(2)] Cons.prems(2,3) host_names_fst [OF h] host_names_lookup [OF h] by simp
  then show ?case using h by simp
qed simp

subsection \<open>Every node has its addresses\<close>

text \<open>Mutual agreement of the components: the node set \<open>EnsureIPSets\<close> returns has an IPSet for every node.\<close>

lemma reserved_hosts:
  assumes E: "EnsureIPSets L env ns = (ns1, Inr (sets, m))" and wf: "gomap_wf (ns_Nodes ns)" and n: "node \<in> set (map snd (ns_Nodes ns1))"
  obtains s where "map_of sets (nd_HostName node) = Some s"
proof -
  obtain r where r: "reserve_nodes env m ns = Next r" "sets = ir_Sets r" "ns_Nodes ns1 = ns_Nodes (ir_NodeSet r)"
    using EnsureIPSets_ready [OF E] by metis
  have "\<forall>(n, node) \<in> set (ns_Nodes ns). map_option nd_HostName (map_of (ns_Nodes ns) n) = Some (nd_HostName node)"
    using wf by (auto simp: gomap_wf_def)
  then have "host_names (ir_NodeSet r) = host_names ns"
    using reserve_nodes_names [OF r(1) [unfolded reserve_nodes_def]] wf by (simp add: gomap_wf_def)
  then have "map nd_HostName (map snd (ns_Nodes ns1)) = map nd_HostName (map snd (ns_Nodes ns))"
    using r(3) by (simp only: host_names_snd)
  then have "nd_HostName node \<in> nd_HostName ` set (map snd (ns_Nodes ns))"
    using n by (metis imageI list.set_map)
  then obtain k node' where k: "(k, node') \<in> set (ns_Nodes ns)" "nd_HostName node' = nd_HostName node" by auto
  show thesis using EnsureIPSets_hosts [OF E k(1)] k(2) that by metis
qed

text \<open>The inventory of a node set never lacks an IPSet.  Once \<open>EnsureIPSets\<close> has reported the addresses
  ready, the variables of a node are built unless a ConfigMap or Secret it refers to cannot be read or one of
  its \<open>ansibleVars\<close> is not valid YAML.\<close>

theorem inventory_after_reservation:
  assumes "EnsureIPSets L env ns = (ns1, Inr (sets, m))" and "gomap_wf (ns_Nodes ns)" and "node \<in> set (map snd (ns_Nodes ns1))"
  shows "isl (host_vars ienv namespace sets dns m node) \<longleftrightarrow>
    isl (getAnsibleVarsFrom ienv namespace (nd_AnsibleVarsFrom node) []) \<or> (\<exists>e \<in> set (nd_AnsibleVars node). isl (iv_yaml ienv (snd e)))"
proof -
  obtain s where s: "map_of sets (nd_HostName node) = Some s" using reserved_hosts [OF assms] .
  have r: "isl (resolveHostAnsibleVars ienv node m vs) \<longleftrightarrow> (\<exists>e \<in> set (nd_AnsibleVars node). isl (iv_yaml ienv (snd e)))" for vs
    using unmarshal_fails [of ienv "nd_AnsibleVars node"
        "connection_vars (nd_AnsibleUser node) (nd_AnsiblePort node) (nd_ManagementNetwork node) vs"]
    by (cases "unmarshalAnsibleVars ienv (nd_AnsibleVars node)
        (connection_vars (nd_AnsibleUser node) (nd_AnsiblePort node) (nd_ManagementNetwork node) vs)")
      (simp_all add: resolveHostAnsibleVars_def)
  show ?thesis
  proof (cases "getAnsibleVarsFrom ienv namespace (nd_AnsibleVarsFrom node) []")
    case (Inr vs)
    define v where "v = gomap_put ''ansible_host'' (VStr (if nd_AnsibleHost node \<noteq> [] then nd_AnsibleHost node else nd_HostName node)) vs"
    have "host_vars ienv namespace sets dns m node = (case resolveHostAnsibleVars ienv node m v of Inl err \<Rightarrow> Inl err
        | Inr vs' \<Rightarrow> Inr (hd (dots (nd_HostName node)), populateInventoryFromIPAM s dns (nd_HostName node) vs'))"
      unfolding host_vars_def Inr sum.case Let_def v_def [symmetric] s option.case ..
    then have "isl (host_vars ienv namespace sets dns m node) \<longleftrightarrow> isl (resolveHostAnsibleVars ienv node m v)"
      by (cases "resolveHostAnsibleVars ienv node m v") simp_all
    then show ?thesis using Inr r by simp
  qed (simp add: host_vars_def)
qed

subsection \<open>Addresses of bare metal hosts\<close>

lemma apply_reservations_none:
  "\<forall>r \<in> set rs. ToLower (rs_Network r) \<noteq> CtlPlaneNetwork \<Longrightarrow> apply_reservations dns rs s = Inr s"
  by (induction rs) (simp_all add: apply_reservation_def)

lemma apply_reservations_hosts:
  "apply_reservations dns rs s = Inr s' \<Longrightarrow> bs_Hosts (snd s') = bs_Hosts (snd s)"
  by (induction dns rs s rule: apply_reservations.induct)
    (auto simp: apply_reservation_def split: sum.splits if_splits option.splits)

lemma apply_reservations_append:
  "apply_reservations dns (xs @ ys) s = (case apply_reservations dns xs s of Inl e \<Rightarrow> Inl e | Inr s' \<Rightarrow> apply_reservations dns ys s')"
  by (induction xs arbitrary: s) (simp_all split: sum.splits)

text \<open>The address of the only control plane reservation, or none.\<close>

definition ctl_address :: "reservation list \<Rightarrow> string" where
  "ctl_address rs =
     (case filter (\<lambda>r. ToLower (rs_Network r) = CtlPlaneNetwork) rs of
        [] \<Rightarrow> []
      | r # _ \<Rightarrow> rs_Address r @ ''/'' @ (case ParseCIDR (rs_Cidr r) of None \<Rightarrow> [] | Some n \<Rightarrow> Itoa n))"

lemma apply_reservations_address:
  assumes "apply_reservations dns rs s = Inr s'" and "length (filter (\<lambda>r. ToLower (rs_Network r) = CtlPlaneNetwork) rs) \<le> 1"
    and "bi_CtlPlaneIP (fst s) = []"
  shows "bi_CtlPlaneIP (fst s') = ctl_address rs"
proof (cases "filter (\<lambda>r. ToLower (rs_Network r) = CtlPlaneNetwork) rs")
  case Nil
  then have "\<forall>r \<in> set rs. ToLower (rs_Network r) \<noteq> CtlPlaneNetwork" by (simp add: filter_empty_conv)
  then show ?thesis using assms Nil by (simp add: apply_reservations_none ctl_address_def)
next
  case (Cons r rest)
  then have rest: "rest = []" using assms(2) by simp
  obtain xs ys where xs: "rs = xs @ r # ys" "\<forall>x \<in> set xs. ToLower (rs_Network x) \<noteq> CtlPlaneNetwork"
    "ToLower (rs_Network r) = CtlPlaneNetwork" "filter (\<lambda>r. ToLower (rs_Network r) = CtlPlaneNetwork) ys = []"
    using Cons rest by (auto simp: filter_eq_Cons_iff)
  have ys: "\<forall>x \<in> set ys. ToLower (rs_Network x) \<noteq> CtlPlaneNetwork" using xs(4) by (simp add: filter_empty_conv)
  obtain n gw where ok: "ParseCIDR (rs_Cidr r) = Some n" "rs_Gateway r = Some gw"
    using assms(1) xs(1-3) by (auto simp: apply_reservations_append apply_reservations_none apply_reservation_def split: option.splits)
  then have "bi_CtlPlaneIP (fst s') = rs_Address r @ ''/'' @ Itoa n"
    using assms(1) xs(1-3) ys by (auto simp: apply_reservations_append apply_reservations_none apply_reservation_def)
  then show ?thesis using Cons ok by (simp add: ctl_address_def)
qed

lemma bm_hosts_other:
  "bm_hosts sets dns nodes b = Inr b' \<Longrightarrow> h \<notin> nd_HostName ` set nodes \<Longrightarrow> map_of (bs_Hosts b') h = map_of (bs_Hosts b) h"
proof (induction nodes arbitrary: b)
  case (Cons node nodes)
  then obtain s spec b1 where "bm_hosts sets dns nodes (b1\<lparr>bs_Hosts := gomap_put (nd_HostName node) spec (bs_Hosts b1)\<rparr>) = Inr b'"
    "bs_Hosts b1 = bs_Hosts b"
    by (auto split: option.splits sum.splits prod.splits dest!: apply_reservations_hosts)
  then show ?case using Cons.IH Cons.prems(2) by (simp add: gomap_simps)
qed simp

text \<open>A bare metal host is provisioned with the address reserved for it on the control plane network, in
  CIDR notation with the prefix of the network; and with an empty address when its IPSet has no reservation on
  that network yet, which \<open>DeployBaremetalSet\<close> does not check.\<close>

theorem bm_host_address:
  assumes "bm_mutate sets dns images ns b = Inr b'" and "distinct (map (\<lambda>e. nd_HostName (snd e)) (ns_Nodes ns))"
    and "(n, node) \<in> set (ns_Nodes ns)" and "map_of sets (nd_HostName node) = Some s"
    and "length (filter (\<lambda>r. ToLower (rs_Network r) = CtlPlaneNetwork) (ips_Reservation s)) \<le> 1"
  shows "map_option bi_CtlPlaneIP (map_of (bs_Hosts b') (nd_HostName node)) = Some (ctl_address (ips_Reservation s))"
proof -
  have "map_option bi_CtlPlaneIP (map_of (bs_Hosts b') (nd_HostName node)) = Some (ctl_address (ips_Reservation s))"
    if "bm_hosts sets dns nodes b0 = Inr b'" "distinct (map nd_HostName nodes)" "node \<in> set nodes" for nodes b0
    using that
  proof (induction nodes arbitrary: b0)
    case (Cons x nodes)
    obtain sx where sx: "map_of sets (nd_HostName x) = Some sx" using Cons.prems(1) by (auto split: option.splits)
    define spec0 where "spec0 = \<lparr>bi_BmhLabelSelector = nd_BmhLabelSelector x, bi_UserData = nd_UserData x, bi_NetworkData = nd_NetworkData x,
       bi_CtlplaneInterface = nd_CtlplaneInterface x, bi_CtlPlaneIP = [], bi_CtlplaneGateway = [], bi_CtlplaneVlan = None\<rparr>"
    obtain spec b1 where b1: "apply_reservations dns (ips_Reservation sx) (spec0, b0) = Inr (spec, b1)"
      "bm_hosts sets dns nodes (b1\<lparr>bs_Hosts := gomap_put (nd_HostName x) spec (bs_Hosts b1)\<rparr>) = Inr b'"
      using Cons.prems(1) sx by (auto simp: spec0_def split: sum.splits prod.splits)
    show ?case
    proof (cases "node \<in> set nodes")
      case True
      then show ?thesis using Cons.IH [OF b1(2)] Cons.prems(2) by simp
    next
      case False
      then have x: "x = node" using Cons.prems(3) by simp
      have "bi_CtlPlaneIP spec = ctl_address (ips_Reservation s)"
        using apply_reservations_address [OF b1(1)] assms(4,5) sx x by (simp add: spec0_def)
      moreover have "nd_HostName node \<notin> nd_HostName ` set nodes" using Cons.prems(2) x by simp
      ultimately show ?thesis using bm_hosts_other [OF b1(2)] x by (simp add: gomap_simps)
    qed
  qed simp
  then show ?thesis using assms(1-3) by (force simp: bm_mutate_def comp_def)
qed

subsection \<open>Examples\<close>

definition sample_inv :: inv_env where
  "sample_inv = \<lparr>iv_client = sample_client, iv_registry = sample_registry, iv_yaml = (\<lambda>s. Inr (VData s)),
     iv_marshal = (\<lambda>_ _ _. Inr []), iv_ensureSecret = (\<lambda>_ _ _. None)\<rparr>"

definition nova_images :: container_images where
  "nova_images = empty_images\<lparr>ci_template := (\<lambda>f. if f = NovaComputeImage then Some ''quay/nova'' else None)\<rparr>"

lemma nova_images_sel [simp]: "ci_template nova_images NovaComputeImage = Some ''quay/nova''"
  by (simp add: nova_images_def)

abbreviation own_image :: vars where
  "own_image \<equiv> [(''edpm_nova_compute_image'', VStr ''registry.local/nova'')]"

lemma sample_resolve:
  assumes "ns_TemplateVars ns = [] \<or> ns_TemplateVars ns = [(''x'', ''1'')]"
  shows "\<exists>vs'. resolveGroupAnsibleVars sample_inv ns nova_images m vs = Inr vs'"
  using assms by (auto simp: resolveGroupAnsibleVars_def Let_def sample_inv_def)

lemma nova_image_var: "(''edpm_nova_compute_image'', ''edpm_nova_compute_image'', NovaComputeImage) \<in> set image_vars"
  by (simp add: image_vars_def)

theorem vars_from_image_overridden_witness:
  "\<exists>vs'. resolveGroupAnsibleVars sample_inv template_nodeset nova_images [] own_image = Inr vs' \<and>
     map_of vs' ''edpm_nova_compute_image'' = Some (VStrPtr (Some ''quay/nova''))"
proof -
  have tv: "ns_TemplateVars template_nodeset = []" by (simp add: template_nodeset_def sample_nodeset_def)
  then obtain vs' where r: "resolveGroupAnsibleVars sample_inv template_nodeset nova_images [] own_image = Inr vs'"
    using sample_resolve by blast
  then show ?thesis using vars_from_image_overridden [OF r nova_image_var] tv by simp
qed

abbreviation x_nodeset :: dp_nodeset where
  "x_nodeset \<equiv> template_nodeset\<lparr>ns_TemplateVars := [(''x'', ''1'')]\<rparr>"

theorem ansible_vars_take_precedence_witness:
  "\<exists>vs'. resolveGroupAnsibleVars sample_inv x_nodeset nova_images [] [(''x'', VInt 2)] = Inr vs' \<and> map_of vs' ''x'' = Some (VData ''1'')"
proof -
  obtain vs' where r: "resolveGroupAnsibleVars sample_inv x_nodeset nova_images [] [(''x'', VInt 2)] = Inr vs'"
    using sample_resolve [of x_nodeset] by auto
  have "''x'' \<notin> set network_var_names" by (simp add: network_var_names_def)
  then show ?thesis using ansible_vars_take_precedence [OF r, of "''x''" "''1''"] r by (simp add: gomap_wf_def sample_inv_def)
qed

lemma sample_ensure:
  "\<exists>t cs sets m. EnsureIPSets list_condlib sample_ipam template_nodeset =
     (template_nodeset\<lparr>ns_TemplateNetworks := t, ns_Conditions := cs\<rparr>, Inr (sets, m)) \<and>
     map_of sets ''h0'' = Some \<lparr>ips_Networks = t, ips_Conditions = [], ips_Reservation = [ctl_reservation]\<rparr>"
  by (simp add: EnsureIPSets_def cleanupStaleReservations_def reserveIPs_def reserve_nodes_def reserve_node_def sample_ipam_def Let_def
      condlib_IsFalse) (rule exI, rule refl)

theorem inventory_after_reservation_witness:
  "\<exists>ns1 sets m. EnsureIPSets list_condlib sample_ipam template_nodeset = (ns1, Inr (sets, m))
     \<and> \<not> isl (host_vars sample_inv ''openstack'' sets [] m (pre_node ''h0'' ''192.168.122.100''))"
proof -
  obtain t cs sets m where E: "EnsureIPSets list_condlib sample_ipam template_nodeset =
     (template_nodeset\<lparr>ns_TemplateNetworks := t, ns_Conditions := cs\<rparr>, Inr (sets, m))" using sample_ensure by blast
  have "\<not> isl (host_vars sample_inv ''openstack'' sets [] m (pre_node ''h0'' ''192.168.122.100''))"
    by (subst inventory_after_reservation [OF E]) (simp_all add: gomap_wf_def pre_node_def sample_node_def)
  then show ?thesis using E by blast
qed

definition bare_nodeset :: dp_nodeset where
  "bare_nodeset = template_nodeset\<lparr>ns_PreProvisioned := False\<rparr>"

abbreviation empty_bm :: bm_spec where
  "empty_bm \<equiv> \<lparr>bs_Template = None, bs_Hosts = [], bs_BootstrapDNS = [], bs_DNSSearchDomains = []\<rparr>"

abbreviation ipset_of :: "reservation list \<Rightarrow> ipset" where
  "ipset_of rs \<equiv> \<lparr>ips_Networks = [], ips_Conditions = [], ips_Reservation = rs\<rparr>"

lemma ctl_reservation_facts:
  "ToLower (rs_Network ctl_reservation) = CtlPlaneNetwork" "ParseCIDR (rs_Cidr ctl_reservation) = Some 24"
  "rs_Gateway ctl_reservation = Some ''192.168.122.1''" "rs_Address ctl_reservation @ ''/'' @ Itoa 24 = ''192.168.122.10/24''"
  by code_simp+

theorem bm_host_address_witness:
  "\<exists>b'. bm_mutate [(''h0'', ipset_of [ctl_reservation]), (''h1'', ipset_of [])] [] empty_images bare_nodeset empty_bm = Inr b' \<and>
     map_option bi_CtlPlaneIP (map_of (bs_Hosts b') ''h0'') = Some ''192.168.122.10/24'' \<and>
     map_option bi_CtlPlaneIP (map_of (bs_Hosts b') ''h1'') = Some []"
proof -
  let ?sets = "[(''h0'', ipset_of [ctl_reservation]), (''h1'', ipset_of [])]"
  have nodes: "ns_Nodes bare_nodeset = ns_Nodes template_nodeset" by (simp add: bare_nodeset_def)
  have "\<exists>b'. bm_mutate ?sets [] empty_images bare_nodeset empty_bm = Inr b'"
    by (simp add: bm_mutate_def nodes apply_reservation_def ctl_reservation_facts)
  then obtain b' where b: "bm_mutate ?sets [] empty_images bare_nodeset empty_bm = Inr b'" ..
  have "map_option bi_CtlPlaneIP (map_of (bs_Hosts b') (nd_HostName (pre_node ''h0'' ''192.168.122.100''))) = Some (ctl_address [ctl_reservation])"
    using bm_host_address [OF b, of "''n0''" "pre_node ''h0'' ''192.168.122.100''" "ipset_of [ctl_reservation]"]
    by (simp add: nodes)
  moreover have "map_option bi_CtlPlaneIP (map_of (bs_Hosts b') (nd_HostName (pre_node ''h1'' ''192.168.122.101''))) = Some (ctl_address [])"
    using bm_host_address [OF b, of "''n1''" "pre_node ''h1'' ''192.168.122.101''" "ipset_of []"] by (simp add: nodes)
  moreover have "ctl_address [] = []" "ctl_address [ctl_reservation] = ''192.168.122.10/24''"
    by (simp_all add: ctl_address_def ctl_reservation_facts del: append_Cons append_Nil append.simps)
  ultimately show ?thesis using b by simp
qed

text \<open>An address in a ConfigMap does not reach the inventory.  The values of ConfigMaps and Secrets are decoded
  as JSON when their text starts with a JSON value, whatever follows: a dotted text such as an IPv4 address or a
  version becomes the number made of its first two parts, though the value is meant to be kept as a string
  unless it is JSON.\<close>

theorem dotted_value_is_truncated:
  assumes "gomap_wf data" and "map_of data k = Some (c # ds @ CHR ''.'' # fs @ CHR ''.'' # rest)"
    and "list_all is_digit (c # ds)" and "c \<noteq> CHR ''0''" and "list_all is_digit fs" and "fs \<noteq> []"
  shows "map_of (processData data pre vs) (pre @ k) = Some (VJson (JNumber (c # ds @ CHR ''.'' # fs)))"
proof -
  let ?val = "\<lambda>v. case json_decode v of None \<Rightarrow> VStr v | Some value \<Rightarrow> VJson value"
  have "map_of (fold (\<lambda>(k, v). gomap_put (pre @ k) (?val v)) xs vs) (pre @ k) =
      (case map_of xs k of None \<Rightarrow> map_of vs (pre @ k) | Some v \<Rightarrow> Some (?val v))" if "distinct (map fst xs)" for xs vs
    using that
  proof (induction xs arbitrary: vs)
    case (Cons x xs)
    obtain a b where x: "x = (a, b)" by fastforce
    then have "map_of xs a = None" "distinct (map fst xs)" using Cons.prems by (simp_all add: map_of_eq_None_iff)
    then show ?case using Cons.IH x by (cases "a = k") (simp_all add: gomap_simps split: option.split)
  qed simp
  moreover have "distinct (map fst data)" using assms(1) by (simp add: gomap_wf_def)
  moreover have "json_decode (c # ds @ CHR ''.'' # fs @ CHR ''.'' # rest) = Some (JNumber (c # ds @ CHR ''.'' # fs))"
    by (rule json_decode_dotted) (use assms(3-6) in \<open>simp_all add: is_digit_def\<close>)
  ultimately show ?thesis using assms(2) by (simp add: processData_def)
qed

theorem dotted_value_is_truncated_witness:
  "map_of (processData [(''gateway'', ''192.168.122.1''), (''name'', ''compute'')] ''edpm_'' []) ''edpm_gateway'' = Some (VJson (JNumber ''192.168''))"
  using dotted_value_is_truncated [of "[(''gateway'', ''192.168.122.1''), (''name'', ''compute'')]" "''gateway''" "CHR ''1''" "''92''" "''168''" "''122.1''"
      "''edpm_''" "[]"]
  by (simp add: gomap_wf_def is_digit_def)

end
