(* ===== verification/NodeSet_Controller.thy ===== *)
theory NodeSet_Controller
  imports NodeSet_Inventory Deployment_Controller
begin

text \<open>
  The controller of OpenStackDataPlaneNodeSet:
  \<open>internal/controller/dataplane/openstackdataplanenodeset_controller.go\<close>, with \<open>InitConditions\<close> of
  \<open>api/dataplane/v1beta1\<close>.

  \<open>nsctl_env\<close> is what a reconciliation reads.  \<open>ne_specHash\<close> is \<open>ObjectHash\<close> of lib-common on the spec,
  \<open>ne_isError\<close> its \<open>condition.IsError\<close>, \<open>ne_message\<close> the text of a message constant with its argument.
  \<open>ne_sort\<close> is the effect of \<open>slices.SortFunc\<close>, whose comparison is by transition times, which the model
  does not have.  Status maps are never \<open>nil\<close> here, so their allocation is left out, and so are the log of
  failed pods and the set-up of the watch for MachineConfigs.
\<close>

definition ServiceAccountReadyCondition :: string where "ServiceAccountReadyCondition = ''ServiceAccountReady''"

lemmas nodeset_condition_types = deployment_condition_types ServiceAccountReadyCondition_def
  NodeSetIPReservationReadyCondition_def NodeSetDNSDataReadyCondition_def NodeSetBareMetalProvisionReadyCondition_def

subsection \<open>State\<close>

record nsctl_env =
  ne_get :: "api_error + dp_nodeset"
  ne_specHash :: "dp_nodeset \<Rightarrow> api_error + string"
  ne_services :: ensure_env
  ne_ipam :: ipam_env
  ne_verifySecret :: "string \<Rightarrow> string list \<Rightarrow> ctrl_result \<times> api_error option"
  ne_serviceAccount :: "ctrl_result \<times> api_error option"
  ne_roleBinding :: "ctrl_result \<times> api_error option"
  ne_versions :: "api_error + os_version list"
  ne_defaultImages :: container_images
  ne_baremetal :: bm_env
  ne_inventory :: inv_env
  ne_client :: dp_client
  ne_deployments :: "api_error + dp_deployment list"
  ne_sort :: "dp_deployment list \<Rightarrow> dp_deployment list"
  ne_isError :: "condition option \<Rightarrow> bool"
  ne_message :: "string \<Rightarrow> string \<Rightarrow> string"
  ne_patch :: "api_error option"

subsection \<open>Have the inputs of a deployment changed?\<close>

definition checkAnsibleVarsFromChanged ::
    "dp_client \<Rightarrow> dp_nodeset \<Rightarrow> (string, string) gomap \<Rightarrow> (string, string) gomap \<Rightarrow> api_error + bool" where
  "checkAnsibleVarsFromChanged c ns deployedConfigMapHashes deployedSecretHashes =
     (case setNodeSetAnsibleVarsFromHashes c ns ([], []) of
        (_, Some err) \<Rightarrow> Inl err
      | ((cms, secs), None) \<Rightarrow>
          Inr (list_ex (\<lambda>(n, h). map_of deployedConfigMapHashes n \<noteq> Some h) cms
               \<or> list_ex (\<lambda>(n, h). map_of deployedSecretHashes n \<noteq> Some h) secs))"

definition checkCertSecretsChanged :: "dp_client \<Rightarrow> dp_nodeset \<Rightarrow> (string, string) gomap \<Rightarrow> api_error + bool" where
  "checkCertSecretsChanged c ns deployedSecretHashes =
     (case GetCertSecretHashes c (ns_Namespace ns) (ns_Name ns) of
        Inl err \<Rightarrow> Inl err
      | Inr current \<Rightarrow>
          Inr (list_ex (\<lambda>(n, h). case map_of deployedSecretHashes n of None \<Rightarrow> False | Some d \<Rightarrow> d \<noteq> h) current))"

subsection \<open>The deployments of the node set\<close>

text \<open>The node set and the results of \<open>checkDeployment\<close>.\<close>

record dep_check =
  ck_NodeSet :: dp_nodeset
  ck_Ready :: bool
  ck_Running :: bool
  ck_Failed :: bool
  ck_FailedName :: string

definition no_flags :: "dep_check \<Rightarrow> dep_check" where
  "no_flags c = c\<lparr>ck_Ready := False, ck_Running := False, ck_Failed := False\<rparr>"

text \<open>The statuses that are recorded for every deployment.\<close>

definition record_statuses :: "dp_deployment \<Rightarrow> dp_nodeset \<Rightarrow> dp_nodeset" where
  "record_statuses dep ns =
     (let ns1 = ns\<lparr>ns_DeploymentStatuses :=
                gomap_put (dep_Name dep) (gomap_get [] (dep_NodeSetConditions dep) (ns_Name ns)) (ns_DeploymentStatuses ns)\<rparr>
      in if dep_ExecutionSummaries dep \<noteq> []
         then ns1\<lparr>ns_DeploymentExecutionSummaries := gomap_put (dep_Name dep) (dep_ExecutionSummaries dep) (ns_DeploymentExecutionSummaries ns1)\<rparr>
         else ns1)"

text \<open>What a finished deployment leaves in the status of the node set.\<close>

definition record_deployed :: "dp_deployment \<Rightarrow> dp_nodeset \<Rightarrow> dp_nodeset" where
  "record_deployed dep ns =
     (let isNodeScoped = (dep_AnsibleLimit dep \<noteq> [] \<and> dep_AnsibleLimit dep \<noteq> ''*'');
          start = (if dep_ServicesOverride dep = [] then [] else ns_SecretHashes ns)
      in ns\<lparr>ns_ConfigMapHashes := gomap_copy_into (dep_ConfigMapHashes dep) (ns_ConfigMapHashes ns),
            ns_SecretHashes := (if isNodeScoped then ns_SecretHashes ns else gomap_copy_into (dep_SecretHashes dep) start),
            ns_ContainerImages := gomap_copy_into (dep_ContainerImages dep) (ns_ContainerImages ns),
            ns_DeployedConfigHash := gomap_get [] (dep_NodeSetHashes dep) (ns_Name ns)\<rparr>)"

definition is_update_service :: "dp_service \<Rightarrow> bool" where
  "is_update_service s \<longleftrightarrow> svc_EDPMServiceType s = ''update'' \<or> svc_EDPMServiceType s = ''update-services''"

fun copy_version :: "dp_client \<Rightarrow> dp_deployment \<Rightarrow> string list \<Rightarrow> dp_nodeset \<Rightarrow> dp_nodeset \<times> api_error option" where
  "copy_version c dep [] ns = (ns, None)"
| "copy_version c dep (s # ss) ns =
     (case dc_getService c s of
        Inl err \<Rightarrow> (ns, Some err)
      | Inr service \<Rightarrow>
          copy_version c dep ss (if is_update_service service then ns\<lparr>ns_DeployedVersion := dep_DeployedVersion dep\<rparr> else ns))"

text \<open>A deployment that has completed on the node set.\<close>

definition is_current :: "dp_deployment \<Rightarrow> dp_nodeset \<Rightarrow> bool" where
  "is_current dep ns \<longleftrightarrow>
     gomap_get [] (dep_NodeSetHashes dep) (ns_Name ns) = ns_ConfigHash ns \<and>
     (ns_PreProvisioned ns \<or> gomap_get [] (dep_BmhRefHashes dep) (ns_Name ns) = ns_BmhRefHash ns)"

definition check_completed :: "nsctl_env \<Rightarrow> dp_deployment \<Rightarrow> dep_check \<Rightarrow> dep_check step" where
  "check_completed env dep c =
     (let ns = ck_NodeSet c
      in if \<not> is_current dep ns then Next c
         else (case checkAnsibleVarsFromChanged (ne_client env) ns (dep_ConfigMapHashes dep) (dep_SecretHashes dep) of
                 Inl err \<Rightarrow> Return (Some err) c
               | Inr True \<Rightarrow> Next c
               | Inr False \<Rightarrow>
                   (case checkCertSecretsChanged (ne_client env) ns (dep_SecretHashes dep) of
                      Inl err \<Rightarrow> Return (Some err) c
                    | Inr True \<Rightarrow> Next c
                    | Inr False \<Rightarrow>
                        (case copy_version (ne_client env) dep (deployment_services dep ns) (record_deployed dep ns) of
                           (ns', None) \<Rightarrow> Next (c\<lparr>ck_NodeSet := ns', ck_Ready := True\<rparr>)
                         | (ns', Some err) \<Rightarrow> Return (Some err) (c\<lparr>ck_NodeSet := ns', ck_Ready := True\<rparr>)))))"

text \<open>The body of the loop.  \<open>Return\<close> is the \<open>break\<close> after a failed deployment and the early returns.\<close>

definition check_one :: "condlib \<Rightarrow> nsctl_env \<Rightarrow> string \<Rightarrow> dp_deployment \<Rightarrow> dep_check \<Rightarrow> dep_check step" where
  "check_one L env latest dep c0 =
     (let conds = gomap_get [] (dep_NodeSetConditions dep) (ns_Name (ck_NodeSet c0));
          c = c0\<lparr>ck_NodeSet := record_statuses dep (ck_NodeSet c0)\<rparr>;
          cond = lc_Get L conds NodeSetDeploymentReadyCondition;
          failed = ne_isError env cond;
          running = (lc_IsFalse L conds NodeSetDeploymentReadyCondition \<and> \<not> failed);
          ready = lc_IsTrue L conds NodeSetDeploymentReadyCondition
      in if failed \<and> dep_Name dep \<noteq> latest then Next c
         else (let c1 = no_flags c
               in if failed
                  then (case cond of
                          None \<Rightarrow> Panic
                        | Some cnd \<Rightarrow> Return (Some (OtherError (c_message cnd))) (c1\<lparr>ck_FailedName := dep_Name dep, ck_Failed := True\<rparr>))
                  else (let c2 = (if running then c1\<lparr>ck_Running := True\<rparr> else c1)
                        in if ready then check_completed env dep c2 else Next c2)))"

definition relevant_deployments :: "dp_deployment list \<Rightarrow> string \<Rightarrow> dp_deployment list" where
  "relevant_deployments deps name = filter (\<lambda>d. \<not> dep_Deleting d \<and> name \<in> set (dep_NodeSets d)) deps"

definition checkDeployment :: "condlib \<Rightarrow> nsctl_env \<Rightarrow> dp_nodeset \<Rightarrow> dep_check step" where
  "checkDeployment L env ns =
     (let c0 = \<lparr>ck_NodeSet = ns, ck_Ready = False, ck_Running = False, ck_Failed = False, ck_FailedName = []\<rparr>
      in case ne_deployments env of
           Inl err \<Rightarrow> Return (Some err) c0
         | Inr deps \<Rightarrow>
             (let relevant = ne_sort env (relevant_deployments deps (ns_Name ns))
              in run_stages (map (check_one L env (if relevant = [] then [] else dep_Name (last relevant))) relevant) c0))"

subsection \<open>Reconcile\<close>

definition ns_InitConditions :: "condlib \<Rightarrow> nsctl_env \<Rightarrow> dp_nodeset \<Rightarrow> dp_nodeset" where
  "ns_InitConditions L env ns =
     (let unknown = lc_UnknownCondition L
      in ns\<lparr>ns_DeploymentStatuses := [], ns_DeploymentExecutionSummaries := [],
            ns_Conditions := lc_Init L []
              ([unknown DeploymentReadyCondition InitReason (ne_message env ''DeploymentReadyInitMessage'' []),
                unknown InputReadyCondition InitReason (ne_message env ''InputReadyInitMessage'' []),
                unknown SetupReadyCondition InitReason (ne_message env ''InitReason'' []),
                unknown NodeSetIPReservationReadyCondition InitReason (ne_message env ''InitReason'' []),
                unknown NodeSetDNSDataReadyCondition InitReason (ne_message env ''InitReason'' []),
                unknown ServiceAccountReadyCondition InitReason (ne_message env ''ServiceAccountReadyInitMessage'' [])]
               @ (if \<not> ns_PreProvisioned ns \<and> ns_Nodes ns \<noteq> []
                  then [unknown NodeSetBareMetalProvisionReadyCondition InitReason (ne_message env ''InitReason'' [])] else []))\<rparr>)"

text \<open>The node set and the local variables of \<open>Reconcile\<close>.\<close>

record ns_run =
  nr_NodeSet :: dp_nodeset
  nr_Result :: ctrl_result
  nr_IPSets :: "(string, ipset) gomap"
  nr_NetMap :: "(string, string) gomap"
  nr_DNS :: dns_details
  nr_Images :: container_images

abbreviation upd_ns :: "(dp_nodeset \<Rightarrow> dp_nodeset) \<Rightarrow> ns_run \<Rightarrow> ns_run" where
  "upd_ns f r \<equiv> r\<lparr>nr_NodeSet := f (nr_NodeSet r)\<rparr>"

definition hash_stage :: "condlib \<Rightarrow> nsctl_env \<Rightarrow> ns_run \<Rightarrow> ns_run step" where
  "hash_stage L env r0 =
     (let r = upd_ns (ns_mark (\<lambda>cs. lc_MarkFalse L cs SetupReadyCondition RequestedReason SeverityInfo ReadyInitMessage)) r0
      in case ne_specHash env (nr_NodeSet r) of
           Inl err \<Rightarrow> Return (Some err) r
         | Inr configHash \<Rightarrow>
             Next (if configHash \<noteq> ns_DeployedConfigHash (nr_NodeSet r) then upd_ns (\<lambda>ns. ns\<lparr>ns_ConfigHash := configHash\<rparr>) r else r))"

definition services_stage :: "condlib \<Rightarrow> nsctl_env \<Rightarrow> ns_run \<Rightarrow> ns_run step" where
  "services_stage L env r =
     (case EnsureServices (ne_services env) (ns_Namespace (nr_NodeSet r)) of
        (_, Some err) \<Rightarrow> Return (Some err) (upd_ns (ns_mark (\<lambda>cs. lc_MarkFalse L cs SetupReadyCondition ErrorReason SeverityError
            (''DataPlaneNodeSet error occurred '' @ err_msg err))) r)
      | (_, None) \<Rightarrow> Next r)"

definition ipam_stage :: "condlib \<Rightarrow> nsctl_env \<Rightarrow> ns_run \<Rightarrow> ns_run step" where
  "ipam_stage L env r =
     (case EnsureIPSets L (ne_ipam env) (nr_NodeSet r) of
        (ns, Inl err) \<Rightarrow> Return err (r\<lparr>nr_NodeSet := ns\<rparr>)
      | (ns, Inr (sets, m)) \<Rightarrow> Next (r\<lparr>nr_NodeSet := ns, nr_IPSets := sets, nr_NetMap := m\<rparr>))"

definition dns_stage :: "condlib \<Rightarrow> nsctl_env \<Rightarrow> ns_run \<Rightarrow> ns_run step" where
  "dns_stage L env r =
     (case EnsureDNSData L (ne_ipam env) (nr_IPSets r) (nr_NodeSet r) of
        (ns, d, err) \<Rightarrow>
          if err \<noteq> None \<or> \<not> dd_IsReady d then Return err (r\<lparr>nr_NodeSet := ns\<rparr>)
          else Next (r\<lparr>nr_NodeSet := ns\<lparr>ns_DNSClusterAddresses := dd_ClusterAddresses d, ns_CtlplaneSearchDomain := dd_CtlplaneSearchDomain d,
                         ns_AllHostnames := dd_Hostnames d, ns_AllIPs := dd_AllIPs d\<rparr>, nr_DNS := d\<rparr>))"

definition input_stage :: "condlib \<Rightarrow> nsctl_env \<Rightarrow> ns_run \<Rightarrow> ns_run step" where
  "input_stage L env r =
     (let ns = nr_NodeSet r; keys = ''ssh-privatekey'' # (if ns_PreProvisioned ns then [] else [''authorized_keys''])
      in case ne_verifySecret env (ns_SSHPrivateKeySecret ns) keys of
           (result, Some err) \<Rightarrow>
             Return (Some err) (upd_ns (ns_mark (\<lambda>cs. lc_MarkFalse L cs InputReadyCondition ErrorReason SeverityError (err_msg err)))
               (r\<lparr>nr_Result := result\<rparr>))
         | (result, None) \<Rightarrow>
             if result \<noteq> Done
             then Return None (upd_ns (ns_mark (\<lambda>cs. lc_MarkFalse L cs InputReadyCondition ErrorReason SeverityWarning
                    (''Waiting for input '' @ ''secret/'' @ ns_SSHPrivateKeySecret ns @ '', not yet ready''))) (r\<lparr>nr_Result := result\<rparr>))
             else Next (upd_ns (ns_mark (\<lambda>cs. lc_MarkTrue L cs InputReadyCondition (ne_message env ''InputReadyMessage'' []))) r))"

text \<open>The service account and the role binding are handled alike.\<close>

definition account_stage :: "condlib \<Rightarrow> nsctl_env \<Rightarrow> ctrl_result \<times> api_error option \<Rightarrow> ns_run \<Rightarrow> ns_run step" where
  "account_stage L env res r =
     (case res of
        (result, Some err) \<Rightarrow>
          Return (Some err) (upd_ns (ns_mark (\<lambda>cs. lc_MarkFalse L cs ServiceAccountReadyCondition ErrorReason SeverityWarning
             (ne_message env ''ServiceAccountReadyErrorMessage'' (err_msg err)))) (r\<lparr>nr_Result := result\<rparr>))
      | (result, None) \<Rightarrow>
          if result \<noteq> Done
          then Return None (upd_ns (ns_mark (\<lambda>cs. lc_MarkFalse L cs ServiceAccountReadyCondition RequestedReason SeverityInfo
                 (ne_message env ''ServiceAccountCreatingMessage'' []))) (r\<lparr>nr_Result := result\<rparr>))
          else Next r)"

definition baremetal_stage :: "condlib \<Rightarrow> nsctl_env \<Rightarrow> ns_run \<Rightarrow> ns_run step" where
  "baremetal_stage L env r0 =
     (let r = upd_ns (ns_mark (\<lambda>cs. lc_MarkTrue L cs ServiceAccountReadyCondition (ne_message env ''ServiceAccountReadyMessage'' []))) r0
      in case GetVersion (ne_versions env) of
           Inl err \<Rightarrow> Return (Some err) r
         | Inr version \<Rightarrow>
             (let images = dp_GetContainerImages (ne_defaultImages env) version; r1 = r\<lparr>nr_Images := images\<rparr>
              in if ns_PreProvisioned (nr_NodeSet r) then Next r1
                 else (let r2 = upd_ns (ns_mark (\<lambda>cs. lc_MarkUnknown L cs NodeSetBareMetalProvisionReadyCondition InitReason (ne_message env ''InitReason'' []))) r1
                       in case DeployBaremetalSet L (ne_baremetal env) (nr_IPSets r2) (dd_ServerAddresses (nr_DNS r2)) images (nr_NodeSet r2) of
                            (ns, Inl err) \<Rightarrow> Return (Some err) (r2\<lparr>nr_NodeSet := ns\<rparr>)
                          | (ns, Inr None) \<Rightarrow> Return None (r2\<lparr>nr_NodeSet := ns\<rparr>)
                          | (ns, Inr (Some hash)) \<Rightarrow> Next (r2\<lparr>nr_NodeSet := ns\<lparr>ns_BmhRefHash := hash\<rparr>\<rparr>))))"

text \<open>After \<open>checkDeployment\<close>: the inventory, unless a deployment is running, and the conditions.\<close>

definition deployment_conditions :: "condlib \<Rightarrow> nsctl_env \<Rightarrow> dep_check \<Rightarrow> api_error option \<Rightarrow> dp_nodeset \<Rightarrow> dp_nodeset" where
  "deployment_conditions L env c err ns0 =
     (let ns1 = ns_mark (\<lambda>cs. lc_MarkTrue L cs SetupReadyCondition ReadyMessage) ns0;
          ns2 = (if lc_IsUnknown L (ns_Conditions ns1) DeploymentReadyCondition
                 then ns_mark (\<lambda>cs. lc_MarkFalse L cs DeploymentReadyCondition RequestedReason SeverityInfo
                        ''NodeSet setup ready, waiting for OpenStackDataPlaneDeployment...'') ns1
                 else ns1)
      in if ck_Ready c
         then ns_mark (\<lambda>cs. lc_MarkTrue L cs DeploymentReadyCondition (ne_message env ''DeploymentReadyMessage'' []))
                (ns2\<lparr>ns_DeployedBmhHash := ns_BmhRefHash ns2\<rparr>)
         else if ck_Running c
         then ns_mark (\<lambda>cs. lc_MarkFalse L cs DeploymentReadyCondition RequestedReason SeverityInfo
                (ne_message env ''DeploymentReadyRunningMessage'' [])) ns2
         else if ck_Failed c
         then ns_mark (\<lambda>cs. lc_MarkFalse L cs DeploymentReadyCondition ErrorReason SeverityError
                (case err of None \<Rightarrow> [] | Some e \<Rightarrow> err_msg e)) ns2
         else ns2)"

definition after_check :: "condlib \<Rightarrow> nsctl_env \<Rightarrow> dep_check \<Rightarrow> api_error option \<Rightarrow> ns_run \<Rightarrow> ns_run step" where
  "after_check L env c err r0 =
     (let r = r0\<lparr>nr_NodeSet := ck_NodeSet c\<rparr>
      in if \<not> ck_Failed c \<and> err \<noteq> None
         then Return err (upd_ns (ns_mark (\<lambda>cs. lc_MarkFalse L cs DeploymentReadyCondition ErrorReason SeverityError
                (ne_message env ''DeploymentReadyErrorMessage'' (case err of None \<Rightarrow> [] | Some e \<Rightarrow> err_msg e)))) r)
         else if ck_Running c then Return err (upd_ns (deployment_conditions L env c err) r)
         else (case GenerateNodeSetInventory (ne_inventory env) (nr_IPSets r) (dd_ServerAddresses (nr_DNS r)) (nr_Images r) (nr_NetMap r)
                      (nr_NodeSet r) of
                 None \<Rightarrow> Panic
               | Some (ns, Some e) \<Rightarrow>
                   Return (Some e) (r\<lparr>nr_NodeSet := ns_mark (\<lambda>cs. lc_MarkFalse L cs SetupReadyCondition ErrorReason SeverityError
                      (''DataPlaneNodeSet error occurred Unable to generate inventory for '' @ ns_Name ns)) ns\<rparr>)
               | Some (ns, None) \<Rightarrow> Return err (r\<lparr>nr_NodeSet := deployment_conditions L env c err ns\<rparr>)))"

definition deployment_stage :: "condlib \<Rightarrow> nsctl_env \<Rightarrow> ns_run \<Rightarrow> ns_run step" where
  "deployment_stage L env r =
     (case checkDeployment L env (nr_NodeSet r) of
        Next c \<Rightarrow> after_check L env c None r
      | Return err c \<Rightarrow> after_check L env c err r
      | Panic \<Rightarrow> Panic)"

definition ns_stages :: "condlib \<Rightarrow> nsctl_env \<Rightarrow> (ns_run \<Rightarrow> ns_run step) list" where
  "ns_stages L env =
     [hash_stage L env, services_stage L env, ipam_stage L env, dns_stage L env, input_stage L env,
      account_stage L env (ne_serviceAccount env), account_stage L env (ne_roleBinding env), baremetal_stage L env, deployment_stage L env]"

definition ns_set_ready :: "condlib \<Rightarrow> dp_nodeset \<Rightarrow> dp_nodeset" where
  "ns_set_ready L ns =
     (if lc_AllSubConditionIsTrue L (ns_Conditions ns) then ns_mark (\<lambda>cs. lc_MarkTrue L cs ReadyCondition ''NodeSet Ready'') ns
      else if lc_IsUnknown L (ns_Conditions ns) ReadyCondition
      then ns_mark (\<lambda>cs. lc_Set L cs (lc_Mirror L cs ReadyCondition)) ns
      else ns)"

text \<open>The object that is written, the result and the error; \<open>None\<close> is a panic.\<close>

type_synonym ns_exit = "dp_nodeset option \<times> ctrl_result \<times> api_error option"

definition ns_start :: "condlib \<Rightarrow> nsctl_env \<Rightarrow> dp_nodeset \<Rightarrow> ns_run" where
  "ns_start L env ns =
     \<lparr>nr_NodeSet = (ns_InitConditions L env ns)\<lparr>ns_ObservedGeneration := ns_Generation ns\<rparr>, nr_Result = Done, nr_IPSets = [], nr_NetMap = [],
      nr_DNS = no_details, nr_Images = empty_images\<rparr>"

definition ns_Reconcile :: "condlib \<Rightarrow> nsctl_env \<Rightarrow> ns_exit option" where
  "ns_Reconcile L env =
     (case ne_get env of
        Inl err \<Rightarrow> Some (None, Done, if IsNotFound err then None else Some err)
      | Inr ns \<Rightarrow>
          (let finish = (\<lambda>e r. Some (Some (ns_set_ready L (nr_NodeSet r)), nr_Result r, case ne_patch env of None \<Rightarrow> e | Some err \<Rightarrow> Some err))
           in case run_stages (ns_stages L env) (ns_start L env ns) of
                Panic \<Rightarrow> None
              | Next r \<Rightarrow> finish None r
              | Return e r \<Rightarrow> finish e r))"

subsection \<open>Watches\<close>

text \<open>The fields by which node sets are indexed, and the requests that a change of an object triggers.  An
  object is its kind, name, namespace and labels; \<open>listing\<close> are the node sets the client returns.\<close>

record watched =
  wo_Kind :: string
  wo_Name :: string
  wo_Namespace :: string
  wo_Labels :: "(string, string) gomap"

definition all_vars_from :: "dp_nodeset \<Rightarrow> data_source list" where
  "all_vars_from ns = ns_TemplateVarsFrom ns @ concat (map (\<lambda>(_, node). nd_AnsibleVarsFrom node) (ns_Nodes ns))"

definition index_configMaps :: "dp_nodeset \<Rightarrow> string list" where
  "index_configMaps ns = map es_Name (List.map_filter ds_ConfigMapRef (all_vars_from ns))"

definition index_secrets :: "dp_nodeset \<Rightarrow> string list" where
  "index_secrets ns =
     (if ns_SSHPrivateKeySecret ns \<noteq> [] then [ns_SSHPrivateKeySecret ns] else []) @ map es_Name (List.map_filter ds_SecretRef (all_vars_from ns))"

definition requests :: "string \<Rightarrow> dp_nodeset list \<Rightarrow> (string \<times> string) list" where
  "requests namespace nodeSets = map (\<lambda>ns. (namespace, ns_Name ns)) nodeSets"

text \<open>\<open>client.InNamespace\<close>: the empty namespace stands for all of them.\<close>

definition in_namespace :: "string \<Rightarrow> dp_nodeset list \<Rightarrow> dp_nodeset list" where
  "in_namespace namespace items = filter (\<lambda>ns. namespace = [] \<or> ns_Namespace ns = namespace) items"

definition genericWatcherFn :: "(api_error + dp_nodeset list) \<Rightarrow> watched \<Rightarrow> (string \<times> string) list" where
  "genericWatcherFn listing obj =
     (case listing of Inl _ \<Rightarrow> []
      | Inr items \<Rightarrow> requests (wo_Namespace obj) (in_namespace (wo_Namespace obj) items))"

definition machineConfigWatcherFn :: "(api_error + dp_nodeset list) \<Rightarrow> watched \<Rightarrow> (string \<times> string) list" where
  "machineConfigWatcherFn listing obj =
     (if wo_Name obj \<noteq> ''99-master-generated-registries'' then []
      else (case listing of Inl _ \<Rightarrow> []
            | Inr items \<Rightarrow> requests (wo_Namespace obj) (in_namespace (wo_Namespace obj) items)))"

definition deploymentWatcherFn :: "dp_deployment \<Rightarrow> (string \<times> string) list" where
  "deploymentWatcherFn dep = map (\<lambda>n. (dep_Namespace dep, n)) (dep_NodeSets dep)"

definition secretWatcherFn :: "(api_error + dp_nodeset list) \<Rightarrow> watched \<Rightarrow> (string \<times> string) list" where
  "secretWatcherFn listing obj =
     (let generic = (let index = (if map to_lower (wo_Kind obj) = ''secret'' then index_secrets else index_configMaps)
                     in case listing of Inl _ \<Rightarrow> []
                        | Inr items \<Rightarrow> requests (wo_Namespace obj)
                            (filter (\<lambda>ns. wo_Name obj \<in> set (index ns)) (in_namespace (wo_Namespace obj) items)))
      in case map_of (wo_Labels obj) NodeSetLabel of
           Some nodeSetName \<Rightarrow>
             if map_of (wo_Labels obj) ServiceLabel \<noteq> None \<and> map_of (wo_Labels obj) ServiceKeyLabel \<noteq> None
             then [(wo_Namespace obj, nodeSetName)] else generic
         | None \<Rightarrow> generic)"

end
