(* ===== verification/NodeSet_Laws.thy ===== *)
theory NodeSet_Laws
  imports NodeSet_Controller NodeSet_Inventory_Laws Deployment_Laws
begin

text \<open>
  What the status of a node set means: which deployment makes it ready, where its deployed version comes
  from, and which changes trigger a reconciliation.
\<close>

subsection \<open>Hypotheses on the environment\<close>

text \<open>\<open>slices.SortFunc\<close> permutes its argument, an error condition is a condition with status false, and the
  client lists each deployment once.\<close>

definition nsctl_hyps :: "condlib \<Rightarrow> nsctl_env \<Rightarrow> bool" where
  "nsctl_hyps L env \<longleftrightarrow> condlib_laws L
     \<and> (\<forall>xs. distinct (map dep_Name xs) \<longrightarrow> set (ne_sort env xs) = set xs \<and> distinct (map dep_Name (ne_sort env xs)))
     \<and> (\<forall>c. ne_isError env c \<longrightarrow> (\<exists>x. c = Some x \<and> c_status x = CFalse))
     \<and> (\<forall>deps. ne_deployments env = Inr deps \<longrightarrow> distinct (map dep_Name deps))"

text \<open>The parts of a node set the checks read.\<close>

definition ns_key :: "dp_nodeset \<Rightarrow> string \<times> string \<times> bool \<times> string \<times> string \<times> (string, dp_node) gomap \<times> data_source list \<times> string list" where
  "ns_key ns = (ns_Name ns, ns_Namespace ns, ns_PreProvisioned ns, ns_ConfigHash ns, ns_BmhRefHash ns, ns_Nodes ns,
     ns_TemplateVarsFrom ns, ns_Services ns)"

lemma ns_key_cong:
  assumes "ns_key a = ns_key b"
  shows "ns_Name a = ns_Name b" and "is_current d a = is_current d b"
    and "checkAnsibleVarsFromChanged c a x y = checkAnsibleVarsFromChanged c b x y"
    and "checkCertSecretsChanged c a y = checkCertSecretsChanged c b y" and "deployment_services d a = deployment_services d b"
    and "ns_ConfigHash a = ns_ConfigHash b"
  using assms
  by (simp_all add: ns_key_def is_current_def checkAnsibleVarsFromChanged_def setNodeSetAnsibleVarsFromHashes_def
      checkCertSecretsChanged_def deployment_services_def)

lemma ns_key_updates [simp]:
  "ns_key (record_statuses d ns) = ns_key ns" "ns_key (record_deployed d ns) = ns_key ns"
  "ns_key (ns\<lparr>ns_Conditions := cs\<rparr>) = ns_key ns" "ns_key (ns\<lparr>ns_DeployedBmhHash := h\<rparr>) = ns_key ns"
  "ns_key (ns\<lparr>ns_InventorySecretName := h\<rparr>) = ns_key ns" "ns_key (ns\<lparr>ns_DeployedVersion := h\<rparr>) = ns_key ns"
  by (simp_all add: ns_key_def record_statuses_def record_deployed_def Let_def)

lemma copy_version_key: "ns_key (fst (copy_version c d ss ns)) = ns_key ns"
  by (induction c d ss ns rule: copy_version.induct) (auto split: sum.splits)

lemma copy_version_keeps:
  "ns_DeployedConfigHash (fst (copy_version c d ss ns)) = ns_DeployedConfigHash ns"
  by (induction c d ss ns rule: copy_version.induct) (auto split: sum.splits)

subsection \<open>One deployment\<close>

text \<open>The deployment is completed on the node set and none of its inputs has changed since.\<close>

definition up_to_date :: "condlib \<Rightarrow> nsctl_env \<Rightarrow> dp_deployment \<Rightarrow> dp_nodeset \<Rightarrow> bool" where
  "up_to_date L env dep ns \<longleftrightarrow>
     lc_IsTrue L (gomap_get [] (dep_NodeSetConditions dep) (ns_Name ns)) NodeSetDeploymentReadyCondition \<and> is_current dep ns
     \<and> checkAnsibleVarsFromChanged (ne_client env) ns (dep_ConfigMapHashes dep) (dep_SecretHashes dep) = Inr False
     \<and> checkCertSecretsChanged (ne_client env) ns (dep_SecretHashes dep) = Inr False"

lemma up_to_date_cong:
  assumes "ns_key a = ns_key b"
  shows "up_to_date L env d a = up_to_date L env d b"
  unfolding up_to_date_def ns_key_cong(1-4) [OF assms] ..

lemma check_completed_effect:
  assumes "step_value (check_completed env dep c) = Some c'"
  shows "ns_key (ck_NodeSet c') = ns_key (ck_NodeSet c)" and "ck_Failed c' = ck_Failed c" and "ck_Running c' = ck_Running c"
    and "check_completed env dep c \<noteq> Return None c'"
    and "ck_Ready c' \<Longrightarrow> ck_Ready c \<or> is_current dep (ck_NodeSet c)
      \<and> checkAnsibleVarsFromChanged (ne_client env) (ck_NodeSet c) (dep_ConfigMapHashes dep) (dep_SecretHashes dep) = Inr False
      \<and> checkCertSecretsChanged (ne_client env) (ck_NodeSet c) (dep_SecretHashes dep) = Inr False
      \<and> ck_NodeSet c' = fst (copy_version (ne_client env) dep (deployment_services dep (ck_NodeSet c)) (record_deployed dep (ck_NodeSet c)))"
    and "ck_NodeSet c' = ck_NodeSet c \<or> ck_Ready c'"
proof -
  let ?u = "copy_version (ne_client env) dep (deployment_services dep (ck_NodeSet c)) (record_deployed dep (ck_NodeSet c))"
  have k: "ns_key (fst ?u) = ns_key (ck_NodeSet c)" by (simp add: copy_version_key)
  consider (same) "c' = c" "check_completed env dep c \<noteq> Return None c'"
    | (deployed) "c' = c\<lparr>ck_NodeSet := fst ?u, ck_Ready := True\<rparr>" "is_current dep (ck_NodeSet c)"
      "checkAnsibleVarsFromChanged (ne_client env) (ck_NodeSet c) (dep_ConfigMapHashes dep) (dep_SecretHashes dep) = Inr False"
      "checkCertSecretsChanged (ne_client env) (ck_NodeSet c) (dep_SecretHashes dep) = Inr False" "check_completed env dep c \<noteq> Return None c'"
    using assms by (cases ?u) (auto simp: check_completed_def Let_def split: if_splits sum.splits bool.splits option.splits)
  then show "ns_key (ck_NodeSet c') = ns_key (ck_NodeSet c)" and "ck_Failed c' = ck_Failed c" and "ck_Running c' = ck_Running c"
    and "check_completed env dep c \<noteq> Return None c'"
    and "ck_Ready c' \<Longrightarrow> ck_Ready c \<or> is_current dep (ck_NodeSet c)
      \<and> checkAnsibleVarsFromChanged (ne_client env) (ck_NodeSet c) (dep_ConfigMapHashes dep) (dep_SecretHashes dep) = Inr False
      \<and> checkCertSecretsChanged (ne_client env) (ck_NodeSet c) (dep_SecretHashes dep) = Inr False
      \<and> ck_NodeSet c' = fst ?u"
    and "ck_NodeSet c' = ck_NodeSet c \<or> ck_Ready c'"
    by (cases; simp add: k)+
qed

text \<open>The conditions of the deployment for the node set, and whether it failed there.\<close>

definition dep_failed :: "condlib \<Rightarrow> nsctl_env \<Rightarrow> dp_deployment \<Rightarrow> string \<Rightarrow> bool" where
  "dep_failed L env dep n = ne_isError env (lc_Get L (gomap_get [] (dep_NodeSetConditions dep) n) NodeSetDeploymentReadyCondition)"

definition dep_is :: "(conditions \<Rightarrow> string \<Rightarrow> bool) \<Rightarrow> dp_deployment \<Rightarrow> string \<Rightarrow> bool" where
  "dep_is P dep n = P (gomap_get [] (dep_NodeSetConditions dep) n) NodeSetDeploymentReadyCondition"

lemma check_one_skips:
  assumes "dep_failed L env dep (ns_Name (ck_NodeSet c))" and "dep_Name dep \<noteq> latest"
  shows "check_one L env latest dep c = Next (c\<lparr>ck_NodeSet := record_statuses dep (ck_NodeSet c)\<rparr>)"
  using assms by (simp add: check_one_def dep_failed_def Let_def)

lemma check_one_failed:
  assumes H: "nsctl_hyps L env" and "dep_failed L env dep (ns_Name (ck_NodeSet c))" and "dep_Name dep = latest"
  obtains e c' where "check_one L env latest dep c = Return (Some e) c'" and "ck_Failed c'" and "\<not> ck_Ready c'" and "\<not> ck_Running c'"
    and "ns_key (ck_NodeSet c') = ns_key (ck_NodeSet c)" and "ck_NodeSet c' = record_statuses dep (ck_NodeSet c)"
proof -
  obtain x where "lc_Get L (gomap_get [] (dep_NodeSetConditions dep) (ns_Name (ck_NodeSet c))) NodeSetDeploymentReadyCondition = Some x"
    using H assms(2) by (auto simp: nsctl_hyps_def dep_failed_def)
  then show thesis using that assms(2,3) by (simp add: check_one_def dep_failed_def Let_def no_flags_def)
qed

text \<open>A deployment that has not failed resets the flags.\<close>

definition fresh_flags :: "condlib \<Rightarrow> dp_deployment \<Rightarrow> dep_check \<Rightarrow> dep_check" where
  "fresh_flags L dep c = c\<lparr>ck_NodeSet := record_statuses dep (ck_NodeSet c), ck_Ready := False,
     ck_Running := dep_is (lc_IsFalse L) dep (ns_Name (ck_NodeSet c)), ck_Failed := False\<rparr>"

lemma check_one_other:
  assumes "\<not> dep_failed L env dep (ns_Name (ck_NodeSet c))"
  shows "check_one L env latest dep c =
    (if dep_is (lc_IsTrue L) dep (ns_Name (ck_NodeSet c)) then check_completed env dep (fresh_flags L dep c) else Next (fresh_flags L dep c))"
  using assms by (cases c) (simp add: check_one_def dep_failed_def dep_is_def Let_def no_flags_def fresh_flags_def)

lemma fresh_flags_sel [simp]:
  "ns_key (ck_NodeSet (fresh_flags L dep c)) = ns_key (ck_NodeSet c)" "\<not> ck_Ready (fresh_flags L dep c)" "\<not> ck_Failed (fresh_flags L dep c)"
  "ck_Running (fresh_flags L dep c) = dep_is (lc_IsFalse L) dep (ns_Name (ck_NodeSet c))"
  "ck_NodeSet (fresh_flags L dep c) = record_statuses dep (ck_NodeSet c)"
  by (simp_all add: fresh_flags_def)

text \<open>The effect of one deployment that is not the failed latest one.\<close>

lemma check_one_effect:
  assumes H: "nsctl_hyps L env" and v: "step_value (check_one L env latest dep c) = Some c'"
    and n: "\<not> dep_failed L env dep (ns_Name (ck_NodeSet c))"
  shows "ns_key (ck_NodeSet c') = ns_key (ck_NodeSet c)" and "\<not> ck_Failed c'" and "check_one L env latest dep c \<noteq> Return None c'"
    and "ck_Running c' \<longleftrightarrow> dep_is (lc_IsFalse L) dep (ns_Name (ck_NodeSet c))"
    and "ck_Ready c' \<Longrightarrow> up_to_date L env dep (ck_NodeSet c') \<and> ns_DeployedConfigHash (ck_NodeSet c') = ns_ConfigHash (ck_NodeSet c')"
proof -
  have k: "ns_key (record_statuses dep (ck_NodeSet c)) = ns_key (ck_NodeSet c)" by simp
  have L: "condlib_laws L" using H by (simp add: nsctl_hyps_def)
  show "ns_key (ck_NodeSet c') = ns_key (ck_NodeSet c)" "\<not> ck_Failed c'" "check_one L env latest dep c \<noteq> Return None c'"
    "ck_Running c' \<longleftrightarrow> dep_is (lc_IsFalse L) dep (ns_Name (ck_NodeSet c))"
    using v check_completed_effect [of env dep "fresh_flags L dep c" c'] unfolding check_one_other [OF n] by (auto split: if_splits)
  assume r: "ck_Ready c'"
  then have t: "dep_is (lc_IsTrue L) dep (ns_Name (ck_NodeSet c))" and cc: "step_value (check_completed env dep (fresh_flags L dep c)) = Some c'"
    using v unfolding check_one_other [OF n] by (auto split: if_splits)
  note E = check_completed_effect(1,5) [OF cc]
  have key: "ns_key (ck_NodeSet c') = ns_key (ck_NodeSet (fresh_flags L dep c))" "ns_key (ck_NodeSet c') = ns_key (ck_NodeSet c)"
    using E(1) k by simp_all
  have "up_to_date L env dep (ck_NodeSet (fresh_flags L dep c))"
    using E(2) [OF r] t ns_key_cong(1) [OF k] by (simp add: up_to_date_def dep_is_def)
  then have "up_to_date L env dep (ck_NodeSet c')" using up_to_date_cong [OF key(1)] by simp
  moreover have "ns_DeployedConfigHash (ck_NodeSet c') = gomap_get [] (dep_NodeSetHashes dep) (ns_Name (ck_NodeSet c'))"
    using E(2) [OF r] ns_key_cong(1) [OF key(1)] by (simp add: copy_version_keeps record_deployed_def Let_def)
  ultimately show "up_to_date L env dep (ck_NodeSet c') \<and> ns_DeployedConfigHash (ck_NodeSet c') = ns_ConfigHash (ck_NodeSet c')"
    by (simp add: up_to_date_def is_current_def)
qed

subsection \<open>The latest deployment decides\<close>

text \<open>Deployments before the latest one never end the loop, except by an error of the client.\<close>

lemma check_loop:
  assumes H: "nsctl_hyps L env" and ne: "\<forall>d \<in> set xs. dep_Name d \<noteq> latest"
  shows "(\<exists>c'. run_stages (map (check_one L env latest) xs) c = Next c' \<and> ns_key (ck_NodeSet c') = ns_key (ck_NodeSet c)) \<or>
    (\<exists>e c'. run_stages (map (check_one L env latest) xs) c = Return (Some e) c' \<and> \<not> ck_Failed c')"
  using ne
proof (induction xs arbitrary: c)
  case (Cons d xs)
  have d: "dep_Name d \<noteq> latest" using Cons.prems by simp
  show ?case
  proof (cases "dep_failed L env d (ns_Name (ck_NodeSet c))")
    case True
    then show ?thesis using check_one_skips [OF True d] Cons.IH [of "c\<lparr>ck_NodeSet := record_statuses d (ck_NodeSet c)\<rparr>"] Cons.prems by simp
  next
    case False
    show ?thesis
    proof (cases "check_one L env latest d c")
      case (Next c1)
      then have "ns_key (ck_NodeSet c1) = ns_key (ck_NodeSet c)" using check_one_effect(1) [OF H _ False, of latest c1] by simp
      then show ?thesis using Cons.IH [of c1] Cons.prems Next by simp
    next
      case (Return e c1)
      then show ?thesis using check_one_effect(2,3) [OF H _ False, of latest c1] by (cases e) simp_all
    next
      case Panic
      then have "check_completed env d (fresh_flags L d c) = Panic" using check_one_other [OF False] by (simp split: if_splits)
      then show ?thesis by (simp add: check_completed_def Let_def split: if_splits sum.splits bool.splits prod.splits option.splits)
    qed
  qed
qed simp

lemma run_stages_single: "run_stages [f] a = f a"
  by (cases "f a") simp_all

text \<open>The relevant deployments in order.\<close>

abbreviation ordered_deployments :: "nsctl_env \<Rightarrow> dp_deployment list \<Rightarrow> string \<Rightarrow> dp_deployment list" where
  "ordered_deployments env deps n \<equiv> ne_sort env (relevant_deployments deps n)"

lemma ordered_deployments_facts:
  assumes H: "nsctl_hyps L env" and d: "ne_deployments env = Inr deps"
  shows "set (ordered_deployments env deps n) = set (relevant_deployments deps n)" and "distinct (map dep_Name (ordered_deployments env deps n))"
proof -
  have "distinct (map dep_Name deps)" using H d by (simp add: nsctl_hyps_def)
  then have "distinct (map dep_Name (relevant_deployments deps n))" by (simp add: relevant_deployments_def distinct_map_filter)
  then show "set (ordered_deployments env deps n) = set (relevant_deployments deps n)" "distinct (map dep_Name (ordered_deployments env deps n))"
    using H by (simp_all add: nsctl_hyps_def)
qed

lemma checkDeployment_cases:
  assumes H: "nsctl_hyps L env" and d: "ne_deployments env = Inr deps"
  obtains (empty) "ordered_deployments env deps (ns_Name ns) = []"
      "checkDeployment L env ns = Next \<lparr>ck_NodeSet = ns, ck_Ready = False, ck_Running = False, ck_Failed = False, ck_FailedName = []\<rparr>"
    | (error) e c where "checkDeployment L env ns = Return (Some e) c" "\<not> ck_Failed c"
    | (latest) xs dep c where "ordered_deployments env deps (ns_Name ns) = xs @ [dep]" "ns_key (ck_NodeSet c) = ns_key ns"
      "checkDeployment L env ns = check_one L env (dep_Name dep) dep c"
proof (cases "ordered_deployments env deps (ns_Name ns)" rule: rev_cases)
  case Nil
  then show ?thesis using empty d by (simp add: checkDeployment_def Let_def)
next
  case (snoc xs dep)
  define c0 where "c0 = \<lparr>ck_NodeSet = ns, ck_Ready = False, ck_Running = False, ck_Failed = False, ck_FailedName = []\<rparr>"
  have C: "checkDeployment L env ns = step_bind (run_stages (map (check_one L env (dep_Name dep)) xs) c0) (run_stages [check_one L env (dep_Name dep) dep])"
    using d snoc by (simp add: checkDeployment_def Let_def run_stages_append c0_def)
  have "dep_Name dep \<notin> dep_Name ` set xs"
    using ordered_deployments_facts(2) [OF H d, of "ns_Name ns"] snoc by simp
  then have "\<forall>x \<in> set xs. dep_Name x \<noteq> dep_Name dep" by (metis image_eqI)
  from check_loop [OF H this, of c0] show ?thesis
  proof (elim disjE exE conjE)
    fix c' assume "run_stages (map (check_one L env (dep_Name dep)) xs) c0 = Next c'" "ns_key (ck_NodeSet c') = ns_key (ck_NodeSet c0)"
    then show ?thesis using latest [OF snoc, of c'] C by (simp add: c0_def run_stages_single del: run_stages.simps)
  next
    fix e c' assume "run_stages (map (check_one L env (dep_Name dep)) xs) c0 = Return (Some e) c'" "\<not> ck_Failed c'"
    then show ?thesis using error C by simp
  qed
qed

text \<open>C19: the latest deployment decides.  Although \<open>checkDeployment\<close> visits all deployments of the node set and
  says that running and completed ones are all processed, its three answers are those of the last deployment
  in the order by transition time alone: failed, running, or ready if nothing has changed since; and at most one
  of them is given.\<close>

theorem checkDeployment_latest:
  assumes H: "nsctl_hyps L env" and d: "ne_deployments env = Inr deps" and o: "ordered_deployments env deps (ns_Name ns) = xs @ [dep]"
    and v: "step_value (checkDeployment L env ns) = Some c" and ok: "ck_Failed c \<or> checkDeployment L env ns = Next c"
  shows "(ck_Failed c \<longleftrightarrow> dep_failed L env dep (ns_Name ns))
    \<and> (ck_Running c \<longleftrightarrow> dep_is (lc_IsFalse L) dep (ns_Name ns) \<and> \<not> dep_failed L env dep (ns_Name ns))
    \<and> (ck_Ready c \<longrightarrow> up_to_date L env dep ns)
    \<and> \<not> (ck_Ready c \<and> ck_Running c) \<and> \<not> (ck_Ready c \<and> ck_Failed c) \<and> \<not> (ck_Running c \<and> ck_Failed c)"
proof -
  have L: "condlib_laws L" using H by (simp add: nsctl_hyps_def)
  obtain c0 where c0: "ns_key (ck_NodeSet c0) = ns_key ns" "checkDeployment L env ns = check_one L env (dep_Name dep) dep c0"
    using checkDeployment_cases [OF H d, of ns] o v ok by (cases; auto)
  note n = ns_key_cong(1) [OF c0(1)]
  have F: "ck_Failed c \<and> \<not> ck_Ready c \<and> \<not> ck_Running c" if f: "dep_failed L env dep (ns_Name ns)"
  proof -
    obtain e c' where "check_one L env (dep_Name dep) dep c0 = Return (Some e) c'" "ck_Failed c'" "\<not> ck_Ready c'" "\<not> ck_Running c'"
      using check_one_failed [OF H f [folded n] refl] by metis
    then show ?thesis using v c0(2) by simp
  qed
  have N: "\<not> ck_Failed c \<and> (ck_Running c \<longleftrightarrow> dep_is (lc_IsFalse L) dep (ns_Name ns)) \<and> (ck_Ready c \<longrightarrow> up_to_date L env dep (ck_NodeSet c))
      \<and> ns_key (ck_NodeSet c) = ns_key ns" if "\<not> dep_failed L env dep (ns_Name ns)"
    using check_one_effect [OF H, of "dep_Name dep" dep c0 c] v n that c0(1) unfolding c0(2) by simp
  have 1: "ck_Failed c \<longleftrightarrow> dep_failed L env dep (ns_Name ns)" using F N by blast
  have 2: "ck_Running c \<longleftrightarrow> dep_is (lc_IsFalse L) dep (ns_Name ns) \<and> \<not> dep_failed L env dep (ns_Name ns)" using F N by blast
  have 3: "up_to_date L env dep ns" if "ck_Ready c" using that F N up_to_date_cong by blast
  have "\<not> (up_to_date L env dep ns \<and> dep_is (lc_IsFalse L) dep (ns_Name ns))"
    using L by (auto simp: up_to_date_def dep_is_def condlib_IsTrue condlib_IsFalse)
  then show ?thesis using 1 2 3 F by blast
qed

subsection \<open>The stages before the deployments are looked at\<close>

text \<open>What these stages keep: identity and deployed state, and the condition on deployments.\<close>

definition ns_state :: "dp_nodeset \<Rightarrow> string \<times> string \<times> string \<times> string \<times> string list" where
  "ns_state ns = (ns_Name ns, ns_Namespace ns, ns_DeployedVersion ns, ns_DeployedConfigHash ns, ns_Services ns)"

definition ns_frame :: "condlib \<Rightarrow> ns_run \<Rightarrow> (string \<times> string \<times> string \<times> string \<times> string list) \<times> condition option" where
  "ns_frame L r = (ns_state (nr_NodeSet r), lc_Get L (ns_Conditions (nr_NodeSet r)) DeploymentReadyCondition)"

lemma ns_state_updates [simp]:
  "ns_state (ns\<lparr>ns_Conditions := cs\<rparr>) = ns_state ns" "ns_state (ns\<lparr>ns_ConfigHash := h\<rparr>) = ns_state ns"
  "ns_state (ns\<lparr>ns_BmhRefHash := h\<rparr>) = ns_state ns" "ns_state (ns\<lparr>ns_Nodes := x\<rparr>) = ns_state ns"
  "ns_state (ns\<lparr>ns_TemplateNetworks := y\<rparr>) = ns_state ns"
  "ns_state (ns\<lparr>ns_DNSClusterAddresses := a, ns_CtlplaneSearchDomain := b, ns_AllHostnames := p, ns_AllIPs := q\<rparr>) = ns_state ns"
  by (simp_all add: ns_state_def)

lemma reserve_node_state:
  "step_value (reserve_node env m e r) = Some r' \<Longrightarrow>
   ns_state (ir_NodeSet r') = ns_state (ir_NodeSet r) \<and> ns_Conditions (ir_NodeSet r') = ns_Conditions (ir_NodeSet r)
   \<and> ns_ConfigHash (ir_NodeSet r') = ns_ConfigHash (ir_NodeSet r)"
  by (cases e) (auto simp: reserve_node_def Let_def split: if_splits prod.splits bool.splits sum.splits)

lemma reserveIPs_state:
  assumes "reserveIPs env ns = (ns', m, x)"
  shows "ns_state ns' = ns_state ns \<and> ns_Conditions ns' = ns_Conditions ns \<and> ns_ConfigHash ns' = ns_ConfigHash ns"
proof -
  let ?same = "\<lambda>x. ns_state x = ns_state ns \<and> ns_Conditions x = ns_Conditions ns \<and> ns_ConfigHash x = ns_ConfigHash ns"
  have "?same (ir_NodeSet r)"
    if "step_value (reserve_nodes env nm ns) = Some r" for nm r
    by (rule run_stages_invariant [OF _ that [unfolded reserve_nodes_def]]) (auto simp: reserve_node_state)
  then have N: "?same (ir_NodeSet r)"
    if "reserve_nodes env nm ns = Next r \<or> reserve_nodes env nm ns = Return e r" for nm r e
    using that by (metis step_value.simps(1,2))
  show ?thesis
    using assms
    by (auto simp: reserveIPs_def Let_def split: sum.splits if_splits step.splits dest: N [OF disjI1] N [OF disjI2])
qed

lemma EnsureIPSets_state:
  assumes L: "condlib_laws L" and E: "EnsureIPSets L env ns = (ns', x)"
  shows "ns_state ns' = ns_state ns \<and> lc_Get L (ns_Conditions ns') DeploymentReadyCondition = lc_Get L (ns_Conditions ns) DeploymentReadyCondition
    \<and> ns_ConfigHash ns' = ns_ConfigHash ns"
proof -
  obtain ns1 m y where r: "reserveIPs env ns = (ns1, m, y)" by (cases "reserveIPs env ns")
  obtain ds e where c: "cleanupStaleReservations env ns = (ds, e)" by (cases "cleanupStaleReservations env ns")
  note R = reserveIPs_state [OF r]
  show ?thesis
    using E L R by (cases e; cases y)
      (auto simp: EnsureIPSets_def Let_def r c nodeset_condition_types split: if_splits)
qed

lemma EnsureDNSData_state:
  assumes L: "condlib_laws L" and E: "EnsureDNSData L env sets ns = (ns', d, e)"
  shows "ns_state ns' = ns_state ns \<and> lc_Get L (ns_Conditions ns') DeploymentReadyCondition = lc_Get L (ns_Conditions ns) DeploymentReadyCondition
    \<and> ns_ConfigHash ns' = ns_ConfigHash ns"
  using E L by (auto simp: EnsureDNSData_def Let_def nodeset_condition_types split: prod.splits option.splits if_splits sum.splits)

lemma DeployBaremetalSet_state:
  assumes L: "condlib_laws L" and E: "DeployBaremetalSet L env sets dns images ns = (ns', x)"
  shows "ns_state ns' = ns_state ns \<and> lc_Get L (ns_Conditions ns') DeploymentReadyCondition = lc_Get L (ns_Conditions ns) DeploymentReadyCondition
    \<and> ns_ConfigHash ns' = ns_ConfigHash ns"
  using E L by (auto simp: DeployBaremetalSet_def Let_def nodeset_condition_types split: sum.splits if_splits)

lemma stage_frames:
  assumes L: "condlib_laws L"
  shows "step_value (hash_stage L env r) = Some r' \<Longrightarrow> ns_frame L r' = ns_frame L r"
    and "step_value (services_stage L env r) = Some r' \<Longrightarrow> ns_frame L r' = ns_frame L r"
    and "step_value (input_stage L env r) = Some r' \<Longrightarrow> ns_frame L r' = ns_frame L r"
    and "step_value (account_stage L env a r) = Some r' \<Longrightarrow> ns_frame L r' = ns_frame L r"
    and "step_value (ipam_stage L env r) = Some r' \<Longrightarrow> ns_frame L r' = ns_frame L r"
    and "step_value (dns_stage L env r) = Some r' \<Longrightarrow> ns_frame L r' = ns_frame L r"
    and "step_value (baremetal_stage L env r) = Some r' \<Longrightarrow> ns_frame L r' = ns_frame L r"
proof -
  show "step_value (hash_stage L env r) = Some r' \<Longrightarrow> ns_frame L r' = ns_frame L r"
    using L by (auto simp: hash_stage_def ns_frame_def Let_def nodeset_condition_types split: sum.splits if_splits)
  show "step_value (services_stage L env r) = Some r' \<Longrightarrow> ns_frame L r' = ns_frame L r"
    using L by (auto simp: services_stage_def ns_frame_def nodeset_condition_types split: prod.splits option.splits)
  show "step_value (input_stage L env r) = Some r' \<Longrightarrow> ns_frame L r' = ns_frame L r"
    using L by (auto simp: input_stage_def ns_frame_def Let_def nodeset_condition_types split: prod.splits option.splits if_splits)
  show "step_value (account_stage L env a r) = Some r' \<Longrightarrow> ns_frame L r' = ns_frame L r"
    using L by (auto simp: account_stage_def ns_frame_def nodeset_condition_types split: prod.splits option.splits if_splits)
  show "step_value (ipam_stage L env r) = Some r' \<Longrightarrow> ns_frame L r' = ns_frame L r"
    using EnsureIPSets_state [OF L] by (auto simp: ipam_stage_def ns_frame_def split: prod.splits sum.splits)
  show "step_value (dns_stage L env r) = Some r' \<Longrightarrow> ns_frame L r' = ns_frame L r"
    using EnsureDNSData_state [OF L] by (auto simp: dns_stage_def ns_frame_def split: prod.splits if_splits)
  show "ns_frame L r' = ns_frame L r" if "step_value (baremetal_stage L env r) = Some r'"
  proof -
    have *: "lc_Get L (lc_MarkUnknown L cs NodeSetBareMetalProvisionReadyCondition x y) DeploymentReadyCondition = lc_Get L cs DeploymentReadyCondition"
      "lc_Get L (lc_MarkTrue L cs ServiceAccountReadyCondition y) DeploymentReadyCondition = lc_Get L cs DeploymentReadyCondition" for cs x y
      using L by (simp_all add: nodeset_condition_types)
    show ?thesis
      using that DeployBaremetalSet_state [OF L] *
      by (auto simp: baremetal_stage_def ns_frame_def Let_def split: sum.splits if_splits prod.splits option.splits)
  qed
qed

text \<open>Only the first stage sets the hash of the configuration.\<close>

lemma stage_hashes:
  assumes L: "condlib_laws L"
  shows "step_value (services_stage L env r) = Some r' \<Longrightarrow> ns_ConfigHash (nr_NodeSet r') = ns_ConfigHash (nr_NodeSet r)"
    and "step_value (input_stage L env r) = Some r' \<Longrightarrow> ns_ConfigHash (nr_NodeSet r') = ns_ConfigHash (nr_NodeSet r)"
    and "step_value (account_stage L env a r) = Some r' \<Longrightarrow> ns_ConfigHash (nr_NodeSet r') = ns_ConfigHash (nr_NodeSet r)"
    and "step_value (ipam_stage L env r) = Some r' \<Longrightarrow> ns_ConfigHash (nr_NodeSet r') = ns_ConfigHash (nr_NodeSet r)"
    and "step_value (dns_stage L env r) = Some r' \<Longrightarrow> ns_ConfigHash (nr_NodeSet r') = ns_ConfigHash (nr_NodeSet r)"
    and "step_value (baremetal_stage L env r) = Some r' \<Longrightarrow> ns_ConfigHash (nr_NodeSet r') = ns_ConfigHash (nr_NodeSet r)"
proof -
  show "step_value (services_stage L env r) = Some r' \<Longrightarrow> ns_ConfigHash (nr_NodeSet r') = ns_ConfigHash (nr_NodeSet r)"
    by (auto simp: services_stage_def split: prod.splits option.splits)
  show "step_value (input_stage L env r) = Some r' \<Longrightarrow> ns_ConfigHash (nr_NodeSet r') = ns_ConfigHash (nr_NodeSet r)"
    by (auto simp: input_stage_def Let_def split: prod.splits option.splits if_splits)
  show "step_value (account_stage L env a r) = Some r' \<Longrightarrow> ns_ConfigHash (nr_NodeSet r') = ns_ConfigHash (nr_NodeSet r)"
    by (auto simp: account_stage_def split: prod.splits option.splits if_splits)
  show "step_value (ipam_stage L env r) = Some r' \<Longrightarrow> ns_ConfigHash (nr_NodeSet r') = ns_ConfigHash (nr_NodeSet r)"
    using EnsureIPSets_state [OF L] by (auto simp: ipam_stage_def split: prod.splits sum.splits)
  show "step_value (dns_stage L env r) = Some r' \<Longrightarrow> ns_ConfigHash (nr_NodeSet r') = ns_ConfigHash (nr_NodeSet r)"
    using EnsureDNSData_state [OF L] by (auto simp: dns_stage_def split: prod.splits if_splits)
  show "step_value (baremetal_stage L env r) = Some r' \<Longrightarrow> ns_ConfigHash (nr_NodeSet r') = ns_ConfigHash (nr_NodeSet r)"
    by (auto simp: baremetal_stage_def Let_def split: sum.splits if_splits prod.splits option.splits
        dest!: DeployBaremetalSet_state [OF L, THEN conjunct2, THEN conjunct2])
qed

definition setup_stages :: "condlib \<Rightarrow> nsctl_env \<Rightarrow> (ns_run \<Rightarrow> ns_run step) list" where
  "setup_stages L env = [hash_stage L env, services_stage L env, ipam_stage L env, dns_stage L env, input_stage L env,
      account_stage L env (ne_serviceAccount env), account_stage L env (ne_roleBinding env), baremetal_stage L env]"

lemma ns_stages_split: "ns_stages L env = setup_stages L env @ [deployment_stage L env]"
  by (simp add: ns_stages_def setup_stages_def)

lemma setup_frame:
  assumes L: "condlib_laws L" and "step_value (run_stages (setup_stages L env) r) = Some r'"
  shows "ns_frame L r' = ns_frame L r"
  by (rule run_stages_invariant [OF _ assms(2)]) (auto simp: setup_stages_def stage_frames [OF L])

lemma setup_hash:
  assumes L: "condlib_laws L" and v: "step_value (run_stages (setup_stages L env) r) = Some r'"
    and same: "\<And>x. ne_specHash env x = Inr (ns_DeployedConfigHash (nr_NodeSet r))"
  shows "ns_ConfigHash (nr_NodeSet r') = ns_ConfigHash (nr_NodeSet r)"
proof -
  let ?P = "\<lambda>x. ns_ConfigHash (nr_NodeSet x) = ns_ConfigHash (nr_NodeSet r) \<and> ns_DeployedConfigHash (nr_NodeSet x) = ns_DeployedConfigHash (nr_NodeSet r)"
  have D: "ns_DeployedConfigHash (nr_NodeSet y) = ns_DeployedConfigHash (nr_NodeSet x)" if "ns_frame L y = ns_frame L x" for x y
    using that by (simp add: ns_frame_def ns_state_def)
  have h: "?P x \<Longrightarrow> step_value (hash_stage L env x) = Some y \<Longrightarrow> ?P y" for x y
    by (auto simp: hash_stage_def Let_def same)
  have frame: "ns_frame L y = ns_frame L x" if "f \<in> set (setup_stages L env)" "step_value (f x) = Some y" for f x y
    using that by (auto simp: setup_stages_def stage_frames [OF L])
  have hash: "f = hash_stage L env \<or> ns_ConfigHash (nr_NodeSet y) = ns_ConfigHash (nr_NodeSet x)"
    if "f \<in> set (setup_stages L env)" "step_value (f x) = Some y" for f x y
    using that by (auto simp: setup_stages_def stage_hashes [OF L])
  have "?P r'"
    by (rule run_stages_invariant [OF _ v]) (metis h hash frame D)+
  then show ?thesis by simp
qed

text \<open>The recorded hash after the set-up: the one of the spec, unless this one is already deployed.\<close>

lemma setup_records_hash:
  assumes L: "condlib_laws L" and v: "step_value (run_stages (setup_stages L env) r) = Some r'"
    and spec: "\<And>x. ne_specHash env x = Inr h"
  shows "ns_ConfigHash (nr_NodeSet r')
    = (if h = ns_DeployedConfigHash (nr_NodeSet r) then ns_ConfigHash (nr_NodeSet r) else h)"
proof -
  obtain fs where fs: "setup_stages L env = hash_stage L env # fs" "set fs \<subseteq> set (tl (setup_stages L env))"
    by (simp add: setup_stages_def)
  obtain r1 where r1: "hash_stage L env r = Next r1"
    "ns_ConfigHash (nr_NodeSet r1) = (if h = ns_DeployedConfigHash (nr_NodeSet r) then ns_ConfigHash (nr_NodeSet r) else h)"
    by (simp add: hash_stage_def Let_def spec)
  have "step_value (run_stages fs r1) = Some r'" using v fs(1) r1(1) by simp
  moreover have "ns_ConfigHash (nr_NodeSet y) = ns_ConfigHash (nr_NodeSet x)" if "f \<in> set fs" "step_value (f x) = Some y" for f x y
    using that fs(2) by (auto simp: setup_stages_def stage_hashes [OF L])
  ultimately have "ns_ConfigHash (nr_NodeSet r') = ns_ConfigHash (nr_NodeSet r1)"
    using run_stages_invariant [of fs "\<lambda>x. ns_ConfigHash (nr_NodeSet x) = ns_ConfigHash (nr_NodeSet r1)" r1 r'] by auto
  then show ?thesis using r1(2) by simp
qed

lemma ns_start_frame:
  assumes L: "condlib_laws L"
  shows "ns_frame L (ns_start L env ns) = (ns_state ns,
    Some (lc_UnknownCondition L DeploymentReadyCondition InitReason (ne_message env ''DeploymentReadyInitMessage'' [])))"
proof -
  define cl where "cl = [lc_UnknownCondition L DeploymentReadyCondition InitReason (ne_message env ''DeploymentReadyInitMessage'' []),
                lc_UnknownCondition L InputReadyCondition InitReason (ne_message env ''InputReadyInitMessage'' []),
                lc_UnknownCondition L SetupReadyCondition InitReason (ne_message env ''InitReason'' []),
                lc_UnknownCondition L NodeSetIPReservationReadyCondition InitReason (ne_message env ''InitReason'' []),
                lc_UnknownCondition L NodeSetDNSDataReadyCondition InitReason (ne_message env ''InitReason'' []),
                lc_UnknownCondition L ServiceAccountReadyCondition InitReason (ne_message env ''ServiceAccountReadyInitMessage'' [])]
               @ (if \<not> ns_PreProvisioned ns \<and> ns_Nodes ns \<noteq> []
                  then [lc_UnknownCondition L NodeSetBareMetalProvisionReadyCondition InitReason (ne_message env ''InitReason'' [])] else [])"
  have "distinct (map c_type cl)" using L by (simp add: cl_def nodeset_condition_types)
  then have "lc_Get L (lc_Init L [] cl) DeploymentReadyCondition
      = Some (lc_UnknownCondition L DeploymentReadyCondition InitReason (ne_message env ''DeploymentReadyInitMessage'' []))"
    using condlib_Init [OF L, of cl "lc_UnknownCondition L DeploymentReadyCondition InitReason (ne_message env ''DeploymentReadyInitMessage'' [])" "[]"] L
    by (simp add: cl_def)
  then show ?thesis by (simp add: ns_start_def ns_frame_def ns_InitConditions_def Let_def cl_def ns_state_def)
qed

subsection \<open>The deployment stage\<close>

lemma copy_version_conditions: "ns_Conditions (fst (copy_version c d ss ns)) = ns_Conditions ns"
  by (induction c d ss ns rule: copy_version.induct) (auto split: sum.splits)

lemma record_conditions [simp]: "ns_Conditions (record_statuses d ns) = ns_Conditions ns" "ns_Conditions (record_deployed d ns) = ns_Conditions ns"
  by (simp_all add: record_statuses_def record_deployed_def Let_def)

text \<open>How \<open>check_one\<close> changes the node set.\<close>

lemma check_one_nodeset:
  assumes "step_value (check_one L env latest dep c) = Some c'"
  shows "ck_NodeSet c' = record_statuses dep (ck_NodeSet c) \<or>
    (lc_IsTrue L (gomap_get [] (dep_NodeSetConditions dep) (ns_Name (ck_NodeSet c))) NodeSetDeploymentReadyCondition
     \<and> is_current dep (record_statuses dep (ck_NodeSet c))
     \<and> ck_NodeSet c' = fst (copy_version (ne_client env) dep (deployment_services dep (record_statuses dep (ck_NodeSet c)))
                            (record_deployed dep (record_statuses dep (ck_NodeSet c)))))"
proof (cases "dep_failed L env dep (ns_Name (ck_NodeSet c))")
  case True
  then show ?thesis using assms
    by (auto simp: check_one_def dep_failed_def Let_def no_flags_def split: if_splits option.splits)
next
  case False
  show ?thesis
  proof (cases "dep_is (lc_IsTrue L) dep (ns_Name (ck_NodeSet c))")
    case True
    then have v: "step_value (check_completed env dep (fresh_flags L dep c)) = Some c'" using assms check_one_other [OF False] by simp
    show ?thesis using check_completed_effect(5,6) [OF v] True by (auto simp: dep_is_def)
  next
    case not_ready: False
    then have "c' = fresh_flags L dep c" using assms check_one_other [OF False] by simp
    then show ?thesis by simp
  qed
qed

lemma check_one_conditions:
  assumes "step_value (check_one L env latest dep c) = Some c'"
  shows "ns_Conditions (ck_NodeSet c') = ns_Conditions (ck_NodeSet c)" and "ns_key (ck_NodeSet c') = ns_key (ck_NodeSet c)"
  using check_one_nodeset [OF assms] by (auto simp: copy_version_conditions copy_version_key)

lemma checkDeployment_invariant:
  assumes v: "step_value (checkDeployment L env ns) = Some c"
    and P: "\<And>dep c c' latest deps. ne_deployments env = Inr deps \<Longrightarrow> dep \<in> set (ordered_deployments env deps (ns_Name ns)) \<Longrightarrow> P (ck_NodeSet c)
      \<Longrightarrow> step_value (check_one L env latest dep c) = Some c' \<Longrightarrow> P (ck_NodeSet c')"
    and "P ns"
  shows "P (ck_NodeSet c)"
proof (cases "ne_deployments env")
  case (Inr deps)
  define c0 where "c0 = \<lparr>ck_NodeSet = ns, ck_Ready = False, ck_Running = False, ck_Failed = False, ck_FailedName = []\<rparr>"
  obtain latest where r: "step_value (run_stages (map (check_one L env latest) (ordered_deployments env deps (ns_Name ns))) c0) = Some c"
    using v Inr by (auto simp: checkDeployment_def Let_def c0_def)
  show ?thesis
  proof (rule run_stages_invariant [OF _ r])
    show "P (ck_NodeSet c')" if f: "f \<in> set (map (check_one L env latest) (ordered_deployments env deps (ns_Name ns)))"
        and a: "P (ck_NodeSet a)" "step_value (f a) = Some c'" for f a c'
    proof -
      obtain dep where dep: "f = check_one L env latest dep" "dep \<in> set (ordered_deployments env deps (ns_Name ns))" using f by auto
      show ?thesis using P [OF Inr dep(2) a(1), of latest c'] a(2) dep(1) by simp
    qed
    show "P (ck_NodeSet c0)" using assms(3) by (simp add: c0_def)
  qed
qed (use v assms(3) in \<open>auto simp: checkDeployment_def Let_def\<close>)

lemma checkDeployment_frame:
  assumes "step_value (checkDeployment L env ns) = Some c"
  shows "ns_Conditions (ck_NodeSet c) = ns_Conditions ns" and "ns_key (ck_NodeSet c) = ns_key ns"
  by (rule checkDeployment_invariant [OF assms]; simp add: check_one_conditions)+

lemma inventory_frame:
  assumes "GenerateNodeSetInventory ienv sets dns images m ns = Some (ns', e)"
  shows "ns' = ns \<or> ns' = ns\<lparr>ns_InventorySecretName := ns_InventorySecretName ns'\<rparr>"
  using assms by (auto simp: GenerateNodeSetInventory_def Let_def split: option.splits sum.splits)

text \<open>What the deployment stage leaves, by the results of \<open>checkDeployment\<close>.\<close>

lemma deployment_conditions_frame:
  "ns_key (deployment_conditions L env c err ns) = ns_key ns" "ns_state (deployment_conditions L env c err ns) = ns_state ns"
  by (simp_all add: deployment_conditions_def Let_def ns_state_def)

lemma deployment_conditions_ready:
  assumes "condlib_laws L" and "lc_IsTrue L (ns_Conditions (deployment_conditions L env c err ns)) DeploymentReadyCondition"
    and "\<not> lc_IsTrue L (ns_Conditions ns) DeploymentReadyCondition"
  shows "ck_Ready c"
  using assms by (auto simp: deployment_conditions_def Let_def condlib_IsTrue nodeset_condition_types split: if_splits)

lemma after_check_effect:
  assumes L: "condlib_laws L" and v: "step_value (after_check L env c err r) = Some r'"
  shows "ns_key (nr_NodeSet r') = ns_key (ck_NodeSet c)" and "ns_state (nr_NodeSet r') = ns_state (ck_NodeSet c)"
    and "lc_IsTrue L (ns_Conditions (nr_NodeSet r')) DeploymentReadyCondition \<Longrightarrow>
      \<not> lc_IsTrue L (ns_Conditions (ck_NodeSet c)) DeploymentReadyCondition \<Longrightarrow> ck_Ready c \<and> (ck_Failed c \<or> err = None)"
proof -
  let ?ns = "ck_NodeSet c"
  have inv: "ns_key ns1 = ns_key ?ns \<and> ns_state ns1 = ns_state ?ns \<and> ns_Conditions ns1 = ns_Conditions ?ns"
    if "GenerateNodeSetInventory ienv sets dns images m ?ns = Some (ns1, e)" for ienv sets dns images m ns1 e
  proof -
    from inventory_frame [OF that] obtain h where "ns1 = ?ns \<or> ns1 = ?ns\<lparr>ns_InventorySecretName := h\<rparr>" by blast
    then show ?thesis by (auto simp: ns_state_def)
  qed
  obtain ns1 where ns1: "ns_key ns1 = ns_key ?ns \<and> ns_state ns1 = ns_state ?ns \<and> ns_Conditions ns1 = ns_Conditions ?ns"
    and C1: "nr_NodeSet r' = deployment_conditions L env c err ns1 \<and> (ck_Failed c \<or> err = None)
      \<or> (\<exists>t reason sev msg. nr_NodeSet r' = ns_mark (\<lambda>cs. lc_MarkFalse L cs t reason sev msg) ns1)"
  proof (cases "\<not> ck_Failed c \<and> err \<noteq> None \<or> ck_Running c")
    case True
    then have "nr_NodeSet r' = deployment_conditions L env c err ?ns \<and> (ck_Failed c \<or> err = None)
      \<or> (\<exists>t reason sev msg. nr_NodeSet r' = ns_mark (\<lambda>cs. lc_MarkFalse L cs t reason sev msg) ?ns)"
      using v by (cases "\<not> ck_Failed c \<and> err \<noteq> None") (auto simp: after_check_def Let_def intro!: exI)
    then show thesis using that [of ?ns] by simp
  next
    case False
    then obtain x e where G: "GenerateNodeSetInventory (ne_inventory env) (nr_IPSets r) (dd_ServerAddresses (nr_DNS r)) (nr_Images r) (nr_NetMap r) ?ns = Some (x, e)"
      using v by (auto simp: after_check_def Let_def split: if_splits option.splits)
    then have "nr_NodeSet r' = deployment_conditions L env c err x \<and> (ck_Failed c \<or> err = None)
      \<or> (\<exists>t reason sev msg. nr_NodeSet r' = ns_mark (\<lambda>cs. lc_MarkFalse L cs t reason sev msg) x)"
      using v False by (cases e) (auto simp: after_check_def Let_def intro!: exI)
    then show thesis using that [of x] inv [OF G] by simp
  qed
  show "ns_key (nr_NodeSet r') = ns_key ?ns" "ns_state (nr_NodeSet r') = ns_state ?ns"
    using C1 ns1 by (auto simp: deployment_conditions_frame)
  show "ck_Ready c \<and> (ck_Failed c \<or> err = None)" if t: "lc_IsTrue L (ns_Conditions (nr_NodeSet r')) DeploymentReadyCondition"
      and n: "\<not> lc_IsTrue L (ns_Conditions ?ns) DeploymentReadyCondition"
  proof (cases "nr_NodeSet r' = deployment_conditions L env c err ns1 \<and> (ck_Failed c \<or> err = None)")
    case True
    then show ?thesis using deployment_conditions_ready [OF L] t n ns1 by metis
  next
    case False
    then obtain ty reason sev msg where "nr_NodeSet r' = ns_mark (\<lambda>cs. lc_MarkFalse L cs ty reason sev msg) ns1" using C1 by blast
    then show ?thesis using t n ns1 L by (auto split: if_splits)
  qed
qed

subsection \<open>Reconcile\<close>

lemma ns_set_ready_frame:
  assumes "condlib_laws L"
  shows "ns_key (ns_set_ready L ns) = ns_key ns" and "ns_state (ns_set_ready L ns) = ns_state ns"
    and "lc_Get L (ns_Conditions (ns_set_ready L ns)) DeploymentReadyCondition = lc_Get L (ns_Conditions ns) DeploymentReadyCondition"
  using assms by (simp_all add: ns_set_ready_def nodeset_condition_types)

lemma Reconcile_cases:
  assumes H: "nsctl_hyps L env" and g: "ne_get env = Inr ns" and R: "ns_Reconcile L env = Some (Some ns', res, err)"
  obtains (early) r where "ns' = ns_set_ready L (nr_NodeSet r)" "ns_frame L r = ns_frame L (ns_start L env ns)"
      "step_value (run_stages (setup_stages L env) (ns_start L env ns)) = Some r"
    | (checked) r c e r' where "run_stages (setup_stages L env) (ns_start L env ns) = Next r"
      "ns_frame L r = ns_frame L (ns_start L env ns)" "step_value (checkDeployment L env (nr_NodeSet r)) = Some c"
      "e = None \<longleftrightarrow> checkDeployment L env (nr_NodeSet r) = Next c \<or> checkDeployment L env (nr_NodeSet r) = Return None c"
      "step_value (after_check L env c e r) = Some r'" "ns' = ns_set_ready L (nr_NodeSet r')"
proof -
  have L: "condlib_laws L" using H by (simp add: nsctl_hyps_def)
  define S where "S = run_stages (setup_stages L env) (ns_start L env ns)"
  have run: "run_stages (ns_stages L env) (ns_start L env ns) = step_bind S (deployment_stage L env)"
    by (cases S) (simp_all add: ns_stages_split run_stages_append S_def [symmetric] run_stages_single del: run_stages.simps(2))
  obtain r0 where r0: "step_value (step_bind S (deployment_stage L env)) = Some r0" "ns' = ns_set_ready L (nr_NodeSet r0)"
    using R g run by (auto simp: ns_Reconcile_def Let_def split: step.splits)
  have F: "ns_frame L r = ns_frame L (ns_start L env ns)" if "step_value S = Some r" for r
    using setup_frame [OF L] that by (simp add: S_def)
  show thesis
  proof (cases S)
    case (Next r)
    define D where "D = checkDeployment L env (nr_NodeSet r)"
    have d: "step_value (deployment_stage L env r) = Some r0" using r0 Next by simp
    then obtain c e where c: "step_value D = Some c" "e = None \<longleftrightarrow> D = Next c \<or> D = Return None c"
      "step_value (after_check L env c e r) = Some r0"
      by (cases D) (auto simp: deployment_stage_def D_def [symmetric])
    show thesis by (rule checked [of r c e r0]) (use Next F c r0 S_def D_def in auto)
  next
    case (Return e r)
    then show thesis using early [of r] F r0 by (simp add: S_def)
  next
    case Panic
    then show thesis using r0 by simp
  qed
qed

lemma ready_deployment:
  assumes H: "nsctl_hyps L env" and g: "ne_get env = Inr ns" and d: "ne_deployments env = Inr deps"
    and R: "ns_Reconcile L env = Some (Some ns', res, err)" and t: "lc_IsTrue L (ns_Conditions ns') DeploymentReadyCondition"
  shows "\<exists>xs dep. ordered_deployments env deps (ns_Name ns') = xs @ [dep] \<and> dep \<in> set deps \<and> \<not> dep_Deleting dep
    \<and> ns_Name ns' \<in> set (dep_NodeSets dep) \<and> up_to_date L env dep ns' \<and> ns_DeployedConfigHash ns' = ns_ConfigHash ns'"
proof -
  have L: "condlib_laws L" using H by (simp add: nsctl_hyps_def)
  have start: "\<not> lc_IsTrue L (ns_Conditions (nr_NodeSet r)) DeploymentReadyCondition" if "ns_frame L r = ns_frame L (ns_start L env ns)" for r
    using that L by (simp add: ns_start_frame [OF L] condlib_IsTrue) (simp add: ns_frame_def)
  show ?thesis
  proof (cases rule: Reconcile_cases [OF H g R])
    case early: (1 r)
    then show ?thesis using t start [OF early(2)] L by (simp add: condlib_IsTrue ns_set_ready_frame)
  next
    case checked: (2 r c e r')
    have t': "lc_IsTrue L (ns_Conditions (nr_NodeSet r')) DeploymentReadyCondition"
      using t checked(6) L by (simp add: condlib_IsTrue ns_set_ready_frame)
    note CF = checkDeployment_frame [OF checked(3)] and A = after_check_effect [OF L checked(5)]
    have rdy: "ck_Ready c" and ok: "ck_Failed c \<or> e = None" using A(3) t' start [OF checked(2)] CF(1) by simp_all
    have key: "ns_key ns' = ns_key (ck_NodeSet c)" "ns_key ns' = ns_key (nr_NodeSet r)"
      using A(1) CF(2) checked(6) L by (simp_all add: ns_set_ready_frame)
    have st: "ns_DeployedConfigHash ns' = ns_DeployedConfigHash (ck_NodeSet c)"
      using A(2) checked(6) L ns_set_ready_frame(2) [OF L, of "nr_NodeSet r'"] by (simp add: ns_state_def)
    obtain xs dep c0 where o: "ordered_deployments env deps (ns_Name (nr_NodeSet r)) = xs @ [dep]"
      "ns_key (ck_NodeSet c0) = ns_key (nr_NodeSet r)" "checkDeployment L env (nr_NodeSet r) = check_one L env (dep_Name dep) dep c0"
      using checkDeployment_cases [OF H d, of "nr_NodeSet r"] rdy ok checked(3,4) by (cases; auto)
    have nf: "\<not> dep_failed L env dep (ns_Name (ck_NodeSet c0))"
    proof
      assume f: "dep_failed L env dep (ns_Name (ck_NodeSet c0))"
      obtain e' c' where "check_one L env (dep_Name dep) dep c0 = Return (Some e') c'" "\<not> ck_Ready c'"
        using check_one_failed [OF H f refl] by metis
      then show False using rdy o(3) checked(3) by simp
    qed
    have up: "up_to_date L env dep (ck_NodeSet c)" "ns_DeployedConfigHash (ck_NodeSet c) = ns_ConfigHash (ck_NodeSet c)"
      using check_one_effect(5) [OF H _ nf _] checked(3) o(3) rdy by simp_all
    have "dep \<in> set (relevant_deployments deps (ns_Name (nr_NodeSet r)))"
      using o(1) ordered_deployments_facts(1) [OF H d, of "ns_Name (nr_NodeSet r)"] by (metis in_set_conv_decomp)
    then have "dep \<in> set deps" "\<not> dep_Deleting dep" "ns_Name ns' \<in> set (dep_NodeSets dep)"
      using ns_key_cong(1) [OF key(2)] by (simp_all add: relevant_deployments_def)
    then show ?thesis
      using o(1) up st up_to_date_cong [OF key(1)] ns_key_cong(1) [OF key(2)] ns_key_cong(6) [OF key(1)] by auto
  qed
qed

lemma Reconcile_hash:
  assumes H: "nsctl_hyps L env" and g: "ne_get env = Inr ns" and R: "ns_Reconcile L env = Some (Some ns', res, err)"
    and spec: "\<And>x. ne_specHash env x = Inr h"
  shows "ns_ConfigHash ns' = (if h = ns_DeployedConfigHash ns then ns_ConfigHash ns else h)
    \<and> ns_Name ns' = ns_Name ns \<and> ns_Namespace ns' = ns_Namespace ns"
proof -
  have L: "condlib_laws L" using H by (simp add: nsctl_hyps_def)
  have start: "ns_ConfigHash (nr_NodeSet (ns_start L env ns)) = ns_ConfigHash ns"
    "ns_DeployedConfigHash (nr_NodeSet (ns_start L env ns)) = ns_DeployedConfigHash ns"
    "ns_state (nr_NodeSet (ns_start L env ns)) = ns_state ns"
    by (simp_all add: ns_start_def ns_InitConditions_def Let_def ns_state_def)
  have name: "ns_Name ns' = ns_Name ns \<and> ns_Namespace ns' = ns_Namespace ns"
    if "ns_key ns' = ns_key (nr_NodeSet r)" "ns_frame L r = ns_frame L (ns_start L env ns)" for r
    using that start(3) by (simp add: ns_key_def ns_frame_def ns_state_def)
  have hash: "ns_ConfigHash (nr_NodeSet r) = (if h = ns_DeployedConfigHash ns then ns_ConfigHash ns else h)"
    if "step_value (run_stages (setup_stages L env) (ns_start L env ns)) = Some r" for r
    using setup_records_hash [OF L that spec] start by simp
  show ?thesis
  proof (cases rule: Reconcile_cases [OF H g R])
    case (1 r)
    have key: "ns_key ns' = ns_key (nr_NodeSet r)" using 1(1) ns_set_ready_frame(1) [OF L] by simp
    have "step_value (run_stages (setup_stages L env) (ns_start L env ns)) = Some r" by (rule 1(3))
    then show ?thesis using hash ns_key_cong(6) [OF key] name [OF key 1(2)] by (simp only:)
  next
    case (2 r c e r')
    have "ns_key ns' = ns_key (nr_NodeSet r)"
      using after_check_effect(1) [OF L 2(5)] checkDeployment_frame(2) [OF 2(3)] ns_set_ready_frame(1) [OF L] 2(6) by simp
    then show ?thesis using hash [of r] 2(1) ns_key_cong(6) name [OF _ 2(2)] by (metis step_value.simps(1))
  qed
qed

subsection \<open>The inputs of a deployment\<close>

text \<open>What the cluster holds now and what the deployment recorded.  A data source of the variables names a
  ConfigMap or a Secret: it still has the hash recorded under its name, or it is optional and does not exist.
  The certificates are the secrets with the labels of the node set and of a service: those the deployment
  recorded still have the hash it recorded.\<close>

definition source_as_deployed :: "dp_client \<Rightarrow> string \<Rightarrow> dp_deployment \<Rightarrow> data_source \<Rightarrow> bool" where
  "source_as_deployed c n dep d \<longleftrightarrow>
     (case ds_ConfigMapRef d of
        Some r \<Rightarrow> (case dc_getConfigMap c n (es_Name r) of
                      Inr m \<Rightarrow> map_of (dep_ConfigMapHashes dep) (es_Name r) = Some (fst (dc_hashConfigMap c m))
                    | Inl e \<Rightarrow> IsNotFound e \<and> es_Optional r = Some True)
      | None \<Rightarrow>
          (case ds_SecretRef d of
             Some r \<Rightarrow> (case dc_getSecret c n (es_Name r) of
                           Inr s \<Rightarrow> map_of (dep_SecretHashes dep) (es_Name r) = Some (fst (dc_hashSecret c s))
                         | Inl e \<Rightarrow> IsNotFound e \<and> es_Optional r = Some True)
           | None \<Rightarrow> True))"

definition certs_as_deployed :: "dp_client \<Rightarrow> string \<Rightarrow> string \<Rightarrow> dp_deployment \<Rightarrow> bool" where
  "certs_as_deployed c n nodeSet dep \<longleftrightarrow>
     (\<exists>ss. dc_listSecrets c n [(NodeSetLabel, nodeSet)] = Inr ss
       \<and> (\<forall>s \<in> set ss. map_of (sec_Labels s) ServiceLabel \<noteq> None \<longrightarrow>
            map_of (dep_SecretHashes dep) (sec_Name s) \<in> {None, Some (fst (dc_hashSecret c s))}))"

text \<open>The client returns an object under the name asked for, and lists each secret of a namespace once.\<close>

definition client_lists :: "dp_client \<Rightarrow> bool" where
  "client_lists c \<longleftrightarrow> client_names c \<and> (\<forall>n l ss. n \<noteq> [] \<longrightarrow> dc_listSecrets c n l = Inr ss \<longrightarrow> distinct (map sec_Name ss))"

lemma vars_from_hashes_concat:
  "vars_from_hashes c n dss h = (h', None) \<Longrightarrow> ProcessAnsibleVarsFrom c n (concat dss) h = (h', None)"
proof (induction dss arbitrary: h)
  case (Cons ds dss)
  have app: "ProcessAnsibleVarsFrom c n ds h = (h1, None) \<Longrightarrow> ProcessAnsibleVarsFrom c n (ds @ es) h = ProcessAnsibleVarsFrom c n es h1" for h1 es
    by (induction c n ds h rule: ProcessAnsibleVarsFrom.induct) (auto simp: Let_def split: sum.splits prod.splits option.splits)
  show ?case using Cons by (auto simp: app split: prod.splits option.splits)
qed simp

lemma vars_as_deployed:
  assumes C: "client_names c" and U: "checkAnsibleVarsFromChanged c ns (dep_ConfigMapHashes dep) (dep_SecretHashes dep) = Inr False"
    and d: "d \<in> set (all_vars_from ns)"
  shows "source_as_deployed c (ns_Namespace ns) dep d"
proof -
  obtain cms secs where p: "setNodeSetAnsibleVarsFromHashes c ns ([], []) = ((cms, secs), None)"
    and same: "\<forall>(n, h) \<in> set cms. map_of (dep_ConfigMapHashes dep) n = Some h" "\<forall>(n, h) \<in> set secs. map_of (dep_SecretHashes dep) n = Some h"
    using U by (auto simp: checkAnsibleVarsFromChanged_def list_ex_iff split: prod.splits option.splits)
  have P: "ProcessAnsibleVarsFrom c (ns_Namespace ns) (all_vars_from ns) ([], []) = ((cms, secs), None)"
    using vars_from_hashes_concat [OF p [unfolded setNodeSetAnsibleVarsFromHashes_def]] by (simp add: all_vars_from_def)
  have "recorded c (objs_of c (ns_Namespace ns) d) (cms, secs)" by (rule ProcessAnsibleVarsFrom_records [OF C P d])
  moreover obtain objs where o: "GetDataSourceCmSecret c (ns_Namespace ns) d = Inr objs" using ProcessAnsibleVarsFrom_fold [OF P] d by blast
  ultimately have "recorded c objs (cms, secs)" by (simp add: objs_of_def)
  then have "\<forall>m. fst objs = Some m \<longrightarrow> map_of (dep_ConfigMapHashes dep) (cm_Name m) = Some (fst (dc_hashConfigMap c m))"
    and "\<forall>s. snd objs = Some s \<longrightarrow> map_of (dep_SecretHashes dep) (sec_Name s) = Some (fst (dc_hashSecret c s))"
    using same by (auto simp: recorded_def dest!: map_of_SomeD)
  then show ?thesis
    using o C by (auto simp: source_as_deployed_def GetDataSourceCmSecret_def client_names_def is_optional_def
        split: option.splits sum.splits if_splits)
qed

lemma cert_hashes_records:
  assumes "cert_hashes c ss m = Inr m'" and "distinct (map sec_Name ss)"
  shows "(\<forall>s \<in> set ss. map_of (sec_Labels s) ServiceLabel \<noteq> None \<longrightarrow> map_of m' (sec_Name s) = Some (fst (dc_hashSecret c s)))
    \<and> (\<forall>n. n \<notin> sec_Name ` set ss \<longrightarrow> map_of m' n = map_of m n)"
  using assms
proof (induction c ss m rule: cert_hashes.induct)
  case (2 c s ss m)
  show ?case
  proof (cases "map_of (sec_Labels s) ServiceLabel = None")
    case True
    then show ?thesis using 2 by auto
  next
    case False
    obtain h where h: "dc_hashSecret c s = (h, None)" "cert_hashes c ss (gomap_put (sec_Name s) h m) = Inr m'"
      using 2(3) False by (auto split: prod.splits option.splits)
    have "(\<forall>x \<in> set ss. map_of (sec_Labels x) ServiceLabel \<noteq> None \<longrightarrow> map_of m' (sec_Name x) = Some (fst (dc_hashSecret c x)))
      \<and> (\<forall>n. n \<notin> sec_Name ` set ss \<longrightarrow> map_of m' n = map_of (gomap_put (sec_Name s) h m) n)"
      using 2(2) [OF False h(1) [symmetric] refl h(2)] 2(4) by simp
    then show ?thesis using 2(4) h(1) by (auto simp: map_of_put)
  qed
qed simp

lemma certs_unchanged:
  assumes C: "client_lists c" and n: "ns_Namespace ns \<noteq> []" and U: "checkCertSecretsChanged c ns (dep_SecretHashes dep) = Inr False"
  shows "certs_as_deployed c (ns_Namespace ns) (ns_Name ns) dep"
proof -
  obtain ss m where m: "dc_listSecrets c (ns_Namespace ns) [(NodeSetLabel, ns_Name ns)] = Inr ss" "cert_hashes c ss [] = Inr m"
    and same: "\<forall>(n, h) \<in> set m. map_of (dep_SecretHashes dep) n \<in> {None, Some h}"
    using U by (fastforce simp: checkCertSecretsChanged_def GetCertSecretHashes_def list_ex_iff split: sum.splits option.splits)
  have "distinct (map sec_Name ss)" using C n m(1) by (simp add: client_lists_def)
  then have "map_of m (sec_Name s) = Some (fst (dc_hashSecret c s))" if "s \<in> set ss" "map_of (sec_Labels s) ServiceLabel \<noteq> None" for s
    using cert_hashes_records [OF m(2)] that by blast
  then have "map_of (dep_SecretHashes dep) (sec_Name s) \<in> {None, Some (fst (dc_hashSecret c s))}"
    if "s \<in> set ss" "map_of (sec_Labels s) ServiceLabel \<noteq> None" for s
    using same that by (blast dest: map_of_SomeD)
  then show ?thesis using m(1) unfolding certs_as_deployed_def by blast
qed

text \<open>C18: a node set is ready only because of its latest deployment.  When \<open>Reconcile\<close> writes the condition
  DeploymentReady as true, the latest deployment that names the node set, and is not being deleted, has
  completed on it (its condition for the node set is true).  The hash of the configuration it deployed is the one
  recorded in the status, now also as the deployed one, and so is the hash of the hosts unless they are
  pre-provisioned; the recorded hash is the one \<open>h\<close> of the spec, except that the code leaves the record alone
  when \<open>h\<close> was the deployed hash already.  Every ConfigMap and Secret that the variables of the template or of a
  node name has the content whose hash the deployment recorded, or is optional and does not exist; every
  certificate of the node set that the deployment recorded still has the recorded hash.  The ConfigMaps and
  Secrets that services name as data sources are not compared.\<close>

theorem nodeset_ready_means_deployed:
  assumes H: "nsctl_hyps L env" and C: "client_lists (ne_client env)" and g: "ne_get env = Inr ns" and d: "ne_deployments env = Inr deps"
    and spec: "\<And>x. ne_specHash env x = Inr h"
    and R: "ns_Reconcile L env = Some (Some ns', res, err)" and t: "lc_IsTrue L (ns_Conditions ns') DeploymentReadyCondition"
    and n: "ns_Namespace ns \<noteq> []"
  shows "\<exists>xs dep. ordered_deployments env deps (ns_Name ns') = xs @ [dep] \<and> dep \<in> set deps \<and> \<not> dep_Deleting dep
    \<and> ns_Name ns' \<in> set (dep_NodeSets dep)
    \<and> lc_IsTrue L (gomap_get [] (dep_NodeSetConditions dep) (ns_Name ns')) NodeSetDeploymentReadyCondition
    \<and> gomap_get [] (dep_NodeSetHashes dep) (ns_Name ns') = ns_ConfigHash ns'
    \<and> (ns_PreProvisioned ns' \<or> gomap_get [] (dep_BmhRefHashes dep) (ns_Name ns') = ns_BmhRefHash ns')
    \<and> ns_DeployedConfigHash ns' = ns_ConfigHash ns'
    \<and> ns_ConfigHash ns' = (if h = ns_DeployedConfigHash ns then ns_ConfigHash ns else h)
    \<and> (\<forall>s \<in> set (ns_TemplateVarsFrom ns'). source_as_deployed (ne_client env) (ns_Namespace ns') dep s)
    \<and> (\<forall>(host, node) \<in> set (ns_Nodes ns'). \<forall>s \<in> set (nd_AnsibleVarsFrom node). source_as_deployed (ne_client env) (ns_Namespace ns') dep s)
    \<and> certs_as_deployed (ne_client env) (ns_Namespace ns') (ns_Name ns') dep"
proof -
  obtain xs dep where dep: "ordered_deployments env deps (ns_Name ns') = xs @ [dep]" "dep \<in> set deps" "\<not> dep_Deleting dep"
    "ns_Name ns' \<in> set (dep_NodeSets dep)" "up_to_date L env dep ns'" "ns_DeployedConfigHash ns' = ns_ConfigHash ns'"
    using ready_deployment [OF H g d R t] by blast
  have "\<forall>s \<in> set (all_vars_from ns'). source_as_deployed (ne_client env) (ns_Namespace ns') dep s"
    using vars_as_deployed C dep(5) by (auto simp: client_lists_def up_to_date_def)
  moreover have "certs_as_deployed (ne_client env) (ns_Namespace ns') (ns_Name ns') dep"
    using certs_unchanged [OF C, of ns'] n Reconcile_hash [OF H g R spec] dep(5) by (simp add: up_to_date_def)
  ultimately show ?thesis
    using dep Reconcile_hash [OF H g R spec] by (intro exI [of _ xs] exI [of _ dep]) (auto simp: up_to_date_def is_current_def all_vars_from_def)
qed

text \<open>The version of a node set advances only with a deployment of an update.  \<open>Reconcile\<close> changes
  DeployedVersion only to the version of a deployment of this node set, not being deleted, that has completed
  on it with its current configuration and whose services include one of type \<open>update\<close> or \<open>update-services\<close>.\<close>

theorem nodeset_version_from_update:
  assumes H: "nsctl_hyps L env" and g: "ne_get env = Inr ns" and d: "ne_deployments env = Inr deps"
    and R: "ns_Reconcile L env = Some (Some ns', res, err)" and v: "ns_DeployedVersion ns' \<noteq> ns_DeployedVersion ns"
  shows "\<exists>dep \<in> set deps. ns_DeployedVersion ns' = dep_DeployedVersion dep \<and> \<not> dep_Deleting dep \<and> ns_Name ns' \<in> set (dep_NodeSets dep)
    \<and> lc_IsTrue L (gomap_get [] (dep_NodeSetConditions dep) (ns_Name ns')) NodeSetDeploymentReadyCondition \<and> is_current dep ns'
    \<and> (\<exists>n \<in> set (deployment_services dep ns'). \<exists>s. dc_getService (ne_client env) n = Inr s \<and> is_update_service s)"
proof -
  have L: "condlib_laws L" using H by (simp add: nsctl_hyps_def)
  have st: "ns_DeployedVersion (nr_NodeSet r) = ns_DeployedVersion ns" if "ns_frame L r = ns_frame L (ns_start L env ns)" for r
    using that by (simp add: ns_start_frame [OF L]) (simp add: ns_frame_def ns_state_def)
  show ?thesis
  proof (cases rule: Reconcile_cases [OF H g R])
    case early: (1 r)
    then show ?thesis using v st [OF early(2)] ns_set_ready_frame(2) [OF L, of "nr_NodeSet r"] by (simp add: ns_state_def)
  next
    case checked: (2 r c e r')
    define n where "n = nr_NodeSet r"
    define updates where "updates = (\<lambda>dep. \<not> dep_Deleting dep \<and> ns_Name n \<in> set (dep_NodeSets dep)
        \<and> lc_IsTrue L (gomap_get [] (dep_NodeSetConditions dep) (ns_Name n)) NodeSetDeploymentReadyCondition \<and> is_current dep n
        \<and> (\<exists>k \<in> set (deployment_services dep n). \<exists>s. dc_getService (ne_client env) k = Inr s \<and> is_update_service s))"
    define good where "good = (\<lambda>x. ns_key x = ns_key n \<and> (ns_DeployedVersion x = ns_DeployedVersion n \<or>
      (\<exists>dep \<in> set deps. ns_DeployedVersion x = dep_DeployedVersion dep \<and> updates dep)))"
    have cv: "ns_DeployedVersion (fst (copy_version cl dep ss x)) = ns_DeployedVersion x \<or>
        ns_DeployedVersion (fst (copy_version cl dep ss x)) = dep_DeployedVersion dep \<and> (\<exists>k \<in> set ss. \<exists>s. dc_getService cl k = Inr s \<and> is_update_service s)"
      for cl dep ss x
      by (induction cl dep ss x rule: copy_version.induct) (auto split: sum.splits)
    have "good (ck_NodeSet c)"
    proof (rule checkDeployment_invariant [OF checked(3)])
      fix dep c1 c2 latest deps'
      assume a: "ne_deployments env = Inr deps'" "dep \<in> set (ordered_deployments env deps' (ns_Name (nr_NodeSet r)))" "good (ck_NodeSet c1)"
        "step_value (check_one L env latest dep c1) = Some c2"
      have key: "ns_key (record_statuses dep (ck_NodeSet c1)) = ns_key n" "ns_key (ck_NodeSet c1) = ns_key n" using a(3) by (simp_all add: good_def)
      have dep: "dep \<in> set deps" "\<not> dep_Deleting dep" "ns_Name n \<in> set (dep_NodeSets dep)"
        using a(1,2) d ordered_deployments_facts(1) [OF H d, of "ns_Name n"] by (auto simp: n_def relevant_deployments_def)
      have same: "ns_DeployedVersion (record_statuses dep x) = ns_DeployedVersion x" "ns_DeployedVersion (record_deployed dep x) = ns_DeployedVersion x" for x
        by (simp_all add: record_statuses_def record_deployed_def Let_def)
      have k2: "ns_key (ck_NodeSet c2) = ns_key n" using check_one_conditions(2) [OF a(4)] key by simp
      from check_one_nodeset [OF a(4)] show "good (ck_NodeSet c2)"
      proof (elim disjE conjE)
        assume "ck_NodeSet c2 = record_statuses dep (ck_NodeSet c1)"
        then show ?thesis using a(3) k2 same(1) by (simp add: good_def)
      next
        assume b: "lc_IsTrue L (gomap_get [] (dep_NodeSetConditions dep) (ns_Name (ck_NodeSet c1))) NodeSetDeploymentReadyCondition"
          "is_current dep (record_statuses dep (ck_NodeSet c1))"
          "ck_NodeSet c2 = fst (copy_version (ne_client env) dep (deployment_services dep (record_statuses dep (ck_NodeSet c1)))
            (record_deployed dep (record_statuses dep (ck_NodeSet c1))))"
        have cur: "is_current dep n" "deployment_services dep (record_statuses dep (ck_NodeSet c1)) = deployment_services dep n"
          using b(2) ns_key_cong(2,5) [OF key(1)] by simp_all
        have "lc_IsTrue L (gomap_get [] (dep_NodeSetConditions dep) (ns_Name n)) NodeSetDeploymentReadyCondition"
          using b(1) ns_key_cong(1) [OF key(2)] by simp
        then have "ns_DeployedVersion (ck_NodeSet c2) = ns_DeployedVersion (ck_NodeSet c1)
            \<or> ns_DeployedVersion (ck_NodeSet c2) = dep_DeployedVersion dep \<and> updates dep"
          using cv [of "ne_client env" dep "deployment_services dep n" "record_deployed dep (record_statuses dep (ck_NodeSet c1))"]
            dep(2,3) cur b(3) same by (simp add: updates_def)
        then show ?thesis using a(3) k2 dep(1) unfolding good_def by metis
      qed
    next
      show "good (nr_NodeSet r)" by (simp add: good_def n_def)
    qed
    moreover have key: "ns_key ns' = ns_key n" "ns_DeployedVersion ns' = ns_DeployedVersion (ck_NodeSet c)"
      using after_check_effect(1,2) [OF L checked(5)] checkDeployment_frame(2) [OF checked(3)] checked(6) ns_set_ready_frame(1,2) [OF L, of "nr_NodeSet r'"]
      by (simp_all add: n_def ns_state_def)
    ultimately show ?thesis
      using v st [OF checked(2)] ns_key_cong(1,2,5) [OF key(1)] unfolding good_def updates_def n_def by auto
  qed
qed

text \<open>Reverting a change of a node set leaves it unready.  When the hash of the spec is the deployed one again
  but the recorded hash is still that of the change that was reverted, \<open>Reconcile\<close> does not update the recorded
  hash, and since no deployment has it, DeploymentReady does not become true.  The stale hash is kept, so
  reconciling again does not help either.\<close>

theorem reverted_spec_not_ready:
  assumes H: "nsctl_hyps L env" and g: "ne_get env = Inr ns" and d: "ne_deployments env = Inr deps"
    and reverted: "\<And>x. ne_specHash env x = Inr (ns_DeployedConfigHash ns)" and stale: "ns_ConfigHash ns \<noteq> ns_DeployedConfigHash ns"
    and deployed: "\<forall>dep \<in> set deps. gomap_get [] (dep_NodeSetHashes dep) (ns_Name ns) = ns_DeployedConfigHash ns"
    and R: "ns_Reconcile L env = Some (Some ns', res, err)"
  shows "\<not> lc_IsTrue L (ns_Conditions ns') DeploymentReadyCondition \<and> ns_ConfigHash ns' = ns_ConfigHash ns"
proof -
  have L: "condlib_laws L" using H by (simp add: nsctl_hyps_def)
  have start: "ns_ConfigHash (nr_NodeSet (ns_start L env ns)) = ns_ConfigHash ns" "ns_Name (nr_NodeSet (ns_start L env ns)) = ns_Name ns"
    "ns_DeployedConfigHash (nr_NodeSet (ns_start L env ns)) = ns_DeployedConfigHash ns"
    by (simp_all add: ns_start_def ns_InitConditions_def Let_def)
  have name: "ns_Name (nr_NodeSet r) = ns_Name ns" if "ns_frame L r = ns_frame L (ns_start L env ns)" for r
    using that start(2) by (simp add: ns_frame_def ns_state_def)
  have hash: "ns_ConfigHash (nr_NodeSet r) = ns_ConfigHash ns" if "step_value (run_stages (setup_stages L env) (ns_start L env ns)) = Some r" for r
    using setup_hash [OF L that] reverted start by simp
  have "ns_ConfigHash ns' = ns_ConfigHash ns \<and> ns_Name ns' = ns_Name ns"
  proof (cases rule: Reconcile_cases [OF H g R])
    case (1 r)
    then show ?thesis using hash [of r] name [of r] ns_set_ready_frame(1) [OF L, of "nr_NodeSet r"] by (simp add: ns_key_def)
  next
    case (2 r c e r')
    have "ns_key ns' = ns_key (nr_NodeSet r)"
      using after_check_effect(1) [OF L 2(5)] checkDeployment_frame(2) [OF 2(3)] ns_set_ready_frame(1) [OF L] 2(6) by simp
    then show ?thesis using hash [of r] name [OF 2(2)] 2(1) by (simp add: ns_key_def)
  qed
  then show ?thesis
    using ready_deployment [OF H g d R] stale deployed by (auto simp: up_to_date_def is_current_def)
qed

subsection \<open>Watches\<close>

text \<open>The clients differ at most in the object.\<close>

definition same_but :: "watched \<Rightarrow> dp_client \<Rightarrow> dp_client \<Rightarrow> bool" where
  "same_but obj c c' \<longleftrightarrow> dc_hashConfigMap c' = dc_hashConfigMap c \<and> dc_hashSecret c' = dc_hashSecret c
     \<and> (\<forall>n k. dc_getConfigMap c' n k \<noteq> dc_getConfigMap c n k \<longrightarrow> wo_Kind obj = ''ConfigMap'' \<and> n = wo_Namespace obj \<and> k = wo_Name obj)
     \<and> (\<forall>n k. dc_getSecret c' n k \<noteq> dc_getSecret c n k \<longrightarrow> wo_Kind obj = ''Secret'' \<and> n = wo_Namespace obj \<and> k = wo_Name obj)"

lemma vars_from_same:
  assumes "same_but obj c c'" and "\<forall>d \<in> set ds. GetDataSourceCmSecret c' n d = GetDataSourceCmSecret c n d"
  shows "ProcessAnsibleVarsFrom c' n ds h = ProcessAnsibleVarsFrom c n ds h"
proof -
  have "dc_hashConfigMap c' = dc_hashConfigMap c" "dc_hashSecret c' = dc_hashSecret c" using assms(1) by (simp_all add: same_but_def)
  then have "store_hashes c' = store_hashes c" by (intro ext) (auto simp: store_hashes_def split: option.split)
  then show ?thesis using assms(2) \<open>dc_hashConfigMap c' = _\<close> \<open>dc_hashSecret c' = _\<close>
  proof (induction c n ds h rule: ProcessAnsibleVarsFrom.induct)
    case (2 c n d ds h)
    then show ?case by (simp add: Let_def split: sum.split prod.split option.split)
  qed simp
qed

lemma vars_from_hashes_same:
  assumes "same_but obj c c'" and "\<forall>d \<in> set (concat dss). GetDataSourceCmSecret c' n d = GetDataSourceCmSecret c n d"
  shows "vars_from_hashes c' n dss h = vars_from_hashes c n dss h"
  using assms(2)
proof (induction dss arbitrary: h)
  case (Cons ds dss)
  have "ProcessAnsibleVarsFrom c' n ds h = ProcessAnsibleVarsFrom c n ds h" using vars_from_same [OF assms(1)] Cons.prems by simp
  then show ?case using Cons by (simp split: prod.split option.split)
qed simp

lemma check_same:
  assumes "same_but obj c c'" and "\<forall>d \<in> set (all_vars_from ns). GetDataSourceCmSecret c' (ns_Namespace ns) d = GetDataSourceCmSecret c (ns_Namespace ns) d"
  shows "checkAnsibleVarsFromChanged c' ns x y = checkAnsibleVarsFromChanged c ns x y"
  using vars_from_hashes_same [OF assms(1), of "ns_TemplateVarsFrom ns # map (\<lambda>(_, node). nd_AnsibleVarsFrom node) (ns_Nodes ns)"] assms(2)
  by (simp add: checkAnsibleVarsFromChanged_def setNodeSetAnsibleVarsFromHashes_def all_vars_from_def)

lemma vars_source_indexed:
  assumes s: "same_but obj c c'" and d: "d \<in> set (all_vars_from ns)"
    and ne: "GetDataSourceCmSecret c' (ns_Namespace ns) d \<noteq> GetDataSourceCmSecret c (ns_Namespace ns) d"
  shows "ns_Namespace ns = wo_Namespace obj" and "wo_Kind obj = ''ConfigMap'' \<and> wo_Name obj \<in> set (index_configMaps ns)
    \<or> wo_Kind obj = ''Secret'' \<and> wo_Name obj \<in> set (index_secrets ns)"
proof -
  have "(\<exists>r. ds_ConfigMapRef d = Some r \<and> dc_getConfigMap c' (ns_Namespace ns) (es_Name r) \<noteq> dc_getConfigMap c (ns_Namespace ns) (es_Name r))
      \<or> (\<exists>r. ds_SecretRef d = Some r \<and> dc_getSecret c' (ns_Namespace ns) (es_Name r) \<noteq> dc_getSecret c (ns_Namespace ns) (es_Name r))"
    using ne by (auto simp: GetDataSourceCmSecret_def split: option.splits)
  then consider (cm) r where "ds_ConfigMapRef d = Some r" "wo_Kind obj = ''ConfigMap''" "ns_Namespace ns = wo_Namespace obj" "es_Name r = wo_Name obj"
    | (sec) r where "ds_SecretRef d = Some r" "wo_Kind obj = ''Secret''" "ns_Namespace ns = wo_Namespace obj" "es_Name r = wo_Name obj"
    using s unfolding same_but_def by blast
  then have "ns_Namespace ns = wo_Namespace obj \<and> (wo_Kind obj = ''ConfigMap'' \<and> wo_Name obj \<in> set (index_configMaps ns)
    \<or> wo_Kind obj = ''Secret'' \<and> wo_Name obj \<in> set (index_secrets ns))"
  proof cases
    case cm
    then show ?thesis using d by (force simp: index_configMaps_def List.map_filter_def)
  next
    case sec
    then show ?thesis using d by (force simp: index_secrets_def List.map_filter_def)
  qed
  then show "ns_Namespace ns = wo_Namespace obj" and "wo_Kind obj = ''ConfigMap'' \<and> wo_Name obj \<in> set (index_configMaps ns)
    \<or> wo_Kind obj = ''Secret'' \<and> wo_Name obj \<in> set (index_secrets ns)" by simp_all
qed

text \<open>C20: a change of a ConfigMap or Secret that matters is noticed.  When a change of one such object changes
  what \<open>checkAnsibleVarsFromChanged\<close> says of a node set, \<open>secretWatcherFn\<close> asks to reconcile this node set,
  unless the object carries the labels of a certificate.\<close>

theorem vars_change_is_noticed:
  assumes "same_but obj c c'" and "checkAnsibleVarsFromChanged c' ns x y \<noteq> checkAnsibleVarsFromChanged c ns x y"
    and "ns \<in> set items" and "map_of (wo_Labels obj) NodeSetLabel = None"
  shows "(ns_Namespace ns, ns_Name ns) \<in> set (secretWatcherFn (Inr items) obj)"
proof -
  obtain d where "d \<in> set (all_vars_from ns)" "GetDataSourceCmSecret c' (ns_Namespace ns) d \<noteq> GetDataSourceCmSecret c (ns_Namespace ns) d"
    using check_same [OF assms(1)] assms(2) by blast
  note I = vars_source_indexed [OF assms(1) this]
  have k: "map to_lower ''Secret'' = ''secret''" "map to_lower ''ConfigMap'' \<noteq> ''secret''" by code_simp+
  show ?thesis
    using I assms(3,4) k by (auto simp: secretWatcherFn_def requests_def in_namespace_def Let_def)
qed

text \<open>No node set is reconciled when the registries of the cluster change.  A MachineConfig has no namespace,
  and \<open>machineConfigWatcherFn\<close> uses its namespace for the requests, so they name no node set that exists, though
  its comment says that each node set is queued.\<close>

theorem machine_config_is_missed:
  "wo_Namespace obj = [] \<Longrightarrow> ns_Namespace ns \<noteq> [] \<Longrightarrow> (ns_Namespace ns, ns_Name ns) \<notin> set (machineConfigWatcherFn listing obj)"
  by (auto simp: machineConfigWatcherFn_def requests_def split: sum.splits)

subsection \<open>Examples\<close>

definition is_error :: "condition option \<Rightarrow> bool" where
  "is_error c = (case c of None \<Rightarrow> False | Some x \<Rightarrow> c_status x = CFalse \<and> c_severity x = SeverityError)"

definition update_deployment :: dp_deployment where
  "update_deployment = sample_deployment\<lparr>dep_ServicesOverride := [''update''], dep_DeployedVersion := ''0.0.2'',
     dep_NodeSetHashes := [(''edpm'', ''h1'')],
     dep_NodeSetConditions := [(''edpm'', [lst_True NodeSetDeploymentReadyCondition []])]\<rparr>"

definition update_client :: dp_client where
  "update_client = sample_client\<lparr>dc_getService := (\<lambda>n. Inr (sample_service n False))\<rparr>"

definition sample_nsctl :: "dp_nodeset \<Rightarrow> nsctl_env" where
  "sample_nsctl ns = \<lparr>ne_get = Inr ns, ne_specHash = (\<lambda>_. Inr ''h1''), ne_services = sample_ensure_env, ne_ipam = sample_ipam\<lparr>ia_listDNSMasq := Inr [\<lparr>dm_Ready = True, dm_ClusterAddresses = Some [], dm_Addresses = [''192.168.122.80''], dm_LabelSelectorValue = []\<rparr>]\<rparr>,
     ne_verifySecret = (\<lambda>_ _. (Done, None)), ne_serviceAccount = (Done, None), ne_roleBinding = (Done, None), ne_versions = Inr [],
     ne_defaultImages = empty_images, ne_baremetal = \<lparr>bm_before = empty_bm, bm_patch = (\<lambda>_. Inr True), bm_statusHash = Inr []\<rparr>,
     ne_inventory = sample_inv\<lparr>iv_registry := sample_registry\<lparr>re_idms := Inr [], re_icsp := Inr []\<rparr>\<rparr>, ne_client = update_client, ne_deployments = Inr [update_deployment], ne_sort = (\<lambda>xs. xs),
     ne_isError = is_error, ne_message = (\<lambda>n a. n @ a), ne_patch = None\<rparr>"


lemma sample_nsctl_hyps: "nsctl_hyps list_condlib (sample_nsctl ns)"
  by (auto simp: nsctl_hyps_def sample_nsctl_def is_error_def split: option.splits)

definition sample_setup :: "dp_nodeset \<Rightarrow> ns_run step" where
  "sample_setup ns = run_stages [hash_stage list_condlib (sample_nsctl ns), services_stage list_condlib (sample_nsctl ns), ipam_stage list_condlib (sample_nsctl ns),
     dns_stage list_condlib (sample_nsctl ns), input_stage list_condlib (sample_nsctl ns), account_stage list_condlib (sample_nsctl ns) (Done, None),
     account_stage list_condlib (sample_nsctl ns) (Done, None)] (ns_start list_condlib (sample_nsctl ns) ns)"

definition sample_checked :: "dp_nodeset \<Rightarrow> ns_run \<Rightarrow> dep_check step" where
  "sample_checked ns r = checkDeployment list_condlib (sample_nsctl ns)
     (ns_mark (\<lambda>cs. lc_MarkTrue list_condlib cs ServiceAccountReadyCondition ''ServiceAccountReadyMessage'') (nr_NodeSet r))"

text \<open>The run reaches \<open>checkDeployment\<close>, which answers \<open>ready\<close> and leaves the version \<open>v\<close>.\<close>

definition sample_reaches :: "dp_nodeset \<Rightarrow> bool \<Rightarrow> string \<Rightarrow> bool" where
  "sample_reaches ns ready v =
     (case sample_setup ns of
        Next r \<Rightarrow> ns_PreProvisioned (nr_NodeSet r) \<and> nr_Result r = Done \<and>
          (case sample_checked ns r of
             Next c \<Rightarrow> ck_Ready c = ready \<and> \<not> ck_Running c \<and> \<not> ck_Failed c \<and> ns_DeployedVersion (ck_NodeSet c) = v
               \<and> ns_TemplateVars (ck_NodeSet c) = [] \<and> ns_TemplateVarsFrom (ck_NodeSet c) = []
               \<and> \<not> isl (all_hosts (host_vars (ne_inventory (sample_nsctl ns)) (ns_Namespace (ck_NodeSet c)) (nr_IPSets r) (dd_ServerAddresses (nr_DNS r))
                    (nr_NetMap r)) (map snd (ns_Nodes (ck_NodeSet c))))
           | _ \<Rightarrow> False)
      | _ \<Rightarrow> False)"

definition reverted_nodeset :: dp_nodeset where
  "reverted_nodeset = template_nodeset\<lparr>ns_ConfigHash := ''h2'', ns_DeployedConfigHash := ''h1''\<rparr>"

lemma sample_reaches_facts: "sample_reaches template_nodeset True ''0.0.2''" "sample_reaches reverted_nodeset False []"
  by code_simp+

lemma sample_group_vars:
  assumes "ns_TemplateVars ns1 = []" and "ns_TemplateVarsFrom ns1 = []"
  shows "\<exists>gv. group_vars (ne_inventory (sample_nsctl ns)) ns1 images m = Some (Inr gv)"
proof -
  have "HasMirrorRegistries (iv_registry (ne_inventory (sample_nsctl ns))) = Inr False" by code_simp
  then show ?thesis using assms by (simp add: group_vars_def resolveGroupAnsibleVars_def registry_vars_def Let_def)
qed

lemma sample_stages:
  "run_stages (ns_stages list_condlib (sample_nsctl ns)) (ns_start list_condlib (sample_nsctl ns) ns) =
   step_bind (sample_setup ns) (run_stages [baremetal_stage list_condlib (sample_nsctl ns), deployment_stage list_condlib (sample_nsctl ns)])"
proof -
  have "ne_serviceAccount (sample_nsctl ns) = (Done, None)" "ne_roleBinding (sample_nsctl ns) = (Done, None)" by (simp_all add: sample_nsctl_def)
  then have "ns_stages list_condlib (sample_nsctl ns) = [hash_stage list_condlib (sample_nsctl ns), services_stage list_condlib (sample_nsctl ns),
      ipam_stage list_condlib (sample_nsctl ns), dns_stage list_condlib (sample_nsctl ns), input_stage list_condlib (sample_nsctl ns),
      account_stage list_condlib (sample_nsctl ns) (Done, None), account_stage list_condlib (sample_nsctl ns) (Done, None)]
    @ [baremetal_stage list_condlib (sample_nsctl ns), deployment_stage list_condlib (sample_nsctl ns)]" by (simp add: ns_stages_def)
  then show ?thesis by (simp only: run_stages_append sample_setup_def)
qed

lemma sample_ns_run:
  assumes "sample_reaches ns ready v"
  obtains ns' where "ns_Reconcile list_condlib (sample_nsctl ns) = Some (Some ns', Done, None)"
    and "ready \<Longrightarrow> lc_IsTrue list_condlib (ns_Conditions ns') DeploymentReadyCondition" and "ns_DeployedVersion ns' = v"
proof -
  note L = list_condlib_laws
  obtain r c where r: "sample_setup ns = Next r" "ns_PreProvisioned (nr_NodeSet r)" "nr_Result r = Done" and c: "sample_checked ns r = Next c"
    "ck_Ready c = ready" "\<not> ck_Running c" "\<not> ck_Failed c" "ns_DeployedVersion (ck_NodeSet c) = v"
    "ns_TemplateVars (ck_NodeSet c) = []" "ns_TemplateVarsFrom (ck_NodeSet c) = []"
    "\<not> isl (all_hosts (host_vars (ne_inventory (sample_nsctl ns)) (ns_Namespace (ck_NodeSet c)) (nr_IPSets r) (dd_ServerAddresses (nr_DNS r)) (nr_NetMap r))
       (map snd (ns_Nodes (ck_NodeSet c))))"
    using assms by (auto simp: sample_reaches_def split: step.splits)
  define images where "images = dp_GetContainerImages empty_images None"
  define r1 where "r1 = (upd_ns (ns_mark (\<lambda>cs. lc_MarkTrue list_condlib cs ServiceAccountReadyCondition ''ServiceAccountReadyMessage'')) r)\<lparr>nr_Images := images\<rparr>"
  have b: "baremetal_stage list_condlib (sample_nsctl ns) r = Next r1"
    using r(2) by (simp add: baremetal_stage_def Let_def r1_def images_def sample_nsctl_def GetVersion_def)
  obtain hosts where h: "all_hosts (host_vars (ne_inventory (sample_nsctl ns)) (ns_Namespace (ck_NodeSet c)) (nr_IPSets r) (dd_ServerAddresses (nr_DNS r)) (nr_NetMap r))
       (map snd (ns_Nodes (ck_NodeSet c))) = Inr hosts"
    using c(8) by (auto simp: isl_def) (metis sum.exhaust)
  obtain gv where gv: "group_vars (ne_inventory (sample_nsctl ns)) (ck_NodeSet c) images (nr_NetMap r) = Some (Inr gv)"
    using sample_group_vars [OF c(6,7)] by blast
  have io: "iv_marshal (ne_inventory (sample_nsctl ns)) n g x = Inr []" "iv_ensureSecret (ne_inventory (sample_nsctl ns)) n l x' = None" for n g x l x'
    by (simp_all add: sample_nsctl_def sample_inv_def)
  define ns1 where "ns1 = (ck_NodeSet c)\<lparr>ns_InventorySecretName := ''dataplanenodeset-'' @ ns_Name (ck_NodeSet c)\<rparr>"
  have "GenerateNodeSetInventory (ne_inventory (sample_nsctl ns)) (nr_IPSets r) (dd_ServerAddresses (nr_DNS r)) images (nr_NetMap r) (ck_NodeSet c) = Some (ns1, None)"
    by (simp add: GenerateNodeSetInventory_def gv h io ns1_def Let_def)
  then have a: "after_check list_condlib (sample_nsctl ns) c None r1
      = Return None (r1\<lparr>nr_NodeSet := deployment_conditions list_condlib (sample_nsctl ns) c None ns1\<rparr>)"
    using c(3) by (simp add: after_check_def Let_def r1_def)
  define ns2 where "ns2 = ns_set_ready list_condlib (deployment_conditions list_condlib (sample_nsctl ns) c None ns1)"
  have "checkDeployment list_condlib (sample_nsctl ns) (nr_NodeSet r1) = Next c" using c(1) by (simp add: sample_checked_def r1_def)
  then have "run_stages (ns_stages list_condlib (sample_nsctl ns)) (ns_start list_condlib (sample_nsctl ns) ns)
      = Return None (r1\<lparr>nr_NodeSet := deployment_conditions list_condlib (sample_nsctl ns) c None ns1\<rparr>)"
    unfolding sample_stages r(1) using a b by (simp add: deployment_stage_def)
  then have "ns_Reconcile list_condlib (sample_nsctl ns) = Some (Some ns2, Done, None)"
    using r(3) by (simp add: ns_Reconcile_def sample_nsctl_def ns2_def r1_def)
  moreover have "ready \<Longrightarrow> lc_IsTrue list_condlib (ns_Conditions ns2) DeploymentReadyCondition"
    using L ns_set_ready_frame(3) [OF L] c(2) by (simp add: condlib_IsTrue ns2_def deployment_conditions_def Let_def)
  moreover have "ns_DeployedVersion ns2 = v"
    using ns_set_ready_frame(2) [OF L] deployment_conditions_frame(2) c(5) by (simp add: ns2_def ns_state_def ns1_def)
  ultimately show thesis by (rule that)
qed

lemma sample_deps: "ne_get (sample_nsctl ns) = Inr ns" "ne_deployments (sample_nsctl ns) = Inr [update_deployment]"
    "ordered_deployments (sample_nsctl ns) [update_deployment] ''edpm'' = [update_deployment]"
  by (simp_all add: sample_nsctl_def relevant_deployments_def update_deployment_def sample_deployment_def)

theorem checkDeployment_latest_witness:
  "\<exists>c. checkDeployment list_condlib (sample_nsctl template_nodeset) (template_nodeset\<lparr>ns_ConfigHash := ''h1''\<rparr>) = Next c \<and> ck_Ready c \<and> \<not> ck_Running c \<and> \<not> ck_Failed c"
proof -
  let ?ns = "template_nodeset\<lparr>ns_ConfigHash := ''h1''\<rparr>"
  have "case checkDeployment list_condlib (sample_nsctl template_nodeset) ?ns of Next c \<Rightarrow> ck_Ready c | _ \<Rightarrow> False" by code_simp
  then obtain c where c: "checkDeployment list_condlib (sample_nsctl template_nodeset) ?ns = Next c" "ck_Ready c" by (auto split: step.splits)
  have "ns_Name ?ns = ''edpm''" by (simp add: template_nodeset_def sample_nodeset_def)
  then show ?thesis
    using checkDeployment_latest [OF sample_nsctl_hyps sample_deps(2), where ns = ?ns and xs = "[]" and dep = update_deployment and c = c]
      c sample_deps(3) by (metis append_Nil step_value.simps(1))
qed

lemma update_client_lists: "client_lists update_client"
  by (simp add: client_lists_def client_names_def update_client_def sample_client_def)

theorem nodeset_ready_means_deployed_witness:
  "\<exists>ns' res err. ns_Reconcile list_condlib (sample_nsctl template_nodeset) = Some (Some ns', res, err)
     \<and> gomap_get [] (dep_NodeSetHashes update_deployment) (ns_Name ns') = ns_ConfigHash ns' \<and> ns_ConfigHash ns' = ''h1''
     \<and> certs_as_deployed update_client (ns_Namespace ns') (ns_Name ns') update_deployment"
proof -
  let ?env = "sample_nsctl template_nodeset"
  obtain ns' where r: "ns_Reconcile list_condlib ?env = Some (Some ns', Done, None)"
    "lc_IsTrue list_condlib (ns_Conditions ns') DeploymentReadyCondition" by (rule sample_ns_run [OF sample_reaches_facts(1)]) simp
  have c: "client_lists (ne_client ?env)" "ne_client ?env = update_client" using update_client_lists by (simp_all add: sample_nsctl_def)
  have h: "ne_specHash ?env x = Inr ''h1''" for x by (simp add: sample_nsctl_def)
  have n: "ns_Namespace template_nodeset \<noteq> []" by (simp add: template_nodeset_def sample_nodeset_def)
  show ?thesis
    using nodeset_ready_means_deployed [OF sample_nsctl_hyps c(1) sample_deps(1,2) h r n] r(1) c(2)
    by (auto simp: template_nodeset_def sample_nodeset_def)
qed

theorem nodeset_version_from_update_witness:
  "\<exists>ns' res err. ns_Reconcile list_condlib (sample_nsctl template_nodeset) = Some (Some ns', res, err) \<and> ns_DeployedVersion ns' = ''0.0.2''
     \<and> is_current update_deployment ns'"
proof -
  obtain ns' where r: "ns_Reconcile list_condlib (sample_nsctl template_nodeset) = Some (Some ns', Done, None)" "ns_DeployedVersion ns' = ''0.0.2''"
    by (rule sample_ns_run [OF sample_reaches_facts(1)]) simp
  have "ns_DeployedVersion ns' \<noteq> ns_DeployedVersion template_nodeset" using r(2) by (simp add: template_nodeset_def sample_nodeset_def)
  from nodeset_version_from_update [OF sample_nsctl_hyps sample_deps(1,2) r(1) this] r show ?thesis by auto
qed

theorem reverted_spec_not_ready_witness:
  "\<exists>ns' res err. ns_Reconcile list_condlib (sample_nsctl reverted_nodeset) = Some (Some ns', res, err)
     \<and> \<not> lc_IsTrue list_condlib (ns_Conditions ns') DeploymentReadyCondition \<and> ns_ConfigHash ns' = ''h2''"
proof -
  obtain ns' where r: "ns_Reconcile list_condlib (sample_nsctl reverted_nodeset) = Some (Some ns', Done, None)"
    by (rule sample_ns_run [OF sample_reaches_facts(2)])
  have "ns_ConfigHash reverted_nodeset = ''h2''" "ns_DeployedConfigHash reverted_nodeset = ''h1''" "ns_Name reverted_nodeset = ''edpm''"
    "gomap_get [] (dep_NodeSetHashes update_deployment) ''edpm'' = ''h1''" "ne_specHash (sample_nsctl reverted_nodeset) x = Inr ''h1''" for x
    by (simp_all add: reverted_nodeset_def template_nodeset_def sample_nodeset_def update_deployment_def gomap_get_def sample_nsctl_def)
  then show ?thesis using reverted_spec_not_ready [OF sample_nsctl_hyps sample_deps(1,2) _ _ _ r] r by simp
qed

theorem vars_change_is_noticed_witness:
  "(''openstack'', ''edpm'') \<in> set (secretWatcherFn (Inr [template_nodeset\<lparr>ns_TemplateVarsFrom := [cm_source ''vars'' None]\<rparr>])
     \<lparr>wo_Kind = ''ConfigMap'', wo_Name = ''vars'', wo_Namespace = ''openstack'', wo_Labels = []\<rparr>)"
proof -
  let ?ns = "template_nodeset\<lparr>ns_TemplateVarsFrom := [cm_source ''vars'' None]\<rparr>"
    and ?obj = "\<lparr>wo_Kind = ''ConfigMap'', wo_Name = ''vars'', wo_Namespace = ''openstack'', wo_Labels = []\<rparr>"
    and ?c' = "sample_client\<lparr>dc_getConfigMap := (\<lambda>n k. if n = ''openstack'' \<and> k = ''vars'' then Inl (NotFound k) else dc_getConfigMap sample_client n k)\<rparr>"
  have "same_but ?obj sample_client ?c'" by (simp add: same_but_def)
  moreover have "checkAnsibleVarsFromChanged ?c' ?ns [(''vars'', ''vars'')] [] \<noteq> checkAnsibleVarsFromChanged sample_client ?ns [(''vars'', ''vars'')] []"
    by code_simp
  ultimately have "(ns_Namespace ?ns, ns_Name ?ns) \<in> set (secretWatcherFn (Inr [?ns]) ?obj)"
    by (rule vars_change_is_noticed) simp_all
  then show ?thesis by (simp add: template_nodeset_def sample_nodeset_def)
qed

theorem machine_config_is_missed_witness:
  "(''openstack'', ''edpm'') \<notin> set (machineConfigWatcherFn (Inr [template_nodeset])
     \<lparr>wo_Kind = ''MachineConfig'', wo_Name = ''99-master-generated-registries'', wo_Namespace = [], wo_Labels = []\<rparr>)"
  using machine_config_is_missed [of "\<lparr>wo_Kind = ''MachineConfig'', wo_Name = ''99-master-generated-registries'', wo_Namespace = [], wo_Labels = []\<rparr>"
      template_nodeset] by (simp add: template_nodeset_def sample_nodeset_def)

end
