(* ===== verification/Dataplane_Images.thy ===== *)
theory Dataplane_Images
  imports Dataplane_Sources Image_Laws
begin

text \<open>
  The images of the data plane when there is no \<open>OpenStackVersion\<close>: \<open>ContainerImageDefaults\<close>, \<open>SetupDefaults\<close> and
  \<open>getImageDefault\<close> of \<open>api/dataplane/v1beta1/openstackdataplanenodeset_types.go\<close>, and how their environment
  variables relate to those from which the defaults of a version are made.  \<open>getEnvVar\<close> stands for \<open>util.GetEnvVar\<close>
  of lib-common.
\<close>

definition ContainerImageDefaults :: "(image_field \<times> string) list" where
  "ContainerImageDefaults =
     [(AgentImage, ''quay.io/openstack-k8s-operators/openstack-baremetal-operator-agent:current-podified''),
      (AnsibleeeImage, ''quay.io/openstack-k8s-operators/openstack-ansibleee-runner:latest''),
      (ApacheImage, ''registry.redhat.io/ubi9/httpd-24:latest''),
      (EdpmFrrImage, ''quay.io/podified-antelope-centos9/openstack-frr:current-podified''),
      (EdpmIscsidImage, ''quay.io/podified-antelope-centos9/openstack-iscsid:current-podified''),
      (EdpmLogrotateCrondImage, ''quay.io/podified-antelope-centos9/openstack-cron:current-podified''),
      (EdpmNeutronDhcpAgentImage, ''quay.io/podified-antelope-centos9/openstack-neutron-dhcp-agent:current-podified''),
      (EdpmNeutronMetadataAgentImage, ''quay.io/podified-antelope-centos9/openstack-neutron-metadata-agent-ovn:current-podified''),
      (EdpmNeutronOvnAgentImage, ''quay.io/podified-antelope-centos9/openstack-neutron-ovn-agent:current-podified''),
      (EdpmNeutronSriovAgentImage, ''quay.io/podified-antelope-centos9/openstack-neutron-sriov-agent:current-podified''),
      (EdpmMultipathdImage, ''quay.io/podified-antelope-centos9/openstack-multipathd:current-podified''),
      (NovaComputeImage, ''quay.io/podified-antelope-centos9/openstack-nova-compute:current-podified''),
      (OvnControllerImage, ''quay.io/podified-antelope-centos9/openstack-ovn-controller:current-podified''),
      (EdpmOvnBgpAgentImage, ''quay.io/podified-antelope-centos9/openstack-ovn-bgp-agent:current-podified''),
      (CeilometerComputeImage, ''quay.io/podified-antelope-centos9/openstack-telemetry-ceilometer-compute:current-podified''),
      (CeilometerIpmiImage, ''quay.io/podified-antelope-centos9/openstack-telemetry-ceilometer-ipmi:current-podified''),
      (EdpmNodeExporterImage, ''quay.io/prometheus/node-exporter:v1.5.0''),
      (EdpmKeplerImage, ''quay.io/sustainable_computing_io/kepler:release-0.7.12''),
      (EdpmPodmanExporterImage, ''quay.io/openstack-k8s-operators/prometheus-podman-exporter:latest''),
      (OpenstackNetworkExporterImage, ''quay.io/openstack-k8s-operators/openstack-network-exporter:current-podified''),
      (OsContainerImage, ''quay.io/podified-antelope-centos9/edpm-hardened-uefi:current-podified''),
      (SwiftAccountImage, ''quay.io/podified-antelope-centos9/openstack-swift-account:current-podified''),
      (SwiftContainerImage, ''quay.io/podified-antelope-centos9/openstack-swift-container:current-podified''),
      (SwiftObjectImage, ''quay.io/podified-antelope-centos9/openstack-swift-object:current-podified''),
      (SwiftProxyImage, ''quay.io/podified-antelope-centos9/openstack-swift-proxy-server:current-podified'')]"

definition image_variables :: "(image_field \<times> string) list" where
  "image_variables =
     [(AgentImage, ''RELATED_IMAGE_AGENT_IMAGE_URL_DEFAULT''),
      (AnsibleeeImage, ''RELATED_IMAGE_ANSIBLEEE_IMAGE_URL_DEFAULT''),
      (ApacheImage, ''RELATED_IMAGE_APACHE_IMAGE_URL_DEFAULT''),
      (EdpmFrrImage, ''RELATED_IMAGE_EDPM_FRR_IMAGE_URL_DEFAULT''),
      (EdpmIscsidImage, ''RELATED_IMAGE_EDPM_ISCSID_IMAGE_URL_DEFAULT''),
      (EdpmLogrotateCrondImage, ''RELATED_IMAGE_EDPM_LOGROTATE_CROND_IMAGE_URL_DEFAULT''),
      (EdpmMultipathdImage, ''RELATED_IMAGE_EDPM_MULTIPATHD_IMAGE_URL_DEFAULT''),
      (EdpmNeutronDhcpAgentImage, ''RELATED_IMAGE_EDPM_NEUTRON_DHCP_AGENT_IMAGE_URL_DEFAULT''),
      (EdpmNeutronMetadataAgentImage, ''RELATED_IMAGE_EDPM_NEUTRON_METADATA_AGENT_IMAGE_URL_DEFAULT''),
      (EdpmNeutronOvnAgentImage, ''RELATED_IMAGE_EDPM_NEUTRON_OVN_AGENT_IMAGE_URL_DEFAULT''),
      (EdpmNeutronSriovAgentImage, ''RELATED_IMAGE_EDPM_NEUTRON_SRIOV_AGENT_IMAGE_URL_DEFAULT''),
      (EdpmNodeExporterImage, ''RELATED_IMAGE_EDPM_NODE_EXPORTER_IMAGE_URL_DEFAULT''),
      (EdpmKeplerImage, ''RELATED_IMAGE_EDPM_KEPLER_IMAGE_URL_DEFAULT''),
      (EdpmPodmanExporterImage, ''RELATED_IMAGE_EDPM_PODMAN_EXPORTER_IMAGE_URL_DEFAULT''),
      (OpenstackNetworkExporterImage, ''RELATED_IMAGE_OPENSTACK_NETWORK_EXPORTER_IMAGE_URL_DEFAULT''),
      (EdpmOvnBgpAgentImage, ''RELATED_IMAGE_EDPM_OVN_BGP_AGENT_IMAGE_URL_DEFAULT''),
      (CeilometerComputeImage, ''RELATED_IMAGE_CEILOMETER_COMPUTE_IMAGE_URL_DEFAULT''),
      (CeilometerIpmiImage, ''RELATED_IMAGE_CEILOMETER_IPMI_IMAGE_URL_DEFAULT''),
      (NovaComputeImage, ''RELATED_IMAGE_NOVA_COMPUTE_IMAGE_URL_DEFAULT''),
      (OvnControllerImage, ''RELATED_IMAGE_OVN_CONTROLLER_AGENT_IMAGE_URL_DEFAULT''),
      (OsContainerImage, ''RELATED_IMAGE_OS_CONTAINER_IMAGE_URL_DEFAULT''),
      (SwiftAccountImage, ''RELATED_IMAGE_SWIFT_ACCOUNT_IMAGE_URL_DEFAULT''),
      (SwiftContainerImage, ''RELATED_IMAGE_SWIFT_CONTAINER_IMAGE_URL_DEFAULT''),
      (SwiftObjectImage, ''RELATED_IMAGE_SWIFT_OBJECT_IMAGE_URL_DEFAULT''),
      (SwiftProxyImage, ''RELATED_IMAGE_SWIFT_PROXY_IMAGE_URL_DEFAULT'')]"

definition getImageDefault :: "(string \<Rightarrow> string \<Rightarrow> string) \<Rightarrow> string \<Rightarrow> string \<Rightarrow> string ptr" where
  "getImageDefault getEnvVar envVar defaultImage = Some (getEnvVar envVar defaultImage)"

definition SetupDefaults :: "(string \<Rightarrow> string \<Rightarrow> string) \<Rightarrow> container_images" where
  "SetupDefaults getEnvVar =
     empty_images\<lparr>ci_template := (\<lambda>f. Option.bind (map_of image_variables f) (\<lambda>var.
        Option.bind (map_of ContainerImageDefaults f) (getImageDefault getEnvVar var)))\<rparr>"

subsection \<open>Laws\<close>

text \<open>Every image has a variable and a fallback, so none is ever \<open>nil\<close>.\<close>

lemma image_tables_agree: "map fst ContainerImageDefaults = remdups (map fst ContainerImageDefaults)"
    "set (map fst ContainerImageDefaults) = set (map fst image_variables)"
  by (simp add: ContainerImageDefaults_def, simp add: ContainerImageDefaults_def image_variables_def, blast)

text \<open>The variable of the OVN controller is not the one from which a version takes this image: it names no
  field of the template.\<close>

definition environment :: "(string \<rightharpoonup> string) \<Rightarrow> string \<Rightarrow> string \<Rightarrow> string" where
  "environment e k d = (case e k of None \<Rightarrow> d | Some v \<Rightarrow> v)"

lemma ovn_variables:
  "env_target ''RELATED_IMAGE_OVN_CONTROLLER_IMAGE_URL_DEFAULT'' = Some OvnControllerImage"
  "env_target ''RELATED_IMAGE_OVN_CONTROLLER_AGENT_IMAGE_URL_DEFAULT'' = None"
proof -
  have n: "env_field_name ''RELATED_IMAGE_OVN_CONTROLLER_IMAGE_URL_DEFAULT'' = Some ''OvnControllerImage''"
    "env_field_name ''RELATED_IMAGE_OVN_CONTROLLER_AGENT_IMAGE_URL_DEFAULT'' = Some ''OvnControllerAgentImage''"
    by code_simp+
  have "FieldByName ''OvnControllerImage'' = Some OvnControllerImage" "FieldByName ''OvnControllerAgentImage'' = None"
    unfolding FieldByName_def image_fields_def by simp_all
  then show "env_target ''RELATED_IMAGE_OVN_CONTROLLER_IMAGE_URL_DEFAULT'' = Some OvnControllerImage"
    "env_target ''RELATED_IMAGE_OVN_CONTROLLER_AGENT_IMAGE_URL_DEFAULT'' = None"
    by (simp_all add: env_target_def n)
qed

lemma ovn_default_image_ignored:
  assumes "e ''RELATED_IMAGE_OVN_CONTROLLER_AGENT_IMAGE_URL_DEFAULT'' = None"
  shows "ci_template (SetupDefaults (environment e)) OvnControllerImage =
    Some ''quay.io/podified-antelope-centos9/openstack-ovn-controller:current-podified''"
  using assms by (simp add: SetupDefaults_def image_variables_def ContainerImageDefaults_def getImageDefault_def environment_def)

end
