(* ===== verification/Dataplane_Webhooks.thy ===== *)
theory Dataplane_Webhooks
  imports NodeSet_Controller
begin

text \<open>
  Admission of the resources of the data plane: \<open>openstackdataplanenodeset_webhook.go\<close>,
  \<open>openstackdataplanedeployment_webhook.go\<close>, \<open>openstackdataplaneservice_webhook.go\<close> with the functions of
  \<open>openstackdataplanenodeset_types.go\<close> and \<open>openstackdataplaneservice_types.go\<close> they call, and the default
  images of the data plane (\<open>SetupDefaults\<close>), all of \<open>api/dataplane/v1beta1\<close>.

  \<open>webhook_env\<close> has the functions that are not part of the repository: the validators of names and of the
  template of a bare metal set.
\<close>

subsection \<open>Results\<close>

datatype admission =
    Admit | RejectInvalid "field_error list" | RejectError api_error | RejectConflict string | RejectInternal string | AdmissionPanic

definition invalid_if_any :: "field_error list \<Rightarrow> admission" where
  "invalid_if_any errors = (if errors \<noteq> [] then RejectInvalid errors else Admit)"

record webhook_env =
  we_hostname_rfc1123 :: "string \<Rightarrow> bool"
  we_IsDNS1123Label :: "string \<Rightarrow> string list"
  we_ValidateTemplate :: "nat \<Rightarrow> bm_template \<Rightarrow> bm_template \<Rightarrow> api_error option"
  we_IsError :: "condition option \<Rightarrow> bool"

subsection \<open>Node sets\<close>

definition default_node :: "bool \<Rightarrow> string \<Rightarrow> string \<Rightarrow> dp_node \<Rightarrow> dp_node" where
  "default_node preProvisioned domain nodeName node =
     (let h = (if nd_HostName node = [] then nodeName else nd_HostName node)
      in node\<lparr>nd_HostName := (if \<not> preProvisioned \<and> \<not> NodeHostNameIsFQDN h \<and> domain \<noteq> []
                              then nodeName @ CHR ''.'' # domain else h)\<rparr>)"

definition ns_Default :: "dp_nodeset \<Rightarrow> dp_nodeset" where
  "ns_Default r =
     (let domain = (case ns_BaremetalSetTemplate r of None \<Rightarrow> [] | Some t \<Rightarrow> bt_DomainName t);
          r1 = r\<lparr>ns_Nodes := map (\<lambda>(nodeName, node). (nodeName, default_node (ns_PreProvisioned r) domain nodeName node)) (ns_Nodes r)\<rparr>
      in case (if ns_PreProvisioned r then None else ns_BaremetalSetTemplate r) of
           Some t \<Rightarrow>
             r1\<lparr>ns_TemplateUser := bt_CloudUserName t,
                ns_BaremetalSetTemplate := Some (if bt_DeploymentSSHSecret t = []
                  then t\<lparr>bt_DeploymentSSHSecret := ns_SSHPrivateKeySecret r\<rparr> else t)\<rparr>
         | None \<Rightarrow> if ns_TemplateUser r = [] then r1\<lparr>ns_TemplateUser := ''cloud-admin''\<rparr> else r1)"

text \<open>The host name of a node, and its address if it has one.\<close>

definition node_names :: "dp_node \<Rightarrow> string list" where
  "node_names node = nd_HostName node # (if nd_AnsibleHost node \<noteq> [] then [nd_AnsibleHost node] else [])"

definition existing_names :: "dp_nodeset list \<Rightarrow> string \<Rightarrow> string list" where
  "existing_names nodeSets nodesetName =
     concat (map (\<lambda>ns. if ns_Name ns = nodesetName then [] else concat (map (\<lambda>(_, node). node_names node) (ns_Nodes ns))) nodeSets)"

fun check_nodes :: "string list \<Rightarrow> dp_node list \<Rightarrow> field_error list" where
  "check_nodes existing [] = []"
| "check_nodes existing (newNode # nodes) =
     (if nd_HostName newNode \<in> set existing \<or> nd_AnsibleHost newNode \<in> set existing
      then \<lparr>fe_Field = ''spec.nodes'', fe_Detail = ''node '' @ nd_HostName newNode @ '' already exists in another cluster''\<rparr>
             # check_nodes existing nodes
      else check_nodes (existing @ node_names newNode) nodes)"

definition duplicateNodeCheck :: "dp_nodeset \<Rightarrow> dp_nodeset list \<Rightarrow> string \<Rightarrow> field_error list" where
  "duplicateNodeCheck r nodeSets nodesetName = check_nodes (existing_names nodeSets nodesetName) (map snd (ns_Nodes r))"

definition validatePreProvisionedNodes :: "dp_nodeset \<Rightarrow> field_error list" where
  "validatePreProvisionedNodes r =
     concat (map (\<lambda>(nodeName, node).
        if nd_AnsibleHost node = [] \<or> \<not> ParseIP (nd_AnsibleHost node)
        then [\<lparr>fe_Field = ''spec.nodes['' @ nodeName @ ''].ansible.ansibleHost'',
               fe_Detail = ''ansibleHost must be a valid IP address for pre-provisioned nodes''\<rparr>]
        else []) (ns_Nodes r))"

definition validateNodes :: "(api_error + dp_nodeset list) \<Rightarrow> dp_nodeset \<Rightarrow> api_error + field_error list" where
  "validateNodes listing r =
     (case listing of
        Inl err \<Rightarrow> Inl err
      | Inr nodeSets \<Rightarrow>
          Inr ((if ns_PreProvisioned r \<and> nodeSets \<noteq> [] then duplicateNodeCheck r nodeSets (ns_Name r) else [])
               @ (if ns_PreProvisioned r then validatePreProvisionedNodes r else [])))"

definition ns_ValidateCreate :: "webhook_env \<Rightarrow> (api_error + dp_nodeset list) \<Rightarrow> dp_nodeset \<Rightarrow> admission" where
  "ns_ValidateCreate env listing r =
     (case validateNodes listing r of
        Inl err \<Rightarrow> RejectError err
      | Inr errors \<Rightarrow>
          invalid_if_any
            (errors
             @ (if \<not> we_hostname_rfc1123 env (ns_Name r)
                then [\<lparr>fe_Field = ''Name'', fe_Detail = ''Error validating OpenStackDataPlaneNodeSet name '' @ ns_Name r @ '', name must follow RFC1123''\<rparr>]
                else [])
             @ concat (map (\<lambda>emount. concat (map (\<lambda>vol.
                  map (\<lambda>msg. \<lparr>fe_Field = ''spec.nodeTemplate.extraMounts'', fe_Detail = msg\<rparr>) (we_IsDNS1123Label env (vol_Name vol)))
                  (vms_Volumes emount))) (ns_ExtraMounts r))))"

definition spec_ValidateUpdate :: "webhook_env \<Rightarrow> dp_nodeset \<Rightarrow> dp_nodeset \<Rightarrow> field_error list" where
  "spec_ValidateUpdate env oldNodeSet r =
     (case (ns_BaremetalSetTemplate r, ns_BaremetalSetTemplate oldNodeSet) of
        (Some t, Some oldT) \<Rightarrow>
          if t \<noteq> oldT
          then (case we_ValidateTemplate env (length (ns_Nodes oldNodeSet)) t oldT of
                  None \<Rightarrow> []
                | Some err \<Rightarrow> [\<lparr>fe_Field = ''spec.baremetalSetTemplate'', fe_Detail = err_msg err\<rparr>])
          else []
      | _ \<Rightarrow> [])"

text \<open>The loop over the deployments; \<open>deployCondition.Type\<close> is read although the condition may be missing.\<close>

fun check_deployments :: "condlib \<Rightarrow> webhook_env \<Rightarrow> (string, conditions) gomap \<Rightarrow> admission" where
  "check_deployments L env [] = Admit"
| "check_deployments L env ((deployName, conds) # rest) =
     (let deployCondition = lc_Get L conds NodeSetDeploymentReadyCondition
      in if \<not> lc_IsTrue L conds NodeSetDeploymentReadyCondition \<and> \<not> we_IsError env deployCondition
         then (case deployCondition of
                 None \<Rightarrow> AdmissionPanic
               | Some c \<Rightarrow> RejectConflict (''could not patch openstackdataplanenodeset while openstackdataplanedeployment ''
                   @ deployName @ '' (blocked on '' @ c_type c @ '' condition) is running''))
         else check_deployments L env rest)"

text \<open>The old object is \<open>None\<close> when it is not a node set.\<close>

definition ns_ValidateUpdate ::
    "condlib \<Rightarrow> webhook_env \<Rightarrow> (api_error + dp_nodeset list) \<Rightarrow> dp_nodeset option \<Rightarrow> dp_nodeset \<Rightarrow> admission" where
  "ns_ValidateUpdate L env listing old r =
     (case old of
        None \<Rightarrow> RejectInternal ''expected a OpenStackDataPlaneNodeSet object''
      | Some oldNodeSet \<Rightarrow>
          (case validateNodes listing r of
             Inl err \<Rightarrow> RejectError err
           | Inr errors \<Rightarrow>
               (let errors' = errors @ spec_ValidateUpdate env oldNodeSet r
                in if errors' \<noteq> [] then RejectInvalid errors'
                   else check_deployments L env (ns_DeploymentStatuses oldNodeSet))))"

definition ns_ValidateDelete :: "dp_nodeset \<Rightarrow> admission" where
  "ns_ValidateDelete r = invalid_if_any []"

subsection \<open>Deployments\<close>

text \<open>The spec of a deployment.  \<open>nil\<close> and empty override lists differ before \<open>Default\<close>, and for
  \<open>reflect.DeepEqual\<close>.\<close>

record dep_spec =
  sp_NodeSets :: "string list"
  sp_BackoffLimit :: "int ptr"
  sp_PreserveJobs :: bool
  sp_AnsibleTags :: string
  sp_AnsibleLimit :: string
  sp_AnsibleSkipTags :: string
  sp_AnsibleExtraVars :: "(string, string) gomap option"
  sp_ServicesOverride :: "string list option"
  sp_RequeueTime :: int
  sp_AnsibleJobNodeSelector :: "(string, string) gomap option"
  sp_AnsibleEEEnvConfigMapName :: string

definition dep_Default :: "dep_spec \<Rightarrow> dep_spec" where
  "dep_Default spec = (if sp_ServicesOverride spec = None then spec\<lparr>sp_ServicesOverride := Some []\<rparr> else spec)"

definition dep_ValidateCreate :: "dep_spec \<Rightarrow> admission" where
  "dep_ValidateCreate spec = invalid_if_any []"

definition dep_ValidateUpdate :: "dep_spec option \<Rightarrow> dep_spec \<Rightarrow> admission" where
  "dep_ValidateUpdate original spec =
     (case original of
        None \<Rightarrow> RejectInternal ''expected OpenStackDataPlaneDeployment''
      | Some old \<Rightarrow>
          invalid_if_any (if dep_Default spec \<noteq> dep_Default old
                          then [\<lparr>fe_Field = ''spec'', fe_Detail = ''OpenStackDataPlaneDeployment Spec is immutable''\<rparr>] else []))"

definition dep_ValidateDelete :: "dep_spec \<Rightarrow> admission" where
  "dep_ValidateDelete spec = invalid_if_any []"

subsection \<open>Services\<close>

definition DefaultLabels :: "string \<Rightarrow> (string, string) gomap \<Rightarrow> (string, string) gomap" where
  "DefaultLabels name labels =
     fold (\<lambda>(k, v) m. if map_of m k = None then gomap_put k v m else m)
       [(''app.kubernetes.io/name'', ''openstackdataplaneservice''), (''app.kubernetes.io/instance'', name),
        (''app.kubernetes.io/part-of'', ''openstack-operator'')] labels"

definition svc_Default :: "dp_service \<Rightarrow> dp_service" where
  "svc_Default r = (if svc_EDPMServiceType r = [] then r\<lparr>svc_EDPMServiceType := svc_Name r\<rparr> else r)"

definition ValidateArtifact :: "dp_service \<Rightarrow> field_error list" where
  "ValidateArtifact spec =
     (if length (svc_Playbook spec) = length (svc_PlaybookContents spec) \<and> length (svc_Playbook spec) = length (svc_Role spec)
         \<and> length (svc_Playbook spec) = 0
      then map (\<lambda>f. \<lparr>fe_Field = f, fe_Detail = ''Playbook, PlaybookContents and Role cannot be empty at the same time''\<rparr>)
             [''Playbook'', ''PlaybookContents'', ''Role'']
      else [])"

definition svc_ValidateCreate :: "dp_service \<Rightarrow> admission" where
  "svc_ValidateCreate r = invalid_if_any (ValidateArtifact r)"

definition svc_ValidateUpdate :: "dp_service \<Rightarrow> admission" where
  "svc_ValidateUpdate r = invalid_if_any (ValidateArtifact r)"

definition svc_ValidateDelete :: "dp_service \<Rightarrow> admission" where
  "svc_ValidateDelete r = invalid_if_any []"

end
