(* ===== verification/Webhook_Laws.thy ===== *)
theory Webhook_Laws
  imports Dataplane_Webhooks NodeSet_Laws
begin

text \<open>
  What admission to the data plane guarantees: which nodes a cluster can hold, what is left of a node set by its
  defaults, and what the controllers may rely on of admitted objects.
\<close>

subsection \<open>Duplicate nodes\<close>

abbreviation shares_no_name :: "dp_node \<Rightarrow> dp_node \<Rightarrow> bool" where
  "shares_no_name a b \<equiv> set (node_names a) \<inter> set (node_names b) = {}"

text \<open>Host names are never empty once \<open>Default\<close> has run.\<close>

definition hosts_named :: "dp_nodeset \<Rightarrow> bool" where
  "hosts_named ns \<longleftrightarrow> (\<forall>node \<in> set (map snd (ns_Nodes ns)). nd_HostName node \<noteq> [])"

lemma node_names_nonempty: "nd_HostName node \<noteq> [] \<Longrightarrow> [] \<notin> set (node_names node)"
  by (simp add: node_names_def)

lemma clash_iff:
  assumes "[] \<notin> set existing"
  shows "nd_HostName node \<in> set existing \<or> nd_AnsibleHost node \<in> set existing \<longleftrightarrow> set (node_names node) \<inter> set existing \<noteq> {}"
  using assms by (cases "nd_AnsibleHost node = []") (simp_all add: node_names_def)

lemma check_nodes_iff:
  assumes "[] \<notin> set existing" and "\<forall>node \<in> set nodes. nd_HostName node \<noteq> []"
  shows "check_nodes existing nodes = [] \<longleftrightarrow>
    (\<forall>node \<in> set nodes. set (node_names node) \<inter> set existing = {}) \<and> sorted_wrt shares_no_name nodes"
  using assms
proof (induction existing nodes rule: check_nodes.induct)
  case (2 existing new nodes)
  show ?case
  proof (cases "set (node_names new) \<inter> set existing = {}")
    case True
    then have c: "\<not> (nd_HostName new \<in> set existing \<or> nd_AnsibleHost new \<in> set existing)" using clash_iff [OF 2(3)] by simp
    have "[] \<notin> set (existing @ node_names new)" using 2(3,4) node_names_nonempty by simp
    from "2.IH"(2) [OF c this] 2(4) show ?thesis using c True by auto
  next
    case False
    then have "nd_HostName new \<in> set existing \<or> nd_AnsibleHost new \<in> set existing" using clash_iff [OF 2(3)] by blast
    then show ?thesis using False by auto
  qed
qed simp

lemma existing_names_nonempty: "\<forall>ns \<in> set nodeSets. hosts_named ns \<Longrightarrow> [] \<notin> set (existing_names nodeSets n)"
  by (fastforce simp: existing_names_def hosts_named_def dest: node_names_nonempty)

lemma set_existing_names:
  "x \<in> set (existing_names nodeSets n) \<longleftrightarrow>
   (\<exists>ns \<in> set nodeSets. ns_Name ns \<noteq> n \<and> (\<exists>node \<in> set (map snd (ns_Nodes ns)). x \<in> set (node_names node)))"
  by (force simp: existing_names_def split: if_splits)

lemma disjoint_sym: "A \<inter> B = {} \<Longrightarrow> B \<inter> A = {}"
  by blast

lemma sorted_wrt_symmetric:
  assumes "\<And>a b. P a b \<Longrightarrow> P b a"
  shows "sorted_wrt P xs \<longleftrightarrow> (\<forall>i < length xs. \<forall>j < length xs. i \<noteq> j \<longrightarrow> P (xs ! i) (xs ! j))"
proof -
  have "P (xs ! i) (xs ! j)" if "\<forall>i j. i < j \<longrightarrow> j < length xs \<longrightarrow> P (xs ! i) (xs ! j)" "i < length xs" "j < length xs" "i \<noteq> j" for i j
    using that assms by (cases "i < j") auto
  then show ?thesis unfolding sorted_wrt_iff_nth_less by auto
qed

text \<open>What the check for duplicate nodes means.  It reports nothing exactly when no two nodes of the new node set
  share a host name or address, and none shares one with a node of another node set of the namespace; so the
  answer does not depend on the order in which Go visits the nodes.\<close>

theorem duplicateNodeCheck_iff:
  assumes "hosts_named r" and "\<forall>ns \<in> set nodeSets. hosts_named ns"
  shows "duplicateNodeCheck r nodeSets (ns_Name r) = [] \<longleftrightarrow>
    (\<forall>i < length (ns_Nodes r). \<forall>j < length (ns_Nodes r). i \<noteq> j \<longrightarrow> shares_no_name (snd (ns_Nodes r ! i)) (snd (ns_Nodes r ! j)))
    \<and> (\<forall>ns \<in> set nodeSets. ns_Name ns \<noteq> ns_Name r \<longrightarrow>
         (\<forall>a \<in> set (map snd (ns_Nodes r)). \<forall>b \<in> set (map snd (ns_Nodes ns)). shares_no_name a b))"
proof -
  let ?nodes = "map snd (ns_Nodes r)"
  have "sorted_wrt shares_no_name ?nodes \<longleftrightarrow> (\<forall>i < length ?nodes. \<forall>j < length ?nodes. i \<noteq> j \<longrightarrow> shares_no_name (?nodes ! i) (?nodes ! j))"
    by (rule sorted_wrt_symmetric) blast
  then have s: "sorted_wrt shares_no_name ?nodes \<longleftrightarrow>
      (\<forall>i < length (ns_Nodes r). \<forall>j < length (ns_Nodes r). i \<noteq> j \<longrightarrow> shares_no_name (snd (ns_Nodes r ! i)) (snd (ns_Nodes r ! j)))"
    by simp
  have e: "[] \<notin> set (existing_names nodeSets (ns_Name r))" by (rule existing_names_nonempty [OF assms(2)])
  have "\<forall>node \<in> set ?nodes. nd_HostName node \<noteq> []" using assms(1) by (simp add: hosts_named_def)
  note C = check_nodes_iff [OF e this]
  have "(\<forall>node \<in> set ?nodes. set (node_names node) \<inter> set (existing_names nodeSets (ns_Name r)) = {}) \<longleftrightarrow>
      (\<forall>ns \<in> set nodeSets. ns_Name ns \<noteq> ns_Name r \<longrightarrow> (\<forall>a \<in> set ?nodes. \<forall>b \<in> set (map snd (ns_Nodes ns)). shares_no_name a b))"
    unfolding disjoint_iff set_existing_names by blast
  then show ?thesis using C s unfolding duplicateNodeCheck_def by blast
qed

subsection \<open>Defaults\<close>

lemma default_node_idem: "default_node p d n (default_node p d n node) = default_node p d n node"
  by (simp add: default_node_def Let_def)

lemma ns_Default_nodes:
  "ns_Nodes (ns_Default r) = map (\<lambda>(n, node). (n, default_node (ns_PreProvisioned r)
      (case ns_BaremetalSetTemplate r of None \<Rightarrow> [] | Some t \<Rightarrow> bt_DomainName t) n node)) (ns_Nodes r)"
  by (simp add: ns_Default_def Let_def split: option.split)

lemma Default_named: "\<forall>(n, node) \<in> set (ns_Nodes r). n \<noteq> [] \<Longrightarrow> hosts_named (ns_Default r)"
proof -
  assume k: "\<forall>(n, node) \<in> set (ns_Nodes r). n \<noteq> []"
  have "nd_HostName (default_node p d n node) \<noteq> []" if "n \<noteq> []" for p d n node
    using that by (simp add: default_node_def Let_def)
  then show ?thesis unfolding hosts_named_def ns_Default_nodes using k by fastforce
qed

text \<open>\<open>Default\<close> is idempotent, so an update that only passes through the webhook changes nothing, and it leaves
  every node with a host name if the nodes have keys.\<close>

theorem ns_Default_idempotent:
  assumes "\<forall>(n, node) \<in> set (ns_Nodes r). n \<noteq> []"
  shows "ns_Default (ns_Default r) = ns_Default r \<and> hosts_named (ns_Default r)"
proof -
  have "hosts_named (ns_Default r)" by (rule Default_named [OF assms])
  moreover have "ns_Default (ns_Default r) = ns_Default r"
    by (cases "ns_PreProvisioned r"; cases "ns_BaremetalSetTemplate r")
      (simp_all add: ns_Default_def Let_def default_node_idem comp_def case_prod_beta)
  ultimately show ?thesis by simp
qed

text \<open>The host name of a bare metal node is lost.  With a domain in the template of the bare metal set, \<open>Default\<close>
  replaces a host name that is no fully qualified name by the key of the node in the map and the domain, whatever
  host name the user gave the node.\<close>

theorem default_host_name_replaced:
  assumes "\<not> ns_PreProvisioned r" and "ns_BaremetalSetTemplate r = Some t" and "bt_DomainName t \<noteq> []"
    and "(n, node) \<in> set (ns_Nodes r)" and "nd_HostName node \<noteq> []" and "\<not> NodeHostNameIsFQDN (nd_HostName node)"
  shows "\<exists>node'. (n, node') \<in> set (ns_Nodes (ns_Default r)) \<and> nd_HostName node' = n @ CHR ''.'' # bt_DomainName t"
proof -
  have "(n, default_node False (bt_DomainName t) n node) \<in> set (ns_Nodes (ns_Default r))"
    using assms(1,2,4) by (force simp: ns_Default_def Let_def)
  moreover have "nd_HostName (default_node False (bt_DomainName t) n node) = n @ CHR ''.'' # bt_DomainName t"
    using assms(3,5,6) by (simp add: default_node_def Let_def)
  ultimately show ?thesis by blast
qed

subsection \<open>The node sets of a cluster\<close>

text \<open>The node sets that admission lets into a cluster.  The API server applies \<open>Default\<close> before it validates, lists
  the node sets of the namespace for the webhook, and keeps the keys of objects apart.\<close>

abbreviation ns_id :: "dp_nodeset \<Rightarrow> string \<times> string" where
  "ns_id ns \<equiv> (ns_Namespace ns, ns_Name ns)"

abbreviation listed :: "dp_nodeset list \<Rightarrow> string \<Rightarrow> dp_nodeset list" where
  "listed items namespace \<equiv> filter (\<lambda>ns. ns_Namespace ns = namespace) items"

abbreviation keyed :: "dp_nodeset \<Rightarrow> bool" where
  "keyed r \<equiv> \<forall>(n, node) \<in> set (ns_Nodes r). n \<noteq> []"

inductive cluster :: "condlib \<Rightarrow> webhook_env \<Rightarrow> dp_nodeset list \<Rightarrow> bool" for L env where
  empty: "cluster L env []"
| created: "cluster L env items \<Longrightarrow> keyed r \<Longrightarrow> ns_id (ns_Default r) \<notin> ns_id ` set items \<Longrightarrow>
    ns_ValidateCreate env (Inr (listed items (ns_Namespace r))) (ns_Default r) = Admit \<Longrightarrow> cluster L env (ns_Default r # items)"
| updated: "cluster L env (xs @ old # ys) \<Longrightarrow> keyed r \<Longrightarrow> ns_id r = ns_id old \<Longrightarrow>
    ns_ValidateUpdate L env (Inr (listed (xs @ old # ys) (ns_Namespace r))) (Some old) (ns_Default r) = Admit \<Longrightarrow>
    cluster L env (xs @ ns_Default r # ys)"
| reconciled: "cluster L env (xs @ old # ys) \<Longrightarrow> ns_id new = ns_id old \<Longrightarrow> ns_Nodes new = ns_Nodes old \<Longrightarrow>
    ns_PreProvisioned new = ns_PreProvisioned old \<Longrightarrow> cluster L env (xs @ new # ys)"
| deleted: "cluster L env (xs @ old # ys) \<Longrightarrow> ns_ValidateDelete old = Admit \<Longrightarrow> cluster L env (xs @ ys)"

definition apart :: "dp_nodeset \<Rightarrow> dp_nodeset \<Rightarrow> bool" where
  "apart a b \<longleftrightarrow> (\<forall>x \<in> set (map snd (ns_Nodes a)). \<forall>y \<in> set (map snd (ns_Nodes b)). shares_no_name x y)"

definition cluster_ok :: "dp_nodeset list \<Rightarrow> bool" where
  "cluster_ok items \<longleftrightarrow> distinct (map ns_id items) \<and> (\<forall>ns \<in> set items. hosts_named ns) \<and>
     (\<forall>a \<in> set items. \<forall>b \<in> set items. ns_Namespace a = ns_Namespace b \<and> ns_Name a \<noteq> ns_Name b \<and> ns_PreProvisioned a \<and> ns_PreProvisioned b
        \<longrightarrow> apart a b)"

lemma apart_sym: "apart a b \<Longrightarrow> apart b a"
  by (auto simp: apart_def)

lemma ns_Default_sel [simp]: "ns_id (ns_Default r) = ns_id r" "ns_PreProvisioned (ns_Default r) = ns_PreProvisioned r"
    "ns_Name (ns_Default r) = ns_Name r" "ns_Namespace (ns_Default r) = ns_Namespace r"
  by (simp_all add: ns_Default_def Let_def split: option.split)

text \<open>An admitted node set is apart from the others of its namespace.\<close>

lemma admitted_apart:
  assumes v: "validateNodes (Inr nodeSets) r = Inr []" and "ns_PreProvisioned r" and "hosts_named r" and "\<forall>ns \<in> set nodeSets. hosts_named ns"
    and "b \<in> set nodeSets" and "ns_Name b \<noteq> ns_Name r"
  shows "apart r b"
proof -
  have "nodeSets \<noteq> []" using assms(5) by auto
  then have "duplicateNodeCheck r nodeSets (ns_Name r) = []" using v assms(2) by (simp add: validateNodes_def)
  then have c: "check_nodes (existing_names nodeSets (ns_Name r)) (map snd (ns_Nodes r)) = []" by (simp add: duplicateNodeCheck_def)
  have "\<forall>node \<in> set (map snd (ns_Nodes r)). nd_HostName node \<noteq> []" using assms(3) by (simp add: hosts_named_def)
  from check_nodes_iff [OF existing_names_nonempty [OF assms(4)] this] c
  have "\<forall>node \<in> set (map snd (ns_Nodes r)). set (node_names node) \<inter> set (existing_names nodeSets (ns_Name r)) = {}" by blast
  then show ?thesis using assms(5,6) unfolding apart_def disjoint_iff set_existing_names by blast
qed

lemma admitted_nodes:
  "ns_ValidateCreate env listing r = Admit \<Longrightarrow> validateNodes listing r = Inr []"
  "ns_ValidateUpdate L env listing old r = Admit \<Longrightarrow> validateNodes listing r = Inr []"
  by (auto simp: ns_ValidateCreate_def ns_ValidateUpdate_def invalid_if_any_def Let_def split: sum.splits option.splits if_splits)

lemma cluster_replace:
  assumes ok: "cluster_ok (xs @ old # ys)" and id: "ns_id new = ns_id old" and named: "hosts_named new"
    and new: "\<And>b. b \<in> set (xs @ ys) \<Longrightarrow> ns_Namespace b = ns_Namespace new \<Longrightarrow> ns_Name b \<noteq> ns_Name new \<Longrightarrow> ns_PreProvisioned new \<Longrightarrow>
      ns_PreProvisioned b \<Longrightarrow> apart new b"
  shows "cluster_ok (xs @ new # ys)"
proof -
  have "distinct (map ns_id (xs @ new # ys))" using ok id by (simp add: cluster_ok_def)
  moreover have "\<forall>ns \<in> set (xs @ new # ys). hosts_named ns" using ok named by (simp add: cluster_ok_def)
  moreover have "apart a b" if ab: "a \<in> set (xs @ new # ys)" "b \<in> set (xs @ new # ys)"
      "ns_Namespace a = ns_Namespace b" "ns_Name a \<noteq> ns_Name b" "ns_PreProvisioned a" "ns_PreProvisioned b" for a b
  proof (cases "a = new \<or> b = new")
    case True
    then show ?thesis
    proof
      assume "a = new"
      then show ?thesis using ab new [of b] by auto
    next
      assume "b = new"
      then show ?thesis using ab new [of a] apart_sym by auto
    qed
  next
    case False
    then have "a \<in> set (xs @ old # ys)" "b \<in> set (xs @ old # ys)" using ab by auto
    then show ?thesis using ok ab(3-6) unfolding cluster_ok_def by blast
  qed
  ultimately show ?thesis unfolding cluster_ok_def by blast
qed

text \<open>C21: no two pre-provisioned node sets of a namespace ever share a node.  In every cluster that admission allows,
  whatever is created, updated and deleted in whatever order, the pre-provisioned node sets of a namespace have
  different host names and addresses.  For bare metal node sets nothing of the kind is checked.\<close>

theorem cluster_nodes_apart:
  assumes "cluster L env items" and "a \<in> set items" and "b \<in> set items" and "ns_Namespace a = ns_Namespace b" and "ns_Name a \<noteq> ns_Name b"
    and "ns_PreProvisioned a" and "ns_PreProvisioned b"
  shows "apart a b"
proof -
  have "cluster_ok items" using assms(1)
  proof (induction rule: cluster.induct)
    case empty
    then show ?case by (simp add: cluster_ok_def)
  next
    case (created items r)
    let ?r = "ns_Default r"
    have named: "hosts_named ?r" by (rule Default_named [OF created.hyps(2)])
    have v: "validateNodes (Inr (listed items (ns_Namespace r))) ?r = Inr []" by (rule admitted_nodes(1) [OF created.hyps(4)])
    have "apart ?r b" if "b \<in> set items" "ns_Namespace b = ns_Namespace r" "ns_Name b \<noteq> ns_Name r" "ns_PreProvisioned r" for b
      by (rule admitted_apart [OF v _ named]) (use that created.IH in \<open>simp_all add: cluster_ok_def\<close>)
    then show ?case
      using created.IH created.hyps(3) named apart_sym by (auto simp: cluster_ok_def)
  next
    case (updated xs old ys r)
    let ?r = "ns_Default r" and ?items = "xs @ old # ys"
    have named: "hosts_named ?r" by (rule Default_named [OF updated.hyps(2)])
    have v: "validateNodes (Inr (listed ?items (ns_Namespace r))) ?r = Inr []" by (rule admitted_nodes(2) [OF updated.hyps(4)])
    show ?case
    proof (rule cluster_replace [OF updated.IH _ named])
      fix b assume "b \<in> set (xs @ ys)" "ns_Namespace b = ns_Namespace ?r" "ns_Name b \<noteq> ns_Name ?r" "ns_PreProvisioned ?r"
      then show "apart ?r b"
        by (intro admitted_apart [OF v _ named]) (use updated.IH in \<open>auto simp: cluster_ok_def\<close>)
    qed (use updated.hyps(3) in simp)
  next
    case (reconciled xs old ys new)
    show ?case
    proof (rule cluster_replace [OF reconciled.IH reconciled.hyps(2)])
      show "hosts_named new" using reconciled.IH reconciled.hyps(3) by (simp add: cluster_ok_def hosts_named_def)
      fix b assume "b \<in> set (xs @ ys)" "ns_Namespace b = ns_Namespace new" "ns_Name b \<noteq> ns_Name new" "ns_PreProvisioned new" "ns_PreProvisioned b"
      then have "apart old b" using reconciled.IH reconciled.hyps(2,4) by (auto simp: cluster_ok_def)
      then show "apart new b" using reconciled.hyps(3) by (simp add: apart_def)
    qed
  next
    case (deleted xs old ys)
    then show ?case by (auto simp: cluster_ok_def)
  qed
  then show ?thesis using assms by (simp add: cluster_ok_def)
qed

text \<open>Duplicates inside the first node set of a namespace.  The check for duplicates is skipped when there is no
  node set yet, so a node set with two nodes of the same name or address is created; from then on the list is not
  empty, and every update that keeps the nodes is rejected.\<close>

theorem first_nodeset_unchecked:
  assumes pre: "ns_PreProvisioned r" and named: "hosts_named r" and ips: "validatePreProvisionedNodes r = []"
    and ok: "we_hostname_rfc1123 env (ns_Name r)" "ns_ExtraMounts r = []"
    and dup: "i < length (ns_Nodes r)" "j < length (ns_Nodes r)" "i \<noteq> j" "\<not> shares_no_name (snd (ns_Nodes r ! i)) (snd (ns_Nodes r ! j))"
    and same: "ns_Name r' = ns_Name r" "ns_PreProvisioned r'" "ns_Nodes r' = ns_Nodes r"
  shows "ns_ValidateCreate env (Inr []) r = Admit \<and> (\<exists>errors. ns_ValidateUpdate L env (Inr [r]) (Some r) r' = RejectInvalid errors)"
proof -
  have named': "\<forall>node \<in> set (map snd (ns_Nodes r')). nd_HostName node \<noteq> []" using named same(3) by (simp add: hosts_named_def)
  have ex: "existing_names [r] (ns_Name r') = []" by (simp add: existing_names_def same(1))
  let ?nodes = "map snd (ns_Nodes r')"
  have "sorted_wrt shares_no_name ?nodes \<longleftrightarrow> (\<forall>i < length ?nodes. \<forall>j < length ?nodes. i \<noteq> j \<longrightarrow> shares_no_name (?nodes ! i) (?nodes ! j))"
    by (rule sorted_wrt_symmetric) blast
  moreover have "i < length ?nodes" "j < length ?nodes" "\<not> shares_no_name (?nodes ! i) (?nodes ! j)" using dup by (simp_all add: same(3))
  ultimately have "\<not> sorted_wrt shares_no_name ?nodes" using dup(3) by blast
  then have "duplicateNodeCheck r' [r] (ns_Name r') \<noteq> []"
    using check_nodes_iff [OF _ named', of "[]"] unfolding duplicateNodeCheck_def ex by simp
  then have "ns_ValidateUpdate L env (Inr [r]) (Some r) r' \<noteq> Admit \<and> (\<exists>errors. ns_ValidateUpdate L env (Inr [r]) (Some r) r' = RejectInvalid errors)"
    using same(2) by (simp add: ns_ValidateUpdate_def validateNodes_def Let_def)
  moreover have "ns_ValidateCreate env (Inr []) r = Admit"
    using pre ips ok by (simp add: ns_ValidateCreate_def validateNodes_def invalid_if_any_def)
  ultimately show ?thesis by blast
qed

subsection \<open>Admission and the controllers\<close>

text \<open>Updating a node set can crash the webhook.  The controller of node sets records an empty list of conditions for
  a deployment that its own controller has not seen yet; as long as this status is there and the other
  deployments have finished, \<open>ValidateUpdate\<close> reads the type of a condition that is missing.\<close>

theorem update_panics_on_new_deployment:
  assumes L: "condlib_laws L" and err: "\<not> we_IsError env None"
    and new: "map_of (dep_NodeSetConditions dep) (ns_Name ns) = None" and old: "oldNodeSet = record_statuses dep ns"
    and others: "\<forall>(d, conds) \<in> set (ns_DeploymentStatuses ns). d \<noteq> dep_Name dep \<longrightarrow>
      lc_IsTrue L conds NodeSetDeploymentReadyCondition \<or> we_IsError env (lc_Get L conds NodeSetDeploymentReadyCondition)"
    and valid: "validateNodes listing r = Inr []" "spec_ValidateUpdate env oldNodeSet r = []"
  shows "ns_ValidateUpdate L env listing (Some oldNodeSet) r = AdmissionPanic"
proof -
  have st: "ns_DeploymentStatuses oldNodeSet = gomap_put (dep_Name dep) [] (ns_DeploymentStatuses ns)"
    unfolding old using new by (simp add: record_statuses_def Let_def gomap_get_def)
  have p: "check_deployments L env ((k, []) # rest) = AdmissionPanic" for k rest
    using L err by (simp add: condlib_IsTrue)
  have "check_deployments L env (gomap_put k [] m) = AdmissionPanic"
    if "\<forall>(d, conds) \<in> set m. d \<noteq> k \<longrightarrow> lc_IsTrue L conds NodeSetDeploymentReadyCondition
      \<or> we_IsError env (lc_Get L conds NodeSetDeploymentReadyCondition)" for k m
    using that
  proof (induction m)
    case (Cons x m)
    obtain d conds where x: "x = (d, conds)" by fastforce
    show ?case
    proof (cases "d = k")
      case True
      then show ?thesis using p x by simp
    next
      case False
      then show ?thesis using Cons x by auto
    qed
  qed (use p in simp)
  from this [OF others] st valid show ?thesis by (simp add: ns_ValidateUpdate_def)
qed

text \<open>What the runner runs comes from the service, whichever other fields of the job are filled in.\<close>

abbreviation job_sources :: "ee_job \<Rightarrow> string \<times> string \<times> string" where
  "job_sources a \<equiv> (ej_Playbook a, ej_PlaybookContents a, ej_Role a)"

lemma ExtraVars_sources: "job_sources (fst (FormatAEEExtraVars env service deployment nodeSetName aeeSpec a)) = job_sources a"
  by (simp add: FormatAEEExtraVars_def Let_def)

lemma CmdLine_sources: "job_sources (FormatAEECmdLineArguments aeeSpec a) = job_sources a"
  by (simp add: FormatAEECmdLineArguments_def Let_def)

lemma Image_sources: "job_sources (DetermineAeeImage env aeeSpec a) = job_sources a"
  by (simp add: DetermineAeeImage_def)

lemma BuildAeeJobSpec_sources:
  "job_sources (fst (BuildAeeJobSpec env service deployment nodeSetName aeeSpec a)) =
    (if svc_Playbook service \<noteq> [] then svc_Playbook service else ej_Playbook a,
     if svc_PlaybookContents service \<noteq> [] then svc_PlaybookContents service else ej_PlaybookContents a,
     if svc_Role service \<noteq> [] then svc_Role service else ej_Role a)"
  unfolding BuildAeeJobSpec_def Let_def case_prod_beta fst_conv Image_sources ExtraVars_sources CmdLine_sources by simp

lemma execution_job_sources:
  "\<exists>a. job_sources (fst (execution_job env service sshKeySecrets inventorySecrets nodeSetName deployment eid annotations aeeSpec)) =
     job_sources (fst (BuildAeeJobSpec env service deployment nodeSetName aeeSpec a))"
proof -
  have "job_sources (b\<lparr>ej_ExtraMounts := x, ej_Env := y, ej_NodeSelector := z\<rparr>) = job_sources b" for b x y z by simp
  then show ?thesis unfolding execution_job_def Let_def case_prod_beta fst_conv by metis
qed

text \<open>An admitted service always has something to run: the arguments of the runner are never missing when the job
  for the service is built, so the error for it in \<open>JobForOpenStackAnsibleEE\<close> is not reached.\<close>

theorem admitted_service_runs:
  assumes "svc_ValidateCreate service = Admit \<or> svc_ValidateUpdate service = Admit"
  shows "runner_args (fst (execution_job env service sshKeySecrets inventorySecrets nodeSetName deployment eid annotations aeeSpec)) \<noteq> None"
proof -
  have run: "svc_Playbook service \<noteq> [] \<or> svc_PlaybookContents service \<noteq> [] \<or> svc_Role service \<noteq> []"
    using assms by (auto simp: svc_ValidateCreate_def svc_ValidateUpdate_def invalid_if_any_def ValidateArtifact_def)
  define job where "job = fst (execution_job env service sshKeySecrets inventorySecrets nodeSetName deployment eid annotations aeeSpec)"
  obtain a where "job_sources job = job_sources (fst (BuildAeeJobSpec env service deployment nodeSetName aeeSpec a))"
    unfolding job_def using execution_job_sources by blast
  then have "ej_Playbook job \<noteq> [] \<or> ej_PlaybookContents job \<noteq> [] \<or> ej_Role job \<noteq> []"
    using run unfolding BuildAeeJobSpec_sources prod.inject by argo
  then show ?thesis unfolding job_def [symmetric] runner_args_def by (elim disjE) simp_all
qed

text \<open>An admitted update of a deployment changes nothing but the representation of an empty override list.\<close>

lemma dep_spec_immutable: "dep_ValidateUpdate (Some old) spec = Admit \<longleftrightarrow> dep_Default spec = dep_Default old"
  by (simp add: dep_ValidateUpdate_def invalid_if_any_def)

subsection \<open>Concrete node sets\<close>

definition sample_webhook_env :: webhook_env where
  "sample_webhook_env = \<lparr>we_hostname_rfc1123 = (\<lambda>_. True), we_IsDNS1123Label = (\<lambda>_. []), we_ValidateTemplate = (\<lambda>_ _ _. None),
     we_IsError = (\<lambda>c. case c of None \<Rightarrow> False | Some c \<Rightarrow> c_severity c = SeverityError)\<rparr>"

definition one_node_set :: "string \<Rightarrow> string \<Rightarrow> string \<Rightarrow> dp_nodeset" where
  "one_node_set n h ip = (sample_nodeset n [])\<lparr>ns_Nodes := [(h, pre_node h ip)], ns_TemplateUser := ''cloud-admin''\<rparr>"

lemma one_node_set_sel [simp]:
  "ns_Name (one_node_set n h ip) = n" "ns_Namespace (one_node_set n h ip) = ''openstack''" "ns_PreProvisioned (one_node_set n h ip)"
  "ns_Nodes (one_node_set n h ip) = [(h, pre_node h ip)]" "ns_ExtraMounts (one_node_set n h ip) = []"
  by (simp_all add: one_node_set_def sample_nodeset_def)

lemma one_node_set_Default [simp]: "h \<noteq> [] \<Longrightarrow> ns_Default (one_node_set n h ip) = one_node_set n h ip"
  by (simp add: one_node_set_def sample_nodeset_def ns_Default_def default_node_def pre_node_def sample_node_def Let_def)

lemma template_nodeset_name [simp]: "ns_Name template_nodeset = ''edpm''"
  by (simp add: template_nodeset_def sample_nodeset_def)

theorem duplicateNodeCheck_iff_witness:
  "duplicateNodeCheck template_nodeset [one_node_set ''other'' ''h2'' ''192.168.122.100''] ''edpm'' \<noteq> []
   \<and> duplicateNodeCheck template_nodeset [one_node_set ''other'' ''h2'' ''192.168.122.102''] ''edpm'' = []"
proof
  show "duplicateNodeCheck template_nodeset [one_node_set ''other'' ''h2'' ''192.168.122.100''] ''edpm'' \<noteq> []"
    using duplicateNodeCheck_iff [of template_nodeset "[one_node_set ''other'' ''h2'' ''192.168.122.100'']"]
    by (simp add: hosts_named_def node_names_def)
  show "duplicateNodeCheck template_nodeset [one_node_set ''other'' ''h2'' ''192.168.122.102''] ''edpm'' = []"
    using duplicateNodeCheck_iff [of template_nodeset "[one_node_set ''other'' ''h2'' ''192.168.122.102'']"]
    by (simp add: hosts_named_def node_names_def less_Suc_eq)
qed

theorem ns_Default_idempotent_witness:
  "ns_Default (ns_Default template_nodeset) = ns_Default template_nodeset \<and> hosts_named (ns_Default template_nodeset)"
  by (rule ns_Default_idempotent) simp

definition domain_template :: bm_template where
  "domain_template = \<lparr>bt_DomainName = ''example.com'', bt_CloudUserName = ''cloud-admin'', bt_DeploymentSSHSecret = [],
     bt_OSContainerImageURL = [], bt_AgentImageURL = [], bt_ApacheImageURL = [], bt_Other = []\<rparr>"

theorem default_host_name_replaced_witness:
  "\<exists>node'. (''n0'', node') \<in> set (ns_Nodes (ns_Default (template_nodeset\<lparr>ns_PreProvisioned := False,
     ns_BaremetalSetTemplate := Some domain_template\<rparr>))) \<and> nd_HostName node' = ''n0'' @ CHR ''.'' # bt_DomainName domain_template"
proof (rule default_host_name_replaced)
  show "(''n0'', pre_node ''h0'' ''192.168.122.100'') \<in> set (ns_Nodes (template_nodeset\<lparr>ns_PreProvisioned := False,
      ns_BaremetalSetTemplate := Some domain_template\<rparr>))" by simp
  have "\<not> NodeHostNameIsFQDN ''h0''" by code_simp
  then show "\<not> NodeHostNameIsFQDN (nd_HostName (pre_node ''h0'' ''192.168.122.100''))" by simp
qed (simp_all add: domain_template_def)

lemma sample_cluster:
  "cluster L sample_webhook_env [one_node_set ''b'' ''h1'' ''192.168.122.101'', one_node_set ''a'' ''h0'' ''192.168.122.100'']"
proof -
  let ?a = "one_node_set ''a'' ''h0'' ''192.168.122.100''" and ?b = "one_node_set ''b'' ''h1'' ''192.168.122.101''"
  have valid: "ns_ValidateCreate sample_webhook_env (Inr []) ?a = Admit" "ns_ValidateCreate sample_webhook_env (Inr [?a]) ?b = Admit"
    by (simp_all add: ns_ValidateCreate_def validateNodes_def validatePreProvisionedNodes_def duplicateNodeCheck_def existing_names_def
        node_names_def invalid_if_any_def sample_webhook_env_def)
  have "cluster L sample_webhook_env [?a]"
    using cluster.created [OF cluster.empty, of ?a] valid(1) by simp
  from cluster.created [OF this, of ?b] show ?thesis using valid(2) by simp
qed

theorem cluster_nodes_apart_witness:
  "apart (one_node_set ''a'' ''h0'' ''192.168.122.100'') (one_node_set ''b'' ''h1'' ''192.168.122.101'')"
  by (rule cluster_nodes_apart [OF sample_cluster [of list_condlib]]) simp_all

definition twin_nodeset :: dp_nodeset where
  "twin_nodeset = (sample_nodeset ''edpm'' [])\<lparr>ns_Nodes := [(''n0'', pre_node ''h0'' ''192.168.122.100''), (''n1'', pre_node ''h1'' ''192.168.122.100'')]\<rparr>"

lemma twin_nodeset_sel [simp]:
  "ns_Name twin_nodeset = ''edpm''" "ns_PreProvisioned twin_nodeset" "ns_ExtraMounts twin_nodeset = []"
  "ns_Nodes twin_nodeset = [(''n0'', pre_node ''h0'' ''192.168.122.100''), (''n1'', pre_node ''h1'' ''192.168.122.100'')]"
  by (simp_all add: twin_nodeset_def sample_nodeset_def)

theorem first_nodeset_unchecked_witness:
  "ns_ValidateCreate sample_webhook_env (Inr []) twin_nodeset = Admit
   \<and> (\<exists>errors. ns_ValidateUpdate list_condlib sample_webhook_env (Inr [twin_nodeset]) (Some twin_nodeset)
         (twin_nodeset\<lparr>ns_TLSEnabled := True\<rparr>) = RejectInvalid errors)"
  by (rule first_nodeset_unchecked [of _ _ 0 1])
    (simp_all add: hosts_named_def validatePreProvisionedNodes_def node_names_def sample_webhook_env_def)

theorem update_panics_on_new_deployment_witness:
  "ns_ValidateUpdate list_condlib sample_webhook_env (Inr []) (Some (record_statuses sample_deployment (one_node_set ''edpm'' ''h0'' ''192.168.122.100'')))
     (one_node_set ''edpm'' ''h0'' ''192.168.122.100'') = AdmissionPanic"
  by (rule update_panics_on_new_deployment [OF list_condlib_laws _ _ refl])
    (simp_all add: sample_webhook_env_def sample_deployment_def one_node_set_def sample_nodeset_def validateNodes_def
      validatePreProvisionedNodes_def spec_ValidateUpdate_def)

theorem admitted_service_runs_witness:
  "runner_args (fst (execution_job sample_job_env (sample_service ''nova'' False) [] [] ''edpm'' sample_deployment (''n'', []) [] sample_aee)) \<noteq> None"
  by (rule admitted_service_runs) (simp add: svc_ValidateCreate_def invalid_if_any_def ValidateArtifact_def sample_service_def)

end
