(* ===== verification/Ctlplane_Types.thy ===== *)
theory Ctlplane_Types
  imports Resources Net_Names
begin

text \<open>
  The spec of an \<open>OpenStackControlPlane\<close> as its webhook sees it
  (\<open>api/core/v1beta1/openstackcontrolplane_types.go\<close>), and the names of services.

  Every service has a section with the flag \<open>Enabled\<close>; most have one \<open>Template\<close>, the spec of an object of another
  operator, some a map \<open>Templates\<close> of instances.  The sections are functions of the service here.  The types of the
  templates are not part of the repository: \<open>template\<close> is the union of the fields the code reads or writes in
  them, and \<open>tp_Other\<close> stands for the rest.  A field that the template of a service does not have is not used for
  it; \<open>tp_NotificationBusInstance\<close> is Glance's.
\<close>

subsection \<open>Templates\<close>

record rabbitmq_config =
  rq_User :: string
  rq_Vhost :: string
  rq_Cluster :: string

text \<open>A messaging bus with the deprecated name of its cluster, and a notifications bus with the same.\<close>

record bus_pair =
  bp_MessagingBus :: rabbitmq_config
  bp_RabbitMqClusterName :: string

record notifications_pair =
  np_NotificationsBus :: "rabbitmq_config ptr"
  np_RabbitMqClusterName :: string

record nova_cell =
  nc_MessagingBus :: rabbitmq_config
  nc_CellMessageBusInstance :: string
  nc_Other :: string

record template =
  tp_Secret :: string
  tp_StorageClass :: string
  tp_DatabaseInstance :: string
  tp_WatcherDatabaseInstance :: "string ptr"
  tp_MessagingBus :: rabbitmq_config
  tp_RabbitMqClusterName :: string
  tp_WatcherRabbitMqClusterName :: "string ptr"
  tp_NotificationsBus :: "rabbitmq_config ptr"
  tp_NotificationsBusInstance :: "string ptr"
  tp_NotificationBusInstance :: "string ptr"
  tp_IronicNeutronAgent :: bus_pair
  tp_SwiftProxy :: notifications_pair
  tp_APIMessageBusInstance :: string
  tp_CellTemplates :: "(string, nova_cell) gomap"
  tp_CloudKitty :: bus_pair
  tp_Aodh :: notifications_pair
  tp_Ceilometer :: notifications_pair
  tp_CeilometerEnabled :: "bool ptr"
  tp_AutoscalingEnabled :: "bool ptr"
  tp_MetricStorageEnabled :: "bool ptr"
  tp_GlanceAPIs :: "(string, string) gomap"
  tp_CinderVolumes :: "string list"
  tp_Other :: string

text \<open>The zero values of the types.\<close>

definition empty_config :: rabbitmq_config where
  "empty_config = \<lparr>rq_User = [], rq_Vhost = [], rq_Cluster = []\<rparr>"

definition empty_template :: template where
  "empty_template = \<lparr>tp_Secret = [], tp_StorageClass = [], tp_DatabaseInstance = [], tp_WatcherDatabaseInstance = None,
     tp_MessagingBus = empty_config, tp_RabbitMqClusterName = [], tp_WatcherRabbitMqClusterName = None,
     tp_NotificationsBus = None, tp_NotificationsBusInstance = None, tp_NotificationBusInstance = None,
     tp_IronicNeutronAgent = \<lparr>bp_MessagingBus = empty_config, bp_RabbitMqClusterName = []\<rparr>,
     tp_SwiftProxy = \<lparr>np_NotificationsBus = None, np_RabbitMqClusterName = []\<rparr>,
     tp_APIMessageBusInstance = [], tp_CellTemplates = [],
     tp_CloudKitty = \<lparr>bp_MessagingBus = empty_config, bp_RabbitMqClusterName = []\<rparr>,
     tp_Aodh = \<lparr>np_NotificationsBus = None, np_RabbitMqClusterName = []\<rparr>,
     tp_Ceilometer = \<lparr>np_NotificationsBus = None, np_RabbitMqClusterName = []\<rparr>,
     tp_CeilometerEnabled = None, tp_AutoscalingEnabled = None, tp_MetricStorageEnabled = None,
     tp_GlanceAPIs = [], tp_CinderVolumes = [], tp_Other = []\<rparr>"

record instance_template =
  it_StorageClass :: string
  it_Other :: string

record ovn_resources =
  or_OVNDBCluster :: "(string, string) gomap"
  or_OVNNorthd :: string
  or_OVNController :: string

subsection \<open>Routes\<close>

record embedded_metadata =
  em_Labels :: "(string, string) gomap"
  em_Annotations :: "(string, string) gomap option"

record route_tls =
  rtls_Certificate :: string
  rtls_Key :: string
  rtls_CACertificate :: string

text \<open>\<open>route.OverrideSpec\<close>; of its \<open>Spec\<close> only the TLS settings matter.\<close>

record route_override =
  ro_EmbeddedLabelsAnnotations :: "embedded_metadata ptr"
  ro_Spec :: "route_tls ptr ptr"

definition empty_override :: route_override where
  "empty_override = \<lparr>ro_EmbeddedLabelsAnnotations = None, ro_Spec = None\<rparr>"

record api_override =
  ao_Route :: "route_override ptr"
  ao_TLS :: "string ptr"

text \<open>The overrides of the sections: \<open>APIOverride\<close> of most services and those that have names of their own.\<close>

datatype route_slot =
    APIOverride os_service | InspectorOverride | CnfAPIOverride | AodhAPIOverride | PrometheusOverride | AlertmanagerOverride
  | ProxyOverride

subsection \<open>The control plane\<close>

record ctlplane =
  oc_Name :: string
  oc_Namespace :: string
  oc_UID :: string
  oc_Group :: string
  oc_Kind :: string
  oc_Labels :: "(string, string) gomap option"
  oc_Annotations :: "(string, string) gomap option"
  oc_Secret :: string
  oc_StorageClass :: string
  oc_Enabled :: "os_service \<Rightarrow> bool"
  oc_Template :: "os_service \<Rightarrow> template ptr"
  oc_Templates :: "os_service \<Rightarrow> (string, instance_template) gomap ptr"
  oc_OvnTemplate :: "ovn_resources ptr"
  oc_Route :: "route_slot \<Rightarrow> route_override ptr"
  oc_GlanceAPIOverride :: "(string, api_override) gomap option"
  oc_UniquePodNames :: "os_service \<Rightarrow> bool"
  oc_ServiceName :: "os_service \<Rightarrow> string"
  oc_MessagingBus :: "rabbitmq_config ptr"
  oc_NotificationsBus :: "rabbitmq_config ptr"
  oc_NotificationsBusInstance :: "string ptr"
  oc_TopologyRefNamespace :: "string ptr"

definition CinderName :: string where
  "CinderName = ''cinder''"

definition GlanceName :: string where
  "GlanceName = ''glance''"

definition service_base_name :: "os_service \<Rightarrow> string" where
  "service_base_name s = (if s = Cinder then CinderName else if s = Glance then GlanceName else [])"

subsection \<open>Names of services\<close>

text \<open>The name of the object of a service and the name it has with the other setting of \<open>UniquePodNames\<close>.\<close>

definition GetServiceName :: "string \<Rightarrow> string \<Rightarrow> bool \<Rightarrow> string \<times> string" where
  "GetServiceName uid name uniquePodNames =
     (let uidSuffix = (if 5 \<le> length uid then take 5 uid else []);
          altName = (if uidSuffix \<noteq> [] then name @ CHR ''-'' # uidSuffix else name)
      in if uniquePodNames then (altName, name) else (name, altName))"

definition GetServiceNameCached :: "string \<Rightarrow> string \<Rightarrow> bool \<Rightarrow> string \<Rightarrow> string \<times> string" where
  "GetServiceNameCached uid name uniquePodNames cachedName =
     (if uniquePodNames \<and> cachedName \<noteq> [] then (cachedName, name) else GetServiceName uid name uniquePodNames)"

end
