(* ===== verification/Ctlplane_Migration.thy ===== *)
theory Ctlplane_Migration
  imports Ctlplane_Types
begin

text \<open>
  Migration of the deprecated names of RabbitMQ clusters in a control plane: \<open>migrateDeprecatedFields\<close> of
  \<open>api/core/v1beta1/openstackcontrolplane_webhook.go\<close> and its helpers, and what it keeps: the cluster each bus of
  each service uses.
\<close>

subsection \<open>One bus\<close>

definition migrateServiceMessagingBus :: "rabbitmq_config \<Rightarrow> string \<Rightarrow> rabbitmq_config \<times> string" where
  "migrateServiceMessagingBus bus deprecatedField =
     (let bus' = (if rq_Cluster bus = [] \<and> deprecatedField \<noteq> [] then bus\<lparr>rq_Cluster := deprecatedField\<rparr> else bus)
      in (bus', if rq_Cluster bus' \<noteq> [] then [] else deprecatedField))"

text \<open>The part the two migrations of a notifications bus share, for a value that is not empty.\<close>

definition notifications_cluster :: "rabbitmq_config ptr \<Rightarrow> string \<Rightarrow> rabbitmq_config ptr" where
  "notifications_cluster bus cluster =
     (let b = (case bus of None \<Rightarrow> empty_config | Some b \<Rightarrow> b)
      in Some (if rq_Cluster b = [] then b\<lparr>rq_Cluster := cluster\<rparr> else b))"

definition migrateServiceNotificationsBus :: "rabbitmq_config ptr \<Rightarrow> string \<Rightarrow> rabbitmq_config ptr \<times> string" where
  "migrateServiceNotificationsBus bus deprecatedField =
     (if deprecatedField \<noteq> [] then (notifications_cluster bus deprecatedField, []) else (bus, deprecatedField))"

definition migrateServiceNotificationsBusInstance ::
    "rabbitmq_config ptr \<Rightarrow> string ptr \<Rightarrow> rabbitmq_config ptr \<times> string ptr" where
  "migrateServiceNotificationsBusInstance bus deprecatedField =
     (case deprecatedField of
        Some d \<Rightarrow> if d \<noteq> [] then (notifications_cluster bus d, None) else (bus, deprecatedField)
      | None \<Rightarrow> (bus, None))"

subsection \<open>The templates\<close>

definition migrate_messaging :: "template \<Rightarrow> template" where
  "migrate_messaging t =
     (let (bus, dep) = migrateServiceMessagingBus (tp_MessagingBus t) (tp_RabbitMqClusterName t)
      in t\<lparr>tp_MessagingBus := bus, tp_RabbitMqClusterName := dep\<rparr>)"

definition migrate_instance :: "template \<Rightarrow> template" where
  "migrate_instance t =
     (let (bus, dep) = migrateServiceNotificationsBusInstance (tp_NotificationsBus t) (tp_NotificationsBusInstance t)
      in t\<lparr>tp_NotificationsBus := bus, tp_NotificationsBusInstance := dep\<rparr>)"

definition migrate_notifications :: "template \<Rightarrow> template" where
  "migrate_notifications t =
     (let (bus, dep) = migrateServiceNotificationsBus (tp_NotificationsBus t) (tp_RabbitMqClusterName t)
      in t\<lparr>tp_NotificationsBus := bus, tp_RabbitMqClusterName := dep\<rparr>)"

text \<open>The three places that spell the migration of a messaging bus out.\<close>

definition migrate_pair :: "bus_pair \<Rightarrow> bus_pair" where
  "migrate_pair p =
     (let p1 = (if rq_Cluster (bp_MessagingBus p) = [] \<and> bp_RabbitMqClusterName p \<noteq> []
                then p\<lparr>bp_MessagingBus := (bp_MessagingBus p)\<lparr>rq_Cluster := bp_RabbitMqClusterName p\<rparr>\<rparr> else p)
      in if rq_Cluster (bp_MessagingBus p1) \<noteq> [] then p1\<lparr>bp_RabbitMqClusterName := []\<rparr> else p1)"

definition migrate_notifications_pair :: "notifications_pair \<Rightarrow> notifications_pair" where
  "migrate_notifications_pair p =
     (let (bus, dep) = migrateServiceNotificationsBus (np_NotificationsBus p) (np_RabbitMqClusterName p)
      in p\<lparr>np_NotificationsBus := bus, np_RabbitMqClusterName := dep\<rparr>)"

definition migrate_cell :: "nova_cell \<Rightarrow> nova_cell" where
  "migrate_cell c =
     (let c1 = (if rq_Cluster (nc_MessagingBus c) = [] \<and> nc_CellMessageBusInstance c \<noteq> []
                then c\<lparr>nc_MessagingBus := (nc_MessagingBus c)\<lparr>rq_Cluster := nc_CellMessageBusInstance c\<rparr>\<rparr> else c)
      in if rq_Cluster (nc_MessagingBus c1) \<noteq> [] then c1\<lparr>nc_CellMessageBusInstance := []\<rparr> else c1)"

definition migrate_nova :: "template \<Rightarrow> template" where
  "migrate_nova t =
     (let t1 = (if rq_Cluster (tp_MessagingBus t) = [] \<and> tp_APIMessageBusInstance t \<noteq> []
                then t\<lparr>tp_MessagingBus := (tp_MessagingBus t)\<lparr>rq_Cluster := tp_APIMessageBusInstance t\<rparr>\<rparr> else t);
          t2 = (if rq_Cluster (tp_MessagingBus t1) \<noteq> [] then t1\<lparr>tp_APIMessageBusInstance := []\<rparr> else t1);
          t3 = t2\<lparr>tp_CellTemplates := map (\<lambda>(n, c). (n, migrate_cell c)) (tp_CellTemplates t2)\<rparr>
      in migrate_instance t3)"

definition migrate_ironic :: "template \<Rightarrow> template" where
  "migrate_ironic t = (let t1 = migrate_messaging t in t1\<lparr>tp_IronicNeutronAgent := migrate_pair (tp_IronicNeutronAgent t1)\<rparr>)"

definition migrate_watcher :: "template \<Rightarrow> template" where
  "migrate_watcher t =
     migrate_instance
       (case tp_WatcherRabbitMqClusterName t of
          None \<Rightarrow> t
        | Some n \<Rightarrow> t\<lparr>tp_MessagingBus := fst (migrateServiceMessagingBus (tp_MessagingBus t) n), tp_WatcherRabbitMqClusterName := None\<rparr>)"

definition migrate_swift :: "template \<Rightarrow> template" where
  "migrate_swift t = t\<lparr>tp_SwiftProxy := migrate_notifications_pair (tp_SwiftProxy t)\<rparr>"

definition migrate_telemetry :: "template \<Rightarrow> template" where
  "migrate_telemetry t = t\<lparr>tp_CloudKitty := migrate_pair (tp_CloudKitty t), tp_Aodh := migrate_notifications_pair (tp_Aodh t),
     tp_Ceilometer := migrate_notifications_pair (tp_Ceilometer t)\<rparr>"

text \<open>The blocks of \<open>migrateDeprecatedFields\<close>, one per service, each for a template that is there.  There is none for
  Glance, whose deprecated field only \<open>ReconcileGlance\<close> reads.\<close>

definition migrate_template :: "os_service \<Rightarrow> template \<Rightarrow> template" where
  "migrate_template s =
     (case s of
        Cinder \<Rightarrow> migrate_instance \<circ> migrate_messaging
      | Manila \<Rightarrow> migrate_instance \<circ> migrate_messaging
      | Neutron \<Rightarrow> migrate_instance \<circ> migrate_messaging
      | Heat \<Rightarrow> migrate_messaging
      | Ironic \<Rightarrow> migrate_ironic
      | Barbican \<Rightarrow> migrate_messaging
      | Designate \<Rightarrow> migrate_messaging
      | Octavia \<Rightarrow> migrate_messaging
      | Watcher \<Rightarrow> migrate_watcher
      | Keystone \<Rightarrow> migrate_notifications
      | Swift \<Rightarrow> migrate_swift
      | Nova \<Rightarrow> migrate_nova
      | Telemetry \<Rightarrow> migrate_telemetry
      | _ \<Rightarrow> (\<lambda>t. t))"

definition migrate_top :: "ctlplane \<Rightarrow> ctlplane" where
  "migrate_top r =
     (case oc_NotificationsBusInstance r of
        Some n \<Rightarrow> if n \<noteq> [] then r\<lparr>oc_NotificationsBus := notifications_cluster (oc_NotificationsBus r) n, oc_NotificationsBusInstance := None\<rparr>
                  else r
      | None \<Rightarrow> r)"

definition migrateDeprecatedFields :: "ctlplane \<Rightarrow> ctlplane" where
  "migrateDeprecatedFields r =
     (let r1 = migrate_top r in r1\<lparr>oc_Template := (\<lambda>s. map_option (migrate_template s) (oc_Template r1 s))\<rparr>)"

subsection \<open>What the migration keeps\<close>

text \<open>The cluster a bus uses: the new field if it is set, the deprecated one otherwise.\<close>

definition in_effect :: "string \<Rightarrow> string \<Rightarrow> string" where
  "in_effect new old = (if new \<noteq> [] then new else old)"

definition config_cluster :: "rabbitmq_config ptr \<Rightarrow> string" where
  "config_cluster bus = (case bus of None \<Rightarrow> [] | Some b \<Rightarrow> rq_Cluster b)"

definition deref :: "string ptr \<Rightarrow> string" where
  "deref p = (case p of None \<Rightarrow> [] | Some s \<Rightarrow> s)"

abbreviation pair_cluster :: "bus_pair \<Rightarrow> string" where
  "pair_cluster p \<equiv> in_effect (rq_Cluster (bp_MessagingBus p)) (bp_RabbitMqClusterName p)"

abbreviation notifications_pair_cluster :: "notifications_pair \<Rightarrow> string" where
  "notifications_pair_cluster p \<equiv> in_effect (config_cluster (np_NotificationsBus p)) (np_RabbitMqClusterName p)"

text \<open>The abstract view of the template of a service: the cluster of each of its buses.\<close>

definition clusters :: "os_service \<Rightarrow> template \<Rightarrow> string list" where
  "clusters s t =
     (let messaging = in_effect (rq_Cluster (tp_MessagingBus t)) (tp_RabbitMqClusterName t);
          notifications = in_effect (config_cluster (tp_NotificationsBus t)) (deref (tp_NotificationsBusInstance t))
      in case s of
           Glance \<Rightarrow> [in_effect (config_cluster (tp_NotificationsBus t)) (deref (tp_NotificationBusInstance t))]
         | Cinder \<Rightarrow> [messaging, notifications]
         | Manila \<Rightarrow> [messaging, notifications]
         | Neutron \<Rightarrow> [messaging, notifications]
         | Heat \<Rightarrow> [messaging]
         | Ironic \<Rightarrow> [messaging, pair_cluster (tp_IronicNeutronAgent t)]
         | Barbican \<Rightarrow> [messaging]
         | Designate \<Rightarrow> [messaging]
         | Octavia \<Rightarrow> [messaging]
         | Watcher \<Rightarrow> [in_effect (rq_Cluster (tp_MessagingBus t)) (deref (tp_WatcherRabbitMqClusterName t)), notifications]
         | Keystone \<Rightarrow> [in_effect (config_cluster (tp_NotificationsBus t)) (tp_RabbitMqClusterName t)]
         | Swift \<Rightarrow> [notifications_pair_cluster (tp_SwiftProxy t)]
         | Nova \<Rightarrow> in_effect (rq_Cluster (tp_MessagingBus t)) (tp_APIMessageBusInstance t) # notifications
                   # map (\<lambda>(_, c). in_effect (rq_Cluster (nc_MessagingBus c)) (nc_CellMessageBusInstance c)) (tp_CellTemplates t)
         | Telemetry \<Rightarrow> [pair_cluster (tp_CloudKitty t), notifications_pair_cluster (tp_Aodh t), notifications_pair_cluster (tp_Ceilometer t)]
         | _ \<Rightarrow> [])"

text \<open>The deprecated fields of the template of a service.\<close>

definition deprecated_values :: "os_service \<Rightarrow> template \<Rightarrow> string list" where
  "deprecated_values s t =
     (let name = tp_RabbitMqClusterName t; inst = deref (tp_NotificationsBusInstance t)
      in case s of
           Glance \<Rightarrow> [deref (tp_NotificationBusInstance t)]
         | Cinder \<Rightarrow> [name, inst]
         | Manila \<Rightarrow> [name, inst]
         | Neutron \<Rightarrow> [name, inst]
         | Heat \<Rightarrow> [name]
         | Ironic \<Rightarrow> [name, bp_RabbitMqClusterName (tp_IronicNeutronAgent t)]
         | Barbican \<Rightarrow> [name]
         | Designate \<Rightarrow> [name]
         | Octavia \<Rightarrow> [name]
         | Watcher \<Rightarrow> [deref (tp_WatcherRabbitMqClusterName t), inst]
         | Keystone \<Rightarrow> [name]
         | Swift \<Rightarrow> [np_RabbitMqClusterName (tp_SwiftProxy t)]
         | Nova \<Rightarrow> tp_APIMessageBusInstance t # inst # map (\<lambda>(_, c). nc_CellMessageBusInstance c) (tp_CellTemplates t)
         | Telemetry \<Rightarrow> [bp_RabbitMqClusterName (tp_CloudKitty t), np_RabbitMqClusterName (tp_Aodh t), np_RabbitMqClusterName (tp_Ceilometer t)]
         | _ \<Rightarrow> [])"

named_theorems migrate_simps \<open>one step of a migration\<close>

lemmas migrate_defs = migrateServiceMessagingBus_def migrateServiceNotificationsBus_def migrateServiceNotificationsBusInstance_def
  notifications_cluster_def migrate_messaging_def migrate_instance_def migrate_notifications_def migrate_pair_def
  migrate_notifications_pair_def migrate_cell_def in_effect_def config_cluster_def deref_def empty_config_def

lemma in_effect_Nil [migrate_simps]: "in_effect x [] = x"
  by (simp add: in_effect_def)

lemma deref_simps [simp]: "deref None = []" "deref (Some x) = x"
  by (simp_all add: deref_def)

lemma messaging_kept [migrate_simps]:
  "rq_Cluster (fst (migrateServiceMessagingBus b d)) = in_effect (rq_Cluster b) d" "snd (migrateServiceMessagingBus b d) = []"
  by (simp_all add: migrate_defs Let_def)

lemma notifications_kept [migrate_simps]:
  "config_cluster (fst (migrateServiceNotificationsBus p d)) = in_effect (config_cluster p) d"
  "snd (migrateServiceNotificationsBus p d) = []"
  by (simp_all add: migrate_defs Let_def split: option.split)

lemma instance_kept [migrate_simps]:
  "config_cluster (fst (migrateServiceNotificationsBusInstance p i)) = in_effect (config_cluster p) (deref i)"
  "deref (snd (migrateServiceNotificationsBusInstance p i)) = []"
  by (simp_all add: migrate_defs Let_def split: option.split)

lemma pair_kept [migrate_simps]:
  "rq_Cluster (bp_MessagingBus (migrate_pair p)) = pair_cluster p" "bp_RabbitMqClusterName (migrate_pair p) = []"
  by (simp_all add: migrate_defs Let_def)

lemma cell_kept [migrate_simps]:
  "rq_Cluster (nc_MessagingBus (migrate_cell c)) = in_effect (rq_Cluster (nc_MessagingBus c)) (nc_CellMessageBusInstance c)"
  "nc_CellMessageBusInstance (migrate_cell c) = []"
  by (simp_all add: migrate_defs Let_def)

lemma notifications_pair_kept [migrate_simps]:
  "config_cluster (np_NotificationsBus (migrate_notifications_pair p)) = notifications_pair_cluster p"
  "np_RabbitMqClusterName (migrate_notifications_pair p) = []"
  by (simp_all add: migrate_notifications_pair_def case_prod_beta migrate_simps)

lemma template_messaging_kept [migrate_simps]:
  "rq_Cluster (tp_MessagingBus (migrate_messaging t)) = in_effect (rq_Cluster (tp_MessagingBus t)) (tp_RabbitMqClusterName t)"
  "tp_RabbitMqClusterName (migrate_messaging t) = []" "tp_NotificationsBus (migrate_messaging t) = tp_NotificationsBus t"
  "tp_NotificationsBusInstance (migrate_messaging t) = tp_NotificationsBusInstance t"
  "tp_IronicNeutronAgent (migrate_messaging t) = tp_IronicNeutronAgent t"
  by (simp_all add: migrate_messaging_def case_prod_beta migrate_simps)

lemma template_instance_kept [migrate_simps]:
  "config_cluster (tp_NotificationsBus (migrate_instance t)) = in_effect (config_cluster (tp_NotificationsBus t)) (deref (tp_NotificationsBusInstance t))"
  "deref (tp_NotificationsBusInstance (migrate_instance t)) = []" "tp_MessagingBus (migrate_instance t) = tp_MessagingBus t"
  "tp_RabbitMqClusterName (migrate_instance t) = tp_RabbitMqClusterName t" "tp_CellTemplates (migrate_instance t) = tp_CellTemplates t"
  "tp_WatcherRabbitMqClusterName (migrate_instance t) = tp_WatcherRabbitMqClusterName t"
  "tp_APIMessageBusInstance (migrate_instance t) = tp_APIMessageBusInstance t"
  by (simp_all add: migrate_instance_def case_prod_beta migrate_simps)

lemma template_notifications_kept [migrate_simps]:
  "config_cluster (tp_NotificationsBus (migrate_notifications t)) = in_effect (config_cluster (tp_NotificationsBus t)) (tp_RabbitMqClusterName t)"
  "tp_RabbitMqClusterName (migrate_notifications t) = []"
  by (simp_all add: migrate_notifications_def case_prod_beta migrate_simps)

lemma nova_kept [migrate_simps]:
  "rq_Cluster (tp_MessagingBus (migrate_nova t)) = in_effect (rq_Cluster (tp_MessagingBus t)) (tp_APIMessageBusInstance t)"
  "tp_APIMessageBusInstance (migrate_nova t) = []"
  "tp_CellTemplates (migrate_nova t) = map (\<lambda>(n, c). (n, migrate_cell c)) (tp_CellTemplates t)"
  "config_cluster (tp_NotificationsBus (migrate_nova t)) = in_effect (config_cluster (tp_NotificationsBus t)) (deref (tp_NotificationsBusInstance t))"
  "deref (tp_NotificationsBusInstance (migrate_nova t)) = []"
  by (simp_all add: migrate_nova_def Let_def migrate_simps) (simp_all add: in_effect_def)

lemma watcher_kept [migrate_simps]:
  "rq_Cluster (tp_MessagingBus (migrate_watcher t)) = in_effect (rq_Cluster (tp_MessagingBus t)) (deref (tp_WatcherRabbitMqClusterName t))"
  "deref (tp_WatcherRabbitMqClusterName (migrate_watcher t)) = []"
  "config_cluster (tp_NotificationsBus (migrate_watcher t)) = in_effect (config_cluster (tp_NotificationsBus t)) (deref (tp_NotificationsBusInstance t))"
  "deref (tp_NotificationsBusInstance (migrate_watcher t)) = []"
  by (simp_all add: migrate_watcher_def migrate_simps deref_simps split: option.split)

lemma clusters_kept: "clusters s (migrate_template s t) = clusters s t"
  by (cases s)
    (simp_all add: clusters_def migrate_template_def migrate_ironic_def migrate_swift_def migrate_telemetry_def Let_def migrate_simps case_prod_beta)

lemma deprecated_cleared: "s \<noteq> Glance \<Longrightarrow> set (deprecated_values s (migrate_template s t)) \<subseteq> {[]}"
  by (cases s)
    (auto simp: deprecated_values_def migrate_template_def migrate_ironic_def migrate_swift_def migrate_telemetry_def Let_def migrate_simps case_prod_beta)

text \<open>Without deprecated values there is nothing to do.\<close>

lemma unchanged [migrate_simps]:
  "tp_RabbitMqClusterName t = [] \<Longrightarrow> migrate_messaging t = t"
  "tp_RabbitMqClusterName t = [] \<Longrightarrow> migrate_notifications t = t"
  "deref (tp_NotificationsBusInstance t) = [] \<Longrightarrow> migrate_instance t = t"
  "bp_RabbitMqClusterName p = [] \<Longrightarrow> migrate_pair p = p"
  "np_RabbitMqClusterName q = [] \<Longrightarrow> migrate_notifications_pair q = q"
  "nc_CellMessageBusInstance c = [] \<Longrightarrow> migrate_cell c = c"
  by (cases "tp_NotificationsBusInstance t"; simp add: migrate_defs Let_def)+

lemma nova_unchanged:
  assumes "tp_APIMessageBusInstance t = []" and "\<forall>(n, c) \<in> set (tp_CellTemplates t). nc_CellMessageBusInstance c = []"
    and "deref (tp_NotificationsBusInstance t) = []"
  shows "migrate_nova t = t"
proof -
  have "map (\<lambda>(n, c). (n, migrate_cell c)) (tp_CellTemplates t) = tp_CellTemplates t"
    using assms(2) by (intro map_idI) (auto simp: unchanged(6))
  then show ?thesis using assms(1,3) by (simp add: migrate_nova_def Let_def unchanged(3))
qed

lemma template_unchanged:
  assumes "set (deprecated_values s t) \<subseteq> {[]}" and "s = Watcher \<Longrightarrow> tp_WatcherRabbitMqClusterName t = None"
  shows "migrate_template s t = t"
proof (cases s)
  case Nova
  then have "tp_APIMessageBusInstance t = []" "deref (tp_NotificationsBusInstance t) = []"
    "\<forall>(n, c) \<in> set (tp_CellTemplates t). nc_CellMessageBusInstance c = []"
    using assms(1) by (auto simp: deprecated_values_def)
  then show ?thesis using Nova by (simp add: migrate_template_def nova_unchanged)
qed (use assms in \<open>simp_all add: deprecated_values_def migrate_template_def migrate_ironic_def migrate_swift_def
      migrate_telemetry_def migrate_watcher_def unchanged\<close>)

lemma glance_left [simp]: "migrate_template Glance t = t"
  by (simp add: migrate_template_def)

lemma migrate_template_idem: "migrate_template s (migrate_template s t) = migrate_template s t"
proof (cases "s = Glance")
  case False
  show ?thesis
  proof (rule template_unchanged [OF deprecated_cleared [OF False]])
    assume "s = Watcher"
    then show "tp_WatcherRabbitMqClusterName (migrate_template s t) = None"
      by (simp add: migrate_template_def migrate_watcher_def migrate_simps split: option.split)
  qed
qed simp

lemma migrate_top_sel [simp]: "oc_Template (migrate_top r) = oc_Template r"
  by (simp add: migrate_top_def split: option.split)

lemma migrate_top_idem: "migrate_top (migrate_top r) = migrate_top r"
  by (simp add: migrate_top_def split: option.split)

lemma migrate_top_update: "migrate_top (r\<lparr>oc_Template := f\<rparr>) = (migrate_top r)\<lparr>oc_Template := f\<rparr>"
  by (simp add: migrate_top_def split: option.split)

text \<open>The abstract view of a control plane: the cluster of its own notifications bus, and those of each service.\<close>

definition bus_clusters :: "ctlplane \<Rightarrow> string \<times> (os_service \<Rightarrow> string list option)" where
  "bus_clusters r = (in_effect (config_cluster (oc_NotificationsBus r)) (deref (oc_NotificationsBusInstance r)),
     \<lambda>s. map_option (clusters s) (oc_Template r s))"

text \<open>The deprecated field of Glance survives every migration: the notifications bus it names stays deprecated in the
  stored object.\<close>

theorem glance_not_migrated:
  "oc_Template (migrateDeprecatedFields r) Glance = oc_Template r Glance"
  by (cases "oc_Template r Glance") (simp_all add: migrateDeprecatedFields_def Let_def)

text \<open>C22: the migration of deprecated fields is transparent.  It leaves every bus of every service, and the
  notifications bus of the control plane, with the cluster that was in effect before, whether it was given by the
  new field or by the deprecated one; afterwards no deprecated field has a value, of any service but Glance, whose
  deprecated notifications bus keeps the value it had; and migrating again changes nothing.\<close>

theorem migration_transparent:
  "bus_clusters (migrateDeprecatedFields r) = bus_clusters r
   \<and> (\<forall>s. pred_option (\<lambda>t. set (deprecated_values s t) \<subseteq> {[]}) (if s = Glance then None else oc_Template (migrateDeprecatedFields r) s))
   \<and> map_option tp_NotificationBusInstance (oc_Template (migrateDeprecatedFields r) Glance)
     = map_option tp_NotificationBusInstance (oc_Template r Glance)
   \<and> deref (oc_NotificationsBusInstance (migrateDeprecatedFields r)) = []
   \<and> migrateDeprecatedFields (migrateDeprecatedFields r) = migrateDeprecatedFields r"
proof -
  have top: "config_cluster (oc_NotificationsBus (migrate_top r)) = in_effect (config_cluster (oc_NotificationsBus r)) (deref (oc_NotificationsBusInstance r))"
    "deref (oc_NotificationsBusInstance (migrate_top r)) = []"
    by (simp_all add: migrate_top_def notifications_cluster_def config_cluster_def in_effect_def empty_config_def Let_def split: option.split)
  then have 1: "bus_clusters (migrateDeprecatedFields r) = bus_clusters r"
    by (simp add: bus_clusters_def migrateDeprecatedFields_def Let_def in_effect_Nil option.map_comp comp_def clusters_kept)
  have 2: "\<forall>s. pred_option (\<lambda>t. set (deprecated_values s t) \<subseteq> {[]}) (if s = Glance then None else oc_Template (migrateDeprecatedFields r) s)"
    using deprecated_cleared by (auto simp: migrateDeprecatedFields_def Let_def option.pred_set)
  have 3: "migrateDeprecatedFields (migrateDeprecatedFields r) = migrateDeprecatedFields r"
    by (simp add: migrateDeprecatedFields_def Let_def migrate_top_update migrate_top_idem option.map_comp comp_def migrate_template_idem)
  have 4: "deref (oc_NotificationsBusInstance (migrateDeprecatedFields r)) = []"
    using top(2) by (simp add: migrateDeprecatedFields_def Let_def)
  have 5: "map_option tp_NotificationBusInstance (oc_Template (migrateDeprecatedFields r) Glance)
      = map_option tp_NotificationBusInstance (oc_Template r Glance)" by (simp add: glance_not_migrated)
  from 1 2 3 4 5 show ?thesis by blast
qed

end
