(* ===== verification/Ctlplane_Webhook.thy ===== *)
theory Ctlplane_Webhook
  imports Ctlplane_Migration
begin

text \<open>
  Admission of an \<open>OpenStackControlPlane\<close>: the methods of \<open>api/core/v1beta1/openstackcontrolplane_webhook.go\<close> and
  \<open>cacheServiceNames\<close> of \<open>internal/webhook/core/v1beta1/openstackcontrolplane_webhook.go\<close>.

  \<open>svc_lib\<close> has the functions of the service operators and of \<open>lib-common\<close> that the code calls.  A validator gets
  the pointer to the template and returns \<open>None\<close> when it panics.  A check of the webhook yields warnings and errors,
  or \<open>None\<close> when it panics.
\<close>

type_synonym findings = "string list \<times> field_error list"

record svc_lib =
  sl_Default :: "os_service \<Rightarrow> string \<Rightarrow> template \<Rightarrow> template"
  sl_InstanceDefault :: "os_service \<Rightarrow> instance_template \<Rightarrow> instance_template"
  sl_OVNDBClusterDefault :: "string \<Rightarrow> string"
  sl_OVNNorthdDefault :: "string \<Rightarrow> string"
  sl_OVNControllerDefault :: "string \<Rightarrow> string"
  sl_RouteAnnotations :: "route_slot \<Rightarrow> template \<Rightarrow> (string, string) gomap \<Rightarrow> (string, string) gomap"
  sl_APIEdge :: string
  sl_GlanceRouteAnnotations :: "string \<Rightarrow> (string, string) gomap \<Rightarrow> (string, string) gomap"
  sl_ValidateCreate :: "os_service \<Rightarrow> template ptr \<Rightarrow> string \<Rightarrow> string \<Rightarrow> findings option"
  sl_ValidateUpdate :: "os_service \<Rightarrow> template ptr \<Rightarrow> template \<Rightarrow> string \<Rightarrow> string \<Rightarrow> findings option"
  sl_InstanceValidateCreate :: "os_service \<Rightarrow> instance_template \<Rightarrow> string \<Rightarrow> string \<Rightarrow> findings"
  sl_InstanceValidateUpdate :: "os_service \<Rightarrow> instance_template \<Rightarrow> instance_template \<Rightarrow> string \<Rightarrow> string \<Rightarrow> findings"
  sl_ValidateDNS1123Label :: "string \<Rightarrow> string list \<Rightarrow> int \<Rightarrow> field_error list"
  sl_GlanceCorrection :: "string \<Rightarrow> string \<Rightarrow> int"
  sl_CinderCorrection :: "string \<Rightarrow> int"
  sl_CrMaxLengthCorrection :: "os_service \<Rightarrow> int"
  sl_ValidateTopologyNamespace :: "string \<Rightarrow> string \<Rightarrow> string \<Rightarrow> field_error option"
  sl_ValidateDeprecatedCreate :: "string ptr \<Rightarrow> string ptr \<Rightarrow> string list"
  sl_ValidateDeprecatedUpdate :: "string ptr \<Rightarrow> string ptr \<Rightarrow> string ptr \<Rightarrow> findings"

subsection \<open>Defaults\<close>

definition initializeOverrideSpec :: "route_override ptr \<Rightarrow> bool \<Rightarrow> route_override" where
  "initializeOverrideSpec override initAnnotations =
     (let o1 = (case override of None \<Rightarrow> empty_override | Some x \<Rightarrow> x)
      in if initAnnotations
         then (let e = (case ro_EmbeddedLabelsAnnotations o1 of None \<Rightarrow> \<lparr>em_Labels = [], em_Annotations = None\<rparr> | Some e \<Rightarrow> e)
               in o1\<lparr>ro_EmbeddedLabelsAnnotations := Some (e\<lparr>em_Annotations := Some (unnil (em_Annotations e))\<rparr>)\<rparr>)
         else o1)"

text \<open>The annotations of an initialised override are passed to a function that adds to them in place.\<close>

definition annotate :: "((string, string) gomap \<Rightarrow> (string, string) gomap) \<Rightarrow> route_override ptr \<Rightarrow> route_override" where
  "annotate f override =
     (let o1 = initializeOverrideSpec override True
      in o1\<lparr>ro_EmbeddedLabelsAnnotations := map_option (\<lambda>e. e\<lparr>em_Annotations := map_option f (em_Annotations e)\<rparr>) (ro_EmbeddedLabelsAnnotations o1)\<rparr>)"

definition setOverrideSpec :: "((string, string) gomap \<Rightarrow> route_override \<Rightarrow> route_override) \<Rightarrow> (string, string) gomap \<Rightarrow> route_override ptr \<Rightarrow> route_override" where
  "setOverrideSpec addAnnotation anno override = addAnnotation anno (initializeOverrideSpec override False)"

definition template_or_empty :: "ctlplane \<Rightarrow> os_service \<Rightarrow> template" where
  "template_or_empty r s = (case oc_Template r s of None \<Rightarrow> empty_template | Some t \<Rightarrow> t)"

definition set_template :: "os_service \<Rightarrow> template \<Rightarrow> ctlplane \<Rightarrow> ctlplane" where
  "set_template s t r = r\<lparr>oc_Template := (oc_Template r)(s := Some t)\<rparr>"

definition set_route :: "route_slot \<Rightarrow> route_override \<Rightarrow> ctlplane \<Rightarrow> ctlplane" where
  "set_route slot o1 r = r\<lparr>oc_Route := (oc_Route r)(slot := Some o1)\<rparr>"

definition in_use :: "ctlplane \<Rightarrow> os_service \<Rightarrow> bool" where
  "in_use r s \<longleftrightarrow> oc_Enabled r s \<or> oc_Template r s \<noteq> None"

text \<open>The block most services have: a template if there is none, what the control plane sets before (\<open>pre\<close>), the
  defaults of the service, and the routes of the section, each with the method that annotates it.\<close>

definition default_section ::
    "svc_lib \<Rightarrow> os_service \<Rightarrow> (template \<Rightarrow> template) \<Rightarrow> (route_slot \<times> route_slot) list \<Rightarrow> ctlplane \<Rightarrow> ctlplane" where
  "default_section lib s pre routes r =
     (if in_use r s
      then (let t = sl_Default lib s (oc_Namespace r) (pre (template_or_empty r s))
            in fold (\<lambda>(slot, meth) r. set_route slot (annotate (sl_RouteAnnotations lib meth t) (oc_Route r slot)) r) routes
                 (set_template s t r))
      else r)"

abbreviation api_route :: "os_service \<Rightarrow> (route_slot \<times> route_slot) list" where
  "api_route s \<equiv> [(APIOverride s, APIOverride s)]"

definition default_instances :: "svc_lib \<Rightarrow> os_service \<Rightarrow> (instance_template \<Rightarrow> instance_template) \<Rightarrow> ctlplane \<Rightarrow> ctlplane" where
  "default_instances lib s pre r =
     (if oc_Enabled r s \<or> oc_Templates r s \<noteq> None
      then r\<lparr>oc_Templates := (oc_Templates r)(s := Some (map (\<lambda>(k, t). (k, sl_InstanceDefault lib s (pre t))) (unnil (oc_Templates r s))))\<rparr>
      else r)"

definition storage_class :: "ctlplane \<Rightarrow> instance_template \<Rightarrow> instance_template" where
  "storage_class r t = (if it_StorageClass t = [] then t\<lparr>it_StorageClass := oc_StorageClass r\<rparr> else t)"

definition glance_overrides :: "svc_lib \<Rightarrow> (string, string) gomap \<Rightarrow> (string, api_override) gomap \<Rightarrow> (string, api_override) gomap" where
  "glance_overrides lib apis overrides =
     (let added = fold (\<lambda>(name, apiType) m.
            let override = (case map_of m name of None \<Rightarrow> \<lparr>ao_Route = None, ao_TLS = None\<rparr> | Some x \<Rightarrow> x)
            in if apiType \<noteq> sl_APIEdge lib
               then gomap_put name (override\<lparr>ao_Route := Some (annotate (sl_GlanceRouteAnnotations lib apiType) (ao_Route override))\<rparr>) m
               else m) apis overrides
      in filter (\<lambda>(k, _). k \<in> set (map fst apis)) added)"

definition default_glance :: "svc_lib \<Rightarrow> ctlplane \<Rightarrow> ctlplane" where
  "default_glance lib r =
     (if in_use r Glance
      then (let t = sl_Default lib Glance (oc_Namespace r) (template_or_empty r Glance)
            in (set_template Glance t r)\<lparr>oc_GlanceAPIOverride := Some (glance_overrides lib (tp_GlanceAPIs t) (unnil (oc_GlanceAPIOverride r)))\<rparr>)
      else r)"

definition ironic_pre :: "ctlplane \<Rightarrow> template \<Rightarrow> template" where
  "ironic_pre r t =
     t\<lparr>tp_Secret := (if tp_Secret t = [] then oc_Secret r else tp_Secret t),
       tp_DatabaseInstance := (if tp_DatabaseInstance t = [] then ''openstack'' else tp_DatabaseInstance t),
       tp_StorageClass := (if tp_StorageClass t = [] then oc_StorageClass r else tp_StorageClass t)\<rparr>"

definition swift_pre :: "ctlplane \<Rightarrow> template \<Rightarrow> template" where
  "swift_pre r t = (if tp_StorageClass t = [] then t\<lparr>tp_StorageClass := oc_StorageClass r\<rparr> else t)"

definition default_ovn :: "svc_lib \<Rightarrow> ctlplane \<Rightarrow> ctlplane" where
  "default_ovn lib r =
     (if oc_Enabled r Ovn \<or> oc_OvnTemplate r \<noteq> None
      then (let t = (case oc_OvnTemplate r of None \<Rightarrow> \<lparr>or_OVNDBCluster = [], or_OVNNorthd = [], or_OVNController = []\<rparr> | Some t \<Rightarrow> t)
            in r\<lparr>oc_OvnTemplate := Some \<lparr>or_OVNDBCluster = map (\<lambda>(k, c). (k, sl_OVNDBClusterDefault lib c)) (or_OVNDBCluster t),
                   or_OVNNorthd = sl_OVNNorthdDefault lib (or_OVNNorthd t), or_OVNController = sl_OVNControllerDefault lib (or_OVNController t)\<rparr>\<rparr>)
      else r)"

definition default_watcher :: "svc_lib \<Rightarrow> ctlplane \<Rightarrow> ctlplane" where
  "default_watcher lib r =
     (if in_use r Watcher
      then (let t = sl_Default lib Watcher (oc_Namespace r) (template_or_empty r Watcher);
                r1 = (if oc_Enabled r Watcher
                      then set_route (APIOverride Watcher) (annotate (sl_RouteAnnotations lib (APIOverride Watcher) t) (oc_Route r (APIOverride Watcher))) r
                      else r)
            in set_template Watcher
                 (if tp_WatcherDatabaseInstance t = None \<or> tp_WatcherDatabaseInstance t = Some []
                  then t\<lparr>tp_WatcherDatabaseInstance := Some ''openstack''\<rparr> else t) r1)
      else r)"

text \<open>The blocks of \<open>DefaultServices\<close> in the order of the source.\<close>

definition default_blocks :: "svc_lib \<Rightarrow> (ctlplane \<Rightarrow> ctlplane) list" where
  "default_blocks lib =
     [default_section lib Cinder (\<lambda>t. t) (api_route Cinder),
      \<lambda>r. default_instances lib Galera (storage_class r) r,
      default_glance lib,
      \<lambda>r. default_section lib Ironic (ironic_pre r) [(APIOverride Ironic, APIOverride Ironic), (InspectorOverride, InspectorOverride)] r,
      default_section lib Keystone (\<lambda>t. t) (api_route Keystone),
      default_section lib Manila (\<lambda>t. t) (api_route Manila),
      default_instances lib Memcached (\<lambda>t. t),
      default_section lib Neutron (\<lambda>t. t) (api_route Neutron),
      default_section lib Nova (\<lambda>t. t) (api_route Nova),
      default_ovn lib,
      default_section lib Placement (\<lambda>t. t) (api_route Placement),
      default_section lib DNS (\<lambda>t. t) [],
      default_section lib Telemetry (\<lambda>t. t) [(AodhAPIOverride, AodhAPIOverride)],
      default_section lib Heat (\<lambda>t. t) [(APIOverride Heat, APIOverride Heat), (CnfAPIOverride, APIOverride Heat)],
      \<lambda>r. default_section lib Swift (swift_pre r) [] r,
      default_section lib Horizon (\<lambda>t. t) [],
      default_section lib Octavia (\<lambda>t. t) (api_route Octavia),
      default_section lib Barbican (\<lambda>t. t) (api_route Barbican),
      default_section lib Designate (\<lambda>t. t) [],
      default_instances lib Redis (\<lambda>t. t),
      default_watcher lib]"

definition DefaultServices :: "svc_lib \<Rightarrow> ctlplane \<Rightarrow> ctlplane" where
  "DefaultServices lib r = fold (\<lambda>f r. f r) (default_blocks lib) r"

definition DefaultLabel :: "ctlplane \<Rightarrow> ctlplane" where
  "DefaultLabel r =
     (let typeLabel = ToLower (oc_Group r @ CHR ''/'' # oc_Kind r)
      in if map_of (unnil (oc_Labels r)) typeLabel = None
         then r\<lparr>oc_Labels := Some (gomap_put typeLabel [] (unnil (oc_Labels r)))\<rparr> else r)"

definition cp_Default :: "svc_lib \<Rightarrow> ctlplane \<Rightarrow> ctlplane" where
  "cp_Default lib r = DefaultServices lib (migrateDeprecatedFields (DefaultLabel r))"

subsection \<open>Dependencies of services\<close>

text \<open>\<open>None\<close> is the nil dereference of the flags of telemetry.\<close>

definition watcher_deps :: "ctlplane \<Rightarrow> bool option" where
  "watcher_deps r =
     (if oc_Enabled r Galera \<and> oc_Enabled r Memcached \<and> oc_Enabled r Rabbitmq \<and> oc_Enabled r Keystone \<and> oc_Enabled r Telemetry
      then (case oc_Template r Telemetry of
              None \<Rightarrow> None
            | Some t \<Rightarrow>
                (case tp_CeilometerEnabled t of
                   None \<Rightarrow> None
                 | Some False \<Rightarrow> Some False
                 | Some True \<Rightarrow> tp_MetricStorageEnabled t))
      else Some False)"

definition checkDepsEnabled :: "ctlplane \<Rightarrow> string \<Rightarrow> string option" where
  "checkDepsEnabled r name =
     (let E = oc_Enabled r;
          missing = (\<lambda>ok reqs. Some (if ok then [] else reqs));
          reqs =
            (if name = ''Keystone'' then missing (E Galera \<and> E Memcached \<and> E Rabbitmq) ''Galera, Memcached, RabbitMQ''
             else if name = ''Glance'' then missing (E Galera \<and> E Memcached \<and> E Keystone) ''Galera, Memcached, Keystone''
             else if name = ''Cinder'' then missing (E Galera \<and> E Memcached \<and> E Rabbitmq \<and> E Keystone) ''Galera, Memcached, RabbitMQ, Keystone''
             else if name = ''Placement'' then missing (E Galera \<and> E Memcached \<and> E Keystone) ''Galera, Memcached, Keystone''
             else if name = ''Neutron'' then missing (E Galera \<and> E Memcached \<and> E Rabbitmq \<and> E Keystone) ''Galera, RabbitMQ, Keystone''
             else if name = ''Nova'' then
               missing (E Galera \<and> E Memcached \<and> E Rabbitmq \<and> E Keystone \<and> E Placement \<and> E Neutron \<and> E Glance)
                 ''Galera, Memcached, RabbitMQ, Keystone, Glance, Neutron, Placement''
             else if name = ''Heat'' then missing (E Galera \<and> E Memcached \<and> E Rabbitmq \<and> E Keystone) ''Galera, Memcached, RabbitMQ, Keystone''
             else if name = ''Swift'' then missing (E Memcached \<and> E Keystone) ''Memcached, Keystone''
             else if name = ''Horizon'' then missing (E Galera \<and> E Memcached \<and> E Keystone) ''Galera, Memcached, Keystone''
             else if name = ''Barbican'' then missing (E Galera \<and> E Keystone) ''Galera, Keystone''
             else if name = ''Octavia'' then
               missing (E Galera \<and> E Memcached \<and> E Rabbitmq \<and> E Keystone \<and> E Neutron \<and> E Glance \<and> E Nova)
                 ''Galera, Memcached, RabbitMQ, Keystone, Glance, Neutron, Nova''
             else if name = ''Telemetry.Autoscaling'' then missing (E Galera \<and> E Heat \<and> E Rabbitmq \<and> E Keystone) ''Galera, Heat, RabbitMQ, Keystone''
             else if name = ''Telemetry.Ceilometer'' then missing (E Rabbitmq \<and> E Keystone) ''RabbitMQ, Keystone''
             else if name = ''Telemetry.CloudKitty'' then missing (E Rabbitmq \<and> E Keystone) ''RabbitMQ, Keystone''
             else if name = ''Watcher'' then
               (case watcher_deps r of
                  None \<Rightarrow> None
                | Some ok \<Rightarrow> missing ok ''Galera, Memcached, RabbitMQ, Keystone, Telemetry, Telemetry.Ceilometer, Telemetry.MetricStorage'')
             else Some [])
      in map_option (\<lambda>q. if q \<noteq> [] then name @ '' requires these services to be enabled: '' @ q @ ''.'' else []) reqs)"

text \<open>Warnings and errors of checks that run one after the other.\<close>

definition and_then :: "findings option \<Rightarrow> findings option \<Rightarrow> findings option" where
  "and_then a b = (case (a, b) of (Some (w, e), Some (w', e')) \<Rightarrow> Some (w @ w', e @ e') | _ \<Rightarrow> None)"

definition run_checks :: "findings option list \<Rightarrow> findings option" where
  "run_checks cs = foldr and_then cs (Some ([], []))"

definition require :: "ctlplane \<Rightarrow> bool \<Rightarrow> string \<Rightarrow> string \<Rightarrow> findings option" where
  "require r enabled name path =
     (if enabled
      then map_option (\<lambda>msg. ([], if msg \<noteq> [] then [\<lparr>fe_Field = path, fe_Detail = msg\<rparr>] else [])) (checkDepsEnabled r name)
      else Some ([], []))"

text \<open>A flag of the template of telemetry: the template is dereferenced, the flag only when it is set.\<close>

definition telemetry_flag :: "(template \<Rightarrow> bool ptr) \<Rightarrow> ctlplane \<Rightarrow> bool option" where
  "telemetry_flag flag r =
     (if oc_Enabled r Telemetry then map_option (\<lambda>t. flag t = Some True) (oc_Template r Telemetry) else Some False)"

definition require_telemetry :: "(template \<Rightarrow> bool ptr) \<Rightarrow> ctlplane \<Rightarrow> string \<Rightarrow> string \<Rightarrow> findings option" where
  "require_telemetry flag r name path =
     (case telemetry_flag flag r of None \<Rightarrow> None | Some enabled \<Rightarrow> require r enabled name path)"

definition ValidateServiceDependencies :: "ctlplane \<Rightarrow> findings option" where
  "ValidateServiceDependencies r =
     run_checks
       [require r (oc_Enabled r Keystone) ''Keystone'' ''spec.keystone.enabled'',
        require r (oc_Enabled r Glance) ''Glance'' ''spec.glance.enabled'',
        require r (oc_Enabled r Cinder) ''Cinder'' ''spec.cinder.enabled'',
        require r (oc_Enabled r Placement) ''Placement'' ''spec.placement.enabled'',
        require r (oc_Enabled r Neutron) ''Neutron'' ''spec.neutron.enabled'',
        require r (oc_Enabled r Nova) ''Nova'' ''spec.nova.enabled'',
        require r (oc_Enabled r Heat) ''Heat'' ''spec.heat.enabled'',
        require r (oc_Enabled r Swift) ''Swift'' ''spec.swift.enabled'',
        require r (oc_Enabled r Horizon) ''Horizon'' ''spec.horizon.enabled'',
        require r (oc_Enabled r Octavia) ''Octavia'' ''spec.octavia.enabled'',
        require r (oc_Enabled r Barbican) ''Barbican'' ''spec.barbican.enabled'',
        require_telemetry tp_CeilometerEnabled r ''Telemetry.Ceilometer'' ''spec.telemetry.template.ceilometer.enabled'',
        require_telemetry tp_AutoscalingEnabled r ''Telemetry.Autoscaling'' ''spec.telemetry.template.autoscaling.enabled'',
        require r (oc_Enabled r Watcher) ''Watcher'' ''spec.watcher.enabled'']"

subsection \<open>Validation of the sections\<close>

definition validateTLSOverrideSpec :: "route_override ptr \<Rightarrow> string \<Rightarrow> field_error list" where
  "validateTLSOverrideSpec override path =
     (case override of
        None \<Rightarrow> []
      | Some x \<Rightarrow>
          (case ro_Spec x of
             Some (Some tls) \<Rightarrow>
               (if rtls_Certificate tls = [] then [\<lparr>fe_Field = path @ ''.tls.certificate'', fe_Detail = ''Certificate is required''\<rparr>] else [])
               @ (if rtls_Key tls = [] then [\<lparr>fe_Field = path @ ''.tls.key'', fe_Detail = ''Key is required''\<rparr>] else [])
           | _ \<Rightarrow> []))"

text \<open>The key of the section in JSON.\<close>

definition section_name :: "os_service \<Rightarrow> string" where
  "section_name s =
     (case s of
        Barbican \<Rightarrow> ''barbican'' | Cinder \<Rightarrow> ''cinder'' | Designate \<Rightarrow> ''designate'' | DNS \<Rightarrow> ''dns'' | Galera \<Rightarrow> ''galera''
      | Glance \<Rightarrow> ''glance'' | Heat \<Rightarrow> ''heat'' | Horizon \<Rightarrow> ''horizon'' | Ironic \<Rightarrow> ''ironic'' | Keystone \<Rightarrow> ''keystone''
      | Manila \<Rightarrow> ''manila'' | Memcached \<Rightarrow> ''memcached'' | Redis \<Rightarrow> ''redis'' | Neutron \<Rightarrow> ''neutron'' | Nova \<Rightarrow> ''nova''
      | Octavia \<Rightarrow> ''octavia'' | Ovn \<Rightarrow> ''ovn'' | Placement \<Rightarrow> ''placement'' | Rabbitmq \<Rightarrow> ''rabbitmq'' | Swift \<Rightarrow> ''swift''
      | Telemetry \<Rightarrow> ''telemetry'' | Watcher \<Rightarrow> ''watcher'')"

definition section_path :: "os_service \<Rightarrow> string \<Rightarrow> string" where
  "section_path s rest = ''spec.'' @ section_name s @ CHR ''.'' # rest"

definition check_routes :: "ctlplane \<Rightarrow> os_service \<Rightarrow> (route_slot \<times> string) list \<Rightarrow> findings option" where
  "check_routes r s routes = Some ([], concat (map (\<lambda>(slot, field). validateTLSOverrideSpec (oc_Route r slot) (section_path s (field @ ''.route''))) routes))"

text \<open>The routes that are validated for a service; the path of Swift does not have the name of its field.\<close>

definition validated_routes :: "os_service \<Rightarrow> (route_slot \<times> string) list" where
  "validated_routes s =
     (if s = Telemetry then [(AodhAPIOverride, ''aodhApiOverride''), (PrometheusOverride, ''prometheusOverride''), (AlertmanagerOverride, ''alertmanagerOverride'')]
      else if s = Swift then [(ProxyOverride, ''apiOverride'')]
      else [(APIOverride s, ''apiOverride'')])"

text \<open>The template of a service is validated as a new one, or against the old one, which counts as empty when it is
  missing.\<close>

definition validate_template :: "svc_lib \<Rightarrow> ctlplane option \<Rightarrow> ctlplane \<Rightarrow> os_service \<Rightarrow> findings option" where
  "validate_template lib old r s =
     (case old of
        None \<Rightarrow> sl_ValidateCreate lib s (oc_Template r s) (section_path s ''template'') (oc_Namespace r)
      | Some oldR \<Rightarrow> sl_ValidateUpdate lib s (oc_Template r s) (template_or_empty oldR s) (section_path s ''template'') (oc_Namespace r))"

definition validate_section :: "svc_lib \<Rightarrow> ctlplane option \<Rightarrow> ctlplane \<Rightarrow> os_service \<Rightarrow> findings option" where
  "validate_section lib old r s =
     (if oc_Enabled r s then and_then (validate_template lib old r s) (check_routes r s (validated_routes s)) else Some ([], []))"

definition service_name :: "ctlplane \<Rightarrow> os_service \<Rightarrow> string" where
  "service_name r s = fst (GetServiceNameCached (oc_UID r) (service_base_name s) (oc_UniquePodNames r s) (oc_ServiceName r s))"

definition validate_glance :: "svc_lib \<Rightarrow> ctlplane option \<Rightarrow> ctlplane \<Rightarrow> findings option" where
  "validate_glance lib old r =
     (if oc_Enabled r Glance
      then (case oc_Template r Glance of
              None \<Rightarrow> None
            | Some t \<Rightarrow>
                run_checks
                  [Some ([], concat (map (\<lambda>(key, apiType). sl_ValidateDNS1123Label lib (section_path Glance ''template.glanceAPIs'') [key]
                      (sl_GlanceCorrection lib (service_name r Glance) apiType)) (tp_GlanceAPIs t))),
                   validate_template lib old r Glance,
                   Some ([], concat (map (\<lambda>(key, override). validateTLSOverrideSpec (ao_Route override)
                      (section_path Glance (''apiOverride['' @ key @ ''].route''))) (unnil (oc_GlanceAPIOverride r))))])
      else Some ([], []))"

definition validate_cinder :: "svc_lib \<Rightarrow> ctlplane option \<Rightarrow> ctlplane \<Rightarrow> findings option" where
  "validate_cinder lib old r =
     (if oc_Enabled r Cinder
      then (case oc_Template r Cinder of
              None \<Rightarrow> None
            | Some t \<Rightarrow>
                run_checks
                  [Some ([], sl_ValidateDNS1123Label lib (section_path Cinder ''template.cinderVolumes'') (tp_CinderVolumes t)
                      (sl_CinderCorrection lib (service_name r Cinder))),
                   validate_template lib old r Cinder,
                   check_routes r Cinder (validated_routes Cinder)])
      else Some ([], []))"

text \<open>The names of instances; the correction for RabbitMQ is the one of Memcached.\<close>

definition validate_names :: "svc_lib \<Rightarrow> ctlplane \<Rightarrow> os_service \<Rightarrow> os_service \<Rightarrow> findings option" where
  "validate_names lib r s correction =
     Some ([], if oc_Enabled r s
               then (case oc_Templates r s of
                       None \<Rightarrow> []
                     | Some ts \<Rightarrow> sl_ValidateDNS1123Label lib (section_path s ''templates'') (map fst ts) (sl_CrMaxLengthCorrection lib correction))
               else [])"

definition collect :: "findings list \<Rightarrow> findings option" where
  "collect fs = Some (concat (map fst fs), concat (map snd fs))"

definition galera_create :: "svc_lib \<Rightarrow> ctlplane \<Rightarrow> findings option" where
  "galera_create lib r =
     (if oc_Enabled r Galera
      then (case oc_Templates r Galera of
              None \<Rightarrow> None
            | Some ts \<Rightarrow> collect (map (\<lambda>(key, t). sl_InstanceValidateCreate lib Galera t (section_path Galera (''template['' @ key @ '']'')) (oc_Namespace r)) ts))
      else Some ([], []))"

definition rabbitmq_create :: "svc_lib \<Rightarrow> ctlplane \<Rightarrow> findings option" where
  "rabbitmq_create lib r =
     collect (if oc_Enabled r Rabbitmq
              then map (\<lambda>(key, t). sl_InstanceValidateCreate lib Rabbitmq t (section_path Rabbitmq (''template['' @ key @ '']'')) (oc_Namespace r))
                     (unnil (oc_Templates r Rabbitmq))
              else [])"

text \<open>The templates of RabbitMQ are dereferenced without a check here.\<close>

definition rabbitmq_update :: "svc_lib \<Rightarrow> ctlplane \<Rightarrow> ctlplane \<Rightarrow> findings option" where
  "rabbitmq_update lib old r =
     (if oc_Enabled r Rabbitmq
      then (case oc_Templates r Rabbitmq of
              None \<Rightarrow> None
            | Some ts \<Rightarrow>
                collect (concat (map (\<lambda>(key, t).
                  case map_of (unnil (oc_Templates old Rabbitmq)) key of
                    None \<Rightarrow> []
                  | Some oldT \<Rightarrow> [sl_InstanceValidateUpdate lib Rabbitmq t oldT (section_path Rabbitmq (''template['' @ key @ '']'')) (oc_Namespace r)]) ts)))
      else Some ([], []))"

text \<open>The services before and after those with blocks of their own, in the order of the source.\<close>

definition validate_sections :: "svc_lib \<Rightarrow> ctlplane option \<Rightarrow> ctlplane \<Rightarrow> findings option" where
  "validate_sections lib old r =
     run_checks
       (map (validate_section lib old r) [Keystone, Ironic, Nova, Placement, Barbican, Neutron]
        @ [validate_glance lib old r, validate_cinder lib old r]
        @ map (validate_section lib old r) [Heat, Manila, Swift, Octavia, Designate, Watcher, Telemetry])"

definition ValidateCreateServices :: "svc_lib \<Rightarrow> ctlplane \<Rightarrow> findings option" where
  "ValidateCreateServices lib r =
     run_checks
       [ValidateServiceDependencies r, validate_sections lib None r, galera_create lib r,
        validate_names lib r Memcached Memcached, validate_names lib r Redis Redis, validate_names lib r Rabbitmq Memcached,
        rabbitmq_create lib r, validate_names lib r Galera Galera]"

definition ValidateUpdateServices :: "svc_lib \<Rightarrow> ctlplane \<Rightarrow> ctlplane \<Rightarrow> findings option" where
  "ValidateUpdateServices lib old r =
     run_checks
       [ValidateServiceDependencies r, validate_sections lib (Some old) r,
        validate_names lib r Memcached Memcached, validate_names lib r Rabbitmq Memcached, rabbitmq_update lib old r,
        validate_names lib r Galera Galera]"

subsection \<open>Validation of a control plane\<close>

definition ValidateTopology :: "svc_lib \<Rightarrow> ctlplane \<Rightarrow> field_error list" where
  "ValidateTopology lib r =
     (case oc_TopologyRefNamespace r of
        None \<Rightarrow> []
      | Some ns \<Rightarrow> (case sl_ValidateTopologyNamespace lib ns ''spec'' (oc_Namespace r) of None \<Rightarrow> [] | Some e \<Rightarrow> [e]))"

definition check_bus_user :: "string \<Rightarrow> rabbitmq_config ptr \<Rightarrow> field_error list" where
  "check_bus_user path bus =
     (case bus of
        None \<Rightarrow> []
      | Some b \<Rightarrow>
          if rq_User b \<noteq> []
          then [\<lparr>fe_Field = path @ ''.user'',
                 fe_Detail = ''user field is not allowed at the top level. Each service operator creates its own TransportURL with a unique user. Set user in individual service templates if needed.''\<rparr>]
          else [])"

definition ValidateMessagingBusConfig :: "ctlplane \<Rightarrow> field_error list" where
  "ValidateMessagingBusConfig r =
     check_bus_user ''spec.messagingBus'' (oc_MessagingBus r) @ check_bus_user ''spec.notificationsBus'' (oc_NotificationsBus r)"

text \<open>\<open>None\<close> when the templates of RabbitMQ are dereferenced though there are none.\<close>

definition ValidateNotificationsBusInstance :: "ctlplane \<Rightarrow> field_error option option" where
  "ValidateNotificationsBusInstance r =
     (case oc_NotificationsBusInstance r of
        None \<Rightarrow> Some None
      | Some n \<Rightarrow>
          if n = [] then Some (Some \<lparr>fe_Field = ''spec.notificationsBusInstance'', fe_Detail = ''notificationsBusInstance is not a valid string''\<rparr>)
          else (case oc_Templates r Rabbitmq of
                  None \<Rightarrow> None
                | Some ts \<Rightarrow>
                    if n \<in> set (map fst ts) then Some None
                    else Some (Some \<lparr>fe_Field = ''spec.notificationsBusInstance'',
                                     fe_Detail = ''notificationsBusInstance must match an existing RabbitMQ instance name''\<rparr>)))"

text \<open>The value that replaces the deprecated one.\<close>

definition new_notifications_value :: "ctlplane \<Rightarrow> string ptr" where
  "new_notifications_value r = map_option rq_Cluster (oc_NotificationsBus r)"

definition validateDeprecatedFieldsCreate :: "svc_lib \<Rightarrow> ctlplane \<Rightarrow> findings" where
  "validateDeprecatedFieldsCreate lib r = (sl_ValidateDeprecatedCreate lib (oc_NotificationsBusInstance r) (new_notifications_value r), [])"

definition validateDeprecatedFieldsUpdate :: "svc_lib \<Rightarrow> ctlplane \<Rightarrow> ctlplane \<Rightarrow> findings" where
  "validateDeprecatedFieldsUpdate lib old r =
     sl_ValidateDeprecatedUpdate lib (oc_NotificationsBusInstance old) (oc_NotificationsBusInstance r) (new_notifications_value r)"

datatype cp_admission =
    CpAdmit "string list" | CpInvalid "string list" "field_error list" | CpForbidden string | CpInternalError string | CpPanic

text \<open>The names of the versions in the namespace.\<close>

definition ValidateVersion :: "(api_error + string list) \<Rightarrow> ctlplane \<Rightarrow> string + field_error list" where
  "ValidateVersion versions r =
     (case versions of
        Inl err \<Rightarrow> Inl (err_msg err)
      | Inr names \<Rightarrow>
          (case names of
             [] \<Rightarrow> Inr []
           | [n] \<Rightarrow> Inr (if n \<noteq> oc_Name r
                          then [\<lparr>fe_Field = ''metadata.name'',
                                 fe_Detail = ''OpenStackControlPlane '' @ oc_Name r @ '' must have same name as the existing '' @ n @ '' OpenStackVersion''\<rparr>]
                          else [])
           | _ \<Rightarrow> Inl (''multiple ('' @ Itoa (length names) @ '') OpenStackVersions found in namespace '' @ oc_Namespace r @ '': only one may be present.  Please rectify before creating OpenStackControlPlane'')))"

definition checked :: "findings option \<Rightarrow> bool \<Rightarrow> cp_admission" where
  "checked result keep_warnings =
     (case result of
        None \<Rightarrow> CpPanic
      | Some (warns, errs) \<Rightarrow> if errs \<noteq> [] then CpInvalid (if keep_warnings then warns else []) errs else CpAdmit warns)"

definition cp_ValidateCreate :: "svc_lib \<Rightarrow> (api_error + ctlplane list) \<Rightarrow> (api_error + string list) \<Rightarrow> ctlplane \<Rightarrow> cp_admission" where
  "cp_ValidateCreate lib listing versions r =
     (case listing of
        Inl err \<Rightarrow> CpForbidden (err_msg err)
      | Inr items \<Rightarrow>
          if 1 \<le> length items then CpForbidden ''Only one OpenStackControlPlane instance per namespace is supported at this time.''
          else (case ValidateVersion versions r of
                  Inl msg \<Rightarrow> CpForbidden msg
                | Inr errs \<Rightarrow>
                    checked (run_checks [Some ([], errs), Some (validateDeprecatedFieldsCreate lib r), ValidateCreateServices lib r,
                      Some ([], ValidateTopology lib r), Some ([], ValidateMessagingBusConfig r)]) True))"

definition has_trigger :: "string \<Rightarrow> (string, string) gomap option \<Rightarrow> bool" where
  "has_trigger trigger annotations \<longleftrightarrow> map_of (unnil annotations) trigger \<noteq> None"

definition drop_trigger :: "string \<Rightarrow> ctlplane \<Rightarrow> ctlplane" where
  "drop_trigger trigger r =
     (if has_trigger trigger (oc_Annotations r) then r\<lparr>oc_Annotations := map_option (gomap_del trigger) (oc_Annotations r)\<rparr> else r)"

text \<open>The old object is \<open>None\<close> when it cannot be converted.  \<open>trigger\<close> is the annotation by which the controller asks for
  the migration.\<close>

definition cp_ValidateUpdate :: "svc_lib \<Rightarrow> string \<Rightarrow> ctlplane option \<Rightarrow> ctlplane \<Rightarrow> cp_admission" where
  "cp_ValidateUpdate lib trigger old r0 =
     (case old of
        None \<Rightarrow> CpInternalError ''unable to convert existing object''
      | Some oldR \<Rightarrow>
          (let r = (if has_trigger trigger (oc_Annotations r0) then drop_trigger trigger (migrateDeprecatedFields r0) else r0)
           in checked (run_checks [Some (validateDeprecatedFieldsUpdate lib oldR r), ValidateUpdateServices lib oldR r,
                Some ([], ValidateTopology lib r), Some ([], ValidateMessagingBusConfig r)]) False))"

definition cp_ValidateDelete :: "ctlplane \<Rightarrow> cp_admission" where
  "cp_ValidateDelete r = CpAdmit []"

subsection \<open>Names of services\<close>

text \<open>The objects of a service in the namespace, each with the identifiers of its owners.\<close>

type_synonym owned_list = "api_error + (string \<times> string list) list"

definition lookupServiceCR :: "(os_service \<Rightarrow> owned_list) \<Rightarrow> os_service \<Rightarrow> string \<Rightarrow> api_error + string" where
  "lookupServiceCR objects s ownerUID =
     (if s = Cinder \<or> s = Glance
      then (case objects s of
              Inl err \<Rightarrow> Inl (OtherError (''failed to list '' @ (if s = Cinder then ''Cinder'' else ''Glance'') @ '' CRs: '' @ err_msg err))
            | Inr items \<Rightarrow>
                Inr (case find (\<lambda>(n, owners). take (length (service_base_name s)) n = service_base_name s \<and> ownerUID \<in> set owners) items of
                       None \<Rightarrow> [] | Some (n, _) \<Rightarrow> n))
      else Inl (OtherError ''unsupported service name''))"

text \<open>Three random bytes in hexadecimal, of which five digits are kept.\<close>

definition hex_byte :: "nat \<Rightarrow> string" where
  "hex_byte b = [''0123456789abcdef'' ! (b div 16 mod 16), ''0123456789abcdef'' ! (b mod 16)]"

definition generateRandomID :: "(api_error + nat list) \<Rightarrow> api_error + string" where
  "generateRandomID read = (case read of Inl err \<Rightarrow> Inl err | Inr bytes \<Rightarrow> Inr (take 5 (concat (map hex_byte bytes))))"

definition CacheServiceNameForCreate :: "(api_error + nat list) \<Rightarrow> os_service \<Rightarrow> api_error + string" where
  "CacheServiceNameForCreate random s =
     (case generateRandomID random of
        Inl err \<Rightarrow> Inl (OtherError (''failed to generate random ID: '' @ err_msg err))
      | Inr rid \<Rightarrow> Inr (service_base_name s @ CHR ''-'' # rid))"

definition CacheServiceNameForUpdate :: "(os_service \<Rightarrow> owned_list) \<Rightarrow> ctlplane \<Rightarrow> os_service \<Rightarrow> api_error + string" where
  "CacheServiceNameForUpdate objects r s =
     (case lookupServiceCR objects s (oc_UID r) of
        Inl err \<Rightarrow> Inl (OtherError (''failed to lookup existing CR: '' @ err_msg err))
      | Inr existingName \<Rightarrow>
          if existingName \<noteq> [] then Inr existingName
          else (let name = fst (GetServiceName (oc_UID r) (service_base_name s) True)
                in if name = service_base_name s then Inl (OtherError ''unable to generate service name: no existing CR and UID not available'')
                   else Inr name))"

definition cache_name :: "(os_service \<Rightarrow> api_error + nat list) \<Rightarrow> (os_service \<Rightarrow> owned_list) \<Rightarrow> os_service \<Rightarrow> ctlplane \<Rightarrow> api_error + ctlplane" where
  "cache_name random objects s r =
     (if oc_UniquePodNames r s \<and> oc_ServiceName r s = []
      then (case (if oc_UID r = [] then CacheServiceNameForCreate (random s) s else CacheServiceNameForUpdate objects r s) of
              Inl err \<Rightarrow> Inl (OtherError (''failed to cache '' @ (if s = Cinder then ''Cinder'' else ''Glance'') @ '' service name: '' @ err_msg err))
            | Inr n \<Rightarrow> Inr (r\<lparr>oc_ServiceName := (oc_ServiceName r)(s := n)\<rparr>))
      else Inr r)"

definition cacheServiceNames ::
    "(os_service \<Rightarrow> api_error + nat list) \<Rightarrow> (os_service \<Rightarrow> owned_list) \<Rightarrow> string \<Rightarrow> ctlplane \<Rightarrow> api_error + ctlplane" where
  "cacheServiceNames random objects trigger r =
     (case cache_name random objects Cinder r of
        Inl err \<Rightarrow> Inl err
      | Inr r1 \<Rightarrow> (case cache_name random objects Glance r1 of Inl err \<Rightarrow> Inl err | Inr r2 \<Rightarrow> Inr (drop_trigger trigger r2)))"

definition custom_Default ::
    "svc_lib \<Rightarrow> (os_service \<Rightarrow> api_error + nat list) \<Rightarrow> (os_service \<Rightarrow> owned_list) \<Rightarrow> string \<Rightarrow> ctlplane \<Rightarrow> api_error + ctlplane" where
  "custom_Default lib random objects trigger r = cacheServiceNames random objects trigger (cp_Default lib r)"

end
