(* ===== verification/Ctlplane_Laws.thy ===== *)
theory Ctlplane_Laws
  imports Ctlplane_Webhook Version_Webhook
begin

text \<open>
  What admission of a control plane guarantees: dependencies of services, when the webhook panics, the names of
  the objects of Cinder and Glance, and the number of control planes and versions in a namespace.
\<close>

subsection \<open>Checks in sequence\<close>

lemma run_checks_simps [simp]: "run_checks [] = Some ([], [])" "run_checks (c # cs) = and_then c (run_checks cs)"
  by (simp_all add: run_checks_def)

lemma and_then_None_iff: "and_then a b = None \<longleftrightarrow> a = None \<or> b = None"
  by (auto simp: and_then_def split: option.splits)

text \<open>Checks panic when one of them does, and find nothing when none of them does.\<close>

lemma run_checks_None_iff: "run_checks cs = None \<longleftrightarrow> None \<in> set cs"
  by (induction cs) (auto simp: and_then_None_iff)

definition clean :: "findings option \<Rightarrow> bool" where
  "clean c \<longleftrightarrow> (\<exists>w. c = Some (w, []))"

lemma clean_simps [simp]: "\<not> clean None" "clean (Some (w, e)) \<longleftrightarrow> e = []"
  by (simp_all add: clean_def)

lemma and_then_clean: "clean (and_then a b) \<longleftrightarrow> clean a \<and> clean b"
  by (auto simp: clean_def and_then_def split: option.splits)

lemma run_checks_clean: "clean (run_checks cs) \<longleftrightarrow> (\<forall>c \<in> set cs. clean c)"
  by (induction cs) (simp_all add: and_then_clean)

lemma checked_admits_iff: "(\<exists>w. checked c k = CpAdmit w) \<longleftrightarrow> clean c"
  by (auto simp: checked_def clean_def split: option.splits)

lemma checked_admitsD: "checked c k = CpAdmit w \<Longrightarrow> clean c"
  using checked_admits_iff by blast

lemma checked_panics_iff: "checked c k = CpPanic \<longleftrightarrow> c = None"
  by (auto simp: checked_def split: option.splits)

lemma checked_not_forbidden: "checked c k \<noteq> CpForbidden m"
  by (simp add: checked_def split: option.split)

subsection \<open>Dependencies\<close>

text \<open>The dependencies between the parts of a control plane, each edge once.  Keystone stands on the database, the cache
  and the message broker; every service that authenticates its users stands on Keystone, and so on what Keystone stands
  on; Nova needs the services a server is built from, and Octavia needs Nova.  Ceilometer and the autoscaling of
  telemetry authenticate too, and the latter scales stacks of Heat; Watcher reads the metrics of telemetry, so both flags
  must be on.  CloudKitty, a third part of telemetry, has no edge.\<close>

definition telemetry_on :: "(template \<Rightarrow> bool ptr) \<Rightarrow> ctlplane \<Rightarrow> bool" where
  "telemetry_on flag r \<longleftrightarrow> oc_Enabled r Telemetry \<and> (case oc_Template r Telemetry of None \<Rightarrow> False | Some t \<Rightarrow> flag t = Some True)"

definition authenticated :: "os_service list" where
  "authenticated = [Glance, Cinder, Placement, Neutron, Nova, Heat, Swift, Horizon, Barbican, Octavia, Watcher]"

definition wired :: "ctlplane \<Rightarrow> bool" where
  "wired r \<longleftrightarrow>
     (oc_Enabled r Keystone \<longrightarrow> oc_Enabled r Galera \<and> oc_Enabled r Memcached \<and> oc_Enabled r Rabbitmq)
     \<and> (list_ex (oc_Enabled r) authenticated \<or> telemetry_on tp_CeilometerEnabled r \<or> telemetry_on tp_AutoscalingEnabled r \<longrightarrow> oc_Enabled r Keystone)
     \<and> (oc_Enabled r Nova \<longrightarrow> oc_Enabled r Placement \<and> oc_Enabled r Neutron \<and> oc_Enabled r Glance)
     \<and> (oc_Enabled r Octavia \<longrightarrow> oc_Enabled r Nova)
     \<and> (telemetry_on tp_AutoscalingEnabled r \<longrightarrow> oc_Enabled r Heat)
     \<and> (oc_Enabled r Watcher \<longrightarrow> telemetry_on tp_CeilometerEnabled r \<and> telemetry_on tp_MetricStorageEnabled r)
     \<and> (oc_Enabled r Telemetry \<longrightarrow> oc_Template r Telemetry \<noteq> None)"

lemma require_clean: "clean (require r enabled name path) \<longleftrightarrow> (enabled \<longrightarrow> checkDepsEnabled r name = Some [])"
  by (cases "checkDepsEnabled r name") (auto simp: require_def)

lemma checkDeps_services:
  "checkDepsEnabled r ''Keystone'' = Some [] \<longleftrightarrow> list_all (oc_Enabled r) [Galera, Memcached, Rabbitmq]"
  "checkDepsEnabled r ''Glance'' = Some [] \<longleftrightarrow> list_all (oc_Enabled r) [Galera, Memcached, Keystone]"
  "checkDepsEnabled r ''Cinder'' = Some [] \<longleftrightarrow> list_all (oc_Enabled r) [Galera, Memcached, Rabbitmq, Keystone]"
  "checkDepsEnabled r ''Placement'' = Some [] \<longleftrightarrow> list_all (oc_Enabled r) [Galera, Memcached, Keystone]"
  "checkDepsEnabled r ''Neutron'' = Some [] \<longleftrightarrow> list_all (oc_Enabled r) [Galera, Memcached, Rabbitmq, Keystone]"
  "checkDepsEnabled r ''Nova'' = Some [] \<longleftrightarrow> list_all (oc_Enabled r) [Galera, Memcached, Rabbitmq, Keystone, Placement, Neutron, Glance]"
  "checkDepsEnabled r ''Heat'' = Some [] \<longleftrightarrow> list_all (oc_Enabled r) [Galera, Memcached, Rabbitmq, Keystone]"
  "checkDepsEnabled r ''Swift'' = Some [] \<longleftrightarrow> list_all (oc_Enabled r) [Memcached, Keystone]"
  "checkDepsEnabled r ''Horizon'' = Some [] \<longleftrightarrow> list_all (oc_Enabled r) [Galera, Memcached, Keystone]"
  "checkDepsEnabled r ''Barbican'' = Some [] \<longleftrightarrow> list_all (oc_Enabled r) [Galera, Keystone]"
  "checkDepsEnabled r ''Octavia'' = Some [] \<longleftrightarrow> list_all (oc_Enabled r) [Galera, Memcached, Rabbitmq, Keystone, Neutron, Glance, Nova]"
  "checkDepsEnabled r ''Telemetry.Ceilometer'' = Some [] \<longleftrightarrow> list_all (oc_Enabled r) [Rabbitmq, Keystone]"
  "checkDepsEnabled r ''Telemetry.Autoscaling'' = Some [] \<longleftrightarrow> list_all (oc_Enabled r) [Galera, Heat, Rabbitmq, Keystone]"
  by (simp_all add: checkDepsEnabled_def Let_def)

lemma checkDeps_Watcher: "checkDepsEnabled r ''Watcher'' = Some [] \<longleftrightarrow> watcher_deps r = Some True"
  by (simp add: checkDepsEnabled_def Let_def split: option.split)

lemma checkDeps_panics_iff: "checkDepsEnabled r name = None \<longleftrightarrow> name = ''Watcher'' \<and> watcher_deps r = None"
  by (simp add: checkDepsEnabled_def Let_def split: option.split)

lemma require_telemetry_clean:
  "clean (require_telemetry flag r name path) \<longleftrightarrow>
    (oc_Enabled r Telemetry \<longrightarrow> oc_Template r Telemetry \<noteq> None) \<and> (telemetry_on flag r \<longrightarrow> checkDepsEnabled r name = Some [])"
  by (cases "oc_Template r Telemetry")
    (auto simp: require_telemetry_def telemetry_flag_def require_clean telemetry_on_def)

lemma watcher_deps_iff:
  "watcher_deps r = Some True \<longleftrightarrow> list_all (oc_Enabled r) [Galera, Memcached, Rabbitmq, Keystone]
     \<and> telemetry_on tp_CeilometerEnabled r \<and> telemetry_on tp_MetricStorageEnabled r"
  by (auto simp: watcher_deps_def telemetry_on_def split: option.splits bool.splits)

lemma authenticated_iff: "list_ex P authenticated \<longleftrightarrow> P Glance \<or> P Cinder \<or> P Placement \<or> P Neutron \<or> P Nova \<or> P Heat \<or> P Swift
    \<or> P Horizon \<or> P Barbican \<or> P Octavia \<or> P Watcher"
  by (simp add: authenticated_def)

lemma dependencies_wired: "clean (ValidateServiceDependencies r) \<longleftrightarrow> wired r"
  unfolding ValidateServiceDependencies_def run_checks_clean list.set ball_simps require_clean require_telemetry_clean
    checkDeps_services checkDeps_Watcher watcher_deps_iff wired_def authenticated_iff list_all_Cons_iff list_all_Nil_iff
  by argo

text \<open>What is validated of an admitted control plane: \<open>r'\<close> is the control plane, migrated if the annotation asks for it.\<close>

lemma migrate_sel [simp]:
  "oc_Enabled (migrateDeprecatedFields r) = oc_Enabled r" "oc_Templates (migrateDeprecatedFields r) = oc_Templates r"
  "oc_UID (migrateDeprecatedFields r) = oc_UID r" "oc_UniquePodNames (migrateDeprecatedFields r) = oc_UniquePodNames r"
  "oc_ServiceName (migrateDeprecatedFields r) = oc_ServiceName r" "oc_Name (migrateDeprecatedFields r) = oc_Name r"
  "oc_Route (migrateDeprecatedFields r) = oc_Route r" "oc_Namespace (migrateDeprecatedFields r) = oc_Namespace r"
  by (simp_all add: migrateDeprecatedFields_def migrate_top_def Let_def split: option.split)

lemma migrate_Template: "oc_Template (migrateDeprecatedFields r) s = map_option (migrate_template s) (oc_Template r s)"
  by (simp add: migrateDeprecatedFields_def Let_def)

lemma drop_trigger_sel [simp]:
  "oc_Enabled (drop_trigger a r) = oc_Enabled r" "oc_Templates (drop_trigger a r) = oc_Templates r" "oc_Template (drop_trigger a r) = oc_Template r"
  "oc_UID (drop_trigger a r) = oc_UID r" "oc_UniquePodNames (drop_trigger a r) = oc_UniquePodNames r"
  "oc_ServiceName (drop_trigger a r) = oc_ServiceName r" "oc_Name (drop_trigger a r) = oc_Name r" "oc_Route (drop_trigger a r) = oc_Route r"
  by (simp_all add: drop_trigger_def)

definition validated :: "string \<Rightarrow> ctlplane \<Rightarrow> ctlplane" where
  "validated trigger r = (if has_trigger trigger (oc_Annotations r) then drop_trigger trigger (migrateDeprecatedFields r) else r)"

lemma validated_sel [simp]:
  "oc_Enabled (validated a r) = oc_Enabled r" "oc_Templates (validated a r) = oc_Templates r" "oc_Route (validated a r) = oc_Route r"
  by (simp_all add: validated_def)

lemma create_checks:
  "cp_ValidateCreate lib listing versions r = CpAdmit w \<Longrightarrow> clean (ValidateCreateServices lib r)"
  by (auto simp: cp_ValidateCreate_def and_then_clean split: sum.splits if_splits dest!: checked_admitsD)

lemma update_checks:
  "cp_ValidateUpdate lib trigger (Some old) r = CpAdmit w \<Longrightarrow> clean (ValidateUpdateServices lib old (validated trigger r))"
  by (auto simp: cp_ValidateUpdate_def validated_def [symmetric] Let_def and_then_clean dest!: checked_admitsD)

lemma validated_wired [simp]: "wired (validated trigger r) = wired r"
proof -
  have flags: "tp_CeilometerEnabled (migrate_template Telemetry t) = tp_CeilometerEnabled t"
    "tp_AutoscalingEnabled (migrate_template Telemetry t) = tp_AutoscalingEnabled t"
    "tp_MetricStorageEnabled (migrate_template Telemetry t) = tp_MetricStorageEnabled t" for t
    by (simp_all add: migrate_template_def migrate_telemetry_def)
  have tmpl: "oc_Template (validated trigger r) Telemetry = oc_Template r Telemetry
      \<or> oc_Template (validated trigger r) Telemetry = map_option (migrate_template Telemetry) (oc_Template r Telemetry)"
    by (simp add: validated_def migrate_Template)
  have "telemetry_on f (validated trigger r) = telemetry_on f r"
    if "\<And>t. f (migrate_template Telemetry t) = f t" for f :: "template \<Rightarrow> bool ptr"
    using tmpl that by (auto simp: telemetry_on_def split: option.split)
  moreover have "oc_Template (validated trigger r) Telemetry = None \<longleftrightarrow> oc_Template r Telemetry = None" using tmpl by auto
  ultimately show ?thesis using flags by (simp add: wired_def)
qed

text \<open>C23: the services of an admitted control plane have what they need.  The fourteen checks, each with its own list of
  services, refuse a control plane exactly when an edge of the dependency graph is broken, none for another reason; and so
  in every control plane whose creation or update is admitted no edge is broken: Keystone has its database, cache and
  broker, every service that authenticates has Keystone, Nova and Octavia have the services below them, and so do
  Ceilometer, autoscaling and Watcher.  The dependencies of CloudKitty are no part of it: the code lists but never
  checks them.\<close>

theorem admitted_dependencies:
  "(clean (ValidateServiceDependencies r) \<longleftrightarrow> wired r)
   \<and> (cp_ValidateCreate lib listing versions r = CpAdmit w \<or> cp_ValidateUpdate lib trigger (Some old) r = CpAdmit w \<longrightarrow> wired r)"
proof (intro conjI impI dependencies_wired)
  assume "cp_ValidateCreate lib listing versions r = CpAdmit w \<or> cp_ValidateUpdate lib trigger (Some old) r = CpAdmit w"
  then show "wired r"
  proof
    assume "cp_ValidateCreate lib listing versions r = CpAdmit w"
    then show ?thesis using create_checks by (simp add: ValidateCreateServices_def and_then_clean dependencies_wired)
  next
    assume "cp_ValidateUpdate lib trigger (Some old) r = CpAdmit w"
    then have "wired (validated trigger r)" using update_checks by (simp add: ValidateUpdateServices_def and_then_clean dependencies_wired)
    then show ?thesis by simp
  qed
qed

subsection \<open>Defaults\<close>

text \<open>What the blocks of \<open>DefaultServices\<close> leave alone.\<close>

abbreviation fixed_fields :: "ctlplane \<Rightarrow> (os_service \<Rightarrow> bool) \<times> (string, instance_template) gomap ptr \<times> string \<times> (os_service \<Rightarrow> bool) \<times> (os_service \<Rightarrow> string)" where
  "fixed_fields r \<equiv> (oc_Enabled r, oc_Templates r Rabbitmq, oc_UID r, oc_UniquePodNames r, oc_ServiceName r)"

definition grows :: "ctlplane \<Rightarrow> ctlplane \<Rightarrow> bool" where
  "grows r r' \<longleftrightarrow> fixed_fields r' = fixed_fields r \<and> (\<forall>s. oc_Template r s \<noteq> None \<longrightarrow> oc_Template r' s \<noteq> None)
     \<and> (\<forall>s. oc_Templates r s \<noteq> None \<longrightarrow> oc_Templates r' s \<noteq> None)"

lemma grows_refl [simp]: "grows r r"
  by (simp add: grows_def)

lemma grows_trans: "grows a b \<Longrightarrow> grows b c \<Longrightarrow> grows a c"
  by (simp add: grows_def)

lemma set_route_grows [simp]: "grows r (set_route slot x r)"
  by (simp add: grows_def set_route_def)

lemma set_template_grows [simp]: "grows r (set_template s t r)"
  by (simp add: grows_def set_template_def)

lemma set_template_sel [simp]: "oc_Template (set_template s t r) = (oc_Template r)(s := Some t)" "oc_Template (set_route slot x r) = oc_Template r"
  by (simp_all add: set_template_def set_route_def)

lemma fold_routes_template [simp]: "oc_Template (fold (\<lambda>x r. set_route (fst x) (f x r) r) routes r) = oc_Template r"
  by (induction routes arbitrary: r) simp_all

lemma fold_routes_grows: "grows r (fold (\<lambda>x r. set_route (fst x) (f x r) r) routes r)"
proof (induction routes arbitrary: r)
  case (Cons x routes)
  show ?case using grows_trans [OF set_route_grows Cons.IH] by simp
qed simp

lemma default_section_grows:
  "grows r (default_section lib s pre routes r)" "in_use r s \<Longrightarrow> oc_Template (default_section lib s pre routes r) s \<noteq> None"
proof -
  define t where "t = sl_Default lib s (oc_Namespace r) (pre (template_or_empty r s))"
  let ?f = "\<lambda>x r. annotate (sl_RouteAnnotations lib (snd x) t) (oc_Route r (fst x))"
  have eq: "default_section lib s pre routes r =
      (if in_use r s then fold (\<lambda>x r. set_route (fst x) (?f x r) r) routes (set_template s t r) else r)"
    unfolding default_section_def Let_def t_def case_prod_unfold by (rule refl)
  show "grows r (default_section lib s pre routes r)"
    unfolding eq by (cases "in_use r s") (simp_all add: grows_trans [OF set_template_grows fold_routes_grows])
  show "in_use r s \<Longrightarrow> oc_Template (default_section lib s pre routes r) s \<noteq> None"
    unfolding eq by simp
qed

lemma default_instances_grows:
  "s \<noteq> Rabbitmq \<Longrightarrow> grows r (default_instances lib s pre r)" "oc_Enabled r s \<Longrightarrow> oc_Templates (default_instances lib s pre r) s \<noteq> None"
  by (auto simp: grows_def default_instances_def)

lemma other_defaults_grow:
  "grows r (default_glance lib r)" "grows r (default_ovn lib r)" "grows r (default_watcher lib r)"
  "in_use r Glance \<Longrightarrow> oc_Template (default_glance lib r) Glance \<noteq> None" "in_use r Watcher \<Longrightarrow> oc_Template (default_watcher lib r) Watcher \<noteq> None"
proof -
  show "grows r (default_glance lib r)" "grows r (default_ovn lib r)"
    "in_use r Glance \<Longrightarrow> oc_Template (default_glance lib r) Glance \<noteq> None"
    by (simp_all add: grows_def default_glance_def default_ovn_def set_template_def Let_def)
  show "grows r (default_watcher lib r)" "in_use r Watcher \<Longrightarrow> oc_Template (default_watcher lib r) Watcher \<noteq> None"
    by (simp_all add: grows_def default_watcher_def set_template_def set_route_def Let_def)
qed

text \<open>Blocks that grow keep what one of them has set.\<close>

lemma fold_grows: "\<forall>f \<in> set fs. \<forall>r. grows r (f r) \<Longrightarrow> grows r (fold (\<lambda>f r. f r) fs r)"
proof (induction fs arbitrary: r)
  case (Cons f fs)
  then have "grows r (f r)" "grows (f r) (fold (\<lambda>f r. f r) fs (f r))" by simp_all
  then show ?case by (metis fold_simps(2) grows_trans)
qed simp

lemma fold_sets:
  assumes g: "\<forall>f \<in> set fs. \<forall>r. grows r (f r)" and f: "f \<in> set fs" and P: "\<And>r. grows r0 r \<Longrightarrow> P (f r)" and mono: "\<And>r r'. P r \<Longrightarrow> grows r r' \<Longrightarrow> P r'"
  shows "P (fold (\<lambda>f r. f r) fs r0)"
proof -
  obtain xs ys where fs: "fs = xs @ f # ys" using split_list [OF f] by blast
  have "grows r0 (fold (\<lambda>f r. f r) xs r0)" using fold_grows [of xs r0] g fs by simp
  then have "P (f (fold (\<lambda>f r. f r) xs r0))" by (rule P)
  moreover have "grows (f (fold (\<lambda>f r. f r) xs r0)) (fold (\<lambda>f r. f r) fs r0)" using fold_grows [of ys] g fs by simp
  ultimately show ?thesis using mono by blast
qed

lemma DefaultServices_blocks: "DefaultServices lib r = fold (\<lambda>f r. f r) (default_blocks lib) r"
  by (rule DefaultServices_def)

lemma default_blocks_grow: "\<forall>f \<in> set (default_blocks lib). \<forall>r. grows r (f r)"
  by (simp add: default_blocks_def default_section_grows(1) default_instances_grows(1) other_defaults_grow(1-3))

definition has_template :: "os_service \<Rightarrow> bool" where
  "has_template s \<longleftrightarrow> s \<notin> {Galera, Memcached, Redis, Rabbitmq, Ovn}"

text \<open>Every service that has one template has a block that provides it.\<close>

lemma template_block: "has_template s \<Longrightarrow> \<exists>f \<in> set (default_blocks lib). \<forall>r. in_use r s \<longrightarrow> oc_Template (f r) s \<noteq> None"
  unfolding has_template_def
  by (cases s) (simp_all add: default_blocks_def default_section_grows(2) other_defaults_grow(4,5) del: not_None_eq)

lemma DefaultServices_grows: "grows r (DefaultServices lib r)"
  unfolding DefaultServices_blocks by (rule fold_grows [OF default_blocks_grow])

lemma DefaultServices_template:
  assumes "has_template s" and "oc_Enabled r s"
  shows "oc_Template (DefaultServices lib r) s \<noteq> None"
proof -
  obtain f where f: "f \<in> set (default_blocks lib)" "\<forall>r. in_use r s \<longrightarrow> oc_Template (f r) s \<noteq> None"
    using template_block [OF assms(1)] by blast
  show ?thesis unfolding DefaultServices_blocks
  proof (rule fold_sets [where P = "\<lambda>r. oc_Template r s \<noteq> None", OF default_blocks_grow f(1)])
    fix r' assume "grows r r'"
    then show "oc_Template (f r') s \<noteq> None" using f(2) assms(2) by (simp add: grows_def in_use_def)
  qed (simp add: grows_def)
qed

lemma DefaultServices_galera:
  assumes "oc_Enabled r Galera"
  shows "oc_Templates (DefaultServices lib r) Galera \<noteq> None"
  unfolding DefaultServices_blocks
proof (rule fold_sets [where P = "\<lambda>r. oc_Templates r Galera \<noteq> None", OF default_blocks_grow])
  show "(\<lambda>r. default_instances lib Galera (storage_class r) r) \<in> set (default_blocks lib)" by (simp add: default_blocks_def)
  fix r' assume "grows r r'"
  then show "oc_Templates (default_instances lib Galera (storage_class r') r') Galera \<noteq> None"
    using assms by (intro default_instances_grows(2)) (simp add: grows_def)
qed (simp add: grows_def)

lemma DefaultLabel_grows: "grows r (DefaultLabel r)"
  by (simp add: grows_def DefaultLabel_def Let_def)

lemma cp_Default_facts:
  "fixed_fields (cp_Default lib r) = fixed_fields r"
  "has_template s \<Longrightarrow> oc_Enabled r s \<Longrightarrow> oc_Template (cp_Default lib r) s \<noteq> None"
  "oc_Enabled r Galera \<Longrightarrow> oc_Templates (cp_Default lib r) Galera \<noteq> None"
proof -
  let ?r = "migrateDeprecatedFields (DefaultLabel r)"
  have f: "fixed_fields ?r = fixed_fields r" using DefaultLabel_grows [of r] by (simp add: grows_def)
  then show "fixed_fields (cp_Default lib r) = fixed_fields r"
    using DefaultServices_grows [of ?r lib] by (simp add: grows_def cp_Default_def)
  show "has_template s \<Longrightarrow> oc_Enabled r s \<Longrightarrow> oc_Template (cp_Default lib r) s \<noteq> None"
    unfolding cp_Default_def by (rule DefaultServices_template) (use f in simp_all)
  show "oc_Enabled r Galera \<Longrightarrow> oc_Templates (cp_Default lib r) Galera \<noteq> None"
    unfolding cp_Default_def by (rule DefaultServices_galera) (use f in simp_all)
qed

subsection \<open>Panics\<close>

text \<open>The validators of the service operators do not panic on a template that is there.\<close>

definition validators_total :: "svc_lib \<Rightarrow> bool" where
  "validators_total lib \<longleftrightarrow> (\<forall>s t p n. sl_ValidateCreate lib s (Some t) p n \<noteq> None)
     \<and> (\<forall>s t old p n. sl_ValidateUpdate lib s (Some t) old p n \<noteq> None)"

text \<open>What \<open>Default\<close> provides.\<close>

definition provided :: "ctlplane \<Rightarrow> bool" where
  "provided r \<longleftrightarrow> (\<forall>s. has_template s \<longrightarrow> oc_Enabled r s \<longrightarrow> oc_Template r s \<noteq> None) \<and> (oc_Enabled r Galera \<longrightarrow> oc_Templates r Galera \<noteq> None)"

lemma cp_Default_provided: "provided (cp_Default lib r)"
  using cp_Default_facts(1) [of lib r] cp_Default_facts(2,3) [where lib = lib and r = r] by (simp add: provided_def del: not_None_eq)

lemma validated_provided: "provided r \<Longrightarrow> provided (validated trigger r)"
  by (simp add: provided_def validated_def migrate_Template del: not_None_eq)

lemma validate_template_total: "validators_total lib \<Longrightarrow> oc_Template r s \<noteq> None \<Longrightarrow> validate_template lib old r s \<noteq> None"
  by (auto simp: validators_total_def validate_template_def split: option.split)

lemma section_total:
  assumes "validators_total lib" and "provided r" and "has_template s"
  shows "validate_section lib old r s \<noteq> None"
  using assms validate_template_total [OF assms(1), of r s old]
  by (simp add: validate_section_def and_then_None_iff check_routes_def provided_def del: not_None_eq)

lemma sections_total:
  assumes v: "validators_total lib" and p: "provided r"
  shows "validate_sections lib old r \<noteq> None"
proof -
  have t: "validate_template lib old r s \<noteq> None \<and> (\<exists>t. oc_Template r s = Some t)" if "oc_Enabled r s" "s = Glance \<or> s = Cinder" for s
    using p that validate_template_total [OF v, of r s old] by (auto simp: provided_def has_template_def)
  have g: "validate_glance lib old r \<noteq> None"
    using t [of Glance] by (cases "oc_Enabled r Glance"; cases "oc_Template r Glance") (simp_all add: validate_glance_def and_then_None_iff del: not_None_eq)
  have c: "validate_cinder lib old r \<noteq> None"
    using t [of Cinder] by (cases "oc_Enabled r Cinder"; cases "oc_Template r Cinder") (simp_all add: validate_cinder_def check_routes_def and_then_None_iff del: not_None_eq)
  define A where "A = [Keystone, Ironic, Nova, Placement, Barbican, Neutron]"
  define B where "B = [Heat, Manila, Swift, Octavia, Designate, Watcher, Telemetry]"
  have "has_template s" if "s \<in> set A \<union> set B" for s using that by (auto simp: A_def B_def has_template_def)
  then have "None \<notin> validate_section lib old r ` (set A \<union> set B)" using section_total [OF v p] by (metis imageE)
  moreover have "validate_sections lib old r = None \<longleftrightarrow>
      None \<in> validate_section lib old r ` (set A \<union> set B) \<union> {validate_glance lib old r, validate_cinder lib old r}"
    unfolding validate_sections_def run_checks_None_iff A_def [symmetric] B_def [symmetric] by auto
  ultimately show ?thesis using g c by (metis Un_iff insertE singletonD)
qed

lemma require_panics_iff: "require r enabled name path = None \<longleftrightarrow> enabled \<and> name = ''Watcher'' \<and> watcher_deps r = None"
  by (simp add: require_def checkDeps_panics_iff)

lemma require_telemetry_total:
  assumes "provided r" and "name \<noteq> ''Watcher''"
  shows "require_telemetry flag r name path \<noteq> None"
proof -
  have "telemetry_flag flag r \<noteq> None" using assms(1) by (auto simp: telemetry_flag_def provided_def has_template_def)
  then obtain y where "telemetry_flag flag r = Some y" by blast
  then show ?thesis using assms(2) require_panics_iff [of r y name path] by (simp add: require_telemetry_def del: not_None_eq)
qed

lemma dependencies_panic_iff:
  assumes "provided r"
  shows "ValidateServiceDependencies r = None \<longleftrightarrow> oc_Enabled r Watcher \<and> watcher_deps r = None"
proof -
  have "require_telemetry tp_CeilometerEnabled r ''Telemetry.Ceilometer'' p \<noteq> None" "require_telemetry tp_AutoscalingEnabled r ''Telemetry.Autoscaling'' p \<noteq> None" for p
    by (rule require_telemetry_total [OF assms], simp)+
  then show ?thesis
    unfolding ValidateServiceDependencies_def run_checks_simps and_then_None_iff require_panics_iff by (simp del: not_None_eq)
qed

text \<open>The flags of telemetry that the check of Watcher reads.\<close>

definition telemetry_flags_missing :: "ctlplane \<Rightarrow> bool" where
  "telemetry_flags_missing r \<longleftrightarrow> oc_Enabled r Watcher \<and> watcher_deps r = None"

lemma watcher_deps_cong:
  assumes "oc_Enabled r' = oc_Enabled r"
    and "map_option (\<lambda>t. (tp_CeilometerEnabled t, tp_MetricStorageEnabled t)) (oc_Template r' Telemetry) =
      map_option (\<lambda>t. (tp_CeilometerEnabled t, tp_MetricStorageEnabled t)) (oc_Template r Telemetry)"
  shows "watcher_deps r' = watcher_deps r"
  using assms unfolding watcher_deps_def by (cases "oc_Template r' Telemetry"; cases "oc_Template r Telemetry") (simp_all split: option.split bool.split)

lemma watcher_deps_validated: "watcher_deps (validated trigger r) = watcher_deps r"
  by (rule watcher_deps_cong)
    (simp_all add: validated_def migrate_Template migrate_template_def migrate_telemetry_def option.map_comp comp_def)

lemma names_total: "validate_names lib r s c \<noteq> None" "collect fs \<noteq> None" "rabbitmq_create lib r \<noteq> None"
  by (simp_all add: validate_names_def collect_def rabbitmq_create_def)

lemma create_services_panic_iff:
  assumes "validators_total lib" and "provided r"
  shows "ValidateCreateServices lib r = None \<longleftrightarrow> telemetry_flags_missing r"
proof -
  have "galera_create lib r \<noteq> None" using assms(2) names_total(2) by (auto simp: galera_create_def provided_def)
  then show ?thesis
    using sections_total [OF assms] names_total dependencies_panic_iff [OF assms(2)]
    unfolding ValidateCreateServices_def run_checks_simps and_then_None_iff telemetry_flags_missing_def by blast
qed

lemma update_services_panic_iff:
  assumes "validators_total lib" and "provided r"
  shows "ValidateUpdateServices lib old r = None \<longleftrightarrow> telemetry_flags_missing r \<or> oc_Enabled r Rabbitmq \<and> oc_Templates r Rabbitmq = None"
proof -
  have "rabbitmq_update lib old r = None \<longleftrightarrow> oc_Enabled r Rabbitmq \<and> oc_Templates r Rabbitmq = None"
    using names_total(2) by (auto simp: rabbitmq_update_def split: option.split)
  then show ?thesis
    using sections_total [OF assms] names_total dependencies_panic_iff [OF assms(2)]
    unfolding ValidateUpdateServices_def run_checks_simps and_then_None_iff telemetry_flags_missing_def by blast
qed

text \<open>C24: when admission of a control plane panics.  \<open>Default\<close> provides the templates the validation needs, so the
  validation of a new control plane dereferences a nil pointer only when Watcher is enabled and the flags of
  telemetry are not set, which the check of its dependencies does not look at first.  The validation of an update
  panics in one more case: \<open>Default\<close> has no block for RabbitMQ, and its templates are dereferenced although they
  are optional, so a control plane with RabbitMQ enabled and no templates can be created and never be updated.\<close>

theorem admission_panics_iff:
  assumes "validators_total lib" and "ValidateVersion versions (cp_Default lib r) = Inr errs"
  shows "(cp_ValidateCreate lib (Inr []) versions (cp_Default lib r) = CpPanic \<longleftrightarrow> telemetry_flags_missing (cp_Default lib r))
    \<and> (cp_ValidateUpdate lib trigger (Some old) (cp_Default lib r) = CpPanic \<longleftrightarrow>
         telemetry_flags_missing (cp_Default lib r) \<or> oc_Enabled r Rabbitmq \<and> oc_Templates r Rabbitmq = None)"
proof -
  let ?r = "cp_Default lib r"
  have p: "provided ?r" by (rule cp_Default_provided)
  have "cp_ValidateCreate lib (Inr []) versions ?r = CpPanic \<longleftrightarrow> ValidateCreateServices lib ?r = None"
    using assms(2) by (simp add: cp_ValidateCreate_def checked_panics_iff and_then_None_iff)
  moreover have "cp_ValidateUpdate lib trigger (Some old) ?r = CpPanic \<longleftrightarrow> ValidateUpdateServices lib old (validated trigger ?r) = None"
    by (simp add: cp_ValidateUpdate_def validated_def [symmetric] checked_panics_iff and_then_None_iff Let_def)
  moreover have "telemetry_flags_missing (validated trigger ?r) \<longleftrightarrow> telemetry_flags_missing ?r"
    by (simp add: telemetry_flags_missing_def watcher_deps_validated)
  moreover have "oc_Enabled ?r = oc_Enabled r" "oc_Templates ?r Rabbitmq = oc_Templates r Rabbitmq" using cp_Default_facts(1) [of lib r] by simp_all
  ultimately show ?thesis
    using create_services_panic_iff [OF assms(1) p] update_services_panic_iff [OF assms(1) validated_provided [OF p]] by simp
qed

subsection \<open>Names of the objects of services\<close>

text \<open>The name that is cached for a service.\<close>

definition caches :: "(os_service \<Rightarrow> api_error + nat list) \<Rightarrow> (os_service \<Rightarrow> owned_list) \<Rightarrow> ctlplane \<Rightarrow> os_service \<Rightarrow> string \<Rightarrow> bool" where
  "caches random objects r s n \<longleftrightarrow>
     (if oc_UniquePodNames r s \<and> oc_ServiceName r s = []
      then (if oc_UID r = [] then CacheServiceNameForCreate (random s) s else CacheServiceNameForUpdate objects r s) = Inr n
      else n = oc_ServiceName r s)"

lemma caches_cong:
  assumes e: "oc_UID r' = oc_UID r" "oc_UniquePodNames r' = oc_UniquePodNames r" "oc_ServiceName r' s = oc_ServiceName r s"
  shows "caches random objects r' s n = caches random objects r s n"
  unfolding caches_def CacheServiceNameForUpdate_def e by (rule refl)

lemma cache_nameD:
  assumes "cache_name random objects s r = Inr r'"
  obtains n where "r' = r\<lparr>oc_ServiceName := (oc_ServiceName r)(s := n)\<rparr>" and "caches random objects r s n"
proof (cases "oc_UniquePodNames r s \<and> oc_ServiceName r s = []")
  case True
  then obtain n where "(if oc_UID r = [] then CacheServiceNameForCreate (random s) s else CacheServiceNameForUpdate objects r s) = Inr n"
    "r' = r\<lparr>oc_ServiceName := (oc_ServiceName r)(s := n)\<rparr>"
    using assms by (simp add: cache_name_def split: sum.splits)
  then show ?thesis using that True by (simp add: caches_def)
next
  case False
  then have "r' = r" "caches random objects r s (oc_ServiceName r s)" using assms by (auto simp: cache_name_def caches_def)
  then show ?thesis using that [of "oc_ServiceName r s"] by simp
qed

lemma custom_Default_names:
  assumes "custom_Default lib random objects trigger r = Inr r'" and s: "s = Cinder \<or> s = Glance"
  shows "oc_UID r' = oc_UID r" and "oc_UniquePodNames r' = oc_UniquePodNames r" and "caches random objects r s (oc_ServiceName r' s)"
proof -
  let ?r = "cp_Default lib r"
  have f: "oc_UID ?r = oc_UID r" "oc_UniquePodNames ?r = oc_UniquePodNames r" "oc_ServiceName ?r = oc_ServiceName r"
    using cp_Default_facts(1) [of lib r] by simp_all
  obtain r1 r2 where 1: "cache_name random objects Cinder ?r = Inr r1" and 2: "cache_name random objects Glance r1 = Inr r2"
    and r': "r' = drop_trigger trigger r2"
    using assms(1) by (auto simp: custom_Default_def cacheServiceNames_def split: sum.splits)
  obtain c where c: "r1 = ?r\<lparr>oc_ServiceName := (oc_ServiceName ?r)(Cinder := c)\<rparr>" "caches random objects ?r Cinder c"
    using cache_nameD [OF 1] by blast
  obtain g where g: "r2 = r1\<lparr>oc_ServiceName := (oc_ServiceName r1)(Glance := g)\<rparr>" "caches random objects r1 Glance g"
    using cache_nameD [OF 2] by blast
  show "oc_UID r' = oc_UID r" "oc_UniquePodNames r' = oc_UniquePodNames r" unfolding r' g(1) c(1) using f by simp_all
  have "caches random objects r Cinder c" "caches random objects r Glance g"
    using c(2) g(2) caches_cong [OF f(1,2), of Cinder] caches_cong [of r1 r Glance] f unfolding c(1) by simp_all
  moreover have "oc_ServiceName r' Cinder = c" "oc_ServiceName r' Glance = g" unfolding r' g(1) c(1) by simp_all
  ultimately show "caches random objects r s (oc_ServiceName r' s)" using s by auto
qed

definition owned_by :: "string \<Rightarrow> os_service \<Rightarrow> string \<times> string list \<Rightarrow> bool" where
  "owned_by uid s x \<longleftrightarrow> take (length (service_base_name s)) (fst x) = service_base_name s \<and> uid \<in> set (snd x)"

lemma lookup_owned:
  assumes "s = Cinder \<or> s = Glance" and "objects s = Inr items" and "x \<in> set items" and "owned_by uid s x"
    and "\<forall>y \<in> set items. owned_by uid s y \<longrightarrow> fst y = fst x"
  shows "lookupServiceCR objects s uid = Inr (fst x)"
proof -
  have P: "(\<lambda>(n, owners). take (length (service_base_name s)) n = service_base_name s \<and> uid \<in> set owners) = owned_by uid s"
    by (auto simp: owned_by_def)
  obtain y where y: "find (owned_by uid s) items = Some y" "y \<in> set items" "owned_by uid s y"
    using assms(3,4) by (metis find_None_iff find_Some_iff nth_mem option.exhaust)
  then show ?thesis using assms(1,2,5) unfolding lookupServiceCR_def P by (auto simp: case_prod_beta)
qed

lemma base_name_not_Nil: "s = Cinder \<or> s = Glance \<Longrightarrow> service_base_name s \<noteq> []"
  by (auto simp: service_base_name_def CinderName_def GlanceName_def)

text \<open>C25: turning unique names on keeps the object that is there.  When a control plane that exists is updated with
  \<open>UniquePodNames\<close> set and no name cached yet, and there is an object of the service it owns, the name the
  controller uses from then on is the name of this object, so no second one is created.\<close>

theorem unique_names_keep_object:
  assumes D: "custom_Default lib random objects trigger r = Inr r'" and s: "s = Cinder \<or> s = Glance" and uid: "oc_UID r \<noteq> []"
    and on: "oc_UniquePodNames r s" and fresh: "oc_ServiceName r s = []"
    and objs: "objects s = Inr items" "(n, owners) \<in> set items" "owned_by (oc_UID r) s (n, owners)"
      "\<forall>y \<in> set items. owned_by (oc_UID r) s y \<longrightarrow> fst y = n"
  shows "service_name r' s = n"
proof -
  have "n \<noteq> []" using objs(3) base_name_not_Nil [OF s] by (auto simp: owned_by_def)
  moreover have "lookupServiceCR objects s (oc_UID r) = Inr n" using lookup_owned [of s objects, OF s objs(1,2,3)] objs(4) by simp
  ultimately have "CacheServiceNameForUpdate objects r s = Inr n" by (simp add: CacheServiceNameForUpdate_def)
  then have "oc_ServiceName r' s = n" using custom_Default_names(3) [OF D s] uid on fresh by (simp add: caches_def)
  then show ?thesis using \<open>n \<noteq> []\<close> custom_Default_names(2) [OF D s] on by (simp add: service_name_def GetServiceNameCached_def)
qed

text \<open>Turning unique names off orphans an object.  A control plane created with \<open>UniquePodNames\<close> has a name with
  a random suffix cached.  When the flag is turned off, the controller uses the plain name and deletes the object
  with the suffix of the identifier of the control plane; the object with the random suffix is neither, unless the
  suffixes happen to be equal, though the comment on \<open>CacheServiceNameForUpdate\<close> says that the old name is kept.\<close>

theorem unique_names_off_orphans:
  assumes C: "custom_Default lib random objects trigger r = Inr r1" and s: "s = Cinder \<or> s = Glance" and new: "oc_UID r = []"
    and on: "oc_UniquePodNames r s" "oc_ServiceName r s = []" and rid: "generateRandomID (random s) = Inr rid"
    and U: "custom_Default lib' random' objects' trigger' r2 = Inr r3" and kept: "oc_ServiceName r2 = oc_ServiceName r1"
    and off: "\<not> oc_UniquePodNames r2 s" and suffix: "rid \<noteq> take 5 (oc_UID r2)"
  shows "oc_ServiceName r1 s \<notin> (let (name, altName) = GetServiceNameCached (oc_UID r3) (service_base_name s) (oc_UniquePodNames r3 s) (oc_ServiceName r3 s)
     in {name, altName})"
proof -
  have "oc_ServiceName r1 s = service_base_name s @ CHR ''-'' # rid"
    using custom_Default_names(3) [OF C s] new on rid by (simp add: caches_def CacheServiceNameForCreate_def)
  moreover have "oc_UID r3 = oc_UID r2" "\<not> oc_UniquePodNames r3 s" using custom_Default_names(1,2) [OF U s] off by simp_all
  ultimately show ?thesis using suffix by (simp add: GetServiceNameCached_def GetServiceName_def Let_def)
qed

subsection \<open>Control planes and versions of a namespace\<close>

text \<open>The control planes and versions that admission lets into a namespace.  The API server lists what is there for the
  webhooks; updates and the controllers keep the names.\<close>

inductive namespace_objects :: "svc_lib \<Rightarrow> string \<Rightarrow> ctlplane list \<Rightarrow> os_version list \<Rightarrow> bool" for lib available where
  empty: "namespace_objects lib available [] []"
| create_cp: "namespace_objects lib available cps vs \<Longrightarrow> cp_ValidateCreate lib (Inr cps) (Inr (map v_Name vs)) r = CpAdmit w \<Longrightarrow>
    namespace_objects lib available (r # cps) vs"
| create_version: "namespace_objects lib available cps vs \<Longrightarrow> version_ValidateCreate available (Inr vs) v = None \<Longrightarrow>
    namespace_objects lib available cps (v # vs)"
| update_cp: "namespace_objects lib available (xs @ r # ys) vs \<Longrightarrow> oc_Name r' = oc_Name r \<Longrightarrow> namespace_objects lib available (xs @ r' # ys) vs"
| update_version: "namespace_objects lib available cps (xs @ v # ys) \<Longrightarrow> v_Name v' = v_Name v \<Longrightarrow> namespace_objects lib available cps (xs @ v' # ys)"
| delete_cp: "namespace_objects lib available (xs @ r # ys) vs \<Longrightarrow> cp_ValidateDelete r = CpAdmit w \<Longrightarrow> namespace_objects lib available (xs @ ys) vs"
| delete_version: "namespace_objects lib available cps (xs @ v # ys) \<Longrightarrow> version_ValidateDelete v = None \<Longrightarrow> namespace_objects lib available cps (xs @ ys)"

lemma admitted_cp:
  assumes "cp_ValidateCreate lib (Inr cps) (Inr names) r = CpAdmit w"
  shows "cps = [] \<and> (names = [] \<or> names = [oc_Name r])"
proof -
  have "cps = []" using assms by (cases cps) (simp_all add: cp_ValidateCreate_def)
  then obtain errs where "ValidateVersion (Inr names) r = Inr errs" "errs = []"
    using assms by (auto simp: cp_ValidateCreate_def and_then_clean split: sum.splits dest!: checked_admitsD)
  then show ?thesis using \<open>cps = []\<close> by (auto simp: ValidateVersion_def split: list.splits if_splits)
qed

text \<open>One control plane and one version per namespace.  Whatever sequence of admitted creations, updates and
  deletions has led to a namespace, it has at most one control plane and at most one version; and a control plane
  that is admitted has the name of the version if there is one.\<close>

theorem one_per_namespace:
  assumes "namespace_objects lib available cps vs"
  shows "length cps \<le> 1 \<and> length vs \<le> 1 \<and>
    (\<forall>r w. cp_ValidateCreate lib (Inr cps) (Inr (map v_Name vs)) r = CpAdmit w \<longrightarrow> (\<forall>v \<in> set vs. v_Name v = oc_Name r))"
proof -
  have "length cps \<le> 1 \<and> length vs \<le> 1"
    using assms
  proof (induction rule: namespace_objects.induct)
    case (create_cp cps vs r w)
    then show ?case using admitted_cp [OF create_cp.hyps(2)] by simp
  next
    case (create_version cps vs v)
    then have "vs = []" by (cases vs) (simp_all add: version_ValidateCreate_def split: if_splits)
    then show ?case using create_version.IH by simp
  qed simp_all
  moreover have "\<forall>v \<in> set vs. v_Name v = oc_Name r" if "cp_ValidateCreate lib (Inr cps) (Inr (map v_Name vs)) r = CpAdmit w" for r w
    using admitted_cp [OF that] by auto
  ultimately show ?thesis by blast
qed

subsection \<open>A concrete control plane\<close>

definition sample_svc_lib :: svc_lib where
  "sample_svc_lib = \<lparr>sl_Default = (\<lambda>_ _ t. t), sl_InstanceDefault = (\<lambda>_ t. t), sl_OVNDBClusterDefault = (\<lambda>t. t), sl_OVNNorthdDefault = (\<lambda>t. t),
     sl_OVNControllerDefault = (\<lambda>t. t), sl_RouteAnnotations = (\<lambda>_ _ a. a), sl_APIEdge = ''edge'', sl_GlanceRouteAnnotations = (\<lambda>_ a. a),
     sl_ValidateCreate = (\<lambda>_ t _ _. map_option (\<lambda>_. ([], [])) t), sl_ValidateUpdate = (\<lambda>_ t _ _ _. map_option (\<lambda>_. ([], [])) t),
     sl_InstanceValidateCreate = (\<lambda>_ _ _ _. ([], [])), sl_InstanceValidateUpdate = (\<lambda>_ _ _ _ _. ([], [])),
     sl_ValidateDNS1123Label = (\<lambda>_ _ _. []), sl_GlanceCorrection = (\<lambda>_ _. 10), sl_CinderCorrection = (\<lambda>_. 10),
     sl_CrMaxLengthCorrection = (\<lambda>_. 5), sl_ValidateTopologyNamespace = (\<lambda>_ _ _. None),
     sl_ValidateDeprecatedCreate = (\<lambda>_ _. []), sl_ValidateDeprecatedUpdate = (\<lambda>_ _ _. ([], []))\<rparr>"

definition sample_ctlplane :: "os_service list \<Rightarrow> ctlplane" where
  "sample_ctlplane services = \<lparr>oc_Name = ''cp'', oc_Namespace = ''openstack'', oc_UID = ''0a1b2c3d'', oc_Group = ''core.openstack.org'',
     oc_Kind = ''OpenStackControlPlane'', oc_Labels = None, oc_Annotations = None, oc_Secret = ''osp-secret'', oc_StorageClass = ''local'',
     oc_Enabled = (\<lambda>s. s \<in> set services), oc_Template = (\<lambda>_. None), oc_Templates = (\<lambda>_. None), oc_OvnTemplate = None,
     oc_Route = (\<lambda>_. None), oc_GlanceAPIOverride = None, oc_UniquePodNames = (\<lambda>_. False), oc_ServiceName = (\<lambda>_. []),
     oc_MessagingBus = None, oc_NotificationsBus = None, oc_NotificationsBusInstance = None, oc_TopologyRefNamespace = None\<rparr>"

lemma sample_validators: "validators_total sample_svc_lib"
  by (simp add: validators_total_def sample_svc_lib_def)

text \<open>RabbitMQ without templates.\<close>

theorem admission_panics_iff_witness:
  "cp_ValidateCreate sample_svc_lib (Inr []) (Inr []) (cp_Default sample_svc_lib (sample_ctlplane [Rabbitmq])) \<noteq> CpPanic
   \<and> cp_ValidateUpdate sample_svc_lib ''trigger'' (Some (sample_ctlplane [])) (cp_Default sample_svc_lib (sample_ctlplane [Rabbitmq])) = CpPanic"
proof -
  have "oc_Enabled (cp_Default sample_svc_lib (sample_ctlplane [Rabbitmq])) = oc_Enabled (sample_ctlplane [Rabbitmq])"
    using cp_Default_facts(1) [of sample_svc_lib "sample_ctlplane [Rabbitmq]"] by simp
  then have "\<not> telemetry_flags_missing (cp_Default sample_svc_lib (sample_ctlplane [Rabbitmq]))"
    by (simp add: telemetry_flags_missing_def sample_ctlplane_def)
  then show ?thesis
    using admission_panics_iff [OF sample_validators, of "Inr []" "sample_ctlplane [Rabbitmq]" "[]" "''trigger''" "sample_ctlplane []"]
    by (simp add: ValidateVersion_def sample_ctlplane_def)
qed

definition keystone_ctlplane :: ctlplane where
  "keystone_ctlplane = (sample_ctlplane [Galera, Memcached, Rabbitmq, Keystone, Glance])\<lparr>oc_Template := (\<lambda>_. Some empty_template), oc_Templates := (\<lambda>_. Some [])\<rparr>"

lemma keystone_admitted: "cp_ValidateCreate sample_svc_lib (Inr []) (Inr []) keystone_ctlplane = CpAdmit []"
  by code_simp

theorem admitted_dependencies_witness:
  "wired keystone_ctlplane \<and> \<not> clean (ValidateServiceDependencies (sample_ctlplane [Glance]))"
proof
  show "wired keystone_ctlplane"
    using admitted_dependencies [of keystone_ctlplane sample_svc_lib "Inr []" "Inr []" "[]" "[]" keystone_ctlplane] keystone_admitted by blast
  have "\<not> wired (sample_ctlplane [Glance])" by code_simp
  then show "\<not> clean (ValidateServiceDependencies (sample_ctlplane [Glance]))"
    using admitted_dependencies [of "sample_ctlplane [Glance]" sample_svc_lib "Inr []" "Inr []" "[]" "[]" keystone_ctlplane] by blast
qed

definition cinder_ctlplane :: "string \<Rightarrow> bool \<Rightarrow> string \<Rightarrow> ctlplane" where
  "cinder_ctlplane uid unique name = (sample_ctlplane [])\<lparr>oc_UID := uid, oc_UniquePodNames := (\<lambda>s. unique \<and> s = Cinder),
     oc_ServiceName := (\<lambda>s. if s = Cinder then name else [])\<rparr>"

abbreviation sample_objects :: "os_service \<Rightarrow> owned_list" where
  "sample_objects \<equiv> \<lambda>_. Inr [(''cinder'', [''0a1b2c3d''])]"

lemma cinder_default:
  assumes "custom_Default sample_svc_lib random objects trigger (cinder_ctlplane uid unique name) = Inl err"
  shows "unique \<and> name = [] \<and> isl (if uid = [] then CacheServiceNameForCreate (random Cinder) Cinder
    else CacheServiceNameForUpdate objects (cinder_ctlplane uid unique name) Cinder)"
proof -
  let ?r = "cinder_ctlplane uid unique name"
  have f: "oc_UID (cp_Default sample_svc_lib ?r) = uid" "oc_UniquePodNames (cp_Default sample_svc_lib ?r) = (\<lambda>s. unique \<and> s = Cinder)"
    "oc_ServiceName (cp_Default sample_svc_lib ?r) = (\<lambda>s. if s = Cinder then name else [])"
    using cp_Default_facts(1) [of sample_svc_lib ?r] by (simp_all add: cinder_ctlplane_def)
  have u: "oc_UID ?r = uid" by (simp add: cinder_ctlplane_def)
  have g: "cache_name random objects Glance r1 = Inr r1" if "\<not> oc_UniquePodNames r1 Glance" for r1 using that by (simp add: cache_name_def)
  have "isl (cache_name random objects Cinder (cp_Default sample_svc_lib ?r))"
    using assms f(2) g by (auto simp: custom_Default_def cacheServiceNames_def cache_name_def split: sum.splits if_splits)
  then show ?thesis
    unfolding cache_name_def f CacheServiceNameForUpdate_def u by (auto split: sum.splits if_splits)
qed

theorem unique_names_keep_object_witness:
  "\<exists>r'. custom_Default sample_svc_lib (\<lambda>_. Inr [1, 2, 3]) sample_objects [] (cinder_ctlplane ''0a1b2c3d'' True []) = Inr r' \<and> service_name r' Cinder = ''cinder''"
proof -
  let ?r = "cinder_ctlplane ''0a1b2c3d'' True []"
  have "CacheServiceNameForUpdate sample_objects ?r Cinder = Inr ''cinder''" by code_simp
  then obtain r' where r': "custom_Default sample_svc_lib (\<lambda>_. Inr [1, 2, 3]) sample_objects [] ?r = Inr r'"
    using cinder_default [of "\<lambda>_. Inr [1, 2, 3]" sample_objects "[]" "''0a1b2c3d''" True "[]"]
    by (cases "custom_Default sample_svc_lib (\<lambda>_. Inr [1, 2, 3]) sample_objects [] ?r") auto
  moreover have "service_name r' Cinder = ''cinder''"
    by (rule unique_names_keep_object [OF r', where owners = "[''0a1b2c3d'']" and items = "[(''cinder'', [''0a1b2c3d''])]"])
      (simp_all add: cinder_ctlplane_def sample_ctlplane_def owned_by_def service_base_name_def CinderName_def)
  ultimately show ?thesis by blast
qed

theorem unique_names_off_orphans_witness:
  "\<exists>r1 r3. custom_Default sample_svc_lib (\<lambda>_. Inr [1, 2, 3]) sample_objects [] (cinder_ctlplane [] True []) = Inr r1
     \<and> custom_Default sample_svc_lib (\<lambda>_. Inr []) sample_objects [] ((cinder_ctlplane ''0a1b2c3d'' False [])\<lparr>oc_ServiceName := oc_ServiceName r1\<rparr>) = Inr r3
     \<and> oc_ServiceName r1 Cinder \<notin> (let (name, altName) = GetServiceNameCached (oc_UID r3) (service_base_name Cinder) (oc_UniquePodNames r3 Cinder)
          (oc_ServiceName r3 Cinder) in {name, altName})"
proof -
  let ?r = "cinder_ctlplane [] True []"
  have "CacheServiceNameForCreate (Inr [1, 2, 3]) Cinder = Inr ''cinder-01020''" by code_simp
  then obtain r1 where r1: "custom_Default sample_svc_lib (\<lambda>_. Inr [1, 2, 3]) sample_objects [] ?r = Inr r1"
    using cinder_default [of "\<lambda>_. Inr [1, 2, 3]" sample_objects "[]" "[]" True "[]"]
    by (cases "custom_Default sample_svc_lib (\<lambda>_. Inr [1, 2, 3]) sample_objects [] ?r") auto
  let ?r2 = "(cinder_ctlplane ''0a1b2c3d'' False [])\<lparr>oc_ServiceName := oc_ServiceName r1\<rparr>"
  have "oc_UniquePodNames (cp_Default sample_svc_lib ?r2) = (\<lambda>_. False)"
    using cp_Default_facts(1) [of sample_svc_lib ?r2] by (simp add: cinder_ctlplane_def)
  then obtain r3 where r3: "custom_Default sample_svc_lib (\<lambda>_. Inr []) sample_objects [] ?r2 = Inr r3"
    by (simp add: custom_Default_def cacheServiceNames_def cache_name_def)
  have rid: "generateRandomID (Inr [1, 2, 3]) = Inr ''01020''" by code_simp
  have "oc_ServiceName r1 Cinder \<notin> (let (name, altName) = GetServiceNameCached (oc_UID r3) (service_base_name Cinder) (oc_UniquePodNames r3 Cinder)
      (oc_ServiceName r3 Cinder) in {name, altName})"
    by (rule unique_names_off_orphans [OF r1 _ _ _ _ rid r3]) (simp_all add: cinder_ctlplane_def sample_ctlplane_def)
  then show ?thesis using r1 r3 by blast
qed

theorem one_per_namespace_witness: "length [keystone_ctlplane] \<le> 1 \<and> length ([] :: os_version list) \<le> 1"
proof -
  have "namespace_objects sample_svc_lib ''0.0.1'' [keystone_ctlplane] []"
    by (rule namespace_objects.create_cp [OF namespace_objects.empty]) (simp add: keystone_admitted)
  note T = one_per_namespace [OF this]
  show ?thesis by (rule conjI [OF conjunct1 [OF T] conjunct1 [OF conjunct2 [OF T]]])
qed

end
