(* ===== verification/Ctlplane_Controller.thy ===== *)
theory Ctlplane_Controller
  imports Ctlplane_Laws
begin

text \<open>
  The controller of \<open>OpenStackControlPlane\<close>: \<open>internal/controller/core/openstackcontrolplane_controller.go\<close>, with
  \<open>InitConditions\<close> of \<open>openstackcontrolplane_types.go\<close> and \<open>MirrorSubResourceCondition\<close> of
  \<open>internal/openstack/common.go\<close>.

  The functions \<open>openstack.Reconcile*\<close>, one per service, are arguments (\<open>ce_run\<close>): each takes the version and the
  control plane and yields the control plane with its status changed, whether its result asks for another
  reconciliation, and an error.  The names of the functions called are recorded in \<open>cr_called\<close>.  \<open>ce_object\<close> is the
  spec of the control plane in the detail the webhook has.
\<close>

subsection \<open>Conditions\<close>

definition CAReadyCondition :: string where "CAReadyCondition = ''OpenStackControlPlaneCAReadyCondition''"
definition VersionInitializationReadyCondition :: string where
  "VersionInitializationReadyCondition = ''OpenStackControlPlaneOpenStackVersionInitializationReadyCondition''"
definition InfrastructureReadyCondition :: string where "InfrastructureReadyCondition = ''OpenStackControlPlaneInfrastructureReady''"
definition BackupConfigReadyCondition :: string where "BackupConfigReadyCondition = ''OpenStackControlPlaneBackupConfigReady''"
definition ClientReadyCondition :: string where "ClientReadyCondition = ''OpenStackControlPlaneClientReady''"
definition CertCleanupReadyCondition :: string where "CertCleanupReadyCondition = ''OpenStackControlPlaneCertCleanupReadyCondition''"
definition TopologyReadyCondition :: string where "TopologyReadyCondition = ''TopologyReady''"

text \<open>The condition of a service and the name in its initial message.\<close>

definition service_condition :: "os_service \<Rightarrow> string \<times> string" where
  "service_condition s =
     (case s of
        Rabbitmq \<Rightarrow> (''OpenStackControlPlaneRabbitMQReady'', ''RabbitMQ'')
      | Ovn \<Rightarrow> (''OpenStackControlPlaneOVNReady'', ''OVN'')
      | Neutron \<Rightarrow> (''OpenStackControlPlaneNeutronReady'', ''Neutron'')
      | Galera \<Rightarrow> (''OpenStackControlPlaneMariaDBReady'', ''MariaDB'')
      | Memcached \<Rightarrow> (''OpenStackControlPlaneMemcachedReady'', ''Memcached'')
      | Keystone \<Rightarrow> (''OpenStackControlPlaneKeystoneAPIReady'', ''KeystoneAPI'')
      | Placement \<Rightarrow> (''OpenStackControlPlanePlacementAPIReady'', ''PlacementAPI'')
      | Glance \<Rightarrow> (''OpenStackControlPlaneGlanceReady'', ''Glance'')
      | Cinder \<Rightarrow> (''OpenStackControlPlaneCinderReady'', ''Cinder'')
      | Nova \<Rightarrow> (''OpenStackControlPlaneNovaReady'', ''Nova'')
      | Ironic \<Rightarrow> (''OpenStackControlPlaneIronicReady'', ''Ironic'')
      | Manila \<Rightarrow> (''OpenStackControlPlaneManilaReady'', ''Manila'')
      | Horizon \<Rightarrow> (''OpenStackControlPlaneHorizonReady'', ''Horizon'')
      | DNS \<Rightarrow> (''OpenStackControlPlaneDNSReadyCondition'', ''DNS'')
      | Telemetry \<Rightarrow> (''OpenStackControlPlaneTelemetryReady'', ''Telemetry'')
      | Heat \<Rightarrow> (''OpenStackControlPlaneHeatReady'', ''Heat'')
      | Swift \<Rightarrow> (''OpenStackControlPlaneSwiftReady'', ''Swift'')
      | Octavia \<Rightarrow> (''OpenStackControlPlaneOctaviaReady'', ''Octavia'')
      | Designate \<Rightarrow> (''OpenStackControlPlaneDesignateReady'', ''Designate'')
      | Barbican \<Rightarrow> (''OpenStackControlPlaneBarbicanReady'', ''Barbican'')
      | Redis \<Rightarrow> (''OpenStackControlPlaneRedisReady'', ''Redis'')
      | Watcher \<Rightarrow> (''OpenStackControlPlaneWatcherReady'', ''Watcher''))"

definition cp_services :: "os_service list" where
  "cp_services = [Rabbitmq, Ovn, Neutron, Galera, Memcached, Keystone, Placement, Glance, Cinder, Nova, Ironic, Manila, Horizon, DNS,
     Telemetry, Heat, Swift, Octavia, Designate, Barbican, Redis, Watcher]"

definition upd_cp_conds :: "(conditions \<Rightarrow> conditions) \<Rightarrow> control_plane \<Rightarrow> control_plane" where
  "upd_cp_conds f cp = cp\<lparr>cp_Status := (cp_Status cp)\<lparr>cs_Conditions := Some (f (cp_conds cp))\<rparr>\<rparr>"

text \<open>\<open>message\<close> gives the texts of lib-common by the names of their constants.\<close>

definition initial_cp_conditions :: "condlib \<Rightarrow> (string \<Rightarrow> string \<Rightarrow> string) \<Rightarrow> cp_spec \<Rightarrow> conditions" where
  "initial_cp_conditions L message spec =
     (let unknown = (\<lambda>t name. lc_UnknownCondition L t InitReason (''OpenStackControlPlane '' @ name @ '' not started''))
      in [unknown CAReadyCondition ''CAs'', unknown VersionInitializationReadyCondition ''OpenStackVersion initialization'',
          unknown InfrastructureReadyCondition ''Infrastructure'', unknown BackupConfigReadyCondition ''BackupConfig'',
          unknown ClientReadyCondition ''Client'', lc_UnknownCondition L ReadyCondition InitReason ReadyInitMessage]
         @ map (\<lambda>s. unknown (fst (service_condition s)) (snd (service_condition s))) (filter (sp_Enabled spec) cp_services)
         @ (if sp_TopologyRef spec \<noteq> None then [lc_UnknownCondition L TopologyReadyCondition InitReason (message ''TopologyReadyInitMessage'' [])] else []))"

definition cp_InitConditions :: "condlib \<Rightarrow> (string \<Rightarrow> string \<Rightarrow> string) \<Rightarrow> control_plane \<Rightarrow> control_plane" where
  "cp_InitConditions L message cp = upd_cp_conds (\<lambda>cs. lc_Init L cs (initial_cp_conditions L message (cp_Spec cp))) cp"

definition MirrorSubResourceCondition :: "condlib \<Rightarrow> conditions \<Rightarrow> string \<Rightarrow> string \<Rightarrow> control_plane \<Rightarrow> control_plane" where
  "MirrorSubResourceCondition L conds target subResource cp =
     (let my = lc_Mirror L conds target;
          my' = (if subResource \<noteq> [] then my\<lparr>c_message := subResource @ '': '' @ c_message my\<rparr> else my)
      in upd_cp_conds (\<lambda>cs. lc_Set L cs my') cp)"

subsection \<open>The environment\<close>

datatype reconciler =
    ReconcileCAs | ReconcileDNSMasqs | ReconcileRabbitMQs | ReconcileGaleras | ReconcileMemcacheds | ReconcileOVN | ReconcileKeystoneAPI
  | ReconcilePlacementAPI | ReconcileGlance | ReconcileCinder | ReconcileNeutron | ReconcileNova | ReconcileHeat | ReconcileIronic
  | ReconcileOpenStackClient | ReconcileManila | ReconcileHorizon | ReconcileTelemetry | ReconcileBarbican | ReconcileRedis
  | ReconcileOctavia | ReconcileDesignate | ReconcileSwift | ReconcileTest | ReconcileInstanceHa | ReconcileWatcher

record cpctl_env =
  ce_get :: "api_error + control_plane"
  ce_object :: ctlplane
  ce_message :: "string \<Rightarrow> string \<Rightarrow> string"
  ce_newHelper :: "api_error option"
  ce_versionHelper :: "api_error option"
  ce_finalizer :: string
  ce_versionFinalizer :: string
  ce_newVersion :: os_version
  ce_getVersion :: "api_error + os_version"
  ce_createVersion :: "os_version \<Rightarrow> api_error + os_version"
  ce_patchVersion :: "os_version \<Rightarrow> api_error option"
  ce_BackupConfig :: "control_plane \<Rightarrow> api_error option"
  ce_run :: "reconciler \<Rightarrow> os_version \<Rightarrow> control_plane \<Rightarrow> control_plane \<times> bool \<times> api_error option"
  ce_OVNMetricsCert :: "control_plane \<Rightarrow> api_error + string"
  ce_OVNController :: "os_version \<Rightarrow> string \<Rightarrow> control_plane \<Rightarrow> control_plane \<times> (api_error + bool \<times> conditions)"
  ce_topology :: "string \<Rightarrow> string \<Rightarrow> api_error option"
  ce_trigger :: "control_plane \<Rightarrow> control_plane \<times> bool \<times> api_error option"
  ce_DeleteCertsAndRoutes :: "control_plane \<Rightarrow> control_plane \<times> api_error option"
  ce_patch :: "api_error option"

text \<open>A reconciliation on its way: the control plane, the namespace of its topology (which \<open>checkTopologyRef\<close> fills in),
  the functions called so far, whether the result that ends it is not empty, and the version that a deletion writes.\<close>

record cp_run =
  cr_cp :: control_plane
  cr_TopologyNamespace :: "string ptr"
  cr_called :: "reconciler list"
  cr_requeue :: bool
  cr_version :: "os_version option"

definition upd_run :: "(control_plane \<Rightarrow> control_plane) \<Rightarrow> cp_run \<Rightarrow> cp_run" where
  "upd_run f run = run\<lparr>cr_cp := f (cr_cp run)\<rparr>"

definition after_call :: "control_plane \<times> bool \<times> api_error option \<Rightarrow> cp_run \<Rightarrow> cp_run step" where
  "after_call out run =
     (case out of
        (cp, requeue, err) \<Rightarrow>
          (let run1 = run\<lparr>cr_cp := cp\<rparr>
           in case err of
                Some e \<Rightarrow> Return (Some e) run1
              | None \<Rightarrow> if requeue then Return None (run1\<lparr>cr_requeue := True\<rparr>) else Next run1))"

definition call :: "cpctl_env \<Rightarrow> os_version \<Rightarrow> reconciler \<Rightarrow> cp_run \<Rightarrow> cp_run step" where
  "call env v k run = after_call (ce_run env k v (cr_cp run)) (run\<lparr>cr_called := cr_called run @ [k]\<rparr>)"

subsection \<open>Migration\<close>

text \<open>Whether a field waits for migration.\<close>

definition needs_bus :: "rabbitmq_config \<Rightarrow> string \<Rightarrow> bool" where
  "needs_bus bus deprecated \<longleftrightarrow> deprecated \<noteq> [] \<and> rq_Cluster bus = []"

definition needs_notifications :: "rabbitmq_config ptr \<Rightarrow> string \<Rightarrow> bool" where
  "needs_notifications bus deprecated \<longleftrightarrow> deprecated \<noteq> [] \<and> (case bus of None \<Rightarrow> True | Some b \<Rightarrow> rq_Cluster b = [])"

definition needs_template :: "os_service \<Rightarrow> template \<Rightarrow> bool" where
  "needs_template s t =
     (let messaging = needs_bus (tp_MessagingBus t) (tp_RabbitMqClusterName t);
          inst = needs_notifications (tp_NotificationsBus t) (deref (tp_NotificationsBusInstance t))
      in case s of
           Cinder \<Rightarrow> messaging \<or> inst
         | Manila \<Rightarrow> messaging \<or> inst
         | Neutron \<Rightarrow> messaging \<or> inst
         | Heat \<Rightarrow> messaging
         | Ironic \<Rightarrow> messaging \<or> needs_bus (bp_MessagingBus (tp_IronicNeutronAgent t)) (bp_RabbitMqClusterName (tp_IronicNeutronAgent t))
         | Barbican \<Rightarrow> messaging
         | Designate \<Rightarrow> messaging
         | Octavia \<Rightarrow> messaging
         | Watcher \<Rightarrow> needs_bus (tp_MessagingBus t) (deref (tp_WatcherRabbitMqClusterName t)) \<or> inst
         | Keystone \<Rightarrow> needs_notifications (tp_NotificationsBus t) (tp_RabbitMqClusterName t)
         | Swift \<Rightarrow> needs_notifications (np_NotificationsBus (tp_SwiftProxy t)) (np_RabbitMqClusterName (tp_SwiftProxy t))
         | Nova \<Rightarrow> needs_bus (tp_MessagingBus t) (tp_APIMessageBusInstance t)
             \<or> list_ex (\<lambda>(_, c). needs_bus (nc_MessagingBus c) (nc_CellMessageBusInstance c)) (tp_CellTemplates t) \<or> inst
         | Telemetry \<Rightarrow> needs_bus (bp_MessagingBus (tp_CloudKitty t)) (bp_RabbitMqClusterName (tp_CloudKitty t))
             \<or> needs_notifications (np_NotificationsBus (tp_Aodh t)) (np_RabbitMqClusterName (tp_Aodh t))
             \<or> needs_notifications (np_NotificationsBus (tp_Ceilometer t)) (np_RabbitMqClusterName (tp_Ceilometer t))
         | _ \<Rightarrow> False)"

definition needsServiceLevelMigration :: "ctlplane \<Rightarrow> bool" where
  "needsServiceLevelMigration r =
     list_ex (\<lambda>s. case oc_Template r s of None \<Rightarrow> False | Some t \<Rightarrow> needs_template s t)
       [Cinder, Manila, Neutron, Heat, Ironic, Barbican, Designate, Octavia, Watcher, Keystone, Swift, Nova, Telemetry]"

definition needs_migration :: "ctlplane \<Rightarrow> bool" where
  "needs_migration r \<longleftrightarrow>
     needs_notifications (oc_NotificationsBus r) (deref (oc_NotificationsBusInstance r)) \<or> needsServiceLevelMigration r"

subsection \<open>The normal path\<close>

definition DeploymentStageAnnotation :: string where "DeploymentStageAnnotation = ''core.openstack.org/deployment-stage''"
definition DeploymentStageInfrastructureOnly :: string where "DeploymentStageInfrastructureOnly = ''infrastructure-only''"
definition InfrastructurePausedMessage :: string where
  "InfrastructurePausedMessage =
     ''OpenStackControlPlane Infrastructure ready - deployment paused. Remove annotation to resume reconcile of OpenStack services''"

definition infrastructure_only :: "control_plane \<Rightarrow> bool" where
  "infrastructure_only cp \<longleftrightarrow> gomap_get [] (cp_Annotations cp) DeploymentStageAnnotation = DeploymentStageInfrastructureOnly"

text \<open>The namespace to look the topology up in, and the error of the lookup.\<close>

definition checkTopologyRef :: "cpctl_env \<Rightarrow> string \<Rightarrow> string \<Rightarrow> string \<Rightarrow> string \<times> api_error option" where
  "checkTopologyRef env name topologyNamespace namespace =
     (let ns = (if topologyNamespace = [] then namespace else topologyNamespace) in (ns, ce_topology env name ns))"

definition set_false :: "condlib \<Rightarrow> string \<Rightarrow> cond_reason \<Rightarrow> cond_severity \<Rightarrow> string \<Rightarrow> cp_run \<Rightarrow> cp_run" where
  "set_false L t reason severity message = upd_run (upd_cp_conds (\<lambda>cs. lc_Set L cs (lc_FalseCondition L t reason severity message)))"

definition mark_true :: "condlib \<Rightarrow> string \<Rightarrow> string \<Rightarrow> cp_run \<Rightarrow> cp_run" where
  "mark_true L t message = upd_run (upd_cp_conds (\<lambda>cs. lc_MarkTrue L cs t message))"

definition topology_stage :: "condlib \<Rightarrow> cpctl_env \<Rightarrow> cp_run \<Rightarrow> cp_run step" where
  "topology_stage L env run =
     (case sp_TopologyRef (cp_Spec (cr_cp run)) of
        None \<Rightarrow> Next run
      | Some name \<Rightarrow>
          (case checkTopologyRef env name (deref (cr_TopologyNamespace run)) (cp_Namespace (cr_cp run)) of
             (ns, err) \<Rightarrow>
               (let run1 = run\<lparr>cr_TopologyNamespace := Some ns\<rparr>
                in case err of
                     Some e \<Rightarrow>
                       Return (Some (wrap_err ''waiting for Topology requirements: '' e))
                         (set_false L TopologyReadyCondition ErrorReason SeverityWarning
                            (ce_message env ''TopologyReadyErrorMessage'' (err_msg e)) run1)
                   | None \<Rightarrow> Next (mark_true L TopologyReadyCondition (ce_message env ''TopologyReadyMessage'' []) run1))))"

definition migration_stage :: "cpctl_env \<Rightarrow> cp_run \<Rightarrow> cp_run step" where
  "migration_stage env run = (if needs_migration (ce_object env) then after_call (ce_trigger env (cr_cp run)) run else Next run)"

text \<open>The enabled infrastructure components that are not ready.\<close>

definition notReadyComponents :: "condlib \<Rightarrow> control_plane \<Rightarrow> string list" where
  "notReadyComponents L cp =
     (let missing = (\<lambda>t name. if lc_IsTrue L (cp_conds cp) t then [] else [name]);
          enabled = (\<lambda>s name. if cp_Enabled cp s then missing (fst (service_condition s)) name else [])
      in missing CAReadyCondition ''CAs'' @ enabled DNS ''DNS'' @ enabled Rabbitmq ''RabbitMQs'' @ enabled Galera ''Galeras''
         @ enabled Memcached ''Memcached'' @ enabled Ovn ''OVN'')"

definition isInfrastructureReady :: "condlib \<Rightarrow> control_plane \<Rightarrow> bool \<times> string list" where
  "isInfrastructureReady L cp = (notReadyComponents L cp = [], notReadyComponents L cp)"

definition infrastructure_stage :: "condlib \<Rightarrow> cp_run \<Rightarrow> cp_run step" where
  "infrastructure_stage L run =
     (let only = infrastructure_only (cr_cp run);
          run1 = (case isInfrastructureReady L (cr_cp run) of
                    (True, _) \<Rightarrow> mark_true L InfrastructureReadyCondition
                                  (if only then InfrastructurePausedMessage else ''OpenStackControlPlane Infrastructure ready'') run
                  | (False, names) \<Rightarrow> set_false L InfrastructureReadyCondition RequestedReason SeverityInfo
                      (if names \<noteq> [] then ''OpenStackControlPlane Infrastructure in progress - waiting for: '' @ join_comma names
                       else ''OpenStackControlPlane Infrastructure in progress'') run)
      in if only then Return None run1 else Next run1)"

definition cleanup_stage :: "condlib \<Rightarrow> cpctl_env \<Rightarrow> cp_run \<Rightarrow> cp_run step" where
  "cleanup_stage L env run =
     (case ce_DeleteCertsAndRoutes env (cr_cp run) of
        (cp, Some err) \<Rightarrow>
          Return (Some err) (set_false L CertCleanupReadyCondition ErrorReason SeverityWarning
            (''OpenStackControlPlane Cert cleanup error occured '' @ err_msg err) (run\<lparr>cr_cp := cp\<rparr>))
      | (cp, None) \<Rightarrow> Next (upd_run (upd_cp_conds (\<lambda>cs. lc_Remove L cs CertCleanupReadyCondition)) (run\<lparr>cr_cp := cp\<rparr>)))"

definition infrastructure_reconcilers :: "reconciler list" where
  "infrastructure_reconcilers =
     [ReconcileCAs, ReconcileDNSMasqs, ReconcileRabbitMQs, ReconcileGaleras, ReconcileMemcacheds, ReconcileOVN]"

definition service_reconcilers :: "reconciler list" where
  "service_reconcilers =
     [ReconcileKeystoneAPI, ReconcilePlacementAPI, ReconcileGlance, ReconcileCinder, ReconcileNeutron, ReconcileNova, ReconcileHeat,
      ReconcileIronic, ReconcileOpenStackClient, ReconcileManila, ReconcileHorizon, ReconcileTelemetry, ReconcileBarbican, ReconcileRedis,
      ReconcileOctavia, ReconcileDesignate, ReconcileSwift, ReconcileTest, ReconcileInstanceHa, ReconcileWatcher]"

definition reconcileNormal :: "condlib \<Rightarrow> cpctl_env \<Rightarrow> os_version \<Rightarrow> cp_run \<Rightarrow> cp_run step" where
  "reconcileNormal L env version =
     run_stages ([topology_stage L env, migration_stage env]
       @ map (call env version) infrastructure_reconcilers
       @ [infrastructure_stage L]
       @ map (call env version) service_reconcilers
       @ [cleanup_stage L env])"

subsection \<open>A minor update\<close>

definition reconcileOVNControllers :: "condlib \<Rightarrow> cpctl_env \<Rightarrow> os_version \<Rightarrow> cp_run \<Rightarrow> cp_run step" where
  "reconcileOVNControllers L env version run =
     (let ovn = fst (service_condition Ovn);
          cert = (if cp_Enabled (cr_cp run) Ovn \<and> sp_PodLevelTLS (cp_Spec (cr_cp run))
                  then ce_OVNMetricsCert env (cr_cp run) else Inr [])
      in case cert of
           Inl e \<Rightarrow> Return (Some e) run
         | Inr name \<Rightarrow>
             (case ce_OVNController env version name (cr_cp run) of
                (cp, Inl e) \<Rightarrow> Return (Some e) (run\<lparr>cr_cp := cp\<rparr>)
              | (cp, Inr (ready, conds)) \<Rightarrow>
                  (let run1 = run\<lparr>cr_cp := cp\<rparr>
                   in Next (if \<not> ready
                            then if conds \<noteq> [] then upd_run (MirrorSubResourceCondition L conds ovn ''OVN'') run1
                                 else set_false L ovn RequestedReason SeverityInfo ''OpenStackControlPlane OVN in progress'' run1
                            else mark_true L ovn ''OpenStackControlPlane OVN completed'' run1))))"

definition set_deployed :: "os_version \<Rightarrow> cp_run \<Rightarrow> cp_run" where
  "set_deployed version =
     upd_run (\<lambda>cp. cp\<lparr>cp_Status := (cp_Status cp)\<lparr>cs_DeployedVersion := Some (vs_TargetVersion (v_Spec version))\<rparr>\<rparr>)"

definition set_deployed_ovn :: "os_version \<Rightarrow> cp_run \<Rightarrow> cp_run" where
  "set_deployed_ovn version =
     upd_run (\<lambda>cp. cp\<lparr>cp_Status := (cp_Status cp)\<lparr>cs_DeployedOVNVersion := Some (vs_TargetVersion (v_Spec version))\<rparr>\<rparr>)"

text \<open>\<open>reconcileNormal\<close> and what its callers do with an empty result, also one that ends it early.\<close>

definition normal_path :: "condlib \<Rightarrow> cpctl_env \<Rightarrow> os_version \<Rightarrow> cp_run \<Rightarrow> cp_run step" where
  "normal_path L env version run =
     (case reconcileNormal L env version run of
        Next r \<Rightarrow> Return None (set_deployed version r)
      | Return None r \<Rightarrow> Return None (if cr_requeue r then r else set_deployed version r)
      | Return (Some e) r \<Rightarrow> Return (Some e) r
      | Panic \<Rightarrow> Panic)"

definition gated :: "condlib \<Rightarrow> cpctl_env \<Rightarrow> os_version \<Rightarrow> reconciler \<times> string \<Rightarrow> cp_run \<Rightarrow> cp_run step" where
  "gated L env version kt run =
     step_bind (call env version (fst kt) run)
       (\<lambda>r. if lc_IsTrue L (v_conds version) (snd kt) then Next r else Return None r)"

definition gates :: "(reconciler \<times> string) list" where
  "gates =
     [(ReconcileRabbitMQs, OpenStackVersionMinorUpdateRabbitMQ), (ReconcileGaleras, OpenStackVersionMinorUpdateMariaDB),
      (ReconcileMemcacheds, OpenStackVersionMinorUpdateMemcached), (ReconcileKeystoneAPI, OpenStackVersionMinorUpdateKeystone)]"

definition update_path :: "condlib \<Rightarrow> cpctl_env \<Rightarrow> os_version \<Rightarrow> cp_run \<Rightarrow> cp_run step" where
  "update_path L env version run =
     (if \<not> lc_IsTrue L (v_conds version) OpenStackVersionMinorUpdateOVNControlplane
      then step_bind (reconcileOVNControllers L env version run) (\<lambda>r. Return None (set_deployed_ovn version r))
      else (let run1 = mark_true L (fst (service_condition Ovn)) ''OpenStackControlPlane OVN completed'' run
            in if lc_IsTrue L (v_conds version) OpenStackVersionMinorUpdateOVNDataplane
               then step_bind (run_stages (map (gated L env version) gates) run1) (normal_path L env version)
               else Return None run1))"

subsection \<open>Reconcile\<close>

definition RemoveFinalizer :: "string \<Rightarrow> string list \<Rightarrow> string list" where
  "RemoveFinalizer f fs = filter (\<lambda>g. g \<noteq> f) fs"

definition cp_reconcileDelete :: "cpctl_env \<Rightarrow> os_version \<Rightarrow> cp_run \<Rightarrow> cp_run step" where
  "cp_reconcileDelete env version run =
     (let version' = version\<lparr>v_Finalizers := RemoveFinalizer (ce_versionFinalizer env) (v_Finalizers version)\<rparr>;
          release = upd_run (\<lambda>cp. cp\<lparr>cp_Finalizers := RemoveFinalizer (ce_finalizer env) (cp_Finalizers cp)\<rparr>)
      in if ce_versionFinalizer env \<in> set (v_Finalizers version)
         then (case ce_patchVersion env version' of
                 Some e \<Rightarrow> Return (Some e) run
               | None \<Rightarrow> Return None (release (run\<lparr>cr_version := Some version'\<rparr>)))
         else Return None (release run))"

definition version_error :: "condlib \<Rightarrow> api_error \<Rightarrow> cp_run \<Rightarrow> cp_run step" where
  "version_error L err run =
     Return (Some err) (set_false L VersionInitializationReadyCondition ErrorReason SeverityWarning
       (''OpenStackControlPlane OpenStackVersion initialization error occured '' @ err_msg err) run)"

definition deploy_version :: "condlib \<Rightarrow> cpctl_env \<Rightarrow> os_version \<Rightarrow> cp_run \<Rightarrow> cp_run step" where
  "deploy_version L env version run =
     (if \<not> lc_IsTrue L (v_conds version) OpenStackVersionInitialized
      then Return None (set_false L VersionInitializationReadyCondition RequestedReason SeverityInfo
             ''OpenStackControlPlane OpenStackVersion initialization in progress'' run)
      else (let run1 = mark_true L VersionInitializationReadyCondition ''OpenStackControlPlane OpenStackVersion initialized'' run
            in case ce_BackupConfig env (cr_cp run1) of
                 Some err \<Rightarrow>
                   Return (Some err) (set_false L BackupConfigReadyCondition ErrorReason SeverityWarning
                     (''OpenStackControlPlane BackupConfig error occured '' @ err_msg err) run1)
               | None \<Rightarrow>
                   (let run2 = mark_true L BackupConfigReadyCondition ''OpenStackControlPlane BackupConfig ready'' run1;
                        deployed = cs_DeployedVersion (cp_Status (cr_cp run2))
                    in if deployed = None \<or> deployed = Some (vs_TargetVersion (v_Spec version))
                       then normal_path L env version run2
                       else update_path L env version run2)))"

definition cp_start :: "condlib \<Rightarrow> cpctl_env \<Rightarrow> control_plane \<Rightarrow> cp_run" where
  "cp_start L env cp =
     \<lparr>cr_cp = (let cp1 = cp_InitConditions L (ce_message env) cp
               in cp1\<lparr>cp_Status := (cp_Status cp1)\<lparr>cs_ObservedGeneration := cp_Generation cp1\<rparr>\<rparr>),
      cr_TopologyNamespace = oc_TopologyRefNamespace (ce_object env), cr_called = [], cr_requeue = False, cr_version = None\<rparr>"

definition cp_body :: "condlib \<Rightarrow> cpctl_env \<Rightarrow> control_plane \<Rightarrow> cp_run step" where
  "cp_body L env cp =
     (let isNew = (cs_Conditions (cp_Status cp) = None);
          added = (\<not> cp_Deleting cp \<and> ce_finalizer env \<notin> set (cp_Finalizers cp));
          run = (if cp_Deleting cp then cp_start L env cp
                 else upd_run (\<lambda>cp. cp\<lparr>cp_Finalizers := AddFinalizer (ce_finalizer env) (cp_Finalizers cp)\<rparr>) (cp_start L env cp))
      in if added \<or> isNew then Return None run
         else (case ReconcileVersion (ce_newVersion env) (ce_getVersion env) (ce_createVersion env) (cr_cp run) of
                 Inl err \<Rightarrow> version_error L err run
               | Inr version \<Rightarrow>
                   (case ce_versionHelper env of
                      Some err \<Rightarrow> version_error L err run
                    | None \<Rightarrow> if cp_Deleting cp then cp_reconcileDelete env version run else deploy_version L env version run)))"

text \<open>The deferred function.\<close>

definition cp_set_ready :: "condlib \<Rightarrow> control_plane \<Rightarrow> control_plane" where
  "cp_set_ready L cp = upd_cp_conds (\<lambda>cs.
     if lc_AllSubConditionIsTrue L cs then lc_MarkTrue L cs ReadyCondition ReadyMessage
     else (let cs1 = lc_MarkUnknown L cs ReadyCondition InitReason ReadyInitMessage
           in if infrastructure_only cp \<and> lc_IsTrue L cs1 InfrastructureReadyCondition
              then lc_Set L cs1 (lc_FalseCondition L ReadyCondition RequestedReason SeverityInfo InfrastructurePausedMessage)
              else lc_Set L cs1 (lc_Mirror L cs1 ReadyCondition))) cp"

text \<open>What is left of a reconciliation: the run with the control plane as it is written (none when nothing is written), whether
  the result asks for another one, and the error.  \<open>None\<close> is a panic.\<close>

type_synonym cp_exit = "cp_run option \<times> bool \<times> api_error option"

definition cp_Reconcile :: "condlib \<Rightarrow> cpctl_env \<Rightarrow> cp_exit option" where
  "cp_Reconcile L env =
     (case ce_get env of
        Inl e \<Rightarrow> Some (None, False, if IsNotFound e then None else Some e)
      | Inr cp \<Rightarrow>
          (case ce_newHelper env of
             Some e \<Rightarrow> Some (None, False, Some e)
           | None \<Rightarrow>
               (let finish = (\<lambda>e r. case ce_patch env of
                                None \<Rightarrow> Some (Some (upd_run (cp_set_ready L) r), cr_requeue r, e)
                              | Some err \<Rightarrow> Some (None, cr_requeue r, Some err))
                in case cp_body L env cp of
                     Panic \<Rightarrow> None
                   | Return e r \<Rightarrow> finish e r
                   | Next r \<Rightarrow> finish None r)))"

subsection \<open>Watches\<close>

text \<open>The fields the controller indexes and the value of each for a control plane; \<open>issuers\<close> gives the custom issuers.\<close>

datatype watch_field =
  passwordSecretField | tlsCABundleSecretNameField | tlsIngressCACustomIssuer | tlsPodLevelInternalCACustomIssuer | tlsPodLevelOvnCACustomIssuer

definition allWatchFields :: "watch_field list" where
  "allWatchFields = [passwordSecretField, tlsCABundleSecretNameField, tlsIngressCACustomIssuer, tlsPodLevelInternalCACustomIssuer,
     tlsPodLevelOvnCACustomIssuer]"

record cp_refs =
  rf_Name :: string
  rf_Namespace :: string
  rf_Secret :: string
  rf_CaBundleSecretName :: string
  rf_IngressCustomIssuer :: "string ptr"
  rf_InternalCustomIssuer :: "string ptr"
  rf_LibvirtCustomIssuer :: "string ptr"
  rf_OvnCustomIssuer :: "string ptr"

definition index_values :: "watch_field \<Rightarrow> cp_refs \<Rightarrow> string list" where
  "index_values f cr =
     (let named = (\<lambda>s. if s = [] then [] else [s]); pointed = (\<lambda>p. case p of None \<Rightarrow> [] | Some s \<Rightarrow> [s])
      in case f of
           passwordSecretField \<Rightarrow> named (rf_Secret cr)
         | tlsCABundleSecretNameField \<Rightarrow> named (rf_CaBundleSecretName cr)
         | tlsIngressCACustomIssuer \<Rightarrow> pointed (rf_IngressCustomIssuer cr)
         | tlsPodLevelInternalCACustomIssuer \<Rightarrow> pointed (rf_InternalCustomIssuer cr)
         | tlsPodLevelOvnCACustomIssuer \<Rightarrow> pointed (rf_OvnCustomIssuer cr))"

text \<open>A list by field selector: the control planes of the namespace with the value in the index; \<open>list\<close> is the list of
  the cluster's control planes for each field, which may fail.\<close>

definition select_index :: "watch_field \<Rightarrow> string \<Rightarrow> string \<Rightarrow> cp_refs list \<Rightarrow> cp_refs list" where
  "select_index f name namespace crs = filter (\<lambda>cr. rf_Namespace cr = namespace \<and> name \<in> set (index_values f cr)) crs"

fun find_fields :: "(watch_field \<Rightarrow> api_error + cp_refs list) \<Rightarrow> string \<Rightarrow> string \<Rightarrow> watch_field list \<Rightarrow> (string \<times> string) list" where
  "find_fields list name namespace [] = []"
| "find_fields list name namespace (f # fs) =
     (case list f of
        Inl e \<Rightarrow> []
      | Inr crs \<Rightarrow> map (\<lambda>cr. (rf_Namespace cr, rf_Name cr)) (select_index f name namespace crs) @ find_fields list name namespace fs)"

definition findObjectsForSrc :: "(watch_field \<Rightarrow> api_error + cp_refs list) \<Rightarrow> string \<Rightarrow> string \<Rightarrow> (string \<times> string) list" where
  "findObjectsForSrc list name namespace = find_fields list name namespace allWatchFields"

definition findControlPlaneForSrc :: "(api_error + cp_refs list) \<Rightarrow> string \<Rightarrow> (string \<times> string) list" where
  "findControlPlaneForSrc list namespace =
     (case list of
        Inl e \<Rightarrow> []
      | Inr crs \<Rightarrow> map (\<lambda>cr. (rf_Namespace cr, rf_Name cr)) (filter (\<lambda>cr. rf_Namespace cr = namespace) crs))"

end
