(* ===== verification/Ctlplane_Run.thy ===== *)
theory Ctlplane_Run
  imports Ctlplane_Controller Deploy_Laws
begin

text \<open>
  What a reconciliation of the control plane does: the migration it asks for is the one the webhook makes, the functions
  of a minor update are called in the order of the stages of the version, the deployed version is recorded only after
  all functions were called, and what it means that the control plane is ready.
\<close>

subsection \<open>Migration\<close>

lemma needs_deprecated: "set (deprecated_values s t) \<subseteq> {[]} \<Longrightarrow> \<not> needs_template s t"
  by (cases s) (auto simp: deprecated_values_def needs_template_def needs_bus_def needs_notifications_def Let_def list_ex_iff)

text \<open>The request for migration settles.  The controller asks the webhook for a migration when a deprecated field of a
  messaging bus is set and the field that replaces it is not; no control plane that went through the migration of the webhook
  makes the controller ask again.\<close>

theorem migration_settles: "\<not> needs_migration (migrateDeprecatedFields r)"
proof -
  let ?r = "migrateDeprecatedFields r"
  have top: "\<not> needs_notifications (oc_NotificationsBus ?r) (deref (oc_NotificationsBusInstance ?r))"
    by (auto simp: migrateDeprecatedFields_def Let_def migrate_top_def needs_notifications_def split: option.splits)
  have service: "(case oc_Template ?r s of None \<Rightarrow> False | Some t \<Rightarrow> needs_template s t) = False" for s
  proof (cases "oc_Template r s")
    case (Some t)
    have "\<not> needs_template s (migrate_template s t)"
      using needs_deprecated [OF deprecated_cleared, of s t] by (cases "s = Glance") (simp_all add: needs_template_def)
    then show ?thesis using Some by (simp add: migrateDeprecatedFields_def Let_def)
  qed (simp add: migrateDeprecatedFields_def Let_def)
  then have "\<not> needsServiceLevelMigration ?r" unfolding needsServiceLevelMigration_def by (simp only: list_ex_iff service) simp
  then show ?thesis using top by (simp add: needs_migration_def)
qed

subsection \<open>The functions that are called\<close>

lemma after_call_called: "step_value (after_call out run) = Some r \<Longrightarrow> cr_called r = cr_called run"
  by (auto simp: after_call_def Let_def split: prod.splits option.splits if_splits)

lemma call_called: "step_value (call env v k run) = Some r \<Longrightarrow> cr_called r = cr_called run @ [k]"
  by (auto simp: call_def dest: after_call_called)

lemma called_upd [simp]:
  "cr_called (upd_run f run) = cr_called run" "cr_called (set_false L t rs sv m run) = cr_called run"
  "cr_called (mark_true L t m run) = cr_called run" "cr_called (set_deployed v run) = cr_called run"
  "cr_called (set_deployed_ovn v run) = cr_called run"
  by (simp_all add: upd_run_def set_false_def mark_true_def set_deployed_def set_deployed_ovn_def)

lemma stage_called:
  "step_value (topology_stage L env run) = Some r \<Longrightarrow> cr_called r = cr_called run"
  "step_value (migration_stage env run) = Some r \<Longrightarrow> cr_called r = cr_called run"
  "step_value (infrastructure_stage L run) = Some r \<Longrightarrow> cr_called r = cr_called run"
  "step_value (cleanup_stage L env run) = Some r \<Longrightarrow> cr_called r = cr_called run"
  "step_value (reconcileOVNControllers L env v run) = Some r \<Longrightarrow> cr_called r = cr_called run"
proof -
  show "step_value (infrastructure_stage L run) = Some r \<Longrightarrow> cr_called r = cr_called run"
    by (auto simp: infrastructure_stage_def Let_def split: prod.splits bool.splits if_splits)
qed (auto simp: topology_stage_def migration_stage_def cleanup_stage_def reconcileOVNControllers_def Let_def
      dest: after_call_called split: option.splits prod.splits if_splits sum.splits)

lemma calls_Next: "run_stages (map (call env v) ks) run = Next r \<Longrightarrow> cr_called r = cr_called run @ ks"
proof (induction ks arbitrary: run)
  case (Cons k ks)
  then show ?case using call_called [of env v k run] by (cases "call env v k run") auto
qed simp

lemma calls_subset:
  assumes "step_value (run_stages (map (call env v) ks) run) = Some r"
  shows "set (cr_called run) \<subseteq> set (cr_called r) \<and> set (cr_called r) \<subseteq> set (cr_called run) \<union> set ks"
  using assms
proof (induction ks arbitrary: run)
  case (Cons k ks)
  then show ?case using call_called [of env v k run] by (cases "call env v k run") fastforce+
qed simp

text \<open>A stage that ends the reconciliation without an error asks for another one, the infrastructure stage apart.\<close>

definition strict :: "(cp_run \<Rightarrow> cp_run step) \<Rightarrow> bool" where
  "strict f \<longleftrightarrow> (\<forall>run r. f run = Return None r \<longrightarrow> cr_requeue r)"

lemma strict_stages: "list_all strict fs \<Longrightarrow> strict (run_stages fs)"
proof (induction fs)
  case (Cons f fs)
  show ?case unfolding strict_def
  proof (intro allI impI)
    fix run r assume "run_stages (f # fs) run = Return None r"
    then show "cr_requeue r" using Cons by (cases "f run") (auto simp: strict_def)
  qed
qed (simp add: strict_def)

lemma strict_after_call: "after_call out run = Return None r \<Longrightarrow> cr_requeue r"
  by (auto simp: after_call_def Let_def split: prod.splits option.splits if_splits)

lemma strict_simps [simp]: "strict (topology_stage L env)" "strict (migration_stage env)" "strict (call env v k)" "strict (cleanup_stage L env)"
  by (auto simp: strict_def topology_stage_def migration_stage_def call_def cleanup_stage_def Let_def dest: strict_after_call
      split: option.splits prod.splits if_splits)

lemma strict_calls [simp]: "list_all strict (map (call env v) ks)"
  by (simp add: list_all_iff)

text \<open>\<open>reconcileNormal\<close> in three parts.\<close>

definition normal_infra :: "condlib \<Rightarrow> cpctl_env \<Rightarrow> os_version \<Rightarrow> cp_run \<Rightarrow> cp_run step" where
  "normal_infra L env v = run_stages ([topology_stage L env, migration_stage env] @ map (call env v) infrastructure_reconcilers)"

definition normal_services :: "condlib \<Rightarrow> cpctl_env \<Rightarrow> os_version \<Rightarrow> cp_run \<Rightarrow> cp_run step" where
  "normal_services L env v = run_stages (map (call env v) service_reconcilers @ [cleanup_stage L env])"

lemma run_stages_split: "run_stages (fs @ f # gs) a = step_bind (run_stages fs a) (\<lambda>r. step_bind (f r) (run_stages gs))"
  by (cases "run_stages fs a") (simp_all add: run_stages_append)

lemma reconcileNormal_parts:
  "reconcileNormal L env v run =
     step_bind (normal_infra L env v run) (\<lambda>r. step_bind (infrastructure_stage L r) (normal_services L env v))"
  unfolding reconcileNormal_def normal_infra_def normal_services_def run_stages_split [symmetric] by simp

lemma normal_infra_Next:
  assumes "normal_infra L env v run = Next r"
  shows "cr_called r = cr_called run @ infrastructure_reconcilers"
proof -
  obtain a b where "topology_stage L env run = Next a" "migration_stage env a = Next b"
    "run_stages (map (call env v) infrastructure_reconcilers) b = Next r"
    using assms unfolding normal_infra_def run_stages_append
    by (cases "topology_stage L env run"; cases "migration_stage env (case topology_stage L env run of Next a \<Rightarrow> a)") auto
  then show ?thesis using stage_called(1) [of L env run a] stage_called(2) [of env a b] calls_Next [of env v _ b r] by simp
qed

lemma normal_services_Next:
  assumes "normal_services L env v run = Next r"
  shows "cr_called r = cr_called run @ service_reconcilers"
proof -
  obtain a where "run_stages (map (call env v) service_reconcilers) run = Next a" "cleanup_stage L env a = Next r"
    using assms unfolding normal_services_def run_stages_append
    by (cases "run_stages (map (call env v) service_reconcilers) run"; cases "cleanup_stage L env (case run_stages (map (call env v) service_reconcilers) run of Next a \<Rightarrow> a)")
       auto
  then show ?thesis using calls_Next [of env v service_reconcilers run a] stage_called(4) [of L env a r] by simp
qed

lemma infrastructure_stage_step:
  "\<exists>r'. cr_called r' = cr_called r \<and> cr_requeue r' = cr_requeue r
     \<and> infrastructure_stage L r = (if infrastructure_only (cr_cp r) then Return None r' else Next r')"
  unfolding infrastructure_stage_def Let_def
  by (auto simp: set_false_def mark_true_def upd_run_def split: prod.split bool.split)

text \<open>An empty result of \<open>reconcileNormal\<close>: everything has been called, or the infrastructure in infrastructure-only mode.\<close>

definition normal_done :: "cp_run step \<Rightarrow> cp_run \<Rightarrow> bool" where
  "normal_done s r \<longleftrightarrow> s = Next r \<or> s = Return None r \<and> \<not> cr_requeue r"

lemma strict_normal: "strict (normal_infra L env v)" "strict (normal_services L env v)"
  unfolding normal_infra_def normal_services_def by (rule strict_stages, simp)+

lemma normal_done_called:
  assumes "normal_done (reconcileNormal L env v run) r"
  shows "\<exists>r1. normal_infra L env v run = Next r1 \<and>
     cr_called r = cr_called run @ infrastructure_reconcilers @ (if infrastructure_only (cr_cp r1) then [] else service_reconcilers)"
proof (cases "normal_infra L env v run")
  case (Next r1)
  obtain r2 where r2: "cr_called r2 = cr_called r1"
    and S: "infrastructure_stage L r1 = (if infrastructure_only (cr_cp r1) then Return None r2 else Next r2)"
    using infrastructure_stage_step [of r1 L] by blast
  show ?thesis
  proof (cases "infrastructure_only (cr_cp r1)")
    case True
    then have "r = r2" using assms S by (simp add: normal_done_def reconcileNormal_parts Next)
    then show ?thesis using True r2 normal_infra_Next [OF Next] Next by simp
  next
    case False
    then have "normal_done (normal_services L env v r2) r" using assms S by (simp add: normal_done_def reconcileNormal_parts Next)
    then have "normal_services L env v r2 = Next r" using strict_normal(2) by (auto simp: normal_done_def strict_def)
    then show ?thesis using False r2 normal_infra_Next [OF Next] normal_services_Next Next by simp
  qed
next
  case (Return e r1)
  then show ?thesis using assms strict_normal(1) by (auto simp: normal_done_def reconcileNormal_parts strict_def)
qed (use assms in \<open>simp add: normal_done_def reconcileNormal_parts\<close>)

subsection \<open>The deployed version\<close>

text \<open>The functions for the services leave the deployed version of the control plane and the annotation for the deployment
  stage alone; each only writes its own conditions and images.\<close>

definition cp_view :: "control_plane \<Rightarrow> string ptr \<times> bool" where
  "cp_view cp = (cs_DeployedVersion (cp_Status cp), infrastructure_only cp)"

definition reconcilers_keep :: "cpctl_env \<Rightarrow> bool" where
  "reconcilers_keep env \<longleftrightarrow>
     (\<forall>k v cp. cp_view (fst (ce_run env k v cp)) = cp_view cp) \<and> (\<forall>cp. cp_view (fst (ce_trigger env cp)) = cp_view cp)
     \<and> (\<forall>v n cp. cp_view (fst (ce_OVNController env v n cp)) = cp_view cp)
     \<and> (\<forall>cp. cp_view (fst (ce_DeleteCertsAndRoutes env cp)) = cp_view cp)"

lemma view_upd [simp]:
  "cp_view (upd_cp_conds f cp) = cp_view cp" "cp_view (cr_cp (set_false L t rs sv m run)) = cp_view (cr_cp run)"
  "cp_view (cr_cp (mark_true L t m run)) = cp_view (cr_cp run)" "cp_view (MirrorSubResourceCondition L cs t n cp) = cp_view cp"
  "cp_view (cr_cp (upd_run (upd_cp_conds f) run)) = cp_view (cr_cp run)" "cp_view (cp_set_ready L cp) = cp_view cp"
  by (simp_all add: cp_view_def upd_cp_conds_def set_false_def mark_true_def upd_run_def MirrorSubResourceCondition_def infrastructure_only_def
      Let_def cp_set_ready_def)

lemma after_call_view: "step_value (after_call out run) = Some r \<Longrightarrow> cp_view (cr_cp r) = cp_view (fst out)"
  by (auto simp: after_call_def Let_def split: prod.splits option.splits if_splits)

lemma infrastructure_stage_view: "step_value (infrastructure_stage L run) = Some r \<Longrightarrow> cp_view (cr_cp r) = cp_view (cr_cp run)"
  by (auto simp: infrastructure_stage_def Let_def split: prod.splits bool.splits if_splits)

lemma stage_view:
  assumes "reconcilers_keep env"
  shows "step_value (topology_stage L env run) = Some r \<Longrightarrow> cp_view (cr_cp r) = cp_view (cr_cp run)"
    and "step_value (migration_stage env run) = Some r \<Longrightarrow> cp_view (cr_cp r) = cp_view (cr_cp run)"
    and "step_value (call env v k run) = Some r \<Longrightarrow> cp_view (cr_cp r) = cp_view (cr_cp run)"
proof -
  show "step_value (topology_stage L env run) = Some r \<Longrightarrow> cp_view (cr_cp r) = cp_view (cr_cp run)"
    by (auto simp: topology_stage_def Let_def split: option.splits prod.splits)
qed (use assms in \<open>auto simp: migration_stage_def call_def reconcilers_keep_def dest: after_call_view split: if_splits\<close>)

lemma cleanup_view:
  assumes "reconcilers_keep env" and "step_value (cleanup_stage L env run) = Some r"
  shows "cp_view (cr_cp r) = cp_view (cr_cp run)"
proof -
  have "cp_view (fst (ce_DeleteCertsAndRoutes env (cr_cp run))) = cp_view (cr_cp run)" using assms(1) by (simp add: reconcilers_keep_def)
  then show ?thesis using assms(2) by (auto simp: cleanup_stage_def split: option.splits prod.splits)
qed

lemma ovn_view:
  assumes "reconcilers_keep env" and "step_value (reconcileOVNControllers L env v run) = Some r"
  shows "cp_view (cr_cp r) = cp_view (cr_cp run)"
proof -
  have K: "cp_view (fst (ce_OVNController env v n (cr_cp run))) = cp_view (cr_cp run)" for n using assms(1) by (simp add: reconcilers_keep_def)
  show ?thesis
  proof (cases "if cp_Enabled (cr_cp run) Ovn \<and> sp_PodLevelTLS (cp_Spec (cr_cp run)) then ce_OVNMetricsCert env (cr_cp run) else Inr []")
    case (Inr name)
    obtain cp out where out: "ce_OVNController env v name (cr_cp run) = (cp, out)" by (cases "ce_OVNController env v name (cr_cp run)")
    have "cp_view cp = cp_view (cr_cp run)" using K [of name] out by simp
    moreover have "cp_view (cr_cp r) = cp_view cp"
      using assms(2) Inr out by (cases out) (auto simp: reconcileOVNControllers_def Let_def upd_run_def)
    ultimately show ?thesis by simp
  qed (use assms(2) in \<open>simp add: reconcileOVNControllers_def Let_def\<close>)
qed

lemma stages_view:
  assumes "reconcilers_keep env"
    and "set fs \<subseteq> {topology_stage L env, migration_stage env, infrastructure_stage L, cleanup_stage L env} \<union> range (call env v)"
    and "step_value (run_stages fs run) = Some r"
  shows "cp_view (cr_cp r) = cp_view (cr_cp run)"
proof (rule run_stages_invariant [of fs "\<lambda>r. cp_view (cr_cp r) = cp_view (cr_cp run)" run r, OF _ assms(3)])
  fix f a a' assume f: "f \<in> set fs" and a: "cp_view (cr_cp a) = cp_view (cr_cp run)" and s: "step_value (f a) = Some a'"
  have "f \<in> {topology_stage L env, migration_stage env, infrastructure_stage L, cleanup_stage L env} \<union> range (call env v)"
    using assms(2) f by blast
  then consider "f = topology_stage L env" | "f = migration_stage env" | "f = infrastructure_stage L" | "f = cleanup_stage L env"
    | k where "f = call env v k" by blast
  then have "cp_view (cr_cp a') = cp_view (cr_cp a)"
    using s by cases (simp_all add: stage_view [OF assms(1)] infrastructure_stage_view cleanup_view [OF assms(1)])
  then show "cp_view (cr_cp a') = cp_view (cr_cp run)" using a by simp
qed simp

lemma normal_view:
  assumes "reconcilers_keep env" and "step_value (reconcileNormal L env v run) = Some r"
  shows "cp_view (cr_cp r) = cp_view (cr_cp run)"
  by (rule stages_view [OF assms(1) _ assms(2) [unfolded reconcileNormal_def]]) auto

lemma normal_infra_view:
  assumes "reconcilers_keep env" and "normal_infra L env v run = Next r"
  shows "cp_view (cr_cp r) = cp_view (cr_cp run)"
  by (rule stages_view [OF assms(1), where L = L and v = v and fs = "[topology_stage L env, migration_stage env] @ map (call env v) infrastructure_reconcilers"])
     (use assms(2) in \<open>auto simp: normal_infra_def\<close>)

text \<open>The outcome of the normal path: nothing that matters has changed, or everything has been called.\<close>

lemma normal_path_cases:
  assumes K: "reconcilers_keep env" and run: "step_value (normal_path L env v run) = Some r"
  obtains (same) "cp_view (cr_cp r) = cp_view (cr_cp run)"
    | (complete) "normal_path L env v run = Return None r"
        "cs_DeployedVersion (cp_Status (cr_cp r)) = Some (v_target v)"
        "cr_called r = cr_called run @ infrastructure_reconcilers @ (if infrastructure_only (cr_cp run) then [] else service_reconcilers)"
proof -
  have D: thesis if d: "normal_done (reconcileNormal L env v run) r0" and r: "normal_path L env v run = Return None (set_deployed v r0)" for r0
  proof (rule complete)
    have "r = set_deployed v r0" using run r by simp
    then show "normal_path L env v run = Return None r" "cs_DeployedVersion (cp_Status (cr_cp r)) = Some (v_target v)"
      using r by (simp_all add: set_deployed_def upd_run_def)
    obtain r1 where r1: "normal_infra L env v run = Next r1"
      "cr_called r0 = cr_called run @ infrastructure_reconcilers @ (if infrastructure_only (cr_cp r1) then [] else service_reconcilers)"
      using normal_done_called [OF d] by blast
    then show "cr_called r = cr_called run @ infrastructure_reconcilers @ (if infrastructure_only (cr_cp run) then [] else service_reconcilers)"
      using \<open>r = set_deployed v r0\<close> normal_infra_view [OF K r1(1)] by (simp add: cp_view_def)
  qed
  show thesis
  proof (cases "reconcileNormal L env v run")
    case (Next r0)
    then show thesis by (intro D [of r0]) (simp_all add: normal_done_def normal_path_def)
  next
    case (Return e r0)
    show thesis
    proof (cases "e = None \<and> \<not> cr_requeue r0")
      case True
      then show thesis using Return by (intro D [of r0]) (simp_all add: normal_done_def normal_path_def)
    next
      case False
      then have "r = r0" using run Return by (auto simp: normal_path_def split: option.splits)
      moreover have "cp_view (cr_cp r0) = cp_view (cr_cp run)" by (rule normal_view [OF K, of L v]) (simp add: Return)
      ultimately show thesis using same by simp
    qed
  qed (use run in \<open>simp add: normal_path_def\<close>)
qed

subsection \<open>The gates of a minor update\<close>

lemma gated_step:
  assumes "step_value (gated L env v kt run) = Some r"
  shows "cr_called r = cr_called run @ [fst kt]" and "gated L env v kt run = Next r \<Longrightarrow> lc_IsTrue L (v_conds v) (snd kt)"
    and "reconcilers_keep env \<Longrightarrow> cp_view (cr_cp r) = cp_view (cr_cp run)"
proof -
  have "step_value (call env v (fst kt) run) = Some r" using assms by (cases "call env v (fst kt) run") (auto simp: gated_def split: if_splits)
  then show "cr_called r = cr_called run @ [fst kt]" "reconcilers_keep env \<Longrightarrow> cp_view (cr_cp r) = cp_view (cr_cp run)"
    using call_called stage_view(3) by blast+
  show "gated L env v kt run = Next r \<Longrightarrow> lc_IsTrue L (v_conds v) (snd kt)"
    by (cases "call env v (fst kt) run") (auto simp: gated_def split: if_splits)
qed

lemma gates_view:
  assumes "reconcilers_keep env" and "step_value (run_stages (map (gated L env v) gs) run) = Some r"
  shows "cp_view (cr_cp r) = cp_view (cr_cp run)"
  by (rule run_stages_invariant [of _ "\<lambda>r. cp_view (cr_cp r) = cp_view (cr_cp run)" run r, OF _ assms(2)])
     (auto simp: gated_step(3) assms(1))

lemma gates_Next:
  assumes "run_stages (map (gated L env v) gs) run = Next r"
  shows "list_all (\<lambda>kt. lc_IsTrue L (v_conds v) (snd kt)) gs" and "cr_called r = cr_called run @ map fst gs"
proof (atomize (full), use assms in \<open>induction gs arbitrary: run\<close>)
  case (Cons kt gs)
  obtain a where a: "gated L env v kt run = Next a" "run_stages (map (gated L env v) gs) a = Next r"
    using Cons.prems by (cases "gated L env v kt run") auto
  then show ?case using Cons.IH [OF a(2)] gated_step(1,2) [of L env v kt run a] by simp
qed simp

text \<open>A function called in the gated part: the gates before it are open.\<close>

lemma gates_called:
  assumes "step_value (run_stages (map (gated L env v) gs) run) = Some r" and "k \<in> set (cr_called r)"
  shows "k \<in> set (cr_called run) \<or> (\<exists>xs t ys. gs = xs @ (k, t) # ys \<and> list_all (\<lambda>kt. lc_IsTrue L (v_conds v) (snd kt)) xs)"
  using assms
proof (induction gs arbitrary: run)
  case (Cons kt gs)
  show ?case
  proof (cases "gated L env v kt run")
    case (Next a)
    have a: "cr_called a = cr_called run @ [fst kt]" "lc_IsTrue L (v_conds v) (snd kt)"
      using gated_step(1,2) [of L env v kt run a] Next by simp_all
    have "step_value (run_stages (map (gated L env v) gs) a) = Some r" using Cons.prems(1) Next by simp
    then consider "k \<in> set (cr_called a)"
      | xs t ys where "gs = xs @ (k, t) # ys" "list_all (\<lambda>kt. lc_IsTrue L (v_conds v) (snd kt)) xs"
      using Cons.IH [of a] Cons.prems(2) by blast
    then show ?thesis
    proof cases
      case 1
      then consider "k \<in> set (cr_called run)" | "k = fst kt" using a(1) by auto
      then show ?thesis
      proof cases
        case 2
        then have "kt # gs = [] @ (k, snd kt) # gs" by simp
        then show ?thesis by fastforce
      qed simp
    next
      case 2
      then have "kt # gs = (kt # xs) @ (k, t) # ys" "list_all (\<lambda>kt. lc_IsTrue L (v_conds v) (snd kt)) (kt # xs)" using a(2) by simp_all
      then show ?thesis by blast
    qed
  next
    case (Return e a)
    then have "cr_called r = cr_called run @ [fst kt]" using gated_step(1) [of L env v kt run r] Cons.prems(1) by simp
    then consider "k \<in> set (cr_called run)" | "kt # gs = [] @ (k, snd kt) # gs" using Cons.prems(2) by fastforce
    then show ?thesis by cases fastforce+
  qed (use Cons.prems in simp)
qed simp

subsection \<open>Reconcile\<close>

definition cp_version :: "cpctl_env \<Rightarrow> control_plane \<Rightarrow> api_error + os_version" where
  "cp_version env cp = ReconcileVersion (ce_newVersion env) (ce_getVersion env) (ce_createVersion env) cp"

abbreviation cp_deployed :: "control_plane \<Rightarrow> string ptr" where
  "cp_deployed cp \<equiv> cs_DeployedVersion (cp_Status cp)"

lemma start_sel [simp]:
  "cr_called (cp_start L env cp) = []" "cr_requeue (cp_start L env cp) = False" "cp_view (cr_cp (cp_start L env cp)) = cp_view cp"
  "cp_Name (cr_cp (cp_start L env cp)) = cp_Name cp" "cp_Namespace (cr_cp (cp_start L env cp)) = cp_Namespace cp"
  "cp_Deleting (cr_cp (cp_start L env cp)) = cp_Deleting cp" "cp_Finalizers (cr_cp (cp_start L env cp)) = cp_Finalizers cp"
  by (simp_all add: cp_start_def cp_InitConditions_def upd_cp_conds_def cp_view_def infrastructure_only_def Let_def)

lemma start_finalizer [simp]:
  "cp_view (cp\<lparr>cp_Finalizers := fs\<rparr>) = cp_view cp" "cp_version env (cp\<lparr>cp_Finalizers := fs\<rparr>) = cp_version env cp"
  "cp_version env (cr_cp (cp_start L env cp)) = cp_version env cp"
  by (simp_all add: cp_view_def infrastructure_only_def cp_version_def ReconcileVersion_def Let_def split: sum.split)

text \<open>A reconciliation that has called nothing yet: only conditions of its own preparations have changed since it started.\<close>

definition begun :: "condlib \<Rightarrow> cpctl_env \<Rightarrow> control_plane \<Rightarrow> cp_run \<Rightarrow> bool" where
  "begun L env cp r \<longleftrightarrow> cp_view (cr_cp r) = cp_view cp \<and> cr_called r = []
     \<and> (condlib_laws L \<longrightarrow> (\<forall>t. t \<noteq> VersionInitializationReadyCondition \<longrightarrow> t \<noteq> BackupConfigReadyCondition \<longrightarrow>
           lc_Get L (cp_conds (cr_cp r)) t = lc_Get L (cp_conds (cr_cp (cp_start L env cp))) t))"

lemma conds_upd [simp]: "cp_conds (upd_cp_conds f cp) = f (cp_conds cp)"
  by (simp add: upd_cp_conds_def cp_conds_def)

lemma conds_run [simp]:
  "condlib_laws L \<Longrightarrow> cp_conds (cr_cp (set_false L t rs sv m run)) = lc_Set L (cp_conds (cr_cp run)) (lc_FalseCondition L t rs sv m)"
  "condlib_laws L \<Longrightarrow> cp_conds (cr_cp (mark_true L t m run)) = lc_Set L (cp_conds (cr_cp run)) (lc_TrueCondition L t m)"
  "cp_conds (cr_cp (upd_run f run)) = cp_conds (f (cr_cp run))"
  by (simp_all add: set_false_def mark_true_def upd_run_def)

lemma conds_finalizers [simp]: "cp_conds (cp\<lparr>cp_Finalizers := fs\<rparr>) = cp_conds cp"
  by (simp add: cp_conds_def)

lemma begun_steps:
  assumes "begun L env cp r" and "t = VersionInitializationReadyCondition \<or> t = BackupConfigReadyCondition"
  shows "begun L env cp (set_false L t rs sv m r)" and "begun L env cp (mark_true L t m r)"
  using assms by (auto simp: begun_def)

lemma begun_delete: "begun L env cp r \<Longrightarrow> step_value (cp_reconcileDelete env v r) = Some r' \<Longrightarrow> begun L env cp r'"
  by (auto simp: begun_def cp_reconcileDelete_def Let_def upd_run_def split: if_splits option.splits)

lemma begun_deploy:
  assumes B: "begun L env cp run" and s: "step_value (deploy_version L env v run) = Some r"
  obtains "begun L env cp r"
    | run' where "begun L env cp run'" "deploy_version L env v run =
        (if cp_deployed cp = None \<or> cp_deployed cp = Some (v_target v) then normal_path L env v run' else update_path L env v run')"
proof -
  let ?run1 = "mark_true L VersionInitializationReadyCondition ''OpenStackControlPlane OpenStackVersion initialized'' run"
  let ?run2 = "mark_true L BackupConfigReadyCondition ''OpenStackControlPlane BackupConfig ready'' ?run1"
  have B1: "begun L env cp ?run1" by (rule begun_steps(2) [OF B]) simp
  have B2: "begun L env cp ?run2" by (rule begun_steps(2) [OF B1]) simp
  then have dep: "cp_deployed (cr_cp ?run2) = cp_deployed cp" unfolding begun_def cp_view_def by blast
  show thesis
  proof (cases "lc_IsTrue L (v_conds v) OpenStackVersionInitialized")
    case False
    then show thesis using s begun_steps(1) [OF B] that(1) by (simp add: deploy_version_def) metis
  next
    case True
    show thesis
    proof (cases "ce_BackupConfig env (cr_cp ?run1)")
      case None
      have "deploy_version L env v run =
          (if cp_deployed cp = None \<or> cp_deployed cp = Some (v_target v) then normal_path L env v ?run2 else update_path L env v ?run2)"
        unfolding deploy_version_def Let_def dep using None True by simp
      then show thesis using that(2) B2 by blast
    next
      case (Some err)
      then show thesis using s True begun_steps(1) [OF B1] that(1) by (simp add: deploy_version_def) metis
    qed
  qed
qed

text \<open>A reconciliation ends before any function is called, or takes one of the two paths.\<close>

lemma body_cases:
  assumes "step_value (cp_body L env cp) = Some r"
  obtains (early) "begun L env cp r"
    | (paths) v run where "cp_version env cp = Inr v" "begun L env cp run"
        "cp_body L env cp = (if cp_deployed cp = None \<or> cp_deployed cp = Some (v_target v) then normal_path L env v run else update_path L env v run)"
proof -
  define run where "run = (if cp_Deleting cp then cp_start L env cp
      else upd_run (\<lambda>cp. cp\<lparr>cp_Finalizers := AddFinalizer (ce_finalizer env) (cp_Finalizers cp)\<rparr>) (cp_start L env cp))"
  have B: "begun L env cp run" by (simp add: begun_def run_def upd_run_def)
  have version: "cp_version env (cr_cp run) = cp_version env cp" by (simp add: run_def upd_run_def)
  let ?early = "(\<not> cp_Deleting cp \<and> ce_finalizer env \<notin> set (cp_Finalizers cp)) \<or> cs_Conditions (cp_Status cp) = None"
  have body: "cp_body L env cp =
      (if ?early then Return None run
       else (case cp_version env cp of
               Inl err \<Rightarrow> version_error L err run
             | Inr v \<Rightarrow> (case ce_versionHelper env of
                 Some err \<Rightarrow> version_error L err run
               | None \<Rightarrow> if cp_Deleting cp then cp_reconcileDelete env v run else deploy_version L env v run)))"
    unfolding cp_body_def Let_def run_def [symmetric] cp_version_def [symmetric] version by simp
  have E: thesis if "cp_body L env cp = version_error L err run" for err
    using that assms begun_steps(1) [OF B] early by (simp add: version_error_def) metis
  show thesis
  proof (cases "?early \<or> (\<exists>err. cp_version env cp = Inl err) \<or> (\<exists>err. ce_versionHelper env = Some err)")
    case True
    then have "cp_body L env cp = Return None run \<or> (\<exists>err. cp_body L env cp = version_error L err run)"
      unfolding body by (cases "?early"; cases "cp_version env cp"; cases "ce_versionHelper env") auto
    then show thesis using E assms B early by auto
  next
    case False
    then obtain v where v: "cp_version env cp = Inr v" "ce_versionHelper env = None" "\<not> ?early"
      by (cases "cp_version env cp"; cases "ce_versionHelper env") auto
    show thesis
    proof (cases "cp_Deleting cp")
      case True
      then have "step_value (cp_reconcileDelete env v run) = Some r" using assms body v by auto
      then show thesis using begun_delete [OF B] early by blast
    next
      case False
      then have D: "cp_body L env cp = deploy_version L env v run" using body v by auto
      show thesis by (rule begun_deploy [OF B assms [unfolded D]]) (use D early paths v(1) in auto)
    qed
  qed
qed

lemma Reconcile_body:
  assumes "ce_get env = Inr cp" and "cp_Reconcile L env = Some (Some r, rq, e)"
  obtains r0 where "cp_body L env cp = Return e r0 \<or> cp_body L env cp = Next r0 \<and> e = None" "r = upd_run (cp_set_ready L) r0" "rq = cr_requeue r0"
  using assms by (cases "cp_body L env cp") (auto simp: cp_Reconcile_def Let_def split: option.splits)

lemma update_path_cases:
  assumes K: "reconcilers_keep env" and run: "step_value (update_path L env v run) = Some r"
  obtains (same) "cp_view (cr_cp r) = cp_view (cr_cp run) \<or> cp_deployed (cr_cp r) = cp_deployed (cr_cp run)"
    | (normal) run1 where "update_path L env v run = normal_path L env v run1" "cp_view (cr_cp run1) = cp_view (cr_cp run)"
        "cr_called run1 = cr_called run @ map fst gates"
        "list_all (lc_IsTrue L (v_conds v)) (take 6 update_stages)"
proof (cases "lc_IsTrue L (v_conds v) OpenStackVersionMinorUpdateOVNControlplane")
  case False
  then obtain r0 where r0: "step_value (reconcileOVNControllers L env v run) = Some r0" "r = r0 \<or> r = set_deployed_ovn v r0"
    using run by (cases "reconcileOVNControllers L env v run") (auto simp: update_path_def)
  have "cp_deployed (cr_cp r) = cp_deployed (cr_cp r0)" using r0(2) by (auto simp: set_deployed_ovn_def upd_run_def)
  then show thesis using ovn_view [OF K r0(1)] same by (simp add: cp_view_def)
next
  case True
  let ?run0 = "mark_true L (fst (service_condition Ovn)) ''OpenStackControlPlane OVN completed'' run"
  show thesis
  proof (cases "lc_IsTrue L (v_conds v) OpenStackVersionMinorUpdateOVNDataplane")
    case False
    then show thesis using True run same by (auto simp: update_path_def Let_def)
  next
    case ovn: True
    then have U: "update_path L env v run = step_bind (run_stages (map (gated L env v) gates) ?run0) (normal_path L env v)"
      using True by (simp add: update_path_def Let_def)
    show thesis
    proof (cases "run_stages (map (gated L env v) gates) ?run0")
      case (Next run1)
      have "cp_view (cr_cp run1) = cp_view (cr_cp run)"
        using gates_view [OF K, of L v gates ?run0 run1] Next by simp
      moreover have "list_all (lc_IsTrue L (v_conds v)) (take 6 update_stages)"
        using gates_Next(1) [OF Next] True ovn by (simp add: gates_def update_stages_def)
      ultimately show thesis using normal [of run1] U Next gates_Next(2) [OF Next] by simp
    next
      case (Return e r0)
      then show thesis using same gates_view [OF K, of L v gates ?run0 r0] U run by simp
    qed (use U run in simp)
  qed
qed

text \<open>C27: the deployed version of a control plane tells what has been deployed.  If a reconciliation changes it, it becomes the
  target of the version, the reconciliation ended without an error and all functions for the infrastructure were called, and
  all functions for the services unless the control plane is in infrastructure-only mode: in a first deployment none of them is
  called in this mode, although the version is recorded as deployed.  If another version was deployed before, all stages of the
  minor update up to the one of Keystone have completed.\<close>

theorem cp_deployed_after_all:
  assumes K: "reconcilers_keep env" and get: "ce_get env = Inr cp" and R: "cp_Reconcile L env = Some (Some r, rq, e)"
    and changed: "cp_deployed (cr_cp r) \<noteq> cp_deployed cp"
  shows "e = None \<and> set infrastructure_reconcilers \<subseteq> set (cr_called r)
     \<and> (\<not> infrastructure_only cp \<longrightarrow> set service_reconcilers \<subseteq> set (cr_called r))
     \<and> (infrastructure_only cp \<and> cp_deployed cp = None \<longrightarrow> set service_reconcilers \<inter> set (cr_called r) = {})
     \<and> (\<exists>v. cp_version env cp = Inr v \<and> cp_deployed (cr_cp r) = Some (v_target v)
         \<and> (cp_deployed cp = None \<or> list_all (lc_IsTrue L (v_conds v)) (take 6 update_stages)))"
proof -
  obtain r0 where b: "cp_body L env cp = Return e r0 \<or> cp_body L env cp = Next r0 \<and> e = None" and r: "r = upd_run (cp_set_ready L) r0"
    using Reconcile_body [OF get R] by blast
  have b': "step_value (cp_body L env cp) = Some r0" using b by auto
  have r': "cp_deployed (cr_cp r) = cp_deployed (cr_cp r0)" "cr_called r = cr_called r0"
    by (simp_all add: r upd_run_def cp_set_ready_def upd_cp_conds_def)
  have disj: "set infrastructure_reconcilers \<inter> set service_reconcilers = {}" by (auto simp: infrastructure_reconcilers_def service_reconcilers_def)
  from b' show ?thesis
  proof (cases rule: body_cases)
    case early
    then show ?thesis using changed r' by (simp add: cp_view_def begun_def)
  next
    case (paths v run)
    have view: "cp_deployed (cr_cp run) = cp_deployed cp" "infrastructure_only (cr_cp run) = infrastructure_only cp"
      using paths(2) by (simp_all add: cp_view_def begun_def)
    show ?thesis
    proof (cases "cp_deployed cp = None \<or> cp_deployed cp = Some (v_target v)")
      case True
      then have P: "cp_body L env cp = normal_path L env v run" using paths by simp
      from K b' [unfolded P] show ?thesis
      proof (cases rule: normal_path_cases)
        case same
        then show ?thesis using changed r' view by (simp add: cp_view_def)
      next
        case complete
        then have "cp_deployed cp = None" using True changed r' by auto
        then show ?thesis using complete view paths(1,2) b P r' disj by (auto simp: begun_def)
      qed
    next
      case False
      then have P: "cp_body L env cp = update_path L env v run" using paths by auto
      from K b' [unfolded P] show ?thesis
      proof (cases rule: update_path_cases)
        case same
        then show ?thesis using changed r' view by (auto simp: cp_view_def)
      next
        case (normal run1)
        have view1: "cp_deployed (cr_cp run1) = cp_deployed cp" "infrastructure_only (cr_cp run1) = infrastructure_only cp"
          using normal(2) view by (simp_all add: cp_view_def)
        have b1: "step_value (normal_path L env v run1) = Some r0" using b' P normal(1) by simp
        from K b1 show ?thesis
        proof (cases rule: normal_path_cases)
          case same
          then show ?thesis using changed r' view1 by (simp add: cp_view_def)
        next
          case complete
          then show ?thesis using view1 paths(1) b P normal(1,4) r' False by auto
        qed
      qed
    qed
  qed
qed

subsection \<open>Order of a minor update\<close>

text \<open>The stages of the version that come before the call of a function.\<close>

definition stages_before :: "reconciler \<Rightarrow> string list" where
  "stages_before k =
     (case k of
        ReconcileRabbitMQs \<Rightarrow> take 2 update_stages
      | ReconcileGaleras \<Rightarrow> take 3 update_stages
      | ReconcileMemcacheds \<Rightarrow> take 4 update_stages
      | ReconcileKeystoneAPI \<Rightarrow> take 5 update_stages
      | _ \<Rightarrow> take 6 update_stages)"

lemma stages_before_all: "list_all P (take 6 update_stages) \<Longrightarrow> list_all P (stages_before k)"
  by (cases k) (simp_all add: stages_before_def update_stages_def)

lemma stages_before_gates:
  assumes "gates = xs @ (k, t) # ys" and "list_all (\<lambda>kt. P (snd kt)) xs" and "list_all P (take 2 update_stages)"
  shows "list_all P (stages_before k)"
proof -
  have split: "xs = takeWhile (\<lambda>kt. fst kt \<noteq> k) gates"
  proof -
    have "distinct (map fst gates)" by (simp add: gates_def)
    then have "k \<notin> fst ` set xs" by (simp add: assms(1))
    then have "takeWhile (\<lambda>kt. fst kt \<noteq> k) xs = xs" by (auto simp: takeWhile_eq_all_conv)
    then show ?thesis using \<open>k \<notin> fst ` set xs\<close> by (simp add: assms(1) takeWhile_append)
  qed
  have "k \<in> fst ` set gates" by (simp add: assms(1))
  then show ?thesis using assms(2,3) unfolding split
    by (auto simp: gates_def stages_before_def update_stages_def)
qed

lemma update_path_called:
  assumes run: "step_value (update_path L env v run) = Some r" and k: "k \<in> set (cr_called r)" and none: "cr_called run = []"
  shows "list_all (lc_IsTrue L (v_conds v)) (stages_before k)"
proof -
  let ?run0 = "mark_true L (fst (service_condition Ovn)) ''OpenStackControlPlane OVN completed'' run"
  have ovn: "lc_IsTrue L (v_conds v) OpenStackVersionMinorUpdateOVNControlplane"
  proof (rule ccontr)
    assume "\<not> ?thesis"
    then obtain r0 where "step_value (reconcileOVNControllers L env v run) = Some r0" "r = r0 \<or> r = set_deployed_ovn v r0"
      using run by (cases "reconcileOVNControllers L env v run") (auto simp: update_path_def)
    then show False using stage_called(5) [of L env v run r0] k none by auto
  qed
  moreover have dp: "lc_IsTrue L (v_conds v) OpenStackVersionMinorUpdateOVNDataplane"
    using run k none ovn by (auto simp: update_path_def Let_def split: if_splits)
  ultimately have two: "list_all (lc_IsTrue L (v_conds v)) (take 2 update_stages)" by (simp add: update_stages_def)
  have U: "update_path L env v run = step_bind (run_stages (map (gated L env v) gates) ?run0) (normal_path L env v)"
    using ovn dp by (simp add: update_path_def Let_def)
  show ?thesis
  proof (cases "run_stages (map (gated L env v) gates) ?run0")
    case (Next run1)
    have "list_all (lc_IsTrue L (v_conds v)) (take 6 update_stages)"
      using gates_Next(1) [OF Next] ovn dp by (simp add: gates_def update_stages_def)
    then show ?thesis by (rule stages_before_all)
  next
    case (Return e r0)
    then have "step_value (run_stages (map (gated L env v) gates) ?run0) = Some r" using run U by simp
    from gates_called [OF this k] none obtain xs t ys where "gates = xs @ (k, t) # ys" "list_all (\<lambda>kt. lc_IsTrue L (v_conds v) (snd kt)) xs"
      by auto
    then show ?thesis using two by (rule stages_before_gates)
  qed (use run U in simp)
qed

text \<open>C26: the control plane follows the stages of a minor update.  While a version other than the deployed one is the target, a
  reconciliation calls the function for RabbitMQ only when the version has completed the OVN stages, the one for MariaDB only
  when it has also completed RabbitMQ, then Memcached, then Keystone, and every other function only when the stages
  up to Keystone have completed.\<close>

theorem cp_update_in_order:
  assumes get: "ce_get env = Inr cp" and R: "cp_Reconcile L env = Some (Some r, rq, e)"
    and v: "cp_version env cp = Inr v" and update: "cp_deployed cp \<noteq> None" "cp_deployed cp \<noteq> Some (v_target v)"
    and k: "k \<in> set (cr_called r)"
  shows "list_all (lc_IsTrue L (v_conds v)) (stages_before k)"
proof -
  obtain r0 where b: "step_value (cp_body L env cp) = Some r0" and r: "r = upd_run (cp_set_ready L) r0"
    using Reconcile_body [OF get R] by (metis step_value.simps(1,2))
  have k0: "k \<in> set (cr_called r0)" using k r by simp
  from b show ?thesis
  proof (cases rule: body_cases)
    case early
    then show ?thesis using k0 by (simp add: begun_def)
  next
    case (paths w run)
    then have "step_value (update_path L env v run) = Some r0" using b v update by auto
    then show ?thesis by (rule update_path_called) (use k0 paths in \<open>simp_all add: begun_def\<close>)
  qed
qed

end
