(* ===== verification/Ctlplane_Ready.thy ===== *)
theory Ctlplane_Ready
  imports Ctlplane_Run
begin

text \<open>
  What it means that the controller reports a control plane as ready.  A reconciliation starts with every condition of an
  enabled service unknown; only the function for the service changes it, and the control plane is ready when all conditions
  are true.
\<close>

subsection \<open>Hypotheses\<close>

text \<open>What lib-common documents of the sum of the conditions: \<open>AllSubConditionIsTrue\<close> holds only if every condition except
  \<open>Ready\<close> is true, and \<open>Mirror\<close> yields a true condition only then.\<close>

definition ready_laws :: "condlib \<Rightarrow> bool" where
  "ready_laws L \<longleftrightarrow>
     (\<forall>cs t c. lc_AllSubConditionIsTrue L cs \<longrightarrow> lc_Get L cs t = Some c \<longrightarrow> t \<noteq> ReadyCondition \<longrightarrow> c_status c = CTrue)
     \<and> (\<forall>cs. c_status (lc_Mirror L cs ReadyCondition) = CTrue \<longrightarrow> lc_AllSubConditionIsTrue L cs)"

text \<open>The function that owns the condition of a service.\<close>

definition reconciler_of :: "os_service \<Rightarrow> reconciler" where
  "reconciler_of s =
     (case s of
        Rabbitmq \<Rightarrow> ReconcileRabbitMQs | Ovn \<Rightarrow> ReconcileOVN | Neutron \<Rightarrow> ReconcileNeutron | Galera \<Rightarrow> ReconcileGaleras
      | Memcached \<Rightarrow> ReconcileMemcacheds | Keystone \<Rightarrow> ReconcileKeystoneAPI | Placement \<Rightarrow> ReconcilePlacementAPI
      | Glance \<Rightarrow> ReconcileGlance | Cinder \<Rightarrow> ReconcileCinder | Nova \<Rightarrow> ReconcileNova | Ironic \<Rightarrow> ReconcileIronic
      | Manila \<Rightarrow> ReconcileManila | Horizon \<Rightarrow> ReconcileHorizon | DNS \<Rightarrow> ReconcileDNSMasqs | Telemetry \<Rightarrow> ReconcileTelemetry
      | Heat \<Rightarrow> ReconcileHeat | Swift \<Rightarrow> ReconcileSwift | Octavia \<Rightarrow> ReconcileOctavia | Designate \<Rightarrow> ReconcileDesignate
      | Barbican \<Rightarrow> ReconcileBarbican | Redis \<Rightarrow> ReconcileRedis | Watcher \<Rightarrow> ReconcileWatcher)"

definition owned :: "(string \<times> reconciler) list" where
  "owned = (ClientReadyCondition, ReconcileOpenStackClient) # map (\<lambda>s. (fst (service_condition s), reconciler_of s)) cp_services"

definition own_conditions :: "condlib \<Rightarrow> cpctl_env \<Rightarrow> bool" where
  "own_conditions L env \<longleftrightarrow>
     (\<forall>t k k' v cp. (t, k) \<in> set owned \<longrightarrow> k' \<noteq> k \<longrightarrow> lc_Get L (cp_conds (fst (ce_run env k' v cp))) t = lc_Get L (cp_conds cp) t)
     \<and> (\<forall>cp. cp_conds (fst (ce_trigger env cp)) = cp_conds cp)
     \<and> (\<forall>t v n cp. t \<noteq> fst (service_condition Ovn) \<longrightarrow> lc_Get L (cp_conds (fst (ce_OVNController env v n cp))) t = lc_Get L (cp_conds cp) t)
     \<and> (\<forall>cp. cp_conds (fst (ce_DeleteCertsAndRoutes env cp)) = cp_conds cp)"

subsection \<open>Names of conditions\<close>

lemma in_cp_services [simp]: "s \<in> set cp_services"
  by (cases s) (simp_all add: cp_services_def)

lemma service_conditions_distinct: "distinct (map (fst \<circ> service_condition) cp_services)"
  by code_simp

lemma service_condition_inj: "fst (service_condition s) = fst (service_condition s') \<longleftrightarrow> s = s'"
  using service_conditions_distinct by (auto simp: distinct_map inj_on_def)

definition other_conditions :: "string list" where
  "other_conditions = [TopologyReadyCondition, InfrastructureReadyCondition, VersionInitializationReadyCondition, BackupConfigReadyCondition,
     CertCleanupReadyCondition, CAReadyCondition, ReadyCondition]"

lemma other_not_service: "list_all (\<lambda>s. fst (service_condition s) \<notin> set other_conditions \<and> fst (service_condition s) \<noteq> ClientReadyCondition) cp_services"
  by code_simp

lemma service_not [simp]:
  "fst (service_condition s) \<noteq> ClientReadyCondition" "ClientReadyCondition \<noteq> fst (service_condition s)"
  "fst (service_condition s) \<notin> set other_conditions"
  using other_not_service [unfolded list_all_iff, rule_format, of s] by auto

lemma client_not_other: "ClientReadyCondition \<notin> set other_conditions"
  by code_simp

lemma owned_not_other: "(t, k) \<in> set owned \<Longrightarrow> t \<notin> set other_conditions"
  using client_not_other by (auto simp: owned_def)

lemma owned_Ovn: "(fst (service_condition Ovn), k) \<in> set owned \<Longrightarrow> k = ReconcileOVN"
  by (auto simp: owned_def service_condition_inj reconciler_of_def)

subsection \<open>A condition waits for its owner\<close>

text \<open>The condition is there and is not true, unless its owner was called.\<close>

definition waits :: "condlib \<Rightarrow> string \<Rightarrow> reconciler \<Rightarrow> cp_run \<Rightarrow> bool" where
  "waits L t k run \<longleftrightarrow> k \<in> set (cr_called run) \<or> (\<exists>c. lc_Get L (cp_conds (cr_cp run)) t = Some c \<and> c_status c \<noteq> CTrue)"

lemma waits_cong:
  assumes "set (cr_called run) \<subseteq> set (cr_called r)" and "lc_Get L (cp_conds (cr_cp r)) t = lc_Get L (cp_conds (cr_cp run)) t" and "waits L t k run"
  shows "waits L t k r"
  using assms by (auto simp: waits_def)

lemma after_call_conds: "step_value (after_call out run) = Some r \<Longrightarrow> cp_conds (cr_cp r) = cp_conds (fst out)"
  by (auto simp: after_call_def Let_def split: prod.splits option.splits if_splits)

lemma infrastructure_stage_conds:
  assumes "condlib_laws L" and "t \<notin> set other_conditions" and "step_value (infrastructure_stage L run) = Some r"
  shows "lc_Get L (cp_conds (cr_cp r)) t = lc_Get L (cp_conds (cr_cp run)) t"
proof -
  have t: "t \<noteq> InfrastructureReadyCondition" using assms(2) by (simp add: other_conditions_def)
  obtain b names where "isInfrastructureReady L (cr_cp run) = (b, names)" by (cases "isInfrastructureReady L (cr_cp run)")
  then show ?thesis using assms(1,3) t by (cases b) (auto simp: infrastructure_stage_def Let_def split: if_splits)
qed

lemma stage_conds:
  assumes L: "condlib_laws L" and O: "own_conditions L env" and t: "t \<notin> set other_conditions"
  shows "step_value (topology_stage L env run) = Some r \<Longrightarrow> lc_Get L (cp_conds (cr_cp r)) t = lc_Get L (cp_conds (cr_cp run)) t"
    and "step_value (migration_stage env run) = Some r \<Longrightarrow> lc_Get L (cp_conds (cr_cp r)) t = lc_Get L (cp_conds (cr_cp run)) t"
    and "step_value (cleanup_stage L env run) = Some r \<Longrightarrow> lc_Get L (cp_conds (cr_cp r)) t = lc_Get L (cp_conds (cr_cp run)) t"
proof -
  have t': "t \<noteq> TopologyReadyCondition" "t \<noteq> CertCleanupReadyCondition" using t by (simp_all add: other_conditions_def)
  show "step_value (topology_stage L env run) = Some r \<Longrightarrow> lc_Get L (cp_conds (cr_cp r)) t = lc_Get L (cp_conds (cr_cp run)) t"
    using L t'(1) by (auto simp: topology_stage_def Let_def split: option.splits prod.splits)
  show "step_value (migration_stage env run) = Some r \<Longrightarrow> lc_Get L (cp_conds (cr_cp r)) t = lc_Get L (cp_conds (cr_cp run)) t"
    using O by (auto simp: migration_stage_def own_conditions_def dest: after_call_conds split: if_splits)
  have D: "cp_conds (fst (ce_DeleteCertsAndRoutes env (cr_cp run))) = cp_conds (cr_cp run)" using O by (simp add: own_conditions_def)
  show "step_value (cleanup_stage L env run) = Some r \<Longrightarrow> lc_Get L (cp_conds (cr_cp r)) t = lc_Get L (cp_conds (cr_cp run)) t"
    using L t'(2) D by (auto simp: cleanup_stage_def split: option.splits prod.splits)
qed

lemma call_waits:
  assumes O: "own_conditions L env" and t: "(t, k) \<in> set owned" and s: "step_value (call env v k' run) = Some r" and "waits L t k run"
  shows "waits L t k r"
proof (cases "k' = k")
  case True
  then show ?thesis using call_called [OF s] by (simp add: waits_def)
next
  case False
  have "cp_conds (cr_cp r) = cp_conds (fst (ce_run env k' v (cr_cp run)))" using s by (auto simp: call_def dest: after_call_conds)
  then have "lc_Get L (cp_conds (cr_cp r)) t = lc_Get L (cp_conds (cr_cp run)) t" using O t False by (simp add: own_conditions_def)
  then show ?thesis by (intro waits_cong [OF _ _ assms(4)]) (auto simp: call_called [OF s])
qed

lemma stages_waits:
  assumes L: "condlib_laws L" and O: "own_conditions L env" and t: "(t, k) \<in> set owned"
    and fs: "set fs \<subseteq> {topology_stage L env, migration_stage env, infrastructure_stage L, cleanup_stage L env} \<union> range (call env v)"
    and run: "step_value (run_stages fs run) = Some r" and "waits L t k run"
  shows "waits L t k r"
proof (rule run_stages_invariant [of fs "waits L t k" run r, OF _ run assms(6)])
  note other = owned_not_other [OF t]
  fix f a a' assume f: "f \<in> set fs" and a: "waits L t k a" and s: "step_value (f a) = Some a'"
  have "f \<in> {topology_stage L env, migration_stage env, infrastructure_stage L, cleanup_stage L env} \<union> range (call env v)"
    using fs f by blast
  then consider "f = topology_stage L env" | "f = migration_stage env" | "f = infrastructure_stage L" | "f = cleanup_stage L env"
    | k' where "f = call env v k'" by blast
  then show "waits L t k a'"
  proof cases
    case 5
    then show ?thesis using call_waits [OF O t _ a] s by blast
  qed (use s in \<open>auto intro!: waits_cong [OF _ _ a] simp: stage_called stage_conds [OF L O other] infrastructure_stage_conds [OF L other]\<close>)
qed

lemma normal_path_step:
  assumes "step_value (normal_path L env v run) = Some r"
  obtains r0 where "step_value (reconcileNormal L env v run) = Some r0" "r = r0 \<or> r = set_deployed v r0"
  using assms by (cases "reconcileNormal L env v run") (auto simp: normal_path_def split: option.splits if_splits)

lemma normal_path_waits:
  assumes L: "condlib_laws L" and O: "own_conditions L env" and t: "(t, k) \<in> set owned"
    and run: "step_value (normal_path L env v run) = Some r" and W: "waits L t k run"
  shows "waits L t k r"
proof -
  obtain r0 where r0: "step_value (reconcileNormal L env v run) = Some r0" "r = r0 \<or> r = set_deployed v r0"
    using normal_path_step [OF run] .
  have "waits L t k r0" by (rule stages_waits [OF L O t _ r0(1) [unfolded reconcileNormal_def] W]) auto
  moreover have "waits L t k (set_deployed v r0)" if "waits L t k r0"
    using that by (intro waits_cong [OF _ _ that]) (simp_all add: set_deployed_def upd_run_def cp_conds_def)
  ultimately show ?thesis using r0(2) by auto
qed

lemma gates_waits:
  assumes O: "own_conditions L env" and t: "(t, k) \<in> set owned"
    and run: "step_value (run_stages (map (gated L env v) gs) run) = Some r" and W: "waits L t k run"
  shows "waits L t k r"
proof (rule run_stages_invariant [of _ "waits L t k" run r, OF _ run W])
  fix f a a' assume "f \<in> set (map (gated L env v) gs)" and a: "waits L t k a" and s: "step_value (f a) = Some a'"
  then obtain kt where "f = gated L env v kt" by auto
  then have "step_value (call env v (fst kt) a) = Some a'"
    using s by (cases "call env v (fst kt) a") (auto simp: gated_def split: if_splits)
  then show "waits L t k a'" using call_waits [OF O t _ a] by blast
qed

lemma ovn_waits:
  assumes L: "condlib_laws L" and O: "own_conditions L env" and t: "t \<noteq> fst (service_condition Ovn)"
    and run: "step_value (reconcileOVNControllers L env v run) = Some r"
  shows "lc_Get L (cp_conds (cr_cp r)) t = lc_Get L (cp_conds (cr_cp run)) t"
proof -
  have K: "lc_Get L (cp_conds (fst (ce_OVNController env v n (cr_cp run)))) t = lc_Get L (cp_conds (cr_cp run)) t" for n
    using O t by (simp add: own_conditions_def)
  have M: "lc_Get L (cp_conds (MirrorSubResourceCondition L cs (fst (service_condition Ovn)) n cp)) t = lc_Get L (cp_conds cp) t" for cs n cp
    using L t by (simp add: MirrorSubResourceCondition_def Let_def)
  show ?thesis
  proof (cases "if cp_Enabled (cr_cp run) Ovn \<and> sp_PodLevelTLS (cp_Spec (cr_cp run)) then ce_OVNMetricsCert env (cr_cp run) else Inr []")
    case (Inr name)
    obtain cp out where out: "ce_OVNController env v name (cr_cp run) = (cp, out)" by (cases "ce_OVNController env v name (cr_cp run)")
    have "lc_Get L (cp_conds cp) t = lc_Get L (cp_conds (cr_cp run)) t" using K [of name] out by simp
    then show ?thesis using run Inr out L t M by (cases out) (auto simp: reconcileOVNControllers_def Let_def)
  qed (use run in \<open>simp add: reconcileOVNControllers_def Let_def\<close>)
qed

lemma update_path_waits:
  assumes L: "condlib_laws L" and O: "own_conditions L env" and t: "(t, k) \<in> set owned" and ovn: "t \<noteq> fst (service_condition Ovn)"
    and run: "step_value (update_path L env v run) = Some r" and W: "waits L t k run"
  shows "waits L t k r"
proof -
  let ?run0 = "mark_true L (fst (service_condition Ovn)) ''OpenStackControlPlane OVN completed'' run"
  have W0: "waits L t k ?run0" by (rule waits_cong [OF _ _ W]) (use L ovn in simp_all)
  have D: "waits L t k (set_deployed_ovn v r0)" if "waits L t k r0" for r0
    by (rule waits_cong [OF _ _ that]) (simp_all add: set_deployed_ovn_def upd_run_def cp_conds_def)
  consider (ovn) "\<not> lc_IsTrue L (v_conds v) OpenStackVersionMinorUpdateOVNControlplane"
    | (wait) "r = ?run0"
    | (gates) "update_path L env v run = step_bind (run_stages (map (gated L env v) gates) ?run0) (normal_path L env v)"
    using run by (auto simp: update_path_def Let_def split: if_splits)
  then show ?thesis
  proof cases
    case ovn
    then obtain r0 where r0: "step_value (reconcileOVNControllers L env v run) = Some r0" "r = r0 \<or> r = set_deployed_ovn v r0"
      using run by (cases "reconcileOVNControllers L env v run") (auto simp: update_path_def)
    have "waits L t k r0" by (rule waits_cong [OF _ ovn_waits [OF L O assms(4) r0(1)] W]) (simp add: stage_called(5) [OF r0(1)])
    then show ?thesis using r0(2) D by auto
  next
    case wait
    then show ?thesis using W0 by simp
  next
    case gates
    show ?thesis
    proof (cases "run_stages (map (gated L env v) gates) ?run0")
      case (Next run1)
      have "waits L t k run1" by (rule gates_waits [OF O t _ W0, of v gates]) (simp add: Next)
      then show ?thesis using normal_path_waits [OF L O t, of v run1 r] run gates Next by simp
    next
      case (Return e r0)
      then show ?thesis using gates_waits [OF O t _ W0, of v gates r] run gates by simp
    qed (use run gates in simp)
  qed
qed

subsection \<open>A new reconciliation\<close>

lemma initial_types: "map c_type (initial_cp_conditions L msg spec) =
    [CAReadyCondition, VersionInitializationReadyCondition, InfrastructureReadyCondition, BackupConfigReadyCondition, ClientReadyCondition, ReadyCondition]
    @ map (fst \<circ> service_condition) (filter (sp_Enabled spec) cp_services) @ (if sp_TopologyRef spec \<noteq> None then [TopologyReadyCondition] else [])"
  if "condlib_laws L"
  using that by (simp add: initial_cp_conditions_def Let_def)

lemma distinct_between: "distinct (xs @ ys) \<Longrightarrow> distinct ms \<Longrightarrow> set ms \<inter> set (xs @ ys) = {} \<Longrightarrow> distinct (xs @ ms @ (if b then ys else []))"
  by auto

lemma initial_distinct:
  assumes "condlib_laws L"
  shows "distinct (map c_type (initial_cp_conditions L msg spec))"
  unfolding initial_types [OF assms]
proof (rule distinct_between)
  let ?xs = "[CAReadyCondition, VersionInitializationReadyCondition, InfrastructureReadyCondition, BackupConfigReadyCondition, ClientReadyCondition, ReadyCondition]"
  let ?ms = "map (fst \<circ> service_condition) (filter (sp_Enabled spec) cp_services)"
  show "distinct (?xs @ [TopologyReadyCondition])" by code_simp
  show "distinct ?ms" using service_conditions_distinct by (metis distinct_map_filter)
  have "set (?xs @ [TopologyReadyCondition]) \<subseteq> insert ClientReadyCondition (set other_conditions)" by (simp add: other_conditions_def)
  moreover have "set ?ms \<inter> insert ClientReadyCondition (set other_conditions) = {}" using service_not by fastforce
  ultimately show "set ?ms \<inter> set (?xs @ [TopologyReadyCondition]) = {}" by blast
qed

text \<open>The conditions that wait: those of the client and of the enabled services.\<close>

definition awaited :: "cp_spec \<Rightarrow> (string \<times> reconciler) list" where
  "awaited spec = (ClientReadyCondition, ReconcileOpenStackClient)
     # map (\<lambda>s. (fst (service_condition s), reconciler_of s)) (filter (\<lambda>s. sp_Enabled spec s \<and> s \<noteq> Ovn) cp_services)"

lemma awaited_owned: "(t, k) \<in> set (awaited spec) \<Longrightarrow> (t, k) \<in> set owned \<and> t \<noteq> fst (service_condition Ovn)"
  by (auto simp: awaited_def owned_def service_condition_inj)

lemma start_waits:
  assumes L: "condlib_laws L" and t: "(t, k) \<in> set (awaited (cp_Spec cp))"
  shows "waits L t k (cp_start L env cp)"
proof -
  obtain name where "lc_UnknownCondition L t InitReason (''OpenStackControlPlane '' @ name @ '' not started'')
      \<in> set (initial_cp_conditions L (ce_message env) (cp_Spec cp))"
  proof -
    consider "t = ClientReadyCondition" | s where "sp_Enabled (cp_Spec cp) s" "t = fst (service_condition s)" using t by (auto simp: awaited_def)
    then show thesis
    proof cases
      case 1
      then show thesis using that [of "''Client''"] by (simp add: initial_cp_conditions_def Let_def)
    next
      case 2
      then show thesis using that [of "snd (service_condition s)"] by (simp add: initial_cp_conditions_def Let_def)
    qed
  qed
  then obtain c where c: "c \<in> set (initial_cp_conditions L (ce_message env) (cp_Spec cp))" "c_type c = t" "c_status c = CUnknown"
    using L by fastforce
  have "lc_Get L (cp_conds (cr_cp (cp_start L env cp))) t = Some c"
    using condlib_Init [OF L initial_distinct [OF L] c(1)] c(2)
    by (simp add: cp_start_def cp_InitConditions_def Let_def cp_conds_def upd_cp_conds_def)
  then show ?thesis using c(3) by (simp add: waits_def)
qed

lemma body_waits:
  assumes L: "condlib_laws L" and O: "own_conditions L env" and t: "(t, k) \<in> set (awaited (cp_Spec cp))"
    and r: "step_value (cp_body L env cp) = Some r"
  shows "waits L t k r"
proof -
  have o: "(t, k) \<in> set owned" "t \<noteq> fst (service_condition Ovn)" using awaited_owned [OF t] by simp_all
  have W: "waits L t k x" if "begun L env cp x" for x
  proof (rule waits_cong [of "cp_start L env cp"])
    have "t \<noteq> VersionInitializationReadyCondition" "t \<noteq> BackupConfigReadyCondition"
      using owned_not_other [OF o(1)] by (simp_all add: other_conditions_def)
    then show "lc_Get L (cp_conds (cr_cp x)) t = lc_Get L (cp_conds (cr_cp (cp_start L env cp))) t" using that L by (simp add: begun_def)
    show "waits L t k (cp_start L env cp)" by (rule start_waits [OF L t])
  qed simp
  from r show ?thesis
  proof (cases rule: body_cases)
    case early
    then show ?thesis by (rule W)
  next
    case (paths v run)
    show ?thesis
    proof (cases "cp_deployed cp = None \<or> cp_deployed cp = Some (v_target v)")
      case True
      then show ?thesis using normal_path_waits [OF L O o(1) _ W [OF paths(2)]] paths(3) r by auto
    next
      case False
      then show ?thesis using update_path_waits [OF L O o _ W [OF paths(2)]] paths(3) r by auto
    qed
  qed
qed

subsection \<open>Ready\<close>

lemma set_ready_true:
  assumes L: "condlib_laws L" and R: "ready_laws L" and ready: "cp_IsReady L (cp_set_ready L cp)"
    and t: "t \<noteq> ReadyCondition" and c: "lc_Get L (cp_conds cp) t = Some c"
  shows "c_status c = CTrue"
proof -
  let ?cs = "cp_conds cp"
  let ?cs1 = "lc_MarkUnknown L ?cs ReadyCondition InitReason ReadyInitMessage"
  have "lc_AllSubConditionIsTrue L ?cs \<or> lc_AllSubConditionIsTrue L ?cs1"
    using ready L R by (auto simp: cp_IsReady_def cp_set_ready_def Let_def ready_laws_def split: if_splits)
  moreover have "lc_Get L ?cs1 t = Some c" using L t c by simp
  ultimately show ?thesis using R t c unfolding ready_laws_def by blast
qed

lemma normal_client:
  assumes r: "step_value (reconcileNormal L env v run) = Some r"
    and k: "ReconcileOpenStackClient \<notin> set (cr_called run)" "ReconcileOpenStackClient \<in> set (cr_called r)"
  shows "\<exists>r1. normal_infra L env v run = Next r1 \<and> \<not> infrastructure_only (cr_cp r1) \<and> set (cr_called r1) \<subseteq> set (cr_called r)"
proof (cases "normal_infra L env v run")
  case (Next r1)
  then have c1: "ReconcileOpenStackClient \<notin> set (cr_called r1)" using normal_infra_Next k(1) by (simp add: infrastructure_reconcilers_def)
  obtain r2 where r2: "cr_called r2 = cr_called r1"
    and S: "infrastructure_stage L r1 = (if infrastructure_only (cr_cp r1) then Return None r2 else Next r2)"
    using infrastructure_stage_step [of r1 L] by blast
  then have no: "\<not> infrastructure_only (cr_cp r1)" using r Next c1 k(2) by (auto simp: reconcileNormal_parts)
  then have "step_value (normal_services L env v r2) = Some r" using r Next S by (simp add: reconcileNormal_parts)
  then have "set (cr_called r2) \<subseteq> set (cr_called r)"
    unfolding normal_services_def
    by (rule run_stages_invariant [of _ "\<lambda>a. set (cr_called r2) \<subseteq> set (cr_called a)", rotated])
       (auto simp: subset_iff call_called stage_called(4))
  then show ?thesis using Next no r2 by auto
next
  case (Return e r1)
  then have "step_value (run_stages ([topology_stage L env, migration_stage env] @ map (call env v) infrastructure_reconcilers) run) = Some r"
    using r by (simp add: reconcileNormal_parts normal_infra_def)
  then have "ReconcileOpenStackClient \<notin> set (cr_called r)"
    by (rule run_stages_invariant [of _ "\<lambda>a. ReconcileOpenStackClient \<notin> set (cr_called a)", rotated])
       (use k(1) in \<open>auto dest: call_called stage_called(1,2) simp: infrastructure_reconcilers_def\<close>)
  then show ?thesis using k(2) by simp
qed (use r in \<open>simp add: reconcileNormal_parts\<close>)

text \<open>What has happened when the client was called.\<close>

lemma client_called:
  assumes K: "reconcilers_keep env" and r: "step_value (cp_body L env cp) = Some r" and k: "ReconcileOpenStackClient \<in> set (cr_called r)"
  shows "\<not> infrastructure_only cp \<and> set infrastructure_reconcilers \<subseteq> set (cr_called r)"
proof -
  have N: "\<not> infrastructure_only (cr_cp run) \<and> set infrastructure_reconcilers \<subseteq> set (cr_called r)"
    if n: "step_value (normal_path L env v run) = Some r" "ReconcileOpenStackClient \<notin> set (cr_called run)" for v run
  proof -
    obtain r0 where r0: "step_value (reconcileNormal L env v run) = Some r0" "r = r0 \<or> r = set_deployed v r0"
      using normal_path_step [OF n(1)] .
    then have c: "cr_called r = cr_called r0" by auto
    then obtain r1 where r1: "normal_infra L env v run = Next r1" "\<not> infrastructure_only (cr_cp r1)" "set (cr_called r1) \<subseteq> set (cr_called r0)"
      using normal_client [OF r0(1) n(2)] k by (auto simp: c)
    show ?thesis using normal_infra_view [OF K r1(1)] normal_infra_Next [OF r1(1)] r1(2,3) c by (simp add: cp_view_def)
  qed
  from r show ?thesis
  proof (cases rule: body_cases)
    case early
    then show ?thesis using k by (simp add: begun_def)
  next
    case (paths v run)
    have run: "infrastructure_only (cr_cp run) = infrastructure_only cp" "cr_called run = []" using paths(2) by (simp_all add: begun_def cp_view_def)
    show ?thesis
    proof (cases "cp_deployed cp = None \<or> cp_deployed cp = Some (v_target v)")
      case True
      then show ?thesis using N [of v run] paths(3) r run by simp
    next
      case False
      then have u: "step_value (update_path L env v run) = Some r" using paths(3) r by auto
      let ?run0 = "mark_true L (fst (service_condition Ovn)) ''OpenStackControlPlane OVN completed'' run"
      have g: "update_path L env v run = step_bind (run_stages (map (gated L env v) gates) ?run0) (normal_path L env v)"
        using update_path_called [OF u k run(2)] by (simp add: stages_before_def update_stages_def update_path_def Let_def)
      show ?thesis
      proof (cases "run_stages (map (gated L env v) gates) ?run0")
        case (Next run1)
        have "cr_called run1 = map fst gates" "infrastructure_only (cr_cp run1) = infrastructure_only (cr_cp ?run0)"
          using gates_Next(2) [OF Next] run(2) gates_view [OF K, of L v gates ?run0 run1] Next by (simp_all add: cp_view_def)
        moreover have "infrastructure_only (cr_cp ?run0) = infrastructure_only (cr_cp run)"
          by (simp add: infrastructure_only_def mark_true_def upd_run_def upd_cp_conds_def)
        ultimately show ?thesis using N [of v run1] u g Next run(1) by (simp add: gates_def)
      next
        case (Return e r0)
        then have "step_value (run_stages (map (gated L env v) gates) ?run0) = Some r" using u g by simp
        from gates_called [OF this k] obtain xs t ys where "gates = xs @ (ReconcileOpenStackClient, t) # ys" using run(2) by auto
        then have "(ReconcileOpenStackClient, t) \<in> set gates" unfolding in_set_conv_decomp by blast
        then show ?thesis by (simp add: gates_def)
      qed (use u g in simp)
    qed
  qed
qed

text \<open>C28: a control plane is reported as ready only when it is deployed.  If the status that a reconciliation writes is ready, every
  condition in it is true, the control plane is not paused in infrastructure-only mode, and in this reconciliation the functions
  for the whole infrastructure, for the client and for every enabled service were called.\<close>

theorem cp_ready_means:
  assumes L: "condlib_laws L" "ready_laws L" and K: "reconcilers_keep env" and O: "own_conditions L env"
    and get: "ce_get env = Inr cp" and R: "cp_Reconcile L env = Some (Some r, rq, e)" and ready: "cp_IsReady L (cr_cp r)"
  shows "(\<forall>t c. lc_Get L (cp_conds (cr_cp r)) t = Some c \<longrightarrow> c_status c = CTrue) \<and> \<not> infrastructure_only cp
    \<and> set infrastructure_reconcilers \<subseteq> set (cr_called r) \<and> ReconcileOpenStackClient \<in> set (cr_called r)
    \<and> (\<forall>s. sp_Enabled (cp_Spec cp) s \<longrightarrow> reconciler_of s \<in> set (cr_called r))"
proof -
  obtain r0 where b: "step_value (cp_body L env cp) = Some r0" and r: "r = upd_run (cp_set_ready L) r0"
    using Reconcile_body [OF get R] by (metis step_value.simps(1,2))
  have ready0: "cp_IsReady L (cp_set_ready L (cr_cp r0))" using ready by (simp add: r upd_run_def)
  note all = set_ready_true [OF L ready0]
  have called: "cr_called r = cr_called r0" by (simp add: r)
  have W: "k \<in> set (cr_called r)" if "(t, k) \<in> set (awaited (cp_Spec cp))" for t k
  proof -
    have "t \<noteq> ReadyCondition" using owned_not_other awaited_owned [OF that] by (auto simp: other_conditions_def)
    then show ?thesis using body_waits [OF L(1) O that b] all called by (auto simp: waits_def)
  qed
  have client: "ReconcileOpenStackClient \<in> set (cr_called r)" by (rule W [of ClientReadyCondition]) (simp add: awaited_def)
  then have infra: "\<not> infrastructure_only cp" "set infrastructure_reconcilers \<subseteq> set (cr_called r)"
    using client_called [OF K b] called by simp_all
  have services: "reconciler_of s \<in> set (cr_called r)" if "sp_Enabled (cp_Spec cp) s" for s
  proof (cases "s = Ovn")
    case True
    then show ?thesis using infra(2) by (simp add: reconciler_of_def infrastructure_reconcilers_def)
  next
    case False
    then show ?thesis using that W [of "fst (service_condition s)" "reconciler_of s"] by (auto simp: awaited_def)
  qed
  have same: "lc_Get L (cp_conds (cr_cp r)) t = lc_Get L (cp_conds (cr_cp r0)) t" if "t \<noteq> ReadyCondition" for t
    using L(1) that by (simp add: r cp_set_ready_def Let_def)
  have "c_status c = CTrue" if "lc_Get L (cp_conds (cr_cp r)) t = Some c" for t c
  proof (cases "t = ReadyCondition")
    case True
    then show ?thesis using ready that L(1) by (simp add: cp_IsReady_def condlib_IsTrue)
  next
    case False
    then show ?thesis using all [OF False] same that by simp
  qed
  with infra client services show ?thesis by blast
qed

subsection \<open>A concrete control plane\<close>

text \<open>Functions that mark their own condition as true.\<close>

definition sample_condition :: "reconciler \<Rightarrow> string option" where
  "sample_condition k =
     (case k of
        ReconcileCAs \<Rightarrow> Some CAReadyCondition | ReconcileOVN \<Rightarrow> Some (fst (service_condition Ovn))
      | ReconcileKeystoneAPI \<Rightarrow> Some (fst (service_condition Keystone)) | ReconcileOpenStackClient \<Rightarrow> Some ClientReadyCondition | _ \<Rightarrow> None)"

definition mark_owned :: "reconciler \<Rightarrow> control_plane \<Rightarrow> control_plane" where
  "mark_owned k cp = (case sample_condition k of None \<Rightarrow> cp | Some t \<Rightarrow> upd_cp_conds (\<lambda>cs. lst_Set cs (lst_True t ReadyMessage)) cp)"

definition sample_plane :: "bool \<Rightarrow> string ptr \<Rightarrow> control_plane" where
  "sample_plane paused deployed = \<lparr>cp_Name = ''cp'', cp_Namespace = ''openstack'', cp_UID = ''u'', cp_Generation = 1,
     cp_Annotations = (if paused then [(DeploymentStageAnnotation, DeploymentStageInfrastructureOnly)] else []), cp_Deleting = False,
     cp_Finalizers = [''f''],
     cp_Spec = \<lparr>sp_Enabled = (\<lambda>s. s \<in> set [Ovn, Keystone]), sp_PodLevelTLS = False, sp_TopologyRef = None,
       sp_NotificationsBusInstance = None, sp_NotificationsBusCluster = None\<rparr>,
     cp_Status = \<lparr>cs_Conditions = Some [], cs_DeployedVersion = deployed, cs_DeployedOVNVersion = deployed,
       cs_ContainerImages = empty_images, cs_ObservedGeneration = 1\<rparr>\<rparr>"

definition stages_version :: "string list \<Rightarrow> os_version" where
  "stages_version ts = \<lparr>v_Name = ''cp'', v_Namespace = ''openstack'', v_Generation = 3, v_Annotations = [], v_Deleting = False, v_Finalizers = [''g''],
     v_Spec = \<lparr>vs_TargetVersion = ''2'', vs_CustomContainerImages =
       \<lparr>cc_template = Images.empty_template, cc_CinderVolumeImages = None, cc_ManilaShareImages = None\<rparr>\<rparr>,
     v_Status = \<lparr>st_Conditions = Some (map (\<lambda>t. lst_True t ReadyMessage) ts), st_DeployedVersion = Some ''1'', st_AvailableVersion = Some ''2'',
       st_ContainerImages = empty_images, st_ContainerImageVersionDefaults = [], st_AvailableServiceDefaults = [],
       st_ServiceDefaults = empty_service_defaults, st_TrackedCustomImages = [], st_ObservedGeneration = 2\<rparr>\<rparr>"

definition sample_cpctl_env :: "control_plane \<Rightarrow> os_version \<Rightarrow> cpctl_env" where
  "sample_cpctl_env cp v = \<lparr>ce_get = Inr cp, ce_object = sample_ctlplane [Ovn], ce_message = (\<lambda>_ m. m), ce_newHelper = None, ce_versionHelper = None,
     ce_finalizer = ''f'', ce_versionFinalizer = ''g'', ce_newVersion = v, ce_getVersion = Inr v, ce_createVersion = Inr,
     ce_patchVersion = (\<lambda>_. None), ce_BackupConfig = (\<lambda>_. None), ce_run = (\<lambda>k v cp. (mark_owned k cp, False, None)),
     ce_OVNMetricsCert = (\<lambda>_. Inr []), ce_OVNController = (\<lambda>v n cp. (cp, Inr (True, []))), ce_topology = (\<lambda>_ _. None),
     ce_trigger = (\<lambda>cp. (cp, False, None)), ce_DeleteCertsAndRoutes = (\<lambda>cp. (cp, None)), ce_patch = None\<rparr>"

lemma sample_keeps: "reconcilers_keep (sample_cpctl_env cp v)"
  by (simp add: reconcilers_keep_def sample_cpctl_env_def mark_owned_def split: option.split)

lemma owned_distinct: "distinct (map fst ((CAReadyCondition, ReconcileCAs) # owned))"
  by code_simp

lemma sample_condition_owner: "sample_condition k = Some t \<Longrightarrow> (t, k) \<in> set ((CAReadyCondition, ReconcileCAs) # owned)"
  by (auto simp: sample_condition_def owned_def reconciler_of_def cp_services_def split: reconciler.splits)

lemma sample_own: "own_conditions list_condlib (sample_cpctl_env cp v)"
proof -
  have "lst_Get (cp_conds (mark_owned k' c)) t = lst_Get (cp_conds c) t" if "(t, k) \<in> set owned" "k' \<noteq> k" for t k k' c
  proof -
    have "sample_condition k' \<noteq> Some t"
      using sample_condition_owner [of k' t] owned_distinct that by (metis eq_key_imp_eq_value list.set_intros(2))
    then show ?thesis by (auto simp: mark_owned_def lst_Get_Set lst_True_def split: option.split)
  qed
  then show ?thesis by (simp add: own_conditions_def sample_cpctl_env_def list_condlib_def)
qed

lemma list_condlib_ready: "ready_laws list_condlib"
proof -
  have "c \<in> set cs \<and> c_type c = t" if "lst_Get cs t = Some c" for cs t c
    using that by (induction cs) (auto split: if_splits)
  moreover have "c_status (lst_Mirror cs t) \<noteq> CTrue" for cs t
  proof (cases "filter (\<lambda>c. c_type c \<noteq> t \<and> c_status c \<noteq> CTrue) cs")
    case (Cons c xs)
    have "\<forall>d \<in> set (filter (\<lambda>c. c_type c \<noteq> t \<and> c_status c \<noteq> CTrue) cs). c_status d \<noteq> CTrue" by simp
    then show ?thesis unfolding Cons by (simp add: lst_Mirror_def Cons)
  qed (simp add: lst_Mirror_def lst_Unknown_def)
  ultimately show ?thesis by (simp add: ready_laws_def list_condlib_def list_all_iff) blast
qed

text \<open>What is observed of the outcome.\<close>

definition observed :: "cpctl_env \<Rightarrow> (reconciler list \<times> string ptr \<times> bool \<times> api_error option) option" where
  "observed env = (case cp_Reconcile list_condlib env of
       Some (Some r, rq, e) \<Rightarrow> Some (cr_called r, cp_deployed (cr_cp r), cp_IsReady list_condlib (cr_cp r), e)
     | _ \<Rightarrow> None)"

lemma observedE:
  assumes "observed env = Some (ks, d, ready, e)"
  obtains r rq where "cp_Reconcile list_condlib env = Some (Some r, rq, e)" "cr_called r = ks" "cp_deployed (cr_cp r) = d"
    "cp_IsReady list_condlib (cr_cp r) = ready"
  using assms by (auto simp: observed_def split: option.splits prod.splits)

lemma observed_first: "observed (sample_cpctl_env (sample_plane False None) (stages_version [OpenStackVersionInitialized]))
    = Some (infrastructure_reconcilers @ service_reconcilers, Some ''2'', True, None)"
  by code_simp

lemma observed_update: "observed (sample_cpctl_env (sample_plane False (Some ''1''))
      (stages_version (OpenStackVersionInitialized # take 3 update_stages)))
    = Some ([ReconcileRabbitMQs, ReconcileGaleras], Some ''1'', False, None)"
  by code_simp

lemma sample_get [simp]: "ce_get (sample_cpctl_env cp v) = Inr cp" "cp_version (sample_cpctl_env cp v) cp = Inr v"
  by (simp_all add: sample_cpctl_env_def cp_version_def ReconcileVersion_def Let_def)

theorem cp_deployed_after_all_witness:
  "map_option (\<lambda>(ks, _). set service_reconcilers \<subseteq> set ks)
     (observed (sample_cpctl_env (sample_plane False None) (stages_version [OpenStackVersionInitialized]))) = Some True"
proof -
  let ?env = "sample_cpctl_env (sample_plane False None) (stages_version [OpenStackVersionInitialized])"
  obtain r rq where r: "cp_Reconcile list_condlib ?env = Some (Some r, rq, None)" "cr_called r = infrastructure_reconcilers @ service_reconcilers"
    "cp_deployed (cr_cp r) = Some ''2''"
    using observedE [OF observed_first] .
  have "cp_deployed (cr_cp r) \<noteq> cp_deployed (sample_plane False None)" by (simp add: r sample_plane_def)
  moreover have "\<not> infrastructure_only (sample_plane False None)"
    by (simp add: sample_plane_def infrastructure_only_def gomap_get_def DeploymentStageInfrastructureOnly_def)
  ultimately have "set service_reconcilers \<subseteq> set (cr_called r)"
    using cp_deployed_after_all [OF sample_keeps sample_get(1) r(1)] by simp
  then show ?thesis using observed_first r(2) by simp
qed

theorem cp_update_in_order_witness:
  "list_all (lc_IsTrue list_condlib (v_conds (stages_version (OpenStackVersionInitialized # take 3 update_stages)))) (stages_before ReconcileGaleras)"
proof -
  let ?v = "stages_version (OpenStackVersionInitialized # take 3 update_stages)"
  let ?env = "sample_cpctl_env (sample_plane False (Some ''1'')) ?v"
  obtain r rq where r: "cp_Reconcile list_condlib ?env = Some (Some r, rq, None)" "cr_called r = [ReconcileRabbitMQs, ReconcileGaleras]"
    using observedE [OF observed_update] .
  show ?thesis
    by (rule cp_update_in_order [OF sample_get(1) r(1) sample_get(2)]) (simp_all add: r(2) sample_plane_def stages_version_def)
qed

theorem cp_ready_means_witness:
  "map_option (\<lambda>(ks, _). reconciler_of Keystone \<in> set ks)
     (observed (sample_cpctl_env (sample_plane False None) (stages_version [OpenStackVersionInitialized]))) = Some True"
proof -
  let ?env = "sample_cpctl_env (sample_plane False None) (stages_version [OpenStackVersionInitialized])"
  obtain r rq where r: "cp_Reconcile list_condlib ?env = Some (Some r, rq, None)" "cr_called r = infrastructure_reconcilers @ service_reconcilers"
    "cp_IsReady list_condlib (cr_cp r)"
    using observedE [OF observed_first] by blast
  have "reconciler_of Keystone \<in> set (cr_called r)"
    using cp_ready_means [OF list_condlib_laws list_condlib_ready sample_keeps sample_own sample_get(1) r(1,3)]
    by (simp add: sample_plane_def)
  then show ?thesis using observed_first r(2) by simp
qed

end
