(* ===== verification/Endpoint_Config.thy ===== *)
theory Endpoint_Config
  imports Ctlplane_Controller Image_Registry Dataplane_Sources
begin

text \<open>
  Endpoints, routes and certificates of the services of the control plane: \<open>internal/openstack/common.go\<close>, with the issuers
  of \<open>openstackcontrolplane_types.go\<close>.

  \<open>ep_env\<close> has the TLS settings of the control plane, constants of lib-common and the calls of the API server and of
  cert-manager.  A call that creates, patches or deletes an object is recorded in the log \<open>er_log\<close> of the run.  Where a call
  yields an object or asks to come back later, the latter is \<open>None\<close>.
\<close>

subsection \<open>Settings\<close>

record cert_config =
  cg_Duration :: "int ptr"
  cg_RenewBefore :: "int ptr"

record tls_section =
  tl_IngressEnabled :: bool
  tl_PodLevelEnabled :: bool
  tl_IngressIssuer :: "string ptr"
  tl_InternalIssuer :: "string ptr"
  tl_OvnIssuer :: "string ptr"
  tl_LibvirtIssuer :: "string ptr"
  tl_IngressCert :: cert_config
  tl_InternalCert :: cert_config

definition IsCustomIssuer :: "string ptr \<Rightarrow> bool" where
  "IsCustomIssuer p = (case p of None \<Rightarrow> False | Some name \<Rightarrow> name \<noteq> [])"

definition issuer_or :: "string ptr \<Rightarrow> string \<Rightarrow> string" where
  "issuer_or p name = (if IsCustomIssuer p then the p else name)"

definition EndpointPublic :: string where "EndpointPublic = ''public''"
definition EndpointInternal :: string where "EndpointInternal = ''internal''"

definition GetPublicIssuer :: "string \<Rightarrow> tls_section \<Rightarrow> string" where
  "GetPublicIssuer pfx tls = issuer_or (tl_IngressIssuer tls) (pfx @ EndpointPublic)"

definition GetInternalIssuer :: "string \<Rightarrow> tls_section \<Rightarrow> string" where
  "GetInternalIssuer pfx tls = issuer_or (tl_InternalIssuer tls) (pfx @ EndpointInternal)"

definition OvnDbCaName :: "string \<Rightarrow> string" where "OvnDbCaName pfx = pfx @ ''ovn''"
definition LibvirtCaName :: "string \<Rightarrow> string" where "LibvirtCaName pfx = pfx @ ''libvirt''"

definition GetOvnIssuer :: "string \<Rightarrow> tls_section \<Rightarrow> string" where
  "GetOvnIssuer pfx tls = issuer_or (tl_OvnIssuer tls) (OvnDbCaName pfx)"

definition GetLibvirtIssuer :: "string \<Rightarrow> tls_section \<Rightarrow> string" where
  "GetLibvirtIssuer pfx tls = issuer_or (tl_LibvirtIssuer tls) (LibvirtCaName pfx)"

subsection \<open>Objects\<close>

text \<open>\<open>service.RoutedOverrideSpec\<close>: the labels of the embedded metadata, if the pointer to it is set.\<close>

record override_spec =
  vo_Labels :: "(string, string) gomap ptr"
  vo_EndpointURL :: "string ptr"
  vo_Other :: string

record k8s_service =
  ks_Name :: string
  ks_Namespace :: string
  ks_Annotations :: "(string, string) gomap"
  ks_Labels :: "(string, string) gomap"
  ks_Type :: string

record cp_route =
  rt_Name :: string
  rt_To :: string
  rt_Controller :: "string option"
  rt_Owners :: "string list"
  rt_Deleting :: bool

record certificate =
  ct_Name :: string
  ct_Labels :: "(string, string) gomap"
  ct_CommonName :: string
  ct_Owners :: "string list"

record endpoint_cert =
  ec_IssuerName :: string
  ec_CertName :: string
  ec_Hostnames :: "string list"
  ec_Labels :: "(string, string) gomap"
  ec_Duration :: "int ptr"
  ec_RenewBefore :: "int ptr"

datatype tls_termination = Edge | Reencrypt

record tls_config =
  tc_Termination :: tls_termination
  tc_Certificate :: string
  tc_Key :: string
  tc_CACertificate :: string
  tc_DestinationCACertificate :: string

record route_patch =
  rp_Name :: string
  rp_Namespace :: string
  rp_Labels :: "(string, string) gomap"
  rp_ServiceName :: string
  rp_TargetPortName :: string
  rp_Owners :: "string list"
  rp_TLS :: "tls_config option"
  rp_Override :: route_override

datatype ep_action = IssueCert endpoint_cert | DropCert string | PatchRoute route_patch | DropRoute string

record ServiceTLSDetails =
  xt_Enabled :: bool
  xt_CertName :: string
  xt_SecretName :: "string ptr"
  xt_CaBundleSecretName :: string

record RouteDetails =
  rd_Create :: bool
  rd_Override :: route_override
  rd_TLS :: bool
  rd_SecretName :: "string ptr"
  rd_CertName :: string
  rd_IssuerName :: string

record EndpointDetail =
  ed_Name :: string
  ed_Namespace :: string
  ed_Type :: string
  ed_Labels :: "(string, string) gomap"
  ed_Override :: override_spec
  ed_TLS :: ServiceTLSDetails
  ed_Route :: RouteDetails
  ed_Hostname :: "string ptr"
  ed_EndpointURL :: string

subsection \<open>Environment and state\<close>

record ep_env =
  pe_TLS :: tls_section
  pe_DefaultCAPrefix :: string
  pe_CABundleSecret :: string
  pe_InternalCABundleKey :: string
  pe_EndpointKey :: string
  pe_IngressCreateKey :: string
  pe_TargetPortKey :: string
  pe_ClusterIP :: string
  pe_clusterDomain :: string
  pe_subjectNames :: "(string, string) gomap \<Rightarrow> string list"
  pe_AddLabel :: "string \<times> string \<Rightarrow> override_spec \<Rightarrow> override_spec"
  pe_validateCert :: "string \<Rightarrow> api_error option"
  pe_deleteCert :: "string \<Rightarrow> api_error option"
  pe_ensureCert :: "endpoint_cert \<Rightarrow> api_error + secret option"
  pe_listRoutes :: "string \<Rightarrow> api_error + cp_route list"
  pe_deleteRoute :: "string \<Rightarrow> api_error option"
  pe_newRoute :: "route_patch \<Rightarrow> api_error option"
  pe_getRoute :: "string \<Rightarrow> api_error + string"
  pe_patchRoute :: "route_patch \<Rightarrow> api_error + string option"
  pe_getSecret :: "string \<Rightarrow> api_error + secret"
  pe_getCABundle :: "string \<Rightarrow> string \<Rightarrow> api_error + string option"
  pe_getIngress :: "string \<Rightarrow> api_error + (string \<times> string \<times> string) list list"

record ep_run =
  er_cp :: control_plane
  er_ed :: EndpointDetail
  er_endpoints :: "(string, EndpointDetail) gomap"
  er_log :: "ep_action list"
  er_requeue :: bool

definition upd_ed :: "(EndpointDetail \<Rightarrow> EndpointDetail) \<Rightarrow> ep_run \<Rightarrow> ep_run" where
  "upd_ed f run = run\<lparr>er_ed := f (er_ed run)\<rparr>"

definition upd_ecp :: "(conditions \<Rightarrow> conditions) \<Rightarrow> ep_run \<Rightarrow> ep_run" where
  "upd_ecp f run = run\<lparr>er_cp := upd_cp_conds f (er_cp run)\<rparr>"

definition act :: "ep_action \<Rightarrow> ep_run \<Rightarrow> ep_run" where
  "act a run = run\<lparr>er_log := er_log run @ [a]\<rparr>"

definition come_back :: "ep_run \<Rightarrow> ep_run step" where
  "come_back run = Return None (run\<lparr>er_requeue := True\<rparr>)"

subsection \<open>Labels\<close>

definition ooSelector :: string where "ooSelector = ''osctlplane''"
definition ooAppSelector :: string where "ooAppSelector = ''osctlplane-service''"
definition ServiceCertSelector :: string where "ServiceCertSelector = ''service-cert''"

definition GetServiceOpenStackOperatorLabel :: "string \<Rightarrow> (string, string) gomap" where
  "GetServiceOpenStackOperatorLabel value = [(ooAppSelector, value), (ooSelector, [])]"

definition AddServiceOpenStackOperatorLabel :: "ep_env \<Rightarrow> string \<Rightarrow> override_spec \<Rightarrow> override_spec" where
  "AddServiceOpenStackOperatorLabel env value override = fold (pe_AddLabel env) (GetServiceOpenStackOperatorLabel value) override"

subsection \<open>Certificates\<close>

text \<open>Issue a certificate and go on with its secret.\<close>

definition issue :: "ep_env \<Rightarrow> endpoint_cert \<Rightarrow> (secret \<Rightarrow> ep_run \<Rightarrow> ep_run step) \<Rightarrow> ep_run \<Rightarrow> ep_run step" where
  "issue env req go run =
     (let run1 = act (IssueCert req) run
      in case pe_ensureCert env req of
           Inl e \<Rightarrow> Return (Some e) run1
         | Inr None \<Rightarrow> come_back run1
         | Inr (Some s) \<Rightarrow> go s run1)"

definition set_secret :: "string ptr \<Rightarrow> EndpointDetail \<Rightarrow> EndpointDetail" where
  "set_secret name ed = ed\<lparr>ed_TLS := (ed_TLS ed)\<lparr>xt_SecretName := name\<rparr>\<rparr>"

definition svc_cert :: "ep_env \<Rightarrow> string \<Rightarrow> cert_config \<Rightarrow> string \<Rightarrow> k8s_service \<Rightarrow> EndpointDetail \<Rightarrow> endpoint_cert" where
  "svc_cert env issuer cert namespace svc ed =
     \<lparr>ec_IssuerName = issuer, ec_CertName = xt_CertName (ed_TLS ed),
      ec_Hostnames = [ed_Name ed @ ''.'' @ namespace @ ''.svc'', ed_Name ed @ ''.'' @ namespace @ ''.svc.'' @ pe_clusterDomain env]
        @ pe_subjectNames env (ks_Annotations svc),
      ec_Labels = gomap_put ServiceCertSelector [] (ed_Labels ed), ec_Duration = cg_Duration cert, ec_RenewBefore = cg_RenewBefore cert\<rparr>"

definition hasCertInOverrideSpec :: "route_override \<Rightarrow> bool" where
  "hasCertInOverrideSpec ov =
     (case ro_Spec ov of
        None \<Rightarrow> False
      | Some None \<Rightarrow> False
      | Some (Some tls) \<Rightarrow> rtls_CACertificate tls \<noteq> [] \<and> rtls_Certificate tls \<noteq> [] \<and> rtls_Key tls \<noteq> [])"

definition CertKey :: string where "CertKey = ''tls.crt''"
definition PrivateKey :: string where "PrivateKey = ''tls.key''"
definition CAKey :: string where "CAKey = ''ca.crt''"

definition validateRouteCertSecret :: "secret \<Rightarrow> string \<Rightarrow> api_error option" where
  "validateRouteCertSecret s name =
     (case filter (\<lambda>k. map_of (sec_Data s) k = None) [CertKey, PrivateKey] of
        [] \<Rightarrow> None
      | k # _ \<Rightarrow> Some (OtherError (''certificate secret '' @ name @ '' does not provide '' @ k)))"

subsection \<open>Routes\<close>

definition empty_secret :: secret where
  "empty_secret = \<lparr>sec_Name = [], sec_Namespace = [], sec_Labels = [], sec_Data = []\<rparr>"

definition route_of :: "ep_env \<Rightarrow> string \<Rightarrow> k8s_service \<Rightarrow> EndpointDetail \<Rightarrow> route_patch" where
  "route_of env ownerUID svc ed =
     \<lparr>rp_Name = ed_Name ed, rp_Namespace = ed_Namespace ed, rp_Labels = ed_Labels ed, rp_ServiceName = ks_Name svc,
      rp_TargetPortName = (let name = gomap_get [] (ks_Annotations svc) (pe_TargetPortKey env) in if name \<noteq> [] then name else ks_Name svc),
      rp_Owners = (if ownerUID \<noteq> [] then [ownerUID] else []), rp_TLS = None, rp_Override = rd_Override (ed_Route ed)\<rparr>"

definition patch_route :: "ep_env \<Rightarrow> route_patch \<Rightarrow> (string \<Rightarrow> ep_run \<Rightarrow> ep_run step) \<Rightarrow> ep_run \<Rightarrow> ep_run step" where
  "patch_route env p go run =
     (let run1 = act (PatchRoute p) run
      in case pe_patchRoute env p of
           Inl e \<Rightarrow> Return (Some e) run1
         | Inr None \<Rightarrow> come_back run1
         | Inr (Some host) \<Rightarrow> go host run1)"

definition set_host :: "string \<Rightarrow> ep_run \<Rightarrow> ep_run step" where
  "set_host host run = Next (upd_ed (\<lambda>ed. ed\<lparr>ed_Hostname := Some host\<rparr>) run)"

text \<open>The name of the host: of the route that exists, or of the one that is created.\<close>

definition route_host :: "ep_env \<Rightarrow> route_patch \<Rightarrow> ep_run \<Rightarrow> ep_run step" where
  "route_host env p run =
     (let tls = rd_TLS (ed_Route (er_ed run)); existing = pe_getRoute env (ed_Name (er_ed run))
      in if \<not> tls then patch_route env p set_host run
         else (case existing of
                 Inl e \<Rightarrow> if IsNotFound e then patch_route env p set_host run else Return (Some e) run
               | Inr host \<Rightarrow> set_host host run))"

definition route_cert :: "ep_env \<Rightarrow> EndpointDetail \<Rightarrow> endpoint_cert" where
  "route_cert env ed =
     \<lparr>ec_IssuerName = rd_IssuerName (ed_Route ed), ec_CertName = rd_CertName (ed_Route ed),
      ec_Hostnames = [case ed_Hostname ed of None \<Rightarrow> [] | Some h \<Rightarrow> h],
      ec_Labels = gomap_put ServiceCertSelector [] (ed_Labels ed), ec_Duration = cg_Duration (tl_IngressCert (pe_TLS env)),
      ec_RenewBefore = cg_RenewBefore (tl_IngressCert (pe_TLS env))\<rparr>"

text \<open>The secret with the certificate of the route: the one given by the user, an issued one, or none when the override
  brings the certificate.\<close>

definition route_secret :: "ep_env \<Rightarrow> (secret \<Rightarrow> ep_run \<Rightarrow> ep_run step) \<Rightarrow> ep_run \<Rightarrow> ep_run step" where
  "route_secret env go run =
     (case rd_SecretName (ed_Route (er_ed run)) of
        Some name \<Rightarrow>
          (case pe_getSecret env name of
             Inl e \<Rightarrow> Return (Some (if IsNotFound e then wrap_err (''certificate secret '' @ name @ '' not found: '') e else e)) run
           | Inr s \<Rightarrow> (case validateRouteCertSecret s name of Some e \<Rightarrow> Return (Some e) run | None \<Rightarrow> go s run))
      | None \<Rightarrow>
          if hasCertInOverrideSpec (rd_Override (ed_Route (er_ed run))) then go empty_secret run
          else issue env (route_cert env (er_ed run)) go run)"

definition edge_config :: "secret \<Rightarrow> tls_config" where
  "edge_config s =
     \<lparr>tc_Termination = Edge, tc_Certificate = gomap_get [] (sec_Data s) CertKey, tc_Key = gomap_get [] (sec_Data s) PrivateKey,
      tc_CACertificate = gomap_get [] (sec_Data s) CAKey, tc_DestinationCACertificate = []\<rparr>"

definition reencrypts :: "EndpointDetail \<Rightarrow> bool" where
  "reencrypts ed \<longleftrightarrow> xt_Enabled (ed_TLS ed) \<and> (xt_SecretName (ed_TLS ed) \<noteq> None \<or> hasCertInOverrideSpec (rd_Override (ed_Route ed)))"

text \<open>The route with TLS, and the issued certificate deleted when the user brings one.\<close>

definition tls_route :: "ep_env \<Rightarrow> route_patch \<Rightarrow> tls_config \<Rightarrow> ep_run \<Rightarrow> ep_run step" where
  "tls_route env p c run =
     (let p1 = p\<lparr>rp_TLS := Some c\<rparr>; ed = er_ed run
      in case pe_newRoute env p1 of
           Some e \<Rightarrow> Return (Some e) run
         | None \<Rightarrow>
             patch_route env p1
               (\<lambda>_ run1.
                  if rd_SecretName (ed_Route ed) \<noteq> None \<or> hasCertInOverrideSpec (rd_Override (ed_Route ed))
                  then (case pe_deleteCert env (rd_CertName (ed_Route ed)) of
                          Some e \<Rightarrow> Return (Some e) (act (DropCert (rd_CertName (ed_Route ed))) run1)
                        | None \<Rightarrow> Next (act (DropCert (rd_CertName (ed_Route ed))) run1))
                  else Next run1)
               run)"

text \<open>The part of \<open>CreateRoute\<close> that uses the certificate of the route.\<close>

definition secured_route :: "ep_env \<Rightarrow> route_patch \<Rightarrow> secret \<Rightarrow> ep_run \<Rightarrow> ep_run step" where
  "secured_route env p s r1 =
     (if reencrypts (er_ed r1)
      then (case pe_getCABundle env (xt_CaBundleSecretName (ed_TLS (er_ed r1))) (pe_InternalCABundleKey env) of
              Inl e \<Rightarrow> Return (Some e) r1
            | Inr None \<Rightarrow> come_back r1
            | Inr (Some ca) \<Rightarrow> tls_route env p ((edge_config s)\<lparr>tc_Termination := Reencrypt, tc_DestinationCACertificate := ca\<rparr>) r1)
      else tls_route env p (edge_config s) r1)"

definition set_url :: "string \<Rightarrow> ep_run \<Rightarrow> ep_run step" where
  "set_url proto run =
     Next (upd_ed (\<lambda>ed. ed\<lparr>ed_EndpointURL := proto @ ''://'' @ (case ed_Hostname ed of None \<Rightarrow> [] | Some h \<Rightarrow> h)\<rparr>) run)"

definition CreateRoute :: "ep_env \<Rightarrow> string \<Rightarrow> k8s_service \<Rightarrow> ep_run \<Rightarrow> ep_run step" where
  "CreateRoute env ownerUID svc run =
     (let p = route_of env ownerUID svc (er_ed run)
      in case pe_newRoute env p of
           Some e \<Rightarrow> Return (Some e) run
         | None \<Rightarrow>
             step_bind (route_host env p run)
               (\<lambda>r. if rd_TLS (ed_Route (er_ed r))
                    then step_bind
                           (route_secret env (secured_route env p) r)
                           (set_url ''https'')
                    else set_url ''http'' r))"

definition checkRouteAdmissionStatus :: "ep_env \<Rightarrow> string \<Rightarrow> api_error option" where
  "checkRouteAdmissionStatus env name =
     (case pe_getIngress env name of
        Inl e \<Rightarrow> Some e
      | Inr [] \<Rightarrow> None
      | Inr (conds # _) \<Rightarrow>
          (case filter (\<lambda>(ty, _). ty = ''Admitted'') conds of
             [] \<Rightarrow> None
           | (_, status, message) # _ \<Rightarrow> if status \<noteq> ''True'' then Some (OtherError message) else None))"

text \<open>Routes of the service from before: deleted if the service must not be exposed any more.\<close>

definition drop_route :: "ep_env \<Rightarrow> k8s_service \<Rightarrow> cp_route \<Rightarrow> ep_run \<Rightarrow> ep_run step" where
  "drop_route env svc r run =
     (let ed = er_ed run; cert = rd_CertName (ed_Route ed);
          certs = (if xt_Enabled (ed_TLS ed)
                   then (case pe_deleteCert env cert of
                           Some e \<Rightarrow> if IsNotFound e then Next (act (DropCert cert) run)
                                     else Return (Some (wrap_err (''error deleting route certificate '' @ cert @ '': '') e)) (act (DropCert cert) run)
                         | None \<Rightarrow> Next (act (DropCert cert) run))
                   else Next run);
          clear = upd_ed (\<lambda>ed. ed\<lparr>ed_Override := (ed_Override ed)\<lparr>vo_EndpointURL := None\<rparr>\<rparr>)
      in if gomap_get [] (ks_Annotations svc) (pe_IngressCreateKey env) = ''false'' \<and> rt_To r = ed_Name ed
            \<and> rt_Controller r = Some (cp_UID (er_cp run))
         then step_bind certs
                (\<lambda>run1. let run2 = act (DropRoute (rt_Name r)) run1
                  in case pe_deleteRoute env (rt_Name r) of
                       Some e \<Rightarrow> if IsNotFound e then Next (clear run2)
                                 else Return (Some (wrap_err (''error deleting route '' @ rt_Name r @ '': '') e)) run2
                     | None \<Rightarrow> Next (clear run2))
         else Next run)"

definition old_routes :: "ep_env \<Rightarrow> k8s_service \<Rightarrow> ep_run \<Rightarrow> ep_run step" where
  "old_routes env svc run =
     (case map_of (ks_Labels svc) ooAppSelector of
        None \<Rightarrow> Next run
      | Some value \<Rightarrow>
          (case pe_listRoutes env value of
             Inl e \<Rightarrow> Return (Some (wrap_err (''error listing routes for map['' @ ooAppSelector @ '':'' @ value @ '']: '') e)) run
           | Inr routes \<Rightarrow> run_stages (map (drop_route env svc) routes) run))"

definition exposed_message :: "string \<Rightarrow> string" where
  "exposed_message owner = ''OpenStackControlPlane '' @ owner @ '' service exposed''"

definition new_route :: "condlib \<Rightarrow> ep_env \<Rightarrow> string \<Rightarrow> string \<Rightarrow> string \<Rightarrow> k8s_service \<Rightarrow> ep_run \<Rightarrow> ep_run step" where
  "new_route L env condType owner ownerUID svc run =
     (let set_false = (\<lambda>m. upd_ecp (\<lambda>cs. lc_Set L cs (lc_FalseCondition L condType ErrorReason SeverityWarning m)));
          run1 = (if lc_Get L (cp_conds (er_cp run)) condType = None
                  then upd_ecp (\<lambda>cs. lc_Set L cs (lc_UnknownCondition L condType InitReason
                         (''OpenStackControlPlane '' @ owner @ '' exposing service '' @ ks_Name svc @ '' not started''))) run
                  else run);
          run2 = upd_ed (\<lambda>ed. let labels = (case vo_Labels (ed_Override ed) of None \<Rightarrow> [] | Some ls \<Rightarrow> ls)
                   in (case map_of labels ooAppSelector of None \<Rightarrow> ed | Some v \<Rightarrow> ed\<lparr>ed_Labels := [(ooAppSelector, v)]\<rparr>)
                        \<lparr>ed_Override := (ed_Override ed)\<lparr>vo_Labels := Some labels\<rparr>\<rparr>) run1
      in case CreateRoute env ownerUID svc run2 of
           Return (Some e) r \<Rightarrow>
             Return (Some e) (set_false (''OpenStackControlPlane '' @ owner @ '' exposing service via route '' @ ed_Name (er_ed r)
               @ '' error occured '' @ err_msg e) r)
         | Return None r \<Rightarrow> Return None r
         | Panic \<Rightarrow> Panic
         | Next r \<Rightarrow>
             (case checkRouteAdmissionStatus env (ed_Name (er_ed r)) of
                Some e \<Rightarrow>
                  Return (Some e) (set_false (''OpenStackControlPlane '' @ owner @ '' route '' @ ed_Name (er_ed r) @ '' admission failed: '' @ err_msg e) r)
              | None \<Rightarrow> Next (upd_ecp (\<lambda>cs. lc_MarkTrue L cs condType (exposed_message owner)) r)))"

definition ensureRoute :: "condlib \<Rightarrow> ep_env \<Rightarrow> string \<Rightarrow> string \<Rightarrow> string \<Rightarrow> k8s_service \<Rightarrow> ep_run \<Rightarrow> ep_run step" where
  "ensureRoute L env condType owner ownerUID svc run =
     step_bind (old_routes env svc run)
       (\<lambda>r. if rd_Create (ed_Route (er_ed r)) then new_route L env condType owner ownerUID svc r
            else Next (upd_ecp (\<lambda>cs. lc_Remove L cs condType) r))"

subsection \<open>Endpoints\<close>

definition CustomTLSReadyCondition :: string where "CustomTLSReadyCondition = ''OpenStackControlPlaneCustomTLSReadyCondition''"

definition no_route :: RouteDetails where
  "no_route = \<lparr>rd_Create = False, rd_Override = empty_override, rd_TLS = False, rd_SecretName = None, rd_CertName = [], rd_IssuerName = []\<rparr>"

definition new_endpoint :: "ep_env \<Rightarrow> (string, override_spec) gomap \<Rightarrow> bool \<Rightarrow> k8s_service \<Rightarrow> EndpointDetail" where
  "new_endpoint env overrides tlsDisabled svc =
     (let ty = gomap_get [] (ks_Annotations svc) (pe_EndpointKey env);
          tls = tl_PodLevelEnabled (pe_TLS env) \<and> \<not> tlsDisabled
      in \<lparr>ed_Name = ks_Name svc, ed_Namespace = ks_Namespace svc, ed_Type = ty, ed_Labels = [],
          ed_Override = gomap_get \<lparr>vo_Labels = None, vo_EndpointURL = None, vo_Other = []\<rparr> overrides ty,
          ed_TLS = \<lparr>xt_Enabled = tls, xt_CertName = (if tls then ks_Name svc @ ''-svc'' else []), xt_SecretName = None, xt_CaBundleSecretName = []\<rparr>,
          ed_Route = no_route, ed_Hostname = None, ed_EndpointURL = []\<rparr>)"

text \<open>A public endpoint: its route, the certificate of the route, and the certificate of the service.\<close>

definition public_route :: "condlib \<Rightarrow> ep_env \<Rightarrow> api_override \<Rightarrow> k8s_service \<Rightarrow> ep_run \<Rightarrow> ep_run step" where
  "public_route L env ingress svc run =
     (let create = (gomap_get [] (ks_Annotations svc) (pe_IngressCreateKey env) = ''true'' \<and> ks_Type svc = pe_ClusterIP env);
          upd_route = (\<lambda>f. upd_ed (\<lambda>ed. ed\<lparr>ed_Route := f (ed_Route ed)\<rparr>));
          run1 = upd_route (\<lambda>rd. rd\<lparr>rd_Create := create, rd_Override := (case ao_Route ingress of None \<Rightarrow> rd_Override rd | Some ov \<Rightarrow> ov)\<rparr>) run
      in if \<not> tl_IngressEnabled (pe_TLS env) then Next run1
         else (let run2 = upd_route (\<lambda>rd. rd\<lparr>rd_TLS := True, rd_CertName := ed_Name (er_ed run) @ ''-route''\<rparr>) run1
               in case ao_TLS ingress of
                    Some name \<Rightarrow>
                      if name \<noteq> []
                      then (let run3 = upd_route (\<lambda>rd. rd\<lparr>rd_SecretName := Some name\<rparr>) run2;
                                set_false = (\<lambda>m. upd_ecp (\<lambda>cs. lc_Set L cs (lc_FalseCondition L CustomTLSReadyCondition ErrorReason SeverityWarning m)) run3)
                            in case pe_validateCert env name of
                                 Some e \<Rightarrow>
                                   if IsNotFound e
                                   then come_back (set_false (''OpenStackControlPlane custom TLS cert secret '' @ name @ '' not yet available''))
                                   else Return (Some e) (set_false (''OpenStackControlPlane custom TLS cert secret '' @ name @ '' error occured '' @ err_msg e))
                               | None \<Rightarrow> Next (upd_ecp (\<lambda>cs. lc_MarkTrue L cs CustomTLSReadyCondition
                                           ''OpenStackControlPlane custom TLS cert secret available'') run3))
                      else Next (upd_route (\<lambda>rd. rd\<lparr>rd_IssuerName := GetPublicIssuer (pe_DefaultCAPrefix env) (pe_TLS env)\<rparr>) run2)
                  | None \<Rightarrow> Next (upd_route (\<lambda>rd. rd\<lparr>rd_IssuerName := GetPublicIssuer (pe_DefaultCAPrefix env) (pe_TLS env)\<rparr>) run2)))"

definition set_bundle :: "ep_env \<Rightarrow> ep_run \<Rightarrow> ep_run" where
  "set_bundle env = upd_ed (\<lambda>ed. ed\<lparr>ed_TLS := (ed_TLS ed)\<lparr>xt_CaBundleSecretName := pe_CABundleSecret env\<rparr>\<rparr>)"

definition take_secret :: "secret \<Rightarrow> ep_run \<Rightarrow> ep_run step" where
  "take_secret s run = Next (upd_ed (set_secret (Some (sec_Name s))) run)"

text \<open>\<open>publicSecret\<close> is \<open>tlsConfig.API.Public.SecretName\<close>.\<close>

definition public_cert :: "ep_env \<Rightarrow> string ptr \<Rightarrow> k8s_service \<Rightarrow> ep_run \<Rightarrow> ep_run step" where
  "public_cert env publicSecret svc run0 =
     (if \<not> xt_Enabled (ed_TLS (er_ed run0)) then Next run0
      else (let run = set_bundle env run0; rd = ed_Route (er_ed run)
            in if \<not> rd_Create rd \<and> publicSecret \<noteq> None \<and> publicSecret \<noteq> Some []
               then (let run1 = upd_ed (set_secret publicSecret) run
                     in case pe_validateCert env (the publicSecret) of
                          Some e \<Rightarrow> if IsNotFound e then come_back run1 else Return (Some e) run1
                        | None \<Rightarrow>
                            (let run2 = act (DropCert (rd_CertName rd)) run1
                             in case pe_deleteCert env (rd_CertName rd) of Some e \<Rightarrow> Return (Some e) run2 | None \<Rightarrow> Next run2))
               else issue env (svc_cert env (GetPublicIssuer (pe_DefaultCAPrefix env) (pe_TLS env)) (tl_IngressCert (pe_TLS env))
                      (cp_Namespace (er_cp run)) svc (er_ed run)) take_secret run))"

definition internal_cert :: "ep_env \<Rightarrow> k8s_service \<Rightarrow> ep_run \<Rightarrow> ep_run step" where
  "internal_cert env svc run0 =
     (if \<not> xt_Enabled (ed_TLS (er_ed run0)) then Next run0
      else (let run = set_bundle env run0
            in issue env (svc_cert env (GetInternalIssuer (pe_DefaultCAPrefix env) (pe_TLS env)) (tl_InternalCert (pe_TLS env))
                 (cp_Namespace (er_cp run)) svc (er_ed run)) take_secret run))"

definition store_endpoint :: "condlib \<Rightarrow> string \<Rightarrow> string \<Rightarrow> ep_run \<Rightarrow> ep_run step" where
  "store_endpoint L condType owner run =
     (let url = ed_EndpointURL (er_ed run);
          run1 = (if url \<noteq> []
                  then upd_ecp (\<lambda>cs. lc_MarkTrue L cs condType (exposed_message owner))
                         (upd_ed (\<lambda>ed. ed\<lparr>ed_Override := (ed_Override ed)\<lparr>vo_EndpointURL := Some url\<rparr>\<rparr>) run)
                  else run)
      in Next (run1\<lparr>er_endpoints := gomap_put (ed_Type (er_ed run1)) (er_ed run1) (er_endpoints run1)\<rparr>))"

record ep_args =
  ea_owner :: string
  ea_ownerUID :: string
  ea_overrides :: "(string, override_spec) gomap"
  ea_ingress :: api_override
  ea_condType :: string
  ea_tlsDisabled :: bool
  ea_publicSecret :: "string ptr"

definition endpoint_stage :: "condlib \<Rightarrow> ep_env \<Rightarrow> ep_args \<Rightarrow> k8s_service \<Rightarrow> ep_run \<Rightarrow> ep_run step" where
  "endpoint_stage L env a svc run0 =
     (let run = run0\<lparr>er_ed := new_endpoint env (ea_overrides a) (ea_tlsDisabled a) svc\<rparr>; ty = ed_Type (er_ed run);
          prepare = (if ty = EndpointPublic
                     then run_stages [public_route L env (ea_ingress a) svc, public_cert env (ea_publicSecret a) svc,
                                      ensureRoute L env (ea_condType a) (ea_owner a) (ea_ownerUID a) svc] run
                     else if ty = EndpointInternal then internal_cert env svc run
                     else Next run)
      in step_bind prepare (store_endpoint L (ea_condType a) (ea_owner a)))"

definition EnsureEndpointConfig :: "condlib \<Rightarrow> ep_env \<Rightarrow> ep_args \<Rightarrow> k8s_service list \<Rightarrow> control_plane \<Rightarrow> ep_run step" where
  "EnsureEndpointConfig L env a svcs cp =
     run_stages (map (endpoint_stage L env a) svcs)
       \<lparr>er_cp = cp, er_ed = new_endpoint env [] True \<lparr>ks_Name = [], ks_Namespace = [], ks_Annotations = [], ks_Labels = [], ks_Type = []\<rparr>,
        er_endpoints = [], er_log = [], er_requeue = False\<rparr>"

definition GetEndpointServiceOverrides :: "(string, EndpointDetail) gomap \<Rightarrow> (string, override_spec) gomap" where
  "GetEndpointServiceOverrides es = map (\<lambda>(ty, ed). (ty, ed_Override ed)) es"

definition GetEndptCertSecret :: "(string, EndpointDetail) gomap \<Rightarrow> string \<Rightarrow> string ptr" where
  "GetEndptCertSecret es ty =
     (case map_of es ty of None \<Rightarrow> None | Some ed \<Rightarrow> if xt_Enabled (ed_TLS ed) then xt_SecretName (ed_TLS ed) else None)"

subsection \<open>Clean-up\<close>

definition EnsureDeleted :: "(api_error + bool) \<Rightarrow> api_error option \<Rightarrow> bool \<times> api_error option" where
  "EnsureDeleted get delete =
     (case get of
        Inl e \<Rightarrow> (False, if IsNotFound e then None else Some e)
      | Inr deleting \<Rightarrow> if deleting then (False, None) else (True, delete))"

definition serviceExists :: "string \<Rightarrow> k8s_service list \<Rightarrow> bool" where
  "serviceExists route services = list_ex (\<lambda>svc. ks_Name svc = route) services"

record orphan_env =
  cu_routes :: "api_error + cp_route list"
  cu_certs :: "api_error + certificate list"
  cu_services :: "api_error + k8s_service list"
  cu_deleteCert :: "string \<Rightarrow> api_error option"
  cu_getRoute :: "string \<Rightarrow> api_error + bool"
  cu_deleteRoute :: "string \<Rightarrow> api_error option"

type_synonym cleanup_state = "ep_action list \<times> string list"

definition delete_cert :: "orphan_env \<Rightarrow> string \<Rightarrow> cleanup_state \<Rightarrow> cleanup_state" where
  "delete_cert env name s =
     (case s of (log, errs) \<Rightarrow>
        (log @ [DropCert name],
         errs @ (case cu_deleteCert env name of
                   None \<Rightarrow> []
                 | Some e \<Rightarrow> [''cert deletion for '' @ [CHR 0x27] @ name @ [CHR 0x27] @ '' failed, because: '' @ err_msg e])))"

definition cleanup_cert :: "orphan_env \<Rightarrow> string \<Rightarrow> cp_route \<Rightarrow> certificate \<Rightarrow> cleanup_state \<Rightarrow> cleanup_state" where
  "cleanup_cert env uid r c s =
     (let own = uid \<in> set (ct_Owners c);
          s1 = (if map_of (ct_Labels c) ServiceCertSelector \<noteq> None \<and> str_contains (rt_Name r) (ct_Name c) \<and> own
                then delete_cert env (ct_Name c) s else s)
      in if str_contains (rt_Name r) (ct_CommonName c) \<and> own then delete_cert env (ct_Name c) s1 else s1)"

definition cleanup_route :: "orphan_env \<Rightarrow> string \<Rightarrow> certificate list \<Rightarrow> k8s_service list \<Rightarrow> cp_route \<Rightarrow> cleanup_state \<Rightarrow> cleanup_state" where
  "cleanup_route env uid certs services r s =
     (if uid \<notin> set (rt_Owners r) \<or> serviceExists (rt_To r) services then s
      else (case fold (cleanup_cert env uid r) certs s of
              (log, errs) \<Rightarrow>
                (case EnsureDeleted (cu_getRoute env (rt_Name r)) (cu_deleteRoute env (rt_Name r)) of
                   (deleted, err) \<Rightarrow>
                     (log @ (if deleted then [DropRoute (rt_Name r)] else []),
                      errs @ (case err of None \<Rightarrow> []
                              | Some e \<Rightarrow> [''route deletion for '' @ [CHR 0x27] @ rt_Name r @ [CHR 0x27] @ '' failed, because: '' @ err_msg e])))))"

definition join_lines :: "string list \<Rightarrow> string" where
  "join_lines xs = concat (map (\<lambda>x. x @ [CHR 0x0A]) (butlast xs)) @ (if xs = [] then [] else last xs)"

definition DeleteCertsAndRoutes :: "orphan_env \<Rightarrow> control_plane \<Rightarrow> ep_action list \<times> api_error option" where
  "DeleteCertsAndRoutes env cp =
     (case cu_routes env of
        Inl e \<Rightarrow> ([], Some (wrap_err ''could not get routes: error listing routes for map[]: '' e))
      | Inr routes \<Rightarrow>
          (case cu_certs env of
             Inl e \<Rightarrow> ([], Some (wrap_err ''could not get certificates: '' e))
           | Inr certs \<Rightarrow>
               (case cu_services env of
                  Inl e \<Rightarrow> ([], Some (wrap_err ''could not get services: '' e))
                | Inr services \<Rightarrow>
                    (case fold (cleanup_route env (cp_UID cp) certs services) routes ([], []) of
                       (log, errs) \<Rightarrow> (log, if errs \<noteq> [] then Some (OtherError (join_lines errs)) else None)))))"

end
