(* ===== verification/CA_Bundles.thy ===== *)
theory CA_Bundles
  imports Endpoint_Config
begin

text \<open>
  The certificate authorities of the control plane: \<open>internal/openstack/ca.go\<close>.  There is one CA for each of four purposes
  (\<open>ca_kind\<close>); its certificate is collected in two bundles, one with all trusted certificates and one with those of the CAs only,
  which are written to a secret.

  \<open>ca_env\<close> has the settings, the constants and functions of lib-common and cert-manager, and the calls of the API server.  PEM and
  X.509 are functions of it too: \<open>ka_blocks\<close> gives the blocks that the calls of \<open>pem.Decode\<close> in a loop yield, \<open>ka_parse\<close> is
  \<open>x509.ParseCertificate\<close>.  Times are nanoseconds.  The issuers of the namespace are part of the state \<open>ca_run\<close>, since the
  function reads the labels it has changed before.  Of the errors of files, \<open>NotFound\<close> is \<open>os.ErrNotExist\<close>.
\<close>

subsection \<open>Settings and objects\<close>

datatype ca_kind = IngressCA | InternalCA | LibvirtCA | OvnCA

record ca_cert_config =
  cc_Duration :: "int ptr"
  cc_RenewBefore :: "int ptr"
  cc_CustomIssuer :: "string ptr"

record cert_section =
  cx_Cert :: cert_config
  cx_Ca :: ca_cert_config

record ca_issuer =
  kis_Name :: string
  kis_Labels :: "(string, string) gomap"
  kis_Annotations :: "(string, string) gomap"

record root_ca =
  ra_Name :: string
  ra_Issuer :: string
  ra_Duration :: "int ptr"
  ra_RenewBefore :: "int ptr"

record x509 =
  x5_IssuerCN :: string
  x5_Raw :: string
  x5_NotAfter :: int

record pem_block =
  pb_Type :: string
  pb_Headers :: "(string, string) gomap"
  pb_Bytes :: string

record caCert =
  k_hash :: string
  k_cert :: x509
  k_expire :: int

type_synonym caBundle = "caCert list"

datatype ca_action = EnsureRootCA root_ca | EnsureIssuer ca_issuer string | PatchIssuer string | WriteBundle "(string, string) gomap"

record ca_env =
  ka_now :: int
  ka_section :: "ca_kind \<Rightarrow> cert_section"
  ka_userBundle :: string
  ka_prefix :: string
  ka_label :: "ca_kind \<Rightarrow> string"
  ka_restoreLabels :: "(string, string) gomap"
  ka_merge :: "(string, string) gomap \<Rightarrow> (string, string) gomap \<Rightarrow> (string, string) gomap"
  ka_CABundleSecret :: string
  ka_CABundleKey :: string
  ka_InternalCABundleKey :: string
  ka_DownstreamPath :: string
  ka_UpstreamPath :: string
  ka_DefaultDuration :: string
  ka_DurationAnnotation :: string
  ka_RenewBeforeAnnotation :: string
  ka_duration :: "int \<Rightarrow> string"
  ka_rfc3339 :: "int \<Rightarrow> string"
  ka_WaitingMessage :: "string \<Rightarrow> string"
  ka_issuerKind :: string
  ka_certKind :: string
  ka_selfSigned :: "api_error + bool"
  ka_getSecret :: "string \<Rightarrow> api_error + secret"
  ka_rootCert :: "root_ca \<Rightarrow> api_error + bool"
  ka_caIssuer :: "ca_issuer \<Rightarrow> string \<Rightarrow> ca_issuer list \<Rightarrow> (api_error + bool) \<times> ca_issuer list"
  ka_getCA :: "string \<Rightarrow> api_error + string option"
  ka_listIssuers :: "api_error option"
  ka_getIssuer :: "string \<Rightarrow> api_error option"
  ka_caSecret :: "string \<Rightarrow> string ptr"
  ka_diff :: "ca_issuer \<Rightarrow> api_error option"
  ka_patch :: "ca_issuer \<Rightarrow> api_error option"
  ka_conflict :: "api_error \<Rightarrow> bool"
  ka_registry :: registry_env
  ka_file :: "string \<Rightarrow> api_error + string"
  ka_ensureSecret :: "(string, string) gomap \<Rightarrow> api_error option"
  ka_blocks :: "string \<Rightarrow> pem_block list"
  ka_parse :: "string \<Rightarrow> api_error + x509"
  ka_hash :: "string \<Rightarrow> api_error + string"
  ka_encode :: "pem_block \<Rightarrow> api_error + string"

record ca_run =
  ca_cp :: control_plane
  ca_CAList :: "(string \<times> string) list"
  ca_CaBundleSecretName :: string
  ca_bundle :: caBundle
  ca_only :: caBundle
  ca_issuers :: "ca_issuer list"
  ca_log :: "ca_action list"
  ca_requeue :: bool

definition ca_log_act :: "ca_action \<Rightarrow> ca_run \<Rightarrow> ca_run" where
  "ca_log_act a run = run\<lparr>ca_log := ca_log run @ [a]\<rparr>"

definition ca_come_back :: "ca_run \<Rightarrow> ca_run step" where
  "ca_come_back run = Return None (run\<lparr>ca_requeue := True\<rparr>)"

definition ca_upd_conds :: "(conditions \<Rightarrow> conditions) \<Rightarrow> ca_run \<Rightarrow> ca_run" where
  "ca_upd_conds f run = run\<lparr>ca_cp := upd_cp_conds f (ca_cp run)\<rparr>"

definition ca_failed :: "condlib \<Rightarrow> string \<Rightarrow> ca_run \<Rightarrow> ca_run" where
  "ca_failed L m = ca_upd_conds (\<lambda>cs. lc_Set L cs (lc_FalseCondition L CAReadyCondition ErrorReason SeverityWarning m))"

definition ca_running :: "condlib \<Rightarrow> ca_run \<Rightarrow> ca_run" where
  "ca_running L = ca_upd_conds (\<lambda>cs. lc_Set L cs (lc_FalseCondition L CAReadyCondition RequestedReason SeverityInfo
     ''OpenStackControlPlane CAs in progress''))"

definition ca_error_message :: "string \<Rightarrow> string \<Rightarrow> api_error \<Rightarrow> string" where
  "ca_error_message kind name e = ''OpenStackControlPlane CAs '' @ kind @ '' '' @ name @ '' error occured '' @ err_msg e"

text \<open>The result of an object that is created or patched: an error, a requeue or success.\<close>

definition ca_ensured :: "condlib \<Rightarrow> string \<Rightarrow> string \<Rightarrow> api_error + bool \<Rightarrow> ca_run \<Rightarrow> ca_run step" where
  "ca_ensured L kind name out run =
     (case out of
        Inl e \<Rightarrow> Return (Some e) (ca_failed L (ca_error_message kind name e) run)
      | Inr ready \<Rightarrow> if ready then Next run else ca_come_back (ca_running L run))"

subsection \<open>Bundles\<close>

definition minute :: int where "minute = 60 * 10 ^ 9"

text \<open>\<open>time.Since\<close>, which saturates, in minutes rounded half away from zero.\<close>

definition since :: "int \<Rightarrow> int \<Rightarrow> int" where
  "since now t = max (- (2 ^ 63)) (min (2 ^ 63 - 1) (now - t))"

definition minutes :: "int \<Rightarrow> int \<Rightarrow> int" where
  "minutes now t = (let d = since now t in sgn d * ((2 * \<bar>d\<bar> + minute) div (2 * minute)))"

definition ca_expired :: "int \<Rightarrow> x509 \<Rightarrow> bool" where
  "ca_expired now c \<longleftrightarrow> - minutes now (x5_NotAfter c) \<le> 0"

text \<open>One round of the loop: the bundle is written in place, so it keeps what was added before an error.\<close>

definition read_block :: "ca_env \<Rightarrow> pem_block \<Rightarrow> caBundle \<Rightarrow> api_error + caBundle" where
  "read_block env b certs =
     (if pb_Type b \<noteq> ''CERTIFICATE''
      then Inl (OtherError (''invalid PEM block in bundle: only CERTIFICATE blocks are permitted but found '' @ [CHR 0x27] @ pb_Type b @ [CHR 0x27]))
      else if pb_Headers b \<noteq> []
      then Inl (OtherError ''invalid PEM block in bundle; blocks are not permitted to have PEM headers'')
      else (case ka_parse env (pb_Bytes b) of
              Inl e \<Rightarrow> Inl (wrap_err ''invalid PEM block in bundle; invalid PEM certificate: '' e)
            | Inr c \<Rightarrow>
                if ca_expired (ka_now env) c then Inr certs
                else (case ka_hash env (pb_Bytes b) of
                        Inl e \<Rightarrow> Inl (wrap_err ''failed calc hash of PEM block : '' e)
                      | Inr h \<Rightarrow>
                          Inr (if list_ex (\<lambda>k. k_hash k = h) certs then certs
                               else certs @ [\<lparr>k_hash = h, k_cert = c, k_expire = x5_NotAfter c\<rparr>]))))"

fun read_blocks :: "ca_env \<Rightarrow> pem_block list \<Rightarrow> caBundle \<Rightarrow> caBundle \<times> api_error option" where
  "read_blocks env [] certs = (certs, None)"
| "read_blocks env (b # bs) certs =
     (case read_block env b certs of Inl e \<Rightarrow> (certs, Some e) | Inr certs1 \<Rightarrow> read_blocks env bs certs1)"

definition getCertsFromPEM :: "ca_env \<Rightarrow> string ptr \<Rightarrow> caBundle \<Rightarrow> caBundle \<times> api_error option" where
  "getCertsFromPEM env data certs =
     (case data of
        None \<Rightarrow> (certs, Some (OtherError ''certificate data can't be nil''))
      | Some d \<Rightarrow> read_blocks env (ka_blocks env d) certs)"

definition getBundlePEM :: "ca_env \<Rightarrow> caBundle \<Rightarrow> api_error + string" where
  "getBundlePEM env certs =
     fold (\<lambda>c acc. case acc of
             Inl e \<Rightarrow> Inl e
           | Inr s \<Rightarrow>
               (case ka_encode env \<lparr>pb_Type = ''CERTIFICATE'', pb_Headers = [], pb_Bytes = x5_Raw (k_cert c)\<rparr> of
                  Inl e \<Rightarrow> Inl (wrap_err ''failed to encode bundle PEM for '' e)
                | Inr p \<Rightarrow> Inr (s @ ''# '' @ x5_IssuerCN (k_cert c) @ [CHR 0x0A] @ p)))
       certs (Inr [])"

text \<open>Reading into one of the two bundles of the run.\<close>

definition read_all :: "ca_env \<Rightarrow> string \<Rightarrow> ca_run \<Rightarrow> ca_run step" where
  "read_all env d run =
     (case getCertsFromPEM env (Some d) (ca_bundle run) of
        (certs, None) \<Rightarrow> Next (run\<lparr>ca_bundle := certs\<rparr>)
      | (certs, Some e) \<Rightarrow> Return (Some e) (run\<lparr>ca_bundle := certs\<rparr>))"

definition read_only :: "ca_env \<Rightarrow> string \<Rightarrow> ca_run \<Rightarrow> ca_run step" where
  "read_only env d run =
     (case getCertsFromPEM env (Some d) (ca_only run) of
        (certs, None) \<Rightarrow> Next (run\<lparr>ca_only := certs\<rparr>)
      | (certs, Some e) \<Rightarrow> Return (Some e) (run\<lparr>ca_only := certs\<rparr>))"

definition ca_status :: "ca_env \<Rightarrow> string \<Rightarrow> string \<Rightarrow> ca_run \<Rightarrow> ca_run step" where
  "ca_status env caName cert run =
     (case getCertsFromPEM env (Some cert) [] of
        (_, Some e) \<Rightarrow> Return (Some e) run
      | ([], None) \<Rightarrow> Return (Some (OtherError ''caCertStatusBundle.certs is empty'')) run
      | (c # _, None) \<Rightarrow> Next (run\<lparr>ca_CAList := ca_CAList run @ [(caName, ka_rfc3339 env (k_expire c))]\<rparr>))"

definition ensureCaBundles :: "ca_env \<Rightarrow> string \<Rightarrow> string \<Rightarrow> ca_run \<Rightarrow> ca_run step" where
  "ensureCaBundles env caName cert = run_stages [read_all env cert, read_only env cert, ca_status env caName cert]"

subsection \<open>Issuers\<close>

definition selected_by :: "(string, string) gomap \<Rightarrow> ca_issuer \<Rightarrow> bool" where
  "selected_by labels i = list_all (\<lambda>(k, v). map_of (kis_Labels i) k = Some v) labels"

definition same_map :: "(string, string) gomap \<Rightarrow> (string, string) gomap \<Rightarrow> bool" where
  "same_map a b = list_all (\<lambda>k. map_of a k = map_of b k) (map fst a @ map fst b)"

definition put_issuer :: "ca_issuer \<Rightarrow> ca_issuer list \<Rightarrow> ca_issuer list" where
  "put_issuer i issuers = map (\<lambda>j. if kis_Name j = kis_Name i then i else j) issuers"

definition patchIssuer :: "ca_env \<Rightarrow> ca_issuer \<Rightarrow> ca_issuer \<Rightarrow> ca_run \<Rightarrow> ca_run step" where
  "patchIssuer env before issuer run =
     (case ka_diff env issuer of
        Some e \<Rightarrow> Return (Some e) run
      | None \<Rightarrow>
          if same_map (kis_Labels before) (kis_Labels issuer) \<and> same_map (kis_Annotations before) (kis_Annotations issuer) then Next run
          else (let run1 = ca_log_act (PatchIssuer (kis_Name issuer)) run
                in case ka_patch env issuer of
                     None \<Rightarrow> Next (run1\<lparr>ca_issuers := put_issuer issuer (ca_issuers run1)\<rparr>)
                   | Some e \<Rightarrow>
                       if ka_conflict env e then Return (Some (wrap_err ''error metadata update conflict: '' e)) run1
                       else if \<not> IsNotFound e then Return (Some (wrap_err ''error metadata update failed: '' e)) run1
                       else Next run1))"

definition remove_label_from :: "ca_env \<Rightarrow> string \<Rightarrow> (string, string) gomap \<Rightarrow> ca_issuer \<Rightarrow> ca_run \<Rightarrow> ca_run step" where
  "remove_label_from env name labels issuer run =
     (if kis_Name issuer \<noteq> name
      then patchIssuer env issuer (issuer\<lparr>kis_Labels := fold (\<lambda>(k, _) m. gomap_del k m) labels (kis_Labels issuer)\<rparr>) run
      else Next run)"

definition removeIssuerLabel :: "ca_env \<Rightarrow> string \<Rightarrow> (string, string) gomap \<Rightarrow> ca_run \<Rightarrow> ca_run step" where
  "removeIssuerLabel env name labels run =
     (if labels = [] then Next run
      else (case ka_listIssuers env of
              Some e \<Rightarrow> Return (Some (wrap_err ''error getting issuer by label: '' e)) run
            | None \<Rightarrow> run_stages (map (remove_label_from env name labels) (filter (selected_by labels) (ca_issuers run))) run))"

definition get_issuer :: "ca_env \<Rightarrow> string \<Rightarrow> ca_run \<Rightarrow> api_error + ca_issuer" where
  "get_issuer env name run =
     (case ka_getIssuer env name of
        Some e \<Rightarrow> Inl e
      | None \<Rightarrow> (case filter (\<lambda>i. kis_Name i = name) (ca_issuers run) of [] \<Rightarrow> Inl (NotFound name) | i # _ \<Rightarrow> Inr i))"

text \<open>The name of the secret (\<open>Spec.CA.SecretName\<close> of the issuer, \<open>ka_caSecret\<close>) is handed on.  An issuer that is not a CA issuer
  has no \<open>Spec.CA\<close>, which is dereferenced.\<close>

definition addIssuerLabelAnnotation ::
    "ca_env \<Rightarrow> string \<Rightarrow> (string, string) gomap \<Rightarrow> (string, string) gomap \<Rightarrow> ca_run \<Rightarrow> string \<times> ca_run step" where
  "addIssuerLabelAnnotation env name labels annotations run =
     (case removeIssuerLabel env name labels run of
        Next run1 \<Rightarrow>
          (case get_issuer env name run1 of
             Inl e \<Rightarrow> ([], Return (Some e) run1)
           | Inr issuer \<Rightarrow>
               (case ka_caSecret env name of
                  None \<Rightarrow> ([], Panic)
                | Some s \<Rightarrow>
                    (s, patchIssuer env issuer
                          (issuer\<lparr>kis_Labels := ka_merge env (ka_merge env (kis_Labels issuer) labels) (ka_restoreLabels env),
                                  kis_Annotations := ka_merge env (kis_Annotations issuer) annotations\<rparr>) run1)))
      | other \<Rightarrow> ([], other))"

definition GetDurationHours :: "ca_env \<Rightarrow> cert_config \<Rightarrow> string" where
  "GetDurationHours env c = (case cg_Duration c of None \<Rightarrow> [] | Some d \<Rightarrow> ka_duration env d)"

definition GetRenewBeforeHours :: "ca_env \<Rightarrow> cert_config \<Rightarrow> string" where
  "GetRenewBeforeHours env c = (case cg_RenewBefore c of None \<Rightarrow> [] | Some d \<Rightarrow> ka_duration env d)"

definition getIssuerAnnotations :: "ca_env \<Rightarrow> cert_config \<Rightarrow> (string, string) gomap" where
  "getIssuerAnnotations env c =
     (let d = GetDurationHours env c; rb = GetRenewBeforeHours env c;
          annotations = [(ka_DurationAnnotation env, if d = [] then ka_DefaultDuration env else d)]
      in if rb \<noteq> [] then gomap_put (ka_RenewBeforeAnnotation env) rb annotations else annotations)"

subsection \<open>Certificate authorities\<close>

definition getCAFromSecret :: "condlib \<Rightarrow> ca_env \<Rightarrow> string \<Rightarrow> (string \<Rightarrow> ca_run \<Rightarrow> ca_run step) \<Rightarrow> ca_run \<Rightarrow> ca_run step" where
  "getCAFromSecret L env secretName go run =
     (case ka_getCA env secretName of
        Inl e \<Rightarrow> Return (Some e) (ca_failed L (ca_error_message ''secret'' secretName e) run)
      | Inr None \<Rightarrow> ca_come_back (ca_running L run)
      | Inr (Some cert) \<Rightarrow> go cert run)"

definition root_cert_stage :: "condlib \<Rightarrow> ca_env \<Rightarrow> string \<Rightarrow> ca_cert_config \<Rightarrow> ca_run \<Rightarrow> ca_run step" where
  "root_cert_stage L env caName cfg run =
     (let req = \<lparr>ra_Name = caName, ra_Issuer = ''selfsigned-issuer'', ra_Duration = cc_Duration cfg, ra_RenewBefore = cc_RenewBefore cfg\<rparr>
      in ca_ensured L (ka_certKind env) caName (ka_rootCert env req) (ca_log_act (EnsureRootCA req) run))"

definition ca_issuer_stage :: "condlib \<Rightarrow> ca_env \<Rightarrow> string \<Rightarrow> (string, string) gomap \<Rightarrow> (string, string) gomap \<Rightarrow> ca_run \<Rightarrow> ca_run step" where
  "ca_issuer_stage L env caName labels annotations run =
     (let req = \<lparr>kis_Name = caName, kis_Labels = labels, kis_Annotations = annotations\<rparr>
      in case ka_caIssuer env req caName (ca_issuers run) of
           (out, issuers) \<Rightarrow>
             ca_ensured L (ka_issuerKind env) caName out ((ca_log_act (EnsureIssuer req caName) run)\<lparr>ca_issuers := issuers\<rparr>))"

text \<open>\<open>ensureRootCA\<close> with \<open>createRootCACertAndIssuer\<close>: the certificate of the CA, its issuer, and the bundles.\<close>

definition ensureRootCA ::
    "condlib \<Rightarrow> ca_env \<Rightarrow> string \<Rightarrow> (string, string) gomap \<Rightarrow> (string, string) gomap \<Rightarrow> ca_cert_config \<Rightarrow> ca_run \<Rightarrow> ca_run step" where
  "ensureRootCA L env caName labels annotations cfg =
     run_stages [root_cert_stage L env caName cfg, ca_issuer_stage L env caName labels annotations,
                 getCAFromSecret L env caName (ensureCaBundles env caName)]"

definition ca_name :: "ca_env \<Rightarrow> ca_kind \<Rightarrow> string" where
  "ca_name env k =
     ka_prefix env @ (case k of IngressCA \<Rightarrow> EndpointPublic | InternalCA \<Rightarrow> EndpointInternal | LibvirtCA \<Rightarrow> ''libvirt'' | OvnCA \<Rightarrow> ''ovn'')"

definition customCA ::
    "condlib \<Rightarrow> ca_env \<Rightarrow> string \<Rightarrow> (string, string) gomap \<Rightarrow> (string, string) gomap \<Rightarrow> ca_run \<Rightarrow> ca_run step" where
  "customCA L env issuer labels annotations run =
     (case addIssuerLabelAnnotation env issuer labels annotations run of
        (_, Panic) \<Rightarrow> Panic
      | (_, Return None run1) \<Rightarrow> Return None run1
      | (_, Return (Some e) run1) \<Rightarrow>
          (let run2 = ca_failed L (ca_error_message ''issuer'' issuer e) run1
           in if IsNotFound e then ca_come_back run2 else Return (Some e) run2)
      | (s, Next run1) \<Rightarrow> getCAFromSecret L env s (ensureCaBundles env issuer) run1)"

definition ca_stage :: "condlib \<Rightarrow> ca_env \<Rightarrow> ca_kind \<Rightarrow> ca_run \<Rightarrow> ca_run step" where
  "ca_stage L env k run =
     (let sec = ka_section env k; labels = [(ka_label env k, [])]; annotations = getIssuerAnnotations env (cx_Cert sec);
          custom = cc_CustomIssuer (cx_Ca sec)
      in if \<not> IsCustomIssuer custom
         then step_bind (removeIssuerLabel env (ca_name env k) labels run)
                (ensureRootCA L env (ca_name env k) labels annotations (cx_Ca sec))
         else customCA L env (the custom) labels annotations run)"

subsection \<open>ReconcileCAs\<close>

definition selfsigned_stage :: "condlib \<Rightarrow> ca_env \<Rightarrow> ca_run \<Rightarrow> ca_run step" where
  "selfsigned_stage L env run = ca_ensured L (ka_issuerKind env) ''selfsigned-issuer'' (ka_selfSigned env) run"

definition load_bundles :: "ca_env \<Rightarrow> ca_run \<Rightarrow> ca_run step" where
  "load_bundles env run =
     (let load = (\<lambda>s key f. case map_of (sec_Data s) key of None \<Rightarrow> Next | Some d \<Rightarrow> f d);
          reset = (\<lambda>r. Next (r\<lparr>ca_CAList := []\<rparr>))
      in case ka_getSecret env (ka_CABundleSecret env) of
           Inl e \<Rightarrow> if IsNotFound e then reset run else Return (Some e) run
         | Inr s \<Rightarrow> run_stages [load s (ka_CABundleKey env) (read_all env), load s (ka_InternalCABundleKey env) (read_only env), reset] run)"

definition user_bundle :: "condlib \<Rightarrow> ca_env \<Rightarrow> ca_run \<Rightarrow> ca_run step" where
  "user_bundle L env run =
     (let name = ka_userBundle env
      in if name = [] then Next run
         else (case ka_getSecret env name of
                 Inl e \<Rightarrow>
                   if IsNotFound e then ca_come_back (ca_failed L (ka_WaitingMessage env name) (ca_failed L (ca_error_message ''secret'' name e) run))
                   else Return (Some e) (ca_failed L (ca_error_message ''secret'' name e) run)
               | Inr s \<Rightarrow> run_stages (map (\<lambda>(_, d). read_all env d) (sec_Data s)) run))"

definition mirror_bundle :: "condlib \<Rightarrow> ca_env \<Rightarrow> ca_run \<Rightarrow> ca_run step" where
  "mirror_bundle L env run =
     (case GetMirrorRegistryCACerts (ka_registry env) of
        Inl e \<Rightarrow> Return (Some e) (ca_failed L (''Failed to get mirror registry CA certificates: '' @ err_msg e) run)
      | Inr certs \<Rightarrow>
          Next (run\<lparr>ca_bundle := fold (\<lambda>h b. fst (getCertsFromPEM env (Some (gomap_get [] certs h)) b)) (sort (map fst certs)) (ca_bundle run)\<rparr>))"

definition mark_ca_ready :: "condlib \<Rightarrow> ca_run \<Rightarrow> ca_run step" where
  "mark_ca_ready L run = Next (ca_upd_conds (\<lambda>cs. lc_MarkTrue L cs CAReadyCondition ''OpenStackControlPlane CAs completed'') run)"

definition getOperatorCABundle :: "ca_env \<Rightarrow> string \<Rightarrow> api_error + string" where
  "getOperatorCABundle env path = (case ka_file env path of Inl e \<Rightarrow> Inl (wrap_err ''file reading error '' e) | Inr s \<Rightarrow> Inr s)"

definition operator_bundle :: "ca_env \<Rightarrow> ca_run \<Rightarrow> ca_run step" where
  "operator_bundle env run =
     (let contents = (case getOperatorCABundle env (ka_DownstreamPath env) of
                        Inl e \<Rightarrow> if IsNotFound e then getOperatorCABundle env (ka_UpstreamPath env) else Inl e
                      | Inr s \<Rightarrow> Inr s)
      in case contents of Inl e \<Rightarrow> Return (Some e) run | Inr s \<Rightarrow> read_all env s run)"

definition write_bundle :: "condlib \<Rightarrow> ca_env \<Rightarrow> ca_run \<Rightarrow> ca_run step" where
  "write_bundle L env run =
     (case getBundlePEM env (ca_bundle run) of
        Inl e \<Rightarrow> Return (Some (wrap_err ''failed to create CA bundle PEM: '' e)) run
      | Inr pem \<Rightarrow>
          (case getBundlePEM env (ca_only run) of
             Inl e \<Rightarrow> Return (Some (wrap_err ''failed to create CA only bundle PEM: '' e)) run
           | Inr only \<Rightarrow>
               (let data = [(ka_CABundleKey env, pem), (ka_InternalCABundleKey env, only)];
                    run1 = ca_log_act (WriteBundle data) run
                in case ka_ensureSecret env data of
                     Some e \<Rightarrow> Return (Some e) (ca_failed L (ca_error_message ''secret'' (ka_CABundleSecret env) e) run1)
                   | None \<Rightarrow> Next (run1\<lparr>ca_CaBundleSecretName := ka_CABundleSecret env\<rparr>))))"

definition ca_kinds :: "ca_kind list" where
  "ca_kinds = [IngressCA, InternalCA, LibvirtCA, OvnCA]"

definition ca_stages :: "condlib \<Rightarrow> ca_env \<Rightarrow> (ca_run \<Rightarrow> ca_run step) list" where
  "ca_stages L env =
     [selfsigned_stage L env, load_bundles env] @ map (ca_stage L env) ca_kinds
     @ [user_bundle L env, mirror_bundle L env, mark_ca_ready L, operator_bundle env, write_bundle L env]"

definition ReconcileCAs_run :: "condlib \<Rightarrow> ca_env \<Rightarrow> ca_run \<Rightarrow> ca_run step" where
  "ReconcileCAs_run L env run = run_stages (ca_stages L env) (run\<lparr>ca_bundle := [], ca_only := []\<rparr>)"

end
