(* ===== verification/Endpoint_Laws.thy ===== *)
theory Endpoint_Laws
  imports Endpoint_Config Ctlplane_Ready
begin

text \<open>
  Laws of \<open>Endpoint_Config\<close>: what the clean-up of certificates and routes deletes, and what the endpoints that are handed to the
  services have.
\<close>

subsection \<open>Clean-up\<close>

text \<open>The clean-up is two lists that grow: what is deleted, and the errors.  The two parts of a step do not depend on what was
  collected before.\<close>

definition orphaned :: "string \<Rightarrow> k8s_service list \<Rightarrow> cp_route \<Rightarrow> bool" where
  "orphaned uid services r \<longleftrightarrow> uid \<in> set (rt_Owners r) \<and> (\<forall>svc \<in> set services. ks_Name svc \<noteq> rt_To r)"

definition cert_matches :: "string \<Rightarrow> cp_route \<Rightarrow> certificate \<Rightarrow> bool" where
  "cert_matches uid r c \<longleftrightarrow> uid \<in> set (ct_Owners c) \<and>
     (map_of (ct_Labels c) ServiceCertSelector \<noteq> None \<and> str_contains (rt_Name r) (ct_Name c) \<or> str_contains (rt_Name r) (ct_CommonName c))"

definition grows :: "(cleanup_state \<Rightarrow> cleanup_state) \<Rightarrow> cleanup_state \<Rightarrow> bool" where
  "grows f d \<longleftrightarrow> (\<forall>s. f s = (fst s @ fst d, snd s @ snd d))"

lemma fold_collects:
  assumes "\<And>x. x \<in> set xs \<Longrightarrow> grows (f x) (g x)"
  shows "grows (fold f xs) (concat (map (\<lambda>x. fst (g x)) xs), concat (map (\<lambda>x. snd (g x)) xs))"
  using assms
proof (induction xs)
  case (Cons x xs)
  have x: "f x s = (fst s @ fst (g x), snd s @ snd (g x))" for s using Cons.prems [of x] by (cases s) (simp add: grows_def)
  have "grows (fold f xs) (concat (map (\<lambda>x. fst (g x)) xs), concat (map (\<lambda>x. snd (g x)) xs))"
    using Cons.IH Cons.prems by simp
  then show ?case by (simp add: grows_def x)
qed (simp add: grows_def)

lemma cleanup_cert_grows: "grows (cleanup_cert env uid r c) (cleanup_cert env uid r c ([], []))"
  unfolding grows_def cleanup_cert_def Let_def delete_cert_def by (auto split: prod.splits)

lemma cleanup_cert_log: "set (fst (cleanup_cert env uid r c ([], []))) = (if cert_matches uid r c then {DropCert (ct_Name c)} else {})"
  by (auto simp: cleanup_cert_def cert_matches_def delete_cert_def Let_def)

lemma cleanup_cert_errs:
  "snd (cleanup_cert env uid r c ([], [])) = [] \<longleftrightarrow> \<not> cert_matches uid r c \<or> cu_deleteCert env (ct_Name c) = None"
  by (auto simp: cleanup_cert_def cert_matches_def delete_cert_def Let_def split: option.splits)

lemma cleanup_certs:
  "fold (cleanup_cert env uid r) certs s =
     (fst s @ concat (map (\<lambda>c. fst (cleanup_cert env uid r c ([], []))) certs),
      snd s @ concat (map (\<lambda>c. snd (cleanup_cert env uid r c ([], []))) certs))"
  using fold_collects [of certs "cleanup_cert env uid r" "\<lambda>c. cleanup_cert env uid r c ([], [])", OF cleanup_cert_grows]
  unfolding grows_def fst_conv snd_conv by blast

lemma serviceExists_iff: "serviceExists n services \<longleftrightarrow> (\<exists>svc \<in> set services. ks_Name svc = n)"
  by (simp add: serviceExists_def list_ex_iff)

lemma cleanup_route_grows: "grows (cleanup_route env uid certs services r) (cleanup_route env uid certs services r ([], []))"
  unfolding grows_def cleanup_route_def cleanup_certs by (auto split: prod.splits)

lemma cleanup_route_log:
  "set (fst (cleanup_route env uid certs services r ([], []))) =
     (if orphaned uid services r
      then {DropCert (ct_Name c) | c. c \<in> set certs \<and> cert_matches uid r c}
           \<union> (if cu_getRoute env (rt_Name r) = Inr False then {DropRoute (rt_Name r)} else {})
      else {})"
  unfolding cleanup_route_def cleanup_certs orphaned_def serviceExists_iff
  by (auto simp: EnsureDeleted_def cleanup_cert_log split: prod.splits sum.splits if_splits)

lemma cleanup_route_errs:
  "snd (cleanup_route env uid certs services r ([], [])) = [] \<longleftrightarrow>
     \<not> orphaned uid services r
     \<or> (\<forall>c \<in> set certs. cert_matches uid r c \<longrightarrow> cu_deleteCert env (ct_Name c) = None)
       \<and> snd (EnsureDeleted (cu_getRoute env (rt_Name r)) (cu_deleteRoute env (rt_Name r))) = None"
  unfolding cleanup_route_def cleanup_certs orphaned_def serviceExists_iff
  by (auto simp: cleanup_cert_errs split: prod.splits option.splits)

lemma cleanup_routes:
  "fold (cleanup_route env uid certs services) routes ([], []) =
     (concat (map (\<lambda>r. fst (cleanup_route env uid certs services r ([], []))) routes),
      concat (map (\<lambda>r. snd (cleanup_route env uid certs services r ([], []))) routes))"
  using fold_collects [of routes "cleanup_route env uid certs services" "\<lambda>r. cleanup_route env uid certs services r ([], [])",
      OF cleanup_route_grows]
  unfolding grows_def by simp

text \<open>C30: \<open>DeleteCertsAndRoutes\<close> deletes exactly what belongs to routes without a service.  A route is deleted if and only if the
  control plane owns it, no service has the name of its target, and it exists and is not being deleted; a certificate if and
  only if the control plane owns it and it matches such a route, by its name and label or by its common name.  A deletion that
  fails does not keep the others from being attempted, and an error is returned if and only if one failed.
\<close>

theorem cleanup_deletes_orphans:
  assumes routes: "cu_routes env = Inr routes" and certs: "cu_certs env = Inr certs" and services: "cu_services env = Inr services"
    and run: "DeleteCertsAndRoutes env cp = (log, err)"
  shows "(DropRoute n \<in> set log \<longleftrightarrow>
           (\<exists>r \<in> set routes. orphaned (cp_UID cp) services r \<and> rt_Name r = n \<and> cu_getRoute env n = Inr False))
       \<and> (DropCert n \<in> set log \<longleftrightarrow>
           (\<exists>r \<in> set routes. orphaned (cp_UID cp) services r \<and>
              (\<exists>c \<in> set certs. cert_matches (cp_UID cp) r c \<and> ct_Name c = n)))
       \<and> (err = None \<longleftrightarrow>
           (\<forall>r \<in> set routes. orphaned (cp_UID cp) services r \<longrightarrow>
              (\<forall>c \<in> set certs. cert_matches (cp_UID cp) r c \<longrightarrow> cu_deleteCert env (ct_Name c) = None)
              \<and> snd (EnsureDeleted (cu_getRoute env (rt_Name r)) (cu_deleteRoute env (rt_Name r))) = None))"
proof -
  let ?step = "\<lambda>r. cleanup_route env (cp_UID cp) certs services r ([], [])"
  have log: "log = concat (map (\<lambda>r. fst (?step r)) routes)"
    and err: "err = None \<longleftrightarrow> concat (map (\<lambda>r. snd (?step r)) routes) = []"
    using run unfolding DeleteCertsAndRoutes_def routes certs services cleanup_routes by (auto split: if_splits)
  have "DropRoute n \<in> set log \<longleftrightarrow>
      (\<exists>r \<in> set routes. orphaned (cp_UID cp) services r \<and> rt_Name r = n \<and> cu_getRoute env n = Inr False)"
    unfolding log by (auto simp: cleanup_route_log split: if_splits)
  moreover have "DropCert n \<in> set log \<longleftrightarrow>
      (\<exists>r \<in> set routes. orphaned (cp_UID cp) services r \<and> (\<exists>c \<in> set certs. cert_matches (cp_UID cp) r c \<and> ct_Name c = n))"
    unfolding log by (auto simp: cleanup_route_log split: if_splits)
  moreover have "err = None \<longleftrightarrow>
      (\<forall>r \<in> set routes. orphaned (cp_UID cp) services r \<longrightarrow>
         (\<forall>c \<in> set certs. cert_matches (cp_UID cp) r c \<longrightarrow> cu_deleteCert env (ct_Name c) = None)
         \<and> snd (EnsureDeleted (cu_getRoute env (rt_Name r)) (cu_deleteRoute env (rt_Name r))) = None)"
    unfolding err by (auto simp: cleanup_route_errs)
  ultimately show ?thesis by blast
qed

subsection \<open>Routes\<close>

text \<open>What the stages of an endpoint leave alone.\<close>

definition ep_frame :: "ep_run \<Rightarrow> ep_run \<Rightarrow> bool" where
  "ep_frame run r \<longleftrightarrow> er_endpoints r = er_endpoints run \<and> cp_Namespace (er_cp r) = cp_Namespace (er_cp run)
     \<and> set (er_log run) \<subseteq> set (er_log r)"

lemma ep_frame_refl [simp]: "ep_frame run run"
  by (simp add: ep_frame_def)

lemma ep_frame_trans: "ep_frame a b \<Longrightarrow> ep_frame b c \<Longrightarrow> ep_frame a c"
  by (auto simp: ep_frame_def)

lemma ep_frame_upd [simp]:
  "ep_frame run (upd_ed f r) \<longleftrightarrow> ep_frame run r" "ep_frame run (upd_ecp g r) \<longleftrightarrow> ep_frame run r"
  "ep_frame run r \<Longrightarrow> ep_frame run (act a r)"
  by (auto simp: ep_frame_def upd_ed_def upd_ecp_def upd_cp_conds_def act_def)

lemma run_fields [simp]:
  "er_ed (upd_ed f run) = f (er_ed run)" "er_ed (upd_ecp g run) = er_ed run" "er_ed (act a run) = er_ed run"
  "er_log (upd_ed f run) = er_log run" "er_log (upd_ecp g run) = er_log run" "er_log (act a run) = er_log run @ [a]"
  "er_cp (upd_ed f run) = er_cp run" "er_cp (act a run) = er_cp run"
  "er_endpoints (upd_ed f run) = er_endpoints run" "er_endpoints (upd_ecp g run) = er_endpoints run"
  "er_endpoints (act a run) = er_endpoints run"
  by (simp_all add: upd_ed_def upd_ecp_def act_def)

lemma come_back_not_Next [simp]: "come_back run \<noteq> Next r"
  by (simp add: come_back_def)

lemma run_stages_Next_keeps:
  assumes "run_stages fs a = Next c" and "P a" and "\<And>f a b. f \<in> set fs \<Longrightarrow> P a \<Longrightarrow> f a = Next b \<Longrightarrow> P b"
  shows "P c"
  using assms
proof (induction fs arbitrary: a)
  case (Cons f fs)
  then obtain b where b: "f a = Next b" "run_stages fs b = Next c" by (cases "f a") auto
  then have "P b" using Cons.prems(2) Cons.prems(3) [of f a b] by simp
  then show ?case using Cons.IH [OF b(2)] Cons.prems(3) by (meson list.set_intros(2))
qed simp

text \<open>A route that was patched for an endpoint: it has TLS if the ingress has, and is encrypted up to the pods if the endpoint
  has a certificate for them.\<close>

definition route_fits :: "ep_env \<Rightarrow> bool \<Rightarrow> bool \<Rightarrow> string \<Rightarrow> route_patch \<Rightarrow> bool" where
  "route_fits env tls reencrypt bundle p =
     (case rp_TLS p of
        None \<Rightarrow> \<not> tls
      | Some c \<Rightarrow> tls \<and> (if reencrypt
                  then tc_Termination c = Reencrypt \<and> pe_getCABundle env bundle (pe_InternalCABundleKey env) = Inr (Some (tc_DestinationCACertificate c))
                  else tc_Termination c = Edge))"

lemma patch_route_Next:
  assumes "patch_route env p go run = Next r"
  obtains host where "pe_patchRoute env p = Inr (Some host)" and "go host (act (PatchRoute p) run) = Next r"
  using assms by (auto simp: patch_route_def Let_def split: sum.splits option.splits)

lemma issue_Next:
  assumes "issue env req go run = Next r"
  obtains s where "pe_ensureCert env req = Inr (Some s)" and "go s (act (IssueCert req) run) = Next r"
  using assms by (auto simp: issue_def Let_def split: sum.splits option.splits)

lemma route_host_Next:
  assumes "route_host env p run = Next r"
  shows "ep_frame run r \<and> er_ed r = (er_ed run)\<lparr>ed_Hostname := ed_Hostname (er_ed r)\<rparr> \<and> ed_Hostname (er_ed r) \<noteq> None
    \<and> (\<not> rd_TLS (ed_Route (er_ed run)) \<longrightarrow> PatchRoute p \<in> set (er_log r))"
  using assms by (auto simp: route_host_def set_host_def Let_def split: sum.splits if_splits elim!: patch_route_Next)

lemma route_secret_Next:
  assumes "route_secret env go run = Next r"
  obtains s run1 where "ep_frame run run1" and "er_ed run1 = er_ed run" and "go s run1 = Next r"
proof -
  have "\<exists>s run1. ep_frame run run1 \<and> er_ed run1 = er_ed run \<and> go s run1 = Next r"
  proof (cases "rd_SecretName (ed_Route (er_ed run))")
    case None
    show ?thesis
    proof (cases "hasCertInOverrideSpec (rd_Override (ed_Route (er_ed run)))")
      case False
      then have "issue env (route_cert env (er_ed run)) go run = Next r" using assms None by (simp add: route_secret_def)
      then show ?thesis by (rule issue_Next) (use ep_frame_upd(3) [OF ep_frame_refl] in fastforce)
    qed (use assms None in \<open>auto simp: route_secret_def intro: ep_frame_refl\<close>)
  qed (use assms in \<open>auto simp: route_secret_def split: sum.splits option.splits intro: ep_frame_refl\<close>)
  then show thesis using that by blast
qed

lemma tls_route_Next:
  assumes "tls_route env p c run = Next r"
  shows "ep_frame run r \<and> er_ed r = er_ed run \<and> PatchRoute (p\<lparr>rp_TLS := Some c\<rparr>) \<in> set (er_log r)"
  using assms by (auto simp: tls_route_def Let_def split: option.splits if_splits elim!: patch_route_Next)

definition route_for :: "ep_env \<Rightarrow> k8s_service \<Rightarrow> EndpointDetail \<Rightarrow> ep_action list \<Rightarrow> bool" where
  "route_for env svc ed log \<longleftrightarrow>
     (\<exists>p. PatchRoute p \<in> set log \<and> rp_Name p = ed_Name ed \<and> rp_ServiceName p = ks_Name svc
        \<and> route_fits env (rd_TLS (ed_Route ed)) (reencrypts ed) (xt_CaBundleSecretName (ed_TLS ed)) p)"

lemma route_for_mono: "route_for env svc ed log \<Longrightarrow> set log \<subseteq> set log' \<Longrightarrow> route_for env svc ed log'"
  unfolding route_for_def by blast

lemma secured_route_Next:
  assumes "secured_route env p s run = Next r"
  shows "ep_frame run r \<and> er_ed r = er_ed run \<and>
    (\<exists>q. PatchRoute q \<in> set (er_log r) \<and> rp_Name q = rp_Name p \<and> rp_ServiceName q = rp_ServiceName p
       \<and> route_fits env True (reencrypts (er_ed run)) (xt_CaBundleSecretName (ed_TLS (er_ed run))) q)"
proof -
  obtain c where c: "tls_route env p c run = Next r"
    and fits: "route_fits env True (reencrypts (er_ed run)) (xt_CaBundleSecretName (ed_TLS (er_ed run))) (p\<lparr>rp_TLS := Some c\<rparr>)"
    using assms by (auto simp: secured_route_def route_fits_def edge_config_def split: if_splits sum.splits option.splits)
  show ?thesis using tls_route_Next [OF c] fits by (metis (no_types, lifting) route_patch.select_convs(1,4) route_patch.surjective route_patch.update_convs(7))
qed

lemma CreateRoute_Next:
  assumes "CreateRoute env uid svc run = Next r"
  shows "ep_frame run r \<and> route_for env svc (er_ed run) (er_log r) \<and>
    (\<exists>host. ed_EndpointURL (er_ed r) = (if rd_TLS (ed_Route (er_ed run)) then ''https'' else ''http'') @ ''://'' @ host) \<and>
    er_ed r = (er_ed run)\<lparr>ed_Hostname := ed_Hostname (er_ed r), ed_EndpointURL := ed_EndpointURL (er_ed r)\<rparr>"
proof -
  let ?p = "route_of env uid svc (er_ed run)"
  have names: "rp_Name ?p = ed_Name (er_ed run)" "rp_ServiceName ?p = ks_Name svc" "rp_TLS ?p = None" by (simp_all add: route_of_def)
  obtain a where a: "route_host env ?p run = Next a"
    and go: "(if rd_TLS (ed_Route (er_ed a)) then step_bind (route_secret env (secured_route env ?p) a) (set_url ''https'')
              else set_url ''http'' a) = Next r"
    using assms by (auto simp: CreateRoute_def Let_def step_bind_Next_iff split: option.splits)
  note host = route_host_Next [OF a]
  then have same: "ed_Route (er_ed a) = ed_Route (er_ed run)" "ed_TLS (er_ed a) = ed_TLS (er_ed run)" "reencrypts (er_ed a) = reencrypts (er_ed run)"
    by (metis EndpointDetail.select_convs(6,7) EndpointDetail.surjective EndpointDetail.update_convs(8) reencrypts_def)+
  show ?thesis
  proof (cases "rd_TLS (ed_Route (er_ed run))")
    case True
    then obtain b where sec0: "route_secret env (secured_route env ?p) a = Next b" and b: "set_url ''https'' b = Next r"
      using go same by (auto simp: step_bind_Next_iff)
    from sec0 obtain s c where c: "ep_frame a c" "er_ed c = er_ed a" "secured_route env ?p s c = Next b" by (rule route_secret_Next)
    note sec = secured_route_Next [OF c(3)]
    have ed: "er_ed b = er_ed a" using sec c(2) by simp
    have "ep_frame run b" using host c(1) sec by (blast intro: ep_frame_trans)
    moreover have "route_for env svc (er_ed run) (er_log b)" using sec c(2) same True names unfolding route_for_def by fastforce
    ultimately show ?thesis using b True host ed by (auto simp: set_url_def)
  next
    case False
    then have r: "set_url ''http'' a = Next r" using go same by simp
    have "route_for env svc (er_ed run) (er_log a)" using host False names unfolding route_for_def route_fits_def by fastforce
    then show ?thesis using r False host by (auto simp: set_url_def)
  qed
qed

subsection \<open>Endpoints\<close>

text \<open>The parts of an endpoint that the functions for routes do not touch.\<close>

definition same_ep :: "EndpointDetail \<Rightarrow> EndpointDetail \<Rightarrow> bool" where
  "same_ep a b \<longleftrightarrow> ed_TLS b = ed_TLS a \<and> ed_Route b = ed_Route a \<and> ed_Name b = ed_Name a \<and> ed_Type b = ed_Type a"

lemma same_ep_refl [simp]: "same_ep a a"
  by (simp add: same_ep_def)

lemma same_ep_trans: "same_ep a b \<Longrightarrow> same_ep b c \<Longrightarrow> same_ep a c"
  by (simp add: same_ep_def)

lemma drop_route_Next:
  assumes "drop_route env svc r0 run = Next r"
  shows "ep_frame run r \<and> same_ep (er_ed run) (er_ed r) \<and> ed_EndpointURL (er_ed r) = ed_EndpointURL (er_ed run)"
  using assms by (auto simp: drop_route_def same_ep_def Let_def step_bind_Next_iff split: if_splits option.splits)

lemma old_routes_Next:
  assumes "old_routes env svc run = Next r"
  shows "ep_frame run r \<and> same_ep (er_ed run) (er_ed r) \<and> ed_EndpointURL (er_ed r) = ed_EndpointURL (er_ed run)" (is "?P r")
proof -
  obtain routes where "run_stages (map (drop_route env svc) routes) run = Next r"
  proof (cases "map_of (ks_Labels svc) ooAppSelector")
    case None
    then have "run_stages (map (drop_route env svc) []) run = Next r" using assms by (simp add: old_routes_def)
    then show thesis by (rule that)
  next
    case (Some v)
    then show thesis using assms that by (cases "pe_listRoutes env v") (simp_all add: old_routes_def)
  qed
  then show ?thesis
  proof (rule run_stages_Next_keeps)
    fix f a b
    assume f: "f \<in> set (map (drop_route env svc) routes)" and n: "f a = Next b" and P: "?P a"
    from f n obtain r0 where "drop_route env svc r0 a = Next b" by auto
    from drop_route_Next [OF this] P show "?P b" by (auto intro: ep_frame_trans same_ep_trans)
  qed simp
qed

lemma CreateRoute_same:
  assumes "CreateRoute env uid svc run = Next r"
  shows "same_ep (er_ed run) (er_ed r)"
proof -
  note * = CreateRoute_Next [OF assms]
  obtain h u where "er_ed r = (er_ed run)\<lparr>ed_Hostname := h, ed_EndpointURL := u\<rparr>" using * by blast
  then show ?thesis by (simp add: same_ep_def)
qed

lemma route_for_same: "same_ep a b \<Longrightarrow> route_for env svc b log = route_for env svc a log"
  by (simp add: route_for_def same_ep_def reencrypts_def)

definition proto :: "EndpointDetail \<Rightarrow> string" where
  "proto ed = (if rd_TLS (ed_Route ed) then ''https'' else ''http'') @ ''://''"

lemma new_route_Next:
  assumes "new_route L env condType owner uid svc run = Next r"
  shows "ep_frame run r \<and> same_ep (er_ed run) (er_ed r) \<and> route_for env svc (er_ed r) (er_log r)
    \<and> (\<exists>host. ed_EndpointURL (er_ed r) = proto (er_ed r) @ host)"
proof -
  obtain a c where c: "CreateRoute env uid svc a = Next c" and r: "r = upd_ecp (\<lambda>cs. lc_MarkTrue L cs condType (exposed_message owner)) c"
    and a: "ep_frame run a" "same_ep (er_ed run) (er_ed a)"
    using assms unfolding new_route_def Let_def
    by (auto simp: same_ep_def split: step.splits option.splits if_splits)
  note C = CreateRoute_Next [OF c] and S = CreateRoute_same [OF c]
  have "ep_frame run r" using a(1) C r by (auto intro: ep_frame_trans)
  moreover have "same_ep (er_ed run) (er_ed r)" using a(2) S r by (simp add: same_ep_trans)
  moreover have "route_for env svc (er_ed r) (er_log r)" using C r route_for_same [OF S] by simp
  moreover have "rd_TLS (ed_Route (er_ed c)) = rd_TLS (ed_Route (er_ed a))" using S by (simp add: same_ep_def)
  then have "\<exists>host. ed_EndpointURL (er_ed r) = proto (er_ed r) @ host" using C r by (auto simp: proto_def)
  ultimately show ?thesis by blast
qed

lemma ensureRoute_Next:
  assumes "ensureRoute L env condType owner uid svc run = Next r"
  shows "ep_frame run r \<and> same_ep (er_ed run) (er_ed r) \<and>
    (if rd_Create (ed_Route (er_ed run))
     then route_for env svc (er_ed r) (er_log r) \<and> (\<exists>host. ed_EndpointURL (er_ed r) = proto (er_ed r) @ host)
     else ed_EndpointURL (er_ed r) = ed_EndpointURL (er_ed run))"
proof -
  obtain a where a: "old_routes env svc run = Next a"
    and go: "(if rd_Create (ed_Route (er_ed a)) then new_route L env condType owner uid svc a
              else Next (upd_ecp (\<lambda>cs. lc_Remove L cs condType) a)) = Next r"
    using assms by (auto simp: ensureRoute_def step_bind_Next_iff)
  note O = old_routes_Next [OF a]
  have same: "rd_Create (ed_Route (er_ed a)) = rd_Create (ed_Route (er_ed run))" using O by (simp add: same_ep_def)
  show ?thesis
  proof (cases "rd_Create (ed_Route (er_ed run))")
    case True
    then have "new_route L env condType owner uid svc a = Next r" using go same by simp
    from new_route_Next [OF this] O True show ?thesis by (auto intro: ep_frame_trans same_ep_trans)
  qed (use go same O in auto)
qed

lemma public_route_Next:
  assumes "public_route L env ingress svc run = Next r"
  shows "ep_frame run r \<and> ed_Name (er_ed r) = ed_Name (er_ed run) \<and> ed_Type (er_ed r) = ed_Type (er_ed run)
    \<and> ed_TLS (er_ed r) = ed_TLS (er_ed run) \<and> ed_EndpointURL (er_ed r) = ed_EndpointURL (er_ed run)
    \<and> (rd_Create (ed_Route (er_ed r)) \<longleftrightarrow>
          gomap_get [] (ks_Annotations svc) (pe_IngressCreateKey env) = ''true'' \<and> ks_Type svc = pe_ClusterIP env)
    \<and> (rd_TLS (ed_Route (er_ed r)) \<longleftrightarrow> rd_TLS (ed_Route (er_ed run)) \<or> tl_IngressEnabled (pe_TLS env))"
  using assms by (auto simp: public_route_def Let_def split: if_splits option.splits)

text \<open>Where the certificate of an endpoint comes from: it was issued for the service, by the issuer of the endpoint and for the
  name of the service in the cluster, or it is the valid secret the user gave for a public endpoint without a route.\<close>

definition issued_for :: "ep_env \<Rightarrow> string \<Rightarrow> k8s_service \<Rightarrow> string \<Rightarrow> string \<Rightarrow> ep_action list \<Rightarrow> bool" where
  "issued_for env namespace svc ty name log \<longleftrightarrow>
     (\<exists>req s. IssueCert req \<in> set log \<and> pe_ensureCert env req = Inr (Some s) \<and> sec_Name s = name
        \<and> ec_CertName req = ks_Name svc @ ''-svc'' \<and> ks_Name svc @ ''.'' @ namespace @ ''.svc'' \<in> set (ec_Hostnames req)
        \<and> ec_IssuerName req = (if ty = EndpointPublic then GetPublicIssuer else GetInternalIssuer) (pe_DefaultCAPrefix env) (pe_TLS env))"

definition given_for :: "ep_env \<Rightarrow> ep_args \<Rightarrow> EndpointDetail \<Rightarrow> string \<Rightarrow> bool" where
  "given_for env a ed name \<longleftrightarrow>
     ed_Type ed = EndpointPublic \<and> \<not> rd_Create (ed_Route ed) \<and> ea_publicSecret a = Some name \<and> pe_validateCert env name = None"

lemma issued_for_mono: "issued_for env ns svc ty name log \<Longrightarrow> set log \<subseteq> set log' \<Longrightarrow> issued_for env ns svc ty name log'"
  unfolding issued_for_def by blast

definition cert_ok :: "ep_env \<Rightarrow> ep_args \<Rightarrow> string \<Rightarrow> k8s_service \<Rightarrow> EndpointDetail \<Rightarrow> ep_action list \<Rightarrow> bool" where
  "cert_ok env a namespace svc ed log \<longleftrightarrow>
     (xt_Enabled (ed_TLS ed) \<longrightarrow>
        (\<exists>name. xt_SecretName (ed_TLS ed) = Some name \<and> (issued_for env namespace svc (ed_Type ed) name log \<or> given_for env a ed name)))"

lemma cert_ok_mono: "cert_ok env a ns svc ed log \<Longrightarrow> set log \<subseteq> set log' \<Longrightarrow> cert_ok env a ns svc ed log'"
  unfolding cert_ok_def by (blast intro: issued_for_mono)

lemma svc_cert_Next:
  assumes "issue env (svc_cert env issuer cert ns svc ed) take_secret run = Next r" and "ed = er_ed run" and "ed_Name ed = ks_Name svc"
    and "xt_CertName (ed_TLS ed) = ks_Name svc @ ''-svc''"
    and "issuer = (if ed_Type ed = EndpointPublic then GetPublicIssuer else GetInternalIssuer) (pe_DefaultCAPrefix env) (pe_TLS env)"
  shows "ep_frame run r \<and> ed_Name (er_ed r) = ed_Name ed \<and> ed_Type (er_ed r) = ed_Type ed \<and> ed_Route (er_ed r) = ed_Route ed
    \<and> xt_Enabled (ed_TLS (er_ed r)) = xt_Enabled (ed_TLS ed) \<and> xt_CaBundleSecretName (ed_TLS (er_ed r)) = xt_CaBundleSecretName (ed_TLS ed)
    \<and> ed_EndpointURL (er_ed r) = ed_EndpointURL ed \<and> cert_ok env a ns svc (er_ed r) (er_log r)"
proof -
  obtain s where s: "pe_ensureCert env (svc_cert env issuer cert ns svc ed) = Inr (Some s)"
    and r: "take_secret s (act (IssueCert (svc_cert env issuer cert ns svc ed)) run) = Next r"
    using assms(1) by (rule issue_Next)
  have "issued_for env ns svc (ed_Type ed) (sec_Name s) (er_log run @ [IssueCert (svc_cert env issuer cert ns svc ed)])"
    unfolding issued_for_def using s assms(3-5)
    by (intro exI [of _ "svc_cert env issuer cert ns svc ed"] exI [of _ s]) (simp add: svc_cert_def)
  then show ?thesis using r assms(2) by (auto simp: take_secret_def set_secret_def cert_ok_def)
qed

lemma set_bundle_fields [simp]:
  "ep_frame run (set_bundle env r) \<longleftrightarrow> ep_frame run r" "er_log (set_bundle env r) = er_log r" "er_cp (set_bundle env r) = er_cp r"
  "er_ed (set_bundle env r) = (er_ed r)\<lparr>ed_TLS := (ed_TLS (er_ed r))\<lparr>xt_CaBundleSecretName := pe_CABundleSecret env\<rparr>\<rparr>"
  by (simp_all add: set_bundle_def)

definition after_cert :: "ep_env \<Rightarrow> ep_args \<Rightarrow> k8s_service \<Rightarrow> ep_run \<Rightarrow> ep_run \<Rightarrow> bool" where
  "after_cert env a svc run r \<longleftrightarrow>
     ep_frame run r \<and> ed_Name (er_ed r) = ed_Name (er_ed run) \<and> ed_Type (er_ed r) = ed_Type (er_ed run) \<and> ed_Route (er_ed r) = ed_Route (er_ed run)
     \<and> xt_Enabled (ed_TLS (er_ed r)) = xt_Enabled (ed_TLS (er_ed run)) \<and> ed_EndpointURL (er_ed r) = ed_EndpointURL (er_ed run)
     \<and> (xt_Enabled (ed_TLS (er_ed r)) \<longrightarrow> xt_CaBundleSecretName (ed_TLS (er_ed r)) = pe_CABundleSecret env)
     \<and> cert_ok env a (cp_Namespace (er_cp run)) svc (er_ed r) (er_log r)"

lemma cert_after_bundle:
  assumes "issue env (svc_cert env issuer cert (cp_Namespace (er_cp run)) svc (er_ed (set_bundle env run))) take_secret (set_bundle env run) = Next r"
    and "ed_Name (er_ed run) = ks_Name svc" and "xt_CertName (ed_TLS (er_ed run)) = ks_Name svc @ ''-svc''"
    and "issuer = (if ed_Type (er_ed run) = EndpointPublic then GetPublicIssuer else GetInternalIssuer) (pe_DefaultCAPrefix env) (pe_TLS env)"
  shows "after_cert env a svc run r"
  using svc_cert_Next [OF assms(1) refl, of a] assms(2-) ep_frame_trans [of run "set_bundle env run" r]
  by (simp add: after_cert_def)

lemma public_cert_Next:
  assumes run: "public_cert env (ea_publicSecret a) svc run = Next r" and name: "ed_Name (er_ed run) = ks_Name svc"
    and cert: "xt_Enabled (ed_TLS (er_ed run)) \<Longrightarrow> xt_CertName (ed_TLS (er_ed run)) = ks_Name svc @ ''-svc''"
    and ty: "ed_Type (er_ed run) = EndpointPublic"
  shows "after_cert env a svc run r"
proof (cases "xt_Enabled (ed_TLS (er_ed run))")
  case True
  show ?thesis
  proof (cases "\<not> rd_Create (ed_Route (er_ed run)) \<and> ea_publicSecret a \<noteq> None \<and> ea_publicSecret a \<noteq> Some []")
    case given: True
    then show ?thesis using run True ty
      by (auto simp: public_cert_def Let_def after_cert_def cert_ok_def given_for_def set_secret_def split: option.splits if_splits)
  next
    case False
    then have "issue env (svc_cert env (GetPublicIssuer (pe_DefaultCAPrefix env) (pe_TLS env)) (tl_IngressCert (pe_TLS env))
        (cp_Namespace (er_cp run)) svc (er_ed (set_bundle env run))) take_secret (set_bundle env run) = Next r"
      using run True by (auto simp: public_cert_def Let_def)
    then show ?thesis by (rule cert_after_bundle) (use name cert True ty in auto)
  qed
qed (use run in \<open>auto simp: public_cert_def after_cert_def cert_ok_def\<close>)

lemma internal_cert_Next:
  assumes run: "internal_cert env svc run = Next r" and name: "ed_Name (er_ed run) = ks_Name svc"
    and cert: "xt_Enabled (ed_TLS (er_ed run)) \<Longrightarrow> xt_CertName (ed_TLS (er_ed run)) = ks_Name svc @ ''-svc''"
    and ty: "ed_Type (er_ed run) \<noteq> EndpointPublic"
  shows "after_cert env a svc run r"
proof (cases "xt_Enabled (ed_TLS (er_ed run))")
  case True
  then have "issue env (svc_cert env (GetInternalIssuer (pe_DefaultCAPrefix env) (pe_TLS env)) (tl_InternalCert (pe_TLS env))
      (cp_Namespace (er_cp run)) svc (er_ed (set_bundle env run))) take_secret (set_bundle env run) = Next r"
    using run by (simp add: internal_cert_def Let_def)
  then show ?thesis by (rule cert_after_bundle) (use name cert True ty in auto)
qed (use run in \<open>auto simp: internal_cert_def after_cert_def cert_ok_def\<close>)

text \<open>What holds of an endpoint once it is stored.\<close>

abbreviation tls_on :: "ep_env \<Rightarrow> ep_args \<Rightarrow> bool" where
  "tls_on env a \<equiv> tl_PodLevelEnabled (pe_TLS env) \<and> \<not> ea_tlsDisabled a"

abbreviation to_expose :: "ep_env \<Rightarrow> k8s_service \<Rightarrow> bool" where
  "to_expose env svc \<equiv> gomap_get [] (ks_Annotations svc) (pe_IngressCreateKey env) = ''true'' \<and> ks_Type svc = pe_ClusterIP env"

definition exposed :: "ep_env \<Rightarrow> ep_args \<Rightarrow> k8s_service \<Rightarrow> EndpointDetail \<Rightarrow> ep_action list \<Rightarrow> bool" where
  "exposed env a svc ed log \<longleftrightarrow>
     (\<exists>p host. PatchRoute p \<in> set log \<and> rp_Name p = ks_Name svc \<and> rp_ServiceName p = ks_Name svc
        \<and> route_fits env (tl_IngressEnabled (pe_TLS env)) (tls_on env a) (pe_CABundleSecret env) p
        \<and> vo_EndpointURL (ed_Override ed) = Some ((if tl_IngressEnabled (pe_TLS env) then ''https://'' else ''http://'') @ host))"

lemma exposed_mono: "exposed env a svc ed log \<Longrightarrow> set log \<subseteq> set log' \<Longrightarrow> exposed env a svc ed log'"
  unfolding exposed_def by blast

definition ep_ok :: "ep_env \<Rightarrow> ep_args \<Rightarrow> string \<Rightarrow> k8s_service \<Rightarrow> EndpointDetail \<Rightarrow> ep_action list \<Rightarrow> bool" where
  "ep_ok env a ns svc ed log \<longleftrightarrow>
     ed_Name ed = ks_Name svc \<and> ed_Type ed = gomap_get [] (ks_Annotations svc) (pe_EndpointKey env)
     \<and> xt_Enabled (ed_TLS ed) = tls_on env a
     \<and> (ed_Type ed = EndpointPublic \<or> ed_Type ed = EndpointInternal \<longrightarrow> cert_ok env a ns svc ed log)
     \<and> (ed_Type ed = EndpointPublic \<longrightarrow> rd_Create (ed_Route ed) = to_expose env svc \<and> (to_expose env svc \<longrightarrow> exposed env a svc ed log))"

lemma ep_ok_mono: "ep_ok env a ns svc ed log \<Longrightarrow> set log \<subseteq> set log' \<Longrightarrow> ep_ok env a ns svc ed log'"
  unfolding ep_ok_def by (blast intro: cert_ok_mono exposed_mono)

lemma new_endpoint_fields [simp]:
  "ed_Name (new_endpoint env ov dis svc) = ks_Name svc"
  "ed_Type (new_endpoint env ov dis svc) = gomap_get [] (ks_Annotations svc) (pe_EndpointKey env)"
  "xt_Enabled (ed_TLS (new_endpoint env ov dis svc)) = (tl_PodLevelEnabled (pe_TLS env) \<and> \<not> dis)"
  "xt_Enabled (ed_TLS (new_endpoint env ov dis svc)) \<Longrightarrow> xt_CertName (ed_TLS (new_endpoint env ov dis svc)) = ks_Name svc @ ''-svc''"
  "\<not> rd_TLS (ed_Route (new_endpoint env ov dis svc))"
  by (simp_all add: new_endpoint_def no_route_def Let_def)

lemma route_for_exposed:
  assumes "route_for env svc ed log" and "ed_EndpointURL ed = proto ed @ host" and "cert_ok env a ns svc ed log"
    and "ed_Name ed = ks_Name svc" and "rd_TLS (ed_Route ed) = tl_IngressEnabled (pe_TLS env)" and "xt_Enabled (ed_TLS ed) = tls_on env a"
    and "xt_Enabled (ed_TLS ed) \<longrightarrow> xt_CaBundleSecretName (ed_TLS ed) = pe_CABundleSecret env"
    and "ov = (ed_Override ed)\<lparr>vo_EndpointURL := Some (ed_EndpointURL ed)\<rparr>"
  shows "exposed env a svc (ed\<lparr>ed_Override := ov\<rparr>) log"
proof -
  have re: "reencrypts ed = tls_on env a" using assms(3,6) by (auto simp: reencrypts_def cert_ok_def)
  obtain p where p: "PatchRoute p \<in> set log" "rp_Name p = ed_Name ed" "rp_ServiceName p = ks_Name svc"
      "route_fits env (rd_TLS (ed_Route ed)) (reencrypts ed) (xt_CaBundleSecretName (ed_TLS ed)) p"
    using assms(1) unfolding route_for_def by blast
  have "route_fits env (tl_IngressEnabled (pe_TLS env)) (tls_on env a) (pe_CABundleSecret env) p"
    using p(4) re assms(5-7) by (auto simp: route_fits_def split: option.splits if_splits)
  moreover have "vo_EndpointURL ov = Some ((if tl_IngressEnabled (pe_TLS env) then ''https://'' else ''http://'') @ host)"
    using assms(2,5,8) by (simp add: proto_def)
  ultimately show ?thesis using p(1-3) assms(4) unfolding exposed_def by auto
qed

text \<open>The endpoint before it is stored: all of its parts are in place but the URL in the override.\<close>

definition prepared :: "ep_env \<Rightarrow> ep_args \<Rightarrow> string \<Rightarrow> k8s_service \<Rightarrow> EndpointDetail \<Rightarrow> ep_action list \<Rightarrow> bool" where
  "prepared env a ns svc ed log \<longleftrightarrow>
     ed_Name ed = ks_Name svc \<and> ed_Type ed = gomap_get [] (ks_Annotations svc) (pe_EndpointKey env)
     \<and> xt_Enabled (ed_TLS ed) = tls_on env a
     \<and> (ed_Type ed = EndpointPublic \<or> ed_Type ed = EndpointInternal \<longrightarrow> cert_ok env a ns svc ed log)
     \<and> (ed_Type ed = EndpointPublic \<longrightarrow>
          rd_Create (ed_Route ed) = to_expose env svc \<and> rd_TLS (ed_Route ed) = tl_IngressEnabled (pe_TLS env)
          \<and> (xt_Enabled (ed_TLS ed) \<longrightarrow> xt_CaBundleSecretName (ed_TLS ed) = pe_CABundleSecret env)
          \<and> (to_expose env svc \<longrightarrow> route_for env svc ed log \<and> (\<exists>host. ed_EndpointURL ed = proto ed @ host)))"

lemma store_endpoint_Next:
  assumes "store_endpoint L condType owner run = Next r" and "prepared env a ns svc (er_ed run) (er_log run)"
  shows "\<exists>ed. ep_ok env a ns svc ed (er_log r) \<and> er_endpoints r = gomap_put (ed_Type ed) ed (er_endpoints run)
    \<and> cp_Namespace (er_cp r) = cp_Namespace (er_cp run) \<and> er_log r = er_log run"
proof (cases "ed_EndpointURL (er_ed run) = []")
  case True
  then have "\<not> (ed_Type (er_ed run) = EndpointPublic \<and> to_expose env svc)" using assms(2) by (auto simp: prepared_def proto_def)
  then have "ep_ok env a ns svc (er_ed run) (er_log run)" using assms(2) unfolding prepared_def ep_ok_def by blast
  moreover have "r = run\<lparr>er_endpoints := gomap_put (ed_Type (er_ed run)) (er_ed run) (er_endpoints run)\<rparr>"
    using assms(1) True by (simp add: store_endpoint_def)
  ultimately show ?thesis by (intro exI [of _ "er_ed run"]) simp
next
  case False
  let ?ed = "er_ed run"
  let ?ov = "(ed_Override ?ed)\<lparr>vo_EndpointURL := Some (ed_EndpointURL ?ed)\<rparr>"
  have same: "cert_ok env a ns svc (?ed\<lparr>ed_Override := ?ov\<rparr>) log = cert_ok env a ns svc ?ed log" for log
    by (simp add: cert_ok_def given_for_def)
  have "exposed env a svc (?ed\<lparr>ed_Override := ?ov\<rparr>) (er_log run)" if "ed_Type ?ed = EndpointPublic" "to_expose env svc"
    using assms(2) that unfolding prepared_def by (blast intro: route_for_exposed)
  then have "ep_ok env a ns svc (?ed\<lparr>ed_Override := ?ov\<rparr>) (er_log run)"
    using assms(2) same by (auto simp: prepared_def ep_ok_def)
  then show ?thesis using assms(1) False
    by (intro exI [of _ "?ed\<lparr>ed_Override := ?ov\<rparr>"]) (auto simp: store_endpoint_def Let_def upd_ecp_def upd_cp_conds_def upd_ed_def)
qed

lemma cert_ok_same: "same_ep ed ed' \<Longrightarrow> cert_ok env a ns svc ed' log = cert_ok env a ns svc ed log"
  by (simp add: same_ep_def cert_ok_def given_for_def)

lemma public_prepared:
  assumes run: "run_stages [public_route L env (ea_ingress a) svc, public_cert env (ea_publicSecret a) svc,
      ensureRoute L env condType owner uid svc] run = Next r"
    and ed: "er_ed run = new_endpoint env ov (ea_tlsDisabled a) svc" and ty: "ed_Type (er_ed run) = EndpointPublic"
  shows "ep_frame run r \<and> prepared env a (cp_Namespace (er_cp run)) svc (er_ed r) (er_log r)"
proof -
  obtain b c where b: "public_route L env (ea_ingress a) svc run = Next b" and c: "public_cert env (ea_publicSecret a) svc b = Next c"
    and r: "ensureRoute L env condType owner uid svc c = Next r"
    using run by (auto simp: step_bind_Next_iff)
  note B = public_route_Next [OF b]
  have ns: "cp_Namespace (er_cp b) = cp_Namespace (er_cp run)" using B by (simp add: ep_frame_def)
  have C: "after_cert env a svc b c" by (rule public_cert_Next [OF c]) (use B ed ty in \<open>auto\<close>)
  note R = ensureRoute_Next [OF r]
  have log: "set (er_log c) \<subseteq> set (er_log r)" and same: "same_ep (er_ed c) (er_ed r)" using R by (simp_all add: ep_frame_def)
  have "cert_ok env a (cp_Namespace (er_cp run)) svc (er_ed r) (er_log r)"
    using C ns cert_ok_mono [OF _ log] cert_ok_same [OF same] by (simp add: after_cert_def)
  moreover have "ep_frame run r" using B C R by (auto simp: after_cert_def intro: ep_frame_trans)
  ultimately show ?thesis using B C R ed same by (auto simp: prepared_def after_cert_def same_ep_def)
qed

lemma endpoint_stage_Next:
  assumes run: "endpoint_stage L env a svc run = Next r"
  shows "\<exists>ed. ep_ok env a (cp_Namespace (er_cp run)) svc ed (er_log r) \<and> er_endpoints r = gomap_put (ed_Type ed) ed (er_endpoints run)
    \<and> cp_Namespace (er_cp r) = cp_Namespace (er_cp run) \<and> set (er_log run) \<subseteq> set (er_log r)"
proof -
  define run0 where "run0 = run\<lparr>er_ed := new_endpoint env (ea_overrides a) (ea_tlsDisabled a) svc\<rparr>"
  have ed: "er_ed run0 = new_endpoint env (ea_overrides a) (ea_tlsDisabled a) svc" by (simp add: run0_def)
  let ?ns = "cp_Namespace (er_cp run0)"
  obtain b where b: "(if ed_Type (er_ed run0) = EndpointPublic
       then run_stages [public_route L env (ea_ingress a) svc, public_cert env (ea_publicSecret a) svc,
              ensureRoute L env (ea_condType a) (ea_owner a) (ea_ownerUID a) svc] run0
       else if ed_Type (er_ed run0) = EndpointInternal then internal_cert env svc run0 else Next run0) = Next b"
    and r: "store_endpoint L (ea_condType a) (ea_owner a) b = Next r"
    using run unfolding endpoint_stage_def Let_def run0_def [symmetric] by (auto simp: step_bind_Next_iff)
  have "ep_frame run0 b \<and> prepared env a ?ns svc (er_ed b) (er_log b)"
  proof (cases "ed_Type (er_ed run0) = EndpointPublic")
    case True
    show ?thesis by (rule public_prepared) (use b ed True in auto)
  next
    case pub: False
    show ?thesis
    proof (cases "ed_Type (er_ed run0) = EndpointInternal")
      case True
      have "after_cert env a svc run0 b" by (rule internal_cert_Next) (use b ed pub True in auto)
      then show ?thesis using pub ed by (auto simp: after_cert_def prepared_def)
    next
      case False
      then have "b = run0" using b pub by simp
      then show ?thesis using pub False ed by (auto simp: prepared_def)
    qed
  qed
  then show ?thesis using store_endpoint_Next [OF r, of env a ?ns svc] by (auto simp: ep_frame_def run0_def)
qed

definition all_ok :: "ep_env \<Rightarrow> ep_args \<Rightarrow> k8s_service list \<Rightarrow> string \<Rightarrow> ep_run \<Rightarrow> bool" where
  "all_ok env a svcs ns run \<longleftrightarrow> cp_Namespace (er_cp run) = ns
     \<and> (\<forall>ty ed. map_of (er_endpoints run) ty = Some ed \<longrightarrow> ed_Type ed = ty \<and> (\<exists>svc \<in> set svcs. ep_ok env a ns svc ed (er_log run)))"

lemma EnsureEndpointConfig_ok:
  assumes "EnsureEndpointConfig L env a svcs cp = Next run"
  shows "all_ok env a svcs (cp_Namespace cp) run"
  using assms unfolding EnsureEndpointConfig_def
proof (rule run_stages_Next_keeps)
  fix f x r
  assume "f \<in> set (map (endpoint_stage L env a) svcs)" and x: "all_ok env a svcs (cp_Namespace cp) x" and r: "f x = Next r"
  then obtain svc where svc: "svc \<in> set svcs" "endpoint_stage L env a svc x = Next r" by auto
  obtain ed where ed: "ep_ok env a (cp_Namespace (er_cp x)) svc ed (er_log r)" "er_endpoints r = gomap_put (ed_Type ed) ed (er_endpoints x)"
    "cp_Namespace (er_cp r) = cp_Namespace (er_cp x)" and log: "set (er_log x) \<subseteq> set (er_log r)"
    using endpoint_stage_Next [OF svc(2)] by blast
  have old: "ed_Type e = ty \<and> (\<exists>svc \<in> set svcs. ep_ok env a (cp_Namespace cp) svc e (er_log r))" if "map_of (er_endpoints x) ty = Some e" for ty e
    using x that ep_ok_mono [OF _ log] unfolding all_ok_def by blast
  have "cp_Namespace (er_cp x) = cp_Namespace cp" using x by (simp add: all_ok_def)
  then show "all_ok env a svcs (cp_Namespace cp) r"
    unfolding all_ok_def ed(2) gomap_simps using ed(1,3) svc(1) old by (auto simp: fun_upd_def split: if_splits)
qed (simp add: all_ok_def)

text \<open>C29: the endpoints that \<open>EnsureEndpointConfig\<close> hands to a service are secured as the control plane asks.  When it finishes, a
  public or internal endpoint is that of one of the services; with TLS on the pod level it has a secret, which cert-manager
  issued for the name of the service in the cluster by the issuer of the endpoint, or which the user gave for a public endpoint
  without a route and which is valid.  A public endpoint that is to be exposed has a route and a URL: \<open>https\<close> and a TLS route if
  the ingress has TLS, with encryption up to the pods, verified by the CA bundle, if the pods have TLS.
\<close>

theorem endpoints_secured:
  assumes run: "EnsureEndpointConfig L env a svcs cp = Next run" and ed: "map_of (er_endpoints run) ty = Some ed"
    and ty: "ty = EndpointPublic \<or> ty = EndpointInternal"
  shows "\<exists>svc. svc \<in> set svcs \<and> gomap_get [] (ks_Annotations svc) (pe_EndpointKey env) = ty
     \<and> (tls_on env a \<longrightarrow>
          (\<exists>name. GetEndptCertSecret (er_endpoints run) ty = Some name
             \<and> (issued_for env (cp_Namespace cp) svc ty name (er_log run) \<or> given_for env a ed name)))
     \<and> (ty = EndpointPublic \<and> to_expose env svc \<longrightarrow> exposed env a svc ed (er_log run))"
proof -
  obtain svc where "svc \<in> set svcs" and ok: "ed_Type ed = ty" "ep_ok env a (cp_Namespace cp) svc ed (er_log run)"
    using EnsureEndpointConfig_ok [OF run] ed unfolding all_ok_def by blast
  then show ?thesis using ty ed by (intro exI [of _ svc]) (auto simp: ep_ok_def cert_ok_def GetEndptCertSecret_def)
qed

text \<open>A public service with a route, TLS everywhere and an issuer that answers at once.\<close>

definition sample_ep_env :: ep_env where
  "sample_ep_env =
     \<lparr>pe_TLS = \<lparr>tl_IngressEnabled = True, tl_PodLevelEnabled = True, tl_IngressIssuer = None, tl_InternalIssuer = None, tl_OvnIssuer = None,
                tl_LibvirtIssuer = None, tl_IngressCert = \<lparr>cg_Duration = None, cg_RenewBefore = None\<rparr>,
                tl_InternalCert = \<lparr>cg_Duration = None, cg_RenewBefore = None\<rparr>\<rparr>,
      pe_DefaultCAPrefix = ''rootca-'', pe_CABundleSecret = ''combined-ca-bundle'', pe_InternalCABundleKey = ''internal-ca-bundle.pem'',
      pe_EndpointKey = ''endpoint'', pe_IngressCreateKey = ''core.openstack.org/ingress_create'', pe_TargetPortKey = ''port'',
      pe_ClusterIP = ''ClusterIP'', pe_clusterDomain = ''cluster.local'', pe_subjectNames = (\<lambda>_. []), pe_AddLabel = (\<lambda>_ ov. ov),
      pe_validateCert = (\<lambda>_. None), pe_deleteCert = (\<lambda>_. None),
      pe_ensureCert = (\<lambda>req. Inr (Some \<lparr>sec_Name = ec_CertName req, sec_Namespace = [], sec_Labels = [], sec_Data = []\<rparr>)),
      pe_listRoutes = (\<lambda>_. Inr []), pe_deleteRoute = (\<lambda>_. None), pe_newRoute = (\<lambda>_. None), pe_getRoute = (\<lambda>_. Inr ''keystone.apps''),
      pe_patchRoute = (\<lambda>_. Inr (Some ''keystone.apps'')), pe_getSecret = (\<lambda>n. Inl (NotFound n)),
      pe_getCABundle = (\<lambda>_ _. Inr (Some ''CA'')), pe_getIngress = (\<lambda>_. Inr [])\<rparr>"

definition sample_ep_args :: ep_args where
  "sample_ep_args = \<lparr>ea_owner = ''keystone'', ea_ownerUID = ''u'', ea_overrides = [], ea_ingress = \<lparr>ao_Route = None, ao_TLS = None\<rparr>,
     ea_condType = ''ExposeKeystone'', ea_tlsDisabled = False, ea_publicSecret = None\<rparr>"

definition sample_service :: k8s_service where
  "sample_service = \<lparr>ks_Name = ''keystone-public'', ks_Namespace = ''os'',
     ks_Annotations = [(''endpoint'', ''public''), (''core.openstack.org/ingress_create'', ''true'')], ks_Labels = [], ks_Type = ''ClusterIP''\<rparr>"

lemmas sample_ep_defs = sample_ep_env_def sample_ep_args_def sample_service_def

lemma sample_endpoints:
  "(case EnsureEndpointConfig list_condlib sample_ep_env sample_ep_args [sample_service] (sample_plane False None) of
      Next run \<Rightarrow> map_of (er_endpoints run) EndpointPublic \<noteq> None | _ \<Rightarrow> False)"
  by code_simp

theorem endpoints_secured_witness:
  "\<exists>run ed svc. EnsureEndpointConfig list_condlib sample_ep_env sample_ep_args [sample_service] (sample_plane False None) = Next run
     \<and> map_of (er_endpoints run) EndpointPublic = Some ed \<and> exposed sample_ep_env sample_ep_args svc ed (er_log run)
     \<and> (\<exists>name. GetEndptCertSecret (er_endpoints run) EndpointPublic = Some name)"
proof -
  obtain run ed where r: "EnsureEndpointConfig list_condlib sample_ep_env sample_ep_args [sample_service] (sample_plane False None) = Next run"
      "map_of (er_endpoints run) EndpointPublic = Some ed"
    using sample_endpoints by (auto split: step.splits)
  have "tls_on sample_ep_env sample_ep_args" "to_expose sample_ep_env sample_service" by (simp_all add: sample_ep_defs gomap_get_def)
  then show ?thesis using endpoints_secured [OF r] r by auto
qed

text \<open>
  A user who brings a certificate for a public endpoint without a route: the certificate that is deleted is the one of the route,
  whose name ends in \<open>-route\<close>, although the comment speaks of the issued certificate, whose name ends in \<open>-svc\<close>.
\<close>

lemma given_secret_drops_route_cert:
  assumes "public_cert env (Some name) svc run = Next r" and "name \<noteq> []" and "xt_Enabled (ed_TLS (er_ed run))"
    and "\<not> rd_Create (ed_Route (er_ed run))"
  shows "er_log r = er_log run @ [DropCert (rd_CertName (ed_Route (er_ed run)))]"
  using assms by (auto simp: public_cert_def Let_def split: option.splits if_splits)

text \<open>One route to a service that is gone and one that still has its service.\<close>

definition sample_orphans :: orphan_env where
  "sample_orphans =
     \<lparr>cu_routes = Inr [\<lparr>rt_Name = ''nova'', rt_To = ''nova-public'', rt_Controller = None, rt_Owners = [''u''], rt_Deleting = False\<rparr>,
                       \<lparr>rt_Name = ''glance'', rt_To = ''glance-public'', rt_Controller = None, rt_Owners = [''u''], rt_Deleting = False\<rparr>],
      cu_certs = Inr [\<lparr>ct_Name = ''nova-svc'', ct_Labels = [(ServiceCertSelector, [])], ct_CommonName = [], ct_Owners = [''u'']\<rparr>],
      cu_services = Inr [\<lparr>ks_Name = ''glance-public'', ks_Namespace = ''os'', ks_Annotations = [], ks_Labels = [], ks_Type = []\<rparr>],
      cu_deleteCert = (\<lambda>_. Some (OtherError ''denied'')), cu_getRoute = (\<lambda>_. Inr False), cu_deleteRoute = (\<lambda>_. None)\<rparr>"

theorem cleanup_deletes_orphans_witness:
  "\<exists>log err. DeleteCertsAndRoutes sample_orphans (sample_plane False None) = (log, err)
     \<and> DropRoute ''nova'' \<in> set log \<and> DropRoute ''glance'' \<notin> set log \<and> DropCert ''nova-svc'' \<in> set log \<and> err \<noteq> None"
proof -
  obtain log err where run: "DeleteCertsAndRoutes sample_orphans (sample_plane False None) = (log, err)" by fastforce
  have uid: "cp_UID (sample_plane False None) = ''u''" by (simp add: sample_plane_def)
  obtain routes certs services where lists: "cu_routes sample_orphans = Inr routes" "cu_certs sample_orphans = Inr certs"
      "cu_services sample_orphans = Inr services" by (simp add: sample_orphans_def)
  have contains: "str_contains ''nova'' ''nova-svc''" by code_simp
  note * = cleanup_deletes_orphans [OF lists run]
  have "DropRoute ''nova'' \<in> set log" using * [of "''nova''"] lists by (auto simp: sample_orphans_def orphaned_def uid)
  moreover have "DropRoute ''glance'' \<notin> set log" using * [of "''glance''"] lists by (auto simp: sample_orphans_def orphaned_def uid)
  moreover have "DropCert ''nova-svc'' \<in> set log" "err \<noteq> None"
    using * [of "''nova-svc''"] lists contains by (auto simp: sample_orphans_def orphaned_def cert_matches_def uid)
  ultimately show ?thesis using run by blast
qed

end
