(* ===== verification/CA_Laws.thy ===== *)
theory CA_Laws
  imports CA_Bundles Endpoint_Laws
begin

text \<open>
  Laws of \<open>CA_Bundles\<close>: what is in the bundle of trusted certificates, that writing it is stable, and which issuers carry the label
  of a CA.
\<close>

subsection \<open>Reading certificates\<close>

definition add_cert :: "caCert \<Rightarrow> caBundle \<Rightarrow> caBundle" where
  "add_cert k certs = (if k_hash k \<in> k_hash ` set certs then certs else certs @ [k])"

definition pem_certs :: "ca_env \<Rightarrow> string \<Rightarrow> caBundle" where
  "pem_certs env d = fst (getCertsFromPEM env (Some d) [])"

definition block_certs :: "ca_env \<Rightarrow> pem_block \<Rightarrow> caBundle" where
  "block_certs env b = (case read_block env b [] of Inl _ \<Rightarrow> [] | Inr certs \<Rightarrow> certs)"

lemma read_block_add:
  "read_block env b certs = (case read_block env b [] of Inl e \<Rightarrow> Inl e | Inr new \<Rightarrow> Inr (fold add_cert new certs))"
  by (auto simp: read_block_def add_cert_def list_ex_iff split: sum.splits)

lemma hashes_add [simp]: "k_hash ` set (fold add_cert ks certs) = k_hash ` set ks \<union> k_hash ` set certs"
  by (induction ks arbitrary: certs) (auto simp: add_cert_def)

lemma add_known: "k_hash ` set ks \<subseteq> k_hash ` set certs \<Longrightarrow> fold add_cert ks certs = certs"
  by (induction ks) (auto simp: add_cert_def)

lemma add_certs_mem: "k \<in> set (fold add_cert ks certs) \<Longrightarrow> k \<in> set ks \<or> k \<in> set certs"
  by (induction ks arbitrary: certs) (fastforce simp: add_cert_def split: if_splits)+

lemma add_certs_distinct: "distinct (map k_hash certs) \<Longrightarrow> distinct (map k_hash (fold add_cert ks certs))"
  by (induction ks arbitrary: certs) (auto simp: add_cert_def)

lemma add_certs_new:
  "distinct (map k_hash ks) \<Longrightarrow> k_hash ` set ks \<inter> k_hash ` set certs = {} \<Longrightarrow> fold add_cert ks certs = certs @ ks"
proof (induction ks arbitrary: certs)
  case (Cons k ks)
  have "k_hash k \<notin> k_hash ` set certs" using Cons.prems(2) by auto
  moreover have "k_hash ` set ks \<inter> k_hash ` set (certs @ [k]) = {}" using Cons.prems by auto
  ultimately show ?case using Cons.IH [of "certs @ [k]"] Cons.prems(1) by (simp add: add_cert_def)
qed simp

lemma add_certs_add: "fold add_cert (fold add_cert ks ls) certs = fold add_cert ks (fold add_cert ls certs)"
proof (induction ks arbitrary: ls)
  case (Cons k ks)
  have "fold add_cert (add_cert k ls) certs = add_cert k (fold add_cert ls certs)"
    by (auto simp: add_cert_def)
  then show ?case using Cons [of "add_cert k ls"] by simp
qed simp

lemma read_blocks_add:
  "read_blocks env bs certs = (fold add_cert (fst (read_blocks env bs [])) certs, snd (read_blocks env bs []))"
proof (induction bs arbitrary: certs)
  case (Cons b bs)
  show ?case
  proof (cases "read_block env b []")
    case (Inr new)
    have c: "read_block env b certs = Inr (fold add_cert new certs)" using read_block_add [of env b certs] Inr by simp
    have n: "fold add_cert (fold add_cert (fst (read_blocks env bs [])) new) certs
        = fold add_cert (fst (read_blocks env bs [])) (fold add_cert new certs)" by (rule add_certs_add)
    show ?thesis using c Inr n Cons [of "fold add_cert new certs"] Cons [of new] by simp
  qed (use read_block_add [of env b certs] in simp)
qed simp

lemma getCerts_add: "getCertsFromPEM env (Some d) certs = (fold add_cert (pem_certs env d) certs, snd (getCertsFromPEM env (Some d) []))"
  using read_blocks_add [of env "ka_blocks env d" certs] by (simp add: getCertsFromPEM_def pem_certs_def)

lemma getCerts_fst: "fst (getCertsFromPEM env (Some d) certs) = fold add_cert (pem_certs env d) certs"
  by (subst getCerts_add) simp

text \<open>What is in a text by its blocks alone.  A block is sound if it is a certificate without headers that can be parsed, and a
  certificate counts until thirty seconds before it expires.  A text contributes the certificates before its first block that is
  not sound.\<close>

definition fresh_cert :: "ca_env \<Rightarrow> x509 \<Rightarrow> bool" where
  "fresh_cert env c \<longleftrightarrow> 30 * 10 ^ 9 \<le> x5_NotAfter c - ka_now env"

definition sound_block :: "ca_env \<Rightarrow> pem_block \<Rightarrow> bool" where
  "sound_block env b \<longleftrightarrow> pb_Type b = ''CERTIFICATE'' \<and> pb_Headers b = []
     \<and> (case ka_parse env (pb_Bytes b) of Inl _ \<Rightarrow> False | Inr c \<Rightarrow> \<not> fresh_cert env c \<or> \<not> isl (ka_hash env (pb_Bytes b)))"

definition whole :: "ca_env \<Rightarrow> string \<Rightarrow> bool" where
  "whole env d \<longleftrightarrow> list_all (sound_block env) (ka_blocks env d)"

definition cert_of_block :: "ca_env \<Rightarrow> pem_block \<Rightarrow> caCert \<Rightarrow> bool" where
  "cert_of_block env b k \<longleftrightarrow> ka_parse env (pb_Bytes b) = Inr (k_cert k) \<and> fresh_cert env (k_cert k)
     \<and> ka_hash env (pb_Bytes b) = Inr (k_hash k) \<and> k_expire k = x5_NotAfter (k_cert k)"

definition certs_in :: "ca_env \<Rightarrow> string \<Rightarrow> caCert set" where
  "certs_in env d = {k. \<exists>b \<in> set (takeWhile (sound_block env) (ka_blocks env d)). cert_of_block env b k}"

lemma ca_expired_iff: "ca_expired (ka_now env) c \<longleftrightarrow> \<not> fresh_cert env c"
proof -
  have round: "- (sgn d * ((2 * \<bar>d\<bar> + minute) div (2 * minute))) \<le> 0 \<longleftrightarrow> \<not> d \<le> - (30 * 10 ^ 9)" for d :: int
  proof (cases "0 \<le> d")
    case True
    then have "0 \<le> (2 * \<bar>d\<bar> + minute) div (2 * minute)" by (simp add: minute_def pos_imp_zdiv_nonneg_iff)
    then show ?thesis using True by (cases "d = 0") (simp_all add: sgn_if)
  next
    case False
    then have "- (sgn d * ((2 * \<bar>d\<bar> + minute) div (2 * minute))) = (minute - 2 * d) div (2 * minute)" by (simp add: sgn_if)
    moreover have "0 < (minute - 2 * d) div (2 * minute) \<longleftrightarrow> 2 * minute \<le> minute - 2 * d"
      by (rule pos_imp_zdiv_pos_iff) (simp add: minute_def)
    ultimately show ?thesis by (auto simp: minute_def not_less [symmetric])
  qed
  show ?thesis unfolding ca_expired_def minutes_def Let_def round by (auto simp: since_def fresh_cert_def)
qed

lemma read_block_sound: "sound_block env b \<longleftrightarrow> (\<exists>certs'. read_block env b certs = Inr certs')"
  by (auto simp: read_block_def sound_block_def ca_expired_iff isl_def split: sum.splits)

lemma read_block_hashes:
  "read_block env b certs = Inr certs' \<Longrightarrow> k_hash ` set certs' = k_hash ` {k. cert_of_block env b k} \<union> k_hash ` set certs"
proof -
  assume r: "read_block env b certs = Inr certs'"
  then obtain c where c: "ka_parse env (pb_Bytes b) = Inr c" by (auto simp: read_block_def split: if_splits sum.splits)
  show ?thesis
  proof (cases "fresh_cert env c")
    case True
    then obtain h where h: "ka_hash env (pb_Bytes b) = Inr h" using r c by (auto simp: read_block_def ca_expired_iff split: if_splits sum.splits)
    have "{k. cert_of_block env b k} = {\<lparr>k_hash = h, k_cert = c, k_expire = x5_NotAfter c\<rparr>}"
      using c h True by (auto simp: cert_of_block_def)
    then show ?thesis using r c h True by (auto simp: read_block_def ca_expired_iff list_ex_iff split: if_splits)
  next
    case False
    then have "{k. cert_of_block env b k} = {}" using c by (auto simp: cert_of_block_def)
    then show ?thesis using r c False by (simp add: read_block_def ca_expired_iff split: if_splits)
  qed
qed

lemma read_blocks_hashes:
  "k_hash ` set (fst (read_blocks env bs certs))
    = k_hash ` {k. \<exists>b \<in> set (takeWhile (sound_block env) bs). cert_of_block env b k} \<union> k_hash ` set certs"
proof (induction bs arbitrary: certs)
  case (Cons b bs)
  show ?case
  proof (cases "read_block env b certs")
    case (Inl e)
    then have "\<not> sound_block env b" using read_block_sound [of env b certs] by simp
    then show ?thesis using Inl by simp
  next
    case (Inr certs')
    then have "sound_block env b" using read_block_sound [of env b certs] by simp
    moreover have "{k. \<exists>b \<in> set (b # bs'). cert_of_block env b k} = {k. cert_of_block env b k} \<union> {k. \<exists>b \<in> set bs'. cert_of_block env b k}" for bs' by auto
    ultimately show ?thesis using Inr Cons.IH [of certs'] read_block_hashes [OF Inr] by (simp add: image_Un Un_ac)
  qed
qed simp

lemma pem_certs_hashes: "k_hash ` set (pem_certs env d) = k_hash ` certs_in env d"
  using read_blocks_hashes [of env "ka_blocks env d" "[]"] by (simp add: pem_certs_def getCertsFromPEM_def certs_in_def)

lemma getCerts_whole: "snd (getCertsFromPEM env (Some d) certs) = None \<Longrightarrow> whole env d"
proof -
  have "snd (read_blocks env bs certs) = None \<Longrightarrow> list_all (sound_block env) bs" for bs
  proof (induction bs arbitrary: certs)
    case (Cons b bs)
    then obtain certs' where "read_block env b certs = Inr certs'" "snd (read_blocks env bs certs') = None" by (auto split: sum.splits)
    then show ?case using Cons.IH read_block_sound [of env b certs] by simp
  qed simp
  then show "snd (getCertsFromPEM env (Some d) certs) = None \<Longrightarrow> whole env d" by (simp add: getCertsFromPEM_def whole_def)
qed

lemma read_all_whole: "read_all env d run = Next r \<Longrightarrow> whole env d"
  by (rule getCerts_whole [of _ _ "ca_bundle run"]) (auto simp: read_all_def split: prod.splits option.splits)

lemma read_only_whole: "read_only env d run = Next r \<Longrightarrow> whole env d"
  by (rule getCerts_whole [of _ _ "ca_only run"]) (auto simp: read_only_def split: prod.splits option.splits)

text \<open>A text that is read to its end and has a certificate.\<close>

definition usable :: "ca_env \<Rightarrow> string \<Rightarrow> bool" where
  "usable env d \<longleftrightarrow> pem_certs env d \<noteq> [] \<and> whole env d"

lemma read_all_Next: "read_all env d run = Next r \<Longrightarrow> r = run\<lparr>ca_bundle := fold add_cert (pem_certs env d) (ca_bundle run)\<rparr>"
  unfolding read_all_def getCerts_add [of env d "ca_bundle run"] by (auto split: option.splits)

lemma read_only_Next: "read_only env d run = Next r \<Longrightarrow> r = run\<lparr>ca_only := fold add_cert (pem_certs env d) (ca_only run)\<rparr>"
  unfolding read_only_def getCerts_add [of env d "ca_only run"] by (auto split: option.splits)

lemma read_both:
  "read_all env d run = Next r \<Longrightarrow> whole env d \<and> r = run\<lparr>ca_bundle := fold add_cert (pem_certs env d) (ca_bundle run)\<rparr>"
  "read_only env d run = Next r \<Longrightarrow> whole env d \<and> r = run\<lparr>ca_only := fold add_cert (pem_certs env d) (ca_only run)\<rparr>"
  using read_all_whole read_all_Next read_only_whole read_only_Next by blast+

subsection \<open>Where the certificates come from\<close>

definition ca_secret :: "ca_env \<Rightarrow> ca_kind \<Rightarrow> string" where
  "ca_secret env k =
     (case cc_CustomIssuer (cx_Ca (ka_section env k)) of
        None \<Rightarrow> ca_name env k
      | Some i \<Rightarrow> if i = [] then ca_name env k else the (ka_caSecret env i))"

definition ca_pem :: "ca_env \<Rightarrow> ca_kind \<Rightarrow> string" where
  "ca_pem env k = (case ka_getCA env (ca_secret env k) of Inr (Some d) \<Rightarrow> d | _ \<Rightarrow> [])"

definition stored_pem :: "ca_env \<Rightarrow> string \<Rightarrow> string list" where
  "stored_pem env key =
     (case ka_getSecret env (ka_CABundleSecret env) of
        Inl _ \<Rightarrow> []
      | Inr s \<Rightarrow> (case map_of (sec_Data s) key of None \<Rightarrow> [] | Some d \<Rightarrow> [d]))"

definition user_pems :: "ca_env \<Rightarrow> string list" where
  "user_pems env =
     (if ka_userBundle env = [] then []
      else (case ka_getSecret env (ka_userBundle env) of Inl _ \<Rightarrow> [] | Inr s \<Rightarrow> map snd (sec_Data s)))"

definition mirror_pems :: "ca_env \<Rightarrow> string list" where
  "mirror_pems env =
     (case GetMirrorRegistryCACerts (ka_registry env) of Inl _ \<Rightarrow> [] | Inr certs \<Rightarrow> map (gomap_get [] certs) (sort (map fst certs)))"

definition operator_pem :: "ca_env \<Rightarrow> string" where
  "operator_pem env =
     (case ka_file env (ka_DownstreamPath env) of
        Inr s \<Rightarrow> s
      | Inl e \<Rightarrow> (case ka_file env (ka_UpstreamPath env) of Inr s \<Rightarrow> s | Inl _ \<Rightarrow> []))"

definition ca_sources :: "ca_env \<Rightarrow> string list" where
  "ca_sources env = map (ca_pem env) ca_kinds"

definition trust_sources :: "ca_env \<Rightarrow> string list" where
  "trust_sources env = ca_sources env @ user_pems env @ mirror_pems env @ [operator_pem env]"

text \<open>The certificates of a list of texts added to a bundle, in order.\<close>

definition gather :: "ca_env \<Rightarrow> string list \<Rightarrow> caBundle \<Rightarrow> caBundle" where
  "gather env ds certs = fold (\<lambda>d. fold add_cert (pem_certs env d)) ds certs"

lemma gather_simps [simp]:
  "gather env [] certs = certs" "gather env (d # ds) certs = gather env ds (fold add_cert (pem_certs env d) certs)"
  "gather env (ds @ es) certs = gather env es (gather env ds certs)"
  by (simp_all add: gather_def)

lemma gather_concat: "gather env ds certs = fold add_cert (concat (map (pem_certs env) ds)) certs"
  by (induction ds arbitrary: certs) simp_all

subsection \<open>The stages\<close>

definition bundles_grow :: "string list \<Rightarrow> string list \<Rightarrow> ca_env \<Rightarrow> ca_run \<Rightarrow> ca_run \<Rightarrow> bool" where
  "bundles_grow ds es env run r \<longleftrightarrow> ca_bundle r = gather env ds (ca_bundle run) \<and> ca_only r = gather env es (ca_only run)"

lemma bundles_grow_refl [simp]: "bundles_grow [] [] env run run"
  by (simp add: bundles_grow_def)

lemma bundles_grow_trans:
  "bundles_grow ds es env a b \<Longrightarrow> bundles_grow ds' es' env b c \<Longrightarrow> bundles_grow (ds @ ds') (es @ es') env a c"
  by (simp add: bundles_grow_def)

lemma ca_fields [simp]:
  "ca_bundle (ca_log_act a run) = ca_bundle run" "ca_only (ca_log_act a run) = ca_only run" "ca_issuers (ca_log_act a run) = ca_issuers run"
  "ca_log (ca_log_act a run) = ca_log run @ [a]"
  "ca_bundle (ca_upd_conds f run) = ca_bundle run" "ca_only (ca_upd_conds f run) = ca_only run"
  "ca_issuers (ca_upd_conds f run) = ca_issuers run" "ca_log (ca_upd_conds f run) = ca_log run"
  by (simp_all add: ca_log_act_def ca_upd_conds_def)

lemma ca_come_back_not_Next [simp]: "ca_come_back run \<noteq> Next r"
  by (simp add: ca_come_back_def)

lemma ca_ensured_Next: "ca_ensured L kind name out run = Next r \<Longrightarrow> r = run"
  by (auto simp: ca_ensured_def split: sum.splits if_splits)

lemma patchIssuer_grow: "patchIssuer env before i run = Next r \<Longrightarrow> bundles_grow [] [] env run r"
  by (auto simp: patchIssuer_def bundles_grow_def Let_def split: option.splits if_splits)

lemma removeIssuerLabel_grow:
  assumes "removeIssuerLabel env name labels run = Next r"
  shows "bundles_grow [] [] env run r"
proof (cases "labels = []")
  case False
  then have "run_stages (map (remove_label_from env name labels) (filter (selected_by labels) (ca_issuers run))) run = Next r"
    using assms by (auto simp: removeIssuerLabel_def split: option.splits)
  then show ?thesis
  proof (rule run_stages_Next_keeps)
    fix f a b
    assume "f \<in> set (map (remove_label_from env name labels) (filter (selected_by labels) (ca_issuers run)))"
      and g: "bundles_grow [] [] env run a" and n: "f a = Next b"
    then obtain i where "remove_label_from env name labels i a = Next b" by auto
    then have "bundles_grow [] [] env a b" by (auto simp: remove_label_from_def split: if_splits dest: patchIssuer_grow)
    then show "bundles_grow [] [] env run b" using bundles_grow_trans [OF g] by simp
  qed simp
qed (use assms in \<open>simp add: removeIssuerLabel_def\<close>)

lemma ensureCaBundles_grow:
  assumes "ensureCaBundles env n d run = Next r"
  shows "bundles_grow [d] [d] env run r \<and> usable env d \<and> ca_issuers r = ca_issuers run"
proof -
  obtain a b where a: "read_all env d run = Next a" and b: "read_only env d a = Next b" and c: "ca_status env n d b = Next r"
    using assms by (auto simp: ensureCaBundles_def step_bind_Next_iff)
  have "pem_certs env d \<noteq> []" and "ca_bundle r = ca_bundle b" "ca_only r = ca_only b" "ca_issuers r = ca_issuers b"
    using c by (auto simp: ca_status_def pem_certs_def split: prod.splits option.splits list.splits)
  then show ?thesis using read_all_Next [OF a] read_only_Next [OF b] read_all_whole [OF a] by (simp add: bundles_grow_def usable_def)
qed

lemma getCAFromSecret_Next:
  assumes "getCAFromSecret L env s go run = Next r"
  obtains d where "ka_getCA env s = Inr (Some d)" and "go d run = Next r"
  using assms by (auto simp: getCAFromSecret_def split: sum.splits option.splits)

lemma IsCustomIssuer_iff: "IsCustomIssuer p \<longleftrightarrow> (\<exists>n. p = Some n \<and> n \<noteq> [])"
  by (auto simp: IsCustomIssuer_def split: option.splits)

text \<open>A custom issuer gets its labels, then its certificate is read.\<close>

lemma customCA_Next:
  assumes "customCA L env issuer labels annotations run = Next r"
  obtains s a d where "addIssuerLabelAnnotation env issuer labels annotations run = (s, Next a)" "ka_getCA env s = Inr (Some d)"
    "ensureCaBundles env issuer d a = Next r"
  using assms by (auto simp: customCA_def Let_def split: prod.splits step.splits option.splits if_splits elim!: getCAFromSecret_Next)

lemma addIssuer_Next:
  assumes "addIssuerLabelAnnotation env name labels annotations run = (s, Next r)"
  obtains a i where "removeIssuerLabel env name labels run = Next a" "get_issuer env name a = Inr i" "ka_caSecret env name = Some s"
    "patchIssuer env i (i\<lparr>kis_Labels := ka_merge env (ka_merge env (kis_Labels i) labels) (ka_restoreLabels env),
        kis_Annotations := ka_merge env (kis_Annotations i) annotations\<rparr>) a = Next r"
  using assms by (auto simp: addIssuerLabelAnnotation_def split: step.splits sum.splits option.splits)

lemma ensureRootCA_Next:
  assumes "ensureRootCA L env n labels annotations cfg run = Next r"
  obtains a b d where "root_cert_stage L env n cfg run = Next a" "ca_issuer_stage L env n labels annotations a = Next b"
    "ka_getCA env n = Inr (Some d)" "ensureCaBundles env n d b = Next r"
  using assms by (auto simp: ensureRootCA_def step_bind_Next_iff elim!: getCAFromSecret_Next)

lemma ca_stage_grow:
  assumes "ca_stage L env k run = Next r"
  shows "bundles_grow [ca_pem env k] [ca_pem env k] env run r \<and> usable env (ca_pem env k)"
proof (cases "IsCustomIssuer (cc_CustomIssuer (cx_Ca (ka_section env k)))")
  case True
  then obtain i where i: "cc_CustomIssuer (cx_Ca (ka_section env k)) = Some i" "i \<noteq> []" by (auto simp: IsCustomIssuer_iff)
  then have "customCA L env i [(ka_label env k, [])] (getIssuerAnnotations env (cx_Cert (ka_section env k))) run = Next r"
    using assms True by (simp add: ca_stage_def)
  then obtain s a d where a: "addIssuerLabelAnnotation env i [(ka_label env k, [])] (getIssuerAnnotations env (cx_Cert (ka_section env k))) run = (s, Next a)"
    and d: "ka_getCA env s = Inr (Some d)" "ensureCaBundles env i d a = Next r" by (rule customCA_Next)
  from a obtain b j where b: "removeIssuerLabel env i [(ka_label env k, [])] run = Next b" "ka_caSecret env i = Some s"
    and p: "patchIssuer env j (j\<lparr>kis_Labels := ka_merge env (ka_merge env (kis_Labels j) [(ka_label env k, [])]) (ka_restoreLabels env),
        kis_Annotations := ka_merge env (kis_Annotations j) (getIssuerAnnotations env (cx_Cert (ka_section env k)))\<rparr>) b = Next a"
    by (rule addIssuer_Next)
  have "bundles_grow [] [] env run a" using bundles_grow_trans [OF removeIssuerLabel_grow [OF b(1)] patchIssuer_grow [OF p]] by simp
  moreover have "ca_pem env k = d" using i b(2) d(1) by (simp add: ca_pem_def ca_secret_def)
  ultimately show ?thesis using ensureCaBundles_grow [OF d(2)] bundles_grow_trans by fastforce
next
  case False
  then obtain a where a: "removeIssuerLabel env (ca_name env k) [(ka_label env k, [])] run = Next a"
    and e: "ensureRootCA L env (ca_name env k) [(ka_label env k, [])] (getIssuerAnnotations env (cx_Cert (ka_section env k)))
      (cx_Ca (ka_section env k)) a = Next r"
    using assms by (auto simp: ca_stage_def Let_def step_bind_Next_iff)
  from e obtain b c d where b: "root_cert_stage L env (ca_name env k) (cx_Ca (ka_section env k)) a = Next b"
    and c: "ca_issuer_stage L env (ca_name env k) [(ka_label env k, [])] (getIssuerAnnotations env (cx_Cert (ka_section env k))) b = Next c"
    and d: "ka_getCA env (ca_name env k) = Inr (Some d)" "ensureCaBundles env (ca_name env k) d c = Next r" by (rule ensureRootCA_Next)
  have "bundles_grow [] [] env a c" using b c
    by (auto simp: root_cert_stage_def ca_issuer_stage_def bundles_grow_def Let_def dest!: ca_ensured_Next split: prod.splits)
  then have "bundles_grow [] [] env run c" using bundles_grow_trans [OF removeIssuerLabel_grow [OF a]] by simp
  moreover have "ca_secret env k = ca_name env k"
    using False by (auto simp: ca_secret_def IsCustomIssuer_def split: option.splits)
  then have "ca_pem env k = d" using d(1) by (simp add: ca_pem_def)
  ultimately show ?thesis using ensureCaBundles_grow [OF d(2)] bundles_grow_trans by fastforce
qed

lemma read_list_grow: "run_stages (map (read_all env) ds) run = Next r \<Longrightarrow> bundles_grow ds [] env run r \<and> (\<forall>d \<in> set ds. whole env d)"
proof (induction ds arbitrary: run)
  case (Cons d ds)
  then obtain a where a: "read_all env d run = Next a" "run_stages (map (read_all env) ds) a = Next r" by (auto simp: step_bind_Next_iff)
  show ?case using Cons.IH [OF a(2)] read_all_Next [OF a(1)] read_all_whole [OF a(1)] by (simp add: bundles_grow_def)
qed simp

lemma user_bundle_grow:
  assumes "user_bundle L env run = Next r"
  shows "bundles_grow (user_pems env) [] env run r \<and> (\<forall>d \<in> set (user_pems env). whole env d)"
proof (cases "ka_userBundle env = []")
  case False
  then obtain s where s: "ka_getSecret env (ka_userBundle env) = Inr s"
    and "run_stages (map (\<lambda>(_, d). read_all env d) (sec_Data s)) run = Next r"
    using assms by (auto simp: user_bundle_def Let_def split: sum.splits if_splits)
  moreover have "map (\<lambda>(_, d). read_all env d) (sec_Data s) = map (read_all env) (map snd (sec_Data s))" by auto
  ultimately have "bundles_grow (map snd (sec_Data s)) [] env run r \<and> (\<forall>d \<in> set (map snd (sec_Data s)). whole env d)"
    using read_list_grow by metis
  then show ?thesis using s False by (simp add: user_pems_def)
qed (use assms in \<open>simp add: user_bundle_def user_pems_def\<close>)

lemma mirror_bundle_grow:
  assumes "mirror_bundle L env run = Next r"
  shows "bundles_grow (mirror_pems env) [] env run r"
proof -
  have "fold (\<lambda>h b. fst (getCertsFromPEM env (Some (gomap_get [] certs h)) b)) hs b = gather env (map (gomap_get [] certs) hs) b" for certs hs b
    by (induction hs arbitrary: b) (simp_all add: getCerts_fst)
  then show ?thesis using assms by (auto simp: mirror_bundle_def mirror_pems_def bundles_grow_def split: sum.splits)
qed

lemma operator_bundle_grow:
  assumes "operator_bundle env run = Next r"
  shows "bundles_grow [operator_pem env] [] env run r \<and> whole env (operator_pem env)"
proof -
  have "read_all env (operator_pem env) run = Next r"
    using assms by (auto simp: operator_bundle_def operator_pem_def getOperatorCABundle_def Let_def split: sum.splits if_splits)
  from read_all_Next [OF this] read_all_whole [OF this] show ?thesis by (simp add: bundles_grow_def)
qed

lemma load_bundles_grow:
  assumes "load_bundles env run = Next r"
  shows "bundles_grow (stored_pem env (ka_CABundleKey env)) (stored_pem env (ka_InternalCABundleKey env)) env run r
    \<and> (\<forall>d \<in> set (stored_pem env (ka_CABundleKey env) @ stored_pem env (ka_InternalCABundleKey env)). whole env d)"
  using assms
  by (auto simp: load_bundles_def stored_pem_def bundles_grow_def Let_def step_bind_Next_iff
      split: sum.splits option.splits if_splits dest!: read_both)

text \<open>The last stage writes the two bundles.\<close>

lemma write_bundle_Next:
  assumes "write_bundle L env run = Next r"
  obtains pem only where "getBundlePEM env (ca_bundle run) = Inr pem" "getBundlePEM env (ca_only run) = Inr only"
    "r = (ca_log_act (WriteBundle [(ka_CABundleKey env, pem), (ka_InternalCABundleKey env, only)]) run)\<lparr>ca_CaBundleSecretName := ka_CABundleSecret env\<rparr>"
    "ka_ensureSecret env [(ka_CABundleKey env, pem), (ka_InternalCABundleKey env, only)] = None"
  using assms by (auto simp: write_bundle_def Let_def split: sum.splits option.splits)

lemma ReconcileCAs_Next:
  assumes "ReconcileCAs_run L env run = Next r"
  obtains b where "write_bundle L env b = Next r"
    "ca_bundle r = gather env (stored_pem env (ka_CABundleKey env) @ trust_sources env) []"
    "ca_only r = gather env (stored_pem env (ka_InternalCABundleKey env) @ ca_sources env) []"
    "\<forall>k. usable env (ca_pem env k)"
    "\<forall>d \<in> set (stored_pem env (ka_CABundleKey env) @ stored_pem env (ka_InternalCABundleKey env) @ user_pems env @ [operator_pem env]). whole env d"
proof -
  obtain s0 s1 s2 s3 s4 s5 s6 s7 s8 b where
    0: "selfsigned_stage L env (run\<lparr>ca_bundle := [], ca_only := []\<rparr>) = Next s0" and 1: "load_bundles env s0 = Next s1"
    and 2: "ca_stage L env IngressCA s1 = Next s2" and 3: "ca_stage L env InternalCA s2 = Next s3"
    and 4: "ca_stage L env LibvirtCA s3 = Next s4" and 5: "ca_stage L env OvnCA s4 = Next s5"
    and 6: "user_bundle L env s5 = Next s6" and 7: "mirror_bundle L env s6 = Next s7" and 8: "mark_ca_ready L s7 = Next s8"
    and 9: "operator_bundle env s8 = Next b" and w: "write_bundle L env b = Next r"
    using assms by (auto simp: ReconcileCAs_run_def ca_stages_def ca_kinds_def step_bind_Next_iff)
  have s0: "ca_bundle s0 = []" "ca_only s0 = []" using ca_ensured_Next 0 unfolding selfsigned_stage_def by force+
  have s8: "ca_bundle s8 = ca_bundle s7" "ca_only s8 = ca_only s7" using 8 by (auto simp: mark_ca_ready_def)
  note g = load_bundles_grow [OF 1] ca_stage_grow [OF 2] ca_stage_grow [OF 3] ca_stage_grow [OF 4] ca_stage_grow [OF 5]
    user_bundle_grow [OF 6] mirror_bundle_grow [OF 7] operator_bundle_grow [OF 9]
  have "ca_bundle b = gather env (stored_pem env (ka_CABundleKey env) @ trust_sources env) []"
    "ca_only b = gather env (stored_pem env (ka_InternalCABundleKey env) @ ca_sources env) []"
    using g s0 s8 by (simp_all add: bundles_grow_def trust_sources_def ca_sources_def ca_kinds_def)
  moreover have "ca_bundle r = ca_bundle b" "ca_only r = ca_only b" using w by (auto elim!: write_bundle_Next)
  moreover have "usable env (ca_pem env k)" for k using g by (cases k) auto
  moreover have "\<forall>d \<in> set (stored_pem env (ka_CABundleKey env) @ stored_pem env (ka_InternalCABundleKey env)
      @ user_pems env @ [operator_pem env]). whole env d" using g by auto
  ultimately show thesis by (intro that [OF w]) (simp_all only: simp_thms)
qed

subsection \<open>The bundle of trusted certificates\<close>

definition genuine :: "ca_env \<Rightarrow> caCert \<Rightarrow> bool" where
  "genuine env k \<longleftrightarrow> \<not> ca_expired (ka_now env) (k_cert k) \<and> k_expire k = x5_NotAfter (k_cert k)
     \<and> (\<exists>bytes. ka_parse env bytes = Inr (k_cert k) \<and> ka_hash env bytes = Inr (k_hash k))"

lemma read_block_genuine:
  assumes "read_block env b certs = Inr certs'" and "\<forall>k \<in> set certs. genuine env k" and "distinct (map k_hash certs)"
  shows "(\<forall>k \<in> set certs'. genuine env k) \<and> distinct (map k_hash certs')"
  using assms by (auto simp: read_block_def genuine_def list_ex_iff split: if_splits sum.splits; blast)

lemma read_blocks_genuine:
  assumes "\<forall>k \<in> set certs. genuine env k" and "distinct (map k_hash certs)"
  shows "(\<forall>k \<in> set (fst (read_blocks env bs certs)). genuine env k) \<and> distinct (map k_hash (fst (read_blocks env bs certs)))"
  using assms
proof (induction bs arbitrary: certs)
  case (Cons b bs)
  show ?case
  proof (cases "read_block env b certs")
    case (Inr new)
    then show ?thesis using Cons.IH [of new] read_block_genuine [OF Inr Cons.prems] by simp
  qed (use Cons.prems in simp)
qed simp

lemma pem_certs_genuine: "(\<forall>k \<in> set (pem_certs env d). genuine env k) \<and> distinct (map k_hash (pem_certs env d))"
  using read_blocks_genuine [of "[]" env "ka_blocks env d"] by (simp add: pem_certs_def getCertsFromPEM_def)

lemma gather_genuine:
  "(\<forall>k \<in> set (gather env ds []). genuine env k) \<and> distinct (map k_hash (gather env ds []))"
  using pem_certs_genuine by (auto simp: gather_concat add_certs_distinct dest!: add_certs_mem)

lemma pem_certs_in: "set (pem_certs env d) \<subseteq> certs_in env d"
proof -
  have "set (fst (read_blocks env bs certs)) \<subseteq> {k. \<exists>b \<in> set (takeWhile (sound_block env) bs). cert_of_block env b k} \<union> set certs" for bs certs
  proof (induction bs arbitrary: certs)
    case (Cons b bs)
    show ?case
    proof (cases "read_block env b certs")
      case (Inr certs')
      then have "sound_block env b" using read_block_sound [of env b certs] by simp
      moreover have "set certs' \<subseteq> {k. cert_of_block env b k} \<union> set certs"
        using Inr by (auto simp: read_block_def ca_expired_iff cert_of_block_def split: if_splits sum.splits)
      ultimately show ?thesis using Inr Cons.IH [of certs'] by fastforce
    qed auto
  qed simp
  from this [of "ka_blocks env d" "[]"] show ?thesis by (simp add: pem_certs_def getCertsFromPEM_def certs_in_def)
qed

lemma gather_in: "set (gather env ds []) \<subseteq> (\<Union>d \<in> set ds. certs_in env d)"
  using pem_certs_in by (fastforce simp: gather_concat dest!: add_certs_mem)

lemma gather_hashes: "k_hash ` set (gather env ds []) = (\<Union>d \<in> set ds. k_hash ` set (pem_certs env d))"
  by (auto simp: gather_concat)

abbreviation cert_block :: "caCert \<Rightarrow> pem_block" where
  "cert_block c \<equiv> \<lparr>pb_Type = ''CERTIFICATE'', pb_Headers = [], pb_Bytes = x5_Raw (k_cert c)\<rparr>"

definition pem_text :: "ca_env \<Rightarrow> caCert \<Rightarrow> string" where
  "pem_text env c = ''# '' @ x5_IssuerCN (k_cert c) @ [CHR 0x0A] @ (case ka_encode env (cert_block c) of Inr p \<Rightarrow> p | Inl _ \<Rightarrow> [])"

lemma getBundlePEM_text:
  assumes "getBundlePEM env certs = Inr pem"
  shows "pem = concat (map (pem_text env) certs) \<and> (\<forall>c \<in> set certs. \<exists>p. ka_encode env (cert_block c) = Inr p)"
proof -
  let ?step = "\<lambda>c acc. case acc of Inl e \<Rightarrow> Inl e | Inr s \<Rightarrow>
      (case ka_encode env (cert_block c) of Inl e \<Rightarrow> Inl (wrap_err ''failed to encode bundle PEM for '' e)
       | Inr p \<Rightarrow> Inr (s @ ''# '' @ x5_IssuerCN (k_cert c) @ [CHR 0x0A] @ p))"
  have stuck: "fold ?step cs (Inl e) = Inl e" for cs e by (induction cs) simp_all
  have "fold ?step cs (Inr s) = Inr pem \<Longrightarrow> pem = s @ concat (map (pem_text env) cs) \<and> (\<forall>c \<in> set cs. \<exists>p. ka_encode env (cert_block c) = Inr p)" for cs s
  proof (induction cs arbitrary: s)
    case (Cons c cs)
    show ?case
    proof (cases "ka_encode env (cert_block c)")
      case (Inr p)
      then show ?thesis using Cons.IH [of "s @ ''# '' @ x5_IssuerCN (k_cert c) @ [CHR 0x0A] @ p"] Cons.prems by (simp add: pem_text_def)
    qed (use Cons.prems stuck in simp)
  qed simp
  from this [of certs "[]"] show ?thesis using assms by (simp add: getBundlePEM_def)
qed

text \<open>C31: the secret with the CA bundle that \<open>ReconcileCAs\<close> writes holds exactly the certificates of its sources: those stored
  before, those of the four CAs (own or custom), those of the user, of the mirror registries and of the operator image.  All blocks of
  a source are certificates that can be parsed, and each of them that is valid for thirty seconds more is in the bundle; only the text
  of a mirror registry may have something else, and then counts up to it.  Every entry of the bundle is such a certificate of one of
  the sources, no hash is there twice, each of the four CAs contributes, and the text written has them all.  The internal bundle
  has the certificates stored in it before and those of the CAs only.\<close>

theorem trust_bundle:
  assumes run: "ReconcileCAs_run L env run = Next r"
  shows "last (ca_log r) = WriteBundle [(ka_CABundleKey env, concat (map (pem_text env) (ca_bundle r))),
       (ka_InternalCABundleKey env, concat (map (pem_text env) (ca_only r)))]
     \<and> distinct (map k_hash (ca_bundle r)) \<and> distinct (map k_hash (ca_only r))
     \<and> set (ca_bundle r) \<subseteq> (\<Union>d \<in> set (stored_pem env (ka_CABundleKey env) @ trust_sources env). certs_in env d)
     \<and> k_hash ` set (ca_bundle r) = (\<Union>d \<in> set (stored_pem env (ka_CABundleKey env) @ trust_sources env). k_hash ` certs_in env d)
     \<and> set (ca_only r) \<subseteq> (\<Union>d \<in> set (stored_pem env (ka_InternalCABundleKey env) @ ca_sources env). certs_in env d)
     \<and> k_hash ` set (ca_only r) = (\<Union>d \<in> set (stored_pem env (ka_InternalCABundleKey env) @ ca_sources env). k_hash ` certs_in env d)
     \<and> (\<forall>k. certs_in env (ca_pem env k) \<noteq> {})
     \<and> set (concat (map (ka_blocks env) (stored_pem env (ka_CABundleKey env) @ stored_pem env (ka_InternalCABundleKey env)
          @ ca_sources env @ user_pems env @ [operator_pem env]))) \<subseteq> Collect (sound_block env)"
proof -
  let ?all = "stored_pem env (ka_CABundleKey env) @ trust_sources env" and ?only = "stored_pem env (ka_InternalCABundleKey env) @ ca_sources env"
  obtain b where w: "write_bundle L env b = Next r"
    and all: "ca_bundle r = gather env ?all []" and only: "ca_only r = gather env ?only []" and some: "\<forall>k. usable env (ca_pem env k)"
    and sound: "\<forall>d \<in> set (stored_pem env (ka_CABundleKey env) @ stored_pem env (ka_InternalCABundleKey env) @ user_pems env @ [operator_pem env]). whole env d"
    using run by (rule ReconcileCAs_Next)
  from w obtain pem op where "getBundlePEM env (ca_bundle r) = Inr pem" "getBundlePEM env (ca_only r) = Inr op"
    "last (ca_log r) = WriteBundle [(ka_CABundleKey env, pem), (ka_InternalCABundleKey env, op)]"
    by (auto elim!: write_bundle_Next)
  then have 1: "last (ca_log r) = WriteBundle [(ka_CABundleKey env, concat (map (pem_text env) (ca_bundle r))),
      (ka_InternalCABundleKey env, concat (map (pem_text env) (ca_only r)))]" using getBundlePEM_text by metis
  have 2: "distinct (map k_hash (ca_bundle r))" "distinct (map k_hash (ca_only r))" unfolding all only using gather_genuine by blast+
  have 3: "set (ca_bundle r) \<subseteq> (\<Union>d \<in> set ?all. certs_in env d)" "set (ca_only r) \<subseteq> (\<Union>d \<in> set ?only. certs_in env d)"
    unfolding all only by (rule gather_in)+
  have 4: "k_hash ` set (gather env ds []) = (\<Union>d \<in> set ds. k_hash ` certs_in env d)" for ds
    by (simp add: gather_hashes pem_certs_hashes)
  have 5: "certs_in env (ca_pem env k) \<noteq> {}" for k using some pem_certs_hashes [of env "ca_pem env k"] by (auto simp: usable_def)
  have "\<forall>d \<in> set (ca_sources env). whole env d" using some by (auto simp: usable_def ca_sources_def)
  then have 6: "set (concat (map (ka_blocks env) (stored_pem env (ka_CABundleKey env) @ stored_pem env (ka_InternalCABundleKey env)
      @ ca_sources env @ user_pems env @ [operator_pem env]))) \<subseteq> Collect (sound_block env)"
    using sound by (auto simp: whole_def list_all_iff)
  from 1 2 3 4 [of ?all, folded all] 4 [of ?only, folded only] 5 6 show ?thesis by blast
qed

subsection \<open>Writing the bundle again\<close>

text \<open>What the code relies on of \<open>encoding/pem\<close> and \<open>crypto/x509\<close>: a certificate keeps the bytes it was parsed from, and an encoded
  block that follows a line of comment is decoded again.\<close>

definition pem_laws :: "ca_env \<Rightarrow> bool" where
  "pem_laws env \<longleftrightarrow>
     (\<forall>b c. ka_parse env b = Inr c \<longrightarrow> x5_Raw c = b) \<and> ka_blocks env [] = [] \<and>
     (\<forall>b p cn rest. ka_encode env b = Inr p \<and> CHR 0x0A \<notin> set cn \<longrightarrow>
        ka_blocks env (''# '' @ cn @ [CHR 0x0A] @ p @ rest) = b # ka_blocks env rest)"

definition plain_names :: "caBundle \<Rightarrow> bool" where
  "plain_names certs = list_all (\<lambda>c. CHR 0x0A \<notin> set (x5_IssuerCN (k_cert c))) certs"

lemma bundle_blocks:
  assumes "pem_laws env" and "plain_names certs" and "\<forall>c \<in> set certs. \<exists>p. ka_encode env (cert_block c) = Inr p"
  shows "ka_blocks env (concat (map (pem_text env) certs)) = map cert_block certs"
  using assms(2,3)
proof (induction certs)
  case (Cons c certs)
  then obtain p where p: "ka_encode env (cert_block c) = Inr p" by auto
  have "ka_blocks env (''# '' @ x5_IssuerCN (k_cert c) @ [CHR 0x0A] @ p @ concat (map (pem_text env) certs))
      = cert_block c # ka_blocks env (concat (map (pem_text env) certs))"
    using assms(1) p Cons.prems(1) unfolding pem_laws_def plain_names_def by auto
  moreover have "pem_text env c = ''# '' @ x5_IssuerCN (k_cert c) @ [CHR 0x0A] @ p" using p by (simp add: pem_text_def)
  ultimately show ?case using Cons by (simp add: plain_names_def)
qed (use assms(1) in \<open>simp add: pem_laws_def\<close>)

lemma read_own_blocks:
  assumes "pem_laws env" and "\<forall>k \<in> set certs. genuine env k"
  shows "read_blocks env (map cert_block certs) acc = (fold add_cert certs acc, None)"
  using assms(2)
proof (induction certs arbitrary: acc)
  case (Cons k certs)
  obtain bytes where b: "ka_parse env bytes = Inr (k_cert k)" "ka_hash env bytes = Inr (k_hash k)" using Cons.prems by (auto simp: genuine_def)
  moreover have "x5_Raw (k_cert k) = bytes" using assms(1) b(1) by (simp add: pem_laws_def)
  moreover have "\<not> ca_expired (ka_now env) (k_cert k)" "k_expire k = x5_NotAfter (k_cert k)" using Cons.prems by (simp_all add: genuine_def)
  ultimately have "read_block env (cert_block k) acc = Inr (add_cert k acc)"
    by (cases k) (auto simp: read_block_def add_cert_def list_ex_iff)
  then show ?case using Cons by simp
qed simp

text \<open>A bundle that is written and read again is the same bundle.\<close>

lemma bundle_roundtrip:
  assumes "pem_laws env" and "plain_names certs" and "getBundlePEM env certs = Inr pem"
    and "\<forall>k \<in> set certs. genuine env k" and "distinct (map k_hash certs)"
  shows "pem_certs env pem = certs"
proof -
  note t = getBundlePEM_text [OF assms(3)]
  have "ka_blocks env pem = map cert_block certs" using bundle_blocks [OF assms(1,2)] t by simp
  then have "pem_certs env pem = fold add_cert certs []" using read_own_blocks [OF assms(1,4)] by (simp add: pem_certs_def getCertsFromPEM_def)
  then show ?thesis using add_certs_new [OF assms(5), of "[]"] by simp
qed

text \<open>The environment of a later reconciliation: the secret has what was written, the sources are among those of before, in any
  order, and no certificate of them has expired in the meantime.\<close>

definition later :: "ca_env \<Rightarrow> ca_env \<Rightarrow> (string, string) gomap \<Rightarrow> bool" where
  "later env env' data \<longleftrightarrow>
     map_option sec_Data (case ka_getSecret env' (ka_CABundleSecret env') of Inl _ \<Rightarrow> None | Inr s \<Rightarrow> Some s) = Some data
     \<and> ka_CABundleKey env' = ka_CABundleKey env \<and> ka_InternalCABundleKey env' = ka_InternalCABundleKey env
     \<and> set (trust_sources env') \<subseteq> set (trust_sources env) \<and> set (ca_sources env') \<subseteq> set (ca_sources env)
     \<and> (\<forall>d \<in> set (map snd data @ trust_sources env @ ca_sources env). pem_certs env' d = pem_certs env d) \<and> ka_encode env' = ka_encode env"

lemma pem_certs_cong:
  assumes "ka_now env' = ka_now env" "ka_parse env' = ka_parse env" "ka_hash env' = ka_hash env" "ka_blocks env' = ka_blocks env"
  shows "pem_certs env' = pem_certs env"
proof -
  have "read_block env' = read_block env" by (intro ext) (simp only: read_block_def assms)
  then have "read_blocks env' bs certs = read_blocks env bs certs" for bs certs by (induction bs arbitrary: certs) (simp_all split: sum.split)
  then show ?thesis using assms(4) by (simp add: pem_certs_def [abs_def] getCertsFromPEM_def)
qed

lemma stored_later:
  assumes "later env env' data" and "map_of data key = Some d"
  shows "stored_pem env' key = [d]"
  using assms by (auto simp: later_def stored_pem_def split: sum.splits)

lemma gather_stable:
  assumes "B = gather env ds []" and "pem_certs env d = B" and "set es \<subseteq> set ds"
  shows "gather env (d # es) [] = B"
proof -
  have "distinct (map k_hash B)" using assms(1) gather_genuine by simp
  then have "fold add_cert B [] = B" using add_certs_new [of B "[]"] by simp
  moreover have "k_hash ` set (concat (map (pem_certs env) es)) \<subseteq> k_hash ` set B"
    using assms(3) unfolding assms(1) gather_hashes by auto
  ultimately show ?thesis using assms(2) add_known by (simp add: gather_concat)
qed

text \<open>C32: the CA bundle settles.  A reconciliation that finds the bundle of an earlier one, with no new source and no certificate
  expired since, writes the same secret again, in whatever order Go walks through the secret of the user; so it does not restart the
  services that mount the bundle.\<close>

theorem bundle_settles:
  assumes pem: "pem_laws env" and run: "ReconcileCAs_run L env run = Next r" and names: "plain_names (ca_bundle r @ ca_only r)"
    and keys: "ka_CABundleKey env \<noteq> ka_InternalCABundleKey env"
    and data: "last (ca_log r) = WriteBundle data" and later: "later env env' data"
    and run': "ReconcileCAs_run L env' run' = Next r'"
  shows "ca_bundle r' = ca_bundle r \<and> ca_only r' = ca_only r \<and> last (ca_log r') = WriteBundle data"
proof -
  obtain b where w: "write_bundle L env b = Next r"
    and all: "ca_bundle r = gather env (stored_pem env (ka_CABundleKey env) @ trust_sources env) []"
    and only: "ca_only r = gather env (stored_pem env (ka_InternalCABundleKey env) @ ca_sources env) []"
    using run by (rule ReconcileCAs_Next)
  from w obtain p q where p: "getBundlePEM env (ca_bundle r) = Inr p" "getBundlePEM env (ca_only r) = Inr q"
    "data = [(ka_CABundleKey env, p), (ka_InternalCABundleKey env, q)]"
    using data by (auto elim!: write_bundle_Next)
  have genuine: "(\<forall>k \<in> set (ca_bundle r). genuine env k) \<and> distinct (map k_hash (ca_bundle r))"
      "(\<forall>k \<in> set (ca_only r). genuine env k) \<and> distinct (map k_hash (ca_only r))"
    unfolding all only by (rule gather_genuine)+
  have again: "pem_certs env p = ca_bundle r" "pem_certs env q = ca_only r"
    using bundle_roundtrip [OF pem _ p(1)] bundle_roundtrip [OF pem _ p(2)] genuine names by (simp_all add: plain_names_def)
  obtain b' where w': "write_bundle L env' b' = Next r'"
    and all': "ca_bundle r' = gather env' (stored_pem env' (ka_CABundleKey env') @ trust_sources env') []"
    and only': "ca_only r' = gather env' (stored_pem env' (ka_InternalCABundleKey env') @ ca_sources env') []"
    using run' by (rule ReconcileCAs_Next)
  have same: "gather env' ds [] = gather env ds []" if "set ds \<subseteq> set (map snd data @ trust_sources env @ ca_sources env)" for ds
    using later that by (auto simp: later_def gather_def intro!: fold_cong)
  have st: "stored_pem env' (ka_CABundleKey env') = [p]" "stored_pem env' (ka_InternalCABundleKey env') = [q]"
    using stored_later [OF later] p(3) keys later by (auto simp: later_def)
  have sub: "set (trust_sources env') \<subseteq> set (trust_sources env)" "set (ca_sources env') \<subseteq> set (ca_sources env)" "{p, q} \<subseteq> snd ` set data"
    using later p(3) by (simp_all add: later_def)
  have "gather env (p # trust_sources env') [] = ca_bundle r" by (rule gather_stable [OF all again(1)]) (use sub in auto)
  moreover have "gather env' (p # trust_sources env') [] = gather env (p # trust_sources env') []" by (rule same) (use sub in auto)
  ultimately have B: "ca_bundle r' = ca_bundle r" unfolding all' st by simp
  have "gather env (q # ca_sources env') [] = ca_only r" by (rule gather_stable [OF only again(2)]) (use sub in auto)
  moreover have "gather env' (q # ca_sources env') [] = gather env (q # ca_sources env') []" by (rule same) (use sub in auto)
  ultimately have O: "ca_only r' = ca_only r" unfolding only' st by simp
  have "getBundlePEM env' = getBundlePEM env" using later by (simp add: later_def getBundlePEM_def [abs_def])
  then have "last (ca_log r') = WriteBundle data"
    using w' p B O later by (auto elim!: write_bundle_Next simp: later_def)
  then show ?thesis using B O by simp
qed

subsection \<open>Labels of the issuers\<close>

text \<open>The names of the issuers that the selector of a CA finds.\<close>

definition labelled :: "string \<Rightarrow> ca_issuer list \<Rightarrow> string set" where
  "labelled l issuers = kis_Name ` {i \<in> set issuers. map_of (kis_Labels i) l = Some []}"

lemma selected_by_single: "selected_by [(l, [])] i \<longleftrightarrow> map_of (kis_Labels i) l = Some []"
  by (simp add: selected_by_def)

lemma labelled_put: "labelled l (put_issuer i issuers) \<subseteq> labelled l issuers - {kis_Name i} \<union> (if map_of (kis_Labels i) l = Some [] then {kis_Name i} else {})"
  by (auto simp: labelled_def put_issuer_def)

lemma labelled_put_name: "labelled l (put_issuer i issuers) \<subseteq> labelled l issuers \<union> {kis_Name i}"
  by (auto simp: labelled_def put_issuer_def)

lemma labelled_put_same:
  assumes "j \<in> set issuers" "kis_Name j = kis_Name i" "map_of (kis_Labels i) l = map_of (kis_Labels j) l"
  shows "labelled l (put_issuer i issuers) \<subseteq> labelled l issuers"
proof
  fix n assume "n \<in> labelled l (put_issuer i issuers)"
  then obtain x where x: "x \<in> set issuers" "n = kis_Name x" "map_of (kis_Labels (if kis_Name x = kis_Name i then i else x)) l = Some []"
    by (auto simp: labelled_def put_issuer_def)
  show "n \<in> labelled l issuers"
  proof (cases "kis_Name x = kis_Name i")
    case True
    then show ?thesis using x assms by (auto simp: labelled_def image_iff intro!: exI [of _ j])
  qed (use x in \<open>auto simp: labelled_def\<close>)
qed

text \<open>What is assumed of cert-manager and the API server: merged labels are those of the parts, creating the issuer of a CA gives no
  other issuer a label, and an issuer that was just listed can be patched.\<close>

definition issuer_laws :: "ca_env \<Rightarrow> bool" where
  "issuer_laws env \<longleftrightarrow>
     inj (ka_label env) \<and> (\<forall>k. map_of (ka_restoreLabels env) (ka_label env k) = None)
     \<and> (\<forall>a b l. map_of b l = None \<longrightarrow> map_of (ka_merge env a b) l = map_of a l)
     \<and> (\<forall>i s issuers out issuers' l. ka_caIssuer env i s issuers = (out, issuers') \<longrightarrow>
          labelled l issuers' \<subseteq> labelled l issuers \<union> (if map_of (kis_Labels i) l = Some [] then {kis_Name i} else {}))
     \<and> (\<forall>i e. ka_patch env i = Some e \<longrightarrow> \<not> IsNotFound e)"

lemma caIssuer_labelled:
  "issuer_laws env \<Longrightarrow> ka_caIssuer env i s issuers = (out, issuers') \<Longrightarrow>
     labelled l issuers' \<subseteq> labelled l issuers \<union> (if map_of (kis_Labels i) l = Some [] then {kis_Name i} else {})"
  unfolding issuer_laws_def by blast

lemma patchIssuer_labelled:
  assumes "patchIssuer env before i run = Next r" and "issuer_laws env"
  shows "ca_issuers r = ca_issuers run \<and> same_map (kis_Labels before) (kis_Labels i) \<or> ca_issuers r = put_issuer i (ca_issuers run)"
  using assms by (auto simp: patchIssuer_def issuer_laws_def Let_def split: option.splits if_splits)

lemma removeIssuerLabel_labelled:
  assumes "removeIssuerLabel env name [(l, [])] run = Next r" and laws: "issuer_laws env"
  shows "labelled l (ca_issuers r) \<subseteq> {name} \<and> (\<forall>m. labelled m (ca_issuers r) \<subseteq> labelled m (ca_issuers run))"
proof -
  let ?I = "ca_issuers run"
  let ?xs = "filter (selected_by [(l, [])]) ?I"
  have stages: "run_stages (map (remove_label_from env name [(l, [])]) ?xs) run = Next r"
    using assms(1) by (auto simp: removeIssuerLabel_def split: option.splits)
  have main: "run_stages (map (remove_label_from env name [(l, [])]) ys) a = Next r \<Longrightarrow> set ys \<subseteq> set ?xs \<Longrightarrow>
      labelled l (ca_issuers a) \<subseteq> {name} \<union> kis_Name ` set ys \<Longrightarrow> \<forall>m. labelled m (ca_issuers a) \<subseteq> labelled m ?I \<Longrightarrow>
      labelled l (ca_issuers r) \<subseteq> {name} \<and> (\<forall>m. labelled m (ca_issuers r) \<subseteq> labelled m ?I)" for ys a
  proof (induction ys arbitrary: a)
    case (Cons y ys)
    then obtain b where b: "remove_label_from env name [(l, [])] y a = Next b"
      and rest: "run_stages (map (remove_label_from env name [(l, [])]) ys) b = Next r"
      by (auto simp: step_bind_Next_iff)
    have y: "y \<in> set ?I" "map_of (kis_Labels y) l = Some []" using Cons.prems(2) by (simp_all add: selected_by_single)
    show ?case
    proof (cases "kis_Name y = name")
      case True
      then have "b = a" using b by (simp add: remove_label_from_def)
      then show ?thesis using Cons.IH [OF rest] Cons.prems(2-4) True by auto
    next
      case False
      let ?y = "y\<lparr>kis_Labels := gomap_del l (kis_Labels y)\<rparr>"
      have "l \<in> fst ` set (kis_Labels y)" using y(2) by (metis map_of_eq_None_iff option.distinct(1))
      then have "same_map (kis_Labels y) m \<Longrightarrow> map_of (kis_Labels y) l = map_of m l" for m by (simp add: same_map_def list_all_iff)
      from this [of "kis_Labels ?y"] have "\<not> same_map (kis_Labels y) (kis_Labels ?y)" using y(2) by (auto simp: gomap_simps)
      then have put: "ca_issuers b = put_issuer ?y (ca_issuers a)"
        using b False patchIssuer_labelled [OF _ laws, of y ?y a b] by (auto simp: remove_label_from_def)
      have "labelled l (ca_issuers b) \<subseteq> labelled l (ca_issuers a) - {kis_Name y}"
        unfolding put using labelled_put [of l ?y "ca_issuers a"] by (simp add: gomap_simps)
      moreover have "labelled m (ca_issuers b) \<subseteq> labelled m ?I" for m
      proof -
        have "kis_Name y \<in> labelled m ?I" if "map_of (kis_Labels ?y) m = Some []"
          using that y(1) by (auto simp: gomap_simps labelled_def split: if_splits)
        then have "(if map_of (kis_Labels ?y) m = Some [] then {kis_Name ?y} else {}) \<subseteq> labelled m ?I" by simp
        then show ?thesis unfolding put using labelled_put [of m ?y "ca_issuers a"] Cons.prems(4) by blast
      qed
      moreover have "labelled l (ca_issuers a) \<subseteq> {name} \<union> kis_Name ` set (y # ys)" by (rule Cons.prems(3))
      ultimately have "labelled l (ca_issuers b) \<subseteq> {name} \<union> kis_Name ` set ys" "\<forall>m. labelled m (ca_issuers b) \<subseteq> labelled m ?I" by auto
      then show ?thesis using Cons.IH [OF rest] Cons.prems(2) by simp
    qed
  qed simp
  have "labelled l ?I \<subseteq> kis_Name ` set ?xs" by (auto simp: labelled_def selected_by_single)
  then show ?thesis using main [OF stages] by auto
qed

definition issuer_in_effect :: "ca_env \<Rightarrow> ca_kind \<Rightarrow> string" where
  "issuer_in_effect env k = issuer_or (cc_CustomIssuer (cx_Ca (ka_section env k))) (ca_name env k)"

lemma get_issuer_mem: "get_issuer env name run = Inr i \<Longrightarrow> i \<in> set (ca_issuers run) \<and> kis_Name i = name"
  by (auto simp: get_issuer_def split: option.splits list.splits dest!: filter_eq_ConsD)

lemma labelled_mono: "labelled m (ca_issuers r) \<subseteq> A \<Longrightarrow> ca_issuers r' = ca_issuers r \<Longrightarrow> labelled m (ca_issuers r') \<subseteq> A"
  by simp

lemma addIssuer_labelled:
  assumes "addIssuerLabelAnnotation env name [(ka_label env k, [])] annotations run = (s, Next r)" and laws: "issuer_laws env"
  shows "labelled (ka_label env k) (ca_issuers r) \<subseteq> {name}
    \<and> (\<forall>k'. k' \<noteq> k \<longrightarrow> labelled (ka_label env k') (ca_issuers r) \<subseteq> labelled (ka_label env k') (ca_issuers run))"
proof -
  let ?new = "\<lambda>i. i\<lparr>kis_Labels := ka_merge env (ka_merge env (kis_Labels i) [(ka_label env k, [])]) (ka_restoreLabels env),
        kis_Annotations := ka_merge env (kis_Annotations i) annotations\<rparr>"
  obtain a i where a: "removeIssuerLabel env name [(ka_label env k, [])] run = Next a" "get_issuer env name a = Inr i"
    and p: "patchIssuer env i (?new i) a = Next r"
    using assms(1) by (rule addIssuer_Next)
  note A = removeIssuerLabel_labelled [OF a(1) laws] and i = get_issuer_mem [OF a(2)]
  have other: "map_of (kis_Labels (?new i)) (ka_label env k') = map_of (kis_Labels i) (ka_label env k')" if "k' \<noteq> k" for k'
  proof -
    have "ka_label env k' \<noteq> ka_label env k" using laws that by (auto simp: issuer_laws_def inj_def)
    then have none: "map_of [(ka_label env k, [])] (ka_label env k') = None" "map_of (ka_restoreLabels env) (ka_label env k') = None"
      using laws by (simp_all add: issuer_laws_def)
    have "\<And>x y l. map_of y l = None \<Longrightarrow> map_of (ka_merge env x y) l = map_of x l" using laws unfolding issuer_laws_def by blast
    from this [OF none(2)] this [OF none(1)] show ?thesis by simp
  qed
  have sub: "labelled (ka_label env k) (ca_issuers r) \<subseteq> labelled (ka_label env k) (ca_issuers a) \<union> {name}"
    using patchIssuer_labelled [OF p laws] labelled_put_name [of "ka_label env k" "?new i" "ca_issuers a"] i by fastforce
  have "labelled (ka_label env k') (ca_issuers r) \<subseteq> labelled (ka_label env k') (ca_issuers a)" if "k' \<noteq> k" for k'
  proof -
    have "labelled (ka_label env k') (put_issuer (?new i) (ca_issuers a)) \<subseteq> labelled (ka_label env k') (ca_issuers a)"
      by (rule labelled_put_same [of i]) (use i other [OF that] in auto)
    then show ?thesis using patchIssuer_labelled [OF p laws] by (elim disjE) simp_all
  qed
  then show ?thesis using A sub by blast
qed

text \<open>A stage leaves the label of its CA to the issuer in effect and gives no issuer the label of another CA.\<close>

lemma ca_stage_labelled:
  assumes run: "ca_stage L env k run = Next r" and laws: "issuer_laws env"
  shows "labelled (ka_label env k) (ca_issuers r) \<subseteq> {issuer_in_effect env k}
    \<and> (\<forall>k'. k' \<noteq> k \<longrightarrow> labelled (ka_label env k') (ca_issuers r) \<subseteq> labelled (ka_label env k') (ca_issuers run))"
proof (cases "IsCustomIssuer (cc_CustomIssuer (cx_Ca (ka_section env k)))")
  case True
  then obtain i where i: "cc_CustomIssuer (cx_Ca (ka_section env k)) = Some i" by (auto simp: IsCustomIssuer_iff)
  then have "customCA L env i [(ka_label env k, [])] (getIssuerAnnotations env (cx_Cert (ka_section env k))) run = Next r"
    using run True by (simp add: ca_stage_def)
  then obtain s a d where a: "addIssuerLabelAnnotation env i [(ka_label env k, [])] (getIssuerAnnotations env (cx_Cert (ka_section env k))) run = (s, Next a)"
    and d: "ensureCaBundles env i d a = Next r" by (rule customCA_Next)
  have "ca_issuers r = ca_issuers a" using ensureCaBundles_grow [OF d] by simp
  then show ?thesis using addIssuer_labelled [OF a laws] i True by (simp add: issuer_in_effect_def issuer_or_def)
next
  case False
  then obtain a where a: "removeIssuerLabel env (ca_name env k) [(ka_label env k, [])] run = Next a"
    and e: "ensureRootCA L env (ca_name env k) [(ka_label env k, [])] (getIssuerAnnotations env (cx_Cert (ka_section env k)))
      (cx_Ca (ka_section env k)) a = Next r"
    using run by (auto simp: ca_stage_def Let_def step_bind_Next_iff)
  from e obtain b c d where b: "root_cert_stage L env (ca_name env k) (cx_Ca (ka_section env k)) a = Next b"
    and c: "ca_issuer_stage L env (ca_name env k) [(ka_label env k, [])] (getIssuerAnnotations env (cx_Cert (ka_section env k))) b = Next c"
    and d: "ensureCaBundles env (ca_name env k) d c = Next r" by (rule ensureRootCA_Next)
  have ab: "ca_issuers b = ca_issuers a" using b by (auto simp: root_cert_stage_def Let_def dest!: ca_ensured_Next)
  have rc: "ca_issuers r = ca_issuers c" using ensureCaBundles_grow [OF d] by simp
  let ?i = "\<lparr>kis_Name = ca_name env k, kis_Labels = [(ka_label env k, [])], kis_Annotations = getIssuerAnnotations env (cx_Cert (ka_section env k))\<rparr>"
  obtain out where out: "ka_caIssuer env ?i (ca_name env k) (ca_issuers b) = (out, ca_issuers c)"
    using c by (auto simp: ca_issuer_stage_def Let_def dest!: ca_ensured_Next split: prod.splits)
  have C: "labelled l (ca_issuers r) \<subseteq> labelled l (ca_issuers a) \<union> (if l = ka_label env k then {ca_name env k} else {})" for l
    using caIssuer_labelled [OF laws out, of l] ab rc by (auto split: if_splits)
  note A = removeIssuerLabel_labelled [OF a laws]
  have "labelled (ka_label env k) (ca_issuers r) \<subseteq> {issuer_in_effect env k}"
    using C [of "ka_label env k"] A False by (auto simp: issuer_in_effect_def issuer_or_def)
  moreover have "labelled (ka_label env k') (ca_issuers r) \<subseteq> labelled (ka_label env k') (ca_issuers run)" if "k' \<noteq> k" for k'
  proof -
    have "ka_label env k' \<noteq> ka_label env k" using laws that by (auto simp: issuer_laws_def inj_def)
    then have "labelled (ka_label env k') (ca_issuers r) \<subseteq> labelled (ka_label env k') (ca_issuers a)" using C [of "ka_label env k'"] by simp
    then show ?thesis using A by blast
  qed
  ultimately show ?thesis by blast
qed

text \<open>C33: services find the issuer of a CA by its label, and after a reconciliation of the CAs every issuer with the label of a CA is
  the one in effect: the issuer of the user if one is set, and otherwise that of the operator.  A label that an issuer had from
  earlier settings is taken away from it.\<close>

theorem label_of_issuer_in_effect:
  assumes run: "ReconcileCAs_run L env run = Next r" and laws: "issuer_laws env"
    and i: "i \<in> set (ca_issuers r)" "selected_by [(ka_label env k, [])] i"
  shows "kis_Name i = issuer_in_effect env k"
proof -
  obtain s0 s1 s2 s3 s4 s5 s6 s7 s8 b where
    2: "ca_stage L env IngressCA s1 = Next s2" and 3: "ca_stage L env InternalCA s2 = Next s3"
    and 4: "ca_stage L env LibvirtCA s3 = Next s4" and 5: "ca_stage L env OvnCA s4 = Next s5"
    and 6: "user_bundle L env s5 = Next s6" and 7: "mirror_bundle L env s6 = Next s7" and 8: "mark_ca_ready L s7 = Next s8"
    and 9: "operator_bundle env s8 = Next b" and w: "write_bundle L env b = Next r"
    using run by (auto simp: ReconcileCAs_run_def ca_stages_def ca_kinds_def step_bind_Next_iff)
  have read: "ca_issuers y = ca_issuers x" if "read_all env d x = Next y" for d x y using read_all_Next [OF that] by simp
  have "ca_issuers s6 = ca_issuers s5"
  proof (cases "ka_userBundle env = []")
    case False
    then obtain s :: secret where "run_stages (map (\<lambda>(_, d). read_all env d) (sec_Data s)) s5 = Next s6"
      using 6 by (auto simp: user_bundle_def Let_def split: sum.splits if_splits)
    then show ?thesis by (rule run_stages_Next_keeps) (auto dest: read)
  qed (use 6 in \<open>simp add: user_bundle_def\<close>)
  moreover have "ca_issuers s7 = ca_issuers s6" using 7 by (auto simp: mirror_bundle_def split: sum.splits)
  moreover have "ca_issuers s8 = ca_issuers s7" using 8 by (auto simp: mark_ca_ready_def)
  moreover have "ca_issuers b = ca_issuers s8" using 9 by (auto simp: operator_bundle_def Let_def split: sum.splits if_splits dest: read)
  moreover have "ca_issuers r = ca_issuers b" using w by (auto elim!: write_bundle_Next)
  ultimately have "ca_issuers r = ca_issuers s5" by simp
  moreover have "labelled (ka_label env k) (ca_issuers s5) \<subseteq> {issuer_in_effect env k}"
  proof -
    note own = ca_stage_labelled [OF _ laws, THEN conjunct1] and other = ca_stage_labelled [OF _ laws, THEN conjunct2, rule_format]
    show ?thesis
    proof (cases k)
      case IngressCA
      then show ?thesis using own [OF 2] other [OF 3, of k] other [OF 4, of k] other [OF 5, of k] by simp
    next
      case InternalCA
      then show ?thesis using own [OF 3] other [OF 4, of k] other [OF 5, of k] by simp
    next
      case LibvirtCA
      then show ?thesis using own [OF 4] other [OF 5, of k] by simp
    next
      case OvnCA
      then show ?thesis using own [OF 5] by simp
    qed
  qed
  ultimately show ?thesis using i by (auto simp: labelled_def selected_by_single)
qed

subsection \<open>Samples\<close>

text \<open>A cluster with one issuer of the user for the internal CA, a toy certificate format (a block is a character) and an internal
  label left on another issuer.\<close>

fun toy_blocks :: "bool \<Rightarrow> string \<Rightarrow> pem_block list" where
  "toy_blocks comment [] = []"
| "toy_blocks True (c # s) = toy_blocks (c \<noteq> CHR 0x0A) s"
| "toy_blocks False (c # s) =
     (if c = CHR ''#'' then toy_blocks True s else \<lparr>pb_Type = ''CERTIFICATE'', pb_Headers = [], pb_Bytes = [c]\<rparr> # toy_blocks False s)"

lemma toy_comment: "CHR 0x0A \<notin> set cn \<Longrightarrow> toy_blocks True (cn @ CHR 0x0A # s) = toy_blocks False s"
  by (induction cn) auto

definition sample_ca_env :: "string \<Rightarrow> ca_env" where
  "sample_ca_env stored =
     \<lparr>ka_now = 0,
      ka_section = (\<lambda>k. \<lparr>cx_Cert = \<lparr>cg_Duration = None, cg_RenewBefore = None\<rparr>,
         cx_Ca = \<lparr>cc_Duration = None, cc_RenewBefore = None, cc_CustomIssuer = (if k = InternalCA then Some ''mine'' else None)\<rparr>\<rparr>),
      ka_userBundle = [], ka_prefix = ''rootca-'',
      ka_label = (\<lambda>k. case k of IngressCA \<Rightarrow> ''p'' | InternalCA \<Rightarrow> ''i'' | LibvirtCA \<Rightarrow> ''l'' | OvnCA \<Rightarrow> ''o''),
      ka_restoreLabels = [(''restore'', [])], ka_merge = (\<lambda>a b. a @ b), ka_CABundleSecret = ''combined-ca-bundle'', ka_CABundleKey = ''all'',
      ka_InternalCABundleKey = ''internal'', ka_DownstreamPath = ''d'', ka_UpstreamPath = ''u'', ka_DefaultDuration = ''43800h'',
      ka_DurationAnnotation = ''duration'', ka_RenewBeforeAnnotation = ''renew'', ka_duration = (\<lambda>_. []), ka_rfc3339 = (\<lambda>_. []),
      ka_WaitingMessage = (\<lambda>_. []), ka_issuerKind = [], ka_certKind = [], ka_selfSigned = Inr True,
      ka_getSecret = (\<lambda>n. if stored = [] then Inl (NotFound n)
         else Inr \<lparr>sec_Name = n, sec_Namespace = [], sec_Labels = [], sec_Data = [(''all'', stored), (''internal'', stored)]\<rparr>),
      ka_rootCert = (\<lambda>_. Inr True), ka_caIssuer = (\<lambda>i s issuers. (Inr True, i # filter (\<lambda>j. kis_Name j \<noteq> kis_Name i) issuers)),
      ka_getCA = (\<lambda>s. Inr (Some (if s = ''rootca-public'' then ''A'' else if s = ''my-ca'' then ''B'' else ''C''))),
      ka_listIssuers = None, ka_getIssuer = (\<lambda>_. None), ka_caSecret = (\<lambda>_. Some ''my-ca''), ka_diff = (\<lambda>_. None), ka_patch = (\<lambda>_. None),
      ka_conflict = (\<lambda>_. False),
      ka_registry = \<lparr>re_idms = Inr [], re_icsp = Inr [], re_machineConfig = Inl (NotFound []), re_unmarshal = (\<lambda>_. Inr []), re_crdVersions = Inr [],
        re_policies = (\<lambda>_. Inr []), re_imageConfig = Inr [], re_caConfigMap = (\<lambda>n. Inl (NotFound n))\<rparr>,
      ka_file = (\<lambda>p. if p = ''u'' then Inr ''DA'' else Inl (NotFound p)), ka_ensureSecret = (\<lambda>_. None), ka_blocks = toy_blocks False,
      ka_parse = (\<lambda>b. Inr \<lparr>x5_IssuerCN = [], x5_Raw = b, x5_NotAfter = if b = ''D'' then 0 else 10 ^ 15\<rparr>), ka_hash = (\<lambda>b. Inr b),
      ka_encode = (\<lambda>b. if pb_Bytes b \<in> {[CHR ''A''], [CHR ''B''], [CHR ''C'']} \<and> pb_Type b = ''CERTIFICATE'' \<and> pb_Headers b = [] then Inr (pb_Bytes b) else Inl (OtherError []))\<rparr>"

definition sample_ca_run :: "ca_run" where
  "sample_ca_run =
     \<lparr>ca_cp = sample_plane False None, ca_CAList = [], ca_CaBundleSecretName = [], ca_bundle = [], ca_only = [],
      ca_issuers = [\<lparr>kis_Name = ''mine'', kis_Labels = [], kis_Annotations = []\<rparr>, \<lparr>kis_Name = ''old'', kis_Labels = [(''i'', [])], kis_Annotations = []\<rparr>],
      ca_log = [], ca_requeue = False\<rparr>"

text \<open>What is observed of a run: the hashes, the last action and the issuers with the internal label.\<close>

definition ca_observed :: "ca_run step \<Rightarrow> (string list \<times> ca_action \<times> string list) option" where
  "ca_observed s = (case s of
       Next r \<Rightarrow> Some (map k_hash (ca_bundle r), last (ca_log r), map kis_Name (filter (selected_by [(''i'', [])]) (ca_issuers r)))
     | _ \<Rightarrow> None)"

lemma sample_ca_first:
  "ca_observed (ReconcileCAs_run list_condlib (sample_ca_env []) sample_ca_run)
     = Some ([''A'', ''B'', ''C''], WriteBundle [(''all'', ''# '' @ [CHR 0x0A] @ ''A# '' @ [CHR 0x0A] @ ''B# '' @ [CHR 0x0A] @ ''C''),
         (''internal'', ''# '' @ [CHR 0x0A] @ ''A# '' @ [CHR 0x0A] @ ''B# '' @ [CHR 0x0A] @ ''C'')], [''mine''])"
  by code_simp

definition sample_pem :: string where
  "sample_pem = ''# '' @ [CHR 0x0A] @ ''A# '' @ [CHR 0x0A] @ ''B# '' @ [CHR 0x0A] @ ''C''"

lemma sample_ca_second:
  "ca_observed (ReconcileCAs_run list_condlib (sample_ca_env sample_pem) sample_ca_run)
     = Some ([''A'', ''B'', ''C''], WriteBundle [(''all'', sample_pem), (''internal'', sample_pem)], [''mine''])"
  by code_simp

lemma ca_observedE:
  assumes "ca_observed s = Some (hs, a, ns)"
  obtains r where "s = Next r" "map k_hash (ca_bundle r) = hs" "last (ca_log r) = a"
    "map kis_Name (filter (selected_by [(''i'', [])]) (ca_issuers r)) = ns"
  using assms by (auto simp: ca_observed_def split: step.splits)

theorem trust_bundle_witness:
  "\<exists>r. ReconcileCAs_run list_condlib (sample_ca_env []) sample_ca_run = Next r
     \<and> map k_hash (ca_bundle r) = [''A'', ''B'', ''C''] \<and> distinct (map k_hash (ca_bundle r))
     \<and> k_hash ` certs_in (sample_ca_env []) ''DA'' \<subseteq> {''A'', ''B'', ''C''}"
proof -
  obtain r where r: "ReconcileCAs_run list_condlib (sample_ca_env []) sample_ca_run = Next r" "map k_hash (ca_bundle r) = [''A'', ''B'', ''C'']"
    using sample_ca_first by (rule ca_observedE)
  have d: "''DA'' \<in> set (trust_sources (sample_ca_env []))" by code_simp
  have "k_hash ` set (ca_bundle r) = {''A'', ''B'', ''C''}" using arg_cong [OF r(2), of set] by simp
  then have "k_hash ` certs_in (sample_ca_env []) ''DA'' \<subseteq> {''A'', ''B'', ''C''}"
    using trust_bundle [OF r(1)] d by (metis (no_types, lifting) UN_upper Un_iff set_append)
  then show ?thesis using r trust_bundle [OF r(1)] by (intro exI [of _ r]) simp
qed

lemma sample_pem_laws: "pem_laws (sample_ca_env stored)"
  by (auto simp: pem_laws_def sample_ca_env_def toy_comment split: if_splits)

lemma sample_issuer_laws: "issuer_laws (sample_ca_env stored)"
  by (auto simp: issuer_laws_def sample_ca_env_def inj_def labelled_def map_add_def split: ca_kind.splits option.splits)

theorem label_of_issuer_in_effect_witness:
  "\<exists>r i. ReconcileCAs_run list_condlib (sample_ca_env []) sample_ca_run = Next r \<and> i \<in> set (ca_issuers r)
     \<and> selected_by [(ka_label (sample_ca_env []) InternalCA, [])] i \<and> kis_Name i = issuer_in_effect (sample_ca_env []) InternalCA"
proof -
  obtain r where r: "ReconcileCAs_run list_condlib (sample_ca_env []) sample_ca_run = Next r"
      "map kis_Name (filter (selected_by [(''i'', [])]) (ca_issuers r)) = [''mine'']"
    using sample_ca_first by (rule ca_observedE)
  have "filter (selected_by [(''i'', [])]) (ca_issuers r) \<noteq> []" using r(2) by auto
  then obtain i where i: "i \<in> set (ca_issuers r)" "selected_by [(''i'', [])] i" by (auto simp: filter_empty_conv)
  moreover have "ka_label (sample_ca_env []) InternalCA = ''i''" by (simp add: sample_ca_env_def)
  ultimately show ?thesis using label_of_issuer_in_effect [OF r(1) sample_issuer_laws, of i InternalCA] r(1) by auto
qed

theorem bundle_settles_witness:
  "\<exists>r r'. ReconcileCAs_run list_condlib (sample_ca_env []) sample_ca_run = Next r
     \<and> ReconcileCAs_run list_condlib (sample_ca_env sample_pem) sample_ca_run = Next r' \<and> ca_bundle r' = ca_bundle r \<and> last (ca_log r') = last (ca_log r)"
proof -
  let ?e = "sample_ca_env []" and ?e' = "sample_ca_env sample_pem" and ?data = "[(''all'', sample_pem), (''internal'', sample_pem)]"
  obtain r where r: "ReconcileCAs_run list_condlib ?e sample_ca_run = Next r" "last (ca_log r) = WriteBundle ?data"
    using sample_ca_first unfolding sample_pem_def by (rule ca_observedE)
  obtain r' where r': "ReconcileCAs_run list_condlib ?e' sample_ca_run = Next r'" using sample_ca_second by (rule ca_observedE)
  obtain b where "ca_bundle r = gather ?e (stored_pem ?e (ka_CABundleKey ?e) @ trust_sources ?e) []"
      "ca_only r = gather ?e (stored_pem ?e (ka_InternalCABundleKey ?e) @ ca_sources ?e) []"
    using r(1) by (rule ReconcileCAs_Next)
  then have "\<forall>c \<in> set (ca_bundle r @ ca_only r). genuine ?e c" using gather_genuine by (metis UnE set_append)
  moreover have "genuine ?e c \<Longrightarrow> x5_IssuerCN (k_cert c) = []" for c
    by (auto simp: genuine_def sample_ca_env_def dest!: arg_cong [where f = x5_IssuerCN])
  ultimately have names: "plain_names (ca_bundle r @ ca_only r)"
    unfolding plain_names_def list_all_iff by (metis empty_iff list.set(1))
  have same: "pem_certs ?e' = pem_certs ?e"
    by (rule pem_certs_cong) (simp_all add: sample_ca_env_def)
  have "ca_pem ?e' = ca_pem ?e" by (intro ext) (simp add: ca_pem_def ca_secret_def ca_name_def sample_ca_env_def)
  then have ca: "ca_sources ?e' = ca_sources ?e" by (simp add: ca_sources_def)
  have "user_pems ?e' = user_pems ?e" "mirror_pems ?e' = mirror_pems ?e" "operator_pem ?e' = operator_pem ?e"
    by (simp_all add: user_pems_def mirror_pems_def operator_pem_def sample_ca_env_def)
  then have "trust_sources ?e' = trust_sources ?e" using ca by (simp add: trust_sources_def)
  then have "later ?e ?e' ?data" unfolding later_def same using ca by (simp add: sample_ca_env_def sample_pem_def)
  from bundle_settles [OF sample_pem_laws r(1) names _ r(2) this r'] show ?thesis using r r' by (simp add: sample_ca_env_def)
qed

text \<open>An issuer of the user that is not a CA issuer makes the reconciliation panic.\<close>

lemma custom_issuer_panics:
  assumes "removeIssuerLabel env name labels run = Next a" and "get_issuer env name a = Inr i" and "ka_caSecret env name = None"
  shows "customCA L env name labels annotations run = Panic"
  using assms by (simp add: customCA_def addIssuerLabelAnnotation_def)

text \<open>The condition says that the CAs are ready before the bundle is written: with an operator image without a bundle the function fails
  and the condition stays true.\<close>

lemma ready_without_bundle:
  assumes "condlib_laws L" and "mark_ca_ready L run = Next a" and "operator_bundle env a = Return (Some e) r"
  shows "lc_IsTrue L (cp_conds (ca_cp r)) CAReadyCondition"
proof -
  have "ca_cp r = ca_cp a"
    using assms(3) by (auto simp: operator_bundle_def read_all_def Let_def split: sum.splits if_splits prod.splits option.splits)
  then show ?thesis using assms(1,2) by (auto simp: mark_ca_ready_def ca_upd_conds_def upd_cp_conds_def cp_conds_def)
qed

end
