(* ===== verification/Operator_Bindata.thy ===== *)
theory Operator_Bindata
  imports CA_Bundles
begin

text \<open>
  Manifests of the operator: \<open>internal/operator/bindata/merge.go\<close>, \<open>apply.go\<close> and \<open>render.go\<close>.

  An unstructured object is a \<open>manifest\<close>: its metadata and the fields the code reads or writes, as the accessors of apimachinery see
  them (\<open>Missing\<close>, of another type with the error of the accessor, or \<open>Found\<close>); \<open>mf_Rest\<close> is all the rest.  \<open>mf_specError\<close> is the
  error of writing below \<open>spec\<close>, for an object whose \<open>spec\<close> is not a map.  Labels and annotations may be missing; setting them makes them
  present, even if there are none.  Reading files, templates and YAML are parameters.
\<close>

subsection \<open>Manifests\<close>

record webhook_config =
  wc_name :: string
  wc_clientConfig :: "string ptr ptr"

text \<open>An entry of \<open>webhooks\<close>; \<open>None\<close> is one that is not a map.  The client configuration may be missing, and its \<open>caBundle\<close> too.\<close>

type_synonym webhook_entry = "webhook_config option"

record object_meta =
  om_CreationTimestamp :: string
  om_SelfLink :: string
  om_Generation :: int
  om_UID :: string
  om_ResourceVersion :: string

record manifest =
  mf_Group :: string
  mf_Version :: string
  mf_Kind :: string
  mf_Name :: string
  mf_Namespace :: string
  mf_Meta :: object_meta
  mf_Labels :: "(string, string) gomap option"
  mf_Annotations :: "(string, string) gomap option"
  mf_Controller :: "string option"
  mf_webhooks :: "webhook_entry list option"
  mf_clusterIP :: "string nested"
  mf_ipFamily :: "string nested"
  mf_specError :: "string option"
  mf_secrets :: "string list nested"
  mf_imagePullSecrets :: "string list nested"
  mf_Rest :: string

definition or_empty :: "('k, 'v) gomap option \<Rightarrow> ('k, 'v) gomap" where
  "or_empty m = (case m of None \<Rightarrow> [] | Some x \<Rightarrow> x)"

definition is_webhook_configuration :: "manifest \<Rightarrow> bool" where
  "is_webhook_configuration m \<longleftrightarrow> mf_Group m = ''admissionregistration.k8s.io''
     \<and> (mf_Kind m = ''MutatingWebhookConfiguration'' \<or> mf_Kind m = ''ValidatingWebhookConfiguration'')"

subsection \<open>Merging\<close>

definition caBundleByName :: "webhook_entry list \<Rightarrow> (string, string) gomap" where
  "caBundleByName hooks =
     fold (\<lambda>h m. case h of
             None \<Rightarrow> m
           | Some w \<Rightarrow> if wc_name w = [] then m
                      else (case wc_clientConfig w of Some (Some ca) \<Rightarrow> gomap_put (wc_name w) ca m | _ \<Rightarrow> m))
       hooks []"

definition keep_ca_bundle :: "(string, string) gomap \<Rightarrow> webhook_entry \<Rightarrow> webhook_entry" where
  "keep_ca_bundle m h =
     (case h of
        None \<Rightarrow> None
      | Some w \<Rightarrow>
          if wc_name w = [] then h
          else (case map_of m (wc_name w) of
                  None \<Rightarrow> h
                | Some ca \<Rightarrow> (case wc_clientConfig w of None \<Rightarrow> h | Some _ \<Rightarrow> Some (w\<lparr>wc_clientConfig := Some (Some ca)\<rparr>))))"

definition MergeWebhookConfigurationForUpdate :: "manifest \<Rightarrow> manifest \<Rightarrow> manifest" where
  "MergeWebhookConfigurationForUpdate current updated =
     (if \<not> is_webhook_configuration updated then updated
      else (case (mf_webhooks current, mf_webhooks updated) of
              (Some cs, Some us) \<Rightarrow> updated\<lparr>mf_webhooks := Some (map (keep_ca_bundle (caBundleByName cs)) us)\<rparr>
            | _ \<Rightarrow> updated))"

definition deploymentRevisionAnnotation :: string where "deploymentRevisionAnnotation = ''deployment.kubernetes.io/revision''"

definition MergeDeploymentForUpdate :: "manifest \<Rightarrow> manifest \<Rightarrow> manifest" where
  "MergeDeploymentForUpdate current updated =
     (if mf_Group updated = ''apps'' \<and> mf_Kind updated = ''Deployment''
      then updated\<lparr>mf_Annotations := Some
             (case map_of (or_empty (mf_Annotations current)) deploymentRevisionAnnotation of
                None \<Rightarrow> or_empty (mf_Annotations updated)
              | Some anno \<Rightarrow> gomap_put deploymentRevisionAnnotation anno (or_empty (mf_Annotations updated)))\<rparr>
      else updated)"

text \<open>A field that is found in the current object is written to the updated one.\<close>

definition keep_nested :: "'a nested \<Rightarrow> string option \<Rightarrow> ('a nested \<Rightarrow> manifest) \<Rightarrow> manifest \<Rightarrow> api_error + manifest" where
  "keep_nested field setError put updated =
     (case field of
        BadType e \<Rightarrow> Inl (OtherError e)
      | Missing \<Rightarrow> Inr updated
      | Found _ \<Rightarrow> (case setError of Some e \<Rightarrow> Inl (OtherError e) | None \<Rightarrow> Inr (put field)))"

definition MergeServiceForUpdate :: "manifest \<Rightarrow> manifest \<Rightarrow> api_error + manifest" where
  "MergeServiceForUpdate current updated =
     (if mf_Group updated = [] \<and> mf_Kind updated = ''Service''
      then (case keep_nested (mf_clusterIP current) (mf_specError updated) (\<lambda>f. updated\<lparr>mf_clusterIP := f\<rparr>) updated of
              Inl e \<Rightarrow> Inl e
            | Inr m \<Rightarrow> keep_nested (mf_ipFamily current) (mf_specError m) (\<lambda>f. m\<lparr>mf_ipFamily := f\<rparr>) m)
      else Inr updated)"

definition MergeServiceAccountForUpdate :: "manifest \<Rightarrow> manifest \<Rightarrow> api_error + manifest" where
  "MergeServiceAccountForUpdate current updated =
     (if mf_Group updated = [] \<and> mf_Kind updated = ''ServiceAccount''
      then (case keep_nested (mf_secrets current) None (\<lambda>f. updated\<lparr>mf_secrets := f\<rparr>) updated of
              Inl e \<Rightarrow> Inl e
            | Inr m \<Rightarrow> keep_nested (mf_imagePullSecrets current) None (\<lambda>f. m\<lparr>mf_imagePullSecrets := f\<rparr>) m)
      else Inr updated)"

definition mergeAnnotations :: "manifest \<Rightarrow> manifest \<Rightarrow> manifest" where
  "mergeAnnotations current updated = 
     updated\<lparr>mf_Annotations := Some (gomap_copy_into (or_empty (mf_Annotations updated)) (or_empty (mf_Annotations current)))\<rparr>"

definition mergeLabels :: "manifest \<Rightarrow> manifest \<Rightarrow> manifest" where
  "mergeLabels current updated =
     (let l0 = gomap_copy_into (or_empty (mf_Labels updated)) (or_empty (mf_Labels current));
          l1 = (if mf_Group updated = ''apiextensions.k8s.io'' \<and> mf_Kind updated = ''CustomResourceDefinition''
                then gomap_put ''openstack.openstack.org/crd'' [] l0 else l0);
          l2 = (if is_webhook_configuration updated then gomap_put ''openstack.openstack.org/managed'' ''true'' l1 else l1)
      in updated\<lparr>mf_Labels := Some (gomap_del ''olm.managed'' l2)\<rparr>)"

definition MergeMetadataForUpdate :: "manifest \<Rightarrow> manifest \<Rightarrow> manifest" where
  "MergeMetadataForUpdate current updated = mergeLabels current (mergeAnnotations current (updated\<lparr>mf_Meta := mf_Meta current\<rparr>))"

definition MergeObjectForUpdate :: "manifest \<Rightarrow> manifest \<Rightarrow> api_error + manifest" where
  "MergeObjectForUpdate current updated =
     (case MergeServiceForUpdate current (MergeDeploymentForUpdate current (MergeWebhookConfigurationForUpdate current updated)) of
        Inl e \<Rightarrow> Inl e
      | Inr m \<Rightarrow>
          (case MergeServiceAccountForUpdate current m of
             Inl e \<Rightarrow> Inl e
           | Inr m1 \<Rightarrow> Inr (MergeMetadataForUpdate current m1)))"

definition IsObjectSupported :: "manifest \<Rightarrow> api_error option" where
  "IsObjectSupported m =
     (if mf_Group m = [] \<and> mf_Kind m = ''ServiceAccount''
      then (case mf_secrets m of
              BadType e \<Rightarrow> Some (OtherError e)
            | Missing \<Rightarrow> None
            | Found ss \<Rightarrow> if ss \<noteq> [] then Some (OtherError ''cannot create ServiceAccount with secrets'') else None)
      else None)"

subsection \<open>Applying\<close>

datatype apply_action = CreateObject manifest | UpdateObject manifest

record apply_env =
  ay_gvk :: "manifest \<Rightarrow> string"
  ay_get :: "manifest \<Rightarrow> api_error + manifest"
  ay_create :: "manifest \<Rightarrow> api_error option"
  ay_update :: "manifest \<Rightarrow> api_error option"

text \<open>\<open>equality.Semantic.DeepEqual\<close> on the contents of unstructured objects: maps are compared as maps, and a missing entry differs from an
  empty one.\<close>

definition same_entry :: "(string, string) gomap option \<Rightarrow> (string, string) gomap option \<Rightarrow> bool" where
  "same_entry a b = (case (a, b) of (None, None) \<Rightarrow> True | (Some x, Some y) \<Rightarrow> same_map x y | _ \<Rightarrow> False)"

definition same_manifest :: "manifest \<Rightarrow> manifest \<Rightarrow> bool" where
  "same_manifest a b \<longleftrightarrow> same_entry (mf_Labels a) (mf_Labels b) \<and> same_entry (mf_Annotations a) (mf_Annotations b)
     \<and> a\<lparr>mf_Labels := None, mf_Annotations := None\<rparr> = b\<lparr>mf_Labels := None, mf_Annotations := None\<rparr>"

definition objDesc :: "apply_env \<Rightarrow> manifest \<Rightarrow> string" where
  "objDesc env m = ''('' @ ay_gvk env m @ '') '' @ mf_Namespace m @ ''/'' @ mf_Name m"

text \<open>\<open>errors.Wrapf\<close> puts the message in front.\<close>

definition wrapf :: "string \<Rightarrow> api_error \<Rightarrow> api_error" where
  "wrapf m e = wrap_err (m @ '': '') e"

definition ApplyObject :: "apply_env \<Rightarrow> manifest \<Rightarrow> apply_action list \<times> api_error option" where
  "ApplyObject env m =
     (if mf_Name m = [] then ([], Some (OtherError (''Object '' @ ay_gvk env m @ '' has no name'')))
      else (case IsObjectSupported m of
              Some e \<Rightarrow> ([], Some (wrapf (''object '' @ objDesc env m @ '' unsupported'') e))
            | None \<Rightarrow>
                (case ay_get env m of
                   Inl e \<Rightarrow>
                     if IsNotFound e
                     then ([CreateObject m], map_option (wrapf (''could not create '' @ objDesc env m)) (ay_create env m))
                     else ([], Some (wrapf (''could not retrieve existing '' @ objDesc env m) e))
                 | Inr existing \<Rightarrow>
                     (case MergeObjectForUpdate existing m of
                        Inl e \<Rightarrow> ([], Some (wrapf (''could not merge object '' @ objDesc env m @ '' with existing'') e))
                      | Inr merged \<Rightarrow>
                          if same_manifest existing merged then ([], None)
                          else ([UpdateObject merged], map_option (wrapf (''could not update object '' @ objDesc env m)) (ay_update env merged))))))"

subsection \<open>Rendering\<close>

type_synonym env_var = "string \<times> string"

definition hasEnvVar :: "env_var list \<Rightarrow> string \<Rightarrow> bool" where
  "hasEnvVar vars name = list_ex (\<lambda>(n, _). n = name) vars"

definition isEnvVarTrue :: "env_var list \<Rightarrow> string \<Rightarrow> bool" where
  "isEnvVarTrue vars name = (case map_of vars name of None \<Rightarrow> False | Some v \<Rightarrow> ToLower v = ''true'')"

definition isEnvVarFalse :: "env_var list \<Rightarrow> string \<Rightarrow> bool" where
  "isEnvVarFalse vars name = (case map_of vars name of None \<Rightarrow> True | Some v \<Rightarrow> ToLower v = ''false'')"

text \<open>The files below a directory in the order of \<open>filepath.Walk\<close>, with whether each is a directory or the error for it; the text of a file
  rendered as a template (parsed, executed), and the objects decoded from a text until the end of it.\<close>

record render_env =
  rv_walk :: "string \<Rightarrow> (string \<times> (api_error + bool)) list"
  rv_read :: "string \<Rightarrow> api_error + string"
  rv_parse :: "string \<Rightarrow> api_error option"
  rv_execute :: "string \<Rightarrow> api_error + string"
  rv_decode :: "string \<Rightarrow> api_error + manifest list"

definition RenderTemplate :: "render_env \<Rightarrow> string \<Rightarrow> api_error + manifest list" where
  "RenderTemplate env path =
     (case rv_read env path of
        Inl e \<Rightarrow> Inl (wrapf (''failed to read manifest '' @ path) e)
      | Inr source \<Rightarrow>
          (case rv_parse env source of
             Some e \<Rightarrow> Inl (wrapf (''failed to parse manifest '' @ path @ '' as template'') e)
           | None \<Rightarrow>
               (case rv_execute env source of
                  Inl e \<Rightarrow> Inl (wrapf (''failed to render manifest '' @ path) e)
                | Inr rendered \<Rightarrow>
                    if TrimSpace rendered = [] then Inr []
                    else (case rv_decode env rendered of
                            Inl e \<Rightarrow> Inl (wrapf (''failed to unmarshal manifest '' @ path) e)
                          | Inr objs \<Rightarrow> Inr objs))))"

definition is_manifest_file :: "string \<Rightarrow> bool" where
  "is_manifest_file path \<longleftrightarrow> suffix ''.yml'' path \<or> suffix ''.yaml'' path \<or> suffix ''.json'' path"

fun render_files :: "render_env \<Rightarrow> (string \<times> (api_error + bool)) list \<Rightarrow> manifest list \<Rightarrow> api_error + manifest list" where
  "render_files env [] out = Inr out"
| "render_files env ((path, Inl e) # fs) out = Inl e"
| "render_files env ((path, Inr isDir) # fs) out =
     (if isDir \<or> \<not> is_manifest_file path then render_files env fs out
      else (case RenderTemplate env path of Inl e \<Rightarrow> Inl e | Inr objs \<Rightarrow> render_files env fs (out @ objs)))"

definition RenderDir :: "render_env \<Rightarrow> string \<Rightarrow> api_error + manifest list" where
  "RenderDir env dir =
     (case render_files env (rv_walk env dir) [] of Inl e \<Rightarrow> Inl (wrapf ''error rendering manifests'' e) | Inr out \<Rightarrow> Inr out)"

end
