(* ===== verification/Operator_Overrides.thy ===== *)
theory Operator_Overrides
  imports Operator_Bindata
begin

text \<open>
  The deployments of the service operators: \<open>internal/operator/override.go\<close>, \<open>api/operator/v1beta1/openstack_types.go\<close> and
  \<open>SetupEnv\<close> and the first half of \<open>applyOperator\<close> of \<open>internal/controller/operator/openstack_controller.go\<close>.

  A quantity is its value, rounded up to a whole number as \<open>Quantity.Value\<close> does, and its text.
\<close>

subsection \<open>Types\<close>

record quantity =
  q_Value :: int
  q_String :: string

record k8s_resources =
  kr_cpu :: "quantity option"
  kr_memory :: "quantity option"

record toleration =
  to_Key :: string
  to_Operator :: string
  to_Effect :: string
  to_Seconds :: "int ptr"

record OperatorSpec =
  op_Name :: string
  op_Replicas :: "int ptr"
  op_Limits :: "k8s_resources ptr"
  op_Requests :: "k8s_resources ptr"
  op_Tolerations :: "toleration list"

record ResourceList =
  rl_CPU :: string
  rl_Memory :: string

record service_operator =
  so_Name :: string
  so_Namespace :: string
  so_Replicas :: "int ptr"
  so_Image :: string
  so_Env :: "env_var list"
  so_Limits :: "ResourceList ptr"
  so_Requests :: "ResourceList ptr"
  so_Tolerations :: "toleration list"

definition DefaultTolerations :: "toleration list" where
  "DefaultTolerations =
     map (\<lambda>k. \<lparr>to_Key = k, to_Operator = ''Exists'', to_Effect = ''NoExecute'', to_Seconds = Some 120\<rparr>)
       [''node.kubernetes.io/not-ready'', ''node.kubernetes.io/unreachable'']"

definition OpenStackOperatorName :: string where "OpenStackOperatorName = ''openstack''"
definition InfraOperatorName :: string where "InfraOperatorName = ''infra''"
definition OpenStackBaremetalOperatorName :: string where "OpenStackBaremetalOperatorName = ''openstack-baremetal''"

definition plain_spec :: "string \<Rightarrow> OperatorSpec" where
  "plain_spec name = \<lparr>op_Name = name, op_Replicas = None, op_Limits = None, op_Requests = None, op_Tolerations = []\<rparr>"

definition large_spec :: "string \<Rightarrow> OperatorSpec" where
  "large_spec name = (plain_spec name)
     \<lparr>op_Requests := Some \<lparr>kr_cpu = None, kr_memory = Some \<lparr>q_Value = 512 * 2 ^ 20, q_String = ''512Mi''\<rparr>\<rparr>,
      op_Limits := Some \<lparr>kr_cpu = None, kr_memory = Some \<lparr>q_Value = 2 ^ 30, q_String = ''1Gi''\<rparr>\<rparr>\<rparr>"

definition OperatorList :: "OperatorSpec list" where
  "OperatorList =
     [large_spec OpenStackOperatorName]
     @ map plain_spec [''barbican'', ''cinder'', ''designate'', ''glance'', ''heat'', ''horizon'']
     @ [large_spec InfraOperatorName]
     @ map plain_spec [''ironic'', ''keystone'', ''manila'', ''mariadb'', ''neutron'', ''nova'', ''octavia'', OpenStackBaremetalOperatorName, ''ovn'',
         ''swift'', ''telemetry'', ''test'', ''watcher'']"

subsection \<open>Overrides\<close>

definition HasOverrides :: "OperatorSpec list \<Rightarrow> string \<Rightarrow> OperatorSpec option" where
  "HasOverrides overrides name = (case filter (\<lambda>c. op_Name c = name) overrides of [] \<Rightarrow> None | o1 # _ \<Rightarrow> Some o1)"

fun put_toleration :: "toleration \<Rightarrow> toleration list \<Rightarrow> toleration list" where
  "put_toleration t [] = [t]"
| "put_toleration t (u # us) = (if to_Key u = to_Key t then t # us else u # put_toleration t us)"

definition mergeTolerations :: "toleration list \<Rightarrow> toleration list \<Rightarrow> toleration list" where
  "mergeTolerations defaults custom = fold put_toleration custom defaults"

definition set_quantity :: "quantity option \<Rightarrow> string \<Rightarrow> string" where
  "set_quantity q old = (case q of Some v \<Rightarrow> if q_Value v > 0 then q_String v else old | None \<Rightarrow> old)"

definition override_resources :: "k8s_resources ptr \<Rightarrow> ResourceList ptr \<Rightarrow> ResourceList ptr" where
  "override_resources new old =
     (case new of
        None \<Rightarrow> old
      | Some r \<Rightarrow>
          (let base = (case old of None \<Rightarrow> \<lparr>rl_CPU = [], rl_Memory = []\<rparr> | Some b \<Rightarrow> b)
           in Some \<lparr>rl_CPU = set_quantity (kr_cpu r) (rl_CPU base), rl_Memory = set_quantity (kr_memory r) (rl_Memory base)\<rparr>))"

definition SetOverrides :: "OperatorSpec \<Rightarrow> service_operator \<Rightarrow> service_operator" where
  "SetOverrides ovr op =
     (let op1 = (case op_Replicas ovr of None \<Rightarrow> op | Some n \<Rightarrow> op\<lparr>so_Replicas := Some n\<rparr>);
          op2 = op1\<lparr>so_Limits := override_resources (op_Limits ovr) (so_Limits op1)\<rparr>;
          op3 = op2\<lparr>so_Requests := override_resources (op_Requests ovr) (so_Requests op2)\<rparr>
      in if op_Tolerations ovr \<noteq> [] then op3\<lparr>so_Tolerations := mergeTolerations (so_Tolerations op3) (op_Tolerations ovr)\<rparr> else op3)"

definition empty_operator :: service_operator where
  "empty_operator = \<lparr>so_Name = [], so_Namespace = [], so_Replicas = None, so_Image = [], so_Env = [], so_Limits = None, so_Requests = None,
     so_Tolerations = []\<rparr>"

text \<open>\<open>slices.IndexFunc\<close>: the first index, or -1.\<close>

definition GetOperator :: "service_operator list \<Rightarrow> string \<Rightarrow> int \<times> service_operator" where
  "GetOperator ops name =
     (let n = length (takeWhile (\<lambda>o1. so_Name o1 \<noteq> name) ops)
      in if n < length ops then (int n, ops ! n) else (-1, empty_operator))"

subsection \<open>Environment of the operator\<close>

record op_vars =
  ov_operatorImages :: "(string, string) gomap"
  ov_serviceImages :: "(string, string) gomap"
  ov_operatorImage :: string
  ov_release :: string
  ov_lease :: string
  ov_renew :: string
  ov_retry :: string

definition no_vars :: op_vars where
  "no_vars = \<lparr>ov_operatorImages = [], ov_serviceImages = [], ov_operatorImage = [], ov_release = [], ov_lease = [], ov_renew = [], ov_retry = []\<rparr>"

definition TrimPrefix :: "string \<Rightarrow> string \<Rightarrow> string" where
  "TrimPrefix s p = (if prefix p s then drop (length p) s else s)"

definition operator_of_var :: "string \<Rightarrow> string" where
  "operator_of_var name =
     map (\<lambda>c. if c = CHR ''_'' then CHR ''-'' else c)
       (ToLower (TrimSuffix (TrimPrefix name ''RELATED_IMAGE_'') ''_OPERATOR_MANAGER_IMAGE_URL''))"

text \<open>One variable, split at every \<open>=\<close>: the value is the part between the first and the second; a variable without \<open>=\<close> panics where its
  value is read.\<close>

definition setup_var :: "string \<Rightarrow> op_vars \<Rightarrow> op_vars option" where
  "setup_var entry vs =
     (case split_at (CHR ''='') entry of
        name # rest \<Rightarrow>
          (let value1 = (case rest of [] \<Rightarrow> None | v # _ \<Rightarrow> Some v);
               put = (\<lambda>f. map_option f value1)
           in if suffix ''_OPERATOR_MANAGER_IMAGE_URL'' name
              then put (\<lambda>v. vs\<lparr>ov_operatorImages := gomap_put (operator_of_var name) v (ov_operatorImages vs)\<rparr>)
              else if prefix ''RELATED_IMAGE_'' name then put (\<lambda>v. vs\<lparr>ov_serviceImages := gomap_put name v (ov_serviceImages vs)\<rparr>)
              else if name = ''OPERATOR_IMAGE_URL''
              then put (\<lambda>v. vs\<lparr>ov_operatorImage := v, ov_operatorImages := gomap_put OpenStackOperatorName v (ov_operatorImages vs)\<rparr>)
              else if name = ''OPENSTACK_RELEASE_VERSION'' then put (\<lambda>v. vs\<lparr>ov_release := v\<rparr>)
              else if name = ''LEASE_DURATION'' then put (\<lambda>v. vs\<lparr>ov_lease := v\<rparr>)
              else if name = ''RENEW_DEADLINE'' then put (\<lambda>v. vs\<lparr>ov_renew := v\<rparr>)
              else if name = ''RETRY_PERIOD'' then put (\<lambda>v. vs\<lparr>ov_retry := v\<rparr>)
              else Some vs)
      | [] \<Rightarrow> Some vs)"

fun setup_vars :: "string list \<Rightarrow> op_vars \<Rightarrow> op_vars option" where
  "setup_vars [] vs = Some vs"
| "setup_vars (e # es) vs = (case setup_var e vs of None \<Rightarrow> None | Some vs1 \<Rightarrow> setup_vars es vs1)"

definition SetupEnv :: "string list \<Rightarrow> op_vars option" where
  "SetupEnv environ = setup_vars environ no_vars"

subsection \<open>The deployments\<close>

definition defaultEnv :: "op_vars \<Rightarrow> env_var list" where
  "defaultEnv vs = [(''LEASE_DURATION'', ov_lease vs), (''RENEW_DEADLINE'', ov_renew vs), (''RETRY_PERIOD'', ov_retry vs)]"

definition relatedImagesEnv :: "op_vars \<Rightarrow> env_var list" where
  "relatedImagesEnv vs =
     concat (map (\<lambda>k. case map_of (ov_serviceImages vs) k of None \<Rightarrow> [] | Some v \<Rightarrow> [(k, v)]) (sort (map fst (ov_serviceImages vs))))"

definition webhook_env_of :: "op_vars \<Rightarrow> string \<Rightarrow> env_var list" where
  "webhook_env_of vs name =
     (if name = OpenStackOperatorName then (''OPENSTACK_RELEASE_VERSION'', ov_release vs) # relatedImagesEnv vs
      else if name = OpenStackBaremetalOperatorName then (''ENABLE_WEBHOOKS'', ''true'') # relatedImagesEnv vs
      else if name = InfraOperatorName then [(''ENABLE_WEBHOOKS'', ''true'')]
      else [(''ENABLE_WEBHOOKS'', ''false'')])"

text \<open>The metrics certificates are off for every operator but the openstack operator, which has no case of its own.\<close>

definition metrics_env_of :: "string \<Rightarrow> env_var list" where
  "metrics_env_of name = (if name = OpenStackOperatorName then [] else [(''METRICS_CERTS'', ''false'')])"

definition default_operator :: "op_vars \<Rightarrow> string \<Rightarrow> string \<Rightarrow> string \<Rightarrow> service_operator" where
  "default_operator vs namespace name img =
     \<lparr>so_Name = name, so_Namespace = namespace, so_Replicas = Some 1, so_Image = img,
      so_Env = defaultEnv vs @ webhook_env_of vs name @ metrics_env_of name,
      so_Limits = Some \<lparr>rl_CPU = ''500m'', rl_Memory = ''512Mi''\<rparr>, so_Requests = Some \<lparr>rl_CPU = ''10m'', rl_Memory = ''256Mi''\<rparr>,
      so_Tolerations = DefaultTolerations\<rparr>"

definition service_operator_of :: "op_vars \<Rightarrow> string \<Rightarrow> OperatorSpec list \<Rightarrow> OperatorSpec \<Rightarrow> service_operator option" where
  "service_operator_of vs namespace overrides op =
     map_option (\<lambda>img. let serviceOp = SetOverrides op (default_operator vs namespace (op_Name op) img)
                       in case HasOverrides overrides (op_Name op) of None \<Rightarrow> serviceOp | Some ovr \<Rightarrow> SetOverrides ovr serviceOp)
       (map_of (ov_operatorImages vs) (op_Name op))"

definition service_operators :: "op_vars \<Rightarrow> string \<Rightarrow> OperatorSpec list \<Rightarrow> service_operator list" where
  "service_operators vs namespace overrides = List.map_filter (service_operator_of vs namespace overrides) OperatorList"

definition is_disabled :: "service_operator \<Rightarrow> bool" where
  "is_disabled op \<longleftrightarrow> so_Replicas op = Some 0"

end
