(* ===== verification/Operator_Controller.thy ===== *)
theory Operator_Controller
  imports Operator_Overrides
begin

text \<open>
  The controller of \<open>OpenStack\<close>, which installs the service operators: \<open>internal/controller/operator/openstack_controller.go\<close>.

  \<open>opctl_env\<close> has the variables of the operator (the result of \<open>SetupEnv\<close>) and what the calls of the API server return.  What is written
  or deleted is recorded in \<open>or_log\<close>.  \<open>oe_sort\<close> is \<open>sort.Slice\<close> by the time of creation.  \<open>oe_render\<close> gives the rendering for the data of a
  directory.
\<close>

subsection \<open>State\<close>

record op_status =
  os_Conditions :: "conditions option"
  os_DeployedCount :: "int ptr"
  os_DisabledCount :: "int ptr"
  os_EnabledCount :: "int ptr"
  os_TotalCount :: "int ptr"
  os_ObservedGeneration :: int
  os_ContainerImage :: "string ptr"
  os_ReleaseVersion :: "string ptr"

record os_instance =
  oi_Name :: string
  oi_Namespace :: string
  oi_UID :: string
  oi_Generation :: int
  oi_Deleting :: bool
  oi_Finalizers :: "string list"
  oi_Overrides :: "OperatorSpec list"
  oi_Status :: op_status

record owned_object =
  ow_Name :: string
  ow_Controller :: "string option"
  ow_ReadyReplicas :: int

record ep_address =
  ea_Addresses :: "string list"
  ea_Ready :: "bool ptr"
  ea_Serving :: "bool ptr"

record component_ref =
  cf_Name :: string
  cf_Namespace :: "string option"
  cf_apiVersion :: string
  cf_Kind :: string

datatype render_data =
    CrdData
  | ServicesData string
  | OperatorData string service_operator "service_operator list"

datatype op_action = Applied apply_action | Deleted string string | DeletedInstance | DeletedAllWebhooks

text \<open>Elements of unstructured slices that do not have the type the code asserts are \<open>None\<close>.\<close>

record opctl_env =
  oe_vars :: op_vars
  oe_list :: "api_error + (string \<times> int) list"
  oe_sort :: "(string \<times> int) list \<Rightarrow> (string \<times> int) list"
  oe_reqName :: string
  oe_get :: "api_error + os_instance"
  oe_newHelper :: "api_error option"
  oe_finalizer :: string
  oe_deleteInstance :: "api_error option"
  oe_delete :: "string \<Rightarrow> string \<Rightarrow> api_error option"
  oe_deleteAllWebhooks :: "api_error option"
  oe_webhooks :: "string \<Rightarrow> api_error + string list"
  oe_csvs :: "api_error + string list"
  oe_subscriptions :: "api_error + string list"
  oe_installPlans :: "api_error + (string \<times> string option list nested) list"
  oe_operators :: "api_error + (string \<times> component_ref option list nested) list"
  oe_printRefs :: "component_ref option list \<Rightarrow> string"
  oe_owned :: "string \<Rightarrow> api_error + owned_object list"
  oe_slices :: "api_error + (string \<times> ep_address list) list"
  oe_rabbitClusters :: "api_error + nat"
  oe_allRabbitClusters :: "api_error + nat"
  oe_bindir :: string
  oe_render :: "render_data \<Rightarrow> render_env"
  oe_setController :: "manifest \<Rightarrow> api_error + manifest"
  oe_apply :: apply_env
  oe_print :: "manifest \<Rightarrow> string"
  oe_printList :: "string list \<Rightarrow> string"
  oe_patch :: "api_error option"

record op_run =
  or_instance :: os_instance
  or_log :: "op_action list"
  or_requeue :: bool

definition upd_op_status :: "(op_status \<Rightarrow> op_status) \<Rightarrow> op_run \<Rightarrow> op_run" where
  "upd_op_status f run = run\<lparr>or_instance := (or_instance run)\<lparr>oi_Status := f (oi_Status (or_instance run))\<rparr>\<rparr>"

definition op_conds :: "os_instance \<Rightarrow> conditions" where
  "op_conds i = (case os_Conditions (oi_Status i) of None \<Rightarrow> [] | Some cs \<Rightarrow> cs)"

definition upd_op_conds :: "(conditions \<Rightarrow> conditions) \<Rightarrow> op_run \<Rightarrow> op_run" where
  "upd_op_conds f run = upd_op_status (\<lambda>st. st\<lparr>os_Conditions := Some (f (op_conds (or_instance run)))\<rparr>) run"

definition op_log :: "op_action list \<Rightarrow> op_run \<Rightarrow> op_run" where
  "op_log as run = run\<lparr>or_log := or_log run @ as\<rparr>"

definition OperatorReadyCondition :: string where "OperatorReadyCondition = ''OpenStackOperatorReadyCondition''"
definition DeploymentsReadyCondition :: string where "DeploymentsReadyCondition = ''OpenStackOperatorDeploymentsReadyCondition''"

definition op_failed :: "condlib \<Rightarrow> api_error \<Rightarrow> op_run \<Rightarrow> op_run" where
  "op_failed L e = upd_op_conds (\<lambda>cs. lc_Set L cs (lc_FalseCondition L OperatorReadyCondition ErrorReason SeverityWarning
     (''OpenStackOperator error occured '' @ err_msg e)))"

definition op_come_back :: "op_run \<Rightarrow> op_run step" where
  "op_come_back run = Return None (run\<lparr>or_requeue := True\<rparr>)"

subsection \<open>Deleting\<close>

text \<open>A deletion that tolerates an object that is gone; \<open>wrap\<close> is what is put around another error.\<close>

definition delete_object :: "opctl_env \<Rightarrow> (api_error \<Rightarrow> api_error) \<Rightarrow> string \<Rightarrow> string \<Rightarrow> op_run \<Rightarrow> op_run step" where
  "delete_object env wrap kind name run =
     (let run1 = op_log [Deleted kind name] run
      in case oe_delete env kind name of
           None \<Rightarrow> Next run1
         | Some e \<Rightarrow> if IsNotFound e then Next run1 else Return (Some (wrap e)) run1)"

definition controlled :: "op_run \<Rightarrow> owned_object \<Rightarrow> bool" where
  "controlled run o1 \<longleftrightarrow> ow_Controller o1 = Some (oi_UID (or_instance run))"

definition deleteOwnedResources :: "opctl_env \<Rightarrow> string \<Rightarrow> op_run \<Rightarrow> op_run step" where
  "deleteOwnedResources env kind run =
     (case oe_owned env kind of
        Inl e \<Rightarrow> Return (Some (wrapf ''failed to list resources'' e)) run
      | Inr objs \<Rightarrow>
          run_stages (map (\<lambda>o1 r. if controlled r o1
                                  then delete_object env (wrapf (''failed to delete '' @ ow_Name o1)) kind (ow_Name o1) r else Next r) objs) run)"

definition delete_webhook_configurations :: "opctl_env \<Rightarrow> op_run \<Rightarrow> op_run step" where
  "delete_webhook_configurations env run =
     (let run1 = op_log [DeletedAllWebhooks] run
      in case oe_deleteAllWebhooks env of
           None \<Rightarrow> Next run1
         | Some e \<Rightarrow> if IsNotFound e then Next run1 else Return (Some (wrapf ''failed to delete validating webhooks'' e)) run1)"

definition deleteAllOwnedResources :: "opctl_env \<Rightarrow> op_run \<Rightarrow> op_run step" where
  "deleteAllOwnedResources env =
     run_stages (map (deleteOwnedResources env) [''Deployment'', ''ServiceAccount'', ''Service''] @ [delete_webhook_configurations env])"

definition cleanup_webhooks :: "opctl_env \<Rightarrow> string \<Rightarrow> op_run \<Rightarrow> op_run step" where
  "cleanup_webhooks env kind run =
     (case oe_webhooks env kind of
        Inl e \<Rightarrow> Return (Some (wrapf ''failed listing validating webhook configurations'' e)) run
      | Inr names \<Rightarrow>
          run_stages (map (\<lambda>n r. let r1 = op_log [Deleted kind n] r
                                 in case oe_delete env kind n of None \<Rightarrow> Next r1 | Some e \<Rightarrow> Return (Some (wrapf ''failed to cleanup webhook'' e)) r1) names) run)"

definition op_reconcileDelete :: "opctl_env \<Rightarrow> op_run \<Rightarrow> op_run step" where
  "op_reconcileDelete env run =
     step_bind (run_stages [cleanup_webhooks env ''ValidatingWebhookConfiguration'', cleanup_webhooks env ''MutatingWebhookConfiguration''] run)
       (\<lambda>r. Return None (r\<lparr>or_instance := (or_instance r)\<lparr>oi_Finalizers := RemoveFinalizer (oe_finalizer env) (oi_Finalizers (or_instance r))\<rparr>\<rparr>))"

subsection \<open>Obsolete resources\<close>

definition isServiceOperatorResource :: "string \<Rightarrow> bool" where
  "isServiceOperatorResource name =
     list_ex (\<lambda>item. op_Name item \<noteq> OpenStackOperatorName \<and> prefix (op_Name item) name) OperatorList"

text \<open>Errors of these functions are returned as they are.\<close>

definition cleanup_named :: "opctl_env \<Rightarrow> string \<Rightarrow> (api_error + string list) \<Rightarrow> op_run \<Rightarrow> op_run step" where
  "cleanup_named env kind items run =
     (case items of
        Inl e \<Rightarrow> Return (Some e) run
      | Inr names \<Rightarrow> run_stages (map (delete_object env id kind) (filter isServiceOperatorResource names)) run)"

definition cleanup_install_plan :: "opctl_env \<Rightarrow> string \<times> string option list nested \<Rightarrow> op_run \<Rightarrow> op_run step" where
  "cleanup_install_plan env plan run =
     (case snd plan of
        BadType e \<Rightarrow> Return (Some (OtherError e)) run
      | Missing \<Rightarrow> Next run
      | Found [] \<Rightarrow> Panic
      | Found (None # _) \<Rightarrow> Panic
      | Found (Some csv # _) \<Rightarrow> if isServiceOperatorResource csv then delete_object env id ''InstallPlan'' (fst plan) run else Next run)"

definition cleanup_install_plans :: "opctl_env \<Rightarrow> op_run \<Rightarrow> op_run step" where
  "cleanup_install_plans env run =
     (case oe_installPlans env of Inl e \<Rightarrow> Return (Some e) run | Inr plans \<Rightarrow> run_stages (map (cleanup_install_plan env) plans) run)"

definition cleanupObsoleteResources :: "opctl_env \<Rightarrow> op_run \<Rightarrow> op_run step" where
  "cleanupObsoleteResources env =
     run_stages [cleanup_named env ''ClusterServiceVersion'' (oe_csvs env), cleanup_named env ''Subscription'' (oe_subscriptions env),
                 cleanup_install_plans env]"

text \<open>The objects an operator refers to, then an error that asks for another reconciliation.\<close>

definition cleanup_ref :: "opctl_env \<Rightarrow> component_ref option \<Rightarrow> op_run \<Rightarrow> op_run step" where
  "cleanup_ref env ref run =
     (case ref of
        None \<Rightarrow> Panic
      | Some rf \<Rightarrow> if cf_Kind rf \<noteq> ''CustomResourceDefinition'' then delete_object env id (cf_Kind rf) (cf_Name rf) run else Next run)"

definition cleanup_operator :: "opctl_env \<Rightarrow> string \<times> component_ref option list nested \<Rightarrow> op_run \<Rightarrow> op_run step" where
  "cleanup_operator env op run =
     (if \<not> isServiceOperatorResource (fst op) then Next run
      else (case snd op of
              BadType e \<Rightarrow> Return (Some (OtherError e)) run
            | Found refs \<Rightarrow>
                step_bind (run_stages (map (cleanup_ref env) refs) run)
                  (\<lambda>r. Return (Some (OtherError (''Requeuing/Found references for operator name: '' @ fst op @ '', refs: '' @ oe_printRefs env refs))) r)
            | Missing \<Rightarrow>
                (let run1 = op_log [Deleted ''Operator'' (fst op)] run
                 in case oe_delete env ''Operator'' (fst op) of None \<Rightarrow> Next run1 | Some e \<Rightarrow> Return (Some e) run1)))"

definition postCleanupObsoleteResources :: "opctl_env \<Rightarrow> op_run \<Rightarrow> op_run step" where
  "postCleanupObsoleteResources env run =
     (case oe_operators env of Inl e \<Rightarrow> Return (Some e) run | Inr ops \<Rightarrow> run_stages (map (cleanup_operator env) ops) run)"

definition delete_listed :: "opctl_env \<Rightarrow> (string \<times> string) list \<Rightarrow> op_run \<Rightarrow> op_run step" where
  "delete_listed env resources =
     run_stages (map (\<lambda>(kind, name). delete_object env (wrap_err (''failed to delete '' @ kind @ '' '' @ name @ '': '')) kind name) resources)"

definition rabbitmq_resources :: "(string \<times> string) list" where
  "rabbitmq_resources =
     [(''Deployment'', ''rabbitmq-cluster-operator-manager''), (''ServiceAccount'', ''rabbitmq-cluster-operator-controller-manager''),
      (''Service'', ''rabbitmq-cluster-operator-controller-manager-metrics-service''), (''Role'', ''rabbitmq-cluster-operator-leader-election-role''),
      (''RoleBinding'', ''rabbitmq-cluster-operator-leader-election-rolebinding''), (''Issuer'', ''rabbitmq-cluster-operator-selfsigned-issuer'')]"

definition placement_resources :: "(string \<times> string) list" where
  "placement_resources =
     [(''Deployment'', ''placement-operator-controller-manager''), (''ServiceAccount'', ''placement-operator-controller-manager''),
      (''Service'', ''placement-operator-controller-manager-metrics-service''), (''Role'', ''placement-operator-leader-election-role''),
      (''RoleBinding'', ''placement-operator-leader-election-rolebinding''), (''Issuer'', ''placement-operator-selfsigned-issuer''),
      (''Certificate'', ''placement-operator-metrics-certs'')]"

text \<open>Errors of a listing end the function without an error, whatever they are.\<close>

definition none_left :: "api_error + nat \<Rightarrow> bool" where
  "none_left out = (case out of Inl _ \<Rightarrow> False | Inr n \<Rightarrow> n = 0)"

definition cleanupRabbitMQClusterOperator :: "opctl_env \<Rightarrow> op_run \<Rightarrow> op_run step" where
  "cleanupRabbitMQClusterOperator env run =
     (if \<not> none_left (oe_rabbitClusters env) then Next run
      else step_bind (delete_listed env rabbitmq_resources run)
             (\<lambda>r. if none_left (oe_allRabbitClusters env)
                  then delete_object env (wrap_err ''failed to delete rabbitmqclusters.rabbitmq.com CRD: '') ''CustomResourceDefinition''
                         ''rabbitmqclusters.rabbitmq.com'' r
                  else Next r))"

definition cleanupPlacementOperator :: "opctl_env \<Rightarrow> op_run \<Rightarrow> op_run step" where
  "cleanupPlacementOperator env = delete_listed env placement_resources"

text \<open>The caller logs an error and goes on.\<close>

definition tolerate :: "(op_run \<Rightarrow> op_run step) \<Rightarrow> op_run \<Rightarrow> op_run step" where
  "tolerate f run = (case f run of Return _ r \<Rightarrow> Next r | other \<Rightarrow> other)"

subsection \<open>Manifests\<close>

definition apply_manifest :: "opctl_env \<Rightarrow> bool \<Rightarrow> manifest \<Rightarrow> op_run \<Rightarrow> op_run step" where
  "apply_manifest env setController m run =
     (if mf_Name m = [] then Next run
      else (case (if setController \<and> mf_Namespace m \<noteq> [] then oe_setController env m else Inr m) of
              Inl e \<Rightarrow> Return (Some (wrapf ''failed to set owner reference'' e)) run
            | Inr m1 \<Rightarrow>
                (case ApplyObject (oe_apply env) m1 of
                   (as, err) \<Rightarrow>
                     (let run1 = op_log (map Applied as) run
                      in case err of Some e \<Rightarrow> Return (Some (wrapf (''failed to apply object '' @ oe_print env m1) e)) run1 | None \<Rightarrow> Next run1))))"

definition renderAndApply :: "opctl_env \<Rightarrow> render_data \<Rightarrow> string \<Rightarrow> bool \<Rightarrow> op_run \<Rightarrow> op_run step" where
  "renderAndApply env data dir setController run =
     (let full = oe_bindir env @ ''/'' @ dir
      in case RenderDir (oe_render env data) full of
           Inl e \<Rightarrow> Return (Some (wrapf (''failed to render openstack-operator - '' @ dir) e)) run
         | Inr [] \<Rightarrow> Return (Some (OtherError (''no manifests rendered from '' @ full))) run
         | Inr objs \<Rightarrow> run_stages (map (apply_manifest env setController) objs) run)"

definition applyCRDs :: "opctl_env \<Rightarrow> op_run \<Rightarrow> op_run step" where
  "applyCRDs env = renderAndApply env CrdData ''crds'' False"

definition applyServices :: "opctl_env \<Rightarrow> op_run \<Rightarrow> op_run step" where
  "applyServices env run = renderAndApply env (ServicesData (oi_Namespace (or_instance run))) ''services'' True run"

definition applyOperator :: "opctl_env \<Rightarrow> op_run \<Rightarrow> op_run step" where
  "applyOperator env run =
     (let i = or_instance run; ops = service_operators (oe_vars env) (oi_Namespace i) (oi_Overrides i);
          run1 = upd_op_status (\<lambda>st. st\<lparr>os_DisabledCount := Some (int (length (filter is_disabled ops))),
                   os_EnabledCount := Some (int (length (filter (\<lambda>o1. \<not> is_disabled o1) ops)))\<rparr>) run;
          data = (case GetOperator ops OpenStackOperatorName of
                    (idx, op) \<Rightarrow>
                      if idx \<ge> 0 then OperatorData (oi_Namespace i) op (take (nat idx) ops @ drop (nat idx + 1) ops)
                      else OperatorData (oi_Namespace i) empty_operator ops)
      in renderAndApply env data ''operator'' True run1)"

definition containerImageMatch :: "opctl_env \<Rightarrow> os_instance \<Rightarrow> bool" where
  "containerImageMatch env i \<longleftrightarrow> os_ContainerImage (oi_Status i) = Some (ov_operatorImage (oe_vars env))"

definition applyManifests :: "opctl_env \<Rightarrow> op_run \<Rightarrow> op_run step" where
  "applyManifests env run =
     step_bind (if \<not> containerImageMatch env (or_instance run) then run_stages [applyCRDs env, applyServices env] run else Next run)
       (\<lambda>r. applyOperator env (upd_op_status (\<lambda>st. st\<lparr>os_ContainerImage := Some (ov_operatorImage (oe_vars env))\<rparr>) r))"

subsection \<open>Deployments and endpoints\<close>

text \<open>\<open>strings.Replace(s, old, "", 1)\<close>: the first occurrence is cut out.\<close>

fun cut_first :: "string \<Rightarrow> string \<Rightarrow> string" where
  "cut_first old [] = []"
| "cut_first old (c # s) = (if prefix old (c # s) then drop (length old) (c # s) else c # cut_first old s)"

definition countDeployments :: "opctl_env \<Rightarrow> op_run \<Rightarrow> int \<times> string list \<times> api_error option" where
  "countDeployments env run =
     (case oe_owned env ''Deployment'' of
        Inl e \<Rightarrow> (0, [], Some e)
      | Inr objs \<Rightarrow>
          (let mine = filter (controlled run) objs
           in (int (length (filter (\<lambda>d. ow_ReadyReplicas d > 0) mine)),
               sort (map (\<lambda>d. cut_first ''-cluster-operator-manager'' (cut_first ''-operator-controller-manager'' (ow_Name d)))
                       (filter (\<lambda>d. \<not> ow_ReadyReplicas d > 0) mine)), None)))"

definition isWebhookEndpoint :: "string \<Rightarrow> bool" where
  "isWebhookEndpoint name =
     list_ex (\<lambda>p. prefix p name)
       [''openstack-operator-webhook-service'', ''infra-operator-webhook-service'', ''openstack-baremetal-operator-webhook-service'']"

definition webhook_disabled :: "OperatorSpec list \<Rightarrow> string \<Rightarrow> bool" where
  "webhook_disabled overrides name = list_ex (\<lambda>op. prefix (op_Name op @ ''-operator'') name \<and> op_Replicas op = Some 0) overrides"

text \<open>Whether a slice lets the check pass.  The code compares the pointers to the readiness of an endpoint with the address of a local
  variable, which is never equal, so the readiness does not matter.\<close>

definition slice_healthy :: "ep_address list \<Rightarrow> bool" where
  "slice_healthy endpoints \<longleftrightarrow> endpoints \<noteq> [] \<and> list_all (\<lambda>e. ea_Addresses e \<noteq> []) endpoints"

definition checkServiceEndpoints :: "opctl_env \<Rightarrow> op_run \<Rightarrow> api_error + bool" where
  "checkServiceEndpoints env run =
     (case oe_slices env of
        Inl e \<Rightarrow> if IsNotFound e then Inr False else Inl e
      | Inr slices \<Rightarrow>
          Inr (list_all (\<lambda>(name, endpoints). isWebhookEndpoint name \<and> \<not> webhook_disabled (oi_Overrides (or_instance run)) name
                 \<longrightarrow> slice_healthy endpoints) slices))"

subsection \<open>Reconcile\<close>

definition reinstall :: "condlib \<Rightarrow> opctl_env \<Rightarrow> op_run \<Rightarrow> op_run step" where
  "reinstall L env run =
     (case deleteAllOwnedResources env run of
        Next r \<Rightarrow>
          op_come_back (upd_op_status (\<lambda>st. st\<lparr>os_ContainerImage := None, os_ReleaseVersion := Some (ov_release (oe_vars env))\<rparr>) r)
      | Return (Some e) r \<Rightarrow> Return (Some e) (op_failed L e r)
      | other \<Rightarrow> other)"

definition should_reinstall :: "opctl_env \<Rightarrow> bool \<Rightarrow> os_instance \<Rightarrow> bool" where
  "should_reinstall env isNew i =
     (case os_ReleaseVersion (oi_Status i) of Some v \<Rightarrow> v \<noteq> ov_release (oe_vars env) | None \<Rightarrow> \<not> isNew)"

definition manifests_stage :: "condlib \<Rightarrow> opctl_env \<Rightarrow> op_run \<Rightarrow> op_run step" where
  "manifests_stage L env run =
     (let run1 = upd_op_status (\<lambda>st. if os_ReleaseVersion st = None then st\<lparr>os_ReleaseVersion := Some (ov_release (oe_vars env))\<rparr> else st) run
      in case applyManifests env run1 of Return (Some e) r \<Rightarrow> Return (Some e) (op_failed L e r) | other \<Rightarrow> other)"

definition deployments_stage :: "condlib \<Rightarrow> opctl_env \<Rightarrow> op_run \<Rightarrow> op_run step" where
  "deployments_stage L env run =
     (case countDeployments env run of
        (running, pending, err) \<Rightarrow>
          (let run1 = upd_op_status (\<lambda>st. st\<lparr>os_DeployedCount := Some running\<rparr>) run
           in case err of
                Some e \<Rightarrow> Return (Some e) (op_failed L e run1)
              | None \<Rightarrow>
                  (case os_EnabledCount (oi_Status (or_instance run1)) of
                     None \<Rightarrow> Panic
                   | Some enabled \<Rightarrow>
                       if running < enabled
                       then Return None (upd_op_conds (\<lambda>cs. lc_Set L cs (lc_FalseCondition L DeploymentsReadyCondition RequestedReason SeverityInfo
                              (''OpenStackOperatorDeployments still in progress: '' @ oe_printList env pending))) run1)
                       else Next (upd_op_conds (\<lambda>cs. lc_MarkTrue L cs DeploymentsReadyCondition ''OpenStackOperatorDeployments completed'') run1))))"

definition endpoints_stage :: "condlib \<Rightarrow> opctl_env \<Rightarrow> op_run \<Rightarrow> op_run step" where
  "endpoints_stage L env run =
     (case checkServiceEndpoints env run of
        Inl e \<Rightarrow> Return (Some e) (op_failed L e run)
      | Inr ok \<Rightarrow>
          if \<not> ok then op_come_back run
          else Next (upd_op_conds (\<lambda>cs. lc_MarkTrue L cs OperatorReadyCondition ''OpenStackOperator completed'') run))"

text \<open>The error of the clean-up after the manifests comes with a requeue.\<close>

definition post_cleanup_stage :: "opctl_env \<Rightarrow> op_run \<Rightarrow> op_run step" where
  "post_cleanup_stage env run =
     (case postCleanupObsoleteResources env run of Return (Some e) r \<Rightarrow> Return (Some e) (r\<lparr>or_requeue := True\<rparr>) | other \<Rightarrow> other)"

definition install :: "condlib \<Rightarrow> opctl_env \<Rightarrow> bool \<Rightarrow> op_run \<Rightarrow> op_run step" where
  "install L env isNew =
     run_stages [cleanupObsoleteResources env, tolerate (cleanupRabbitMQClusterOperator env), tolerate (cleanupPlacementOperator env),
       (\<lambda>r. if should_reinstall env isNew (or_instance r) then reinstall L env r else Next r),
       manifests_stage L env, post_cleanup_stage env, deployments_stage L env, endpoints_stage L env]"

definition op_initial :: "condlib \<Rightarrow> conditions" where
  "op_initial L =
     [lc_UnknownCondition L OperatorReadyCondition InitReason ''OpenStackOperator not started'',
      lc_UnknownCondition L DeploymentsReadyCondition InitReason ''OpenStackOperatorDeployments not started'']"

definition op_start :: "condlib \<Rightarrow> opctl_env \<Rightarrow> os_instance \<Rightarrow> op_run" where
  "op_start L env i =
     upd_op_conds (\<lambda>cs. lc_Set L (lc_Init L cs (op_initial L))
         (lc_FalseCondition L OperatorReadyCondition RequestedReason SeverityInfo ''OpenStackOperator in progress''))
       (upd_op_status (\<lambda>st. st\<lparr>os_ObservedGeneration := oi_Generation i, os_TotalCount := Some (int (length OperatorList))\<rparr>)
          \<lparr>or_instance = i, or_log = [], or_requeue = False\<rparr>)"

text \<open>Only the oldest instance is kept.\<close>

definition is_first :: "opctl_env \<Rightarrow> (string \<times> int) list \<Rightarrow> bool" where
  "is_first env items =
     (case (if length items > 1 then oe_sort env items else items) of [] \<Rightarrow> True | (name, _) # _ \<Rightarrow> name = oe_reqName env)"

definition delete_extra :: "condlib \<Rightarrow> opctl_env \<Rightarrow> op_run \<Rightarrow> op_run step" where
  "delete_extra L env run =
     (let run1 = op_log [DeletedInstance] run
      in Return None (case oe_deleteInstance env of None \<Rightarrow> run1 | Some e \<Rightarrow> op_failed L e run1))"

definition op_body :: "condlib \<Rightarrow> opctl_env \<Rightarrow> (string \<times> int) list \<Rightarrow> os_instance \<Rightarrow> op_run step" where
  "op_body L env items i =
     (let isNew = (os_Conditions (oi_Status i) = None);
          added = (\<not> oi_Deleting i \<and> oe_finalizer env \<notin> set (oi_Finalizers i));
          run0 = op_start L env i;
          run = (if added then run0\<lparr>or_instance := (or_instance run0)\<lparr>oi_Finalizers := oi_Finalizers i @ [oe_finalizer env]\<rparr>\<rparr> else run0)
      in if added \<or> isNew then Return None run
         else if \<not> is_first env items then delete_extra L env run
         else if oi_Deleting i then op_reconcileDelete env run
         else install L env isNew run)"

definition op_set_ready :: "condlib \<Rightarrow> op_run \<Rightarrow> op_run" where
  "op_set_ready L = upd_op_conds (\<lambda>cs.
     if lc_AllSubConditionIsTrue L cs then lc_MarkTrue L cs ReadyCondition ReadyMessage
     else (let cs1 = lc_MarkUnknown L cs ReadyCondition InitReason ReadyInitMessage in lc_Set L cs1 (lc_Mirror L cs1 ReadyCondition)))"

text \<open>The run with the instance as it is written (none when nothing is written), whether the result asks for another reconciliation, and
  the error.  \<open>None\<close> is a panic.\<close>

definition op_Reconcile :: "condlib \<Rightarrow> opctl_env \<Rightarrow> (op_run option \<times> bool \<times> api_error option) option" where
  "op_Reconcile L env =
     (case oe_list env of
        Inl e \<Rightarrow> Some (None, False, Some (wrapf ''failed listing all OpenStack instances'' e))
      | Inr items \<Rightarrow>
          (case oe_get env of
             Inl e \<Rightarrow> Some (None, False, if IsNotFound e then None else Some e)
           | Inr i \<Rightarrow>
               (case oe_newHelper env of
                  Some e \<Rightarrow> Some (None, False, Some e)
                | None \<Rightarrow>
                    (let finish = (\<lambda>e r. case oe_patch env of
                                     None \<Rightarrow> Some (Some (op_set_ready L r), or_requeue r, e)
                                   | Some err \<Rightarrow> Some (None, or_requeue r, Some err))
                     in case op_body L env items i of
                          Panic \<Rightarrow> None
                        | Return e r \<Rightarrow> finish e r
                        | Next r \<Rightarrow> finish None r))))"

end
