(* ===== verification/Operator_Merge_Laws.thy ===== *)
theory Operator_Merge_Laws
  imports Operator_Bindata Endpoint_Laws
begin

text \<open>
  Laws of merging and applying manifests: what a merge keeps of the object in the cluster, and that applying a manifest settles.
\<close>

subsection \<open>Merging manifests\<close>

lemma same_map_iff: "same_map a b \<longleftrightarrow> map_of a = map_of b"
proof
  assume s: "same_map a b"
  show "map_of a = map_of b"
  proof
    fix k show "map_of a k = map_of b k"
    proof (cases "k \<in> fst ` set a \<or> k \<in> fst ` set b")
      case False
      then show ?thesis by (metis map_of_eq_None_iff)
    qed (use s in \<open>auto simp: same_map_def list_all_iff\<close>)
  qed
qed (simp add: same_map_def list_all_iff)

definition hook_names :: "webhook_entry list \<Rightarrow> string list" where
  "hook_names hs = filter (\<lambda>n. n \<noteq> []) (List.map_filter (map_option wc_name) hs)"

definition bundle_of :: "webhook_entry \<Rightarrow> (string \<times> string) list" where
  "bundle_of h = (case h of Some w \<Rightarrow> (case wc_clientConfig w of Some (Some ca) \<Rightarrow> if wc_name w = [] then [] else [(wc_name w, ca)] | _ \<Rightarrow> []) | None \<Rightarrow> [])"

lemma caBundleByName_fold:
  "caBundleByName hs = fold (\<lambda>(k, v) m. gomap_put k v m) (concat (map bundle_of hs)) []"
proof -
  have "fold (\<lambda>h m. case h of None \<Rightarrow> m | Some w \<Rightarrow> if wc_name w = [] then m
        else (case wc_clientConfig w of Some (Some ca) \<Rightarrow> gomap_put (wc_name w) ca m | _ \<Rightarrow> m)) hs m
      = fold (\<lambda>(k, v) m. gomap_put k v m) (concat (map bundle_of hs)) m" for m
    by (induction hs arbitrary: m) (auto simp: bundle_of_def split: option.splits)
  then show ?thesis by (simp add: caBundleByName_def)
qed

lemma map_of_caBundleByName: "map_of (caBundleByName hs) = map_of (rev (concat (map bundle_of hs)))"
  by (simp add: caBundleByName_fold map_of_fold_put)

lemma hook_names_simps [simp]:
  "hook_names [] = []" "hook_names (h # hs) = (case h of None \<Rightarrow> [] | Some w \<Rightarrow> if wc_name w = [] then [] else [wc_name w]) @ hook_names hs"
  by (simp_all add: hook_names_def List.map_filter_def split: option.splits)

lemma hook_names_set: "set (hook_names hs) = {wc_name w | w. Some w \<in> set hs \<and> wc_name w \<noteq> []}"
  by (induction hs) (auto split: option.splits)

lemma bundle_of_name: "n \<in> fst ` set (bundle_of h) \<Longrightarrow> \<exists>w. h = Some w \<and> wc_name w = n \<and> n \<noteq> []"
  by (auto simp: bundle_of_def split: option.splits if_splits)

lemma bundles_subset: "fst ` set (concat (map bundle_of hs)) \<subseteq> set (hook_names hs)"
  using bundle_of_name by (fastforce simp: hook_names_set)

lemma bundles_distinct:
  "distinct (hook_names hs) \<Longrightarrow> distinct (map fst (concat (map bundle_of hs)))"
proof (induction hs)
  case (Cons h hs)
  have "fst ` set (bundle_of h) \<inter> set (hook_names hs) = {}"
    using Cons.prems by (auto dest!: bundle_of_name split: option.splits if_splits)
  moreover have "distinct (map fst (bundle_of h))" by (simp add: bundle_of_def split: option.splits)
  ultimately show ?case using Cons bundles_subset [of hs] by auto
qed simp

lemma keep_names: "hook_names (map (keep_ca_bundle m) hs) = hook_names hs"
  by (induction hs) (auto simp: keep_ca_bundle_def split: option.splits)

text \<open>A second merge finds the bundles of the first.\<close>

lemma keep_ca_bundle_again:
  assumes d: "distinct (hook_names hs)" and h: "h \<in> set hs"
  shows "keep_ca_bundle (caBundleByName (map (keep_ca_bundle m) hs)) h = keep_ca_bundle m h"
proof -
  let ?ks = "map (keep_ca_bundle m) hs"
  have look: "map_of (caBundleByName ?ks) = map_of (concat (map bundle_of ?ks))"
    unfolding map_of_caBundleByName by (rule map_of_rev_distinct [OF bundles_distinct]) (simp add: keep_names d)
  have found: "map_of (concat (map bundle_of ?ks)) n = Some ca" if "(n, ca) \<in> set (bundle_of (keep_ca_bundle m h))" for n ca
  proof (rule map_of_is_SomeI)
    show "distinct (map fst (concat (map bundle_of ?ks)))" by (rule bundles_distinct) (simp add: keep_names d)
  qed (use that h in auto)
  have other: "map_of (concat (map bundle_of ?ks)) n = None"
    if "h = Some w" "wc_name w = n" "n \<noteq> []" "bundle_of (keep_ca_bundle m h) = []" for n w
  proof (rule ccontr)
    assume "map_of (concat (map bundle_of ?ks)) n \<noteq> None"
    then obtain g y where g: "g \<in> set hs" "(n, y) \<in> set (bundle_of (keep_ca_bundle m g))"
      by (auto dest!: map_of_SomeD)
    then have "g \<noteq> h" using that by auto
    obtain w' where w': "g = Some w'" "wc_name w' = n" using g(2) by (auto simp: bundle_of_def keep_ca_bundle_def split: option.splits if_splits)
    have "h \<in> set hs \<Longrightarrow> g \<in> set hs \<Longrightarrow> distinct (hook_names hs) \<Longrightarrow> g = h" using that w'
    proof (induction hs)
      case (Cons x xs)
      then show ?case by (auto simp: hook_names_set split: option.splits if_splits)
    qed simp
    then show False using d h g \<open>g \<noteq> h\<close> by blast
  qed
  show ?thesis
  proof (cases "bundle_of (keep_ca_bundle m h)")
    case Nil
    then show ?thesis
      using other by (cases h) (auto simp: look keep_ca_bundle_def bundle_of_def split: option.splits if_splits)
  next
    case (Cons b bs)
    obtain w ca where w: "keep_ca_bundle m h = Some w" "wc_name w \<noteq> []" "wc_clientConfig w = Some (Some ca)"
      using Cons by (auto simp: bundle_of_def split: option.splits if_splits)
    obtain v where v: "h = Some v" using Cons by (cases h) (auto simp: keep_ca_bundle_def bundle_of_def)
    have same: "wc_name w = wc_name v" and config: "wc_clientConfig v \<noteq> None"
      using w v by (auto simp: keep_ca_bundle_def split: option.splits if_splits)
    have kept: "keep_ca_bundle m h = Some (v\<lparr>wc_clientConfig := Some (Some ca)\<rparr>)"
      using w v by (cases v) (auto simp: keep_ca_bundle_def split: option.splits if_splits)
    have "map_of (caBundleByName ?ks) (wc_name v) = Some ca"
      unfolding look same [symmetric] by (rule found) (simp add: w bundle_of_def)
    then show ?thesis unfolding kept using w(2) config by (auto simp: keep_ca_bundle_def v same)
  qed
qed

text \<open>The maps of a merged manifest.\<close>

definition added_labels :: "manifest \<Rightarrow> (string \<rightharpoonup> string)" where
  "added_labels m =
     (if mf_Group m = ''apiextensions.k8s.io'' \<and> mf_Kind m = ''CustomResourceDefinition'' then [''openstack.openstack.org/crd'' \<mapsto> []] else Map.empty)
     ++ (if is_webhook_configuration m then [''openstack.openstack.org/managed'' \<mapsto> ''true''] else Map.empty)"

abbreviation labels_of :: "manifest \<Rightarrow> (string, string) gomap" where "labels_of m \<equiv> or_empty (mf_Labels m)"
abbreviation annotations_of :: "manifest \<Rightarrow> (string, string) gomap" where "annotations_of m \<equiv> or_empty (mf_Annotations m)"

lemma or_empty_Some [simp]: "or_empty (Some m) = m" "or_empty None = []"
  by (simp_all add: or_empty_def)

lemma map_of_mergeLabels:
  assumes "gomap_wf (labels_of m)"
  shows "map_of (labels_of (mergeLabels cur m)) = (map_of (labels_of cur) ++ map_of (labels_of m) ++ added_labels m)(''olm.managed'' := None)"
  using assms by (auto simp: mergeLabels_def Let_def added_labels_def gomap_simps)

text \<open>The parts of a merge: webhooks, revision, fields of services and of service accounts, metadata.\<close>

definition hooks_part :: "manifest \<Rightarrow> manifest \<Rightarrow> webhook_entry list option" where
  "hooks_part cur m = mf_webhooks (MergeWebhookConfigurationForUpdate cur m)"

definition annotations_part :: "manifest \<Rightarrow> manifest \<Rightarrow> (string, string) gomap option" where
  "annotations_part cur m = mf_Annotations (MergeDeploymentForUpdate cur m)"

definition keep_field :: "bool \<Rightarrow> 'a nested \<Rightarrow> 'a nested \<Rightarrow> 'a nested" where
  "keep_field b cur f = (if b then (case cur of Found _ \<Rightarrow> cur | _ \<Rightarrow> f) else f)"

abbreviation is_service :: "manifest \<Rightarrow> bool" where "is_service m \<equiv> mf_Group m = [] \<and> mf_Kind m = ''Service''"
abbreviation is_account :: "manifest \<Rightarrow> bool" where "is_account m \<equiv> mf_Group m = [] \<and> mf_Kind m = ''ServiceAccount''"

definition prepared_manifest :: "manifest \<Rightarrow> manifest \<Rightarrow> manifest" where
  "prepared_manifest cur m = m\<lparr>mf_webhooks := hooks_part cur m, mf_Annotations := annotations_part cur m,
     mf_clusterIP := keep_field (is_service m) (mf_clusterIP cur) (mf_clusterIP m),
     mf_ipFamily := keep_field (is_service m) (mf_ipFamily cur) (mf_ipFamily m),
     mf_secrets := keep_field (is_account m) (mf_secrets cur) (mf_secrets m),
     mf_imagePullSecrets := keep_field (is_account m) (mf_imagePullSecrets cur) (mf_imagePullSecrets m)\<rparr>"

text \<open>Whether a merge succeeds depends on the types of the fields only.\<close>

definition mergeable :: "manifest \<Rightarrow> manifest \<Rightarrow> bool" where
  "mergeable cur m \<longleftrightarrow>
     (is_service m \<longrightarrow> (\<forall>f \<in> {mf_clusterIP cur, mf_ipFamily cur}. (\<forall>e. f \<noteq> BadType e) \<and> ((\<exists>x. f = Found x) \<longrightarrow> mf_specError m = None)))
     \<and> (is_account m \<longrightarrow> (\<forall>f \<in> {mf_secrets cur, mf_imagePullSecrets cur}. \<forall>e. f \<noteq> BadType e))"

lemma MergeObject_iff:
  "MergeObjectForUpdate cur m = Inr m' \<longleftrightarrow> mergeable cur m \<and> m' = MergeMetadataForUpdate cur (prepared_manifest cur m)"
proof -
  let ?w = "MergeDeploymentForUpdate cur (MergeWebhookConfigurationForUpdate cur m)"
  have w: "?w = m\<lparr>mf_webhooks := hooks_part cur m, mf_Annotations := annotations_part cur m\<rparr>"
    by (auto simp: MergeDeploymentForUpdate_def MergeWebhookConfigurationForUpdate_def hooks_part_def annotations_part_def split: option.splits)
  consider "is_service m" | "is_account m" | "\<not> is_service m" "\<not> is_account m" by auto
  then show ?thesis
  proof cases
    case 1
    then show ?thesis unfolding MergeObjectForUpdate_def w
      by (cases "mf_clusterIP cur"; cases "mf_ipFamily cur"; cases "mf_specError m")
        (auto simp: MergeServiceForUpdate_def MergeServiceAccountForUpdate_def keep_nested_def mergeable_def prepared_manifest_def keep_field_def)
  next
    case 2
    then show ?thesis unfolding MergeObjectForUpdate_def w
      by (cases "mf_secrets cur"; cases "mf_imagePullSecrets cur")
        (auto simp: MergeServiceForUpdate_def MergeServiceAccountForUpdate_def keep_nested_def mergeable_def prepared_manifest_def keep_field_def)
  next
    case 3
    then show ?thesis unfolding MergeObjectForUpdate_def w
      by (auto simp: MergeServiceForUpdate_def MergeServiceAccountForUpdate_def mergeable_def prepared_manifest_def keep_field_def)
  qed
qed

text \<open>The object an update stores; the API server may change the metadata it owns.\<close>

definition after_update :: "manifest \<Rightarrow> manifest \<Rightarrow> object_meta \<Rightarrow> manifest" where
  "after_update cur m meta = (MergeMetadataForUpdate cur (prepared_manifest cur m))\<lparr>mf_Meta := meta\<rparr>"

lemma added_labels_prepared [simp]:
  "added_labels (mergeAnnotations cur (prepared_manifest cur m\<lparr>mf_Meta := mt\<rparr>)) = added_labels m"
  by (simp add: added_labels_def mergeAnnotations_def prepared_manifest_def is_webhook_configuration_def)

lemma annotations_part_wf: "gomap_wf (annotations_of m) \<Longrightarrow> gomap_wf (or_empty (annotations_part cur m))"
  by (simp add: annotations_part_def MergeDeploymentForUpdate_def gomap_simps split: option.splits)

lemma map_of_annotations_part:
  assumes "gomap_wf (annotations_of m)"
  shows "map_of (or_empty (annotations_part cur m)) =
    (if mf_Group m = ''apps'' \<and> mf_Kind m = ''Deployment'' \<and> map_of (annotations_of cur) deploymentRevisionAnnotation \<noteq> None
     then (map_of (annotations_of m))(deploymentRevisionAnnotation := map_of (annotations_of cur) deploymentRevisionAnnotation)
     else map_of (annotations_of m))"
  using assms by (auto simp: annotations_part_def MergeDeploymentForUpdate_def gomap_simps split: option.splits)

lemma merged_labels:
  assumes "gomap_wf (labels_of m)"
  shows "map_of (labels_of (MergeMetadataForUpdate cur (prepared_manifest cur m)))
    = (map_of (labels_of cur) ++ map_of (labels_of m) ++ added_labels m)(''olm.managed'' := None)"
proof -
  let ?a = "mergeAnnotations cur (prepared_manifest cur m\<lparr>mf_Meta := mf_Meta cur\<rparr>)"
  have l: "labels_of ?a = labels_of m" by (simp add: mergeAnnotations_def prepared_manifest_def)
  have "gomap_wf (labels_of ?a)" using assms l by simp
  from map_of_mergeLabels [OF this, of cur] show ?thesis by (simp add: MergeMetadataForUpdate_def l)
qed

lemma merged_annotations:
  assumes "gomap_wf (annotations_of m)"
  shows "map_of (annotations_of (MergeMetadataForUpdate cur (prepared_manifest cur m)))
    = map_of (annotations_of cur) ++ map_of (or_empty (annotations_part cur m))"
  using annotations_part_wf [OF assms, of cur]
  by (simp add: MergeMetadataForUpdate_def mergeLabels_def Let_def mergeAnnotations_def prepared_manifest_def gomap_simps)

lemma merged_rest:
  "(MergeMetadataForUpdate cur (prepared_manifest cur m))\<lparr>mf_Labels := None, mf_Annotations := None\<rparr>
   = (prepared_manifest cur m)\<lparr>mf_Meta := mf_Meta cur, mf_Labels := None, mf_Annotations := None\<rparr>"
  by (simp add: MergeMetadataForUpdate_def mergeLabels_def Let_def mergeAnnotations_def)

lemma after_update_fields [simp]:
  "mf_Labels (after_update cur m meta) = mf_Labels (MergeMetadataForUpdate cur (prepared_manifest cur m))"
  "mf_Annotations (after_update cur m meta) = mf_Annotations (MergeMetadataForUpdate cur (prepared_manifest cur m))"
  "mf_Meta (after_update cur m meta) = meta"
  "mf_webhooks (after_update cur m meta) = hooks_part cur m"
  "mf_clusterIP (after_update cur m meta) = keep_field (is_service m) (mf_clusterIP cur) (mf_clusterIP m)"
  "mf_ipFamily (after_update cur m meta) = keep_field (is_service m) (mf_ipFamily cur) (mf_ipFamily m)"
  "mf_secrets (after_update cur m meta) = keep_field (is_account m) (mf_secrets cur) (mf_secrets m)"
  "mf_imagePullSecrets (after_update cur m meta) = keep_field (is_account m) (mf_imagePullSecrets cur) (mf_imagePullSecrets m)"
  by (simp_all add: after_update_def MergeMetadataForUpdate_def mergeLabels_def Let_def mergeAnnotations_def prepared_manifest_def)

lemma same_entry_iff: "a \<noteq> None \<Longrightarrow> b \<noteq> None \<Longrightarrow> same_entry a b \<longleftrightarrow> map_of (or_empty a) = map_of (or_empty b)"
  by (auto simp: same_entry_def same_map_iff)

lemma merged_present: "mf_Labels (MergeMetadataForUpdate cur m) \<noteq> None" "mf_Annotations (MergeMetadataForUpdate cur m) \<noteq> None"
  by (simp_all add: MergeMetadataForUpdate_def mergeLabels_def Let_def mergeAnnotations_def)

definition hooks_of :: "manifest \<Rightarrow> webhook_entry list" where
  "hooks_of m = (case mf_webhooks m of None \<Rightarrow> [] | Some hs \<Rightarrow> hs)"

lemma keep_ca_bundle_empty [simp]: "keep_ca_bundle [] h = h"
  by (simp add: keep_ca_bundle_def split: option.splits)

lemma hooks_part_again:
  assumes "distinct (hook_names (hooks_of m))"
  shows "hooks_part (after_update cur m meta) m = hooks_part cur m"
proof -
  have k: "map (keep_ca_bundle (caBundleByName (map (keep_ca_bundle b) us))) us = map (keep_ca_bundle b) us"
    if "mf_webhooks m = Some us" for us b
    using assms that by (simp add: hooks_of_def keep_ca_bundle_again)
  have k0: "map (keep_ca_bundle (caBundleByName us)) us = us" if "mf_webhooks m = Some us" for us
    using k [OF that, of "[]"] by (simp add: map_idI)
  show ?thesis using k0 k
    by (auto simp: hooks_part_def MergeWebhookConfigurationForUpdate_def split: option.splits)
qed

lemma keep_field_again [simp]: "keep_field b (keep_field b c f) f = keep_field b c f"
  by (simp add: keep_field_def split: nested.splits)

lemma mergeable_after:
  "mergeable cur m \<Longrightarrow> mergeable m m \<Longrightarrow> mergeable (after_update cur m meta) m"
  by (auto simp: mergeable_def keep_field_def split: nested.splits)

text \<open>Merging a manifest into the object it was merged into before changes nothing.\<close>

lemma merge_again:
  assumes "gomap_wf (labels_of m)" "gomap_wf (annotations_of m)" "distinct (hook_names (hooks_of m))"
  shows "same_manifest (after_update cur m meta)
    (MergeMetadataForUpdate (after_update cur m meta) (prepared_manifest (after_update cur m meta) m))"
proof -
  let ?c = "after_update cur m meta"
  have labels: "map_of (labels_of ?c) = (map_of (labels_of ?c) ++ map_of (labels_of m) ++ added_labels m)(''olm.managed'' := None)"
    unfolding after_update_fields merged_labels [OF assms(1)] by (auto simp: map_add_def fun_eq_iff split: option.splits)
  have annotations: "map_of (annotations_of ?c) = map_of (annotations_of ?c) ++ map_of (or_empty (annotations_part ?c m))"
    unfolding map_of_annotations_part [OF assms(2)] after_update_fields merged_annotations [OF assms(2)]
    by (auto simp: map_add_def fun_eq_iff split: option.splits)
  have "prepared_manifest ?c m\<lparr>mf_Meta := meta, mf_Labels := None, mf_Annotations := None\<rparr> = ?c\<lparr>mf_Labels := None, mf_Annotations := None\<rparr>"
  proof -
    have "?c\<lparr>mf_Labels := None, mf_Annotations := None\<rparr>
      = prepared_manifest cur m\<lparr>mf_Meta := meta, mf_Labels := None, mf_Annotations := None\<rparr>"
      by (simp add: after_update_def MergeMetadataForUpdate_def mergeLabels_def Let_def mergeAnnotations_def)
    then show ?thesis by (simp add: prepared_manifest_def hooks_part_again [OF assms(3)])
  qed
  moreover have "same_entry (mf_Labels ?c) (mf_Labels (MergeMetadataForUpdate ?c (prepared_manifest ?c m)))"
    using labels by (simp add: same_entry_iff merged_present merged_labels [OF assms(1), of ?c])
  moreover have "same_entry (mf_Annotations ?c) (mf_Annotations (MergeMetadataForUpdate ?c (prepared_manifest ?c m)))"
    using annotations by (simp add: same_entry_iff merged_present merged_annotations [OF assms(2), of ?c])
  ultimately show ?thesis unfolding same_manifest_def merged_rest by simp
qed

subsection \<open>When a manifest is written\<close>

text \<open>The object in the cluster has what a manifest asks for: the labels of the manifest and those the operator adds, without the one of
  the lifecycle manager; its annotations, apart from the revision of a Deployment, which is the cluster's if there is one; the same
  webhooks in the same order, where the cluster may have put its own bundle into a named one; the same addresses of a Service and secrets of
  a ServiceAccount unless the cluster has its own; and everything else as in the manifest, nothing more.  Labels and annotations of
  others may be there, but the two fields must.\<close>

definition labels_match :: "manifest \<Rightarrow> manifest \<Rightarrow> bool" where
  "labels_match cur m \<longleftrightarrow> mf_Labels cur \<noteq> None \<and> map_of (labels_of cur) ''olm.managed'' = None
     \<and> (\<forall>k v. (map_of (labels_of m) ++ added_labels m) k = Some v \<longrightarrow> k = ''olm.managed'' \<or> map_of (labels_of cur) k = Some v)"

definition annotations_match :: "manifest \<Rightarrow> manifest \<Rightarrow> bool" where
  "annotations_match cur m \<longleftrightarrow> mf_Annotations cur \<noteq> None
     \<and> (\<forall>k v. map_of (annotations_of m) k = Some v \<longrightarrow>
          map_of (annotations_of cur) k = Some v
          \<or> mf_Group m = ''apps'' \<and> mf_Kind m = ''Deployment'' \<and> k = deploymentRevisionAnnotation \<and> map_of (annotations_of cur) k \<noteq> None)"

definition same_hook :: "webhook_entry \<Rightarrow> webhook_entry \<Rightarrow> bool" where
  "same_hook c u \<longleftrightarrow> c = u
     \<or> (\<exists>v ca. u = Some v \<and> wc_name v \<noteq> [] \<and> wc_clientConfig v \<noteq> None \<and> c = Some (v\<lparr>wc_clientConfig := Some (Some ca)\<rparr>))"

definition hooks_match :: "manifest \<Rightarrow> manifest \<Rightarrow> bool" where
  "hooks_match cur m \<longleftrightarrow>
     (case (mf_webhooks cur, mf_webhooks m) of
        (Some cs, Some us) \<Rightarrow> if is_webhook_configuration m then list_all2 same_hook cs us else cs = us
      | (c, u) \<Rightarrow> c = u)"

definition own_or_same :: "bool \<Rightarrow> 'a nested \<Rightarrow> 'a nested \<Rightarrow> bool" where
  "own_or_same b c f \<longleftrightarrow> c = f \<or> b \<and> (\<exists>x. c = Found x)"

definition live_matches :: "manifest \<Rightarrow> manifest \<Rightarrow> bool" where
  "live_matches cur m \<longleftrightarrow> labels_match cur m \<and> annotations_match cur m \<and> hooks_match cur m
     \<and> own_or_same (is_service m) (mf_clusterIP cur) (mf_clusterIP m) \<and> own_or_same (is_service m) (mf_ipFamily cur) (mf_ipFamily m)
     \<and> own_or_same (is_account m) (mf_secrets cur) (mf_secrets m) \<and> own_or_same (is_account m) (mf_imagePullSecrets cur) (mf_imagePullSecrets m)
     \<and> mf_Group cur = mf_Group m \<and> mf_Version cur = mf_Version m \<and> mf_Kind cur = mf_Kind m \<and> mf_Name cur = mf_Name m
     \<and> mf_Namespace cur = mf_Namespace m \<and> mf_Controller cur = mf_Controller m \<and> mf_specError cur = mf_specError m \<and> mf_Rest cur = mf_Rest m"

lemma keep_field_iff: "c = keep_field b c f \<longleftrightarrow> own_or_same b c f"
  by (auto simp: keep_field_def own_or_same_def split: nested.splits)

lemma labels_match_iff:
  assumes "gomap_wf (labels_of m)"
  shows "same_entry (mf_Labels cur) (mf_Labels (MergeMetadataForUpdate cur (prepared_manifest cur m))) \<longleftrightarrow> labels_match cur m"
proof (cases "mf_Labels cur")
  case None
  then show ?thesis using merged_present(1) [of cur "prepared_manifest cur m"] by (auto simp: same_entry_def labels_match_def)
next
  case (Some ls)
  have "same_entry (mf_Labels cur) (mf_Labels (MergeMetadataForUpdate cur (prepared_manifest cur m)))
    \<longleftrightarrow> map_of (labels_of cur) = (map_of (labels_of cur) ++ map_of (labels_of m) ++ added_labels m)(''olm.managed'' := None)"
    using Some by (simp add: same_entry_iff merged_present merged_labels [OF assms])
  also have "\<dots> \<longleftrightarrow> labels_match cur m"
    using Some by (auto simp: labels_match_def fun_eq_iff map_add_def split: option.splits)
  finally show ?thesis .
qed

lemma annotations_match_iff:
  assumes "gomap_wf (annotations_of m)"
  shows "same_entry (mf_Annotations cur) (mf_Annotations (MergeMetadataForUpdate cur (prepared_manifest cur m))) \<longleftrightarrow> annotations_match cur m"
proof (cases "mf_Annotations cur")
  case None
  then show ?thesis using merged_present(2) [of cur "prepared_manifest cur m"] by (auto simp: same_entry_def annotations_match_def)
next
  case (Some as)
  have "same_entry (mf_Annotations cur) (mf_Annotations (MergeMetadataForUpdate cur (prepared_manifest cur m)))
    \<longleftrightarrow> map_of (annotations_of cur) = map_of (annotations_of cur) ++ map_of (or_empty (annotations_part cur m))"
    using Some by (simp add: same_entry_iff merged_present merged_annotations [OF assms])
  also have "\<dots> \<longleftrightarrow> annotations_match cur m"
    using Some unfolding map_of_annotations_part [OF assms]
    by (auto simp: annotations_match_def fun_eq_iff map_add_def split: option.splits if_splits) (metis option.distinct(1))+
  finally show ?thesis .
qed

text \<open>The bundle found for a webhook is its own, since names are not used twice.\<close>

lemma own_bundle:
  assumes d: "distinct (hook_names cs)" and c: "Some w \<in> set cs" and n: "wc_name w \<noteq> []"
  shows "map_of (caBundleByName cs) (wc_name w) = (case wc_clientConfig w of Some (Some ca) \<Rightarrow> Some ca | _ \<Rightarrow> None)"
proof -
  have dist: "distinct (map fst (concat (map bundle_of cs)))" by (rule bundles_distinct [OF d])
  have look: "map_of (caBundleByName cs) = map_of (concat (map bundle_of cs))"
    unfolding map_of_caBundleByName by (rule map_of_rev_distinct [OF dist])
  have unique: "g = Some w" if g: "g \<in> set cs" and y: "(wc_name w, y) \<in> set (bundle_of g)" for g y
  proof -
    obtain v where v: "g = Some v" "wc_name v = wc_name w" using y by (auto simp: bundle_of_def split: option.splits if_splits)
    show ?thesis using d c n g v
    proof (induction cs)
      case (Cons x xs)
      then show ?case by (auto simp: hook_names_set split: option.splits if_splits)
    qed simp
  qed
  have pair: "bundle_of (Some w) = (case wc_clientConfig w of Some (Some ca) \<Rightarrow> [(wc_name w, ca)] | _ \<Rightarrow> [])"
    using n by (simp add: bundle_of_def split: option.splits)
  let ?found = "map_of (concat (map bundle_of cs)) (wc_name w)"
  have found: "?found = Some ca \<longleftrightarrow> (wc_name w, ca) \<in> set (bundle_of (Some w))" for ca
  proof -
    have "(wc_name w, ca) \<in> set (concat (map bundle_of cs)) \<longleftrightarrow> (\<exists>g \<in> set cs. (wc_name w, ca) \<in> set (bundle_of g))" by auto
    also have "\<dots> \<longleftrightarrow> (wc_name w, ca) \<in> set (bundle_of (Some w))" using unique c by blast
    finally show ?thesis unfolding map_of_eq_Some_iff [OF dist] .
  qed
  show ?thesis
  proof (cases "\<exists>ca. wc_clientConfig w = Some (Some ca)")
    case True
    then show ?thesis using found by (auto simp: look pair)
  next
    case False
    then have "set (bundle_of (Some w)) = {}" unfolding pair by (cases "wc_clientConfig w") (simp_all split: option.split)
    then have "?found = None" using found by (cases ?found) auto
    moreover have "(case wc_clientConfig w of Some (Some ca) \<Rightarrow> Some ca | _ \<Rightarrow> None) = None"
      using False by (simp split: option.split)
    ultimately show ?thesis by (simp add: look)
  qed
qed

lemma same_hook_names: "list_all2 same_hook cs us \<Longrightarrow> hook_names cs = hook_names us"
  by (induction rule: list_all2_induct) (auto simp: same_hook_def)

lemma keep_hook_iff:
  assumes "distinct (hook_names us)"
  shows "cs = map (keep_ca_bundle (caBundleByName cs)) us \<longleftrightarrow> list_all2 same_hook cs us"
proof
  assume cs: "cs = map (keep_ca_bundle (caBundleByName cs)) us"
  have "same_hook (keep_ca_bundle b u) u" for b u
    by (auto simp: keep_ca_bundle_def same_hook_def split: option.splits)
  then have "list_all2 same_hook (map (keep_ca_bundle b) us) us" for b by (simp add: list_all2_map1 list_all2_refl)
  then show "list_all2 same_hook cs us" using cs by metis
next
  assume same: "list_all2 same_hook cs us"
  have d: "distinct (hook_names cs)" using same_hook_names [OF same] assms by simp
  have "cs ! i = keep_ca_bundle (caBundleByName cs) (us ! i)" if i: "i < length cs" for i
  proof -
    have h: "same_hook (cs ! i) (us ! i)" and mem: "cs ! i \<in> set cs" using same i by (auto simp: list_all2_conv_all_nth)
    have own: "map_of (caBundleByName cs) (wc_name w) = (case wc_clientConfig w of Some (Some ca) \<Rightarrow> Some ca | _ \<Rightarrow> None)"
      if "cs ! i = Some w" "wc_name w \<noteq> []" for w
      using own_bundle [OF d] mem that by simp
    consider "cs ! i = us ! i" | v ca where "us ! i = Some v" "wc_name v \<noteq> []" "wc_clientConfig v \<noteq> None"
        "cs ! i = Some (v\<lparr>wc_clientConfig := Some (Some ca)\<rparr>)"
      using h unfolding same_hook_def by blast
    then show ?thesis
    proof cases
      case 1
      show ?thesis
      proof (cases "us ! i")
        case (Some w)
        then show ?thesis using own [of w] 1 by (cases w) (auto simp: keep_ca_bundle_def split: option.splits)
      qed (simp add: 1 keep_ca_bundle_def)
    next
      case (2 v ca)
      then show ?thesis using own [OF 2(4)] by (auto simp: keep_ca_bundle_def)
    qed
  qed
  then show "cs = map (keep_ca_bundle (caBundleByName cs)) us"
    using list_all2_lengthD [OF same] by (simp add: list_eq_iff_nth_eq)
qed

lemma hooks_match_iff:
  assumes "distinct (hook_names (hooks_of m))"
  shows "mf_webhooks cur = hooks_part cur m \<longleftrightarrow> hooks_match cur m"
  using assms
  by (auto simp: hooks_match_def hooks_part_def MergeWebhookConfigurationForUpdate_def hooks_of_def keep_hook_iff split: option.splits)

lemma same_manifest_iff:
  assumes "gomap_wf (labels_of m)" "gomap_wf (annotations_of m)" "distinct (hook_names (hooks_of m))"
  shows "same_manifest cur (MergeMetadataForUpdate cur (prepared_manifest cur m)) \<longleftrightarrow> live_matches cur m"
proof -
  have "cur\<lparr>mf_Labels := None, mf_Annotations := None\<rparr> = prepared_manifest cur m\<lparr>mf_Meta := mf_Meta cur, mf_Labels := None, mf_Annotations := None\<rparr>
    \<longleftrightarrow> mf_webhooks cur = hooks_part cur m
      \<and> mf_clusterIP cur = keep_field (is_service m) (mf_clusterIP cur) (mf_clusterIP m) \<and> mf_ipFamily cur = keep_field (is_service m) (mf_ipFamily cur) (mf_ipFamily m)
      \<and> mf_secrets cur = keep_field (is_account m) (mf_secrets cur) (mf_secrets m)
      \<and> mf_imagePullSecrets cur = keep_field (is_account m) (mf_imagePullSecrets cur) (mf_imagePullSecrets m)
      \<and> mf_Group cur = mf_Group m \<and> mf_Version cur = mf_Version m \<and> mf_Kind cur = mf_Kind m \<and> mf_Name cur = mf_Name m
      \<and> mf_Namespace cur = mf_Namespace m \<and> mf_Controller cur = mf_Controller m \<and> mf_specError cur = mf_specError m \<and> mf_Rest cur = mf_Rest m"
    by (simp only: prepared_manifest_def) (cases cur, cases m, auto)
  then show ?thesis
    unfolding same_manifest_def merged_rest live_matches_def labels_match_iff [OF assms(1)] annotations_match_iff [OF assms(2)]
      hooks_match_iff [OF assms(3)] keep_field_iff by blast
qed

text \<open>C35: a manifest is written exactly when the object in the cluster does not have what it asks for, and what is written then has
  it.  So applying a manifest again writes nothing as long as the cluster gives the object back with no more changes than those the merge
  keeps: metadata of its own, more labels and annotations, bundles of webhooks, the revision, addresses, secrets.  An object that comes
  back with anything else (defaulted fields, a status, \<open>managedFields\<close>), or, once, one that was created without annotations, is
  written again.  The manifest has fields of the right types and its webhooks different names.\<close>

theorem apply_settles:
  assumes live: "ay_get env m = Inr cur" and name: "mf_Name m \<noteq> []" "IsObjectSupported m = None" and types: "mergeable cur m" "mergeable m m"
    and maps: "gomap_wf (labels_of m)" "gomap_wf (annotations_of m)" and names: "distinct (hook_names (hooks_of m))"
  shows "(ApplyObject env m = ([], None) \<longleftrightarrow> live_matches cur m)
    \<and> (\<not> live_matches cur m \<longrightarrow> (\<exists>stored. fst (ApplyObject env m) = [UpdateObject stored] \<and> mf_Meta stored = mf_Meta cur
         \<and> (\<forall>meta env'. ay_get env' m = Inr (stored\<lparr>mf_Meta := meta\<rparr>) \<longrightarrow> ApplyObject env' m = ([], None))
         \<and> (\<forall>again env'. ay_get env' m = Inr again \<longrightarrow> mergeable again m \<longrightarrow> mf_Rest again \<noteq> mf_Rest m \<longrightarrow> fst (ApplyObject env' m) \<noteq> [])))"
proof -
  let ?m = "\<lambda>c. MergeMetadataForUpdate c (prepared_manifest c m)"
  have run: "ApplyObject e m = (if live_matches c m then ([], None)
      else ([UpdateObject (?m c)], map_option (wrapf (''could not update object '' @ objDesc e m)) (ay_update e (?m c))))"
    if "ay_get e m = Inr c" "mergeable c m" for e c
  proof -
    have "MergeObjectForUpdate c m = Inr (?m c)" unfolding MergeObject_iff using that(2) by simp
    then show ?thesis using name that(1) same_manifest_iff [OF maps names, of c] by (simp add: ApplyObject_def)
  qed
  have stored: "ApplyObject e m = ([], None)" if "ay_get e m = Inr ((?m cur)\<lparr>mf_Meta := meta\<rparr>)" for e meta
  proof -
    have c: "(?m cur)\<lparr>mf_Meta := meta\<rparr> = after_update cur m meta" by (simp add: after_update_def)
    have "live_matches (after_update cur m meta) m"
      using merge_again [OF maps names, of cur meta] same_manifest_iff [OF maps names] by blast
    then show ?thesis using run [OF that [unfolded c] mergeable_after [OF types]] by simp
  qed
  have "fst (ApplyObject e m) \<noteq> []" if "ay_get e m = Inr c" "mergeable c m" "mf_Rest c \<noteq> mf_Rest m" for e c
    using run [OF that(1,2)] that(3) by (simp add: live_matches_def)
  moreover have "mf_Meta (?m cur) = mf_Meta cur" by (simp add: MergeMetadataForUpdate_def mergeLabels_def Let_def mergeAnnotations_def)
  ultimately show ?thesis using run [OF live types(1)] stored by simp
qed

definition sample_manifest :: manifest where
  "sample_manifest = \<lparr>mf_Group = ''apps'', mf_Version = ''v1'', mf_Kind = ''Deployment'', mf_Name = ''keystone-operator'', mf_Namespace = ''os'',
     mf_Meta = \<lparr>om_CreationTimestamp = [], om_SelfLink = [], om_Generation = 0, om_UID = [], om_ResourceVersion = []\<rparr>,
     mf_Labels = Some [(''app'', ''keystone'')], mf_Annotations = None, mf_Controller = None, mf_webhooks = None, mf_clusterIP = Missing, mf_ipFamily = Missing,
     mf_specError = None, mf_secrets = Missing, mf_imagePullSecrets = Missing, mf_Rest = ''replicas: 1''\<rparr>"

definition sample_apply :: "manifest option \<Rightarrow> apply_env" where
  "sample_apply cur = \<lparr>ay_gvk = mf_Kind, ay_get = (\<lambda>_. case cur of None \<Rightarrow> Inl (NotFound []) | Some c \<Rightarrow> Inr c), ay_create = (\<lambda>_. None),
     ay_update = (\<lambda>_. None)\<rparr>"

text \<open>The object in the cluster: the deployment with its revision, a label of the lifecycle manager and an old specification.\<close>

definition sample_current :: manifest where
  "sample_current = sample_manifest\<lparr>mf_Labels := Some [(''olm.managed'', ''true'')], mf_Annotations := Some [(deploymentRevisionAnnotation, ''4'')],
     mf_Rest := ''replicas: 0''\<rparr>"

definition sample_merged :: manifest where
  "sample_merged = (case MergeObjectForUpdate sample_current sample_manifest of Inr m \<Rightarrow> m | Inl _ \<Rightarrow> sample_manifest)"

lemma sample_update: "ApplyObject (sample_apply (Some sample_current)) sample_manifest = ([UpdateObject sample_merged], None)"
  by code_simp

theorem apply_settles_witness:
  "ApplyObject (sample_apply (Some sample_merged)) sample_manifest = ([], None) \<and> live_matches sample_merged sample_manifest
   \<and> \<not> live_matches sample_current sample_manifest"
proof -
  have fields: "mf_Name sample_manifest \<noteq> []" "IsObjectSupported sample_manifest = None" "mergeable sample_manifest sample_manifest"
    "gomap_wf (labels_of sample_manifest)" "gomap_wf (annotations_of sample_manifest)" "distinct (hook_names (hooks_of sample_manifest))"
    "mergeable c sample_manifest" for c
    by (simp_all add: mergeable_def sample_manifest_def gomap_wf_def hooks_of_def IsObjectSupported_def)
  have live: "ay_get (sample_apply (Some c)) sample_manifest = Inr c" for c by (simp add: sample_apply_def)
  note settles = apply_settles [OF live fields(1,2,7,3-6)]
  have "ApplyObject (sample_apply (Some sample_merged)) sample_manifest = ([], None)" by code_simp
  then have "live_matches sample_merged sample_manifest" using settles [of sample_merged] by blast
  moreover have "\<not> live_matches sample_current sample_manifest" using settles [of sample_current] unfolding sample_update by blast
  ultimately show ?thesis using settles [of sample_merged] by blast
qed

text \<open>An object without annotations is written whenever the manifest is applied: the merge sets an empty map, which differs from a missing one.\<close>

lemma missing_annotations_rewritten:
  assumes "ay_get env m = Inr cur" and "mf_Annotations cur = None" and "mf_Name m \<noteq> []" and "IsObjectSupported m = None" and "mergeable cur m"
  shows "fst (ApplyObject env m) \<noteq> []"
proof -
  let ?m = "MergeMetadataForUpdate cur (prepared_manifest cur m)"
  have "MergeObjectForUpdate cur m = Inr ?m" unfolding MergeObject_iff using assms(5) by simp
  moreover have "\<not> same_manifest cur ?m"
    using assms(2) merged_present(2) [of cur "prepared_manifest cur m"] by (auto simp: same_manifest_def same_entry_def split: option.splits)
  ultimately show ?thesis using assms(1,3,4) by (simp add: ApplyObject_def)
qed

end
