(* ===== verification/Operator_Laws.thy ===== *)
theory Operator_Laws
  imports Operator_Controller Operator_Merge_Laws NodeSet_IPAM
begin

text \<open>
  Laws of the controller that installs the service operators: what a ready installation has, what a change of the release does, and what
  becomes of a second instance.
\<close>

subsection \<open>Steps that leave the instance alone\<close>

definition is_deletion :: "op_action \<Rightarrow> bool" where
  "is_deletion a = (case a of Applied _ \<Rightarrow> False | _ \<Rightarrow> True)"

lemma is_deletion_simps [simp]: "is_deletion (Deleted k n)" "is_deletion DeletedInstance" "is_deletion DeletedAllWebhooks" "\<not> is_deletion (Applied a)"
  by (simp_all add: is_deletion_def)

definition quiet :: "(op_action \<Rightarrow> bool) \<Rightarrow> (op_run \<Rightarrow> op_run step) \<Rightarrow> bool" where
  "quiet A f \<longleftrightarrow> (\<forall>run r. step_value (f run) = Some r \<longrightarrow>
     or_instance r = or_instance run \<and> or_requeue r = or_requeue run \<and> (\<exists>as. or_log r = or_log run @ as \<and> list_all A as))"

lemma quietD: "quiet A f \<Longrightarrow> step_value (f run) = Some r \<Longrightarrow>
    or_instance r = or_instance run \<and> or_requeue r = or_requeue run \<and> (\<exists>as. or_log r = or_log run @ as \<and> list_all A as)"
  by (simp add: quiet_def)

lemma quiet_bind:
  assumes f: "quiet A f" and g: "quiet A g"
  shows "quiet A (\<lambda>run. step_bind (f run) g)"
  unfolding quiet_def
proof (intro allI impI)
  fix run r assume s: "step_value (step_bind (f run) g) = Some r"
  show "or_instance r = or_instance run \<and> or_requeue r = or_requeue run \<and> (\<exists>as. or_log r = or_log run @ as \<and> list_all A as)"
  proof (cases "f run")
    case (Next b)
    obtain as where "or_instance b = or_instance run" "or_requeue b = or_requeue run" "or_log b = or_log run @ as" "list_all A as"
      using quietD [OF f, of run b] Next by auto
    moreover obtain bs where "or_instance r = or_instance b" "or_requeue r = or_requeue b" "or_log r = or_log b @ bs" "list_all A bs"
      using quietD [OF g, of b r] Next s by auto
    ultimately show ?thesis by simp
  next
    case (Return e b)
    then show ?thesis using quietD [OF f, of run b] s by simp
  qed (use s in simp)
qed

lemma quiet_Next: "quiet A Next"
  by (simp add: quiet_def)

lemma quiet_stages: "list_all (quiet A) fs \<Longrightarrow> quiet A (run_stages fs)"
proof (induction fs)
  case (Cons f fs)
  have "run_stages (f # fs) = (\<lambda>run. step_bind (f run) (run_stages fs))" by (rule ext) simp
  then show ?case using quiet_bind [of A f "run_stages fs"] Cons by simp
next
  case Nil
  have "run_stages [] = (Next :: op_run \<Rightarrow> op_run step)" by (rule ext) simp
  then show ?case by (simp add: quiet_Next)
qed

lemma quiet_tolerate:
  assumes "quiet A f"
  shows "quiet A (tolerate f)"
proof -
  have "step_value (tolerate f run) = step_value (f run)" for run by (cases "f run") (simp_all add: tolerate_def)
  then show ?thesis using assms by (simp add: quiet_def)
qed

lemma quiet_delete [simp]: "quiet is_deletion (delete_object env wrap kind name)" "quiet is_deletion (delete_webhook_configurations env)"
  by (auto simp: quiet_def delete_object_def delete_webhook_configurations_def Let_def op_log_def split: option.splits if_splits)

lemma quiet_ref [simp]: "quiet is_deletion (cleanup_ref env ref)"
  by (auto simp: quiet_def cleanup_ref_def split: option.splits if_splits dest!: quietD [OF quiet_delete(1)])

lemma quiet_operator [simp]: "quiet is_deletion (cleanup_operator env op)"
proof -
  have refs: "quiet is_deletion (run_stages (map (cleanup_ref env) refs))" for refs by (rule quiet_stages) (simp add: list_all_iff)
  have bind: "step_value (step_bind s (\<lambda>r. Return e r)) = step_value s" for s :: "op_run step" and e by (cases s) simp_all
  show ?thesis
    unfolding quiet_def cleanup_operator_def
    by (auto simp: Let_def op_log_def bind split: nested.splits option.splits dest!: quietD [OF refs])
qed

lemma quiet_plan [simp]: "quiet is_deletion (cleanup_install_plan env plan)"
  by (auto simp: quiet_def cleanup_install_plan_def split: nested.splits list.splits option.splits if_splits dest!: quietD [OF quiet_delete(1)])

lemma quiet_lists:
  "quiet is_deletion (run_stages (map (delete_object env wrap kind) names))"
  "quiet is_deletion (run_stages (map (cleanup_install_plan env) plans))" "quiet is_deletion (run_stages (map (cleanup_operator env) ops))"
  "quiet is_deletion (delete_listed env resources)"
  by (auto intro!: quiet_stages simp: list_all_iff delete_listed_def)

lemma quiet_obsolete: "quiet is_deletion (cleanupObsoleteResources env)"
proof -
  have "quiet is_deletion (cleanup_named env kind items)" for kind items
    by (auto simp: quiet_def cleanup_named_def split: sum.splits dest!: quietD [OF quiet_lists(1)])
  moreover have "quiet is_deletion (cleanup_install_plans env)"
    by (auto simp: quiet_def cleanup_install_plans_def split: sum.splits dest!: quietD [OF quiet_lists(2)])
  ultimately show ?thesis unfolding cleanupObsoleteResources_def by (intro quiet_stages) simp
qed

lemma quiet_post: "quiet is_deletion (postCleanupObsoleteResources env)"
  by (auto simp: quiet_def postCleanupObsoleteResources_def split: sum.splits dest!: quietD [OF quiet_lists(3)])

lemma quiet_rabbit: "quiet is_deletion (cleanupRabbitMQClusterOperator env)" and quiet_placement: "quiet is_deletion (cleanupPlacementOperator env)"
proof -
  have last: "quiet is_deletion (\<lambda>r. if b then delete_object env w k n r else Next r)" for b w k n
    by (auto simp: quiet_def dest!: quietD [OF quiet_delete(1)])
  show "quiet is_deletion (cleanupRabbitMQClusterOperator env)"
    using quiet_bind [OF quiet_lists(4) last] unfolding quiet_def cleanupRabbitMQClusterOperator_def by simp
  show "quiet is_deletion (cleanupPlacementOperator env)" by (simp add: cleanupPlacementOperator_def quiet_lists)
qed

lemma quiet_apply [simp]: "quiet (\<lambda>_. True) (apply_manifest env b m)"
  by (auto simp: quiet_def apply_manifest_def Let_def op_log_def list_all_iff split: sum.splits prod.splits option.splits if_splits)

lemma quiet_render: "quiet (\<lambda>_. True) (renderAndApply env d dir b)"
proof -
  have "quiet (\<lambda>_. True) (run_stages (map (apply_manifest env b) objs))" for objs by (rule quiet_stages) (simp add: list_all_iff)
  from quietD [OF this] show ?thesis
    unfolding quiet_def renderAndApply_def by (auto simp: Let_def split: sum.splits list.splits simp del: run_stages.simps list.map)
qed

lemma quiet_owned: "quiet is_deletion (deleteAllOwnedResources env)"
proof -
  have "quiet is_deletion (\<lambda>r. if controlled r o1 then delete_object env w k n r else Next r)" for o1 w k n
    by (auto simp: quiet_def dest!: quietD [OF quiet_delete(1)])
  then have "quiet is_deletion (run_stages (map (\<lambda>o1 r. if controlled r o1
      then delete_object env (wrapf (''failed to delete '' @ ow_Name o1)) k (ow_Name o1) r else Next r) objs))" for k objs
    by (intro quiet_stages) (simp add: list_all_iff)
  from quietD [OF this] have "quiet is_deletion (deleteOwnedResources env k)" for k
    unfolding quiet_def deleteOwnedResources_def by (auto split: sum.splits simp del: run_stages.simps)
  then show ?thesis unfolding deleteAllOwnedResources_def by (intro quiet_stages) simp
qed

subsection \<open>Conditions of the installation\<close>

lemma op_conds_upd [simp]:
  "op_conds (or_instance (upd_op_conds f run)) = f (op_conds (or_instance run))"
  "os_Conditions (g (oi_Status (or_instance run))) = os_Conditions (oi_Status (or_instance run)) \<Longrightarrow>
     op_conds (or_instance (upd_op_status g run)) = op_conds (or_instance run)"
  by (simp_all add: upd_op_conds_def upd_op_status_def op_conds_def)

definition waiting_operator :: "condlib \<Rightarrow> op_run \<Rightarrow> bool" where
  "waiting_operator L r \<longleftrightarrow> map_option c_status (lc_Get L (op_conds (or_instance r)) OperatorReadyCondition) = Some CFalse"

lemma waiting_same: "or_instance r = or_instance run \<Longrightarrow> waiting_operator L r = waiting_operator L run"
  by (simp add: waiting_operator_def)

lemma waiting_quiet: "quiet A f \<Longrightarrow> step_value (f run) = Some r \<Longrightarrow> waiting_operator L r = waiting_operator L run"
  using waiting_same quietD by blast

lemma waiting_failed: "condlib_laws L \<Longrightarrow> waiting_operator L (op_failed L e run)"
  by (simp add: waiting_operator_def op_failed_def)

lemma waiting_status:
  "os_Conditions (g (oi_Status (or_instance run))) = os_Conditions (oi_Status (or_instance run)) \<Longrightarrow>
     waiting_operator L (upd_op_status g run) = waiting_operator L run"
  by (simp add: waiting_operator_def)

lemma waiting_requeue [simp]: "waiting_operator L (run\<lparr>or_requeue := b\<rparr>) = waiting_operator L run"
  by (simp add: waiting_operator_def)

lemma waiting_start: "condlib_laws L \<Longrightarrow> waiting_operator L (op_start L env i)"
  by (simp add: waiting_operator_def op_start_def)

lemma waiting_reinstall:
  assumes "condlib_laws L" "waiting_operator L run" "step_value (reinstall L env run) = Some r"
  shows "waiting_operator L r"
proof (cases "deleteAllOwnedResources env run")
  case (Next b)
  then have "waiting_operator L b" using waiting_quiet [OF quiet_owned, of env run b L] assms(2) by simp
  then show ?thesis using assms(3) Next by (auto simp: reinstall_def op_come_back_def waiting_status)
next
  case (Return e b)
  then have "waiting_operator L b" using waiting_quiet [OF quiet_owned, of env run b L] assms(2) by simp
  then show ?thesis using assms(1,3) Return by (cases e) (auto simp: reinstall_def waiting_failed)
qed (use assms(3) in \<open>simp add: reinstall_def\<close>)

text \<open>The counts of the operators a reconciliation writes.\<close>

definition enabled_operators :: "opctl_env \<Rightarrow> os_instance \<Rightarrow> service_operator list" where
  "enabled_operators env i = filter (\<lambda>o1. \<not> is_disabled o1) (service_operators (oe_vars env) (oi_Namespace i) (oi_Overrides i))"

definition with_counts :: "opctl_env \<Rightarrow> os_instance \<Rightarrow> os_instance" where
  "with_counts env i = i\<lparr>oi_Status := (oi_Status i)\<lparr>
     os_DisabledCount := Some (int (length (filter is_disabled (service_operators (oe_vars env) (oi_Namespace i) (oi_Overrides i))))),
     os_EnabledCount := Some (int (length (enabled_operators env i)))\<rparr>\<rparr>"

lemma applyOperator_value:
  "step_value (applyOperator env run) = Some r \<Longrightarrow> or_instance r = with_counts env (or_instance run) \<and> or_requeue r = or_requeue run"
  unfolding applyOperator_def Let_def by (drule quietD [OF quiet_render]) (simp add: upd_op_status_def with_counts_def enabled_operators_def)

lemma applyManifests_value:
  assumes "step_value (applyManifests env run) = Some r"
  shows "op_conds (or_instance r) = op_conds (or_instance run)"
proof -
  let ?first = "if \<not> containerImageMatch env (or_instance run) then run_stages [applyCRDs env, applyServices env] run else Next run"
  let ?mark = "\<lambda>r. upd_op_status (\<lambda>st. st\<lparr>os_ContainerImage := Some (ov_operatorImage (oe_vars env))\<rparr>) r"
  have services: "quiet (\<lambda>_. True) (applyServices env)" using quietD [OF quiet_render] unfolding quiet_def applyServices_def by blast
  have stages: "quiet (\<lambda>_. True) (run_stages [applyCRDs env, applyServices env])"
    by (rule quiet_stages) (simp add: applyCRDs_def quiet_render services)
  have first: "or_instance b = or_instance run" if "step_value ?first = Some b" for b
    using that quietD [OF stages, of run b] by (simp split: if_splits)
  have operator: "op_conds (or_instance c) = op_conds (or_instance b)" if "step_value (applyOperator env (?mark b)) = Some c" for b c
    using applyOperator_value [OF that] by (simp add: op_conds_def upd_op_status_def with_counts_def)
  show ?thesis
  proof (cases ?first)
    case (Next b)
    then show ?thesis using first [of b] operator [of b r] assms by (simp add: applyManifests_def)
  next
    case (Return e b)
    then show ?thesis using first [of b] assms by (simp add: applyManifests_def)
  qed (use assms in \<open>simp add: applyManifests_def\<close>)
qed

lemma waiting_manifests:
  assumes "condlib_laws L" "waiting_operator L run" "step_value (manifests_stage L env run) = Some r"
  shows "waiting_operator L r"
proof -
  let ?run1 = "upd_op_status (\<lambda>st. if os_ReleaseVersion st = None then st\<lparr>os_ReleaseVersion := Some (ov_release (oe_vars env))\<rparr> else st) run"
  have w: "waiting_operator L ?run1" using assms(2) by (simp add: waiting_status)
  have kept: "waiting_operator L b" if "step_value (applyManifests env ?run1) = Some b" for b
    using w applyManifests_value [OF that] by (simp add: waiting_operator_def)
  show ?thesis
    using assms(1,3) kept
    by (cases "applyManifests env ?run1") (auto simp: manifests_stage_def Let_def waiting_failed split: option.splits)
qed

lemma waiting_deployments:
  assumes "condlib_laws L" "waiting_operator L run" "step_value (deployments_stage L env run) = Some r"
  shows "waiting_operator L r"
proof -
  have other: "OperatorReadyCondition \<noteq> DeploymentsReadyCondition" by (simp add: OperatorReadyCondition_def DeploymentsReadyCondition_def)
  let ?run1 = "\<lambda>n. upd_op_status (\<lambda>st. st\<lparr>os_DeployedCount := Some n\<rparr>) run"
  have w: "waiting_operator L (?run1 n)" for n using assms(2) by (simp add: waiting_status)
  have w': "waiting_operator L (upd_op_conds (\<lambda>cs. lc_Set L cs c) (?run1 n))" if "c_type c = DeploymentsReadyCondition" for c n
    using w [of n] that other assms(1) by (simp add: waiting_operator_def)
  show ?thesis
    using assms(1,3) w' by (auto simp: deployments_stage_def Let_def waiting_failed split: prod.splits option.splits if_splits)
qed

lemma waiting_post:
  assumes "waiting_operator L run" "step_value (post_cleanup_stage env run) = Some r"
  shows "waiting_operator L r"
proof (cases "postCleanupObsoleteResources env run")
  case (Next b)
  then show ?thesis using assms waiting_quiet [OF quiet_post, of env run b L] by (simp add: post_cleanup_stage_def)
next
  case (Return e b)
  then show ?thesis using assms waiting_quiet [OF quiet_post, of env run b L] by (cases e) (auto simp: post_cleanup_stage_def)
qed (use assms(2) in \<open>simp add: post_cleanup_stage_def\<close>)

lemma waiting_endpoints:
  "condlib_laws L \<Longrightarrow> waiting_operator L run \<Longrightarrow> endpoints_stage L env run = Return e r \<Longrightarrow> waiting_operator L r"
  by (auto simp: endpoints_stage_def op_come_back_def waiting_failed split: sum.splits if_splits)

definition early_stages :: "condlib \<Rightarrow> opctl_env \<Rightarrow> bool \<Rightarrow> (op_run \<Rightarrow> op_run step) list" where
  "early_stages L env isNew =
     [cleanupObsoleteResources env, tolerate (cleanupRabbitMQClusterOperator env), tolerate (cleanupPlacementOperator env),
      (\<lambda>r. if should_reinstall env isNew (or_instance r) then reinstall L env r else Next r),
      manifests_stage L env, post_cleanup_stage env, deployments_stage L env]"

lemma waiting_early:
  assumes L: "condlib_laws L" and f: "f \<in> set (early_stages L env isNew)" and w: "waiting_operator L run" and v: "step_value (f run) = Some r"
  shows "waiting_operator L r"
proof -
  note q = waiting_quiet [OF quiet_obsolete, of env run r L] waiting_quiet [OF quiet_tolerate [OF quiet_rabbit], of env run r L]
    waiting_quiet [OF quiet_tolerate [OF quiet_placement], of env run r L]
  show ?thesis
    using f w v q waiting_manifests [OF L w, of env r] waiting_post [OF w, of env r] waiting_deployments [OF L w, of env r]
      waiting_reinstall [OF L w, of env r]
    by (auto simp: early_stages_def split: if_splits)
qed

lemma install_split: "install L env isNew run = step_bind (run_stages (early_stages L env isNew) run) (endpoints_stage L env)"
proof -
  have "install L env isNew run = run_stages (early_stages L env isNew @ [endpoints_stage L env]) run"
    by (simp add: install_def early_stages_def)
  moreover have "run_stages [f] = f" for f :: "op_run \<Rightarrow> op_run step"
  proof
    fix b show "run_stages [f] b = f b" by (cases "f b") simp_all
  qed
  ultimately show ?thesis unfolding run_stages_append by (simp del: run_stages.simps)
qed

lemma install_waits:
  assumes L: "condlib_laws L" and w: "waiting_operator L run" and r: "install L env isNew run = Return e r"
  shows "waiting_operator L r"
proof -
  have early: "waiting_operator L b" if "step_value (run_stages (early_stages L env isNew) run) = Some b" for b
    by (rule run_stages_invariant [where P = "waiting_operator L", OF waiting_early [OF L] that w])
  show ?thesis
  proof (cases "run_stages (early_stages L env isNew) run")
    case (Next b)
    then show ?thesis using waiting_endpoints [OF L early [of b]] r by (simp add: install_split)
  next
    case (Return e' b)
    then show ?thesis using early [of b] r by (simp add: install_split)
  qed (use r in \<open>simp add: install_split\<close>)
qed

text \<open>What holds when an installation runs to its end.\<close>

lemma applyManifests_Next:
  assumes "applyManifests env run = Next r"
  shows "or_requeue r = or_requeue run \<and> or_instance r = with_counts env (or_instance run\<lparr>oi_Status :=
    (oi_Status (or_instance run))\<lparr>os_ContainerImage := Some (ov_operatorImage (oe_vars env))\<rparr>\<rparr>)"
proof -
  have services: "quiet (\<lambda>_. True) (applyServices env)" using quietD [OF quiet_render] unfolding quiet_def applyServices_def by blast
  have stages: "quiet (\<lambda>_. True) (run_stages [applyCRDs env, applyServices env])"
    by (rule quiet_stages) (simp add: applyCRDs_def quiet_render services)
  obtain b where b: "(if \<not> containerImageMatch env (or_instance run) then run_stages [applyCRDs env, applyServices env] run else Next run) = Next b"
    and r: "applyOperator env (upd_op_status (\<lambda>st. st\<lparr>os_ContainerImage := Some (ov_operatorImage (oe_vars env))\<rparr>) b) = Next r"
    using assms unfolding applyManifests_def step_bind_Next_iff by blast
  have "or_instance b = or_instance run \<and> or_requeue b = or_requeue run"
    using b quietD [OF stages, of run b] by (simp split: if_splits del: run_stages.simps)
  then show ?thesis using applyOperator_value [of env "upd_op_status (\<lambda>st. st\<lparr>os_ContainerImage := Some (ov_operatorImage (oe_vars env))\<rparr>) b" r] r
    by (simp add: upd_op_status_def)
qed

text \<open>An instance without its conditions.\<close>

definition op_view :: "os_instance \<Rightarrow> os_instance" where
  "op_view i = i\<lparr>oi_Status := (oi_Status i)\<lparr>os_Conditions := None\<rparr>\<rparr>"

definition ready_deployments :: "opctl_env \<Rightarrow> os_instance \<Rightarrow> owned_object list" where
  "ready_deployments env i =
     (case oe_owned env ''Deployment'' of
        Inl _ \<Rightarrow> []
      | Inr ds \<Rightarrow> filter (\<lambda>d. ow_Controller d = Some (oi_UID i) \<and> ow_ReadyReplicas d > 0) ds)"

lemma deployments_Next:
  assumes "deployments_stage L env run = Next r"
  shows "or_requeue r = or_requeue run"
    and "op_view (or_instance r) = op_view (or_instance run\<lparr>oi_Status := (oi_Status (or_instance run))
      \<lparr>os_DeployedCount := Some (int (length (ready_deployments env (or_instance run))))\<rparr>\<rparr>)"
    and "os_EnabledCount (oi_Status (or_instance run)) = Some n \<Longrightarrow> n \<le> int (length (ready_deployments env (or_instance run)))"
  using assms
  by (auto simp: deployments_stage_def countDeployments_def Let_def ready_deployments_def controlled_def upd_op_status_def upd_op_conds_def
      op_view_def split: sum.splits option.splits if_splits)

lemma endpoints_Next:
  assumes "endpoints_stage L env run = Next r"
  shows "or_requeue r = or_requeue run" and "op_view (or_instance r) = op_view (or_instance run)"
    and "checkServiceEndpoints env run = Inr True"
  using assms by (auto simp: endpoints_stage_def op_come_back_def upd_op_status_def upd_op_conds_def op_view_def split: sum.splits if_splits)

definition installation :: "opctl_env \<Rightarrow> os_instance \<Rightarrow> bool" where
  "installation env i \<longleftrightarrow>
     os_ContainerImage (oi_Status i) = Some (ov_operatorImage (oe_vars env))
     \<and> os_ReleaseVersion (oi_Status i) = Some (ov_release (oe_vars env))
     \<and> os_EnabledCount (oi_Status i) = Some (int (length (enabled_operators env i)))
     \<and> os_DeployedCount (oi_Status i) = Some (int (length (ready_deployments env i)))
     \<and> length (enabled_operators env i) \<le> length (ready_deployments env i)
     \<and> (\<forall>(name, endpoints) \<in> (case oe_slices env of Inl _ \<Rightarrow> {} | Inr ss \<Rightarrow> set ss).
          isWebhookEndpoint name \<longrightarrow> \<not> webhook_disabled (oi_Overrides i) name \<longrightarrow> slice_healthy endpoints)"

lemma manifests_Next:
  assumes "manifests_stage L env run = Next r" and "os_ReleaseVersion (oi_Status (or_instance run)) = Some v"
  shows "or_requeue r = or_requeue run \<and> or_instance r = with_counts env (or_instance run\<lparr>oi_Status :=
    (oi_Status (or_instance run))\<lparr>os_ContainerImage := Some (ov_operatorImage (oe_vars env))\<rparr>\<rparr>)"
proof -
  have "applyManifests env run = Next r"
    using assms by (auto simp: manifests_stage_def Let_def upd_op_status_def split: step.splits option.splits)
  then show ?thesis by (rule applyManifests_Next)
qed

lemma reinstall_no_Next: "reinstall L env run \<noteq> Next r"
  by (auto simp: reinstall_def op_come_back_def split: step.splits option.splits)

lemma post_Next: "post_cleanup_stage env run = Next r \<Longrightarrow> postCleanupObsoleteResources env run = Next r"
  by (auto simp: post_cleanup_stage_def split: step.splits option.splits)

lemma view_simps [simp]:
  "oi_Overrides (op_view i) = oi_Overrides i" "oi_Namespace (op_view i) = oi_Namespace i" "installation env (op_view i) = installation env i"
  "os_ObservedGeneration (oi_Status (op_view i)) = os_ObservedGeneration (oi_Status i)"
  by (simp_all add: op_view_def installation_def enabled_operators_def ready_deployments_def cong: sum.case_cong)

lemma install_Next:
  assumes "install L env False run = Next r"
  shows "or_requeue r = or_requeue run \<and> installation env (or_instance r)
    \<and> os_ObservedGeneration (oi_Status (or_instance r)) = os_ObservedGeneration (oi_Status (or_instance run))"
proof -
  obtain a1 a2 a3 a4 a5 a6 a7 where a1: "cleanupObsoleteResources env run = Next a1"
    and a2: "tolerate (cleanupRabbitMQClusterOperator env) a1 = Next a2" and a3: "tolerate (cleanupPlacementOperator env) a2 = Next a3"
    and a4: "(if should_reinstall env False (or_instance a3) then reinstall L env a3 else Next a3) = Next a4"
    and a5: "manifests_stage L env a4 = Next a5" and a6: "post_cleanup_stage env a5 = Next a6"
    and a7: "deployments_stage L env a6 = Next a7" and a8: "endpoints_stage L env a7 = Next r"
    using assms unfolding install_def run_stages.simps step_bind_Next_iff by blast
  have run: "or_instance a3 = or_instance run" "or_requeue a3 = or_requeue run"
    using quietD [OF quiet_obsolete, of env run a1] quietD [OF quiet_tolerate [OF quiet_rabbit], of env a1 a2]
      quietD [OF quiet_tolerate [OF quiet_placement], of env a2 a3] a1 a2 a3 by simp_all
  have version: "os_ReleaseVersion (oi_Status (or_instance run)) = Some (ov_release (oe_vars env))" and "a4 = a3"
    using a4 reinstall_no_Next [of L env a3 a4] run by (auto simp: should_reinstall_def split: if_splits option.splits)
  let ?i = "with_counts env (or_instance run\<lparr>oi_Status :=
    (oi_Status (or_instance run))\<lparr>os_ContainerImage := Some (ov_operatorImage (oe_vars env))\<rparr>\<rparr>)"
  have a5i: "or_instance a5 = ?i" "or_requeue a5 = or_requeue run"
    using manifests_Next [OF a5, of "ov_release (oe_vars env)"] version run \<open>a4 = a3\<close> by simp_all
  have a6i: "or_instance a6 = ?i" "or_requeue a6 = or_requeue run"
    using quietD [OF quiet_post, of env a5 a6] post_Next [OF a6] a5i by simp_all
  let ?j = "?i\<lparr>oi_Status := (oi_Status ?i)\<lparr>os_DeployedCount := Some (int (length (ready_deployments env ?i)))\<rparr>\<rparr>"
  have view: "op_view (or_instance r) = op_view ?j" using endpoints_Next(2) [OF a8] deployments_Next(2) [OF a7] a6i by simp
  have overrides: "oi_Overrides (or_instance a7) = oi_Overrides (or_instance run)"
    using arg_cong [OF deployments_Next(2) [OF a7], of oi_Overrides] a6i by (simp add: with_counts_def)
  have "installation env ?j"
    using version deployments_Next(3) [OF a7, of "int (length (enabled_operators env ?i))"] endpoints_Next(3) [OF a8] a6i overrides
    by (auto simp: installation_def with_counts_def enabled_operators_def ready_deployments_def checkServiceEndpoints_def list_all_iff
        split: sum.splits if_splits)
  then have "installation env (or_instance r)"
    using arg_cong [OF view, of "installation env"] by simp
  moreover have "os_ObservedGeneration (oi_Status (or_instance r)) = os_ObservedGeneration (oi_Status (or_instance run))"
    using arg_cong [OF view, of "\<lambda>i. os_ObservedGeneration (oi_Status i)"] by (simp add: with_counts_def)
  ultimately show ?thesis using endpoints_Next(1) [OF a8] deployments_Next(1) [OF a7] a6i by simp
qed

definition op_IsReady :: "condlib \<Rightarrow> os_instance \<Rightarrow> bool" where
  "op_IsReady L i = lc_IsTrue L (op_conds i) ReadyCondition"

lemma waiting_not_ready:
  assumes L: "condlib_laws L" and R: "ready_laws L" and w: "waiting_operator L r"
  shows "\<not> op_IsReady L (or_instance (op_set_ready L r))"
proof
  let ?cs = "op_conds (or_instance r)"
  let ?cs1 = "lc_MarkUnknown L ?cs ReadyCondition InitReason ReadyInitMessage"
  assume "op_IsReady L (or_instance (op_set_ready L r))"
  then have "lc_AllSubConditionIsTrue L ?cs \<or> lc_AllSubConditionIsTrue L ?cs1"
    using L R by (auto simp: op_IsReady_def op_set_ready_def Let_def ready_laws_def split: if_splits)
  moreover have other: "OperatorReadyCondition \<noteq> ReadyCondition" by (simp add: OperatorReadyCondition_def ReadyCondition_def)
  moreover have "lc_Get L ?cs1 OperatorReadyCondition = lc_Get L ?cs OperatorReadyCondition" using L other by simp
  moreover obtain c where "lc_Get L ?cs OperatorReadyCondition = Some c" "c_status c = CFalse" using w by (auto simp: waiting_operator_def)
  ultimately show False using R unfolding ready_laws_def by (metis cond_status.distinct(1))
qed

lemma waiting_delete:
  assumes "waiting_operator L run" and "step_value (op_reconcileDelete env run) = Some r"
  shows "waiting_operator L r"
proof -
  have hook: "quiet is_deletion (\<lambda>r. let r1 = op_log [Deleted kind n] r
      in case oe_delete env kind n of None \<Rightarrow> Next r1 | Some e \<Rightarrow> Return (Some (wrapf ''failed to cleanup webhook'' e)) r1)" for kind n
    by (auto simp: quiet_def op_log_def Let_def split: option.splits)
  have "quiet is_deletion (cleanup_webhooks env kind)" for kind
  proof -
    have "quiet is_deletion (run_stages (map (\<lambda>n r. let r1 = op_log [Deleted kind n] r
      in case oe_delete env kind n of None \<Rightarrow> Next r1 | Some e \<Rightarrow> Return (Some (wrapf ''failed to cleanup webhook'' e)) r1) ns))" for ns
      by (rule quiet_stages) (simp add: list_all_iff hook)
    from quietD [OF this] show ?thesis unfolding quiet_def cleanup_webhooks_def by (auto split: sum.splits simp del: run_stages.simps)
  qed
  then have q: "quiet is_deletion (run_stages [cleanup_webhooks env k, cleanup_webhooks env k'])" for k k' by (intro quiet_stages) simp
  show ?thesis
  proof (cases "run_stages [cleanup_webhooks env ''ValidatingWebhookConfiguration'', cleanup_webhooks env ''MutatingWebhookConfiguration''] run")
    case (Next c)
    then have "op_conds (or_instance c) = op_conds (or_instance run)" using quietD [OF q, of _ _ run c] by (metis step_value.simps(1))
    then show ?thesis using assms Next by (auto simp: op_reconcileDelete_def waiting_operator_def op_conds_def simp del: run_stages.simps)
  next
    case (Return e c)
    then show ?thesis using assms waiting_quiet [OF q, of "''ValidatingWebhookConfiguration''" "''MutatingWebhookConfiguration''" run c L] by (simp add: op_reconcileDelete_def del: run_stages.simps)
  qed (use assms(2) in \<open>simp add: op_reconcileDelete_def del: run_stages.simps\<close>)
qed

lemma reconcileDelete_no_Next: "op_reconcileDelete env run \<noteq> Next r"
  unfolding op_reconcileDelete_def step_bind_Next_iff by simp

lemma op_body_waits:
  assumes L: "condlib_laws L" and b: "op_body L env items i = Return e r"
  shows "waiting_operator L r"
proof -
  define run where "run = (if \<not> oi_Deleting i \<and> oe_finalizer env \<notin> set (oi_Finalizers i)
    then (op_start L env i)\<lparr>or_instance := (or_instance (op_start L env i))\<lparr>oi_Finalizers := oi_Finalizers i @ [oe_finalizer env]\<rparr>\<rparr>
    else op_start L env i)"
  have w: "waiting_operator L run" using waiting_start [OF L, of env i] by (simp add: run_def waiting_operator_def op_conds_def)
  have extra: "waiting_operator L r'" if "delete_extra L env run = Return e' r'" for e' r'
  proof -
    have "waiting_operator L (op_log [DeletedInstance] run)" using w by (simp add: op_log_def waiting_operator_def)
    then show ?thesis using that waiting_failed [OF L] by (auto simp: delete_extra_def Let_def split: option.splits)
  qed
  consider "r = run" | "delete_extra L env run = Return e r" | "op_reconcileDelete env run = Return e r" | isNew where "install L env isNew run = Return e r"
    using b unfolding op_body_def Let_def run_def [symmetric] by (metis step.inject(2))
  then show ?thesis
    by cases (use w extra waiting_delete [OF w, of env r] install_waits [OF L w] in auto)
qed

lemma op_body_Next:
  assumes "op_body L env items i = Next r"
  shows "is_first env items \<and> \<not> oi_Deleting i \<and> \<not> or_requeue r \<and> installation env (or_instance r)
    \<and> os_ObservedGeneration (oi_Status (or_instance r)) = oi_Generation i"
proof -
  have i: "install L env False (op_start L env i) = Next r" "is_first env items" "\<not> oi_Deleting i"
    using assms reconcileDelete_no_Next by (auto simp: op_body_def Let_def delete_extra_def split: if_splits)
  have "\<not> or_requeue (op_start L env i)" "os_ObservedGeneration (oi_Status (or_instance (op_start L env i))) = oi_Generation i"
    by (simp_all add: op_start_def upd_op_conds_def upd_op_status_def)
  then show ?thesis using install_Next [OF i(1)] i(2,3) by simp
qed

text \<open>The deployment of an operator has the name that the templates \<open>managers.yaml\<close> and \<open>operator.yaml\<close> of \<open>bindata/operator\<close> give it.
  The ready deployments are unmixed if they have different names, all of enabled operators.\<close>

definition manager_name :: "service_operator \<Rightarrow> string" where
  "manager_name op = so_Name op @ ''-operator-controller-manager''"

definition unmixed :: "opctl_env \<Rightarrow> os_instance \<Rightarrow> bool" where
  "unmixed env i \<longleftrightarrow> distinct (map ow_Name (ready_deployments env i))
     \<and> list_all (\<lambda>d. ow_Name d \<in> manager_name ` set (enabled_operators env i)) (ready_deployments env i)"

lemma each_operator_ready:
  assumes "installation env i" and "unmixed env i"
  shows "list_all (\<lambda>op. list_ex (\<lambda>d. ow_Name d = manager_name op) (ready_deployments env i)) (enabled_operators env i)"
proof -
  let ?ready = "ow_Name ` set (ready_deployments env i)" and ?enabled = "manager_name ` set (enabled_operators env i)"
  have "card ?enabled \<le> length (enabled_operators env i)" using card_image_le [of "set (enabled_operators env i)" manager_name] card_length le_trans by blast
  also have "\<dots> \<le> length (ready_deployments env i)" using assms(1) by (simp add: installation_def)
  also have "\<dots> = card ?ready" using assms(2) distinct_card [of "map ow_Name (ready_deployments env i)"] by (simp add: unmixed_def)
  finally have "card ?enabled \<le> card ?ready" .
  moreover have "?ready \<subseteq> ?enabled" using assms(2) by (auto simp: unmixed_def list_all_iff)
  ultimately have "?ready = ?enabled" by (intro card_seteq) auto
  then have "\<exists>d \<in> set (ready_deployments env i). ow_Name d = manager_name op" if "op \<in> set (enabled_operators env i)" for op
    using that by (metis imageE imageI)
  then show ?thesis by (simp add: list_all_iff list_ex_iff)
qed

text \<open>C34: an OpenStack instance that a reconciliation reports as ready is installed: it is the oldest instance, not being deleted,
  its image and release are those of the running operator, the reconciliation has no error and asks for no other one, and the status
  counts the operators that are enabled and the deployments the instance controls with a ready replica.  There are at least as many of
  these as of the former; the code compares no more than the numbers, so that each enabled operator has a ready deployment of its own
  provided no other deployment, such as that of an operator that was just disabled, stands in for it.  Every slice of a webhook service
  that exists, and whose operator is not disabled, has endpoints, each with an address; that there is a slice is not checked.\<close>

theorem operator_ready_means:
  assumes "condlib_laws L" and "ready_laws L" and "oe_list env = Inr items" and "oe_get env = Inr i"
    and "op_Reconcile L env = Some (Some r, requeue, e)" and "op_IsReady L (or_instance r)"
  shows "e = None \<and> \<not> requeue \<and> is_first env items \<and> \<not> oi_Deleting i \<and> installation env (or_instance r)
    \<and> os_ObservedGeneration (oi_Status (or_instance r)) = oi_Generation i
    \<and> (unmixed env (or_instance r) \<longrightarrow>
         list_all (\<lambda>op. list_ex (\<lambda>d. ow_Name d = manager_name op) (ready_deployments env (or_instance r))) (enabled_operators env (or_instance r)))"
proof -
  obtain r0 where r0: "r = op_set_ready L r0" "requeue = or_requeue r0"
    and b: "op_body L env items i = Return e r0 \<or> (op_body L env items i = Next r0 \<and> e = None)"
    using assms(3-5) by (auto simp: op_Reconcile_def Let_def split: option.splits step.splits)
  have n: "op_body L env items i = Next r0" "e = None"
    using b op_body_waits [OF assms(1)] waiting_not_ready [OF assms(1,2)] assms(6) r0(1) by blast+
  have "op_view (or_instance r) = op_view (or_instance r0)"
    by (simp add: r0(1) op_set_ready_def upd_op_conds_def upd_op_status_def op_view_def)
  then have "installation env (or_instance r) = installation env (or_instance r0)"
    "os_ObservedGeneration (oi_Status (or_instance r)) = os_ObservedGeneration (oi_Status (or_instance r0))"
    by (metis view_simps(3), metis view_simps(4))
  then show ?thesis using op_body_Next [OF n(1)] n(2) r0(2) each_operator_ready by simp
qed

subsection \<open>A change of the release\<close>















subsection \<open>A second instance\<close>

text \<open>A second instance is deleted, but the check that deletes it comes before the one for the deletion, so that its finalizer is never
  removed: every further reconciliation deletes it again.\<close>

lemma second_instance_keeps_finalizer:
  assumes "oe_list env = Inr items" and "oe_get env = Inr i" and "\<not> is_first env items" and "oi_Deleting i"
    and "op_Reconcile L env = Some (Some r, requeue, e)"
  shows "oi_Finalizers (or_instance r) = oi_Finalizers i \<and> \<not> requeue \<and> e = None"
proof -
  let ?run = "op_start L env i"
  have start: "oi_Finalizers (or_instance ?run) = oi_Finalizers i" "\<not> or_requeue ?run"
    by (simp_all add: op_start_def upd_op_conds_def upd_op_status_def)
  have kept: "oi_Finalizers (or_instance (op_set_ready L q)) = oi_Finalizers (or_instance q)"
    "oi_Finalizers (or_instance (op_failed L e1 q)) = oi_Finalizers (or_instance q)" "or_requeue (op_failed L e1 q) = or_requeue q" for q e1
    by (simp_all add: op_set_ready_def op_failed_def upd_op_conds_def upd_op_status_def)
  show ?thesis
    using assms start kept by (auto simp: op_Reconcile_def op_body_def Let_def delete_extra_def op_log_def split: option.splits if_splits)
qed

text \<open>The readiness of an endpoint does not matter.\<close>

lemma readiness_ignored:
  "map ea_Addresses es = map ea_Addresses es' \<Longrightarrow> slice_healthy es = slice_healthy es'"
proof -
  assume a: "map ea_Addresses es = map ea_Addresses es'"
  have h: "slice_healthy es \<longleftrightarrow> map ea_Addresses es \<noteq> [] \<and> [] \<notin> set (map ea_Addresses es)" for es
    by (auto simp: slice_healthy_def list_all_iff image_iff)
  show ?thesis unfolding h [of es] h [of es'] a ..
qed

text \<open>An install plan with an empty list of names ends the operator.\<close>

lemma empty_plan_panics:
  assumes "cleanup_named env ''ClusterServiceVersion'' (oe_csvs env) run = Next a" and "cleanup_named env ''Subscription'' (oe_subscriptions env) a = Next b"
    and "oe_installPlans env = Inr ((n, Found []) # plans)"
  shows "cleanupObsoleteResources env run = Panic"
  using assms by (simp add: cleanupObsoleteResources_def cleanup_install_plans_def cleanup_install_plan_def)

subsection \<open>Overrides\<close>

lemma put_toleration_keys:
  "set (map to_Key (put_toleration t ts)) = insert (to_Key t) (set (map to_Key ts))"
  "distinct (map to_Key ts) \<Longrightarrow> distinct (map to_Key (put_toleration t ts))"
proof -
  show keys: "set (map to_Key (put_toleration t ts)) = insert (to_Key t) (set (map to_Key ts))" for ts
    by (induction ts) auto
  show "distinct (map to_Key ts) \<Longrightarrow> distinct (map to_Key (put_toleration t ts))"
    using keys by (induction ts) auto
qed

definition by_key :: "toleration list \<Rightarrow> (string \<rightharpoonup> toleration)" where
  "by_key ts = map_of (map (\<lambda>t. (to_Key t, t)) ts)"

lemma by_key_put: "by_key (put_toleration t ts) = (by_key ts)(to_Key t \<mapsto> t)"
  by (induction ts) (auto simp: by_key_def fun_eq_iff)

text \<open>The merged tolerations, seen by their keys: the last custom one of a key, or the default.\<close>

lemma mergeTolerations_by_key: "by_key (mergeTolerations defaults custom) = by_key defaults ++ by_key (rev custom)"
proof (induction custom arbitrary: defaults)
  case (Cons t ts)
  have "mergeTolerations defaults (t # ts) = mergeTolerations (put_toleration t defaults) ts" by (simp add: mergeTolerations_def)
  moreover have "by_key (rev (t # ts)) = [to_Key t \<mapsto> t] ++ by_key (rev ts)" by (simp add: by_key_def)
  ultimately show ?case unfolding Cons.IH by_key_put by (auto simp: Cons.IH by_key_put fun_eq_iff map_add_def split: option.splits)
qed (simp add: mergeTolerations_def by_key_def)

lemma mergeTolerations_distinct: "distinct (map to_Key defaults) \<Longrightarrow> distinct (map to_Key (mergeTolerations defaults custom))"
  by (induction custom arbitrary: defaults) (simp_all add: mergeTolerations_def put_toleration_keys(2))

lemma SetOverrides_Tolerations:
  "so_Tolerations (SetOverrides ovr op) = mergeTolerations (so_Tolerations op) (op_Tolerations ovr)"
  by (simp add: SetOverrides_def Let_def mergeTolerations_def split: option.splits)

lemma SetOverrides_fields [simp]:
  "so_Name (SetOverrides ovr op) = so_Name op" "so_Env (SetOverrides ovr op) = so_Env op"
  "so_Image (SetOverrides ovr op) = so_Image op" "so_Namespace (SetOverrides ovr op) = so_Namespace op"
  "so_Replicas (SetOverrides ovr op) = (case op_Replicas ovr of None \<Rightarrow> so_Replicas op | Some n \<Rightarrow> Some n)"
  by (simp_all add: SetOverrides_def Let_def split: option.splits)

lemma OperatorList_fields: "op \<in> set OperatorList \<Longrightarrow> op_Replicas op = None \<and> op_Tolerations op = []"
  by (auto simp: OperatorList_def large_spec_def plain_spec_def)

lemma default_fields [simp]:
  "so_Name (default_operator vs ns n img) = n" "so_Image (default_operator vs ns n img) = img"
  "so_Replicas (default_operator vs ns n img) = Some 1" "so_Tolerations (default_operator vs ns n img) = DefaultTolerations"
  by (simp_all add: default_operator_def)

text \<open>The deployment of every service operator.  An operator of the list is deployed exactly when the environment has an image for it; it
  runs that image, with the replicas of the first override of its name or one replica, and its tolerations are, key by key, those of
  that override and the default ones for the other keys, with no key twice.\<close>

theorem service_operator_spec:
  assumes "op \<in> set OperatorList"
  shows "case map_of (ov_operatorImages vs) (op_Name op) of
      None \<Rightarrow> service_operator_of vs ns overrides op = None
    | Some img \<Rightarrow> \<exists>o1. service_operator_of vs ns overrides op = Some o1 \<and> so_Name o1 = op_Name op \<and> so_Image o1 = img
        \<and> so_Replicas o1 = Some (case HasOverrides overrides (op_Name op) of None \<Rightarrow> 1 | Some ovr \<Rightarrow> case op_Replicas ovr of None \<Rightarrow> 1 | Some n \<Rightarrow> n)
        \<and> distinct (map to_Key (so_Tolerations o1))
        \<and> by_key (so_Tolerations o1) = by_key DefaultTolerations
            ++ (case HasOverrides overrides (op_Name op) of None \<Rightarrow> Map.empty | Some ovr \<Rightarrow> by_key (rev (op_Tolerations ovr)))"
proof -
  have d: "distinct (map to_Key DefaultTolerations)" by (simp add: DefaultTolerations_def)
  have e: "mergeTolerations ts [] = ts" for ts by (simp add: mergeTolerations_def)
  show ?thesis
    using OperatorList_fields [OF assms] mergeTolerations_distinct [OF d] d
    by (auto simp: service_operator_of_def Let_def SetOverrides_Tolerations mergeTolerations_by_key e split: option.splits)
qed

lemma counts_add_up:
  "length (filter is_disabled ops) + length (enabled_operators env i) = length ops"
  if "ops = service_operators (oe_vars env) (oi_Namespace i) (oi_Overrides i)"
  using that sum_length_filter_compl [of is_disabled ops] by (simp add: enabled_operators_def)

subsection \<open>Witnesses\<close>

definition sample_vars :: op_vars where
  "sample_vars = no_vars\<lparr>ov_operatorImages := [(''keystone'', ''keystone-operator:1'')], ov_operatorImage := ''operator:1'', ov_release := ''18.0''\<rparr>"

definition sample_render :: render_env where
  "sample_render = \<lparr>rv_walk = (\<lambda>d. [(d, Inr True), (d @ ''/x.yaml'', Inr False)]), rv_read = (\<lambda>_. Inr ''x''), rv_parse = (\<lambda>_. None), rv_execute = Inr,
     rv_decode = (\<lambda>_. Inr [sample_manifest])\<rparr>"

definition sample_installation :: "string ptr \<Rightarrow> os_instance" where
  "sample_installation release = \<lparr>oi_Name = ''os'', oi_Namespace = ''os'', oi_UID = ''uid'', oi_Generation = 2, oi_Deleting = False, oi_Finalizers = [''f''],
     oi_Overrides = [], oi_Status = \<lparr>os_Conditions = Some [], os_DeployedCount = None, os_DisabledCount = None, os_EnabledCount = None,
       os_TotalCount = None, os_ObservedGeneration = 1, os_ContainerImage = None, os_ReleaseVersion = release\<rparr>\<rparr>"

definition sample_opctl :: "string ptr \<Rightarrow> opctl_env" where
  "sample_opctl release = \<lparr>oe_vars = sample_vars, oe_list = Inr [(''os'', 0)], oe_sort = id, oe_reqName = ''os'', oe_get = Inr (sample_installation release),
     oe_newHelper = None, oe_finalizer = ''f'', oe_deleteInstance = None, oe_delete = (\<lambda>_ _. None), oe_deleteAllWebhooks = None,
     oe_webhooks = (\<lambda>_. Inr []), oe_csvs = Inr [''keystone-operator.v1''], oe_subscriptions = Inr [], oe_installPlans = Inr [],
     oe_operators = Inr [], oe_printRefs = (\<lambda>_. []), oe_owned = (\<lambda>_. Inr [\<lparr>ow_Name = ''keystone-operator'', ow_Controller = Some ''uid'', ow_ReadyReplicas = 1\<rparr>]),
     oe_slices = Inr [(''infra-operator-webhook-service-x'', [\<lparr>ea_Addresses = [''10.0.0.1''], ea_Ready = None, ea_Serving = None\<rparr>])],
     oe_rabbitClusters = Inr 1, oe_allRabbitClusters = Inr 1, oe_bindir = ''/bindata'', oe_render = (\<lambda>_. sample_render),
     oe_setController = Inr, oe_apply = sample_apply None, oe_print = mf_Name, oe_printList = concat, oe_patch = None\<rparr>"

lemma sample_opctl_simps [simp]: "oe_list (sample_opctl v) = Inr [(''os'', 0)]" "oe_get (sample_opctl v) = Inr (sample_installation v)"
  by (simp_all add: sample_opctl_def)

definition observed_op :: "opctl_env \<Rightarrow> (bool \<times> bool \<times> api_error option) option" where
  "observed_op env = (case op_Reconcile list_condlib env of
       Some (Some r, rq, e) \<Rightarrow> Some (op_IsReady list_condlib (or_instance r), rq, e)
     | _ \<Rightarrow> None)"

lemma observed_opE:
  assumes "observed_op env = Some (ready, rq, e)"
  obtains r where "op_Reconcile list_condlib env = Some (Some r, rq, e)" "op_IsReady list_condlib (or_instance r) = ready"
  using assms by (auto simp: observed_op_def split: option.splits prod.splits)

lemma observed_install: "observed_op (sample_opctl (Some ''18.0'')) = Some (True, False, None)"
  by code_simp


theorem operator_ready_means_witness:
  "\<exists>r. op_Reconcile list_condlib (sample_opctl (Some ''18.0'')) = Some (Some r, False, None) \<and> is_first (sample_opctl (Some ''18.0'')) [(''os'', 0)]
     \<and> installation (sample_opctl (Some ''18.0'')) (or_instance r)"
proof -
  obtain r where r: "op_Reconcile list_condlib (sample_opctl (Some ''18.0'')) = Some (Some r, False, None)" "op_IsReady list_condlib (or_instance r)"
    using observed_opE [OF observed_install] by blast
  show ?thesis
    using operator_ready_means [OF list_condlib_laws list_condlib_ready sample_opctl_simps r] r(1) by blast
qed

text \<open>The numbers alone: Nova is disabled but its deployment still runs, and Keystone, which is enabled, has no ready replica; there are no
  slices of webhooks.  The instance is ready all the same.\<close>

definition stray_opctl :: opctl_env where
  "stray_opctl = (sample_opctl (Some ''18.0''))
     \<lparr>oe_get := Inr ((sample_installation (Some ''18.0''))\<lparr>oi_Overrides := [(plain_spec ''nova'')\<lparr>op_Replicas := Some 0\<rparr>]\<rparr>),
      oe_vars := sample_vars\<lparr>ov_operatorImages := [(''keystone'', ''keystone-operator:1''), (''nova'', ''nova-operator:1'')]\<rparr>,
      oe_owned := (\<lambda>_. Inr [\<lparr>ow_Name = ''keystone-operator-controller-manager'', ow_Controller = Some ''uid'', ow_ReadyReplicas = 0\<rparr>,
        \<lparr>ow_Name = ''nova-operator-controller-manager'', ow_Controller = Some ''uid'', ow_ReadyReplicas = 1\<rparr>]),
      oe_slices := Inr []\<rparr>"

lemma stray_deployment_counts:
  "observed_op stray_opctl = Some (True, False, None)"
  "map so_Name (enabled_operators stray_opctl ((sample_installation None)\<lparr>oi_Overrides := [(plain_spec ''nova'')\<lparr>op_Replicas := Some 0\<rparr>]\<rparr>)) = [''keystone'']"
  by code_simp+


end
