(* ===== verification/Backup_Controller.thy ===== *)
theory Backup_Controller
  imports Ctlplane_Ready Net_Names
begin

text \<open>
  Labels for backup and restore: \<open>internal/controller/backup/openstackbackupconfig_controller.go\<close>, the webhook of
  \<open>OpenStackBackupConfig\<close> and \<open>ReconcileBackupConfig\<close> of \<open>internal/openstack/backup.go\<close>.

  The backup package of lib-common is a parameter, a record \<open>backup_lib\<close>: the keys of the labels, the default labels for an order and a
  category, and \<open>EnsureBackupLabels\<close>, which gives the object as it is afterwards.  \<open>backup_laws\<close> is what the controller says it relies on.
\<close>

subsection \<open>Data\<close>

record bk_object =
  bo_Name :: string
  bo_Owners :: "string list"
  bo_Labels :: "(string, string) gomap"
  bo_Annotations :: "(string, string) gomap"

datatype BackupLabelingPolicy = BackupLabelingEnabled | BackupLabelingDisabled

record ResourceBackupConfig =
  rb_Labeling :: "BackupLabelingPolicy ptr"
  rb_RestoreOrder :: string
  rb_ExcludeLabelKeys :: "string list"
  rb_ExcludeNames :: "string list"
  rb_IncludeLabelSelector :: "(string, string) gomap"

datatype bk_kind = BkSecrets | BkConfigMaps | BkNADs

record bk_spec =
  bs_DefaultRestoreOrder :: string
  bs_Secrets :: ResourceBackupConfig
  bs_ConfigMaps :: ResourceBackupConfig
  bs_NADs :: ResourceBackupConfig

record ResourceCounts =
  rc_Secrets :: nat
  rc_ConfigMaps :: nat
  rc_NADs :: nat
  rc_CRs :: nat

record bk_instance =
  bi_Name :: string
  bi_Spec :: bk_spec
  bi_Counts :: ResourceCounts
  bi_Conditions :: conditions

record crd_version =
  cv_Name :: string
  cv_Storage :: bool
  cv_Served :: bool

record bk_crd =
  cd_Name :: string
  cd_Group :: string
  cd_Kind :: string
  cd_Versions :: "crd_version list"
  cd_Labels :: "(string, string) gomap"

record bk_gvk =
  gk_Group :: string
  gk_Version :: string
  gk_Kind :: string

record bk_config =
  bf_Enabled :: bool
  bf_RestoreOrder :: string
  bf_Category :: string

record backup_lib =
  bl_BackupLabel :: string
  bl_RestoreLabel :: string
  bl_RestoreOrderLabel :: string
  bl_CategoryLabel :: string
  bl_LabelKeys :: "string list"
  bl_RestoreOrder10 :: string
  bl_GetRestoreLabels :: "string \<Rightarrow> string \<Rightarrow> (string, string) gomap"
  bl_EnsureBackupLabels :: "(string, string) gomap \<Rightarrow> bk_object \<Rightarrow> api_error + bk_object"

record bk_env =
  be_lib :: backup_lib
  be_get :: "api_error + bk_instance"
  be_newHelper :: "api_error option"
  be_list :: "bk_kind \<Rightarrow> api_error + bk_object list"
  be_cache :: "(string, bk_config) gomap"
  be_buildCache :: "api_error + (string, bk_config) gomap"
  be_crd :: "string \<Rightarrow> api_error + bk_crd"
  be_listCRs :: "bk_gvk \<Rightarrow> api_error + bk_object list"
  be_printNat :: "nat \<Rightarrow> string"
  be_patch :: "api_error option"

text \<open>\<open>errors.Join\<close>: no error if there is none, else the messages on lines of their own.\<close>

definition Join_errors :: "api_error list \<Rightarrow> api_error option" where
  "Join_errors es = (if es = [] then None else Some (OtherError (join_with (CHR 0x0A) (map err_msg es))))"

subsection \<open>Which objects are labelled\<close>

fun storage_version :: "crd_version list \<Rightarrow> string \<Rightarrow> string" where
  "storage_version [] version = version"
| "storage_version (v # vs) version =
     (if cv_Storage v then cv_Name v else storage_version vs (if cv_Served v \<and> version = [] then cv_Name v else version))"

definition gvkFromCRD :: "bk_crd \<Rightarrow> bk_gvk" where
  "gvkFromCRD crd = \<lparr>gk_Group = cd_Group crd, gk_Version = storage_version (cd_Versions crd) [], gk_Kind = cd_Kind crd\<rparr>"

definition getGVKFromCRD :: "bk_env \<Rightarrow> string \<Rightarrow> api_error + bk_gvk" where
  "getGVKFromCRD env name = (case be_crd env name of Inl e \<Rightarrow> Inl e | Inr crd \<Rightarrow> Inr (gvkFromCRD crd))"

definition has_key :: "('k, 'v) gomap \<Rightarrow> 'k \<Rightarrow> bool" where
  "has_key m k \<longleftrightarrow> map_of m k \<noteq> None"

definition shouldLabelResource :: "bk_object \<Rightarrow> ResourceBackupConfig \<Rightarrow> bool" where
  "shouldLabelResource obj config =
     (if rb_Labeling config = Some BackupLabelingDisabled then False
      else if bo_Owners obj \<noteq> [] then False
      else if list_ex (has_key (bo_Labels obj)) (rb_ExcludeLabelKeys config) then False
      else if bo_Name obj \<in> set (rb_ExcludeNames config) then False
      else list_all (\<lambda>(k, v). gomap_get [] (bo_Labels obj) k = v) (rb_IncludeLabelSelector config))"

definition getRestoreOrder :: "ResourceBackupConfig \<Rightarrow> string \<Rightarrow> string" where
  "getRestoreOrder config defaultOrder = (if rb_RestoreOrder config \<noteq> [] then rb_RestoreOrder config else defaultOrder)"

definition hasBackupAnnotations :: "backup_lib \<Rightarrow> bk_object \<Rightarrow> bool" where
  "hasBackupAnnotations B obj = list_ex (has_key (bo_Annotations obj)) (bl_LabelKeys B)"

subsection \<open>Labelling\<close>

text \<open>The objects as they are afterwards, how many are labelled, and the errors.\<close>

definition label_item :: "backup_lib \<Rightarrow> ResourceBackupConfig \<Rightarrow> (string, string) gomap \<Rightarrow> bk_object \<Rightarrow> bk_object \<times> nat \<times> api_error list" where
  "label_item B config defaultLabels obj =
     (let label = (case bl_EnsureBackupLabels B defaultLabels obj of
                     Inl e \<Rightarrow> (obj, 0, [wrap_err (bo_Name obj @ '': '') e])
                   | Inr obj' \<Rightarrow> (obj', 1, []))
      in if hasBackupAnnotations B obj then label
         else (case map_of (bo_Labels obj) (bl_RestoreLabel B) of
                 Some v \<Rightarrow> (obj, if v = ''true'' then 1 else 0, [])
               | None \<Rightarrow> if shouldLabelResource obj config then label else (obj, 0, [])))"

fun collect_items :: "(bk_object \<Rightarrow> bk_object \<times> nat \<times> api_error list) \<Rightarrow> bk_object list \<Rightarrow> bk_object list \<times> nat \<times> api_error list" where
  "collect_items f [] = ([], 0, [])"
| "collect_items f (obj # objs) =
     (case (f obj, collect_items f objs) of ((o1, n, es), (os, m, fs)) \<Rightarrow> (o1 # os, n + m, es @ fs))"

definition labelResourceItems :: "backup_lib \<Rightarrow> bk_object list \<Rightarrow> ResourceBackupConfig \<Rightarrow> (string, string) gomap
    \<Rightarrow> bk_object list \<times> nat \<times> api_error option" where
  "labelResourceItems B items config defaultLabels =
     (case collect_items (label_item B config defaultLabels) items of (os, n, es) \<Rightarrow> (os, n, Join_errors es))"

definition kind_config :: "bk_kind \<Rightarrow> bk_spec \<Rightarrow> ResourceBackupConfig" where
  "kind_config k spec = (case k of BkSecrets \<Rightarrow> bs_Secrets spec | BkConfigMaps \<Rightarrow> bs_ConfigMaps spec | BkNADs \<Rightarrow> bs_NADs spec)"

definition kind_labels :: "backup_lib \<Rightarrow> bk_kind \<Rightarrow> bk_spec \<Rightarrow> (string, string) gomap" where
  "kind_labels B k spec = bl_GetRestoreLabels B (getRestoreOrder (kind_config k spec) (bs_DefaultRestoreOrder spec)) []"

definition label_kind :: "bk_env \<Rightarrow> bk_kind \<Rightarrow> bk_instance \<Rightarrow> bk_object list \<times> nat \<times> api_error option" where
  "label_kind env k i =
     (case be_list env k of
        Inl e \<Rightarrow> ([], 0, Some e)
      | Inr items \<Rightarrow> labelResourceItems (be_lib env) items (kind_config k (bi_Spec i)) (kind_labels (be_lib env) k (bi_Spec i)))"

definition labelSecrets :: "bk_env \<Rightarrow> bk_instance \<Rightarrow> bk_object list \<times> nat \<times> api_error option" where
  "labelSecrets env = label_kind env BkSecrets"

definition labelConfigMaps :: "bk_env \<Rightarrow> bk_instance \<Rightarrow> bk_object list \<times> nat \<times> api_error option" where
  "labelConfigMaps env = label_kind env BkConfigMaps"

definition labelNetworkAttachmentDefinitions :: "bk_env \<Rightarrow> bk_instance \<Rightarrow> bk_object list \<times> nat \<times> api_error option" where
  "labelNetworkAttachmentDefinitions env = label_kind env BkNADs"

definition label_cr :: "backup_lib \<Rightarrow> string \<Rightarrow> (string, string) gomap \<Rightarrow> bk_object \<Rightarrow> bk_object \<times> nat \<times> api_error list" where
  "label_cr B kind defaultLabels obj =
     (case bl_EnsureBackupLabels B defaultLabels obj of
        Inl e \<Rightarrow> (obj, 0, [wrap_err (kind @ ''/'' @ bo_Name obj @ '': '') e])
      | Inr obj' \<Rightarrow> (obj', 1, []))"

definition label_crd :: "bk_env \<Rightarrow> string \<times> bk_config \<Rightarrow> bk_object list \<times> nat \<times> api_error list" where
  "label_crd env c =
     (case c of
        (crdName, config) \<Rightarrow>
          if \<not> bf_Enabled config then ([], 0, [])
          else (case getGVKFromCRD env crdName of
                  Inl e \<Rightarrow> ([], 0, [wrap_err (''CRD '' @ crdName @ '': '') e])
                | Inr gvk \<Rightarrow>
                    (case be_listCRs env (gvk\<lparr>gk_Kind := gk_Kind gvk @ ''List''\<rparr>) of
                       Inl e \<Rightarrow> ([], 0, [wrap_err (''list '' @ crdName @ '': '') e])
                     | Inr objs \<Rightarrow>
                         collect_items (label_cr (be_lib env) (gk_Kind gvk) (bl_GetRestoreLabels (be_lib env) (bf_RestoreOrder config) (bf_Category config)))
                           objs)))"

fun label_crds :: "bk_env \<Rightarrow> (string \<times> bk_config) list \<Rightarrow> bk_object list \<times> nat \<times> api_error list" where
  "label_crds env [] = ([], 0, [])"
| "label_crds env (c # cs) = (case (label_crd env c, label_crds env cs) of ((os, n, es), (ps, m, fs)) \<Rightarrow> (os @ ps, n + m, es @ fs))"

definition crd_cache :: "bk_env \<Rightarrow> api_error + (string, bk_config) gomap" where
  "crd_cache env = (if be_cache env = [] then be_buildCache env else Inr (be_cache env))"

definition labelCRInstances :: "bk_env \<Rightarrow> bk_object list \<times> nat \<times> api_error option" where
  "labelCRInstances env =
     (case crd_cache env of
        Inl e \<Rightarrow> ([], 0, Some (wrap_err ''failed to build CRD label cache: '' e))
      | Inr cache \<Rightarrow> (case label_crds env cache of (os, n, es) \<Rightarrow> (os, n, Join_errors es)))"

definition buildCRDLabelCacheFromReader :: "backup_lib \<Rightarrow> api_error + bk_crd list \<Rightarrow> api_error + (string, bk_config) gomap" where
  "buildCRDLabelCacheFromReader B out =
     (case out of
        Inl e \<Rightarrow> Inl e
      | Inr crds \<Rightarrow>
          Inr (fold (\<lambda>crd cache. if gomap_get [] (cd_Labels crd) (bl_RestoreLabel B) \<noteq> ''true'' then cache
                 else gomap_put (cd_Name crd) \<lparr>bf_Enabled = True, bf_RestoreOrder = gomap_get [] (cd_Labels crd) (bl_RestoreOrderLabel B),
                        bf_Category = gomap_get [] (cd_Labels crd) (bl_CategoryLabel B)\<rparr> cache) crds []))"

subsection \<open>Reconcile\<close>

definition SecretsReadyCondition :: string where "SecretsReadyCondition = ''SecretsReady''"
definition ConfigMapsReadyCondition :: string where "ConfigMapsReadyCondition = ''ConfigMapsReady''"
definition NADsReadyCondition :: string where "NADsReadyCondition = ''NADsReady''"
definition CRsReadyCondition :: string where "CRsReadyCondition = ''CRsReady''"

definition bk_initial :: "condlib \<Rightarrow> conditions" where
  "bk_initial L =
     lc_UnknownCondition L ReadyCondition InitReason ReadyInitMessage
     # map (\<lambda>t. lc_UnknownCondition L t InitReason ''Init'') [SecretsReadyCondition, ConfigMapsReadyCondition, NADsReadyCondition, CRsReadyCondition]"

definition set_outcome :: "condlib \<Rightarrow> bk_env \<Rightarrow> string \<Rightarrow> string \<Rightarrow> string \<Rightarrow> nat \<times> api_error option \<Rightarrow> conditions \<Rightarrow> conditions" where
  "set_outcome L env t failed what out cs =
     (case out of
        (n, Some e) \<Rightarrow> lc_Set L cs (lc_FalseCondition L t ErrorReason SeverityWarning (failed @ err_msg e))
      | (n, None) \<Rightarrow> lc_Set L cs (lc_TrueCondition L t (be_printNat env n @ what)))"

definition bk_set_ready :: "condlib \<Rightarrow> conditions \<Rightarrow> conditions" where
  "bk_set_ready L cs =
     (if lc_AllSubConditionIsTrue L cs then lc_MarkTrue L cs ReadyCondition ReadyMessage
      else (let cs1 = lc_MarkUnknown L cs ReadyCondition InitReason ReadyInitMessage in lc_Set L cs1 (lc_Mirror L cs1 ReadyCondition)))"

definition some_errors :: "api_error option list \<Rightarrow> api_error list" where
  "some_errors os = List.map_filter id os"

text \<open>The instance as it is written (none when nothing is written), the objects after labelling, and the error.\<close>

definition bk_Reconcile :: "condlib \<Rightarrow> bk_env \<Rightarrow> (bk_instance \<times> bk_object list) option \<times> api_error option" where
  "bk_Reconcile L env =
     (case be_get env of
        Inl e \<Rightarrow> (None, if IsNotFound e then None else Some e)
      | Inr i \<Rightarrow>
          (case be_newHelper env of
             Some e \<Rightarrow> (None, Some e)
           | None \<Rightarrow>
               (let cs0 = lc_Init L (bi_Conditions i) (bk_initial L);
                    (ss, s, se) = labelSecrets env i;
                    cs1 = set_outcome L env SecretsReadyCondition ''Failed to label secrets: '' '' secrets have backup labels'' (s, se) cs0;
                    (ms, c, ce) = labelConfigMaps env i;
                    cs2 = set_outcome L env ConfigMapsReadyCondition ''Failed to label configmaps: '' '' configmaps have backup labels'' (c, ce) cs1;
                    (ns, n, ne) = labelNetworkAttachmentDefinitions env i;
                    cs3 = set_outcome L env NADsReadyCondition ''Failed to label network-attachment-definitions: '' '' NADs have backup labels'' (n, ne) cs2;
                    (rs, r, re) = labelCRInstances env;
                    cs4 = set_outcome L env CRsReadyCondition ''Failed to label CR instances: '' '' CRs have backup labels'' (r, re) cs3;
                    i' = i\<lparr>bi_Conditions := bk_set_ready L cs4, bi_Counts := \<lparr>rc_Secrets = s, rc_ConfigMaps = c, rc_NADs = n, rc_CRs = r\<rparr>\<rparr>
                in (case be_patch env of
                      Some e \<Rightarrow> (None, Some e)
                    | None \<Rightarrow> (Some (i', ss @ ms @ ns @ rs), Join_errors (some_errors [se, ce, ne, re]))))))"

subsection \<open>Events\<close>

definition needsBackupLabeling :: "backup_lib \<Rightarrow> (string, string) gomap \<Rightarrow> bool" where
  "needsBackupLabeling B labels \<longleftrightarrow> \<not> has_key labels (bl_BackupLabel B) \<and> \<not> has_key labels (bl_RestoreLabel B)"

definition backupAnnotationsChanged :: "backup_lib \<Rightarrow> (string, string) gomap \<Rightarrow> (string, string) gomap \<Rightarrow> bool" where
  "backupAnnotationsChanged B old new = list_ex (\<lambda>k. gomap_get [] old k \<noteq> gomap_get [] new k) (bl_LabelKeys B)"

definition backupLabelKeys :: "backup_lib \<Rightarrow> string list" where
  "backupLabelKeys B = [bl_BackupLabel B, bl_RestoreLabel B, bl_RestoreOrderLabel B, bl_CategoryLabel B]"

definition backupLabelsRemoved :: "backup_lib \<Rightarrow> (string, string) gomap \<Rightarrow> (string, string) gomap \<Rightarrow> bool" where
  "backupLabelsRemoved B old new = list_ex (\<lambda>k. has_key old k \<and> \<not> has_key new k) (backupLabelKeys B)"

datatype bk_event = CreateEvent bk_object | UpdateEvent bk_object bk_object | DeleteEvent | GenericEvent

definition backupResourcePredicate :: "backup_lib \<Rightarrow> bk_event \<Rightarrow> bool" where
  "backupResourcePredicate B e =
     (case e of
        CreateEvent obj \<Rightarrow> needsBackupLabeling B (bo_Labels obj)
      | UpdateEvent old new \<Rightarrow>
          backupAnnotationsChanged B (bo_Annotations old) (bo_Annotations new) \<or> backupLabelsRemoved B (bo_Labels old) (bo_Labels new)
      | DeleteEvent \<Rightarrow> False
      | GenericEvent \<Rightarrow> False)"

definition findBackupConfigForSrc :: "api_error + (string \<times> string) list \<Rightarrow> (string \<times> string) list" where
  "findBackupConfigForSrc out = (case out of Inl _ \<Rightarrow> [] | Inr configs \<Rightarrow> configs)"

subsection \<open>The instance of a control plane and the webhook\<close>

text \<open>Only one configuration per namespace is admitted; \<open>forbidden\<close> is the text of the API error for a detail.\<close>

definition backup_ValidateCreate :: "(string \<Rightarrow> string) \<Rightarrow> api_error + string list \<Rightarrow> api_error option" where
  "backup_ValidateCreate forbidden out =
     (case out of
        Inl e \<Rightarrow> Some (OtherError (forbidden (err_msg e)))
      | Inr configs \<Rightarrow>
          if length configs \<ge> 1 then Some (OtherError (forbidden ''Only one OpenStackBackupConfig instance is supported per namespace.'')) else None)"

definition with_labeling :: "ResourceBackupConfig \<Rightarrow> ResourceBackupConfig" where
  "with_labeling c = (if rb_Labeling c = None then c\<lparr>rb_Labeling := Some BackupLabelingEnabled\<rparr> else c)"

definition backup_defaults :: "backup_lib \<Rightarrow> bk_spec \<Rightarrow> bk_spec" where
  "backup_defaults B s =
     (let s1 = (if bs_DefaultRestoreOrder s = [] then s\<lparr>bs_DefaultRestoreOrder := bl_RestoreOrder10 B\<rparr> else s);
          s2 = s1\<lparr>bs_Secrets := with_labeling (bs_Secrets s1), bs_ConfigMaps := with_labeling (bs_ConfigMaps s1)\<rparr>;
          s3 = (if rb_ExcludeNames (bs_ConfigMaps s2) = []
                then s2\<lparr>bs_ConfigMaps := (bs_ConfigMaps s2)\<lparr>rb_ExcludeNames := [''kube-root-ca.crt'', ''openshift-service-ca.crt'']\<rparr>\<rparr> else s2)
      in s3\<lparr>bs_NADs := with_labeling (bs_NADs s3)\<rparr>)"

text \<open>The configuration of a control plane: the first one of the namespace, or the one that \<open>CreateOrPatch\<close> gives.  \<open>get\<close> is the object
  of the name of the control plane, if there is one, and \<open>patch\<close> writes it.\<close>

definition ReconcileBackupConfig :: "backup_lib \<Rightarrow> api_error + bk_spec list \<Rightarrow> api_error + bk_spec option \<Rightarrow> (bk_spec \<Rightarrow> api_error option)
    \<Rightarrow> bk_spec \<Rightarrow> api_error + bk_spec" where
  "ReconcileBackupConfig B out get patch blank =
     (case out of
        Inl e \<Rightarrow> Inl (wrap_err ''failed to list OpenStackBackupConfigs: '' e)
      | Inr (c # _) \<Rightarrow> Inr c
      | Inr [] \<Rightarrow>
          (case get of
             Inl e \<Rightarrow> Inl e
           | Inr found \<Rightarrow>
               (let s = (case found of None \<Rightarrow> backup_defaults B blank | Some s \<Rightarrow> s)
                in case patch s of Some e \<Rightarrow> Inl e | None \<Rightarrow> Inr s)))"

end
