(* ===== verification/Backup_Laws.thy ===== *)
theory Backup_Laws
  imports Backup_Controller
begin

text \<open>
  Laws of the labels for backup and restore: which objects are labelled, what a ready configuration means, and that labelling settles.
\<close>

subsection \<open>Hypotheses\<close>

text \<open>What the controller relies on of \<open>EnsureBackupLabels\<close> with default labels that have the one for restoring: it changes nothing but labels, sets the default labels on an object without
  annotations of its own, and does nothing on an object it has labelled; and the default labels ask for the object to be restored.\<close>

definition backup_laws :: "backup_lib \<Rightarrow> bool" where
  "backup_laws B \<longleftrightarrow>
     (\<forall>d obj obj'. map_of d (bl_RestoreLabel B) \<noteq> None \<and> bl_EnsureBackupLabels B d obj = Inr obj' \<longrightarrow>
        bo_Name obj' = bo_Name obj \<and> bo_Owners obj' = bo_Owners obj \<and> bo_Annotations obj' = bo_Annotations obj
        \<and> (\<not> hasBackupAnnotations B obj \<longrightarrow> map_of (bo_Labels obj') (bl_RestoreLabel B) = map_of d (bl_RestoreLabel B))
        \<and> bl_EnsureBackupLabels B d obj' = Inr obj')
     \<and> (\<forall>order category. map_of (bl_GetRestoreLabels B order category) (bl_RestoreLabel B) = Some ''true'')"

subsection \<open>Which objects are labelled\<close>

definition wanted :: "backup_lib \<Rightarrow> ResourceBackupConfig \<Rightarrow> bk_object \<Rightarrow> bool" where
  "wanted B config obj \<longleftrightarrow> hasBackupAnnotations B obj
     \<or> (map_of (bo_Labels obj) (bl_RestoreLabel B) = None \<and> shouldLabelResource obj config)"

definition labelled :: "backup_lib \<Rightarrow> (string, string) gomap \<Rightarrow> bk_object \<Rightarrow> bk_object" where
  "labelled B d obj = (case bl_EnsureBackupLabels B d obj of Inl _ \<Rightarrow> obj | Inr obj' \<Rightarrow> obj')"

definition labels_ok :: "backup_lib \<Rightarrow> (string, string) gomap \<Rightarrow> bk_object \<Rightarrow> bool" where
  "labels_ok B d obj \<longleftrightarrow> (\<exists>obj'. bl_EnsureBackupLabels B d obj = Inr obj')"

lemma collect_items_map: "collect_items f os = (map (fst \<circ> f) os, sum_list (map (fst \<circ> snd \<circ> f) os), concat (map (snd \<circ> snd \<circ> f) os))"
  by (induction os) (auto split: prod.splits)

lemma Join_None [simp]: "Join_errors es = None \<longleftrightarrow> es = []"
  by (simp add: Join_errors_def)

lemma label_item_wanted:
  "label_item B config d obj =
     (if wanted B config obj
      then (labelled B d obj, if labels_ok B d obj then 1 else 0,
            case bl_EnsureBackupLabels B d obj of Inl e \<Rightarrow> [wrap_err (bo_Name obj @ '': '') e] | Inr _ \<Rightarrow> [])
      else (obj, if map_of (bo_Labels obj) (bl_RestoreLabel B) = Some ''true'' then 1 else 0, []))"
  by (auto simp: label_item_def wanted_def labelled_def labels_ok_def Let_def split: option.splits sum.splits)

definition counted :: "backup_lib \<Rightarrow> ResourceBackupConfig \<Rightarrow> (string, string) gomap \<Rightarrow> bk_object \<Rightarrow> bool" where
  "counted B config d obj \<longleftrightarrow>
     (if wanted B config obj then labels_ok B d obj else map_of (bo_Labels obj) (bl_RestoreLabel B) = Some ''true'')"

lemma sum_list_count: "sum_list (map (\<lambda>x. if P x then 1 else 0) xs) = length (filter P xs)"
  by (induction xs) auto

text \<open>Exactly the wanted objects are labelled; the count is that of the objects labelled or labelled before, and there is no error
  exactly if every wanted object could be labelled.\<close>

lemma labelResourceItems_spec:
  assumes "labelResourceItems B items config d = (objs, n, e)"
  shows "objs = map (\<lambda>obj. if wanted B config obj then labelled B d obj else obj) items"
    and "n = length (filter (counted B config d) items)"
    and "e = None \<longleftrightarrow> (\<forall>obj \<in> set items. wanted B config obj \<longrightarrow> labels_ok B d obj)"
proof -
  have c: "objs = map (fst \<circ> label_item B config d) items" "n = sum_list (map (fst \<circ> snd \<circ> label_item B config d) items)"
    "e = Join_errors (concat (map (snd \<circ> snd \<circ> label_item B config d) items))"
    using assms by (simp_all add: labelResourceItems_def collect_items_map)
  show "objs = map (\<lambda>obj. if wanted B config obj then labelled B d obj else obj) items"
    unfolding c by (simp add: label_item_wanted)
  have "fst \<circ> snd \<circ> label_item B config d = (\<lambda>obj. if counted B config d obj then 1 else 0)"
    by (auto simp: label_item_wanted counted_def)
  then show "n = length (filter (counted B config d) items)" unfolding c by (simp only: sum_list_count)
  show "e = None \<longleftrightarrow> (\<forall>obj \<in> set items. wanted B config obj \<longrightarrow> labels_ok B d obj)"
  proof -
    have "snd (snd (label_item B config d obj)) = [] \<longleftrightarrow> (wanted B config obj \<longrightarrow> labels_ok B d obj)" for obj
      by (cases "bl_EnsureBackupLabels B d obj") (simp_all add: label_item_wanted labels_ok_def)
    then show ?thesis unfolding c by simp
  qed
qed

subsection \<open>Labelling settles\<close>

lemma label_again:
  assumes B: "backup_laws B" and d: "map_of d (bl_RestoreLabel B) = Some ''true''" and ok: "wanted B config obj \<longrightarrow> labels_ok B d obj"
  defines "obj' \<equiv> (if wanted B config obj then labelled B d obj else obj)"
  shows "(if wanted B config obj' then labelled B d obj' else obj') = obj'" and "counted B config d obj' = counted B config d obj"
    and "wanted B config obj' \<longrightarrow> labels_ok B d obj'"
proof -
  have new: "hasBackupAnnotations B obj' = hasBackupAnnotations B obj \<and> labelled B d obj' = obj' \<and> labels_ok B d obj'
      \<and> (\<not> hasBackupAnnotations B obj \<longrightarrow> map_of (bo_Labels obj') (bl_RestoreLabel B) = Some ''true'')"
    if w: "wanted B config obj"
  proof -
    obtain x where x: "bl_EnsureBackupLabels B d obj = Inr x" using ok w by (auto simp: labels_ok_def)
    then have e: "obj' = x" using w by (simp add: obj'_def labelled_def)
    have "bo_Annotations x = bo_Annotations obj" "bl_EnsureBackupLabels B d x = Inr x"
      "\<not> hasBackupAnnotations B obj \<longrightarrow> map_of (bo_Labels x) (bl_RestoreLabel B) = map_of d (bl_RestoreLabel B)"
      using B x d unfolding backup_laws_def by (metis option.distinct(1))+
    then show ?thesis using d unfolding e by (simp add: labelled_def labels_ok_def hasBackupAnnotations_def)
  qed
  have old: "obj' = obj" if "\<not> wanted B config obj" using that by (simp add: obj'_def)
  show "(if wanted B config obj' then labelled B d obj' else obj') = obj'" using new old by auto
  show "wanted B config obj' \<longrightarrow> labels_ok B d obj'" using new old by auto
  show "counted B config d obj' = counted B config d obj"
    using new old ok by (cases "wanted B config obj") (auto simp: counted_def wanted_def)
qed

text \<open>C38: labelling settles.  If every object of a kind that is to be labelled was labelled, and the cluster has what was written, then the
  next reconciliation leaves every object as it is, counts the same number, and has no error.\<close>

theorem backup_settles:
  assumes B: "backup_laws (be_lib env)" and first: "label_kind env k i = (objs, n, None)"
    and later: "be_list env' k = Inr objs" "be_lib env' = be_lib env"
  shows "label_kind env' k i = (objs, n, None)"
proof -
  let ?B = "be_lib env"
  let ?c = "kind_config k (bi_Spec i)"
  let ?d = "kind_labels ?B k (bi_Spec i)"
  obtain items where items: "be_list env k = Inr items" and run: "labelResourceItems ?B items ?c ?d = (objs, n, None)"
    using first by (auto simp: label_kind_def split: sum.splits)
  have d: "map_of ?d (bl_RestoreLabel ?B) = Some ''true''" using B by (simp add: kind_labels_def backup_laws_def)
  note spec = labelResourceItems_spec [OF run]
  have ok: "wanted ?B ?c obj \<longrightarrow> labels_ok ?B ?d obj" if "obj \<in> set items" for obj using spec(3) that by simp
  note again = label_again [OF B d ok]
  obtain objs' n' e' where run': "labelResourceItems ?B objs ?c ?d = (objs', n', e')" by (metis prod_cases3)
  note spec' = labelResourceItems_spec [OF run']
  have "objs' = objs" unfolding spec'(1) using again(1) by (auto simp: spec(1) intro!: map_idI)
  moreover have "n' = n"
    unfolding spec'(2) spec(2) using again(2) by (simp add: spec(1) filter_map comp_def cong: filter_cong)
  moreover have "e' = None"
    unfolding spec'(3)
  proof
    fix obj assume "obj \<in> set objs"
    then obtain x where x: "x \<in> set items" "obj = (if wanted ?B ?c x then labelled ?B ?d x else x)" unfolding spec(1) by auto
    show "wanted ?B ?c obj \<longrightarrow> labels_ok ?B ?d obj" unfolding x(2) by (rule again(3) [OF x(1)])
  qed
  ultimately show ?thesis using later run' by (simp add: label_kind_def)
qed

subsection \<open>Ready\<close>

lemma set_outcome_Get:
  "condlib_laws L \<Longrightarrow> lc_Get L (set_outcome L env t f w out cs) t' =
     (if t' = t then Some (case out of (n, Some e) \<Rightarrow> lc_FalseCondition L t ErrorReason SeverityWarning (f @ err_msg e)
                          | (n, None) \<Rightarrow> lc_TrueCondition L t (be_printNat env n @ w)) else lc_Get L cs t')"
  by (simp add: set_outcome_def split: prod.splits option.splits)

definition bk_IsReady :: "condlib \<Rightarrow> bk_instance \<Rightarrow> bool" where
  "bk_IsReady L i = lc_IsTrue L (bi_Conditions i) ReadyCondition"

lemma bk_ready_true:
  assumes L: "condlib_laws L" and R: "ready_laws L" and ready: "lc_IsTrue L (bk_set_ready L cs) ReadyCondition"
    and t: "t \<noteq> ReadyCondition" and c: "lc_Get L cs t = Some c"
  shows "c_status c = CTrue"
proof -
  let ?cs1 = "lc_MarkUnknown L cs ReadyCondition InitReason ReadyInitMessage"
  have "lc_AllSubConditionIsTrue L cs \<or> lc_AllSubConditionIsTrue L ?cs1"
    using ready L R by (auto simp: bk_set_ready_def Let_def ready_laws_def split: if_splits)
  moreover have "lc_Get L ?cs1 t = Some c" using L t c by simp
  ultimately show ?thesis using R t c unfolding ready_laws_def by blast
qed

lemma bk_types: "distinct [SecretsReadyCondition, ConfigMapsReadyCondition, NADsReadyCondition, CRsReadyCondition, ReadyCondition]"
  by (simp add: SecretsReadyCondition_def ConfigMapsReadyCondition_def NADsReadyCondition_def CRsReadyCondition_def ReadyCondition_def)

lemma bk_ready_outcomes:
  assumes L: "condlib_laws L" "ready_laws L" and get: "be_get env = Inr i"
    and run: "bk_Reconcile L env = (Some (i', objs), e)" and ready: "bk_IsReady L i'"
  shows "e = None \<and> snd (snd (labelCRInstances env)) = None \<and> (\<forall>k. snd (snd (label_kind env k i)) = None)
    \<and> objs = fst (labelSecrets env i) @ fst (labelConfigMaps env i) @ fst (labelNetworkAttachmentDefinitions env i) @ fst (labelCRInstances env)"
proof -
  obtain ss s se where s: "labelSecrets env i = (ss, s, se)" by (metis prod_cases3)
  obtain ms c ce where c: "labelConfigMaps env i = (ms, c, ce)" by (metis prod_cases3)
  obtain ns n ne where n: "labelNetworkAttachmentDefinitions env i = (ns, n, ne)" by (metis prod_cases3)
  obtain rs r re where r: "labelCRInstances env = (rs, r, re)" by (metis prod_cases3)
  define cs where "cs = set_outcome L env CRsReadyCondition ''Failed to label CR instances: '' '' CRs have backup labels'' (r, re)
    (set_outcome L env NADsReadyCondition ''Failed to label network-attachment-definitions: '' '' NADs have backup labels'' (n, ne)
    (set_outcome L env ConfigMapsReadyCondition ''Failed to label configmaps: '' '' configmaps have backup labels'' (c, ce)
    (set_outcome L env SecretsReadyCondition ''Failed to label secrets: '' '' secrets have backup labels'' (s, se)
      (lc_Init L (bi_Conditions i) (bk_initial L)))))"
  have i': "bi_Conditions i' = bk_set_ready L cs" and objs: "objs = ss @ ms @ ns @ rs" and e: "e = Join_errors (some_errors [se, ce, ne, re])"
    using run by (auto simp: bk_Reconcile_def get s c n r cs_def Let_def split: option.splits)
  note true = bk_ready_true [OF L ready [unfolded bk_IsReady_def i']]
  have status: "c_status (the (lc_Get L cs t)) = CTrue" if "t \<in> {SecretsReadyCondition, ConfigMapsReadyCondition, NADsReadyCondition, CRsReadyCondition}" for t
    using that true [of t] bk_types L by (auto simp: cs_def set_outcome_Get)
  have none: "se = None" "ce = None" "ne = None" "re = None"
    using status [of SecretsReadyCondition] status [of ConfigMapsReadyCondition] status [of NADsReadyCondition] status [of CRsReadyCondition] bk_types L
    by (auto simp: cs_def set_outcome_Get split: option.splits)
  have "snd (snd (label_kind env k i)) = None" for k
    using none s c n by (cases k) (simp_all add: labelSecrets_def labelConfigMaps_def labelNetworkAttachmentDefinitions_def)
  then show ?thesis using none e objs s c n r by (simp add: some_errors_def List.map_filter_def Join_errors_def)
qed

lemma label_crds_ok:
  assumes "label_crds env cs = (objs, n, [])" and "(name, config) \<in> set cs" and "bf_Enabled config"
  shows "\<exists>gvk crs. getGVKFromCRD env name = Inr gvk \<and> be_listCRs env (gvk\<lparr>gk_Kind := gk_Kind gvk @ ''List''\<rparr>) = Inr crs
    \<and> (\<forall>obj \<in> set crs. \<exists>obj' \<in> set objs. bl_EnsureBackupLabels (be_lib env)
         (bl_GetRestoreLabels (be_lib env) (bf_RestoreOrder config) (bf_Category config)) obj = Inr obj')"
  using assms
proof (induction cs arbitrary: objs n)
  case (Cons c cs)
  obtain os m where c: "label_crd env c = (os, m, [])" and rest: "\<exists>ps k. label_crds env cs = (ps, k, []) \<and> objs = os @ ps"
    using Cons.prems(1) by (auto split: prod.splits)
  show ?case
  proof (cases "(name, config) \<in> set cs")
    case True
    obtain ps k where ps: "label_crds env cs = (ps, k, [])" "objs = os @ ps" using rest by blast
    show ?thesis using Cons.IH [OF ps(1) True Cons.prems(3)] ps(2) by (metis Un_iff set_append)
  next
    case False
    then have "c = (name, config)" using Cons.prems(2) by simp
    then obtain gvk crs where g: "getGVKFromCRD env name = Inr gvk" "be_listCRs env (gvk\<lparr>gk_Kind := gk_Kind gvk @ ''List''\<rparr>) = Inr crs"
      and l: "collect_items (label_cr (be_lib env) (gk_Kind gvk) (bl_GetRestoreLabels (be_lib env) (bf_RestoreOrder config) (bf_Category config))) crs = (os, m, [])"
      using c Cons.prems(3) by (auto simp: label_crd_def split: sum.splits)
    have "\<exists>obj' \<in> set os. bl_EnsureBackupLabels (be_lib env) (bl_GetRestoreLabels (be_lib env) (bf_RestoreOrder config) (bf_Category config)) obj = Inr obj'"
      if "obj \<in> set crs" for obj
      using l that by (force simp: collect_items_map label_cr_def split: sum.splits)
    then show ?thesis using g rest by fastforce
  qed
qed simp

text \<open>C37: a backup configuration is reported as ready only if the reconciliation had no error, every kind of resource could be listed and
  every object of it that is to be labelled was labelled, and so was every instance of every enabled custom resource definition.\<close>

theorem backup_ready_means:
  assumes L: "condlib_laws L" "ready_laws L" and get: "be_get env = Inr i"
    and run: "bk_Reconcile L env = (Some (i', objs), e)" and ready: "bk_IsReady L i'"
  shows "e = None
    \<and> (\<forall>k. \<exists>items. be_list env k = Inr items \<and> (\<forall>obj \<in> set items. wanted (be_lib env) (kind_config k (bi_Spec i)) obj \<longrightarrow>
         (\<exists>obj' \<in> set objs. bl_EnsureBackupLabels (be_lib env) (kind_labels (be_lib env) k (bi_Spec i)) obj = Inr obj')))
    \<and> (\<exists>cache. crd_cache env = Inr cache \<and> (\<forall>(name, config) \<in> set cache. bf_Enabled config \<longrightarrow>
         (\<exists>gvk crs. getGVKFromCRD env name = Inr gvk \<and> be_listCRs env (gvk\<lparr>gk_Kind := gk_Kind gvk @ ''List''\<rparr>) = Inr crs
           \<and> (\<forall>obj \<in> set crs. \<exists>obj' \<in> set objs. bl_EnsureBackupLabels (be_lib env)
                (bl_GetRestoreLabels (be_lib env) (bf_RestoreOrder config) (bf_Category config)) obj = Inr obj'))))"
proof -
  note out = bk_ready_outcomes [OF assms]
  have kinds: "set (fst (label_kind env k i)) \<subseteq> set objs" for k
    using out by (cases k) (auto simp: labelSecrets_def labelConfigMaps_def labelNetworkAttachmentDefinitions_def)
  have "\<exists>items. be_list env k = Inr items \<and> (\<forall>obj \<in> set items. wanted (be_lib env) (kind_config k (bi_Spec i)) obj \<longrightarrow>
      (\<exists>obj' \<in> set objs. bl_EnsureBackupLabels (be_lib env) (kind_labels (be_lib env) k (bi_Spec i)) obj = Inr obj'))" for k
  proof -
    obtain os n where k: "label_kind env k i = (os, n, None)" using out by (metis prod.collapse)
    then obtain items where items: "be_list env k = Inr items"
      and l: "labelResourceItems (be_lib env) items (kind_config k (bi_Spec i)) (kind_labels (be_lib env) k (bi_Spec i)) = (os, n, None)"
      by (auto simp: label_kind_def split: sum.splits)
    have "set os \<subseteq> set objs" using kinds [of k] k by simp
    then show ?thesis
      using items labelResourceItems_spec(1,3) [OF l] by (force simp: labels_ok_def labelled_def)
  qed
  moreover obtain cache rs n where cache: "crd_cache env = Inr cache" "label_crds env cache = (rs, n, [])" and rs: "set rs \<subseteq> set objs"
    using out by (auto simp: labelCRInstances_def split: sum.splits prod.splits)
  moreover have "\<exists>gvk crs. getGVKFromCRD env name = Inr gvk \<and> be_listCRs env (gvk\<lparr>gk_Kind := gk_Kind gvk @ ''List''\<rparr>) = Inr crs
      \<and> (\<forall>obj \<in> set crs. \<exists>obj' \<in> set objs. bl_EnsureBackupLabels (be_lib env)
           (bl_GetRestoreLabels (be_lib env) (bf_RestoreOrder config) (bf_Category config)) obj = Inr obj')"
    if "(name, config) \<in> set cache" "bf_Enabled config" for name config
    using label_crds_ok [OF cache(2) that] rs by (meson subsetD)
  ultimately show ?thesis using out by auto
qed

subsection \<open>Events\<close>

text \<open>An annotation with an empty value makes the next reconciliation label the object without the filters, but the change is not noticed:
  the values of the annotations are compared, and a missing one counts as empty.\<close>

lemma empty_annotation_unnoticed:
  assumes "k \<in> set (bl_LabelKeys B)" and "bo_Annotations old = []" and "bo_Annotations new = [(k, [])]" and "bo_Labels new = bo_Labels old"
  shows "hasBackupAnnotations B new" and "\<not> hasBackupAnnotations B old" and "\<not> backupResourcePredicate B (UpdateEvent old new)"
proof -
  show "hasBackupAnnotations B new" "\<not> hasBackupAnnotations B old"
    using assms by (auto simp: hasBackupAnnotations_def has_key_def list_ex_iff)
  show "\<not> backupResourcePredicate B (UpdateEvent old new)"
    using assms by (auto simp: backupResourcePredicate_def backupAnnotationsChanged_def backupLabelsRemoved_def gomap_get_def list_ex_iff)
qed

text \<open>Labels that are removed are noticed, and labelling then sets them again.\<close>

lemma removed_labels_noticed:
  assumes "map_of (bo_Labels old) (bl_RestoreLabel B) \<noteq> None" and "map_of (bo_Labels new) (bl_RestoreLabel B) = None"
  shows "backupResourcePredicate B (UpdateEvent old new)"
  using assms by (simp add: backupResourcePredicate_def backupLabelsRemoved_def backupLabelKeys_def has_key_def)

subsection \<open>Witnesses\<close>

definition sample_backup_lib :: backup_lib where
  "sample_backup_lib = \<lparr>bl_BackupLabel = ''backup'', bl_RestoreLabel = ''restore'', bl_RestoreOrderLabel = ''order'', bl_CategoryLabel = ''category'',
     bl_LabelKeys = [''restore'', ''order''], bl_RestoreOrder10 = ''10'',
     bl_GetRestoreLabels = (\<lambda>order category. [(''restore'', ''true''), (''order'', order)]),
     bl_EnsureBackupLabels = (\<lambda>d obj. Inr (obj\<lparr>bo_Labels := d\<rparr>))\<rparr>"

lemma sample_backup_laws: "backup_laws sample_backup_lib"
  by (simp add: backup_laws_def sample_backup_lib_def)

definition sample_resource_config :: ResourceBackupConfig where
  "sample_resource_config = \<lparr>rb_Labeling = Some BackupLabelingEnabled, rb_RestoreOrder = [], rb_ExcludeLabelKeys = [], rb_ExcludeNames = [''root''],
     rb_IncludeLabelSelector = []\<rparr>"

definition sample_backup :: bk_instance where
  "sample_backup = \<lparr>bi_Name = ''b'', bi_Spec = \<lparr>bs_DefaultRestoreOrder = ''10'', bs_Secrets = sample_resource_config, bs_ConfigMaps = sample_resource_config,
     bs_NADs = sample_resource_config\<rparr>, bi_Counts = \<lparr>rc_Secrets = 0, rc_ConfigMaps = 0, rc_NADs = 0, rc_CRs = 0\<rparr>, bi_Conditions = []\<rparr>"

definition sample_bk_env :: "bk_object list \<Rightarrow> bk_env" where
  "sample_bk_env objs = \<lparr>be_lib = sample_backup_lib, be_get = Inr sample_backup, be_newHelper = None, be_list = (\<lambda>_. Inr objs),
     be_cache = [(''versions'', \<lparr>bf_Enabled = True, bf_RestoreOrder = ''20'', bf_Category = []\<rparr>)], be_buildCache = Inr [],
     be_crd = (\<lambda>n. Inr \<lparr>cd_Name = n, cd_Group = ''core'', cd_Kind = ''OpenStackVersion'',
        cd_Versions = [\<lparr>cv_Name = ''v1beta1'', cv_Storage = True, cv_Served = True\<rparr>], cd_Labels = []\<rparr>),
     be_listCRs = (\<lambda>_. Inr [\<lparr>bo_Name = ''v'', bo_Owners = [], bo_Labels = [], bo_Annotations = []\<rparr>]), be_printNat = (\<lambda>_. ''n''), be_patch = None\<rparr>"

definition sample_secrets :: "bk_object list" where
  "sample_secrets = [\<lparr>bo_Name = ''root'', bo_Owners = [], bo_Labels = [], bo_Annotations = []\<rparr>,
     \<lparr>bo_Name = ''mine'', bo_Owners = [], bo_Labels = [], bo_Annotations = []\<rparr>,
     \<lparr>bo_Name = ''owned'', bo_Owners = [''u''], bo_Labels = [], bo_Annotations = []\<rparr>]"

definition sample_labelled :: "bk_object list" where
  "sample_labelled = fst (label_kind (sample_bk_env sample_secrets) BkSecrets sample_backup)"

lemma sample_first: "label_kind (sample_bk_env sample_secrets) BkSecrets sample_backup = (sample_labelled, 1, None)"
  by code_simp

theorem backup_settles_witness: "label_kind (sample_bk_env sample_labelled) BkSecrets sample_backup = (sample_labelled, 1, None)"
  by (rule backup_settles [OF _ sample_first]) (simp_all add: sample_bk_env_def sample_backup_laws)

lemma sample_bk_ready:
  "case bk_Reconcile list_condlib (sample_bk_env sample_secrets) of (Some (i, _), e) \<Rightarrow> bk_IsReady list_condlib i | _ \<Rightarrow> False"
  by code_simp

theorem backup_ready_means_witness:
  "\<exists>i objs. bk_Reconcile list_condlib (sample_bk_env sample_secrets) = (Some (i, objs), None)
     \<and> \<lparr>bo_Name = ''mine'', bo_Owners = [], bo_Labels = [(''restore'', ''true''), (''order'', ''10'')], bo_Annotations = []\<rparr> \<in> set objs"
proof -
  let ?env = "sample_bk_env sample_secrets"
  obtain i objs e where r: "bk_Reconcile list_condlib ?env = (Some (i, objs), e)" "bk_IsReady list_condlib i"
    using sample_bk_ready by (auto split: prod.splits option.splits)
  have get: "be_get ?env = Inr sample_backup" by (simp add: sample_bk_env_def)
  note means = backup_ready_means [OF list_condlib_laws list_condlib_ready get r]
  have "wanted sample_backup_lib sample_resource_config \<lparr>bo_Name = ''mine'', bo_Owners = [], bo_Labels = [], bo_Annotations = []\<rparr>"
    by code_simp
  then have "\<lparr>bo_Name = ''mine'', bo_Owners = [], bo_Labels = [(''restore'', ''true''), (''order'', ''10'')], bo_Annotations = []\<rparr> \<in> set objs"
    using conjunct1 [OF conjunct2 [OF means], rule_format, of BkSecrets]
    by (auto simp: sample_bk_env_def sample_secrets_def sample_backup_def sample_backup_lib_def kind_config_def kind_labels_def getRestoreOrder_def
        sample_resource_config_def)
  then show ?thesis using means r(1) by blast
qed

end
