(* ===== verification/Client_Controller.thy ===== *)
theory Client_Controller
  imports Ctlplane_Ready Dataplane_Types
begin

text \<open>
  The client pod: \<open>internal/controller/client/openstackclient_controller.go\<close>, \<open>internal/openstackclient/funcs.go\<close> and the defaults of
  \<open>api/client/v1beta1\<close>.

  \<open>client_env\<close> has the functions of lib-common (hashes, merging of variables, the bundle's volume and mounts, the accounts) and what the
  calls of the API server return.  The specification of a pod in the cluster is the one the controller has written, without what the API
  server adds.
\<close>

subsection \<open>Data\<close>

record env_setter =
  en_Value :: string
  en_ValueFrom :: "string ptr"

record client_spec =
  cl_OpenStackConfigMap :: "string ptr"
  cl_OpenStackConfigSecret :: "string ptr"
  cl_NodeSelector :: "(string, string) gomap ptr"
  cl_CaBundleSecretName :: string
  cl_Env :: "(string \<times> env_setter) list"
  cl_ContainerImage :: string

record os_client =
  ci_Name :: string
  ci_Namespace :: string
  ci_Generation :: int
  ci_Spec :: client_spec
  ci_Conditions :: "conditions option"
  ci_ObservedGeneration :: int
  ci_Hash :: "(string, string) gomap"

record pod_toleration =
  pt_Key :: string
  pt_Operator :: string
  pt_Effect :: string
  pt_Seconds :: int

record client_container =
  cc_Name :: string
  cc_Image :: string
  cc_Command :: "string list"
  cc_Args :: "string list"
  cc_RunAsUser :: int
  cc_RunAsGroup :: int
  cc_RunAsNonRoot :: bool
  cc_AllowPrivilegeEscalation :: bool
  cc_Drop :: "string list"
  cc_Env :: "(string \<times> env_setter) list"
  cc_Mounts :: "volume_mount list"

record client_pod_spec =
  ps_GracePeriod :: int
  ps_ServiceAccountName :: string
  ps_Volumes :: "volume list"
  ps_Container :: client_container
  ps_Tolerations :: "pod_toleration list"
  ps_NodeSelector :: "(string, string) gomap ptr"

text \<open>A pod that is in the cluster has a time of creation.\<close>

record client_pod =
  pd_Created :: bool
  pd_Spec :: client_pod_spec
  pd_Labels :: "(string, string) gomap"
  pd_Controller :: "string option"
  pd_Deleted :: "int option"
  pd_Conditions :: "(string \<times> string) list"

datatype client_action = PodCreated client_pod | PodPatched client_pod | PodDeleted | PodKilled

record client_env =
  cx_get :: "api_error + os_client"
  cx_newHelper :: "api_error option"
  cx_rbac :: "os_client \<Rightarrow> os_client \<times> bool \<times> api_error option"
  cx_keystone :: "api_error + bool"
  cx_configMapHash :: "string \<Rightarrow> api_error + string"
  cx_secretHash :: "string \<Rightarrow> api_error + string"
  cx_caHash :: "string \<Rightarrow> api_error + string"
  cx_metricStorage :: "api_error + bool"
  cx_HashOfInputHashes :: "(string, string) gomap \<Rightarrow> api_error + string"
  cx_ObjectHash :: "client_pod_spec \<Rightarrow> api_error + string"
  cx_MergeEnvs :: "(string, env_setter) gomap \<Rightarrow> (string \<times> env_setter) list"
  cx_caVolume :: volume
  cx_caMounts :: "volume_mount list"
  cx_metricStorageName :: string
  cx_prometheusPort :: string
  cx_caBundlePath :: string
  cx_AppSelector :: string
  cx_newPod :: client_pod
  cx_getPod :: "api_error + client_pod"
  cx_setController :: "client_pod \<Rightarrow> api_error option"
  cx_create :: "client_pod \<Rightarrow> api_error + client_pod"
  cx_patchPod :: "client_pod \<Rightarrow> api_error + client_pod"
  cx_forbidden :: "api_error \<Rightarrow> bool"
  cx_invalid :: "api_error \<Rightarrow> bool"
  cx_delete :: "api_error option"
  cx_kill :: "api_error option"
  cx_now :: int
  cx_patch :: "api_error option"

record client_run =
  cn_instance :: os_client
  cn_pod :: "client_pod option"
  cn_log :: "client_action list"
  cn_requeue :: bool
  cn_vars :: "(string, string) gomap"

definition client_conds :: "os_client \<Rightarrow> conditions" where
  "client_conds i = (case ci_Conditions i of None \<Rightarrow> [] | Some cs \<Rightarrow> cs)"

definition upd_client :: "(os_client \<Rightarrow> os_client) \<Rightarrow> client_run \<Rightarrow> client_run" where
  "upd_client f run = run\<lparr>cn_instance := f (cn_instance run)\<rparr>"

definition upd_client_conds :: "(conditions \<Rightarrow> conditions) \<Rightarrow> client_run \<Rightarrow> client_run" where
  "upd_client_conds f = upd_client (\<lambda>i. i\<lparr>ci_Conditions := Some (f (client_conds i))\<rparr>)"

definition ClientReady :: string where "ClientReady = ''OpenStackClientReady''"

definition client_false :: "condlib \<Rightarrow> cond_reason \<Rightarrow> cond_severity \<Rightarrow> string \<Rightarrow> client_run \<Rightarrow> client_run" where
  "client_false L rs sv m = upd_client_conds (\<lambda>cs. lc_Set L cs (lc_FalseCondition L ClientReady rs sv m))"

definition client_error :: "condlib \<Rightarrow> api_error \<Rightarrow> client_run \<Rightarrow> client_run" where
  "client_error L e = client_false L ErrorReason SeverityWarning (''OpenStack Client error occured '' @ err_msg e)"

definition client_wait :: "condlib \<Rightarrow> string \<Rightarrow> client_run \<Rightarrow> client_run step" where
  "client_wait L m run = Return None ((client_false L RequestedReason SeverityInfo m run)\<lparr>cn_requeue := True\<rparr>)"

subsection \<open>The pod\<close>

definition clientPodVolumeMounts :: "volume_mount list" where
  "clientPodVolumeMounts =
     [\<lparr>vm_Name = ''openstack-config'', vm_MountPath = ''/home/cloud-admin/.config/openstack/clouds.yaml'', vm_SubPath = ''clouds.yaml''\<rparr>,
      \<lparr>vm_Name = ''openstack-config-secret'', vm_MountPath = ''/home/cloud-admin/.config/openstack/secure.yaml'', vm_SubPath = ''secure.yaml''\<rparr>,
      \<lparr>vm_Name = ''openstack-config-secret'', vm_MountPath = ''/home/cloud-admin/cloudrc'', vm_SubPath = ''cloudrc''\<rparr>]"

text \<open>The names are dereferenced; the caller has done so before.\<close>

definition clientPodVolumes :: "client_spec \<Rightarrow> volume list option" where
  "clientPodVolumes spec =
     (case (cl_OpenStackConfigMap spec, cl_OpenStackConfigSecret spec) of
        (Some m, Some s) \<Rightarrow>
          Some [\<lparr>vol_Name = ''openstack-config'', vol_Source = ConfigMapVolume m []\<rparr>,
                \<lparr>vol_Name = ''openstack-config-secret'', vol_Source = SecretVolume s None []\<rparr>]
      | _ \<Rightarrow> None)"

definition plain_value :: "string \<Rightarrow> env_setter" where
  "plain_value v = \<lparr>en_Value = v, en_ValueFrom = None\<rparr>"

definition client_vars :: "client_env \<Rightarrow> os_client \<Rightarrow> string \<Rightarrow> (string, env_setter) gomap" where
  "client_vars env i configHash =
     (let v0 = fold (\<lambda>(k, v). gomap_put k (plain_value v))
                 [(''OS_CLOUD'', ''default''), (''CONFIG_HASH'', configHash),
                  (''PROMETHEUS_HOST'', cx_metricStorageName env @ ''-prometheus.'' @ ci_Namespace i @ ''.svc''),
                  (''PROMETHEUS_PORT'', cx_prometheusPort env)] [];
          v1 = (if cx_metricStorage env = Inr True then gomap_put ''PROMETHEUS_CA_CERT'' (plain_value (cx_caBundlePath env)) v0 else v0)
      in fold (\<lambda>(k, e). gomap_put k e) (cl_Env (ci_Spec i)) v1)"

definition RbacResourceName :: "os_client \<Rightarrow> string" where
  "RbacResourceName i = ''openstackclient-'' @ ci_Name i"

definition client_toleration :: "string \<Rightarrow> pod_toleration" where
  "client_toleration key = \<lparr>pt_Key = key, pt_Operator = ''Exists'', pt_Effect = ''NoExecute'', pt_Seconds = 120\<rparr>"

definition ClientPodSpec :: "client_env \<Rightarrow> os_client \<Rightarrow> string \<Rightarrow> client_pod_spec option" where
  "ClientPodSpec env i configHash =
     (let ca = (cl_CaBundleSecretName (ci_Spec i) \<noteq> [])
      in map_option (\<lambda>volumes.
           \<lparr>ps_GracePeriod = 0, ps_ServiceAccountName = RbacResourceName i,
            ps_Volumes = volumes @ (if ca then [cx_caVolume env] else []),
            ps_Container =
              \<lparr>cc_Name = ''openstackclient'', cc_Image = cl_ContainerImage (ci_Spec i), cc_Command = [''/bin/sleep''], cc_Args = [''infinity''],
               cc_RunAsUser = 42401, cc_RunAsGroup = 42401, cc_RunAsNonRoot = True, cc_AllowPrivilegeEscalation = False, cc_Drop = [''ALL''],
               cc_Env = cx_MergeEnvs env (client_vars env i configHash),
               cc_Mounts = clientPodVolumeMounts @ (if ca then cx_caMounts env else [])\<rparr>,
            ps_Tolerations = map client_toleration [''node.kubernetes.io/not-ready'', ''node.kubernetes.io/unreachable''],
            ps_NodeSelector = cl_NodeSelector (ci_Spec i)\<rparr>) (clientPodVolumes (ci_Spec i)))"

subsection \<open>Inputs\<close>

definition rbac_stage :: "client_env \<Rightarrow> client_run \<Rightarrow> client_run step" where
  "rbac_stage env run =
     (case cx_rbac env (cn_instance run) of
        (i, rq, err) \<Rightarrow>
          (let run1 = run\<lparr>cn_instance := i\<rparr>
           in case err of Some e \<Rightarrow> Return (Some e) (run1\<lparr>cn_requeue := rq\<rparr>)
                        | None \<Rightarrow> if rq then Return None (run1\<lparr>cn_requeue := True\<rparr>) else Next run1))"

definition keystone_stage :: "condlib \<Rightarrow> client_env \<Rightarrow> client_run \<Rightarrow> client_run step" where
  "keystone_stage L env run =
     (let waiting = ''OpenStack Client keystone API not yet ready''
      in case cx_keystone env of
           Inl e \<Rightarrow> if IsNotFound e then client_wait L waiting run else Return (Some e) (client_error L e run)
         | Inr ready \<Rightarrow> if \<not> ready then client_wait L waiting run else Next run)"

definition put_var :: "string \<Rightarrow> string \<Rightarrow> client_run \<Rightarrow> client_run" where
  "put_var k v run = run\<lparr>cn_vars := gomap_put k v (cn_vars run)\<rparr>"

text \<open>A ConfigMap or secret that is named by a pointer.\<close>

definition source_stage :: "condlib \<Rightarrow> string \<Rightarrow> string ptr \<Rightarrow> (string \<Rightarrow> api_error + string) \<Rightarrow> client_run \<Rightarrow> client_run step" where
  "source_stage L waiting name hash run =
     (case name of
        None \<Rightarrow> Panic
      | Some n \<Rightarrow>
          (case hash n of
             Inl e \<Rightarrow> if IsNotFound e then client_wait L waiting run else Return (Some e) (client_error L e run)
           | Inr h \<Rightarrow> Next (put_var n h run)))"

definition configmap_stage :: "condlib \<Rightarrow> client_env \<Rightarrow> client_run \<Rightarrow> client_run step" where
  "configmap_stage L env run =
     source_stage L ''OpenStack Client waiting for keystone configmap'' (cl_OpenStackConfigMap (ci_Spec (cn_instance run))) (cx_configMapHash env) run"

definition secret_stage :: "condlib \<Rightarrow> client_env \<Rightarrow> client_run \<Rightarrow> client_run step" where
  "secret_stage L env run =
     source_stage L ''OpenStack Client waiting for secret'' (cl_OpenStackConfigSecret (ci_Spec (cn_instance run))) (cx_secretHash env) run"

definition TLSInputReadyCondition :: string where "TLSInputReadyCondition = ''TLSInputReady''"

definition tls_false :: "condlib \<Rightarrow> string \<Rightarrow> client_run \<Rightarrow> client_run" where
  "tls_false L m = upd_client_conds (\<lambda>cs. lc_Set L cs (lc_FalseCondition L TLSInputReadyCondition ErrorReason SeverityWarning m))"

definition client_ca_stage :: "condlib \<Rightarrow> client_env \<Rightarrow> client_run \<Rightarrow> client_run step" where
  "client_ca_stage L env run =
     (let name = cl_CaBundleSecretName (ci_Spec (cn_instance run))
      in if name = [] then Next run
         else (case cx_caHash env name of
                 Inl e \<Rightarrow> if IsNotFound e then Return None (tls_false L (''TLSInput is missing: '' @ name) run)
                          else Return (Some e) (tls_false L (''TLSInput error occured in TLS sources '' @ err_msg e) run)
               | Inr h \<Rightarrow> Next (put_var name h run)))"

definition go_bool :: "bool \<Rightarrow> string" where "go_bool b = (if b then ''true'' else ''false'')"

definition metrics_stage :: "condlib \<Rightarrow> client_env \<Rightarrow> client_run \<Rightarrow> client_run step" where
  "metrics_stage L env run =
     Next (upd_client_conds (\<lambda>cs. lc_MarkTrue L cs TLSInputReadyCondition ''Input data complete'')
       (case cx_metricStorage env of Inl _ \<Rightarrow> run | Inr on \<Rightarrow> put_var ''PrometheusTls'' (go_bool on) run))"

subsection \<open>Creating or patching the pod\<close>

text \<open>The closure given to \<open>CreateOrPatch\<close>: the specification is written to a new pod, and to an existing one if its hash has changed.\<close>

definition mutate_pod :: "client_env \<Rightarrow> os_client \<Rightarrow> client_pod_spec \<Rightarrow> string \<Rightarrow> client_pod \<Rightarrow> api_error + client_pod" where
  "mutate_pod env i spec specHash pod =
     (let p1 = (if \<not> pd_Created pod \<or> gomap_get [] (ci_Hash i) ''podSpec'' \<noteq> specHash then pod\<lparr>pd_Spec := spec\<rparr> else pod);
          p2 = p1\<lparr>pd_Labels := gomap_put (cx_AppSelector env) ''openstackclient'' (pd_Labels p1)\<rparr>
      in case cx_setController env p2 of Some e \<Rightarrow> Inl e | None \<Rightarrow> Inr (p2\<lparr>pd_Controller := Some (ci_Name i)\<rparr>))"

definition create_or_patch :: "client_env \<Rightarrow> os_client \<Rightarrow> client_pod_spec \<Rightarrow> string \<Rightarrow> client_action list \<times> (api_error + client_pod)" where
  "create_or_patch env i spec specHash =
     (case cx_getPod env of
        Inl e \<Rightarrow>
          if IsNotFound e
          then (case mutate_pod env i spec specHash (cx_newPod env) of
                  Inl err \<Rightarrow> ([], Inl err)
                | Inr p \<Rightarrow> ([PodCreated p], cx_create env p))
          else ([], Inl e)
      | Inr pod \<Rightarrow>
          (case mutate_pod env i spec specHash pod of
             Inl err \<Rightarrow> ([], Inl err)
           | Inr p \<Rightarrow> if p = pod then ([], Inr pod) else ([PodPatched p], cx_patchPod env p)))"

definition pod_failed :: "client_env \<Rightarrow> api_error \<Rightarrow> client_run \<Rightarrow> client_run step" where
  "pod_failed env e run =
     (if cx_forbidden env e \<or> cx_invalid env e
      then (let run1 = run\<lparr>cn_log := cn_log run @ [PodDeleted]\<rparr>; again = Return None (run1\<lparr>cn_requeue := True\<rparr>)
            in case cx_delete env of
                 None \<Rightarrow> again
               | Some d \<Rightarrow> if IsNotFound d then again
                           else Return (Some (wrap_err (''error deleting OpenStackClient pod '' @ ci_Name (cn_instance run) @ '': '') d)) run1)
      else Return (Some (wrap_err (''failed to create or update pod '' @ ci_Name (cn_instance run) @ '': '') e)) run)"

text \<open>A pod that has been terminating for more than three minutes is killed; times are in seconds.\<close>

definition kill_stuck :: "client_env \<Rightarrow> client_pod \<Rightarrow> client_run \<Rightarrow> client_run step" where
  "kill_stuck env pod run =
     (case pd_Deleted pod of
        None \<Rightarrow> Next run
      | Some t \<Rightarrow>
          if cx_now env - t > 3 * 60
          then (let run1 = run\<lparr>cn_log := cn_log run @ [PodKilled]\<rparr>
                in case cx_kill env of None \<Rightarrow> Next run1 | Some e \<Rightarrow> Return (Some (wrap_err ''failed to force delete pod: '' e)) run1)
          else Next run)"

definition podReady :: "client_pod \<Rightarrow> bool" where
  "podReady pod \<longleftrightarrow> list_ex (\<lambda>c. c = (''Ready'', ''True'')) (pd_Conditions pod)"

definition report_pod :: "condlib \<Rightarrow> client_pod \<Rightarrow> client_run \<Rightarrow> client_run" where
  "report_pod L pod run =
     (if podReady pod then upd_client_conds (\<lambda>cs. lc_MarkTrue L cs ClientReady ''OpenStack Client created'') run
      else client_false L RequestedReason SeverityInfo ''OpenStack Client in progress'' run)"

definition pod_stage :: "condlib \<Rightarrow> client_env \<Rightarrow> client_run \<Rightarrow> client_run step" where
  "pod_stage L env run =
     (case cx_HashOfInputHashes env (cn_vars run) of
        Inl e \<Rightarrow> Return (Some e) run
      | Inr configHash \<Rightarrow>
          (case ClientPodSpec env (cn_instance run) configHash of
             None \<Rightarrow> Panic
           | Some spec \<Rightarrow>
               (case cx_ObjectHash env spec of
                  Inl e \<Rightarrow> Return (Some e) run
                | Inr specHash \<Rightarrow>
                    (case create_or_patch env (cn_instance run) spec specHash of
                       (as, out) \<Rightarrow>
                         (let run1 = run\<lparr>cn_log := cn_log run @ as\<rparr>
                          in case out of
                               Inl e \<Rightarrow> pod_failed env e run1
                             | Inr pod \<Rightarrow>
                                 step_bind (kill_stuck env pod (upd_client (\<lambda>i. i\<lparr>ci_Hash := gomap_put ''podSpec'' specHash (ci_Hash i)\<rparr>) (run1\<lparr>cn_pod := Some pod\<rparr>)))
                                   (\<lambda>r. Next (report_pod L pod r)))))))"

subsection \<open>Reconcile\<close>

definition client_initial :: "condlib \<Rightarrow> conditions" where
  "client_initial L =
     [lc_UnknownCondition L ClientReady InitReason ''OpenStack Client not started, waiting on keystone API'',
      lc_UnknownCondition L ''ServiceAccountReady'' InitReason ''ServiceAccount create not started'',
      lc_UnknownCondition L ''RoleReady'' InitReason ''Role create not started'',
      lc_UnknownCondition L ''RoleBindingReady'' InitReason ''RoleBinding create not started'']"

definition client_start :: "condlib \<Rightarrow> os_client \<Rightarrow> client_run" where
  "client_start L i =
     \<lparr>cn_instance = i\<lparr>ci_Conditions := Some (lc_Init L (client_conds i) (client_initial L)), ci_ObservedGeneration := ci_Generation i\<rparr>,
      cn_pod = None, cn_log = [], cn_requeue = False, cn_vars = []\<rparr>"

definition client_stages :: "condlib \<Rightarrow> client_env \<Rightarrow> (client_run \<Rightarrow> client_run step) list" where
  "client_stages L env =
     [rbac_stage env, keystone_stage L env, configmap_stage L env, secret_stage L env, client_ca_stage L env, metrics_stage L env, pod_stage L env]"

definition client_set_ready :: "condlib \<Rightarrow> client_run \<Rightarrow> client_run" where
  "client_set_ready L = upd_client_conds (\<lambda>cs.
     if lc_AllSubConditionIsTrue L cs then lc_MarkTrue L cs ReadyCondition ReadyMessage
     else (let cs1 = lc_MarkUnknown L cs ReadyCondition InitReason ReadyInitMessage in lc_Set L cs1 (lc_Mirror L cs1 ReadyCondition)))"

text \<open>The run with the instance as it is written (none when nothing is written) and the error.  \<open>None\<close> is a panic.\<close>

definition client_Reconcile :: "condlib \<Rightarrow> client_env \<Rightarrow> (client_run option \<times> api_error option) option" where
  "client_Reconcile L env =
     (case cx_get env of
        Inl e \<Rightarrow> Some (None, if IsNotFound e then None else Some e)
      | Inr i \<Rightarrow>
          (case cx_newHelper env of
             Some e \<Rightarrow> Some (None, Some e)
           | None \<Rightarrow>
               (let finish = (\<lambda>e r. case cx_patch env of None \<Rightarrow> Some (Some (client_set_ready L r), e) | Some err \<Rightarrow> Some (None, Some err))
                in case run_stages (client_stages L env) (client_start L i) of
                     Panic \<Rightarrow> None
                   | Return e r \<Rightarrow> finish e r
                   | Next r \<Rightarrow> finish None r)))"

subsection \<open>Watches and defaults\<close>

datatype client_field = caBundleSecretNameField | openStackConfigMapField | openStackConfigSecretField

definition client_allWatchFields :: "client_field list" where
  "client_allWatchFields = [caBundleSecretNameField, openStackConfigMapField, openStackConfigSecretField]"

definition client_index :: "client_field \<Rightarrow> os_client \<Rightarrow> string list" where
  "client_index f cr =
     (let named = (\<lambda>s. if s = [] then [] else [s]); pointed = (\<lambda>p. case p of None \<Rightarrow> [] | Some s \<Rightarrow> named s)
      in case f of
           caBundleSecretNameField \<Rightarrow> named (cl_CaBundleSecretName (ci_Spec cr))
         | openStackConfigMapField \<Rightarrow> pointed (cl_OpenStackConfigMap (ci_Spec cr))
         | openStackConfigSecretField \<Rightarrow> pointed (cl_OpenStackConfigSecret (ci_Spec cr)))"

fun client_find :: "(client_field \<Rightarrow> api_error + os_client list) \<Rightarrow> string \<Rightarrow> string \<Rightarrow> client_field list \<Rightarrow> (string \<times> string) list" where
  "client_find list name namespace [] = []"
| "client_find list name namespace (f # fs) =
     (case list f of
        Inl e \<Rightarrow> []
      | Inr crs \<Rightarrow> map (\<lambda>cr. (ci_Namespace cr, ci_Name cr)) (filter (\<lambda>cr. ci_Namespace cr = namespace \<and> name \<in> set (client_index f cr)) crs)
          @ client_find list name namespace fs)"

definition client_findObjectsForSrc :: "(client_field \<Rightarrow> api_error + os_client list) \<Rightarrow> string \<Rightarrow> string \<Rightarrow> (string \<times> string) list" where
  "client_findObjectsForSrc list name namespace = client_find list name namespace client_allWatchFields"

definition metricStorageFn :: "api_error + os_client list \<Rightarrow> string \<Rightarrow> (string \<times> string) list" where
  "metricStorageFn out namespace =
     (case out of Inl _ \<Rightarrow> [] | Inr crs \<Rightarrow> map (\<lambda>cr. (namespace, ci_Name cr)) (filter (\<lambda>cr. ci_Namespace cr = namespace) crs))"

definition OpenStackClientContainerImage :: string where
  "OpenStackClientContainerImage = ''quay.io/podified-antelope-centos9/openstack-openstackclient:current-podified''"

definition client_SetupDefaults :: "(string \<Rightarrow> string \<Rightarrow> string) \<Rightarrow> string" where
  "client_SetupDefaults getEnvVar = getEnvVar ''RELATED_IMAGE_OPENSTACK_CLIENT_IMAGE_URL_DEFAULT'' OpenStackClientContainerImage"

definition client_Default :: "string \<Rightarrow> client_spec \<Rightarrow> client_spec" where
  "client_Default img spec = (if cl_ContainerImage spec = [] then spec\<lparr>cl_ContainerImage := img\<rparr> else spec)"

end
