(* ===== verification/Client_Laws.thy ===== *)
theory Client_Laws
  imports Client_Controller Deploy_Laws
begin

text \<open>
  Laws of the client pod: what a ready client means, and which changes of its inputs reach the pod.
\<close>

subsection \<open>Hypotheses\<close>

text \<open>The accounts function of lib-common changes conditions only, not that of the client; the API server keeps the specification it is
  given; hashes are not empty.\<close>

definition client_laws :: "condlib \<Rightarrow> client_env \<Rightarrow> bool" where
  "client_laws L env \<longleftrightarrow>
     (\<forall>i. (fst (cx_rbac env i))\<lparr>ci_Conditions := None\<rparr> = i\<lparr>ci_Conditions := None\<rparr>
        \<and> lc_Get L (client_conds (fst (cx_rbac env i))) ClientReady = lc_Get L (client_conds i) ClientReady)
     \<and> (\<forall>p q. cx_create env p = Inr q \<longrightarrow> pd_Spec q = pd_Spec p) \<and> (\<forall>p q. cx_patchPod env p = Inr q \<longrightarrow> pd_Spec q = pd_Spec p)
     \<and> \<not> pd_Created (cx_newPod env) \<and> (\<forall>spec. cx_ObjectHash env spec \<noteq> Inr [])"

text \<open>The recorded hash is that of the specification the pod in the cluster was given.\<close>

definition tracked :: "client_env \<Rightarrow> os_client \<Rightarrow> client_pod \<Rightarrow> bool" where
  "tracked env i pod \<longleftrightarrow> (\<forall>h. map_of (ci_Hash i) ''podSpec'' = Some h \<longrightarrow> cx_ObjectHash env (pd_Spec pod) = Inr h)"

subsection \<open>Stages before the pod\<close>

definition client_view :: "os_client \<Rightarrow> os_client" where "client_view i = i\<lparr>ci_Conditions := None\<rparr>"

definition not_done :: "condlib \<Rightarrow> client_run \<Rightarrow> bool" where
  "not_done L run \<longleftrightarrow> (\<exists>c. lc_Get L (client_conds (cn_instance run)) ClientReady = Some c \<and> c_status c \<noteq> CTrue)"

definition keeps :: "condlib \<Rightarrow> (client_run \<Rightarrow> client_run step) \<Rightarrow> bool" where
  "keeps L f \<longleftrightarrow> (\<forall>run r. not_done L run \<longrightarrow> step_value (f run) = Some r \<longrightarrow>
     not_done L r \<and> client_view (cn_instance r) = client_view (cn_instance run))"

lemma client_conds_upd [simp]: "client_conds (cn_instance (upd_client_conds f run)) = f (client_conds (cn_instance run))"
  by (simp add: upd_client_conds_def upd_client_def client_conds_def)

lemma client_view_upd [simp]:
  "client_view (cn_instance (upd_client_conds f run)) = client_view (cn_instance run)"
  "client_view (cn_instance (client_false L rs sv m run)) = client_view (cn_instance run)"
  by (simp_all add: client_false_def upd_client_conds_def upd_client_def client_view_def)

lemma not_done_false: "condlib_laws L \<Longrightarrow> not_done L (client_false L rs sv m run)"
  by (simp add: not_done_def client_false_def)

lemma not_done_fields [simp]:
  "not_done L (run\<lparr>cn_requeue := b\<rparr>) = not_done L run" "not_done L (run\<lparr>cn_log := as\<rparr>) = not_done L run"
  "not_done L (run\<lparr>cn_vars := vs\<rparr>) = not_done L run" "not_done L (run\<lparr>cn_pod := p\<rparr>) = not_done L run"
  by (simp_all add: not_done_def)

lemma not_done_tls:
  "condlib_laws L \<Longrightarrow> c_type c = TLSInputReadyCondition \<Longrightarrow> not_done L (upd_client_conds (\<lambda>cs. lc_Set L cs c) run) = not_done L run"
  by (simp add: not_done_def ClientReady_def TLSInputReadyCondition_def)

lemma keeps_rbac: "client_laws L env \<Longrightarrow> keeps L (rbac_stage env)"
  unfolding keeps_def
proof (intro allI impI)
  fix run r assume c: "client_laws L env" and n: "not_done L run" and v: "step_value (rbac_stage env run) = Some r"
  obtain i rq err where o: "cx_rbac env (cn_instance run) = (i, rq, err)" by (metis prod_cases3)
  have i: "client_view i = client_view (cn_instance run)" "lc_Get L (client_conds i) ClientReady = lc_Get L (client_conds (cn_instance run)) ClientReady"
    using c o unfolding client_laws_def client_view_def by (metis fst_conv)+
  have "cn_instance r = i" using v o by (auto simp: rbac_stage_def Let_def split: option.splits if_splits)
  then show "not_done L r \<and> client_view (cn_instance r) = client_view (cn_instance run)" using n i by (simp add: not_done_def)
qed

lemma keeps_keystone: "condlib_laws L \<Longrightarrow> keeps L (keystone_stage L env)"
  by (auto simp: keeps_def keystone_stage_def Let_def client_wait_def client_error_def not_done_false split: sum.splits if_splits)

lemma keeps_source: "condlib_laws L \<Longrightarrow> keeps L (\<lambda>run. source_stage L w (n run) hash run)"
  by (auto simp: keeps_def source_stage_def client_wait_def client_error_def put_var_def not_done_false split: sum.splits option.splits if_splits)

lemma keeps_ca: "condlib_laws L \<Longrightarrow> keeps L (client_ca_stage L env)"
  by (auto simp: keeps_def client_ca_stage_def Let_def tls_false_def put_var_def not_done_tls split: sum.splits if_splits)

lemma keeps_metrics: "condlib_laws L \<Longrightarrow> keeps L (metrics_stage L env)"
  by (auto simp: keeps_def metrics_stage_def put_var_def not_done_tls split: sum.splits)

definition input_stages :: "condlib \<Rightarrow> client_env \<Rightarrow> (client_run \<Rightarrow> client_run step) list" where
  "input_stages L env = [rbac_stage env, keystone_stage L env, configmap_stage L env, secret_stage L env, client_ca_stage L env, metrics_stage L env]"

lemma keeps_inputs:
  assumes L: "condlib_laws L" and c: "client_laws L env"
    and v: "step_value (run_stages (input_stages L env) run) = Some r" and n: "not_done L run"
  shows "not_done L r \<and> client_view (cn_instance r) = client_view (cn_instance run)"
proof -
  have k: "keeps L f" if "f \<in> set (input_stages L env)" for f
    using that keeps_rbac [OF c] keeps_keystone [OF L] keeps_source [OF L] keeps_ca [OF L] keeps_metrics [OF L]
    by (auto simp: input_stages_def configmap_stage_def [abs_def] secret_stage_def [abs_def])
  show ?thesis
    by (rule run_stages_invariant [where P = "\<lambda>r. not_done L r \<and> client_view (cn_instance r) = client_view (cn_instance run)", OF _ v])
      (use k n in \<open>auto simp: keeps_def\<close>)
qed

text \<open>The hashes of the inputs of a client by name: the ConfigMap \<open>m\<close>, the secret \<open>s\<close>, the bundle of CAs if one is named, and whether
  Prometheus uses TLS if there is a metric storage.  A later entry hides an earlier one of the same name.\<close>

definition input_hashes :: "client_env \<Rightarrow> os_client \<Rightarrow> (string \<rightharpoonup> string) \<Rightarrow> bool" where
  "input_hashes env i vars \<longleftrightarrow>
     (\<exists>m s hm hs. cl_OpenStackConfigMap (ci_Spec i) = Some m \<and> cl_OpenStackConfigSecret (ci_Spec i) = Some s
       \<and> cx_configMapHash env m = Inr hm \<and> cx_secretHash env s = Inr hs
       \<and> (let bundle = cl_CaBundleSecretName (ci_Spec i)
          in vars = [m \<mapsto> hm] ++ [s \<mapsto> hs]
               ++ (if bundle = [] then Map.empty else (case cx_caHash env bundle of Inr h \<Rightarrow> [bundle \<mapsto> h] | Inl _ \<Rightarrow> Map.empty))
               ++ (case cx_metricStorage env of Inr on \<Rightarrow> [''PrometheusTls'' \<mapsto> if on then ''true'' else ''false''] | Inl _ \<Rightarrow> Map.empty))
       \<and> (cl_CaBundleSecretName (ci_Spec i) = [] \<or> \<not> isl (cx_caHash env (cl_CaBundleSecretName (ci_Spec i)))))"

lemma inputs_Next:
  assumes L: "condlib_laws L" and c: "client_laws L env" and v: "run_stages (input_stages L env) run = Next r" and n: "not_done L run"
    and e: "cn_vars run = []"
  shows "input_hashes env (cn_instance run) (map_of (cn_vars r)) \<and> cx_keystone env = Inr True"
proof -
  let ?i = "cn_instance run"
  obtain a1 a2 a3 a4 a5 where a1: "rbac_stage env run = Next a1" and a2: "keystone_stage L env a1 = Next a2"
    and a3: "configmap_stage L env a2 = Next a3" and a4: "secret_stage L env a3 = Next a4" and a5: "client_ca_stage L env a4 = Next a5"
    and r: "metrics_stage L env a5 = Next r"
    using v by (auto simp: input_stages_def step_bind_Next_iff)
  have view: "client_view (cn_instance a1) = client_view ?i" using keeps_rbac [OF c] n a1 by (simp add: keeps_def)
  have spec: "ci_Spec (cn_instance a1) = ci_Spec ?i" using arg_cong [OF view, of ci_Spec] by (simp add: client_view_def)
  have "cn_vars a1 = []" using a1 e by (auto simp: rbac_stage_def Let_def split: prod.splits option.splits if_splits)
  moreover have "a2 = a1" and keystone: "cx_keystone env = Inr True"
    using a2 by (auto simp: keystone_stage_def client_wait_def Let_def split: sum.splits if_splits)
  moreover obtain m hm where m: "cl_OpenStackConfigMap (ci_Spec ?i) = Some m" "cx_configMapHash env m = Inr hm" "a3 = put_var m hm a2"
    using a3 spec \<open>a2 = a1\<close> by (auto simp: configmap_stage_def source_stage_def client_wait_def split: option.splits sum.splits if_splits)
  moreover obtain s hs where s: "cl_OpenStackConfigSecret (ci_Spec ?i) = Some s" "cx_secretHash env s = Inr hs" "a4 = put_var s hs a3"
    using a4 spec \<open>a2 = a1\<close> m(3)
    by (auto simp: secret_stage_def source_stage_def client_wait_def put_var_def split: option.splits sum.splits if_splits)
  ultimately have vars4: "map_of (cn_vars a4) = [m \<mapsto> hm] ++ [s \<mapsto> hs]" and i4: "cn_instance a4 = cn_instance a1"
    by (auto simp: put_var_def map_of_put fun_eq_iff)
  let ?b = "cl_CaBundleSecretName (ci_Spec ?i)"
  have b: "(?b = [] \<or> \<not> isl (cx_caHash env ?b)) \<and> map_of (cn_vars a5) = map_of (cn_vars a4) ++
      (if ?b = [] then Map.empty else (case cx_caHash env ?b of Inr h \<Rightarrow> [?b \<mapsto> h] | Inl _ \<Rightarrow> Map.empty))"
    using a5 spec i4 by (auto simp: client_ca_stage_def Let_def put_var_def map_of_put split: sum.splits if_splits)
  have "map_of (cn_vars r) = map_of (cn_vars a5) ++
      (case cx_metricStorage env of Inr on \<Rightarrow> [''PrometheusTls'' \<mapsto> if on then ''true'' else ''false''] | Inl _ \<Rightarrow> Map.empty)"
    using r by (auto simp: metrics_stage_def put_var_def map_of_put go_bool_def upd_client_conds_def upd_client_def split: sum.splits)
  then show ?thesis using b vars4 m(1,2) s(1,2) keystone by (simp add: input_hashes_def Let_def)
qed

lemma client_split: "run_stages (client_stages L env) run = step_bind (run_stages (input_stages L env) run) (pod_stage L env)"
proof -
  have "run_stages (client_stages L env) run = run_stages (input_stages L env @ [pod_stage L env]) run"
    by (simp add: client_stages_def input_stages_def)
  moreover have "run_stages [f] = f" for f :: "client_run \<Rightarrow> client_run step"
  proof
    fix b show "run_stages [f] b = f b" by (cases "f b") simp_all
  qed
  ultimately show ?thesis unfolding run_stages_append by (simp del: run_stages.simps)
qed

subsection \<open>The pod\<close>

lemma mutate_spec:
  "mutate_pod env i spec h pod = Inr p \<Longrightarrow>
     pd_Spec p = (if \<not> pd_Created pod \<or> gomap_get [] (ci_Hash i) ''podSpec'' \<noteq> h then spec else pd_Spec pod)"
  by (auto simp: mutate_pod_def Let_def split: option.splits)

lemma create_or_patch_hash:
  assumes c: "client_laws L env" and out: "create_or_patch env i spec h = (as, Inr pod)" and h: "cx_ObjectHash env spec = Inr h"
    and t: "\<And>p. cx_getPod env = Inr p \<Longrightarrow> tracked env i p"
  shows "cx_ObjectHash env (pd_Spec pod) = Inr h"
proof (cases "cx_getPod env")
  case (Inl e)
  then obtain p where p: "mutate_pod env i spec h (cx_newPod env) = Inr p" "cx_create env p = Inr pod"
    using out by (auto simp: create_or_patch_def split: if_splits sum.splits)
  then have "pd_Spec pod = spec" using c mutate_spec [OF p(1)] by (simp add: client_laws_def)
  then show ?thesis by (simp add: h)
next
  case (Inr old)
  then obtain p where p: "mutate_pod env i spec h old = Inr p" "(p = old \<and> pod = old) \<or> cx_patchPod env p = Inr pod"
    using out by (auto simp: create_or_patch_def split: if_splits sum.splits)
  have same: "pd_Spec pod = pd_Spec p" using p(2) c by (auto simp: client_laws_def)
  have nonempty: "h \<noteq> []" using c h by (auto simp: client_laws_def)
  show ?thesis
  proof (cases "\<not> pd_Created old \<or> gomap_get [] (ci_Hash i) ''podSpec'' \<noteq> h")
    case True
    then show ?thesis using mutate_spec [OF p(1)] same h by simp
  next
    case False
    then have "map_of (ci_Hash i) ''podSpec'' = Some h" using nonempty by (simp add: gomap_get_def split: option.splits)
    then show ?thesis using t [OF Inr] mutate_spec [OF p(1)] same False by (simp add: tracked_def)
  qed
qed

lemma pod_Return: "pod_stage L env run = Return e r \<Longrightarrow> not_done L run \<Longrightarrow> not_done L r"
proof -
  assume p: "pod_stage L env run = Return e r" and n: "not_done L run"
  have failed: "not_done L r'" if "pod_failed env x q = Return e' r'" "not_done L q" for x q e' r'
    using that by (auto simp: pod_failed_def Let_def split: option.splits if_splits)
  have stuck: "not_done L r'" if "kill_stuck env pod q = Return e' r'" "not_done L q" for pod q e' r'
    using that by (auto simp: kill_stuck_def Let_def split: option.splits if_splits)
  have hash: "not_done L (upd_client (\<lambda>i. i\<lparr>ci_Hash := f i\<rparr>) q) = not_done L q" for f q
    by (simp add: not_done_def upd_client_def client_conds_def)
  have bind: "step_bind st (\<lambda>r. Next (f r)) = Return e' r' \<longleftrightarrow> st = Return e' r'" for st :: "client_run step" and f e' r'
    by (cases st) simp_all
  show "not_done L r"
    using p n by (auto simp: pod_stage_def hash bind Let_def dest: failed stuck split: sum.splits option.splits prod.splits)
qed

lemma pod_Next:
  assumes "pod_stage L env run = Next r"
  obtains configHash spec h as pod where "cx_HashOfInputHashes env (cn_vars run) = Inr configHash"
    "ClientPodSpec env (cn_instance run) configHash = Some spec" "cx_ObjectHash env spec = Inr h"
    "create_or_patch env (cn_instance run) spec h = (as, Inr pod)" "cn_pod r = Some pod" "cn_vars r = cn_vars run"
    "map_of (ci_Hash (cn_instance r)) ''podSpec'' = Some h"
    "\<exists>q. r = report_pod L pod q"
proof -
  obtain configHash spec h as out where a: "cx_HashOfInputHashes env (cn_vars run) = Inr configHash"
    "ClientPodSpec env (cn_instance run) configHash = Some spec" "cx_ObjectHash env spec = Inr h"
    "create_or_patch env (cn_instance run) spec h = (as, out)"
    using assms by (auto simp: pod_stage_def split: sum.splits option.splits prod.splits)
  have no: "pod_failed env x q \<noteq> Next r'" for x q r' by (auto simp: pod_failed_def Let_def split: option.splits)
  obtain pod where out: "out = Inr pod" using assms a no by (cases out) (auto simp: pod_stage_def)
  let ?q = "upd_client (\<lambda>i. i\<lparr>ci_Hash := gomap_put ''podSpec'' h (ci_Hash i)\<rparr>) (run\<lparr>cn_log := cn_log run @ as, cn_pod := Some pod\<rparr>)"
  obtain b where b: "kill_stuck env pod ?q = Next b" "r = report_pod L pod b"
    using assms a out by (auto simp: pod_stage_def Let_def step_bind_Next_iff)
  have k: "b = ?q \<or> b = ?q\<lparr>cn_log := cn_log ?q @ [PodKilled]\<rparr>"
    using b(1) by (auto simp: kill_stuck_def Let_def split: option.splits if_splits)
  have f: "cn_pod (report_pod L pod b) = cn_pod b" "cn_vars (report_pod L pod b) = cn_vars b"
    "ci_Hash (cn_instance (report_pod L pod b)) = ci_Hash (cn_instance b)"
    by (simp_all add: report_pod_def client_false_def upd_client_conds_def upd_client_def)
  have "cn_pod b = Some pod" "cn_vars b = cn_vars run" "map_of (ci_Hash (cn_instance b)) ''podSpec'' = Some h"
    using k by (auto simp: upd_client_def gomap_simps)
  then show ?thesis using a out b(2) f by (intro that) auto
qed

subsection \<open>Ready\<close>

definition client_IsReady :: "condlib \<Rightarrow> os_client \<Rightarrow> bool" where
  "client_IsReady L i = lc_IsTrue L (client_conds i) ClientReady"

lemma set_ready_client:
  "condlib_laws L \<Longrightarrow> lc_Get L (client_conds (cn_instance (client_set_ready L r))) ClientReady = lc_Get L (client_conds (cn_instance r)) ClientReady"
  by (simp add: client_set_ready_def Let_def ClientReady_def ReadyCondition_def)

lemma client_start_not_done:
  assumes "condlib_laws L"
  shows "not_done L (client_start L i)"
proof -
  have "distinct (map c_type (client_initial L))" using assms by (simp add: client_initial_def ClientReady_def)
  from condlib_Init [OF assms this, of "lc_UnknownCondition L ClientReady InitReason ''OpenStack Client not started, waiting on keystone API''"]
  show ?thesis using assms by (simp add: client_initial_def not_done_def client_start_def client_conds_def)
qed

text \<open>The variable with the hash of the inputs, unless the user sets one of this name.\<close>

lemma spec_config_hash:
  assumes "ClientPodSpec env i configHash = Some spec"
  shows "\<exists>vars. cc_Env (ps_Container spec) = cx_MergeEnvs env vars
    \<and> (''CONFIG_HASH'' \<in> fst ` set (cl_Env (ci_Spec i)) \<or> map_of vars ''CONFIG_HASH'' = Some (plain_value configHash))"
proof -
  have user: "map_of (fold (\<lambda>(k, e). gomap_put k e) es m) k = map_of m k" if "k \<notin> fst ` set es" for es k and m :: "(string, env_setter) gomap"
    using that by (induction es arbitrary: m) (auto simp: map_of_put)
  have "map_of (client_vars env i configHash) ''CONFIG_HASH'' = Some (plain_value configHash)" if "''CONFIG_HASH'' \<notin> fst ` set (cl_Env (ci_Spec i))"
    using user [OF that] by (simp add: client_vars_def Let_def map_of_put)
  moreover have "cc_Env (ps_Container spec) = cx_MergeEnvs env (client_vars env i configHash)"
    using assms by (auto simp: ClientPodSpec_def Let_def)
  ultimately show ?thesis by blast
qed

text \<open>C39: a client reported as ready has a current pod.  If the recorded hash was that of the pod, then after a reconciliation that reports
  the client as ready there is no error, Keystone is ready, the pod is ready, and its specification has the hash of the one for the
  current inputs: the ConfigMap, the secret, the bundle of CAs if there is one, and whether Prometheus uses TLS, whose hashes under their
  names make up the variable \<open>CONFIG_HASH\<close> of the container, unless the user overrides it.  The names are not kept apart: a ConfigMap with the
  name of the secret does not count.  The hash is the one that is recorded, so that the next reconciliation finds the hash of its pod
  recorded again.\<close>

theorem client_ready_means:
  assumes L: "condlib_laws L" and c: "client_laws L env" and get: "cx_get env = Inr i"
    and t: "\<And>p. cx_getPod env = Inr p \<Longrightarrow> tracked env i p"
    and run: "client_Reconcile L env = Some (Some r, e)" and ready: "client_IsReady L (cn_instance r)"
  shows "e = None \<and> cx_keystone env = Inr True
    \<and> (\<exists>pod inputs configHash spec vars h. cn_pod r = Some pod \<and> podReady pod \<and> tracked env (cn_instance r) pod
      \<and> input_hashes env i (map_of inputs) \<and> cx_HashOfInputHashes env inputs = Inr configHash
      \<and> ClientPodSpec env i configHash = Some spec \<and> cc_Env (ps_Container spec) = cx_MergeEnvs env vars
      \<and> (''CONFIG_HASH'' \<in> fst ` set (cl_Env (ci_Spec i)) \<or> map_of vars ''CONFIG_HASH'' = Some (plain_value configHash))
      \<and> cx_ObjectHash env spec = Inr h \<and> cx_ObjectHash env (pd_Spec pod) = Inr h)"
proof -
  let ?s = "client_start L i"
  obtain r0 where r0: "r = client_set_ready L r0"
    and out: "run_stages (client_stages L env) ?s = Return e r0 \<or> (run_stages (client_stages L env) ?s = Next r0 \<and> e = None)"
    using run get by (auto simp: client_Reconcile_def Let_def split: option.splits step.splits)
  have done0: "\<not> not_done L r0"
    using ready set_ready_client [OF L, of r0] L by (auto simp: client_IsReady_def not_done_def r0 condlib_IsTrue)
  note inputs = keeps_inputs [OF L c _ client_start_not_done [OF L, of i]]
  obtain b where b: "run_stages (input_stages L env) ?s = Next b"
    using out inputs [of r0] done0 unfolding client_split by (cases "run_stages (input_stages L env) ?s") auto
  have nb: "not_done L b" and view: "client_view (cn_instance b) = client_view (cn_instance ?s)" using inputs [of b] b by simp_all
  have p: "pod_stage L env b = Next r0" "e = None"
    using out b pod_Return [of L env b e r0] nb done0 unfolding client_split by auto
  obtain configHash spec h as pod q where a: "cx_HashOfInputHashes env (cn_vars b) = Inr configHash"
    "ClientPodSpec env (cn_instance b) configHash = Some spec" "cx_ObjectHash env spec = Inr h"
    "create_or_patch env (cn_instance b) spec h = (as, Inr pod)" "cn_pod r0 = Some pod" "cn_vars r0 = cn_vars b"
    "map_of (ci_Hash (cn_instance r0)) ''podSpec'' = Some h" "r0 = report_pod L pod q"
    using pod_Next [OF p(1)] by metis
  have same: "ci_Hash (cn_instance b) = ci_Hash i" "ci_Spec (cn_instance b) = ci_Spec i" "ci_Name (cn_instance b) = ci_Name i"
    "ci_Namespace (cn_instance b) = ci_Namespace i"
    using arg_cong [OF view, of ci_Hash] arg_cong [OF view, of ci_Spec] arg_cong [OF view, of ci_Name] arg_cong [OF view, of ci_Namespace]
    by (simp_all add: client_view_def client_start_def)
  have spec: "ClientPodSpec env i configHash = Some spec"
    using a(2) same by (simp add: ClientPodSpec_def client_vars_def RbacResourceName_def Let_def)
  have "tracked env (cn_instance b) x" if "cx_getPod env = Inr x" for x using t [OF that] same by (simp add: tracked_def)
  from create_or_patch_hash [OF c a(4,3) this] have hash: "cx_ObjectHash env (pd_Spec pod) = Inr h" .
  have "podReady pod" using done0 not_done_false [OF L] unfolding a(8) by (auto simp: report_pod_def split: if_splits)
  moreover have "cn_pod r = cn_pod r0" "ci_Hash (cn_instance r) = ci_Hash (cn_instance r0)"
    by (simp_all add: r0 client_set_ready_def upd_client_conds_def upd_client_def)
  moreover have "tracked env (cn_instance r) pod" using a(7) hash \<open>ci_Hash (cn_instance r) = _\<close> by (simp add: tracked_def)
  moreover have "input_hashes env i (map_of (cn_vars b)) \<and> cx_keystone env = Inr True"
    using inputs_Next [OF L c b client_start_not_done [OF L]] by (simp add: client_start_def input_hashes_def)
  ultimately show ?thesis using a(1,3,5) hash spec p(2) spec_config_hash [OF spec] by metis
qed

subsection \<open>Inputs that are not noticed\<close>

text \<open>The hashes of the inputs are stored under their names, so that a ConfigMap with the name of the secret is forgotten: with another
  ConfigMap of this name the variables, and so the pod, are the same.\<close>

lemma same_name_hides_configmap:
  assumes "cl_OpenStackConfigMap (ci_Spec (cn_instance run)) = Some n" and "cl_OpenStackConfigSecret (ci_Spec (cn_instance run)) = Some n"
    and "cx_configMapHash env n = Inr h" and "cx_secretHash env n = Inr s"
    and "cn_vars run = []"
  shows "step_bind (configmap_stage L env run) (secret_stage L env) = Next (run\<lparr>cn_vars := [(n, s)]\<rparr>)"
  using assms by (simp add: configmap_stage_def secret_stage_def source_stage_def put_var_def)

text \<open>An error of creating or patching the pod is returned, but the condition of the client does not show it.\<close>

lemma pod_error_not_reported:
  assumes "cx_HashOfInputHashes env (cn_vars run) = Inr c" and "ClientPodSpec env (cn_instance run) c = Some spec" and "cx_ObjectHash env spec = Inr h"
    and "create_or_patch env (cn_instance run) spec h = (as, Inl e)"
    and "pod_stage L env run = Return e' r"
  shows "client_conds (cn_instance r) = client_conds (cn_instance run)"
  using assms by (auto simp: pod_stage_def pod_failed_def Let_def split: if_splits option.splits)

text \<open>A missing name of the ConfigMap is dereferenced.\<close>

lemma missing_configmap_panics: "cl_OpenStackConfigMap (ci_Spec (cn_instance run)) = None \<Longrightarrow> configmap_stage L env run = Panic"
  by (simp add: configmap_stage_def source_stage_def)

subsection \<open>Witness\<close>

definition sample_client :: os_client where
  "sample_client = \<lparr>ci_Name = ''openstackclient'', ci_Namespace = ''os'', ci_Generation = 1,
     ci_Spec = \<lparr>cl_OpenStackConfigMap = Some ''openstack-config'', cl_OpenStackConfigSecret = Some ''openstack-config-secret'', cl_NodeSelector = None,
       cl_CaBundleSecretName = ''combined-ca-bundle'', cl_Env = [], cl_ContainerImage = ''client:1''\<rparr>,
     ci_Conditions = None, ci_ObservedGeneration = 0, ci_Hash = []\<rparr>"

definition sample_client_env :: client_env where
  "sample_client_env = \<lparr>cx_get = Inr sample_client, cx_newHelper = None,
     cx_rbac = (\<lambda>i. (i\<lparr>ci_Conditions := Some (fold (\<lambda>t cs. lc_Set list_condlib cs (lc_TrueCondition list_condlib t []))
        [''ServiceAccountReady'', ''RoleReady'', ''RoleBindingReady''] (client_conds i))\<rparr>, False, None)),
     cx_keystone = Inr True, cx_configMapHash = (\<lambda>n. Inr (''m'' @ n)), cx_secretHash = (\<lambda>n. Inr (''s'' @ n)), cx_caHash = (\<lambda>n. Inr (''c'' @ n)),
     cx_metricStorage = Inl (NotFound []), cx_HashOfInputHashes = (\<lambda>m. Inr (concat (map snd m))),
     cx_ObjectHash = (\<lambda>s. Inr (''h'' @ concat (map (en_Value \<circ> snd) (cc_Env (ps_Container s))))), cx_MergeEnvs = id,
     cx_caVolume = \<lparr>vol_Name = ''ca'', vol_Source = SecretVolume ''combined-ca-bundle'' None []\<rparr>, cx_caMounts = [], cx_metricStorageName = ''metric-storage'',
     cx_prometheusPort = ''9090'', cx_caBundlePath = ''/etc/ssl'', cx_AppSelector = ''service'',
     cx_newPod = \<lparr>pd_Created = False, pd_Spec = \<lparr>ps_GracePeriod = 0, ps_ServiceAccountName = [], ps_Volumes = [],
        ps_Container = \<lparr>cc_Name = [], cc_Image = [], cc_Command = [], cc_Args = [], cc_RunAsUser = 0, cc_RunAsGroup = 0, cc_RunAsNonRoot = False,
          cc_AllowPrivilegeEscalation = False, cc_Drop = [], cc_Env = [], cc_Mounts = []\<rparr>, ps_Tolerations = [], ps_NodeSelector = None\<rparr>,
        pd_Labels = [], pd_Controller = None, pd_Deleted = None, pd_Conditions = []\<rparr>,
     cx_getPod = Inl (NotFound []), cx_setController = (\<lambda>_. None),
     cx_create = (\<lambda>p. Inr (p\<lparr>pd_Created := True, pd_Conditions := [(''Ready'', ''True'')]\<rparr>)), cx_patchPod = Inr,
     cx_forbidden = (\<lambda>_. False), cx_invalid = (\<lambda>_. False), cx_delete = None, cx_kill = None, cx_now = 0, cx_patch = None\<rparr>"

lemma sample_client_laws: "client_laws list_condlib sample_client_env"
  by (simp add: client_laws_def sample_client_env_def client_conds_def ClientReady_def)

lemma sample_client_ready:
  "case client_Reconcile list_condlib sample_client_env of Some (Some r, e) \<Rightarrow> client_IsReady list_condlib (cn_instance r) | _ \<Rightarrow> False"
  by code_simp

theorem client_ready_means_witness:
  "\<exists>r pod inputs. client_Reconcile list_condlib sample_client_env = Some (Some r, None) \<and> cn_pod r = Some pod \<and> podReady pod
     \<and> tracked sample_client_env (cn_instance r) pod \<and> input_hashes sample_client_env sample_client (map_of inputs)"
proof -
  obtain r e where r: "client_Reconcile list_condlib sample_client_env = Some (Some r, e)" "client_IsReady list_condlib (cn_instance r)"
    using sample_client_ready by (auto split: prod.splits option.splits)
  have get: "cx_get sample_client_env = Inr sample_client" and no: "cx_getPod sample_client_env = Inl (NotFound [])" by (simp_all add: sample_client_env_def)
  show ?thesis using client_ready_means [OF list_condlib_laws sample_client_laws get _ r] no r(1) by auto
qed

end
