(* ===== verification/Spec2Isabelle.thy ===== *)
theory Spec2Isabelle
  imports Version_Webhook Deployment_Laws NodeSet_Inventory_Laws NodeSet_Laws Dataplane_Images Webhook_Laws Ctlplane_Ready CA_Laws Operator_Laws Backup_Laws Client_Laws
begin

text \<open>
  A verification development for the OpenStack operator, a set of Kubernetes controllers written in Go.

  \<^bold>\<open>The program.\<close>  Each controller has a function \<open>Reconcile\<close> that reads a custom resource and what belongs to it
  from the API server, changes other objects, and writes the status of the resource.  Webhooks set defaults and
  validate resources before the API server stores them.  The modelled parts are

  \<^item> the version of an OpenStack cloud (\<open>OpenStackVersion\<close>): the images of a release, the minor update of the
    control plane and the data plane in stages, and its admission;
  \<^item> the data plane: node sets (\<open>OpenStackDataPlaneNodeSet\<close>: addresses, DNS, inventory, bare metal hosts), services
    (\<open>OpenStackDataPlaneService\<close>), deployments (\<open>OpenStackDataPlaneDeployment\<close>: certificates and one Ansible job per
    service and node set), and the admission of the three;
  \<^item> the control plane (\<open>OpenStackControlPlane\<close>): its admission with defaults, migration of deprecated fields and
    validation, and its controller, which calls one function per service; the endpoints, routes and certificates of
    the services and the certificate authorities;
  \<^item> the operator itself (\<open>OpenStack\<close>): it installs the service operators from rendered manifests;
  \<^item> the labels for backup and restore (\<open>OpenStackBackupConfig\<close>) and the client pod (\<open>OpenStackClient\<close>).

  The parts meet in the objects: the version controller reads the versions and images node sets report; a node
  set is ready because of a deployment; a deployment takes inventory and keys of node sets and the images of
  the version; the controller of the control plane advances a minor update only through the stages the version
  has completed, and the version completes them by what the control plane reports.

  \<^bold>\<open>The theories.\<close>  Paths are relative to \<open>src/\<close>.

  \<^item> \<open>OS_Prelude\<close>: Go pointers (\<open>option\<close>), maps (association lists in the order of iteration, \<open>gomap\<close>), errors of
    the API server; generic lemmas.  \<open>Conditions\<close>: status conditions.  \<open>Resources\<close>: control plane and version objects.
    \<open>Dataplane_Types\<close>: \<open>api/dataplane/v1beta1/*_types.go\<close> and \<open>common.go\<close>.
  \<^item> \<open>Images\<close>, \<open>Image_Laws\<close>: images of a version, \<open>api/core/v1beta1/openstackversion_types.go\<close> and
    \<open>internal/openstack/version.go\<close>; defaults from the environment, tracking of custom images.
    \<open>Image_Match\<close>: the function \<open>*ImageMatch\<close> of every service in \<open>internal/openstack\<close>, and the images its reconciler
    records (\<open>status_images_*\<close>); the locale \<open>image_match\<close> is the contract of the checks and is interpreted for each of the
    25 services.  The checks pass exactly when every recorded image is that of the version, but for the three images that no check
    compares.
  \<^item> \<open>Version_Dataplane\<close>: \<open>internal/openstack/dataplane.go\<close>, with the refinement of the cached search for a running
    deployment to its specification.  \<open>Version_Controller\<close>: \<open>openstackversion_controller.go\<close> and the type of steps
    (\<open>step\<close>: continue, return early, panic) all controllers use.  \<open>Version_Laws\<close>: the locale \<open>update_stage\<close>, the contract
    of a stage of the minor update, interpreted for every stage.  \<open>Version_Reconcile\<close>: the stages complete in order,
    the deployed version is only set after all checks have passed, and is set when they pass.
    \<open>Version_Webhook\<close>: \<open>openstackversion_webhook.go\<close>.
  \<^item> \<open>Dataplane_Services\<close>: \<open>internal/dataplane/service.go\<close>; which services are chosen for which node set.
    \<open>Dataplane_Sources\<close>: \<open>util/datasource.go\<close>, \<open>hashes.go\<close>, \<open>util/version.go\<close>.
    \<open>Dataplane_Certs\<close>, \<open>Cert_Laws\<close>: \<open>cert.go\<close>; the packing of certificates into secrets is complete, bounded and
    never panics.  \<open>Ansible_Jobs\<close>, \<open>Job_Laws\<close>: \<open>util/ansible_execution.go\<close> and \<open>util/ansibleee.go\<close>; names are DNS
    labels, finished jobs are not repeated.
  \<^item> \<open>Dataplane_Deploy\<close>, \<open>Deploy_Laws\<close>: \<open>internal/dataplane/deployment.go\<close>; services run one after the other, and
    a finished deployment has run all of them.  \<open>Deployment_Controller\<close>, \<open>Deployment_Laws\<close>: the controller of
    deployments; what \<open>Deployed\<close> means, and the reachable states of a deployment (\<open>dep_reachable\<close>, rule induction).
  \<^item> \<open>Net_Names\<close>: host names and addresses.  \<open>Go_Json\<close>: the decoder of \<open>encoding/json\<close>.
    \<open>Image_Registry\<close>: \<open>util/image_registry.go\<close>.  \<open>NodeSet_IPAM\<close>: \<open>ipam.go\<close>.  \<open>NodeSet_Inventory\<close>,
    \<open>NodeSet_Inventory_Laws\<close>: \<open>inventory.go\<close>, \<open>baremetal.go\<close>.  \<open>NodeSet_Controller\<close>, \<open>NodeSet_Laws\<close>: the controller of node
    sets; when a node set is ready (the sources of its variables and its certificates are as they were deployed), where its version comes
    from, which changes are noticed.
  \<^item> \<open>Dataplane_Images\<close>: the default images of the data plane.  \<open>Dataplane_Webhooks\<close>, \<open>Webhook_Laws\<close>: admission of
    node sets, deployments and services; the inductive predicate \<open>cluster\<close> has the node sets that any sequence
    of admitted operations can lead to.
  \<^item> \<open>Ctlplane_Types\<close>: \<open>api/core/v1beta1/openstackcontrolplane_types.go\<close>; a template of a service is the union of the
    fields the webhook reads.  \<open>Ctlplane_Migration\<close>, \<open>Ctlplane_Webhook\<close>, \<open>Ctlplane_Laws\<close>: \<open>openstackcontrolplane_webhook.go\<close> of
    the API and of \<open>internal/webhook\<close>; the migration keeps every cluster in effect, an admitted control plane has what its
    services depend on, and is not refused otherwise (\<open>wired\<close>), when validation panics, which names cached objects have, and what a namespace can hold
    (\<open>namespace_objects\<close>).
  \<^item> \<open>Ctlplane_Controller\<close>: \<open>openstackcontrolplane_controller.go\<close>.  \<open>Ctlplane_Run\<close>: the order of the calls in a minor update,
    the deployed version, the request for a migration.  \<open>Ctlplane_Ready\<close>: what a ready control plane is.
  \<^item> \<open>Endpoint_Config\<close>, \<open>Endpoint_Laws\<close>: \<open>internal/openstack/common.go\<close>; which route, service override and certificate an
    endpoint gets, which TLS settings meet, and which objects are deleted.
    \<open>CA_Bundles\<close>, \<open>CA_Laws\<close>: \<open>internal/openstack/ca.go\<close>; the bundle of certificate authorities by the blocks of its sources
    (\<open>certs_in\<close>), that writing it settles, and which issuers carry the label of a CA.
  \<^item> \<open>Operator_Bindata\<close> (\<open>internal/operator/bindata\<close>), \<open>Operator_Overrides\<close> (\<open>api/operator/v1beta1\<close> and
    \<open>internal/operator\<close>), \<open>Operator_Controller\<close> (\<open>controller/operator/openstack_controller.go\<close>): the operator that installs
    the others.  \<open>Operator_Merge_Laws\<close>, \<open>Operator_Laws\<close>: when an object is written (\<open>live_matches\<close>) and when this settles, what a ready
    installation is, what a change of the release deletes.
  \<^item> \<open>Backup_Controller\<close>, \<open>Backup_Laws\<close>: \<open>internal/controller/backup\<close>, \<open>internal/openstack/backup.go\<close>; which objects are
    labelled, that labelling settles.  \<open>Client_Controller\<close>, \<open>Client_Laws\<close>: \<open>internal/controller/client\<close> and
    \<open>internal/openstackclient\<close>; when the client is ready, which changes of its inputs reach the pod.

  \<^bold>\<open>Effects, errors and parameters.\<close>  A handler is a function of the objects it reads, collected in a record of
  the environment (\<open>version_env\<close>, \<open>deploy_env\<close>, \<open>depctl_env\<close>, \<open>ipam_env\<close>, \<open>nsctl_env\<close>, \<open>webhook_env\<close>, \<open>cpctl_env\<close>, \<open>ep_env\<close>, \<open>orphan_env\<close>, \<open>ca_env\<close>, \<open>opctl_env\<close>,
  \<open>apply_env\<close>, \<open>render_env\<close>, \<open>bk_env\<close>, \<open>client_env\<close>, ...): one field per
  call to the API server or to a library, with its possible errors in a sum type.  It returns the object that is
  written with the result.  Panics (nil dereferences, indices out of range) are values of their own.
  What is assumed of libraries are named hypotheses: \<open>condlib_laws\<close> (the condition methods of \<open>lib-common\<close>, with the
  concrete instance \<open>list_condlib\<close>), \<open>shared_conditions\<close>, \<open>depctl_hyps\<close>, \<open>nsctl_hyps\<close> (the client and the library functions
  used by the three controllers), \<open>validators_total\<close> (the validation of the service operators, a field of \<open>svc_lib\<close>,
  panics on a missing template only), \<open>ready_laws\<close> (the sum of the conditions), \<open>reconcilers_keep\<close> and \<open>own_conditions\<close> (the
  functions for the services write nothing but their own conditions and images), \<open>pem_laws\<close> and \<open>issuer_laws\<close> (the parser of
  PEM blocks, the issuers of cert-manager), \<open>backup_laws\<close> and \<open>client_laws\<close> (the client library of the two controllers), \<open>client_lists\<close>
  (the API server returns an object under the name asked for and lists it once); the witnesses instantiate them.
  The order in which Go iterates over a map is the order of the list, so a statement for all lists is one for all
  orders.

  \<^bold>\<open>Fuel.\<close>  Loops are structural recursions.  Only the JSON decoder has fuel, \<open>Suc (2 * length s)\<close> for a text \<open>s\<close>:
  every two levels of the recursion consume a character, and \<open>json_decode_fuel\<close> shows that more does not change the result.

  \<^bold>\<open>Not modelled.\<close>  Logging, metrics, watches of the manager and its set-up (\<open>cmd/main.go\<close>), RBAC and generated
  copies: they have no state of the program.  The service reconcilers of \<open>internal/openstack\<close> copy templates to
  resources of other operators, whose types are not in the repository; their image checks and the images they record are modelled,
  and they are arguments (\<open>ce_run\<close>) of the controller of the control plane.  An object in the cluster has the fields the
  code reads or writes; the rest of a manifest, with what the API server adds to it, is the one field \<open>mf_Rest\<close>.  The loops of
  watches and requeues are not run: a theorem is about one reconciliation, or about a sequence of them where it says so.
\<close>

end
